(* ===== verification/Prelude.thy ===== *)
theory Prelude
  imports Main "HOL-Library.Word" "HOL-Library.Sublist"
begin

text \<open>
  Shared vocabulary of the development: the machine integers and time values of the Go
  program, the string functions of package strings that the sources call, first-match list
  operations that stand for the program's search loops, and the lemma collections the
  component theories feed and use.
\<close>

named_theorems frame_simps \<open>which fields an operation leaves alone\<close>
named_theorems op_defs \<open>definitions of operations, for case analysis of their branches\<close>

section \<open>Integers and time\<close>

type_synonym u8 = "8 word"
type_synonym u64 = "64 word"

text \<open>
  Go's int is 64 bits wide on the supported targets. Values of type int are modelled as
  \<^typ>\<open>int\<close>, and every arithmetic operation that can leave the range is wrapped by
  \<open>i64\<close>. A time.Time is the number of nanoseconds since the zero time, so IsZero is
  equality with 0 and UTC is the identity; a time.Duration is a signed 64 bit count of
  nanoseconds.
\<close>

type_synonym gint = int
type_synonym Time = int
type_synonym Duration = int

definition i64 :: "int \<Rightarrow> int" where
  "i64 x = (x + 2 ^ 63) mod 2 ^ 64 - 2 ^ 63"

lemma i64_id: "- (2 ^ 63) \<le> x \<Longrightarrow> x < 2 ^ 63 \<Longrightarrow> i64 x = x"
  by (simp add: i64_def)

lemma i64_range: "- (2 ^ 63) \<le> i64 x \<and> i64 x < 2 ^ 63"
  by (simp add: i64_def)

text \<open>Integer division truncates towards zero.\<close>

definition go_div :: "int \<Rightarrow> int \<Rightarrow> int" where
  "go_div a b = sgn a * sgn b * (\<bar>a\<bar> div \<bar>b\<bar>)"

lemma go_div_pos: "0 \<le> a \<Longrightarrow> 0 < b \<Longrightarrow> go_div a b = a div b"
  by (cases "a = 0") (simp_all add: go_div_def)

text \<open>\<open>time.Duration(n) * time.Millisecond\<close>, with its wrap-around.\<close>

definition millis :: "gint \<Rightarrow> Duration" where
  "millis n = i64 (n * 1000000)"

lemma millis_nonneg:
  assumes "0 \<le> n" and "n < 9223372036854"
  shows "millis n = n * 1000000"
  unfolding millis_def using assms by (intro i64_id) simp_all

definition second_ns :: Duration where
  "second_ns = 1000000000"

definition IsZero :: "Time \<Rightarrow> bool" where
  "IsZero t \<longleftrightarrow> t = 0"

lemma u64_less_plus_1: "(x::u64) \<noteq> - 1 \<Longrightarrow> x < x + 1"
  by (metis inc_less_eq_triv_imp not_le)

section \<open>Strings\<close>

text \<open>
  Go strings are byte sequences, and so are HOL strings. \<open>white_space\<close> lists the UTF-8
  encodings of the code points with Unicode's White_Space property; strings.TrimSpace strips
  them from both ends. Matching a whole encoding at an end of the string is what
  DecodeRune and DecodeLastRune do, also on strings that are not valid UTF-8.
\<close>

definition utf8_lit :: "nat list \<Rightarrow> string" where
  "utf8_lit ns = map char_of ns"

definition white_space :: "string list" where
  "white_space = map utf8_lit
     ([[9], [10], [11], [12], [13], [32], [194, 133], [194, 160], [225, 154, 128]]
      @ map (\<lambda>k. [226, 128, k]) [128, 129, 130, 131, 132, 133, 134, 135, 136, 137, 138]
      @ [[226, 128, 168], [226, 128, 169], [226, 128, 175], [226, 129, 159], [227, 128, 128]])"

function strip_left :: "'a list list \<Rightarrow> 'a list \<Rightarrow> 'a list" where
  "strip_left ws s =
     (case find (\<lambda>w. w \<noteq> [] \<and> prefix w s) ws of
        None \<Rightarrow> s
      | Some w \<Rightarrow> strip_left ws (drop (length w) s))"
  by pat_completeness auto
termination
proof (relation "measure (\<lambda>(ws, s). length s)", goal_cases)
  case 1
  show ?case by simp
next
  case (2 ws s w)
  then have "w \<noteq> []" and "prefix w s"
    by (auto simp: find_Some_iff)
  then have "0 < length w" and "length w \<le> length s"
    by (auto dest: prefix_length_le)
  then have "length s - length w < length s" by linarith
  then show ?case by simp
qed

declare strip_left.simps [simp del]

definition TrimLeftSpace :: "string \<Rightarrow> string" where
  "TrimLeftSpace s = strip_left white_space s"

definition TrimRightSpace :: "string \<Rightarrow> string" where
  "TrimRightSpace s = rev (strip_left (map rev white_space) (rev s))"

definition TrimSpace :: "string \<Rightarrow> string" where
  "TrimSpace s = TrimRightSpace (TrimLeftSpace s)"

text \<open>\<open>strings.TrimRight(s, "/")\<close>\<close>

definition TrimRightSlash :: "string \<Rightarrow> string" where
  "TrimRightSlash s = rev (dropWhile (\<lambda>c. c = CHR ''/'') (rev s))"

definition no_prefix_in :: "'a list list \<Rightarrow> 'a list \<Rightarrow> bool" where
  "no_prefix_in ws s \<longleftrightarrow> (\<forall>w \<in> set ws. w \<noteq> [] \<longrightarrow> \<not> prefix w s)"

lemma strip_left_clean: "no_prefix_in ws (strip_left ws s)"
proof (induction ws s rule: strip_left.induct)
  case (1 ws s)
  show ?case
  proof (cases "find (\<lambda>w. w \<noteq> [] \<and> prefix w s) ws")
    case None
    then have "strip_left ws s = s" by (simp add: strip_left.simps [of ws s])
    moreover from None have "no_prefix_in ws s"
      by (auto simp: no_prefix_in_def find_None_iff)
    ultimately show ?thesis by simp
  next
    case (Some w)
    with 1 show ?thesis by (simp add: strip_left.simps [of ws s])
  qed
qed

lemma strip_left_id: "no_prefix_in ws s \<Longrightarrow> strip_left ws s = s"
  by (auto simp: strip_left.simps [of ws s] no_prefix_in_def find_Some_iff
      split: option.splits dest: nth_mem)

lemma strip_left_suffix: "suffix (strip_left ws s) s"
proof (induction ws s rule: strip_left.induct)
  case (1 ws s)
  then show ?case
    by (auto simp: strip_left.simps [of ws s] split: option.splits
        intro: suffix_order.trans suffix_drop)
qed

lemma TrimRightSpace_prefix: "prefix (TrimRightSpace s) s"
proof -
  have "suffix (strip_left (map rev white_space) (rev s)) (rev s)"
    by (rule strip_left_suffix)
  then show ?thesis by (simp add: TrimRightSpace_def suffix_to_prefix)
qed

lemma no_prefix_in_prefix: "no_prefix_in ws s \<Longrightarrow> prefix t s \<Longrightarrow> no_prefix_in ws t"
  unfolding no_prefix_in_def by (meson prefix_order.trans)

text \<open>Trimming twice trims no more than trimming once.\<close>

lemma TrimSpace_idem [simp]: "TrimSpace (TrimSpace s) = TrimSpace s"
proof -
  have "no_prefix_in white_space (TrimLeftSpace s)"
    unfolding TrimLeftSpace_def by (rule strip_left_clean)
  then have "no_prefix_in white_space (TrimSpace s)"
    unfolding TrimSpace_def by (rule no_prefix_in_prefix [OF _ TrimRightSpace_prefix])
  then have left: "TrimLeftSpace (TrimSpace s) = TrimSpace s"
    unfolding TrimLeftSpace_def by (rule strip_left_id)
  have "TrimRightSpace (TrimSpace s) = TrimSpace s"
    by (simp add: TrimSpace_def TrimRightSpace_def strip_left_id strip_left_clean)
  with left show ?thesis by (simp add: TrimSpace_def)
qed

lemma TrimSpace_Nil [simp]: "TrimSpace [] = []"
  using strip_left_suffix [of white_space "[]"] strip_left_suffix [of "map rev white_space" "[]"]
  by (simp add: TrimSpace_def TrimLeftSpace_def TrimRightSpace_def)

text \<open>A text with printable ASCII at both ends has nothing to trim.\<close>

definition graphic :: "char \<Rightarrow> bool" where
  "graphic c \<longleftrightarrow> (33::nat) \<le> of_char c \<and> of_char c \<le> (126::nat)"

lemma white_space_ends:
  "list_all (\<lambda>w. w \<noteq> [] \<and> \<not> graphic (hd w) \<and> \<not> graphic (last w)) white_space"
  by (simp add: white_space_def utf8_lit_def graphic_def)

lemma TrimSpace_graphic:
  assumes "s \<noteq> []" and "graphic (hd s)" and "graphic (last s)"
  shows "TrimSpace s = s"
proof -
  have "no_prefix_in white_space s"
    using white_space_ends assms by (auto simp: no_prefix_in_def list_all_iff prefix_def)
  moreover have "no_prefix_in (map rev white_space) (rev s)"
    using white_space_ends assms
    by (auto simp: no_prefix_in_def list_all_iff suffix_to_prefix [symmetric] suffix_def)
  ultimately show ?thesis
    by (simp add: TrimSpace_def TrimLeftSpace_def TrimRightSpace_def strip_left_id)
qed

lemma strip_left_keeps: "c \<in> set s \<Longrightarrow> \<forall>w \<in> set ws. c \<notin> set w \<Longrightarrow> c \<in> set (strip_left ws s)"
proof (induction ws s rule: strip_left.induct)
  case (1 ws s)
  show ?case
  proof (cases "find (\<lambda>w. w \<noteq> [] \<and> prefix w s) ws")
    case (Some w)
    then have w: "w \<in> set ws" "prefix w s" by (auto simp: find_Some_iff)
    then have "c \<in> set (drop (length w) s)" using 1(2,3) by (auto simp: prefix_def)
    with 1 Some show ?thesis by (simp add: strip_left.simps [of ws s])
  qed (use 1 in \<open>simp add: strip_left.simps [of ws s]\<close>)
qed

lemma TrimSpace_nonempty:
  assumes "c \<in> set s" and "graphic c"
  shows "TrimSpace s \<noteq> []"
proof -
  have "list_all (list_all (\<lambda>d. \<not> graphic d)) white_space"
    by (simp add: white_space_def utf8_lit_def graphic_def)
  then have no: "\<forall>w \<in> set white_space. c \<notin> set w" using assms(2) by (auto simp: list_all_iff)
  then have "c \<in> set (TrimLeftSpace s)" unfolding TrimLeftSpace_def by (rule strip_left_keeps [OF assms(1)])
  then have "c \<in> set (TrimSpace s)"
    using no strip_left_keeps [of c "rev (TrimLeftSpace s)" "map rev white_space"]
    by (simp add: TrimSpace_def TrimRightSpace_def)
  then show ?thesis by auto
qed

text \<open>The decimal text of an integer, as the verb d of package fmt prints it.\<close>

fun dec_nat :: "nat \<Rightarrow> string" where
  "dec_nat n = (if n < 10 then [char_of (48 + n)] else dec_nat (n div 10) @ [char_of (48 + n mod 10)])"

declare dec_nat.simps [simp del]

definition dec_int :: "int \<Rightarrow> string" where
  "dec_int i = (if i < 0 then CHR ''-'' # dec_nat (nat (- i)) else dec_nat (nat i))"

section \<open>Search loops over slices\<close>

text \<open>The index of the first element that satisfies a test: the loops that return an index.\<close>

fun first_index :: "('a \<Rightarrow> bool) \<Rightarrow> 'a list \<Rightarrow> nat option" where
  "first_index P [] = None"
| "first_index P (x # xs) = (if P x then Some 0 else map_option Suc (first_index P xs))"

lemma first_index_Some:
  "first_index P xs = Some i \<Longrightarrow> i < length xs \<and> P (xs ! i) \<and> (\<forall>j < i. \<not> P (xs ! j))"
proof (induction xs arbitrary: i)
  case (Cons x xs)
  show ?case
  proof (cases "P x")
    case False
    with Cons.prems obtain j where j: "first_index P xs = Some j" and i: "i = Suc j" by auto
    with Cons.IH [OF j] False show ?thesis
      by (auto simp: less_Suc_eq_0_disj)
  qed (use Cons.prems in auto)
qed simp

lemma first_index_None: "first_index P xs = None \<longleftrightarrow> (\<forall>x \<in> set xs. \<not> P x)"
  by (induction xs) auto

text \<open>
  Replace the first element that satisfies a test, or append when there is none: the shape of
  the program's upsert loops.
\<close>

fun upsert_first :: "('a \<Rightarrow> bool) \<Rightarrow> 'a \<Rightarrow> 'a list \<Rightarrow> 'a list" where
  "upsert_first P y [] = [y]"
| "upsert_first P y (x # xs) = (if P x then y # xs else x # upsert_first P y xs)"

lemma in_upsert_first [simp]: "y \<in> set (upsert_first P y xs)"
  by (induction xs) auto

lemma set_upsert_first: "set (upsert_first P y xs) \<subseteq> insert y (set xs)"
  by (induction xs) auto

lemma upsert_first_keeps: "x \<in> set xs \<Longrightarrow> \<not> P x \<Longrightarrow> x \<in> set (upsert_first P y xs)"
  by (induction xs) auto

lemma upsert_first_fresh: "\<forall>x \<in> set xs. \<not> P x \<Longrightarrow> upsert_first P y xs = xs @ [y]"
  by (induction xs) auto

text \<open>An upsert keyed by a field keeps that field distinct.\<close>

lemma map_upsert_first_key:
  "map f (upsert_first (\<lambda>x. f x = f y) y xs) = (if f y \<in> f ` set xs then map f xs else map f xs @ [f y])"
  by (induction xs) auto

lemma distinct_upsert_first:
  "distinct (map f xs) \<Longrightarrow> distinct (map f (upsert_first (\<lambda>x. f x = f y) y xs))"
  by (auto simp: map_upsert_first_key)

text \<open>How many elements satisfy a test after an upsert.\<close>

lemma length_filter_upsert_first:
  "length (filter Q (upsert_first P y xs)) \<le> length (filter Q xs) + (if Q y then 1 else 0)"
  by (induction xs) auto

lemma length_filter_upsert_first_same:
  "(\<And>x. x \<in> set xs \<Longrightarrow> P x \<Longrightarrow> Q x) \<Longrightarrow> \<exists>x \<in> set xs. P x \<Longrightarrow>
   length (filter Q (upsert_first P y xs)) \<le> length (filter Q xs)"
  by (induction xs) auto

lemma set_list_update_subset: "set (xs[i := y]) \<subseteq> insert y (set xs)"
  by (rule set_update_subset_insert)

lemma list_update_nth_eq [simp]: "xs[i := xs ! i] = xs"
  by (rule list_update_id)

lemma sorted_wrt_snoc:
  "sorted_wrt R (xs @ [x]) \<longleftrightarrow> sorted_wrt R xs \<and> (\<forall>y \<in> set xs. R y x)"
  by (auto simp: sorted_wrt_append)

section \<open>Maps\<close>

text \<open>Reading a missing key of a Go map gives the zero value.\<close>

definition map_get :: "'v \<Rightarrow> ('k \<rightharpoonup> 'v) \<Rightarrow> 'k \<Rightarrow> 'v" where
  "map_get z m k = (case m k of None \<Rightarrow> z | Some v \<Rightarrow> v)"

lemma map_get_simps [simp]:
  "map_get z (m(k \<mapsto> v)) k = v"
  "k' \<noteq> k \<Longrightarrow> map_get z (m(k \<mapsto> v)) k' = map_get z m k'"
  "m k = Some v \<Longrightarrow> map_get z m k = v"
  by (simp_all add: map_get_def)

section \<open>Transition systems\<close>

text \<open>
  The interface between a component's step relation and its safety properties: an invariant
  established by the initial states and kept by every step holds in every reachable state, and
  a relation kept by every step relates the two ends of every run.
\<close>

locale inductive_invariant =
  fixes init :: "'s \<Rightarrow> bool"
    and step :: "'s \<Rightarrow> 's \<Rightarrow> bool"
    and inv :: "'s \<Rightarrow> bool"
  assumes init_inv: "init s \<Longrightarrow> inv s"
    and step_inv: "step s t \<Longrightarrow> inv s \<Longrightarrow> inv t"
begin

lemma run_inv: "step\<^sup>*\<^sup>* s t \<Longrightarrow> inv s \<Longrightarrow> inv t"
  by (induction rule: rtranclp_induct) (auto intro: step_inv)

lemma reachable_inv: "init s \<Longrightarrow> step\<^sup>*\<^sup>* s t \<Longrightarrow> inv t"
  by (blast intro: run_inv init_inv)

end

locale monotone_system = inductive_invariant +
  fixes le :: "'s \<Rightarrow> 's \<Rightarrow> bool"
  assumes le_refl: "le s s"
    and le_trans: "le s t \<Longrightarrow> le t u \<Longrightarrow> le s u"
    and step_le: "step s t \<Longrightarrow> inv s \<Longrightarrow> le s t"
begin

lemma run_le: "step\<^sup>*\<^sup>* s t \<Longrightarrow> inv s \<Longrightarrow> le s t"
proof (induction rule: rtranclp_induct)
  case base
  show ?case by (rule le_refl)
next
  case (step t u)
  then have "inv t" by (blast intro: run_inv)
  with step show ?case by (blast intro: le_trans step_le)
qed

end

end
