(* ===== verification/Go_Runtime.thy ===== *)
theory Go_Runtime
  imports Prelude
begin

text \<open>
  What the program takes from its runtime: dynamic values of type any, the environment of a
  call (clock readings, random bytes, the encoders of encoding/json and fmt), base32, and the
  identifier generators of internal/controlplane/session.go.
\<close>

unbundle bit_operations_syntax

section \<open>Dynamic values\<close>

text \<open>
  The values an interface of type any holds. Floating point values are their IEEE bit patterns.
  A map[string]any that may be nil is an option of a map, with None for nil; \<open>GStruct\<close> lists
  the encoded fields of a struct in declaration order.
\<close>

datatype goval =
    GNil
  | GBool bool
  | GInt int
  | GInt64 int
  | GFloat64 "64 word"
  | GFloat32 "32 word"
  | GString string
  | GList "goval list"
  | GMap "string \<Rightarrow> goval option"
  | GStruct "(string \<times> goval) list"

type_synonym payload = "(string \<rightharpoonup> goval) option"

definition payload_get :: "payload \<Rightarrow> string \<Rightarrow> goval option" where
  "payload_get p k = (case p of None \<Rightarrow> None | Some m \<Rightarrow> m k)"

lemma payload_get_simps [simp]:
  "payload_get None k = None"
  "payload_get (Some m) k = m k"
  by (simp_all add: payload_get_def)

text \<open>
  The conversion int(f) of a floating point value truncates towards zero. Go leaves the result
  open where the value is out of range; the model takes the value amd64 gives there.
\<close>

definition ieee_trunc :: "nat \<Rightarrow> nat \<Rightarrow> bool \<Rightarrow> nat \<Rightarrow> nat \<Rightarrow> int" where
  "ieee_trunc bias mbits neg e m =
     (let mant = 2 ^ mbits + m;
          mag = (if e < bias then 0
                 else if e - bias \<le> mbits then mant div 2 ^ (mbits - (e - bias))
                 else mant * 2 ^ (e - bias - mbits))
      in if e - bias \<ge> 63 then - (2 ^ 63) else if neg then - int mag else int mag)"

definition int_of_float64 :: "64 word \<Rightarrow> int" where
  "int_of_float64 w =
     ieee_trunc 1023 52 (bit w 63) (unat (drop_bit 52 w AND mask 11)) (unat (w AND mask 52))"

definition int_of_float32 :: "32 word \<Rightarrow> int" where
  "int_of_float32 w =
     ieee_trunc 127 23 (bit w 31) (unat (drop_bit 23 w AND mask 8)) (unat (w AND mask 23))"

section \<open>The environment of a call\<close>

text \<open>
  One operation may read the clock and the random source several times, and nothing says that
  two readings agree. An environment therefore supplies a reading per call site: \<open>clock_at E k\<close>
  is the value the k-th call site of the operation gets from the clock, and \<open>rand_at E k\<close> is
  what it gets from crypto/rand (None is a failed read). An operation that calls another hands it
  the later readings, \<open>env_from k E\<close>. The encoders of encoding/json and of fmt are arguments
  too: \<open>json_Marshal\<close> fails with None, and \<open>fmt_Sprint\<close> prints a value.
\<close>

record env =
  clock_at :: "nat \<Rightarrow> Time"
  rand_at :: "nat \<Rightarrow> (nat \<Rightarrow> u8) option"
  json_Marshal :: "goval \<Rightarrow> string option"
  fmt_Sprint :: "goval \<Rightarrow> string"

definition env_from :: "nat \<Rightarrow> env \<Rightarrow> env" where
  "env_from k E = E\<lparr>clock_at := (\<lambda>i. clock_at E (k + i)), rand_at := (\<lambda>i. rand_at E (k + i))\<rparr>"

lemma env_from_simps [simp]:
  "clock_at (env_from k E) i = clock_at E (k + i)"
  "rand_at (env_from k E) i = rand_at E (k + i)"
  "json_Marshal (env_from k E) = json_Marshal E"
  "fmt_Sprint (env_from k E) = fmt_Sprint E"
  by (simp_all add: env_from_def)

section \<open>Base32 and identifiers\<close>

definition byte_bits :: "u8 \<Rightarrow> bool list" where
  "byte_bits b = map (bit b) [7, 6, 5, 4, 3, 2, 1, 0]"

definition base32_alphabet :: string where
  "base32_alphabet = ''ABCDEFGHIJKLMNOPQRSTUVWXYZ234567''"

definition bits_val :: "bool list \<Rightarrow> nat" where
  "bits_val bs = foldl (\<lambda>n b. 2 * n + of_bool b) 0 bs"

fun quintets :: "bool list \<Rightarrow> nat list" where
  "quintets [] = []"
| "quintets (b # bs) = bits_val (take 5 (b # bs @ replicate 4 False)) # quintets (drop 4 bs)"

text \<open>base32.StdEncoding without padding.\<close>

definition base32_encode :: "u8 list \<Rightarrow> string" where
  "base32_encode bytes = map ((!) base32_alphabet) (quintets (concat (map byte_bits bytes)))"

definition ToLower_ascii :: "string \<Rightarrow> string" where
  "ToLower_ascii s =
     map (\<lambda>c. let n = of_char c :: nat in if 65 \<le> n \<and> n \<le> 90 then char_of (n + 32) else c) s"

definition newID :: "string \<Rightarrow> (nat \<Rightarrow> u8) option \<Rightarrow> string option" where
  "newID pre r =
     map_option (\<lambda>raw. pre @ ''_'' @ ToLower_ascii (base32_encode (map raw [0..<10]))) r"

definition newJoinCode :: "(nat \<Rightarrow> u8) option \<Rightarrow> string option" where
  "newJoinCode r =
     map_option
       (\<lambda>raw. let encoded0 = base32_encode (map raw [0..<5]);
                  encoded = (if length encoded0 > 8 then take 8 encoded0 else encoded0)
              in take 4 encoded @ ''-'' @ drop 4 encoded) r"

lemma length_byte_bits [simp]: "length (byte_bits b) = 8"
  by (simp add: byte_bits_def)

lemma length_byte_bits_concat [simp]: "length (concat (map byte_bits bs)) = 8 * length bs"
  by (induction bs) auto

lemma bits_val_less: "bits_val bs < 2 ^ length bs"
proof (induction bs rule: rev_induct)
  case (snoc b bs)
  then show ?case by (cases b) (simp_all add: bits_val_def)
qed (simp add: bits_val_def)

lemma quintets_exact:
  "length bs = 5 * n \<Longrightarrow> length (quintets bs) = n \<and> (\<forall>q \<in> set (quintets bs). q < 32)"
proof (induction n arbitrary: bs)
  case (Suc n)
  then obtain b rest where bs: "bs = b # rest" and len: "length rest = 5 * n + 4"
    by (cases bs) auto
  then have "length (drop 4 rest) = 5 * n" by simp
  note IH = Suc.IH [OF this]
  have "length (take 5 (b # rest @ replicate 4 False)) = 5" using len by simp
  with bits_val_less [of "take 5 (b # rest @ replicate 4 False)"]
  have "bits_val (take 5 (b # rest @ replicate 4 False)) < 32" by simp
  with IH bs show ?case by (simp del: take_Suc_Cons)
qed simp

lemma base32_alphabet_length [simp]: "length base32_alphabet = 32"
  by (simp add: base32_alphabet_def)

lemma base32_encode_exact:
  assumes "8 * length bytes = 5 * n"
  shows "length (base32_encode bytes) = n \<and> set (base32_encode bytes) \<subseteq> set base32_alphabet"
proof -
  have "length (concat (map byte_bits bytes)) = 5 * n" using assms by simp
  from quintets_exact [OF this] show ?thesis
    by (auto simp: base32_encode_def intro: nth_mem)
qed

lemma newID_shape:
  "newID pre (Some raw) = Some i \<Longrightarrow> length i = length pre + 17 \<and> prefix (pre @ ''_'') i"
  using base32_encode_exact [of "map raw [0..<10]" 16]
  by (auto simp: newID_def ToLower_ascii_def)

lemma newID_nonempty: "newID pre r = Some i \<Longrightarrow> i \<noteq> []"
  by (auto simp: newID_def)

section \<open>Identifiers reflect their random bytes\<close>

lemma bits_val_snoc: "bits_val (bs @ [b]) = 2 * bits_val bs + of_bool b"
  by (simp add: bits_val_def)

lemma bits_val_inj: "length bs = length cs \<Longrightarrow> bits_val bs = bits_val cs \<Longrightarrow> bs = cs"
proof (induction bs arbitrary: cs rule: rev_induct)
  case (snoc b bs)
  obtain c cs' where cs: "cs = cs' @ [c]"
    using snoc.prems(1) by (cases cs rule: rev_cases) auto
  have "2 * bits_val bs + of_bool b = 2 * bits_val cs' + of_bool c"
    using snoc.prems(2) by (simp add: cs bits_val_snoc)
  then have "b = c \<and> bits_val bs = bits_val cs'" by (cases b; cases c) (simp_all, presburger+)
  with snoc cs show ?case by auto
qed simp

lemma quintets_inj:
  "length bs = 5 * n \<Longrightarrow> length cs = 5 * n \<Longrightarrow> quintets bs = quintets cs \<Longrightarrow> bs = cs"
proof (induction n arbitrary: bs cs)
  case (Suc n)
  have split: "xs = take 5 xs @ drop 5 xs" "length (take 5 xs) = 5" "length (drop 5 xs) = 5 * n"
    "quintets xs = bits_val (take 5 xs) # quintets (drop 5 xs)"
    if len: "length xs = 5 * Suc n" for xs :: "bool list"
  proof -
    obtain b rest where xs: "xs = b # rest" "length rest = 5 * n + 4" using len by (cases xs) auto
    then show "quintets xs = bits_val (take 5 xs) # quintets (drop 5 xs)" by simp
  qed (use len in auto)
  from split(4) [OF Suc.prems(1)] split(4) [OF Suc.prems(2)] Suc.prems(3)
  have heads: "bits_val (take 5 bs) = bits_val (take 5 cs)" and tails: "quintets (drop 5 bs) = quintets (drop 5 cs)"
    by auto
  have "take 5 bs = take 5 cs"
    using heads split(2) [OF Suc.prems(1)] split(2) [OF Suc.prems(2)] by (intro bits_val_inj) auto
  moreover have "drop 5 bs = drop 5 cs"
    using Suc.IH [OF split(3) [OF Suc.prems(1)] split(3) [OF Suc.prems(2)] tails] .
  ultimately show ?case by (metis append_take_drop_id)
qed simp

lemma byte_bits_inj: "byte_bits a = byte_bits b \<Longrightarrow> a = b"
  by (rule bit_word_eqI) (auto simp: byte_bits_def numeral_eq_Suc less_Suc_eq)

lemma byte_bits_concat_inj:
  "length xs = length ys \<Longrightarrow> concat (map byte_bits xs) = concat (map byte_bits ys) \<Longrightarrow> xs = ys"
  by (induction xs ys rule: list_induct2) (auto dest: byte_bits_inj)

lemma lower_alphabet: "ToLower_ascii base32_alphabet = ''abcdefghijklmnopqrstuvwxyz234567''"
  by code_simp

lemma lower_digits_inj:
  assumes "\<forall>q \<in> set qs. q < 32" and "\<forall>q \<in> set qs'. q < 32"
    and "ToLower_ascii (map ((!) base32_alphabet) qs) = ToLower_ascii (map ((!) base32_alphabet) qs')"
  shows "qs = qs'"
proof -
  have "distinct (ToLower_ascii base32_alphabet)" "length (ToLower_ascii base32_alphabet) = 32"
    unfolding lower_alphabet by simp_all
  then have inj: "inj_on ((!) (ToLower_ascii base32_alphabet)) {..<32}"
    by (auto simp: inj_on_def nth_eq_iff_index_eq)
  have "ToLower_ascii (map ((!) base32_alphabet) rs) = map ((!) (ToLower_ascii base32_alphabet)) rs"
    if "\<forall>q \<in> set rs. q < 32" for rs
    using that by (simp add: ToLower_ascii_def)
  with assms have "map ((!) (ToLower_ascii base32_alphabet)) qs = map ((!) (ToLower_ascii base32_alphabet)) qs'"
    by metis
  then show ?thesis
    by (rule map_inj_on) (use assms inj in \<open>auto intro: inj_on_subset\<close>)
qed

lemma newID_bytes:
  assumes "newID pre (Some r) = newID pre (Some r')" and "k < 10"
  shows "r k = r' k"
proof -
  let ?bits = "\<lambda>r. concat (map byte_bits (map r [0..<10]))"
  have len: "length (?bits f) = 5 * 16" for f :: "nat \<Rightarrow> u8"
    by (simp only: length_byte_bits_concat) simp
  have eq: "ToLower_ascii (map ((!) base32_alphabet) (quintets (?bits r))) =
      ToLower_ascii (map ((!) base32_alphabet) (quintets (?bits r')))"
    using assms(1) by (simp add: newID_def base32_encode_def)
  have "quintets (?bits r) = quintets (?bits r')"
    by (rule lower_digits_inj [OF _ _ eq]) (use quintets_exact [OF len] in blast)+
  then have "?bits r = ?bits r'" by (rule quintets_inj [OF len len])
  then have "map r [0..<10] = map r' [0..<10]" by (intro byte_bits_concat_inj) simp_all
  with assms(2) show ?thesis by (auto dest: map_eq_conv [THEN iffD1])
qed

end
