(* ===== verification/Session_Types.thy ===== *)
theory Session_Types
  imports Go_Runtime
begin

text \<open>
  The data of internal/controlplane/session.go: the enumerations, the records of a session and
  what belongs to it, and the structured protocol error. Go declares the enumerations as string
  types, so a caller can put any text there; each datatype has one constructor per declared
  constant and an \<open>Other\<close> constructor for a text that is none of them (the zero value is
  \<open>Other []\<close>). Slices are lists (nil and empty are the same list) and the clone methods of
  the source are the identity on values.
\<close>

section \<open>Enumerations\<close>

datatype SessionStatus =
    SessionStatusCreated | SessionStatusJoining | SessionStatusOnline | SessionStatusBusy
  | SessionStatusWaiting | SessionStatusDegraded | SessionStatusReconnecting
  | SessionStatusRecovered | SessionStatusClosed | SessionStatusFailed | SessionStatusRevoked
  | SessionStatusOther string

datatype EndpointRole =
    EndpointRoleTarget | EndpointRoleAgent | EndpointRoleOperator | EndpointRoleGateway
  | EndpointRoleWorker | EndpointRoleWorkspace | EndpointRoleAdapter
  | EndpointRoleOther string

fun EndpointRole_str :: "EndpointRole \<Rightarrow> string" where
  "EndpointRole_str EndpointRoleTarget = ''target''"
| "EndpointRole_str EndpointRoleAgent = ''agent''"
| "EndpointRole_str EndpointRoleOperator = ''operator''"
| "EndpointRole_str EndpointRoleGateway = ''gateway''"
| "EndpointRole_str EndpointRoleWorker = ''worker''"
| "EndpointRole_str EndpointRoleWorkspace = ''workspace''"
| "EndpointRole_str EndpointRoleAdapter = ''adapter''"
| "EndpointRole_str (EndpointRoleOther s) = s"

datatype EndpointState =
    EndpointStateJoining | EndpointStateOnline | EndpointStateBusy | EndpointStateDegraded
  | EndpointStateReconnecting | EndpointStateOffline | EndpointStateClosed
  | EndpointStateRevoked | EndpointStateOther string

datatype Transport =
    TransportWSS | TransportSSE | TransportLongPoll | TransportPoll | TransportMesh
  | TransportProvider | TransportLocal | TransportOther string

text \<open>The conversion Transport(s) of a text.\<close>

definition Transport_of :: "string \<Rightarrow> Transport" where
  "Transport_of s =
     (if s = ''wss'' then TransportWSS
      else if s = ''sse'' then TransportSSE
      else if s = ''long-poll'' then TransportLongPoll
      else if s = ''poll'' then TransportPoll
      else if s = ''mesh'' then TransportMesh
      else if s = ''provider'' then TransportProvider
      else if s = ''local'' then TransportLocal
      else TransportOther s)"

datatype EventType =
    EventTypeHello | EventTypeHelper | EventTypeGateway | EventTypeTransport | EventTypeStatus
  | EventTypeTask | EventTypeTaskProgress | EventTypeTaskResult | EventTypeArtifact
  | EventTypeInterrupt | EventTypeClose | EventTypeOther string

fun EventType_str :: "EventType \<Rightarrow> string" where
  "EventType_str EventTypeHello = ''hello''"
| "EventType_str EventTypeHelper = ''helper''"
| "EventType_str EventTypeGateway = ''gateway''"
| "EventType_str EventTypeTransport = ''transport''"
| "EventType_str EventTypeStatus = ''status''"
| "EventType_str EventTypeTask = ''task''"
| "EventType_str EventTypeTaskProgress = ''task.progress''"
| "EventType_str EventTypeTaskResult = ''task.result''"
| "EventType_str EventTypeArtifact = ''artifact''"
| "EventType_str EventTypeInterrupt = ''interrupt''"
| "EventType_str EventTypeClose = ''close''"
| "EventType_str (EventTypeOther s) = s"

datatype TaskStatus =
    TaskStatusQueued | TaskStatusOffered | TaskStatusRunning | TaskStatusPaused
  | TaskStatusSucceeded | TaskStatusFailed | TaskStatusCanceled | TaskStatusOther string

fun TaskStatus_str :: "TaskStatus \<Rightarrow> string" where
  "TaskStatus_str TaskStatusQueued = ''queued''"
| "TaskStatus_str TaskStatusOffered = ''offered''"
| "TaskStatus_str TaskStatusRunning = ''running''"
| "TaskStatus_str TaskStatusPaused = ''paused''"
| "TaskStatus_str TaskStatusSucceeded = ''succeeded''"
| "TaskStatus_str TaskStatusFailed = ''failed''"
| "TaskStatus_str TaskStatusCanceled = ''canceled''"
| "TaskStatus_str (TaskStatusOther s) = s"

datatype DerivedStatus =
    StatusJoining | StatusHelperDownloading | StatusHelperVerifying | StatusGatewaySwitching
  | StatusOnline | StatusBusy | StatusTransportDegraded | StatusReconnecting | StatusRecovered
  | StatusWaiting | StatusFailed | StatusClosed

datatype ErrorCode =
    ErrInvalidJoinCode | ErrJoinPolicyRejected | ErrUnauthorizedEndpoint | ErrLeaseExpired
  | ErrStaleReplica | ErrSnapshotRequired | ErrPayloadTooLarge | ErrTooManyEvents
  | ErrArtifactOffsetMismatch | ErrChecksumMismatch | ErrInvalidTask | ErrTaskNotFound
  | ErrTaskAlreadyTerminal | ErrSessionClosed | ErrAuthorityMismatch | ErrIdempotencyConflict
  | ErrCapabilityUnavailable | ErrEndpointNotFound | ErrStaleCursor | ErrTerminalSession

section \<open>Records\<close>

definition SessionSchemaVersion :: string where "SessionSchemaVersion = ''rdev.session.v1''"
definition EndpointSchemaVersion :: string where "EndpointSchemaVersion = ''rdev.endpoint.v1''"
definition LeaseSchemaVersion :: string where "LeaseSchemaVersion = ''rdev.lease.v1''"
definition EventSchemaVersion :: string where "EventSchemaVersion = ''rdev.event.v1''"
definition TaskSchemaVersion :: string where "TaskSchemaVersion = ''rdev.task.v1''"
definition ArtifactRefSchemaVersion :: string where
  "ArtifactRefSchemaVersion = ''rdev.artifact-ref.v1''"
definition ErrorSchemaVersion :: string where "ErrorSchemaVersion = ''rdev.error.v1''"

record GatewayCandidate =
  gc_AuthorityID :: string
  gc_URL :: string
  gc_Priority :: gint
  gc_Kind :: string

record Limits =
  lim_EventPayloadBytes :: gint
  lim_EventBatch :: gint
  lim_ArtifactChunkBytes :: gint
  lim_InlineTaskSummaryBytes :: gint
  lim_TerminalGraceMillis :: gint
  lim_IdempotencyRetentionSeq :: gint

record SessionSpec =
  ss_Profile :: string
  ss_Reason :: string
  ss_Capabilities :: "string list"
  ss_JoinPolicy :: string
  ss_GatewayCandidates :: "GatewayCandidate list"
  ss_SelectedGatewayURL :: string
  ss_AuthorityID :: string
  ss_Limits :: Limits
  ss_ReconnectGraceMS :: gint
  ss_RetryAfterMS :: gint
  ss_SnapshotSeq :: u64
  ss_ExpiresAt :: Time
  ss_NotifyURL :: string

record Event =
  ev_SchemaVersion :: string
  ev_ID :: string
  ev_SessionID :: string
  ev_Seq :: u64
  ev_Type :: EventType
  ev_FromEndpointID :: string
  ev_ToEndpointID :: string
  ev_TaskID :: string
  ev_IdempotencyKey :: string
  ev_Payload :: payload
  ev_CreatedAt :: Time

record Endpoint =
  ep_SchemaVersion :: string
  ep_ID :: string
  ep_SessionID :: string
  ep_Role :: EndpointRole
  ep_Name :: string
  ep_Platform :: string
  ep_IdentityFingerprint :: string
  ep_Capabilities :: "string list"
  ep_State :: EndpointState
  ep_Transport :: Transport
  ep_ReceivedSeq :: u64
  ep_ProcessedSeq :: u64
  ep_LastSeenAt :: Time
  ep_HostVersion :: string
  ep_HostCommit :: string

record LeaseSpec =
  lsp_ID :: string
  lsp_SessionID :: string
  lsp_EndpointID :: string
  lsp_Generation :: gint
  lsp_Secret :: string
  lsp_Transport :: Transport
  lsp_SelectedGatewayURL :: string
  lsp_LeaseTTLMS :: gint
  lsp_RenewAfterMS :: gint
  lsp_RetryAfterMS :: gint

record Lease =
  ls_SchemaVersion :: string
  ls_ID :: string
  ls_SessionID :: string
  ls_EndpointID :: string
  ls_Generation :: gint
  ls_Secret :: string
  ls_Transport :: Transport
  ls_SelectedGatewayURL :: string
  ls_RenewAfter :: Time
  ls_ExpiresAt :: Time
  ls_ServerTime :: Time
  ls_LeaseTTLMS :: gint
  ls_RenewAfterMS :: gint
  ls_RetryAfterMS :: gint

record TargetSelector =
  sel_Role :: EndpointRole
  sel_Platform :: string
  sel_Capabilities :: "string list"

record Task =
  tk_SchemaVersion :: string
  tk_ID :: string
  tk_SessionID :: string
  tk_TargetEndpointID :: string
  tk_TargetSelector :: TargetSelector
  tk_Adapter :: string
  tk_Intent :: string
  tk_Capabilities :: "string list"
  tk_Payload :: payload
  tk_Limits :: payload
  tk_AttemptID :: string
  tk_IdempotencyKey :: string
  tk_Status :: TaskStatus
  tk_CreatedAt :: Time
  tk_StartedAt :: "Time option"
  tk_EndedAt :: "Time option"

record ArtifactRef =
  art_SchemaVersion :: string
  art_ID :: string
  art_SessionID :: string
  art_TaskID :: string
  art_Kind :: string
  art_Name :: string
  art_SizeBytes :: gint
  art_SHA256 :: string
  art_ContentType :: string
  art_UploadOffset :: gint
  art_Complete :: bool

record Session =
  ses_SchemaVersion :: string
  ses_ID :: string
  ses_JoinCode :: string
  ses_Profile :: string
  ses_Status :: SessionStatus
  ses_Reason :: string
  ses_Capabilities :: "string list"
  ses_JoinPolicy :: string
  ses_GatewayCandidates :: "GatewayCandidate list"
  ses_SelectedGatewayURL :: string
  ses_Endpoints :: "Endpoint list"
  ses_Tasks :: "Task list"
  ses_Artifacts :: "ArtifactRef list"
  ses_LastSeq :: u64
  ses_SnapshotSeq :: u64
  ses_AuthorityID :: string
  ses_Limits :: Limits
  ses_ReconnectGraceMS :: gint
  ses_RetryAfterMS :: gint
  ses_NotifyURL :: string
  ses_NotifySecret :: string
  ses_LatestEvent :: Event
  ses_CreatedAt :: Time
  ses_UpdatedAt :: Time
  ses_ExpiresAt :: Time

record StatusSummary =
  st_Status :: DerivedStatus
  st_UserSummary :: string
  st_AgentNextAction :: string
  st_SelectedGatewayURL :: string
  st_Transport :: Transport
  st_LastSeq :: u64
  st_SnapshotSeq :: u64
  st_LatestEvent :: Event
  st_Recoverable :: bool
  st_RetryAfterMS :: gint
  st_Online :: bool

record SessionSnapshot =
  sn_Session :: Session
  sn_Endpoints :: "Endpoint list"
  sn_Tasks :: "Task list"
  sn_Artifacts :: "ArtifactRef list"
  sn_Status :: StatusSummary
  sn_GatewayCandidates :: "GatewayCandidate list"
  sn_SelectedGatewayURL :: string
  sn_Limits :: Limits
  sn_ReconnectGraceMS :: gint
  sn_RetryAfterMS :: gint

record ProtocolError =
  pe_SchemaVersion :: string
  pe_Code :: ErrorCode
  pe_Message :: string
  pe_Recoverable :: bool
  pe_RetryAfterMS :: gint
  pe_UserSummary :: string
  pe_AgentNextAction :: string
  pe_Details :: payload

text \<open>
  The errors an operation can return: a structured protocol error, a failed read of the random
  source, a value json cannot encode, or a plain fmt.Errorf text.
\<close>

datatype error = ProtoErr ProtocolError | RandErr | MarshalErr | TextErr string

type_synonym 'a result = "error + 'a"

fun error_code :: "error \<Rightarrow> ErrorCode option" where
  "error_code (ProtoErr e) = Some (pe_Code e)"
| "error_code RandErr = None"
| "error_code MarshalErr = None"
| "error_code (TextErr s) = None"

definition zero_Event :: Event where
  "zero_Event = \<lparr>ev_SchemaVersion = [], ev_ID = [], ev_SessionID = [], ev_Seq = 0,
     ev_Type = EventTypeOther [], ev_FromEndpointID = [], ev_ToEndpointID = [], ev_TaskID = [],
     ev_IdempotencyKey = [], ev_Payload = None, ev_CreatedAt = 0\<rparr>"

definition zero_Lease :: Lease where
  "zero_Lease = \<lparr>ls_SchemaVersion = [], ls_ID = [], ls_SessionID = [], ls_EndpointID = [],
     ls_Generation = 0, ls_Secret = [], ls_Transport = TransportOther [],
     ls_SelectedGatewayURL = [], ls_RenewAfter = 0, ls_ExpiresAt = 0, ls_ServerTime = 0,
     ls_LeaseTTLMS = 0, ls_RenewAfterMS = 0, ls_RetryAfterMS = 0\<rparr>"

definition InvalidJoinCodeError :: ProtocolError where
  "InvalidJoinCodeError =
     \<lparr>pe_SchemaVersion = ErrorSchemaVersion, pe_Code = ErrInvalidJoinCode,
      pe_Message = ''join code is invalid'', pe_Recoverable = False, pe_RetryAfterMS = 0,
      pe_UserSummary = ''The session join code is invalid or no longer active.'',
      pe_AgentNextAction = ''create a fresh session and use its generated join code'',
      pe_Details = None\<rparr>"

end
