(* ===== verification/Session_Ops.thy ===== *)
theory Session_Ops
  imports Session_Types
begin

text \<open>
  The functions of internal/controlplane/session.go: defaults, session construction, the
  With-functions, the task state machine, leases, and the status shown to agents.
\<close>

section \<open>Payload readers\<close>

definition stringPayload :: "env \<Rightarrow> payload \<Rightarrow> string \<Rightarrow> string" where
  "stringPayload E p k =
     (case payload_get p k of
        None \<Rightarrow> []
      | Some (GString s) \<Rightarrow> s
      | Some v \<Rightarrow> fmt_Sprint E v)"

definition boolPayload :: "payload \<Rightarrow> string \<Rightarrow> bool" where
  "boolPayload p k =
     (case payload_get p k of
        Some (GBool b) \<Rightarrow> b
      | _ \<Rightarrow> False)"

definition intPayload :: "payload \<Rightarrow> string \<Rightarrow> gint \<Rightarrow> gint" where
  "intPayload p k fallback =
     (case payload_get p k of
        None \<Rightarrow> fallback
      | Some (GInt i) \<Rightarrow> i
      | Some (GInt64 i) \<Rightarrow> i
      | Some (GFloat64 f) \<Rightarrow> int_of_float64 f
      | Some (GFloat32 f) \<Rightarrow> int_of_float32 f
      | Some _ \<Rightarrow> fallback)"

section \<open>Construction of a session\<close>

definition withDefaults :: "Limits \<Rightarrow> Limits" where
  "withDefaults l =
     l\<lparr>lim_EventPayloadBytes :=
          (if lim_EventPayloadBytes l = 0 then 64 * 1024 else lim_EventPayloadBytes l),
       lim_EventBatch := (if lim_EventBatch l = 0 then 100 else lim_EventBatch l),
       lim_ArtifactChunkBytes :=
          (if lim_ArtifactChunkBytes l = 0 then 1024 * 1024 else lim_ArtifactChunkBytes l),
       lim_InlineTaskSummaryBytes :=
          (if lim_InlineTaskSummaryBytes l = 0 then 32 * 1024
           else lim_InlineTaskSummaryBytes l)\<rparr>"

fun selectCandidate :: "string \<Rightarrow> gint \<Rightarrow> GatewayCandidate list \<Rightarrow> string" where
  "selectCandidate selected selectedPriority [] = selected"
| "selectCandidate selected selectedPriority (candidate # rest) =
     (let url = TrimRightSlash (TrimSpace (gc_URL candidate)) in
      if url = [] then selectCandidate selected selectedPriority rest
      else if selected = [] \<or> gc_Priority candidate < selectedPriority
        then selectCandidate url (gc_Priority candidate) rest
        else selectCandidate selected selectedPriority rest)"

definition selectedGatewayURL :: "string \<Rightarrow> GatewayCandidate list \<Rightarrow> string" where
  "selectedGatewayURL explicit candidates =
     (let explicit' = TrimRightSlash (TrimSpace explicit) in
      if explicit' \<noteq> [] then explicit' else selectCandidate [] 0 candidates)"

definition NewSession :: "env \<Rightarrow> SessionSpec \<Rightarrow> Time \<Rightarrow> Session result" where
  "NewSession E spec now =
     (case newID ''ses'' (rand_at E 0) of
        None \<Rightarrow> Inl RandErr
      | Some ident \<Rightarrow>
     (case newJoinCode (rand_at E 1) of
        None \<Rightarrow> Inl RandErr
      | Some joinCode \<Rightarrow>
        (let profile0 = TrimSpace (ss_Profile spec);
             profile = (if profile0 = [] then ''attended-temporary'' else profile0);
             joinPolicy0 = TrimSpace (ss_JoinPolicy spec);
             joinPolicy = (if joinPolicy0 = [] then ''single-target'' else joinPolicy0)
         in Inr \<lparr>ses_SchemaVersion = SessionSchemaVersion,
                 ses_ID = ident,
                 ses_JoinCode = joinCode,
                 ses_Profile = profile,
                 ses_Status = SessionStatusCreated,
                 ses_Reason = ss_Reason spec,
                 ses_Capabilities = ss_Capabilities spec,
                 ses_JoinPolicy = joinPolicy,
                 ses_GatewayCandidates = ss_GatewayCandidates spec,
                 ses_SelectedGatewayURL =
                   selectedGatewayURL (ss_SelectedGatewayURL spec) (ss_GatewayCandidates spec),
                 ses_Endpoints = [],
                 ses_Tasks = [],
                 ses_Artifacts = [],
                 ses_LastSeq = 0,
                 ses_SnapshotSeq = ss_SnapshotSeq spec,
                 ses_AuthorityID = ss_AuthorityID spec,
                 ses_Limits = withDefaults (ss_Limits spec),
                 ses_ReconnectGraceMS = ss_ReconnectGraceMS spec,
                 ses_RetryAfterMS = ss_RetryAfterMS spec,
                 ses_NotifyURL = TrimSpace (ss_NotifyURL spec),
                 ses_NotifySecret = [],
                 ses_LatestEvent = zero_Event,
                 ses_CreatedAt = now,
                 ses_UpdatedAt = now,
                 ses_ExpiresAt = ss_ExpiresAt spec\<rparr>)))"

section \<open>The With-functions\<close>

definition WithEndpoint :: "Session \<Rightarrow> Endpoint \<Rightarrow> Time \<Rightarrow> Session" where
  "WithEndpoint s endpoint0 now =
     (let endpoint1 = (if ep_SchemaVersion endpoint0 = []
                       then endpoint0\<lparr>ep_SchemaVersion := EndpointSchemaVersion\<rparr> else endpoint0);
          endpoint = (if ep_SessionID endpoint1 = []
                      then endpoint1\<lparr>ep_SessionID := ses_ID s\<rparr> else endpoint1)
      in s\<lparr>ses_Endpoints :=
             upsert_first (\<lambda>existing. ep_ID existing = ep_ID endpoint \<and> ep_ID endpoint \<noteq> [])
               endpoint (ses_Endpoints s),
           ses_UpdatedAt := now\<rparr>)"

definition WithEvent :: "Session \<Rightarrow> Event \<Rightarrow> Time \<Rightarrow> Session" where
  "WithEvent s event0 now =
     (let event1 = (if ev_SchemaVersion event0 = []
                    then event0\<lparr>ev_SchemaVersion := EventSchemaVersion\<rparr> else event0);
          event = (if ev_SessionID event1 = []
                   then event1\<lparr>ev_SessionID := ses_ID s\<rparr> else event1)
      in s\<lparr>ses_LatestEvent := event,
           ses_LastSeq := (if ev_Seq event > ses_LastSeq s then ev_Seq event else ses_LastSeq s),
           ses_UpdatedAt := now\<rparr>)"

section \<open>Leases\<close>

definition NewLease :: "env \<Rightarrow> LeaseSpec \<Rightarrow> Time \<Rightarrow> Lease" where
  "NewLease E spec now =
     (let ttlMS = (if lsp_LeaseTTLMS spec = 0 then 60000 else lsp_LeaseTTLMS spec);
          renewMS = (if lsp_RenewAfterMS spec = 0 then go_div ttlMS 3 else lsp_RenewAfterMS spec);
          retryMS = (if lsp_RetryAfterMS spec = 0 then 1000 else lsp_RetryAfterMS spec);
          ident = (if lsp_ID spec = []
                then (case newID ''lease'' (rand_at E 0) of None \<Rightarrow> [] | Some i \<Rightarrow> i)
                else lsp_ID spec)
      in \<lparr>ls_SchemaVersion = LeaseSchemaVersion,
          ls_ID = ident,
          ls_SessionID = lsp_SessionID spec,
          ls_EndpointID = lsp_EndpointID spec,
          ls_Generation = lsp_Generation spec,
          ls_Secret = lsp_Secret spec,
          ls_Transport = lsp_Transport spec,
          ls_SelectedGatewayURL = lsp_SelectedGatewayURL spec,
          ls_RenewAfter = now + millis renewMS,
          ls_ExpiresAt = now + millis ttlMS,
          ls_ServerTime = now,
          ls_LeaseTTLMS = ttlMS,
          ls_RenewAfterMS = renewMS,
          ls_RetryAfterMS = retryMS\<rparr>)"

definition TimeUntilRenewal :: "Lease \<Rightarrow> Duration" where
  "TimeUntilRenewal l = millis (ls_RenewAfterMS l)"

definition TimeUntilExpiry :: "Lease \<Rightarrow> Duration" where
  "TimeUntilExpiry l = millis (ls_LeaseTTLMS l)"

section \<open>The task state machine\<close>

fun TaskStatus_Terminal :: "TaskStatus \<Rightarrow> bool" where
  "TaskStatus_Terminal TaskStatusSucceeded = True"
| "TaskStatus_Terminal TaskStatusFailed = True"
| "TaskStatus_Terminal TaskStatusCanceled = True"
| "TaskStatus_Terminal _ = False"

definition Task_Terminal :: "Task \<Rightarrow> bool" where
  "Task_Terminal t = TaskStatus_Terminal (tk_Status t)"

fun validTaskTransition :: "TaskStatus \<Rightarrow> TaskStatus \<Rightarrow> bool" where
  "validTaskTransition TaskStatusQueued to =
     (to = TaskStatusOffered \<or> to = TaskStatusCanceled)"
| "validTaskTransition TaskStatusOffered to =
     (to = TaskStatusRunning \<or> to = TaskStatusCanceled)"
| "validTaskTransition TaskStatusRunning to =
     (to = TaskStatusPaused \<or> to = TaskStatusSucceeded \<or> to = TaskStatusFailed
      \<or> to = TaskStatusCanceled)"
| "validTaskTransition TaskStatusPaused to =
     (to = TaskStatusRunning \<or> to = TaskStatusSucceeded \<or> to = TaskStatusFailed
      \<or> to = TaskStatusCanceled)"
| "validTaskTransition _ to = False"

definition Transition :: "Task \<Rightarrow> TaskStatus \<Rightarrow> Time \<Rightarrow> Task result" where
  "Transition t nxt now =
     (if Task_Terminal t then
        Inl (ProtoErr \<lparr>pe_SchemaVersion = ErrorSchemaVersion, pe_Code = ErrTaskAlreadyTerminal,
          pe_Message = ''task is already terminal'', pe_Recoverable = False, pe_RetryAfterMS = 0,
          pe_UserSummary = ''The task has already finished.'',
          pe_AgentNextAction = ''do not reuse a terminal task; create a new task if needed'',
          pe_Details = None\<rparr>)
      else if \<not> validTaskTransition (tk_Status t) nxt then
        Inl (ProtoErr \<lparr>pe_SchemaVersion = ErrorSchemaVersion, pe_Code = ErrTaskAlreadyTerminal,
          pe_Message = ''invalid task transition '' @ TaskStatus_str (tk_Status t) @ '' -> ''
                       @ TaskStatus_str nxt,
          pe_Recoverable = False, pe_RetryAfterMS = 0,
          pe_UserSummary = ''The requested task state change is invalid.'',
          pe_AgentNextAction =
            ''refresh the task snapshot before sending another state change'',
          pe_Details = None\<rparr>)
      else
        (let updated = t\<lparr>tk_Status := nxt\<rparr>;
             updated = (if nxt = TaskStatusRunning \<and> tk_StartedAt updated = None
                        then updated\<lparr>tk_StartedAt := Some now\<rparr> else updated)
         in Inr (if Task_Terminal updated then updated\<lparr>tk_EndedAt := Some now\<rparr> else updated)))"

section \<open>The status summary\<close>

definition endpointOnlineState :: "EndpointState \<Rightarrow> bool" where
  "endpointOnlineState state \<longleftrightarrow>
     state = EndpointStateOnline \<or> state = EndpointStateBusy \<or> state = EndpointStateDegraded"

definition endpointOnline :: "Endpoint list \<Rightarrow> bool" where
  "endpointOnline eps = list_ex (\<lambda>e. ep_State e \<in> {EndpointStateOnline, EndpointStateBusy,
     EndpointStateDegraded}) eps"

definition endpointBusy :: "Endpoint list \<Rightarrow> bool" where
  "endpointBusy eps = list_ex (\<lambda>e. ep_State e = EndpointStateBusy) eps"

definition firstEndpointTransport :: "Endpoint list \<Rightarrow> Transport option" where
  "firstEndpointTransport eps =
     map_option ep_Transport (find (\<lambda>e. ep_Transport e \<noteq> TransportOther []) eps)"

definition DeriveStatus_endpoints :: "Session \<Rightarrow> StatusSummary" where
  "DeriveStatus_endpoints s =
     (let st = \<lparr>st_Status = StatusWaiting,
                st_UserSummary = ''Waiting for the target to connect.'',
                st_AgentNextAction = ''wait for the next session event'',
                st_SelectedGatewayURL = ses_SelectedGatewayURL s,
                st_Transport = TransportOther [],
                st_LastSeq = ses_LastSeq s,
                st_SnapshotSeq = ses_SnapshotSeq s,
                st_LatestEvent = ses_LatestEvent s,
                st_Recoverable = False,
                st_RetryAfterMS = ses_RetryAfterMS s,
                st_Online = False\<rparr>;
          st = (case firstEndpointTransport (ses_Endpoints s) of
                  None \<Rightarrow> st | Some t \<Rightarrow> st\<lparr>st_Transport := t\<rparr>);
          st = (if endpointOnline (ses_Endpoints s)
                then st\<lparr>st_Status := StatusOnline, st_Online := True,
                        st_UserSummary := ''The target is online.'',
                        st_AgentNextAction := ''send tasks or continue watching session events''\<rparr>
                else st)
      in if endpointBusy (ses_Endpoints s)
         then st\<lparr>st_Status := StatusBusy, st_Online := True,
                 st_UserSummary := ''The target is busy running a task.'',
                 st_AgentNextAction := ''wait for the task result event''\<rparr>
         else st)"

definition DeriveStatus_session :: "Session \<Rightarrow> StatusSummary \<Rightarrow> StatusSummary" where
  "DeriveStatus_session s st =
     (case ses_Status s of
        SessionStatusJoining \<Rightarrow>
          st\<lparr>st_Status := StatusJoining,
             st_UserSummary := ''The target is joining the session.''\<rparr>
      | SessionStatusReconnecting \<Rightarrow>
          st\<lparr>st_Status := StatusReconnecting, st_Recoverable := True,
             st_UserSummary := ''The target is reconnecting.'',
             st_AgentNextAction :=
               ''wait for the endpoint to resume before asking the user to rerun the command''\<rparr>
      | SessionStatusRecovered \<Rightarrow>
          st\<lparr>st_Status := StatusRecovered, st_Online := True, st_Recoverable := True,
             st_UserSummary := ''The target recovered its connection.''\<rparr>
      | SessionStatusFailed \<Rightarrow>
          st\<lparr>st_Status := StatusFailed, st_UserSummary := ''The session failed.'',
             st_AgentNextAction := ''surface the structured error and recovery action''\<rparr>
      | SessionStatusClosed \<Rightarrow>
          st\<lparr>st_Status := StatusClosed, st_UserSummary := ''The session is closed.'',
             st_AgentNextAction := ''do not send new tasks''\<rparr>
      | SessionStatusRevoked \<Rightarrow>
          st\<lparr>st_Status := StatusClosed, st_UserSummary := ''The session is closed.'',
             st_AgentNextAction := ''do not send new tasks''\<rparr>
      | _ \<Rightarrow> st)"

definition DeriveStatus_event :: "env \<Rightarrow> Session \<Rightarrow> StatusSummary \<Rightarrow> StatusSummary" where
  "DeriveStatus_event E s st =
     (let payload = ev_Payload (ses_LatestEvent s) in
      case ev_Type (ses_LatestEvent s) of
        EventTypeHelper \<Rightarrow>
          (let phase = stringPayload E payload ''phase'' in
           if phase = ''downloading'' then
             st\<lparr>st_Status := StatusHelperDownloading,
                st_UserSummary := ''The helper is downloading.'',
                st_AgentNextAction := ''wait for helper verification or ready event''\<rparr>
           else if phase = ''verifying'' then
             st\<lparr>st_Status := StatusHelperVerifying,
                st_UserSummary := ''The helper is verifying its checksum.'',
                st_AgentNextAction := ''wait for helper ready event''\<rparr>
           else if phase = ''ready'' then
             st\<lparr>st_Status := StatusOnline, st_Online := True,
                st_UserSummary := ''The helper is ready.'',
                st_AgentNextAction := ''continue with session tasks''\<rparr>
           else st)
      | EventTypeGateway \<Rightarrow>
          (let action = stringPayload E payload ''action'' in
           if action = ''failed'' \<or> action = ''trying'' then
             st\<lparr>st_Status := StatusGatewaySwitching, st_Recoverable := True,
                st_UserSummary := ''The connection is switching gateways.'',
                st_AgentNextAction := ''wait while rdev tries the next gateway candidate'',
                st_RetryAfterMS := intPayload payload ''retry_after_ms'' (st_RetryAfterMS st)\<rparr>
           else st)
      | EventTypeTransport \<Rightarrow>
          (if boolPayload payload ''degraded''
              \<or> stringPayload E payload ''action'' = ''wss-failed'' then
             (let st = st\<lparr>st_Status := StatusTransportDegraded, st_Online := True,
                          st_Recoverable := True,
                          st_UserSummary := ''The target is online through a fallback transport.'',
                          st_AgentNextAction :=
                            ''continue normally; rdev will keep the fallback transport alive''\<rparr>;
                  transport = Transport_of (stringPayload E payload ''transport'');
                  st = (if transport \<noteq> TransportOther [] then st\<lparr>st_Transport := transport\<rparr> else st);
                  selected = Transport_of (stringPayload E payload ''selected'')
              in if st_Transport st = TransportOther [] \<and> selected \<noteq> TransportOther []
                 then st\<lparr>st_Transport := selected\<rparr> else st)
           else st)
      | EventTypeTask \<Rightarrow>
          st\<lparr>st_Status := StatusBusy, st_Online := True,
             st_UserSummary := ''A task is active.'',
             st_AgentNextAction := ''wait for task.result''\<rparr>
      | EventTypeClose \<Rightarrow>
          st\<lparr>st_Status := StatusClosed, st_UserSummary := ''The session is closed.'',
             st_AgentNextAction := ''do not send new tasks''\<rparr>
      | _ \<Rightarrow> st)"

definition DeriveStatus :: "env \<Rightarrow> Session \<Rightarrow> StatusSummary" where
  "DeriveStatus E s = DeriveStatus_event E s (DeriveStatus_session s (DeriveStatus_endpoints s))"

definition Session_Snapshot :: "env \<Rightarrow> Session \<Rightarrow> SessionSnapshot" where
  "Session_Snapshot E s =
     \<lparr>sn_Session = s\<lparr>ses_NotifySecret := []\<rparr>,
      sn_Endpoints = ses_Endpoints s,
      sn_Tasks = ses_Tasks s,
      sn_Artifacts = ses_Artifacts s,
      sn_Status = DeriveStatus E s,
      sn_GatewayCandidates = ses_GatewayCandidates s,
      sn_SelectedGatewayURL = ses_SelectedGatewayURL s,
      sn_Limits = ses_Limits s,
      sn_ReconnectGraceMS = ses_ReconnectGraceMS s,
      sn_RetryAfterMS = ses_RetryAfterMS s\<rparr>"

end
