(* ===== verification/Store_Core.thy ===== *)
theory Store_Core
  imports Session_Ops
begin

text \<open>
  The state of the control plane (type MemoryStore of internal/controlplane/store.go) and the
  helpers its methods share: errors, capability ceilings, leases, the event log, task lookup and
  routing, expiry, and the host directory of host.go. Every method runs under the store's mutex
  and is therefore an atomic function from store to store.
\<close>

section \<open>Records\<close>

record EndpointSpec =
  es_EndpointID :: string
  es_Role :: EndpointRole
  es_Name :: string
  es_Platform :: string
  es_IdentityFingerprint :: string
  es_Capabilities :: "string list"
  es_Transport :: Transport
  es_LeaseTTLMS :: gint
  es_RenewAfterMS :: gint
  es_RetryAfterMS :: gint
  es_PreviousLeaseSecret :: string
  es_HostVersion :: string
  es_HostCommit :: string

record EventCursor =
  cu_EndpointID :: string
  cu_LeaseSecret :: string
  cu_AfterSeq :: u64
  cu_ReceivedSeq :: u64
  cu_ProcessedSeq :: u64
  cu_VisibleRole :: EndpointRole
  cu_EndpointState :: EndpointState

record EventReplayState =
  er_SnapshotRequired :: bool
  er_SnapshotSeq :: u64
  er_LastSeq :: u64
  er_RetryAfterMS :: gint
  er_Reconnecting :: bool

record TaskSpec =
  ts_TargetEndpointID :: string
  ts_TargetSelector :: TargetSelector
  ts_Adapter :: string
  ts_Intent :: string
  ts_Capabilities :: "string list"
  ts_Payload :: payload
  ts_Limits :: payload
  ts_AttemptID :: string
  ts_IdempotencyKey :: string

record idempotencyKey =
  ik_SessionID :: string
  ik_FromEndpointID :: string
  ik_Key :: string

record idempotencyRecord =
  ir_Fingerprint :: string
  ir_Event :: Event

record taskRecord =
  tr_TaskID :: string
  tr_EventID :: string

record leaseRecord =
  lr_Current :: Lease
  lr_PreviousSecrets :: "string \<rightharpoonup> Time"

record Host =
  ho_SchemaVersion :: string
  ho_HostID :: string
  ho_IdentityFingerprint :: string
  ho_DisplayName :: string
  ho_Platform :: string
  ho_Capabilities :: "string list"
  ho_State :: EndpointState
  ho_FirstSeenAt :: Time
  ho_LastSeenAt :: Time
  ho_LastSessionID :: string
  ho_LastEndpointID :: string

text \<open>
  The clock of the store is part of the environment of a call. The event hook is a flag (is one
  installed) and the list of the calls made to it, oldest first: session, event, notify URL.
\<close>

record MemoryStore =
  m_sessions :: "string \<rightharpoonup> Session"
  m_joinCodes :: "string \<rightharpoonup> string"
  m_events :: "string \<rightharpoonup> Event list"
  m_idempotency :: "idempotencyKey \<rightharpoonup> idempotencyRecord"
  m_taskIdempotency :: "string \<rightharpoonup> taskRecord"
  m_cancelIdempotency :: "string \<rightharpoonup> taskRecord"
  m_resultIdempotency :: "string \<rightharpoonup> taskRecord"
  m_leases :: "string \<rightharpoonup> leaseRecord"
  m_terminalAt :: "string \<rightharpoonup> Time"
  m_hosts :: "string \<rightharpoonup> Host"
  m_onEvent :: bool
  m_hookLog :: "(string \<times> Event \<times> string) list"

definition NewMemoryStore :: MemoryStore where
  "NewMemoryStore =
     \<lparr>m_sessions = Map.empty, m_joinCodes = Map.empty, m_events = Map.empty,
      m_idempotency = Map.empty, m_taskIdempotency = Map.empty,
      m_cancelIdempotency = Map.empty, m_resultIdempotency = Map.empty,
      m_leases = Map.empty, m_terminalAt = Map.empty, m_hosts = Map.empty,
      m_onEvent = False, m_hookLog = []\<rparr>"

abbreviation events_of :: "MemoryStore \<Rightarrow> string \<Rightarrow> Event list" where
  "events_of s sid \<equiv> map_get [] (m_events s) sid"

abbreviation put_session :: "string \<Rightarrow> Session \<Rightarrow> MemoryStore \<Rightarrow> MemoryStore" where
  "put_session sid x s \<equiv> s\<lparr>m_sessions := (m_sessions s)(sid \<mapsto> x)\<rparr>"

section \<open>Errors\<close>

definition defaultUserSummary :: "ErrorCode \<Rightarrow> string \<Rightarrow> string" where
  "defaultUserSummary code message =
     (case code of
        ErrTerminalSession \<Rightarrow>
          ''This session has ended; ask the operator (or the Agent) for a fresh session.''
      | _ \<Rightarrow> message)"

definition defaultAgentNextAction :: "ErrorCode \<Rightarrow> string" where
  "defaultAgentNextAction code =
     (case code of
        ErrSnapshotRequired \<Rightarrow> ''fetch the session snapshot and resume from snapshot_seq''
      | ErrIdempotencyConflict \<Rightarrow>
          ''reuse the original payload for this idempotency key or choose a new key''
      | ErrCapabilityUnavailable \<Rightarrow>
          ''wait for a matching endpoint or choose a different adapter''
      | ErrUnauthorizedEndpoint \<Rightarrow> ''resume or renew the endpoint lease''
      | ErrLeaseExpired \<Rightarrow> ''resume or renew the endpoint lease''
      | ErrTerminalSession \<Rightarrow> ''do not send new work to this session''
      | ErrSessionClosed \<Rightarrow> ''do not send new work to this session''
      | _ \<Rightarrow> ''inspect the structured error and retry only if recoverable'')"

definition err :: "ErrorCode \<Rightarrow> string \<Rightarrow> bool \<Rightarrow> ProtocolError" where
  "err code message recoverable =
     \<lparr>pe_SchemaVersion = ErrorSchemaVersion, pe_Code = code, pe_Message = message,
      pe_Recoverable = recoverable, pe_RetryAfterMS = 500,
      pe_UserSummary = defaultUserSummary code message,
      pe_AgentNextAction = defaultAgentNextAction code, pe_Details = None\<rparr>"

abbreviation fail :: "ErrorCode \<Rightarrow> string \<Rightarrow> bool \<Rightarrow> 'a result" where
  "fail code message recoverable \<equiv> Inl (ProtoErr (err code message recoverable))"

lemma pe_Code_err [simp]: "pe_Code (err c m r) = c"
  by (simp add: err_def)

section \<open>Capabilities\<close>

definition endpointHasCapabilities :: "Endpoint \<Rightarrow> string list \<Rightarrow> bool" where
  "endpointHasCapabilities endpoint required =
     (required = [] \<or> list_all (\<lambda>c. c \<in> set (ep_Capabilities endpoint)) required)"

text \<open>
  The two trimming loops share a shape: trim, skip what is empty, seen or not wanted, keep the
  rest in order.
\<close>

fun collectCapabilities :: "(string \<Rightarrow> bool) \<Rightarrow> string list \<Rightarrow> string list \<Rightarrow> string list" where
  "collectCapabilities keep seen [] = []"
| "collectCapabilities keep seen (raw # rest) =
     (let capability = TrimSpace raw in
      if capability = [] \<or> capability \<in> set seen \<or> \<not> keep capability
      then collectCapabilities keep seen rest
      else capability # collectCapabilities keep (capability # seen) rest)"

definition missingCapabilities :: "string list \<Rightarrow> string list \<Rightarrow> string list" where
  "missingCapabilities available requested =
     (let have = filter (\<lambda>c. c \<noteq> []) (map TrimSpace available)
      in collectCapabilities (\<lambda>c. c \<notin> set have) [] requested)"

definition constrainedEndpointCapabilities ::
    "Session \<Rightarrow> EndpointRole \<Rightarrow> string list \<Rightarrow> string list \<Rightarrow> string list" where
  "constrainedEndpointCapabilities session role advertised existing =
     (let requested = (if advertised = [] then existing else advertised);
          limited = (role = EndpointRoleTarget \<and> ses_Capabilities session \<noteq> []);
          allowed = filter (\<lambda>c. c \<noteq> []) (map TrimSpace (ses_Capabilities session))
      in collectCapabilities (\<lambda>c. \<not> limited \<or> c \<in> set allowed) [] requested)"

definition capabilityUnavailableError :: "string list \<Rightarrow> string list \<Rightarrow> ProtocolError" where
  "capabilityUnavailableError available requested =
     (err ErrCapabilityUnavailable ''no online endpoint matches task capabilities'' True)
       \<lparr>pe_Details := Some [
          ''missing_capabilities'' \<mapsto>
             GList (map GString (missingCapabilities available requested)),
          ''requested_capabilities'' \<mapsto> GList (map GString requested),
          ''available_capabilities'' \<mapsto> GList (map GString available)],
        pe_AgentNextAction :=
          ''request the missing capabilities and create a fresh session before retrying''\<rparr>"

lemma pe_Code_capabilityUnavailable [simp]:
  "pe_Code (capabilityUnavailableError a r) = ErrCapabilityUnavailable"
  by (simp add: capabilityUnavailableError_def)

section \<open>Small helpers\<close>

definition sessionTerminal :: "SessionStatus \<Rightarrow> bool" where
  "sessionTerminal status \<longleftrightarrow>
     status = SessionStatusClosed \<or> status = SessionStatusFailed \<or> status = SessionStatusRevoked"

definition sessionExpired :: "Time \<Rightarrow> Session \<Rightarrow> bool" where
  "sessionExpired now session \<longleftrightarrow> \<not> IsZero (ses_ExpiresAt session) \<and> \<not> now < ses_ExpiresAt session"

definition endpointIdentityKey :: "string \<Rightarrow> EndpointRole \<Rightarrow> string \<Rightarrow> string \<Rightarrow> string" where
  "endpointIdentityKey sessionID role fingerprint platform =
     sessionID @ ''|'' @ EndpointRole_str role @ ''|'' @ fingerprint @ ''|'' @ platform"

definition nonEmpty :: "string \<Rightarrow> string \<Rightarrow> string" where
  "nonEmpty value fallback = (if value \<noteq> [] then value else fallback)"

definition retryAfterMSOrSession :: "gint \<Rightarrow> gint \<Rightarrow> gint" where
  "retryAfterMSOrSession value sessionRetry =
     (if value \<noteq> 0 then value else if sessionRetry \<noteq> 0 then sessionRetry else 1000)"

definition stringMapValue :: "env \<Rightarrow> payload \<Rightarrow> string \<Rightarrow> string" where
  "stringMapValue E values key =
     (case payload_get values key of
        None \<Rightarrow> []
      | Some (GString s) \<Rightarrow> s
      | Some v \<Rightarrow> fmt_Sprint E v)"

definition jsonPayloadSize :: "env \<Rightarrow> payload \<Rightarrow> nat option" where
  "jsonPayloadSize E p =
     (case p of
        None \<Rightarrow> Some 0
      | Some m \<Rightarrow> map_option length (json_Marshal E (GMap m)))"

text \<open>
  The fingerprint struct in declaration order, each field under its json tag; the option omitempty
  of the last tag is json's to honour.
\<close>

definition eventFingerprint :: "env \<Rightarrow> Event \<Rightarrow> string option" where
  "eventFingerprint E event =
     json_Marshal E (GStruct
       [(''type'', GString (EventType_str (ev_Type event))),
        (''from_endpoint_id'', GString (ev_FromEndpointID event)),
        (''to_endpoint_id'', GString (ev_ToEndpointID event)),
        (''task_id'', GString (ev_TaskID event)),
        (''payload,omitempty'', case ev_Payload event of None \<Rightarrow> GNil | Some m \<Rightarrow> GMap m)])"

definition selectedGatewayURLFromEvent :: "env \<Rightarrow> Event \<Rightarrow> string" where
  "selectedGatewayURLFromEvent E event =
     (case find (\<lambda>v. v \<noteq> [])
        (map (\<lambda>key. TrimRightSlash (TrimSpace (stringPayload E (ev_Payload event) key)))
           [''selected_url'', ''next_url'', ''gateway_url'']) of
        None \<Rightarrow> []
      | Some v \<Rightarrow> v)"

definition eventVisibleToEndpoint :: "Event \<Rightarrow> Endpoint \<Rightarrow> bool" where
  "eventVisibleToEndpoint event endpoint =
     (if ep_Role endpoint = EndpointRoleAgent \<or> ep_Role endpoint = EndpointRoleOperator then True
      else ev_ToEndpointID event = [] \<or> ev_ToEndpointID event = ep_ID endpoint)"

definition endpointIndexLocked :: "Session \<Rightarrow> string \<Rightarrow> nat option" where
  "endpointIndexLocked session endpointID =
     first_index (\<lambda>e. ep_ID e = endpointID) (ses_Endpoints session)"

section \<open>The event log\<close>

text \<open>
  The end of appendEventLocked: log the stamped event, refresh the session, remember the
  idempotency record under a key, call the hook.
\<close>

definition commitEvent ::
    "env \<Rightarrow> string \<Rightarrow> Session \<Rightarrow> Event \<Rightarrow> (idempotencyKey \<times> string) option \<Rightarrow> MemoryStore \<Rightarrow> MemoryStore" where
  "commitEvent E sid session event keyed s =
     (let selected = selectedGatewayURLFromEvent E event;
          session1 = (if ev_Type event = EventTypeGateway \<and> selected \<noteq> []
                      then session\<lparr>ses_SelectedGatewayURL := selected\<rparr> else session);
          session2 = WithEvent session1 event (clock_at E 2);
          s1 = s\<lparr>m_events := (m_events s)(sid \<mapsto> events_of s sid @ [event]),
                 m_sessions := (m_sessions s)(sid \<mapsto> session2)\<rparr>;
          s2 = (case keyed of
                  None \<Rightarrow> s1
                | Some (eventKey, fingerprint) \<Rightarrow>
                    s1\<lparr>m_idempotency := (m_idempotency s1)
                         (eventKey \<mapsto> \<lparr>ir_Fingerprint = fingerprint, ir_Event = event\<rparr>)\<rparr>)
      in if m_onEvent s2
         then s2\<lparr>m_hookLog := m_hookLog s2 @ [(sid, event, ses_NotifyURL session2)]\<rparr>
         else s2)"

definition stampEvent :: "env \<Rightarrow> string \<Rightarrow> Session \<Rightarrow> string \<Rightarrow> Event \<Rightarrow> Event" where
  "stampEvent E sid session ident event =
     event\<lparr>ev_SchemaVersion := EventSchemaVersion, ev_SessionID := sid, ev_ID := ident,
           ev_Seq := ses_LastSeq session + 1, ev_CreatedAt := clock_at E 1\<rparr>"

definition checkPayload :: "env \<Rightarrow> Session \<Rightarrow> Event \<Rightarrow> bool \<Rightarrow> error option" where
  "checkPayload E session event enforceLimits =
     (if enforceLimits
      then (case jsonPayloadSize E (ev_Payload event) of
              None \<Rightarrow> Some MarshalErr
            | Some payloadSize \<Rightarrow>
                if int payloadSize > lim_EventPayloadBytes (ses_Limits session)
                then Some (ProtoErr (err ErrPayloadTooLarge ''event payload is too large'' True))
                else None)
      else None)"

definition appendEventLocked ::
    "env \<Rightarrow> string \<Rightarrow> Event \<Rightarrow> bool \<Rightarrow> MemoryStore \<Rightarrow> Event result \<times> MemoryStore" where
  "appendEventLocked E sid event enforceLimits s =
     (case m_sessions s sid of
        None \<Rightarrow> (fail ErrInvalidJoinCode ''session not found'' False, s)
      | Some session \<Rightarrow>
     if sessionTerminal (ses_Status session) \<and> ev_Type event \<noteq> EventTypeTaskResult
        \<and> ev_Type event \<noteq> EventTypeArtifact \<and> ev_Type event \<noteq> EventTypeClose
     then (fail ErrTerminalSession ''session is terminal'' False, s)
     else if sessionExpired (clock_at E 0) session \<and> ev_Type event \<noteq> EventTypeClose
     then (fail ErrTerminalSession ''session is expired'' False, s)
     else
       (case checkPayload E session event enforceLimits of
          Some e \<Rightarrow> (Inl e, s)
        | None \<Rightarrow>
       (let eventKey = \<lparr>ik_SessionID = sid, ik_FromEndpointID = ev_FromEndpointID event,
                        ik_Key = ev_IdempotencyKey event\<rparr>;
            append = (\<lambda>keyed.
              (case newID ''evt'' (rand_at E 0) of
                 None \<Rightarrow> (Inl RandErr, s)
               | Some ident \<Rightarrow>
                   (let stamped = stampEvent E sid session ident event
                    in (Inr stamped, commitEvent E sid session stamped keyed s))))
        in if ev_IdempotencyKey event \<noteq> [] then
             (case eventFingerprint E event of
                None \<Rightarrow> (Inl MarshalErr, s)
              | Some fingerprint \<Rightarrow>
                  (case m_idempotency s eventKey of
                     Some rec \<Rightarrow>
                       if ir_Fingerprint rec \<noteq> fingerprint
                       then (fail ErrIdempotencyConflict
                               ''idempotency key was reused with a different payload'' True, s)
                       else (Inr (ir_Event rec), s)
                   | None \<Rightarrow> append (Some (eventKey, fingerprint))))
           else append None)))"

fun takeVisible :: "Endpoint \<Rightarrow> u64 \<Rightarrow> gint \<Rightarrow> nat \<Rightarrow> Event list \<Rightarrow> Event list" where
  "takeVisible endpoint afterSeq limit n [] = []"
| "takeVisible endpoint afterSeq limit n (event # rest) =
     (if ev_Seq event \<le> afterSeq \<or> \<not> eventVisibleToEndpoint event endpoint
      then takeVisible endpoint afterSeq limit n rest
      else if limit > 0 \<and> int (Suc n) \<ge> limit then [event]
      else event # takeVisible endpoint afterSeq limit (Suc n) rest)"

definition visibleEventsLocked ::
    "string \<Rightarrow> Endpoint \<Rightarrow> u64 \<Rightarrow> gint \<Rightarrow> MemoryStore \<Rightarrow> Event list" where
  "visibleEventsLocked sid endpoint afterSeq limit s =
     takeVisible endpoint afterSeq limit 0 (events_of s sid)"

section \<open>Leases\<close>

definition zero_leaseRecord :: leaseRecord where
  "zero_leaseRecord = \<lparr>lr_Current = zero_Lease, lr_PreviousSecrets = Map.empty\<rparr>"

text \<open>
  The source copies the map of previous secrets only when one of them has expired; the resulting
  map is the filtered one in either case.
\<close>

definition pruneExpiredLeaseSecrets :: "leaseRecord \<Rightarrow> Time \<Rightarrow> leaseRecord" where
  "pruneExpiredLeaseSecrets rec now =
     rec\<lparr>lr_PreviousSecrets :=
           (\<lambda>secret. case lr_PreviousSecrets rec secret of
              None \<Rightarrow> None
            | Some until \<Rightarrow> if now > until then None else Some until)\<rparr>"

definition issueLeaseLocked ::
    "env \<Rightarrow> Session \<Rightarrow> Endpoint \<Rightarrow> gint \<Rightarrow> gint \<Rightarrow> gint \<Rightarrow> MemoryStore \<Rightarrow> Lease \<times> MemoryStore" where
  "issueLeaseLocked E session endpoint ttlMS renewAfterMS retryAfterMS s =
     (let rec = pruneExpiredLeaseSecrets
                  (map_get zero_leaseRecord (m_leases s) (ep_ID endpoint)) (clock_at E 0);
          current = lr_Current rec;
          prev = (if ls_Secret current \<noteq> []
                  then (lr_PreviousSecrets rec)(ls_Secret current \<mapsto>
                         ls_ExpiresAt current + millis (ses_ReconnectGraceMS session))
                  else lr_PreviousSecrets rec);
          secret = (case newID ''lease_secret'' (rand_at E 0) of None \<Rightarrow> [] | Some i \<Rightarrow> i);
          lease = NewLease (env_from 1 E)
            \<lparr>lsp_ID = [], lsp_SessionID = ses_ID session, lsp_EndpointID = ep_ID endpoint,
             lsp_Generation = i64 (ls_Generation current + 1), lsp_Secret = secret,
             lsp_Transport = ep_Transport endpoint,
             lsp_SelectedGatewayURL = ses_SelectedGatewayURL session,
             lsp_LeaseTTLMS = ttlMS, lsp_RenewAfterMS = renewAfterMS,
             lsp_RetryAfterMS = retryAfterMSOrSession retryAfterMS (ses_RetryAfterMS session)\<rparr>
            (clock_at E 1)
      in (lease, s\<lparr>m_leases := (m_leases s)(ep_ID endpoint \<mapsto>
                     \<lparr>lr_Current = lease, lr_PreviousSecrets = prev\<rparr>)\<rparr>))"

definition authorizeLeaseLocked ::
    "env \<Rightarrow> Session \<Rightarrow> string \<Rightarrow> string \<Rightarrow> MemoryStore \<Rightarrow> bool result" where
  "authorizeLeaseLocked E session endpointID secret s =
     (case m_leases s endpointID of
        None \<Rightarrow> fail ErrUnauthorizedEndpoint ''endpoint lease is missing'' True
      | Some rec \<Rightarrow>
     if secret = [] then fail ErrUnauthorizedEndpoint ''endpoint lease is missing'' True
     else
       (let now = clock_at E 0 in
        if ls_Secret (lr_Current rec) = secret then
          (if \<not> now > ls_ExpiresAt (lr_Current rec) then Inr False
           else if \<not> now > ls_ExpiresAt (lr_Current rec) + millis (ses_ReconnectGraceMS session)
           then Inr True
           else fail ErrLeaseExpired ''lease expired outside reconnect grace'' True)
        else
          (case lr_PreviousSecrets rec secret of
             Some graceUntil \<Rightarrow>
               if \<not> now > graceUntil then Inr True
               else fail ErrUnauthorizedEndpoint ''lease secret does not match endpoint'' True
           | None \<Rightarrow> fail ErrUnauthorizedEndpoint ''lease secret does not match endpoint'' True)))"

section \<open>Tasks\<close>

definition findTaskLocked ::
    "string \<Rightarrow> string \<Rightarrow> MemoryStore \<Rightarrow> (Task \<times> nat \<times> Session) result" where
  "findTaskLocked sid taskID s =
     (case m_sessions s sid of
        None \<Rightarrow> fail ErrInvalidJoinCode ''session not found'' False
      | Some session \<Rightarrow>
          (case first_index (\<lambda>t. tk_ID t = taskID) (ses_Tasks session) of
             None \<Rightarrow> fail ErrTaskNotFound ''task not found'' True
           | Some i \<Rightarrow> Inr (ses_Tasks session ! i, i, session)))"

definition taskAndEventLocked ::
    "string \<Rightarrow> taskRecord \<Rightarrow> MemoryStore \<Rightarrow> (Task \<times> Event) result" where
  "taskAndEventLocked sid rec s =
     (case findTaskLocked sid (tr_TaskID rec) s of
        Inl e \<Rightarrow> Inl e
      | Inr (task, _) \<Rightarrow>
          (case find (\<lambda>e. ev_ID e = tr_EventID rec) (events_of s sid) of
             Some event \<Rightarrow> Inr (task, event)
           | None \<Rightarrow> fail ErrSnapshotRequired ''idempotent event body was compacted'' True))"

definition routeTaskLocked :: "Session \<Rightarrow> TaskSpec \<Rightarrow> Endpoint result" where
  "routeTaskLocked session spec =
     (if ts_TargetEndpointID spec \<noteq> [] then
        (case find (\<lambda>e. ep_ID e = ts_TargetEndpointID spec) (ses_Endpoints session) of
           None \<Rightarrow> fail ErrEndpointNotFound ''target endpoint not found'' True
         | Some endpoint \<Rightarrow>
             if ep_Role endpoint \<noteq> EndpointRoleTarget \<or> \<not> endpointOnlineState (ep_State endpoint)
             then fail ErrEndpointNotFound ''target endpoint is not online'' True
             else if \<not> endpointHasCapabilities endpoint (ts_Capabilities spec)
             then Inl (ProtoErr (capabilityUnavailableError (ep_Capabilities endpoint)
                                   (ts_Capabilities spec)))
             else Inr endpoint)
      else
        (let selector = ts_TargetSelector spec;
             required = (if ts_Capabilities spec = [] then sel_Capabilities selector
                         else ts_Capabilities spec)
         in case find (\<lambda>endpoint.
                   \<not> (sel_Role selector \<noteq> EndpointRoleOther [] \<and> ep_Role endpoint \<noteq> sel_Role selector)
                   \<and> \<not> (sel_Platform selector \<noteq> [] \<and> ep_Platform endpoint \<noteq> sel_Platform selector)
                   \<and> ep_Role endpoint = EndpointRoleTarget
                   \<and> endpointOnlineState (ep_State endpoint)
                   \<and> endpointHasCapabilities endpoint required) (ses_Endpoints session) of
              Some endpoint \<Rightarrow> Inr endpoint
            | None \<Rightarrow> Inl (ProtoErr (capabilityUnavailableError [] (ts_Capabilities spec)))))"

definition inTerminalGrace :: "env \<Rightarrow> Session \<Rightarrow> MemoryStore \<Rightarrow> bool" where
  "inTerminalGrace E session s =
     (case m_terminalAt s (ses_ID session) of
        None \<Rightarrow> False
      | Some closedAt \<Rightarrow>
          (let grace0 = millis (lim_TerminalGraceMillis (ses_Limits session));
               grace = (if grace0 = 0 then 30 * second_ns else grace0)
           in \<not> clock_at E 0 > closedAt + grace))"

section \<open>Expiry\<close>

text \<open>Every endpoint of a session that ends is revoked and loses its lease.\<close>

definition revokeEndpoints :: "Time \<Rightarrow> Session \<Rightarrow> Session" where
  "revokeEndpoints now session =
     session\<lparr>ses_Endpoints := map (\<lambda>e. e\<lparr>ep_State := EndpointStateRevoked, ep_LastSeenAt := now\<rparr>)
                                 (ses_Endpoints session)\<rparr>"

definition dropLeases :: "Endpoint list \<Rightarrow> (string \<rightharpoonup> leaseRecord) \<Rightarrow> (string \<rightharpoonup> leaseRecord)" where
  "dropLeases eps m = (\<lambda>k. if k \<in> set (map ep_ID eps) then None else m k)"

definition cancelLiveTask :: "Time \<Rightarrow> Task \<Rightarrow> Task" where
  "cancelLiveTask now task =
     (if Task_Terminal task then task
      else case Transition task TaskStatusCanceled now of Inr canceled \<Rightarrow> canceled | Inl _ \<Rightarrow> task)"

definition expireSessionLocked :: "env \<Rightarrow> string \<Rightarrow> MemoryStore \<Rightarrow> bool \<times> MemoryStore" where
  "expireSessionLocked E sid s =
     (case m_sessions s sid of
        None \<Rightarrow> (False, s)
      | Some session0 \<Rightarrow>
     if sessionTerminal (ses_Status session0) \<or> \<not> sessionExpired (clock_at E 0) session0
     then (False, s)
     else
       (let now = clock_at E 1;
            s1 = snd (appendEventLocked (env_from 2 E) sid
                   (zero_Event\<lparr>ev_Type := EventTypeClose, ev_FromEndpointID := ''gateway.lifecycle'',
                      ev_Payload := Some [''reason'' \<mapsto> GString ''session expired'']\<rparr>) False s);
            session = map_get session0 (m_sessions s1) sid;
            session1 = revokeEndpoints now session;
            session2 = session1\<lparr>ses_Tasks := map (cancelLiveTask now) (ses_Tasks session1),
                                ses_Status := SessionStatusClosed, ses_UpdatedAt := now\<rparr>
        in (True, s1\<lparr>m_leases := dropLeases (ses_Endpoints session) (m_leases s1),
                     m_sessions := (m_sessions s1)(sid \<mapsto> session2),
                     m_terminalAt := (m_terminalAt s1)(sid \<mapsto> now)\<rparr>)))"

section \<open>The host directory\<close>

definition HostSchemaVersion :: string where "HostSchemaVersion = ''rdev.host.v1''"

definition UpsertHostLocked ::
    "env \<Rightarrow> Session \<Rightarrow> Endpoint \<Rightarrow> Time \<Rightarrow> MemoryStore \<Rightarrow> MemoryStore" where
  "UpsertHostLocked E session endpoint now s =
     (if ep_Role endpoint \<noteq> EndpointRoleTarget \<or> TrimSpace (ep_IdentityFingerprint endpoint) = []
      then s
      else
        (let fingerprint = ep_IdentityFingerprint endpoint in
         case (case m_hosts s fingerprint of
                 Some existing \<Rightarrow> Some existing
               | None \<Rightarrow>
                   map_option (\<lambda>hostID.
                     \<lparr>ho_SchemaVersion = HostSchemaVersion, ho_HostID = hostID,
                      ho_IdentityFingerprint = fingerprint, ho_DisplayName = ep_Name endpoint,
                      ho_Platform = ep_Platform endpoint, ho_Capabilities = [],
                      ho_State = EndpointStateOther [], ho_FirstSeenAt = now, ho_LastSeenAt = 0,
                      ho_LastSessionID = [], ho_LastEndpointID = []\<rparr>)
                     (newID ''hst'' (rand_at E 0))) of
           None \<Rightarrow> s
         | Some existing \<Rightarrow>
             (let h = existing\<lparr>ho_Capabilities := ep_Capabilities endpoint,
                               ho_State := ep_State endpoint, ho_LastSeenAt := now,
                               ho_LastSessionID := ses_ID session,
                               ho_LastEndpointID := ep_ID endpoint\<rparr>;
                  h = (if ho_Platform h = [] then h\<lparr>ho_Platform := ep_Platform endpoint\<rparr> else h);
                  h = (if ho_DisplayName h = [] then h\<lparr>ho_DisplayName := ep_Name endpoint\<rparr> else h)
              in s\<lparr>m_hosts := (m_hosts s)(fingerprint \<mapsto> h)\<rparr>)))"

end
