(* ===== verification/Store_Ops.thy ===== *)
theory Store_Ops
  imports Store_Core
begin

text \<open>
  The methods of MemoryStore, in the order of internal/controlplane/store.go, and the two public
  methods of host.go. A method takes the environment of the call, its arguments and the store, and
  returns its result with the new store; an error can come with a changed store, because a method
  that finds its session expired closes it first.
\<close>

definition SetEventHook :: "bool \<Rightarrow> MemoryStore \<Rightarrow> MemoryStore" where
  "SetEventHook hook s = s\<lparr>m_onEvent := hook\<rparr>"

definition SetSessionNotifyURL ::
    "env \<Rightarrow> string \<Rightarrow> string \<Rightarrow> MemoryStore \<Rightarrow> Session result \<times> MemoryStore" where
  "SetSessionNotifyURL E sid notifyURL s =
     (case m_sessions s sid of
        None \<Rightarrow> (fail ErrInvalidJoinCode ''session not found'' False, s)
      | Some session0 \<Rightarrow>
          (let session = session0\<lparr>ses_NotifyURL := TrimSpace notifyURL,
                                  ses_UpdatedAt := clock_at E 0\<rparr>
           in (Inr session, put_session sid session s)))"

section \<open>Sessions\<close>

definition storeNewSessionLocked :: "Session \<Rightarrow> MemoryStore \<Rightarrow> Session result \<times> MemoryStore" where
  "storeNewSessionLocked session s =
     (if m_sessions s (ses_ID session) \<noteq> None
      then (fail ErrIdempotencyConflict ''session id is already in use'' False, s)
      else if m_joinCodes s (ses_JoinCode session) \<noteq> None
      then (fail ErrIdempotencyConflict ''join code is already in use'' False, s)
      else (Inr session,
            s\<lparr>m_sessions := (m_sessions s)(ses_ID session \<mapsto> session),
              m_joinCodes := (m_joinCodes s)(ses_JoinCode session \<mapsto> ses_ID session),
              m_events := (m_events s)(ses_ID session \<mapsto> [])\<rparr>))"

definition CreateSession :: "env \<Rightarrow> SessionSpec \<Rightarrow> MemoryStore \<Rightarrow> Session result \<times> MemoryStore" where
  "CreateSession E spec s =
     (case NewSession E spec (clock_at E 0) of
        Inl e \<Rightarrow> (Inl e, s)
      | Inr session \<Rightarrow> storeNewSessionLocked session s)"

definition getSession :: "env \<Rightarrow> string \<Rightarrow> MemoryStore \<Rightarrow> Session result \<times> MemoryStore" where
  "getSession E sid s =
     (let s1 = snd (expireSessionLocked E sid s) in
      case m_sessions s1 sid of
        None \<Rightarrow> (fail ErrInvalidJoinCode ''session not found'' False, s1)
      | Some session \<Rightarrow> (Inr session, s1))"

definition joinEndpointLocked ::
    "env \<Rightarrow> Session \<Rightarrow> EndpointSpec \<Rightarrow> MemoryStore \<Rightarrow> (Endpoint \<times> bool) result \<times> MemoryStore" where
  "joinEndpointLocked E session spec s =
     (let role = (if es_Role spec = EndpointRoleOther [] then EndpointRoleTarget else es_Role spec);
          transport = (if es_Transport spec = TransportOther [] then TransportPoll
                       else es_Transport spec);
          state = EndpointStateOnline;
          endpointKey = endpointIdentityKey (ses_ID session) role (es_IdentityFingerprint spec)
                          (es_Platform spec)
      in case find (\<lambda>e. endpointIdentityKey (ses_ID session) (ep_Role e) (ep_IdentityFingerprint e)
                          (ep_Platform e) = endpointKey
                        \<and> es_IdentityFingerprint spec \<noteq> []) (ses_Endpoints session) of
           Some endpoint0 \<Rightarrow>
             (let endpoint1 = endpoint0\<lparr>
                    ep_Name := nonEmpty (es_Name spec) (ep_Name endpoint0),
                    ep_Capabilities := constrainedEndpointCapabilities session role
                      (es_Capabilities spec) (ep_Capabilities endpoint0),
                    ep_Transport := transport,
                    ep_State := state,
                    ep_LastSeenAt := clock_at E 0\<rparr>;
                  endpoint = (if es_HostVersion spec \<noteq> []
                              then endpoint1\<lparr>ep_HostVersion := es_HostVersion spec,
                                             ep_HostCommit := es_HostCommit spec\<rparr>
                              else endpoint1);
                  session1 = WithEndpoint (session\<lparr>ses_Status := SessionStatusOnline\<rparr>) endpoint
                               (clock_at E 1);
                  s1 = put_session (ses_ID session1) session1 s
              in (Inr (endpoint, False),
                  UpsertHostLocked (env_from 3 E) session1 endpoint (clock_at E 2) s1))
         | None \<Rightarrow>
             if ses_JoinPolicy session = ''single-target'' \<and> role = EndpointRoleTarget
                \<and> list_ex (\<lambda>e. ep_Role e = EndpointRoleTarget) (ses_Endpoints session)
             then (fail ErrJoinPolicyRejected
                     ''single-target session already has a different target'' False, s)
             else
               (case (if es_EndpointID spec = [] then newID ''end'' (rand_at E 0)
                      else Some (es_EndpointID spec)) of
                  None \<Rightarrow> (Inl RandErr, s)
                | Some endpointID \<Rightarrow>
                    (let endpoint =
                       \<lparr>ep_SchemaVersion = EndpointSchemaVersion, ep_ID = endpointID,
                        ep_SessionID = ses_ID session, ep_Role = role, ep_Name = es_Name spec,
                        ep_Platform = es_Platform spec,
                        ep_IdentityFingerprint = es_IdentityFingerprint spec,
                        ep_Capabilities = constrainedEndpointCapabilities session role
                          (es_Capabilities spec) [],
                        ep_State = state, ep_Transport = transport,
                        ep_ReceivedSeq = 0, ep_ProcessedSeq = 0,
                        ep_LastSeenAt = clock_at E 0,
                        ep_HostVersion = es_HostVersion spec, ep_HostCommit = es_HostCommit spec\<rparr>;
                       session1 = WithEndpoint (session\<lparr>ses_Status := SessionStatusOnline\<rparr>) endpoint
                                    (clock_at E 1);
                       s1 = put_session (ses_ID session1) session1 s
                     in (Inr (endpoint, True),
                         UpsertHostLocked (env_from 3 E) session1 endpoint (clock_at E 2) s1))))"

definition hello_event :: "Endpoint \<Rightarrow> Event" where
  "hello_event endpoint =
     zero_Event\<lparr>ev_Type := EventTypeHello, ev_FromEndpointID := ''gateway'',
       ev_ToEndpointID := ep_ID endpoint, ev_IdempotencyKey := ''join-hello:'' @ ep_ID endpoint,
       ev_Payload := Some [''role'' \<mapsto> GString (EndpointRole_str (ep_Role endpoint)),
                           ''endpoint'' \<mapsto> GString (ep_ID endpoint)]\<rparr>"

definition JoinSession ::
    "env \<Rightarrow> string \<Rightarrow> EndpointSpec \<Rightarrow> MemoryStore
     \<Rightarrow> (Session \<times> Endpoint \<times> Lease) result \<times> MemoryStore" where
  "JoinSession E sid spec s =
     (case m_sessions s sid of
        None \<Rightarrow> (fail ErrInvalidJoinCode ''session not found'' False, s)
      | Some session0 \<Rightarrow>
     if sessionExpired (clock_at E 0) session0
     then (fail ErrTerminalSession ''session is expired'' False,
           snd (expireSessionLocked (env_from 1 E) sid s))
     else if sessionTerminal (ses_Status session0)
     then (fail ErrTerminalSession ''session is terminal'' False, s)
     else
       (case joinEndpointLocked (env_from 1 E) session0 spec s of
          (Inl e, s1) \<Rightarrow> (Inl e, s1)
        | (Inr (endpoint, created), s1) \<Rightarrow>
            (let session1 = map_get session0 (m_sessions s1) sid;
                 (lease, s2) = issueLeaseLocked (env_from 10 E) session1 endpoint
                   (es_LeaseTTLMS spec) (es_RenewAfterMS spec) (es_RetryAfterMS spec) s1
             in if created then
                  (case appendEventLocked (env_from 20 E) sid (hello_event endpoint) True s2 of
                     (Inl e, s3) \<Rightarrow> (Inl e, s3)
                   | (Inr _, s3) \<Rightarrow>
                       (Inr (map_get session1 (m_sessions s3) sid, endpoint, lease), s3))
                else (Inr (session1, endpoint, lease), s2))))"

text \<open>
  JoinByCode takes the lock three times: to look the code up, inside JoinSession, and to read the
  events. Only the middle part changes the store; \<open>between\<close> is the store that the last part
  finds, after whatever other calls ran since.
\<close>

definition JoinByCode_finish ::
    "string \<Rightarrow> Endpoint \<Rightarrow> Lease \<Rightarrow> MemoryStore
     \<Rightarrow> (Session option \<times> Endpoint \<times> Lease \<times> Event list)" where
  "JoinByCode_finish sid endpoint lease between =
     (m_sessions between sid, endpoint, lease, visibleEventsLocked sid endpoint 0 0 between)"

definition JoinByCode ::
    "env \<Rightarrow> string \<Rightarrow> EndpointSpec \<Rightarrow> MemoryStore
     \<Rightarrow> (Session option \<times> Endpoint \<times> Lease \<times> Event list) result \<times> MemoryStore" where
  "JoinByCode E joinCode spec s =
     (case m_joinCodes s joinCode of
        None \<Rightarrow> (Inl (ProtoErr InvalidJoinCodeError), s)
      | Some sid \<Rightarrow>
          (case JoinSession E sid spec s of
             (Inl e, s1) \<Rightarrow> (Inl e, s1)
           | (Inr (_, endpoint, lease), s1) \<Rightarrow> (Inr (JoinByCode_finish sid endpoint lease s1), s1)))"

section \<open>Events\<close>

definition AppendEvent ::
    "env \<Rightarrow> string \<Rightarrow> Event \<Rightarrow> MemoryStore \<Rightarrow> Event result \<times> MemoryStore" where
  "AppendEvent E sid event s =
     (if (case m_sessions s sid of None \<Rightarrow> False | Some x \<Rightarrow> sessionExpired (clock_at E 0) x)
      then (fail ErrTerminalSession ''session is expired'' False,
            snd (expireSessionLocked (env_from 1 E) sid s))
      else if ev_Type event \<noteq> EventTypeTaskProgress
      then appendEventLocked (env_from 1 E) sid event True s
      else
        (case findTaskLocked sid (ev_TaskID event) s of
           Inl e \<Rightarrow> (Inl e, s)
         | Inr (task, taskIndex, _) \<Rightarrow>
             if ev_FromEndpointID event \<noteq> tk_TargetEndpointID task
             then (fail ErrUnauthorizedEndpoint
                     ''task progress must be reported by the assigned target endpoint'' False, s)
             else if Task_Terminal task
             then (fail ErrTaskAlreadyTerminal ''task is already terminal'' False, s)
             else
               (let transitioned = (tk_Status task = TaskStatusOffered
                                    \<or> tk_Status task = TaskStatusPaused) in
                case (if transitioned then Transition task TaskStatusRunning (clock_at E 1)
                      else Inr task) of
                  Inl e \<Rightarrow> (Inl e, s)
                | Inr updated \<Rightarrow>
                    (case appendEventLocked (env_from 2 E) sid event True s of
                       (Inl e, s1) \<Rightarrow> (Inl e, s1)
                     | (Inr appended, s1) \<Rightarrow>
                         (if transitioned then
                            (case m_sessions s1 sid of
                               None \<Rightarrow> (Inr appended, s1)
                             | Some current \<Rightarrow>
                                 (Inr appended,
                                  put_session sid
                                    (current\<lparr>ses_Tasks := (ses_Tasks current)[taskIndex := updated]\<rparr>) s1))
                          else (Inr appended, s1))))))"

fun appendBatch ::
    "env \<Rightarrow> string \<Rightarrow> Event list \<Rightarrow> MemoryStore \<Rightarrow> Event list result \<times> MemoryStore" where
  "appendBatch E sid [] s = (Inr [], s)"
| "appendBatch E sid (event # rest) s =
     (case appendEventLocked E sid event True s of
        (Inl e, s1) \<Rightarrow> (Inl e, s1)
      | (Inr nxt, s1) \<Rightarrow>
          (case appendBatch (env_from 3 E) sid rest s1 of
             (Inl e, s2) \<Rightarrow> (Inl e, s2)
           | (Inr appended, s2) \<Rightarrow> (Inr (nxt # appended), s2)))"

definition AppendEventBatch ::
    "env \<Rightarrow> string \<Rightarrow> Event list \<Rightarrow> MemoryStore \<Rightarrow> Event list result \<times> MemoryStore" where
  "AppendEventBatch E sid batch s =
     (case m_sessions s sid of
        None \<Rightarrow> (fail ErrInvalidJoinCode ''session not found'' False, s)
      | Some session \<Rightarrow>
     if sessionExpired (clock_at E 0) session
     then (fail ErrTerminalSession ''session is expired'' False,
           snd (expireSessionLocked (env_from 1 E) sid s))
     else if int (length batch) > lim_EventBatch (ses_Limits session)
     then (fail ErrTooManyEvents ''event batch is too large'' True, s)
     else appendBatch (env_from 1 E) sid batch s)"

definition clampLimit :: "Session \<Rightarrow> gint \<Rightarrow> gint" where
  "clampLimit session limit =
     (if limit \<le> 0 \<or> limit > lim_EventBatch (ses_Limits session)
      then lim_EventBatch (ses_Limits session) else limit)"

definition zero_replay :: EventReplayState where
  "zero_replay = \<lparr>er_SnapshotRequired = False, er_SnapshotSeq = 0, er_LastSeq = 0,
     er_RetryAfterMS = 0, er_Reconnecting = False\<rparr>"

definition replay_of :: "Session \<Rightarrow> EventReplayState" where
  "replay_of session =
     zero_replay\<lparr>er_SnapshotSeq := ses_SnapshotSeq session, er_LastSeq := ses_LastSeq session,
                 er_RetryAfterMS := ses_RetryAfterMS session\<rparr>"

text \<open>The polling methods return the replay state also with an error.\<close>

type_synonym 'a poll = "(error \<times> EventReplayState) + 'a"

abbreviation poll_fail ::
    "ErrorCode \<Rightarrow> string \<Rightarrow> bool \<Rightarrow> EventReplayState \<Rightarrow> 'a poll" where
  "poll_fail code message recoverable replay \<equiv>
     Inl (ProtoErr (err code message recoverable), replay)"

definition EventsAfter ::
    "env \<Rightarrow> string \<Rightarrow> EventCursor \<Rightarrow> gint \<Rightarrow> MemoryStore
     \<Rightarrow> (Event list \<times> Lease \<times> EventReplayState) poll \<times> MemoryStore" where
  "EventsAfter E sid cursor limit s =
     (case m_sessions s sid of
        None \<Rightarrow> (poll_fail ErrInvalidJoinCode ''session not found'' False zero_replay, s)
      | Some session0 \<Rightarrow>
     (let replay = replay_of session0 in
     if sessionExpired (clock_at E 0) session0
     then (poll_fail ErrTerminalSession ''session is expired'' False replay,
           snd (expireSessionLocked (env_from 1 E) sid s))
     else if sessionTerminal (ses_Status session0)
     then (poll_fail ErrTerminalSession ''session is terminal'' False replay, s)
     else if cu_AfterSeq cursor < ses_SnapshotSeq session0
     then (poll_fail ErrSnapshotRequired ''event cursor is older than compacted snapshot'' True
             (replay\<lparr>er_SnapshotRequired := True\<rparr>), s)
     else
       (case endpointIndexLocked session0 (cu_EndpointID cursor) of
          None \<Rightarrow> (poll_fail ErrEndpointNotFound ''endpoint not found'' True replay, s)
        | Some i \<Rightarrow>
            (let endpoint0 = ses_Endpoints session0 ! i in
             case authorizeLeaseLocked (env_from 1 E) session0 (ep_ID endpoint0)
                    (cu_LeaseSecret cursor) s of
               Inl e \<Rightarrow> (Inl (e, replay), s)
             | Inr reconnecting \<Rightarrow>
                 (let endpoint = endpoint0\<lparr>
                        ep_ReceivedSeq := (if cu_ReceivedSeq cursor > ep_ReceivedSeq endpoint0
                                           then cu_ReceivedSeq cursor else ep_ReceivedSeq endpoint0),
                        ep_ProcessedSeq := (if cu_ProcessedSeq cursor > ep_ProcessedSeq endpoint0
                                            then cu_ProcessedSeq cursor else ep_ProcessedSeq endpoint0),
                        ep_State := (if reconnecting then EndpointStateOnline
                                     else if cu_EndpointState cursor \<noteq> EndpointStateOther []
                                     then cu_EndpointState cursor else ep_State endpoint0),
                        ep_LastSeenAt := clock_at E 2\<rparr>;
                      session1 = (if reconnecting
                                  then session0\<lparr>ses_Status := SessionStatusRecovered\<rparr> else session0);
                      session = WithEndpoint session1 endpoint (clock_at E 3);
                      s1 = put_session sid session s;
                      (lease, s2) = issueLeaseLocked (env_from 4 E) session endpoint 0 0 0 s1;
                      events = visibleEventsLocked sid endpoint (cu_AfterSeq cursor)
                                 (clampLimit session limit) s2
                  in (Inr (events, lease,
                           replay\<lparr>er_Reconnecting := reconnecting,
                                  er_LastSeq := ses_LastSeq (map_get session (m_sessions s2) sid)\<rparr>),
                      s2))))))"

definition PeekEventsAfter ::
    "env \<Rightarrow> string \<Rightarrow> EventCursor \<Rightarrow> gint \<Rightarrow> MemoryStore
     \<Rightarrow> (Event list \<times> Lease \<times> EventReplayState) poll" where
  "PeekEventsAfter E sid cursor limit s =
     (case m_sessions s sid of
        None \<Rightarrow> poll_fail ErrInvalidJoinCode ''session not found'' False zero_replay
      | Some session \<Rightarrow>
     (let replay = replay_of session in
     if sessionExpired (clock_at E 0) session
     then poll_fail ErrTerminalSession ''session is expired'' False replay
     else if sessionTerminal (ses_Status session)
     then poll_fail ErrTerminalSession ''session is terminal'' False replay
     else if cu_AfterSeq cursor < ses_SnapshotSeq session
     then poll_fail ErrSnapshotRequired ''event cursor is older than compacted snapshot'' True
             (replay\<lparr>er_SnapshotRequired := True\<rparr>)
     else
       (case endpointIndexLocked session (cu_EndpointID cursor) of
          None \<Rightarrow> poll_fail ErrEndpointNotFound ''endpoint not found'' True replay
        | Some i \<Rightarrow>
            (let endpoint = ses_Endpoints session ! i in
             case authorizeLeaseLocked (env_from 1 E) session (ep_ID endpoint)
                    (cu_LeaseSecret cursor) s of
               Inl e \<Rightarrow> Inl (e, replay)
             | Inr reconnecting \<Rightarrow>
                 Inr (visibleEventsLocked sid endpoint (cu_AfterSeq cursor)
                        (clampLimit session limit) s,
                      lr_Current (map_get zero_leaseRecord (m_leases s) (ep_ID endpoint)),
                      replay\<lparr>er_Reconnecting := reconnecting\<rparr>)))))"

definition agent_view :: Endpoint where
  "agent_view =
     \<lparr>ep_SchemaVersion = [], ep_ID = [], ep_SessionID = [], ep_Role = EndpointRoleAgent,
      ep_Name = [], ep_Platform = [], ep_IdentityFingerprint = [], ep_Capabilities = [],
      ep_State = EndpointStateOther [], ep_Transport = TransportOther [], ep_ReceivedSeq = 0,
      ep_ProcessedSeq = 0, ep_LastSeenAt = 0, ep_HostVersion = [], ep_HostCommit = []\<rparr>"

definition EventsAfterForAgent ::
    "env \<Rightarrow> string \<Rightarrow> u64 \<Rightarrow> gint \<Rightarrow> MemoryStore
     \<Rightarrow> (Event list \<times> EventReplayState) poll \<times> MemoryStore" where
  "EventsAfterForAgent E sid afterSeq limit s0 =
     (let s = snd (expireSessionLocked E sid s0) in
      case m_sessions s sid of
        None \<Rightarrow> (poll_fail ErrInvalidJoinCode ''session not found'' False zero_replay, s)
      | Some session \<Rightarrow>
          (let replay = replay_of session in
           if afterSeq < ses_SnapshotSeq session
           then (poll_fail ErrSnapshotRequired ''event cursor is older than compacted snapshot'' True
                   (replay\<lparr>er_SnapshotRequired := True\<rparr>), s)
           else (Inr (visibleEventsLocked sid agent_view afterSeq (clampLimit session limit) s,
                      replay), s)))"

definition ValidateLease ::
    "env \<Rightarrow> string \<Rightarrow> string \<Rightarrow> string \<Rightarrow> MemoryStore \<Rightarrow> unit result \<times> MemoryStore" where
  "ValidateLease E sid endpointID secret s =
     (case m_sessions s sid of
        None \<Rightarrow> (fail ErrInvalidJoinCode ''session not found'' False, s)
      | Some session \<Rightarrow>
     if sessionExpired (clock_at E 0) session
     then (fail ErrTerminalSession ''session is expired'' False,
           snd (expireSessionLocked (env_from 1 E) sid s))
     else if sessionTerminal (ses_Status session)
     then (fail ErrTerminalSession ''session is terminal'' False, s)
     else if endpointIndexLocked session endpointID = None
     then (fail ErrEndpointNotFound ''endpoint not found'' True, s)
     else (case authorizeLeaseLocked (env_from 1 E) session endpointID secret s of
             Inl e \<Rightarrow> (Inl e, s)
           | Inr _ \<Rightarrow> (Inr (), s)))"

section \<open>Tasks\<close>

definition task_offer_event :: "Task \<Rightarrow> string \<Rightarrow> Event" where
  "task_offer_event task idempotencyKey =
     zero_Event\<lparr>ev_Type := EventTypeTask, ev_FromEndpointID := ''agent'',
       ev_ToEndpointID := tk_TargetEndpointID task, ev_TaskID := tk_ID task,
       ev_IdempotencyKey := idempotencyKey,
       ev_Payload := Some [''action'' \<mapsto> GString ''offer'', ''adapter'' \<mapsto> GString (tk_Adapter task),
                           ''attempt_id'' \<mapsto> GString (tk_AttemptID task)]\<rparr>"

definition SubmitTask ::
    "env \<Rightarrow> string \<Rightarrow> TaskSpec \<Rightarrow> MemoryStore \<Rightarrow> (Task \<times> Event) result \<times> MemoryStore" where
  "SubmitTask E sid spec s =
     (case m_sessions s sid of
        None \<Rightarrow> (fail ErrInvalidJoinCode ''session not found'' False, s)
      | Some session \<Rightarrow>
     if sessionExpired (clock_at E 0) session
     then (fail ErrTerminalSession ''session is expired'' False,
           snd (expireSessionLocked (env_from 1 E) sid s))
     else if sessionTerminal (ses_Status session)
     then (fail ErrTerminalSession ''session is terminal'' False, s)
     else
       (let idempotencyKey = ''task:'' @ ts_IdempotencyKey spec;
            key = sid @ '':'' @ idempotencyKey
        in case m_taskIdempotency s key of
             Some rec \<Rightarrow> (taskAndEventLocked sid rec s, s)
           | None \<Rightarrow>
               (case routeTaskLocked session spec of
                  Inl e \<Rightarrow> (Inl e, s)
                | Inr target \<Rightarrow>
               (case newID ''task'' (rand_at E 0) of
                  None \<Rightarrow> (Inl RandErr, s)
                | Some taskID \<Rightarrow>
               (case (if ts_AttemptID spec = [] then newID ''attempt'' (rand_at E 1)
                      else Some (ts_AttemptID spec)) of
                  None \<Rightarrow> (Inl RandErr, s)
                | Some attemptID \<Rightarrow>
                    (let task =
                       \<lparr>tk_SchemaVersion = TaskSchemaVersion, tk_ID = taskID, tk_SessionID = sid,
                        tk_TargetEndpointID = ep_ID target,
                        tk_TargetSelector = ts_TargetSelector spec,
                        tk_Adapter = ts_Adapter spec, tk_Intent = ts_Intent spec,
                        tk_Capabilities = ts_Capabilities spec, tk_Payload = ts_Payload spec,
                        tk_Limits = ts_Limits spec, tk_AttemptID = attemptID,
                        tk_IdempotencyKey = ts_IdempotencyKey spec,
                        tk_Status = TaskStatusOffered, tk_CreatedAt = clock_at E 1,
                        tk_StartedAt = None, tk_EndedAt = None\<rparr>
                     in case appendEventLocked (env_from 2 E) sid
                               (task_offer_event task idempotencyKey) True s of
                          (Inl e, s1) \<Rightarrow> (Inl e, s1)
                        | (Inr event, s1) \<Rightarrow>
                            (let session1 = map_get session (m_sessions s1) sid in
                             (Inr (task, event),
                              s1\<lparr>m_sessions := (m_sessions s1)
                                   (sid \<mapsto> session1\<lparr>ses_Tasks := ses_Tasks session1 @ [task]\<rparr>),
                                 m_taskIdempotency := (m_taskIdempotency s1)
                                   (key \<mapsto> \<lparr>tr_TaskID = tk_ID task, tr_EventID = ev_ID event\<rparr>)\<rparr>))))))))"

definition CancelTask ::
    "env \<Rightarrow> string \<Rightarrow> string \<Rightarrow> string \<Rightarrow> string \<Rightarrow> MemoryStore
     \<Rightarrow> (Task \<times> Event) result \<times> MemoryStore" where
  "CancelTask E sid taskID reason idempotencyKey s =
     (if (case m_sessions s sid of None \<Rightarrow> False | Some x \<Rightarrow> sessionExpired (clock_at E 0) x)
      then (fail ErrTerminalSession ''session is expired'' False,
            snd (expireSessionLocked (env_from 1 E) sid s))
      else
        (let key = sid @ '':cancel:'' @ taskID @ '':'' @ idempotencyKey in
         case m_cancelIdempotency s key of
           Some rec \<Rightarrow> (taskAndEventLocked sid rec s, s)
         | None \<Rightarrow>
             (case findTaskLocked sid taskID s of
                Inl e \<Rightarrow> (Inl e, s)
              | Inr (task, index, session) \<Rightarrow>
                  if Task_Terminal task
                  then (fail ErrTaskAlreadyTerminal ''task is already terminal'' False, s)
                  else
                    (case Transition task TaskStatusCanceled (clock_at E 1) of
                       Inl e \<Rightarrow> (Inl e, s)
                     | Inr canceled \<Rightarrow>
                         (case appendEventLocked (env_from 2 E) sid
                                 (zero_Event\<lparr>ev_Type := EventTypeTask, ev_FromEndpointID := ''agent'',
                                    ev_ToEndpointID := tk_TargetEndpointID canceled,
                                    ev_TaskID := tk_ID canceled,
                                    ev_IdempotencyKey := ''cancel:'' @ taskID @ '':'' @ idempotencyKey,
                                    ev_Payload := Some [''action'' \<mapsto> GString ''cancel'',
                                                        ''reason'' \<mapsto> GString reason]\<rparr>) True s of
                            (Inl e, s1) \<Rightarrow> (Inl e, s1)
                          | (Inr event, s1) \<Rightarrow>
                              (let session1 = map_get session (m_sessions s1) sid in
                               (Inr (canceled, event),
                                s1\<lparr>m_sessions := (m_sessions s1)
                                     (sid \<mapsto> session1\<lparr>ses_Tasks := (ses_Tasks session1)[index := canceled]\<rparr>),
                                   m_cancelIdempotency := (m_cancelIdempotency s1)
                                     (key \<mapsto> \<lparr>tr_TaskID = tk_ID canceled, tr_EventID = ev_ID event\<rparr>)\<rparr>)))))))"

text \<open>
  ResumeTask checks and reads the source task under the lock, releases it, and submits a new task.
  The first part only ever changes the store by closing an expired session.
\<close>

definition ResumeTask_prepare ::
    "env \<Rightarrow> string \<Rightarrow> string \<Rightarrow> string \<Rightarrow> string \<Rightarrow> MemoryStore
     \<Rightarrow> TaskSpec result \<times> MemoryStore" where
  "ResumeTask_prepare E sid taskID checkpointID0 idempotencyKey0 s =
     (let checkpointID = TrimSpace checkpointID0; idempotencyKey = TrimSpace idempotencyKey0 in
      if checkpointID = [] \<or> idempotencyKey = []
      then (fail ErrInvalidTask ''resume checkpoint id and idempotency key are required'' False, s)
      else if length checkpointID > 256 \<or> length idempotencyKey > 256
      then (fail ErrInvalidTask ''resume checkpoint id or idempotency key is too long'' False, s)
      else if (case m_sessions s sid of None \<Rightarrow> False | Some x \<Rightarrow> sessionExpired (clock_at E 0) x)
      then (fail ErrTerminalSession ''session is expired'' False,
            snd (expireSessionLocked (env_from 1 E) sid s))
      else
        (case findTaskLocked sid taskID s of
           Inl e \<Rightarrow> (Inl e, s)
         | Inr (source, _, _) \<Rightarrow>
             if tk_Status source \<noteq> TaskStatusPaused \<and> \<not> Task_Terminal source
             then (fail ErrInvalidTask ''only a paused or terminal task can be resumed'' False, s)
             else
               (case tk_Payload source of
                  None \<Rightarrow> (fail ErrInvalidTask
                            ''task does not carry an engineering checkpoint contract'' False, s)
                | Some m \<Rightarrow>
                    if (case m ''engineering_task'' of None \<Rightarrow> True | Some GNil \<Rightarrow> True | Some _ \<Rightarrow> False)
                    then (fail ErrInvalidTask
                            ''task does not carry an engineering checkpoint contract'' False, s)
                    else
                      (Inr \<lparr>ts_TargetEndpointID = tk_TargetEndpointID source,
                            ts_TargetSelector = tk_TargetSelector source,
                            ts_Adapter = tk_Adapter source, ts_Intent = tk_Intent source,
                            ts_Capabilities = tk_Capabilities source,
                            ts_Payload = Some (m(
                              ''engineering_resume_checkpoint_id'' \<mapsto> GString checkpointID,
                              ''engineering_resume_task_id'' \<mapsto> GString (tk_ID source))),
                            ts_Limits = tk_Limits source, ts_AttemptID = [],
                            ts_IdempotencyKey = ''resume:'' @ tk_ID source @ '':'' @ checkpointID
                              @ '':'' @ idempotencyKey\<rparr>, s))))"

definition ResumeTask ::
    "env \<Rightarrow> string \<Rightarrow> string \<Rightarrow> string \<Rightarrow> string \<Rightarrow> MemoryStore
     \<Rightarrow> (Task \<times> Event) result \<times> MemoryStore" where
  "ResumeTask E sid taskID checkpointID idempotencyKey s =
     (case ResumeTask_prepare E sid taskID checkpointID idempotencyKey s of
        (Inl e, s1) \<Rightarrow> (Inl e, s1)
      | (Inr spec, s1) \<Rightarrow> SubmitTask (env_from 10 E) sid spec s1)"

definition CompleteTask ::
    "env \<Rightarrow> string \<Rightarrow> string \<Rightarrow> payload \<Rightarrow> MemoryStore
     \<Rightarrow> (Task \<times> Event) result \<times> MemoryStore" where
  "CompleteTask E sid taskID result s =
     (if (case m_sessions s sid of None \<Rightarrow> False | Some x \<Rightarrow> sessionExpired (clock_at E 0) x)
      then (fail ErrTerminalSession ''session is expired'' False,
            snd (expireSessionLocked (env_from 1 E) sid s))
      else
        (case findTaskLocked sid taskID s of
           Inl e \<Rightarrow> (Inl e, s)
         | Inr (task0, index, session) \<Rightarrow>
             (let attempt0 = stringMapValue E result ''attempt_id'';
                  attemptID = (if attempt0 = [] then tk_AttemptID task0 else attempt0);
                  idempotencyKey = stringMapValue E result ''idempotency_key'';
                  resultKey = sid @ '':result:'' @ taskID @ '':'' @ attemptID @ '':'' @ idempotencyKey
              in case m_resultIdempotency s resultKey of
                   Some rec \<Rightarrow> (taskAndEventLocked sid rec s, s)
                 | None \<Rightarrow>
                     if sessionTerminal (ses_Status session)
                        \<and> \<not> inTerminalGrace (env_from 1 E) session s
                     then (fail ErrTerminalSession ''terminal session result grace elapsed'' False, s)
                     else if Task_Terminal task0
                     then (fail ErrTaskAlreadyTerminal ''task is already terminal'' False, s)
                     else if attemptID \<noteq> tk_AttemptID task0
                     then (fail ErrTaskNotFound ''task attempt does not match'' False, s)
                     else
                       (case (if tk_Status task0 = TaskStatusOffered
                              then Transition task0 TaskStatusRunning (clock_at E 2)
                              else Inr task0) of
                          Inl e \<Rightarrow> (Inl e, s)
                        | Inr task \<Rightarrow>
                            (let status = stringMapValue E result ''status'';
                                 nextStatus = (if status = TaskStatus_str TaskStatusFailed
                                               then TaskStatusFailed
                                               else if status = TaskStatus_str TaskStatusCanceled
                                               then TaskStatusCanceled else TaskStatusSucceeded)
                             in case Transition task nextStatus (clock_at E 3) of
                                  Inl e \<Rightarrow> (Inl e, s)
                                | Inr completed \<Rightarrow>
                                    (case appendEventLocked (env_from 4 E) sid
                                            (zero_Event\<lparr>ev_Type := EventTypeTaskResult,
                                               ev_FromEndpointID := tk_TargetEndpointID completed,
                                               ev_TaskID := tk_ID completed,
                                               ev_IdempotencyKey := ''result:'' @ taskID @ '':'' @ attemptID
                                                 @ '':'' @ idempotencyKey,
                                               ev_Payload := result\<rparr>) True s of
                                       (Inl e, s1) \<Rightarrow> (Inl e, s1)
                                     | (Inr event, s1) \<Rightarrow>
                                         (let session1 = map_get session (m_sessions s1) sid in
                                          (Inr (completed, event),
                                           s1\<lparr>m_sessions := (m_sessions s1)
                                                (sid \<mapsto> session1\<lparr>ses_Tasks :=
                                                   (ses_Tasks session1)[index := completed]\<rparr>),
                                              m_resultIdempotency := (m_resultIdempotency s1)
                                                (resultKey \<mapsto> \<lparr>tr_TaskID = tk_ID completed,
                                                               tr_EventID = ev_ID event\<rparr>)\<rparr>))))))))"

definition MarkTaskRunning ::
    "env \<Rightarrow> string \<Rightarrow> string \<Rightarrow> MemoryStore \<Rightarrow> Task result \<times> MemoryStore" where
  "MarkTaskRunning E sid taskID s =
     (if (case m_sessions s sid of None \<Rightarrow> False | Some x \<Rightarrow> sessionExpired (clock_at E 0) x)
      then (fail ErrTerminalSession ''session is expired'' False,
            snd (expireSessionLocked (env_from 1 E) sid s))
      else
        (case findTaskLocked sid taskID s of
           Inl e \<Rightarrow> (Inl e, s)
         | Inr (task, index, session) \<Rightarrow>
             (case Transition task TaskStatusRunning (clock_at E 1) of
                Inl e \<Rightarrow> (Inl e, s)
              | Inr running \<Rightarrow>
                  (Inr running,
                   put_session sid (session\<lparr>ses_Tasks := (ses_Tasks session)[index := running]\<rparr>) s))))"

section \<open>Artifacts\<close>

definition bool_str :: "bool \<Rightarrow> string" where
  "bool_str b = (if b then ''true'' else ''false'')"

definition artifact_event :: "ArtifactRef \<Rightarrow> Event" where
  "artifact_event ref =
     zero_Event\<lparr>ev_Type := EventTypeArtifact, ev_FromEndpointID := ''artifact'',
       ev_TaskID := art_TaskID ref,
       ev_IdempotencyKey := ''artifact:'' @ art_ID ref @ '':'' @ dec_int (art_UploadOffset ref)
         @ '':'' @ bool_str (art_Complete ref),
       ev_Payload := Some [''id'' \<mapsto> GString (art_ID ref), ''task_id'' \<mapsto> GString (art_TaskID ref),
         ''upload_offset'' \<mapsto> GInt64 (art_UploadOffset ref),
         ''complete'' \<mapsto> GBool (art_Complete ref), ''sha256'' \<mapsto> GString (art_SHA256 ref)]\<rparr>"

definition UpsertArtifact_commit ::
    "env \<Rightarrow> string \<Rightarrow> ArtifactRef \<Rightarrow> Session \<Rightarrow> MemoryStore
     \<Rightarrow> (ArtifactRef \<times> Event) result \<times> MemoryStore" where
  "UpsertArtifact_commit E sid ref session s =
     (case appendEventLocked (env_from 1 E) sid (artifact_event ref) True s of
        (Inl e, s1) \<Rightarrow> (Inl e, s1)
      | (Inr event, s1) \<Rightarrow>
          (let current = map_get session (m_sessions s1) sid in
           (Inr (ref, event),
            put_session sid
              (current\<lparr>ses_Artifacts :=
                 upsert_first (\<lambda>a. art_ID a = art_ID ref) ref (ses_Artifacts session)\<rparr>) s1)))"

definition UpsertArtifact ::
    "env \<Rightarrow> string \<Rightarrow> ArtifactRef \<Rightarrow> MemoryStore \<Rightarrow> (ArtifactRef \<times> Event) result \<times> MemoryStore" where
  "UpsertArtifact E sid ref0 s =
     (case m_sessions s sid of
        None \<Rightarrow> (fail ErrInvalidJoinCode ''session not found'' False, s)
      | Some session \<Rightarrow>
     if sessionExpired (clock_at E 0) session
     then (fail ErrTerminalSession ''session is expired'' False,
           snd (expireSessionLocked (env_from 1 E) sid s))
     else
       (case (if art_ID ref0 = [] then newID ''art'' (rand_at E 0) else Some (art_ID ref0)) of
          None \<Rightarrow> (Inl RandErr, s)
        | Some ident \<Rightarrow>
            if art_Complete ref0 \<and> length (art_SHA256 ref0) \<noteq> 64
            then (fail ErrChecksumMismatch ''complete artifact requires sha256'' True, s)
            else
              (let ref = ref0\<lparr>art_ID := ident, art_SchemaVersion := ArtifactRefSchemaVersion,
                              art_SessionID := sid\<rparr>
               in case find (\<lambda>a. art_ID a = art_ID ref) (ses_Artifacts session) of
                    Some existing \<Rightarrow>
                      if art_UploadOffset ref < art_UploadOffset existing
                      then (fail ErrArtifactOffsetMismatch
                              ''artifact upload offset moved backwards'' True, s)
                      else UpsertArtifact_commit E sid ref session s
                  | None \<Rightarrow> UpsertArtifact_commit E sid ref session s)))"

section \<open>Ending a session\<close>

definition terminateSessionLocked ::
    "env \<Rightarrow> string \<Rightarrow> SessionStatus \<Rightarrow> string \<Rightarrow> MemoryStore
     \<Rightarrow> (Session \<times> Event) result \<times> MemoryStore" where
  "terminateSessionLocked E sid status idempotencyKey s =
     (case m_sessions s sid of
        None \<Rightarrow> (fail ErrInvalidJoinCode ''session not found'' False, s)
      | Some session0 \<Rightarrow>
          (case appendEventLocked E sid
                  (zero_Event\<lparr>ev_Type := EventTypeClose, ev_FromEndpointID := ''gateway.lifecycle'',
                     ev_IdempotencyKey := idempotencyKey\<rparr>) True s of
             (Inl e, s1) \<Rightarrow> (Inl e, s1)
           | (Inr event, s1) \<Rightarrow>
               (let session1 = map_get session0 (m_sessions s1) sid;
                    now = clock_at E 3;
                    session = (revokeEndpoints now session1)\<lparr>ses_Status := status,
                                                              ses_UpdatedAt := now\<rparr>
                in (Inr (session, event),
                    s1\<lparr>m_leases := dropLeases (ses_Endpoints session1) (m_leases s1),
                       m_sessions := (m_sessions s1)(sid \<mapsto> session),
                       m_terminalAt := (m_terminalAt s1)(sid \<mapsto> now)\<rparr>))))"

definition CloseSession ::
    "env \<Rightarrow> string \<Rightarrow> MemoryStore \<Rightarrow> (Session \<times> Event) result \<times> MemoryStore" where
  "CloseSession E sid s = terminateSessionLocked E sid SessionStatusClosed (''close:'' @ sid) s"

definition RevokeSession ::
    "env \<Rightarrow> string \<Rightarrow> MemoryStore \<Rightarrow> (Session \<times> Event) result \<times> MemoryStore" where
  "RevokeSession E sid s =
     (case m_sessions s sid of
        None \<Rightarrow> (fail ErrInvalidJoinCode ''session not found'' False, s)
      | Some session \<Rightarrow>
          if ses_Status session = SessionStatusRevoked then (Inr (session, zero_Event), s)
          else terminateSessionLocked E sid SessionStatusRevoked (''revoke:'' @ sid) s)"

definition CompactEvents :: "string \<Rightarrow> u64 \<Rightarrow> MemoryStore \<Rightarrow> unit result \<times> MemoryStore" where
  "CompactEvents sid snapshotSeq s =
     (case m_sessions s sid of
        None \<Rightarrow> (fail ErrInvalidJoinCode ''session not found'' False, s)
      | Some session \<Rightarrow>
          (Inr (),
           s\<lparr>m_events := (m_events s)(sid \<mapsto> filter (\<lambda>e. ev_Seq e \<ge> snapshotSeq) (events_of s sid)),
             m_sessions := (m_sessions s)(sid \<mapsto> session\<lparr>ses_SnapshotSeq := snapshotSeq\<rparr>)\<rparr>))"

section \<open>The host directory\<close>

text \<open>
  Both methods range over a map, in an order Go leaves open: \<open>order\<close> lists the keys as the
  loop meets them.
\<close>

definition hosts_in_order :: "string list \<Rightarrow> MemoryStore \<Rightarrow> Host list" where
  "hosts_in_order order s = List.map_filter (m_hosts s) order"

definition Hosts :: "string list \<Rightarrow> MemoryStore \<Rightarrow> Host list" where
  "Hosts order s = sort_key (\<lambda>h. - ho_LastSeenAt h) (hosts_in_order order s)"

definition MaxHostDisplayNameLength :: nat where "MaxHostDisplayNameLength = 64"

text \<open>The verb q of fmt on a text that needs no escapes.\<close>

definition quoted :: "string \<Rightarrow> string" where
  "quoted t = char_of (34::nat) # t @ [char_of (34::nat)]"

definition RenameHost ::
    "string list \<Rightarrow> string \<Rightarrow> string \<Rightarrow> MemoryStore \<Rightarrow> Host result \<times> MemoryStore" where
  "RenameHost order hostID displayName0 s =
     (let displayName = TrimSpace displayName0 in
      if displayName = [] then (Inl (TextErr ''display_name is required''), s)
      else if length displayName > MaxHostDisplayNameLength
      then (Inl (TextErr (''display_name exceeds '' @ dec_int (int MaxHostDisplayNameLength)
                          @ '' characters'')), s)
      else if list_ex (\<lambda>c. c \<in> {char_of (13::nat), char_of (10::nat), char_of (9::nat)}) displayName
      then (Inl (TextErr ''display_name must not contain control characters''), s)
      else
        (case find (\<lambda>fingerprint. case m_hosts s fingerprint of
                       None \<Rightarrow> False | Some h \<Rightarrow> ho_HostID h = hostID) order of
           None \<Rightarrow> (Inl (TextErr (''host '' @ quoted hostID @ '' not found'')), s)
         | Some fingerprint \<Rightarrow>
             (case m_hosts s fingerprint of
                None \<Rightarrow> (Inl (TextErr (''host '' @ quoted hostID @ '' not found'')), s)
              | Some h \<Rightarrow>
                  (let h' = h\<lparr>ho_DisplayName := displayName\<rparr> in
                   (Inr h', s\<lparr>m_hosts := (m_hosts s)(fingerprint \<mapsto> h')\<rparr>)))))"

end
