(* ===== verification/Store_Contract.thy ===== *)
theory Store_Contract
  imports Store_Ops
begin

text \<open>
  The contract every store operation keeps. \<open>session_wf\<close> is the well-formedness of one session
  and its log, \<open>session_le\<close> says how a session may change over time, and
  \<open>evolves sid s t\<close> combines them: the step from s to t touches no session but \<open>sid\<close>, changes
  that session monotonically, and keeps it well-formed. The contract is reflexive and transitive,
  so a method satisfies it when each of its parts does.
\<close>

section \<open>Tasks and sessions over time\<close>

definition task_le :: "Task \<Rightarrow> Task \<Rightarrow> bool" where
  "task_le t u \<longleftrightarrow>
     tk_ID u = tk_ID t \<and> tk_SessionID u = tk_SessionID t
     \<and> tk_TargetEndpointID u = tk_TargetEndpointID t \<and> tk_Capabilities u = tk_Capabilities t
     \<and> tk_Payload u = tk_Payload t \<and> tk_AttemptID u = tk_AttemptID t
     \<and> validTaskTransition\<^sup>*\<^sup>* (tk_Status t) (tk_Status u)
     \<and> (Task_Terminal t \<longrightarrow> u = t)"

definition tasks_le :: "Task list \<Rightarrow> Task list \<Rightarrow> bool" where
  "tasks_le xs ys \<longleftrightarrow> length xs \<le> length ys \<and> (\<forall>i < length xs. task_le (xs ! i) (ys ! i))"

definition arts_le :: "ArtifactRef list \<Rightarrow> ArtifactRef list \<Rightarrow> bool" where
  "arts_le xs ys \<longleftrightarrow>
     (\<forall>a \<in> set xs. \<exists>b \<in> set ys. art_ID b = art_ID a \<and> art_UploadOffset a \<le> art_UploadOffset b)"

definition session_le :: "Session \<Rightarrow> Session \<Rightarrow> bool" where
  "session_le x y \<longleftrightarrow>
     ses_ID y = ses_ID x \<and> ses_JoinCode y = ses_JoinCode x
     \<and> ses_JoinPolicy y = ses_JoinPolicy x \<and> ses_Capabilities y = ses_Capabilities x
     \<and> ses_Limits y = ses_Limits x \<and> ses_ExpiresAt y = ses_ExpiresAt x
     \<and> (sessionTerminal (ses_Status x) \<longrightarrow> sessionTerminal (ses_Status y))
     \<and> ses_LastSeq x \<le> ses_LastSeq y
     \<and> tasks_le (ses_Tasks x) (ses_Tasks y) \<and> arts_le (ses_Artifacts x) (ses_Artifacts y)"

lemma task_le_refl [simp]: "task_le t t"
  by (simp add: task_le_def)

lemma task_le_trans: "task_le t u \<Longrightarrow> task_le u v \<Longrightarrow> task_le t v"
  unfolding task_le_def by (auto intro: rtranclp_trans)

lemma tasks_le_refl [simp]: "tasks_le xs xs"
  by (simp add: tasks_le_def)

lemma tasks_le_trans: "tasks_le xs ys \<Longrightarrow> tasks_le ys zs \<Longrightarrow> tasks_le xs zs"
  unfolding tasks_le_def by (auto intro: task_le_trans)

lemma tasks_le_append [simp]: "tasks_le xs (xs @ ys)"
  by (simp add: tasks_le_def nth_append)

lemma tasks_le_update: "task_le (xs ! i) t \<Longrightarrow> tasks_le xs (xs[i := t])"
  by (cases "i < length xs") (auto simp: tasks_le_def nth_list_update)

lemma tasks_le_map: "(\<And>t. task_le t (f t)) \<Longrightarrow> tasks_le xs (map f xs)"
  by (simp add: tasks_le_def)

lemma arts_le_refl [simp]: "arts_le xs xs"
  by (auto simp: arts_le_def)

lemma arts_le_trans:
  assumes "arts_le xs ys" and "arts_le ys zs"
  shows "arts_le xs zs"
  unfolding arts_le_def
proof
  fix a
  assume "a \<in> set xs"
  with assms(1) obtain b where b: "b \<in> set ys" "art_ID b = art_ID a"
      "art_UploadOffset a \<le> art_UploadOffset b"
    by (auto simp: arts_le_def)
  with assms(2) obtain c where "c \<in> set zs" "art_ID c = art_ID b"
      "art_UploadOffset b \<le> art_UploadOffset c"
    by (auto simp: arts_le_def)
  with b show "\<exists>b \<in> set zs. art_ID b = art_ID a \<and> art_UploadOffset a \<le> art_UploadOffset b"
    by force
qed

lemma session_le_refl [simp]: "session_le x x"
  by (simp add: session_le_def)

lemma session_le_trans: "session_le x y \<Longrightarrow> session_le y z \<Longrightarrow> session_le x z"
  unfolding session_le_def by (auto intro: tasks_le_trans arts_le_trans order_trans)

text \<open>A successful transition is one move of the state machine.\<close>

lemma Transition_Inr:
  assumes "Transition t nxt now = Inr u"
  shows "\<not> Task_Terminal t \<and> validTaskTransition (tk_Status t) nxt \<and> tk_Status u = nxt
    \<and> tk_ID u = tk_ID t \<and> tk_SessionID u = tk_SessionID t
    \<and> tk_TargetEndpointID u = tk_TargetEndpointID t \<and> tk_Capabilities u = tk_Capabilities t
    \<and> tk_Payload u = tk_Payload t \<and> tk_AttemptID u = tk_AttemptID t"
  using assms by (auto simp: Transition_def Let_def split: if_splits)

lemma Transition_task_le: "Transition t nxt now = Inr u \<Longrightarrow> task_le t u"
  by (drule Transition_Inr) (auto simp: task_le_def)

lemma cancelLiveTask_le: "task_le t (cancelLiveTask now t)"
  by (auto simp: cancelLiveTask_def intro: Transition_task_le split: sum.splits)

section \<open>Well-formed sessions\<close>

definition closing_type :: "EventType \<Rightarrow> bool" where
  "closing_type ty \<longleftrightarrow> ty = EventTypeTaskResult \<or> ty = EventTypeArtifact \<or> ty = EventTypeClose"

text \<open>
  A role is regular when it is written with the constructor of its text and its text has no
  separator of endpointIdentityKey.
\<close>

definition EndpointRole_of :: "string \<Rightarrow> EndpointRole" where
  "EndpointRole_of r =
     (if r = ''target'' then EndpointRoleTarget
      else if r = ''agent'' then EndpointRoleAgent
      else if r = ''operator'' then EndpointRoleOperator
      else if r = ''gateway'' then EndpointRoleGateway
      else if r = ''worker'' then EndpointRoleWorker
      else if r = ''workspace'' then EndpointRoleWorkspace
      else if r = ''adapter'' then EndpointRoleAdapter
      else EndpointRoleOther r)"

definition role_ok :: "EndpointRole \<Rightarrow> bool" where
  "role_ok r \<longleftrightarrow> EndpointRole_of (EndpointRole_str r) = r \<and> CHR ''|'' \<notin> set (EndpointRole_str r)"

definition endpoint_wf :: "Session \<Rightarrow> Endpoint \<Rightarrow> bool" where
  "endpoint_wf x e \<longleftrightarrow>
     ep_ID e \<noteq> [] \<and> ep_SessionID e = ses_ID x \<and> role_ok (ep_Role e)
     \<and> constrainedEndpointCapabilities x (ep_Role e) (ep_Capabilities e) [] = ep_Capabilities e"

definition log_wf :: "string \<Rightarrow> u64 \<Rightarrow> Event list \<Rightarrow> bool" where
  "log_wf sid lastSeq evs \<longleftrightarrow>
     (\<forall>e \<in> set evs. ev_SessionID e = sid \<and> ev_Seq e \<le> lastSeq)
     \<and> sorted_wrt (<) (map ev_Seq evs)"

definition targets :: "Endpoint list \<Rightarrow> Endpoint list" where
  "targets eps = filter (\<lambda>e. ep_Role e = EndpointRoleTarget) eps"

definition ended_wf :: "Session \<Rightarrow> bool" where
  "ended_wf x \<longleftrightarrow> (sessionTerminal (ses_Status x) \<longrightarrow>
     (\<forall>e \<in> set (ses_Endpoints x). ep_State e = EndpointStateRevoked)
     \<and> closing_type (ev_Type (ses_LatestEvent x)))"

definition session_wf :: "string \<Rightarrow> Session \<Rightarrow> Event list \<Rightarrow> bool" where
  "session_wf sid x evs \<longleftrightarrow>
     ses_ID x = sid \<and> sid \<noteq> [] \<and> ses_JoinCode x \<noteq> [] \<and> log_wf sid (ses_LastSeq x) evs \<and> ended_wf x
     \<and> (\<forall>e \<in> set (ses_Endpoints x). endpoint_wf x e) \<and> distinct (map ep_ID (ses_Endpoints x))
     \<and> (ses_JoinPolicy x = ''single-target'' \<longrightarrow> length (targets (ses_Endpoints x)) \<le> 1)
     \<and> (\<forall>t \<in> set (ses_Tasks x). tk_SessionID t = sid)"

text \<open>
  Idempotency records exist only for sessions of the store, and the records that CloseSession and
  RevokeSession leave behind only for sessions that have ended.
\<close>

definition lifecycle_keys :: "string \<Rightarrow> idempotencyKey set" where
  "lifecycle_keys sid =
     {\<lparr>ik_SessionID = sid, ik_FromEndpointID = ''gateway.lifecycle'', ik_Key = ''close:'' @ sid\<rparr>,
      \<lparr>ik_SessionID = sid, ik_FromEndpointID = ''gateway.lifecycle'', ik_Key = ''revoke:'' @ sid\<rparr>}"

definition local_wf :: "string \<Rightarrow> MemoryStore \<Rightarrow> bool" where
  "local_wf sid s \<longleftrightarrow>
     (case m_sessions s sid of
        None \<Rightarrow> m_events s sid = None \<and> (\<forall>k. ik_SessionID k = sid \<longrightarrow> m_idempotency s k = None)
      | Some x \<Rightarrow> m_events s sid \<noteq> None \<and> session_wf sid x (events_of s sid)
          \<and> (sessionTerminal (ses_Status x)
             \<or> (\<forall>k \<in> lifecycle_keys sid. m_idempotency s k = None)))"

definition store_wf :: "MemoryStore \<Rightarrow> bool" where
  "store_wf s \<longleftrightarrow>
     (\<forall>sid. local_wf sid s)
     \<and> (\<forall>code sid. m_joinCodes s code = Some sid \<longleftrightarrow>
          (\<exists>x. m_sessions s sid = Some x \<and> ses_JoinCode x = code))"

section \<open>The contract\<close>

definition only_session :: "string \<Rightarrow> MemoryStore \<Rightarrow> MemoryStore \<Rightarrow> bool" where
  "only_session sid s t \<longleftrightarrow>
     m_joinCodes t = m_joinCodes s
     \<and> (\<forall>sid'. sid' \<noteq> sid \<longrightarrow> m_sessions t sid' = m_sessions s sid' \<and> m_events t sid' = m_events s sid')
     \<and> (\<forall>k. ik_SessionID k \<noteq> sid \<longrightarrow> m_idempotency t k = m_idempotency s k)"

definition session_evolves :: "string \<Rightarrow> MemoryStore \<Rightarrow> MemoryStore \<Rightarrow> bool" where
  "session_evolves sid s t \<longleftrightarrow>
     rel_option session_le (m_sessions s sid) (m_sessions t sid)"

definition evolves :: "string \<Rightarrow> MemoryStore \<Rightarrow> MemoryStore \<Rightarrow> bool" where
  "evolves sid s t \<longleftrightarrow>
     only_session sid s t \<and> session_evolves sid s t \<and> (local_wf sid s \<longrightarrow> local_wf sid t)"

lemma evolves_refl [simp, intro]: "evolves sid s s"
  by (simp add: evolves_def only_session_def session_evolves_def option.rel_refl)

lemma evolves_trans [trans]:
  assumes "evolves sid s t" and "evolves sid t u"
  shows "evolves sid s u"
proof -
  have "session_evolves sid s u"
    using assms unfolding evolves_def session_evolves_def
    by (auto simp: option_rel_Some1 option_rel_Some2 intro: session_le_trans
        elim!: option.rel_cases)
  with assms show ?thesis by (auto simp: evolves_def only_session_def)
qed

text \<open>Fields outside the contract can change freely.\<close>

lemma evolves_frame:
  assumes "m_sessions t = m_sessions s" "m_joinCodes t = m_joinCodes s"
    "m_events t = m_events s" "m_idempotency t = m_idempotency s"
  shows "evolves sid s t"
  using assms
  by (auto simp: evolves_def only_session_def session_evolves_def local_wf_def option.rel_refl
      split: option.splits)

lemma evolves_frame_right:
  assumes "evolves sid s t" "m_sessions t' = m_sessions t" "m_joinCodes t' = m_joinCodes t"
    "m_events t' = m_events t" "m_idempotency t' = m_idempotency t"
  shows "evolves sid s t'"
  using assms(1) evolves_frame [OF assms(2-5)] by (rule evolves_trans)

text \<open>Replacing a session record.\<close>

lemma evolves_put:
  assumes x: "m_sessions s sid = Some x" and le: "session_le x y"
    and wf: "local_wf sid s \<Longrightarrow> session_wf sid x (events_of s sid) \<Longrightarrow> session_wf sid y (events_of s sid)"
  shows "evolves sid s (put_session sid y s)"
proof -
  have "local_wf sid (put_session sid y s)" if "local_wf sid s"
    using that wf x le by (auto simp: local_wf_def session_le_def)
  with x le show ?thesis
    by (auto simp: evolves_def only_session_def session_evolves_def)
qed

lemma local_wf_session: "local_wf sid s \<Longrightarrow> m_sessions s sid = Some x \<Longrightarrow> session_wf sid x (events_of s sid)"
  by (simp add: local_wf_def)

lemma store_wf_evolves:
  assumes wf: "store_wf s" and ev: "evolves sid s t"
  shows "store_wf t"
proof -
  have "local_wf sid' t" for sid'
  proof (cases "sid' = sid")
    case True
    with wf ev show ?thesis by (auto simp: store_wf_def evolves_def)
  next
    case False
    then have "\<forall>k. ik_SessionID k = sid' \<longrightarrow> m_idempotency t k = m_idempotency s k"
      using ev by (auto simp: evolves_def only_session_def)
    moreover have "\<forall>k \<in> lifecycle_keys sid'. ik_SessionID k = sid'"
      by (auto simp: lifecycle_keys_def)
    moreover have "local_wf sid' s" using wf by (simp add: store_wf_def)
    ultimately show ?thesis using False ev
      by (auto simp: local_wf_def evolves_def only_session_def map_get_def split: option.splits)
  qed
  moreover have "(\<exists>x. m_sessions t sid' = Some x \<and> ses_JoinCode x = code)
      \<longleftrightarrow> (\<exists>x. m_sessions s sid' = Some x \<and> ses_JoinCode x = code)" for sid' code
  proof (cases "sid' = sid")
    case True
    with ev show ?thesis
      unfolding evolves_def session_evolves_def
      by (auto simp: session_le_def elim!: option.rel_cases)
  next
    case False
    with ev show ?thesis by (auto simp: evolves_def only_session_def)
  qed
  ultimately show ?thesis using wf ev
    by (auto simp: store_wf_def evolves_def only_session_def)
qed

definition store_le :: "MemoryStore \<Rightarrow> MemoryStore \<Rightarrow> bool" where
  "store_le s t \<longleftrightarrow>
     (\<forall>sid x. m_sessions s sid = Some x \<longrightarrow> (\<exists>y. m_sessions t sid = Some y \<and> session_le x y))"

lemma store_le_refl: "store_le s s"
  by (simp add: store_le_def)

lemma store_le_trans: "store_le s t \<Longrightarrow> store_le t u \<Longrightarrow> store_le s u"
  unfolding store_le_def by (meson session_le_trans)

lemma store_le_evolves: "evolves sid s t \<Longrightarrow> store_le s t"
  unfolding store_le_def
proof (intro allI impI)
  fix sid' x
  assume ev: "evolves sid s t" and x: "m_sessions s sid' = Some x"
  show "\<exists>y. m_sessions t sid' = Some y \<and> session_le x y"
  proof (cases "sid' = sid")
    case True
    with ev x show ?thesis
      by (auto simp: evolves_def session_evolves_def option_rel_Some1)
  next
    case False
    with ev x show ?thesis by (auto simp: evolves_def only_session_def)
  qed
qed

end
