(* ===== verification/Event_Log.thy ===== *)
theory Event_Log
  imports Store_Contract
begin

text \<open>
  The event log: what appendEventLocked does on each of its branches, that it keeps the store's
  contract, and what the visibility filter and compaction promise to a polling endpoint.
\<close>

section \<open>Appending\<close>

lemma WithEvent_simps [simp]:
  "ses_ID (WithEvent x e now) = ses_ID x"
  "ses_JoinCode (WithEvent x e now) = ses_JoinCode x"
  "ses_JoinPolicy (WithEvent x e now) = ses_JoinPolicy x"
  "ses_Capabilities (WithEvent x e now) = ses_Capabilities x"
  "ses_Limits (WithEvent x e now) = ses_Limits x"
  "ses_ExpiresAt (WithEvent x e now) = ses_ExpiresAt x"
  "ses_Status (WithEvent x e now) = ses_Status x"
  "ses_Endpoints (WithEvent x e now) = ses_Endpoints x"
  "ses_Tasks (WithEvent x e now) = ses_Tasks x"
  "ses_Artifacts (WithEvent x e now) = ses_Artifacts x"
  "ses_NotifyURL (WithEvent x e now) = ses_NotifyURL x"
  "ses_SnapshotSeq (WithEvent x e now) = ses_SnapshotSeq x"
  "ses_ReconnectGraceMS (WithEvent x e now) = ses_ReconnectGraceMS x"
  "ev_Type (ses_LatestEvent (WithEvent x e now)) = ev_Type e"
  "ses_LastSeq (WithEvent x e now) = (if ev_Seq e > ses_LastSeq x then ev_Seq e else ses_LastSeq x)"
  by (simp_all add: WithEvent_def Let_def)

text \<open>The session record that commitEvent writes.\<close>

definition logged_session :: "env \<Rightarrow> Session \<Rightarrow> Event \<Rightarrow> Session" where
  "logged_session E x e =
     WithEvent (if ev_Type e = EventTypeGateway \<and> selectedGatewayURLFromEvent E e \<noteq> []
                then x\<lparr>ses_SelectedGatewayURL := selectedGatewayURLFromEvent E e\<rparr> else x)
       e (clock_at E 2)"

lemma logged_session_simps [simp]:
  "ses_ID (logged_session E x e) = ses_ID x"
  "ses_JoinCode (logged_session E x e) = ses_JoinCode x"
  "ses_JoinPolicy (logged_session E x e) = ses_JoinPolicy x"
  "ses_Capabilities (logged_session E x e) = ses_Capabilities x"
  "ses_Limits (logged_session E x e) = ses_Limits x"
  "ses_ExpiresAt (logged_session E x e) = ses_ExpiresAt x"
  "ses_Status (logged_session E x e) = ses_Status x"
  "ses_Endpoints (logged_session E x e) = ses_Endpoints x"
  "ses_Tasks (logged_session E x e) = ses_Tasks x"
  "ses_Artifacts (logged_session E x e) = ses_Artifacts x"
  "ses_NotifyURL (logged_session E x e) = ses_NotifyURL x"
  "ses_SnapshotSeq (logged_session E x e) = ses_SnapshotSeq x"
  "ses_ReconnectGraceMS (logged_session E x e) = ses_ReconnectGraceMS x"
  "ev_Type (ses_LatestEvent (logged_session E x e)) = ev_Type e"
  "ses_LastSeq (logged_session E x e) = (if ev_Seq e > ses_LastSeq x then ev_Seq e else ses_LastSeq x)"
  by (simp_all add: logged_session_def)

lemma commitEvent_simps [simp]:
  "m_sessions (commitEvent E sid x e k s) = (m_sessions s)(sid \<mapsto> logged_session E x e)"
  "m_events (commitEvent E sid x e k s) = (m_events s)(sid \<mapsto> events_of s sid @ [e])"
  "m_joinCodes (commitEvent E sid x e k s) = m_joinCodes s"
  "m_leases (commitEvent E sid x e k s) = m_leases s"
  "m_hosts (commitEvent E sid x e k s) = m_hosts s"
  "m_terminalAt (commitEvent E sid x e k s) = m_terminalAt s"
  "m_taskIdempotency (commitEvent E sid x e k s) = m_taskIdempotency s"
  "m_cancelIdempotency (commitEvent E sid x e k s) = m_cancelIdempotency s"
  "m_resultIdempotency (commitEvent E sid x e k s) = m_resultIdempotency s"
  "m_onEvent (commitEvent E sid x e k s) = m_onEvent s"
  "m_idempotency (commitEvent E sid x e k s) =
     (case k of None \<Rightarrow> m_idempotency s
      | Some (key, fp) \<Rightarrow> (m_idempotency s)(key \<mapsto> \<lparr>ir_Fingerprint = fp, ir_Event = e\<rparr>))"
  "m_hookLog (commitEvent E sid x e k s) =
     (if m_onEvent s then m_hookLog s @ [(sid, e, ses_NotifyURL x)] else m_hookLog s)"
  by (simp_all add: commitEvent_def logged_session_def Let_def split: option.splits prod.splits)

lemma stampEvent_simps [simp]:
  "ev_SessionID (stampEvent E sid x i e) = sid"
  "ev_ID (stampEvent E sid x i e) = i"
  "ev_Seq (stampEvent E sid x i e) = ses_LastSeq x + 1"
  "ev_Type (stampEvent E sid x i e) = ev_Type e"
  "ev_FromEndpointID (stampEvent E sid x i e) = ev_FromEndpointID e"
  "ev_ToEndpointID (stampEvent E sid x i e) = ev_ToEndpointID e"
  "ev_TaskID (stampEvent E sid x i e) = ev_TaskID e"
  "ev_IdempotencyKey (stampEvent E sid x i e) = ev_IdempotencyKey e"
  "ev_Payload (stampEvent E sid x i e) = ev_Payload e"
  by (simp_all add: stampEvent_def)

abbreviation event_key :: "string \<Rightarrow> Event \<Rightarrow> idempotencyKey" where
  "event_key sid e \<equiv> \<lparr>ik_SessionID = sid, ik_FromEndpointID = ev_FromEndpointID e,
                       ik_Key = ev_IdempotencyKey e\<rparr>"

text \<open>The three outcomes of an append: an error or a replay without effect, or one new event.\<close>

lemma appendEventLocked_cases:
  assumes "appendEventLocked E sid e lim s = (r, t)"
  obtains (error) er where "r = Inl er" and "t = s"
  | (replay) x rec where "m_sessions s sid = Some x" and "ev_IdempotencyKey e \<noteq> []"
      and "m_idempotency s (event_key sid e) = Some rec"
      and "eventFingerprint E e = Some (ir_Fingerprint rec)"
      and "r = Inr (ir_Event rec)" and "t = s"
  | (new) x ident keyed where "m_sessions s sid = Some x"
      and "sessionTerminal (ses_Status x) \<Longrightarrow> closing_type (ev_Type e)"
      and "sessionExpired (clock_at E 0) x \<Longrightarrow> ev_Type e = EventTypeClose"
      and "newID ''evt'' (rand_at E 0) = Some ident"
      and "ev_IdempotencyKey e = [] \<Longrightarrow> keyed = None"
      and "ev_IdempotencyKey e \<noteq> [] \<Longrightarrow>
             m_idempotency s (event_key sid e) = None
             \<and> keyed = map_option (Pair (event_key sid e)) (eventFingerprint E e) \<and> keyed \<noteq> None"
      and "r = Inr (stampEvent E sid x ident e)"
      and "t = commitEvent E sid x (stampEvent E sid x ident e) keyed s"
proof (cases "m_sessions s sid")
  case None
  with assms show thesis by (auto simp: appendEventLocked_def intro: error)
next
  case (Some x)
  note ap = assms [unfolded appendEventLocked_def, simplified Some option.simps Let_def]
  consider (bad) er where "r = Inl er" "t = s"
    | (ok) "sessionTerminal (ses_Status x) \<Longrightarrow> closing_type (ev_Type e)"
        "sessionExpired (clock_at E 0) x \<Longrightarrow> ev_Type e = EventTypeClose"
        "checkPayload E x e lim = None"
    using ap by (simp add: closing_type_def split: if_splits option.splits) blast+
  then show thesis
  proof cases
    case ok
    have guards: "\<not> (sessionTerminal (ses_Status x) \<and> ev_Type e \<noteq> EventTypeTaskResult
          \<and> ev_Type e \<noteq> EventTypeArtifact \<and> ev_Type e \<noteq> EventTypeClose)"
        "\<not> (sessionExpired (clock_at E 0) x \<and> ev_Type e \<noteq> EventTypeClose)"
      using ok(1,2) by (auto simp: closing_type_def)
    note ap' = ap [simplified guards if_False ok(3) option.simps]
    show thesis
    proof (cases "newID ''evt'' (rand_at E 0)")
      case None
      with ap' Some show thesis
        by (auto split: if_splits option.splits intro: error replay)
    next
      case ident: (Some i)
      show thesis
      proof (cases "ev_IdempotencyKey e = []")
        case True
        with ap' ident Some ok show thesis by (intro new) auto
      next
        case keyed: False
        show thesis
        proof (cases "eventFingerprint E e")
          case None
          with ap' keyed show thesis by (intro error) auto
        next
          case fp: (Some f)
          show thesis
          proof (cases "m_idempotency s (event_key sid e)")
            case None
            with ap' keyed fp ident Some ok show thesis by (intro new) auto
          next
            case (Some rec)
            with ap' keyed fp ident \<open>m_sessions s sid = Some x\<close> show thesis
              by (cases "ir_Fingerprint rec = f") (auto intro: error replay)
          qed
        qed
      qed
    qed
  qed (rule error)
qed

lemma appendEventLocked_hook_and_tables:
  assumes "appendEventLocked E sid e lim s = (r, t)"
  shows "m_leases t = m_leases s \<and> m_hosts t = m_hosts s \<and> m_terminalAt t = m_terminalAt s
    \<and> m_joinCodes t = m_joinCodes s"
  using assms by (cases rule: appendEventLocked_cases) auto

section \<open>Appending keeps the contract\<close>

text \<open>
  Sequence numbers are 64 bit words. \<open>seq_room sid n s\<close> says that n more events fit into the
  sequence space of the session.
\<close>

definition seq_room :: "string \<Rightarrow> nat \<Rightarrow> MemoryStore \<Rightarrow> bool" where
  "seq_room sid n s \<longleftrightarrow>
     (case m_sessions s sid of None \<Rightarrow> True | Some x \<Rightarrow> unat (ses_LastSeq x) + n < 2 ^ 64)"

lemma seq_room_mono: "seq_room sid n s \<Longrightarrow> m \<le> n \<Longrightarrow> seq_room sid m s"
  by (auto simp: seq_room_def split: option.splits)

lemma seq_room_not_max:
  assumes "seq_room sid n s" and "0 < n" and "m_sessions s sid = Some x"
  shows "ses_LastSeq x \<noteq> - 1"
proof
  assume "ses_LastSeq x = - 1"
  then have "unat (ses_LastSeq x) = 2 ^ 64 - 1"
    by (simp add: unsigned_minus_1_eq_mask mask_eq_exp_minus_1)
  moreover have "unat (ses_LastSeq x) + n < 2 ^ 64" using assms by (simp add: seq_room_def)
  ultimately show False using assms(2) by simp
qed

lemma log_wf_append:
  assumes "log_wf sid lastSeq evs" and "lastSeq \<noteq> - 1"
    and "ev_SessionID e = sid" and "ev_Seq e = lastSeq + 1"
  shows "log_wf sid (lastSeq + 1) (evs @ [e])"
proof -
  have lt: "lastSeq < lastSeq + 1" using assms(2) by (rule u64_less_plus_1)
  then have "\<forall>e' \<in> set evs. ev_Seq e' < lastSeq + 1"
    using assms(1) by (auto simp: log_wf_def intro: le_less_trans)
  with assms lt show ?thesis
    by (auto simp: log_wf_def sorted_wrt_snoc)
qed

text \<open>A caller may not use the two reserved lifecycle keys of a session.\<close>

definition not_reserved :: "string \<Rightarrow> Event \<Rightarrow> bool" where
  "not_reserved sid e \<longleftrightarrow> event_key sid e \<notin> lifecycle_keys sid"

lemma endpoint_wf_cong:
  "ses_ID y = ses_ID x \<Longrightarrow> ses_Capabilities y = ses_Capabilities x \<Longrightarrow> endpoint_wf y = endpoint_wf x"
  by (simp add: fun_eq_iff endpoint_wf_def constrainedEndpointCapabilities_def)

lemma commitEvent_session:
  assumes x: "m_sessions s sid = Some x" and room: "seq_room sid 1 s"
    and e: "ev_SessionID e = sid" "ev_Seq e = ses_LastSeq x + 1"
    and ty: "sessionTerminal (ses_Status x) \<Longrightarrow> closing_type (ev_Type e)"
  shows "session_le x (logged_session E x e)"
    and "session_wf sid x (events_of s sid) \<Longrightarrow>
         session_wf sid (logged_session E x e) (events_of s sid @ [e])"
proof -
  have ne: "ses_LastSeq x \<noteq> - 1" using seq_room_not_max [OF room _ x] by simp
  then have gt: "ses_LastSeq x < ses_LastSeq x + 1" by (rule u64_less_plus_1)
  show "session_le x (logged_session E x e)"
    using gt e by (simp add: session_le_def)
  show "session_wf sid (logged_session E x e) (events_of s sid @ [e])"
    if "session_wf sid x (events_of s sid)"
    using that gt e ty log_wf_append [of sid "ses_LastSeq x" "events_of s sid" e] ne
      endpoint_wf_cong [of "logged_session E x e" x]
    by (simp add: session_wf_def ended_wf_def)
qed

lemma commitEvent_only_session:
  assumes "\<And>k fp. keyed = Some (k, fp) \<Longrightarrow> ik_SessionID k = sid"
  shows "only_session sid s (commitEvent E sid x e keyed s)"
  using assms by (auto simp: only_session_def split: option.splits)

lemma commitEvent_evolves:
  assumes x: "m_sessions s sid = Some x" and room: "seq_room sid 1 s"
    and e: "ev_SessionID e = sid" "ev_Seq e = ses_LastSeq x + 1"
    and ty: "sessionTerminal (ses_Status x) \<Longrightarrow> closing_type (ev_Type e)"
    and key: "\<And>k fp. keyed = Some (k, fp) \<Longrightarrow> ik_SessionID k = sid
                \<and> (k \<notin> lifecycle_keys sid \<or> sessionTerminal (ses_Status x))"
  shows "evolves sid s (commitEvent E sid x e keyed s)"
proof -
  note session = commitEvent_session [OF x room e ty]
  have life: "m_idempotency (commitEvent E sid x e keyed s) k = m_idempotency s k"
    if "k \<in> lifecycle_keys sid" "\<not> sessionTerminal (ses_Status x)" for k
    using that key by (auto split: option.splits)
  have "local_wf sid (commitEvent E sid x e keyed s)" if "local_wf sid s"
    using that x session(2) life by (auto simp del: commitEvent_simps(11) simp: local_wf_def)
  with x session(1) commitEvent_only_session [of keyed sid] key show ?thesis
    by (auto simp: evolves_def session_evolves_def)
qed

lemma appendEventLocked_evolves:
  assumes room: "seq_room sid 1 s"
    and key: "not_reserved sid e \<or> (\<forall>x. m_sessions s sid = Some x \<longrightarrow> sessionTerminal (ses_Status x))"
    and ap: "appendEventLocked E sid e lim s = (r, t)"
  shows "evolves sid s t"
  using ap
proof (cases rule: appendEventLocked_cases)
  case (new x ident keyed)
  have "evolves sid s (commitEvent E sid x (stampEvent E sid x ident e) keyed s)"
  proof (rule commitEvent_evolves [OF new(1) room])
    fix k fp
    assume k: "keyed = Some (k, fp)"
    then have "k = event_key sid e" using new(5,6) by (cases "ev_IdempotencyKey e = []") auto
    with key new(1) show "ik_SessionID k = sid
        \<and> (k \<notin> lifecycle_keys sid \<or> sessionTerminal (ses_Status x))"
      by (auto simp: not_reserved_def)
  qed (use new(2) in auto)
  with new show ?thesis by simp
qed auto

end
