(* ===== verification/Capabilities.thy ===== *)
theory Capabilities
  imports Store_Core
begin

text \<open>
  Capability ceilings: what the trimming loops of store.go keep, that an endpoint's capabilities
  never exceed those of its session, that normalising twice changes nothing, and which
  capabilities an error reports as missing.
\<close>

lemma set_collectCapabilities:
  "set (collectCapabilities keep seen raws) =
     {c. c \<in> TrimSpace ` set raws \<and> c \<noteq> [] \<and> c \<notin> set seen \<and> keep c}"
  by (induction keep seen raws rule: collectCapabilities.induct) (auto simp: Let_def)

lemma distinct_collectCapabilities: "distinct (collectCapabilities keep seen raws)"
  by (induction keep seen raws rule: collectCapabilities.induct)
    (auto simp: Let_def set_collectCapabilities)

lemma collectCapabilities_fix:
  "\<forall>c \<in> set xs. TrimSpace c = c \<and> c \<noteq> [] \<and> keep c \<and> c \<notin> set seen \<Longrightarrow> distinct xs \<Longrightarrow>
   collectCapabilities keep seen xs = xs"
  by (induction keep seen xs rule: collectCapabilities.induct) (auto simp: Let_def)

lemma collectCapabilities_idem:
  "collectCapabilities keep [] (collectCapabilities keep [] raws) = collectCapabilities keep [] raws"
  by (rule collectCapabilities_fix) (auto simp: set_collectCapabilities distinct_collectCapabilities)

text \<open>The capabilities a session grants to its targets.\<close>

definition ceiling :: "Session \<Rightarrow> string set" where
  "ceiling x = TrimSpace ` set (ses_Capabilities x) - {[]}"

lemma constrained_idem:
  "constrainedEndpointCapabilities x role (constrainedEndpointCapabilities x role adv ex) [] =
   constrainedEndpointCapabilities x role adv ex"
  by (auto simp: constrainedEndpointCapabilities_def Let_def collectCapabilities_idem)

lemma constrained_within_ceiling:
  "ses_Capabilities x \<noteq> [] \<Longrightarrow>
   set (constrainedEndpointCapabilities x EndpointRoleTarget adv ex) \<subseteq> ceiling x"
  by (auto simp: constrainedEndpointCapabilities_def Let_def set_collectCapabilities ceiling_def)

lemma set_constrained_target:
  "set (constrainedEndpointCapabilities x EndpointRoleTarget adv ex) =
     {c \<in> TrimSpace ` set (if adv = [] then ex else adv). c \<noteq> []
        \<and> (ses_Capabilities x = [] \<or> c \<in> ceiling x)}"
  by (auto simp: constrainedEndpointCapabilities_def Let_def set_collectCapabilities ceiling_def)

lemma set_missingCapabilities:
  "set (missingCapabilities available requested) =
     TrimSpace ` set requested - TrimSpace ` set available - {[]}"
  by (auto simp: missingCapabilities_def Let_def set_collectCapabilities)

lemma endpointHasCapabilities_iff:
  "endpointHasCapabilities e required \<longleftrightarrow> set required \<subseteq> set (ep_Capabilities e)"
  by (auto simp: endpointHasCapabilities_def list_all_iff)

end
