(* ===== verification/Store_Evolution.thy ===== *)
theory Store_Evolution
  imports Event_Log Capabilities
begin

text \<open>
  Every method of the store keeps the contract of Store_Contract. The methods are composed of few
  parts (append an event, rewrite a task, put an endpoint, end the session); each part is shown to
  evolve the store, and the methods follow by transitivity.
\<close>

section \<open>The random source\<close>

text \<open>crypto/rand documents that Read never returns an error; this is that assumption.\<close>

definition rand_ok :: "env \<Rightarrow> bool" where
  "rand_ok E \<longleftrightarrow> (\<forall>k. rand_at E k \<noteq> None)"

lemma rand_ok_env_from [simp]: "rand_ok E \<Longrightarrow> rand_ok (env_from k E)"
  by (simp add: rand_ok_def)

lemma rand_ok_newID: "rand_ok E \<Longrightarrow> newID pre (rand_at E k) \<noteq> None"
  by (simp add: rand_ok_def newID_def)

section \<open>Parts\<close>

lemma append_result:
  assumes "appendEventLocked E sid e lim s = (Inr ev, t)"
  obtains x y where "m_sessions s sid = Some x" and "m_sessions t sid = Some y"
    and "ses_Tasks y = ses_Tasks x" and "ses_Endpoints y = ses_Endpoints x"
    and "ses_Artifacts y = ses_Artifacts x" and "ses_Status y = ses_Status x"
    and "ses_ID y = ses_ID x" and "ses_Limits y = ses_Limits x"
  using assms by (cases rule: appendEventLocked_cases) auto

lemma lifecycle_key_iff:
  "event_key sid e \<in> lifecycle_keys sid \<longleftrightarrow>
     ev_FromEndpointID e = ''gateway.lifecycle''
     \<and> (ev_IdempotencyKey e = ''close:'' @ sid \<or> ev_IdempotencyKey e = ''revoke:'' @ sid)"
  by (auto simp: lifecycle_keys_def)

lemma evolves_append:
  assumes "appendEventLocked E sid e lim s = (r, t)" and "seq_room sid 1 s" and "not_reserved sid e"
  shows "evolves sid s t"
  using appendEventLocked_evolves [OF assms(2) _ assms(1)] assms(3) by blast

lemma evolves_tasks:
  assumes "m_sessions s sid = Some x" and "tasks_le (ses_Tasks x) ts"
    and "\<forall>t \<in> set ts. tk_SessionID t = sid \<or> t \<in> set (ses_Tasks x)"
  shows "evolves sid s (put_session sid (x\<lparr>ses_Tasks := ts\<rparr>) s)"
proof (rule evolves_put [OF assms(1)])
  show "session_le x (x\<lparr>ses_Tasks := ts\<rparr>)" using assms(2) by (simp add: session_le_def)
  show "session_wf sid (x\<lparr>ses_Tasks := ts\<rparr>) (events_of s sid)"
    if "session_wf sid x (events_of s sid)"
    using that assms(3) endpoint_wf_cong [of "x\<lparr>ses_Tasks := ts\<rparr>" x]
    by (auto simp: session_wf_def ended_wf_def)
qed

lemma evolves_task_update:
  assumes x: "m_sessions s sid = Some x" and le: "task_le (ses_Tasks x ! i) u"
  shows "evolves sid s (put_session sid (x\<lparr>ses_Tasks := (ses_Tasks x)[i := u]\<rparr>) s)"
proof (cases "i < length (ses_Tasks x)")
  case True
  show ?thesis
  proof (rule evolves_put [OF x])
    show "session_le x (x\<lparr>ses_Tasks := (ses_Tasks x)[i := u]\<rparr>)"
      using tasks_le_update [OF le] by (simp add: session_le_def)
    show "session_wf sid (x\<lparr>ses_Tasks := (ses_Tasks x)[i := u]\<rparr>) (events_of s sid)"
      if wf: "session_wf sid x (events_of s sid)"
    proof -
      have "tk_SessionID u = sid" using wf le True by (simp add: session_wf_def task_le_def)
      with wf show ?thesis
        using set_update_subset_insert [of "ses_Tasks x" i u]
          endpoint_wf_cong [of "x\<lparr>ses_Tasks := (ses_Tasks x)[i := u]\<rparr>" x]
        by (auto simp: session_wf_def ended_wf_def)
    qed
  qed
next
  case False
  then have "x\<lparr>ses_Tasks := (ses_Tasks x)[i := u]\<rparr> = x" by (simp add: list_update_beyond)
  with x show ?thesis by (simp add: evolves_frame fun_upd_idem)
qed

text \<open>Putting an endpoint that is fresh or keeps the identifier and role of a known one.\<close>

definition endpoint_slot :: "Session \<Rightarrow> Endpoint \<Rightarrow> bool" where
  "endpoint_slot x e \<longleftrightarrow>
     (\<exists>e0 \<in> set (ses_Endpoints x). ep_ID e = ep_ID e0 \<and> ep_Role e = ep_Role e0)
     \<or> ep_Role e \<noteq> EndpointRoleTarget
     \<or> (ses_JoinPolicy x = ''single-target'' \<longrightarrow> targets (ses_Endpoints x) = [])"

lemma targets_upsert:
  assumes "distinct (map ep_ID eps)" and "e0 \<in> set eps"
    and "ep_ID e = ep_ID e0" and "ep_Role e = ep_Role e0"
  shows "length (targets (upsert_first (\<lambda>p. ep_ID p = ep_ID e \<and> ep_ID e \<noteq> []) e eps))
         \<le> length (targets eps) \<or> ep_ID e = []"
proof (cases "ep_Role e = EndpointRoleTarget \<and> ep_ID e \<noteq> []")
  case True
  have "x = e0" if "x \<in> set eps" "ep_ID x = ep_ID e" for x
    using that assms by (metis distinct_map inj_onD)
  then have "length (targets (upsert_first (\<lambda>p. ep_ID p = ep_ID e \<and> ep_ID e \<noteq> []) e eps))
      \<le> length (targets eps)"
    unfolding targets_def using True assms
    by (intro length_filter_upsert_first_same) auto
  then show ?thesis ..
next
  case False
  then show ?thesis
    using length_filter_upsert_first [of "\<lambda>e. ep_Role e = EndpointRoleTarget" _ e eps]
    by (auto simp: targets_def)
qed

lemma WithEndpoint_simps [simp]:
  "ses_ID (WithEndpoint x e now) = ses_ID x"
  "ses_JoinCode (WithEndpoint x e now) = ses_JoinCode x"
  "ses_JoinPolicy (WithEndpoint x e now) = ses_JoinPolicy x"
  "ses_Capabilities (WithEndpoint x e now) = ses_Capabilities x"
  "ses_Limits (WithEndpoint x e now) = ses_Limits x"
  "ses_ExpiresAt (WithEndpoint x e now) = ses_ExpiresAt x"
  "ses_Status (WithEndpoint x e now) = ses_Status x"
  "ses_Tasks (WithEndpoint x e now) = ses_Tasks x"
  "ses_Artifacts (WithEndpoint x e now) = ses_Artifacts x"
  "ses_LastSeq (WithEndpoint x e now) = ses_LastSeq x"
  "ses_LatestEvent (WithEndpoint x e now) = ses_LatestEvent x"
  "ses_ReconnectGraceMS (WithEndpoint x e now) = ses_ReconnectGraceMS x"
  by (simp_all add: WithEndpoint_def Let_def)

lemma WithEndpoint_endpoints:
  assumes "ep_SessionID e \<noteq> []"
  obtains e' where "ses_Endpoints (WithEndpoint x e now) =
      upsert_first (\<lambda>p. ep_ID p = ep_ID e \<and> ep_ID e \<noteq> []) e' (ses_Endpoints x)"
    and "e' = e\<lparr>ep_SchemaVersion := ep_SchemaVersion e'\<rparr>"
proof
  let ?e = "if ep_SchemaVersion e = [] then e\<lparr>ep_SchemaVersion := EndpointSchemaVersion\<rparr> else e"
  show "ses_Endpoints (WithEndpoint x e now) =
      upsert_first (\<lambda>p. ep_ID p = ep_ID e \<and> ep_ID e \<noteq> []) ?e (ses_Endpoints x)"
    using assms by (simp add: WithEndpoint_def Let_def)
  show "?e = e\<lparr>ep_SchemaVersion := ep_SchemaVersion ?e\<rparr>" by simp
qed

lemma session_wf_WithEndpoint:
  assumes wf: "session_wf sid x evs" and st: "\<not> sessionTerminal st"
    and e: "endpoint_wf x e" and slot: "endpoint_slot x e"
  shows "session_wf sid (WithEndpoint (x\<lparr>ses_Status := st\<rparr>) e now) evs"
proof -
  let ?y = "WithEndpoint (x\<lparr>ses_Status := st\<rparr>) e now"
  have id: "ep_ID e \<noteq> []" "ep_SessionID e = sid" "sid \<noteq> []"
    using wf e by (auto simp: session_wf_def endpoint_wf_def)
  obtain e' where eps: "ses_Endpoints ?y =
      upsert_first (\<lambda>p. ep_ID p = ep_ID e \<and> ep_ID e \<noteq> []) e' (ses_Endpoints x)"
    and e': "e' = e\<lparr>ep_SchemaVersion := ep_SchemaVersion e'\<rparr>"
    using id WithEndpoint_endpoints [of e "x\<lparr>ses_Status := st\<rparr>" now] by auto
  have same: "ep_ID e' = ep_ID e" "ep_Role e' = ep_Role e"
    by (subst e', simp)+
  have e'wf: "endpoint_wf x e'"
    using e by (subst e') (simp add: endpoint_wf_def)
  have eps': "ses_Endpoints ?y = upsert_first (\<lambda>p. ep_ID p = ep_ID e') e' (ses_Endpoints x)"
    using eps id same by simp
  have "distinct (map ep_ID (ses_Endpoints ?y))"
    unfolding eps' using wf by (intro distinct_upsert_first) (simp add: session_wf_def)
  moreover have "\<forall>p \<in> set (ses_Endpoints ?y). endpoint_wf ?y p"
    using set_upsert_first [of _ e' "ses_Endpoints x"] wf e'wf endpoint_wf_cong [of ?y x]
    unfolding eps' by (auto simp: session_wf_def)
  moreover have "length (targets (ses_Endpoints ?y)) \<le> 1"
    if single: "ses_JoinPolicy x = ''single-target''"
  proof -
    have one: "length (targets (ses_Endpoints x)) \<le> 1"
      and dist: "distinct (map ep_ID (ses_Endpoints x))"
      using wf single by (auto simp: session_wf_def)
    consider (known) e0 where "e0 \<in> set (ses_Endpoints x)" "ep_ID e = ep_ID e0" "ep_Role e = ep_Role e0"
      | (other) "ep_Role e \<noteq> EndpointRoleTarget" | (none) "targets (ses_Endpoints x) = []"
      using slot single unfolding endpoint_slot_def by blast
    then show ?thesis
    proof cases
      case known
      then show ?thesis
        using targets_upsert [OF dist known(1), of e'] same id one eps by (auto simp: same)
    next
      case other
      then show ?thesis
        using length_filter_upsert_first [of "\<lambda>e. ep_Role e = EndpointRoleTarget"
            "\<lambda>p. ep_ID p = ep_ID e'" e' "ses_Endpoints x"] one same
        unfolding eps' by (simp add: targets_def)
    next
      case none
      then show ?thesis
        using length_filter_upsert_first [of "\<lambda>e. ep_Role e = EndpointRoleTarget"
            "\<lambda>p. ep_ID p = ep_ID e'" e' "ses_Endpoints x"]
        unfolding eps' by (simp add: targets_def split: if_splits)
    qed
  qed
  ultimately show ?thesis using wf st by (simp add: session_wf_def ended_wf_def)
qed

lemma evolves_WithEndpoint:
  assumes x: "m_sessions s sid = Some x" and nt: "\<not> sessionTerminal (ses_Status x)"
    and st: "\<not> sessionTerminal st"
    and e: "session_wf sid x (events_of s sid) \<Longrightarrow> endpoint_wf x e" and slot: "endpoint_slot x e"
  shows "evolves sid s (put_session sid (WithEndpoint (x\<lparr>ses_Status := st\<rparr>) e now) s)"
proof (rule evolves_put [OF x])
  show "session_le x (WithEndpoint (x\<lparr>ses_Status := st\<rparr>) e now)"
    using nt by (simp add: session_le_def)
qed (use e slot st in \<open>auto intro: session_wf_WithEndpoint\<close>)

section \<open>Ending a session\<close>

lemma revokeEndpoints_simps [simp]:
  "ses_Endpoints (revokeEndpoints now x) =
     map (\<lambda>e. e\<lparr>ep_State := EndpointStateRevoked, ep_LastSeenAt := now\<rparr>) (ses_Endpoints x)"
  "ses_ID (revokeEndpoints now x) = ses_ID x"
  "ses_JoinCode (revokeEndpoints now x) = ses_JoinCode x"
  "ses_JoinPolicy (revokeEndpoints now x) = ses_JoinPolicy x"
  "ses_Capabilities (revokeEndpoints now x) = ses_Capabilities x"
  "ses_Limits (revokeEndpoints now x) = ses_Limits x"
  "ses_ExpiresAt (revokeEndpoints now x) = ses_ExpiresAt x"
  "ses_Status (revokeEndpoints now x) = ses_Status x"
  "ses_Tasks (revokeEndpoints now x) = ses_Tasks x"
  "ses_Artifacts (revokeEndpoints now x) = ses_Artifacts x"
  "ses_LastSeq (revokeEndpoints now x) = ses_LastSeq x"
  "ses_LatestEvent (revokeEndpoints now x) = ses_LatestEvent x"
  by (simp_all add: revokeEndpoints_def)

text \<open>The record of an ended session, with its tasks rewritten by f.\<close>

definition ended_session :: "(Task \<Rightarrow> Task) \<Rightarrow> SessionStatus \<Rightarrow> Time \<Rightarrow> Session \<Rightarrow> Session" where
  "ended_session f st now x =
     (revokeEndpoints now x)\<lparr>ses_Tasks := map f (ses_Tasks x), ses_Status := st, ses_UpdatedAt := now\<rparr>"

lemma session_le_ended:
  "(\<And>t. task_le t (f t)) \<Longrightarrow> sessionTerminal st \<Longrightarrow> session_le x (ended_session f st now x)"
  by (simp add: ended_session_def session_le_def tasks_le_map)

lemma session_wf_ended:
  assumes wf: "session_wf sid x evs" and f: "\<And>t. task_le t (f t)"
    and ty: "closing_type (ev_Type (ses_LatestEvent x))"
  shows "session_wf sid (ended_session f st now x) evs"
proof -
  have eq: "endpoint_wf (ended_session f st now x) = endpoint_wf x"
    by (rule endpoint_wf_cong) (simp_all add: ended_session_def)
  have "targets (map (\<lambda>e. e\<lparr>ep_State := EndpointStateRevoked, ep_LastSeenAt := now\<rparr>) eps) =
      map (\<lambda>e. e\<lparr>ep_State := EndpointStateRevoked, ep_LastSeenAt := now\<rparr>) (targets eps)" for eps
    by (simp add: targets_def filter_map o_def)
  moreover have "map ep_ID (ses_Endpoints (ended_session f st now x)) = map ep_ID (ses_Endpoints x)"
    by (simp add: ended_session_def o_def)
  moreover have "endpoint_wf x (e\<lparr>ep_State := EndpointStateRevoked, ep_LastSeenAt := now\<rparr>) = endpoint_wf x e"
    for e by (simp add: endpoint_wf_def)
  ultimately show ?thesis using wf ty f
    unfolding session_wf_def eq
    by (auto simp: ended_session_def ended_wf_def task_le_def o_def)
qed

lemma expireSessionLocked_cases:
  assumes "expireSessionLocked E sid s = (b, t)" and "rand_ok E"
  obtains (noop) "b = False" and "t = s"
    and "\<And>x. m_sessions s sid = Some x \<Longrightarrow>
           sessionTerminal (ses_Status x) \<or> \<not> sessionExpired (clock_at E 0) x"
  | (expired) x e where "b" and "m_sessions s sid = Some x"
      and "\<not> sessionTerminal (ses_Status x)" and "sessionExpired (clock_at E 0) x"
      and "ev_Type e = EventTypeClose" and "ev_SessionID e = sid" and "ev_Seq e = ses_LastSeq x + 1"
      and "t = (commitEvent (env_from 2 E) sid x e None s)\<lparr>
                 m_leases := dropLeases (ses_Endpoints x) (m_leases s),
                 m_sessions := (m_sessions s)(sid \<mapsto>
                   ended_session (cancelLiveTask (clock_at E 1)) SessionStatusClosed (clock_at E 1)
                     (logged_session (env_from 2 E) x e)),
                 m_terminalAt := (m_terminalAt s)(sid \<mapsto> clock_at E 1)\<rparr>"
proof (cases "m_sessions s sid")
  case None
  with assms show thesis by (intro noop) (auto simp: expireSessionLocked_def)
next
  case (Some x)
  show thesis
  proof (cases "sessionTerminal (ses_Status x) \<or> \<not> sessionExpired (clock_at E 0) x")
    case True
    with assms Some show thesis by (intro noop) (auto simp: expireSessionLocked_def)
  next
    case False
    obtain i where i: "newID ''evt'' (rand_at E 2) = Some i"
      using rand_ok_newID [OF assms(2), of "''evt''" 2] by auto
    let ?draft = "zero_Event\<lparr>ev_Type := EventTypeClose, ev_FromEndpointID := ''gateway.lifecycle'',
                 ev_Payload := Some [''reason'' \<mapsto> GString ''session expired'']\<rparr>"
    let ?e = "stampEvent (env_from 2 E) sid x i ?draft"
    have ap: "appendEventLocked (env_from 2 E) sid ?draft False s =
        (Inr ?e, commitEvent (env_from 2 E) sid x ?e None s)"
      using Some i False
      by (simp add: appendEventLocked_def checkPayload_def zero_Event_def Let_def)
    show thesis
    proof (rule expired [of x ?e])
      show "t = (commitEvent (env_from 2 E) sid x ?e None s)\<lparr>
                 m_leases := dropLeases (ses_Endpoints x) (m_leases s),
                 m_sessions := (m_sessions s)(sid \<mapsto>
                   ended_session (cancelLiveTask (clock_at E 1)) SessionStatusClosed (clock_at E 1)
                     (logged_session (env_from 2 E) x ?e)),
                 m_terminalAt := (m_terminalAt s)(sid \<mapsto> clock_at E 1)\<rparr>"
        using assms(1) Some False ap
        by (auto simp: expireSessionLocked_def Let_def ended_session_def)
    qed (use assms(1) Some False in \<open>auto simp: expireSessionLocked_def Let_def\<close>)
  qed
qed

lemma expire_evolves:
  assumes "seq_room sid 1 s" and "rand_ok E"
  shows "evolves sid s (snd (expireSessionLocked E sid s))"
proof -
  obtain b t where bt: "expireSessionLocked E sid s = (b, t)" by (meson surj_pair)
  from bt assms(2) have "evolves sid s t"
  proof (cases rule: expireSessionLocked_cases)
    case (expired x e)
    let ?c = "commitEvent (env_from 2 E) sid x e None s"
    let ?x = "logged_session (env_from 2 E) x e"
    have ev: "evolves sid s ?c"
      by (rule commitEvent_evolves) (use expired assms in \<open>auto simp: closing_type_def\<close>)
    have "evolves sid ?c (put_session sid
        (ended_session (cancelLiveTask (clock_at E 1)) SessionStatusClosed (clock_at E 1) ?x) ?c)"
    proof (rule evolves_put [of _ _ ?x])
      show "session_le ?x (ended_session (cancelLiveTask (clock_at E 1)) SessionStatusClosed
              (clock_at E 1) ?x)"
        by (rule session_le_ended) (auto simp: cancelLiveTask_le sessionTerminal_def)
    qed (use expired in \<open>auto intro!: session_wf_ended simp: cancelLiveTask_le closing_type_def\<close>)
    with ev have "evolves sid s (put_session sid
        (ended_session (cancelLiveTask (clock_at E 1)) SessionStatusClosed (clock_at E 1) ?x) ?c)"
      by (rule evolves_trans)
    then show ?thesis by (rule evolves_frame_right) (simp_all add: expired)
  qed auto
  with bt show ?thesis by simp
qed

lemma terminateSessionLocked_cases:
  assumes "terminateSessionLocked E sid st key s = (r, t)" and "key \<noteq> []"
  obtains (error) er where "r = Inl er" and "t = s"
  | (replay) x rec where "m_sessions s sid = Some x"
      and "m_idempotency s \<lparr>ik_SessionID = sid, ik_FromEndpointID = ''gateway.lifecycle'', ik_Key = key\<rparr> = Some rec"
      and "r = Inr (ended_session id st (clock_at E 3) x, ir_Event rec)"
      and "t = s\<lparr>m_leases := dropLeases (ses_Endpoints x) (m_leases s),
                 m_sessions := (m_sessions s)(sid \<mapsto> ended_session id st (clock_at E 3) x),
                 m_terminalAt := (m_terminalAt s)(sid \<mapsto> clock_at E 3)\<rparr>"
  | (new) x e fp where "m_sessions s sid = Some x"
      and "ev_Type e = EventTypeClose" and "ev_SessionID e = sid" and "ev_Seq e = ses_LastSeq x + 1"
      and "r = Inr (ended_session id st (clock_at E 3) (logged_session E x e), e)"
      and "t = (commitEvent E sid x e (Some (\<lparr>ik_SessionID = sid,
                 ik_FromEndpointID = ''gateway.lifecycle'', ik_Key = key\<rparr>, fp)) s)\<lparr>
                 m_leases := dropLeases (ses_Endpoints x) (m_leases s),
                 m_sessions := (m_sessions s)(sid \<mapsto>
                   ended_session id st (clock_at E 3) (logged_session E x e)),
                 m_terminalAt := (m_terminalAt s)(sid \<mapsto> clock_at E 3)\<rparr>"
proof (cases "m_sessions s sid")
  case None
  with assms show thesis by (auto simp: terminateSessionLocked_def intro: error)
next
  case x: (Some x)
  let ?draft = "zero_Event\<lparr>ev_Type := EventTypeClose, ev_FromEndpointID := ''gateway.lifecycle'',
               ev_IdempotencyKey := key\<rparr>"
  obtain r1 s1 where ap: "appendEventLocked E sid ?draft True s = (r1, s1)" by (meson surj_pair)
  have key: "ev_IdempotencyKey ?draft \<noteq> []" using assms(2) by simp
  have ended: "(revokeEndpoints now y)\<lparr>ses_Status := st, ses_UpdatedAt := now\<rparr> = ended_session id st now y"
    for now y by (simp add: ended_session_def revokeEndpoints_def)
  from ap show thesis
  proof (cases rule: appendEventLocked_cases)
    case (error er)
    with assms x ap show thesis by (auto simp: terminateSessionLocked_def intro: that(1))
  next
    case (replay y rec)
    with assms x ap show thesis
      by (intro that(2) [of x rec])
        (auto simp: terminateSessionLocked_def Let_def ended [symmetric])
  next
    case (new y ident keyed)
    obtain fp where fp: "keyed = Some (event_key sid ?draft, fp)" using new(6) key by auto
    from new x have y: "y = x" by simp
    show thesis
    proof (rule that(3) [of x "stampEvent E sid x ident ?draft" fp])
      show "t = (commitEvent E sid x (stampEvent E sid x ident ?draft) (Some (\<lparr>ik_SessionID = sid,
                 ik_FromEndpointID = ''gateway.lifecycle'', ik_Key = key\<rparr>, fp)) s)\<lparr>
                 m_leases := dropLeases (ses_Endpoints x) (m_leases s),
                 m_sessions := (m_sessions s)(sid \<mapsto>
                   ended_session id st (clock_at E 3) (logged_session E x (stampEvent E sid x ident ?draft))),
                 m_terminalAt := (m_terminalAt s)(sid \<mapsto> clock_at E 3)\<rparr>"
        using assms(1) x ap new fp y
        by (auto simp: terminateSessionLocked_def Let_def ended [symmetric])
    qed (use assms(1) x ap new fp y in
        \<open>auto simp: terminateSessionLocked_def Let_def ended [symmetric]\<close>)
  qed
qed

lemma terminate_evolves:
  assumes room: "seq_room sid 1 s" and st: "sessionTerminal st"
    and key: "key = ''close:'' @ sid \<or> key = ''revoke:'' @ sid"
    and t: "terminateSessionLocked E sid st key s = (r, t)"
  shows "evolves sid s t"
proof -
  have id: "\<And>u. task_le u (id u)" by simp
  have ne: "key \<noteq> []" using key by auto
  have life: "\<lparr>ik_SessionID = sid, ik_FromEndpointID = ''gateway.lifecycle'', ik_Key = key\<rparr>
      \<in> lifecycle_keys sid"
    using key by (auto simp: lifecycle_keys_def)
  from t ne show ?thesis
  proof (cases rule: terminateSessionLocked_cases)
    case (replay x rec)
    have "evolves sid s (put_session sid (ended_session id st (clock_at E 3) x) s)"
    proof (rule evolves_put [OF replay(1) session_le_ended [OF id st]])
      assume "local_wf sid s" and wf: "session_wf sid x (events_of s sid)"
      then have "sessionTerminal (ses_Status x)"
        using replay(1,2) life by (auto simp: local_wf_def)
      with wf show "session_wf sid (ended_session id st (clock_at E 3) x) (events_of s sid)"
        by (intro session_wf_ended id) (auto simp: session_wf_def ended_wf_def)
    qed
    then show ?thesis by (rule evolves_frame_right) (simp_all add: replay)
  next
    case (new x e fp)
    let ?y = "ended_session id st (clock_at E 3) (logged_session E x e)"
    have close: "closing_type (ev_Type e)" using new by (simp add: closing_type_def)
    note session = commitEvent_session [OF new(1) room new(3,4) close, of E]
    have le: "session_le x ?y"
      using session(1) session_le_ended [OF id st] by (rule session_le_trans)
    have wf: "session_wf sid ?y (events_of t sid)" if "local_wf sid s"
      using session(2) [OF local_wf_session [OF that new(1)]] new close
      by (auto intro!: session_wf_ended)
    have "only_session sid s t" using new by (auto simp: only_session_def)
    moreover have "local_wf sid t" if "local_wf sid s"
      using wf [OF that] st new by (auto simp: local_wf_def ended_session_def)
    ultimately show ?thesis using new le by (auto simp: evolves_def session_evolves_def)
  qed auto
qed

end
