(* ===== verification/Store_Methods.thy ===== *)
theory Store_Methods
  imports Store_Evolution
begin

text \<open>
  The public methods keep the contract. \<open>session_operation\<close> is the interface between a method
  and the properties of the whole store: it names the session the method works on and the
  precondition under which it evolves that session only. Every method is an instance.
\<close>

section \<open>The interface\<close>

locale session_operation =
  fixes sid :: string
    and pre :: "MemoryStore \<Rightarrow> bool"
    and run :: "MemoryStore \<Rightarrow> 'r \<times> MemoryStore"
  assumes op_evolves: "pre s \<Longrightarrow> evolves sid s (snd (run s))"
begin

lemma op_keeps_wf: "pre s \<Longrightarrow> store_wf s \<Longrightarrow> store_wf (snd (run s))"
  by (rule store_wf_evolves) (auto intro: op_evolves)

lemma op_monotone: "pre s \<Longrightarrow> store_le s (snd (run s))"
  by (rule store_le_evolves) (rule op_evolves)

lemma op_isolated:
  "pre s \<Longrightarrow> sid' \<noteq> sid \<Longrightarrow>
   m_sessions (snd (run s)) sid' = m_sessions s sid' \<and> m_events (snd (run s)) sid' = m_events s sid'"
  using op_evolves [of s] by (auto simp: evolves_def only_session_def)

end

text \<open>The usual precondition: room for one more event in the session.\<close>

abbreviation room1 :: "env \<Rightarrow> string \<Rightarrow> MemoryStore \<Rightarrow> bool" where
  "room1 E sid \<equiv> \<lambda>s. seq_room sid 1 s \<and> rand_ok E"

lemma not_reserved_simps [simp]:
  "ev_FromEndpointID e \<noteq> ''gateway.lifecycle'' \<Longrightarrow> not_reserved sid e"
  by (simp add: not_reserved_def lifecycle_key_iff)

section \<open>Joining\<close>

lemma UpsertHostLocked_frame [simp]:
  "m_sessions (UpsertHostLocked E x e now s) = m_sessions s"
  "m_joinCodes (UpsertHostLocked E x e now s) = m_joinCodes s"
  "m_events (UpsertHostLocked E x e now s) = m_events s"
  "m_idempotency (UpsertHostLocked E x e now s) = m_idempotency s"
  "m_leases (UpsertHostLocked E x e now s) = m_leases s"
  "m_terminalAt (UpsertHostLocked E x e now s) = m_terminalAt s"
  "m_taskIdempotency (UpsertHostLocked E x e now s) = m_taskIdempotency s"
  "m_cancelIdempotency (UpsertHostLocked E x e now s) = m_cancelIdempotency s"
  "m_resultIdempotency (UpsertHostLocked E x e now s) = m_resultIdempotency s"
  by (simp_all add: UpsertHostLocked_def Let_def split: option.splits)

lemma issueLeaseLocked_frame [simp]:
  "m_sessions (snd (issueLeaseLocked E x e a b c s)) = m_sessions s"
  "m_joinCodes (snd (issueLeaseLocked E x e a b c s)) = m_joinCodes s"
  "m_events (snd (issueLeaseLocked E x e a b c s)) = m_events s"
  "m_idempotency (snd (issueLeaseLocked E x e a b c s)) = m_idempotency s"
  "m_hosts (snd (issueLeaseLocked E x e a b c s)) = m_hosts s"
  "m_terminalAt (snd (issueLeaseLocked E x e a b c s)) = m_terminalAt s"
  "m_taskIdempotency (snd (issueLeaseLocked E x e a b c s)) = m_taskIdempotency s"
  "m_cancelIdempotency (snd (issueLeaseLocked E x e a b c s)) = m_cancelIdempotency s"
  "m_resultIdempotency (snd (issueLeaseLocked E x e a b c s)) = m_resultIdempotency s"
  by (simp_all add: issueLeaseLocked_def Let_def)

lemma seq_room_cong:
  "m_sessions t = m_sessions s \<Longrightarrow> seq_room sid n t = seq_room sid n s"
  by (simp add: seq_room_def)

text \<open>The identity key determines the role when no role contains the separator.\<close>

lemma separator_split:
  "a @ CHR ''|'' # u = b @ CHR ''|'' # v \<Longrightarrow> CHR ''|'' \<notin> set a \<Longrightarrow> CHR ''|'' \<notin> set b \<Longrightarrow> a = b"
proof (induction a arbitrary: b)
  case Nil
  then show ?case by (cases b) auto
next
  case (Cons c a)
  then show ?case by (cases b) auto
qed

lemma role_ok_inj: "role_ok r \<Longrightarrow> role_ok r' \<Longrightarrow> EndpointRole_str r = EndpointRole_str r' \<Longrightarrow> r = r'"
  by (metis role_ok_def)

lemma endpointIdentityKey_role:
  assumes "endpointIdentityKey sid r f p = endpointIdentityKey sid r' f' p'"
    and "role_ok r" and "role_ok r'"
  shows "r = r'"
proof (rule role_ok_inj [OF assms(2,3)])
  have "EndpointRole_str r @ CHR ''|'' # f @ CHR ''|'' # p
      = EndpointRole_str r' @ CHR ''|'' # f' @ CHR ''|'' # p'"
    using assms(1) by (simp add: endpointIdentityKey_def)
  then show "EndpointRole_str r = EndpointRole_str r'"
    using assms(2,3) by (auto intro: separator_split simp: role_ok_def)
qed

definition join_role :: "EndpointSpec \<Rightarrow> EndpointRole" where
  "join_role spec = (if es_Role spec = EndpointRoleOther [] then EndpointRoleTarget else es_Role spec)"

lemma join_role_ok: "role_ok (es_Role spec) \<Longrightarrow> role_ok (join_role spec)"
  by (simp add: join_role_def role_ok_def EndpointRole_of_def)

text \<open>What joinEndpointLocked does when it accepts: put one endpoint into the session.\<close>

lemma joinEndpointLocked_Inr:
  assumes join: "joinEndpointLocked E x spec s = (Inr (e, created), t)"
    and ok: "role_ok (es_Role spec)" and rand: "rand_ok E"
    and wf: "\<forall>e \<in> set (ses_Endpoints x). endpoint_wf x e"
  shows "endpoint_wf x e \<and> endpoint_slot x e \<and> ep_State e = EndpointStateOnline
    \<and> (\<exists>now. m_sessions t =
          (m_sessions s)(ses_ID x \<mapsto> WithEndpoint (x\<lparr>ses_Status := SessionStatusOnline\<rparr>) e now))
    \<and> m_joinCodes t = m_joinCodes s \<and> m_events t = m_events s
    \<and> m_idempotency t = m_idempotency s \<and> m_leases t = m_leases s"
proof (cases "find (\<lambda>e. endpointIdentityKey (ses_ID x) (ep_Role e) (ep_IdentityFingerprint e)
      (ep_Platform e) = endpointIdentityKey (ses_ID x) (join_role spec)
        (es_IdentityFingerprint spec) (es_Platform spec)
      \<and> es_IdentityFingerprint spec \<noteq> []) (ses_Endpoints x)")
  case (Some e0)
  then have e0: "e0 \<in> set (ses_Endpoints x)"
    and key: "endpointIdentityKey (ses_ID x) (ep_Role e0) (ep_IdentityFingerprint e0) (ep_Platform e0)
      = endpointIdentityKey (ses_ID x) (join_role spec) (es_IdentityFingerprint spec) (es_Platform spec)"
    by (auto simp: find_Some_iff)
  have e0wf: "endpoint_wf x e0" using wf e0 by blast
  then have role: "ep_Role e0 = join_role spec"
    using endpointIdentityKey_role [OF key] join_role_ok [OF ok] by (simp add: endpoint_wf_def)
  have e: "ep_ID e = ep_ID e0" "ep_Role e = ep_Role e0" "ep_SessionID e = ep_SessionID e0"
      "ep_State e = EndpointStateOnline"
      "ep_Capabilities e = constrainedEndpointCapabilities x (join_role spec)
         (es_Capabilities spec) (ep_Capabilities e0)"
    using join Some unfolding joinEndpointLocked_def join_role_def [symmetric]
    by (auto simp: Let_def)
  then have "endpoint_slot x e" using e0 by (auto simp: endpoint_slot_def)
  moreover have "endpoint_wf x e"
    using e e0wf role by (simp add: endpoint_wf_def constrained_idem)
  ultimately show ?thesis
    using join Some e unfolding joinEndpointLocked_def join_role_def [symmetric]
    by (auto simp: Let_def)
next
  case None
  have id: "\<And>i. newID ''end'' (rand_at E 0) = Some i \<Longrightarrow> i \<noteq> []"
    by (auto simp: newID_def split: option.splits)
  have "endpoint_wf x e \<and> endpoint_slot x e"
    using join None id join_role_ok [OF ok] unfolding joinEndpointLocked_def join_role_def [symmetric]
    by (auto simp: Let_def endpoint_wf_def constrained_idem endpoint_slot_def targets_def
        list_ex_iff filter_empty_conv split: if_splits option.splits)
  then show ?thesis
    using join None unfolding joinEndpointLocked_def join_role_def [symmetric]
    by (auto simp: Let_def split: if_splits option.splits)
qed

lemma joinEndpointLocked_Inl: "joinEndpointLocked E x spec s = (Inl er, t) \<Longrightarrow> t = s"
  by (auto simp: joinEndpointLocked_def Let_def split: option.splits if_splits)

lemma seq_room_put:
  assumes "seq_room sid n s" and "m_sessions s sid = Some x" and "ses_LastSeq y = ses_LastSeq x"
    and "m_sessions t = (m_sessions s)(sid \<mapsto> y)"
  shows "seq_room sid n t"
  using assms by (auto simp: seq_room_def)

text \<open>The precondition of a join also asks for a regular role and a well-formed store.\<close>

abbreviation join_pre :: "env \<Rightarrow> string \<Rightarrow> EndpointSpec \<Rightarrow> MemoryStore \<Rightarrow> bool" where
  "join_pre E sid spec \<equiv> \<lambda>s. room1 E sid s \<and> store_wf s \<and> role_ok (es_Role spec)"

lemma joinEndpointLocked_evolves:
  assumes join: "joinEndpointLocked E x spec s = (Inr (e, created), t)"
    and x: "m_sessions s sid = Some x" "\<not> sessionTerminal (ses_Status x)"
    and pre: "join_pre E sid spec s"
  shows "evolves sid s t" and "seq_room sid 1 t"
proof -
  have wf: "session_wf sid x (events_of s sid)"
    using pre x(1) by (auto simp: store_wf_def intro: local_wf_session)
  then have sid: "ses_ID x = sid" and eps: "\<forall>e \<in> set (ses_Endpoints x). endpoint_wf x e"
    by (auto simp: session_wf_def)
  note j = joinEndpointLocked_Inr [OF join _ _ eps]
  obtain now where t: "m_sessions t =
      (m_sessions s)(sid \<mapsto> WithEndpoint (x\<lparr>ses_Status := SessionStatusOnline\<rparr>) e now)"
    using j pre sid by auto
  have "evolves sid s (put_session sid (WithEndpoint (x\<lparr>ses_Status := SessionStatusOnline\<rparr>) e now) s)"
    using x j pre by (intro evolves_WithEndpoint) (auto simp: sessionTerminal_def)
  then show "evolves sid s t"
    by (rule evolves_frame_right) (use j pre t in auto)
  show "seq_room sid 1 t" using seq_room_put [OF _ x(1) _ t, of 1] pre by simp
qed

lemma JoinSession_Inr:
  assumes "JoinSession E sid spec s = (Inr (y, e, lease), t)"
  obtains x created s1 s2 where "m_sessions s sid = Some x"
    and "\<not> sessionExpired (clock_at E 0) x" and "\<not> sessionTerminal (ses_Status x)"
    and "joinEndpointLocked (env_from 1 E) x spec s = (Inr (e, created), s1)"
    and "issueLeaseLocked (env_from 10 E) (map_get x (m_sessions s1) sid) e (es_LeaseTTLMS spec)
           (es_RenewAfterMS spec) (es_RetryAfterMS spec) s1 = (lease, s2)"
    and "\<not> created \<and> t = s2
         \<or> created \<and> (\<exists>ev. appendEventLocked (env_from 20 E) sid (hello_event e) True s2 = (Inr ev, t))"
proof (cases "m_sessions s sid")
  case None
  with assms show thesis by (simp add: JoinSession_def)
next
  case x: (Some x)
  then have live: "\<not> sessionExpired (clock_at E 0) x" "\<not> sessionTerminal (ses_Status x)"
    using assms by (auto simp: JoinSession_def split: if_splits)
  obtain r s1 where join: "joinEndpointLocked (env_from 1 E) x spec s = (r, s1)" by (meson surj_pair)
  show thesis
  proof (cases r)
    case (Inl er)
    with assms x live join show thesis by (simp add: JoinSession_def)
  next
    case (Inr p)
    obtain e1 created where p: "p = (e1, created)" by (cases p)
    obtain l s2 where issue: "issueLeaseLocked (env_from 10 E) (map_get x (m_sessions s1) sid) e1
        (es_LeaseTTLMS spec) (es_RenewAfterMS spec) (es_RetryAfterMS spec) s1 = (l, s2)"
      by (meson surj_pair)
    obtain r3 s3 where ap: "appendEventLocked (env_from 20 E) sid (hello_event e1) True s2 = (r3, s3)"
      by (meson surj_pair)
    note js = assms [unfolded JoinSession_def, simplified x live join Inr p issue ap Let_def
        option.simps sum.simps prod.simps if_False]
    show thesis
    proof (cases created)
      case True
      with js obtain ev where ev: "r3 = Inr ev" by (cases r3) auto
      with js True have "e1 = e" "l = lease" "s3 = t" by auto
      with join Inr p issue ap ev True show thesis by (intro that [OF x live]) auto
    next
      case False
      with js have "e1 = e" "l = lease" "s2 = t" by auto
      with join Inr p issue False show thesis by (intro that [OF x live]) auto
    qed
  qed
qed

lemma JoinSession_evolves:
  assumes pre: "join_pre E sid spec s"
  shows "evolves sid s (snd (JoinSession E sid spec s))"
proof (cases "m_sessions s sid")
  case None
  then show ?thesis by (simp add: JoinSession_def)
next
  case x: (Some x)
  consider (expired) "sessionExpired (clock_at E 0) x"
    | (terminal) "\<not> sessionExpired (clock_at E 0) x" "sessionTerminal (ses_Status x)"
    | (live) "\<not> sessionExpired (clock_at E 0) x" "\<not> sessionTerminal (ses_Status x)" by blast
  then show ?thesis
  proof cases
    case expired
    with x pre show ?thesis by (auto simp: JoinSession_def intro: expire_evolves)
  next
    case terminal
    with x show ?thesis by (simp add: JoinSession_def)
  next
    case live
    obtain r t where join: "joinEndpointLocked (env_from 1 E) x spec s = (r, t)" by (meson surj_pair)
    show ?thesis
    proof (cases r)
      case (Inl er)
      with join x live show ?thesis by (auto simp: JoinSession_def dest: joinEndpointLocked_Inl)
    next
      case (Inr p)
      obtain e created where p: "p = (e, created)" by (cases p)
      have ev: "evolves sid s t" and room: "seq_room sid 1 t"
        using joinEndpointLocked_evolves [OF join [unfolded Inr p] x live(2)] pre by auto
      obtain lease s2 where lease: "issueLeaseLocked (env_from 10 E) (map_get x (m_sessions t) sid) e
          (es_LeaseTTLMS spec) (es_RenewAfterMS spec) (es_RetryAfterMS spec) t = (lease, s2)"
        by (meson surj_pair)
      have s2: "m_sessions s2 = m_sessions t" "m_joinCodes s2 = m_joinCodes t"
          "m_events s2 = m_events t" "m_idempotency s2 = m_idempotency t"
        using arg_cong [OF lease, of snd] by auto
      have ev2: "evolves sid s s2" using ev s2 by (rule evolves_frame_right)
      obtain r3 s3 where ap: "appendEventLocked (env_from 20 E) sid (hello_event e) True s2 = (r3, s3)"
        by (meson surj_pair)
      have "evolves sid s2 s3"
        using ap room s2 by (intro evolves_append) (auto simp: seq_room_def hello_event_def)
      with ev2 have "evolves sid s s3" by (rule evolves_trans)
      with ev2 show ?thesis
        using x live join Inr p lease ap
        by (auto simp: JoinSession_def Let_def split: sum.splits)
    qed
  qed
qed

interpretation join: session_operation sid "join_pre E sid spec" "JoinSession E sid spec" for E sid spec
  by unfold_locales (rule JoinSession_evolves)

lemma JoinByCode_evolves:
  assumes "join_pre E sid spec s" and "m_joinCodes s code = Some sid"
  shows "evolves sid s (snd (JoinByCode E code spec s))"
  using JoinSession_evolves [OF assms(1)] assms(2)
  by (auto simp: JoinByCode_def split: sum.splits prod.splits)

section \<open>Events\<close>

text \<open>Append an event, then write a task the append did not touch.\<close>

lemma append_then_task:
  assumes ap: "appendEventLocked E sid e lim s = (Inr ev, s1)" and "seq_room sid 1 s"
    and "not_reserved sid e" and x: "m_sessions s sid = Some x"
    and le: "task_le (ses_Tasks x ! i) u"
    and y: "m_sessions s1 sid = Some y"
  shows "evolves sid s (put_session sid (y\<lparr>ses_Tasks := (ses_Tasks y)[i := u]\<rparr>) s1)"
proof -
  have "evolves sid s s1" using assms by (auto intro: evolves_append)
  moreover have "ses_Tasks y = ses_Tasks x" 
    by (rule append_result [OF ap]) (use x y in simp)
  then have "evolves sid s1 (put_session sid (y\<lparr>ses_Tasks := (ses_Tasks y)[i := u]\<rparr>) s1)"
    using le y by (intro evolves_task_update) auto
  ultimately show ?thesis by (rule evolves_trans)
qed

lemma append_keeps_session:
  "appendEventLocked E sid e lim s = (Inr ev, s1) \<Longrightarrow> \<exists>y. m_sessions s1 sid = Some y"
  by (erule append_result) blast

lemma findTaskLocked_Inr:
  "findTaskLocked sid tid s = Inr (t, i, x) \<Longrightarrow>
   m_sessions s sid = Some x \<and> i < length (ses_Tasks x) \<and> t = ses_Tasks x ! i \<and> tk_ID t = tid"
  by (auto simp: findTaskLocked_def split: option.splits dest: first_index_Some)

lemma AppendEvent_evolves:
  assumes pre: "room1 E sid s" and key: "not_reserved sid e"
  shows "evolves sid s (snd (AppendEvent E sid e s))"
proof -
  have plain: "evolves sid s (snd (appendEventLocked E' sid e True s))" for E'
    using pre key by (auto intro: evolves_append [OF surjective_pairing])
  have progress: "evolves sid s (put_session sid (y\<lparr>ses_Tasks := (ses_Tasks y)[i := u]\<rparr>) s1)"
    if "findTaskLocked sid (ev_TaskID e) s = Inr (t, i, x)" "Transition t TaskStatusRunning now = Inr u"
      "appendEventLocked E' sid e True s = (Inr ev, s1)" "m_sessions s1 sid = Some y"
    for t i x u now E' ev s1 y
    using append_then_task [OF that(3) _ key _ _ that(4)] that(1,2) pre
    by (auto dest!: findTaskLocked_Inr intro: Transition_task_le)
  show ?thesis
    unfolding AppendEvent_def
    using pre plain [of "env_from 1 E"] plain [of "env_from 2 E"]
    by (auto simp: Let_def intro: expire_evolves progress
        split: if_splits option.splits sum.splits prod.splits)
qed

interpretation append: session_operation sid "\<lambda>s. room1 E sid s \<and> not_reserved sid e" "AppendEvent E sid e"
  for E sid e
  by unfold_locales (auto intro: AppendEvent_evolves)

text \<open>An append uses one unit of the sequence space.\<close>

lemma seq_room_append:
  assumes "appendEventLocked E sid e lim s = (r, t)" and room: "seq_room sid (Suc n) s"
  shows "seq_room sid n t"
  using assms(1)
proof (cases rule: appendEventLocked_cases)
  case (new x ident keyed)
  have ne: "ses_LastSeq x \<noteq> - 1" using seq_room_not_max [OF room _ new(1)] by simp
  then have "unat (ses_LastSeq x + 1) = unat (ses_LastSeq x) + 1"
    by (metis Suc_eq_plus1 add.commute unatSuc add_eq_0_iff)
  moreover have "ses_LastSeq x < ses_LastSeq x + 1" using ne by (rule u64_less_plus_1)
  ultimately show ?thesis
    using room seq_room_mono [OF room, of n] new by (auto simp: seq_room_def)
qed (use room in \<open>auto intro: seq_room_mono\<close>)

lemma appendBatch_evolves:
  "seq_room sid (length batch) s \<Longrightarrow> \<forall>e \<in> set batch. not_reserved sid e \<Longrightarrow>
   evolves sid s (snd (appendBatch E sid batch s))"
proof (induction E sid batch s rule: appendBatch.induct)
  case (2 E sid e rest s)
  obtain r t where ap: "appendEventLocked E sid e True s = (r, t)" by (meson surj_pair)
  have ev: "evolves sid s t"
    using ap 2(2,3) by (auto intro!: evolves_append elim: seq_room_mono)
  show ?case
  proof (cases r)
    case (Inr ev1)
    have "evolves sid t (snd (appendBatch (env_from 3 E) sid rest t))"
      using 2(1) [OF ap [symmetric, unfolded Inr] refl] seq_room_append [OF ap] 2(2,3) by simp
    with ev have "evolves sid s (snd (appendBatch (env_from 3 E) sid rest t))" by (rule evolves_trans)
    with ap Inr show ?thesis by (auto split: prod.splits sum.splits)
  qed (use ap ev in simp)
qed simp

abbreviation batch_pre :: "env \<Rightarrow> string \<Rightarrow> Event list \<Rightarrow> MemoryStore \<Rightarrow> bool" where
  "batch_pre E sid batch \<equiv>
     \<lambda>s. seq_room sid (Suc (length batch)) s \<and> rand_ok E \<and> (\<forall>e \<in> set batch. not_reserved sid e)"

lemma AppendEventBatch_evolves:
  assumes "batch_pre E sid batch s"
  shows "evolves sid s (snd (AppendEventBatch E sid batch s))"
proof -
  have "seq_room sid 1 s" "seq_room sid (length batch) s" using assms by (auto elim: seq_room_mono)
  then show ?thesis using assms
    by (auto simp: AppendEventBatch_def intro: expire_evolves appendBatch_evolves
        split: option.splits)
qed

interpretation batch: session_operation sid "batch_pre E sid batch" "AppendEventBatch E sid batch"
  for E sid batch
  by unfold_locales (rule AppendEventBatch_evolves)

section \<open>Polling and leases\<close>

lemma evolves_poll:
  assumes x: "m_sessions s sid = Some x" "\<not> sessionTerminal (ses_Status x)"
    and st: "\<not> sessionTerminal st"
    and e0: "endpointIndexLocked x eid = Some i"
    and e: "ep_ID e = ep_ID (ses_Endpoints x ! i)" "ep_Role e = ep_Role (ses_Endpoints x ! i)"
      "ep_SessionID e = ep_SessionID (ses_Endpoints x ! i)"
      "ep_Capabilities e = ep_Capabilities (ses_Endpoints x ! i)"
  shows "evolves sid s (put_session sid (WithEndpoint (x\<lparr>ses_Status := st\<rparr>) e now) s)"
proof (rule evolves_WithEndpoint [OF x st])
  have mem: "ses_Endpoints x ! i \<in> set (ses_Endpoints x)"
    using e0 by (auto simp: endpointIndexLocked_def dest: first_index_Some)
  show "endpoint_slot x e" using mem e by (auto simp: endpoint_slot_def)
  show "endpoint_wf x e" if "session_wf sid x (events_of s sid)"
    using that mem e by (auto simp: session_wf_def endpoint_wf_def)
qed

text \<open>The endpoint record after a poll.\<close>

definition polled_endpoint :: "EventCursor \<Rightarrow> bool \<Rightarrow> Time \<Rightarrow> Endpoint \<Rightarrow> Endpoint" where
  "polled_endpoint cursor reconnecting now e =
     e\<lparr>ep_ReceivedSeq := (if cu_ReceivedSeq cursor > ep_ReceivedSeq e
                         then cu_ReceivedSeq cursor else ep_ReceivedSeq e),
       ep_ProcessedSeq := (if cu_ProcessedSeq cursor > ep_ProcessedSeq e
                          then cu_ProcessedSeq cursor else ep_ProcessedSeq e),
       ep_State := (if reconnecting then EndpointStateOnline
                   else if cu_EndpointState cursor \<noteq> EndpointStateOther []
                   then cu_EndpointState cursor else ep_State e),
       ep_LastSeenAt := now\<rparr>"

lemma polled_endpoint_simps [simp]:
  "ep_ID (polled_endpoint c r now e) = ep_ID e"
  "ep_Role (polled_endpoint c r now e) = ep_Role e"
  "ep_SessionID (polled_endpoint c r now e) = ep_SessionID e"
  "ep_Capabilities (polled_endpoint c r now e) = ep_Capabilities e"
  "ep_ReceivedSeq (polled_endpoint c r now e) = max (ep_ReceivedSeq e) (cu_ReceivedSeq c)"
  "ep_ProcessedSeq (polled_endpoint c r now e) = max (ep_ProcessedSeq e) (cu_ProcessedSeq c)"
  by (auto simp: polled_endpoint_def max_def)

definition polled_session :: "EventCursor \<Rightarrow> bool \<Rightarrow> env \<Rightarrow> nat \<Rightarrow> Session \<Rightarrow> Session" where
  "polled_session cursor reconnecting E i x =
     WithEndpoint (x\<lparr>ses_Status := (if reconnecting then SessionStatusRecovered else ses_Status x)\<rparr>)
       (polled_endpoint cursor reconnecting (clock_at E 2) (ses_Endpoints x ! i)) (clock_at E 3)"

lemma EventsAfter_cases:
  assumes "EventsAfter E sid cursor limit s = (r, t)"
  obtains (error) er where "r = Inl er" and "t = s \<or> t = snd (expireSessionLocked (env_from 1 E) sid s)"
  | (polled) x i reconnecting replay where "m_sessions s sid = Some x"
      and "\<not> sessionExpired (clock_at E 0) x" and "\<not> sessionTerminal (ses_Status x)"
      and "\<not> cu_AfterSeq cursor < ses_SnapshotSeq x"
      and "endpointIndexLocked x (cu_EndpointID cursor) = Some i"
      and "authorizeLeaseLocked (env_from 1 E) x (ep_ID (ses_Endpoints x ! i))
             (cu_LeaseSecret cursor) s = Inr reconnecting"
      and "t = snd (issueLeaseLocked (env_from 4 E) (polled_session cursor reconnecting E i x)
             (polled_endpoint cursor reconnecting (clock_at E 2) (ses_Endpoints x ! i)) 0 0 0
             (put_session sid (polled_session cursor reconnecting E i x) s))"
      and "r = Inr (visibleEventsLocked sid
               (polled_endpoint cursor reconnecting (clock_at E 2) (ses_Endpoints x ! i))
               (cu_AfterSeq cursor) (clampLimit x limit) s,
             fst (issueLeaseLocked (env_from 4 E) (polled_session cursor reconnecting E i x)
             (polled_endpoint cursor reconnecting (clock_at E 2) (ses_Endpoints x ! i)) 0 0 0
             (put_session sid (polled_session cursor reconnecting E i x) s)), replay)"
proof (cases "m_sessions s sid")
  case None
  with assms show thesis by (intro error) (auto simp: EventsAfter_def)
next
  case x: (Some x)
  note ea = assms [unfolded EventsAfter_def, simplified x option.simps Let_def case_prod_beta
      polled_endpoint_def [symmetric]]
  show thesis
  proof (cases "sessionExpired (clock_at E 0) x \<or> sessionTerminal (ses_Status x)
      \<or> cu_AfterSeq cursor < ses_SnapshotSeq x \<or> endpointIndexLocked x (cu_EndpointID cursor) = None")
    case True
    with ea show thesis by (auto intro: error split: if_splits)
  next
    case False
    then obtain i where i: "endpointIndexLocked x (cu_EndpointID cursor) = Some i" by auto
    show thesis
    proof (cases "authorizeLeaseLocked (env_from 1 E) x (ep_ID (ses_Endpoints x ! i))
             (cu_LeaseSecret cursor) s")
      case (Inl er)
      with ea False i show thesis by (auto intro: error)
    next
      case (Inr reconnecting)
      have y: "WithEndpoint (if reconnecting then x\<lparr>ses_Status := SessionStatusRecovered\<rparr> else x)
          (polled_endpoint cursor reconnecting (clock_at E 2) (ses_Endpoints x ! i)) (clock_at E 3)
          = polled_session cursor reconnecting E i x"
        by (simp add: polled_session_def)
      have vis: "visibleEventsLocked sid e a l (snd (issueLeaseLocked E' y' e' 0 0 0
            (put_session sid y'' s))) = visibleEventsLocked sid e a l s" for e a l E' y' y'' e'
        by (simp add: visibleEventsLocked_def)
      have clamp: "clampLimit (polled_session cursor reconnecting E i x) limit = clampLimit x limit"
        by (simp add: clampLimit_def polled_session_def)
      show thesis
        using ea False i Inr x
        by (intro polled [OF x _ _ _ i Inr]) (auto simp: y vis clamp)
    qed
  qed
qed

lemma EventsAfter_evolves:
  assumes pre: "room1 E sid s"
  shows "evolves sid s (snd (EventsAfter E sid cursor limit s))"
proof -
  obtain r t where "EventsAfter E sid cursor limit s = (r, t)" by (meson surj_pair)
  then have "evolves sid s t"
  proof (cases rule: EventsAfter_cases)
    case (error er)
    with pre show ?thesis by (auto intro: expire_evolves)
  next
    case (polled x i reconnecting replay)
    have "evolves sid s (put_session sid (polled_session cursor reconnecting E i x) s)"
      unfolding polled_session_def
      using polled by (intro evolves_poll [OF polled(1,3) _ polled(5)]) (auto simp: sessionTerminal_def)
    then show ?thesis by (rule evolves_frame_right) (simp_all add: polled)
  qed
  with \<open>EventsAfter E sid cursor limit s = (r, t)\<close> show ?thesis by simp
qed

interpretation poll: session_operation sid "room1 E sid" "EventsAfter E sid cursor limit"
  for E sid cursor limit
  by unfold_locales (rule EventsAfter_evolves)

lemma read_evolves:
  assumes "room1 E sid s"
  shows "evolves sid s (snd (getSession E sid s))"
    and "evolves sid s (snd (EventsAfterForAgent E sid afterSeq limit s))"
    and "evolves sid s (snd (ValidateLease E sid eid secret s))"
  using assms
  by (auto simp: getSession_def EventsAfterForAgent_def ValidateLease_def Let_def
      intro: expire_evolves split: option.splits sum.splits)

interpretation get: session_operation sid "room1 E sid" "getSession E sid" for E sid
  by unfold_locales (rule read_evolves)

interpretation agent_poll: session_operation sid "room1 E sid" "EventsAfterForAgent E sid afterSeq limit"
  for E sid afterSeq limit
  by unfold_locales (rule read_evolves)

interpretation validate: session_operation sid "room1 E sid" "ValidateLease E sid eid secret"
  for E sid eid secret
  by unfold_locales (rule read_evolves)

section \<open>Tasks\<close>

lemma zero_Event_not_reserved [simp]:
  "not_reserved sid (task_offer_event t k)"
  "not_reserved sid (artifact_event ref)"
  by (simp_all add: task_offer_event_def artifact_event_def)

lemma SubmitTask_evolves:
  assumes pre: "room1 E sid s"
  shows "evolves sid s (snd (SubmitTask E sid spec s))"
proof -
  have submit: "evolves sid s s1"
      "evolves sid s (s1\<lparr>m_sessions := (m_sessions s1)(sid \<mapsto>
         (map_get x (m_sessions s1) sid)\<lparr>ses_Tasks := ses_Tasks (map_get x (m_sessions s1) sid) @ [t]\<rparr>),
         m_taskIdempotency := f\<rparr>)"
    if "appendEventLocked E' sid (task_offer_event t k) True s = (r, s1)" "r = Inr ev"
      "m_sessions s sid = Some x" "tk_SessionID t = sid"
    for E' t k r s1 ev x f
  proof -
    show ev: "evolves sid s s1" using that pre by (auto intro: evolves_append)
    note ap = that(1) [unfolded that(2)]
    obtain y where y: "m_sessions s1 sid = Some y" using append_keeps_session [OF ap] by blast
    have "evolves sid s1 (put_session sid (y\<lparr>ses_Tasks := ses_Tasks y @ [t]\<rparr>) s1)"
      using y that by (intro evolves_tasks) auto
    with ev have "evolves sid s (put_session sid (y\<lparr>ses_Tasks := ses_Tasks y @ [t]\<rparr>) s1)"
      by (rule evolves_trans)
    then show "evolves sid s (s1\<lparr>m_sessions := (m_sessions s1)(sid \<mapsto>
         (map_get x (m_sessions s1) sid)\<lparr>ses_Tasks := ses_Tasks (map_get x (m_sessions s1) sid) @ [t]\<rparr>),
         m_taskIdempotency := f\<rparr>)"
      by (rule evolves_frame_right) (simp_all add: y)
  qed
  show ?thesis
    unfolding SubmitTask_def
    using pre
    by (auto simp: Let_def intro: expire_evolves submit evolves_append
        split: option.splits sum.splits prod.splits)
qed

interpretation submit: session_operation sid "room1 E sid" "SubmitTask E sid spec" for E sid spec
  by unfold_locales (rule SubmitTask_evolves)

text \<open>CancelTask and CompleteTask append an event and replace the task they found.\<close>

lemma append_then_replace:
  assumes ap: "appendEventLocked E sid e lim s = (Inr ev, s1)" and room: "seq_room sid 1 s"
    and key: "not_reserved sid e" and x: "m_sessions s sid = Some x"
    and le: "task_le (ses_Tasks x ! i) u"
    and t: "m_sessions t = (m_sessions s1)(sid \<mapsto> (map_get x (m_sessions s1) sid)
        \<lparr>ses_Tasks := (ses_Tasks (map_get x (m_sessions s1) sid))[i := u]\<rparr>)"
      "m_joinCodes t = m_joinCodes s1" "m_events t = m_events s1" "m_idempotency t = m_idempotency s1"
  shows "evolves sid s t"
proof -
  obtain y where y: "m_sessions s1 sid = Some y" using append_keeps_session [OF ap] by blast
  show ?thesis
    by (rule evolves_frame_right [OF append_then_task [OF ap room key x le y]])
      (simp_all add: t y)
qed

lemma CancelTask_evolves:
  assumes pre: "room1 E sid s"
  shows "evolves sid s (snd (CancelTask E sid tid reason ikey s))"
proof -
  have step: "evolves sid s t"
    if "findTaskLocked sid tid s = Inr (task, i, x)" "Transition task TaskStatusCanceled now = Inr u"
      and ap: "appendEventLocked E' sid e True s = (Inr ev, s1)" "ev_FromEndpointID e = ''agent''"
      and t: "m_sessions t = (m_sessions s1)(sid \<mapsto> (map_get x (m_sessions s1) sid)
          \<lparr>ses_Tasks := (ses_Tasks (map_get x (m_sessions s1) sid))[i := u]\<rparr>)"
        "m_joinCodes t = m_joinCodes s1" "m_events t = m_events s1" "m_idempotency t = m_idempotency s1"
    for task i x now u E' e ev s1 t
    using that pre
    by (intro append_then_replace [OF ap(1) _ _ _ _ t]) (auto dest!: findTaskLocked_Inr intro: Transition_task_le)
  show ?thesis
    unfolding CancelTask_def
    using pre
    by (auto simp: Let_def intro: expire_evolves evolves_append step
        split: option.splits sum.splits prod.splits if_splits)
qed

interpretation cancel: session_operation sid "room1 E sid" "CancelTask E sid tid reason ikey"
  for E sid tid reason ikey
  by unfold_locales (rule CancelTask_evolves)

lemma MarkTaskRunning_evolves:
  assumes pre: "room1 E sid s"
  shows "evolves sid s (snd (MarkTaskRunning E sid tid s))"
  unfolding MarkTaskRunning_def
  using pre
  by (auto intro: expire_evolves evolves_task_update Transition_task_le dest!: findTaskLocked_Inr
      split: option.splits sum.splits if_splits)

interpretation mark: session_operation sid "room1 E sid" "MarkTaskRunning E sid tid" for E sid tid
  by unfold_locales (rule MarkTaskRunning_evolves)

text \<open>The status a result reports, and the event that records it.\<close>

definition result_status :: "env \<Rightarrow> payload \<Rightarrow> TaskStatus" where
  "result_status E result =
     (if stringMapValue E result ''status'' = TaskStatus_str TaskStatusFailed then TaskStatusFailed
      else if stringMapValue E result ''status'' = TaskStatus_str TaskStatusCanceled
      then TaskStatusCanceled else TaskStatusSucceeded)"

definition result_attempt :: "env \<Rightarrow> payload \<Rightarrow> Task \<Rightarrow> string" where
  "result_attempt E result task =
     (if stringMapValue E result ''attempt_id'' = [] then tk_AttemptID task
      else stringMapValue E result ''attempt_id'')"

lemma CompleteTask_cases:
  assumes "CompleteTask E sid tid result s = (r, t)"
  obtains (error) er where "r = Inl er" and "t = s"
  | (expired) er where "r = Inl er" and "t = snd (expireSessionLocked (env_from 1 E) sid s)"
  | (replay) ans where "r = Inr ans" and "t = s"
  | (finished) task i x u v e ev s1 rec key where "findTaskLocked sid tid s = Inr (task, i, x)"
      and "\<not> Task_Terminal task" and "result_attempt E result task = tk_AttemptID task"
      and "sessionTerminal (ses_Status x) \<Longrightarrow> inTerminalGrace (env_from 1 E) x s"
      and "(if tk_Status task = TaskStatusOffered then Transition task TaskStatusRunning (clock_at E 2)
            else Inr task) = Inr u"
      and "Transition u (result_status E result) (clock_at E 3) = Inr v"
      and "appendEventLocked (env_from 4 E) sid e True s = (Inr ev, s1)"
      and "ev_Type e = EventTypeTaskResult" and "not_reserved sid e" and "ev_Payload e = result"
      and "ev_FromEndpointID e = tk_TargetEndpointID task" and "ev_TaskID e = tid"
      and "r = Inr (v, ev)"
      and "t = s1\<lparr>m_sessions := (m_sessions s1)(sid \<mapsto> (map_get x (m_sessions s1) sid)
                 \<lparr>ses_Tasks := (ses_Tasks (map_get x (m_sessions s1) sid))[i := v]\<rparr>),
                 m_resultIdempotency := (m_resultIdempotency s1)(key \<mapsto> rec)\<rparr>"
proof (cases "case m_sessions s sid of None \<Rightarrow> False | Some x \<Rightarrow> sessionExpired (clock_at E 0) x")
  case True
  with assms show thesis by (auto simp: CompleteTask_def intro: expired)
next
  case live: False
  note ct = assms [unfolded CompleteTask_def, simplified live if_False Let_def
      result_attempt_def [symmetric] result_status_def [symmetric]]
  show thesis
  proof (cases "findTaskLocked sid tid s")
    case (Inl er)
    with ct show thesis by (intro error) auto
  next
    case (Inr p)
    obtain task i x where p: "p = (task, i, x)" by (cases p)
    note found = Inr [unfolded p]
    let ?attempt = "result_attempt E result task"
    let ?key = "sid @ '':result:'' @ tid @ '':'' @ ?attempt @ '':'' @ stringMapValue E result ''idempotency_key''"
    note ct = ct [simplified found sum.simps prod.simps]
    consider (known) rec where "m_resultIdempotency s ?key = Some rec"
      | (refused) er where "r = Inl er" "t = s"
      | (go) u v where "m_resultIdempotency s ?key = None"
          "\<not> (sessionTerminal (ses_Status x) \<and> \<not> inTerminalGrace (env_from 1 E) x s)"
          "\<not> Task_Terminal task" "?attempt = tk_AttemptID task"
          "(if tk_Status task = TaskStatusOffered then Transition task TaskStatusRunning (clock_at E 2)
            else Inr task) = Inr u"
          "Transition u (result_status E result) (clock_at E 3) = Inr v"
      using ct by (auto split: option.splits if_splits sum.splits)
    then show thesis
    proof cases
      case (known rec)
      with ct show thesis by (cases r) (auto intro: error replay)
    next
      case (go u v)
      have v: "tk_ID v = tid" "tk_TargetEndpointID v = tk_TargetEndpointID task"
        using Transition_Inr [OF go(6)] go(5) findTaskLocked_Inr [OF found]
        by (auto dest: Transition_Inr split: if_splits)
      note ct = ct [simplified go option.simps if_False sum.simps]
      let ?draft = "zero_Event\<lparr>ev_Type := EventTypeTaskResult,
          ev_FromEndpointID := tk_TargetEndpointID v, ev_TaskID := tk_ID v,
          ev_IdempotencyKey := ''result:'' @ tid @ '':'' @ tk_AttemptID task @ '':''
            @ stringMapValue E result ''idempotency_key'', ev_Payload := result\<rparr>"
      obtain r1 s1 where ap: "appendEventLocked (env_from 4 E) sid ?draft True s = (r1, s1)"
        by (meson surj_pair)
      show thesis
      proof (cases r1)
        case (Inl er)
        have "s1 = s" using ap [unfolded Inl] by (cases rule: appendEventLocked_cases) auto
        with ct ap Inl go show thesis by (intro error) (auto simp: append_assoc [symmetric] simp del: append_assoc)
      next
        case (Inr ev)
        show thesis
          by (rule finished [OF found go(3,4) _ go(5,6) ap [unfolded Inr]])
            (use ct ap Inr go v in \<open>auto simp: not_reserved_def lifecycle_keys_def\<close>)
      qed
    qed (rule error)
  qed
qed

lemma CompleteTask_evolves:
  assumes pre: "room1 E sid s"
  shows "evolves sid s (snd (CompleteTask E sid tid result s))"
proof -
  obtain r t where ct: "CompleteTask E sid tid result s = (r, t)" by (meson surj_pair)
  then have "evolves sid s t"
  proof (cases rule: CompleteTask_cases)
    case (finished task i x u v e ev s1 rec key)
    have "task_le task u" using finished(5) by (auto intro: Transition_task_le split: if_splits)
    then have "task_le task v" using Transition_task_le [OF finished(6)] by (rule task_le_trans)
    then show ?thesis
      using findTaskLocked_Inr [OF finished(1)] pre
      by (intro append_then_replace [OF finished(7) _ finished(9)]) (auto simp: finished)
  qed (use pre in \<open>auto intro: expire_evolves\<close>)
  with ct show ?thesis by simp
qed

interpretation complete: session_operation sid "room1 E sid" "CompleteTask E sid tid result"
  for E sid tid result
  by unfold_locales (rule CompleteTask_evolves)

lemma ResumeTask_prepare_store:
  "ResumeTask_prepare E sid tid cid ikey s = (Inl er, t) \<Longrightarrow>
     t = s \<or> t = snd (expireSessionLocked (env_from 1 E) sid s)"
  "ResumeTask_prepare E sid tid cid ikey s = (Inr spec, t) \<Longrightarrow> t = s"
  by (auto simp: ResumeTask_prepare_def Let_def split: if_splits sum.splits option.splits)

lemma ResumeTask_evolves:
  assumes pre: "room1 E sid s"
  shows "evolves sid s (snd (ResumeTask E sid tid cid ikey s))"
proof -
  obtain r t where prep: "ResumeTask_prepare E sid tid cid ikey s = (r, t)" by (meson surj_pair)
  show ?thesis
  proof (cases r)
    case (Inl er)
    with prep pre show ?thesis
      by (auto simp: ResumeTask_def dest!: ResumeTask_prepare_store(1) intro: expire_evolves)
  next
    case (Inr spec)
    with prep pre show ?thesis
      by (auto simp: ResumeTask_def dest!: ResumeTask_prepare_store(2) intro: SubmitTask_evolves)
  qed
qed

interpretation resume: session_operation sid "room1 E sid" "ResumeTask E sid tid cid ikey"
  for E sid tid cid ikey
  by unfold_locales (rule ResumeTask_evolves)

section \<open>Artifacts\<close>

lemma evolves_artifacts:
  assumes x: "m_sessions s sid = Some x" and le: "arts_le (ses_Artifacts x) as"
  shows "evolves sid s (put_session sid (x\<lparr>ses_Artifacts := as\<rparr>) s)"
proof (rule evolves_put [OF x])
  show "session_le x (x\<lparr>ses_Artifacts := as\<rparr>)" using le by (simp add: session_le_def)
  show "session_wf sid (x\<lparr>ses_Artifacts := as\<rparr>) (events_of s sid)"
    if "session_wf sid x (events_of s sid)"
    using that endpoint_wf_cong [of "x\<lparr>ses_Artifacts := as\<rparr>" x]
    by (simp add: session_wf_def ended_wf_def)
qed

text \<open>An artifact is replaced only by one that did not move backwards.\<close>

lemma arts_le_upsert:
  assumes "\<And>a. find (\<lambda>a. art_ID a = art_ID ref) as = Some a \<Longrightarrow> art_UploadOffset a \<le> art_UploadOffset ref"
  shows "arts_le as (upsert_first (\<lambda>a. art_ID a = art_ID ref) ref as)"
  using assms
proof (induction as)
  case (Cons a as)
  then show ?case by (auto simp: arts_le_def split: if_splits)
qed (simp add: arts_le_def)

lemma UpsertArtifact_commit_evolves:
  assumes room: "seq_room sid 1 s" and x: "m_sessions s sid = Some x"
    and le: "arts_le (ses_Artifacts x) (upsert_first (\<lambda>a. art_ID a = art_ID ref) ref (ses_Artifacts x))"
  shows "evolves sid s (snd (UpsertArtifact_commit E sid ref x s))"
proof -
  obtain r s1 where ap: "appendEventLocked (env_from 1 E) sid (artifact_event ref) True s = (r, s1)"
    by (meson surj_pair)
  have ev: "evolves sid s s1" using ap room by (auto intro: evolves_append)
  show ?thesis
  proof (cases r)
    case (Inl er)
    with ap ev show ?thesis by (simp add: UpsertArtifact_commit_def)
  next
    case (Inr e)
    obtain y where y: "m_sessions s1 sid = Some y" "ses_Artifacts y = ses_Artifacts x"
      by (rule append_result [OF ap [unfolded Inr]]) (use x in auto)
    have "evolves sid s1 (put_session sid (y\<lparr>ses_Artifacts :=
        upsert_first (\<lambda>a. art_ID a = art_ID ref) ref (ses_Artifacts x)\<rparr>) s1)"
      using y le by (intro evolves_artifacts) auto
    from evolves_trans [OF ev this] show ?thesis
      using ap Inr y by (simp add: UpsertArtifact_commit_def Let_def)
  qed
qed

lemma UpsertArtifact_evolves:
  assumes pre: "room1 E sid s"
  shows "evolves sid s (snd (UpsertArtifact E sid ref0 s))"
proof -
  have commit: "evolves sid s (snd (UpsertArtifact_commit E' sid ref x s))"
    if "m_sessions s sid = Some x"
      "\<And>a. find (\<lambda>a. art_ID a = art_ID ref) (ses_Artifacts x) = Some a
         \<Longrightarrow> art_UploadOffset a \<le> art_UploadOffset ref" for E' ref x
    using that pre by (intro UpsertArtifact_commit_evolves arts_le_upsert) auto
  show ?thesis
    unfolding UpsertArtifact_def
    using pre by (auto simp: Let_def intro!: expire_evolves commit split: option.splits)
qed

interpretation artifact: session_operation sid "room1 E sid" "UpsertArtifact E sid ref" for E sid ref
  by unfold_locales (rule UpsertArtifact_evolves)

section \<open>Ending, compaction, notification\<close>

lemma CloseSession_evolves: "room1 E sid s \<Longrightarrow> evolves sid s (snd (CloseSession E sid s))"
  unfolding CloseSession_def
  by (rule terminate_evolves [OF _ _ _ surjective_pairing]) (auto simp: sessionTerminal_def)

lemma RevokeSession_evolves: "room1 E sid s \<Longrightarrow> evolves sid s (snd (RevokeSession E sid s))"
proof -
  assume "room1 E sid s"
  then have "evolves sid s (snd (terminateSessionLocked E sid SessionStatusRevoked (''revoke:'' @ sid) s))"
    by (intro terminate_evolves [OF _ _ _ surjective_pairing]) (auto simp: sessionTerminal_def)
  then show ?thesis by (auto simp: RevokeSession_def split: option.splits)
qed

interpretation close: session_operation sid "room1 E sid" "CloseSession E sid" for E sid
  by unfold_locales (rule CloseSession_evolves)

interpretation revoke: session_operation sid "room1 E sid" "RevokeSession E sid" for E sid
  by unfold_locales (rule RevokeSession_evolves)

lemma log_wf_filter: "log_wf sid n evs \<Longrightarrow> log_wf sid n (filter P evs)"
  by (auto simp: log_wf_def sorted_wrt_map intro: sorted_wrt_filter)

lemma CompactEvents_evolves: "evolves sid s (snd (CompactEvents sid n s))"
proof (cases "m_sessions s sid")
  case (Some x)
  let ?x = "x\<lparr>ses_SnapshotSeq := n\<rparr>"
  have "session_wf sid ?x (filter P evs)" if "session_wf sid x evs" for P evs
    using that log_wf_filter endpoint_wf_cong [of ?x x] by (auto simp: session_wf_def ended_wf_def)
  then show ?thesis
    using Some
    by (auto simp: CompactEvents_def evolves_def only_session_def session_evolves_def session_le_def
        local_wf_def)
qed (simp add: CompactEvents_def)

interpretation compact: session_operation sid "\<lambda>_. True" "CompactEvents sid n" for sid n
  by unfold_locales (rule CompactEvents_evolves)

lemma SetSessionNotifyURL_evolves: "evolves sid s (snd (SetSessionNotifyURL E sid url s))"
proof (cases "m_sessions s sid")
  case (Some x)
  let ?x = "x\<lparr>ses_NotifyURL := TrimSpace url, ses_UpdatedAt := clock_at E 0\<rparr>"
  have "evolves sid s (put_session sid ?x s)"
    using endpoint_wf_cong [of ?x x]
    by (intro evolves_put [OF Some]) (auto simp: session_le_def session_wf_def ended_wf_def)
  with Some show ?thesis by (simp add: SetSessionNotifyURL_def Let_def)
qed (simp add: SetSessionNotifyURL_def)

interpretation notify: session_operation sid "\<lambda>_. True" "SetSessionNotifyURL E sid url" for E sid url
  by unfold_locales (rule SetSessionNotifyURL_evolves)

section \<open>Creating a session\<close>

lemma NewSession_Inr:
  assumes "NewSession E spec now = Inr x"
  shows "ses_ID x \<noteq> [] \<and> ses_JoinCode x \<noteq> [] \<and> ses_Endpoints x = [] \<and> ses_Tasks x = []
    \<and> ses_Artifacts x = [] \<and> \<not> sessionTerminal (ses_Status x) \<and> ses_LastSeq x = 0"
  using assms
  by (auto simp: NewSession_def sessionTerminal_def Let_def newID_def newJoinCode_def
      split: option.splits)

lemma CreateSession_cases:
  assumes "CreateSession E spec s = (r, t)"
  obtains (error) er where "r = Inl er" and "t = s"
  | (created) x where "NewSession E spec (clock_at E 0) = Inr x" and "r = Inr x"
      and "m_sessions s (ses_ID x) = None" and "m_joinCodes s (ses_JoinCode x) = None"
      and "t = s\<lparr>m_sessions := (m_sessions s)(ses_ID x \<mapsto> x),
                 m_joinCodes := (m_joinCodes s)(ses_JoinCode x \<mapsto> ses_ID x),
                 m_events := (m_events s)(ses_ID x \<mapsto> [])\<rparr>"
proof (cases "NewSession E spec (clock_at E 0)")
  case (Inl er)
  with assms show thesis by (intro error [of er]) (auto simp: CreateSession_def)
next
  case (Inr x)
  with assms show thesis
    by (auto simp: CreateSession_def storeNewSessionLocked_def intro: error created [OF Inr] split: if_splits)
qed

lemma CreateSession_wf:
  assumes wf: "store_wf s"
  shows "store_wf (snd (CreateSession E spec s))"
proof -
  obtain r t where cs: "CreateSession E spec s = (r, t)" by (meson surj_pair)
  then have "store_wf t"
  proof (cases rule: CreateSession_cases)
    case (created x)
    note x = NewSession_Inr [OF created(1)]
    have "local_wf sid t" for sid
    proof (cases "sid = ses_ID x")
      case True
      have "local_wf (ses_ID x) s" using wf by (simp add: store_wf_def)
      then have "m_idempotency s k = None" if "k \<in> lifecycle_keys (ses_ID x)" for k
        using that created(3) by (auto simp: local_wf_def lifecycle_keys_def)
      with True x created show ?thesis
        by (simp add: local_wf_def session_wf_def log_wf_def ended_wf_def targets_def)
    next
      case False
      moreover have "local_wf sid s" using wf by (simp add: store_wf_def)
      ultimately show ?thesis using created
        by (auto simp: local_wf_def map_get_def split: option.splits)
    qed
    moreover have "m_joinCodes t code = Some sid \<longleftrightarrow>
        (\<exists>y. m_sessions t sid = Some y \<and> ses_JoinCode y = code)" for code sid
      using created wf unfolding store_wf_def by (auto split: if_splits) (metis option.distinct(1))
    ultimately show ?thesis by (simp add: store_wf_def)
  qed (use wf in simp)
  with cs show ?thesis by simp
qed

lemma CreateSession_monotone: "store_le s (snd (CreateSession E spec s))"
proof -
  obtain r t where cs: "CreateSession E spec s = (r, t)" by (meson surj_pair)
  then have "store_le s t"
    by (cases rule: CreateSession_cases) (auto simp: store_le_def)
  with cs show ?thesis by simp
qed

end
