(* ===== verification/Store_System.thy ===== *)
theory Store_System
  imports Store_Methods
begin

text \<open>
  The store as a transition system. A \<open>call\<close> names a public method with its arguments, \<open>exec\<close> runs
  it, and a step is any call that meets its precondition; every method runs under the mutex, so the
  behaviours of concurrent clients are the interleavings of such steps. The invariant and the
  order of Store_Contract hold in every reachable store and along every run, and the properties of
  the control plane follow from them.
\<close>

section \<open>Calls\<close>

datatype call =
    CSetEventHook bool
  | CSetSessionNotifyURL string string
  | CCreateSession SessionSpec
  | CSession string
  | CJoinByCode string EndpointSpec
  | CJoinSession string EndpointSpec
  | CAppendEvent string Event
  | CAppendEventBatch string "Event list"
  | CEventsAfter string EventCursor gint
  | CEventsAfterForAgent string u64 gint
  | CValidateLease string string string
  | CSubmitTask string TaskSpec
  | CCancelTask string string string string
  | CResumeTask string string string string
  | CCompleteTask string string payload
  | CUpsertArtifact string ArtifactRef
  | CMarkTaskRunning string string
  | CCloseSession string
  | CRevokeSession string
  | CCompactEvents string u64
  | CRenameHost "string list" string string

fun exec :: "env \<Rightarrow> call \<Rightarrow> MemoryStore \<Rightarrow> MemoryStore" where
  "exec E (CSetEventHook hook) s = SetEventHook hook s"
| "exec E (CSetSessionNotifyURL sid url) s = snd (SetSessionNotifyURL E sid url s)"
| "exec E (CCreateSession spec) s = snd (CreateSession E spec s)"
| "exec E (CSession sid) s = snd (getSession E sid s)"
| "exec E (CJoinByCode code spec) s = snd (JoinByCode E code spec s)"
| "exec E (CJoinSession sid spec) s = snd (JoinSession E sid spec s)"
| "exec E (CAppendEvent sid e) s = snd (AppendEvent E sid e s)"
| "exec E (CAppendEventBatch sid es) s = snd (AppendEventBatch E sid es s)"
| "exec E (CEventsAfter sid cursor limit) s = snd (EventsAfter E sid cursor limit s)"
| "exec E (CEventsAfterForAgent sid n limit) s = snd (EventsAfterForAgent E sid n limit s)"
| "exec E (CValidateLease sid eid secret) s = snd (ValidateLease E sid eid secret s)"
| "exec E (CSubmitTask sid spec) s = snd (SubmitTask E sid spec s)"
| "exec E (CCancelTask sid tid reason key) s = snd (CancelTask E sid tid reason key s)"
| "exec E (CResumeTask sid tid cid key) s = snd (ResumeTask E sid tid cid key s)"
| "exec E (CCompleteTask sid tid result) s = snd (CompleteTask E sid tid result s)"
| "exec E (CUpsertArtifact sid ref) s = snd (UpsertArtifact E sid ref s)"
| "exec E (CMarkTaskRunning sid tid) s = snd (MarkTaskRunning E sid tid s)"
| "exec E (CCloseSession sid) s = snd (CloseSession E sid s)"
| "exec E (CRevokeSession sid) s = snd (RevokeSession E sid s)"
| "exec E (CCompactEvents sid n) s = snd (CompactEvents sid n s)"
| "exec E (CRenameHost order hid name) s = snd (RenameHost order hid name s)"

text \<open>The session a call works on.\<close>

fun call_session :: "call \<Rightarrow> MemoryStore \<Rightarrow> string option" where
  "call_session (CSetEventHook _) s = None"
| "call_session (CSetSessionNotifyURL sid _) s = Some sid"
| "call_session (CCreateSession _) s = None"
| "call_session (CSession sid) s = Some sid"
| "call_session (CJoinByCode code _) s = m_joinCodes s code"
| "call_session (CJoinSession sid _) s = Some sid"
| "call_session (CAppendEvent sid _) s = Some sid"
| "call_session (CAppendEventBatch sid _) s = Some sid"
| "call_session (CEventsAfter sid _ _) s = Some sid"
| "call_session (CEventsAfterForAgent sid _ _) s = Some sid"
| "call_session (CValidateLease sid _ _) s = Some sid"
| "call_session (CSubmitTask sid _) s = Some sid"
| "call_session (CCancelTask sid _ _ _) s = Some sid"
| "call_session (CResumeTask sid _ _ _) s = Some sid"
| "call_session (CCompleteTask sid _ _) s = Some sid"
| "call_session (CUpsertArtifact sid _) s = Some sid"
| "call_session (CMarkTaskRunning sid _) s = Some sid"
| "call_session (CCloseSession sid) s = Some sid"
| "call_session (CRevokeSession sid) s = Some sid"
| "call_session (CCompactEvents sid _) s = Some sid"
| "call_session (CRenameHost _ _ _) s = None"

text \<open>
  The precondition of a call: crypto/rand answers, the sequence space is not exhausted, a joining
  endpoint states a regular role, and a posted event does not claim one of the two idempotency
  keys that the gateway reserves for closing and revoking.
\<close>

fun call_events :: "call \<Rightarrow> Event list" where
  "call_events (CAppendEvent _ e) = [e]"
| "call_events (CAppendEventBatch _ es) = es"
| "call_events _ = []"

fun call_role :: "call \<Rightarrow> EndpointRole" where
  "call_role (CJoinByCode _ spec) = es_Role spec"
| "call_role (CJoinSession _ spec) = es_Role spec"
| "call_role _ = EndpointRoleTarget"

definition call_ready :: "call \<Rightarrow> MemoryStore \<Rightarrow> bool" where
  "call_ready c s \<longleftrightarrow>
     role_ok (call_role c)
     \<and> (case call_session c s of
          None \<Rightarrow> True
        | Some sid \<Rightarrow> seq_room sid (Suc (length (call_events c))) s
            \<and> list_all (not_reserved sid) (call_events c))"

definition call_ok :: "env \<Rightarrow> call \<Rightarrow> MemoryStore \<Rightarrow> bool" where
  "call_ok E c s \<longleftrightarrow> rand_ok E \<and> call_ready c s"

inductive store_step :: "MemoryStore \<Rightarrow> MemoryStore \<Rightarrow> bool" where
  call: "call_ok E c s \<Longrightarrow> store_step s (exec E c s)"

definition initial_store :: "MemoryStore \<Rightarrow> bool" where
  "initial_store s \<longleftrightarrow> s = NewMemoryStore"

abbreviation reachable :: "MemoryStore \<Rightarrow> bool" where
  "reachable s \<equiv> store_step\<^sup>*\<^sup>* NewMemoryStore s"

section \<open>Every call keeps the contract\<close>

lemma exec_evolves:
  assumes ok: "call_ok E c s" and sid: "call_session c s = Some sid" and wf: "store_wf s"
  shows "evolves sid s (exec E c s)"
proof -
  have room: "seq_room sid 1 s" "rand_ok E" "role_ok (call_role c)"
    using ok sid by (auto simp: call_ok_def call_ready_def elim: seq_room_mono)
  have events: "seq_room sid (Suc (length (call_events c))) s" "\<forall>e \<in> set (call_events c). not_reserved sid e"
    using ok sid by (auto simp: call_ok_def call_ready_def list_all_iff)
  show ?thesis
  proof (cases c)
    case (CJoinByCode code spec)
    with sid room wf show ?thesis by (auto intro!: JoinByCode_evolves)
  qed (use room events sid wf in \<open>auto intro!: join.op_evolves append.op_evolves batch.op_evolves
      poll.op_evolves get.op_evolves agent_poll.op_evolves validate.op_evolves submit.op_evolves
      cancel.op_evolves resume.op_evolves complete.op_evolves artifact.op_evolves mark.op_evolves
      close.op_evolves revoke.op_evolves compact.op_evolves notify.op_evolves\<close>)
qed

lemma RenameHost_frame:
  "m_sessions (snd (RenameHost order hid name s)) = m_sessions s"
  "m_joinCodes (snd (RenameHost order hid name s)) = m_joinCodes s"
  "m_events (snd (RenameHost order hid name s)) = m_events s"
  "m_idempotency (snd (RenameHost order hid name s)) = m_idempotency s"
  by (simp_all add: RenameHost_def Let_def split: option.splits)

text \<open>A call that works on no session creates one or leaves all of them alone.\<close>

lemma exec_no_session:
  assumes "call_session c s = None"
  shows "(\<exists>spec. c = CCreateSession spec) \<or> evolves sid s (exec E c s)"
  using assms
  by (cases c) (auto simp: SetEventHook_def JoinByCode_def RenameHost_frame intro: evolves_frame)

lemma exec_wf:
  assumes ok: "call_ok E c s" and wf: "store_wf s"
  shows "store_wf (exec E c s)"
proof (cases "call_session c s")
  case None
  then show ?thesis
    using exec_no_session [OF None, of "[]" E] wf by (auto intro: CreateSession_wf store_wf_evolves)
next
  case (Some sid)
  from wf exec_evolves [OF ok Some wf] show ?thesis by (rule store_wf_evolves)
qed

lemma exec_le:
  assumes ok: "call_ok E c s" and wf: "store_wf s"
  shows "store_le s (exec E c s)"
proof (cases "call_session c s")
  case None
  then show ?thesis
    using exec_no_session [OF None, of "[]" E] by (auto intro: CreateSession_monotone store_le_evolves)
next
  case (Some sid)
  from exec_evolves [OF ok Some wf] show ?thesis by (rule store_le_evolves)
qed

lemma NewMemoryStore_wf: "store_wf NewMemoryStore"
  by (simp add: store_wf_def local_wf_def NewMemoryStore_def)

interpretation store: monotone_system initial_store store_step store_wf store_le
  by unfold_locales
    (auto simp: initial_store_def NewMemoryStore_wf store_le_refl
      elim!: store_step.cases intro: exec_wf exec_le store_le_trans)

lemma reachable_wf: "reachable s \<Longrightarrow> store_wf s"
  by (rule store.reachable_inv [of NewMemoryStore]) (simp_all add: initial_store_def)

lemma reachable_session_wf:
  "reachable s \<Longrightarrow> m_sessions s sid = Some x \<Longrightarrow> session_wf sid x (events_of s sid)"
  using reachable_wf by (auto simp: store_wf_def intro: local_wf_session)

lemma run_session_le:
  assumes "reachable s" and "store_step\<^sup>*\<^sup>* s t" and "m_sessions s sid = Some x"
  obtains y where "m_sessions t sid = Some y" and "session_le x y"
  using store.run_le [OF assms(2) reachable_wf [OF assms(1)]] assms(3)
  by (auto simp: store_le_def)

end
