(* ===== verification/Scenario.thy ===== *)
theory Scenario
  imports Store_System
begin

text \<open>
  A concrete run of the store, for evaluating the properties: a session with one capability is
  created, a target joins it, an agent submits a task, the target reports its result, and the
  session is closed. The environment answers with constant bytes and a clock that advances by one
  second per call.
\<close>

definition demo_env :: "nat \<Rightarrow> env" where
  "demo_env n =
     \<lparr>clock_at = (\<lambda>_. second_ns * int (Suc n)), rand_at = (\<lambda>k. Some (\<lambda>i. of_nat (n + k))),
      json_Marshal = (\<lambda>_. Some ''{}''), fmt_Sprint = (\<lambda>_. [])\<rparr>"

lemma rand_ok_demo [simp]: "rand_ok (demo_env n)"
  by (simp add: rand_ok_def demo_env_def)

definition demo_limits :: Limits where
  "demo_limits = \<lparr>lim_EventPayloadBytes = 0, lim_EventBatch = 0, lim_ArtifactChunkBytes = 0,
     lim_InlineTaskSummaryBytes = 0, lim_TerminalGraceMillis = 0, lim_IdempotencyRetentionSeq = 0\<rparr>"

definition demo_spec :: SessionSpec where
  "demo_spec = \<lparr>ss_Profile = [], ss_Reason = ''demo'', ss_Capabilities = [''shell''],
     ss_JoinPolicy = [], ss_GatewayCandidates = [], ss_SelectedGatewayURL = [],
     ss_AuthorityID = [], ss_Limits = demo_limits, ss_ReconnectGraceMS = 5000, ss_RetryAfterMS = 0,
     ss_SnapshotSeq = 0, ss_ExpiresAt = 0, ss_NotifyURL = []\<rparr>"

text \<open>The identifiers the environment leads to; their text does not matter.\<close>

definition demo_id :: "string \<Rightarrow> nat \<Rightarrow> string" where
  "demo_id pre n = (case newID pre (Some (\<lambda>_. of_nat n)) of None \<Rightarrow> [] | Some i \<Rightarrow> i)"

definition demo_code :: string where
  "demo_code = (case newJoinCode (Some (\<lambda>_. 1)) of None \<Rightarrow> [] | Some c \<Rightarrow> c)"

lemma demo_env_simps [simp]:
  "clock_at (demo_env n) k = second_ns * int (Suc n)"
  "newID pre (rand_at (demo_env n) k) = Some (demo_id pre (n + k))"
  "newJoinCode (rand_at (demo_env 0) (Suc 0)) = Some demo_code"
  "json_Marshal (demo_env n) v = Some ''{}''"
  "fmt_Sprint (demo_env n) v = []"
  by (simp_all add: demo_env_def demo_id_def demo_code_def newID_def newJoinCode_def)

abbreviation demo_sid :: string where
  "demo_sid \<equiv> demo_id ''ses'' 0"

definition demo_target :: EndpointSpec where
  "demo_target = \<lparr>es_EndpointID = ''host-1'', es_Role = EndpointRoleTarget, es_Name = ''host'',
     es_Platform = ''linux'', es_IdentityFingerprint = ''fp-1'',
     es_Capabilities = [''shell'', ''root''], es_Transport = TransportOther [],
     es_LeaseTTLMS = 0, es_RenewAfterMS = 0, es_RetryAfterMS = 0, es_PreviousLeaseSecret = [],
     es_HostVersion = [], es_HostCommit = []\<rparr>"

definition demo_task :: TaskSpec where
  "demo_task = \<lparr>ts_TargetEndpointID = [],
     ts_TargetSelector = \<lparr>sel_Role = EndpointRoleOther [], sel_Platform = [], sel_Capabilities = []\<rparr>,
     ts_Adapter = ''shell'', ts_Intent = ''build'', ts_Capabilities = [''shell''],
     ts_Payload = None, ts_Limits = None, ts_AttemptID = ''attempt-1'', ts_IdempotencyKey = ''k1''\<rparr>"

definition created_store :: MemoryStore where
  "created_store = snd (CreateSession (demo_env 0) demo_spec NewMemoryStore)"

definition joined_store :: MemoryStore where
  "joined_store = snd (JoinSession (demo_env 1) demo_sid demo_target created_store)"

definition submitted_store :: MemoryStore where
  "submitted_store = snd (SubmitTask (demo_env 2) demo_sid demo_task joined_store)"

definition closed_store :: MemoryStore where
  "closed_store = snd (CloseSession (demo_env 3) demo_sid submitted_store)"

definition demo_session :: Session where
  "demo_session = \<lparr>ses_SchemaVersion = SessionSchemaVersion, ses_ID = demo_sid, ses_JoinCode = demo_code,
     ses_Profile = ''attended-temporary'', ses_Status = SessionStatusCreated, ses_Reason = ''demo'',
     ses_Capabilities = [''shell''], ses_JoinPolicy = ''single-target'', ses_GatewayCandidates = [],
     ses_SelectedGatewayURL = [], ses_Endpoints = [], ses_Tasks = [], ses_Artifacts = [],
     ses_LastSeq = 0, ses_SnapshotSeq = 0, ses_AuthorityID = [],
     ses_Limits = withDefaults demo_limits, ses_ReconnectGraceMS = 5000, ses_RetryAfterMS = 0,
     ses_NotifyURL = [], ses_NotifySecret = [], ses_LatestEvent = zero_Event,
     ses_CreatedAt = second_ns, ses_UpdatedAt = second_ns, ses_ExpiresAt = 0\<rparr>"

lemma demo_trims [simp]:
  "TrimRightSlash [] = []" "TrimSpace ''shell'' = ''shell''" "TrimSpace ''root'' = ''root''"
  "TrimSpace ''fp-1'' = ''fp-1''"
  by (simp_all add: TrimSpace_graphic graphic_def TrimRightSlash_def)

lemma created_store_eq:
  "created_store = NewMemoryStore\<lparr>m_sessions := [demo_sid \<mapsto> demo_session],
     m_joinCodes := [demo_code \<mapsto> demo_sid], m_events := [demo_sid \<mapsto> []]\<rparr>"
  by (simp add: created_store_def CreateSession_def NewSession_def storeNewSessionLocked_def
      demo_spec_def demo_session_def NewMemoryStore_def Let_def selectedGatewayURL_def)

lemma demo_session_simps [simp]:
  "ses_ID demo_session = demo_sid" "ses_Endpoints demo_session = []" "ses_Tasks demo_session = []"
  "ses_Status demo_session = SessionStatusCreated" "ses_LastSeq demo_session = 0"
  "ses_ExpiresAt demo_session = 0" "ses_Capabilities demo_session = [''shell'']"
  "ses_JoinPolicy demo_session = ''single-target''" "ses_JoinCode demo_session = demo_code"
  "lim_EventPayloadBytes (ses_Limits demo_session) = 65536"
  "lim_EventBatch (ses_Limits demo_session) = 100"
  "ses_ReconnectGraceMS demo_session = 5000" "ses_Artifacts demo_session = []"
  by (simp_all add: demo_session_def withDefaults_def demo_limits_def)

lemma demo_id_nonempty [simp]: "demo_id pre n \<noteq> []"
  by (simp add: demo_id_def newID_def)

lemma demo_id_distinct:
  assumes "(of_nat m :: u8) \<noteq> of_nat n"
  shows "demo_id pre m \<noteq> demo_id pre n"
proof
  assume "demo_id pre m = demo_id pre n"
  then have "newID pre (Some (\<lambda>_. of_nat m)) = newID pre (Some (\<lambda>_. of_nat n))"
    by (simp add: demo_id_def newID_def)
  from newID_bytes [OF this, of 0] assms show False by simp
qed

lemma demo_schemas [simp]: "EndpointSchemaVersion \<noteq> []" "EventSchemaVersion \<noteq> []"
  by (simp_all add: EndpointSchemaVersion_def EventSchemaVersion_def)

definition demo_endpoint :: Endpoint where
  "demo_endpoint = \<lparr>ep_SchemaVersion = EndpointSchemaVersion, ep_ID = ''host-1'', ep_SessionID = demo_sid,
     ep_Role = EndpointRoleTarget, ep_Name = ''host'', ep_Platform = ''linux'',
     ep_IdentityFingerprint = ''fp-1'', ep_Capabilities = [''shell''], ep_State = EndpointStateOnline,
     ep_Transport = TransportPoll, ep_ReceivedSeq = 0, ep_ProcessedSeq = 0,
     ep_LastSeenAt = second_ns * 2, ep_HostVersion = [], ep_HostCommit = []\<rparr>"

definition entered_session :: Session where
  "entered_session = demo_session\<lparr>ses_Endpoints := [demo_endpoint],
     ses_Status := SessionStatusOnline, ses_UpdatedAt := second_ns * 2\<rparr>"

lemma entered_session_eq:
  "WithEndpoint (demo_session\<lparr>ses_Status := SessionStatusOnline\<rparr>) demo_endpoint (second_ns * 2) = entered_session"
  by (simp add: WithEndpoint_def entered_session_def demo_endpoint_def Let_def)

lemma entered_session_simps [simp]:
  "ses_ID entered_session = demo_sid" "ses_Endpoints entered_session = [demo_endpoint]"
  "ses_Status entered_session = SessionStatusOnline" "ses_LastSeq entered_session = 0"
  "ses_ExpiresAt entered_session = 0" "ses_Limits entered_session = ses_Limits demo_session"
  "ses_Tasks entered_session = []" "ses_Artifacts entered_session = []"
  "ses_JoinCode entered_session = demo_code" "ses_Capabilities entered_session = [''shell'']"
  "ses_JoinPolicy entered_session = ''single-target''" "ses_ReconnectGraceMS entered_session = 5000"
  by (simp_all add: entered_session_def)

lemma demo_endpoint_simps [simp]:
  "ep_ID demo_endpoint = ''host-1''" "ep_Role demo_endpoint = EndpointRoleTarget"
  "ep_State demo_endpoint = EndpointStateOnline" "ep_Capabilities demo_endpoint = [''shell'']"
  "ep_SessionID demo_endpoint = demo_sid" "ep_Platform demo_endpoint = ''linux''"
  "ep_IdentityFingerprint demo_endpoint = ''fp-1''"
  by (simp_all add: demo_endpoint_def)

definition entered_store :: MemoryStore where
  "entered_store = UpsertHostLocked (env_from 3 (env_from 1 (demo_env 1))) entered_session demo_endpoint
     (second_ns * 2) (put_session demo_sid entered_session created_store)"

lemma demo_join:
  "joinEndpointLocked (env_from 1 (demo_env 1)) demo_session demo_target created_store =
     (Inr (demo_endpoint, True), entered_store)"
  using entered_session_eq
  by (simp add: joinEndpointLocked_def demo_target_def constrainedEndpointCapabilities_def Let_def
      demo_endpoint_def [symmetric] entered_store_def)

text \<open>After the join the session has one target, one event in its log, and one lease.\<close>

definition demo_hello :: Event where
  "demo_hello = stampEvent (env_from 20 (demo_env 1)) demo_sid entered_session (demo_id ''evt'' 21)
     (hello_event demo_endpoint)"

definition joined_session :: Session where
  "joined_session = logged_session (env_from 20 (demo_env 1)) entered_session demo_hello"

lemma not_expired_demo [simp]: "ses_ExpiresAt x = 0 \<Longrightarrow> \<not> sessionExpired now x"
  by (simp add: sessionExpired_def IsZero_def)

lemma created_store_simps [simp]:
  "m_sessions created_store = [demo_sid \<mapsto> demo_session]" "m_events created_store = [demo_sid \<mapsto> []]"
  "m_idempotency created_store = Map.empty" "m_taskIdempotency created_store = Map.empty"
  "m_resultIdempotency created_store = Map.empty" "m_terminalAt created_store = Map.empty"
  "m_leases created_store = Map.empty" "m_cancelIdempotency created_store = Map.empty"
  by (simp_all add: created_store_eq NewMemoryStore_def)

definition demo_lease :: Lease where
  "demo_lease = fst (issueLeaseLocked (env_from 10 (demo_env 1)) entered_session demo_endpoint 0 0 0 entered_store)"

definition leased_store :: MemoryStore where
  "leased_store = snd (issueLeaseLocked (env_from 10 (demo_env 1)) entered_session demo_endpoint 0 0 0 entered_store)"

lemma leased_store_simps [simp]:
  "m_sessions leased_store = [demo_sid \<mapsto> entered_session]" "m_events leased_store = [demo_sid \<mapsto> []]"
  "m_idempotency leased_store = Map.empty" "m_taskIdempotency leased_store = Map.empty"
  "m_resultIdempotency leased_store = Map.empty" "m_terminalAt leased_store = Map.empty"
  "m_cancelIdempotency leased_store = Map.empty"
  by (simp_all add: leased_store_def entered_store_def)

lemma demo_append:
  assumes "m_sessions s sid = Some x" "\<not> sessionTerminal (ses_Status x)" "ses_ExpiresAt x = 0"
    "ses_Limits x = ses_Limits demo_session" "ev_IdempotencyKey e \<noteq> []"
    "m_idempotency s (event_key sid e) = None"
  shows "appendEventLocked (env_from k (demo_env n)) sid e True s =
    (Inr (stampEvent (env_from k (demo_env n)) sid x (demo_id ''evt'' (n + k)) e),
     commitEvent (env_from k (demo_env n)) sid x
       (stampEvent (env_from k (demo_env n)) sid x (demo_id ''evt'' (n + k)) e)
       (Some (event_key sid e, ''{}'')) s)"
  using assms
  by (auto simp: appendEventLocked_def checkPayload_def jsonPayloadSize_def eventFingerprint_def Let_def
      split: option.splits)

lemma joined_store_eq:
  "joined_store = commitEvent (env_from 20 (demo_env 1)) demo_sid entered_session demo_hello
     (Some (event_key demo_sid (hello_event demo_endpoint), ''{}'')) leased_store"
proof -
  have terms: "es_LeaseTTLMS demo_target = 0" "es_RenewAfterMS demo_target = 0" "es_RetryAfterMS demo_target = 0"
    by (simp_all add: demo_target_def)
  have lease: "issueLeaseLocked (env_from 10 (demo_env 1)) entered_session demo_endpoint 0 0 0 entered_store
      = (demo_lease, leased_store)"
    by (simp add: leased_store_def demo_lease_def)
  have entered: "m_sessions entered_store = [demo_sid \<mapsto> entered_session]"
    by (simp add: entered_store_def)
  have hello: "appendEventLocked (env_from 20 (demo_env 1)) demo_sid (hello_event demo_endpoint) True leased_store
      = (Inr demo_hello, commitEvent (env_from 20 (demo_env 1)) demo_sid entered_session demo_hello
     (Some (event_key demo_sid (hello_event demo_endpoint), ''{}'')) leased_store)"
    unfolding demo_hello_def
    using demo_append [of leased_store demo_sid entered_session "hello_event demo_endpoint" 20 1]
    by (simp add: sessionTerminal_def hello_event_def)
  show ?thesis
    using demo_join lease hello entered
    by (simp add: joined_store_def JoinSession_def terms sessionTerminal_def Let_def)
qed

lemma joined_store_simps [simp]:
  "m_sessions joined_store = [demo_sid \<mapsto> joined_session]"
  "m_events joined_store = [demo_sid \<mapsto> [demo_hello]]"
  "m_taskIdempotency joined_store = Map.empty" "m_terminalAt joined_store = Map.empty"
  "m_resultIdempotency joined_store = Map.empty"  "m_cancelIdempotency joined_store = Map.empty"
  by (simp_all add: joined_store_eq joined_session_def)

lemma joined_session_simps [simp]:
  "ses_ID joined_session = demo_sid" "ses_Endpoints joined_session = [demo_endpoint]"
  "ses_Status joined_session = SessionStatusOnline" "ses_LastSeq joined_session = 1"
  "ses_ExpiresAt joined_session = 0" "ses_Limits joined_session = ses_Limits demo_session"
  "ses_Tasks joined_session = []" "ses_Capabilities joined_session = [''shell'']"
  "ses_JoinPolicy joined_session = ''single-target''" "ses_JoinCode joined_session = demo_code"
  by (simp_all add: joined_session_def demo_hello_def)

lemma joined_reachable: "reachable joined_store"
proof -
  have "store_step NewMemoryStore created_store"
    using store_step.call [of "demo_env 0" "CCreateSession demo_spec" NewMemoryStore]
    by (simp add: created_store_def call_ok_def call_ready_def role_ok_def EndpointRole_of_def)
  moreover have "store_step created_store joined_store"
    using store_step.call [of "demo_env 1" "CJoinSession demo_sid demo_target" created_store]
    by (simp add: joined_store_def call_ok_def call_ready_def role_ok_def EndpointRole_of_def
        demo_target_def seq_room_def)
  ultimately show ?thesis by (meson converse_rtranclp_into_rtranclp rtranclp.rtrancl_refl)
qed

lemma joined_store_keys:
  "ik_FromEndpointID k \<noteq> ''gateway'' \<Longrightarrow> m_idempotency joined_store k = None"
  by (auto simp: joined_store_eq hello_event_def)

text \<open>The agent's task is offered to the target.\<close>

definition offered_task :: Task where
  "offered_task = \<lparr>tk_SchemaVersion = TaskSchemaVersion, tk_ID = demo_id ''task'' 2, tk_SessionID = demo_sid,
     tk_TargetEndpointID = ''host-1'', tk_TargetSelector = ts_TargetSelector demo_task,
     tk_Adapter = ''shell'', tk_Intent = ''build'', tk_Capabilities = [''shell''], tk_Payload = None,
     tk_Limits = None, tk_AttemptID = ''attempt-1'', tk_IdempotencyKey = ''k1'',
     tk_Status = TaskStatusOffered, tk_CreatedAt = second_ns * 3, tk_StartedAt = None, tk_EndedAt = None\<rparr>"

definition demo_offer :: Event where
  "demo_offer = stampEvent (env_from 2 (demo_env 2)) demo_sid joined_session (demo_id ''evt'' 4)
     (task_offer_event offered_task ''task:k1'')"

definition submitted_session :: Session where
  "submitted_session = (logged_session (env_from 2 (demo_env 2)) joined_session demo_offer)\<lparr>
     ses_Tasks := [offered_task]\<rparr>"

lemma demo_submit:
  "SubmitTask (demo_env 2) demo_sid demo_task joined_store =
     (Inr (offered_task, demo_offer), submitted_store)"
  and submitted_store_simps [simp]:
  "m_sessions submitted_store = [demo_sid \<mapsto> submitted_session]"
  "m_events submitted_store = [demo_sid \<mapsto> [demo_hello, demo_offer]]"
  "m_terminalAt submitted_store = Map.empty"
  "m_resultIdempotency submitted_store = Map.empty"
  "ik_FromEndpointID k \<noteq> ''gateway'' \<Longrightarrow> ik_FromEndpointID k \<noteq> ''agent'' \<Longrightarrow> m_idempotency submitted_store k = None"
proof -
  have route: "routeTaskLocked joined_session demo_task = Inr demo_endpoint"
    by (simp add: routeTaskLocked_def demo_task_def endpointHasCapabilities_def
        endpointOnlineState_def Let_def)
  have free: "m_idempotency joined_store (event_key demo_sid (task_offer_event offered_task ''task:k1'')) = None"
    by (simp add: joined_store_eq task_offer_event_def hello_event_def)
  have append: "appendEventLocked (env_from 2 (demo_env 2)) demo_sid (task_offer_event offered_task ''task:k1'') True joined_store
      = (Inr demo_offer, commitEvent (env_from 2 (demo_env 2)) demo_sid joined_session demo_offer
     (Some (event_key demo_sid (task_offer_event offered_task ''task:k1''), ''{}'')) joined_store)"
    unfolding demo_offer_def
    using demo_append [of joined_store demo_sid joined_session _ 2 2] free
    by (simp add: sessionTerminal_def task_offer_event_def)
  have offer: "ev_FromEndpointID (task_offer_event t i) = ''agent''" for t i
    by (simp add: task_offer_event_def)
  let ?r = "SubmitTask (demo_env 2) demo_sid demo_task joined_store"
  have spec: "ts_IdempotencyKey demo_task = ''k1''" "ts_AttemptID demo_task = ''attempt-1''"
    by (simp_all add: demo_task_def)
  have task: "\<lparr>tk_SchemaVersion = TaskSchemaVersion, tk_ID = demo_id ''task'' 2, tk_SessionID = demo_sid,
     tk_TargetEndpointID = ''host-1'', tk_TargetSelector = ts_TargetSelector demo_task,
     tk_Adapter = ts_Adapter demo_task, tk_Intent = ts_Intent demo_task,
     tk_Capabilities = ts_Capabilities demo_task, tk_Payload = ts_Payload demo_task,
     tk_Limits = ts_Limits demo_task, tk_AttemptID = ''attempt-1'', tk_IdempotencyKey = ''k1'',
     tk_Status = TaskStatusOffered, tk_CreatedAt = second_ns * 3, tk_StartedAt = None, tk_EndedAt = None\<rparr> = offered_task"
    by (simp add: offered_task_def demo_task_def)
  have r: "fst ?r = Inr (offered_task, demo_offer)"
    "m_sessions (snd ?r) = [demo_sid \<mapsto> submitted_session]"
    "m_events (snd ?r) = [demo_sid \<mapsto> [demo_hello, demo_offer]]"
    "m_terminalAt (snd ?r) = Map.empty"
    "m_resultIdempotency (snd ?r) = Map.empty"
    "ik_FromEndpointID k \<noteq> ''gateway'' \<Longrightarrow> ik_FromEndpointID k \<noteq> ''agent'' \<Longrightarrow> m_idempotency (snd ?r) k = None"
    using append offer
    by (auto simp: SubmitTask_def sessionTerminal_def route spec task Let_def submitted_session_def
        offer joined_store_keys)
  then show "SubmitTask (demo_env 2) demo_sid demo_task joined_store =
     (Inr (offered_task, demo_offer), submitted_store)"
    "m_sessions submitted_store = [demo_sid \<mapsto> submitted_session]"
    "m_events submitted_store = [demo_sid \<mapsto> [demo_hello, demo_offer]]"
    "m_terminalAt submitted_store = Map.empty"
    "m_resultIdempotency submitted_store = Map.empty"
    "ik_FromEndpointID k \<noteq> ''gateway'' \<Longrightarrow> ik_FromEndpointID k \<noteq> ''agent'' \<Longrightarrow> m_idempotency submitted_store k = None"
    by (auto simp: submitted_store_def prod_eq_iff)
qed

lemma submitted_session_simps [simp]:
  "ses_ID submitted_session = demo_sid" "ses_Endpoints submitted_session = [demo_endpoint]"
  "ses_Status submitted_session = SessionStatusOnline" "ses_LastSeq submitted_session = 2"
  "ses_ExpiresAt submitted_session = 0" "ses_Limits submitted_session = ses_Limits demo_session"
  "ses_Tasks submitted_session = [offered_task]"
  by (simp_all add: submitted_session_def demo_offer_def)

text \<open>Closing revokes the target.\<close>

definition demo_close :: Event where
  "demo_close = stampEvent (demo_env 3) demo_sid submitted_session (demo_id ''evt'' 3)
     (zero_Event\<lparr>ev_Type := EventTypeClose, ev_FromEndpointID := ''gateway.lifecycle'',
        ev_IdempotencyKey := ''close:'' @ demo_sid\<rparr>)"

definition closed_session :: Session where
  "closed_session = ended_session id SessionStatusClosed (second_ns * 4)
     (logged_session (demo_env 3) submitted_session demo_close)"

lemma demo_closing: "CloseSession (demo_env 3) demo_sid submitted_store = (Inr (closed_session, demo_close), closed_store)"
  and closed_store_simps [simp]:
  "m_sessions closed_store = [demo_sid \<mapsto> closed_session]"
  "m_events closed_store = [demo_sid \<mapsto> [demo_hello, demo_offer, demo_close]]"
  "m_terminalAt closed_store = [demo_sid \<mapsto> second_ns * 4]"
  "m_resultIdempotency closed_store = Map.empty"
proof -
  let ?draft = "zero_Event\<lparr>ev_Type := EventTypeClose, ev_FromEndpointID := ''gateway.lifecycle'',
     ev_IdempotencyKey := ''close:'' @ demo_sid\<rparr>"
  have env: "env_from 0 E = E" for E by (simp add: env_from_def)
  have append: "appendEventLocked (demo_env 3) demo_sid ?draft True submitted_store
      = (Inr demo_close, commitEvent (demo_env 3) demo_sid submitted_session demo_close
          (Some (event_key demo_sid ?draft, ''{}'')) submitted_store)"
    unfolding demo_close_def
    using demo_append [of submitted_store demo_sid submitted_session ?draft 0 3]
    by (simp add: sessionTerminal_def env)
  have ended: "(revokeEndpoints now y)\<lparr>ses_Status := st, ses_UpdatedAt := now\<rparr> = ended_session id st now y"
    for now y st by (simp add: ended_session_def revokeEndpoints_def)
  show "CloseSession (demo_env 3) demo_sid submitted_store = (Inr (closed_session, demo_close), closed_store)"
    "m_sessions closed_store = [demo_sid \<mapsto> closed_session]"
    "m_events closed_store = [demo_sid \<mapsto> [demo_hello, demo_offer, demo_close]]"
    "m_terminalAt closed_store = [demo_sid \<mapsto> second_ns * 4]"
    "m_resultIdempotency closed_store = Map.empty"
    using append
    by (simp_all add: closed_store_def CloseSession_def terminateSessionLocked_def Let_def ended
        closed_session_def)
qed

lemma closed_session_simps [simp]:
  "ses_ID closed_session = demo_sid" "ses_Status closed_session = SessionStatusClosed"
  "ses_LastSeq closed_session = 3" "ses_Tasks closed_session = [offered_task]"
  "ses_ExpiresAt closed_session = 0" "ses_Limits closed_session = ses_Limits demo_session"
  "ev_Type (ses_LatestEvent closed_session) = EventTypeClose"
  "ses_Endpoints closed_session = [demo_endpoint\<lparr>ep_State := EndpointStateRevoked, ep_LastSeenAt := second_ns * 4\<rparr>]"
  by (simp_all add: closed_session_def ended_session_def demo_close_def)

lemma submitted_steps: "store_step joined_store submitted_store"
  using store_step.call [of "demo_env 2" "CSubmitTask demo_sid demo_task" joined_store]
  by (simp add: submitted_store_def call_ok_def call_ready_def role_ok_def EndpointRole_of_def seq_room_def)

lemma closed_steps: "store_step submitted_store closed_store"
  using store_step.call [of "demo_env 3" "CCloseSession demo_sid" submitted_store]
  by (simp add: closed_store_def call_ok_def call_ready_def role_ok_def EndpointRole_of_def seq_room_def)

lemma submitted_reachable: "reachable submitted_store"
  by (rule rtranclp.rtrancl_into_rtrancl [OF joined_reachable submitted_steps])

lemma closed_reachable: "reachable closed_store"
  by (rule rtranclp.rtrancl_into_rtrancl [OF submitted_reachable closed_steps])

lemma closed_run: "store_step\<^sup>*\<^sup>* submitted_store closed_store"
  using closed_steps by (rule r_into_rtranclp)

text \<open>A partial artifact upload.\<close>

definition demo_artifact :: ArtifactRef where
  "demo_artifact = \<lparr>art_SchemaVersion = ArtifactRefSchemaVersion, art_ID = ''art-1'',
     art_SessionID = demo_sid, art_TaskID = [], art_Kind = ''log'', art_Name = ''log'',
     art_SizeBytes = 0, art_SHA256 = [], art_ContentType = [], art_UploadOffset = 10,
     art_Complete = False\<rparr>"

definition uploaded_store :: MemoryStore where
  "uploaded_store = snd (UpsertArtifact (demo_env 3) demo_sid demo_artifact submitted_store)"

lemma uploaded_store_session:
  "\<exists>y. m_sessions uploaded_store demo_sid = Some y \<and> ses_Artifacts y = [demo_artifact]"
proof -
  have none: "ses_Artifacts submitted_session = []"
    by (simp add: submitted_session_def joined_session_def)
  have ref: "demo_artifact\<lparr>art_ID := art_ID demo_artifact, art_SchemaVersion := ArtifactRefSchemaVersion,
      art_SessionID := demo_sid\<rparr> = demo_artifact"
    "art_ID demo_artifact = ''art-1''" "\<not> art_Complete demo_artifact"
    by (simp_all add: demo_artifact_def)
  have "appendEventLocked (env_from 1 (demo_env 3)) demo_sid (artifact_event demo_artifact) True submitted_store
      = (Inr (stampEvent (env_from 1 (demo_env 3)) demo_sid submitted_session (demo_id ''evt'' 4)
           (artifact_event demo_artifact)),
         commitEvent (env_from 1 (demo_env 3)) demo_sid submitted_session
           (stampEvent (env_from 1 (demo_env 3)) demo_sid submitted_session (demo_id ''evt'' 4)
             (artifact_event demo_artifact))
           (Some (event_key demo_sid (artifact_event demo_artifact), ''{}'')) submitted_store)"
    using demo_append [of submitted_store demo_sid submitted_session "artifact_event demo_artifact" 1 3]
    by (simp add: sessionTerminal_def artifact_event_def)
  then show ?thesis
    using none ref
    by (simp add: uploaded_store_def UpsertArtifact_def UpsertArtifact_commit_def Let_def)
qed

lemma uploaded_reachable: "reachable uploaded_store"
proof (rule rtranclp.rtrancl_into_rtrancl [OF submitted_reachable])
  show "store_step submitted_store uploaded_store"
    using store_step.call [of "demo_env 3" "CUpsertArtifact demo_sid demo_artifact" submitted_store]
    by (simp add: uploaded_store_def call_ok_def call_ready_def role_ok_def EndpointRole_of_def seq_room_def)
qed

text \<open>The target polls with its lease and receives the greeting.\<close>

definition demo_cursor :: EventCursor where
  "demo_cursor = \<lparr>cu_EndpointID = ''host-1'', cu_LeaseSecret = demo_id ''lease_secret'' 11,
     cu_AfterSeq = 0, cu_ReceivedSeq = 0, cu_ProcessedSeq = 0,
     cu_VisibleRole = EndpointRoleOther [], cu_EndpointState = EndpointStateOther []\<rparr>"

lemma demo_lease_simps [simp]:
  "ls_Secret demo_lease = demo_id ''lease_secret'' 11" "ls_ExpiresAt demo_lease = second_ns * 62"
  by (simp_all add: demo_lease_def issueLeaseLocked_def NewLease_def Let_def millis_def i64_def second_ns_def)

lemma joined_store_lease:
  "\<exists>prev. m_leases joined_store ''host-1'' = Some \<lparr>lr_Current = demo_lease, lr_PreviousSecrets = prev\<rparr>"
  by (simp add: joined_store_eq leased_store_def demo_lease_def) (simp add: issueLeaseLocked_def Let_def)

lemma demo_authorized:
  "authorizeLeaseLocked (env_from 1 (demo_env 2)) x ''host-1'' (demo_id ''lease_secret'' 11) joined_store = Inr False"
  using joined_store_lease
  by (auto simp: authorizeLeaseLocked_def second_ns_def Let_def)

lemma demo_poll:
  "\<exists>l r t. EventsAfter (demo_env 2) demo_sid demo_cursor 0 joined_store = (Inr ([demo_hello], l, r), t)"
proof -
  have "ses_SnapshotSeq joined_session = 0"
    by (simp add: joined_session_def entered_session_def demo_session_def)
  moreover have "ev_Seq demo_hello = 1" "ev_ToEndpointID demo_hello = ''host-1''"
    by (simp_all add: demo_hello_def hello_event_def)
  ultimately show ?thesis
    using demo_authorized [of joined_session]
    by (simp add: EventsAfter_def Let_def sessionTerminal_def demo_cursor_def endpointIndexLocked_def
        case_prod_beta clampLimit_def visibleEventsLocked_def eventVisibleToEndpoint_def)
qed

text \<open>The target reports the result of the offered task.\<close>

abbreviation demo_task_id :: string where
  "demo_task_id \<equiv> demo_id ''task'' 2"

definition finished_task :: Task where
  "finished_task = offered_task\<lparr>tk_Status := TaskStatusSucceeded, tk_StartedAt := Some (second_ns * 4),
     tk_EndedAt := Some (second_ns * 4)\<rparr>"

definition finished_store :: MemoryStore where
  "finished_store = snd (CompleteTask (demo_env 3) demo_sid demo_task_id None submitted_store)"

lemma demo_complete:
  "\<exists>ev. CompleteTask (demo_env 3) demo_sid demo_task_id None submitted_store = (Inr (finished_task, ev), finished_store)"
  and finished_store_session:
  "\<exists>y. m_sessions finished_store demo_sid = Some y \<and> ses_Tasks y = [finished_task]
     \<and> ses_ExpiresAt y = 0 \<and> ses_Status y = SessionStatusOnline"
proof -
  have found: "findTaskLocked demo_sid demo_task_id submitted_store = Inr (offered_task, 0, submitted_session)"
    by (simp add: findTaskLocked_def offered_task_def)
  have none: "stringMapValue E None k = []" for E k by (simp add: stringMapValue_def payload_get_def)
  have run: "Transition offered_task TaskStatusRunning (second_ns * 4) =
      Inr (offered_task\<lparr>tk_Status := TaskStatusRunning, tk_StartedAt := Some (second_ns * 4)\<rparr>)"
    by (simp add: Transition_def offered_task_def Task_Terminal_def Let_def)
  have fin: "Transition (offered_task\<lparr>tk_Status := TaskStatusRunning, tk_StartedAt := Some (second_ns * 4)\<rparr>)
      TaskStatusSucceeded (second_ns * 4) = Inr finished_task"
    by (simp add: Transition_def offered_task_def finished_task_def Task_Terminal_def Let_def)
  have task: "tk_Status offered_task = TaskStatusOffered" "tk_AttemptID offered_task = ''attempt-1''"
      "\<not> Task_Terminal offered_task"
    by (simp_all add: offered_task_def Task_Terminal_def)
  let ?draft = "zero_Event\<lparr>ev_Type := EventTypeTaskResult, ev_FromEndpointID := tk_TargetEndpointID finished_task,
      ev_TaskID := tk_ID finished_task, ev_IdempotencyKey := ''result:'' @ demo_task_id @ '':attempt-1:'', ev_Payload := None\<rparr>"
  have target: "tk_TargetEndpointID finished_task = ''host-1''"
    by (simp add: finished_task_def offered_task_def)
  have append: "appendEventLocked (env_from 4 (demo_env 3)) demo_sid ?draft True submitted_store =
     (Inr (stampEvent (env_from 4 (demo_env 3)) demo_sid submitted_session (demo_id ''evt'' 7) ?draft),
      commitEvent (env_from 4 (demo_env 3)) demo_sid submitted_session
        (stampEvent (env_from 4 (demo_env 3)) demo_sid submitted_session (demo_id ''evt'' 7) ?draft)
        (Some (event_key demo_sid ?draft, ''{}'')) submitted_store)"
    using demo_append [of submitted_store demo_sid submitted_session ?draft 4 3] target
    by (simp add: sessionTerminal_def)
  let ?r = "CompleteTask (demo_env 3) demo_sid demo_task_id None submitted_store"
  have "\<exists>ev. fst ?r = Inr (finished_task, ev)"
    "\<exists>y. m_sessions (snd ?r) demo_sid = Some y \<and> ses_Tasks y = [finished_task]
       \<and> ses_ExpiresAt y = 0 \<and> ses_Status y = SessionStatusOnline"
    using found run fin append task
    by (simp_all add: CompleteTask_def none sessionTerminal_def Let_def)
  then show "\<exists>ev. CompleteTask (demo_env 3) demo_sid demo_task_id None submitted_store = (Inr (finished_task, ev), finished_store)"
    "\<exists>y. m_sessions finished_store demo_sid = Some y \<and> ses_Tasks y = [finished_task]
       \<and> ses_ExpiresAt y = 0 \<and> ses_Status y = SessionStatusOnline"
    by (auto simp: finished_store_def prod_eq_iff)
qed

end
