(* ===== verification/Control_Plane.thy ===== *)
theory Control_Plane
  imports Scenario
begin

text \<open>
  The properties of the control plane as a whole: what holds in every store that any sequence of
  calls can reach, and how sessions, tasks and artifacts can change along a run.
\<close>

section \<open>Reachable stores\<close>

text \<open>
  C4. In every reachable store the log of a session holds only events of that session, in strictly
  increasing sequence order, and no event is beyond the session's LastSeq.
\<close>

theorem log_ordered:
  assumes "reachable s" and "m_sessions s sid = Some x"
  shows "sorted_wrt (<) (map ev_Seq (events_of s sid))
    \<and> (\<forall>e \<in> set (events_of s sid). ev_SessionID e = sid \<and> ev_Seq e \<le> ses_LastSeq x)"
  using reachable_session_wf [OF assms] by (simp add: session_wf_def log_wf_def)

theorem log_ordered_witness:
  "sorted_wrt (<) (map ev_Seq [demo_hello, demo_offer, demo_close])
   \<and> ev_SessionID demo_close = demo_sid \<and> ev_Seq demo_close \<le> 3"
  using log_ordered [OF closed_reachable, of demo_sid closed_session] by simp

text \<open>
  A session with the join policy single-target never has more than one target endpoint, in
  whatever order hosts join, rejoin, poll or are revoked.
\<close>

theorem single_target:
  assumes "reachable s" and "m_sessions s sid = Some x" and "ses_JoinPolicy x = ''single-target''"
  shows "length (filter (\<lambda>e. ep_Role e = EndpointRoleTarget) (ses_Endpoints x)) \<le> 1"
  using reachable_session_wf [OF assms(1,2)] assms(3) by (simp add: session_wf_def targets_def)

theorem single_target_witness:
  "length (filter (\<lambda>e. ep_Role e = EndpointRoleTarget) (ses_Endpoints joined_session)) \<le> 1"
  using single_target [OF joined_reachable, of demo_sid joined_session] by simp

text \<open>
  C3. No target endpoint holds a capability that its session does not grant: in every store reached by
  calls in which crypto/rand answers, the sequence space is not exhausted, no posted event claims a
  reserved idempotency key and no joining role contains a vertical bar, when the session lists
  capabilities, every capability of a target is one of them.
\<close>

theorem target_within_ceiling:
  assumes "reachable s" and "m_sessions s sid = Some x" and "e \<in> set (ses_Endpoints x)"
    and "ep_Role e = EndpointRoleTarget" and "ses_Capabilities x \<noteq> []"
  shows "set (ep_Capabilities e) \<subseteq> TrimSpace ` set (ses_Capabilities x)"
proof -
  have "constrainedEndpointCapabilities x EndpointRoleTarget (ep_Capabilities e) [] = ep_Capabilities e"
    using reachable_session_wf [OF assms(1,2)] assms(3,4) by (auto simp: session_wf_def endpoint_wf_def)
  then show ?thesis
    using constrained_within_ceiling [OF assms(5), of "ep_Capabilities e" "[]"]
    by (auto simp: ceiling_def)
qed

theorem target_within_ceiling_witness:
  "set (ep_Capabilities demo_endpoint) \<subseteq> TrimSpace ` set [''shell'']"
  using target_within_ceiling [OF joined_reachable, of demo_sid joined_session demo_endpoint] by simp

lemma WithEndpoint_member:
  "\<exists>e'. e' \<in> set (ses_Endpoints (WithEndpoint z e now)) \<and> ep_ID e' = ep_ID e \<and> ep_Role e' = ep_Role e
     \<and> ep_Capabilities e' = ep_Capabilities e"
proof -
  let ?e1 = "if ep_SchemaVersion e = [] then e\<lparr>ep_SchemaVersion := EndpointSchemaVersion\<rparr> else e"
  let ?e = "if ep_SessionID ?e1 = [] then ?e1\<lparr>ep_SessionID := ses_ID z\<rparr> else ?e1"
  have "?e \<in> set (ses_Endpoints (WithEndpoint z e now))" by (simp add: WithEndpoint_def Let_def)
  moreover have "ep_ID ?e = ep_ID e" "ep_Role ?e = ep_Role e" "ep_Capabilities ?e = ep_Capabilities e" by simp_all
  ultimately show ?thesis by blast
qed

text \<open>
  C6. The condition on roles is needed: a role is any text, and the identity of an endpoint joins role,
  fingerprint and platform with a vertical bar. When the first endpoint of a live session is a target
  whose fingerprint contains a bar, a join with a role that is not target but makes the same key is
  taken for that endpoint; the session's ceiling is not applied, and the endpoint, still with the
  role target, then holds whatever capabilities the join asks for.
\<close>

theorem barred_role_lifts_ceiling:
  assumes "m_sessions s sid = Some x" "ses_ID x = sid" "\<not> sessionTerminal (ses_Status x)" "\<not> sessionExpired (clock_at E 0) x"
    and "ses_Endpoints x = e # rest" "ep_Role e = EndpointRoleTarget" "ep_IdentityFingerprint e = a @ ''|'' @ b" "b \<noteq> []"
    and "es_Role spec = EndpointRoleOther (''target|'' @ a)" "es_IdentityFingerprint spec = b" "es_Platform spec = ep_Platform e"
    and "es_Capabilities spec \<noteq> []"
  shows "\<exists>y e'. m_sessions (snd (JoinSession E sid spec s)) sid = Some y \<and> e' \<in> set (ses_Endpoints y)
    \<and> ep_ID e' = ep_ID e \<and> ep_Role e' = EndpointRoleTarget \<and> ses_Capabilities y = ses_Capabilities x
    \<and> set (ep_Capabilities e') = TrimSpace ` set (es_Capabilities spec) - {[]}"
proof -
  let ?caps = "collectCapabilities (\<lambda>_. True) [] (es_Capabilities spec)"
  let ?same = "\<lambda>e. endpointIdentityKey (ses_ID x) (ep_Role e) (ep_IdentityFingerprint e) (ep_Platform e)
      = endpointIdentityKey (ses_ID x) (EndpointRoleOther (''target|'' @ a)) (es_IdentityFingerprint spec) (es_Platform spec)
      \<and> es_IdentityFingerprint spec \<noteq> []"
  have found: "find ?same (ses_Endpoints x) = Some e" using assms(5-8,10,11) by (simp add: endpointIdentityKey_def)
  have caps: "constrainedEndpointCapabilities x (EndpointRoleOther r) (es_Capabilities spec) (ep_Capabilities e) = ?caps" for r
    using assms(12) by (simp add: constrainedEndpointCapabilities_def)
  have role: "(if es_Role spec = EndpointRoleOther [] then EndpointRoleTarget else es_Role spec) = EndpointRoleOther (''target|'' @ a)"
    using assms(9) by simp
  have id: "ses_ID (WithEndpoint z e' now) = ses_ID z" for z e' now by (simp add: WithEndpoint_def Let_def)
  have "\<exists>e1 s1. joinEndpointLocked (env_from 1 E) x spec s = (Inr (e1, False), s1)
      \<and> m_sessions s1 sid = Some (WithEndpoint (x\<lparr>ses_Status := SessionStatusOnline\<rparr>) e1 (clock_at E 2))
      \<and> ep_ID e1 = ep_ID e \<and> ep_Role e1 = EndpointRoleTarget \<and> ep_Capabilities e1 = ?caps"
    unfolding joinEndpointLocked_def Let_def role found option.case caps
    by (intro exI conjI, rule refl) (use assms(2,6) in \<open>simp_all add: id numeral_2_eq_2\<close>)
  then obtain e1 s1 y where join: "joinEndpointLocked (env_from 1 E) x spec s = (Inr (e1, False), s1)"
      "m_sessions s1 sid = Some y" "y = WithEndpoint (x\<lparr>ses_Status := SessionStatusOnline\<rparr>) e1 (clock_at E 2)"
      "ep_ID e1 = ep_ID e" "ep_Role e1 = EndpointRoleTarget" "ep_Capabilities e1 = ?caps"
    by blast
  have "\<exists>e'. e' \<in> set (ses_Endpoints y) \<and> ep_ID e' = ep_ID e \<and> ep_Role e' = EndpointRoleTarget \<and> ep_Capabilities e' = ?caps"
    using WithEndpoint_member [of "x\<lparr>ses_Status := SessionStatusOnline\<rparr>" e1 "clock_at E 2"] join(4-6) by (simp add: join(3))
  moreover have "ses_Capabilities y = ses_Capabilities x" by (simp add: join(3) WithEndpoint_def Let_def)
  moreover have "m_sessions (snd (JoinSession E sid spec s)) sid = Some y"
    using assms(1,3,4) join(1,2) by (simp add: JoinSession_def Let_def case_prod_beta)
  ultimately show ?thesis using set_collectCapabilities [of "\<lambda>_. True" "[]" "es_Capabilities spec"] by auto
qed

text \<open>A session that grants only shell, and its target asking for root.\<close>

definition barred_endpoint :: Endpoint where
  "barred_endpoint = demo_endpoint\<lparr>ep_IdentityFingerprint := ''x|y''\<rparr>"

definition barred_store :: MemoryStore where
  "barred_store = joined_store\<lparr>m_sessions := [demo_sid \<mapsto> joined_session\<lparr>ses_Endpoints := [barred_endpoint]\<rparr>]\<rparr>"

theorem barred_role_lifts_ceiling_witness:
  "\<exists>y e'. m_sessions (snd (JoinSession (demo_env 2) demo_sid
        (demo_target\<lparr>es_Role := EndpointRoleOther ''target|x'', es_IdentityFingerprint := ''y'', es_Capabilities := [''root'']\<rparr>)
        barred_store)) demo_sid = Some y
     \<and> e' \<in> set (ses_Endpoints y) \<and> ep_Role e' = EndpointRoleTarget \<and> ses_Capabilities y = [''shell'']
     \<and> set (ep_Capabilities e') = {''root''}"
proof -
  let ?spec = "demo_target\<lparr>es_Role := EndpointRoleOther ''target|x'', es_IdentityFingerprint := ''y'', es_Capabilities := [''root'']\<rparr>"
  have "\<exists>y e'. m_sessions (snd (JoinSession (demo_env 2) demo_sid ?spec barred_store)) demo_sid = Some y \<and> e' \<in> set (ses_Endpoints y)
    \<and> ep_ID e' = ep_ID barred_endpoint \<and> ep_Role e' = EndpointRoleTarget
    \<and> ses_Capabilities y = ses_Capabilities (joined_session\<lparr>ses_Endpoints := [barred_endpoint]\<rparr>)
    \<and> set (ep_Capabilities e') = TrimSpace ` set (es_Capabilities ?spec) - {[]}"
    by (rule barred_role_lifts_ceiling [where a = "''x''" and b = "''y''" and rest = "[]"])
      (simp_all add: barred_store_def barred_endpoint_def sessionTerminal_def demo_target_def)
  then show ?thesis by auto
qed

text \<open>
  Once a session has ended, every endpoint of it is revoked and the derived status shows the
  session as closed or failed and never as online, even though late task results and artifacts may
  still be logged.
\<close>

theorem ended_session_offline:
  assumes "reachable s" and "m_sessions s sid = Some x" and "sessionTerminal (ses_Status x)"
  shows "(\<forall>e \<in> set (ses_Endpoints x). ep_State e = EndpointStateRevoked)
    \<and> st_Online (DeriveStatus E x) = False
    \<and> st_Status (DeriveStatus E x) \<in> {StatusClosed, StatusFailed}"
proof -
  have wf: "\<forall>e \<in> set (ses_Endpoints x). ep_State e = EndpointStateRevoked"
    "closing_type (ev_Type (ses_LatestEvent x))"
    using reachable_session_wf [OF assms(1,2)] assms(3) by (auto simp: session_wf_def ended_wf_def)
  then have off: "\<not> endpointOnline (ses_Endpoints x)" "\<not> endpointBusy (ses_Endpoints x)"
    by (auto simp: endpointOnline_def endpointBusy_def endpointOnlineState_def list_ex_iff)
  have "st_Online (DeriveStatus_endpoints x) = False"
    using off by (simp add: DeriveStatus_endpoints_def Let_def split: option.splits)
  then have "st_Online (DeriveStatus_session x (DeriveStatus_endpoints x)) = False
      \<and> st_Status (DeriveStatus_session x (DeriveStatus_endpoints x)) \<in> {StatusClosed, StatusFailed}"
    using assms(3) by (auto simp: DeriveStatus_session_def sessionTerminal_def)
  then show ?thesis
    using wf by (auto simp: DeriveStatus_def DeriveStatus_event_def closing_type_def Let_def)
qed

theorem ended_session_offline_witness:
  "st_Online (DeriveStatus (demo_env 4) closed_session) = False"
  using ended_session_offline [OF closed_reachable, of demo_sid closed_session "demo_env 4"]
  by (simp add: sessionTerminal_def)

text \<open>
  Join codes name sessions one to one: in every reachable store a join code leads to a session
  exactly when that session exists and has this code.
\<close>

theorem join_code_names_session:
  assumes "reachable s"
  shows "m_joinCodes s code = Some sid \<longleftrightarrow> (\<exists>x. m_sessions s sid = Some x \<and> ses_JoinCode x = code)"
  using reachable_wf [OF assms] by (simp add: store_wf_def)

theorem join_code_names_session_witness:
  "m_joinCodes joined_store demo_code = Some demo_sid"
  using join_code_names_session [OF joined_reachable, of demo_code demo_sid] by simp

section \<open>Runs\<close>

text \<open>
  C1. Ending a session is final: whatever calls follow, in whatever order, the session stays
  terminal, and it keeps its identity, join code, capability ceiling, limits and expiry.
\<close>

theorem ended_is_final:
  assumes "reachable s" and "store_step\<^sup>*\<^sup>* s t" and "m_sessions s sid = Some x"
    and "sessionTerminal (ses_Status x)"
  shows "\<exists>y. m_sessions t sid = Some y \<and> sessionTerminal (ses_Status y) \<and> ses_ID y = ses_ID x
    \<and> ses_JoinCode y = ses_JoinCode x \<and> ses_Capabilities y = ses_Capabilities x
    \<and> ses_Limits y = ses_Limits x \<and> ses_ExpiresAt y = ses_ExpiresAt x"
  by (rule run_session_le [OF assms(1-3)]) (use assms(4) in \<open>auto simp: session_le_def\<close>)

theorem ended_is_final_witness:
  "\<exists>y. m_sessions closed_store demo_sid = Some y \<and> sessionTerminal (ses_Status y)"
  using ended_is_final [OF closed_reachable rtranclp.rtrancl_refl, of demo_sid closed_session]
  by (simp add: sessionTerminal_def)

text \<open>
  C2. Along every run the i-th task of a session keeps its identity, target, attempt, capabilities
  and payload, its status moves only along the transitions the state machine allows, and a terminal
  task never changes again.
\<close>

theorem tasks_follow_state_machine:
  assumes "reachable s" and "store_step\<^sup>*\<^sup>* s t" and "m_sessions s sid = Some x"
    and "i < length (ses_Tasks x)"
  shows "\<exists>y. m_sessions t sid = Some y \<and> i < length (ses_Tasks y)
    \<and> tk_ID (ses_Tasks y ! i) = tk_ID (ses_Tasks x ! i)
    \<and> tk_TargetEndpointID (ses_Tasks y ! i) = tk_TargetEndpointID (ses_Tasks x ! i)
    \<and> tk_AttemptID (ses_Tasks y ! i) = tk_AttemptID (ses_Tasks x ! i)
    \<and> tk_Capabilities (ses_Tasks y ! i) = tk_Capabilities (ses_Tasks x ! i)
    \<and> tk_Payload (ses_Tasks y ! i) = tk_Payload (ses_Tasks x ! i)
    \<and> validTaskTransition\<^sup>*\<^sup>* (tk_Status (ses_Tasks x ! i)) (tk_Status (ses_Tasks y ! i))
    \<and> (Task_Terminal (ses_Tasks x ! i) \<longrightarrow> ses_Tasks y ! i = ses_Tasks x ! i)"
  by (rule run_session_le [OF assms(1-3)])
    (use assms(4) in \<open>auto simp: session_le_def tasks_le_def task_le_def\<close>)

theorem tasks_follow_state_machine_witness:
  "\<exists>y. m_sessions closed_store demo_sid = Some y
     \<and> tk_ID (ses_Tasks y ! 0) = tk_ID (ses_Tasks submitted_session ! 0)"
  using tasks_follow_state_machine [OF submitted_reachable closed_run,
      of demo_sid submitted_session 0]
  by auto

text \<open>
  Artifacts are never lost and their upload offsets never move backwards along a run.
\<close>

theorem artifacts_never_move_back:
  assumes "reachable s" and "store_step\<^sup>*\<^sup>* s t" and "m_sessions s sid = Some x"
    and "a \<in> set (ses_Artifacts x)"
  shows "\<exists>y b. m_sessions t sid = Some y \<and> b \<in> set (ses_Artifacts y) \<and> art_ID b = art_ID a
    \<and> art_UploadOffset a \<le> art_UploadOffset b"
  by (rule run_session_le [OF assms(1-3)])
    (use assms(4) in \<open>fastforce simp: session_le_def arts_le_def\<close>)

theorem artifacts_never_move_back_witness:
  "\<exists>y b. m_sessions uploaded_store demo_sid = Some y \<and> b \<in> set (ses_Artifacts y)
     \<and> art_ID b = ''art-1'' \<and> 10 \<le> art_UploadOffset b"
  using artifacts_never_move_back [OF uploaded_reachable rtranclp.rtrancl_refl, of demo_sid _ demo_artifact]
    uploaded_store_session
  by (auto simp: demo_artifact_def)

text \<open>
  C5. Sessions are isolated: a call on one session leaves the record and the event log of every
  other session as they were.
\<close>

theorem session_isolation:
  assumes "reachable s" and "call_ok E c s" and "call_session c s = Some sid" and "sid' \<noteq> sid"
  shows "m_sessions (exec E c s) sid' = m_sessions s sid' \<and> m_events (exec E c s) sid' = m_events s sid'"
  using exec_evolves [OF assms(2,3) reachable_wf [OF assms(1)]] assms(4)
  by (auto simp: evolves_def only_session_def)

theorem session_isolation_witness:
  "m_sessions (exec (demo_env 3) (CCloseSession demo_sid) submitted_store) ''other'' =
   m_sessions submitted_store ''other''"
proof -
  have ok: "call_ok (demo_env 3) (CCloseSession demo_sid) submitted_store"
    by (simp add: call_ok_def call_ready_def role_ok_def EndpointRole_of_def seq_room_def)
  have "''other'' \<noteq> demo_sid" by (simp add: demo_id_def newID_def)
  then show ?thesis using session_isolation [OF submitted_reachable ok, of demo_sid "''other''"] by simp
qed

text \<open>
  An ended session refuses new work: joining it, submitting a task, polling with a lease and
  validating a lease all fail with the terminal-session error and change nothing.
\<close>

theorem ended_session_refuses:
  assumes "m_sessions s sid = Some x" and "sessionTerminal (ses_Status x)"
  shows "(\<exists>e. JoinSession E sid espec s = (Inl e, s) \<and> error_code e = Some ErrTerminalSession)
    \<and> (\<exists>e. SubmitTask E sid tspec s = (Inl e, s) \<and> error_code e = Some ErrTerminalSession)
    \<and> (\<exists>e r. EventsAfter E sid cursor limit s = (Inl (e, r), s) \<and> error_code e = Some ErrTerminalSession)
    \<and> (\<exists>e. ValidateLease E sid eid secret s = (Inl e, s) \<and> error_code e = Some ErrTerminalSession)"
proof -
  have "snd (expireSessionLocked E' sid s) = s" for E'
    using assms by (simp add: expireSessionLocked_def)
  then show ?thesis
    using assms
    by (simp add: JoinSession_def SubmitTask_def EventsAfter_def ValidateLease_def Let_def)
qed

theorem ended_session_refuses_witness:
  "\<exists>e. SubmitTask (demo_env 5) demo_sid demo_task closed_store = (Inl e, closed_store)
     \<and> error_code e = Some ErrTerminalSession"
  using ended_session_refuses [of closed_store demo_sid closed_session "demo_env 5" demo_target demo_task]
  by (simp add: sessionTerminal_def)

end
