(* ===== verification/Event_Properties.thy ===== *)
theory Event_Properties
  imports Scenario
begin

text \<open>
  The event log as its clients see it: appending is idempotent under a key and calls the hook once
  per new event, polling returns exactly the visible events after the cursor, page by page without
  loss or repetition, and compaction cannot be noticed by a cursor at or beyond the snapshot.
\<close>

lemma demo_hello_append:
  "appendEventLocked (env_from 20 (demo_env 1)) demo_sid (hello_event demo_endpoint) True leased_store
   = (Inr demo_hello, joined_store)"
  unfolding joined_store_eq demo_hello_def
  using demo_append [of leased_store demo_sid entered_session "hello_event demo_endpoint" 20 1]
  by (simp add: sessionTerminal_def hello_event_def)

section \<open>Appending\<close>

lemma checkPayload_cong:
  "json_Marshal E' = json_Marshal E \<Longrightarrow> ses_Limits y = ses_Limits x \<Longrightarrow>
   checkPayload E' y e lim = checkPayload E x e lim"
  by (simp add: checkPayload_def jsonPayloadSize_def split: option.splits)

text \<open>
  An accepted append either replays the event recorded under its idempotency key and changes
  nothing, or logs exactly one new event at the end of the session's log: it has the next sequence
  number, becomes the latest event, and the hook (when installed) is called with it exactly once.
\<close>

theorem append_logs_one_event:
  assumes "appendEventLocked E sid e lim s = (Inr ev, t)" and "m_sessions s sid = Some x"
    and "ses_LastSeq x \<noteq> - 1"
  shows "(t = s \<and> (\<exists>rec. m_idempotency s (event_key sid e) = Some rec \<and> ev = ir_Event rec))
    \<or> (events_of t sid = events_of s sid @ [ev] \<and> ev_Seq ev = ses_LastSeq x + 1
       \<and> ev_SessionID ev = sid \<and> ev_Type ev = ev_Type e \<and> ev_Payload ev = ev_Payload e
       \<and> (\<exists>y. m_sessions t sid = Some y \<and> ses_LastSeq y = ses_LastSeq x + 1)
       \<and> m_hookLog t = (if m_onEvent s then m_hookLog s @ [(sid, ev, ses_NotifyURL x)] else m_hookLog s))"
  using assms(1)
proof (cases rule: appendEventLocked_cases)
  case (new y ident keyed)
  moreover have "ses_LastSeq x < ses_LastSeq x + 1" using assms(3) by (rule u64_less_plus_1)
  ultimately show ?thesis using assms(2) by simp
qed auto

theorem append_logs_one_event_witness:
  "events_of joined_store demo_sid = events_of leased_store demo_sid @ [demo_hello]"
  using append_logs_one_event [OF demo_hello_append, of entered_session] by simp

text \<open>
  Appending is idempotent: once an event with an idempotency key was accepted, appending the
  same event again (at any later time at which the session has not expired) returns the first
  event and changes nothing.
\<close>

theorem append_idempotent:
  assumes ap: "appendEventLocked E sid e lim s = (Inr ev, t)" and key: "ev_IdempotencyKey e \<noteq> []"
    and json: "json_Marshal E' = json_Marshal E"
    and y: "m_sessions t sid = Some y" "\<not> sessionExpired (clock_at E' 0) y"
  shows "appendEventLocked E' sid e lim t = (Inr ev, t)"
proof -
  obtain x where x: "m_sessions s sid = Some x" "ses_Status y = ses_Status x" "ses_Limits y = ses_Limits x"
    by (rule append_result [OF ap]) (use y in auto)
  have fp: "eventFingerprint E' e = eventFingerprint E e"
    using json by (simp add: eventFingerprint_def)
  have guards: "checkPayload E x e lim = None \<and> (sessionTerminal (ses_Status x) \<longrightarrow> closing_type (ev_Type e))"
    using ap x(1)
    by (auto simp: appendEventLocked_def closing_type_def split: option.splits if_splits)
  have "\<exists>f. eventFingerprint E e = Some f \<and> m_idempotency t (event_key sid e) = Some \<lparr>ir_Fingerprint = f, ir_Event = ev\<rparr>"
    using ap
  proof (cases rule: appendEventLocked_cases)
    case (replay x rec)
    then show ?thesis by (cases rec) auto
  next
    case (new x ident keyed)
    then show ?thesis using key by (auto simp: option.map_sel)
  qed auto
  then show ?thesis
    using y x guards key fp checkPayload_cong [OF json x(3), of e lim]
    by (auto simp: appendEventLocked_def closing_type_def Let_def)
qed

theorem append_idempotent_witness:
  "appendEventLocked (demo_env 7) demo_sid (hello_event demo_endpoint) True joined_store
   = (Inr demo_hello, joined_store)"
proof -
  have "json_Marshal (demo_env 7) = json_Marshal (env_from 20 (demo_env 1))"
    by (simp add: demo_env_def env_from_def)
  then show ?thesis
    using append_idempotent [OF demo_hello_append, of "demo_env 7" joined_session] by (simp add: hello_event_def)
qed

text \<open>
  Reusing an idempotency key with a different payload, type, task or addressee is refused: the
  append fails with the conflict error and changes nothing, provided the event passed the guards
  that come first.
\<close>

theorem append_conflict:
  assumes "m_sessions s sid = Some x" and "\<not> sessionTerminal (ses_Status x)"
    and "\<not> sessionExpired (clock_at E 0) x" and "checkPayload E x e lim = None"
    and "ev_IdempotencyKey e \<noteq> []" and "m_idempotency s (event_key sid e) = Some rec"
    and "eventFingerprint E e = Some f" and "f \<noteq> ir_Fingerprint rec"
  shows "\<exists>er. appendEventLocked E sid e lim s = (Inl er, s) \<and> error_code er = Some ErrIdempotencyConflict"
  using assms by (simp add: appendEventLocked_def)

theorem append_conflict_witness:
  "\<exists>er. appendEventLocked ((demo_env 5)\<lparr>json_Marshal := (\<lambda>_. Some ''{1}'')\<rparr>) demo_sid
     (hello_event demo_endpoint) True joined_store = (Inl er, joined_store)
     \<and> error_code er = Some ErrIdempotencyConflict"
proof (rule append_conflict)
  show "m_sessions joined_store demo_sid = Some joined_session" by simp
  show "m_idempotency joined_store (event_key demo_sid (hello_event demo_endpoint)) =
      Some \<lparr>ir_Fingerprint = ''{}'', ir_Event = demo_hello\<rparr>"
    by (simp add: joined_store_eq)
  show "eventFingerprint ((demo_env 5)\<lparr>json_Marshal := (\<lambda>_. Some ''{1}'')\<rparr>) (hello_event demo_endpoint)
      = Some ''{1}''"
    by (simp add: eventFingerprint_def)
qed (simp_all add: sessionTerminal_def checkPayload_def jsonPayloadSize_def hello_event_def)

section \<open>Visibility and paging\<close>

definition visible_after :: "Endpoint \<Rightarrow> u64 \<Rightarrow> Event list \<Rightarrow> Event list" where
  "visible_after endpoint a evs = filter (\<lambda>ev. a < ev_Seq ev \<and> eventVisibleToEndpoint ev endpoint) evs"

lemma takeVisible_unlimited: "limit \<le> 0 \<Longrightarrow> takeVisible e a limit n evs = visible_after e a evs"
  by (induction e a limit n evs rule: takeVisible.induct) (auto simp: visible_after_def)

lemma takeVisible_limited:
  "int n < limit \<Longrightarrow> takeVisible e a limit n evs = take (nat limit - n) (visible_after e a evs)"
proof (induction e a limit n evs rule: takeVisible.induct)
  case (2 e a limit n ev rest)
  then obtain k where "nat limit - n = Suc k" by (cases "nat limit - n") auto
  moreover from this have "nat limit - Suc n = k" by simp
  ultimately show ?case using 2 by (auto simp: visible_after_def not_le)
qed (simp add: visible_after_def)

text \<open>
  The loop of visibleEventsLocked returns exactly the events after the cursor that the endpoint
  may see, in log order: all of them without a limit, and the first ones up to a positive limit.
\<close>

theorem visible_events_exact:
  "visibleEventsLocked sid endpoint a limit s =
     (if limit \<le> 0 then filter (\<lambda>ev. a < ev_Seq ev \<and> eventVisibleToEndpoint ev endpoint) (events_of s sid)
      else take (nat limit) (filter (\<lambda>ev. a < ev_Seq ev \<and> eventVisibleToEndpoint ev endpoint) (events_of s sid)))"
  by (auto simp: visibleEventsLocked_def takeVisible_unlimited takeVisible_limited visible_after_def)

lemma visible_eq:
  "visibleEventsLocked sid e a limit s =
     (if limit \<le> 0 then visible_after e a (events_of s sid)
      else take (nat limit) (visible_after e a (events_of s sid)))"
  by (simp add: visibleEventsLocked_def takeVisible_unlimited takeVisible_limited)

lemma visible_page:
  obtains n where "visibleEventsLocked sid e a limit s =
    take n (filter (\<lambda>ev. a < ev_Seq ev \<and> eventVisibleToEndpoint ev e) (events_of s sid))"
proof
  show "visibleEventsLocked sid e a limit s =
    take (if limit \<le> 0 then length (visible_after e a (events_of s sid)) else nat limit)
      (filter (\<lambda>ev. a < ev_Seq ev \<and> eventVisibleToEndpoint ev e) (events_of s sid))"
    by (simp add: visible_eq) (simp add: visible_after_def)
qed

text \<open>In a sorted log, the rest after a page is what lies after the page's last event.\<close>

lemma sorted_page_rest:
  assumes "sorted_wrt (<) (map ev_Seq evs)" and "take n (filter P evs) \<noteq> []"
  shows "filter (\<lambda>ev. ev_Seq (last (take n (filter P evs))) < ev_Seq ev \<and> P ev) evs = drop n (filter P evs)"
proof -
  let ?f = "filter P evs" and ?l = "ev_Seq (last (take n (filter P evs)))"
  have sorted: "sorted_wrt (\<lambda>x y. ev_Seq x < ev_Seq y) ?f"
    using assms(1) by (simp add: sorted_wrt_map sorted_wrt_filter)
  from sorted have "sorted_wrt (\<lambda>x y. ev_Seq x < ev_Seq y) (take n ?f @ drop n ?f)" by simp
  then have first: "sorted_wrt (\<lambda>x y. ev_Seq x < ev_Seq y) (take n ?f)"
    and cross: "\<forall>x \<in> set (take n ?f). \<forall>y \<in> set (drop n ?f). ev_Seq x < ev_Seq y"
    unfolding sorted_wrt_append by auto
  have "\<forall>x \<in> set (take n ?f). \<not> ?l < ev_Seq x"
  proof
    fix x
    assume x: "x \<in> set (take n ?f)"
    obtain ys z where yz: "take n ?f = ys @ [z]" using assms(2) by (cases "take n ?f" rule: rev_cases) auto
    with first x show "\<not> ?l < ev_Seq x" by (auto simp: sorted_wrt_append)
  qed
  moreover have "\<forall>y \<in> set (drop n ?f). ?l < ev_Seq y"
    using cross assms(2) last_in_set by blast
  ultimately have "filter (\<lambda>ev. ?l < ev_Seq ev) (take n ?f @ drop n ?f) = drop n ?f"
    by (simp add: filter_empty_conv filter_id_conv del: append_take_drop_id)
  then show ?thesis by (simp add: conj_commute)
qed

text \<open>
  Paging loses and repeats nothing: in every reachable store, a page of visible events followed
  by everything visible after the page's last event is everything visible after the original
  cursor.
\<close>

theorem paging_complete:
  assumes "reachable s" and "m_sessions s sid = Some x"
    and "visibleEventsLocked sid e a limit s = page" and "page \<noteq> []"
  shows "page @ visibleEventsLocked sid e (ev_Seq (last page)) 0 s = visibleEventsLocked sid e a 0 s"
proof -
  let ?P = "\<lambda>ev. a < ev_Seq ev \<and> eventVisibleToEndpoint ev e"
  obtain n where page: "page = take n (filter ?P (events_of s sid))"
    using visible_page [of sid e a limit s] assms(3) by metis
  have sorted: "sorted_wrt (<) (map ev_Seq (events_of s sid))"
    using reachable_session_wf [OF assms(1,2)] by (simp add: session_wf_def log_wf_def)
  have "last page \<in> set (filter ?P (events_of s sid))"
    using last_in_set [OF assms(4)] page by (metis in_set_takeD)
  then have "a < ev_Seq (last page)" by simp
  then have "visible_after e (ev_Seq (last page)) (events_of s sid) =
      filter (\<lambda>ev. ev_Seq (last page) < ev_Seq ev \<and> ?P ev) (events_of s sid)"
    unfolding visible_after_def by (intro filter_cong) auto
  also have "\<dots> = drop n (filter ?P (events_of s sid))"
    using sorted_page_rest [OF sorted, of n ?P] assms(4) page by simp
  finally show ?thesis
    using page by (simp add: visible_eq) (simp add: visible_after_def)
qed

theorem paging_complete_witness:
  "[demo_hello] @ visibleEventsLocked demo_sid agent_view (ev_Seq demo_hello) 0 submitted_store
     = visibleEventsLocked demo_sid agent_view 0 0 submitted_store"
proof -
  have "visibleEventsLocked demo_sid agent_view 0 1 submitted_store = [demo_hello]"
    by (simp add: visibleEventsLocked_def demo_hello_def eventVisibleToEndpoint_def agent_view_def)
  from paging_complete [OF submitted_reachable _ this, of submitted_session] show ?thesis by simp
qed

text \<open>
  Compaction is invisible to a cursor at or beyond the snapshot: such a cursor sees the same
  events before and after, while a poll with an older cursor is told that a snapshot is required.
\<close>

theorem compaction_transparent:
  assumes "CompactEvents sid n s = (Inr (), t)"
  shows "(n \<le> a \<longrightarrow> visibleEventsLocked sid e a limit t = visibleEventsLocked sid e a limit s)
    \<and> (a < n \<longrightarrow> (\<exists>er replay. fst (EventsAfterForAgent E sid a limit t) = Inl (er, replay)
         \<and> error_code er = Some ErrSnapshotRequired \<and> er_SnapshotRequired replay))"
proof -
  obtain x where x: "m_sessions s sid = Some x"
    and t: "t = s\<lparr>m_events := (m_events s)(sid \<mapsto> filter (\<lambda>e. ev_Seq e \<ge> n) (events_of s sid)),
             m_sessions := (m_sessions s)(sid \<mapsto> x\<lparr>ses_SnapshotSeq := n\<rparr>)\<rparr>"
    using assms by (auto simp: CompactEvents_def split: option.splits)
  have "visible_after e a (events_of t sid) = visible_after e a (events_of s sid)" if "n \<le> a"
    using that t by (auto simp: visible_after_def intro!: filter_cong)
  moreover have "\<exists>er replay. fst (EventsAfterForAgent E sid a limit t) = Inl (er, replay)
      \<and> error_code er = Some ErrSnapshotRequired \<and> er_SnapshotRequired replay" if "a < n"
  proof -
    have "\<exists>y. m_sessions (snd (expireSessionLocked E sid t)) sid = Some y \<and> ses_SnapshotSeq y = n"
      using t
      by (auto simp: expireSessionLocked_def Let_def map_get_def appendEventLocked_def checkPayload_def
          zero_Event_def revokeEndpoints_def split: option.splits)
    with that show ?thesis by (auto simp: EventsAfterForAgent_def Let_def)
  qed
  ultimately show ?thesis by (auto simp: visible_eq)
qed

theorem compaction_transparent_witness:
  "visibleEventsLocked demo_sid agent_view 1 0 (snd (CompactEvents demo_sid 1 submitted_store)) =
   visibleEventsLocked demo_sid agent_view 1 0 submitted_store"
proof -
  have "CompactEvents demo_sid 1 submitted_store = (Inr (), snd (CompactEvents demo_sid 1 submitted_store))"
    by (simp add: CompactEvents_def)
  from compaction_transparent [OF this, of 1 agent_view 0 undefined] show ?thesis by simp
qed

section \<open>Polling\<close>

text \<open>
  A successful poll was authorised by the endpoint's lease, and it returns only events after
  the cursor, in increasing order. An endpoint that is neither an agent nor an operator receives
  only events addressed to everyone or to itself.
\<close>

theorem poll_private_and_ordered:
  assumes "reachable s" and "EventsAfter E sid cursor limit s = (Inr (events, lease, replay), t)"
  shows "\<exists>x e r. m_sessions s sid = Some x \<and> e \<in> set (ses_Endpoints x) \<and> ep_ID e = cu_EndpointID cursor
    \<and> authorizeLeaseLocked (env_from 1 E) x (ep_ID e) (cu_LeaseSecret cursor) s = Inr r
    \<and> sorted_wrt (<) (cu_AfterSeq cursor # map ev_Seq events)
    \<and> (ep_Role e \<notin> {EndpointRoleAgent, EndpointRoleOperator} \<longrightarrow>
         (\<forall>ev \<in> set events. ev_ToEndpointID ev = [] \<or> ev_ToEndpointID ev = cu_EndpointID cursor))"
  using assms(2)
proof (cases rule: EventsAfter_cases)
  case (polled x i reconnecting replay')
  let ?e = "ses_Endpoints x ! i"
  have e: "?e \<in> set (ses_Endpoints x)" "ep_ID ?e = cu_EndpointID cursor"
    using polled(5) by (auto simp: endpointIndexLocked_def dest: first_index_Some)
  obtain n where events: "events = take n (filter (\<lambda>ev. cu_AfterSeq cursor < ev_Seq ev \<and>
      eventVisibleToEndpoint ev (polled_endpoint cursor reconnecting (clock_at E 2) ?e)) (events_of s sid))"
    by (rule visible_page [of sid "polled_endpoint cursor reconnecting (clock_at E 2) ?e"
          "cu_AfterSeq cursor" "clampLimit x limit" s]) (use polled(8) in auto)
  have sub: "set events \<subseteq> set (filter (\<lambda>ev. cu_AfterSeq cursor < ev_Seq ev \<and>
      eventVisibleToEndpoint ev (polled_endpoint cursor reconnecting (clock_at E 2) ?e)) (events_of s sid))"
    unfolding events by (rule set_take_subset)
  have "sorted_wrt (\<lambda>u v. ev_Seq u < ev_Seq v) (events_of s sid)"
    using reachable_session_wf [OF assms(1) polled(1)] by (simp add: session_wf_def log_wf_def sorted_wrt_map)
  then have "sorted_wrt (\<lambda>u v. ev_Seq u < ev_Seq v) events"
    unfolding events by (intro sorted_wrt_take sorted_wrt_filter)
  then have "sorted_wrt (<) (cu_AfterSeq cursor # map ev_Seq events)"
    using sub by (auto simp: sorted_wrt_map)
  moreover have "ep_Role ?e \<notin> {EndpointRoleAgent, EndpointRoleOperator} \<longrightarrow>
      (\<forall>ev \<in> set events. ev_ToEndpointID ev = [] \<or> ev_ToEndpointID ev = cu_EndpointID cursor)"
    using sub e(2) by (auto simp: eventVisibleToEndpoint_def)
  ultimately show ?thesis using polled(1,6) e by blast
qed simp

theorem poll_private_and_ordered_witness:
  "\<exists>x e. m_sessions joined_store demo_sid = Some x \<and> e \<in> set (ses_Endpoints x) \<and> ep_ID e = ''host-1''
     \<and> sorted_wrt (<) [0, ev_Seq demo_hello]"
proof -
  obtain l r t where "EventsAfter (demo_env 2) demo_sid demo_cursor 0 joined_store = (Inr ([demo_hello], l, r), t)"
    using demo_poll by blast
  from poll_private_and_ordered [OF joined_reachable this] show ?thesis
    by (auto simp: demo_cursor_def)
qed

text \<open>
  A poll never moves an endpoint's acknowledgements backwards: afterwards the endpoint's
  received and processed sequence numbers are the larger of what was stored and what the cursor
  reports, and the endpoint has a fresh lease.
\<close>

theorem poll_acknowledges_forward:
  assumes "reachable s" and "EventsAfter E sid cursor limit s = (Inr (events, lease, replay), t)"
  shows "\<exists>x y e e'. m_sessions s sid = Some x \<and> m_sessions t sid = Some y
    \<and> e \<in> set (ses_Endpoints x) \<and> e' \<in> set (ses_Endpoints y)
    \<and> ep_ID e = cu_EndpointID cursor \<and> ep_ID e' = cu_EndpointID cursor
    \<and> ep_ReceivedSeq e' = max (ep_ReceivedSeq e) (cu_ReceivedSeq cursor)
    \<and> ep_ProcessedSeq e' = max (ep_ProcessedSeq e) (cu_ProcessedSeq cursor)
    \<and> (\<exists>rec. m_leases t (cu_EndpointID cursor) = Some rec \<and> lr_Current rec = lease)"
  using assms(2)
proof (cases rule: EventsAfter_cases)
  case (polled x i reconnecting replay')
  let ?e = "ses_Endpoints x ! i"
  let ?p = "polled_endpoint cursor reconnecting (clock_at E 2) ?e"
  have e: "?e \<in> set (ses_Endpoints x)" "ep_ID ?e = cu_EndpointID cursor"
    using polled(5) by (auto simp: endpointIndexLocked_def dest: first_index_Some)
  then have "endpoint_wf x ?e" "sid \<noteq> []" "ses_ID x = sid"
    using reachable_session_wf [OF assms(1) polled(1)] by (auto simp: session_wf_def)
  then have "ep_SessionID ?p \<noteq> []" by (auto simp: endpoint_wf_def)
  then obtain p' where p': "ses_Endpoints (polled_session cursor reconnecting E i x) =
      upsert_first (\<lambda>q. ep_ID q = ep_ID ?p \<and> ep_ID ?p \<noteq> []) p' (ses_Endpoints x)"
    and same: "p' = ?p\<lparr>ep_SchemaVersion := ep_SchemaVersion p'\<rparr>"
    unfolding polled_session_def
    by (rule WithEndpoint_endpoints [of ?p "x\<lparr>ses_Status := (if reconnecting then SessionStatusRecovered
          else ses_Status x)\<rparr>" "clock_at E 3"]) simp
  have "p' \<in> set (ses_Endpoints (polled_session cursor reconnecting E i x))" by (simp add: p')
  moreover have "ep_ID p' = cu_EndpointID cursor"
      "ep_ReceivedSeq p' = max (ep_ReceivedSeq ?e) (cu_ReceivedSeq cursor)"
      "ep_ProcessedSeq p' = max (ep_ProcessedSeq ?e) (cu_ProcessedSeq cursor)"
    using e(2) by (subst same, simp)+
  moreover have "\<exists>rec. m_leases t (cu_EndpointID cursor) = Some rec \<and> lr_Current rec = lease"
    using polled(7,8) e(2) by (simp add: issueLeaseLocked_def Let_def)
  moreover have "m_sessions t sid = Some (polled_session cursor reconnecting E i x)"
    using polled(7) by simp
  ultimately show ?thesis using polled(1) e by blast
qed simp

theorem poll_acknowledges_forward_witness:
  "\<exists>y e'. m_sessions (snd (EventsAfter (demo_env 2) demo_sid demo_cursor 0 joined_store)) demo_sid = Some y
     \<and> e' \<in> set (ses_Endpoints y) \<and> ep_ID e' = cu_EndpointID demo_cursor"
proof -
  obtain l r t where poll: "EventsAfter (demo_env 2) demo_sid demo_cursor 0 joined_store = (Inr ([demo_hello], l, r), t)"
    using demo_poll by blast
  from poll_acknowledges_forward [OF joined_reachable poll] show ?thesis
    unfolding poll snd_conv by blast
qed

end
