(* ===== verification/Lease_Properties.thy ===== *)
theory Lease_Properties
  imports Scenario
begin

text \<open>
  Leases: that renewing a lease hands the old secret over
  with a grace period, that ending a session withdraws every lease of it, and that leases are
  shared between sessions which use the same endpoint identifier.
\<close>

section \<open>Renewal\<close>

lemma NewLease_simps [simp]:
  "ls_Secret (NewLease E spec now) = lsp_Secret spec"
  "ls_Generation (NewLease E spec now) = lsp_Generation spec"
  "ls_EndpointID (NewLease E spec now) = lsp_EndpointID spec"
  "ls_SessionID (NewLease E spec now) = lsp_SessionID spec"
  by (simp_all add: NewLease_def Let_def)

lemma issueLease_record:
  assumes "issueLeaseLocked E x e ttl renew retry s = (lease, t)" and "rand_ok E"
  obtains prev where "m_leases t (ep_ID e) = Some \<lparr>lr_Current = lease, lr_PreviousSecrets = prev\<rparr>"
    and "ls_Secret lease \<noteq> []"
    and "\<And>rec. m_leases s (ep_ID e) = Some rec \<Longrightarrow> ls_Secret (lr_Current rec) \<noteq> [] \<Longrightarrow>
           prev (ls_Secret (lr_Current rec)) =
             Some (ls_ExpiresAt (lr_Current rec) + millis (ses_ReconnectGraceMS x))"
    and "\<And>rec. m_leases s (ep_ID e) = Some rec \<Longrightarrow> ls_Generation lease = i64 (ls_Generation (lr_Current rec) + 1)"
proof -
  obtain i where i: "newID ''lease_secret'' (rand_at E 0) = Some i" "i \<noteq> []"
    using rand_ok_newID [OF assms(2), of "''lease_secret''" 0] by (auto simp: newID_def)
  show thesis
    using assms(1) i
    by (intro that [of "lr_PreviousSecrets (map_get zero_leaseRecord (m_leases t) (ep_ID e))"])
      (auto simp: issueLeaseLocked_def Let_def pruneExpiredLeaseSecrets_def)
qed

text \<open>
  Renewing a lease gives a new, nonempty secret of the next generation that authorises the
  endpoint until it expires, and the secret it replaces keeps working as a reconnect until its own
  expiry plus the session's grace, so a poll whose answer is lost can be repeated.
\<close>

theorem lease_rotation:
  assumes "issueLeaseLocked E x e ttl renew retry s = (lease, t)" and "rand_ok E"
    and "m_leases s (ep_ID e) = Some rec" and "ls_Secret (lr_Current rec) \<noteq> []"
    and "ls_Secret lease \<noteq> ls_Secret (lr_Current rec)"
  shows "ls_Generation lease = i64 (ls_Generation (lr_Current rec) + 1)
    \<and> (clock_at E' 0 \<le> ls_ExpiresAt lease \<longrightarrow>
         authorizeLeaseLocked E' y (ep_ID e) (ls_Secret lease) t = Inr False)
    \<and> (clock_at E' 0 \<le> ls_ExpiresAt (lr_Current rec) + millis (ses_ReconnectGraceMS x) \<longrightarrow>
         authorizeLeaseLocked E' y (ep_ID e) (ls_Secret (lr_Current rec)) t = Inr True)"
  by (rule issueLease_record [OF assms(1,2)])
    (use assms(3-5) in \<open>auto simp: authorizeLeaseLocked_def Let_def not_less\<close>)

theorem lease_rotation_witness:
  "authorizeLeaseLocked (demo_env 3) joined_session ''host-1'' (ls_Secret demo_lease)
     (snd (issueLeaseLocked (demo_env 2) joined_session demo_endpoint 0 0 0 joined_store)) = Inr True"
proof -
  obtain prev where rec: "m_leases joined_store (ep_ID demo_endpoint) =
      Some \<lparr>lr_Current = demo_lease, lr_PreviousSecrets = prev\<rparr>"
    using joined_store_lease by auto
  have "demo_id ''lease_secret'' 2 \<noteq> demo_id ''lease_secret'' 11" by (rule demo_id_distinct) simp
  then have fresh: "ls_Secret (fst (issueLeaseLocked (demo_env 2) joined_session demo_endpoint 0 0 0 joined_store))
      \<noteq> ls_Secret demo_lease"
    by (simp add: issueLeaseLocked_def Let_def)
  have "0 \<le> millis (ses_ReconnectGraceMS joined_session)"
    by (simp add: joined_session_def millis_def i64_def)
  then show ?thesis
    using lease_rotation [OF surjective_pairing rand_ok_demo rec, of 2 joined_session 0 0 0 "demo_env 3"] fresh
    by (simp add: second_ns_def)
qed

section \<open>Ending a session\<close>

text \<open>
  C7. Closing or revoking a session withdraws the lease of each of its endpoints: no secret, current
  or previous, authorises any of them afterwards, in whatever session it is presented.
\<close>

theorem end_withdraws_leases:
  assumes "CloseSession E sid s = (Inr (y, ev), t) \<or> (RevokeSession E sid s = (Inr (y, ev), t)
      \<and> (\<forall>x. m_sessions s sid = Some x \<longrightarrow> ses_Status x \<noteq> SessionStatusRevoked))"
    and "e \<in> set (ses_Endpoints y)"
  shows "\<exists>er. authorizeLeaseLocked E' z (ep_ID e) secret t = Inl er
    \<and> error_code er = Some ErrUnauthorizedEndpoint"
proof -
  obtain st key where ends: "terminateSessionLocked E sid st key s = (Inr (y, ev), t)" "key \<noteq> []"
    using assms(1) by (auto simp: CloseSession_def RevokeSession_def split: option.splits if_splits)
  then have "m_leases t (ep_ID e) = None"
    by (cases rule: terminateSessionLocked_cases)
      (use assms(2) in \<open>auto simp: dropLeases_def ended_session_def\<close>)
  then show ?thesis by (simp add: authorizeLeaseLocked_def)
qed

theorem end_withdraws_leases_witness:
  "\<exists>er. authorizeLeaseLocked (demo_env 4) closed_session ''host-1'' (ls_Secret demo_lease) closed_store = Inl er
    \<and> error_code er = Some ErrUnauthorizedEndpoint"
  using end_withdraws_leases [OF disjI1 [OF demo_closing],
      of "demo_endpoint\<lparr>ep_State := EndpointStateRevoked, ep_LastSeenAt := second_ns * 4\<rparr>"]
  by simp

section \<open>Leases are not bound to a session\<close>

text \<open>
  The store keeps one lease per endpoint identifier, whatever the session, and a joining host chooses
  its identifier.
\<close>

lemma JoinSession_lease:
  assumes "JoinSession E sid spec s = (Inr (y, e, lease), t)" and "rand_ok E"
  shows "ls_Secret lease \<noteq> [] \<and> (\<exists>rec. m_leases t (ep_ID e) = Some rec \<and> lr_Current rec = lease)"
proof -
  obtain x created s1 s2 where "m_sessions s sid = Some x"
    and "\<not> sessionExpired (clock_at E 0) x" and "\<not> sessionTerminal (ses_Status x)"
    and "joinEndpointLocked (env_from 1 E) x spec s = (Inr (e, created), s1)"
    and lease: "issueLeaseLocked (env_from 10 E) (map_get x (m_sessions s1) sid) e (es_LeaseTTLMS spec)
        (es_RenewAfterMS spec) (es_RetryAfterMS spec) s1 = (lease, s2)"
    and t: "\<not> created \<and> t = s2
         \<or> created \<and> (\<exists>ev. appendEventLocked (env_from 20 E) sid (hello_event e) True s2 = (Inr ev, t))"
    by (rule JoinSession_Inr [OF assms(1)])
  have "m_leases t = m_leases s2" using t by (auto dest: appendEventLocked_hook_and_tables)
  moreover obtain prev where
    "m_leases s2 (ep_ID e) = Some \<lparr>lr_Current = lease, lr_PreviousSecrets = prev\<rparr>" "ls_Secret lease \<noteq> []"
    by (rule issueLease_record [OF lease rand_ok_env_from [OF assms(2)]])
  ultimately show ?thesis by simp
qed

text \<open>A second session, which the first session's target never joined.\<close>

definition other_session :: Session where
  "other_session = demo_session\<lparr>ses_ID := ''other''\<rparr>"

definition crossing_store :: MemoryStore where
  "crossing_store = joined_store\<lparr>m_sessions := (m_sessions joined_store)(''other'' \<mapsto> other_session),
     m_events := (m_events joined_store)(''other'' \<mapsto> [])\<rparr>"

lemma crossing_join:
  "\<exists>y e lease t. JoinSession (demo_env 4) ''other'' demo_target crossing_store = (Inr (y, e, lease), t)
     \<and> ep_ID e = ''host-1'' \<and> m_sessions t demo_sid = Some joined_session \<and> ls_ExpiresAt lease = second_ns * 65"
proof -
  have other: "''other'' \<noteq> demo_sid" by (simp add: demo_id_def newID_def)
  let ?e = "demo_endpoint\<lparr>ep_SessionID := ''other'', ep_LastSeenAt := second_ns * 5\<rparr>"
  let ?x = "WithEndpoint (other_session\<lparr>ses_Status := SessionStatusOnline\<rparr>) ?e (second_ns * 5)"
  let ?s1 = "UpsertHostLocked (env_from 3 (env_from 1 (demo_env 4))) ?x ?e (second_ns * 5)
      (put_session ''other'' ?x crossing_store)"
  have join: "joinEndpointLocked (env_from 1 (demo_env 4)) other_session demo_target crossing_store = (Inr (?e, True), ?s1)"
    by (simp add: joinEndpointLocked_def demo_target_def other_session_def demo_endpoint_def
        constrainedEndpointCapabilities_def Let_def)
  obtain lease s2 where lease: "issueLeaseLocked (env_from 10 (demo_env 4)) ?x ?e 0 0 0 ?s1 = (lease, s2)"
    by (meson surj_pair)
  have s2: "m_sessions s2 = (m_sessions crossing_store)(''other'' \<mapsto> ?x)" "m_idempotency s2 = m_idempotency crossing_store"
    using arg_cong [OF lease, of snd] issueLeaseLocked_frame by auto
  have expires: "ls_ExpiresAt lease = second_ns * 65"
    using arg_cong [OF lease, of fst] by (auto simp: issueLeaseLocked_def NewLease_def Let_def millis_def i64_def second_ns_def)
  have free: "m_idempotency s2 (event_key ''other'' (hello_event ?e)) = None"
    using other by (simp add: s2 crossing_store_def joined_store_eq)
  have append: "appendEventLocked (env_from 20 (demo_env 4)) ''other'' (hello_event ?e) True s2 =
     (Inr (stampEvent (env_from 20 (demo_env 4)) ''other'' ?x (demo_id ''evt'' 24) (hello_event ?e)),
      commitEvent (env_from 20 (demo_env 4)) ''other'' ?x
       (stampEvent (env_from 20 (demo_env 4)) ''other'' ?x (demo_id ''evt'' 24) (hello_event ?e))
       (Some (event_key ''other'' (hello_event ?e), ''{}'')) s2)"
    using demo_append [of s2 "''other''" ?x "hello_event ?e" 20 4] free s2
    by (simp add: sessionTerminal_def hello_event_def other_session_def)
  have terms: "es_LeaseTTLMS demo_target = 0" "es_RenewAfterMS demo_target = 0" "es_RetryAfterMS demo_target = 0"
    by (simp_all add: demo_target_def)
  show ?thesis
    using join lease append other s2 expires
    by (simp add: JoinSession_def crossing_store_def other_session_def sessionTerminal_def terms Let_def)
qed

text \<open>
  C8. A lease crosses sessions: the secret that a host receives for joining one session validates
  in every other live session that has an endpoint with the same identifier, until it expires.
\<close>

theorem lease_crosses_sessions:
  assumes "JoinSession E sidB spec s = (Inr (y, e, lease), t)" and "rand_ok E"
    and "m_sessions t sidA = Some x" and "\<not> sessionTerminal (ses_Status x)"
    and "\<not> sessionExpired (clock_at E' 0) x" and "endpointIndexLocked x (ep_ID e) \<noteq> None"
    and "clock_at E' 1 \<le> ls_ExpiresAt lease"
  shows "ValidateLease E' sidA (ep_ID e) (ls_Secret lease) t = (Inr (), t)"
  using JoinSession_lease [OF assms(1,2)] assms(3-7)
  by (auto simp: ValidateLease_def authorizeLeaseLocked_def Let_def not_less)

theorem lease_crosses_sessions_witness:
  "\<exists>secret t. ValidateLease (demo_env 5) demo_sid ''host-1'' secret t = (Inr (), t)
     \<and> t = snd (JoinSession (demo_env 4) ''other'' demo_target crossing_store)"
proof -
  obtain y e lease t where join: "JoinSession (demo_env 4) ''other'' demo_target crossing_store = (Inr (y, e, lease), t)"
    and e: "ep_ID e = ''host-1''" "m_sessions t demo_sid = Some joined_session" "ls_ExpiresAt lease = second_ns * 65"
    using crossing_join by blast
  have "ValidateLease (demo_env 5) demo_sid (ep_ID e) (ls_Secret lease) t = (Inr (), t)"
    using e by (intro lease_crosses_sessions [OF join])
      (auto simp: sessionTerminal_def endpointIndexLocked_def second_ns_def)
  then show ?thesis using join e by auto
qed

end
