(* ===== verification/Task_Properties.thy ===== *)
theory Task_Properties
  imports Scenario
begin

text \<open>
  Tasks: where SubmitTask sends them, that a retried submission does not create a second task, that
  a task is finished at most once, and what the grace period after the end of a session allows.
\<close>

section \<open>Routing\<close>

lemma first_index_snoc:
  "k \<notin> f ` set xs \<Longrightarrow> f y = k \<Longrightarrow> first_index (\<lambda>u. f u = k) (xs @ [y]) = Some (length xs)"
  by (induction xs) auto

lemma find_snoc: "\<forall>u \<in> set xs. \<not> P u \<Longrightarrow> P y \<Longrightarrow> find P (xs @ [y]) = Some y"
  by (induction xs) auto

lemma route_members:
  assumes "routeTaskLocked x spec = Inr e"
  shows "e \<in> set (ses_Endpoints x)" and "ep_Role e = EndpointRoleTarget"
    and "endpointOnlineState (ep_State e)" and "set (ts_Capabilities spec) \<subseteq> set (ep_Capabilities e)"
  using assms
  by (auto simp: routeTaskLocked_def Let_def find_Some_iff endpointHasCapabilities_iff
      split: option.splits if_splits)

text \<open>
  A task is routed only to an online target endpoint of the session that has every capability
  the task asks for and that is the endpoint named, or matches the platform selected.
\<close>

theorem route_sound:
  assumes "routeTaskLocked x spec = Inr e"
  shows "e \<in> set (ses_Endpoints x) \<and> ep_Role e = EndpointRoleTarget \<and> endpointOnlineState (ep_State e)
    \<and> set (ts_Capabilities spec) \<subseteq> set (ep_Capabilities e)
    \<and> (ts_TargetEndpointID spec \<noteq> [] \<longrightarrow> ep_ID e = ts_TargetEndpointID spec)
    \<and> (ts_TargetEndpointID spec = [] \<longrightarrow> sel_Platform (ts_TargetSelector spec) \<noteq> [] \<longrightarrow>
         ep_Platform e = sel_Platform (ts_TargetSelector spec))"
proof (cases "ts_TargetEndpointID spec = []")
  case True
  with assms show ?thesis
    by (auto simp: routeTaskLocked_def Let_def find_Some_iff endpointHasCapabilities_iff
        split: option.splits if_splits)
next
  case False
  with assms show ?thesis
    by (auto simp: routeTaskLocked_def find_Some_iff endpointHasCapabilities_iff
        split: option.splits if_splits)
qed

theorem route_sound_witness:
  "demo_endpoint \<in> set (ses_Endpoints joined_session) \<and> endpointOnlineState (ep_State demo_endpoint)
   \<and> set [''shell''] \<subseteq> set (ep_Capabilities demo_endpoint)"
proof -
  have "routeTaskLocked joined_session demo_task = Inr demo_endpoint"
    by (simp add: routeTaskLocked_def demo_task_def endpointHasCapabilities_def endpointOnlineState_def Let_def)
  from route_sound [OF this] show ?thesis by (simp add: demo_task_def)
qed

text \<open>
  Routing is complete: when no endpoint is named and routing fails, then no online target
  endpoint of the session has the role and platform selected and the capabilities required, and the
  error reports the capability as unavailable.
\<close>

theorem route_complete:
  assumes "routeTaskLocked x spec = Inl er" and "ts_TargetEndpointID spec = []"
    and "e \<in> set (ses_Endpoints x)"
    and "sel_Role (ts_TargetSelector spec) \<in> {EndpointRoleOther [], ep_Role e}"
    and "sel_Platform (ts_TargetSelector spec) \<in> {[], ep_Platform e}"
    and "ep_Role e = EndpointRoleTarget" and "endpointOnlineState (ep_State e)"
  shows "error_code er = Some ErrCapabilityUnavailable
    \<and> \<not> set (if ts_Capabilities spec = [] then sel_Capabilities (ts_TargetSelector spec)
             else ts_Capabilities spec) \<subseteq> set (ep_Capabilities e)"
  using assms
  by (auto simp: routeTaskLocked_def Let_def find_None_iff endpointHasCapabilities_iff
      split: option.splits if_splits)

theorem route_complete_witness:
  "\<not> set [''root''] \<subseteq> set (ep_Capabilities demo_endpoint)"
proof -
  have fails: "\<exists>er. routeTaskLocked joined_session (demo_task\<lparr>ts_Capabilities := [''root'']\<rparr>) = Inl er"
    by (simp add: routeTaskLocked_def demo_task_def endpointHasCapabilities_def Let_def)
  then obtain er where er: "routeTaskLocked joined_session (demo_task\<lparr>ts_Capabilities := [''root'']\<rparr>) = Inl er" ..
  show ?thesis using route_complete [OF er, of demo_endpoint]
    by (simp add: demo_task_def endpointOnlineState_def)
qed

section \<open>Submission\<close>

lemma SubmitTask_new:
  assumes "SubmitTask E sid spec s = (Inr (task, ev), t)"
    and "m_taskIdempotency s (sid @ '':task:'' @ ts_IdempotencyKey spec) = None"
  obtains x target s1 where "m_sessions s sid = Some x" and "\<not> sessionExpired (clock_at E 0) x"
    and "\<not> sessionTerminal (ses_Status x)" and "routeTaskLocked x spec = Inr target"
    and "tk_TargetEndpointID task = ep_ID target" and "tk_Status task = TaskStatusOffered"
    and "tk_Capabilities task = ts_Capabilities spec"
    and "appendEventLocked (env_from 2 E) sid (task_offer_event task (''task:'' @ ts_IdempotencyKey spec)) True s = (Inr ev, s1)"
    and "t = s1\<lparr>m_sessions := (m_sessions s1)(sid \<mapsto> (map_get x (m_sessions s1) sid)
               \<lparr>ses_Tasks := ses_Tasks (map_get x (m_sessions s1) sid) @ [task]\<rparr>),
             m_taskIdempotency := (m_taskIdempotency s1)(sid @ '':task:'' @ ts_IdempotencyKey spec \<mapsto>
               \<lparr>tr_TaskID = tk_ID task, tr_EventID = ev_ID ev\<rparr>)\<rparr>"
proof (cases "m_sessions s sid")
  case None
  with assms show thesis by (simp add: SubmitTask_def)
next
  case x: (Some x)
  have live: "\<not> sessionExpired (clock_at E 0) x" "\<not> sessionTerminal (ses_Status x)"
    using assms x by (auto simp: SubmitTask_def split: if_splits)
  note st = assms(1) [unfolded SubmitTask_def, simplified x live assms(2) Let_def option.simps if_False]
  obtain target where target: "routeTaskLocked x spec = Inr target"
    using st assms(2) by (cases "routeTaskLocked x spec") auto
  obtain tid where tid: "newID ''task'' (rand_at E 0) = Some tid"
    using st assms(2) target by (cases "newID ''task'' (rand_at E 0)") auto
  obtain att where att: "(if ts_AttemptID spec = [] then newID ''attempt'' (rand_at E 1)
      else Some (ts_AttemptID spec)) = Some att"
    using st assms(2) target tid
    by (cases "(if ts_AttemptID spec = [] then newID ''attempt'' (rand_at E 1) else Some (ts_AttemptID spec))") auto
  let ?task = "\<lparr>tk_SchemaVersion = TaskSchemaVersion, tk_ID = tid, tk_SessionID = sid,
      tk_TargetEndpointID = ep_ID target, tk_TargetSelector = ts_TargetSelector spec,
      tk_Adapter = ts_Adapter spec, tk_Intent = ts_Intent spec, tk_Capabilities = ts_Capabilities spec,
      tk_Payload = ts_Payload spec, tk_Limits = ts_Limits spec, tk_AttemptID = att,
      tk_IdempotencyKey = ts_IdempotencyKey spec, tk_Status = TaskStatusOffered,
      tk_CreatedAt = clock_at E 1, tk_StartedAt = None, tk_EndedAt = None\<rparr>"
  let ?offer = "task_offer_event ?task (''task:'' @ ts_IdempotencyKey spec)"
  obtain r s1 where ap: "appendEventLocked (env_from 2 E) sid ?offer True s = (r, s1)"
    by (meson surj_pair)
  obtain ev' where ev': "r = Inr ev'"
    using st assms(2) target tid att ap by (cases r) auto
  have "task = ?task" "ev = ev'"
    using st assms(2) target tid att ap ev' by auto
  then show thesis
    using st assms(2) target tid att ap ev' by (intro that [OF x live target]) auto
qed

text \<open>
  C9. A newly submitted task is offered to an online target endpoint of the session, and asks for
  no capability beyond that endpoint's and, when the session lists capabilities, beyond those the
  session was granted, in every store reached by calls in which crypto/rand answers, the sequence
  space is not exhausted, no posted event claims a reserved idempotency key and no joining role
  contains a vertical bar.
\<close>

theorem submitted_task_authorized:
  assumes "reachable s" and "SubmitTask E sid spec s = (Inr (task, ev), t)"
    and "m_taskIdempotency s (sid @ '':task:'' @ ts_IdempotencyKey spec) = None"
  shows "\<exists>x e. m_sessions s sid = Some x \<and> e \<in> set (ses_Endpoints x) \<and> ep_ID e = tk_TargetEndpointID task
    \<and> ep_Role e = EndpointRoleTarget \<and> endpointOnlineState (ep_State e)
    \<and> tk_Status task = TaskStatusOffered \<and> set (tk_Capabilities task) \<subseteq> set (ep_Capabilities e)
    \<and> (ses_Capabilities x \<noteq> [] \<longrightarrow> set (tk_Capabilities task) \<subseteq> TrimSpace ` set (ses_Capabilities x))"
proof -
  obtain x e where x: "m_sessions s sid = Some x" and route: "routeTaskLocked x spec = Inr e"
    and task: "tk_TargetEndpointID task = ep_ID e" "tk_Status task = TaskStatusOffered"
      "tk_Capabilities task = ts_Capabilities spec"
    by (rule SubmitTask_new [OF assms(2,3)]) blast
  have e: "e \<in> set (ses_Endpoints x)" "ep_Role e = EndpointRoleTarget" "endpointOnlineState (ep_State e)"
      "set (tk_Capabilities task) \<subseteq> set (ep_Capabilities e)"
    using route_members [OF route] task by auto
  have "constrainedEndpointCapabilities x EndpointRoleTarget (ep_Capabilities e) [] = ep_Capabilities e"
    using reachable_session_wf [OF assms(1) x] e by (auto simp: session_wf_def endpoint_wf_def)
  then have "set (ep_Capabilities e) \<subseteq> TrimSpace ` set (ses_Capabilities x)" if "ses_Capabilities x \<noteq> []"
    using constrained_within_ceiling [OF that, of "ep_Capabilities e" "[]"] by (auto simp: ceiling_def)
  then have "ses_Capabilities x \<noteq> [] \<longrightarrow> set (tk_Capabilities task) \<subseteq> TrimSpace ` set (ses_Capabilities x)"
    using e(4) by (meson order_trans)
  then show ?thesis using x e task by auto
qed

theorem submitted_task_authorized_witness:
  "\<exists>e \<in> set (ses_Endpoints joined_session). ep_ID e = tk_TargetEndpointID offered_task
     \<and> set (tk_Capabilities offered_task) \<subseteq> TrimSpace ` set [''shell'']"
  using submitted_task_authorized [OF joined_reachable demo_submit] by auto

text \<open>
  Submission is idempotent: after a task was accepted under an idempotency key, submitting under
  the same key again returns the same task and event and changes nothing, even when the second
  request describes a different task. Fresh identifiers are assumed to be fresh.
\<close>

theorem submit_idempotent:
  assumes sub: "SubmitTask E sid spec s = (Inr (task, ev), t)" and x: "m_sessions s sid = Some x"
    and none: "m_taskIdempotency s (sid @ '':task:'' @ ts_IdempotencyKey spec) = None"
      "m_idempotency s \<lparr>ik_SessionID = sid, ik_FromEndpointID = ''agent'',
                        ik_Key = ''task:'' @ ts_IdempotencyKey spec\<rparr> = None"
    and fresh: "tk_ID task \<notin> tk_ID ` set (ses_Tasks x)" "ev_ID ev \<notin> ev_ID ` set (events_of s sid)"
    and key: "ts_IdempotencyKey spec' = ts_IdempotencyKey spec"
    and time: "\<not> sessionExpired (clock_at E' 0) x"
  shows "SubmitTask E' sid spec' t = (Inr (task, ev), t)"
proof -
  let ?offer = "task_offer_event task (''task:'' @ ts_IdempotencyKey spec)"
  obtain s1 where live: "\<not> sessionTerminal (ses_Status x)"
    and ap: "appendEventLocked (env_from 2 E) sid ?offer True s = (Inr ev, s1)"
    and t: "t = s1\<lparr>m_sessions := (m_sessions s1)(sid \<mapsto> (map_get x (m_sessions s1) sid)
               \<lparr>ses_Tasks := ses_Tasks (map_get x (m_sessions s1) sid) @ [task]\<rparr>),
             m_taskIdempotency := (m_taskIdempotency s1)(sid @ '':task:'' @ ts_IdempotencyKey spec \<mapsto>
               \<lparr>tr_TaskID = tk_ID task, tr_EventID = ev_ID ev\<rparr>)\<rparr>"
    by (rule SubmitTask_new [OF sub none(1)]) (use x in auto)
  have offer: "event_key sid ?offer = \<lparr>ik_SessionID = sid, ik_FromEndpointID = ''agent'',
      ik_Key = ''task:'' @ ts_IdempotencyKey spec\<rparr>" "ev_IdempotencyKey ?offer \<noteq> []"
    by (simp_all add: task_offer_event_def)
  obtain y where y: "m_sessions s1 sid = Some y" "ses_Tasks y = ses_Tasks x" "ses_Status y = ses_Status x"
      "ses_ExpiresAt y = ses_ExpiresAt x" and evs: "events_of s1 sid = events_of s sid @ [ev]"
    using ap
  proof (cases rule: appendEventLocked_cases)
    case (replay z rec)
    with none offer show thesis by simp
  next
    case (new z ident keyed)
    with x show thesis by (intro that [of "logged_session (env_from 2 E) x ev"]) auto
  qed simp
  have tasks: "first_index (\<lambda>u. tk_ID u = tk_ID task) (ses_Tasks x @ [task]) = Some (length (ses_Tasks x))"
    using first_index_snoc [OF fresh(1) refl] .
  have "find (\<lambda>e. ev_ID e = ev_ID ev) (events_of s sid @ [ev]) = Some ev"
    using fresh(2) by (intro find_snoc) (auto simp: image_iff)
  then show ?thesis
    using y evs live time t key tasks
    by (simp add: SubmitTask_def sessionExpired_def taskAndEventLocked_def findTaskLocked_def Let_def)
qed

theorem submit_idempotent_witness:
  "SubmitTask (demo_env 5) demo_sid (demo_task\<lparr>ts_Intent := ''deploy''\<rparr>) submitted_store =
   (Inr (offered_task, demo_offer), submitted_store)"
proof (rule submit_idempotent [OF demo_submit])
  show "m_sessions joined_store demo_sid = Some joined_session" by simp
  have "demo_id ''evt'' 4 \<noteq> demo_id ''evt'' 21" by (rule demo_id_distinct) simp
  then show "ev_ID demo_offer \<notin> ev_ID ` set (events_of joined_store demo_sid)"
    by (simp add: demo_offer_def demo_hello_def)
qed (simp_all add: joined_store_keys)

section \<open>Completion\<close>

text \<open>
  A task is finished at most once: an accepted result either replays the recorded outcome and
  changes nothing, or the task was not terminal, its current attempt reported, and it takes the
  terminal status that the result names; exactly this task of the session changes.
\<close>

theorem complete_finishes_once:
  assumes "CompleteTask E sid tid result s = (Inr (task', ev), t)"
  shows "t = s \<or> (\<exists>task i x y. findTaskLocked sid tid s = Inr (task, i, x) \<and> m_sessions t sid = Some y
    \<and> \<not> Task_Terminal task \<and> Task_Terminal task' \<and> tk_Status task' = result_status E result
    \<and> tk_ID task' = tid \<and> tk_AttemptID task' = tk_AttemptID task
    \<and> ses_Tasks y = (ses_Tasks x)[i := task'])"
  using assms
proof (cases rule: CompleteTask_cases)
  case (finished task i x u v e ev' s1 rec key)
  have v: "tk_Status v = result_status E result" "tk_ID v = tk_ID u" "tk_AttemptID v = tk_AttemptID u"
    using Transition_Inr [OF finished(6)] by auto
  have u: "tk_ID u = tk_ID task" "tk_AttemptID u = tk_AttemptID task"
    using finished(5) by (auto dest: Transition_Inr split: if_splits)
  have found: "m_sessions s sid = Some x" "tk_ID task = tid"
    using findTaskLocked_Inr [OF finished(1)] by auto
  obtain y where y: "m_sessions s1 sid = Some y" "ses_Tasks y = ses_Tasks x"
    by (rule append_result [OF finished(7)]) (use found in auto)
  have "Task_Terminal v" using v(1) by (simp add: Task_Terminal_def result_status_def)
  then show ?thesis using finished v u y found by auto
qed auto

theorem complete_finishes_once_witness:
  "\<exists>y. m_sessions finished_store demo_sid = Some y \<and> ses_Tasks y = (ses_Tasks submitted_session)[0 := finished_task]"
proof -
  obtain ev where completed: "CompleteTask (demo_env 3) demo_sid demo_task_id None submitted_store
      = (Inr (finished_task, ev), finished_store)"
    using demo_complete by blast
  have "finished_store \<noteq> submitted_store"
    using finished_store_session by (auto simp: finished_task_def offered_task_def)
  moreover have "findTaskLocked demo_sid demo_task_id submitted_store = Inr (offered_task, 0, submitted_session)"
    by (simp add: findTaskLocked_def offered_task_def)
  ultimately show ?thesis using complete_finishes_once [OF completed] by auto
qed

text \<open>
  A terminal task is settled: reporting a result, canceling it or marking it running leaves the
  store as it was (unless the call finds the whole session expired), and marking it running fails.
\<close>

theorem terminal_task_settled:
  assumes "findTaskLocked sid tid s = Inr (task, i, x)" and "Task_Terminal task"
    and "\<not> sessionExpired (clock_at E 0) x"
  shows "snd (CompleteTask E sid tid result s) = s \<and> snd (CancelTask E sid tid reason key s) = s
    \<and> (\<exists>er. MarkTaskRunning E sid tid s = (Inl er, s))"
proof -
  have x: "m_sessions s sid = Some x" using findTaskLocked_Inr [OF assms(1)] by simp
  have "snd (CompleteTask E sid tid result s) = s"
    using assms x by (auto simp: CompleteTask_def Let_def split: option.splits)
  moreover have "snd (CancelTask E sid tid reason key s) = s"
    using assms x by (auto simp: CancelTask_def Let_def split: option.splits)
  moreover have "\<exists>er. MarkTaskRunning E sid tid s = (Inl er, s)"
    using assms x by (auto simp: MarkTaskRunning_def Transition_def)
  ultimately show ?thesis by blast
qed

theorem terminal_task_settled_witness:
  "snd (CompleteTask (demo_env 6) demo_sid demo_task_id (Some Map.empty) finished_store) = finished_store
   \<and> snd (CancelTask (demo_env 6) demo_sid demo_task_id ''stop'' ''k2'' finished_store) = finished_store"
proof -
  obtain y where y: "m_sessions finished_store demo_sid = Some y" "ses_Tasks y = [finished_task]" "ses_ExpiresAt y = 0"
    using finished_store_session by blast
  have "findTaskLocked demo_sid demo_task_id finished_store = Inr (finished_task, 0, y)"
    using y by (simp add: findTaskLocked_def finished_task_def offered_task_def)
  from terminal_task_settled [OF this, of "demo_env 6"] y show ?thesis
    by (simp add: finished_task_def Task_Terminal_def)
qed

text \<open>
  After a session has ended, a result is accepted only during the grace period: once the grace
  has elapsed, a result that was not recorded before is refused with the terminal-session error and
  changes nothing.
\<close>

theorem late_result_refused:
  assumes "findTaskLocked sid tid s = Inr (task, i, x)" and "sessionTerminal (ses_Status x)"
    and "\<not> inTerminalGrace (env_from 1 E) x s"
    and "m_resultIdempotency s (sid @ '':result:'' @ tid @ '':'' @ result_attempt E result task @ '':''
           @ stringMapValue E result ''idempotency_key'') = None"
  shows "\<exists>er. CompleteTask E sid tid result s = (Inl er, s) \<and> error_code er = Some ErrTerminalSession"
proof -
  have x: "m_sessions s sid = Some x" using findTaskLocked_Inr [OF assms(1)] by simp
  have "snd (expireSessionLocked E' sid s) = s" for E'
    using assms(2) x by (simp add: expireSessionLocked_def)
  then show ?thesis
    using assms x by (simp add: CompleteTask_def result_attempt_def Let_def)
qed

theorem late_result_refused_witness:
  "\<exists>er. CompleteTask (demo_env 40) demo_sid demo_task_id None closed_store = (Inl er, closed_store)
     \<and> error_code er = Some ErrTerminalSession"
proof (rule late_result_refused)
  show "findTaskLocked demo_sid demo_task_id closed_store = Inr (offered_task, 0, closed_session)"
    by (simp add: findTaskLocked_def offered_task_def)
  show "\<not> inTerminalGrace (env_from 1 (demo_env 40)) closed_session closed_store"
    by (simp add: inTerminalGrace_def demo_session_def demo_limits_def withDefaults_def
        millis_def i64_def second_ns_def)
qed (simp_all add: sessionTerminal_def)

end
