(* ===== verification/Host_Directory.thy ===== *)
theory Host_Directory
  imports Scenario
begin

text \<open>
  The host directory of host.go: one record per identity fingerprint, whose operator-chosen name
  survives every rejoin, and a listing that shows each host once, the most recently seen first.
\<close>

definition demo_host :: Host where
  "demo_host = \<lparr>ho_SchemaVersion = HostSchemaVersion, ho_HostID = ''hst_1'', ho_IdentityFingerprint = ''fp-1'',
     ho_DisplayName = ''build box'', ho_Platform = ''linux'', ho_Capabilities = [],
     ho_State = EndpointStateOnline, ho_FirstSeenAt = 1, ho_LastSeenAt = 2, ho_LastSessionID = [],
     ho_LastEndpointID = []\<rparr>"

definition directory :: MemoryStore where
  "directory = NewMemoryStore\<lparr>m_hosts := [''fp-1'' \<mapsto> demo_host]\<rparr>"

text \<open>
  A rejoin keeps the directory record of a known host: its identifier, fingerprint, first-seen
  time and nonempty display name stay, and no other record changes.
\<close>

theorem rejoin_keeps_host_record:
  assumes "m_hosts s f = Some h"
  shows "\<exists>h'. m_hosts (UpsertHostLocked E x e now s) f = Some h' \<and> ho_HostID h' = ho_HostID h
    \<and> ho_IdentityFingerprint h' = ho_IdentityFingerprint h \<and> ho_FirstSeenAt h' = ho_FirstSeenAt h
    \<and> (ho_DisplayName h \<noteq> [] \<longrightarrow> ho_DisplayName h' = ho_DisplayName h)
    \<and> (f \<noteq> ep_IdentityFingerprint e \<longrightarrow> h' = h)"
  using assms by (auto simp: UpsertHostLocked_def Let_def split: option.splits)

theorem rejoin_keeps_host_record_witness:
  "\<exists>h'. m_hosts (UpsertHostLocked (demo_env 1) joined_session demo_endpoint 9 directory) ''fp-1'' = Some h'
     \<and> ho_DisplayName h' = ''build box''"
  using rejoin_keeps_host_record [of directory "''fp-1''" demo_host "demo_env 1" joined_session demo_endpoint 9]
  by (auto simp: directory_def demo_host_def)

lemma hosts_in_order_all:
  "distinct order \<Longrightarrow> set order = dom (m_hosts s) \<Longrightarrow>
   set (hosts_in_order order s) = ran (m_hosts s)
   \<and> length (hosts_in_order order s) = card (dom (m_hosts s))"
proof -
  assume order: "distinct order" "set order = dom (m_hosts s)"
  then have "hosts_in_order order s = map (\<lambda>f. the (m_hosts s f)) order"
    by (auto simp: hosts_in_order_def List.map_filter_def filter_id_conv intro!: map_cong)
  with order show ?thesis
    by (auto simp: ran_def dom_def image_iff distinct_card [symmetric]) (metis option.sel)
qed

text \<open>
  The listing shows every host of the directory exactly once, in whatever order the map is
  iterated, and no host is listed after one that was seen earlier.
\<close>

theorem hosts_listing:
  assumes "distinct order" and "set order = dom (m_hosts s)"
  shows "set (Hosts order s) = ran (m_hosts s) \<and> length (Hosts order s) = card (dom (m_hosts s))
    \<and> sorted_wrt (\<lambda>a b. ho_LastSeenAt b \<le> ho_LastSeenAt a) (Hosts order s)"
proof -
  have "sorted (map (\<lambda>h. - ho_LastSeenAt h) (Hosts order s))"
    unfolding Hosts_def by (rule sorted_sort_key)
  then have "sorted_wrt (\<lambda>a b. ho_LastSeenAt b \<le> ho_LastSeenAt a) (Hosts order s)"
    by (simp add: sorted_wrt_map)
  with hosts_in_order_all [OF assms] show ?thesis by (simp add: Hosts_def)
qed

theorem hosts_listing_witness: "set (Hosts [''fp-1''] directory) = {demo_host}"
  using hosts_listing [of "[''fp-1'']" directory] by (simp add: directory_def)

text \<open>
  Renaming accepts only a name that, once trimmed, is nonempty, at most 64 bytes long and free
  of line breaks and tabs; it changes the display name of one record with the given identifier and
  nothing else in the store.
\<close>

theorem rename_changes_only_the_name:
  assumes "RenameHost order hostID name s = (Inr h, t)"
  shows "ho_HostID h = hostID \<and> ho_DisplayName h = TrimSpace name \<and> TrimSpace name \<noteq> []
    \<and> length (TrimSpace name) \<le> 64 \<and> {CHR 0x0D, CHR 0x0A, CHR 0x09} \<inter> set (TrimSpace name) = {}
    \<and> (\<exists>f h0. f \<in> set order \<and> m_hosts s f = Some h0 \<and> h = h0\<lparr>ho_DisplayName := TrimSpace name\<rparr>
         \<and> t = s\<lparr>m_hosts := (m_hosts s)(f \<mapsto> h)\<rparr>)"
proof -
  let ?name = "TrimSpace name"
  have chars: "char_of (13::nat) = CHR 0x0D" "char_of (10::nat) = CHR 0x0A" "char_of (9::nat) = CHR 0x09"
    by code_simp+
  have valid: "?name \<noteq> []" "length ?name \<le> 64" "{CHR 0x0D, CHR 0x0A, CHR 0x09} \<inter> set ?name = {}"
    using assms
    by (auto simp: RenameHost_def MaxHostDisplayNameLength_def Let_def chars list_ex_iff split: if_splits)
  obtain f where f: "find (\<lambda>fingerprint. case m_hosts s fingerprint of
      None \<Rightarrow> False | Some h \<Rightarrow> ho_HostID h = hostID) order = Some f"
    using assms by (auto simp: RenameHost_def Let_def split: if_splits option.splits)
  then obtain h0 where h0: "m_hosts s f = Some h0" "ho_HostID h0 = hostID" "f \<in> set order"
    by (auto simp: find_Some_iff split: option.splits)
  have "h = h0\<lparr>ho_DisplayName := ?name\<rparr> \<and> t = s\<lparr>m_hosts := (m_hosts s)(f \<mapsto> h)\<rparr>"
    using assms f h0 by (auto simp: RenameHost_def Let_def split: if_splits)
  with valid h0 show ?thesis by auto
qed

theorem rename_changes_only_the_name_witness:
  "ho_DisplayName (demo_host\<lparr>ho_DisplayName := ''lab''\<rparr>) = TrimSpace ''lab''"
proof -
  have trim: "TrimSpace ''lab'' = ''lab''" by (simp add: TrimSpace_graphic graphic_def)
  have chars: "char_of (13::nat) = CHR 0x0D" "char_of (10::nat) = CHR 0x0A" "char_of (9::nat) = CHR 0x09"
    by code_simp+
  have "RenameHost [''fp-1''] ''hst_1'' ''lab'' directory =
      (Inr (demo_host\<lparr>ho_DisplayName := ''lab''\<rparr>),
       directory\<lparr>m_hosts := [''fp-1'' \<mapsto> demo_host\<lparr>ho_DisplayName := ''lab''\<rparr>]\<rparr>)"
    by (simp add: RenameHost_def trim chars directory_def demo_host_def MaxHostDisplayNameLength_def Let_def)
  from rename_changes_only_the_name [OF this] show ?thesis by blast
qed

end
