(* ===== verification/Snapshot_Store.thy ===== *)
theory Snapshot_Store
  imports Store_Methods "HOL-Library.List_Lexorder" "HOL-Library.Char_ord" "HOL-Library.Product_Lexorder"
begin

text \<open>
  Snapshots of the control plane (internal/controlplane/snapshot.go): taking one closes the expired
  sessions, prunes the leases and copies every table; restoring one validates it and replaces the
  tables of the store. A map of the snapshot that a loop ranges over is a list of its entries in
  the order the loop meets them, which Go leaves open; a map that is only copied stays a map.
\<close>

section \<open>Data\<close>

definition SnapshotSchemaVersion :: string where
  "SnapshotSchemaVersion = ''rdev.control-plane-snapshot.v1''"

record IdempotencyRecord =
  sr_SessionID :: string
  sr_FromEndpointID :: string
  sr_Key :: string
  sr_Fingerprint :: string
  sr_Event :: Event

record Snapshot =
  sp_SchemaVersion :: string
  sp_Sessions :: "Session list"
  sp_Events :: "(string \<times> Event list) list"
  sp_Idempotency :: "IdempotencyRecord list"
  sp_TaskIdempotency :: "string \<rightharpoonup> taskRecord"
  sp_CancelIdempotency :: "string \<rightharpoonup> taskRecord"
  sp_ResultIdempotency :: "string \<rightharpoonup> taskRecord"
  sp_Leases :: "(string \<times> leaseRecord) list"
  sp_TerminalAt :: "string \<rightharpoonup> Time"
  sp_Hosts :: "Host list"

text \<open>The orders in which the loops of Snapshot meet the keys of the store's maps.\<close>

record iteration =
  it_Expire :: "string list"
  it_Sessions :: "string list"
  it_Events :: "string list"
  it_Idempotency :: "idempotencyKey list"
  it_Prune :: "string list"
  it_Leases :: "string list"
  it_Hosts :: "string list"

section \<open>Taking a snapshot\<close>

fun expireSessions :: "env \<Rightarrow> string list \<Rightarrow> MemoryStore \<Rightarrow> MemoryStore" where
  "expireSessions E [] s = s"
| "expireSessions E (sid # sids) s =
     expireSessions (env_from 5 E) sids (snd (expireSessionLocked E sid s))"

fun pruneLeases :: "env \<Rightarrow> string list \<Rightarrow> (string \<rightharpoonup> leaseRecord) \<Rightarrow> (string \<rightharpoonup> leaseRecord)" where
  "pruneLeases E [] m = m"
| "pruneLeases E (eid # eids) m =
     pruneLeases (env_from 1 E) eids
       (case m eid of None \<Rightarrow> m | Some rec \<Rightarrow> m(eid \<mapsto> pruneExpiredLeaseSecrets rec (clock_at E 0)))"

definition entries :: "('k \<rightharpoonup> 'v) \<Rightarrow> 'k list \<Rightarrow> ('k \<times> 'v) list" where
  "entries m order = List.map_filter (\<lambda>k. map_option (Pair k) (m k)) order"

definition snapshot_idempotency :: "idempotencyKey \<times> idempotencyRecord \<Rightarrow> IdempotencyRecord" where
  "snapshot_idempotency kr =
     \<lparr>sr_SessionID = ik_SessionID (fst kr), sr_FromEndpointID = ik_FromEndpointID (fst kr),
      sr_Key = ik_Key (fst kr), sr_Fingerprint = ir_Fingerprint (snd kr), sr_Event = ir_Event (snd kr)\<rparr>"

definition cloneHosts :: "string list \<Rightarrow> (string \<rightharpoonup> Host) \<Rightarrow> Host list" where
  "cloneHosts order hosts = sort_key ho_HostID (map snd (entries hosts order))"

definition takeSnapshot :: "env \<Rightarrow> iteration \<Rightarrow> MemoryStore \<Rightarrow> Snapshot \<times> MemoryStore" where
  "takeSnapshot E it s0 =
     (let s1 = expireSessions E (it_Expire it) s0;
          s = s1\<lparr>m_leases := pruneLeases (env_from (5 * length (it_Expire it)) E) (it_Prune it) (m_leases s1)\<rparr>
      in (\<lparr>sp_SchemaVersion = SnapshotSchemaVersion,
           sp_Sessions = sort_key ses_CreatedAt (map snd (entries (m_sessions s) (it_Sessions it))),
           sp_Events = entries (m_events s) (it_Events it),
           sp_Idempotency = sort_key (\<lambda>r. (sr_SessionID r, sr_FromEndpointID r, sr_Key r))
             (map snapshot_idempotency (entries (m_idempotency s) (it_Idempotency it))),
           sp_TaskIdempotency = m_taskIdempotency s,
           sp_CancelIdempotency = m_cancelIdempotency s,
           sp_ResultIdempotency = m_resultIdempotency s,
           sp_Leases = entries (m_leases s) (it_Leases it),
           sp_TerminalAt = m_terminalAt s,
           sp_Hosts = cloneHosts (it_Hosts it) (m_hosts s)\<rparr>, s))"

section \<open>Restoring a snapshot\<close>

abbreviation invalid :: "string \<Rightarrow> 'a result" where
  "invalid message \<equiv> Inl (TextErr (''control plane snapshot '' @ message))"

fun restoreEndpoints ::
    "Session \<Rightarrow> Endpoint list \<Rightarrow> (string \<rightharpoonup> Endpoint) \<Rightarrow> (Endpoint list \<times> (string \<rightharpoonup> Endpoint)) result" where
  "restoreEndpoints session [] endpoints = Inr ([], endpoints)"
| "restoreEndpoints session (endpoint # rest) endpoints =
     (if ep_ID endpoint = [] \<or> ep_SessionID endpoint \<noteq> ses_ID session
      then invalid ''contains endpoint with invalid session binding''
      else if endpoints (ep_ID endpoint) \<noteq> None
      then invalid (''contains duplicate endpoint id '' @ quoted (ep_ID endpoint))
      else
        (let endpoint' = endpoint\<lparr>ep_Capabilities := constrainedEndpointCapabilities session
               (ep_Role endpoint) (ep_Capabilities endpoint) []\<rparr>
         in case restoreEndpoints session rest (endpoints(ep_ID endpoint \<mapsto> endpoint')) of
              Inl e \<Rightarrow> Inl e
            | Inr (eps, endpoints') \<Rightarrow> Inr (endpoint' # eps, endpoints')))"

definition taskOutsideCeiling :: "(string \<rightharpoonup> Endpoint) \<Rightarrow> Session \<Rightarrow> Task \<Rightarrow> bool" where
  "taskOutsideCeiling endpoints session task \<longleftrightarrow>
     \<not> Task_Terminal task
     \<and> (case endpoints (tk_TargetEndpointID task) of
          None \<Rightarrow> True
        | Some target \<Rightarrow>
            ep_SessionID target \<noteq> ses_ID session \<or> ep_Role target \<noteq> EndpointRoleTarget
            \<or> \<not> endpointHasCapabilities target (tk_Capabilities task))"

fun restoreSessions ::
    "Session list \<Rightarrow> (string \<rightharpoonup> Session) \<Rightarrow> (string \<rightharpoonup> string) \<Rightarrow> (string \<rightharpoonup> Endpoint)
     \<Rightarrow> ((string \<rightharpoonup> Session) \<times> (string \<rightharpoonup> string) \<times> (string \<rightharpoonup> Endpoint)) result" where
  "restoreSessions [] sessions joinCodes endpoints = Inr (sessions, joinCodes, endpoints)"
| "restoreSessions (session # rest) sessions joinCodes endpoints =
     (if ses_ID session = [] \<or> ses_JoinCode session = []
      then invalid ''contains session with missing id or join code''
      else if sessions (ses_ID session) \<noteq> None
      then invalid (''contains duplicate session id '' @ quoted (ses_ID session))
      else if joinCodes (ses_JoinCode session) \<noteq> None
      then invalid (''contains duplicate join code '' @ quoted (ses_JoinCode session))
      else
        (case restoreEndpoints session (ses_Endpoints session) endpoints of
           Inl e \<Rightarrow> Inl e
         | Inr (eps, endpoints') \<Rightarrow>
             (let session' = session\<lparr>ses_Endpoints := eps\<rparr> in
              if list_ex (taskOutsideCeiling endpoints' session') (ses_Tasks session')
              then invalid ''contains live task outside target capability ceiling''
              else restoreSessions rest (sessions(ses_ID session \<mapsto> session'))
                     (joinCodes(ses_JoinCode session \<mapsto> ses_ID session)) endpoints')))"

fun restoreEvents ::
    "(string \<rightharpoonup> Session) \<Rightarrow> (string \<times> Event list) list \<Rightarrow> (string \<rightharpoonup> Event list)
     \<Rightarrow> (string \<rightharpoonup> Event list) result" where
  "restoreEvents sessions [] events = Inr events"
| "restoreEvents sessions ((sid, values) # rest) events =
     (if sessions sid = None
      then invalid (''events reference missing session '' @ quoted sid)
      else restoreEvents sessions rest (events(sid \<mapsto> values)))"

text \<open>Every session gets a log, also when the snapshot has none for it.\<close>

definition completeEvents ::
    "(string \<rightharpoonup> Session) \<Rightarrow> (string \<rightharpoonup> Event list) \<Rightarrow> (string \<rightharpoonup> Event list)" where
  "completeEvents sessions events =
     (\<lambda>sid. if sessions sid \<noteq> None \<and> events sid = None then Some [] else events sid)"

fun restoreIdempotency ::
    "(string \<rightharpoonup> Session) \<Rightarrow> IdempotencyRecord list \<Rightarrow> (idempotencyKey \<rightharpoonup> idempotencyRecord)
     \<Rightarrow> (idempotencyKey \<rightharpoonup> idempotencyRecord) result" where
  "restoreIdempotency sessions [] idempotency = Inr idempotency"
| "restoreIdempotency sessions (record # rest) idempotency =
     (if sr_SessionID record = [] \<or> sr_Key record = []
      then invalid ''contains idempotency record with missing scope''
      else if sessions (sr_SessionID record) = None
      then invalid (''idempotency references missing session '' @ quoted (sr_SessionID record))
      else
        (let key = \<lparr>ik_SessionID = sr_SessionID record, ik_FromEndpointID = sr_FromEndpointID record,
                    ik_Key = sr_Key record\<rparr>
         in if idempotency key \<noteq> None
            then invalid (''contains duplicate idempotency key '' @ quoted (sr_Key record))
            else restoreIdempotency sessions rest
                   (idempotency(key \<mapsto> \<lparr>ir_Fingerprint = sr_Fingerprint record,
                                       ir_Event = sr_Event record\<rparr>))))"

fun restoreLeases ::
    "(string \<rightharpoonup> Session) \<Rightarrow> (string \<rightharpoonup> Endpoint) \<Rightarrow> (string \<times> leaseRecord) list
     \<Rightarrow> (string \<rightharpoonup> leaseRecord) \<Rightarrow> (string \<rightharpoonup> leaseRecord) result" where
  "restoreLeases sessions endpoints [] leases = Inr leases"
| "restoreLeases sessions endpoints ((endpointID, record) # rest) leases =
     (let lease = lr_Current record in
      if endpointID = [] \<or> ls_EndpointID lease \<noteq> endpointID
      then invalid ''contains invalid lease binding''
      else
        (case (endpoints endpointID, sessions (ls_SessionID lease)) of
           (Some endpoint, Some session) \<Rightarrow>
             if ep_SessionID endpoint \<noteq> ls_SessionID lease
             then invalid ''contains invalid lease binding''
             else if sessionTerminal (ses_Status session) \<or> ep_State endpoint = EndpointStateClosed
                     \<or> ep_State endpoint = EndpointStateRevoked
             then invalid ''terminal endpoint retains a lease''
             else restoreLeases sessions endpoints rest
                    (leases(endpointID \<mapsto> \<lparr>lr_Current = lease,
                                          lr_PreviousSecrets = lr_PreviousSecrets record\<rparr>))
         | _ \<Rightarrow> invalid ''contains invalid lease binding''))"

fun hostsFromSnapshot :: "Host list \<Rightarrow> (string \<rightharpoonup> Host) \<Rightarrow> (string \<rightharpoonup> Host)" where
  "hostsFromSnapshot [] out = out"
| "hostsFromSnapshot (host # rest) out =
     (if TrimSpace (ho_IdentityFingerprint host) = [] \<or> TrimSpace (ho_HostID host) = []
      then hostsFromSnapshot rest out
      else
        (let host' = (if ho_SchemaVersion host = [] then host\<lparr>ho_SchemaVersion := HostSchemaVersion\<rparr> else host)
         in hostsFromSnapshot rest (out(ho_IdentityFingerprint host' \<mapsto> host'))))"

definition RestoreSnapshot :: "Snapshot \<Rightarrow> MemoryStore \<Rightarrow> unit result \<times> MemoryStore" where
  "RestoreSnapshot snapshot s =
     (if sp_SchemaVersion snapshot = [] then (Inr (), s)
      else if sp_SchemaVersion snapshot \<noteq> SnapshotSchemaVersion
      then (Inl (TextErr (''unsupported control plane snapshot schema '' @ quoted (sp_SchemaVersion snapshot))), s)
      else
        (case restoreSessions (sp_Sessions snapshot) Map.empty Map.empty Map.empty of
           Inl e \<Rightarrow> (Inl e, s)
         | Inr (sessions, joinCodes, endpoints) \<Rightarrow>
        (case restoreEvents sessions (sp_Events snapshot) Map.empty of
           Inl e \<Rightarrow> (Inl e, s)
         | Inr events \<Rightarrow>
        (case restoreIdempotency sessions (sp_Idempotency snapshot) Map.empty of
           Inl e \<Rightarrow> (Inl e, s)
         | Inr idempotency \<Rightarrow>
        (case restoreLeases sessions endpoints (sp_Leases snapshot) Map.empty of
           Inl e \<Rightarrow> (Inl e, s)
         | Inr leases \<Rightarrow>
             (Inr (),
              s\<lparr>m_sessions := sessions, m_joinCodes := joinCodes,
                m_events := completeEvents sessions events, m_idempotency := idempotency,
                m_taskIdempotency := sp_TaskIdempotency snapshot,
                m_cancelIdempotency := sp_CancelIdempotency snapshot,
                m_resultIdempotency := sp_ResultIdempotency snapshot,
                m_leases := leases, m_terminalAt := sp_TerminalAt snapshot,
                m_hosts := hostsFromSnapshot (sp_Hosts snapshot) Map.empty\<rparr>))))))"

end
