(* ===== verification/Snapshot_Properties.thy ===== *)
theory Snapshot_Properties
  imports Snapshot_Store
begin

text \<open>
  Restoring validates: an accepted snapshot leaves a store whose sessions, join codes, endpoints,
  tasks, idempotency records and leases are bound to each other as the code relies on, and a
  refused one leaves the store alone. Restoring what was taken gives the same store back, when
  that store is \<open>restorable\<close>.
\<close>

section \<open>What a restored store satisfies\<close>

definition endpoint_bound :: "Session \<Rightarrow> Endpoint \<Rightarrow> bool" where
  "endpoint_bound x e \<longleftrightarrow> ep_ID e \<noteq> [] \<and> ep_SessionID e = ses_ID x
     \<and> constrainedEndpointCapabilities x (ep_Role e) (ep_Capabilities e) [] = ep_Capabilities e"

definition task_bound :: "Endpoint list \<Rightarrow> Task \<Rightarrow> bool" where
  "task_bound eps task \<longleftrightarrow> Task_Terminal task
     \<or> (\<exists>e \<in> set eps. ep_ID e = tk_TargetEndpointID task \<and> ep_Role e = EndpointRoleTarget
          \<and> set (tk_Capabilities task) \<subseteq> set (ep_Capabilities e))"

definition session_bound :: "(string \<rightharpoonup> string) \<Rightarrow> (string \<rightharpoonup> Endpoint) \<Rightarrow> string \<Rightarrow> Session \<Rightarrow> bool" where
  "session_bound J EP sid x \<longleftrightarrow> ses_ID x = sid \<and> sid \<noteq> [] \<and> ses_JoinCode x \<noteq> []
     \<and> J (ses_JoinCode x) = Some sid
     \<and> (\<forall>e \<in> set (ses_Endpoints x). endpoint_bound x e \<and> EP (ep_ID e) = Some e)
     \<and> distinct (map ep_ID (ses_Endpoints x))
     \<and> (\<forall>task \<in> set (ses_Tasks x). task_bound (ses_Endpoints x) task)"

definition tables_bound :: "(string \<rightharpoonup> Session) \<Rightarrow> (string \<rightharpoonup> string) \<Rightarrow> (string \<rightharpoonup> Endpoint) \<Rightarrow> bool" where
  "tables_bound S J EP \<longleftrightarrow>
     (\<forall>sid x. S sid = Some x \<longrightarrow> session_bound J EP sid x)
     \<and> (\<forall>code sid. J code = Some sid \<longrightarrow> (\<exists>x. S sid = Some x \<and> ses_JoinCode x = code))
     \<and> (\<forall>k e. EP k = Some e \<longrightarrow> ep_ID e = k \<and> (\<exists>x. S (ep_SessionID e) = Some x \<and> e \<in> set (ses_Endpoints x)))"

lemma restoreEndpoints_Inr:
  "restoreEndpoints x eps EP = Inr (eps', EP') \<Longrightarrow>
     map ep_ID eps' = map ep_ID eps \<and> distinct (map ep_ID eps')
     \<and> (\<forall>e \<in> set eps'. endpoint_bound x e \<and> EP (ep_ID e) = None \<and> EP' (ep_ID e) = Some e)
     \<and> (\<forall>k. EP k \<noteq> None \<longrightarrow> EP' k = EP k)
     \<and> (\<forall>k e. EP' k = Some e \<longrightarrow> EP k = Some e \<or> (e \<in> set eps' \<and> ep_ID e = k))"
proof (induction x eps EP arbitrary: eps' EP' rule: restoreEndpoints.induct)
  case (2 x e rest EP)
  let ?e = "e\<lparr>ep_Capabilities := constrainedEndpointCapabilities x (ep_Role e) (ep_Capabilities e) []\<rparr>"
  have guard: "ep_ID e \<noteq> []" "ep_SessionID e = ses_ID x" "EP (ep_ID e) = None"
    using 2(2) by (auto split: if_splits)
  obtain eps1 where rest: "restoreEndpoints x rest (EP(ep_ID e \<mapsto> ?e)) = Inr (eps1, EP')"
    and eps': "eps' = ?e # eps1"
    using 2(2) guard by (auto simp: Let_def split: sum.splits)
  have bound: "endpoint_bound x ?e"
    using guard by (simp add: endpoint_bound_def constrained_idem)
  let ?EP = "EP(ep_ID e \<mapsto> ?e)"
  have IH: "map ep_ID eps1 = map ep_ID rest" "distinct (map ep_ID eps1)"
    "\<forall>p \<in> set eps1. endpoint_bound x p \<and> ?EP (ep_ID p) = None \<and> EP' (ep_ID p) = Some p"
    "\<forall>k. ?EP k \<noteq> None \<longrightarrow> EP' k = ?EP k"
    "\<forall>k p. EP' k = Some p \<longrightarrow> ?EP k = Some p \<or> (p \<in> set eps1 \<and> ep_ID p = k)"
    using 2(1) [OF _ _ refl rest] guard by auto
  have ih: "\<forall>p \<in> set eps1. endpoint_bound x p \<and> ep_ID p \<noteq> ep_ID e \<and> EP (ep_ID p) = None \<and> EP' (ep_ID p) = Some p"
    using IH(3) by (auto split: if_splits)
  have here: "EP' (ep_ID e) = Some ?e" using IH(4) by (metis fun_upd_same option.distinct(1))
  have kept: "\<forall>k. EP k \<noteq> None \<longrightarrow> EP' k = EP k" using IH(4) guard(3) by (metis fun_upd_other)
  have origin: "EP k = Some p \<or> (p \<in> set (?e # eps1) \<and> ep_ID p = k)" if "EP' k = Some p" for k p
    using IH(5) [rule_format, OF that] that here by (cases "k = ep_ID e") auto
  have "ep_ID e \<notin> ep_ID ` set rest"
    using ih IH(1) by (metis (mono_tags, lifting) image_iff list.set_map)
  then show ?case unfolding eps' using IH(1,2) ih here kept origin bound guard by auto
qed simp

lemma restoreSessions_bound:
  "restoreSessions xs S J EP = Inr (S', J', EP') \<Longrightarrow> tables_bound S J EP \<Longrightarrow> tables_bound S' J' EP'"
proof (induction xs arbitrary: S J EP)
  case (Cons x rest)
  have guard: "ses_ID x \<noteq> []" "ses_JoinCode x \<noteq> []" "S (ses_ID x) = None" "J (ses_JoinCode x) = None"
    using Cons.prems(1) by (auto split: if_splits)
  obtain eps EP1 where eps: "restoreEndpoints x (ses_Endpoints x) EP = Inr (eps, EP1)"
    using Cons.prems(1) guard by (cases "restoreEndpoints x (ses_Endpoints x) EP") auto
  let ?x = "x\<lparr>ses_Endpoints := eps\<rparr>"
  let ?S = "S(ses_ID x \<mapsto> ?x)" and ?J = "J(ses_JoinCode x \<mapsto> ses_ID x)"
  have tasks: "\<not> list_ex (taskOutsideCeiling EP1 ?x) (ses_Tasks x)"
    and rest: "restoreSessions rest ?S ?J EP1 = Inr (S', J', EP')"
    using Cons.prems(1) guard eps by (auto simp: Let_def split: if_splits)
  note r = restoreEndpoints_Inr [OF eps]
  have bound_x: "endpoint_bound ?x = endpoint_bound x"
    by (simp add: fun_eq_iff endpoint_bound_def constrainedEndpointCapabilities_def)
  have old: "session_bound ?J EP1 sid y" if "S sid = Some y" for sid y
  proof -
    have sb: "session_bound J EP sid y" using Cons.prems(2) that by (simp add: tables_bound_def)
    then have "ses_JoinCode y \<noteq> ses_JoinCode x" using guard(4) by (auto simp: session_bound_def)
    then show ?thesis using sb r by (auto simp: session_bound_def)
  qed
  have new: "session_bound ?J EP1 (ses_ID x) ?x"
  proof -
    have "task_bound eps task" if task: "task \<in> set (ses_Tasks x)" for task
    proof (cases "Task_Terminal task")
      case False
      then obtain e where e: "EP1 (tk_TargetEndpointID task) = Some e" "ep_SessionID e = ses_ID x"
          "ep_Role e = EndpointRoleTarget" "endpointHasCapabilities e (tk_Capabilities task)"
        using tasks task by (auto simp: list_ex_iff taskOutsideCeiling_def split: option.splits)
      have "EP (tk_TargetEndpointID task) \<noteq> Some e"
        using Cons.prems(2) e(2) guard(3) unfolding tables_bound_def by (metis option.distinct(1))
      then have "e \<in> set eps \<and> ep_ID e = tk_TargetEndpointID task" using r e(1) by blast
      with e show ?thesis by (auto simp: task_bound_def endpointHasCapabilities_iff)
    qed (simp add: task_bound_def)
    then show ?thesis using r guard bound_x by (auto simp: session_bound_def)
  qed
  have "tables_bound ?S ?J EP1"
    unfolding tables_bound_def
  proof (intro conjI allI impI)
    show "session_bound ?J EP1 sid y" if "?S sid = Some y" for sid y
      using that old new by (auto split: if_splits)
    show "\<exists>y. ?S sid = Some y \<and> ses_JoinCode y = code" if "?J code = Some sid" for code sid
    proof (cases "code = ses_JoinCode x")
      case False
      then have "J code = Some sid" using that by simp
      then obtain y where "S sid = Some y" "ses_JoinCode y = code"
        using Cons.prems(2) unfolding tables_bound_def by blast
      with guard(3) show ?thesis by (auto intro: exI [of _ y])
    qed (use that in simp)
    show "ep_ID e = k" if "EP1 k = Some e" for k e
      using that r Cons.prems(2) unfolding tables_bound_def by metis
    show "\<exists>y. ?S (ep_SessionID e) = Some y \<and> e \<in> set (ses_Endpoints y)" if "EP1 k = Some e" for k e
      using that r Cons.prems(2) guard(3) by (fastforce simp: tables_bound_def endpoint_bound_def)
  qed
  then show ?case by (rule Cons.IH [OF rest])
qed simp

lemma restoreIdempotency_sessions:
  "restoreIdempotency S rs m = Inr m' \<Longrightarrow> (\<And>k r. m k = Some r \<Longrightarrow> S (ik_SessionID k) \<noteq> None) \<Longrightarrow>
   m' k = Some r \<Longrightarrow> S (ik_SessionID k) \<noteq> None"
proof (induction S rs m rule: restoreIdempotency.induct)
  case (2 S r0 rest m)
  then show ?case by (fastforce simp: Let_def split: if_splits)
qed auto

lemma restoreLeases_bound:
  "restoreLeases S EP ls m = Inr m' \<Longrightarrow>
   (\<And>k rec. m k = Some rec \<Longrightarrow> \<exists>x e. EP k = Some e \<and> S (ls_SessionID (lr_Current rec)) = Some x
      \<and> ls_EndpointID (lr_Current rec) = k \<and> ep_SessionID e = ls_SessionID (lr_Current rec)
      \<and> \<not> sessionTerminal (ses_Status x) \<and> ep_State e \<notin> {EndpointStateClosed, EndpointStateRevoked}) \<Longrightarrow>
   m' k = Some rec \<Longrightarrow> \<exists>x e. EP k = Some e \<and> S (ls_SessionID (lr_Current rec)) = Some x
      \<and> ls_EndpointID (lr_Current rec) = k \<and> ep_SessionID e = ls_SessionID (lr_Current rec)
      \<and> \<not> sessionTerminal (ses_Status x) \<and> ep_State e \<notin> {EndpointStateClosed, EndpointStateRevoked}"
proof (induction S EP ls m rule: restoreLeases.induct)
  case (2 S EP eid r0 rest m)
  then show ?case by (fastforce simp: Let_def split: if_splits option.splits)
qed auto

lemma RestoreSnapshot_Inr:
  assumes "RestoreSnapshot snap s = (Inr (), t)" and "sp_SchemaVersion snap \<noteq> []"
  obtains EP events where "tables_bound (m_sessions t) (m_joinCodes t) EP"
    and "restoreEvents (m_sessions t) (sp_Events snap) Map.empty = Inr events"
    and "m_events t = completeEvents (m_sessions t) events"
    and "restoreIdempotency (m_sessions t) (sp_Idempotency snap) Map.empty = Inr (m_idempotency t)"
    and "restoreLeases (m_sessions t) EP (sp_Leases snap) Map.empty = Inr (m_leases t)"
proof -
  have version: "sp_SchemaVersion snap = SnapshotSchemaVersion"
    using assms by (auto simp: RestoreSnapshot_def split: if_splits)
  note rs = assms(1) [unfolded RestoreSnapshot_def, simplified assms(2) version if_False]
  obtain S J EP where S: "restoreSessions (sp_Sessions snap) Map.empty Map.empty Map.empty = Inr (S, J, EP)"
    using rs assms(2) version
    by (cases "restoreSessions (sp_Sessions snap) Map.empty Map.empty Map.empty") auto
  obtain evs where evs: "restoreEvents S (sp_Events snap) Map.empty = Inr evs"
    using rs assms(2) version S by (cases "restoreEvents S (sp_Events snap) Map.empty") auto
  obtain idem where idem: "restoreIdempotency S (sp_Idempotency snap) Map.empty = Inr idem"
    using rs assms(2) version S evs by (cases "restoreIdempotency S (sp_Idempotency snap) Map.empty") auto
  obtain ls where ls: "restoreLeases S EP (sp_Leases snap) Map.empty = Inr ls"
    using rs assms(2) version S evs idem by (cases "restoreLeases S EP (sp_Leases snap) Map.empty") auto
  have "tables_bound S J EP"
    by (rule restoreSessions_bound [OF S]) (simp add: tables_bound_def)
  then show thesis
    using rs assms(2) version S evs idem ls by (intro that [of EP evs]) auto
qed

text \<open>
  An accepted snapshot restores a consistent store: every session is filed under its own nonempty
  identifier and reachable by its join code and no other code leads anywhere; endpoint identifiers
  are unique across all sessions and every endpoint stays within its session's capability ceiling;
  every live task is assigned to a capable target of its session; idempotency records belong to
  restored sessions; and every lease belongs to a live endpoint of a live session.
\<close>

theorem restore_validates:
  assumes "RestoreSnapshot snap s = (Inr (), t)" and "sp_SchemaVersion snap \<noteq> []"
  shows "(\<forall>sid x. m_sessions t sid = Some x \<longrightarrow> ses_ID x = sid \<and> sid \<noteq> [] \<and> m_events t sid \<noteq> None
        \<and> (\<forall>e \<in> set (ses_Endpoints x). endpoint_bound x e)
        \<and> (\<forall>task \<in> set (ses_Tasks x). task_bound (ses_Endpoints x) task))
    \<and> (\<forall>code sid. m_joinCodes t code = Some sid \<longleftrightarrow> (\<exists>x. m_sessions t sid = Some x \<and> ses_JoinCode x = code))
    \<and> (\<forall>sid x e sid' x' e'. m_sessions t sid = Some x \<longrightarrow> e \<in> set (ses_Endpoints x) \<longrightarrow>
         m_sessions t sid' = Some x' \<longrightarrow> e' \<in> set (ses_Endpoints x') \<longrightarrow> ep_ID e = ep_ID e' \<longrightarrow> sid = sid' \<and> e = e')
    \<and> (\<forall>k r. m_idempotency t k = Some r \<longrightarrow> m_sessions t (ik_SessionID k) \<noteq> None)
    \<and> (\<forall>eid rec. m_leases t eid = Some rec \<longrightarrow>
         (\<exists>x e. m_sessions t (ls_SessionID (lr_Current rec)) = Some x \<and> e \<in> set (ses_Endpoints x)
            \<and> ep_ID e = eid \<and> \<not> sessionTerminal (ses_Status x)
            \<and> ep_State e \<notin> {EndpointStateClosed, EndpointStateRevoked}))"
proof -
  obtain EP events where bound: "tables_bound (m_sessions t) (m_joinCodes t) EP"
    and evs: "m_events t = completeEvents (m_sessions t) events"
    and idem: "restoreIdempotency (m_sessions t) (sp_Idempotency snap) Map.empty = Inr (m_idempotency t)"
    and ls: "restoreLeases (m_sessions t) EP (sp_Leases snap) Map.empty = Inr (m_leases t)"
    by (rule RestoreSnapshot_Inr [OF assms])
  have session: "session_bound (m_joinCodes t) EP sid x" if "m_sessions t sid = Some x" for sid x
    using bound that by (simp add: tables_bound_def)
  have codes: "m_joinCodes t code = Some sid \<longleftrightarrow> (\<exists>x. m_sessions t sid = Some x \<and> ses_JoinCode x = code)" for code sid
    using bound session unfolding tables_bound_def session_bound_def by blast
  have unique: "sid = sid' \<and> e = e'"
    if "m_sessions t sid = Some x" "e \<in> set (ses_Endpoints x)" "m_sessions t sid' = Some x'"
      "e' \<in> set (ses_Endpoints x')" "ep_ID e = ep_ID e'" for sid x e sid' x' e'
  proof -
    have "EP (ep_ID e) = Some e" "ep_SessionID e = sid"
      using session [OF that(1)] that(2) unfolding session_bound_def endpoint_bound_def by blast+
    moreover have "EP (ep_ID e') = Some e'" "ep_SessionID e' = sid'"
      using session [OF that(3)] that(4) unfolding session_bound_def endpoint_bound_def by blast+
    ultimately show ?thesis using that(5) by (metis option.inject)
  qed
  have leases: "\<exists>x e. m_sessions t (ls_SessionID (lr_Current rec)) = Some x \<and> e \<in> set (ses_Endpoints x)
      \<and> ep_ID e = eid \<and> \<not> sessionTerminal (ses_Status x) \<and> ep_State e \<notin> {EndpointStateClosed, EndpointStateRevoked}"
    if "m_leases t eid = Some rec" for eid rec
  proof -
    have "\<exists>x e. EP eid = Some e \<and> m_sessions t (ls_SessionID (lr_Current rec)) = Some x
      \<and> ls_EndpointID (lr_Current rec) = eid \<and> ep_SessionID e = ls_SessionID (lr_Current rec)
      \<and> \<not> sessionTerminal (ses_Status x) \<and> ep_State e \<notin> {EndpointStateClosed, EndpointStateRevoked}"
      by (rule restoreLeases_bound [OF ls _ that]) simp
    then obtain x e where e: "EP eid = Some e" and x: "m_sessions t (ls_SessionID (lr_Current rec)) = Some x"
        and sid: "ep_SessionID e = ls_SessionID (lr_Current rec)" and live: "\<not> sessionTerminal (ses_Status x)"
          "ep_State e \<notin> {EndpointStateClosed, EndpointStateRevoked}" by blast
    obtain y where y: "m_sessions t (ep_SessionID e) = Some y" "e \<in> set (ses_Endpoints y)" "ep_ID e = eid"
      using bound e unfolding tables_bound_def by blast
    from y(1) x sid have "y = x" by simp
    with x y live show ?thesis by blast
  qed
  have "m_sessions t (ik_SessionID k) \<noteq> None" if "m_idempotency t k = Some r" for k r
    using restoreIdempotency_sessions [OF idem _ that] by simp
  moreover have "ses_ID x = sid \<and> sid \<noteq> [] \<and> m_events t sid \<noteq> None
        \<and> (\<forall>e \<in> set (ses_Endpoints x). endpoint_bound x e)
        \<and> (\<forall>task \<in> set (ses_Tasks x). task_bound (ses_Endpoints x) task)" if "m_sessions t sid = Some x" for sid x
    using session [OF that] that by (simp add: session_bound_def evs completeEvents_def)
  ultimately show ?thesis using codes unique leases by blast
qed

text \<open>
  A snapshot that is refused leaves the store exactly as it was.
\<close>

theorem refused_restore_changes_nothing:
  assumes "RestoreSnapshot snap s = (Inl er, t)"
  shows "t = s"
  using assms by (auto simp: RestoreSnapshot_def split: if_splits sum.splits prod.splits)

end
