(* ===== verification/Snapshot_Roundtrip.thy ===== *)
theory Snapshot_Roundtrip
  imports Snapshot_Properties Scenario
begin

text \<open>
  Restoring what was taken: a store whose tables satisfy what restoring checks (\<open>restorable\<close>) comes
  back unchanged from its own snapshot, whatever order the maps were met in.
\<close>

section \<open>Tables filed from lists\<close>

definition filed :: "('a \<Rightarrow> 'k) \<Rightarrow> ('a \<Rightarrow> 'v) \<Rightarrow> 'a list \<Rightarrow> ('k \<rightharpoonup> 'v) \<Rightarrow> ('k \<rightharpoonup> 'v)" where
  "filed key val xs m = fold (\<lambda>x m. m(key x \<mapsto> val x)) xs m"

lemma filed_simps [simp]:
  "filed key val [] m = m"
  "filed key val (x # xs) m = filed key val xs (m(key x \<mapsto> val x))"
  "filed key val (xs @ ys) m = filed key val ys (filed key val xs m)"
  by (simp_all add: filed_def)

lemma filed_other: "k \<notin> key ` set xs \<Longrightarrow> filed key val xs m k = m k"
  by (induction xs arbitrary: m) auto

lemma filed_in: "distinct (map key xs) \<Longrightarrow> x \<in> set xs \<Longrightarrow> filed key val xs m (key x) = Some (val x)"
  by (induction xs arbitrary: m) (auto simp: filed_other)

lemma filed_eq:
  assumes "distinct (map key xs)" and "\<And>x. x \<in> set xs \<Longrightarrow> m (key x) = Some (val x)"
    and "\<And>k. m k \<noteq> None \<Longrightarrow> k \<in> key ` set xs"
  shows "filed key val xs Map.empty = m"
proof
  fix k
  show "filed key val xs Map.empty k = m k"
  proof (cases "k \<in> key ` set xs")
    case True
    then obtain x where "x \<in> set xs" "k = key x" by blast
    then show ?thesis using assms(1,2) by (simp add: filed_in)
  next
    case False
    then show ?thesis using assms(3) [of k] by (cases "m k") (simp_all add: filed_other)
  qed
qed

lemma restoreEndpoints_ok:
  "\<lbrakk>\<forall>e \<in> set eps. endpoint_bound x e \<and> EP (ep_ID e) = None; distinct (map ep_ID eps)\<rbrakk>
   \<Longrightarrow> restoreEndpoints x eps EP = Inr (eps, filed ep_ID (\<lambda>v. v) eps EP)"
proof (induction eps arbitrary: EP)
  case (Cons e eps)
  have "e\<lparr>ep_Capabilities := constrainedEndpointCapabilities x (ep_Role e) (ep_Capabilities e) []\<rparr> = e"
    using Cons.prems(1) by (simp add: endpoint_bound_def)
  moreover have "restoreEndpoints x eps (EP(ep_ID e \<mapsto> e)) = Inr (eps, filed ep_ID (\<lambda>v. v) eps (EP(ep_ID e \<mapsto> e)))"
    using Cons.prems by (intro Cons.IH) (auto simp: image_iff)
  ultimately show ?case using Cons.prems(1) by (simp add: endpoint_bound_def Let_def)
qed simp

lemma task_inside_ceiling:
  assumes "task_bound (ses_Endpoints x) task" "\<forall>e \<in> set (ses_Endpoints x). endpoint_bound x e \<and> EP (ep_ID e) = Some e"
  shows "\<not> taskOutsideCeiling EP x task"
proof (cases "Task_Terminal task")
  case False
  then obtain e where "e \<in> set (ses_Endpoints x)" and e: "ep_ID e = tk_TargetEndpointID task"
      "ep_Role e = EndpointRoleTarget" "set (tk_Capabilities task) \<subseteq> set (ep_Capabilities e)"
    using assms(1) by (auto simp: task_bound_def)
  then have "EP (tk_TargetEndpointID task) = Some e" "ep_SessionID e = ses_ID x"
    using assms(2) by (auto simp: endpoint_bound_def)
  with e show ?thesis by (simp add: taskOutsideCeiling_def endpointHasCapabilities_iff)
qed (simp add: taskOutsideCeiling_def)

lemma restoreSessions_ok:
  "\<lbrakk>\<forall>x \<in> set xs. ses_ID x \<noteq> [] \<and> ses_JoinCode x \<noteq> [] \<and> S (ses_ID x) = None \<and> J (ses_JoinCode x) = None
      \<and> (\<forall>e \<in> set (ses_Endpoints x). endpoint_bound x e \<and> EP (ep_ID e) = None)
      \<and> (\<forall>task \<in> set (ses_Tasks x). task_bound (ses_Endpoints x) task);
    distinct (map ses_ID xs); distinct (map ses_JoinCode xs); distinct (map ep_ID (concat (map ses_Endpoints xs)))\<rbrakk>
   \<Longrightarrow> restoreSessions xs S J EP =
       Inr (filed ses_ID (\<lambda>v. v) xs S, filed ses_JoinCode ses_ID xs J, filed ep_ID (\<lambda>v. v) (concat (map ses_Endpoints xs)) EP)"
proof (induction xs arbitrary: S J EP)
  case (Cons x xs)
  let ?EP = "filed ep_ID (\<lambda>v. v) (ses_Endpoints x) EP"
  have eps: "restoreEndpoints x (ses_Endpoints x) EP = Inr (ses_Endpoints x, ?EP)"
    using Cons.prems by (intro restoreEndpoints_ok) auto
  have "\<forall>e \<in> set (ses_Endpoints x). endpoint_bound x e \<and> ?EP (ep_ID e) = Some e"
    using Cons.prems by (auto simp: filed_in)
  then have tasks: "\<not> list_ex (taskOutsideCeiling ?EP x) (ses_Tasks x)"
    using Cons.prems(1) task_inside_ceiling by (auto simp: list_ex_iff)
  have other: "?EP (ep_ID e) = None" if "y \<in> set xs" "e \<in> set (ses_Endpoints y)" for y e
  proof -
    have "e \<in> (\<Union>y \<in> set xs. set (ses_Endpoints y))" using that by blast
    then have "ep_ID e \<in> ep_ID ` (\<Union>y \<in> set xs. set (ses_Endpoints y))" by (rule imageI)
    then have "ep_ID e \<notin> ep_ID ` set (ses_Endpoints x)" using Cons.prems(4) by (simp add: disjoint_iff) blast
    then show ?thesis using Cons.prems(1) that by (simp add: filed_other)
  qed
  have keys: "ses_ID y \<noteq> ses_ID x \<and> ses_JoinCode y \<noteq> ses_JoinCode x" if "y \<in> set xs" for y
    using Cons.prems(2,3) imageI [OF that, of ses_ID] imageI [OF that, of ses_JoinCode]
    by (metis distinct.simps(2) list.simps(9) list.set_map)
  have "restoreSessions xs (S(ses_ID x \<mapsto> x)) (J(ses_JoinCode x \<mapsto> ses_ID x)) ?EP =
      Inr (filed ses_ID (\<lambda>v. v) xs (S(ses_ID x \<mapsto> x)), filed ses_JoinCode ses_ID xs (J(ses_JoinCode x \<mapsto> ses_ID x)),
        filed ep_ID (\<lambda>v. v) (concat (map ses_Endpoints xs)) ?EP)"
    using Cons.prems by (intro Cons.IH ballI) (simp_all add: other keys del: filed_simps)
  then show ?case using Cons.prems(1) eps tasks by (simp add: Let_def)
qed simp

lemma restoreEvents_ok:
  "\<forall>p \<in> set ps. S (fst p) \<noteq> None \<Longrightarrow> restoreEvents S ps m = Inr (filed fst snd ps m)"
  by (induction ps arbitrary: m) auto

abbreviation idem_key :: "IdempotencyRecord \<Rightarrow> idempotencyKey" where
  "idem_key r \<equiv> \<lparr>ik_SessionID = sr_SessionID r, ik_FromEndpointID = sr_FromEndpointID r, ik_Key = sr_Key r\<rparr>"

abbreviation idem_value :: "IdempotencyRecord \<Rightarrow> idempotencyRecord" where
  "idem_value r \<equiv> \<lparr>ir_Fingerprint = sr_Fingerprint r, ir_Event = sr_Event r\<rparr>"

lemma restoreIdempotency_ok:
  "\<lbrakk>\<forall>r \<in> set rs. sr_SessionID r \<noteq> [] \<and> sr_Key r \<noteq> [] \<and> S (sr_SessionID r) \<noteq> None \<and> m (idem_key r) = None;
    distinct (map idem_key rs)\<rbrakk>
   \<Longrightarrow> restoreIdempotency S rs m = Inr (filed idem_key idem_value rs m)"
proof (induction rs arbitrary: m)
  case (Cons r rs)
  have "restoreIdempotency S rs (m(idem_key r \<mapsto> idem_value r)) = Inr (filed idem_key idem_value rs (m(idem_key r \<mapsto> idem_value r)))"
    using Cons.prems by (intro Cons.IH) (auto simp: image_iff)
  then show ?case using Cons.prems(1) by (simp add: Let_def)
qed simp

definition lease_bound :: "(string \<rightharpoonup> Session) \<Rightarrow> (string \<rightharpoonup> Endpoint) \<Rightarrow> string \<Rightarrow> leaseRecord \<Rightarrow> bool" where
  "lease_bound S EP eid rec \<longleftrightarrow> eid \<noteq> [] \<and> ls_EndpointID (lr_Current rec) = eid
     \<and> (\<exists>x e. S (ls_SessionID (lr_Current rec)) = Some x \<and> EP eid = Some e
          \<and> ep_SessionID e = ls_SessionID (lr_Current rec) \<and> \<not> sessionTerminal (ses_Status x)
          \<and> ep_State e \<notin> {EndpointStateClosed, EndpointStateRevoked})"

lemma restoreLeases_ok:
  "\<forall>p \<in> set ps. lease_bound S EP (fst p) (snd p) \<Longrightarrow> restoreLeases S EP ps m = Inr (filed fst snd ps m)"
proof (induction ps arbitrary: m)
  case (Cons p ps)
  obtain eid rec where p: "p = (eid, rec)" by (cases p)
  have "lease_bound S EP eid rec" using Cons.prems p by simp
  then have "restoreLeases S EP ((eid, rec) # ps) m = restoreLeases S EP ps (m(eid \<mapsto> rec))"
    by (cases rec) (auto simp: lease_bound_def Let_def)
  moreover have "restoreLeases S EP ps (m(eid \<mapsto> rec)) = Inr (filed fst snd ps (m(eid \<mapsto> rec)))"
    using Cons.prems by (intro Cons.IH) simp
  ultimately show ?case by (simp add: p del: restoreLeases.simps)
qed simp

lemma hostsFromSnapshot_ok:
  "\<forall>h \<in> set hs. TrimSpace (ho_IdentityFingerprint h) \<noteq> [] \<and> TrimSpace (ho_HostID h) \<noteq> [] \<and> ho_SchemaVersion h \<noteq> []
   \<Longrightarrow> hostsFromSnapshot hs m = filed ho_IdentityFingerprint (\<lambda>v. v) hs m"
  by (induction hs arbitrary: m) auto

section \<open>What is taken can be restored\<close>

definition orders_tables :: "iteration \<Rightarrow> MemoryStore \<Rightarrow> bool" where
  "orders_tables it s \<longleftrightarrow>
     distinct (it_Sessions it) \<and> set (it_Sessions it) = dom (m_sessions s)
     \<and> distinct (it_Events it) \<and> set (it_Events it) = dom (m_events s)
     \<and> distinct (it_Idempotency it) \<and> set (it_Idempotency it) = dom (m_idempotency s)
     \<and> distinct (it_Leases it) \<and> set (it_Leases it) = dom (m_leases s)
     \<and> distinct (it_Hosts it) \<and> set (it_Hosts it) = dom (m_hosts s)"

definition restorable :: "MemoryStore \<Rightarrow> bool" where
  "restorable s \<longleftrightarrow> (\<exists>EP. tables_bound (m_sessions s) (m_joinCodes s) EP
     \<and> (\<forall>eid rec. m_leases s eid = Some rec \<longrightarrow> lease_bound (m_sessions s) EP eid rec))
   \<and> dom (m_events s) = dom (m_sessions s)
   \<and> (\<forall>k r. m_idempotency s k = Some r \<longrightarrow> ik_SessionID k \<noteq> [] \<and> ik_Key k \<noteq> [] \<and> m_sessions s (ik_SessionID k) \<noteq> None)
   \<and> (\<forall>k h. m_hosts s k = Some h \<longrightarrow> ho_IdentityFingerprint h = k \<and> TrimSpace k \<noteq> []
        \<and> TrimSpace (ho_HostID h) \<noteq> [] \<and> ho_SchemaVersion h \<noteq> [])"

lemma entries_set: "set (entries m order) = {(k, v). k \<in> set order \<and> m k = Some v}"
  unfolding entries_def
  by (induction order) (auto simp: List.map_filter_simps split: option.splits)

lemma entries_keys: "set order \<subseteq> dom m \<Longrightarrow> map fst (entries m order) = order"
  unfolding entries_def
  by (induction order) (auto simp: List.map_filter_simps)

lemma entries_values:
  assumes "\<And>k v. m k = Some v \<Longrightarrow> key v = k" and "set order = dom m"
  shows "map (key \<circ> snd) (entries m order) = order"
proof -
  have "map (key \<circ> snd) (entries m order) = map fst (entries m order)"
    by (rule map_cong [OF refl]) (use assms(1) in \<open>auto simp: entries_set\<close>)
  then show ?thesis using assms(2) by (simp add: entries_keys)
qed

lemma distinct_map_sort_key: "distinct (map f (sort_key g xs)) = distinct (map f xs)"
  by (simp add: distinct_map inj_on_def)

lemma filed_entries:
  assumes "distinct order" "set order = dom m"
  shows "filed fst snd (entries m order) Map.empty = m"
  using assms by (intro filed_eq) (auto simp: entries_keys entries_set image_iff)

lemma filed_sorted:
  assumes "distinct order" "set order = dom m" "\<And>k v. m k = Some v \<Longrightarrow> key (f (k, v)) = k \<and> val (f (k, v)) = v"
  shows "distinct (map key (sort_key g (map f (entries m order))))"
    and "filed key val (sort_key g (map f (entries m order))) Map.empty = m"
proof -
  have "map (key \<circ> f) (entries m order) = map fst (entries m order)"
    by (rule map_cong [OF refl]) (use assms(3) in \<open>auto simp: entries_set\<close>)
  then have "distinct (map (key \<circ> f) (entries m order))" using assms(1,2) by (simp add: entries_keys)
  then show d: "distinct (map key (sort_key g (map f (entries m order))))"
    by (simp add: distinct_map_sort_key)
  show "filed key val (sort_key g (map f (entries m order))) Map.empty = m"
  proof (rule filed_eq [OF d])
    fix k assume "m k \<noteq> None"
    then obtain v where v: "m k = Some v" by blast
    then have "(k, v) \<in> set (entries m order)" using assms(2) by (auto simp: entries_set)
    then have "key (f (k, v)) \<in> key ` set (sort_key g (map f (entries m order)))" by (simp add: image_iff) blast
    then show "k \<in> key ` set (sort_key g (map f (entries m order)))" using assms(3) [OF v] by simp
  qed (use assms(3) in \<open>auto simp: entries_set\<close>)
qed

lemma distinct_endpoints:
  "\<lbrakk>distinct (map ses_ID xs); \<forall>x \<in> set xs. distinct (map ep_ID (ses_Endpoints x))
      \<and> (\<forall>e \<in> set (ses_Endpoints x). EP (ep_ID e) = Some e \<and> ep_SessionID e = ses_ID x)\<rbrakk>
   \<Longrightarrow> distinct (map ep_ID (concat (map ses_Endpoints xs)))"
proof (induction xs)
  case (Cons x xs)
  have "ep_ID e \<noteq> ep_ID p" if "e \<in> set (ses_Endpoints x)" "y \<in> set xs" "p \<in> set (ses_Endpoints y)" for e y p
  proof
    assume "ep_ID e = ep_ID p"
    moreover have "EP (ep_ID e) = Some e" "ep_SessionID e = ses_ID x" "EP (ep_ID p) = Some p" "ep_SessionID p = ses_ID y"
      using Cons.prems(2) that by simp_all
    ultimately have "ses_ID x = ses_ID y" by (metis option.inject)
    with Cons.prems(1) that(2) show False by (metis distinct.simps(2) image_eqI list.set_map list.simps(9))
  qed
  then have "set (map ep_ID (ses_Endpoints x)) \<inter> set (map ep_ID (concat (map ses_Endpoints xs))) = {}" by auto
  then show ?case using Cons by simp
qed simp

lemma restoreSessions_taken:
  assumes bound: "tables_bound S J EP" and order: "distinct order" "set order = dom S"
  shows "restoreSessions (sort_key ses_CreatedAt (map snd (entries S order))) Map.empty Map.empty Map.empty = Inr (S, J, EP)"
proof -
  let ?xs = "sort_key ses_CreatedAt (map snd (entries S order))"
  have sb: "session_bound J EP sid x" if "S sid = Some x" for sid x
    using bound that by (simp add: tables_bound_def)
  have mem: "x \<in> set ?xs \<longleftrightarrow> S (ses_ID x) = Some x" for x
    using order(2) sb by (auto simp: entries_set image_iff session_bound_def)
  have ids: "distinct (map ses_ID ?xs)" "filed ses_ID (\<lambda>v. v) ?xs Map.empty = S"
    using filed_sorted [OF order, where f = snd and key = ses_ID and val = "\<lambda>v. v" and g = ses_CreatedAt] sb
    by (simp_all add: session_bound_def)
  have x: "session_bound J EP (ses_ID x) x" if "x \<in> set ?xs" for x
    using that mem sb by blast
  have "inj_on ses_JoinCode (set ?xs)"
  proof (rule inj_onI)
    fix x y assume xy: "x \<in> set ?xs" "y \<in> set ?xs" "ses_JoinCode x = ses_JoinCode y"
    then have "ses_ID x = ses_ID y" using x [OF xy(1)] x [OF xy(2)] by (simp add: session_bound_def)
    with xy(1,2) mem [of x] mem [of y] show "x = y" by simp
  qed
  then have codes: "distinct (map ses_JoinCode ?xs)" using ids(1) by (simp only: distinct_map)
  have eps: "distinct (map ep_ID (concat (map ses_Endpoints ?xs)))"
    using x by (intro distinct_endpoints [OF ids(1), where EP = EP]) (auto simp: session_bound_def endpoint_bound_def)
  have J: "filed ses_JoinCode ses_ID ?xs Map.empty = J"
  proof (rule filed_eq [OF codes])
    fix code assume "J code \<noteq> None"
    then obtain sid where "J code = Some sid" by blast
    then obtain y where "S sid = Some y" "ses_JoinCode y = code" using bound unfolding tables_bound_def by blast
    then show "code \<in> ses_JoinCode ` set ?xs" using mem sb by (metis imageI session_bound_def)
  qed (use x in \<open>simp add: session_bound_def\<close>)
  have EP: "filed ep_ID (\<lambda>v. v) (concat (map ses_Endpoints ?xs)) Map.empty = EP"
  proof (rule filed_eq [OF eps])
    show "EP (ep_ID e) = Some e" if "e \<in> set (concat (map ses_Endpoints ?xs))" for e
      using that x by (auto simp: session_bound_def)
    fix k assume "EP k \<noteq> None"
    then obtain e where "EP k = Some e" by blast
    then obtain y where "ep_ID e = k" "S (ep_SessionID e) = Some y" "e \<in> set (ses_Endpoints y)"
      using bound unfolding tables_bound_def by blast
    moreover from this have "y \<in> set ?xs" using mem sb unfolding session_bound_def by metis
    ultimately show "k \<in> ep_ID ` set (concat (map ses_Endpoints ?xs))" by (simp only: set_concat set_map) blast
  qed
  have "restoreSessions ?xs Map.empty Map.empty Map.empty = Inr (filed ses_ID (\<lambda>v. v) ?xs Map.empty,
      filed ses_JoinCode ses_ID ?xs Map.empty, filed ep_ID (\<lambda>v. v) (concat (map ses_Endpoints ?xs)) Map.empty)"
    by (rule restoreSessions_ok [OF _ ids(1) codes eps]) (use x in \<open>auto simp: session_bound_def\<close>)
  then show ?thesis by (simp only: ids(2) J EP)
qed

lemma completeEvents_same: "dom events = dom sessions \<Longrightarrow> completeEvents sessions events = events"
  by (auto simp: completeEvents_def fun_eq_iff dom_def set_eq_iff)

lemma restore_taken:
  assumes "takeSnapshot E it s0 = (snap, s)" and "orders_tables it s" and "restorable s"
  shows "RestoreSnapshot snap t = (Inr (), s\<lparr>m_onEvent := m_onEvent t, m_hookLog := m_hookLog t\<rparr>)"
proof -
  obtain EP where bound: "tables_bound (m_sessions s) (m_joinCodes s) EP"
    and leases: "\<And>eid rec. m_leases s eid = Some rec \<Longrightarrow> lease_bound (m_sessions s) EP eid rec"
    using assms(3) by (auto simp: restorable_def)
  note it = assms(2) [unfolded orders_tables_def] and r = assms(3) [unfolded restorable_def]
  let ?idem = "sort_key (\<lambda>r. (sr_SessionID r, sr_FromEndpointID r, sr_Key r))
      (map snapshot_idempotency (entries (m_idempotency s) (it_Idempotency it)))"
  have snap: "snap = \<lparr>sp_SchemaVersion = SnapshotSchemaVersion,
      sp_Sessions = sort_key ses_CreatedAt (map snd (entries (m_sessions s) (it_Sessions it))),
      sp_Events = entries (m_events s) (it_Events it), sp_Idempotency = ?idem,
      sp_TaskIdempotency = m_taskIdempotency s, sp_CancelIdempotency = m_cancelIdempotency s,
      sp_ResultIdempotency = m_resultIdempotency s, sp_Leases = entries (m_leases s) (it_Leases it),
      sp_TerminalAt = m_terminalAt s, sp_Hosts = cloneHosts (it_Hosts it) (m_hosts s)\<rparr>"
    using assms(1) by (auto simp: takeSnapshot_def Let_def)
  have sessions: "restoreSessions (sp_Sessions snap) Map.empty Map.empty Map.empty = Inr (m_sessions s, m_joinCodes s, EP)"
    using restoreSessions_taken [OF bound] it by (simp add: snap)
  have "restoreEvents (m_sessions s) (sp_Events snap) Map.empty = Inr (filed fst snd (sp_Events snap) Map.empty)"
    by (rule restoreEvents_ok) (use r in \<open>auto simp: snap entries_set dom_def set_eq_iff\<close>)
  then have events: "restoreEvents (m_sessions s) (sp_Events snap) Map.empty = Inr (m_events s)"
    using it by (simp add: snap filed_entries)
  have order: "distinct (it_Idempotency it)" "set (it_Idempotency it) = dom (m_idempotency s)" using it by simp_all
  have key: "idem_key (snapshot_idempotency (k, v)) = k \<and> idem_value (snapshot_idempotency (k, v)) = v" for k v
    by (simp add: snapshot_idempotency_def)
  note idem = filed_sorted [OF order, where f = snapshot_idempotency and key = idem_key and val = idem_value
      and g = "\<lambda>r. (sr_SessionID r, sr_FromEndpointID r, sr_Key r)", OF key]
  have "restoreIdempotency (m_sessions s) ?idem Map.empty = Inr (filed idem_key idem_value ?idem Map.empty)"
    by (rule restoreIdempotency_ok [OF _ idem(1)])
      (use r in \<open>auto simp: entries_set snapshot_idempotency_def\<close>)
  then have "restoreIdempotency (m_sessions s) (sp_Idempotency snap) Map.empty = Inr (m_idempotency s)"
    by (simp only: idem(2) snap Snapshot.simps)
  moreover have "restoreLeases (m_sessions s) EP (sp_Leases snap) Map.empty = Inr (m_leases s)"
    using restoreLeases_ok [of "sp_Leases snap" "m_sessions s" EP Map.empty] leases it
    by (simp add: snap entries_set filed_entries case_prod_beta)
  moreover have "hostsFromSnapshot (sp_Hosts snap) Map.empty = m_hosts s"
  proof -
    have "hostsFromSnapshot (sp_Hosts snap) Map.empty = filed ho_IdentityFingerprint (\<lambda>v. v) (sp_Hosts snap) Map.empty"
      by (rule hostsFromSnapshot_ok) (use r in \<open>auto simp: snap cloneHosts_def entries_set\<close>)
    also have "\<dots> = m_hosts s" unfolding snap cloneHosts_def Snapshot.simps
      by (rule filed_sorted(2)) (use it r in auto)
    finally show ?thesis .
  qed
  moreover have "sp_SchemaVersion snap = SnapshotSchemaVersion" "SnapshotSchemaVersion \<noteq> []"
    by (simp_all add: snap SnapshotSchemaVersion_def)
  ultimately show ?thesis
    using sessions events r by (simp add: RestoreSnapshot_def completeEvents_same) (simp add: snap)
qed

text \<open>
  Taking a snapshot and restoring it gives every table back: for a store whose tables satisfy
  what restoring checks, in whatever order the maps are met, restoring the snapshot into any store
  replaces that store's tables by those of the store the snapshot was taken of, and keeps its event
  hook.
\<close>

theorem snapshot_restores:
  assumes "takeSnapshot E it s0 = (snap, s)" and "orders_tables it s" and "restorable s"
  shows "RestoreSnapshot snap t = (Inr (), s\<lparr>m_onEvent := m_onEvent t, m_hookLog := m_hookLog t\<rparr>)"
  using assms by (rule restore_taken)

definition demo_order :: iteration where
  "demo_order = \<lparr>it_Expire = [demo_sid], it_Sessions = [demo_sid], it_Events = [demo_sid],
     it_Idempotency = [event_key demo_sid (hello_event demo_endpoint)], it_Prune = [''host-1''],
     it_Leases = [''host-1''], it_Hosts = [''fp-1'']\<rparr>"

definition taken_store :: MemoryStore where
  "taken_store = snd (takeSnapshot (demo_env 5) demo_order joined_store)"

lemma issued_record:
  "\<exists>rec. m_leases (snd (issueLeaseLocked E x e ttl renew retry s)) = (m_leases s)(ep_ID e \<mapsto> rec)
     \<and> lr_Current rec = fst (issueLeaseLocked E x e ttl renew retry s)"
proof -
  obtain l prev where r: "issueLeaseLocked E x e ttl renew retry s =
      (l, s\<lparr>m_leases := (m_leases s)(ep_ID e \<mapsto> \<lparr>lr_Current = l, lr_PreviousSecrets = prev\<rparr>)\<rparr>)"
    unfolding issueLeaseLocked_def Let_def by blast
  then show ?thesis by (intro exI [of _ "\<lparr>lr_Current = l, lr_PreviousSecrets = prev\<rparr>"]) simp
qed

lemma taken_store_tables:
  "m_sessions taken_store = [demo_sid \<mapsto> joined_session]" "m_joinCodes taken_store = [demo_code \<mapsto> demo_sid]"
  "m_events taken_store = [demo_sid \<mapsto> [demo_hello]]"
  "m_idempotency taken_store = m_idempotency joined_store" "m_hosts taken_store = m_hosts joined_store"
  "\<exists>rec. m_leases taken_store = [''host-1'' \<mapsto> rec] \<and> lr_Current rec = demo_lease"
proof -
  have expire: "expireSessionLocked (demo_env 5) demo_sid joined_store = (False, joined_store)"
    by (simp add: expireSessionLocked_def)
  have lease: "\<exists>rec. m_leases joined_store = [''host-1'' \<mapsto> rec] \<and> lr_Current rec = demo_lease"
    using issued_record [of "env_from 10 (demo_env 1)" entered_session demo_endpoint 0 0 0 entered_store]
    by (simp add: joined_store_eq leased_store_def demo_lease_def entered_store_def)
  have "m_joinCodes joined_store = [demo_code \<mapsto> demo_sid]"
    by (simp add: joined_store_eq leased_store_def entered_store_def created_store_eq)
  with expire show "m_sessions taken_store = [demo_sid \<mapsto> joined_session]" "m_joinCodes taken_store = [demo_code \<mapsto> demo_sid]"
    "m_events taken_store = [demo_sid \<mapsto> [demo_hello]]"
    "m_idempotency taken_store = m_idempotency joined_store" "m_hosts taken_store = m_hosts joined_store"
    by (simp_all add: taken_store_def takeSnapshot_def Let_def demo_order_def)
  show "\<exists>rec. m_leases taken_store = [''host-1'' \<mapsto> rec] \<and> lr_Current rec = demo_lease"
    using expire lease
    by (auto simp: taken_store_def takeSnapshot_def Let_def demo_order_def pruneExpiredLeaseSecrets_def)
qed

lemma demo_lease_ids: "ls_EndpointID demo_lease = ''host-1''" "ls_SessionID demo_lease = demo_sid"
  by (simp_all add: demo_lease_def issueLeaseLocked_def NewLease_def Let_def)

definition joined_host :: Host where
  "joined_host = \<lparr>ho_SchemaVersion = HostSchemaVersion, ho_HostID = demo_id ''hst'' 5,
     ho_IdentityFingerprint = ''fp-1'', ho_DisplayName = ''host'', ho_Platform = ''linux'',
     ho_Capabilities = [''shell''], ho_State = EndpointStateOnline, ho_FirstSeenAt = second_ns * 2,
     ho_LastSeenAt = second_ns * 2, ho_LastSessionID = demo_sid, ho_LastEndpointID = ''host-1''\<rparr>"

lemma demo_host_id: "TrimSpace (demo_id ''hst'' 5) \<noteq> []"
  by (rule TrimSpace_nonempty [of "CHR ''_''"]) (simp_all add: demo_id_def newID_def graphic_def)

lemma joined_hosts: "m_hosts joined_store = [''fp-1'' \<mapsto> joined_host]"
proof -
  have "m_hosts joined_store = m_hosts entered_store"
    by (simp add: joined_store_eq leased_store_def)
  also have "\<dots> = [''fp-1'' \<mapsto> joined_host]"
    by (simp add: entered_store_def UpsertHostLocked_def Let_def created_store_eq NewMemoryStore_def
        demo_endpoint_def joined_host_def)
  finally show ?thesis .
qed

lemma joined_keys: "dom (m_idempotency joined_store) = {event_key demo_sid (hello_event demo_endpoint)}"
  by (auto simp: joined_store_eq split: if_splits)

lemma demo_code_nonempty: "demo_code \<noteq> []"
  by (simp add: demo_code_def newJoinCode_def Let_def)

lemma taken_restorable: "restorable taken_store"
proof -
  let ?EP = "[''host-1'' \<mapsto> demo_endpoint]"
  obtain rec where rec: "m_leases taken_store = [''host-1'' \<mapsto> rec]" "lr_Current rec = demo_lease"
    using taken_store_tables(6) by blast
  have "tables_bound [demo_sid \<mapsto> joined_session] [demo_code \<mapsto> demo_sid] ?EP"
    using demo_code_nonempty
    by (simp add: tables_bound_def session_bound_def endpoint_bound_def constrainedEndpointCapabilities_def)
  moreover have "lease_bound [demo_sid \<mapsto> joined_session] ?EP ''host-1'' rec"
    by (simp add: lease_bound_def rec(2) demo_lease_ids sessionTerminal_def)
  moreover have "dom (m_events taken_store) = dom (m_sessions taken_store)"
    by (simp add: taken_store_tables)
  moreover have "ik_SessionID k = demo_sid \<and> ik_Key k \<noteq> []" if "m_idempotency taken_store k = Some r" for k r
  proof -
    have "k \<in> dom (m_idempotency joined_store)" using that by (auto simp: taken_store_tables)
    then show ?thesis by (simp add: joined_keys hello_event_def)
  qed
  moreover have "TrimSpace (ho_HostID joined_host) \<noteq> []" "ho_IdentityFingerprint joined_host = ''fp-1''"
      "ho_SchemaVersion joined_host \<noteq> []"
    by (simp_all add: joined_host_def demo_host_id HostSchemaVersion_def)
  ultimately show ?thesis
    unfolding restorable_def taken_store_tables rec joined_hosts
    by (auto split: if_splits)
qed

lemma taken_ordered: "orders_tables demo_order taken_store"
proof -
  obtain rec where "m_leases taken_store = [''host-1'' \<mapsto> rec]" using taken_store_tables(6) by blast
  then show ?thesis
    by (simp add: orders_tables_def demo_order_def taken_store_tables joined_keys joined_hosts)
qed

theorem snapshot_restores_witness:
  "RestoreSnapshot (fst (takeSnapshot (demo_env 5) demo_order joined_store)) NewMemoryStore =
     (Inr (), taken_store\<lparr>m_onEvent := m_onEvent NewMemoryStore, m_hookLog := m_hookLog NewMemoryStore\<rparr>)
   \<and> m_sessions taken_store = [demo_sid \<mapsto> joined_session]"
  using snapshot_restores [of "demo_env 5" demo_order joined_store _ taken_store NewMemoryStore,
      OF _ taken_ordered taken_restorable]
  by (simp add: taken_store_def [symmetric] taken_store_tables prod_eq_iff)

text \<open>Witnesses for what restoring checks: one session with its target, and an unknown schema.\<close>

definition demo_snapshot :: Snapshot where
  "demo_snapshot = \<lparr>sp_SchemaVersion = SnapshotSchemaVersion, sp_Sessions = [joined_session], sp_Events = [],
     sp_Idempotency = [], sp_TaskIdempotency = Map.empty, sp_CancelIdempotency = Map.empty,
     sp_ResultIdempotency = Map.empty, sp_Leases = [], sp_TerminalAt = Map.empty, sp_Hosts = []\<rparr>"

lemma demo_snapshot_restored:
  "RestoreSnapshot demo_snapshot NewMemoryStore =
     (Inr (), NewMemoryStore\<lparr>m_sessions := [demo_sid \<mapsto> joined_session], m_joinCodes := [demo_code \<mapsto> demo_sid],
        m_events := completeEvents [demo_sid \<mapsto> joined_session] Map.empty\<rparr>)"
proof -
  have same: "joined_session\<lparr>ses_Endpoints := [demo_endpoint]\<rparr> = joined_session"
    "demo_endpoint\<lparr>ep_Capabilities := [''shell'']\<rparr> = demo_endpoint"
    by (simp_all add: Session.splits Endpoint.splits)
  show ?thesis
    by (simp add: same demo_snapshot_def RestoreSnapshot_def demo_code_nonempty Let_def NewMemoryStore_def
        constrainedEndpointCapabilities_def) (simp add: SnapshotSchemaVersion_def)
qed

theorem restore_validates_witness:
  "m_joinCodes (snd (RestoreSnapshot demo_snapshot NewMemoryStore)) demo_code = Some demo_sid
   \<and> m_events (snd (RestoreSnapshot demo_snapshot NewMemoryStore)) demo_sid \<noteq> None
   \<and> endpoint_bound joined_session demo_endpoint"
proof -
  have version: "sp_SchemaVersion demo_snapshot \<noteq> []"
    by (simp add: demo_snapshot_def SnapshotSchemaVersion_def)
  let ?t = "NewMemoryStore\<lparr>m_sessions := [demo_sid \<mapsto> joined_session], m_joinCodes := [demo_code \<mapsto> demo_sid],
        m_events := completeEvents [demo_sid \<mapsto> joined_session] Map.empty\<rparr>"
  have x: "m_sessions ?t demo_sid = Some joined_session" by simp
  note v = restore_validates [OF demo_snapshot_restored version]
  have "m_events ?t demo_sid \<noteq> None \<and> endpoint_bound joined_session demo_endpoint"
    using conjunct1 [OF v, rule_format, OF x] by simp
  moreover have "m_joinCodes ?t demo_code = Some demo_sid"
    using conjunct1 [OF conjunct2 [OF v]] x by simp
  ultimately show ?thesis unfolding demo_snapshot_restored snd_conv by blast
qed

theorem refused_restore_witness:
  "snd (RestoreSnapshot (demo_snapshot\<lparr>sp_SchemaVersion := ''v0''\<rparr>) joined_store) = joined_store"
proof -
  have "\<exists>er. RestoreSnapshot (demo_snapshot\<lparr>sp_SchemaVersion := ''v0''\<rparr>) joined_store = (Inl er, joined_store)"
    by (simp add: RestoreSnapshot_def SnapshotSchemaVersion_def)
  then show ?thesis using refused_restore_changes_nothing by auto
qed

end
