(* ===== verification/Encodings.thy ===== *)
theory Encodings
  imports Go_Runtime
begin

text \<open>
  The text encodings of bytes that the trust and audit code uses: hex.EncodeToString and
  base64.RawURLEncoding, with the round trip and the injectivity that the signature and hash
  arguments rest on; and the case folding of package strings, whose Unicode tables are arguments.
  A byte sequence is a \<^typ>\<open>string\<close>.
\<close>

section \<open>Hexadecimal\<close>

definition hex_digit :: "nat \<Rightarrow> char" where
  "hex_digit n = ''0123456789abcdef'' ! n"

definition hex_EncodeToString :: "string \<Rightarrow> string" where
  "hex_EncodeToString s = concat (map (\<lambda>c. [hex_digit (of_char c div 16), hex_digit (of_char c mod 16)]) s)"

lemma hex_digit_inj: "m < 16 \<Longrightarrow> n < 16 \<Longrightarrow> hex_digit m = hex_digit n \<longleftrightarrow> m = n"
  unfolding hex_digit_def by (subst nth_eq_iff_index_eq) simp_all

lemma hex_digit_graphic: "n < 16 \<Longrightarrow> hex_digit n \<noteq> CHR 0x00"
proof -
  assume "n < 16"
  then have "hex_digit n \<in> set ''0123456789abcdef''" unfolding hex_digit_def by (intro nth_mem) simp
  then show ?thesis by auto
qed

lemma of_char_div_16: "(of_char c :: nat) div 16 < 16"
proof -
  have "(of_char c :: nat) < 256" by (rule nat_of_char_less_256)
  then show ?thesis by linarith
qed

lemma hex_inj: "hex_EncodeToString s = hex_EncodeToString t \<Longrightarrow> s = t"
proof (induction s arbitrary: t)
  case Nil
  then show ?case by (cases t) (simp_all add: hex_EncodeToString_def)
next
  case (Cons c s)
  then obtain d t' where t: "t = d # t'" by (cases t) (simp_all add: hex_EncodeToString_def)
  have digits: "hex_digit (of_char c div 16) = hex_digit (of_char d div 16)"
      "hex_digit (of_char c mod 16) = hex_digit (of_char d mod 16)"
    and rest: "hex_EncodeToString s = hex_EncodeToString t'"
    using Cons.prems by (simp_all add: t hex_EncodeToString_def)
  have "(of_char c :: nat) div 16 < 16" "(of_char d :: nat) div 16 < 16"
    by (rule of_char_div_16)+
  then have "(of_char c :: nat) div 16 = of_char d div 16" "(of_char c :: nat) mod 16 = of_char d mod 16"
    using digits hex_digit_inj by simp_all
  then have "(of_char c :: nat) = of_char d" by (metis div_mult_mod_eq)
  with Cons.IH [OF rest] show ?case by (simp add: t)
qed

lemma hex_no_nul: "CHR 0x00 \<notin> set (hex_EncodeToString s)"
proof -
  have "hex_digit (of_char c div 16) \<noteq> CHR 0x00" "hex_digit (of_char c mod 16) \<noteq> CHR 0x00" for c
    by (rule hex_digit_graphic, rule of_char_div_16) (rule hex_digit_graphic, simp)
  then show ?thesis by (simp add: hex_EncodeToString_def) metis
qed

section \<open>Base64\<close>

definition base64url_alphabet :: string where
  "base64url_alphabet = ''ABCDEFGHIJKLMNOPQRSTUVWXYZabcdefghijklmnopqrstuvwxyz0123456789-_''"

fun char_bits :: "char \<Rightarrow> bool list" where
  "char_bits (Char b0 b1 b2 b3 b4 b5 b6 b7) = [b7, b6, b5, b4, b3, b2, b1, b0]"

fun bits_chars :: "bool list \<Rightarrow> string" where
  "bits_chars (b7 # b6 # b5 # b4 # b3 # b2 # b1 # b0 # bs) = Char b0 b1 b2 b3 b4 b5 b6 b7 # bits_chars bs"
| "bits_chars _ = []"

fun sextets :: "bool list \<Rightarrow> bool list list" where
  "sextets [] = []"
| "sextets (b # bs) = take 6 (b # bs @ replicate 5 False) # sextets (drop 5 bs)"

definition digit_bits :: "nat \<Rightarrow> bool list" where
  "digit_bits n = map (\<lambda>i. odd (n div 2 ^ i)) [5, 4, 3, 2, 1, 0]"

definition base64url_encode :: "string \<Rightarrow> string" where
  "base64url_encode s = map (\<lambda>g. base64url_alphabet ! bits_val g) (sextets (concat (map char_bits s)))"

text \<open>
  Decoding skips line breaks, refuses every other character outside the alphabet and a final group
  of a single digit, and ignores the bits that do not fill a byte.
\<close>

definition base64url_decode :: "string \<Rightarrow> string option" where
  "base64url_decode t =
     (let digits = map (\<lambda>c. first_index ((=) c) base64url_alphabet)
                     (filter (\<lambda>c. c \<noteq> CHR 0x0A \<and> c \<noteq> CHR 0x0D) t)
      in if None \<in> set digits \<or> length digits mod 4 = 1 then None
         else Some (bits_chars (concat (map (digit_bits \<circ> the) digits))))"

lemma base64url_alphabet_length [simp]: "length base64url_alphabet = 64"
  by (simp add: base64url_alphabet_def)

lemma base64url_alphabet_distinct: "distinct base64url_alphabet"
  by (simp add: base64url_alphabet_def)

lemma base64url_alphabet_no_breaks: "list_all (\<lambda>c. c \<noteq> CHR 0x0A \<and> c \<noteq> CHR 0x0D) base64url_alphabet"
  by (simp add: base64url_alphabet_def)

lemma first_index_nth: "distinct xs \<Longrightarrow> n < length xs \<Longrightarrow> first_index ((=) (xs ! n)) xs = Some n"
proof (induction xs arbitrary: n)
  case (Cons x xs)
  then show ?case by (cases n) (auto simp: nth_mem)
qed simp

lemma digit_bits_val: "length bs = 6 \<Longrightarrow> digit_bits (bits_val bs) = bs"
proof -
  assume "length bs = 6"
  then obtain a b c d e f where "bs = [a, b, c, d, e, f]" by (auto simp: numeral_eq_Suc length_Suc_conv)
  then show ?thesis
    by (cases a; cases b; cases c; cases d; cases e; cases f) (simp_all add: digit_bits_def bits_val_def)
qed

lemma sextets_lengths: "g \<in> set (sextets bs) \<Longrightarrow> length g = 6"
  by (induction bs rule: sextets.induct) auto

lemma sextets_concat:
  "\<exists>pad. concat (sextets bs) = bs @ replicate pad False \<and> pad < 6 \<and> 6 * length (sextets bs) = length bs + pad"
proof (induction bs rule: sextets.induct)
  case (2 b bs)
  show ?case
  proof (cases "length bs \<ge> 5")
    case True
    then have "take 6 (b # bs @ replicate 5 False) = b # take 5 bs" by simp
    moreover obtain pad where "concat (sextets (drop 5 bs)) = drop 5 bs @ replicate pad False" "pad < 6"
        "6 * length (sextets (drop 5 bs)) = length (drop 5 bs) + pad"
      using 2 by blast
    ultimately show ?thesis using True by (intro exI [of _ pad]) simp
  next
    case False
    then have "sextets (b # bs) = [b # bs @ replicate (5 - length bs) False]"
      by simp
    then show ?thesis using False by (intro exI [of _ "5 - length bs"]) simp
  qed
qed simp

lemma bits_chars_short: "length bs < 8 \<Longrightarrow> bits_chars bs = []"
  by (cases bs rule: bits_chars.cases) simp_all

lemma bits_chars_bits: "length rest < 8 \<Longrightarrow> bits_chars (concat (map char_bits s) @ rest) = s"
proof (induction s)
  case (Cons c s)
  then show ?case by (cases c) simp
qed (simp add: bits_chars_short)

lemma length_char_bits [simp]: "length (concat (map char_bits s)) = 8 * length s"
proof (induction s)
  case (Cons c s)
  then show ?case by (cases c) simp
qed simp

lemma full_groups:
  fixes n l p :: nat
  assumes "6 * n = 8 * l + p" and "p < 6"
  shows "n mod 4 \<noteq> 1"
proof
  assume "n mod 4 = 1"
  then have "n = 4 * (n div 4) + 1" by (metis mult_div_mod_eq)
  with assms(1) have "8 * l + p = 8 * (3 * (n div 4)) + 6" by linarith
  moreover have "(8 * l + p) mod 8 = p" using assms(2) by simp
  moreover have "(8 * (3 * (n div 4)) + 6) mod 8 = (6::nat)" by (subst mod_mult_self4) simp
  ultimately show False using assms(2) by simp
qed

lemma base64url_roundtrip: "base64url_decode (base64url_encode s) = Some s"
proof -
  let ?bits = "concat (map char_bits s)" and ?gs = "sextets (concat (map char_bits s))"
  obtain pad where pad: "concat ?gs = ?bits @ replicate pad False" "pad < 6" "6 * length ?gs = 8 * length s + pad"
    using sextets_concat [of ?bits] by auto
  have val: "bits_val g < 64" "digit_bits (bits_val g) = g" if "g \<in> set ?gs" for g
    using sextets_lengths [OF that] bits_val_less [of g] by (simp_all add: digit_bits_val)
  have mem: "base64url_alphabet ! bits_val g \<in> set base64url_alphabet" if "g \<in> set ?gs" for g
    using val(1) [OF that] by simp
  have kept: "filter (\<lambda>c. c \<noteq> CHR 0x0A \<and> c \<noteq> CHR 0x0D) (base64url_encode s) = base64url_encode s"
    using base64url_alphabet_no_breaks mem
    by (intro filter_True ballI) (auto simp: base64url_encode_def list_all_iff)
  have digits: "map (\<lambda>c. first_index ((=) c) base64url_alphabet) (base64url_encode s) = map (Some \<circ> bits_val) ?gs"
    using val(1) by (auto simp: base64url_encode_def first_index_nth [OF base64url_alphabet_distinct])
  have "concat (map (digit_bits \<circ> the) (map (Some \<circ> bits_val) ?gs)) = concat ?gs"
    unfolding list.map_comp by (rule arg_cong [of _ _ concat], rule map_idI) (use val in auto)
  then have "bits_chars (concat (map (digit_bits \<circ> the) (map (Some \<circ> bits_val) ?gs))) = s"
    using pad by (simp add: bits_chars_bits)
  moreover have "length ?gs mod 4 \<noteq> 1" by (rule full_groups [OF pad(3,2)])
  ultimately show ?thesis
    by (auto simp: base64url_decode_def kept digits Let_def)
qed

lemma base64url_inj: "base64url_encode s = base64url_encode t \<Longrightarrow> s = t"
  using base64url_roundtrip by (metis option.inject)

lemma base64url_encode_empty: "base64url_encode s = [] \<longleftrightarrow> s = []"
proof
  assume "base64url_encode s = []"
  then have "base64url_encode s = base64url_encode []" by (simp add: base64url_encode_def)
  then show "s = []" by (rule base64url_inj)
qed (simp add: base64url_encode_def)

section \<open>Case folding\<close>

text \<open>
  strings.ToLower and strings.EqualFold work byte by byte on ASCII text and through the Unicode
  tables otherwise; the tables are the record's functions.
\<close>

record unicode =
  uc_ToLower :: "string \<Rightarrow> string"
  uc_EqualFold :: "string \<Rightarrow> string \<Rightarrow> bool"

definition is_ascii :: "string \<Rightarrow> bool" where
  "is_ascii s \<longleftrightarrow> list_all (\<lambda>c. (of_char c :: nat) < 128) s"

definition ToLower :: "unicode \<Rightarrow> string \<Rightarrow> string" where
  "ToLower U s = (if is_ascii s then ToLower_ascii s else uc_ToLower U s)"

definition EqualFold :: "unicode \<Rightarrow> string \<Rightarrow> string \<Rightarrow> bool" where
  "EqualFold U s t = (if is_ascii s \<and> is_ascii t then ToLower_ascii s = ToLower_ascii t else uc_EqualFold U s t)"

end
