(* ===== verification/Trust.thy ===== *)
theory Trust
  imports Encodings
begin

text \<open>
  Trust bundles (internal/model/trust.go, trust_bundle.go, trust_bundle_update.go): the keys a
  gateway vouches for, their validation, signing and verification, and the chain of updates.
  Ed25519, SHA-256 and the JSON encoding of a bundle are arguments (the record \<open>crypto\<close>). A nil
  error is None; an error is a value of \<open>trust_error\<close> that keeps the sentinel the code wraps and
  the fixed text of its message, without the values the message quotes.
\<close>

section \<open>Data\<close>

definition SigningAlgEd25519 :: string where
  "SigningAlgEd25519 = ''ed25519''"

definition PublicKeySize :: nat where
  "PublicKeySize = 32"

definition PrivateKeySize :: nat where
  "PrivateKeySize = 64"

record TrustBundle =
  tb_SigningKeyID :: string
  tb_SigningAlg :: string
  tb_PublicKey :: string

definition SignedTrustBundleSchemaVersion :: string where
  "SignedTrustBundleSchemaVersion = ''rdev.trust-bundle.v1''"

definition TrustKeyStatusActive :: string where
  "TrustKeyStatusActive = ''active''"

definition TrustKeyStatusRetired :: string where
  "TrustKeyStatusRetired = ''retired''"

definition TrustKeyStatusRevoked :: string where
  "TrustKeyStatusRevoked = ''revoked''"

datatype trust_error =
    ErrTrustBundleInvalid string
  | ErrTrustBundleExpired
  | ErrTrustBundleSignature string
  | ErrTrustKeyRevoked string
  | UnsupportedAlgorithm string
  | PublicKeyEncoding
  | PublicKeyLength nat
  | PinMismatch string string
  | BundleEncoding
  | SigningPanic

record TrustKey =
  tkey_KeyID :: string
  tkey_SigningAlg :: string
  tkey_PublicKey :: string
  tkey_Status :: string
  tkey_NotBefore :: Time
  tkey_NotAfter :: "Time option"
  tkey_RevokedAt :: "Time option"
  tkey_RevokedReason :: string

record SignedTrustBundle =
  sb_SchemaVersion :: string
  sb_BundleID :: string
  sb_Sequence :: gint
  sb_IssuedAt :: Time
  sb_NotBefore :: Time
  sb_NotAfter :: Time
  sb_PreviousBundleHash :: string
  sb_Keys :: "TrustKey list"
  sb_SigningAlg :: string
  sb_SigningKeyID :: string
  sb_Signature :: string

record SignedTrustBundleSpec =
  sbs_BundleID :: string
  sbs_Sequence :: gint
  sbs_NotBefore :: Time
  sbs_NotAfter :: Time
  sbs_PreviousBundleHash :: string
  sbs_Keys :: "TrustKey list"
  sbs_SigningKeyID :: string

record crypto =
  sha256_Sum256 :: "string \<Rightarrow> string"
  ed25519_Sign :: "string \<Rightarrow> string \<Rightarrow> string"
  ed25519_Verify :: "string \<Rightarrow> string \<Rightarrow> string \<Rightarrow> bool"
  ed25519_Public :: "string \<Rightarrow> string"
  json_SignedTrustBundle :: "SignedTrustBundle \<Rightarrow> string option"

section \<open>Bundles of one key\<close>

definition NewTrustBundle :: "string \<Rightarrow> string \<Rightarrow> TrustBundle" where
  "NewTrustBundle signingKeyID publicKey =
     \<lparr>tb_SigningKeyID = signingKeyID, tb_SigningAlg = SigningAlgEd25519,
      tb_PublicKey = base64url_encode publicKey\<rparr>"

definition Ed25519PublicKey :: "TrustBundle \<Rightarrow> trust_error + string" where
  "Ed25519PublicKey b =
     (if tb_SigningAlg b \<noteq> SigningAlgEd25519 then Inl (UnsupportedAlgorithm (tb_SigningAlg b))
      else case base64url_decode (tb_PublicKey b) of
             None \<Rightarrow> Inl PublicKeyEncoding
           | Some key \<Rightarrow> if length key \<noteq> PublicKeySize then Inl (PublicKeyLength (length key)) else Inr key)"

definition sha256_text :: "crypto \<Rightarrow> string \<Rightarrow> string" where
  "sha256_text C content = ''sha256:'' @ hex_EncodeToString (sha256_Sum256 C content)"

definition Fingerprint :: "crypto \<Rightarrow> TrustBundle \<Rightarrow> trust_error + string" where
  "Fingerprint C b =
     (case Ed25519PublicKey b of Inl e \<Rightarrow> Inl e | Inr publicKey \<Rightarrow> Inr (sha256_text C publicKey))"

definition VerifyPin :: "crypto \<Rightarrow> unicode \<Rightarrow> TrustBundle \<Rightarrow> string \<Rightarrow> trust_error option" where
  "VerifyPin C U b pin =
     (if TrimSpace pin = [] then None
      else case Fingerprint C b of
             Inl e \<Rightarrow> Some e
           | Inr fingerprint \<Rightarrow>
               if \<not> EqualFold U (TrimSpace pin) fingerprint then Some (PinMismatch pin fingerprint) else None)"

section \<open>Keys\<close>

definition NewTrustKey :: "string \<Rightarrow> string \<Rightarrow> string \<Rightarrow> Time \<Rightarrow> TrustKey" where
  "NewTrustKey keyID publicKey status now =
     \<lparr>tkey_KeyID = keyID, tkey_SigningAlg = SigningAlgEd25519,
      tkey_PublicKey = base64url_encode publicKey,
      tkey_Status = (if status = [] then TrustKeyStatusActive else status),
      tkey_NotBefore = now, tkey_NotAfter = None, tkey_RevokedAt = None, tkey_RevokedReason = []\<rparr>"

definition TrustKey_TrustBundle :: "TrustKey \<Rightarrow> TrustBundle" where
  "TrustKey_TrustBundle k =
     \<lparr>tb_SigningKeyID = tkey_KeyID k, tb_SigningAlg = tkey_SigningAlg k, tb_PublicKey = tkey_PublicKey k\<rparr>"

definition TrustKey_Ed25519PublicKey :: "TrustKey \<Rightarrow> trust_error + string" where
  "TrustKey_Ed25519PublicKey k = Ed25519PublicKey (TrustKey_TrustBundle k)"

definition ActiveAt :: "TrustKey \<Rightarrow> Time \<Rightarrow> bool" where
  "ActiveAt k now =
     (if tkey_Status k \<noteq> TrustKeyStatusActive then False
      else if IsZero (tkey_NotBefore k) \<or> now < tkey_NotBefore k then False
      else if (case tkey_NotAfter k of None \<Rightarrow> False | Some notAfter \<Rightarrow> now > notAfter) then False
      else True)"

definition validateTrustKey :: "TrustKey \<Rightarrow> trust_error option" where
  "validateTrustKey key =
     (if tkey_KeyID key = [] then Some (ErrTrustBundleInvalid ''key id is required'')
      else if tkey_SigningAlg key \<noteq> SigningAlgEd25519 then Some (ErrTrustBundleInvalid ''unsupported key algorithm'')
      else if tkey_Status key \<noteq> TrustKeyStatusActive \<and> tkey_Status key \<noteq> TrustKeyStatusRetired
              \<and> tkey_Status key \<noteq> TrustKeyStatusRevoked
      then Some (ErrTrustBundleInvalid ''unsupported key status'')
      else if IsZero (tkey_NotBefore key) then Some (ErrTrustBundleInvalid ''key not_before is required'')
      else if tkey_Status key = TrustKeyStatusRevoked \<and> tkey_RevokedAt key = None
      then Some (ErrTrustBundleInvalid ''revoked key requires revoked_at'')
      else case TrustKey_Ed25519PublicKey key of Inl e \<Rightarrow> Some e | Inr _ \<Rightarrow> None)"

section \<open>Signed bundles\<close>

fun validateKeys :: "string list \<Rightarrow> TrustKey list \<Rightarrow> trust_error option" where
  "validateKeys seen [] = None"
| "validateKeys seen (key # keys) =
     (case validateTrustKey key of
        Some e \<Rightarrow> Some e
      | None \<Rightarrow>
          if tkey_KeyID key \<in> set seen then Some (ErrTrustBundleInvalid ''duplicate key id'')
          else validateKeys (tkey_KeyID key # seen) keys)"

definition validateForSigning :: "SignedTrustBundle \<Rightarrow> trust_error option" where
  "validateForSigning b =
     (if sb_SchemaVersion b \<noteq> SignedTrustBundleSchemaVersion
      then Some (ErrTrustBundleInvalid ''unsupported schema version'')
      else if sb_BundleID b = [] \<or> sb_Sequence b \<le> 0
      then Some (ErrTrustBundleInvalid ''missing bundle identity'')
      else if IsZero (sb_IssuedAt b) \<or> IsZero (sb_NotBefore b) \<or> IsZero (sb_NotAfter b)
              \<or> \<not> sb_NotBefore b < sb_NotAfter b
      then Some (ErrTrustBundleInvalid ''invalid validity window'')
      else if sb_SigningAlg b \<noteq> SigningAlgEd25519 \<or> sb_SigningKeyID b = []
      then Some (ErrTrustBundleInvalid ''unsupported signing metadata'')
      else if sb_Keys b = [] then Some (ErrTrustBundleInvalid ''at least one key is required'')
      else validateKeys [] (sb_Keys b))"

definition hour_ns :: Duration where
  "hour_ns = 3600 * second_ns"

definition NewSignedTrustBundle :: "SignedTrustBundleSpec \<Rightarrow> Time \<Rightarrow> trust_error + SignedTrustBundle" where
  "NewSignedTrustBundle spec now =
     (if sbs_BundleID spec = [] then Inl (ErrTrustBundleInvalid ''bundle id is required'')
      else if sbs_Sequence spec \<le> 0 then Inl (ErrTrustBundleInvalid ''sequence must be positive'')
      else if sbs_SigningKeyID spec = [] then Inl (ErrTrustBundleInvalid ''signing key id is required'')
      else
        (let notBefore = (if IsZero (sbs_NotBefore spec) then now else sbs_NotBefore spec);
             notAfter = (if IsZero (sbs_NotAfter spec) then notBefore + 24 * hour_ns else sbs_NotAfter spec);
             bundle = \<lparr>sb_SchemaVersion = SignedTrustBundleSchemaVersion, sb_BundleID = sbs_BundleID spec,
               sb_Sequence = sbs_Sequence spec, sb_IssuedAt = now, sb_NotBefore = notBefore,
               sb_NotAfter = notAfter, sb_PreviousBundleHash = sbs_PreviousBundleHash spec,
               sb_Keys = sbs_Keys spec, sb_SigningAlg = SigningAlgEd25519,
               sb_SigningKeyID = sbs_SigningKeyID spec, sb_Signature = []\<rparr>
         in case validateForSigning bundle of Some e \<Rightarrow> Inl e | None \<Rightarrow> Inr bundle))"

definition signingBytes :: "crypto \<Rightarrow> SignedTrustBundle \<Rightarrow> trust_error + string" where
  "signingBytes C b =
     (case json_SignedTrustBundle C (b\<lparr>sb_Signature := []\<rparr>) of
        None \<Rightarrow> Inl BundleEncoding
      | Some message \<Rightarrow> Inr message)"

text \<open>ed25519.Sign panics when the private key does not have the size of one.\<close>

definition Sign :: "crypto \<Rightarrow> SignedTrustBundle \<Rightarrow> string \<Rightarrow> trust_error + SignedTrustBundle" where
  "Sign C b privateKey =
     (case validateForSigning b of
        Some e \<Rightarrow> Inl e
      | None \<Rightarrow>
     (case signingBytes C b of
        Inl e \<Rightarrow> Inl e
      | Inr message \<Rightarrow>
          if length privateKey \<noteq> PrivateKeySize then Inl SigningPanic
          else Inr (b\<lparr>sb_Signature := base64url_encode (ed25519_Sign C privateKey message)\<rparr>)))"

definition Key :: "SignedTrustBundle \<Rightarrow> string \<Rightarrow> TrustKey option" where
  "Key b keyID = find (\<lambda>key. tkey_KeyID key = keyID) (sb_Keys b)"

definition Verify :: "crypto \<Rightarrow> SignedTrustBundle \<Rightarrow> TrustBundle \<Rightarrow> Time \<Rightarrow> trust_error option" where
  "Verify C b root now =
     (case validateForSigning b of
        Some e \<Rightarrow> Some e
      | None \<Rightarrow>
     if sb_Signature b = [] then Some (ErrTrustBundleSignature ''missing signature'')
     else if now < sb_NotBefore b \<or> now > sb_NotAfter b then Some ErrTrustBundleExpired
     else if tb_SigningKeyID root \<noteq> sb_SigningKeyID b
     then Some (ErrTrustBundleInvalid ''trust root key id mismatch'')
     else
       (case Ed25519PublicKey root of
          Inl e \<Rightarrow> Some e
        | Inr publicKey \<Rightarrow>
       (case base64url_decode (sb_Signature b) of
          None \<Rightarrow> Some (ErrTrustBundleSignature ''malformed signature'')
        | Some signature \<Rightarrow>
       (case signingBytes C (b\<lparr>sb_Signature := []\<rparr>) of
          Inl e \<Rightarrow> Some e
        | Inr message \<Rightarrow>
            if \<not> ed25519_Verify C publicKey message signature then Some (ErrTrustBundleSignature [])
            else case Key b (tb_SigningKeyID root) of
                   Some key \<Rightarrow>
                     if tkey_Status key = TrustKeyStatusRevoked
                     then Some (ErrTrustKeyRevoked (tb_SigningKeyID root)) else None
                 | None \<Rightarrow> None))))"

definition Hash :: "crypto \<Rightarrow> SignedTrustBundle \<Rightarrow> trust_error + string" where
  "Hash C b = (case signingBytes C b of Inl e \<Rightarrow> Inl e | Inr content \<Rightarrow> Inr (sha256_text C content))"

definition VerifyUpdate ::
    "crypto \<Rightarrow> SignedTrustBundle \<Rightarrow> SignedTrustBundle \<Rightarrow> TrustBundle \<Rightarrow> Time \<Rightarrow> trust_error option" where
  "VerifyUpdate C b previous root now =
     (case Verify C b root now of
        Some e \<Rightarrow> Some e
      | None \<Rightarrow>
     if sb_Sequence b \<le> sb_Sequence previous then Some (ErrTrustBundleInvalid ''sequence must increase'')
     else
       (case Hash C previous of
          Inl e \<Rightarrow> Some e
        | Inr hash \<Rightarrow>
            if sb_PreviousBundleHash b \<noteq> hash
            then Some (ErrTrustBundleInvalid ''previous bundle hash mismatch'') else None))"

definition ActiveTrustBundle :: "SignedTrustBundle \<Rightarrow> string \<Rightarrow> Time \<Rightarrow> trust_error + TrustBundle" where
  "ActiveTrustBundle b keyID now =
     (case Key b keyID of
        None \<Rightarrow> Inl (ErrTrustBundleInvalid ''key not found'')
      | Some key \<Rightarrow>
          if tkey_Status key = TrustKeyStatusRevoked then Inl (ErrTrustKeyRevoked keyID)
          else if \<not> ActiveAt key now then Inl (ErrTrustBundleInvalid ''key is not active'')
          else Inr (TrustKey_TrustBundle key))"

section \<open>Update answers\<close>

definition TrustBundleUpdateSchemaVersion :: string where
  "TrustBundleUpdateSchemaVersion = ''rdev.trust-bundle-update.v1''"

definition TrustBundleUpdateStatusCurrent :: string where
  "TrustBundleUpdateStatusCurrent = ''current''"

definition TrustBundleUpdateStatusAvailable :: string where
  "TrustBundleUpdateStatusAvailable = ''update_available''"

record TrustBundleUpdate =
  tu_SchemaVersion :: string
  tu_Status :: string
  tu_HostID :: string
  tu_CurrentSequence :: gint
  tu_CurrentHash :: string
  tu_TrustBundle :: "SignedTrustBundle option"

definition NewCurrentTrustBundleUpdate :: "string \<Rightarrow> SignedTrustBundle \<Rightarrow> string \<Rightarrow> TrustBundleUpdate" where
  "NewCurrentTrustBundleUpdate hostID current currentHash =
     \<lparr>tu_SchemaVersion = TrustBundleUpdateSchemaVersion, tu_Status = TrustBundleUpdateStatusCurrent,
      tu_HostID = hostID, tu_CurrentSequence = sb_Sequence current, tu_CurrentHash = currentHash,
      tu_TrustBundle = None\<rparr>"

definition NewAvailableTrustBundleUpdate :: "string \<Rightarrow> SignedTrustBundle \<Rightarrow> string \<Rightarrow> TrustBundleUpdate" where
  "NewAvailableTrustBundleUpdate hostID current currentHash =
     \<lparr>tu_SchemaVersion = TrustBundleUpdateSchemaVersion, tu_Status = TrustBundleUpdateStatusAvailable,
      tu_HostID = hostID, tu_CurrentSequence = sb_Sequence current, tu_CurrentHash = currentHash,
      tu_TrustBundle = Some current\<rparr>"

end
