(* ===== verification/Trust_Properties.thy ===== *)
theory Trust_Properties
  imports Trust
begin

text \<open>
  What a signed trust bundle guarantees: validation and verification accept exactly the bundles the
  declarative predicates describe, signing and verifying are inverse, and an update can only move
  the sequence forwards along the hash chain.
\<close>

section \<open>Validation\<close>

definition valid_key :: "TrustKey \<Rightarrow> bool" where
  "valid_key k \<longleftrightarrow> tkey_KeyID k \<noteq> [] \<and> tkey_SigningAlg k = SigningAlgEd25519
     \<and> tkey_Status k \<in> {TrustKeyStatusActive, TrustKeyStatusRetired, TrustKeyStatusRevoked}
     \<and> tkey_NotBefore k \<noteq> 0 \<and> (tkey_Status k = TrustKeyStatusRevoked \<longrightarrow> tkey_RevokedAt k \<noteq> None)
     \<and> (\<exists>pub. base64url_decode (tkey_PublicKey k) = Some pub \<and> length pub = PublicKeySize)"

definition valid_bundle :: "SignedTrustBundle \<Rightarrow> bool" where
  "valid_bundle b \<longleftrightarrow> sb_SchemaVersion b = SignedTrustBundleSchemaVersion \<and> sb_BundleID b \<noteq> []
     \<and> 0 < sb_Sequence b \<and> sb_IssuedAt b \<noteq> 0 \<and> sb_NotBefore b \<noteq> 0 \<and> sb_NotAfter b \<noteq> 0
     \<and> sb_NotBefore b < sb_NotAfter b \<and> sb_SigningAlg b = SigningAlgEd25519 \<and> sb_SigningKeyID b \<noteq> []
     \<and> sb_Keys b \<noteq> [] \<and> (\<forall>k \<in> set (sb_Keys b). valid_key k) \<and> distinct (map tkey_KeyID (sb_Keys b))"

lemma Ed25519PublicKey_Inr:
  "Ed25519PublicKey b = Inr pub \<longleftrightarrow>
     tb_SigningAlg b = SigningAlgEd25519 \<and> base64url_decode (tb_PublicKey b) = Some pub \<and> length pub = PublicKeySize"
  by (auto simp: Ed25519PublicKey_def split: option.splits)

lemma validateTrustKey_None: "validateTrustKey k = None \<longleftrightarrow> valid_key k"
proof -
  have pub: "(\<exists>pub. TrustKey_Ed25519PublicKey k = Inr pub) \<longleftrightarrow> tkey_SigningAlg k = SigningAlgEd25519
      \<and> (\<exists>pub. base64url_decode (tkey_PublicKey k) = Some pub \<and> length pub = PublicKeySize)"
    by (auto simp: TrustKey_Ed25519PublicKey_def Ed25519PublicKey_Inr TrustKey_TrustBundle_def)
  show ?thesis
    unfolding validateTrustKey_def valid_key_def IsZero_def
    using pub by (cases "TrustKey_Ed25519PublicKey k") auto
qed

lemma validateKeys_None:
  "validateKeys seen ks = None \<longleftrightarrow>
     (\<forall>k \<in> set ks. valid_key k) \<and> distinct (map tkey_KeyID ks) \<and> tkey_KeyID ` set ks \<inter> set seen = {}"
proof (induction ks arbitrary: seen)
  case (Cons k ks)
  then show ?case
    by (cases "validateTrustKey k") (auto simp: validateTrustKey_None [symmetric])
qed simp

lemma validateForSigning_None: "validateForSigning b = None \<longleftrightarrow> valid_bundle b"
  unfolding validateForSigning_def valid_bundle_def by (auto simp: validateKeys_None IsZero_def)

lemma valid_bundle_unsigned [simp]: "valid_bundle (b\<lparr>sb_Signature := x\<rparr>) = valid_bundle b"
  by (simp add: valid_bundle_def)

lemma signingBytes_unsigned [simp]: "signingBytes C (b\<lparr>sb_Signature := x\<rparr>) = signingBytes C b"
  by (simp add: signingBytes_def)

lemma Hash_unsigned [simp]: "Hash C (b\<lparr>sb_Signature := x\<rparr>) = Hash C b"
  by (simp add: Hash_def)

lemma Key_unsigned [simp]: "Key (b\<lparr>sb_Signature := x\<rparr>) = Key b"
  by (simp add: Key_def fun_eq_iff)

section \<open>Verification\<close>

definition signed_by :: "crypto \<Rightarrow> SignedTrustBundle \<Rightarrow> string \<Rightarrow> bool" where
  "signed_by C b pub \<longleftrightarrow> (\<exists>message signature. signingBytes C b = Inr message
     \<and> base64url_decode (sb_Signature b) = Some signature \<and> ed25519_Verify C pub message signature)"

definition revokes :: "SignedTrustBundle \<Rightarrow> string \<Rightarrow> bool" where
  "revokes b keyID \<longleftrightarrow> (\<exists>k \<in> set (sb_Keys b). tkey_KeyID k = keyID \<and> tkey_Status k = TrustKeyStatusRevoked)"

lemma Key_find:
  assumes "distinct (map tkey_KeyID (sb_Keys b))"
  shows "Key b keyID = Some k \<longleftrightarrow> k \<in> set (sb_Keys b) \<and> tkey_KeyID k = keyID"
proof
  assume "Key b keyID = Some k"
  then show "k \<in> set (sb_Keys b) \<and> tkey_KeyID k = keyID"
    by (auto simp: Key_def find_Some_iff)
next
  assume k: "k \<in> set (sb_Keys b) \<and> tkey_KeyID k = keyID"
  then obtain k' where k': "Key b keyID = Some k'"
    unfolding Key_def by (metis (mono_tags, lifting) find_None_iff not_Some_eq)
  then have "k' \<in> set (sb_Keys b)" "tkey_KeyID k' = keyID" by (auto simp: Key_def find_Some_iff)
  with k assms have "k' = k" by (auto simp: distinct_map dest: inj_onD)
  with k' show "Key b keyID = Some k" by simp
qed

lemma revokes_Key:
  assumes "distinct (map tkey_KeyID (sb_Keys b))"
  shows "revokes b keyID \<longleftrightarrow> (\<exists>k. Key b keyID = Some k \<and> tkey_Status k = TrustKeyStatusRevoked)"
  using Key_find [OF assms] by (auto simp: revokes_def)

lemma Verify_None:
  "Verify C b root now = None \<longleftrightarrow>
     valid_bundle b \<and> sb_Signature b \<noteq> [] \<and> sb_NotBefore b \<le> now \<and> now \<le> sb_NotAfter b
     \<and> tb_SigningKeyID root = sb_SigningKeyID b
     \<and> (\<exists>pub. Ed25519PublicKey root = Inr pub \<and> signed_by C b pub)
     \<and> \<not> revokes b (sb_SigningKeyID b)"
proof (cases "valid_bundle b")
  case True
  then have ok: "validateForSigning b = None" and dist: "distinct (map tkey_KeyID (sb_Keys b))"
    by (simp_all add: validateForSigning_None valid_bundle_def)
  show ?thesis
    unfolding Verify_def ok revokes_Key [OF dist] signed_by_def
    using True by (auto split: sum.splits option.splits)
next
  case False
  then have "validateForSigning b \<noteq> None" by (simp add: validateForSigning_None)
  then show ?thesis using False by (auto simp: Verify_def split: option.splits)
qed

text \<open>
  C10. Verification accepts exactly the well-formed bundles that carry a signature which checks under
  the root's key over the bundle's bytes without the signature, at a time inside the bundle's
  window, when the root is the key the bundle names and the bundle does not revoke it.
\<close>

theorem verify_exact:
  "Verify C b root now = None \<longleftrightarrow>
     valid_bundle b \<and> sb_Signature b \<noteq> [] \<and> sb_NotBefore b \<le> now \<and> now \<le> sb_NotAfter b
     \<and> tb_SigningKeyID root = sb_SigningKeyID b
     \<and> (\<exists>pub. Ed25519PublicKey root = Inr pub \<and> signed_by C b pub)
     \<and> \<not> revokes b (sb_SigningKeyID b)"
  by (rule Verify_None)

text \<open>What the standard library documents of Ed25519: a signature checks under the public key.\<close>

definition signatures_check :: "crypto \<Rightarrow> bool" where
  "signatures_check C \<longleftrightarrow> (\<forall>priv message. length priv = PrivateKeySize \<longrightarrow>
     ed25519_Sign C priv message \<noteq> [] \<and> ed25519_Verify C (ed25519_Public C priv) message (ed25519_Sign C priv message))"

lemma Sign_Inr:
  "Sign C b priv = Inr s \<longleftrightarrow> valid_bundle b \<and> length priv = PrivateKeySize
     \<and> (\<exists>message. signingBytes C b = Inr message
          \<and> s = b\<lparr>sb_Signature := base64url_encode (ed25519_Sign C priv message)\<rparr>)"
  unfolding Sign_def validateForSigning_None [symmetric] by (auto split: option.splits sum.splits)

lemma signed_verifies:
  assumes "signatures_check C" and "Sign C b priv = Inr s"
    and "tb_SigningKeyID root = sb_SigningKeyID b" and "Ed25519PublicKey root = Inr (ed25519_Public C priv)"
    and "sb_NotBefore b \<le> now" and "now \<le> sb_NotAfter b" and "\<not> revokes b (sb_SigningKeyID b)"
  shows "Verify C s root now = None"
proof -
  obtain message where b: "valid_bundle b" "length priv = PrivateKeySize" "signingBytes C b = Inr message"
    and s: "s = b\<lparr>sb_Signature := base64url_encode (ed25519_Sign C priv message)\<rparr>"
    using assms(2) by (auto simp: Sign_Inr)
  have sound: "ed25519_Sign C priv message \<noteq> []"
      "ed25519_Verify C (ed25519_Public C priv) message (ed25519_Sign C priv message)"
    using assms(1) b(2) by (auto simp: signatures_check_def)
  have "signed_by C s (ed25519_Public C priv)"
    unfolding signed_by_def s using b(3) sound(2) by (simp add: base64url_roundtrip)
  moreover have "revokes s = revokes b" by (simp add: s revokes_def fun_eq_iff)
  ultimately show ?thesis
    unfolding Verify_None using assms(3-7) b(1) sound(1) by (simp add: s base64url_encode_empty)
qed

lemma NewSignedTrustBundle_Inr:
  assumes "NewSignedTrustBundle spec now = Inr b"
  shows "valid_bundle b" "sb_BundleID b = sbs_BundleID spec" "sb_Sequence b = sbs_Sequence spec"
    "sb_PreviousBundleHash b = sbs_PreviousBundleHash spec" "sb_Keys b = sbs_Keys spec"
    "sb_SigningKeyID b = sbs_SigningKeyID spec" "sb_Signature b = []"
    "sbs_NotBefore spec \<noteq> 0 \<Longrightarrow> sb_NotBefore b = sbs_NotBefore spec"
    "sbs_NotAfter spec \<noteq> 0 \<Longrightarrow> sb_NotAfter b = sbs_NotAfter spec"
  using assms
  by (auto simp: NewSignedTrustBundle_def Let_def IsZero_def validateForSigning_None [symmetric]
      split: if_splits option.splits)

lemma NewTrustBundle_key: "length pub = PublicKeySize \<Longrightarrow> Ed25519PublicKey (NewTrustBundle kid pub) = Inr pub"
  by (simp add: Ed25519PublicKey_Inr NewTrustBundle_def base64url_roundtrip)

text \<open>
  Signing and verifying are inverse: a bundle built from a specification and signed with a
  private key verifies under the root made from the matching public key at every moment of its
  window, unless the bundle itself revokes that key.
\<close>

theorem sign_then_verify:
  assumes "signatures_check C" and "NewSignedTrustBundle spec now0 = Inr b" and "Sign C b priv = Inr s"
    and "length (ed25519_Public C priv) = PublicKeySize"
    and "sb_NotBefore b \<le> now" and "now \<le> sb_NotAfter b" and "\<not> revokes b (sbs_SigningKeyID spec)"
  shows "Verify C s (NewTrustBundle (sbs_SigningKeyID spec) (ed25519_Public C priv)) now = None"
proof (rule signed_verifies [OF assms(1,3)])
  have "sb_SigningKeyID b = sbs_SigningKeyID spec" using assms(2) by (rule NewSignedTrustBundle_Inr)
  then show "tb_SigningKeyID (NewTrustBundle (sbs_SigningKeyID spec) (ed25519_Public C priv)) = sb_SigningKeyID b"
    "\<not> revokes b (sb_SigningKeyID b)"
    using assms(7) by (simp_all add: NewTrustBundle_def)
qed (use assms(4-6) in \<open>simp_all add: NewTrustBundle_key\<close>)

text \<open>A concrete instance of the signature scheme and of the encoding.\<close>

definition demo_crypto :: crypto where
  "demo_crypto = \<lparr>sha256_Sum256 = (\<lambda>m. m), ed25519_Sign = (\<lambda>priv m. CHR ''s'' # take 32 priv @ m),
     ed25519_Verify = (\<lambda>pub m sig. sig = CHR ''s'' # pub @ m), ed25519_Public = take 32,
     json_SignedTrustBundle = (\<lambda>b. Some (sb_BundleID b @ sb_PreviousBundleHash b))\<rparr>"

lemma demo_crypto_checks [simp]: "signatures_check demo_crypto"
  by (simp add: signatures_check_def demo_crypto_def)

definition demo_private :: string where
  "demo_private = replicate 64 (CHR ''k'')"

lemma demo_private_simps [simp]:
  "length demo_private = PrivateKeySize" "length (ed25519_Public demo_crypto demo_private) = PublicKeySize"
  by (simp_all add: demo_private_def PrivateKeySize_def demo_crypto_def PublicKeySize_def)

definition demo_bundle_spec :: SignedTrustBundleSpec where
  "demo_bundle_spec = \<lparr>sbs_BundleID = ''dev'', sbs_Sequence = 1, sbs_NotBefore = 100, sbs_NotAfter = 200,
     sbs_PreviousBundleHash = [], sbs_Keys = [NewTrustKey ''gw'' (ed25519_Public demo_crypto demo_private) [] 100],
     sbs_SigningKeyID = ''gw''\<rparr>"

definition demo_unsigned :: SignedTrustBundle where
  "demo_unsigned = \<lparr>sb_SchemaVersion = SignedTrustBundleSchemaVersion, sb_BundleID = ''dev'', sb_Sequence = 1,
     sb_IssuedAt = 100, sb_NotBefore = 100, sb_NotAfter = 200, sb_PreviousBundleHash = [],
     sb_Keys = sbs_Keys demo_bundle_spec, sb_SigningAlg = SigningAlgEd25519, sb_SigningKeyID = ''gw'', sb_Signature = []\<rparr>"

lemma NewTrustKey_valid:
  "\<lbrakk>kid \<noteq> []; length pub = PublicKeySize; now \<noteq> 0\<rbrakk> \<Longrightarrow> valid_key (NewTrustKey kid pub [] now)"
  by (simp add: valid_key_def NewTrustKey_def base64url_roundtrip TrustKeyStatusActive_def TrustKeyStatusRevoked_def)

lemma demo_unsigned_valid: "valid_bundle demo_unsigned"
  by (simp add: valid_bundle_def demo_unsigned_def demo_bundle_spec_def NewTrustKey_valid)

lemma demo_created: "NewSignedTrustBundle demo_bundle_spec 100 = Inr demo_unsigned"
proof -
  have "validateForSigning demo_unsigned = None" by (simp add: validateForSigning_None demo_unsigned_valid)
  then show ?thesis
    by (simp add: NewSignedTrustBundle_def Let_def IsZero_def demo_unsigned_def demo_bundle_spec_def)
qed

lemma demo_signed:
  "Sign demo_crypto demo_unsigned demo_private =
     Inr (demo_unsigned\<lparr>sb_Signature := base64url_encode (ed25519_Sign demo_crypto demo_private ''dev'')\<rparr>)"
proof -
  have "signingBytes demo_crypto demo_unsigned = Inr ''dev''"
    by (simp add: signingBytes_def demo_crypto_def demo_unsigned_def)
  then show ?thesis unfolding Sign_Inr using demo_unsigned_valid by simp
qed

theorem sign_then_verify_witness:
  "\<exists>s. Sign demo_crypto demo_unsigned demo_private = Inr s
     \<and> Verify demo_crypto s (NewTrustBundle ''gw'' (ed25519_Public demo_crypto demo_private)) 150 = None"
proof -
  obtain s where s: "Sign demo_crypto demo_unsigned demo_private = Inr s" using demo_signed by blast
  have "sbs_SigningKeyID demo_bundle_spec = ''gw''" "sb_NotBefore demo_unsigned \<le> 150" "150 \<le> sb_NotAfter demo_unsigned"
    "\<not> revokes demo_unsigned ''gw''"
    by (simp_all add: demo_bundle_spec_def demo_unsigned_def revokes_def NewTrustKey_def
        TrustKeyStatusActive_def TrustKeyStatusRevoked_def)
  then have "Verify demo_crypto s (NewTrustBundle ''gw'' (ed25519_Public demo_crypto demo_private)) 150 = None"
    using sign_then_verify [OF demo_crypto_checks demo_created s demo_private_simps(2)] by simp
  with s show ?thesis by blast
qed

section \<open>Updates\<close>

lemma VerifyUpdate_None:
  "VerifyUpdate C b previous root now = None \<longleftrightarrow>
     Verify C b root now = None \<and> sb_Sequence previous < sb_Sequence b \<and> Hash C previous = Inr (sb_PreviousBundleHash b)"
  by (auto simp: VerifyUpdate_def split: option.splits sum.splits)

lemma ActiveAt_iff:
  "ActiveAt k now \<longleftrightarrow> tkey_Status k = TrustKeyStatusActive \<and> tkey_NotBefore k \<noteq> 0 \<and> tkey_NotBefore k \<le> now
     \<and> (\<forall>until. tkey_NotAfter k = Some until \<longrightarrow> now \<le> until)"
  by (auto simp: ActiveAt_def IsZero_def split: option.splits)

lemma status_distinct [simp]: "TrustKeyStatusActive \<noteq> TrustKeyStatusRevoked"
  by (simp add: TrustKeyStatusActive_def TrustKeyStatusRevoked_def)

lemma ActiveTrustBundle_Inr:
  "ActiveTrustBundle b kid now = Inr root \<longleftrightarrow>
     (\<exists>k. Key b kid = Some k \<and> ActiveAt k now \<and> root = TrustKey_TrustBundle k)"
proof (cases "Key b kid")
  case (Some k)
  have "ActiveAt k now \<Longrightarrow> tkey_Status k \<noteq> TrustKeyStatusRevoked" by (auto simp: ActiveAt_iff)
  with Some show ?thesis by (auto simp: ActiveTrustBundle_def)
qed (simp add: ActiveTrustBundle_def)

end
