(* ===== verification/Host_Trust.thy ===== *)
theory Host_Trust
  imports Trust_Properties
begin

text \<open>
  The trust store of a host (internal/hosttrust/store.go): the three stores behind the interface
  Store, and the one routine that replaces the trusted bundle. What a store holds is modelled by
  what reading and decoding it yields; a save succeeds, fails before the new content is in place,
  or fails after (the final chmod of a file).
\<close>

section \<open>Stores\<close>

definition FileSchemaVersion :: string where
  "FileSchemaVersion = ''rdev.host-trust-store.v1''"

datatype host_error = TrustErr trust_error | StoreIO | StoreDecode | StoreSchema string

datatype trust_content = NoContent | ReadFailure | Garbled | Content string SignedTrustBundle

datatype save_outcome = Saved | FailedBefore | FailedAfter

record FileStore =
  fst_Path :: string
  fst_File :: trust_content

record ProtectedStore =
  pst_Ref :: string
  pst_Opens :: bool
  pst_Value :: trust_content

datatype Store = NoopStore | StoreFile FileStore | StoreProtected ProtectedStore

text \<open>\<open>isRef\<close> and \<open>opens\<close> say what protectedstore.IsRef and protectedstore.Open answer.\<close>

definition OpenStore :: "(string \<Rightarrow> bool) \<Rightarrow> (string \<Rightarrow> bool) \<Rightarrow> (string \<Rightarrow> trust_content) \<Rightarrow> string \<Rightarrow> host_error + Store" where
  "OpenStore isRef opens content ref =
     (if ref = [] then Inr NoopStore
      else if isRef ref then
        (if \<not> opens ref then Inl StoreIO
         else Inr (StoreProtected \<lparr>pst_Ref = ref, pst_Opens = True, pst_Value = content ref\<rparr>))
      else Inr (StoreFile \<lparr>fst_Path = ref, fst_File = content ref\<rparr>))"

definition decodeState :: "trust_content \<Rightarrow> host_error + SignedTrustBundle option" where
  "decodeState c =
     (case c of
        NoContent \<Rightarrow> Inr None
      | ReadFailure \<Rightarrow> Inl StoreIO
      | Garbled \<Rightarrow> Inl StoreDecode
      | Content version bundle \<Rightarrow>
          if version \<noteq> FileSchemaVersion then Inl (StoreSchema version) else Inr (Some bundle))"

definition writeState :: "save_outcome \<Rightarrow> SignedTrustBundle \<Rightarrow> trust_content \<Rightarrow> host_error option \<times> trust_content" where
  "writeState out bundle c =
     (case out of
        Saved \<Rightarrow> (None, Content FileSchemaVersion bundle)
      | FailedBefore \<Rightarrow> (Some StoreIO, c)
      | FailedAfter \<Rightarrow> (Some StoreIO, Content FileSchemaVersion bundle))"

definition FileStore_Load :: "FileStore \<Rightarrow> host_error + SignedTrustBundle option" where
  "FileStore_Load s = (if fst_Path s = [] then Inr None else decodeState (fst_File s))"

definition FileStore_Save :: "save_outcome \<Rightarrow> SignedTrustBundle \<Rightarrow> FileStore \<Rightarrow> host_error option \<times> FileStore" where
  "FileStore_Save out bundle s =
     (if fst_Path s = [] then (None, s)
      else let (e, c) = writeState out bundle (fst_File s) in (e, s\<lparr>fst_File := c\<rparr>))"

definition ProtectedStore_Load :: "ProtectedStore \<Rightarrow> host_error + SignedTrustBundle option" where
  "ProtectedStore_Load s = (if \<not> pst_Opens s then Inl StoreIO else decodeState (pst_Value s))"

definition ProtectedStore_Save ::
    "save_outcome \<Rightarrow> SignedTrustBundle \<Rightarrow> ProtectedStore \<Rightarrow> host_error option \<times> ProtectedStore" where
  "ProtectedStore_Save out bundle s =
     (if \<not> pst_Opens s then (Some StoreIO, s)
      else let (e, c) = writeState out bundle (pst_Value s) in (e, s\<lparr>pst_Value := c\<rparr>))"

definition Store_Load :: "Store \<Rightarrow> host_error + SignedTrustBundle option" where
  "Store_Load s =
     (case s of NoopStore \<Rightarrow> Inr None | StoreFile f \<Rightarrow> FileStore_Load f | StoreProtected p \<Rightarrow> ProtectedStore_Load p)"

definition Store_Save :: "save_outcome \<Rightarrow> SignedTrustBundle \<Rightarrow> Store \<Rightarrow> host_error option \<times> Store" where
  "Store_Save out bundle s =
     (case s of
        NoopStore \<Rightarrow> (None, s)
      | StoreFile f \<Rightarrow> (let (e, f') = FileStore_Save out bundle f in (e, StoreFile f'))
      | StoreProtected p \<Rightarrow> (let (e, p') = ProtectedStore_Save out bundle p in (e, StoreProtected p')))"

section \<open>Updating\<close>

definition verifyAndSaveUpdate ::
    "crypto \<Rightarrow> ('st \<Rightarrow> host_error + SignedTrustBundle option)
     \<Rightarrow> (SignedTrustBundle \<Rightarrow> 'st \<Rightarrow> host_error option \<times> 'st)
     \<Rightarrow> SignedTrustBundle \<Rightarrow> TrustBundle \<Rightarrow> Time \<Rightarrow> 'st \<Rightarrow> host_error option \<times> 'st" where
  "verifyAndSaveUpdate C load save new root now s =
     (case load s of
        Inl e \<Rightarrow> (Some e, s)
      | Inr (Some current) \<Rightarrow>
          (case ActiveTrustBundle current (sb_SigningKeyID new) now of
             Inl e \<Rightarrow> (Some (TrustErr e), s)
           | Inr currentRoot \<Rightarrow>
               if sb_Sequence new = sb_Sequence current then
                 (case Verify C new currentRoot now of
                    Some e \<Rightarrow> (Some (TrustErr e), s)
                  | None \<Rightarrow>
                 (case Hash C new of
                    Inl e \<Rightarrow> (Some (TrustErr e), s)
                  | Inr nextHash \<Rightarrow>
                 (case Hash C current of
                    Inl e \<Rightarrow> (Some (TrustErr e), s)
                  | Inr currentHash \<Rightarrow>
                      if nextHash = currentHash then (None, s)
                      else (Some (TrustErr (ErrTrustBundleInvalid ''equal sequence bundle content differs'')), s))))
               else
                 (case VerifyUpdate C new current currentRoot now of
                    Some e \<Rightarrow> (Some (TrustErr e), s)
                  | None \<Rightarrow> save new s))
      | Inr None \<Rightarrow>
          (case Verify C new root now of
             Some e \<Rightarrow> (Some (TrustErr e), s)
           | None \<Rightarrow> save new s))"

section \<open>The contract of a store\<close>

text \<open>
  After a save, whatever its outcome, the store holds the new bundle or what it held before. This
  is all that the argument against rollback needs.
\<close>

definition succeeds :: "crypto \<Rightarrow> SignedTrustBundle \<Rightarrow> SignedTrustBundle \<Rightarrow> bool" where
  "succeeds C b b' \<longleftrightarrow> sb_Sequence b < sb_Sequence b' \<and> Hash C b = Inr (sb_PreviousBundleHash b') \<and> valid_bundle b'
     \<and> (\<exists>now k pub. Key b (sb_SigningKeyID b') = Some k \<and> ActiveAt k now
          \<and> Ed25519PublicKey (TrustKey_TrustBundle k) = Inr pub \<and> signed_by C b' pub)"

locale trust_store =
  fixes load :: "'st \<Rightarrow> host_error + SignedTrustBundle option"
    and save :: "save_outcome \<Rightarrow> SignedTrustBundle \<Rightarrow> 'st \<Rightarrow> host_error option \<times> 'st"
  assumes save_effect: "load (snd (save out b s)) = Inr (Some b) \<or> load (snd (save out b s)) = load s"
    and save_done: "fst (save Saved b s) = None \<Longrightarrow> load s = Inr (Some c) \<Longrightarrow> load (snd (save Saved b s)) = Inr (Some b)"
begin

lemma update_effect:
  assumes "load s = Inr (Some b)"
  shows "\<exists>b'. load (snd (verifyAndSaveUpdate C load (save out) new root now s)) = Inr (Some b') \<and> (succeeds C)\<^sup>*\<^sup>* b b'"
proof (cases "ActiveTrustBundle b (sb_SigningKeyID new) now")
  case (Inr currentRoot)
  then obtain k where k: "Key b (sb_SigningKeyID new) = Some k" "ActiveAt k now" "currentRoot = TrustKey_TrustBundle k"
    by (auto simp: ActiveTrustBundle_Inr)
  show ?thesis
  proof (cases "sb_Sequence new \<noteq> sb_Sequence b \<and> VerifyUpdate C new b currentRoot now = None")
    case True
    then have "succeeds C b new"
      using k unfolding succeeds_def VerifyUpdate_None Verify_None by blast
    moreover have "verifyAndSaveUpdate C load (save out) new root now s = save out new s"
      using assms Inr True by (simp add: verifyAndSaveUpdate_def)
    ultimately show ?thesis using save_effect [of out new s] assms by auto
  next
    case False
    then have "snd (verifyAndSaveUpdate C load (save out) new root now s) = s"
      using assms Inr by (auto simp: verifyAndSaveUpdate_def split: option.splits sum.splits)
    with assms show ?thesis by auto
  qed
qed (use assms in \<open>auto simp: verifyAndSaveUpdate_def\<close>)

lemma update_accepted:
  assumes "load s = Inr (Some b)" and "ActiveTrustBundle b (sb_SigningKeyID new) now = Inr currentRoot"
    and "VerifyUpdate C new b currentRoot now = None" and "fst (save Saved new s) = None"
  shows "fst (verifyAndSaveUpdate C load (save Saved) new root now s) = None"
    and "load (snd (verifyAndSaveUpdate C load (save Saved) new root now s)) = Inr (Some new)"
proof -
  have "sb_Sequence new \<noteq> sb_Sequence b" using assms(3) by (auto simp: VerifyUpdate_None)
  then have "verifyAndSaveUpdate C load (save Saved) new root now s = save Saved new s"
    using assms by (simp add: verifyAndSaveUpdate_def)
  then show "fst (verifyAndSaveUpdate C load (save Saved) new root now s) = None"
    and "load (snd (verifyAndSaveUpdate C load (save Saved) new root now s)) = Inr (Some new)"
    using save_done [OF assms(4,1)] assms(4) by simp_all
qed

end

interpretation host: trust_store Store_Load Store_Save
proof unfold_locales
  fix out b s c
  show "Store_Load (snd (Store_Save out b s)) = Inr (Some b) \<or> Store_Load (snd (Store_Save out b s)) = Store_Load s"
    by (cases s; cases out)
      (simp_all add: Store_Load_def Store_Save_def FileStore_Load_def FileStore_Save_def
        ProtectedStore_Load_def ProtectedStore_Save_def writeState_def decodeState_def)
  show "fst (Store_Save Saved b s) = None \<Longrightarrow> Store_Load s = Inr (Some c) \<Longrightarrow> Store_Load (snd (Store_Save Saved b s)) = Inr (Some b)"
    by (cases s)
      (auto simp: Store_Load_def Store_Save_def FileStore_Load_def FileStore_Save_def
        ProtectedStore_Load_def ProtectedStore_Save_def writeState_def decodeState_def split: if_splits)
qed

section \<open>Runs of a host\<close>

inductive host_update :: "crypto \<Rightarrow> Store \<Rightarrow> Store \<Rightarrow> bool" for C where
  offered: "host_update C s (snd (verifyAndSaveUpdate C Store_Load (Store_Save out) new root now s))"

inductive_cases host_updateE: "host_update C s t"

lemma host_update_succeeds:
  assumes "(host_update C)\<^sup>*\<^sup>* s t" and "Store_Load s = Inr (Some b)"
  shows "\<exists>b'. Store_Load t = Inr (Some b') \<and> (succeeds C)\<^sup>*\<^sup>* b b'"
  using assms(1)
proof (induction rule: rtranclp_induct)
  case base
  show ?case using assms(2) by blast
next
  case (step t u)
  then obtain b1 where b1: "Store_Load t = Inr (Some b1)" "(succeeds C)\<^sup>*\<^sup>* b b1" by blast
  from step(2) obtain out new root now
    where u: "u = snd (verifyAndSaveUpdate C Store_Load (Store_Save out) new root now t)"
    by (rule host_updateE)
  from host.update_effect [OF b1(1), of C out new root now] u
  obtain b2 where "Store_Load u = Inr (Some b2)" "(succeeds C)\<^sup>*\<^sup>* b1 b2" by blast
  with b1(2) show ?case by (meson rtranclp_trans)
qed

lemma succeeds_forward: "(succeeds C)\<^sup>*\<^sup>* b b' \<Longrightarrow> b' = b \<or> sb_Sequence b < sb_Sequence b'"
  by (induction rule: rtranclp_induct) (auto simp: succeeds_def)

text \<open>
  C11. A host's trust never rolls back: whatever bundles it is offered, at whatever times and with
  whatever roots, and however saving them goes, a host that trusts a bundle later trusts the same
  bundle or one with a larger sequence number, reached by bundles each of which names the hash of
  its predecessor and is signed by a key its predecessor holds active.
\<close>

theorem host_trust_never_rolls_back:
  assumes "(host_update C)\<^sup>*\<^sup>* s t" and "Store_Load s = Inr (Some b)"
  shows "\<exists>b'. Store_Load t = Inr (Some b') \<and> (succeeds C)\<^sup>*\<^sup>* b b' \<and> (b' = b \<or> sb_Sequence b < sb_Sequence b')"
  using host_update_succeeds [OF assms] succeeds_forward by blast

definition demo_host_store :: Store where
  "demo_host_store = StoreFile \<lparr>fst_Path = ''/var/trust.json'', fst_File = Content FileSchemaVersion demo_unsigned\<rparr>"

theorem host_trust_never_rolls_back_witness:
  "\<exists>b'. Store_Load (snd (verifyAndSaveUpdate demo_crypto Store_Load (Store_Save Saved) (demo_unsigned\<lparr>sb_Sequence := 7\<rparr>)
       (NewTrustBundle ''gw'' []) 150 demo_host_store)) = Inr (Some b')
     \<and> (succeeds demo_crypto)\<^sup>*\<^sup>* demo_unsigned b' \<and> 1 \<le> sb_Sequence b'"
proof -
  let ?t = "snd (verifyAndSaveUpdate demo_crypto Store_Load (Store_Save Saved) (demo_unsigned\<lparr>sb_Sequence := 7\<rparr>)
       (NewTrustBundle ''gw'' []) 150 demo_host_store)"
  have held: "Store_Load demo_host_store = Inr (Some demo_unsigned)"
    by (simp add: demo_host_store_def Store_Load_def FileStore_Load_def decodeState_def)
  have run: "(host_update demo_crypto)\<^sup>*\<^sup>* demo_host_store ?t"
    by (rule r_into_rtranclp) (rule host_update.offered)
  obtain b' where b': "Store_Load ?t = Inr (Some b')" "(succeeds demo_crypto)\<^sup>*\<^sup>* demo_unsigned b'"
      "b' = demo_unsigned \<or> sb_Sequence demo_unsigned < sb_Sequence b'"
    using host_trust_never_rolls_back [OF run held] by blast
  moreover have "sb_Sequence demo_unsigned = 1" by (simp add: demo_unsigned_def)
  ultimately show ?thesis by force
qed

end
