(* ===== verification/Audit_Chain.thy ===== *)
theory Audit_Chain
  imports Trust
begin

text \<open>
  The audit trail (internal/model/audit.go, internal/audit/chain.go and jsonl.go): audit events, the
  hash chain that exporting builds and verifying checks, and the line-based file the events are
  appended to. SHA-256 is the function of \<open>crypto\<close>; the JSON encoding and decoding of an event are
  the arguments in \<open>audit_codec\<close>.
\<close>

section \<open>Data\<close>

record AuditEvent =
  au_Sequence :: gint
  au_Actor :: string
  au_Action :: string
  au_TargetID :: string
  au_Message :: string
  au_At :: Time

record ChainEntry =
  ce_Sequence :: gint
  ce_PreviousHash :: string
  ce_EventHash :: string
  ce_ChainHash :: string
  ce_Event :: AuditEvent

record Chain =
  ch_SchemaVersion :: string
  ch_GeneratedAt :: Time
  ch_EventCount :: gint
  ch_RootHash :: string
  ch_Entries :: "ChainEntry list"

definition ChainSchemaVersion :: string where
  "ChainSchemaVersion = ''rdev.audit-chain.v1''"

record audit_codec =
  ac_Marshal :: "AuditEvent \<Rightarrow> string option"
  ac_Unmarshal :: "string \<Rightarrow> AuditEvent option"

datatype audit_error =
    AuditMarshal
  | ChainSchema string
  | ChainCount
  | PreviousHashMismatch nat
  | SequenceMismatch nat
  | EventHashMismatch gint
  | ChainHashMismatch gint
  | RootHashMismatch
  | AuditDecode nat
  | LineTooLong
  | AuditIO

section \<open>The hash chain\<close>

definition hashJSON :: "crypto \<Rightarrow> audit_codec \<Rightarrow> AuditEvent \<Rightarrow> audit_error + string" where
  "hashJSON C K value =
     (case ac_Marshal K value of None \<Rightarrow> Inl AuditMarshal | Some content \<Rightarrow> Inr (sha256_text C content))"

definition hashStrings :: "crypto \<Rightarrow> string list \<Rightarrow> string" where
  "hashStrings C values = sha256_text C (concat (map (\<lambda>v. v @ [CHR 0x00]) values))"

text \<open>The loop of ExportChain: the entries and the hash of the last one.\<close>

fun exportEntries ::
    "crypto \<Rightarrow> audit_codec \<Rightarrow> string \<Rightarrow> AuditEvent list \<Rightarrow> audit_error + (ChainEntry list \<times> string)" where
  "exportEntries C K previousHash [] = Inr ([], previousHash)"
| "exportEntries C K previousHash (event # events) =
     (case hashJSON C K event of
        Inl e \<Rightarrow> Inl e
      | Inr eventHash \<Rightarrow>
          (let chainHash = hashStrings C [previousHash, eventHash];
               entry = \<lparr>ce_Sequence = au_Sequence event, ce_PreviousHash = previousHash,
                        ce_EventHash = eventHash, ce_ChainHash = chainHash, ce_Event = event\<rparr>
           in case exportEntries C K chainHash events of
                Inl e \<Rightarrow> Inl e
              | Inr (entries, rootHash) \<Rightarrow> Inr (entry # entries, rootHash)))"

definition ExportChain :: "crypto \<Rightarrow> audit_codec \<Rightarrow> AuditEvent list \<Rightarrow> Time \<Rightarrow> audit_error + Chain" where
  "ExportChain C K events generatedAt =
     (case exportEntries C K [] events of
        Inl e \<Rightarrow> Inl e
      | Inr (entries, rootHash) \<Rightarrow>
          Inr \<lparr>ch_SchemaVersion = ChainSchemaVersion, ch_GeneratedAt = generatedAt,
               ch_EventCount = int (length entries), ch_RootHash = rootHash, ch_Entries = entries\<rparr>)"

text \<open>The loop of VerifyChain, from the entry with the given index.\<close>

fun verifyEntries ::
    "crypto \<Rightarrow> audit_codec \<Rightarrow> nat \<Rightarrow> string \<Rightarrow> ChainEntry list \<Rightarrow> audit_error + string" where
  "verifyEntries C K index previousHash [] = Inr previousHash"
| "verifyEntries C K index previousHash (entry # entries) =
     (if ce_PreviousHash entry \<noteq> previousHash then Inl (PreviousHashMismatch (index + 1))
      else if ce_Sequence entry \<noteq> au_Sequence (ce_Event entry) then Inl (SequenceMismatch (index + 1))
      else
        (case hashJSON C K (ce_Event entry) of
           Inl e \<Rightarrow> Inl e
         | Inr eventHash \<Rightarrow>
             if ce_EventHash entry \<noteq> eventHash then Inl (EventHashMismatch (ce_Sequence entry))
             else if ce_ChainHash entry \<noteq> hashStrings C [ce_PreviousHash entry, ce_EventHash entry]
             then Inl (ChainHashMismatch (ce_Sequence entry))
             else verifyEntries C K (index + 1) (ce_ChainHash entry) entries))"

definition VerifyChain :: "crypto \<Rightarrow> audit_codec \<Rightarrow> Chain \<Rightarrow> audit_error option" where
  "VerifyChain C K chain =
     (if ch_SchemaVersion chain \<noteq> ChainSchemaVersion then Some (ChainSchema (ch_SchemaVersion chain))
      else if ch_EventCount chain \<noteq> int (length (ch_Entries chain)) then Some ChainCount
      else
        (case verifyEntries C K 0 [] (ch_Entries chain) of
           Inl e \<Rightarrow> Some e
         | Inr previousHash \<Rightarrow> if ch_RootHash chain \<noteq> previousHash then Some RootHashMismatch else None))"

section \<open>The file of events\<close>

text \<open>
  A scanner gives the lines of the content without their line break and one carriage return before
  it, and stops with an error at a line that does not fit its buffer of 10 MiB.
\<close>

function scan_lines :: "string \<Rightarrow> string list" where
  "scan_lines s =
     (if s = [] then []
      else takeWhile (\<lambda>c. c \<noteq> CHR 0x0A) s # scan_lines (tl (dropWhile (\<lambda>c. c \<noteq> CHR 0x0A) s)))"
  by pat_completeness auto
termination
proof (relation "measure length", goal_cases)
  case 1
  show ?case by simp
next
  case (2 s)
  have "length (dropWhile (\<lambda>c. c \<noteq> CHR 0x0A) s) \<le> length s" by (rule length_dropWhile_le)
  moreover have "0 < length s" using 2 by simp
  ultimately have "length (tl (dropWhile (\<lambda>c. c \<noteq> CHR 0x0A) s)) < length s" unfolding length_tl by linarith
  then show ?case by simp
qed

declare scan_lines.simps [simp del]

definition dropCR :: "string \<Rightarrow> string" where
  "dropCR line = (if line \<noteq> [] \<and> last line = CHR 0x0D then butlast line else line)"

definition maxLine :: nat where
  "maxLine = 10 * 1024 * 1024"

fun decodeLines :: "audit_codec \<Rightarrow> nat \<Rightarrow> string list \<Rightarrow> audit_error + AuditEvent list" where
  "decodeLines K line [] = Inr []"
| "decodeLines K line (raw # lines) =
     (if length raw \<ge> maxLine then Inl LineTooLong
      else if dropCR raw = [] then decodeLines K (line + 1) lines
      else
        (case ac_Unmarshal K (dropCR raw) of
           None \<Rightarrow> Inl (AuditDecode (line + 1))
         | Some event \<Rightarrow>
             (case decodeLines K (line + 1) lines of
                Inl e \<Rightarrow> Inl e
              | Inr events \<Rightarrow> Inr (event # events))))"

definition DecodeJSONL :: "audit_codec \<Rightarrow> string \<Rightarrow> audit_error + AuditEvent list" where
  "DecodeJSONL K content = decodeLines K 0 (scan_lines content)"

definition ReadJSONL :: "audit_codec \<Rightarrow> string option \<Rightarrow> audit_error + AuditEvent list" where
  "ReadJSONL K file = (case file of None \<Rightarrow> Inl AuditIO | Some content \<Rightarrow> DecodeJSONL K content)"

text \<open>
  ExportChainFromJSONL reads one file and writes the chain to another; \<open>written\<close> says whether
  WriteChain succeeds.
\<close>

definition ExportChainFromJSONL ::
    "crypto \<Rightarrow> audit_codec \<Rightarrow> string option \<Rightarrow> bool \<Rightarrow> Time \<Rightarrow> audit_error + Chain" where
  "ExportChainFromJSONL C K input written generatedAt =
     (case ReadJSONL K input of
        Inl e \<Rightarrow> Inl e
      | Inr events \<Rightarrow>
     (case ExportChain C K events generatedAt of
        Inl e \<Rightarrow> Inl e
      | Inr chain \<Rightarrow> if written then Inr chain else Inl AuditIO))"

text \<open>
  JSONLStore.Append on a file that may not exist yet. Opening creates the file; a write that fails
  may leave a part of the line behind.
\<close>

datatype append_outcome = OpenFails | WriteFails nat | WriteSucceeds

definition JSONLStore_Append ::
    "audit_codec \<Rightarrow> append_outcome \<Rightarrow> AuditEvent \<Rightarrow> string option \<Rightarrow> audit_error option \<times> string option" where
  "JSONLStore_Append K out event file =
     (if out = OpenFails then (Some AuditIO, file)
      else
        (let content = (case file of None \<Rightarrow> [] | Some c \<Rightarrow> c) in
         case ac_Marshal K event of
           None \<Rightarrow> (Some AuditMarshal, Some content)
         | Some encoded \<Rightarrow>
             (case out of
                WriteFails n \<Rightarrow> (Some AuditIO, Some (content @ take n (encoded @ [CHR 0x0A])))
              | _ \<Rightarrow> (None, Some (content @ encoded @ [CHR 0x0A])))))"

end
