(* ===== verification/Gateway.thy ===== *)
theory Gateway
  imports Snapshot_Store Store_System Host_Trust Audit_Chain
begin

text \<open>
  The gateway (internal/gateway: memory.go, session.go, hosts.go, notify.go, web_handoff.go,
  snapshot.go): the control plane store with the gateway's trust bundle, audit trail, webhook
  secrets and browser handoffs. An operation that reads the gateway's clock for its audit record
  takes that reading at call site 0 and hands the later ones to the store. The code's handling of a
  gateway without a store or a clock is for the zero value only, which no constructor returns.
\<close>

section \<open>State\<close>

record WebHandoff =
  wh_SchemaVersion :: string
  wh_ID :: string
  wh_SessionID :: string
  wh_Platform :: string
  wh_CreatedAt :: Time
  wh_ExpiresAt :: Time
  wh_ClaimedAt :: Time
  wh_ArtifactTicketExpiresAt :: Time

record webHandoffState = WebHandoff +
  whs_artifactTicketHash :: string

record WebHandoffSpec =
  whp_SessionID :: string
  whp_Platform :: string
  whp_ExpiresAt :: Time

record MemoryGateway =
  g_sessionStore :: MemoryStore
  g_audit :: "AuditEvent list"
  g_webHandoffs :: "string \<rightharpoonup> webHandoffState"
  g_signingID :: string
  g_publicKey :: string
  g_privateKey :: string
  g_trustBundle :: SignedTrustBundle
  g_notifySecrets :: "string \<rightharpoonup> string"

datatype gateway_error =
    GwTrust trust_error
  | GwStore error
  | GwText string
  | GwPanic string
  | GwRand
  | ErrWebHandoffNotFound
  | ErrWebHandoffExpired
  | ErrWebHandoffClaimed
  | ErrWebHandoffInvalidTicket
  | ErrWebHandoffSessionInvalid

type_synonym 'a gateway_result = "gateway_error + 'a"

section \<open>Audit\<close>

definition appendAuditLocked :: "Time \<Rightarrow> string \<Rightarrow> string \<Rightarrow> string \<Rightarrow> string \<Rightarrow> MemoryGateway \<Rightarrow> MemoryGateway" where
  "appendAuditLocked now actor action targetID message g =
     g\<lparr>g_audit := g_audit g @
        [\<lparr>au_Sequence = int (length (g_audit g)) + 1, au_Actor = actor, au_Action = action,
          au_TargetID = targetID, au_Message = message, au_At = now\<rparr>]\<rparr>"

definition AppendAudit :: "Time \<Rightarrow> string \<Rightarrow> string \<Rightarrow> string \<Rightarrow> string \<Rightarrow> MemoryGateway \<Rightarrow> MemoryGateway" where
  "AppendAudit now actor action targetID message g = appendAuditLocked now actor action targetID message g"

definition AuditEvents :: "MemoryGateway \<Rightarrow> AuditEvent list" where
  "AuditEvents g = sort_key au_Sequence (g_audit g)"

section \<open>Signing keys and trust bundles\<close>

definition signedTrustBundleLifetime :: Duration where
  "signedTrustBundleLifetime = 24 * hour_ns"

definition signedTrustBundleRenewBefore :: Duration where
  "signedTrustBundleRenewBefore = hour_ns"

definition validateSigningKey :: "crypto \<Rightarrow> string \<Rightarrow> string \<Rightarrow> bool" where
  "validateSigningKey C publicKey privateKey \<longleftrightarrow>
     length publicKey = PublicKeySize \<and> length privateKey = PrivateKeySize
     \<and> ed25519_Public C privateKey = publicKey"

definition initialSignedTrustBundle ::
    "crypto \<Rightarrow> string \<Rightarrow> string \<Rightarrow> string \<Rightarrow> Time \<Rightarrow> trust_error + SignedTrustBundle" where
  "initialSignedTrustBundle C signingID publicKey privateKey now =
     (case NewSignedTrustBundle
        \<lparr>sbs_BundleID = ''dev-gateway'', sbs_Sequence = 1, sbs_NotBefore = now,
         sbs_NotAfter = now + signedTrustBundleLifetime, sbs_PreviousBundleHash = [],
         sbs_Keys = [NewTrustKey signingID publicKey TrustKeyStatusActive now],
         sbs_SigningKeyID = signingID\<rparr> now of
        Inl e \<Rightarrow> Inl e
      | Inr bundle \<Rightarrow> Sign C bundle privateKey)"

definition NewMemoryGatewayWithSigningKey ::
    "crypto \<Rightarrow> Time \<Rightarrow> string \<Rightarrow> string \<Rightarrow> string \<Rightarrow> MemoryGateway gateway_result" where
  "NewMemoryGatewayWithSigningKey C now signingID0 publicKey privateKey =
     (let signingID = (if signingID0 = [] then ''gateway-dev'' else signingID0) in
      if \<not> validateSigningKey C publicKey privateKey then Inl (GwPanic ''invalid gateway signing key'')
      else
        (case initialSignedTrustBundle C signingID publicKey privateKey now of
           Inl e \<Rightarrow> Inl (GwPanic ''create initial trust bundle'')
         | Inr trustBundle \<Rightarrow>
             Inr \<lparr>g_sessionStore = SetEventHook True NewMemoryStore, g_audit = [],
                  g_webHandoffs = Map.empty, g_signingID = signingID, g_publicKey = publicKey,
                  g_privateKey = privateKey, g_trustBundle = trustBundle, g_notifySecrets = Map.empty\<rparr>))"

definition RenewSignedTrustBundle ::
    "crypto \<Rightarrow> env \<Rightarrow> MemoryGateway \<Rightarrow> (SignedTrustBundle \<times> bool) gateway_result \<times> MemoryGateway" where
  "RenewSignedTrustBundle C E g =
     (let now = clock_at E 0; current = g_trustBundle g in
      if now + signedTrustBundleRenewBefore < sb_NotAfter current then (Inr (current, False), g)
      else
        (case ActiveTrustBundle current (g_signingID g) now of
           Inl e \<Rightarrow> (Inl (GwTrust e), g)
         | Inr _ \<Rightarrow>
        (case Hash C current of
           Inl e \<Rightarrow> (Inl (GwTrust e), g)
         | Inr previousHash \<Rightarrow>
        (case NewSignedTrustBundle
           \<lparr>sbs_BundleID = sb_BundleID current, sbs_Sequence = i64 (sb_Sequence current + 1),
            sbs_NotBefore = now, sbs_NotAfter = now + signedTrustBundleLifetime,
            sbs_PreviousBundleHash = previousHash,
            sbs_Keys = [NewTrustKey (g_signingID g) (g_publicKey g) TrustKeyStatusActive now],
            sbs_SigningKeyID = g_signingID g\<rparr> now of
           Inl e \<Rightarrow> (Inl (GwTrust e), g)
         | Inr draft \<Rightarrow>
        (case Sign C draft (g_privateKey g) of
           Inl e \<Rightarrow> (Inl (GwTrust e), g)
         | Inr renewed \<Rightarrow>
             (Inr (renewed, True),
              appendAuditLocked (clock_at E 1) ''gateway'' ''trust_bundle.renew'' (sb_BundleID renewed)
                (''renewed trust bundle to sequence '' @ dec_int (sb_Sequence renewed))
                (g\<lparr>g_trustBundle := renewed\<rparr>)))))))"

definition UpdateSignedTrustBundle ::
    "crypto \<Rightarrow> env \<Rightarrow> SignedTrustBundle \<Rightarrow> MemoryGateway
     \<Rightarrow> SignedTrustBundle gateway_result \<times> MemoryGateway" where
  "UpdateSignedTrustBundle C E new g =
     (case ActiveTrustBundle (g_trustBundle g) (sb_SigningKeyID new) (clock_at E 0) of
        Inl e \<Rightarrow> (Inl (GwTrust e), g)
      | Inr root \<Rightarrow>
     (case VerifyUpdate C new (g_trustBundle g) root (clock_at E 1) of
        Some e \<Rightarrow> (Inl (GwTrust e), g)
      | None \<Rightarrow>
          (Inr new,
           appendAuditLocked (clock_at E 2) ''operator'' ''trust_bundle.update'' (sb_BundleID new)
             (''updated trust bundle to sequence '' @ dec_int (sb_Sequence new))
             (g\<lparr>g_trustBundle := new\<rparr>))))"

section \<open>Sessions\<close>

text \<open>
  A session method calls the store and, when the store accepts, appends an audit record; the two
  parts take different locks.
\<close>

definition with_store ::
    "(MemoryStore \<Rightarrow> 'a result \<times> MemoryStore) \<Rightarrow> MemoryGateway \<Rightarrow> 'a result \<times> MemoryGateway" where
  "with_store f g = (let (r, s) = f (g_sessionStore g) in (r, g\<lparr>g_sessionStore := s\<rparr>))"

definition audited ::
    "Time \<Rightarrow> string \<Rightarrow> string \<Rightarrow> ('a \<Rightarrow> string) \<Rightarrow> string \<Rightarrow> 'a result \<times> MemoryGateway \<Rightarrow> 'a result \<times> MemoryGateway" where
  "audited now actor action target message rg =
     (case rg of
        (Inl e, g) \<Rightarrow> (Inl e, g)
      | (Inr v, g) \<Rightarrow> (Inr v, appendAuditLocked now actor action (target v) message g))"

definition Gateway_CreateSession :: "env \<Rightarrow> SessionSpec \<Rightarrow> MemoryGateway \<Rightarrow> Session result \<times> MemoryGateway" where
  "Gateway_CreateSession E spec g =
     audited (clock_at E 0) ''operator'' ''session.create'' ses_ID ''created session''
       (with_store (CreateSession (env_from 1 E) spec) g)"

definition Gateway_Session :: "env \<Rightarrow> string \<Rightarrow> MemoryGateway \<Rightarrow> Session result \<times> MemoryGateway" where
  "Gateway_Session E sid g = with_store (getSession E sid) g"

definition JoinSessionByCode ::
    "env \<Rightarrow> string \<Rightarrow> EndpointSpec \<Rightarrow> MemoryGateway
     \<Rightarrow> (Session option \<times> Endpoint \<times> Lease \<times> Event list) result \<times> MemoryGateway" where
  "JoinSessionByCode E joinCode spec g =
     audited (clock_at E 0) ''target'' ''session.join'' (\<lambda>(_, endpoint, _). ep_ID endpoint)
       ''endpoint joined session'' (with_store (JoinByCode (env_from 1 E) joinCode spec) g)"

definition Gateway_JoinSession ::
    "env \<Rightarrow> string \<Rightarrow> EndpointSpec \<Rightarrow> MemoryGateway \<Rightarrow> (Session \<times> Endpoint \<times> Lease) result \<times> MemoryGateway" where
  "Gateway_JoinSession E sid spec g =
     audited (clock_at E 0) ''target'' ''session.join'' (\<lambda>(_, endpoint, _). ep_ID endpoint)
       ''endpoint joined session'' (with_store (JoinSession (env_from 1 E) sid spec) g)"

definition AppendSessionEvent :: "env \<Rightarrow> string \<Rightarrow> Event \<Rightarrow> MemoryGateway \<Rightarrow> Event result \<times> MemoryGateway" where
  "AppendSessionEvent E sid event g = with_store (AppendEvent E sid event) g"

definition SessionEventsAfter ::
    "env \<Rightarrow> string \<Rightarrow> EventCursor \<Rightarrow> gint \<Rightarrow> MemoryGateway
     \<Rightarrow> (Event list \<times> Lease \<times> EventReplayState) poll \<times> MemoryGateway" where
  "SessionEventsAfter E sid cursor limit g =
     (let (r, s) = EventsAfter E sid cursor limit (g_sessionStore g) in (r, g\<lparr>g_sessionStore := s\<rparr>))"

definition PeekSessionEventsAfter ::
    "env \<Rightarrow> string \<Rightarrow> EventCursor \<Rightarrow> gint \<Rightarrow> MemoryGateway \<Rightarrow> (Event list \<times> Lease \<times> EventReplayState) poll" where
  "PeekSessionEventsAfter E sid cursor limit g = PeekEventsAfter E sid cursor limit (g_sessionStore g)"

definition SessionEventsAfterForAgent ::
    "env \<Rightarrow> string \<Rightarrow> u64 \<Rightarrow> gint \<Rightarrow> MemoryGateway
     \<Rightarrow> (Event list \<times> EventReplayState) poll \<times> MemoryGateway" where
  "SessionEventsAfterForAgent E sid afterSeq limit g =
     (let (r, s) = EventsAfterForAgent E sid afterSeq limit (g_sessionStore g) in (r, g\<lparr>g_sessionStore := s\<rparr>))"

definition ValidateSessionLease ::
    "env \<Rightarrow> string \<Rightarrow> string \<Rightarrow> string \<Rightarrow> MemoryGateway \<Rightarrow> unit result \<times> MemoryGateway" where
  "ValidateSessionLease E sid eid secret g = with_store (ValidateLease E sid eid secret) g"

definition SubmitSessionTask ::
    "env \<Rightarrow> string \<Rightarrow> TaskSpec \<Rightarrow> MemoryGateway \<Rightarrow> (Task \<times> Event) result \<times> MemoryGateway" where
  "SubmitSessionTask E sid spec g =
     audited (clock_at E 0) ''operator'' ''session.task.submit'' (\<lambda>(task, _). tk_ID task)
       ''offered task to target endpoint'' (with_store (SubmitTask (env_from 1 E) sid spec) g)"

definition CancelSessionTask ::
    "env \<Rightarrow> string \<Rightarrow> string \<Rightarrow> string \<Rightarrow> string \<Rightarrow> MemoryGateway \<Rightarrow> (Task \<times> Event) result \<times> MemoryGateway" where
  "CancelSessionTask E sid tid reason key g =
     audited (clock_at E 0) ''operator'' ''session.task.cancel'' (\<lambda>(task, _). tk_ID task)
       ''canceled task'' (with_store (CancelTask (env_from 1 E) sid tid reason key) g)"

definition ResumeSessionTask ::
    "env \<Rightarrow> string \<Rightarrow> string \<Rightarrow> string \<Rightarrow> string \<Rightarrow> MemoryGateway \<Rightarrow> (Task \<times> Event) result \<times> MemoryGateway" where
  "ResumeSessionTask E sid tid checkpointID key g =
     audited (clock_at E 0) ''operator'' ''session.task.resume'' (\<lambda>(task, _). tk_ID task)
       ''resumed task from checkpoint'' (with_store (ResumeTask (env_from 1 E) sid tid checkpointID key) g)"

definition CompleteSessionTask ::
    "env \<Rightarrow> string \<Rightarrow> string \<Rightarrow> payload \<Rightarrow> MemoryGateway \<Rightarrow> (Task \<times> Event) result \<times> MemoryGateway" where
  "CompleteSessionTask E sid tid result g = with_store (CompleteTask E sid tid result) g"

definition MarkSessionTaskRunning :: "env \<Rightarrow> string \<Rightarrow> string \<Rightarrow> MemoryGateway \<Rightarrow> Task result \<times> MemoryGateway" where
  "MarkSessionTaskRunning E sid tid g = with_store (MarkTaskRunning E sid tid) g"

definition UpsertSessionArtifact ::
    "env \<Rightarrow> string \<Rightarrow> ArtifactRef \<Rightarrow> MemoryGateway \<Rightarrow> (ArtifactRef \<times> Event) result \<times> MemoryGateway" where
  "UpsertSessionArtifact E sid ref g = with_store (UpsertArtifact E sid ref) g"

definition Gateway_CloseSession :: "env \<Rightarrow> string \<Rightarrow> MemoryGateway \<Rightarrow> (Session \<times> Event) result \<times> MemoryGateway" where
  "Gateway_CloseSession E sid g =
     audited (clock_at E 0) ''operator'' ''session.close'' (\<lambda>(session, _). ses_ID session)
       ''closed session'' (with_store (CloseSession (env_from 1 E) sid) g)"

definition Gateway_RevokeSession :: "env \<Rightarrow> string \<Rightarrow> MemoryGateway \<Rightarrow> (Session \<times> Event) result \<times> MemoryGateway" where
  "Gateway_RevokeSession E sid g =
     audited (clock_at E 0) ''operator'' ''session.revoke'' (\<lambda>(session, _). ses_ID session)
       ''revoked session and endpoint leases'' (with_store (RevokeSession (env_from 1 E) sid) g)"

definition CompactSessionEvents :: "string \<Rightarrow> u64 \<Rightarrow> MemoryGateway \<Rightarrow> unit result \<times> MemoryGateway" where
  "CompactSessionEvents sid snapshotSeq g = with_store (CompactEvents sid snapshotSeq) g"

definition Gateway_Hosts :: "string list \<Rightarrow> MemoryGateway \<Rightarrow> Host list" where
  "Gateway_Hosts order g = Hosts order (g_sessionStore g)"

definition Gateway_RenameHost ::
    "env \<Rightarrow> string list \<Rightarrow> string \<Rightarrow> string \<Rightarrow> MemoryGateway \<Rightarrow> Host result \<times> MemoryGateway" where
  "Gateway_RenameHost E order hostID displayName g =
     audited (clock_at E 0) ''operator'' ''host.rename'' (\<lambda>_. hostID) ''renamed host directory entry''
       (with_store (RenameHost order hostID displayName) g)"

section \<open>Notifications\<close>

text \<open>
  What net/url makes of a URL: scheme, host with port, host without, the value of the query
  parameter named secret if there is one, and the URL printed without that parameter.
\<close>

record url_parts =
  u_Scheme :: string
  u_Host :: string
  u_Hostname :: string
  u_Secret :: "string option"
  u_WithoutSecret :: string

definition validNotifyURL :: "unicode \<Rightarrow> (string \<Rightarrow> url_parts option) \<Rightarrow> string \<Rightarrow> bool" where
  "validNotifyURL U parse rawURL =
     (case parse rawURL of
        None \<Rightarrow> False
      | Some parsed \<Rightarrow>
          if u_Scheme parsed = [] \<or> u_Host parsed = [] then False
          else if u_Scheme parsed = ''https'' then True
          else if u_Scheme parsed \<noteq> ''http'' then False
          else let host = ToLower U (u_Hostname parsed)
               in host = ''127.0.0.1'' \<or> host = ''::1'' \<or> host = ''localhost'')"

definition notifyTarget ::
    "unicode \<Rightarrow> (string \<Rightarrow> url_parts option) \<Rightarrow> string \<Rightarrow> (string \<times> string) gateway_result" where
  "notifyTarget U parse rawURL =
     (if rawURL = [] then Inr ([], [])
      else
        (case parse rawURL of
           None \<Rightarrow> Inl (GwText ''notify_url must be an absolute https URL (or http on loopback)'')
         | Some parsed \<Rightarrow>
             if \<not> validNotifyURL U parse rawURL
             then Inl (GwText ''notify_url must be an absolute https URL (or http on loopback)'')
             else (case u_Secret parsed of
                     Some secret \<Rightarrow> Inr (u_WithoutSecret parsed, secret)
                   | None \<Rightarrow> Inr (rawURL, []))))"

definition Gateway_SetSessionNotifyURL ::
    "unicode \<Rightarrow> (string \<Rightarrow> url_parts option) \<Rightarrow> env \<Rightarrow> string \<Rightarrow> string \<Rightarrow> MemoryGateway
     \<Rightarrow> unit gateway_result \<times> MemoryGateway" where
  "Gateway_SetSessionNotifyURL U parse E sid rawURL0 g =
     (case notifyTarget U parse (TrimSpace rawURL0) of
        Inl e \<Rightarrow> (Inl e, g)
      | Inr (rawURL, secret) \<Rightarrow>
     (case SetSessionNotifyURL (env_from 1 E) sid rawURL (g_sessionStore g) of
        (Inl e, s) \<Rightarrow> (Inl (GwStore e), g\<lparr>g_sessionStore := s\<rparr>)
      | (Inr _, s) \<Rightarrow>
          (let g1 = g\<lparr>g_sessionStore := s,
                 g_notifySecrets := (if secret \<noteq> [] then (g_notifySecrets g)(sid \<mapsto> secret)
                                     else (g_notifySecrets g)(sid := None))\<rparr>
           in (Inr (),
               if rawURL \<noteq> []
               then appendAuditLocked (clock_at E 0) ''operator'' ''session.notify.set'' sid
                      (''registered event webhook '' @ rawURL) g1
               else appendAuditLocked (clock_at E 0) ''operator'' ''session.notify.clear'' sid
                      ''cleared session event notifications'' g1))))"

definition notifySecret :: "string \<Rightarrow> MemoryGateway \<Rightarrow> string" where
  "notifySecret sid g = map_get [] (g_notifySecrets g) sid"

text \<open>The hook starts a delivery, with the secret it is signed with, or none.\<close>

definition notifyEvent ::
    "string \<Rightarrow> Event \<Rightarrow> string \<Rightarrow> MemoryGateway \<Rightarrow> (string \<times> string \<times> string \<times> Event) option" where
  "notifyEvent sid event notifyURL g =
     (if TrimSpace notifyURL = [] then None else Some (sid, notifyURL, notifySecret sid g, event))"

text \<open>How a delivery ends: nothing was sent, the request failed, or the receiver answered.\<close>

datatype delivery = NotSent | TransportFailed string | Answered int

definition postNotification :: "Time \<Rightarrow> delivery \<Rightarrow> string \<Rightarrow> MemoryGateway \<Rightarrow> MemoryGateway" where
  "postNotification now d sid g =
     (case d of
        NotSent \<Rightarrow> g
      | TransportFailed message \<Rightarrow>
          appendAuditLocked now ''gateway'' ''session.notify.delivery_failed'' sid message g
      | Answered status \<Rightarrow>
          if status < 200 \<or> status \<ge> 300
          then appendAuditLocked now ''gateway'' ''session.notify.delivery_failed'' sid
                 (''webhook returned HTTP '' @ dec_int status) g
          else g)"

end
