(* ===== verification/Web_Handoff.thy ===== *)
theory Web_Handoff
  imports Gateway
begin

text \<open>
  Browser handoffs (internal/gateway/web_handoff.go): a short-lived link that can be claimed once
  and then admits downloads with a ticket. Creating a handoff draws identifiers until one is free;
  that loop has no bound, so it is a partial function and not returning is None.
\<close>

section \<open>Operations\<close>

definition WebHandoffSchemaVersion :: string where
  "WebHandoffSchemaVersion = ''rdev.web-handoff.v1''"

definition WebHandoffPlatformWindowsAMD64 :: string where
  "WebHandoffPlatformWindowsAMD64 = ''windows-amd64''"

definition webHandoffMaxArtifactTicketTTL :: Duration where
  "webHandoffMaxArtifactTicketTTL = 30 * 60 * second_ns"

definition random_text :: "nat \<Rightarrow> (nat \<Rightarrow> u8) \<Rightarrow> string" where
  "random_text n raw = base64url_encode (map (\<lambda>i. char_of (unat (raw i))) [0..<n])"

definition newWebHandoffIdentifier :: "(nat \<Rightarrow> u8) option \<Rightarrow> string option" where
  "newWebHandoffIdentifier r = map_option (\<lambda>raw. ''hnd_'' @ random_text 16 raw) r"

definition newWebHandoffSecret :: "(nat \<Rightarrow> u8) option \<Rightarrow> string option" where
  "newWebHandoffSecret r = map_option (random_text 32) r"

definition webHandoffAuditTarget :: "crypto \<Rightarrow> string \<Rightarrow> string" where
  "webHandoffAuditTarget C id' = ''web_handoff:'' @ hex_EncodeToString (take 8 (sha256_Sum256 C id'))"

definition webHandoffSessionJoinable :: "Session \<Rightarrow> Time \<Rightarrow> bool" where
  "webHandoffSessionJoinable session now =
     (if ses_Status session = SessionStatusClosed \<or> ses_Status session = SessionStatusRevoked
         \<or> ses_Status session = SessionStatusFailed then False
      else if \<not> IsZero (ses_ExpiresAt session) \<and> \<not> ses_ExpiresAt session > now then False
      else ses_JoinPolicy session \<noteq> ''single-target'' \<or> length (ses_Endpoints session) = 0)"

partial_function (option) drawIdentifier ::
    "env \<Rightarrow> (string \<rightharpoonup> webHandoffState) \<Rightarrow> nat \<Rightarrow> string gateway_result option" where
  "drawIdentifier E handoffs k =
     (case newWebHandoffIdentifier (rand_at E k) of
        None \<Rightarrow> Some (Inl GwRand)
      | Some i \<Rightarrow> if handoffs i \<noteq> None then drawIdentifier E handoffs (Suc k) else Some (Inr i))"

definition CreateWebHandoff ::
    "crypto \<Rightarrow> env \<Rightarrow> WebHandoffSpec \<Rightarrow> MemoryGateway \<Rightarrow> (WebHandoff gateway_result \<times> MemoryGateway) option" where
  "CreateWebHandoff C E spec g =
     (let sid = TrimSpace (whp_SessionID spec); platform = TrimSpace (whp_Platform spec); now = clock_at E 0 in
      if sid = [] \<or> platform \<noteq> WebHandoffPlatformWindowsAMD64 \<or> IsZero (whp_ExpiresAt spec)
      then Some (Inl (GwText ''invalid web handoff specification''), g)
      else if \<not> whp_ExpiresAt spec > now then Some (Inl ErrWebHandoffExpired, g)
      else
        (case getSession (env_from 1 E) sid (g_sessionStore g) of
           (Inl e, s) \<Rightarrow> Some (Inl (GwStore e), g\<lparr>g_sessionStore := s\<rparr>)
         | (Inr session, s) \<Rightarrow>
             (let g1 = g\<lparr>g_sessionStore := s\<rparr> in
              if \<not> webHandoffSessionJoinable session now then Some (Inl ErrWebHandoffSessionInvalid, g1)
              else
                (let expiresAt = (if \<not> IsZero (ses_ExpiresAt session) \<and> whp_ExpiresAt spec > ses_ExpiresAt session
                                  then ses_ExpiresAt session else whp_ExpiresAt spec)
                 in case drawIdentifier (env_from 10 E) (g_webHandoffs g1) 0 of
                      None \<Rightarrow> None
                    | Some (Inl e) \<Rightarrow> Some (Inl e, g1)
                    | Some (Inr i) \<Rightarrow>
                        (let state = \<lparr>wh_SchemaVersion = WebHandoffSchemaVersion, wh_ID = i, wh_SessionID = sid,
                               wh_Platform = platform, wh_CreatedAt = now, wh_ExpiresAt = expiresAt,
                               wh_ClaimedAt = 0, wh_ArtifactTicketExpiresAt = 0,
                               whs_artifactTicketHash = replicate 32 (CHR 0x00)\<rparr>
                         in Some (Inr (WebHandoff.truncate state),
                              appendAuditLocked (clock_at E 10) ''operator'' ''web_handoff.create''
                                (webHandoffAuditTarget C i) ''created a short-lived browser host handoff''
                                (g1\<lparr>g_webHandoffs := (g_webHandoffs g1)(i \<mapsto> state)\<rparr>)))))))"

definition claimTTL :: "Duration \<Rightarrow> Duration" where
  "claimTTL ttl = (if ttl > webHandoffMaxArtifactTicketTTL then webHandoffMaxArtifactTicketTTL else ttl)"

definition ClaimWebHandoff ::
    "crypto \<Rightarrow> env \<Rightarrow> string \<Rightarrow> Duration \<Rightarrow> MemoryGateway
     \<Rightarrow> (WebHandoff \<times> string) gateway_result \<times> MemoryGateway" where
  "ClaimWebHandoff C E id0 ttl g =
     (let i = TrimSpace id0 in
      if i = [] \<or> ttl \<le> 0 then (Inl ErrWebHandoffNotFound, g)
      else
        (case g_webHandoffs g i of
           None \<Rightarrow> (Inl ErrWebHandoffNotFound, g)
         | Some state \<Rightarrow>
             (let now = clock_at E 0 in
              if \<not> wh_ExpiresAt state > now then (Inl ErrWebHandoffExpired, g)
              else if \<not> IsZero (wh_ClaimedAt state) then (Inl ErrWebHandoffClaimed, g)
              else
                (case getSession (env_from 1 E) (wh_SessionID state) (g_sessionStore g) of
                   (Inl _, s) \<Rightarrow> (Inl ErrWebHandoffSessionInvalid, g\<lparr>g_sessionStore := s\<rparr>)
                 | (Inr session, s) \<Rightarrow>
                     (let g1 = g\<lparr>g_sessionStore := s\<rparr> in
                      if \<not> webHandoffSessionJoinable session now then (Inl ErrWebHandoffSessionInvalid, g1)
                      else
                        (case newWebHandoffSecret (rand_at E 10) of
                           None \<Rightarrow> (Inl GwRand, g1)
                         | Some ticket \<Rightarrow>
                             (let until = now + claimTTL ttl;
                                  until' = (if until > wh_ExpiresAt state then wh_ExpiresAt state else until);
                                  state' = state\<lparr>wh_ClaimedAt := now, wh_ArtifactTicketExpiresAt := until',
                                             whs_artifactTicketHash := sha256_Sum256 C ticket\<rparr>
                              in (Inr (WebHandoff.truncate state', ticket),
                                  appendAuditLocked (clock_at E 10) ''handoff'' ''web_handoff.claim''
                                    (webHandoffAuditTarget C i)
                                    ''claimed browser host handoff and issued artifact ticket''
                                    (g1\<lparr>g_webHandoffs := (g_webHandoffs g1)(i \<mapsto> state')\<rparr>)))))))))"

definition ValidateWebHandoffArtifactTicket ::
    "crypto \<Rightarrow> Time \<Rightarrow> string \<Rightarrow> string \<Rightarrow> MemoryGateway \<Rightarrow> WebHandoff gateway_result" where
  "ValidateWebHandoffArtifactTicket C now id0 ticket0 g =
     (let i = TrimSpace id0; ticket = TrimSpace ticket0 in
      if i = [] \<or> ticket = [] then Inl ErrWebHandoffInvalidTicket
      else
        (case g_webHandoffs g i of
           None \<Rightarrow> Inl ErrWebHandoffNotFound
         | Some state \<Rightarrow>
             if \<not> wh_ExpiresAt state > now \<or> IsZero (wh_ArtifactTicketExpiresAt state)
                \<or> \<not> wh_ArtifactTicketExpiresAt state > now
             then Inl ErrWebHandoffExpired
             else if whs_artifactTicketHash state \<noteq> sha256_Sum256 C ticket
             then Inl ErrWebHandoffInvalidTicket
             else Inr (WebHandoff.truncate state)))"

end
