(* ===== verification/Gateway_Snapshot.thy ===== *)
theory Gateway_Snapshot
  imports Gateway
begin

text \<open>
  Snapshots of the gateway and the file they are kept in (internal/gateway/snapshot.go, store.go). A
  state file is modelled by its type, its permission bits and its text; writing it (a temporary
  file, then a rename) either replaces it or fails. The encoder and the decoder of the text
  (encoding/json on the fields and tags of the snapshot) are an argument.
\<close>

definition GatewaySnapshotSchemaVersion :: string where
  "GatewaySnapshotSchemaVersion = ''rdev.gateway-snapshot.v2''"

record GatewaySnapshot =
  gs_SchemaVersion :: string
  gs_GeneratedAt :: Time
  gs_TrustBundle :: SignedTrustBundle
  gs_ControlPlane :: Snapshot
  gs_Audit :: "AuditEvent list"
  gs_NotifySecrets :: "string \<rightharpoonup> string"

definition snapshotLocked :: "env \<Rightarrow> iteration \<Rightarrow> Time \<Rightarrow> MemoryGateway \<Rightarrow> GatewaySnapshot \<times> MemoryGateway" where
  "snapshotLocked E it now g =
     (let (control, s) = takeSnapshot E it (g_sessionStore g)
      in (\<lparr>gs_SchemaVersion = GatewaySnapshotSchemaVersion, gs_GeneratedAt = now,
           gs_TrustBundle = g_trustBundle g, gs_ControlPlane = control,
           gs_Audit = sort_key au_Sequence (g_audit g), gs_NotifySecrets = g_notifySecrets g\<rparr>,
          g\<lparr>g_sessionStore := s\<rparr>))"

definition Gateway_Snapshot :: "env \<Rightarrow> iteration \<Rightarrow> MemoryGateway \<Rightarrow> GatewaySnapshot \<times> MemoryGateway" where
  "Gateway_Snapshot E it g = snapshotLocked (env_from 1 E) it (clock_at E 0) g"

text \<open>The loop over the audit records of a snapshot: the index of the first gap.\<close>

fun auditGap :: "nat \<Rightarrow> AuditEvent list \<Rightarrow> nat option" where
  "auditGap index [] = None"
| "auditGap index (event # events) =
     (if au_Sequence event \<noteq> int index + 1 then Some index else auditGap (index + 1) events)"

definition validateSnapshot :: "env \<Rightarrow> GatewaySnapshot \<Rightarrow> MemoryGateway \<Rightarrow> gateway_error option" where
  "validateSnapshot E snapshot g =
     (if gs_SchemaVersion snapshot \<noteq> GatewaySnapshotSchemaVersion
      then Some (GwText ''unsupported gateway snapshot schema'')
      else
        (case ActiveTrustBundle (gs_TrustBundle snapshot) (g_signingID g) (clock_at E 0) of
           Inl e \<Rightarrow> Some (GwTrust e)
         | Inr root \<Rightarrow>
        (case Ed25519PublicKey root of
           Inl e \<Rightarrow> Some (GwTrust e)
         | Inr publicKey \<Rightarrow>
             if publicKey \<noteq> g_publicKey g
             then Some (GwText ''snapshot trust bundle public key does not match loaded gateway signing key'')
             else
               (case fst (RestoreSnapshot (gs_ControlPlane snapshot) NewMemoryStore) of
                  Inl e \<Rightarrow> Some (GwStore e)
                | Inr _ \<Rightarrow>
                    (case auditGap 0 (gs_Audit snapshot) of
                       Some index \<Rightarrow> Some (GwText (''snapshot audit sequence gap at index '' @ dec_nat index))
                     | None \<Rightarrow> None)))))"

definition Gateway_RestoreSnapshot ::
    "env \<Rightarrow> GatewaySnapshot \<Rightarrow> MemoryGateway \<Rightarrow> unit gateway_result \<times> MemoryGateway" where
  "Gateway_RestoreSnapshot E snapshot g =
     (case validateSnapshot E snapshot g of
        Some e \<Rightarrow> (Inl e, g)
      | None \<Rightarrow>
     (case RestoreSnapshot (gs_ControlPlane snapshot) NewMemoryStore of
        (Inl e, _) \<Rightarrow> (Inl (GwStore e), g)
      | (Inr _, sessionStore) \<Rightarrow>
          (Inr (), g\<lparr>g_sessionStore := sessionStore, g_audit := gs_Audit snapshot,
             g_trustBundle := gs_TrustBundle snapshot, g_notifySecrets := gs_NotifySecrets snapshot\<rparr>)))"

section \<open>The state file\<close>

text \<open>
  \<open>sc_Encode\<close> is the text that writeSnapshotFile prints and \<open>sc_Unmarshal\<close> is json.Unmarshal into a
  snapshot; either may fail. Nothing says that they are inverse: a number inside a payload comes back
  as a float64, and the maps come back in an order of their own.
\<close>

record state_codec =
  sc_Encode :: "GatewaySnapshot \<Rightarrow> string option"
  sc_Unmarshal :: "string \<Rightarrow> GatewaySnapshot option"

record state_file =
  sf_Regular :: bool
  sf_Perm :: nat
  sf_Readable :: bool
  sf_Content :: string

definition LoadSnapshot ::
    "state_codec \<Rightarrow> env \<Rightarrow> string \<Rightarrow> state_file option \<Rightarrow> MemoryGateway \<Rightarrow> GatewaySnapshot gateway_result \<times> MemoryGateway" where
  "LoadSnapshot J E path file g =
     (if TrimSpace path = [] then (Inl (GwText ''snapshot path is required''), g)
      else
        (case file of
           None \<Rightarrow> (Inl (GwText ''no such file''), g)
         | Some f \<Rightarrow>
             if \<not> sf_Readable f then (Inl (GwText ''read failed''), g)
             else
               (case sc_Unmarshal J (sf_Content f) of
                  None \<Rightarrow> (Inl (GwText ''decode failed''), g)
                | Some snapshot \<Rightarrow>
                    (case Gateway_RestoreSnapshot E snapshot g of
                       (Inl e, g') \<Rightarrow> (Inl e, g')
                     | (Inr _, g') \<Rightarrow> (Inr snapshot, g')))))"

text \<open>A missing file is not an error: the gateway starts empty.\<close>

definition LoadSnapshotIfExists ::
    "state_codec \<Rightarrow> env \<Rightarrow> string \<Rightarrow> state_file option \<Rightarrow> MemoryGateway \<Rightarrow> GatewaySnapshot option gateway_result \<times> MemoryGateway" where
  "LoadSnapshotIfExists J E path file g =
     (if TrimSpace path = [] then (Inl (GwText ''snapshot path is required''), g)
      else
        (case file of
           None \<Rightarrow> (Inr None, g)
         | Some _ \<Rightarrow>
             (case LoadSnapshot J E path file g of
                (Inl e, g') \<Rightarrow> (Inl e, g')
              | (Inr snapshot, g') \<Rightarrow> (Inr (Some snapshot), g'))))"

definition requireProtectedStateFile :: "state_file option \<Rightarrow> gateway_error option" where
  "requireProtectedStateFile file =
     (case file of
        None \<Rightarrow> None
      | Some f \<Rightarrow>
          if \<not> sf_Regular f then Some (GwText ''gateway state file must be a regular 0600 file'')
          else if sf_Perm f \<noteq> 384 then Some (GwText ''gateway state file must use 0600 permissions'')
          else None)"

definition LoadInto ::
    "state_codec \<Rightarrow> env \<Rightarrow> string \<Rightarrow> state_file option \<Rightarrow> MemoryGateway \<Rightarrow> GatewaySnapshot option gateway_result \<times> MemoryGateway" where
  "LoadInto J E path file g =
     (case requireProtectedStateFile file of
        Some e \<Rightarrow> (Inl e, g)
      | None \<Rightarrow> LoadSnapshotIfExists J E path file g)"

definition NewFileStateStore :: "string \<Rightarrow> string gateway_result" where
  "NewFileStateStore path0 =
     (let path = TrimSpace path0 in
      if path = [] then Inl (GwText ''file state store path is required'') else Inr path)"

text \<open>\<open>written\<close> says whether writing the file succeeds; a written file is a regular 0600 file.\<close>

definition SaveSnapshot ::
    "state_codec \<Rightarrow> env \<Rightarrow> iteration \<Rightarrow> string \<Rightarrow> bool \<Rightarrow> state_file option \<Rightarrow> MemoryGateway
     \<Rightarrow> GatewaySnapshot gateway_result \<times> state_file option \<times> MemoryGateway" where
  "SaveSnapshot J E it path written file g =
     (if TrimSpace path = [] then (Inl (GwText ''snapshot path is required''), file, g)
      else
        (let (snapshot, g') = Gateway_Snapshot E it g in
         case sc_Encode J snapshot of
           None \<Rightarrow> (Inl (GwText ''encode failed''), file, g')
         | Some content \<Rightarrow>
             if \<not> written then (Inl (GwText ''write failed''), file, g')
             else (Inr snapshot,
                   Some \<lparr>sf_Regular = True, sf_Perm = 384, sf_Readable = True, sf_Content = content\<rparr>, g')))"

end
