(* ===== verification/Gateway_System.thy ===== *)
theory Gateway_System
  imports Web_Handoff Gateway_Snapshot "HOL-Library.Sublist"
begin

text \<open>
  The gateway as a transition system, and what every run of it keeps: the audit trail only grows and
  stays numbered, handoffs keep their terms and stay claimed, and the trust bundle only moves
  forward along the hash chain.
\<close>

section \<open>Steps\<close>

text \<open>
  The atomic sections of the gateway: a call of the store (under the store's lock), an audit record,
  and the operations that hold the gateway's own lock throughout. Concurrent methods interleave them;
  Gateway_Calls shows of every method that it is a sequence of them. When a handoff is claimed the
  clock does not show the zero time, and the sequence of an offered bundle is a Go int.
\<close>

definition go_int :: "int \<Rightarrow> bool" where
  "go_int n \<longleftrightarrow> - (2 ^ 63) \<le> n \<and> n < 2 ^ 63"

inductive gateway_step :: "crypto \<Rightarrow> MemoryGateway \<Rightarrow> MemoryGateway \<Rightarrow> bool" for C where
  store: "gateway_step C g (g\<lparr>g_sessionStore := s\<rparr>)" if "s = exec E c (g_sessionStore g)"
| audit: "gateway_step C g (appendAuditLocked now actor action target message g)"
| renew: "gateway_step C g (snd (RenewSignedTrustBundle C E g))"
| update: "gateway_step C g (snd (UpdateSignedTrustBundle C E new g))" if "go_int (sb_Sequence new)"
| create: "gateway_step C g g'" if "CreateWebHandoff C E spec g = Some (r, g')"
| claim: "gateway_step C g (snd (ClaimWebHandoff C E i ttl g))" if "clock_at E 0 \<noteq> 0"
| secrets: "gateway_step C g (g\<lparr>g_notifySecrets := m\<rparr>)"
| taken: "gateway_step C g (snd (Gateway_Snapshot E it g))"

inductive_cases gateway_stepE: "gateway_step C g t"

text \<open>A gateway starts new, or new and restored from a snapshot.\<close>

definition initial_gateway :: "crypto \<Rightarrow> MemoryGateway \<Rightarrow> bool" where
  "initial_gateway C g \<longleftrightarrow> (\<exists>now sid pub priv g0. NewMemoryGatewayWithSigningKey C now sid pub priv = Inr g0
     \<and> (g = g0 \<or> (\<exists>E snapshot. go_int (sb_Sequence (gs_TrustBundle snapshot))
                    \<and> Gateway_RestoreSnapshot E snapshot g0 = (Inr (), g))))"

section \<open>What steps keep\<close>

definition numbered :: "AuditEvent list \<Rightarrow> bool" where
  "numbered es \<longleftrightarrow> (\<forall>k < length es. au_Sequence (es ! k) = int k + 1)"

definition gateway_wf :: "MemoryGateway \<Rightarrow> bool" where
  "gateway_wf g \<longleftrightarrow> numbered (g_audit g) \<and> go_int (sb_Sequence (g_trustBundle g))"

definition same_terms :: "webHandoffState \<Rightarrow> webHandoffState \<Rightarrow> bool" where
  "same_terms h h' \<longleftrightarrow> wh_ID h' = wh_ID h \<and> wh_SessionID h' = wh_SessionID h \<and> wh_Platform h' = wh_Platform h
     \<and> wh_CreatedAt h' = wh_CreatedAt h \<and> wh_ExpiresAt h' = wh_ExpiresAt h"

definition handoffs_le :: "(string \<rightharpoonup> webHandoffState) \<Rightarrow> (string \<rightharpoonup> webHandoffState) \<Rightarrow> bool" where
  "handoffs_le m m' \<longleftrightarrow> (\<forall>i h. m i = Some h \<longrightarrow> (\<exists>h'. m' i = Some h' \<and> same_terms h h' \<and> (wh_ClaimedAt h \<noteq> 0 \<longrightarrow> h' = h)))"

definition follows :: "crypto \<Rightarrow> SignedTrustBundle \<Rightarrow> SignedTrustBundle \<Rightarrow> bool" where
  "follows C b b' \<longleftrightarrow> sb_Sequence b < sb_Sequence b' \<and> Hash C b = Inr (sb_PreviousBundleHash b') \<and> valid_bundle b'"

definition gateway_le :: "crypto \<Rightarrow> MemoryGateway \<Rightarrow> MemoryGateway \<Rightarrow> bool" where
  "gateway_le C g t \<longleftrightarrow> prefix (g_audit g) (g_audit t) \<and> handoffs_le (g_webHandoffs g) (g_webHandoffs t)
     \<and> (follows C)\<^sup>*\<^sup>* (g_trustBundle g) (g_trustBundle t)"

lemma handoffs_le_refl [simp]: "handoffs_le m m"
  by (simp add: handoffs_le_def same_terms_def)

lemma handoffs_le_trans: "handoffs_le m m' \<Longrightarrow> handoffs_le m' m'' \<Longrightarrow> handoffs_le m m''"
  unfolding handoffs_le_def
proof (intro allI impI)
  fix i h
  assume a: "\<forall>i h. m i = Some h \<longrightarrow> (\<exists>h'. m' i = Some h' \<and> same_terms h h' \<and> (wh_ClaimedAt h \<noteq> 0 \<longrightarrow> h' = h))"
    and b: "\<forall>i h. m' i = Some h \<longrightarrow> (\<exists>h'. m'' i = Some h' \<and> same_terms h h' \<and> (wh_ClaimedAt h \<noteq> 0 \<longrightarrow> h' = h))"
    and "m i = Some h"
  then obtain h' where h': "m' i = Some h'" "same_terms h h'" "wh_ClaimedAt h \<noteq> 0 \<longrightarrow> h' = h" by blast
  with b obtain h'' where "m'' i = Some h''" "same_terms h' h''" "wh_ClaimedAt h' \<noteq> 0 \<longrightarrow> h'' = h'" by blast
  with h' show "\<exists>h'. m'' i = Some h' \<and> same_terms h h' \<and> (wh_ClaimedAt h \<noteq> 0 \<longrightarrow> h' = h)"
    by (intro exI [of _ h'']) (auto simp: same_terms_def)
qed

lemma gateway_le_refl: "gateway_le C g g"
  by (simp add: gateway_le_def)

lemma gateway_le_trans: "gateway_le C g t \<Longrightarrow> gateway_le C t u \<Longrightarrow> gateway_le C g u"
  unfolding gateway_le_def by (meson handoffs_le_trans prefix_order.trans rtranclp_trans)

lemma appendAudit_simps [simp]:
  "g_sessionStore (appendAuditLocked now a b c d g) = g_sessionStore g"
  "g_webHandoffs (appendAuditLocked now a b c d g) = g_webHandoffs g"
  "g_trustBundle (appendAuditLocked now a b c d g) = g_trustBundle g"
  "g_notifySecrets (appendAuditLocked now a b c d g) = g_notifySecrets g"
  "g_signingID (appendAuditLocked now a b c d g) = g_signingID g"
  "g_publicKey (appendAuditLocked now a b c d g) = g_publicKey g"
  "g_privateKey (appendAuditLocked now a b c d g) = g_privateKey g"
  "prefix (g_audit g) (g_audit (appendAuditLocked now a b c d g))"
  by (simp_all add: appendAuditLocked_def)

lemma numbered_append [simp]: "numbered (g_audit g) \<Longrightarrow> numbered (g_audit (appendAuditLocked now a b c d g))"
  by (auto simp: numbered_def appendAuditLocked_def nth_append less_Suc_eq)

text \<open>What the operations of the trust bundle do to it.\<close>

definition renewal_spec :: "Time \<Rightarrow> string \<Rightarrow> MemoryGateway \<Rightarrow> SignedTrustBundleSpec" where
  "renewal_spec now h g = \<lparr>sbs_BundleID = sb_BundleID (g_trustBundle g),
     sbs_Sequence = i64 (sb_Sequence (g_trustBundle g) + 1), sbs_NotBefore = now,
     sbs_NotAfter = now + signedTrustBundleLifetime, sbs_PreviousBundleHash = h,
     sbs_Keys = [NewTrustKey (g_signingID g) (g_publicKey g) TrustKeyStatusActive now],
     sbs_SigningKeyID = g_signingID g\<rparr>"

definition renewal_record :: "Time \<Rightarrow> SignedTrustBundle \<Rightarrow> MemoryGateway \<Rightarrow> MemoryGateway" where
  "renewal_record now b g = appendAuditLocked now ''gateway'' ''trust_bundle.renew'' (sb_BundleID b)
     (''renewed trust bundle to sequence '' @ dec_int (sb_Sequence b)) (g\<lparr>g_trustBundle := b\<rparr>)"

lemma RenewSignedTrustBundle_renews:
  assumes "\<not> clock_at E 0 + signedTrustBundleRenewBefore < sb_NotAfter (g_trustBundle g)"
    and "ActiveTrustBundle (g_trustBundle g) (g_signingID g) (clock_at E 0) = Inr root"
    and "Hash C (g_trustBundle g) = Inr h"
    and "NewSignedTrustBundle (renewal_spec (clock_at E 0) h g) (clock_at E 0) = Inr draft"
    and "Sign C draft (g_privateKey g) = Inr b"
  shows "RenewSignedTrustBundle C E g = (Inr (b, True), renewal_record (clock_at E 1) b g)"
  using assms by (simp add: RenewSignedTrustBundle_def Let_def renewal_spec_def renewal_record_def)

lemma RenewSignedTrustBundle_cases:
  obtains (unchanged) "snd (RenewSignedTrustBundle C E g) = g"
  | (renewed) h draft b where "RenewSignedTrustBundle C E g = (Inr (b, True), renewal_record (clock_at E 1) b g)"
      and "Hash C (g_trustBundle g) = Inr h"
      and "NewSignedTrustBundle (renewal_spec (clock_at E 0) h g) (clock_at E 0) = Inr draft"
      and "Sign C draft (g_privateKey g) = Inr b"
proof (cases "clock_at E 0 + signedTrustBundleRenewBefore < sb_NotAfter (g_trustBundle g)")
  case True
  then show thesis by (intro unchanged) (simp add: RenewSignedTrustBundle_def Let_def)
next
  case late: False
  show thesis
  proof (cases "\<exists>root h draft b. ActiveTrustBundle (g_trustBundle g) (g_signingID g) (clock_at E 0) = Inr root
      \<and> Hash C (g_trustBundle g) = Inr h
      \<and> NewSignedTrustBundle (renewal_spec (clock_at E 0) h g) (clock_at E 0) = Inr draft
      \<and> Sign C draft (g_privateKey g) = Inr b")
    case True
    then show thesis using renewed RenewSignedTrustBundle_renews [OF late] by blast
  next
    case False
    then have "snd (RenewSignedTrustBundle C E g) = g"
      using late unfolding renewal_spec_def by (simp add: RenewSignedTrustBundle_def Let_def split: sum.splits) blast
    then show thesis by (rule unchanged)
  qed
qed

lemma signed_fields:
  assumes "Sign C draft priv = Inr b"
  shows "sb_Sequence b = sb_Sequence draft" "sb_PreviousBundleHash b = sb_PreviousBundleHash draft"
    "valid_bundle b" "sb_Keys b = sb_Keys draft" "sb_SigningKeyID b = sb_SigningKeyID draft"
    "sb_NotBefore b = sb_NotBefore draft" "sb_NotAfter b = sb_NotAfter draft" "sb_BundleID b = sb_BundleID draft"
  using assms by (auto simp: Sign_Inr)

lemma i64_successor: "go_int n \<Longrightarrow> 0 < i64 (n + 1) \<Longrightarrow> n < i64 (n + 1) \<and> go_int (i64 (n + 1))"
proof -
  assume n: "go_int n" and pos: "0 < i64 (n + 1)"
  show ?thesis
  proof (cases "n + 1 < 2 ^ 63")
    case True
    then have "i64 (n + 1) = n + 1" using n by (intro i64_id) (auto simp: go_int_def)
    then show ?thesis using True n by (simp add: go_int_def)
  next
    case False
    then have "n + 1 = 2 ^ 63" using n by (simp add: go_int_def)
    then have "i64 (n + 1) = - (2 ^ 63)" by (simp add: i64_def)
    then show ?thesis using pos by simp
  qed
qed

lemma renewal_follows:
  assumes "go_int (sb_Sequence (g_trustBundle g))" "Hash C (g_trustBundle g) = Inr h"
    and draft: "NewSignedTrustBundle (renewal_spec now h g) now = Inr draft" and "Sign C draft priv = Inr b"
  shows "follows C (g_trustBundle g) b" and "go_int (sb_Sequence b)"
proof -
  note d = NewSignedTrustBundle_Inr [OF draft]
  have seq: "sb_Sequence b = i64 (sb_Sequence (g_trustBundle g) + 1)"
    using d(3) signed_fields(1) [OF assms(4)] by (simp add: renewal_spec_def)
  have "0 < sb_Sequence b" using signed_fields(3) [OF assms(4)] by (simp add: valid_bundle_def)
  then have "sb_Sequence (g_trustBundle g) < sb_Sequence b \<and> go_int (sb_Sequence b)"
    using i64_successor [OF assms(1)] by (simp add: seq)
  moreover have "sb_PreviousBundleHash b = h"
    using d(4) signed_fields(2) [OF assms(4)] by (simp add: renewal_spec_def)
  ultimately show "follows C (g_trustBundle g) b" "go_int (sb_Sequence b)"
    using assms(2) signed_fields(3) [OF assms(4)] by (simp_all add: follows_def)
qed

lemma renew_step:
  assumes "gateway_wf g"
  shows "gateway_wf (snd (RenewSignedTrustBundle C E g)) \<and> gateway_le C g (snd (RenewSignedTrustBundle C E g))"
proof (cases rule: RenewSignedTrustBundle_cases [of C E g])
  case unchanged
  then show ?thesis using assms by (simp add: gateway_le_refl)
next
  case (renewed h draft b)
  from renewal_follows [OF _ renewed(2-4)] assms have b: "follows C (g_trustBundle g) b" "go_int (sb_Sequence b)"
    by (simp_all add: gateway_wf_def)
  have "numbered (g_audit (renewal_record (clock_at E 1) b g))"
    unfolding renewal_record_def by (rule numbered_append) (use assms in \<open>simp add: gateway_wf_def\<close>)
  moreover have "prefix (g_audit g) (g_audit (renewal_record (clock_at E 1) b g))"
    unfolding renewal_record_def using appendAudit_simps(8) [of "g\<lparr>g_trustBundle := b\<rparr>"] by simp
  ultimately show ?thesis
    using b by (simp add: renewed(1) gateway_wf_def gateway_le_def) (simp add: renewal_record_def r_into_rtranclp)
qed

lemma update_step:
  assumes "gateway_wf g" and "go_int (sb_Sequence new)"
  shows "gateway_wf (snd (UpdateSignedTrustBundle C E new g)) \<and> gateway_le C g (snd (UpdateSignedTrustBundle C E new g))"
proof (cases "\<exists>root. ActiveTrustBundle (g_trustBundle g) (sb_SigningKeyID new) (clock_at E 0) = Inr root
    \<and> VerifyUpdate C new (g_trustBundle g) root (clock_at E 1) = None")
  case True
  then have "follows C (g_trustBundle g) new"
    by (auto simp: VerifyUpdate_None Verify_None follows_def)
  moreover obtain msg where "snd (UpdateSignedTrustBundle C E new g) =
      appendAuditLocked (clock_at E 2) ''operator'' ''trust_bundle.update'' (sb_BundleID new) msg (g\<lparr>g_trustBundle := new\<rparr>)"
    using True by (auto simp: UpdateSignedTrustBundle_def)
  ultimately show ?thesis
    using assms numbered_append [of "g\<lparr>g_trustBundle := new\<rparr>"] appendAudit_simps(8) [of "g\<lparr>g_trustBundle := new\<rparr>"]
    by (simp add: gateway_wf_def gateway_le_def r_into_rtranclp)
next
  case False
  then have "snd (UpdateSignedTrustBundle C E new g) = g"
    by (auto simp: UpdateSignedTrustBundle_def split: sum.splits option.splits)
  then show ?thesis using assms by (simp add: gateway_le_refl)
qed

text \<open>A draw that returns an identifier returns one that is free.\<close>

lemma drawIdentifier_free:
  assumes "drawIdentifier E m k = Some (Inr i)"
  shows "m i = None"
proof -
  have "\<forall>i. r = Inr i \<longrightarrow> m i = None" if "drawIdentifier E m k = Some r" for r
    by (rule drawIdentifier.raw_induct [OF _ that, where P = "\<lambda>E m k r. \<forall>i. r = Inr i \<longrightarrow> m i = None"])
      (auto split: option.splits if_splits)
  then show ?thesis using assms by blast
qed

lemma handoffs_le_fresh: "m i = None \<Longrightarrow> handoffs_le m (m(i \<mapsto> h))"
  by (auto simp: handoffs_le_def same_terms_def)

lemma handoffs_le_claim: "m i = Some h \<Longrightarrow> wh_ClaimedAt h = 0 \<Longrightarrow> same_terms h h' \<Longrightarrow> handoffs_le m (m(i \<mapsto> h'))"
  by (auto simp: handoffs_le_def same_terms_def)

text \<open>Both handoff operations touch the store, the handoffs and the audit trail only.\<close>

lemma gateway_step_by:
  assumes "gateway_wf g" "g_trustBundle t = g_trustBundle g" "handoffs_le (g_webHandoffs g) (g_webHandoffs t)"
    and "g_audit t = g_audit g \<or> (\<exists>now a b c d u. g_audit u = g_audit g \<and> t = appendAuditLocked now a b c d u)"
  shows "gateway_wf t \<and> gateway_le C g t"
proof -
  have "prefix (g_audit g) (g_audit t) \<and> numbered (g_audit t)"
    using assms(4)
  proof
    assume "\<exists>now a b c d u. g_audit u = g_audit g \<and> t = appendAuditLocked now a b c d u"
    then obtain now a b c d u where "g_audit u = g_audit g" "t = appendAuditLocked now a b c d u" by blast
    then show ?thesis
      using assms(1) numbered_append [of u now a b c d] appendAudit_simps(8) [of u now a b c d] by (simp add: gateway_wf_def)
  qed (use assms(1) in \<open>simp add: gateway_wf_def\<close>)
  then show ?thesis using assms(1-3) by (simp add: gateway_wf_def gateway_le_def)
qed

lemma CreateWebHandoff_cases:
  assumes "CreateWebHandoff C E spec g = Some (r, t)"
  obtains (refused) e s where "r = Inl e" "t = g\<lparr>g_sessionStore := s\<rparr>"
  | (created) s session h now msg where
      "getSession (env_from 1 E) (wh_SessionID h) (g_sessionStore g) = (Inr session, s)"
      "webHandoffSessionJoinable session (clock_at E 0)"
      "r = Inr (WebHandoff.truncate h)" "g_webHandoffs g (wh_ID h) = None"
      "wh_ClaimedAt h = 0" "wh_ArtifactTicketExpiresAt h = 0" "wh_CreatedAt h = clock_at E 0"
      "clock_at E 0 < wh_ExpiresAt h" "wh_ExpiresAt h \<le> whp_ExpiresAt spec"
      "ses_ExpiresAt session \<noteq> 0 \<longrightarrow> wh_ExpiresAt h \<le> ses_ExpiresAt session"
      "t = appendAuditLocked now ''operator'' ''web_handoff.create'' msg ''created a short-lived browser host handoff''
         (g\<lparr>g_sessionStore := s, g_webHandoffs := (g_webHandoffs g)(wh_ID h \<mapsto> h)\<rparr>)"
proof -
  let ?sid = "TrimSpace (whp_SessionID spec)" and ?platform = "TrimSpace (whp_Platform spec)"
  show thesis
  proof (cases "?sid = [] \<or> ?platform \<noteq> WebHandoffPlatformWindowsAMD64 \<or> IsZero (whp_ExpiresAt spec)
      \<or> \<not> whp_ExpiresAt spec > clock_at E 0")
    case True
    then have "\<exists>e. r = Inl e \<and> t = g\<lparr>g_sessionStore := g_sessionStore g\<rparr>"
      using assms by (auto simp: CreateWebHandoff_def Let_def split: if_splits)
    then show thesis using refused by blast
  next
    case ok: False
    obtain q s where get: "getSession (env_from 1 E) ?sid (g_sessionStore g) = (q, s)" by fastforce
    show thesis
    proof (cases q)
      case (Inl e)
      then show thesis using assms ok get by (intro refused) (auto simp: CreateWebHandoff_def Let_def)
    next
      case (Inr session)
      let ?until = "if \<not> IsZero (ses_ExpiresAt session) \<and> whp_ExpiresAt spec > ses_ExpiresAt session
        then ses_ExpiresAt session else whp_ExpiresAt spec"
      let ?draw = "drawIdentifier (env_from 10 E) (g_webHandoffs g) 0"
      show thesis
      proof (cases "webHandoffSessionJoinable session (clock_at E 0) \<and> (\<exists>i. ?draw = Some (Inr i))")
        case False
        then have "\<exists>e. r = Inl e \<and> t = g\<lparr>g_sessionStore := s\<rparr>" using assms ok get Inr
          by (auto simp: CreateWebHandoff_def Let_def split: if_splits option.splits sum.splits)
        then show thesis using refused by blast
      next
        case True
        then obtain i where i: "?draw = Some (Inr i)" by blast
        let ?h = "\<lparr>wh_SchemaVersion = WebHandoffSchemaVersion, wh_ID = i, wh_SessionID = ?sid,
          wh_Platform = ?platform, wh_CreatedAt = clock_at E 0, wh_ExpiresAt = ?until,
          wh_ClaimedAt = 0, wh_ArtifactTicketExpiresAt = 0, whs_artifactTicketHash = replicate 32 (CHR 0x00)\<rparr>"
        have "clock_at E 0 < ?until" using True ok by (auto simp: webHandoffSessionJoinable_def split: if_splits)
        then show thesis using assms ok get Inr True i drawIdentifier_free [OF i]
          by (intro created [of ?h session s]) (auto simp: CreateWebHandoff_def Let_def IsZero_def)
      qed
    qed
  qed
qed

lemma create_step:
  assumes "gateway_wf g" and "CreateWebHandoff C E spec g = Some (r, t)"
  shows "gateway_wf t \<and> gateway_le C g t"
  using assms(2)
proof (cases rule: CreateWebHandoff_cases)
  case (refused e s)
  then show ?thesis by (intro gateway_step_by [OF assms(1)]) simp_all
next
  case (created s session h now msg)
  let ?u = "g\<lparr>g_sessionStore := s, g_webHandoffs := (g_webHandoffs g)(wh_ID h \<mapsto> h)\<rparr>"
  have "g_audit ?u = g_audit g" by simp
  moreover have "handoffs_le (g_webHandoffs g) (g_webHandoffs t)"
    using created(4,11) by (simp add: handoffs_le_fresh)
  ultimately show ?thesis using created(11)
    by (intro gateway_step_by [OF assms(1)]) (simp, blast+)
qed

lemma ClaimWebHandoff_cases:
  obtains (refused) e s where "ClaimWebHandoff C E i0 ttl g = (Inl e, g\<lparr>g_sessionStore := s\<rparr>)"
  | (claimed) h h' ticket s msg where "g_webHandoffs g (TrimSpace i0) = Some h" "wh_ClaimedAt h = 0" "0 < ttl"
      "clock_at E 0 < wh_ExpiresAt h" "newWebHandoffSecret (rand_at E 10) = Some ticket"
      "h' = h\<lparr>wh_ClaimedAt := clock_at E 0,
         wh_ArtifactTicketExpiresAt := min (clock_at E 0 + min ttl webHandoffMaxArtifactTicketTTL) (wh_ExpiresAt h),
         whs_artifactTicketHash := sha256_Sum256 C ticket\<rparr>"
      "ClaimWebHandoff C E i0 ttl g = (Inr (WebHandoff.truncate h', ticket),
         appendAuditLocked (clock_at E 10) ''handoff'' ''web_handoff.claim'' msg
           ''claimed browser host handoff and issued artifact ticket''
           (g\<lparr>g_sessionStore := s, g_webHandoffs := (g_webHandoffs g)(TrimSpace i0 \<mapsto> h')\<rparr>))"
proof -
  have same: "g\<lparr>g_sessionStore := g_sessionStore g\<rparr> = g" by simp
  show thesis
  proof (cases "TrimSpace i0 = [] \<or> ttl \<le> 0 \<or> g_webHandoffs g (TrimSpace i0) = None")
    case True
    then show thesis
      by (intro refused [of ErrWebHandoffNotFound "g_sessionStore g"]) (auto simp: ClaimWebHandoff_def Let_def)
  next
    case False
    then obtain h where h: "g_webHandoffs g (TrimSpace i0) = Some h" "TrimSpace i0 \<noteq> []" "0 < ttl" by auto
    show thesis
    proof (cases "clock_at E 0 < wh_ExpiresAt h \<and> wh_ClaimedAt h = 0")
      case False
      then show thesis using same h
        by (intro refused [of "if clock_at E 0 < wh_ExpiresAt h then ErrWebHandoffClaimed else ErrWebHandoffExpired"
              "g_sessionStore g"]) (auto simp: ClaimWebHandoff_def Let_def IsZero_def)
    next
      case live: True
      obtain q s where get: "getSession (env_from 1 E) (wh_SessionID h) (g_sessionStore g) = (q, s)" by fastforce
      show thesis
      proof (cases "\<exists>session ticket. q = Inr session \<and> webHandoffSessionJoinable session (clock_at E 0)
          \<and> newWebHandoffSecret (rand_at E 10) = Some ticket")
        case False
        then have "\<exists>e. ClaimWebHandoff C E i0 ttl g = (Inl e, g\<lparr>g_sessionStore := s\<rparr>)"
          using h live get by (cases q) (auto simp: ClaimWebHandoff_def Let_def IsZero_def split: option.splits)
        then show thesis using refused by blast
      next
        case True
        then obtain session ticket where q: "q = Inr session" "webHandoffSessionJoinable session (clock_at E 0)"
            "newWebHandoffSecret (rand_at E 10) = Some ticket" by blast
        show thesis
          by (rule claimed [OF h(1) _ h(3) _ q(3) refl, where s = s and msg = "webHandoffAuditTarget C (TrimSpace i0)"])
            (use h live get q in \<open>simp_all add: ClaimWebHandoff_def Let_def IsZero_def claimTTL_def min_def\<close>)
      qed
    qed
  qed
qed

lemma claim_step:
  assumes "gateway_wf g"
  shows "gateway_wf (snd (ClaimWebHandoff C E i0 ttl g)) \<and> gateway_le C g (snd (ClaimWebHandoff C E i0 ttl g))"
proof (cases rule: ClaimWebHandoff_cases [of C E i0 ttl g])
  case (refused e s)
  then show ?thesis by (intro gateway_step_by [OF assms]) simp_all
next
  case (claimed h h' ticket s msg)
  have "handoffs_le (g_webHandoffs g) ((g_webHandoffs g)(TrimSpace i0 \<mapsto> h'))"
    using claimed(1,2) by (rule handoffs_le_claim) (simp add: claimed(6) same_terms_def)
  moreover have "g_audit (g\<lparr>g_sessionStore := s, g_webHandoffs := (g_webHandoffs g)(TrimSpace i0 \<mapsto> h')\<rparr>) = g_audit g"
    by simp
  ultimately show ?thesis
    unfolding claimed(7) snd_conv by (intro gateway_step_by [OF assms]) (simp, simp, blast)
qed

lemma step_keeps:
  assumes "gateway_step C g t" and "gateway_wf g"
  shows "gateway_wf t \<and> gateway_le C g t"
  using assms(1)
proof (cases rule: gateway_step.cases)
  case (audit now actor action target message)
  then show ?thesis
    using assms(2) by (simp add: gateway_wf_def gateway_le_def)
next
  case (create E spec r)
  then show ?thesis using create_step [OF assms(2)] by blast
next
  case (store s E c)
  then show ?thesis using assms(2) by (simp add: gateway_wf_def gateway_le_def)
next
  case (secrets m)
  then show ?thesis using assms(2) by (simp add: gateway_wf_def gateway_le_def)
next
  case (taken E it)
  then show ?thesis
    using assms(2) by (simp add: gateway_wf_def gateway_le_def Gateway_Snapshot_def snapshotLocked_def case_prod_beta)
qed (use assms(2) in \<open>simp_all add: renew_step update_step claim_step\<close>)

lemma auditGap_None: "auditGap n es = None \<longleftrightarrow> (\<forall>k < length es. au_Sequence (es ! k) = int (n + k) + 1)"
proof (induction es arbitrary: n)
  case (Cons e es)
  have "(\<forall>k < length (e # es). au_Sequence ((e # es) ! k) = int (n + k) + 1) \<longleftrightarrow>
      au_Sequence e = int n + 1 \<and> (\<forall>k < length es. au_Sequence (es ! k) = int (Suc n + k) + 1)"
    by (auto simp: nth_Cons less_Suc_eq_0_disj split: nat.splits)
  then show ?case using Cons by simp
qed simp

lemma validateSnapshot_None:
  assumes "validateSnapshot E snapshot g = None"
  shows "numbered (gs_Audit snapshot)" and "gs_SchemaVersion snapshot = GatewaySnapshotSchemaVersion"
    and "\<exists>k. Key (gs_TrustBundle snapshot) (g_signingID g) = Some k \<and> ActiveAt k (clock_at E 0)
           \<and> base64url_decode (tkey_PublicKey k) = Some (g_publicKey g)"
    and "\<exists>s. RestoreSnapshot (gs_ControlPlane snapshot) NewMemoryStore = (Inr (), s)"
proof -
  have "gs_SchemaVersion snapshot = GatewaySnapshotSchemaVersion \<and> numbered (gs_Audit snapshot)
    \<and> (\<exists>k. Key (gs_TrustBundle snapshot) (g_signingID g) = Some k \<and> ActiveAt k (clock_at E 0)
           \<and> base64url_decode (tkey_PublicKey k) = Some (g_publicKey g))
    \<and> (\<exists>s. RestoreSnapshot (gs_ControlPlane snapshot) NewMemoryStore = (Inr (), s))"
    using assms unfolding validateSnapshot_def
    by (auto simp: numbered_def auditGap_None ActiveTrustBundle_Inr Ed25519PublicKey_Inr TrustKey_TrustBundle_def
        prod_eq_iff split: if_splits sum.splits option.splits)
  then show "numbered (gs_Audit snapshot)" "gs_SchemaVersion snapshot = GatewaySnapshotSchemaVersion"
    "\<exists>k. Key (gs_TrustBundle snapshot) (g_signingID g) = Some k \<and> ActiveAt k (clock_at E 0)
           \<and> base64url_decode (tkey_PublicKey k) = Some (g_publicKey g)"
    "\<exists>s. RestoreSnapshot (gs_ControlPlane snapshot) NewMemoryStore = (Inr (), s)"
    by simp_all
qed

lemma Gateway_RestoreSnapshot_Inr:
  assumes "Gateway_RestoreSnapshot E snapshot g = (Inr (), t)"
  shows "validateSnapshot E snapshot g = None"
    and "\<exists>s. RestoreSnapshot (gs_ControlPlane snapshot) NewMemoryStore = (Inr (), s)
      \<and> t = g\<lparr>g_sessionStore := s, g_audit := gs_Audit snapshot,
             g_trustBundle := gs_TrustBundle snapshot, g_notifySecrets := gs_NotifySecrets snapshot\<rparr>"
  using assms by (auto simp: Gateway_RestoreSnapshot_def split: option.splits sum.splits prod.splits)

lemma initial_bundle:
  assumes "initialSignedTrustBundle C kid pub priv now = Inr b"
  shows "sb_Sequence b = 1" and "valid_bundle b" and "sb_Keys b = [NewTrustKey kid pub TrustKeyStatusActive now]"
proof -
  let ?spec = "\<lparr>sbs_BundleID = ''dev-gateway'', sbs_Sequence = 1, sbs_NotBefore = now,
     sbs_NotAfter = now + signedTrustBundleLifetime, sbs_PreviousBundleHash = [],
     sbs_Keys = [NewTrustKey kid pub TrustKeyStatusActive now], sbs_SigningKeyID = kid\<rparr>"
  obtain draft where draft: "NewSignedTrustBundle ?spec now = Inr draft" "Sign C draft priv = Inr b"
    using assms unfolding initialSignedTrustBundle_def by (cases "NewSignedTrustBundle ?spec now") auto
  show "sb_Sequence b = 1" "valid_bundle b" "sb_Keys b = [NewTrustKey kid pub TrustKeyStatusActive now]"
    using signed_fields [OF draft(2)] NewSignedTrustBundle_Inr(3,5) [OF draft(1)] by simp_all
qed

lemma initial_wf:
  assumes "initial_gateway C g"
  shows "gateway_wf g"
proof -
  obtain now sid pub priv g0 where g0: "NewMemoryGatewayWithSigningKey C now sid pub priv = Inr g0"
    and g: "g = g0 \<or> (\<exists>E snapshot. go_int (sb_Sequence (gs_TrustBundle snapshot))
                    \<and> Gateway_RestoreSnapshot E snapshot g0 = (Inr (), g))"
    using assms unfolding initial_gateway_def by blast
  have "g_audit g0 = []" "sb_Sequence (g_trustBundle g0) = 1"
    using g0 by (auto simp: NewMemoryGatewayWithSigningKey_def Let_def
        dest: initial_bundle(1) split: if_splits sum.splits)
  then have "gateway_wf g0" by (simp add: gateway_wf_def numbered_def go_int_def)
  moreover have "gateway_wf g" if seq: "go_int (sb_Sequence (gs_TrustBundle snapshot))"
      and rs: "Gateway_RestoreSnapshot E snapshot g0 = (Inr (), g)" for E snapshot
  proof -
    have "numbered (gs_Audit snapshot)"
      by (rule validateSnapshot_None(1) [OF Gateway_RestoreSnapshot_Inr(1) [OF rs]])
    moreover obtain s where "g = g0\<lparr>g_sessionStore := s, g_audit := gs_Audit snapshot,
        g_trustBundle := gs_TrustBundle snapshot, g_notifySecrets := gs_NotifySecrets snapshot\<rparr>"
      using Gateway_RestoreSnapshot_Inr(2) [OF rs] by blast
    ultimately show ?thesis using seq by (simp add: gateway_wf_def)
  qed
  ultimately show ?thesis using g by blast
qed

interpretation gateway: monotone_system "initial_gateway C" "gateway_step C" gateway_wf "gateway_le C" for C
  by unfold_locales
    (use step_keeps initial_wf gateway_le_refl gateway_le_trans in blast)+

end
