(* ===== verification/Gateway_Calls.thy ===== *)
theory Gateway_Calls
  imports Gateway_System
begin

text \<open>
  The gateway's public methods as calls: \<open>gateway_exec\<close> runs the method a call names, as it is defined
  from the source. A run of the gateway is made of such calls and, where the calls of several clients
  overlap, of the atomic sections that the calls consist of; \<open>gateway_exec_sections\<close> shows of every
  method that it consists of them.
\<close>

section \<open>Calls\<close>

datatype gateway_call =
    GCreateSession SessionSpec
  | GSession string
  | GJoinSessionByCode string EndpointSpec
  | GJoinSession string EndpointSpec
  | GAppendSessionEvent string Event
  | GSessionEventsAfter string EventCursor gint
  | GSessionEventsAfterForAgent string u64 gint
  | GValidateSessionLease string string string
  | GSubmitSessionTask string TaskSpec
  | GCancelSessionTask string string string string
  | GResumeSessionTask string string string string
  | GCompleteSessionTask string string payload
  | GMarkSessionTaskRunning string string
  | GUpsertSessionArtifact string ArtifactRef
  | GCloseSession string
  | GRevokeSession string
  | GCompactSessionEvents string u64
  | GRenameHost "string list" string string
  | GSetSessionNotifyURL unicode "string \<Rightarrow> url_parts option" string string
  | GPostNotification delivery string
  | GAppendAudit string string string string
  | GRenewSignedTrustBundle
  | GUpdateSignedTrustBundle SignedTrustBundle
  | GCreateWebHandoff WebHandoffSpec
  | GClaimWebHandoff string Duration
  | GSnapshot iteration

text \<open>Creating a handoff may draw identifiers forever; every other method returns.\<close>

fun gateway_exec :: "crypto \<Rightarrow> env \<Rightarrow> gateway_call \<Rightarrow> MemoryGateway \<Rightarrow> MemoryGateway option" where
  "gateway_exec C E (GCreateSession spec) g = Some (snd (Gateway_CreateSession E spec g))"
| "gateway_exec C E (GSession sid) g = Some (snd (Gateway_Session E sid g))"
| "gateway_exec C E (GJoinSessionByCode code spec) g = Some (snd (JoinSessionByCode E code spec g))"
| "gateway_exec C E (GJoinSession sid spec) g = Some (snd (Gateway_JoinSession E sid spec g))"
| "gateway_exec C E (GAppendSessionEvent sid event) g = Some (snd (AppendSessionEvent E sid event g))"
| "gateway_exec C E (GSessionEventsAfter sid cursor limit) g = Some (snd (SessionEventsAfter E sid cursor limit g))"
| "gateway_exec C E (GSessionEventsAfterForAgent sid n limit) g = Some (snd (SessionEventsAfterForAgent E sid n limit g))"
| "gateway_exec C E (GValidateSessionLease sid eid secret) g = Some (snd (ValidateSessionLease E sid eid secret g))"
| "gateway_exec C E (GSubmitSessionTask sid spec) g = Some (snd (SubmitSessionTask E sid spec g))"
| "gateway_exec C E (GCancelSessionTask sid tid reason key) g = Some (snd (CancelSessionTask E sid tid reason key g))"
| "gateway_exec C E (GResumeSessionTask sid tid cid key) g = Some (snd (ResumeSessionTask E sid tid cid key g))"
| "gateway_exec C E (GCompleteSessionTask sid tid res) g = Some (snd (CompleteSessionTask E sid tid res g))"
| "gateway_exec C E (GMarkSessionTaskRunning sid tid) g = Some (snd (MarkSessionTaskRunning E sid tid g))"
| "gateway_exec C E (GUpsertSessionArtifact sid ref) g = Some (snd (UpsertSessionArtifact E sid ref g))"
| "gateway_exec C E (GCloseSession sid) g = Some (snd (Gateway_CloseSession E sid g))"
| "gateway_exec C E (GRevokeSession sid) g = Some (snd (Gateway_RevokeSession E sid g))"
| "gateway_exec C E (GCompactSessionEvents sid n) g = Some (snd (CompactSessionEvents sid n g))"
| "gateway_exec C E (GRenameHost order hid name) g = Some (snd (Gateway_RenameHost E order hid name g))"
| "gateway_exec C E (GSetSessionNotifyURL U parse sid url) g = Some (snd (Gateway_SetSessionNotifyURL U parse E sid url g))"
| "gateway_exec C E (GPostNotification d sid) g = Some (postNotification (clock_at E 0) d sid g)"
| "gateway_exec C E (GAppendAudit actor action target message) g = Some (AppendAudit (clock_at E 0) actor action target message g)"
| "gateway_exec C E GRenewSignedTrustBundle g = Some (snd (RenewSignedTrustBundle C E g))"
| "gateway_exec C E (GUpdateSignedTrustBundle new) g = Some (snd (UpdateSignedTrustBundle C E new g))"
| "gateway_exec C E (GCreateWebHandoff spec) g = map_option snd (CreateWebHandoff C E spec g)"
| "gateway_exec C E (GClaimWebHandoff hid ttl) g = Some (snd (ClaimWebHandoff C E hid ttl g))"
| "gateway_exec C E (GSnapshot it) g = Some (snd (Gateway_Snapshot E it g))"

text \<open>
  What is asked of a call: the sequence of an offered bundle is a Go int, and the clock does not show
  the zero time when a handoff is claimed (the claimed flag is the time of the claim).
\<close>

fun gateway_call_ok :: "env \<Rightarrow> gateway_call \<Rightarrow> bool" where
  "gateway_call_ok E (GUpdateSignedTrustBundle new) = go_int (sb_Sequence new)"
| "gateway_call_ok E (GClaimWebHandoff hid ttl) = (clock_at E 0 \<noteq> 0)"
| "gateway_call_ok E _ = True"

inductive gateway_move :: "crypto \<Rightarrow> MemoryGateway \<Rightarrow> MemoryGateway \<Rightarrow> bool" for C where
  whole: "gateway_move C g t" if "gateway_call_ok E c" "gateway_exec C E c g = Some t"
| interleaved: "gateway_move C g t" if "gateway_step C g t"

section \<open>Every method consists of atomic sections\<close>

lemma with_store_sections:
  assumes "\<And>s. snd (f s) = exec E c s"
  shows "(gateway_step C)\<^sup>*\<^sup>* g (snd (with_store f g))"
  using gateway_step.store [OF refl, of C g E c] assms
  by (simp add: with_store_def case_prod_beta r_into_rtranclp)

lemma audited_sections:
  assumes "(gateway_step C)\<^sup>*\<^sup>* g (snd rg)"
  shows "(gateway_step C)\<^sup>*\<^sup>* g (snd (audited now actor action target message rg))"
  using assms rtranclp.rtrancl_into_rtrancl [OF assms gateway_step.audit]
  by (auto simp: audited_def split: prod.split sum.split)

lemma store_section:
  "snd r = exec E c (g_sessionStore g) \<Longrightarrow> (gateway_step C)\<^sup>*\<^sup>* g (g\<lparr>g_sessionStore := snd r\<rparr>)"
  by (simp add: r_into_rtranclp gateway_step.store)

lemma notify_sections:
  "(gateway_step C)\<^sup>*\<^sup>* g (snd (Gateway_SetSessionNotifyURL U parse E sid url g))"
proof (cases "notifyTarget U parse (TrimSpace url)")
  case (Inr target)
  obtain rawURL secret where target: "target = (rawURL, secret)" by fastforce
  let ?store = "SetSessionNotifyURL (env_from 1 E) sid rawURL (g_sessionStore g)"
  let ?g1 = "g\<lparr>g_sessionStore := snd ?store\<rparr>"
  have stored: "(gateway_step C)\<^sup>*\<^sup>* g ?g1"
    by (rule store_section [where E = "env_from 1 E" and c = "CSetSessionNotifyURL sid rawURL"]) simp
  have kept: "(gateway_step C)\<^sup>*\<^sup>* g (appendAuditLocked now a b c d (?g1\<lparr>g_notifySecrets := m\<rparr>))" for now a b c d m
    by (rule rtranclp.rtrancl_into_rtrancl [OF rtranclp.rtrancl_into_rtrancl [OF stored gateway_step.secrets] gateway_step.audit])
  show ?thesis
  proof (cases "fst ?store")
    case (Inl e)
    then show ?thesis
      using stored by (simp add: Gateway_SetSessionNotifyURL_def Inr target case_prod_beta split: sum.split)
  next
    case ok: (Inr u)
    show ?thesis
      using kept ok by (cases "rawURL = []") (simp_all add: Gateway_SetSessionNotifyURL_def Inr target case_prod_beta Let_def)
  qed
qed (simp add: Gateway_SetSessionNotifyURL_def)

lemma post_sections: "(gateway_step C)\<^sup>*\<^sup>* g (postNotification now d sid g)"
  by (auto simp: postNotification_def intro!: r_into_rtranclp gateway_step.audit split: delivery.split)

lemma session_sections:
  "(gateway_step C)\<^sup>*\<^sup>* g (snd (Gateway_CreateSession E spec g))"
  "(gateway_step C)\<^sup>*\<^sup>* g (snd (Gateway_Session E sid g))"
  "(gateway_step C)\<^sup>*\<^sup>* g (snd (JoinSessionByCode E code espec g))"
  "(gateway_step C)\<^sup>*\<^sup>* g (snd (Gateway_JoinSession E sid espec g))"
  "(gateway_step C)\<^sup>*\<^sup>* g (snd (AppendSessionEvent E sid event g))"
  "(gateway_step C)\<^sup>*\<^sup>* g (snd (SessionEventsAfter E sid cursor limit g))"
  "(gateway_step C)\<^sup>*\<^sup>* g (snd (SessionEventsAfterForAgent E sid n limit g))"
  "(gateway_step C)\<^sup>*\<^sup>* g (snd (ValidateSessionLease E sid eid secret g))"
  "(gateway_step C)\<^sup>*\<^sup>* g (snd (Gateway_CloseSession E sid g))"
  "(gateway_step C)\<^sup>*\<^sup>* g (snd (Gateway_RevokeSession E sid g))"
  "(gateway_step C)\<^sup>*\<^sup>* g (snd (CompactSessionEvents sid n g))"
  "(gateway_step C)\<^sup>*\<^sup>* g (snd (Gateway_RenameHost E order hid name g))"
  unfolding Gateway_CreateSession_def Gateway_Session_def JoinSessionByCode_def Gateway_JoinSession_def
    AppendSessionEvent_def ValidateSessionLease_def Gateway_CloseSession_def Gateway_RevokeSession_def
    CompactSessionEvents_def Gateway_RenameHost_def SessionEventsAfter_def SessionEventsAfterForAgent_def
    case_prod_beta snd_conv Let_def
  by (rule audited_sections with_store_sections store_section, (rule audited_sections with_store_sections)?,
      rule exec.simps [symmetric])+

lemma task_sections:
  "(gateway_step C)\<^sup>*\<^sup>* g (snd (SubmitSessionTask E sid tspec g))"
  "(gateway_step C)\<^sup>*\<^sup>* g (snd (CancelSessionTask E sid tid reason key g))"
  "(gateway_step C)\<^sup>*\<^sup>* g (snd (ResumeSessionTask E sid tid cid key g))"
  "(gateway_step C)\<^sup>*\<^sup>* g (snd (CompleteSessionTask E sid tid res g))"
  "(gateway_step C)\<^sup>*\<^sup>* g (snd (MarkSessionTaskRunning E sid tid g))"
  "(gateway_step C)\<^sup>*\<^sup>* g (snd (UpsertSessionArtifact E sid ref g))"
  unfolding SubmitSessionTask_def CancelSessionTask_def ResumeSessionTask_def CompleteSessionTask_def
    MarkSessionTaskRunning_def UpsertSessionArtifact_def
  by (rule audited_sections with_store_sections, (rule with_store_sections)?, rule exec.simps [symmetric])+

lemma gateway_exec_sections:
  assumes "gateway_exec C E c g = Some t" and "gateway_call_ok E c"
  shows "(gateway_step C)\<^sup>*\<^sup>* g t"
  using assms
  by (cases c)
    (auto simp: AppendAudit_def intro: session_sections task_sections notify_sections post_sections
      r_into_rtranclp [of "gateway_step C"] gateway_step.intros)

lemma move_sections: "gateway_move C g t \<Longrightarrow> (gateway_step C)\<^sup>*\<^sup>* g t"
  by (auto elim!: gateway_move.cases intro: gateway_exec_sections)

interpretation gateway_calls: monotone_system "initial_gateway C" "gateway_move C" gateway_wf "gateway_le C" for C
  by unfold_locales
    (use initial_wf gateway.run_inv gateway.run_le move_sections gateway_le_refl gateway_le_trans in blast)+

end
