(* ===== verification/Audit_Properties.thy ===== *)
theory Audit_Properties
  imports Audit_Chain
begin

text \<open>
  The chain commits to the events: verification accepts exactly what exporting produces, and two
  verified chains with the same root hash hold the same encoded events unless SHA-256 collides.
  What is appended to the event file is what reading it returns.
\<close>

section \<open>Verifying is the inverse of exporting\<close>

lemma verifyEntries_export:
  "verifyEntries C K i p entries = Inr root \<longleftrightarrow> exportEntries C K p (map ce_Event entries) = Inr (entries, root)"
proof (induction entries arbitrary: i p)
  case (Cons entry entries)
  show ?case
  proof (cases "hashJSON C K (ce_Event entry)")
    case (Inr h)
    show ?thesis
      by (cases entry) (auto simp: Inr Cons.IH Let_def split: sum.splits)
  qed simp
qed simp

text \<open>
  Verifying a chain accepts exactly the chains that exporting its own events produces, so any
  change to an event, a hash, the order, the count or the root is refused unless it gives a chain
  that exporting could have produced.
\<close>

theorem verify_chain_exact:
  "VerifyChain C K c = None \<longleftrightarrow> ExportChain C K (map ce_Event (ch_Entries c)) (ch_GeneratedAt c) = Inr c"
proof -
  have "VerifyChain C K c = None \<longleftrightarrow> ch_SchemaVersion c = ChainSchemaVersion
      \<and> ch_EventCount c = int (length (ch_Entries c)) \<and> verifyEntries C K 0 [] (ch_Entries c) = Inr (ch_RootHash c)"
    by (auto simp: VerifyChain_def split: sum.splits)
  also have "\<dots> \<longleftrightarrow> ExportChain C K (map ce_Event (ch_Entries c)) (ch_GeneratedAt c) = Inr c"
    unfolding verifyEntries_export by (cases c) (auto simp: ExportChain_def split: sum.splits)
  finally show ?thesis .
qed

lemma exportEntries_events: "exportEntries C K p events = Inr (entries, root) \<Longrightarrow> map ce_Event entries = events"
  by (induction events arbitrary: p entries) (auto simp: Let_def split: sum.splits)

section \<open>The root hash commits to the events\<close>

definition link_hash :: "crypto \<Rightarrow> string \<Rightarrow> string \<Rightarrow> string" where
  "link_hash C previous content = hashStrings C [previous, sha256_text C content]"

definition collision :: "crypto \<Rightarrow> bool" where
  "collision C \<longleftrightarrow> (\<exists>a b. a \<noteq> b \<and> sha256_Sum256 C a = sha256_Sum256 C b)"

lemma exportEntries_root:
  "exportEntries C K p events = Inr (entries, root) \<Longrightarrow>
   list_all (\<lambda>e. ac_Marshal K e \<noteq> None) events \<and> root = foldl (link_hash C) p (map (the \<circ> ac_Marshal K) events)"
  by (induction events arbitrary: p entries)
    (auto simp: Let_def hashJSON_def link_hash_def split: sum.splits option.splits)

lemma sha256_text_eq: "\<not> collision C \<Longrightarrow> sha256_text C a = sha256_text C b \<Longrightarrow> a = b"
  using hex_inj by (auto simp: sha256_text_def collision_def)

lemma sha256_text_no_nul: "CHR 0x00 \<notin> set (sha256_text C a)"
  by (simp add: sha256_text_def hex_no_nul)

lemma nul_terminated:
  "CHR 0x00 \<notin> set a \<Longrightarrow> CHR 0x00 \<notin> set b \<Longrightarrow> a @ CHR 0x00 # x = b @ CHR 0x00 # y \<Longrightarrow> a = b \<and> x = y"
proof (induction a arbitrary: b)
  case Nil
  then show ?case by (cases b) auto
next
  case (Cons c a)
  then obtain b' where b: "b = c # b'" by (cases b) auto
  have "a = b' \<and> x = y" using Cons.prems b by (intro Cons.IH) simp_all
  then show ?case by (simp add: b)
qed

lemma link_hash_eq:
  assumes "\<not> collision C" "CHR 0x00 \<notin> set p" "CHR 0x00 \<notin> set q" "link_hash C p a = link_hash C q b"
  shows "p = q \<and> a = b"
proof -
  have "p @ CHR 0x00 # sha256_text C a @ [CHR 0x00] = q @ CHR 0x00 # sha256_text C b @ [CHR 0x00]"
    using sha256_text_eq [OF assms(1)] assms(4) by (simp add: link_hash_def hashStrings_def)
  from nul_terminated [OF assms(2,3) this] show ?thesis
    using sha256_text_eq [OF assms(1)] by simp
qed

lemma chain_no_nul: "CHR 0x00 \<notin> set (foldl (link_hash C) [] ts)"
  by (cases ts rule: rev_cases) (simp_all add: link_hash_def hashStrings_def sha256_text_no_nul)

lemma chain_nonempty: "foldl (link_hash C) [] (ts @ [t]) \<noteq> []"
  by (simp add: link_hash_def hashStrings_def sha256_text_def)

lemma chain_root_inj:
  assumes "\<not> collision C"
  shows "foldl (link_hash C) [] ts = foldl (link_hash C) [] us \<Longrightarrow> ts = us"
proof (induction ts arbitrary: us rule: rev_induct)
  case Nil
  then show ?case using chain_nonempty by (cases us rule: rev_cases) (simp, metis foldl_Nil)
next
  case (snoc t ts)
  then obtain u us' where us: "us = us' @ [u]" using chain_nonempty by (cases us rule: rev_cases) (metis foldl_Nil, blast)
  have "link_hash C (foldl (link_hash C) [] ts) t = link_hash C (foldl (link_hash C) [] us') u"
    using snoc.prems by (simp add: us)
  from link_hash_eq [OF assms chain_no_nul chain_no_nul this] snoc.IH show ?case by (auto simp: us)
qed

lemma verified_entries:
  assumes "VerifyChain C K c = None"
  shows "exportEntries C K [] (map ce_Event (ch_Entries c)) = Inr (ch_Entries c, ch_RootHash c)"
  using assms unfolding verifyEntries_export [where i = 0, symmetric]
  by (auto simp: VerifyChain_def split: if_splits sum.splits)

lemma verified_root:
  assumes "VerifyChain C K c = None"
  shows "ch_RootHash c = foldl (link_hash C) [] (map (the \<circ> ac_Marshal K \<circ> ce_Event) (ch_Entries c))"
  using exportEntries_root [OF verified_entries [OF assms]] by (simp add: o_assoc)

text \<open>
  The root hash commits to the whole history: two chains that verify and have the same root
  hash hold the same encoded events in the same order, or two different texts with the same
  SHA-256 digest exist.
\<close>

theorem root_hash_commits:
  assumes "VerifyChain C K c = None" and "VerifyChain C K d = None" and "ch_RootHash c = ch_RootHash d"
  shows "map (ac_Marshal K \<circ> ce_Event) (ch_Entries c) = map (ac_Marshal K \<circ> ce_Event) (ch_Entries d)
    \<or> (\<exists>a b. a \<noteq> b \<and> sha256_Sum256 C a = sha256_Sum256 C b)"
proof (cases "collision C")
  case False
  let ?text = "\<lambda>c. map (the \<circ> ac_Marshal K \<circ> ce_Event) (ch_Entries c)"
  have "?text c = ?text d"
    using chain_root_inj [OF False] verified_root [OF assms(1)] verified_root [OF assms(2)] assms(3) by simp
  moreover have encoded: "map (ac_Marshal K \<circ> ce_Event) (ch_Entries x) = map Some (?text x)"
    if ok: "VerifyChain C K x = None" for x
    using exportEntries_root [OF verified_entries [OF ok]] by (auto simp: list_all_iff)
  ultimately show ?thesis using assms(1,2) by (metis (no_types, lifting))
qed (simp add: collision_def)

section \<open>The event file\<close>

definition line_safe :: "audit_codec \<Rightarrow> AuditEvent \<Rightarrow> bool" where
  "line_safe K e \<longleftrightarrow> (case ac_Marshal K e of
     None \<Rightarrow> False
   | Some t \<Rightarrow> t \<noteq> [] \<and> CHR 0x0A \<notin> set t \<and> last t \<noteq> CHR 0x0D \<and> length t < maxLine \<and> ac_Unmarshal K t = Some e)"

fun append_all :: "audit_codec \<Rightarrow> AuditEvent list \<Rightarrow> string option \<Rightarrow> string option" where
  "append_all K [] file = file"
| "append_all K (e # es) file = append_all K es (snd (JSONLStore_Append K WriteSucceeds e file))"

lemma scan_lines_line:
  assumes "CHR 0x0A \<notin> set t"
  shows "scan_lines (t @ CHR 0x0A # rest) = t # scan_lines rest"
proof -
  have "takeWhile (\<lambda>c. c \<noteq> CHR 0x0A) (t @ CHR 0x0A # rest) = t" "dropWhile (\<lambda>c. c \<noteq> CHR 0x0A) (t @ CHR 0x0A # rest) = CHR 0x0A # rest"
    using assms by (induction t) auto
  then show ?thesis by (subst scan_lines.simps) simp
qed

definition as_lines :: "audit_codec \<Rightarrow> AuditEvent list \<Rightarrow> string" where
  "as_lines K es = concat (map (\<lambda>e. the (ac_Marshal K e) @ [CHR 0x0A]) es)"

lemma append_all_content:
  "list_all (line_safe K) es \<Longrightarrow> append_all K es (Some c) = Some (c @ as_lines K es)"
  by (induction es arbitrary: c) (auto simp: JSONLStore_Append_def as_lines_def line_safe_def split: option.splits)

lemma decode_as_lines: "list_all (line_safe K) es \<Longrightarrow> decodeLines K n (scan_lines (as_lines K es)) = Inr es"
proof (induction es arbitrary: n)
  case Nil
  show ?case by (simp add: as_lines_def scan_lines.simps)
next
  case (Cons e es)
  then obtain t where t: "ac_Marshal K e = Some t" "t \<noteq> []" "CHR 0x0A \<notin> set t" "last t \<noteq> CHR 0x0D"
      "length t < maxLine" "ac_Unmarshal K t = Some e"
    by (auto simp: line_safe_def split: option.splits)
  then have "as_lines K (e # es) = t @ CHR 0x0A # as_lines K es" by (simp add: as_lines_def)
  then have "scan_lines (as_lines K (e # es)) = t # scan_lines (as_lines K es)" using t(3) by (simp add: scan_lines_line)
  with Cons t show ?case by (simp add: dropCR_def)
qed

text \<open>
  What is appended is what is read: appending events one by one to a new file and decoding the
  file gives the same events in the same order, when each event encodes to one line that fits the
  reader's buffer and decodes to itself.
\<close>

theorem append_then_decode:
  assumes "list_all (line_safe K) (e # es)"
  shows "ReadJSONL K (append_all K (e # es) None) = Inr (e # es)"
proof -
  have "append_all K (e # es) None = append_all K (e # es) (Some [])"
    by (simp add: JSONLStore_Append_def)
  then show ?thesis
    using append_all_content [OF assms, of "[]"] decode_as_lines [OF assms] by (simp add: ReadJSONL_def DecodeJSONL_def)
qed

section \<open>Witnesses\<close>

definition demo_codec :: audit_codec where
  "demo_codec = \<lparr>ac_Marshal = (\<lambda>e. Some (au_Action e)),
     ac_Unmarshal = (\<lambda>t. Some \<lparr>au_Sequence = 1, au_Actor = ''gateway'', au_Action = t, au_TargetID = [], au_Message = [], au_At = 5\<rparr>)\<rparr>"

definition demo_audit :: AuditEvent where
  "demo_audit = \<lparr>au_Sequence = 1, au_Actor = ''gateway'', au_Action = ''create'', au_TargetID = [], au_Message = [], au_At = 5\<rparr>"

theorem append_then_decode_witness:
  "ReadJSONL demo_codec (append_all demo_codec [demo_audit, demo_audit] None) = Inr [demo_audit, demo_audit]"
  by (rule append_then_decode) (simp add: line_safe_def demo_codec_def demo_audit_def maxLine_def)

text \<open>
  Two exports of the same encoded events at different times have the same root; under an injective
  digest only the first alternative is left.
\<close>

definition digest_only :: crypto where
  "digest_only = \<lparr>sha256_Sum256 = (\<lambda>m. m), ed25519_Sign = (\<lambda>_ _. []), ed25519_Verify = (\<lambda>_ _ _. False),
     ed25519_Public = (\<lambda>_. []), json_SignedTrustBundle = (\<lambda>_. None)\<rparr>"

definition demo_chain :: "Time \<Rightarrow> Chain" where
  "demo_chain t = \<lparr>ch_SchemaVersion = ChainSchemaVersion, ch_GeneratedAt = t, ch_EventCount = 1,
     ch_RootHash = link_hash digest_only [] ''create'',
     ch_Entries = [\<lparr>ce_Sequence = 1, ce_PreviousHash = [], ce_EventHash = sha256_text digest_only ''create'',
       ce_ChainHash = link_hash digest_only [] ''create'', ce_Event = demo_audit\<rparr>]\<rparr>"

lemma demo_chain_verifies: "VerifyChain digest_only demo_codec (demo_chain t) = None"
  by (simp add: VerifyChain_def demo_chain_def hashJSON_def demo_codec_def demo_audit_def link_hash_def)

theorem root_hash_commits_witness:
  "map (ac_Marshal demo_codec \<circ> ce_Event) (ch_Entries (demo_chain 3)) =
   map (ac_Marshal demo_codec \<circ> ce_Event) (ch_Entries (demo_chain 9))"
proof -
  have "ch_RootHash (demo_chain 3) = ch_RootHash (demo_chain 9)" by (simp add: demo_chain_def)
  from root_hash_commits [OF demo_chain_verifies demo_chain_verifies this] show ?thesis
    by (simp add: digest_only_def)
qed

end
