(* ===== verification/Snapshot_Fields.thy ===== *)
theory Snapshot_Fields
  imports Snapshot_Roundtrip "HOL-Library.Multiset"
begin

text \<open>
  What a snapshot keeps when it passes through JSON. The declared fields of its records come back as
  they were; the values of type any inside the payloads of events and tasks come back in the types
  json.Unmarshal chooses, the field tagged to be left out comes back empty, and the maps come back
  in any order. \<open>same_fields\<close> relates two snapshots that agree in what has to come back; restoring
  looks at nothing else.
\<close>

section \<open>Without the dynamic values\<close>

definition fields_Event :: "Event \<Rightarrow> Event" where
  "fields_Event e = e\<lparr>ev_Payload := None\<rparr>"

definition fields_Task :: "Task \<Rightarrow> Task" where
  "fields_Task task = task\<lparr>tk_Payload := None, tk_Limits := None\<rparr>"

definition fields_Session :: "Session \<Rightarrow> Session" where
  "fields_Session x = x\<lparr>ses_Tasks := map fields_Task (ses_Tasks x), ses_NotifySecret := [],
     ses_LatestEvent := fields_Event (ses_LatestEvent x)\<rparr>"

definition fields_record :: "idempotencyRecord \<Rightarrow> idempotencyRecord" where
  "fields_record r = r\<lparr>ir_Event := fields_Event (ir_Event r)\<rparr>"

definition fields_IdempotencyRecord :: "IdempotencyRecord \<Rightarrow> IdempotencyRecord" where
  "fields_IdempotencyRecord r = r\<lparr>sr_Event := fields_Event (sr_Event r)\<rparr>"

definition fields_Events :: "string \<times> Event list \<Rightarrow> string \<times> Event list" where
  "fields_Events p = (fst p, map fields_Event (snd p))"

definition fields_Snapshot :: "Snapshot \<Rightarrow> Snapshot" where
  "fields_Snapshot c = c\<lparr>sp_Sessions := map fields_Session (sp_Sessions c),
     sp_Events := map fields_Events (sp_Events c),
     sp_Idempotency := map fields_IdempotencyRecord (sp_Idempotency c)\<rparr>"

definition fields_sessions :: "(string \<rightharpoonup> Session) \<Rightarrow> (string \<rightharpoonup> Session)" where
  "fields_sessions S = (\<lambda>sid. map_option fields_Session (S sid))"

definition fields_events :: "(string \<rightharpoonup> Event list) \<Rightarrow> (string \<rightharpoonup> Event list)" where
  "fields_events m = (\<lambda>sid. map_option (map fields_Event) (m sid))"

definition fields_idempotency :: "(idempotencyKey \<rightharpoonup> idempotencyRecord) \<Rightarrow> (idempotencyKey \<rightharpoonup> idempotencyRecord)" where
  "fields_idempotency m = (\<lambda>k. map_option fields_record (m k))"

definition fields_store :: "MemoryStore \<Rightarrow> MemoryStore" where
  "fields_store s = s\<lparr>m_sessions := fields_sessions (m_sessions s), m_events := fields_events (m_events s),
     m_idempotency := fields_idempotency (m_idempotency s)\<rparr>"

definition same_fields :: "Snapshot \<Rightarrow> Snapshot \<Rightarrow> bool" where
  "same_fields c d \<longleftrightarrow>
     fields_Snapshot (c\<lparr>sp_Events := [], sp_Leases := []\<rparr>) = fields_Snapshot (d\<lparr>sp_Events := [], sp_Leases := []\<rparr>)
     \<and> mset (map fields_Events (sp_Events c)) = mset (map fields_Events (sp_Events d))
     \<and> mset (sp_Leases c) = mset (sp_Leases d)"

lemma fields_Session_simps [simp]:
  "ses_ID (fields_Session x) = ses_ID x" "ses_JoinCode (fields_Session x) = ses_JoinCode x"
  "ses_Endpoints (fields_Session x) = ses_Endpoints x" "ses_Status (fields_Session x) = ses_Status x"
  "ses_Capabilities (fields_Session x) = ses_Capabilities x"
  "ses_Tasks (fields_Session x) = map fields_Task (ses_Tasks x)"
  "fields_Session (x\<lparr>ses_Endpoints := eps\<rparr>) = (fields_Session x)\<lparr>ses_Endpoints := eps\<rparr>"
  by (simp_all add: fields_Session_def)

lemma fields_table_simps [simp]:
  "fields_sessions S sid = None \<longleftrightarrow> S sid = None" "fields_sessions Map.empty = Map.empty"
  "fields_sessions (S(sid \<mapsto> x)) = (fields_sessions S)(sid \<mapsto> fields_Session x)"
  "fields_events Map.empty = Map.empty"
  "fields_events (m(sid \<mapsto> es)) = (fields_events m)(sid \<mapsto> map fields_Event es)"
  "fields_idempotency i k = None \<longleftrightarrow> i k = None" "fields_idempotency Map.empty = Map.empty"
  "fields_idempotency (i(k \<mapsto> r)) = (fields_idempotency i)(k \<mapsto> fields_record r)"
  by (auto simp: fields_sessions_def fields_events_def fields_idempotency_def fun_eq_iff)

section \<open>Restoring looks at nothing else\<close>

lemma restoreEndpoints_fields: "restoreEndpoints (fields_Session x) eps EP = restoreEndpoints x eps EP"
  by (induction eps arbitrary: EP) (simp_all add: constrainedEndpointCapabilities_def Let_def)

lemma taskOutsideCeiling_fields: "taskOutsideCeiling EP (fields_Session x) (fields_Task task) = taskOutsideCeiling EP x task"
  by (simp add: taskOutsideCeiling_def fields_Task_def Task_Terminal_def split: option.split)

lemma restoreSessions_fields:
  "restoreSessions (map fields_Session xs) (fields_sessions S) J EP =
     map_sum id (map_prod fields_sessions id) (restoreSessions xs S J EP)"
proof (induction xs arbitrary: S J EP)
  case (Cons x xs)
  have tasks: "list_ex (taskOutsideCeiling EP' ((fields_Session x)\<lparr>ses_Endpoints := eps\<rparr>)) (map fields_Task (ses_Tasks x))
      = list_ex (taskOutsideCeiling EP' (x\<lparr>ses_Endpoints := eps\<rparr>)) (ses_Tasks x)" for EP' eps
    using taskOutsideCeiling_fields [of EP' "x\<lparr>ses_Endpoints := eps\<rparr>"] by (simp add: list_ex_iff)
  have IH: "restoreSessions (map fields_Session xs) ((fields_sessions S)(ses_ID x \<mapsto> (fields_Session x)\<lparr>ses_Endpoints := eps\<rparr>)) J' EP'
      = map_sum id (map_prod fields_sessions id) (restoreSessions xs (S(ses_ID x \<mapsto> x\<lparr>ses_Endpoints := eps\<rparr>)) J' EP')" for J' EP' eps
    using Cons.IH [of "S(ses_ID x \<mapsto> x\<lparr>ses_Endpoints := eps\<rparr>)"] by (simp only: fields_table_simps fields_Session_simps)
  show ?case
    by (simp add: restoreEndpoints_fields Let_def tasks IH id_def split: sum.split prod.split)
qed simp

lemma restoreEvents_fields:
  "restoreEvents (fields_sessions S) (map fields_Events ps) (fields_events m) = map_sum id fields_events (restoreEvents S ps m)"
proof (induction ps arbitrary: m)
  case (Cons p ps)
  have "restoreEvents (fields_sessions S) (map fields_Events ps) ((fields_events m)(fst p \<mapsto> map fields_Event (snd p)))
      = map_sum id fields_events (restoreEvents S ps (m(fst p \<mapsto> snd p)))"
    using Cons.IH [of "m(fst p \<mapsto> snd p)"] by (simp only: fields_table_simps)
  then show ?case by (cases p) (simp add: fields_Events_def [of "(_, _)"] id_def)
qed simp

lemma restoreIdempotency_fields:
  "restoreIdempotency (fields_sessions S) (map fields_IdempotencyRecord rs) (fields_idempotency m) =
     map_sum id fields_idempotency (restoreIdempotency S rs m)"
proof (induction rs arbitrary: m)
  case (Cons r rs)
  have "restoreIdempotency (fields_sessions S) (map fields_IdempotencyRecord rs)
        ((fields_idempotency m)(idem_key r \<mapsto> fields_record (idem_value r)))
      = map_sum id fields_idempotency (restoreIdempotency S rs (m(idem_key r \<mapsto> idem_value r)))"
    using Cons.IH [of "m(idem_key r \<mapsto> idem_value r)"] by (simp only: fields_table_simps)
  then show ?case
    by (simp add: fields_IdempotencyRecord_def [of r] fields_record_def Let_def id_def)
qed simp

lemma restoreLeases_fields: "restoreLeases (fields_sessions S) EP ps m = restoreLeases S EP ps m"
proof (induction ps arbitrary: m)
  case (Cons p ps)
  obtain eid rec where "p = (eid, rec)" by fastforce
  then show ?case
    using Cons.IH
    by (cases "S (ls_SessionID (lr_Current rec))")
      (simp_all add: fields_sessions_def Let_def del: fun_upd_apply split: option.split)
qed simp

lemma completeEvents_fields:
  "completeEvents (fields_sessions S) (fields_events m) = fields_events (completeEvents S m)"
  by (auto simp: completeEvents_def fields_sessions_def fields_events_def fun_eq_iff)

lemma restore_fields:
  assumes "fields_store t = t"
  shows "RestoreSnapshot (fields_Snapshot c) t = map_prod id fields_store (RestoreSnapshot c t)"
proof -
  have S: "restoreSessions (map fields_Session xs) Map.empty J EP
      = map_sum id (map_prod fields_sessions id) (restoreSessions xs Map.empty J EP)" for xs J EP
    using restoreSessions_fields [of xs Map.empty] by simp
  have V: "restoreEvents (fields_sessions S') (map fields_Events ps) Map.empty = map_sum id fields_events (restoreEvents S' ps Map.empty)" for S' ps
    using restoreEvents_fields [of S' ps Map.empty] by simp
  have I: "restoreIdempotency (fields_sessions S') (map fields_IdempotencyRecord rs) Map.empty
      = map_sum id fields_idempotency (restoreIdempotency S' rs Map.empty)" for S' rs
    using restoreIdempotency_fields [of S' rs Map.empty] by simp
  show ?thesis
    using assms
    by (simp add: RestoreSnapshot_def fields_Snapshot_def S V I restoreLeases_fields completeEvents_fields
        split: sum.split prod.split) (simp add: fields_store_def)
qed

section \<open>In whatever order the maps come back\<close>

lemma restoreEvents_iff:
  "restoreEvents S ps m = Inr m' \<longleftrightarrow> (\<forall>p \<in> set ps. S (fst p) \<noteq> None) \<and> m' = filed fst snd ps m"
proof (induction ps arbitrary: m)
  case (Cons p ps)
  then show ?case by (cases p; cases "S (fst p)") (simp_all del: fun_upd_apply)
qed auto

lemma restoreLeases_iff:
  "restoreLeases S EP ps m = Inr m' \<longleftrightarrow> (\<forall>p \<in> set ps. lease_bound S EP (fst p) (snd p)) \<and> m' = filed fst snd ps m"
proof (induction ps arbitrary: m)
  case (Cons p ps)
  obtain eid rec where p: "p = (eid, rec)" by fastforce
  have "restoreLeases S EP ((eid, rec) # ps) m = restoreLeases S EP ps (m(eid \<mapsto> rec))" if "lease_bound S EP eid rec"
    using that by (cases rec) (auto simp: lease_bound_def Let_def)
  moreover have "restoreLeases S EP ((eid, rec) # ps) m \<noteq> Inr m'" if "\<not> lease_bound S EP eid rec"
    using that by (auto simp: lease_bound_def Let_def split: option.split)
  ultimately show ?case
    using Cons.IH [of "m(eid \<mapsto> rec)"] by (cases "lease_bound S EP eid rec") (simp_all add: p del: restoreLeases.simps fun_upd_apply)
qed auto

lemma filed_reordered:
  assumes "mset ps = mset qs" "distinct (map fst qs)"
  shows "filed fst snd ps Map.empty = filed fst snd qs Map.empty"
proof (rule filed_eq)
  have sets: "set ps = set qs" using assms(1) by (rule mset_eq_setD)
  show "distinct (map fst ps)" using assms by (metis mset_eq_imp_distinct_iff mset_map)
  show "filed fst snd qs Map.empty (fst p) = Some (snd p)" if "p \<in> set ps" for p
    using that sets assms(2) by (simp add: filed_in)
  show "k \<in> fst ` set ps" if "filed fst snd qs Map.empty k \<noteq> None" for k
    using that filed_other [of k fst qs snd Map.empty] unfolding sets by (cases "k \<in> fst ` set qs") simp_all
qed

lemma restore_reordered:
  assumes "RestoreSnapshot c t = (Inr (), u)" "mset evs = mset (sp_Events c)" "mset lss = mset (sp_Leases c)"
    and "distinct (map fst (sp_Events c))" "distinct (map fst (sp_Leases c))"
  shows "RestoreSnapshot (c\<lparr>sp_Events := evs, sp_Leases := lss\<rparr>) t = (Inr (), u)"
proof -
  have sets: "set evs = set (sp_Events c)" "set lss = set (sp_Leases c)"
    using assms(2,3) by (auto dest: mset_eq_setD)
  have events: "restoreEvents S evs Map.empty = Inr m" if "restoreEvents S (sp_Events c) Map.empty = Inr m" for S m
    using that filed_reordered [OF assms(2,4)] sets by (simp add: restoreEvents_iff)
  have leases: "restoreLeases S EP lss Map.empty = Inr m" if "restoreLeases S EP (sp_Leases c) Map.empty = Inr m" for S EP m
    using that filed_reordered [OF assms(3,5)] sets by (simp add: restoreLeases_iff)
  show ?thesis
    using assms(1) by (auto simp: RestoreSnapshot_def events leases split: if_splits sum.splits prod.splits)
qed

lemma restored_same_fields:
  assumes "RestoreSnapshot c t = (Inr (), u)" "same_fields d c" "fields_store t = t"
    and "distinct (map fst (sp_Events c))" "distinct (map fst (sp_Leases c))"
  shows "\<exists>v. RestoreSnapshot d t = (Inr (), v) \<and> fields_store v = fields_store u"
proof -
  have "RestoreSnapshot (fields_Snapshot c) t = (Inr (), fields_store u)"
    using restore_fields [OF assms(3), of c] assms(1) by simp
  moreover have "fst \<circ> fields_Events = fst" by (simp add: fun_eq_iff fields_Events_def)
  ultimately have "RestoreSnapshot ((fields_Snapshot c)\<lparr>sp_Events := map fields_Events (sp_Events d), sp_Leases := sp_Leases d\<rparr>) t
      = (Inr (), fields_store u)"
    using assms(2,4,5) by (intro restore_reordered) (simp_all add: same_fields_def fields_Snapshot_def)
  moreover have "(fields_Snapshot c)\<lparr>sp_Events := map fields_Events (sp_Events d), sp_Leases := sp_Leases d\<rparr> = fields_Snapshot d"
    using assms(2) by (cases c; cases d) (simp add: same_fields_def fields_Snapshot_def)
  ultimately show ?thesis
    using restore_fields [OF assms(3), of d] by (cases "RestoreSnapshot d t") auto
qed

end
