(* ===== verification/Gateway_Properties.thy ===== *)
theory Gateway_Properties
  imports Gateway_Calls Audit_Properties Snapshot_Fields
begin

text \<open>
  What the gateway guarantees: an audit trail that only grows, handoffs that are claimed once and
  tickets that end in time, renewals that every host accepts, and a state file that gives the
  gateway back.
\<close>

section \<open>The audit trail\<close>

lemma sort_key_sorted: "sorted (map f xs) \<Longrightarrow> sort_key f xs = xs"
  by (induction xs) (auto simp: insort_is_Cons)

lemma numbered_sorted: "numbered es \<Longrightarrow> sort_key au_Sequence es = es"
  by (rule sort_key_sorted) (auto simp: numbered_def sorted_iff_nth_mono)

text \<open>
  C12. The audit trail is append-only: in every run of the gateway's methods, whole or interleaved, the
  events listed at one moment are the first events listed at any later moment, unchanged, and they
  are numbered from 1 without a gap.
\<close>

theorem audit_append_only:
  assumes "initial_gateway C g0" and "(gateway_move C)\<^sup>*\<^sup>* g0 g" and "(gateway_move C)\<^sup>*\<^sup>* g t"
  shows "prefix (AuditEvents g) (AuditEvents t)
    \<and> (\<forall>k < length (AuditEvents t). au_Sequence (AuditEvents t ! k) = int k + 1)"
proof -
  have g: "gateway_wf g" by (rule gateway_calls.reachable_inv [OF assms(1,2)])
  have t: "gateway_wf t" by (rule gateway_calls.run_inv [OF assms(3) g])
  have "gateway_le C g t" by (rule gateway_calls.run_le [OF assms(3) g])
  then show ?thesis
    using g t by (simp add: AuditEvents_def gateway_wf_def numbered_sorted gateway_le_def) (simp add: numbered_def)
qed

section \<open>Handoffs\<close>

text \<open>
  C13. A handoff is claimed at most once: after a successful claim, however the gateway goes on, every
  further claim of the same handoff is refused and changes nothing.
\<close>

theorem handoff_claimed_once:
  assumes "gateway_wf g" and "clock_at E 0 \<noteq> 0" and "ClaimWebHandoff C E i ttl g = (Inr (h, ticket), g1)"
    and "(gateway_move C)\<^sup>*\<^sup>* g1 t"
  shows "\<exists>er. ClaimWebHandoff C E' i ttl' t = (Inl er, t)"
proof (cases rule: ClaimWebHandoff_cases [of C E i ttl g])
  case (claimed h0 h' ticket' s msg)
  have g1: "g_webHandoffs g1 (TrimSpace i) = Some h'" "wh_ClaimedAt h' = clock_at E 0"
    using claimed(6,7) assms(3) by auto
  have "gateway_wf g1" using claim_step [OF assms(1), of C E i ttl] assms(3) by simp
  then have "handoffs_le (g_webHandoffs g1) (g_webHandoffs t)"
    using gateway_calls.run_le [OF assms(4)] by (simp add: gateway_le_def)
  then have "g_webHandoffs t (TrimSpace i) = Some h'"
    using g1 assms(2) unfolding handoffs_le_def by metis
  then show ?thesis
    using g1(2) assms(2) by (auto simp: ClaimWebHandoff_def Let_def IsZero_def)
qed (use assms(3) in simp)

text \<open>
  A ticket opens a handoff for its lifetime and nothing else does: after a claim, however the
  gateway goes on, a text is accepted exactly when it has the digest of the issued ticket and the
  ticket has not ended; it ends at the latest 30 minutes after the claim and when the handoff ends.
\<close>

theorem ticket_exact:
  assumes "gateway_wf g" and "clock_at E 0 \<noteq> 0" and "ClaimWebHandoff C E i ttl g = (Inr (h, ticket), g1)"
    and "(gateway_move C)\<^sup>*\<^sup>* g1 t"
  shows "wh_ArtifactTicketExpiresAt h \<le> clock_at E 0 + webHandoffMaxArtifactTicketTTL
    \<and> wh_ArtifactTicketExpiresAt h \<le> wh_ExpiresAt h
    \<and> ((\<exists>v. ValidateWebHandoffArtifactTicket C now i text t = Inr v) \<longleftrightarrow>
         TrimSpace text \<noteq> [] \<and> sha256_Sum256 C (TrimSpace text) = sha256_Sum256 C ticket
         \<and> now < wh_ArtifactTicketExpiresAt h \<and> wh_ArtifactTicketExpiresAt h \<noteq> 0)"
proof (cases rule: ClaimWebHandoff_cases [of C E i ttl g])
  case (claimed h0 h' ticket' s msg)
  have g1: "g_webHandoffs g1 (TrimSpace i) = Some h'" "wh_ClaimedAt h' = clock_at E 0" and h: "h = WebHandoff.truncate h'" "ticket = ticket'"
    using claimed(6,7) assms(3) by auto
  have "gateway_wf g1" using claim_step [OF assms(1), of C E i ttl] assms(3) by simp
  then have "handoffs_le (g_webHandoffs g1) (g_webHandoffs t)"
    using gateway_calls.run_le [OF assms(4)] by (simp add: gateway_le_def)
  then have held: "g_webHandoffs t (TrimSpace i) = Some h'"
    using g1 assms(2) unfolding handoffs_le_def by metis
  have "TrimSpace i \<noteq> []" using assms(3) by (auto simp: ClaimWebHandoff_def Let_def)
  then show ?thesis
    unfolding ValidateWebHandoffArtifactTicket_def Let_def held h
    by (auto simp: claimed(6) IsZero_def WebHandoff.truncate_def)
qed (use assms(3) in simp)

lemma drawIdentifier_returns:
  assumes "newWebHandoffIdentifier (rand_at E (k + n)) = None
    \<or> (\<exists>i. newWebHandoffIdentifier (rand_at E (k + n)) = Some i \<and> m i = None)"
  shows "\<exists>r. drawIdentifier E m k = Some r"
  using assms
proof (induction n arbitrary: k)
  case 0
  then show ?case by (subst drawIdentifier.simps) (auto split: option.splits)
next
  case (Suc n)
  then have "\<exists>r. drawIdentifier E m (Suc k) = Some r" by simp
  then show ?case by (subst drawIdentifier.simps) (auto split: option.splits)
qed

text \<open>
  C14. Creating a handoff returns as soon as some draw fails or gives an identifier that no handoff
  has: if one of the readings of the random source, however late, does that, then the call returns.
\<close>

theorem create_handoff_returns:
  assumes "newWebHandoffIdentifier (rand_at E (10 + k)) = None
    \<or> (\<exists>i. newWebHandoffIdentifier (rand_at E (10 + k)) = Some i \<and> g_webHandoffs g i = None)"
  shows "\<exists>r. CreateWebHandoff C E spec g = Some r"
proof -
  have "newWebHandoffIdentifier (rand_at (env_from 10 E) (0 + k)) = None
      \<or> (\<exists>i. newWebHandoffIdentifier (rand_at (env_from 10 E) (0 + k)) = Some i \<and> g_webHandoffs g i = None)"
    using assms by simp
  then obtain r where r: "drawIdentifier (env_from 10 E) (g_webHandoffs g) 0 = Some r" using drawIdentifier_returns by blast
  show ?thesis
    by (cases r) (simp_all add: CreateWebHandoff_def Let_def r split: prod.splits sum.splits)
qed

section \<open>Renewals\<close>

lemma gateway_bundle_ok:
  assumes "sbs_BundleID spec \<noteq> []" "0 < sbs_Sequence spec" "sbs_NotBefore spec = now"
    and "sbs_NotAfter spec = now + signedTrustBundleLifetime" "sbs_SigningKeyID spec = kid" "kid \<noteq> []"
    and "sbs_Keys spec = [NewTrustKey kid pub TrustKeyStatusActive now]" "length pub = PublicKeySize" "0 < now"
  shows "\<exists>draft. NewSignedTrustBundle spec now = Inr draft"
proof -
  have "NewTrustKey kid pub TrustKeyStatusActive now = NewTrustKey kid pub [] now"
    by (simp add: NewTrustKey_def TrustKeyStatusActive_def)
  then have key: "valid_key (NewTrustKey kid pub TrustKeyStatusActive now)"
    using NewTrustKey_valid [OF assms(6,8)] assms(9) by simp
  have life: "0 < signedTrustBundleLifetime"
    by (simp add: signedTrustBundleLifetime_def hour_ns_def second_ns_def)
  let ?b = "\<lparr>sb_SchemaVersion = SignedTrustBundleSchemaVersion, sb_BundleID = sbs_BundleID spec,
     sb_Sequence = sbs_Sequence spec, sb_IssuedAt = now, sb_NotBefore = now,
     sb_NotAfter = now + signedTrustBundleLifetime, sb_PreviousBundleHash = sbs_PreviousBundleHash spec,
     sb_Keys = sbs_Keys spec, sb_SigningAlg = SigningAlgEd25519, sb_SigningKeyID = kid, sb_Signature = []\<rparr>"
  have "validateForSigning ?b = None"
    unfolding validateForSigning_None using assms life key by (simp add: valid_bundle_def)
  then show ?thesis
    using assms life by (simp add: NewSignedTrustBundle_def Let_def IsZero_def)
qed

lemma signs:
  assumes "valid_bundle draft" "length priv = PrivateKeySize" "json_SignedTrustBundle C (draft\<lparr>sb_Signature := []\<rparr>) \<noteq> None"
  shows "\<exists>b. Sign C draft priv = Inr b"
  using assms by (auto simp: Sign_Inr signingBytes_def)

lemma active_trust_bundle:
  "Key b kid = Some k \<Longrightarrow> ActiveAt k now \<Longrightarrow> ActiveTrustBundle b kid now = Inr (TrustKey_TrustBundle k)"
  by (auto simp: ActiveTrustBundle_Inr)

lemma saves_where_loaded: "Store_Load s = Inr (Some b) \<Longrightarrow> fst (Store_Save Saved c s) = None"
  by (cases s) (auto simp: Store_Load_def Store_Save_def FileStore_Load_def FileStore_Save_def
      ProtectedStore_Load_def ProtectedStore_Save_def writeState_def split: if_splits)

text \<open>
  C15. A renewal is accepted by every host that follows the gateway: when the bundle is due, the
  gateway holds the key its bundle lists as active and its sequence has room, renewing succeeds with
  the next sequence number, and a host that trusts the old bundle, whose clock stands inside the new
  window at a moment at which the key is active and whose save works, takes over the new one.
\<close>

theorem renewal_reaches_hosts:
  assumes "signatures_check C" and "\<forall>b. json_SignedTrustBundle C b \<noteq> None"
    and "validateSigningKey C (g_publicKey g) (g_privateKey g)"
    and "valid_bundle (g_trustBundle g)" and "sb_Sequence (g_trustBundle g) < 2 ^ 63 - 1"
    and "Key (g_trustBundle g) (g_signingID g) = Some k" and "base64url_decode (tkey_PublicKey k) = Some (g_publicKey g)"
    and "ActiveAt k (clock_at E 0)" and "ActiveAt k now" and "0 < clock_at E 0"
    and "sb_NotAfter (g_trustBundle g) \<le> clock_at E 0 + signedTrustBundleRenewBefore"
    and "clock_at E 0 \<le> now" and "now \<le> clock_at E 0 + signedTrustBundleLifetime"
    and "Store_Load s = Inr (Some (g_trustBundle g))"
  shows "\<exists>b g'. RenewSignedTrustBundle C E g = (Inr (b, True), g') \<and> g_trustBundle g' = b
    \<and> sb_Sequence b = sb_Sequence (g_trustBundle g) + 1
    \<and> fst (verifyAndSaveUpdate C Store_Load (Store_Save Saved) b root now s) = None
    \<and> Store_Load (snd (verifyAndSaveUpdate C Store_Load (Store_Save Saved) b root now s)) = Inr (Some b)"
proof -
  let ?old = "g_trustBundle g" and ?now = "clock_at E 0" and ?root = "TrustKey_TrustBundle k"
  have key: "k \<in> set (sb_Keys ?old)" "tkey_KeyID k = g_signingID g"
    using assms(4,6) Key_find by (auto simp: valid_bundle_def)
  then have vk: "valid_key k" using assms(4) by (simp add: valid_bundle_def)
  then have kid: "g_signingID g \<noteq> []" using key(2) by (auto simp: valid_key_def)
  obtain message where "json_SignedTrustBundle C (?old\<lparr>sb_Signature := []\<rparr>) = Some message" using assms(2) by blast
  then obtain h where h: "Hash C ?old = Inr h" by (simp add: Hash_def signingBytes_def)
  have seq: "i64 (sb_Sequence ?old + 1) = sb_Sequence ?old + 1"
    using assms(4,5) by (intro i64_id) (auto simp: valid_bundle_def)
  have lens: "length (g_publicKey g) = PublicKeySize" "length (g_privateKey g) = PrivateKeySize"
      "ed25519_Public C (g_privateKey g) = g_publicKey g"
    using assms(3) by (auto simp: validateSigningKey_def)
  have "sb_BundleID ?old \<noteq> []" "0 < sb_Sequence ?old + 1" using assms(4) by (auto simp: valid_bundle_def)
  then obtain draft where draft: "NewSignedTrustBundle (renewal_spec ?now h g) ?now = Inr draft"
    using gateway_bundle_ok [of "renewal_spec ?now h g" ?now "g_signingID g" "g_publicKey g"] kid lens(1) assms(10) seq
    by (auto simp: renewal_spec_def)
  note d = NewSignedTrustBundle_Inr [OF draft]
  obtain b where b: "Sign C draft (g_privateKey g) = Inr b" using signs [OF d(1) lens(2)] assms(2) by blast
  note f = signed_fields [OF b]
  have life: "0 < signedTrustBundleLifetime"
    by (simp add: signedTrustBundleLifetime_def hour_ns_def second_ns_def)
  have window: "sb_NotBefore draft = ?now" "sb_NotAfter draft = ?now + signedTrustBundleLifetime"
    using d(8,9) assms(10) life by (simp_all add: renewal_spec_def)
  have ids: "sb_SigningKeyID draft = g_signingID g" "sb_PreviousBundleHash draft = h"
      "sb_Sequence draft = sb_Sequence ?old + 1"
    using d(3,4,6) seq by (simp_all add: renewal_spec_def)
  have "\<not> revokes draft (sb_SigningKeyID draft)"
    using d(5) by (auto simp: revokes_def renewal_spec_def NewTrustKey_def TrustKeyStatusActive_def TrustKeyStatusRevoked_def)
  moreover have "Ed25519PublicKey ?root = Inr (ed25519_Public C (g_privateKey g))"
    using vk assms(7) lens by (auto simp: Ed25519PublicKey_Inr TrustKey_TrustBundle_def valid_key_def)
  moreover have "tb_SigningKeyID ?root = sb_SigningKeyID draft" using key(2) ids by (simp add: TrustKey_TrustBundle_def)
  ultimately have "Verify C b ?root now = None"
    using assms(12,13) window by (intro signed_verifies [OF assms(1) b]) simp_all
  then have update: "VerifyUpdate C b ?old ?root now = None"
    using h ids f(1,2) by (simp add: VerifyUpdate_None)
  have "RenewSignedTrustBundle C E g = (Inr (b, True), renewal_record (clock_at E 1) b g)"
    using assms(11) by (intro RenewSignedTrustBundle_renews [OF _ active_trust_bundle [OF assms(6,8)] h draft b]) simp
  moreover have "ActiveTrustBundle ?old (sb_SigningKeyID b) now = Inr ?root"
    using active_trust_bundle [OF assms(6,9)] ids(1) f(5) by simp
  ultimately show ?thesis
    using host.update_accepted [OF assms(14) _ update saves_where_loaded [OF assms(14)], of root] f(1) ids(3)
    by (auto simp: renewal_record_def)
qed

section \<open>The state file\<close>

text \<open>
  What the codec of the state file is relied on for: the text it prints for this snapshot decodes, to
  a snapshot with the same declared fields. The dynamic values inside payloads may change.
\<close>

definition comes_back :: "state_codec \<Rightarrow> GatewaySnapshot \<Rightarrow> bool" where
  "comes_back J snapshot \<longleftrightarrow> (\<forall>content. sc_Encode J snapshot = Some content \<longrightarrow>
     (\<exists>read. sc_Unmarshal J content = Some read \<and> gs_SchemaVersion read = gs_SchemaVersion snapshot
        \<and> gs_TrustBundle read = gs_TrustBundle snapshot \<and> gs_Audit read = gs_Audit snapshot
        \<and> gs_NotifySecrets read = gs_NotifySecrets snapshot
        \<and> same_fields (gs_ControlPlane read) (gs_ControlPlane snapshot)))"

lemma NewMemoryStore_fields: "fields_store NewMemoryStore = NewMemoryStore"
  by (simp add: fields_store_def NewMemoryStore_def)

lemma taken_keys:
  assumes "takeSnapshot E it s0 = (control, s)" "orders_tables it s"
  shows "distinct (map fst (sp_Events control))" "distinct (map fst (sp_Leases control))"
  using assms by (auto simp: takeSnapshot_def Let_def orders_tables_def entries_keys)

lemma accepted_snapshot:
  assumes "gs_SchemaVersion snapshot = GatewaySnapshotSchemaVersion"
    and "RestoreSnapshot (gs_ControlPlane snapshot) NewMemoryStore = (Inr (), s)" and "numbered (gs_Audit snapshot)"
    and "Key (gs_TrustBundle snapshot) (g_signingID h) = Some k" and "valid_key k" and "ActiveAt k (clock_at E 0)"
    and "base64url_decode (tkey_PublicKey k) = Some (g_publicKey h)"
  shows "Gateway_RestoreSnapshot E snapshot h = (Inr (),
    h\<lparr>g_sessionStore := s, g_audit := gs_Audit snapshot, g_trustBundle := gs_TrustBundle snapshot,
      g_notifySecrets := gs_NotifySecrets snapshot\<rparr>)"
proof -
  have "Ed25519PublicKey (TrustKey_TrustBundle k) = Inr (g_publicKey h)"
    using assms(5,7) by (auto simp: Ed25519PublicKey_Inr TrustKey_TrustBundle_def valid_key_def)
  moreover have "auditGap 0 (gs_Audit snapshot) = None" using assms(3) by (simp add: auditGap_None numbered_def)
  ultimately have "validateSnapshot E snapshot h = None"
    using active_trust_bundle [OF assms(4,6)] assms(1,2) by (simp add: validateSnapshot_def)
  then show ?thesis using assms(2) by (simp add: Gateway_RestoreSnapshot_def)
qed

text \<open>
  C16. Saving the gateway and loading the file into a gateway with the same signing key gives the state
  back: the audit trail, the trust bundle and the webhook secrets, and every table of the store up to
  the dynamic values inside payloads, when the text that was written decodes to a snapshot with the
  declared fields of the one that was saved, the store's tables satisfy what restoring checks and the
  saved bundle lists the key as active. The handoffs and the event hook are not among what comes back.
\<close>

theorem state_file_restores:
  assumes save: "SaveSnapshot J E it path True file g = (Inr snapshot, file', g')" and codec: "comes_back J snapshot"
    and "orders_tables it (g_sessionStore g')" and "restorable (g_sessionStore g')" and "numbered (g_audit g)"
    and "Key (g_trustBundle g) (g_signingID h) = Some k" and "valid_key k" and "ActiveAt k (clock_at E' 0)"
    and "base64url_decode (tkey_PublicKey k) = Some (g_publicKey h)"
  shows "\<exists>read s. LoadInto J E' path file' h = (Inr (Some read),
      h\<lparr>g_sessionStore := s, g_audit := g_audit g, g_trustBundle := g_trustBundle g, g_notifySecrets := g_notifySecrets g\<rparr>)
    \<and> fields_store s = fields_store ((g_sessionStore g')\<lparr>m_onEvent := False, m_hookLog := []\<rparr>)"
proof -
  obtain control s where take: "takeSnapshot (env_from 1 E) it (g_sessionStore g) = (control, s)" by fastforce
  have path: "TrimSpace path \<noteq> []" using save by (auto simp: SaveSnapshot_def split: if_splits prod.splits)
  obtain content where snap: "snapshot = \<lparr>gs_SchemaVersion = GatewaySnapshotSchemaVersion, gs_GeneratedAt = clock_at E 0,
      gs_TrustBundle = g_trustBundle g, gs_ControlPlane = control, gs_Audit = g_audit g, gs_NotifySecrets = g_notifySecrets g\<rparr>"
    and g': "g' = g\<lparr>g_sessionStore := s\<rparr>" and content: "sc_Encode J snapshot = Some content"
    and file': "file' = Some \<lparr>sf_Regular = True, sf_Perm = 384, sf_Readable = True, sf_Content = content\<rparr>"
    using save path take numbered_sorted [OF assms(5)]
    by (auto simp: SaveSnapshot_def Gateway_Snapshot_def snapshotLocked_def split: prod.splits option.splits)
  obtain read where read: "sc_Unmarshal J content = Some read" "gs_SchemaVersion read = GatewaySnapshotSchemaVersion"
      "gs_TrustBundle read = g_trustBundle g" "gs_Audit read = g_audit g" "gs_NotifySecrets read = g_notifySecrets g"
      "same_fields (gs_ControlPlane read) control"
    using codec content by (auto simp: comes_back_def snap)
  have restored: "RestoreSnapshot control NewMemoryStore = (Inr (), s\<lparr>m_onEvent := False, m_hookLog := []\<rparr>)"
    using restore_taken [OF take, of NewMemoryStore] assms(3,4) by (simp add: g' NewMemoryStore_def)
  obtain t where t: "RestoreSnapshot (gs_ControlPlane read) NewMemoryStore = (Inr (), t)"
      "fields_store t = fields_store (s\<lparr>m_onEvent := False, m_hookLog := []\<rparr>)"
    using restored_same_fields [OF restored read(6) NewMemoryStore_fields] taken_keys [OF take] assms(3) by (auto simp: g')
  have "Gateway_RestoreSnapshot E' read h = (Inr (),
      h\<lparr>g_sessionStore := t, g_audit := g_audit g, g_trustBundle := g_trustBundle g, g_notifySecrets := g_notifySecrets g\<rparr>)"
    using accepted_snapshot [OF read(2) t(1)] read(3-5) assms(5-9) by simp
  then have "LoadInto J E' path file' h = (Inr (Some read),
      h\<lparr>g_sessionStore := t, g_audit := g_audit g, g_trustBundle := g_trustBundle g, g_notifySecrets := g_notifySecrets g\<rparr>)"
    using path read(1)
    by (simp add: LoadInto_def requireProtectedStateFile_def file' LoadSnapshotIfExists_def LoadSnapshot_def)
  moreover have "g_sessionStore g' = s" by (simp add: g')
  ultimately show ?thesis using t(2) by blast
qed

text \<open>Restoring leaves the new store without the hook that the constructor installs.\<close>

lemma RestoreSnapshot_hook:
  "m_onEvent (snd (RestoreSnapshot snap s)) = m_onEvent s" "m_hookLog (snd (RestoreSnapshot snap s)) = m_hookLog s"
  by (simp_all add: RestoreSnapshot_def split: sum.splits prod.splits)

lemma append_without_hook:
  "\<not> m_onEvent s \<Longrightarrow> m_hookLog (snd (appendEventLocked E sid e b s)) = m_hookLog s"
  by (auto simp: appendEventLocked_def commitEvent_def Let_def split: option.splits prod.splits)

lemma AppendEvent_without_hook:
  assumes "\<not> m_onEvent s"
  shows "m_hookLog (snd (AppendEvent E sid e s)) = m_hookLog s"
proof -
  have append: "m_hookLog t = m_hookLog s" if "appendEventLocked E' sid e True s = (r, t)" for E' r t
    using append_without_hook [OF assms, of E' sid e True] that by simp
  have expire: "m_hookLog (snd (expireSessionLocked E' sid s)) = m_hookLog s" for E'
    using append_without_hook [OF assms]
    by (simp add: expireSessionLocked_def Let_def split: option.splits)
  show ?thesis
    using append expire append_without_hook [OF assms]
    by (auto simp: AppendEvent_def Let_def split: option.splits sum.splits prod.splits if_splits)
qed

text \<open>
  C17. A restored gateway no longer notifies: whatever event hook the gateway had, after a snapshot
  is restored its store has none, and an event that is then appended to a session reaches no
  webhook, although the webhook and its secret were restored.
\<close>

theorem restored_gateway_is_silent:
  assumes "Gateway_RestoreSnapshot E snapshot g = (Inr (), t)"
  shows "\<not> m_onEvent (g_sessionStore t) \<and> g_notifySecrets t = gs_NotifySecrets snapshot
    \<and> m_hookLog (g_sessionStore (snd (AppendSessionEvent E' sid event t))) = m_hookLog (g_sessionStore t)"
proof -
  obtain s where s: "RestoreSnapshot (gs_ControlPlane snapshot) NewMemoryStore = (Inr (), s)"
    and t: "t = g\<lparr>g_sessionStore := s, g_audit := gs_Audit snapshot,
             g_trustBundle := gs_TrustBundle snapshot, g_notifySecrets := gs_NotifySecrets snapshot\<rparr>"
    using Gateway_RestoreSnapshot_Inr(2) [OF assms] by blast
  have "\<not> m_onEvent s" using RestoreSnapshot_hook [of "gs_ControlPlane snapshot" NewMemoryStore] s
    by (simp add: NewMemoryStore_def)
  then show ?thesis
    using AppendEvent_without_hook by (simp add: t AppendSessionEvent_def with_store_def case_prod_beta)
qed

end
