(* ===== verification/Gateway_Witnesses.thy ===== *)
theory Gateway_Witnesses
  imports Gateway_Properties
begin

text \<open>The properties of the gateway at concrete gateways, with the concrete signature scheme.\<close>

section \<open>A new gateway\<close>

lemma new_gateway:
  assumes "validateSigningKey C pub priv" "\<forall>b. json_SignedTrustBundle C b \<noteq> None" "0 < now" "kid \<noteq> []"
  shows "\<exists>g. NewMemoryGatewayWithSigningKey C now kid pub priv = Inr g \<and> valid_bundle (g_trustBundle g)
    \<and> g_signingID g = kid \<and> g_publicKey g = pub \<and> g_privateKey g = priv \<and> g_audit g = []
    \<and> sb_Sequence (g_trustBundle g) = 1 \<and> sb_NotAfter (g_trustBundle g) = now + signedTrustBundleLifetime
    \<and> Key (g_trustBundle g) kid = Some (NewTrustKey kid pub TrustKeyStatusActive now)"
proof -
  let ?spec = "\<lparr>sbs_BundleID = ''dev-gateway'', sbs_Sequence = 1, sbs_NotBefore = now,
     sbs_NotAfter = now + signedTrustBundleLifetime, sbs_PreviousBundleHash = [],
     sbs_Keys = [NewTrustKey kid pub TrustKeyStatusActive now], sbs_SigningKeyID = kid\<rparr>"
  have lens: "length pub = PublicKeySize" "length priv = PrivateKeySize"
    using assms(1) by (auto simp: validateSigningKey_def)
  obtain draft where draft: "NewSignedTrustBundle ?spec now = Inr draft"
    using gateway_bundle_ok [of ?spec now kid pub] lens assms(3,4) by auto
  note d = NewSignedTrustBundle_Inr [OF draft]
  obtain b where b: "Sign C draft priv = Inr b" using signs [OF d(1) lens(2)] assms(2) by blast
  have "0 < signedTrustBundleLifetime" by (simp add: signedTrustBundleLifetime_def hour_ns_def second_ns_def)
  then have "sb_NotAfter b = now + signedTrustBundleLifetime" using signed_fields(7) [OF b] d(9) assms(3) by simp
  moreover have "initialSignedTrustBundle C kid pub priv now = Inr b"
    using draft b by (simp add: initialSignedTrustBundle_def)
  moreover from initial_bundle [OF this]
  have "sb_Sequence b = 1" "valid_bundle b" "Key b kid = Some (NewTrustKey kid pub TrustKeyStatusActive now)"
    by (simp_all add: Key_def NewTrustKey_def)
  ultimately show ?thesis using assms(1,4) by (simp add: NewMemoryGatewayWithSigningKey_def)
qed

lemma demo_signing_key: "validateSigningKey demo_crypto (ed25519_Public demo_crypto demo_private) demo_private"
  by (simp add: validateSigningKey_def)

lemma demo_json: "\<forall>b. json_SignedTrustBundle demo_crypto b \<noteq> None"
  by (simp add: demo_crypto_def)

text \<open>A session is created: the run has one call, and its record is the first of the trail.\<close>

theorem audit_append_only_witness:
  "\<exists>g t session. initial_gateway demo_crypto g \<and> Gateway_CreateSession (demo_env 0) demo_spec g = (Inr session, t)
     \<and> prefix (AuditEvents g) (AuditEvents t) \<and> length (AuditEvents t) = 1 \<and> au_Sequence (AuditEvents t ! 0) = 1"
proof -
  obtain g where new: "NewMemoryGatewayWithSigningKey demo_crypto 5 ''gw'' (ed25519_Public demo_crypto demo_private) demo_private = Inr g"
      "g_audit g = []"
    using new_gateway [OF demo_signing_key demo_json, of 5 "''gw''"] by auto
  have "g_sessionStore g = SetEventHook True NewMemoryStore"
    using new(1) by (auto simp: NewMemoryGatewayWithSigningKey_def Let_def split: if_splits sum.splits)
  moreover obtain session s' where "CreateSession (env_from 1 (demo_env 0)) demo_spec (SetEventHook True NewMemoryStore) = (Inr session, s')"
    by (simp add: CreateSession_def NewSession_def storeNewSessionLocked_def demo_spec_def NewMemoryStore_def Let_def
        selectedGatewayURL_def demo_env_def newID_def newJoinCode_def SetEventHook_def)
  ultimately have "\<exists>session t. Gateway_CreateSession (demo_env 0) demo_spec g = (Inr session, t) \<and> length (g_audit t) = 1"
    using new(2) by (simp add: Gateway_CreateSession_def audited_def with_store_def appendAuditLocked_def)
  then obtain session t where made: "Gateway_CreateSession (demo_env 0) demo_spec g = (Inr session, t)" "length (g_audit t) = 1"
    by blast
  have g: "initial_gateway demo_crypto g" using new(1) unfolding initial_gateway_def by blast
  have "gateway_move demo_crypto g t"
    by (rule gateway_move.whole [of "demo_env 0" "GCreateSession demo_spec"]) (simp_all add: made)
  from audit_append_only [OF g rtranclp.rtrancl_refl r_into_rtranclp [of "gateway_move demo_crypto", OF this]]
  have "prefix (AuditEvents g) (AuditEvents t)" "\<forall>k < length (AuditEvents t). au_Sequence (AuditEvents t ! k) = int k + 1" by blast+
  moreover have "length (AuditEvents t) = 1" using made(2) by (simp add: AuditEvents_def)
  ultimately show ?thesis using g made(1) by auto
qed

lemma second_ns_pos: "0 < second_ns"
  by (simp add: second_ns_def)

theorem renewal_reaches_hosts_witness:
  "\<exists>g s b g'. RenewSignedTrustBundle demo_crypto (demo_env 90000) g = (Inr (b, True), g')
     \<and> Store_Load s = Inr (Some (g_trustBundle g)) \<and> sb_Sequence b = 2
     \<and> Store_Load (snd (verifyAndSaveUpdate demo_crypto Store_Load (Store_Save Saved) b (NewTrustBundle [] [])
          (second_ns * 90005) s)) = Inr (Some b)"
proof -
  let ?pub = "ed25519_Public demo_crypto demo_private"
  let ?k = "NewTrustKey ''gw'' ?pub TrustKeyStatusActive second_ns"
  have "''gw'' \<noteq> []" by simp
  from new_gateway [OF demo_signing_key demo_json second_ns_pos this]
  obtain g :: MemoryGateway where g: "valid_bundle (g_trustBundle g)" "g_signingID g = ''gw''" "g_publicKey g = ?pub"
      "g_privateKey g = demo_private" "sb_Sequence (g_trustBundle g) = 1"
      "sb_NotAfter (g_trustBundle g) = second_ns + signedTrustBundleLifetime" "Key (g_trustBundle g) ''gw'' = Some ?k"
    by blast
  let ?s = "StoreFile \<lparr>fst_Path = ''/var/trust.json'', fst_File = Content FileSchemaVersion (g_trustBundle g)\<rparr>"
  have held: "Store_Load ?s = Inr (Some (g_trustBundle g))"
    by (simp add: Store_Load_def FileStore_Load_def decodeState_def)
  have key: "validateSigningKey demo_crypto (g_publicKey g) (g_privateKey g)" "Key (g_trustBundle g) (g_signingID g) = Some ?k"
      "sb_Sequence (g_trustBundle g) < 2 ^ 63 - 1" "base64url_decode (tkey_PublicKey ?k) = Some (g_publicKey g)"
    using demo_signing_key g by (simp_all add: NewTrustKey_def base64url_roundtrip)
  have active: "ActiveAt ?k t" if "second_ns \<le> t" for t
    using that by (simp add: ActiveAt_iff NewTrustKey_def second_ns_def TrustKeyStatusActive_def)
  have act: "ActiveAt ?k (clock_at (demo_env 90000) 0)" "ActiveAt ?k (second_ns * 90005)"
    by (rule active, simp add: second_ns_def)+
  have times: "0 < clock_at (demo_env 90000) 0"
      "sb_NotAfter (g_trustBundle g) \<le> clock_at (demo_env 90000) 0 + signedTrustBundleRenewBefore"
      "clock_at (demo_env 90000) 0 \<le> second_ns * 90005"
      "second_ns * 90005 \<le> clock_at (demo_env 90000) 0 + signedTrustBundleLifetime"
    using g(6) by (simp_all add: second_ns_def signedTrustBundleLifetime_def signedTrustBundleRenewBefore_def hour_ns_def)
  from renewal_reaches_hosts [OF demo_crypto_checks demo_json key(1) g(1) key(3,2,4) act times held, of "NewTrustBundle [] []"]
  show ?thesis using held g(5) by (metis one_add_one)
qed

section \<open>A gateway with a handoff\<close>

definition demo_handoff :: webHandoffState where
  "demo_handoff = \<lparr>wh_SchemaVersion = WebHandoffSchemaVersion, wh_ID = ''hnd_x'', wh_SessionID = demo_sid,
     wh_Platform = WebHandoffPlatformWindowsAMD64, wh_CreatedAt = second_ns, wh_ExpiresAt = second_ns * 600,
     wh_ClaimedAt = 0, wh_ArtifactTicketExpiresAt = 0, whs_artifactTicketHash = replicate 32 (CHR 0x00)\<rparr>"

definition demo_gateway :: MemoryGateway where
  "demo_gateway = \<lparr>g_sessionStore = created_store, g_audit = [], g_webHandoffs = [''hnd_x'' \<mapsto> demo_handoff],
     g_signingID = ''gw'', g_publicKey = ed25519_Public demo_crypto demo_private, g_privateKey = demo_private,
     g_trustBundle = demo_unsigned, g_notifySecrets = Map.empty\<rparr>"

lemma demo_gateway_wf: "gateway_wf demo_gateway"
  by (simp add: gateway_wf_def demo_gateway_def numbered_def go_int_def demo_unsigned_def)

lemma demo_link: "TrimSpace ''hnd_x'' = ''hnd_x''"
  by (simp add: TrimSpace_graphic graphic_def)

lemma demo_claim:
  "\<exists>h ticket g1. ClaimWebHandoff demo_crypto (demo_env 1) ''hnd_x'' second_ns demo_gateway = (Inr (h, ticket), g1)"
proof -
  have "getSession (env_from 1 (demo_env 1)) demo_sid created_store = (Inr demo_session, created_store)"
    by (simp add: getSession_def expireSessionLocked_def Let_def)
  moreover obtain ticket where "newWebHandoffSecret (rand_at (demo_env 1) 10) = Some ticket"
    by (simp add: newWebHandoffSecret_def demo_env_def)
  moreover have "webHandoffSessionJoinable demo_session (clock_at (demo_env 1) 0)"
    by (simp add: webHandoffSessionJoinable_def IsZero_def)
  ultimately show ?thesis
    by (simp add: ClaimWebHandoff_def Let_def demo_link demo_gateway_def demo_handoff_def IsZero_def second_ns_def)
qed

theorem handoff_claimed_once_witness:
  "\<exists>er. ClaimWebHandoff demo_crypto (demo_env 2) ''hnd_x'' second_ns
      (snd (ClaimWebHandoff demo_crypto (demo_env 1) ''hnd_x'' second_ns demo_gateway)) =
     (Inl er, snd (ClaimWebHandoff demo_crypto (demo_env 1) ''hnd_x'' second_ns demo_gateway))"
proof -
  obtain h ticket g1 where c: "ClaimWebHandoff demo_crypto (demo_env 1) ''hnd_x'' second_ns demo_gateway = (Inr (h, ticket), g1)"
    using demo_claim by blast
  have "clock_at (demo_env 1) 0 \<noteq> 0" by (simp add: second_ns_def)
  from handoff_claimed_once [OF demo_gateway_wf this c rtranclp.rtrancl_refl] c show ?thesis by simp
qed

theorem ticket_exact_witness:
  "\<exists>h ticket g1. ClaimWebHandoff demo_crypto (demo_env 1) ''hnd_x'' second_ns demo_gateway = (Inr (h, ticket), g1)
     \<and> wh_ArtifactTicketExpiresAt h \<le> second_ns * 2 + webHandoffMaxArtifactTicketTTL
     \<and> (\<exists>er. ValidateWebHandoffArtifactTicket demo_crypto (wh_ArtifactTicketExpiresAt h) ''hnd_x'' ticket g1 = Inl er)"
proof -
  obtain h ticket g1 where c: "ClaimWebHandoff demo_crypto (demo_env 1) ''hnd_x'' second_ns demo_gateway = (Inr (h, ticket), g1)"
    using demo_claim by blast
  have "clock_at (demo_env 1) 0 \<noteq> 0" by (simp add: second_ns_def)
  note t = ticket_exact [OF demo_gateway_wf this c rtranclp.rtrancl_refl, of "wh_ArtifactTicketExpiresAt h" ticket]
  then have "\<nexists>v. ValidateWebHandoffArtifactTicket demo_crypto (wh_ArtifactTicketExpiresAt h) ''hnd_x'' ticket g1 = Inr v" by blast
  then have "\<exists>er. ValidateWebHandoffArtifactTicket demo_crypto (wh_ArtifactTicketExpiresAt h) ''hnd_x'' ticket g1 = Inl er"
    by (cases "ValidateWebHandoffArtifactTicket demo_crypto (wh_ArtifactTicketExpiresAt h) ''hnd_x'' ticket g1") auto
  then show ?thesis using c t by (auto simp: mult.commute)
qed

theorem create_handoff_returns_witness:
  "\<exists>r. CreateWebHandoff demo_crypto (demo_env 1) \<lparr>whp_SessionID = demo_sid, whp_Platform = WebHandoffPlatformWindowsAMD64,
     whp_ExpiresAt = second_ns * 900\<rparr> demo_gateway = Some r"
proof (rule create_handoff_returns [of _ 0])
  obtain raw where drawn: "newWebHandoffIdentifier (rand_at (demo_env 1) 10) = Some (''hnd_'' @ base64url_encode raw)" "length raw = 16"
    by (simp add: newWebHandoffIdentifier_def random_text_def demo_env_def)
  have "''hnd_'' @ base64url_encode raw \<noteq> ''hnd_x''"
  proof
    assume "''hnd_'' @ base64url_encode raw = ''hnd_x''"
    then have "base64url_decode (base64url_encode raw) = base64url_decode ''x''" by simp
    then show False using drawn(2) by (simp add: base64url_roundtrip) code_simp
  qed
  with drawn show "newWebHandoffIdentifier (rand_at (demo_env 1) (10 + 0)) = None
      \<or> (\<exists>i. newWebHandoffIdentifier (rand_at (demo_env 1) (10 + 0)) = Some i \<and> g_webHandoffs demo_gateway i = None)"
    by (simp add: demo_gateway_def)
qed

section \<open>A saved gateway\<close>

lemma demo_taken: "snd (takeSnapshot (env_from 1 (demo_env 5)) demo_order joined_store) = taken_store"
proof -
  have "expireSessionLocked E demo_sid joined_store = (False, joined_store)" for E
    by (simp add: expireSessionLocked_def)
  then show ?thesis
    by (simp add: taken_store_def takeSnapshot_def Let_def demo_order_def split: option.splits)
qed

definition saved_gateway :: MemoryGateway where
  "saved_gateway = demo_gateway\<lparr>g_sessionStore := joined_store, g_notifySecrets := [demo_sid \<mapsto> ''s3cret'']\<rparr>"

lemma demo_state_path: "TrimSpace ''/var/gateway.json'' \<noteq> []"
  by (simp add: TrimSpace_graphic graphic_def)

lemma saved_gateway_key:
  "\<exists>k. Key (g_trustBundle saved_gateway) (g_signingID demo_gateway) = Some k \<and> valid_key k
     \<and> ActiveAt k (clock_at (demo_env 9) 0) \<and> base64url_decode (tkey_PublicKey k) = Some (g_publicKey demo_gateway)"
proof -
  let ?k = "NewTrustKey ''gw'' (ed25519_Public demo_crypto demo_private) [] 100"
  have "valid_key ?k" by (rule NewTrustKey_valid) simp_all
  moreover have "ActiveAt ?k (clock_at (demo_env 9) 0)"
    by (simp add: ActiveAt_iff NewTrustKey_def second_ns_def)
  ultimately show ?thesis
    by (simp add: saved_gateway_def demo_gateway_def demo_unsigned_def demo_bundle_spec_def Key_def)
      (simp add: NewTrustKey_def base64url_roundtrip)
qed

text \<open>A codec that keeps the declared fields and loses every payload.\<close>

definition lossy_codec :: "GatewaySnapshot \<Rightarrow> state_codec" where
  "lossy_codec snapshot = \<lparr>sc_Encode = (\<lambda>_. Some ''{}''),
     sc_Unmarshal = (\<lambda>_. Some (snapshot\<lparr>gs_ControlPlane := fields_Snapshot (gs_ControlPlane snapshot)\<rparr>))\<rparr>"

lemma lossy_comes_back: "comes_back (lossy_codec snapshot) snapshot"
proof -
  have "fields_Event (fields_Event e) = fields_Event e" "fields_Task (fields_Task task) = fields_Task task" for e task
    by (simp_all add: fields_Event_def fields_Task_def)
  then have "fields_Session (fields_Session x) = fields_Session x" "fields_Events (fields_Events p) = fields_Events p"
      "fields_IdempotencyRecord (fields_IdempotencyRecord r) = fields_IdempotencyRecord r" for x p r
    by (simp_all add: fields_Session_def fields_Events_def fields_IdempotencyRecord_def)
  then have "same_fields (fields_Snapshot c) c" for c
    by (simp add: same_fields_def fields_Snapshot_def comp_def)
  then show ?thesis by (simp add: comes_back_def lossy_codec_def)
qed

lemma demo_saved:
  obtains snapshot saved where
    "\<And>J. sc_Encode J snapshot = Some ''{}'' \<Longrightarrow>
     SaveSnapshot J (demo_env 5) demo_order ''/var/gateway.json'' True None saved_gateway =
       (Inr snapshot, saved, saved_gateway\<lparr>g_sessionStore := taken_store\<rparr>)"
proof -
  obtain control s where "takeSnapshot (env_from 1 (demo_env 5)) demo_order joined_store = (control, s)" by fastforce
  with demo_taken have "takeSnapshot (env_from 1 (demo_env 5)) demo_order joined_store = (control, taken_store)" by simp
  then have "\<exists>snapshot. Gateway_Snapshot (demo_env 5) demo_order saved_gateway = (snapshot, saved_gateway\<lparr>g_sessionStore := taken_store\<rparr>)"
    by (simp add: Gateway_Snapshot_def snapshotLocked_def) (simp add: saved_gateway_def)
  then obtain snapshot where "Gateway_Snapshot (demo_env 5) demo_order saved_gateway = (snapshot, saved_gateway\<lparr>g_sessionStore := taken_store\<rparr>)"
    by blast
  then show thesis using demo_state_path by (intro that [of snapshot]) (simp add: SaveSnapshot_def)
qed

theorem state_file_restores_witness:
  "\<exists>J snapshot saved read s t. SaveSnapshot J (demo_env 5) demo_order ''/var/gateway.json'' True None saved_gateway =
       (Inr snapshot, saved, saved_gateway\<lparr>g_sessionStore := taken_store\<rparr>)
     \<and> LoadInto J (demo_env 9) ''/var/gateway.json'' saved demo_gateway = (Inr (Some read), t)
     \<and> g_sessionStore t = s \<and> fields_sessions (m_sessions s) = [demo_sid \<mapsto> fields_Session joined_session]
     \<and> g_notifySecrets t = [demo_sid \<mapsto> ''s3cret'']"
proof -
  obtain snapshot saved where saved: "\<And>J. sc_Encode J snapshot = Some ''{}'' \<Longrightarrow>
     SaveSnapshot J (demo_env 5) demo_order ''/var/gateway.json'' True None saved_gateway =
       (Inr snapshot, saved, saved_gateway\<lparr>g_sessionStore := taken_store\<rparr>)"
    using demo_saved by blast
  let ?J = "lossy_codec snapshot"
  have save: "SaveSnapshot ?J (demo_env 5) demo_order ''/var/gateway.json'' True None saved_gateway =
       (Inr snapshot, saved, saved_gateway\<lparr>g_sessionStore := taken_store\<rparr>)"
    by (rule saved) (simp add: lossy_codec_def)
  obtain k where k: "Key (g_trustBundle saved_gateway) (g_signingID demo_gateway) = Some k" "valid_key k"
      "ActiveAt k (clock_at (demo_env 9) 0)" "base64url_decode (tkey_PublicKey k) = Some (g_publicKey demo_gateway)"
    using saved_gateway_key by blast
  have "numbered (g_audit saved_gateway)" by (simp add: numbered_def saved_gateway_def demo_gateway_def)
  from state_file_restores [OF save lossy_comes_back _ _ this k] taken_restorable taken_ordered
  obtain read s where load: "LoadInto ?J (demo_env 9) ''/var/gateway.json'' saved demo_gateway = (Inr (Some read),
      demo_gateway\<lparr>g_sessionStore := s, g_audit := g_audit saved_gateway, g_trustBundle := g_trustBundle saved_gateway,
        g_notifySecrets := g_notifySecrets saved_gateway\<rparr>)"
    and s: "fields_store s = fields_store (taken_store\<lparr>m_onEvent := False, m_hookLog := []\<rparr>)"
    by auto
  have "fields_sessions (m_sessions s) = m_sessions (fields_store s)" by (simp add: fields_store_def)
  also have "\<dots> = [demo_sid \<mapsto> fields_Session joined_session]"
    by (simp add: s) (simp add: fields_store_def taken_store_tables)
  finally show ?thesis using save load by (intro exI conjI) (assumption | simp add: saved_gateway_def)+
qed

theorem restored_gateway_is_silent_witness:
  "\<exists>snapshot t. Gateway_RestoreSnapshot (demo_env 9) snapshot (demo_gateway\<lparr>g_sessionStore := SetEventHook True created_store\<rparr>) = (Inr (), t)
     \<and> \<not> m_onEvent (g_sessionStore t) \<and> g_notifySecrets t = [demo_sid \<mapsto> ''s3cret'']"
proof -
  let ?g = "demo_gateway\<lparr>g_sessionStore := SetEventHook True created_store\<rparr>"
  let ?snapshot = "\<lparr>gs_SchemaVersion = GatewaySnapshotSchemaVersion, gs_GeneratedAt = 5, gs_TrustBundle = demo_unsigned,
    gs_ControlPlane = demo_snapshot, gs_Audit = [], gs_NotifySecrets = [demo_sid \<mapsto> ''s3cret'']\<rparr>"
  obtain k where k: "Key demo_unsigned ''gw'' = Some k" "valid_key k"
      "ActiveAt k (clock_at (demo_env 9) 0)" "base64url_decode (tkey_PublicKey k) = Some (g_publicKey demo_gateway)"
    using saved_gateway_key by (auto simp: saved_gateway_def demo_gateway_def)
  have "Ed25519PublicKey (TrustKey_TrustBundle k) = Inr (g_publicKey demo_gateway)"
    using k(2,4) by (auto simp: Ed25519PublicKey_Inr TrustKey_TrustBundle_def valid_key_def)
  then have "\<exists>t. Gateway_RestoreSnapshot (demo_env 9) ?snapshot ?g = (Inr (), t)"
    using active_trust_bundle [OF k(1,3)] demo_snapshot_restored
    by (simp add: Gateway_RestoreSnapshot_def validateSnapshot_def) (simp add: demo_gateway_def)
  then obtain t where t: "Gateway_RestoreSnapshot (demo_env 9) ?snapshot ?g = (Inr (), t)" by blast
  moreover have "\<not> m_onEvent (g_sessionStore t) \<and> g_notifySecrets t = [demo_sid \<mapsto> ''s3cret'']"
    using restored_gateway_is_silent [OF t] by simp
  ultimately show ?thesis by blast
qed

end
