(* ===== verification/Go_Path.thy ===== *)
theory Go_Path
  imports Encodings
begin

text \<open>
  The functions of the packages strings and path/filepath that the sources apply to paths and URLs, for
  a Unix system: splitting and joining at a separator, Clean, Base and IsAbs, with the lemmas the
  components share.
\<close>

section \<open>Splitting and cleaning\<close>

definition replaceChar :: "char \<Rightarrow> char \<Rightarrow> string \<Rightarrow> string" where
  "replaceChar old new s = map (\<lambda>c. if c = old then new else c) s"

fun splitOn :: "char \<Rightarrow> string \<Rightarrow> string list" where
  "splitOn sep [] = [[]]"
| "splitOn sep (c # s) =
     (if c = sep then [] # splitOn sep s
      else case splitOn sep s of [] \<Rightarrow> [[c]] | w # ws \<Rightarrow> (c # w) # ws)"

fun joinWith :: "char \<Rightarrow> string list \<Rightarrow> string" where
  "joinWith sep [] = []"
| "joinWith sep [w] = w"
| "joinWith sep (w # ws) = w @ sep # joinWith sep ws"

text \<open>
  filepath.Clean: empty and dot elements go, an inner dot-dot element goes together with the element
  before it, and a leading one stays in a relative path. The elements kept so far are a stack.
\<close>

fun cleanElements :: "bool \<Rightarrow> string list \<Rightarrow> string list \<Rightarrow> string list" where
  "cleanElements rooted kept [] = rev kept"
| "cleanElements rooted kept (e # es) =
     (if e = [] \<or> e = ''.'' then cleanElements rooted kept es
      else if e = ''..'' then
        (if kept \<noteq> [] \<and> hd kept \<noteq> ''..'' then cleanElements rooted (tl kept) es
         else if rooted then cleanElements rooted kept es
         else cleanElements rooted (e # kept) es)
      else cleanElements rooted (e # kept) es)"

definition filepath_IsAbs :: "string \<Rightarrow> bool" where
  "filepath_IsAbs path \<longleftrightarrow> prefix ''/'' path"

definition filepath_Clean :: "string \<Rightarrow> string" where
  "filepath_Clean path =
     (if path = [] then ''.''
      else
        (let rooted = filepath_IsAbs path;
             out = (if rooted then ''/'' else []) @ joinWith CHR ''/'' (cleanElements rooted [] (splitOn CHR ''/'' path))
         in if out = [] then ''.'' else out))"

definition filepath_Base :: "string \<Rightarrow> string" where
  "filepath_Base path =
     (if path = [] then ''.''
      else
        (let stripped = TrimRightSlash path; base = last (splitOn CHR ''/'' stripped)
         in if base = [] then ''/'' else base))"

definition filepath_Join :: "string list \<Rightarrow> string" where
  "filepath_Join parts =
     (let given = filter (\<lambda>e. e \<noteq> []) parts
      in if given = [] then [] else filepath_Clean (joinWith CHR ''/'' given))"

definition filepath_Dir :: "string \<Rightarrow> string" where
  "filepath_Dir path = filepath_Clean (rev (dropWhile (\<lambda>c. c \<noteq> CHR ''/'') (rev path)))"

text \<open>
  filepath.Rel strips the elements two cleaned paths have in common, goes up once for every element of
  the base that is left, and down along the rest of the target. It fails when only one of them is
  rooted or when it would have to go up from an unknown element.
\<close>

definition path_elems :: "string \<Rightarrow> string list" where
  "path_elems path = filter (\<lambda>e. e \<noteq> []) (splitOn CHR ''/'' path)"

definition rel_elems :: "string \<Rightarrow> string list" where
  "rel_elems path = (if path = ''.'' then [] else path_elems path)"

fun strip_common :: "string list \<Rightarrow> string list \<Rightarrow> string list \<times> string list" where
  "strip_common (b # bs) (t # ts) = (if b = t then strip_common bs ts else (b # bs, t # ts))"
| "strip_common bs ts = (bs, ts)"

definition filepath_Rel :: "string \<Rightarrow> string \<Rightarrow> string option" where
  "filepath_Rel basepath targpath =
     (let base = filepath_Clean basepath; targ = filepath_Clean targpath in
      if base = targ then Some ''.''
      else if filepath_IsAbs base \<noteq> filepath_IsAbs targ then None
      else
        (let (up, down) = strip_common (rel_elems base) (rel_elems targ)
         in if up \<noteq> [] \<and> hd up = ''..'' then None
            else Some (joinWith CHR ''/'' (replicate (length up) ''..'' @ down))))"

section \<open>Path elements\<close>

lemma splitOn_nonempty [simp]: "splitOn sep s \<noteq> []"
  by (induction s) (auto split: list.splits)

lemma splitOn_absent: "sep \<notin> set s \<Longrightarrow> splitOn sep s = [s]"
  by (induction s) auto

lemma splitOn_elements: "w \<in> set (splitOn sep s) \<Longrightarrow> sep \<notin> set w"
proof (induction s arbitrary: w)
  case (Cons c s)
  then show ?case by (cases "splitOn sep s") (auto split: if_splits)
qed simp

lemma cleanElements_subset: "set (cleanElements rooted kept es) \<subseteq> set kept \<union> set es"
proof (induction es arbitrary: kept)
  case (Cons e es)
  have "set (tl kept) \<subseteq> set kept" by (cases kept) auto
  with Cons [of kept] Cons [of "tl kept"] Cons [of "e # kept"] show ?case by auto
qed simp

lemma replaceChar_simps [simp]:
  "replaceChar a b [] = []"
  "replaceChar a b (c # s) = (if c = a then b else c) # replaceChar a b s"
  "replaceChar a b s = [] \<longleftrightarrow> s = []"
  by (simp_all add: replaceChar_def)

lemma dropWhile_none: "x \<notin> set xs \<Longrightarrow> dropWhile (\<lambda>c. c = x) xs = xs"
  by (cases xs) auto

lemma filepath_Base_plain: "s \<noteq> [] \<Longrightarrow> CHR ''/'' \<notin> set s \<Longrightarrow> filepath_Base s = s"
  by (simp add: filepath_Base_def TrimRightSlash_def dropWhile_none splitOn_absent)

lemma replaceChar_absent: "a \<notin> set s \<Longrightarrow> replaceChar a b s = s"
  by (induction s) auto

text \<open>A cleaned relative path that goes up starts with its dot-dot elements.\<close>

definition starts_up :: "string list \<Rightarrow> bool" where
  "starts_up es \<longleftrightarrow> es \<noteq> [] \<and> hd es = ''..''"

lemma cleanElements_stays_up:
  "kept \<noteq> [] \<Longrightarrow> last kept = ''..'' \<Longrightarrow> starts_up (cleanElements False kept es)"
proof (induction es arbitrary: kept)
  case Nil
  then show ?case by (simp add: starts_up_def hd_rev)
next
  case (Cons e es)
  have "tl kept \<noteq> [] \<and> last (tl kept) = ''..''" if "hd kept \<noteq> ''..''"
    using Cons.prems that by (cases kept) (auto split: if_splits)
  then show ?case using Cons by (auto simp: starts_up_def)
qed

lemma joinWith_starts_up:
  assumes "\<forall>e \<in> set es. CHR ''/'' \<notin> set e"
  shows "joinWith CHR ''/'' es = ''..'' \<or> prefix ''../'' (joinWith CHR ''/'' es) \<longleftrightarrow> starts_up es"
proof (cases es)
  case Nil
  then show ?thesis by (simp add: starts_up_def)
next
  case (Cons w ws)
  have "w = ''..''" if "prefix ''../'' (w @ CHR ''/'' # r)" "CHR ''/'' \<notin> set w" for r
  proof -
    have "takeWhile (\<lambda>c. c \<noteq> CHR ''/'') (w @ CHR ''/'' # r) = w"
      using that(2) by (induction w) auto
    with that(1) show ?thesis by (auto simp: prefix_def)
  qed
  then show ?thesis
    using Cons assms by (cases ws) (auto simp: starts_up_def prefix_def append_eq_Cons_conv)
qed

section \<open>Rooted paths\<close>

text \<open>A rooted path in clean form is a slash and its names, joined by slashes.\<close>

definition name_ok :: "string \<Rightarrow> bool" where
  "name_ok e \<longleftrightarrow> e \<noteq> [] \<and> e \<noteq> ''.'' \<and> e \<noteq> ''..'' \<and> CHR ''/'' \<notin> set e"

definition abs_path :: "string list \<Rightarrow> string" where
  "abs_path es = CHR ''/'' # joinWith CHR ''/'' es"

lemma splitOn_slash: "splitOn sep (a @ sep # b) = splitOn sep a @ splitOn sep b"
proof (induction a)
  case (Cons c a)
  then show ?case by (cases "splitOn sep a") auto
qed simp

lemma splitOn_join:
  "es \<noteq> [] \<Longrightarrow> \<forall>e \<in> set es. sep \<notin> set e \<Longrightarrow> splitOn sep (joinWith sep es) = es"
proof (induction sep es rule: joinWith.induct)
  case (3 sep w v ws)
  then show ?case by (simp add: splitOn_slash splitOn_absent)
qed (auto simp: splitOn_absent)

lemma joinWith_nonempty: "\<forall>e \<in> set es. e \<noteq> [] \<Longrightarrow> joinWith sep es = [] \<longleftrightarrow> es = []"
  by (cases "(sep, es)" rule: joinWith.cases) auto

lemma names_split: "\<forall>e \<in> set es. name_ok e \<Longrightarrow> es \<noteq> [] \<Longrightarrow> splitOn CHR ''/'' (joinWith CHR ''/'' es) = es"
  by (rule splitOn_join) (auto simp: name_ok_def)

lemma path_elems_abs [simp]: "\<forall>e \<in> set es. name_ok e \<Longrightarrow> path_elems (abs_path es) = es"
proof (cases "es = []")
  case False
  assume "\<forall>e \<in> set es. name_ok e"
  moreover from this have "filter (\<lambda>e. e \<noteq> []) es = es" by (auto simp: name_ok_def filter_id_conv)
  ultimately show ?thesis using False by (simp add: path_elems_def abs_path_def names_split)
qed (simp add: path_elems_def abs_path_def)

lemma abs_path_IsAbs [simp]: "filepath_IsAbs (abs_path es)"
  by (simp add: filepath_IsAbs_def abs_path_def)

lemma abs_path_inj:
  "\<forall>e \<in> set es. name_ok e \<Longrightarrow> \<forall>e \<in> set fs. name_ok e \<Longrightarrow> abs_path es = abs_path fs \<longleftrightarrow> es = fs"
  using path_elems_abs by metis

lemma cleanElements_append:
  "rooted \<Longrightarrow> cleanElements rooted kept (as @ bs) = cleanElements rooted (rev (cleanElements rooted kept as)) bs"
  by (induction as arbitrary: kept) auto

lemma cleanElements_names:
  "\<forall>e \<in> set es. name_ok e \<Longrightarrow> cleanElements rooted kept es = rev kept @ es"
  by (induction es arbitrary: kept) (auto simp: name_ok_def)

lemma cleanElements_ok:
  "\<forall>e \<in> set kept. name_ok e \<Longrightarrow> \<forall>e \<in> set es. CHR ''/'' \<notin> set e \<Longrightarrow>
   \<forall>e \<in> set (cleanElements True kept es). name_ok e"
proof (induction es arbitrary: kept)
  case (Cons e es)
  have rest: "\<forall>e \<in> set es. CHR ''/'' \<notin> set e" using Cons.prems(2) by simp
  have tl: "\<forall>e \<in> set (tl kept). name_ok e" using Cons.prems(1) by (cases kept) auto
  consider "e = [] \<or> e = ''.''" | "e = ''..''" | "name_ok e"
    using Cons.prems(2) by (auto simp: name_ok_def)
  then show ?case
  proof cases
    case 1
    then have "cleanElements True kept (e # es) = cleanElements True kept es" by simp
    then show ?thesis using Cons.IH [OF Cons.prems(1) rest] by metis
  next
    case 2
    then have "cleanElements True kept (e # es) \<in> {cleanElements True (tl kept) es, cleanElements True kept es}" by simp
    then show ?thesis using Cons.IH [OF Cons.prems(1) rest] Cons.IH [OF tl rest] by fastforce
  next
    case 3
    then have "cleanElements True kept (e # es) = cleanElements True (e # kept) es" by (simp add: name_ok_def)
    moreover have "\<forall>x \<in> set (e # kept). name_ok x" using 3 Cons.prems(1) by simp
    ultimately show ?thesis using Cons.IH [OF _ rest] by metis
  qed
qed simp

lemma Clean_rooted: "filepath_IsAbs path \<Longrightarrow> filepath_Clean path = abs_path (cleanElements True [] (splitOn CHR ''/'' path))"
  by (auto simp: filepath_Clean_def abs_path_def filepath_IsAbs_def Let_def)

lemma Clean_rooted_names:
  "filepath_IsAbs path \<Longrightarrow> \<exists>es. filepath_Clean path = abs_path es \<and> (\<forall>e \<in> set es. name_ok e)"
  using Clean_rooted [of path] cleanElements_ok [of "[]" "splitOn CHR ''/'' path"] splitOn_elements by fastforce

lemma Clean_abs [simp]:
  assumes "\<forall>e \<in> set es. name_ok e"
  shows "filepath_Clean (abs_path es) = abs_path es"
proof (cases "es = []")
  case True
  then show ?thesis by (simp add: filepath_Clean_def filepath_IsAbs_def abs_path_def)
next
  case False
  then have "splitOn CHR ''/'' (abs_path es) = [] # es" using assms by (simp add: abs_path_def names_split)
  then show ?thesis using assms by (simp add: Clean_rooted cleanElements_names)
qed

text \<open>Joining a relative path to a rooted one.\<close>

lemma Join_rooted:
  assumes "\<forall>e \<in> set es. name_ok e" "path \<noteq> []"
  shows "filepath_Join [abs_path es, path] = abs_path (cleanElements True (rev es) (splitOn CHR ''/'' path))"
proof -
  have join: "filepath_Join [abs_path es, path] = filepath_Clean (abs_path es @ CHR ''/'' # path)"
    using assms(2) by (simp add: filepath_Join_def abs_path_def)
  have "cleanElements True [] (splitOn CHR ''/'' (abs_path es)) = es"
  proof (cases "es = []")
    case False
    then show ?thesis using assms(1) by (simp add: abs_path_def names_split cleanElements_names)
  qed (simp add: abs_path_def)
  then have "cleanElements True [] (splitOn CHR ''/'' (abs_path es @ CHR ''/'' # path))
      = cleanElements True (rev es) (splitOn CHR ''/'' path)"
    by (simp add: splitOn_slash cleanElements_append)
  moreover have "filepath_IsAbs (abs_path es @ CHR ''/'' # path)" by (simp add: filepath_IsAbs_def abs_path_def)
  ultimately show ?thesis by (simp add: join Clean_rooted)
qed

lemma Join_name:
  "\<forall>e \<in> set es. name_ok e \<Longrightarrow> name_ok e \<Longrightarrow> filepath_Join [abs_path es, e] = abs_path (es @ [e])"
  by (simp add: Join_rooted splitOn_absent name_ok_def)

lemma strip_common_spec:
  "strip_common bs ts = (up, down) \<Longrightarrow>
   (\<exists>c. bs = c @ up \<and> ts = c @ down) \<and> (up = [] \<or> down = [] \<or> hd up \<noteq> hd down)"
proof (induction bs ts rule: strip_common.induct)
  case (1 b bs t ts)
  then show ?case by (auto split: if_splits)
qed auto

section \<open>Relative paths\<close>

lemma cleanElements_relative:
  "\<forall>e \<in> set kept. name_ok e \<Longrightarrow> \<forall>e \<in> set es. CHR ''/'' \<notin> set e \<Longrightarrow>
   (\<forall>e \<in> set (cleanElements False kept es). name_ok e) \<or> starts_up (cleanElements False kept es)"
proof (induction es arbitrary: kept)
  case (Cons e es)
  have rest: "\<forall>e \<in> set es. CHR ''/'' \<notin> set e" using Cons.prems(2) by simp
  have tl: "\<forall>e \<in> set (tl kept). name_ok e" using Cons.prems(1) by (cases kept) auto
  consider "e = [] \<or> e = ''.''" | "e = ''..''" "kept = []" | "e = ''..''" "kept \<noteq> []" "hd kept \<noteq> ''..''" | "name_ok e"
    using Cons.prems by (cases kept) (auto simp: name_ok_def)
  then show ?case
  proof cases
    case 1
    then have "cleanElements False kept (e # es) = cleanElements False kept es" by simp
    then show ?thesis using Cons.IH [OF Cons.prems(1) rest] by metis
  next
    case 2
    then have "cleanElements False kept (e # es) = cleanElements False [''..''] es" by simp
    then show ?thesis using cleanElements_stays_up [of "[''..'']" es] by simp
  next
    case 3
    then have "cleanElements False kept (e # es) = cleanElements False (tl kept) es" by simp
    then show ?thesis using Cons.IH [OF tl rest] by metis
  next
    case 4
    then have "cleanElements False kept (e # es) = cleanElements False (e # kept) es" by (simp add: name_ok_def)
    moreover have "\<forall>x \<in> set (e # kept). name_ok x" using 4 Cons.prems(1) by simp
    ultimately show ?thesis using Cons.IH [OF _ rest] by metis
  qed
qed simp

text \<open>A cleaned relative path that neither stays nor goes up is its names, joined by slashes.\<close>

lemma Clean_relative:
  assumes "path \<noteq> []" "\<not> filepath_IsAbs path" "filepath_Clean path \<noteq> ''.''" "filepath_Clean path \<noteq> ''..''"
    "\<not> prefix ''../'' (filepath_Clean path)"
  shows "\<exists>es. filepath_Clean path = joinWith CHR ''/'' es \<and> es \<noteq> [] \<and> (\<forall>e \<in> set es. name_ok e)
    \<and> \<Union> (set ` set es) \<subseteq> set path"
proof -
  let ?es = "cleanElements False [] (splitOn CHR ''/'' path)"
  have slash: "\<forall>e \<in> set (splitOn CHR ''/'' path). CHR ''/'' \<notin> set e" using splitOn_elements by blast
  have sub: "set ?es \<subseteq> set (splitOn CHR ''/'' path)" using cleanElements_subset [of False "[]"] by simp
  have clean: "filepath_Clean path = (if joinWith CHR ''/'' ?es = [] then ''.'' else joinWith CHR ''/'' ?es)"
    using assms(1,2) by (simp add: filepath_Clean_def Let_def)
  then have join: "filepath_Clean path = joinWith CHR ''/'' ?es" using assms(3) by (auto split: if_splits)
  have "\<not> starts_up ?es" using joinWith_starts_up [of ?es] slash sub join assms(4,5) by auto
  then have names: "\<forall>e \<in> set ?es. name_ok e" using cleanElements_relative [of "[]", OF _ slash] by auto
  have "?es \<noteq> []" using clean join assms(3) by auto
  moreover have "set e \<subseteq> set path" if "e \<in> set (splitOn CHR ''/'' path)" for e using that
  proof (induction path arbitrary: e)
    case (Cons c path)
    then show ?case by (cases "splitOn CHR ''/'' path") (fastforce split: if_splits)+
  qed simp
  ultimately show ?thesis using join names sub by (intro exI [of _ ?es]) auto
qed

lemma joinWith_snoc: "es \<noteq> [] \<Longrightarrow> joinWith sep (es @ [e]) = joinWith sep es @ sep # e"
  by (induction sep es rule: joinWith.induct) auto

lemma Clean_names:
  assumes "\<forall>e \<in> set es. name_ok e" "es \<noteq> []"
  shows "filepath_Clean (joinWith CHR ''/'' es) = joinWith CHR ''/'' es"
proof -
  have ne: "joinWith CHR ''/'' es \<noteq> []" using assms joinWith_nonempty [of es] by (auto simp: name_ok_def)
  obtain e fs where es: "es = e # fs" using assms(2) by (cases es) auto
  then have "hd (joinWith CHR ''/'' es) \<noteq> CHR ''/''" using assms(1) by (cases fs; cases e) (auto simp: name_ok_def)
  then have "\<not> filepath_IsAbs (joinWith CHR ''/'' es)"
    using ne by (cases "joinWith CHR ''/'' es") (auto simp: filepath_IsAbs_def)
  then show ?thesis using assms ne by (simp add: filepath_Clean_def names_split cleanElements_names Let_def)
qed

lemma Base_names:
  assumes "\<forall>e \<in> set es. name_ok e" "name_ok e"
  shows "filepath_Base (joinWith CHR ''/'' (es @ [e])) = e"
proof -
  let ?p = "joinWith CHR ''/'' (es @ [e])"
  have "last e \<noteq> CHR ''/''" using assms(2) last_in_set [of e] unfolding name_ok_def by metis
  then have last: "?p \<noteq> [] \<and> last ?p \<noteq> CHR ''/''"
    using assms(2) by (cases "es = []") (auto simp: joinWith_snoc name_ok_def)
  then have "TrimRightSlash ?p = ?p" by (cases ?p rule: rev_cases) (simp_all add: TrimRightSlash_def)
  moreover have "splitOn CHR ''/'' ?p = es @ [e]" using names_split [of "es @ [e]"] assms by auto
  ultimately show ?thesis using last assms(2) by (simp add: filepath_Base_def name_ok_def)
qed

lemma dropWhile_to_slash: "CHR ''/'' \<notin> set e \<Longrightarrow> rev (dropWhile (\<lambda>c. c \<noteq> CHR ''/'') (rev (p @ CHR ''/'' # e))) = p @ ''/''"
  by (subst rev_append, simp, subst dropWhile_append2) auto

lemma Dir_names:
  assumes "\<forall>e \<in> set es. name_ok e" "name_ok e"
  shows "filepath_Dir (joinWith CHR ''/'' (es @ [e])) = (if es = [] then ''.'' else joinWith CHR ''/'' es)"
proof (cases "es = []")
  case True
  then have "dropWhile (\<lambda>c. c \<noteq> CHR ''/'') (rev e) = []" using assms(2) by (auto simp: name_ok_def dropWhile_eq_Nil_conv)
  then show ?thesis using True by (simp add: filepath_Dir_def filepath_Clean_def)
next
  case False
  have "rev (dropWhile (\<lambda>c. c \<noteq> CHR ''/'') (rev (joinWith CHR ''/'' (es @ [e])))) = joinWith CHR ''/'' es @ ''/''"
    using False assms(2) dropWhile_to_slash [of e] by (simp add: joinWith_snoc name_ok_def)
  moreover have "filepath_Clean (joinWith CHR ''/'' es @ ''/'') = joinWith CHR ''/'' es"
  proof -
    have ne: "joinWith CHR ''/'' es \<noteq> []" using assms(1) False joinWith_nonempty [of es] by (auto simp: name_ok_def)
    have "hd (joinWith CHR ''/'' es) \<noteq> CHR ''/''"
      using assms(1) False by (cases es; cases "tl es"; cases "hd es") (auto simp: name_ok_def)
    then have "\<not> filepath_IsAbs (joinWith CHR ''/'' es @ ''/'')"
      using ne by (cases "joinWith CHR ''/'' es") (auto simp: filepath_IsAbs_def)
    moreover have "splitOn CHR ''/'' (joinWith CHR ''/'' es @ ''/'') = es @ [[]]"
      using splitOn_slash [of "CHR ''/''" "joinWith CHR ''/'' es" "[]"] names_split [OF assms(1) False] by simp
    moreover have "cleanElements False [] (es @ [[]]) = es"
    proof -
      have "cleanElements False kept (es @ [[]]) = cleanElements False kept es" for kept
        by (induction es arbitrary: kept) auto
      then show ?thesis using cleanElements_names [OF assms(1)] by simp
    qed
    ultimately show ?thesis using ne by (simp add: filepath_Clean_def Let_def)
  qed
  ultimately show ?thesis using False by (simp add: filepath_Dir_def)
qed

end
