(* ===== verification/Policy.thy ===== *)
theory Policy
  imports Go_Path
begin

text \<open>
  The policy layer (internal/policy: capabilities.go and shell.go, internal/model: host_mode.go and
  task_policy.go): which capabilities a host mode grants, and the explanation of a task's policy that
  the gateway gives before the host checks it again. A policy is a map[string]any, whose values are
  dynamic values or slices of strings. The paths are those of a Unix gateway.
\<close>

section \<open>Capabilities\<close>

type_synonym Capability = string

definition CapabilityShellUser :: Capability where
  "CapabilityShellUser = ''shell.user''"

definition CapabilityPowerShellUser :: Capability where
  "CapabilityPowerShellUser = ''powershell.user''"

definition CapabilityShellAdminJIT :: Capability where
  "CapabilityShellAdminJIT = ''shell.admin.jit''"

definition CapabilityFSRead :: Capability where
  "CapabilityFSRead = ''fs.read''"

definition CapabilityFSWriteScoped :: Capability where
  "CapabilityFSWriteScoped = ''fs.write.scoped''"

definition CapabilityFileTransferRead :: Capability where
  "CapabilityFileTransferRead = ''file.transfer.read''"

definition CapabilityFileTransferWrite :: Capability where
  "CapabilityFileTransferWrite = ''file.transfer.write''"

definition CapabilityProcessInspect :: Capability where
  "CapabilityProcessInspect = ''process.inspect''"

definition CapabilityElevationRequest :: Capability where
  "CapabilityElevationRequest = ''elevation.request''"

definition CapabilityPackageInstallAuthorization :: Capability where
  "CapabilityPackageInstallAuthorization = ''package.install.requiresAuthorization''"

definition CapabilityServiceModifyAuthorization :: Capability where
  "CapabilityServiceModifyAuthorization = ''service.modify.requiresAuthorization''"

definition CapabilityGUIView :: Capability where
  "CapabilityGUIView = ''gui.view''"

definition CapabilityGUIControlAuthorization :: Capability where
  "CapabilityGUIControlAuthorization = ''gui.control.requiresAuthorization''"

definition CapabilityAppLaunch :: Capability where
  "CapabilityAppLaunch = ''app.launch''"

definition CapabilityAppClose :: Capability where
  "CapabilityAppClose = ''app.close''"

definition CapabilityURLOpen :: Capability where
  "CapabilityURLOpen = ''url.open''"

definition CapabilityScreenScreenshot :: Capability where
  "CapabilityScreenScreenshot = ''screen.screenshot''"

definition CapabilityScreenRecord :: Capability where
  "CapabilityScreenRecord = ''screen.record''"

definition CapabilityWindowInspect :: Capability where
  "CapabilityWindowInspect = ''window.inspect''"

definition CapabilityWindowFocus :: Capability where
  "CapabilityWindowFocus = ''window.focus''"

definition CapabilityWindowMove :: Capability where
  "CapabilityWindowMove = ''window.move''"

definition CapabilityInputKeyboard :: Capability where
  "CapabilityInputKeyboard = ''input.keyboard''"

definition CapabilityInputMouse :: Capability where
  "CapabilityInputMouse = ''input.mouse''"

definition CapabilityClipboardRead :: Capability where
  "CapabilityClipboardRead = ''clipboard.read''"

definition CapabilityClipboardWrite :: Capability where
  "CapabilityClipboardWrite = ''clipboard.write''"

definition CapabilityUnattendedAccess :: Capability where
  "CapabilityUnattendedAccess = ''unattended.access''"

definition CapabilityNetworkDiscoveryScoped :: Capability where
  "CapabilityNetworkDiscoveryScoped = ''network.discovery.scoped''"

definition CapabilityNetworkProbeLAN :: Capability where
  "CapabilityNetworkProbeLAN = ''network.probe.lan''"

definition CapabilityRelayUse :: Capability where
  "CapabilityRelayUse = ''relay.use''"

definition CapabilityMeshUse :: Capability where
  "CapabilityMeshUse = ''mesh.use''"

definition CapabilitySSHTunnel :: Capability where
  "CapabilitySSHTunnel = ''ssh.tunnel''"

definition CapabilityDownstreamControl :: Capability where
  "CapabilityDownstreamControl = ''downstream.control.scoped''"

definition CapabilityDevCodex :: Capability where
  "CapabilityDevCodex = ''dev.codex''"

definition CapabilityDevClaudeCode :: Capability where
  "CapabilityDevClaudeCode = ''claude-code.run''"

definition CapabilityDevACP :: Capability where
  "CapabilityDevACP = ''acpx.run''"

lemmas capability_defs =
  CapabilityShellUser_def CapabilityPowerShellUser_def CapabilityShellAdminJIT_def
  CapabilityFSRead_def CapabilityFSWriteScoped_def CapabilityFileTransferRead_def
  CapabilityFileTransferWrite_def CapabilityProcessInspect_def CapabilityElevationRequest_def
  CapabilityPackageInstallAuthorization_def CapabilityServiceModifyAuthorization_def CapabilityGUIView_def
  CapabilityGUIControlAuthorization_def CapabilityAppLaunch_def CapabilityAppClose_def
  CapabilityURLOpen_def CapabilityScreenScreenshot_def CapabilityScreenRecord_def
  CapabilityWindowInspect_def CapabilityWindowFocus_def CapabilityWindowMove_def
  CapabilityInputKeyboard_def CapabilityInputMouse_def CapabilityClipboardRead_def
  CapabilityClipboardWrite_def CapabilityUnattendedAccess_def CapabilityNetworkDiscoveryScoped_def
  CapabilityNetworkProbeLAN_def CapabilityRelayUse_def CapabilityMeshUse_def
  CapabilitySSHTunnel_def CapabilityDownstreamControl_def CapabilityDevCodex_def
  CapabilityDevClaudeCode_def CapabilityDevACP_def

definition TemporaryDefaults :: "Capability list" where
  "TemporaryDefaults =
     [CapabilityShellUser, CapabilityPowerShellUser, CapabilityFSRead,
      CapabilityFSWriteScoped, CapabilityFileTransferRead, CapabilityFileTransferWrite,
      CapabilityProcessInspect, CapabilityElevationRequest, CapabilityGUIView,
      CapabilityGUIControlAuthorization, CapabilityAppLaunch, CapabilityAppClose,
      CapabilityURLOpen, CapabilityScreenScreenshot, CapabilityScreenRecord,
      CapabilityWindowInspect, CapabilityWindowFocus, CapabilityWindowMove,
      CapabilityInputKeyboard, CapabilityInputMouse]"

definition IsDangerous :: "Capability \<Rightarrow> bool" where
  "IsDangerous cap \<longleftrightarrow> cap \<in> set
     [CapabilityShellAdminJIT, CapabilityPackageInstallAuthorization, CapabilityServiceModifyAuthorization,
      CapabilityGUIView, CapabilityGUIControlAuthorization, CapabilityAppLaunch,
      CapabilityAppClose, CapabilityURLOpen, CapabilityScreenScreenshot,
      CapabilityScreenRecord, CapabilityWindowFocus, CapabilityWindowMove,
      CapabilityInputKeyboard, CapabilityInputMouse, CapabilityClipboardRead,
      CapabilityClipboardWrite, CapabilityUnattendedAccess, CapabilityDownstreamControl]"

text \<open>MergeTemporaryCapabilities: both loops append what was not seen yet; the first one trims.\<close>

fun mergeExplicit :: "string list \<Rightarrow> string list \<Rightarrow> string list" where
  "mergeExplicit result [] = result"
| "mergeExplicit result (raw # rest) =
     (let capability = TrimSpace raw in
      if capability = [] \<or> capability \<in> set result then mergeExplicit result rest
      else mergeExplicit (result @ [capability]) rest)"

fun mergeDefaults :: "string list \<Rightarrow> Capability list \<Rightarrow> string list" where
  "mergeDefaults result [] = result"
| "mergeDefaults result (value # rest) =
     (if value \<notin> set result then mergeDefaults (result @ [value]) rest else mergeDefaults result rest)"

definition MergeTemporaryCapabilities :: "string list \<Rightarrow> string list" where
  "MergeTemporaryCapabilities explicit = mergeDefaults (mergeExplicit [] explicit) TemporaryDefaults"

section \<open>Host modes\<close>

definition HostModeAttendedTemporary :: string where
  "HostModeAttendedTemporary = ''attended-temporary''"

definition HostModeManaged :: string where
  "HostModeManaged = ''managed''"

definition HostModeBreakGlass :: string where
  "HostModeBreakGlass = ''break-glass''"

definition HostMode_Valid :: "string \<Rightarrow> bool" where
  "HostMode_Valid m \<longleftrightarrow> m = HostModeAttendedTemporary \<or> m = HostModeManaged \<or> m = HostModeBreakGlass"

record Explanation =
  ex_Mode :: string
  ex_Capability :: string
  ex_Allowed :: bool
  ex_Authorization :: bool
  ex_Reason :: string

definition explained :: "string \<Rightarrow> Capability \<Rightarrow> bool \<Rightarrow> bool \<Rightarrow> string \<Rightarrow> Explanation" where
  "explained mode capability allowed authorization reason =
     \<lparr>ex_Mode = mode, ex_Capability = capability, ex_Allowed = allowed, ex_Authorization = authorization,
      ex_Reason = reason\<rparr>"

definition Explain :: "string \<Rightarrow> Capability \<Rightarrow> Explanation" where
  "Explain mode capability =
     (if \<not> HostMode_Valid mode then explained mode capability False False ''unknown host mode''
      else if mode = HostModeAttendedTemporary then
        (if capability \<in> set TemporaryDefaults
         then explained mode capability True False ''allowed by temporary-mode defaults''
         else if IsDangerous capability
         then explained mode capability True True
                ''available only through explicit session capability or operator-reviewed interrupt''
         else explained mode capability False False ''not part of temporary-mode defaults'')
      else if IsDangerous capability
      then explained mode capability True True ''dangerous capability requires authorization''
      else explained mode capability True False ''allowed subject to host and task policy'')"

section \<open>Reading a policy\<close>

datatype policy_value = PAny goval | PStrings "string list"

type_synonym policy = "string \<rightharpoonup> policy_value"

definition DefaultTaskTTLSeconds :: gint where "DefaultTaskTTLSeconds = 1800"

definition DefaultTaskMaxOutputBytes :: gint where "DefaultTaskMaxOutputBytes = 1024 * 1024"

definition stringValue :: "policy \<Rightarrow> string \<Rightarrow> string \<Rightarrow> string" where
  "stringValue values key fallback =
     (case values key of Some (PAny (GString t)) \<Rightarrow> t | _ \<Rightarrow> fallback)"

definition intValue :: "policy \<Rightarrow> string \<Rightarrow> gint \<Rightarrow> gint" where
  "intValue values key fallback =
     (case values key of
        Some (PAny (GInt n)) \<Rightarrow> n
      | Some (PAny (GInt64 n)) \<Rightarrow> n
      | Some (PAny (GFloat64 w)) \<Rightarrow> int_of_float64 w
      | _ \<Rightarrow> fallback)"

fun nonempty_string :: "goval \<Rightarrow> string option" where
  "nonempty_string (GString t) = (if t = [] then None else Some t)"
| "nonempty_string _ = None"

definition stringSliceValue :: "policy \<Rightarrow> string \<Rightarrow> string list" where
  "stringSliceValue values key =
     (case values key of
        Some (PStrings xs) \<Rightarrow> xs
      | Some (PAny (GList items)) \<Rightarrow> List.map_filter nonempty_string items
      | _ \<Rightarrow> [])"

definition containsString :: "string list \<Rightarrow> string \<Rightarrow> bool" where
  "containsString values want = list_ex (\<lambda>value. value = want) values"

definition appendUnique :: "string list \<Rightarrow> string \<Rightarrow> string list" where
  "appendUnique values item =
     (if TrimSpace item = [] \<or> containsString values item then values else values @ [item])"

section \<open>Paths\<close>

definition writeScopeEscapes :: "string \<Rightarrow> bool" where
  "writeScopeEscapes scope0 =
     (let scope = TrimSpace scope0 in
      if scope = [] then False
      else if length scope \<ge> 2 \<and> scope ! 1 = CHR '':'' then True
      else if prefix [CHR 0x5C] scope then True
      else if filepath_IsAbs scope then True
      else
        (let clean = filepath_Clean (replaceChar (CHR 0x5C) (CHR ''/'') scope)
         in clean = ''..'' \<or> prefix ''../'' clean))"

section \<open>Commands\<close>

definition commandName :: "string \<Rightarrow> string" where
  "commandName command = filepath_Base (replaceChar (CHR 0x5C) (CHR ''/'') (TrimSpace command))"

definition hasPathSeparator :: "string \<Rightarrow> bool" where
  "hasPathSeparator command \<longleftrightarrow> CHR ''/'' \<in> set command \<or> CHR 0x5C \<in> set command"

fun commandListed :: "string \<Rightarrow> string list \<Rightarrow> bool" where
  "commandListed command [] = False"
| "commandListed command (allowed0 # allowlist) =
     (let allowed = TrimSpace allowed0 in
      if allowed = [] then commandListed command allowlist
      else if hasPathSeparator command \<or> hasPathSeparator allowed
      then (if command = allowed then True else commandListed command allowlist)
      else if commandName command = commandName allowed then True
      else commandListed command allowlist)"

definition allowedCommand :: "string \<Rightarrow> string list \<Rightarrow> bool" where
  "allowedCommand command0 allowlist =
     (let command = TrimSpace command0 in if command = [] then False else commandListed command allowlist)"

definition powershellCommandAllowlisted :: "string \<Rightarrow> string list \<Rightarrow> bool" where
  "powershellCommandAllowlisted command0 allowCommands =
     (let command = TrimSpace command0 in
      if command \<noteq> [] then allowedCommand command allowCommands
      else list_ex (\<lambda>candidate. allowedCommand candidate allowCommands)
             [''powershell.exe'', ''powershell'', ''pwsh''])"

definition normalizeRemoteAction :: "unicode \<Rightarrow> string \<Rightarrow> string" where
  "normalizeRemoteAction U action = replaceChar CHR ''_'' CHR ''.'' (ToLower U (TrimSpace action))"

section \<open>Explanations of a task\<close>

record TaskPolicyExplanation =
  te_Mode :: string
  te_Adapter :: string
  te_Allowed :: bool
  te_AuthorizationRequired :: bool
  te_RequiredAuthorizations :: "string list"
  te_Denials :: "string list"
  te_Warnings :: "string list"
  te_Reasons :: "string list"

definition new_explanation :: "string \<Rightarrow> string \<Rightarrow> TaskPolicyExplanation" where
  "new_explanation mode adapter =
     \<lparr>te_Mode = mode, te_Adapter = adapter, te_Allowed = False, te_AuthorizationRequired = False,
      te_RequiredAuthorizations = [], te_Denials = [], te_Warnings = [], te_Reasons = []\<rparr>"

definition deny :: "string \<Rightarrow> TaskPolicyExplanation \<Rightarrow> TaskPolicyExplanation" where
  "deny message e = e\<lparr>te_Denials := te_Denials e @ [message]\<rparr>"

definition warn :: "string \<Rightarrow> TaskPolicyExplanation \<Rightarrow> TaskPolicyExplanation" where
  "warn message e = e\<lparr>te_Warnings := te_Warnings e @ [message]\<rparr>"

definition reason :: "string \<Rightarrow> TaskPolicyExplanation \<Rightarrow> TaskPolicyExplanation" where
  "reason message e = e\<lparr>te_Reasons := te_Reasons e @ [message]\<rparr>"

definition require :: "string \<Rightarrow> TaskPolicyExplanation \<Rightarrow> TaskPolicyExplanation" where
  "require authorization e =
     e\<lparr>te_RequiredAuthorizations := appendUnique (te_RequiredAuthorizations e) authorization\<rparr>"

definition finalizeTaskExplanation :: "TaskPolicyExplanation \<Rightarrow> TaskPolicyExplanation" where
  "finalizeTaskExplanation e =
     e\<lparr>te_AuthorizationRequired := te_RequiredAuthorizations e \<noteq> [], te_Allowed := te_Denials e = []\<rparr>"

definition requireCapability :: "string list \<Rightarrow> string \<Rightarrow> TaskPolicyExplanation \<Rightarrow> TaskPolicyExplanation" where
  "requireCapability capabilities capability e =
     (if \<not> containsString capabilities capability then deny (''missing '' @ capability @ '' capability'') e
      else reason (capability @ '' capability is present'') e)"

definition appendPolicyAuthorizations :: "policy \<Rightarrow> TaskPolicyExplanation \<Rightarrow> TaskPolicyExplanation" where
  "appendPolicyAuthorizations taskPolicy e =
     (let network = stringValue taskPolicy ''network'' ''default-deny'';
          e1 = (if network \<noteq> ''default-deny''
                then warn ''non-default network policy requires authorization'' (require (''network.'' @ network) e)
                else e)
      in foldl (\<lambda>e authorization. require authorization e) e1
           (stringSliceValue taskPolicy ''authorizations_required''))"

definition denyEscapes :: "policy \<Rightarrow> TaskPolicyExplanation \<Rightarrow> TaskPolicyExplanation" where
  "denyEscapes taskPolicy e =
     foldl (\<lambda>e scope. if writeScopeEscapes scope then deny (''write scope escapes workspace root: '' @ scope) e else e)
       e (stringSliceValue taskPolicy ''write_scope'')"

definition warnUnscoped :: "policy \<Rightarrow> string list \<Rightarrow> TaskPolicyExplanation \<Rightarrow> TaskPolicyExplanation" where
  "warnUnscoped taskPolicy capabilities e =
     (if stringSliceValue taskPolicy ''write_scope'' \<noteq> [] \<and> \<not> containsString capabilities CapabilityFSWriteScoped
      then warn ''write_scope is set without fs.write.scoped capability'' e else e)"

definition checkLimits :: "policy \<Rightarrow> TaskPolicyExplanation \<Rightarrow> TaskPolicyExplanation" where
  "checkLimits taskPolicy e =
     (let e1 = (if intValue taskPolicy ''max_duration_seconds'' DefaultTaskTTLSeconds \<le> 0
                then deny ''max_duration_seconds must be positive'' e else e)
      in if intValue taskPolicy ''max_output_bytes'' DefaultTaskMaxOutputBytes \<le> 0
         then deny ''max_output_bytes must be positive'' e1 else e1)"

definition checkRoot :: "string \<Rightarrow> TaskPolicyExplanation \<Rightarrow> TaskPolicyExplanation" where
  "checkRoot workspaceRoot e =
     (if TrimSpace workspaceRoot = [] then deny ''workspace root is required'' e
      else reason ''workspace root is declared'' e)"

definition closing :: "string \<Rightarrow> TaskPolicyExplanation \<Rightarrow> TaskPolicyExplanation" where
  "closing message e = finalizeTaskExplanation (if te_Denials e = [] then reason message e else e)"

text \<open>The root of a shell or PowerShell task is its workspace root, or its working directory when that is empty.\<close>

definition taskRoot :: "policy \<Rightarrow> string" where
  "taskRoot taskPolicy =
     (let root = stringValue taskPolicy ''workspace_root'' []
      in if root = [] then stringValue taskPolicy ''cwd'' [] else root)"

definition checkArgv :: "policy \<Rightarrow> TaskPolicyExplanation \<Rightarrow> TaskPolicyExplanation" where
  "checkArgv taskPolicy e =
     (let argv = stringSliceValue taskPolicy ''argv''; allowCommands = stringSliceValue taskPolicy ''allow_commands'' in
      if argv = [] \<or> TrimSpace (hd argv) = [] then deny ''argv is required'' e
      else if allowCommands = [] then deny ''allow_commands is required'' e
      else if \<not> allowedCommand (hd argv) allowCommands then deny ''argv command is not allowlisted'' e
      else reason ''argv command is allowlisted'' e)"

definition ExplainShellTask :: "string \<Rightarrow> policy \<Rightarrow> TaskPolicyExplanation" where
  "ExplainShellTask mode taskPolicy =
     (let e0 = new_explanation mode ''shell'' in
      if \<not> HostMode_Valid mode then finalizeTaskExplanation (deny ''unknown host mode'' e0)
      else
        (let capabilities = stringSliceValue taskPolicy ''capabilities'';
             e1 = checkRoot (taskRoot taskPolicy) e0;
             e2 = (if \<not> containsString capabilities CapabilityShellUser then deny ''missing shell.user capability'' e1
                   else reason ''shell.user capability is present'' e1);
             e3 = checkArgv taskPolicy e2;
             e4 = warnUnscoped taskPolicy capabilities (denyEscapes taskPolicy e3);
             e5 = appendPolicyAuthorizations taskPolicy (checkLimits taskPolicy e4)
         in closing ''host will still validate the session task payload and canonical paths before execution'' e5))"

definition checkCommand :: "policy \<Rightarrow> TaskPolicyExplanation \<Rightarrow> TaskPolicyExplanation" where
  "checkCommand taskPolicy e =
     (let command0 = stringValue taskPolicy ''command'' [];
          command = (if command0 = [] then stringValue taskPolicy ''script'' [] else command0);
          allowCommands = stringSliceValue taskPolicy ''allow_commands''
      in if TrimSpace command = [] then
           (if stringSliceValue taskPolicy ''argv'' \<noteq> []
            then deny ''PowerShell adapter expects policy.command or policy.script; policy.argv is for shell adapter'' e
            else deny ''command is required'' e)
         else if allowCommands = [] then deny ''allow_commands is required'' e
         else if \<not> powershellCommandAllowlisted (stringValue taskPolicy ''powershell_command'' []) allowCommands
         then deny ''powershell executable is not allowlisted'' e
         else reason ''powershell executable is allowlisted'' e)"

definition ExplainPowerShellTask :: "string \<Rightarrow> policy \<Rightarrow> TaskPolicyExplanation" where
  "ExplainPowerShellTask mode taskPolicy =
     (let e0 = new_explanation mode ''powershell'' in
      if \<not> HostMode_Valid mode then finalizeTaskExplanation (deny ''unknown host mode'' e0)
      else
        (let capabilities = stringSliceValue taskPolicy ''capabilities'';
             e1 = checkRoot (taskRoot taskPolicy) e0;
             e2 = (if \<not> containsString capabilities CapabilityPowerShellUser
                   then deny ''missing powershell.user capability'' e1
                   else reason ''powershell.user capability is present'' e1);
             e3 = checkCommand taskPolicy e2;
             e4 = warnUnscoped taskPolicy capabilities (denyEscapes taskPolicy e3);
             e5 = appendPolicyAuthorizations taskPolicy (checkLimits taskPolicy e4)
         in closing ''host will still validate the session task payload and canonical paths before execution'' e5))"

definition checkFileAction :: "string \<Rightarrow> string list \<Rightarrow> policy \<Rightarrow> TaskPolicyExplanation \<Rightarrow> TaskPolicyExplanation" where
  "checkFileAction action capabilities taskPolicy e =
     (if action \<in> {''list'', ''read'', ''download''} then
        (let e1 = requireCapability capabilities CapabilityFileTransferRead e
         in if \<not> containsString capabilities CapabilityFSRead
            then warn ''fs.read is recommended with file.transfer.read'' e1 else e1)
      else if action \<in> {''write'', ''upload'', ''delete''} then
        (let e1 = requireCapability capabilities CapabilityFSWriteScoped
                    (requireCapability capabilities CapabilityFileTransferWrite e);
             e2 = (if stringSliceValue taskPolicy ''write_scope'' = []
                   then deny ''write_scope is required for file write/upload/delete'' e1 else e1)
         in if action = ''delete''
            then warn ''file delete requires explicit authorization'' (require ''file.delete'' e2) else e2)
      else if action \<noteq> [] then deny (''unsupported file action: '' @ action) e
      else e)"

definition ExplainFileTask :: "unicode \<Rightarrow> string \<Rightarrow> policy \<Rightarrow> TaskPolicyExplanation" where
  "ExplainFileTask U mode taskPolicy =
     (let e0 = new_explanation mode ''file'' in
      if \<not> HostMode_Valid mode then finalizeTaskExplanation (deny ''unknown host mode'' e0)
      else
        (let e1 = checkRoot (stringValue taskPolicy ''workspace_root'' (stringValue taskPolicy ''cwd'' [])) e0;
             action = normalizeRemoteAction U (stringValue taskPolicy ''action'' []);
             e2 = (if action = [] then deny ''file action is required'' e1 else e1);
             capabilities = stringSliceValue taskPolicy ''capabilities'';
             e3 = denyEscapes taskPolicy (checkFileAction action capabilities taskPolicy e2)
         in closing ''file adapter will re-check canonical workspace and write-scope boundaries on the host''
              (appendPolicyAuthorizations taskPolicy e3)))"

definition desktopCapabilityAndAuthorization :: "string \<Rightarrow> string \<times> string" where
  "desktopCapabilityAndAuthorization action =
     (if action \<in> {''windows'', ''window.inspect''} then (CapabilityWindowInspect, [])
      else if action \<in> {''screenshot'', ''screen.screenshot''} then (CapabilityScreenScreenshot, [])
      else if action \<in> {''record'', ''screen.record''} then (CapabilityScreenRecord, [])
      else if action \<in> {''focus'', ''window.focus''} then (CapabilityWindowFocus, [])
      else if action \<in> {''move'', ''window.move''} then (CapabilityWindowMove, [])
      else if action \<in> {''keyboard'', ''input.keyboard''} then (CapabilityInputKeyboard, [])
      else if action \<in> {''mouse'', ''input.mouse''} then (CapabilityInputMouse, [])
      else if action = ''app.launch'' then (CapabilityAppLaunch, [])
      else if action = ''app.close'' then (CapabilityAppClose, [])
      else if action = ''url.open'' then (CapabilityURLOpen, [])
      else if action = ''clipboard.read'' then (CapabilityClipboardRead, [])
      else if action = ''clipboard.write'' then (CapabilityClipboardWrite, [])
      else if action = ''unattended.access'' then (CapabilityUnattendedAccess, ''unattended.access'')
      else ([], []))"

definition ExplainDesktopTask :: "unicode \<Rightarrow> string \<Rightarrow> policy \<Rightarrow> TaskPolicyExplanation" where
  "ExplainDesktopTask U mode taskPolicy =
     (let e0 = new_explanation mode ''desktop'' in
      if \<not> HostMode_Valid mode then finalizeTaskExplanation (deny ''unknown host mode'' e0)
      else
        (let e1 = checkRoot (stringValue taskPolicy ''workspace_root'' (stringValue taskPolicy ''cwd'' [])) e0;
             action = normalizeRemoteAction U (stringValue taskPolicy ''action'' []);
             e2 = (if action = [] then deny ''desktop action is required'' e1 else e1);
             capabilities = stringSliceValue taskPolicy ''capabilities'';
             (capability, authorization) = desktopCapabilityAndAuthorization action;
             e3 = (if capability = [] then (if action \<noteq> [] then deny (''unsupported desktop action: '' @ action) e2 else e2)
                   else
                     (let e = requireCapability capabilities capability e2
                      in if authorization \<noteq> []
                         then warn (''desktop action requires explicit authorization: '' @ authorization)
                                (require authorization e)
                         else e))
         in closing ''desktop adapter requires an unlocked interactive user session and will fail closed if unavailable''
              (appendPolicyAuthorizations taskPolicy e3)))"

definition ExplainAdapterTask :: "unicode \<Rightarrow> string \<Rightarrow> string \<Rightarrow> policy \<Rightarrow> TaskPolicyExplanation" where
  "ExplainAdapterTask U mode adapter taskPolicy =
     (let name = ToLower U (TrimSpace adapter) in
      if name = ''powershell'' then ExplainPowerShellTask mode taskPolicy
      else if name = ''file'' then ExplainFileTask U mode taskPolicy
      else if name = ''desktop'' then ExplainDesktopTask U mode taskPolicy
      else ExplainShellTask mode taskPolicy)"

end
