(* ===== verification/Policy_Properties.thy ===== *)
theory Policy_Properties
  imports Policy
begin

text \<open>
  What the policy layer decides. The path check of a write scope is the statement that no initial part
  of the path goes up more often than it goes down; the command allowlist is plain membership of
  trimmed strings; the explanation of a shell or file task is an equivalence between the verdict and
  the conditions of the policy; merged capabilities are the defaults and the explicit ones, each once.
\<close>

section \<open>Write scopes\<close>

text \<open>The reference: how often a list of path elements goes up and down.\<close>

definition ups :: "string list \<Rightarrow> nat" where
  "ups es = length (filter (\<lambda>e. e = ''..'') es)"

definition downs :: "string list \<Rightarrow> nat" where
  "downs es = length (filter (\<lambda>e. e \<noteq> [] \<and> e \<noteq> ''.'' \<and> e \<noteq> ''..'') es)"

definition leaves_root :: "nat \<Rightarrow> string list \<Rightarrow> bool" where
  "leaves_root depth es \<longleftrightarrow> (\<exists>n. depth + downs (take n es) < ups (take n es))"

lemma ups_downs_simps [simp]:
  "ups [] = 0" "downs [] = 0"
  "ups (e # es) = (if e = ''..'' then Suc (ups es) else ups es)"
  "downs (e # es) = (if e = [] \<or> e = ''.'' \<or> e = ''..'' then downs es else Suc (downs es))"
  by (auto simp: ups_def downs_def)

lemma leaves_root_Nil [simp]: "\<not> leaves_root depth []"
  by (simp add: leaves_root_def)

lemma ex_nat_case: "(\<exists>n. P n) \<longleftrightarrow> P 0 \<or> (\<exists>n. P (Suc n))"
  by (metis not0_implies_Suc)

lemma leaves_root_Cons:
  "leaves_root depth (e # es) \<longleftrightarrow>
     (if e = ''..'' then depth = 0 \<or> leaves_root (depth - 1) es
      else if e = [] \<or> e = ''.'' then leaves_root depth es else leaves_root (Suc depth) es)"
proof -
  have "(\<exists>n. depth + downs (take n es) < Suc (ups (take n es))) \<longleftrightarrow>
        depth = 0 \<or> (\<exists>n. depth - 1 + downs (take n es) < ups (take n es))"
    by (cases depth) (auto intro: exI [of _ 0])
  moreover have "leaves_root depth (e # es) \<longleftrightarrow>
      (\<exists>n. depth + downs (e # take n es) < ups (e # take n es))"
    unfolding leaves_root_def by (subst ex_nat_case) simp
  ultimately show ?thesis by (simp add: leaves_root_def)
qed

lemma cleanElements_starts_up:
  "''..'' \<notin> set kept \<Longrightarrow> starts_up (cleanElements False kept es) \<longleftrightarrow> leaves_root (length kept) es"
proof (induction es arbitrary: kept)
  case Nil
  then show ?case by (metis cleanElements.simps(1) hd_in_set leaves_root_Nil set_rev starts_up_def)
next
  case (Cons e es)
  then show ?case
    by (cases kept) (auto simp: leaves_root_Cons cleanElements_stays_up)
qed

lemma filepath_Clean_leaves_root:
  assumes "path \<noteq> []" "\<not> filepath_IsAbs path"
  shows "(filepath_Clean path = ''..'' \<or> prefix ''../'' (filepath_Clean path)) \<longleftrightarrow>
         leaves_root 0 (splitOn CHR ''/'' path)"
proof -
  let ?es = "cleanElements False [] (splitOn CHR ''/'' path)"
  have "\<forall>e \<in> set ?es. CHR ''/'' \<notin> set e"
    using cleanElements_subset [of False "[]"] splitOn_elements by fastforce
  note join = joinWith_starts_up [OF this]
  have "filepath_Clean path = (if joinWith CHR ''/'' ?es = [] then ''.'' else joinWith CHR ''/'' ?es)"
    using assms by (simp add: filepath_Clean_def Let_def)
  then have "(filepath_Clean path = ''..'' \<or> prefix ''../'' (filepath_Clean path)) \<longleftrightarrow> starts_up ?es"
    using join by (auto split: if_splits)
  then show ?thesis using cleanElements_starts_up [of "[]"] by simp
qed

text \<open>
  A write scope is taken for an escape exactly when, once trimmed, it names a drive, starts with a
  slash or a backslash, or some initial part of it goes up more often than it goes down (elements are
  separated by either slash, and empty and dot elements count for nothing). A blank scope is no escape.
\<close>

theorem write_scope_exact:
  "writeScopeEscapes scope \<longleftrightarrow>
     (let t = TrimSpace scope; es = splitOn CHR ''/'' (replaceChar (CHR 0x5C) CHR ''/'' t) in
      t \<noteq> [] \<and> (length t \<ge> 2 \<and> t ! 1 = CHR '':'' \<or> hd t \<in> {CHR 0x5C, CHR ''/''}
               \<or> (\<exists>n. downs (take n es) < ups (take n es))))"
proof (cases "TrimSpace scope")
  case Nil
  then show ?thesis by (simp add: writeScopeEscapes_def)
next
  case (Cons c t)
  let ?path = "replaceChar (CHR 0x5C) CHR ''/'' (c # t)"
  have "\<not> filepath_IsAbs ?path" if "c \<noteq> CHR 0x5C" "c \<noteq> CHR ''/''"
    using that by (simp add: filepath_IsAbs_def)
  then have "(filepath_Clean ?path = ''..'' \<or> prefix ''../'' (filepath_Clean ?path)) \<longleftrightarrow>
        leaves_root 0 (splitOn CHR ''/'' ?path)" if "c \<noteq> CHR 0x5C" "c \<noteq> CHR ''/''"
    using that filepath_Clean_leaves_root by (metis list.distinct(1) replaceChar_simps(3))
  then show ?thesis
    by (simp only: writeScopeEscapes_def Cons Let_def filepath_IsAbs_def leaves_root_def add_0_left)
       (auto simp del: replaceChar_simps(2))
qed

section \<open>The command allowlist\<close>

lemma commandName_plain:
  "TrimSpace s = s \<Longrightarrow> s \<noteq> [] \<Longrightarrow> \<not> hasPathSeparator s \<Longrightarrow> commandName s = s"
  by (simp add: commandName_def hasPathSeparator_def replaceChar_absent filepath_Base_plain)

lemma commandListed_iff:
  "TrimSpace command = command \<Longrightarrow> command \<noteq> [] \<Longrightarrow>
   commandListed command allowlist \<longleftrightarrow> command \<in> TrimSpace ` set allowlist"
  by (induction allowlist) (auto simp: Let_def commandName_plain)

text \<open>
  The command allowlist is plain membership once both sides are trimmed: whether or not there
  are path separators, a command passes exactly when the list names it.
\<close>

lemma allowedCommand_iff:
  "allowedCommand command allowlist \<longleftrightarrow> TrimSpace command \<noteq> [] \<and> TrimSpace command \<in> TrimSpace ` set allowlist"
  by (simp add: allowedCommand_def Let_def commandListed_iff)

section \<open>Verdicts\<close>

lemma containsString_iff [simp]: "containsString values want \<longleftrightarrow> want \<in> set values"
  by (auto simp: containsString_def list_ex_iff)

named_theorems denial_simps

lemma step_denials [denial_simps]:
  "te_Denials (new_explanation mode adapter) = []"
  "te_Denials (deny message e) = te_Denials e @ [message]"
  "te_Denials (warn message e) = te_Denials e"
  "te_Denials (reason message e) = te_Denials e"
  "te_Denials (require message e) = te_Denials e"
  by (simp_all add: new_explanation_def deny_def warn_def reason_def require_def)

lemma verdict [denial_simps]:
  "te_Allowed (finalizeTaskExplanation e) \<longleftrightarrow> te_Denials e = []"
  "te_Allowed (closing message e) \<longleftrightarrow> te_Denials e = []"
  by (simp_all add: finalizeTaskExplanation_def closing_def step_denials)

lemma fold_require_denials:
  "te_Denials (foldl (\<lambda>e authorization. require authorization e) e xs) = te_Denials e"
  by (induction xs arbitrary: e) (simp_all add: step_denials)

lemma authorizations_denials [denial_simps]:
  "te_Denials (appendPolicyAuthorizations p e) = te_Denials e"
  by (simp add: appendPolicyAuthorizations_def Let_def fold_require_denials step_denials)

lemma fold_escapes_denials:
  "te_Denials (foldl (\<lambda>e scope. if writeScopeEscapes scope
        then deny (''write scope escapes workspace root: '' @ scope) e else e) e xs) = [] \<longleftrightarrow>
   te_Denials e = [] \<and> (\<forall>scope \<in> set xs. \<not> writeScopeEscapes scope)"
  by (induction xs arbitrary: e) (auto simp: step_denials)

lemma check_denials [denial_simps]:
  "te_Denials (denyEscapes p e) = [] \<longleftrightarrow>
     te_Denials e = [] \<and> (\<forall>scope \<in> set (stringSliceValue p ''write_scope''). \<not> writeScopeEscapes scope)"
  "te_Denials (warnUnscoped p caps e) = te_Denials e"
  "te_Denials (checkRoot root e) = [] \<longleftrightarrow> te_Denials e = [] \<and> TrimSpace root \<noteq> []"
  "te_Denials (requireCapability caps c e) = [] \<longleftrightarrow> te_Denials e = [] \<and> c \<in> set caps"
  "te_Denials (checkLimits p e) = [] \<longleftrightarrow>
     te_Denials e = [] \<and> 0 < intValue p ''max_duration_seconds'' DefaultTaskTTLSeconds
     \<and> 0 < intValue p ''max_output_bytes'' DefaultTaskMaxOutputBytes"
  by (auto simp: denyEscapes_def fold_escapes_denials warnUnscoped_def checkRoot_def requireCapability_def
        checkLimits_def Let_def step_denials)

lemma checkArgv_denials [denial_simps]:
  "te_Denials (checkArgv p e) = [] \<longleftrightarrow>
     te_Denials e = [] \<and>
     (\<exists>command args. stringSliceValue p ''argv'' = command # args \<and> TrimSpace command \<noteq> []
        \<and> TrimSpace command \<in> TrimSpace ` set (stringSliceValue p ''allow_commands''))"
  by (cases "stringSliceValue p ''argv''") (auto simp: checkArgv_def Let_def step_denials allowedCommand_iff)

text \<open>
  C18. A shell task is allowed exactly when the host mode is known, a root is declared, the shell
  capability is present, the program of the argument vector is on the allowlist, no write scope
  escapes, and both limits are positive; one violated condition is enough for a denial.
\<close>

theorem shell_allowed_exact:
  "te_Allowed (ExplainShellTask mode p) \<longleftrightarrow>
     mode \<in> {''attended-temporary'', ''managed'', ''break-glass''}
     \<and> TrimSpace (taskRoot p) \<noteq> []
     \<and> ''shell.user'' \<in> set (stringSliceValue p ''capabilities'')
     \<and> (\<exists>command args. stringSliceValue p ''argv'' = command # args \<and> TrimSpace command \<noteq> []
          \<and> TrimSpace command \<in> TrimSpace ` set (stringSliceValue p ''allow_commands''))
     \<and> (\<nexists>scope. scope \<in> set (stringSliceValue p ''write_scope'') \<and> writeScopeEscapes scope)
     \<and> 0 < intValue p ''max_duration_seconds'' 1800
     \<and> 0 < intValue p ''max_output_bytes'' 1048576"
  by (simp add: ExplainShellTask_def Let_def denial_simps CapabilityShellUser_def HostMode_Valid_def
        HostModeAttendedTemporary_def HostModeManaged_def HostModeBreakGlass_def
        DefaultTaskTTLSeconds_def DefaultTaskMaxOutputBytes_def) blast

lemma checkFileAction_denials [denial_simps]:
  "te_Denials (checkFileAction action caps p e) = [] \<longleftrightarrow>
     te_Denials e = [] \<and>
     (action \<in> {''list'', ''read'', ''download''} \<and> ''file.transfer.read'' \<in> set caps
      \<or> action \<in> {''write'', ''upload'', ''delete''} \<and> {''file.transfer.write'', ''fs.write.scoped''} \<subseteq> set caps
        \<and> stringSliceValue p ''write_scope'' \<noteq> []
      \<or> action = [])"
  by (auto simp: checkFileAction_def Let_def denial_simps CapabilityFileTransferRead_def
        CapabilityFileTransferWrite_def CapabilityFSWriteScoped_def)

section \<open>Required authorizations\<close>

named_theorems authorization_simps

lemma step_authorizations [authorization_simps]:
  "te_RequiredAuthorizations (new_explanation mode adapter) = []"
  "te_RequiredAuthorizations (deny message e) = te_RequiredAuthorizations e"
  "te_RequiredAuthorizations (warn message e) = te_RequiredAuthorizations e"
  "te_RequiredAuthorizations (reason message e) = te_RequiredAuthorizations e"
  "te_RequiredAuthorizations (closing message e) = te_RequiredAuthorizations e"
  "set (te_RequiredAuthorizations (require a e)) =
     set (te_RequiredAuthorizations e) \<union> (if TrimSpace a = [] then {} else {a})"
  by (auto simp: new_explanation_def deny_def warn_def reason_def closing_def finalizeTaskExplanation_def
        require_def appendUnique_def)

lemma fold_require_authorizations:
  "set (te_RequiredAuthorizations (foldl (\<lambda>e a. require a e) e xs)) =
     set (te_RequiredAuthorizations e) \<union> {a \<in> set xs. TrimSpace a \<noteq> []}"
  by (induction xs arbitrary: e) (auto simp: step_authorizations)

lemma fold_escapes_authorizations:
  "te_RequiredAuthorizations (foldl (\<lambda>e scope. if writeScopeEscapes scope
        then deny (''write scope escapes workspace root: '' @ scope) e else e) e xs) = te_RequiredAuthorizations e"
  by (induction xs arbitrary: e) (auto simp: step_authorizations)

lemma check_authorizations [authorization_simps]:
  "te_RequiredAuthorizations (denyEscapes p e) = te_RequiredAuthorizations e"
  "te_RequiredAuthorizations (checkRoot root e) = te_RequiredAuthorizations e"
  "te_RequiredAuthorizations (requireCapability caps c e) = te_RequiredAuthorizations e"
  by (simp_all add: denyEscapes_def fold_escapes_authorizations checkRoot_def requireCapability_def
        step_authorizations)

lemma policy_authorizations_grow:
  "set (te_RequiredAuthorizations e) \<subseteq> set (te_RequiredAuthorizations (appendPolicyAuthorizations p e))"
  by (auto simp: appendPolicyAuthorizations_def Let_def fold_require_authorizations step_authorizations)

section \<open>File tasks\<close>

text \<open>
  A file task is allowed exactly when the host mode is known, a root is declared, its action is a
  reading one with the read capability or a changing one with both write capabilities and a declared
  write scope, and no write scope escapes.
\<close>

theorem file_allowed_exact:
  "te_Allowed (ExplainFileTask U mode p) \<longleftrightarrow>
     mode \<in> {''attended-temporary'', ''managed'', ''break-glass''}
     \<and> TrimSpace (stringValue p ''workspace_root'' (stringValue p ''cwd'' [])) \<noteq> []
     \<and> (let action = normalizeRemoteAction U (stringValue p ''action'' []);
            caps = set (stringSliceValue p ''capabilities'');
            scopes = set (stringSliceValue p ''write_scope'')
        in (action \<in> {''list'', ''read'', ''download''} \<and> ''file.transfer.read'' \<in> caps
            \<or> action \<in> {''write'', ''upload'', ''delete''} \<and> {''file.transfer.write'', ''fs.write.scoped''} \<subseteq> caps
               \<and> scopes \<noteq> {})
           \<and> (\<nexists>scope. scope \<in> scopes \<and> writeScopeEscapes scope))"
proof -
  define action where "action = normalizeRemoteAction U (stringValue p ''action'' [])"
  then show ?thesis
    by (cases "action = []")
       (auto simp: ExplainFileTask_def Let_def denial_simps HostMode_Valid_def
         HostModeAttendedTemporary_def HostModeManaged_def HostModeBreakGlass_def)
qed

lemma blank_free_authorization [simp]: "TrimSpace ''file.delete'' \<noteq> []"
  by (simp add: TrimSpace_graphic graphic_def)

text \<open>Deleting a file always asks for its own authorization, whatever the policy declares.\<close>

lemma file_delete_authorized:
  assumes "HostMode_Valid mode" "normalizeRemoteAction U (stringValue p ''action'' []) = ''delete''"
  shows "''file.delete'' \<in> set (te_RequiredAuthorizations (ExplainFileTask U mode p))
    \<and> te_AuthorizationRequired (ExplainFileTask U mode p)"
proof -
  have "''file.delete'' \<in> set (te_RequiredAuthorizations (ExplainFileTask U mode p))"
    using assms
    by (auto simp: ExplainFileTask_def Let_def authorization_simps checkFileAction_def
          intro!: subsetD [OF policy_authorizations_grow])
  moreover from this obtain e message where "ExplainFileTask U mode p = closing message e"
    using assms(1) by (simp add: ExplainFileTask_def Let_def)
  ultimately show ?thesis by (auto simp: closing_def finalizeTaskExplanation_def)
qed

section \<open>Temporary sessions\<close>

lemma mergeExplicit_spec:
  "distinct result \<Longrightarrow>
   distinct (mergeExplicit result raws)
   \<and> set (mergeExplicit result raws) = set result \<union> (TrimSpace ` set raws - {[]})"
  by (induction result raws rule: mergeExplicit.induct) (auto simp: Let_def)

lemma mergeDefaults_spec:
  "distinct result \<Longrightarrow>
   distinct (mergeDefaults result defaults) \<and> set (mergeDefaults result defaults) = set result \<union> set defaults"
  by (induction result defaults rule: mergeDefaults.induct) auto

lemma mergeDefaults_prefix: "prefix result (mergeDefaults result defaults)"
  by (induction result defaults rule: mergeDefaults.induct) (auto dest: append_prefixD)

text \<open>
  The capabilities of a temporary session are the explicit ones, trimmed and with the blank ones
  dropped, and all the defaults, each exactly once, with the explicit ones first.
\<close>

theorem merged_capabilities_exact:
  "set (MergeTemporaryCapabilities explicit) = (TrimSpace ` set explicit - {[]}) \<union> set TemporaryDefaults
   \<and> distinct (MergeTemporaryCapabilities explicit)
   \<and> (\<exists>k. set (take k (MergeTemporaryCapabilities explicit)) = TrimSpace ` set explicit - {[]})"
proof -
  let ?first = "mergeExplicit [] explicit"
  have first: "distinct ?first" "set ?first = TrimSpace ` set explicit - {[]}"
    using mergeExplicit_spec [of "[]" explicit] by auto
  have rest: "distinct (MergeTemporaryCapabilities explicit)" "prefix ?first (MergeTemporaryCapabilities explicit)"
    "set (MergeTemporaryCapabilities explicit) = set ?first \<union> set TemporaryDefaults"
    using mergeDefaults_spec [OF first(1), of TemporaryDefaults] mergeDefaults_prefix
    by (auto simp: MergeTemporaryCapabilities_def)
  then have "take (length ?first) (MergeTemporaryCapabilities explicit) = ?first"
    by (auto simp: prefix_def)
  then show ?thesis using first rest by metis
qed

end
