(* ===== verification/Route_Pool.thy ===== *)
theory Route_Pool
  imports Go_Path Session_Types
begin

text \<open>
  The route pool of the host helper (internal/hostcmd/route_pool.go): which gateway and transport a
  host talks to. Every method runs its critical sections under a mutex and probes the routes between
  them without it; a method is therefore one definition per critical section, and the theory
  Route_System interleaves them. What url.Parse returns for a text, the clock and the results of
  probes are arguments. The channel that announces a change is a number; a channel is closed once the
  pool has gone on to a later one.
\<close>

section \<open>Candidates and states\<close>

definition maxGatewayRoutes :: nat where "maxGatewayRoutes = 16"

definition maxRouteProbeWorkers :: gint where "maxRouteProbeWorkers = 8"

record routeCandidate =
  rc_URL :: string
  rc_Transport :: string

definition route_key :: "routeCandidate \<Rightarrow> string" where
  "route_key r = rc_URL r @ [CHR 0x00] @ rc_Transport r"

record routeProbeResult =
  pr_Healthy :: bool
  pr_Latency :: Duration
  pr_Err :: "string option"

record routeSnapshot =
  sn_Candidate :: routeCandidate
  sn_Generation :: u64
  sn_changed :: nat

record routePoolConfig =
  cf_MaxConcurrent :: gint
  cf_ProbeTimeout :: Duration
  cf_Cooldown :: Duration
  cf_ReprobeInterval :: Duration
  cf_ShareGatewayHealth :: bool
  cf_Probe :: bool

record routeState =
  rs_candidate :: routeCandidate
  rs_healthy :: bool
  rs_latency :: Duration
  rs_failures :: gint
  rs_cooldownUntil :: Time
  rs_fastStreak :: gint
  rs_epoch :: u64

record routePool =
  rp_routes :: "routeState list"
  rp_active :: gint
  rp_initialized :: bool
  rp_generation :: u64
  rp_lastProbe :: Time
  rp_changed :: nat
  rp_config :: routePoolConfig

record routeProbeObservation =
  ob_index :: gint
  ob_epoch :: u64
  ob_result :: routeProbeResult

section \<open>Safe URLs\<close>

record parsed_url =
  pu_Scheme :: string
  pu_Opaque :: string
  pu_Hostname :: string
  pu_Port :: string
  pu_User :: bool
  pu_Path :: string
  pu_RawQuery :: string
  pu_ForceQuery :: bool
  pu_Fragment :: string

type_synonym url_parser = "string \<Rightarrow> parsed_url option"

definition isLocalDevGatewayURL :: "url_parser \<Rightarrow> string \<Rightarrow> bool" where
  "isLocalDevGatewayURL parse value =
     (case parse value of
        None \<Rightarrow> False
      | Some u \<Rightarrow>
          (pu_Scheme u = ''http'' \<or> pu_Scheme u = ''https'')
          \<and> (pu_Hostname u = ''127.0.0.1'' \<or> pu_Hostname u = ''::1'' \<or> pu_Hostname u = ''localhost'')
          \<and> pu_Port u \<noteq> [])"

definition safeRouteURL :: "url_parser \<Rightarrow> string \<Rightarrow> bool" where
  "safeRouteURL parse value =
     (if value = [] \<or> list_ex (\<lambda>c. c \<in> {CHR 0x5C, CHR 0x00, CHR 0x0D, CHR 0x0A}) value then False
      else
        (case parse value of
           None \<Rightarrow> False
         | Some u \<Rightarrow>
             if pu_Opaque u \<noteq> [] \<or> pu_Hostname u = [] \<or> pu_User u \<or> pu_RawQuery u \<noteq> [] \<or> pu_Fragment u \<noteq> []
                \<or> pu_ForceQuery u then False
             else if pu_Scheme u \<noteq> ''https'' \<and> pu_Scheme u \<noteq> ''http'' then False
             else if CHR 0x5C \<in> set (pu_Path u) then False
             else if list_ex (\<lambda>segment. segment = ''.'' \<or> segment = ''..'')
                       (splitOn CHR ''/'' (TrimRightSlash (dropWhile (\<lambda>c. c = CHR ''/'') (pu_Path u)))) then False
             else if pu_Scheme u = ''http'' then isLocalDevGatewayURL parse value
             else True))"

section \<open>A new pool\<close>

definition normalizeRouteTransport :: "unicode \<Rightarrow> string \<Rightarrow> string" where
  "normalizeRouteTransport U value =
     (let t = TrimSpace (ToLower U value) in
      if t = ''long-poll'' then ''long-poll''
      else if t = ''poll'' \<or> t = [] then ''poll''
      else [])"

definition normalizeConfig :: "routePoolConfig \<Rightarrow> routePoolConfig" where
  "normalizeConfig config =
     (let c1 = (if cf_MaxConcurrent config \<le> 0 then config\<lparr>cf_MaxConcurrent := 4\<rparr> else config);
          c2 = (if cf_MaxConcurrent c1 > maxRouteProbeWorkers then c1\<lparr>cf_MaxConcurrent := maxRouteProbeWorkers\<rparr> else c1);
          c3 = (if cf_ProbeTimeout c2 \<le> 0 then c2\<lparr>cf_ProbeTimeout := 2 * second_ns\<rparr> else c2);
          c4 = (if cf_Cooldown c3 \<le> 0 then c3\<lparr>cf_Cooldown := 10 * second_ns\<rparr> else c3)
      in if cf_ReprobeInterval c4 < 0 then c4\<lparr>cf_ReprobeInterval := 0\<rparr> else c4)"

definition new_routeState :: "routeCandidate \<Rightarrow> routeState" where
  "new_routeState candidate =
     \<lparr>rs_candidate = candidate, rs_healthy = False, rs_latency = 0, rs_failures = 0, rs_cooldownUntil = 0,
      rs_fastStreak = 0, rs_epoch = 0\<rparr>"

definition normalizeCandidate :: "unicode \<Rightarrow> routeCandidate \<Rightarrow> routeCandidate" where
  "normalizeCandidate U candidate =
     \<lparr>rc_URL = TrimRightSlash (TrimSpace (rc_URL candidate)),
      rc_Transport = normalizeRouteTransport U (rc_Transport candidate)\<rparr>"

text \<open>The keys seen so far are those of the routes kept so far.\<close>

fun keepRoutes :: "unicode \<Rightarrow> url_parser \<Rightarrow> routeState list \<Rightarrow> routeCandidate list \<Rightarrow> routeState list" where
  "keepRoutes U parse routes [] = routes"
| "keepRoutes U parse routes (candidate0 # candidates) =
     (if length routes \<ge> maxGatewayRoutes then routes
      else
        (let candidate = normalizeCandidate U candidate0 in
         if \<not> safeRouteURL parse (rc_URL candidate) \<or> rc_Transport candidate = []
         then keepRoutes U parse routes candidates
         else if route_key candidate \<in> set (map (\<lambda>r. route_key (rs_candidate r)) routes)
         then keepRoutes U parse routes candidates
         else keepRoutes U parse (routes @ [new_routeState candidate]) candidates))"

definition newRoutePool :: "unicode \<Rightarrow> url_parser \<Rightarrow> routeCandidate list \<Rightarrow> routePoolConfig \<Rightarrow> routePool" where
  "newRoutePool U parse candidates config =
     \<lparr>rp_routes = keepRoutes U parse [] candidates, rp_active = -1, rp_initialized = False, rp_generation = 0,
      rp_lastProbe = 0, rp_changed = 0, rp_config = normalizeConfig config\<rparr>"

section \<open>Routes of a session\<close>

definition addURL :: "url_parser \<Rightarrow> string list \<Rightarrow> string \<Rightarrow> string list" where
  "addURL parse urls value0 =
     (let value = TrimRightSlash (TrimSpace value0) in
      if \<not> safeRouteURL parse value then urls
      else if value \<in> set urls then urls
      else urls @ [value])"

fun addURLs :: "url_parser \<Rightarrow> nat \<Rightarrow> string list \<Rightarrow> GatewayCandidate list \<Rightarrow> string list" where
  "addURLs parse maxURLs urls [] = urls"
| "addURLs parse maxURLs urls (candidate # candidates) =
     (if length urls \<ge> maxURLs then urls
      else addURLs parse maxURLs (addURL parse urls (gc_URL candidate)) candidates)"

definition sessionTransports :: "unicode \<Rightarrow> string \<Rightarrow> string list option" where
  "sessionTransports U transport =
     (let t = TrimSpace (ToLower U transport) in
      if t = ''auto'' then Some [''long-poll'', ''poll'']
      else if t = ''long-poll'' then Some [''long-poll'']
      else if t = ''poll'' then Some [''poll'']
      else None)"

text \<open>The inner return of the source stops at the bound, which is taking that many of the pairs.\<close>

definition routeCandidatesFromSession ::
    "unicode \<Rightarrow> url_parser \<Rightarrow> string \<Rightarrow> GatewayCandidate list \<Rightarrow> string \<Rightarrow> routeCandidate list" where
  "routeCandidatesFromSession U parse current candidates transport =
     (case sessionTransports U transport of
        None \<Rightarrow> []
      | Some transports \<Rightarrow>
          (let maxURLs = maxGatewayRoutes div length transports;
               urls = addURLs parse maxURLs (addURL parse [] current) candidates
           in take maxGatewayRoutes
                (concat (map (\<lambda>u. map (\<lambda>t. \<lparr>rc_URL = u, rc_Transport = t\<rparr>) transports) urls))))"

section \<open>Selection\<close>

definition route_at :: "routePool \<Rightarrow> gint \<Rightarrow> routeState" where
  "route_at p index = rp_routes p ! nat index"

definition in_range :: "routePool \<Rightarrow> gint \<Rightarrow> bool" where
  "in_range p index \<longleftrightarrow> 0 \<le> index \<and> index < int (length (rp_routes p))"

definition routeEligibleLocked :: "routePool \<Rightarrow> gint \<Rightarrow> Time \<Rightarrow> bool" where
  "routeEligibleLocked p index now \<longleftrightarrow>
     in_range p index
     \<and> (IsZero (rs_cooldownUntil (route_at p index)) \<or> \<not> now < rs_cooldownUntil (route_at p index))"

definition indices :: "routePool \<Rightarrow> gint list" where
  "indices p = map int [0..<length (rp_routes p)]"

definition eligibleIndicesLocked :: "routePool \<Rightarrow> Time \<Rightarrow> gint \<Rightarrow> gint list" where
  "eligibleIndicesLocked p now excluded =
     filter (\<lambda>index. index \<noteq> excluded \<and> routeEligibleLocked p index now
               \<and> (rs_healthy (route_at p index) \<or> \<not> IsZero (rs_cooldownUntil (route_at p index))))
       (indices p)"

definition faster :: "routePool \<Rightarrow> gint \<Rightarrow> gint \<Rightarrow> bool" where
  "faster p index best \<longleftrightarrow>
     best < 0 \<or> rs_latency (route_at p index) < rs_latency (route_at p best)
     \<or> (rs_latency (route_at p index) = rs_latency (route_at p best) \<and> index < best)"

definition fastest :: "routePool \<Rightarrow> (gint \<Rightarrow> bool) \<Rightarrow> gint" where
  "fastest p keep =
     foldl (\<lambda>best index. if \<not> keep index then best else if faster p index best then index else best) (-1) (indices p)"

definition fastestHealthyLocked :: "routePool \<Rightarrow> Time \<Rightarrow> gint \<Rightarrow> gint" where
  "fastestHealthyLocked p now excluded =
     fastest p (\<lambda>index. index \<noteq> excluded \<and> rs_healthy (route_at p index) \<and> routeEligibleLocked p index now)"

definition indexOfLocked :: "routePool \<Rightarrow> routeCandidate \<Rightarrow> gint" where
  "indexOfLocked p route =
     (case find (\<lambda>index. rs_candidate (route_at p index) = route) (indices p) of None \<Rightarrow> -1 | Some index \<Rightarrow> index)"

definition setActiveLocked :: "gint \<Rightarrow> routePool \<Rightarrow> routePool" where
  "setActiveLocked index p =
     (if rp_active p = index then p
      else p\<lparr>rp_active := index, rp_generation := rp_generation p + 1, rp_changed := Suc (rp_changed p)\<rparr>)"

definition resetFastStreaksLocked :: "routePool \<Rightarrow> routePool" where
  "resetFastStreaksLocked p = p\<lparr>rp_routes := map (\<lambda>r. r\<lparr>rs_fastStreak := 0\<rparr>) (rp_routes p)\<rparr>"

definition currentLocked :: "Time \<Rightarrow> routePool \<Rightarrow> routeCandidate option" where
  "currentLocked now p =
     (if \<not> rp_initialized p \<or> \<not> in_range p (rp_active p) then None
      else if \<not> rs_healthy (route_at p (rp_active p)) \<or> \<not> routeEligibleLocked p (rp_active p) now then None
      else Some (rs_candidate (route_at p (rp_active p))))"

definition currentSnapshot :: "Time \<Rightarrow> routePool \<Rightarrow> routeSnapshot option" where
  "currentSnapshot now p =
     map_option (\<lambda>c. \<lparr>sn_Candidate = c, sn_Generation = rp_generation p, sn_changed = rp_changed p\<rparr>)
       (currentLocked now p)"

definition routeEligible :: "routePool \<Rightarrow> routeCandidate \<Rightarrow> Time \<Rightarrow> bool" where
  "routeEligible p route now \<longleftrightarrow>
     (let index = indexOfLocked p route in index \<ge> 0 \<and> routeEligibleLocked p index now)"

definition update_route :: "gint \<Rightarrow> (routeState \<Rightarrow> routeState) \<Rightarrow> routePool \<Rightarrow> routePool" where
  "update_route index f p = p\<lparr>rp_routes := (rp_routes p)[nat index := f (route_at p index)]\<rparr>"

definition reconcileActiveHealthLocked :: "Time \<Rightarrow> routePool \<Rightarrow> bool \<times> routePool" where
  "reconcileActiveHealthLocked now p =
     (if \<not> in_range p (rp_active p)
         \<or> (rs_healthy (route_at p (rp_active p)) \<and> routeEligibleLocked p (rp_active p) now) then (False, p)
      else
        (let failed = rp_active p; selected = fastestHealthyLocked p now failed
         in (True, resetFastStreaksLocked (setActiveLocked (if selected \<ge> 0 then selected else -1) p))))"

section \<open>Probing\<close>

text \<open>
  probeRoutes groups the routes into jobs, by gateway URL when the health of a gateway is shared. A
  worker samples the epochs of its job under the mutex, probes, and reports one observation per route.
\<close>

fun groupJobs :: "routePool \<Rightarrow> (string \<times> gint list) list \<Rightarrow> gint list \<Rightarrow> (string \<times> gint list) list" where
  "groupJobs p jobs [] = jobs"
| "groupJobs p jobs (index # rest) =
     (if \<not> in_range p index then groupJobs p jobs rest
      else
        (let url = rc_URL (rs_candidate (route_at p index)) in
         if url \<in> fst ` set jobs
         then groupJobs p (map (\<lambda>(u, is). if u = url then (u, is @ [index]) else (u, is)) jobs) rest
         else groupJobs p (jobs @ [(url, [index])]) rest))"

definition probeJobs :: "routePool \<Rightarrow> gint list \<Rightarrow> gint list list" where
  "probeJobs p is =
     (if \<not> cf_Probe (rp_config p) then []
      else if cf_ShareGatewayHealth (rp_config p) then map snd (groupJobs p [] is)
      else map (\<lambda>index. [index]) is)"

definition sampleEpochs :: "routePool \<Rightarrow> gint list \<Rightarrow> (gint \<times> u64) list" where
  "sampleEpochs p job =
     (case job of
        [] \<Rightarrow> []
      | representative # _ \<Rightarrow>
          if \<not> in_range p representative then []
          else map (\<lambda>index. (index, rs_epoch (route_at p index))) (filter (in_range p) job))"

definition observations :: "Duration \<Rightarrow> routeProbeResult \<Rightarrow> (gint \<times> u64) list \<Rightarrow> routeProbeObservation list" where
  "observations elapsed result epochs =
     (let result1 = (if pr_Latency result \<le> 0 then result\<lparr>pr_Latency := elapsed\<rparr> else result)
      in map (\<lambda>(index, epoch). \<lparr>ob_index = index, ob_epoch = epoch, ob_result = result1\<rparr>) epochs)"

definition fresh :: "routePool \<Rightarrow> routeProbeObservation \<Rightarrow> bool" where
  "fresh p ob \<longleftrightarrow> in_range p (ob_index ob) \<and> rs_epoch (route_at p (ob_index ob)) = ob_epoch ob"

definition probed :: "routeProbeObservation \<Rightarrow> bool" where
  "probed ob \<longleftrightarrow> pr_Healthy (ob_result ob) \<and> pr_Err (ob_result ob) = None"

definition take_result :: "routeProbeObservation \<Rightarrow> routeState \<Rightarrow> routeState" where
  "take_result ob st =
     st\<lparr>rs_healthy := probed ob, rs_latency := pr_Latency (ob_result ob), rs_epoch := rs_epoch st + 1\<rparr>"

definition cool_down :: "Duration \<Rightarrow> Time \<Rightarrow> routeState \<Rightarrow> routeState" where
  "cool_down cooldown now st = st\<lparr>rs_failures := i64 (rs_failures st + 1), rs_cooldownUntil := now + cooldown\<rparr>"

definition recover :: "routeState \<Rightarrow> routeState" where
  "recover st = st\<lparr>rs_failures := 0, rs_cooldownUntil := 0\<rparr>"

text \<open>
  The three loops over observations. The first two read the clock per observation, so each observation
  comes with its reading.
\<close>

fun observeInitial :: "(routeProbeObservation \<times> Time) list \<Rightarrow> routePool \<Rightarrow> routePool" where
  "observeInitial [] p = p"
| "observeInitial ((ob, now) # rest) p =
     observeInitial rest
       (if \<not> fresh p ob then p
        else update_route (ob_index ob)
               (\<lambda>st. let st1 = take_result ob st
                     in if \<not> rs_healthy st1 then cool_down (cf_Cooldown (rp_config p)) now st1 else st1) p)"

fun observeReplacement :: "(routeProbeObservation \<times> Time) list \<Rightarrow> routePool \<Rightarrow> routePool" where
  "observeReplacement [] p = p"
| "observeReplacement ((ob, now) # rest) p =
     observeReplacement rest
       (if \<not> fresh p ob then p
        else update_route (ob_index ob)
               (\<lambda>st. let st1 = take_result ob st
                     in if rs_healthy st1 then recover st1 else cool_down (cf_Cooldown (rp_config p)) now st1) p)"

fun observeProbe :: "Time \<Rightarrow> routeProbeObservation list \<Rightarrow> gint set \<Rightarrow> routePool \<Rightarrow> gint set \<times> routePool" where
  "observeProbe now [] healthy p = (healthy, p)"
| "observeProbe now (ob # rest) healthy p =
     (if \<not> fresh p ob then observeProbe now rest healthy p
      else
        observeProbe now rest (if probed ob then insert (ob_index ob) healthy else healthy)
          (update_route (ob_index ob)
             (\<lambda>st. let st1 = take_result ob st
                   in if rs_healthy st1 then recover st1
                      else (cool_down (cf_Cooldown (rp_config p)) now st1)\<lparr>rs_fastStreak := 0\<rparr>) p))"

section \<open>Methods\<close>

datatype route_error = ErrNoHealthyRoutes | ErrContext

text \<open>initialize, before and after its probes. \<open>Inl\<close> is a return, \<open>Inr\<close> the routes to probe.\<close>

definition initialize_begin :: "bool \<Rightarrow> routePool \<Rightarrow> (route_error + routeCandidate) + gint list" where
  "initialize_begin cancelled p =
     (if cancelled then Inl (Inl ErrContext)
      else if rp_initialized p then
        (if in_range p (rp_active p) then Inl (Inr (rs_candidate (route_at p (rp_active p))))
         else Inl (Inl ErrNoHealthyRoutes))
      else if indices p = [] then Inl (Inl ErrNoHealthyRoutes)
      else Inr (indices p))"

definition initialize_commit ::
    "bool \<Rightarrow> Time \<Rightarrow> (routeProbeObservation \<times> Time) list \<Rightarrow> routePool
     \<Rightarrow> (route_error + routeCandidate) \<times> routePool" where
  "initialize_commit cancelled now obs p =
     (if cancelled then (Inl ErrContext, p)
      else let p1 = (observeInitial obs p)\<lparr>rp_initialized := True, rp_lastProbe := now\<rparr>;
          selected = fastestHealthyLocked p1 now (-1)
      in if selected < 0 then (Inl ErrNoHealthyRoutes, p1)
         else (let p2 = setActiveLocked selected p1 in (Inr (rs_candidate (route_at p2 selected)), p2)))"

definition reportSnapshotSuccess :: "routeSnapshot \<Rightarrow> routePool \<Rightarrow> bool \<times> routePool" where
  "reportSnapshotSuccess snapshot p =
     (if sn_Generation snapshot \<noteq> rp_generation p \<or> \<not> in_range p (rp_active p)
         \<or> rs_candidate (route_at p (rp_active p)) \<noteq> sn_Candidate snapshot then (False, p)
      else (True,
            update_route (rp_active p)
              (\<lambda>st. st\<lparr>rs_healthy := True, rs_failures := 0, rs_cooldownUntil := 0, rs_fastStreak := 0\<rparr>) p))"

text \<open>
  The first critical section of reportSnapshotFailure: it returns, or it goes on to probe for a
  replacement of the given route at the given generation. When the failed route was not the active
  one it returns what \<open>current\<close> gives, which takes the mutex again, so that too is a continuation.
\<close>

datatype failure_next = Returned "routeCandidate option" | AskCurrent | Replace gint u64

definition fail_route :: "Duration \<Rightarrow> Time \<Rightarrow> routeState \<Rightarrow> routeState" where
  "fail_route cooldown now st =
     st\<lparr>rs_healthy := False, rs_failures := i64 (rs_failures st + 1), rs_fastStreak := 0,
        rs_epoch := rs_epoch st + 1, rs_cooldownUntil := now + cooldown\<rparr>"

definition reportSnapshotFailure ::
    "bool \<Rightarrow> Time \<Rightarrow> Time \<Rightarrow> routeSnapshot \<Rightarrow> routePool \<Rightarrow> failure_next \<times> routePool" where
  "reportSnapshotFailure cancelled now later snapshot p =
     (let index = indexOfLocked p (sn_Candidate snapshot) in
      if cancelled then (Returned None, p)
      else if index < 0 then (Returned None, p)
      else if sn_Generation snapshot \<noteq> 0 \<and> (sn_Generation snapshot \<noteq> rp_generation p \<or> rp_active p \<noteq> index)
      then (Returned (currentLocked later p), p)
      else
        (let p1 = update_route index (fail_route (cf_Cooldown (rp_config p)) now) p in
         if \<not> (rp_initialized p1 \<and> rp_active p1 = index) then (AskCurrent, p1)
         else
           (let selected = fastestHealthyLocked p1 now index in
            if selected \<ge> 0
            then (let p2 = resetFastStreaksLocked (setActiveLocked selected p1)
                  in (Returned (Some (rs_candidate (route_at p2 selected))), p2))
            else (let p2 = resetFastStreaksLocked (setActiveLocked (-1) p1)
                  in (Replace index (rp_generation p2), p2)))))"

definition probeReplacement_begin :: "Time \<Rightarrow> gint \<Rightarrow> routePool \<Rightarrow> gint list" where
  "probeReplacement_begin now excluded p = eligibleIndicesLocked p now excluded"

definition probeReplacement_commit ::
    "bool \<Rightarrow> Time \<Rightarrow> Time \<Rightarrow> gint \<Rightarrow> u64 \<Rightarrow> (routeProbeObservation \<times> Time) list \<Rightarrow> routePool
     \<Rightarrow> routeCandidate option \<times> routePool" where
  "probeReplacement_commit cancelled now later excluded expectedGeneration obs p =
     (if cancelled then (None, p)
      else let p1 = observeReplacement obs p; selected = fastestHealthyLocked p1 now excluded in
      if rp_generation p1 \<noteq> expectedGeneration \<or> rp_active p1 \<noteq> -1 then (currentLocked later p1, p1)
      else if selected < 0 then (None, p1)
      else (let p2 = setActiveLocked selected p1 in (Some (rs_candidate (route_at p2 selected)), p2)))"

text \<open>
  probe: an uninitialized pool is initialized instead; otherwise its second critical section returns or
  remembers the active route and the generation for the third one.
\<close>

datatype probe_next = ProbeReturned "route_error + bool" | ProbeRoutes "gint list" gint u64

definition probe_first :: "bool \<Rightarrow> routePool \<Rightarrow> (route_error + bool) + bool" where
  "probe_first cancelled p = (if cancelled then Inl (Inl ErrContext) else Inr (rp_initialized p))"

definition probe_begin :: "Time \<Rightarrow> routePool \<Rightarrow> probe_next \<times> routePool" where
  "probe_begin now p =
     (if \<not> rp_initialized p then (ProbeReturned (Inl ErrNoHealthyRoutes), p)
      else if cf_ReprobeInterval (rp_config p) > 0 \<and> \<not> IsZero (rp_lastProbe p)
              \<and> now - rp_lastProbe p < cf_ReprobeInterval (rp_config p) then (ProbeReturned (Inr False), p)
      else
        (let is = eligibleIndicesLocked p now (-1); p1 = p\<lparr>rp_lastProbe := now\<rparr>
         in if is = [] then (ProbeReturned (Inr False), p1)
            else (ProbeRoutes is (rp_active p) (rp_generation p), p1)))"

definition muchFaster :: "Time \<Rightarrow> gint set \<Rightarrow> routePool \<Rightarrow> gint \<Rightarrow> bool" where
  "muchFaster now healthy p index \<longleftrightarrow>
     index \<noteq> rp_active p \<and> index \<in> healthy \<and> rs_healthy (route_at p index) \<and> routeEligibleLocked p index now
     \<and> (let activeLatency = rs_latency (route_at p (rp_active p)); candidateLatency = rs_latency (route_at p index)
        in candidateLatency > 0 \<and> candidateLatency \<le> activeLatency - go_div activeLatency 5)"

definition chooseFaster :: "Time \<Rightarrow> gint set \<Rightarrow> routePool \<Rightarrow> bool \<times> routePool" where
  "chooseFaster now healthy p =
     (let best = fastest p (muchFaster now healthy p);
          p1 = p\<lparr>rp_routes := map (\<lambda>i. if int i \<noteq> best then (rp_routes p ! i)\<lparr>rs_fastStreak := 0\<rparr>
                                      else rp_routes p ! i) [0..<length (rp_routes p)]\<rparr>
      in if best < 0 then (False, p1)
         else
           (let p2 = update_route best (\<lambda>st. st\<lparr>rs_fastStreak := i64 (rs_fastStreak st + 1)\<rparr>) p1
            in if rs_fastStreak (route_at p2 best) \<ge> 2
               then (True, resetFastStreaksLocked (setActiveLocked best p2))
               else (False, p2)))"

definition probe_commit ::
    "bool \<Rightarrow> Time \<Rightarrow> gint \<Rightarrow> u64 \<Rightarrow> routeProbeObservation list \<Rightarrow> routePool \<Rightarrow> (route_error + bool) \<times> routePool" where
  "probe_commit cancelled now active activeGeneration obs p =
     (if cancelled then (Inl ErrContext, p)
      else
        (let (healthy, p1) = observeProbe now obs {} p in
         if rp_generation p1 \<noteq> activeGeneration \<or> rp_active p1 \<noteq> active
         then apfst Inr (reconcileActiveHealthLocked now p1)
         else if \<not> in_range p1 active then
           (let selected = fastestHealthyLocked p1 now (-1)
            in if selected < 0 then (Inr False, p1) else (Inr True, setActiveLocked selected p1))
         else if \<not> rs_healthy (route_at p1 active) then
           (let selected = fastestHealthyLocked p1 now active
            in if selected \<ge> 0 then (Inr True, resetFastStreaksLocked (setActiveLocked selected p1))
               else (Inr False, resetFastStreaksLocked (setActiveLocked (-1) p1)))
         else if active \<notin> healthy then (Inr False, resetFastStreaksLocked p1)
         else if rs_latency (route_at p1 active) \<le> 0 then (Inr False, p1)
         else apfst Inr (chooseFaster now healthy p1)))"

end
