(* ===== verification/Route_System.thy ===== *)
theory Route_System
  imports Route_Pool
begin

text \<open>
  The route pool under concurrency. A system is the pool together with the operations in flight, each
  with its jobs still to be probed, the epochs sampled for the jobs being probed and the observations
  made. A step is one critical section of one method, the start or the end of a probe; the results of
  probes, their order and the cancellation of an operation are arbitrary. The mutex that serializes
  initialize and probe is the side condition \<open>quiet\<close>.
\<close>

section \<open>Selection\<close>

definition better :: "routePool \<Rightarrow> gint \<Rightarrow> gint \<Rightarrow> bool" where
  "better p i j \<longleftrightarrow> rs_latency (route_at p i) < rs_latency (route_at p j)
     \<or> (rs_latency (route_at p i) = rs_latency (route_at p j) \<and> i \<le> j)"

definition fastest_upto :: "routePool \<Rightarrow> (gint \<Rightarrow> bool) \<Rightarrow> nat \<Rightarrow> gint" where
  "fastest_upto p keep n =
     foldl (\<lambda>best index. if \<not> keep index then best else if faster p index best then index else best) (-1)
       (map int [0..<n])"

lemma fastest_upto_simps [simp]:
  "fastest_upto p keep 0 = -1"
  "fastest_upto p keep (Suc n) =
     (if keep (int n) \<and> faster p (int n) (fastest_upto p keep n) then int n else fastest_upto p keep n)"
  by (simp_all add: fastest_upto_def)

lemma fastest_upto_cases:
  "(fastest_upto p keep n = -1 \<and> (\<forall>j. 0 \<le> j \<and> j < int n \<longrightarrow> \<not> keep j))
   \<or> (0 \<le> fastest_upto p keep n \<and> fastest_upto p keep n < int n \<and> keep (fastest_upto p keep n)
      \<and> (\<forall>j. 0 \<le> j \<and> j < int n \<longrightarrow> keep j \<longrightarrow> better p (fastest_upto p keep n) j))"
proof (induction n)
  case 0
  show ?case by auto
next
  case (Suc n)
  have less: "j < 1 + int n \<longleftrightarrow> j < int n \<or> j = int n" for j by auto
  have trans: "better p i k" if "better p i j" "better p j k" for i j k
    using that by (auto simp: better_def)
  have new: "better p (int n) j"
    if "0 \<le> j" "j < int n" "keep j" "keep (int n)" "faster p (int n) (fastest_upto p keep n)" for j
  proof -
    have "better p (int n) (fastest_upto p keep n)" "better p (fastest_upto p keep n) j"
      using Suc.IH that by (auto simp: faster_def better_def)
    then show ?thesis by (rule trans)
  qed
  have old: "better p (fastest_upto p keep n) (int n)"
    if "0 \<le> fastest_upto p keep n" "fastest_upto p keep n < int n" "\<not> faster p (int n) (fastest_upto p keep n)"
    using that by (auto simp: faster_def better_def)
  have self: "better p (int n) (int n)" by (simp add: better_def)
  show ?case
  proof (cases "keep (int n) \<and> faster p (int n) (fastest_upto p keep n)")
    case True
    then show ?thesis using new self by (auto simp: less)
  next
    case False
    have empty: "\<not> keep (int n)" if "fastest_upto p keep n = -1"
      using False that by (auto simp: faster_def)
    have "fastest_upto p keep (Suc n) = fastest_upto p keep n" using False by auto
    then show ?thesis using Suc.IH empty old False by (auto simp: less)
  qed
qed

lemma fastest_cases:
  obtains (none) "fastest p keep = -1" "\<And>j. in_range p j \<Longrightarrow> \<not> keep j"
  | (some) "in_range p (fastest p keep)" "keep (fastest p keep)"
      "\<And>j. in_range p j \<Longrightarrow> keep j \<Longrightarrow> better p (fastest p keep) j"
  using fastest_upto_cases [of p keep "length (rp_routes p)"]
  by (auto simp: fastest_upto_def fastest_def indices_def in_range_def)

lemma fastest_range: "-1 \<le> fastest p keep \<and> fastest p keep < int (length (rp_routes p))"
  by (rule fastest_cases [of p keep]) (auto simp: in_range_def)

section \<open>Frames\<close>

definition route_le :: "routeState \<Rightarrow> routeState \<Rightarrow> bool" where
  "route_le r r' \<longleftrightarrow> rs_candidate r' = rs_candidate r \<and> unat (rs_epoch r) \<le> unat (rs_epoch r')"

definition pool_le :: "routePool \<Rightarrow> routePool \<Rightarrow> bool" where
  "pool_le p p' \<longleftrightarrow>
     list_all2 route_le (rp_routes p) (rp_routes p') \<and> rp_config p' = rp_config p
     \<and> (rp_initialized p \<longrightarrow> rp_initialized p') \<and> rp_changed p \<le> rp_changed p'
     \<and> (rp_changed p' = rp_changed p \<longrightarrow> rp_active p' = rp_active p)"

definition epoch_room :: "nat \<Rightarrow> routePool \<Rightarrow> bool" where
  "epoch_room n p \<longleftrightarrow> (\<forall>r \<in> set (rp_routes p). unat (rs_epoch r) + n < 2 ^ 64)"

definition pool_wf :: "routePool \<Rightarrow> bool" where
  "pool_wf p \<longleftrightarrow>
     -1 \<le> rp_active p \<and> rp_active p < int (length (rp_routes p))
     \<and> rp_generation p = of_nat (rp_changed p)
     \<and> (rp_active p \<noteq> -1 \<longrightarrow> rp_initialized p \<and> rp_changed p \<noteq> 0)
     \<and> distinct (map rs_candidate (rp_routes p))"

lemma route_le_refl [simp]: "route_le r r"
  by (simp add: route_le_def)

lemma pool_le_refl [simp]: "pool_le p p"
  by (simp add: pool_le_def list.rel_refl)

lemma route_le_trans: "route_le a b \<Longrightarrow> route_le b c \<Longrightarrow> route_le a c"
  by (auto simp: route_le_def)

lemma pool_le_trans:
  assumes "pool_le p q" "pool_le q r"
  shows "pool_le p r"
proof -
  have "list_all2 route_le (rp_routes p) (rp_routes r)"
    using assms by (auto simp: pool_le_def intro: list_all2_trans [OF route_le_trans])
  moreover have "rp_changed r = rp_changed p \<Longrightarrow> rp_changed q = rp_changed p"
    using assms by (simp add: pool_le_def)
  ultimately show ?thesis using assms by (auto simp: pool_le_def)
qed

lemma pool_le_length: "pool_le p p' \<Longrightarrow> length (rp_routes p') = length (rp_routes p)"
  by (auto simp: pool_le_def list_all2_lengthD)

lemma pool_le_in_range: "pool_le p p' \<Longrightarrow> in_range p' i \<longleftrightarrow> in_range p i"
  by (simp add: in_range_def pool_le_length)

lemma pool_le_route: "pool_le p p' \<Longrightarrow> in_range p i \<Longrightarrow> route_le (route_at p i) (route_at p' i)"
  by (auto simp: pool_le_def in_range_def route_at_def list_all2_conv_all_nth)

lemma pool_le_candidates: "pool_le p p' \<Longrightarrow> map rs_candidate (rp_routes p') = map rs_candidate (rp_routes p)"
  by (auto simp: pool_le_def route_le_def list_all2_conv_all_nth intro: nth_equalityI)

text \<open>A pool whose routes and flags change but whose active route does not.\<close>

lemma pool_wf_frame:
  assumes "pool_wf p" "pool_le p p'" "rp_active p' = rp_active p" "rp_changed p' = rp_changed p"
    "rp_generation p' = rp_generation p"
  shows "pool_wf p'"
  using assms pool_le_length [OF assms(2)] pool_le_candidates [OF assms(2)]
  by (auto simp: pool_wf_def pool_le_def)

subsection \<open>Primitive updates\<close>

lemma pool_le_map:
  "(\<And>r. rs_candidate (f r) = rs_candidate r \<and> rs_epoch (f r) = rs_epoch r) \<Longrightarrow>
   pool_le p (p\<lparr>rp_routes := map f (rp_routes p)\<rparr>)"
  by (auto simp: pool_le_def route_le_def list_all2_conv_all_nth)

lemma update_route_fields [simp]:
  "rp_active (update_route i f p) = rp_active p" "rp_changed (update_route i f p) = rp_changed p"
  "rp_generation (update_route i f p) = rp_generation p" "rp_initialized (update_route i f p) = rp_initialized p"
  "rp_config (update_route i f p) = rp_config p" "length (rp_routes (update_route i f p)) = length (rp_routes p)"
  "in_range (update_route i f p) j = in_range p j"
  by (simp_all add: update_route_def in_range_def)

lemma route_at_update:
  "in_range p i \<Longrightarrow> in_range p j \<Longrightarrow>
   route_at (update_route i f p) j = (if j = i then f (route_at p i) else route_at p j)"
  by (auto simp: route_at_def update_route_def in_range_def nth_list_update)

lemma pool_le_update:
  assumes "in_range p i" "route_le (route_at p i) (f (route_at p i))"
  shows "pool_le p (update_route i f p)"
  using assms
  by (auto simp: pool_le_def update_route_def in_range_def route_at_def list_all2_conv_all_nth nth_list_update)

lemma in_range_route: "in_range p i \<Longrightarrow> route_at p i \<in> set (rp_routes p)"
  by (auto simp: in_range_def route_at_def)

lemma epoch_room_mono: "epoch_room n p \<Longrightarrow> m \<le> n \<Longrightarrow> epoch_room m p"
  by (fastforce simp: epoch_room_def)

lemma unat_epoch_Suc:
  assumes "epoch_room (Suc n) p" "in_range p i"
  shows "unat (rs_epoch (route_at p i) + 1) = Suc (unat (rs_epoch (route_at p i)))"
proof -
  have "unat (rs_epoch (route_at p i)) + Suc n < 2 ^ 64"
    using assms in_range_route unfolding epoch_room_def by blast
  then have "unat (rs_epoch (route_at p i)) + 1 < 2 ^ LENGTH(64)" by simp
  then show ?thesis by (simp add: unat_add_lem [THEN iffD1])
qed

lemma epoch_room_update:
  assumes room: "epoch_room (Suc n) p" and i: "in_range p i"
    and f: "rs_epoch (f (route_at p i)) = rs_epoch (route_at p i) + 1"
  shows "epoch_room n (update_route i f p)"
proof -
  have "unat (rs_epoch (f (route_at p i))) + n < 2 ^ 64"
    using room in_range_route [OF i] unat_epoch_Suc [OF room i] unfolding epoch_room_def f by fastforce
  moreover have "r = f (route_at p i) \<or> r \<in> set (rp_routes p)" if "r \<in> set (rp_routes (update_route i f p))" for r
    using that set_update_subset_insert by (fastforce simp: update_route_def)
  ultimately show ?thesis using room unfolding epoch_room_def by fastforce
qed

lemma setActive_le [simp]: "pool_le p (setActiveLocked i p)"
  by (simp add: setActiveLocked_def pool_le_def list.rel_refl)

lemma setActive_fields [simp]:
  "rp_routes (setActiveLocked i p) = rp_routes p" "rp_active (setActiveLocked i p) = i"
  "rp_initialized (setActiveLocked i p) = rp_initialized p" "rp_config (setActiveLocked i p) = rp_config p"
  by (simp_all add: setActiveLocked_def)

lemma setActive_wf:
  "pool_wf p \<Longrightarrow> -1 \<le> i \<Longrightarrow> i < int (length (rp_routes p)) \<Longrightarrow> rp_initialized p \<Longrightarrow> pool_wf (setActiveLocked i p)"
  by (auto simp: setActiveLocked_def pool_wf_def)

lemma reset_le [simp]: "pool_le p (resetFastStreaksLocked p)"
  unfolding resetFastStreaksLocked_def by (rule pool_le_map) simp

lemma reset_fields [simp]:
  "rp_active (resetFastStreaksLocked p) = rp_active p" "rp_changed (resetFastStreaksLocked p) = rp_changed p"
  "rp_generation (resetFastStreaksLocked p) = rp_generation p"
  "length (rp_routes (resetFastStreaksLocked p)) = length (rp_routes p)"
  by (simp_all add: resetFastStreaksLocked_def)

lemma reset_wf: "pool_wf p \<Longrightarrow> pool_wf (resetFastStreaksLocked p)"
  by (rule pool_wf_frame) simp_all

subsection \<open>Observations\<close>

text \<open>What the three loops have in common: a fresh observation bumps the epoch of one route.\<close>

definition observes :: "routePool \<Rightarrow> routePool \<Rightarrow> bool" where
  "observes p p' \<longleftrightarrow>
     pool_le p p' \<and> rp_active p' = rp_active p \<and> rp_changed p' = rp_changed p
     \<and> rp_generation p' = rp_generation p \<and> rp_initialized p' = rp_initialized p"

definition bumps :: "(routeState \<Rightarrow> routeState) \<Rightarrow> bool" where
  "bumps f \<longleftrightarrow> (\<forall>st. rs_candidate (f st) = rs_candidate st \<and> rs_epoch (f st) = rs_epoch st + 1)"

lemma observes_refl [simp]: "observes p p"
  by (simp add: observes_def)

lemma observes_trans: "observes p q \<Longrightarrow> observes q r \<Longrightarrow> observes p r"
  by (auto simp: observes_def intro: pool_le_trans)

lemma observes_wf: "observes p p' \<Longrightarrow> pool_wf p \<Longrightarrow> pool_wf p'"
  by (auto simp: observes_def intro: pool_wf_frame)

lemma observe_one:
  assumes room: "epoch_room (Suc n) p" and f: "bumps f"
  shows "observes p (if \<not> fresh p ob then p else update_route (ob_index ob) f p)
    \<and> epoch_room n (if \<not> fresh p ob then p else update_route (ob_index ob) f p)"
proof (cases "fresh p ob")
  case True
  then have i: "in_range p (ob_index ob)" by (simp add: fresh_def)
  have "epoch_room n (update_route (ob_index ob) f p)"
    using epoch_room_update [of n p "ob_index ob" f] room i f by (simp add: bumps_def)
  moreover have "pool_le p (update_route (ob_index ob) f p)"
    using pool_le_update [of p "ob_index ob" f] unat_epoch_Suc [OF room i] i f by (simp add: bumps_def route_le_def)
  ultimately show ?thesis using True by (simp add: observes_def)
next
  case False
  with epoch_room_mono [OF room, of n] show ?thesis by simp
qed

lemma bumps_results [simp]:
  "bumps (\<lambda>st. let st1 = take_result ob st in if \<not> rs_healthy st1 then cool_down d now st1 else st1)"
  "bumps (\<lambda>st. let st1 = take_result ob st in if rs_healthy st1 then recover st1 else cool_down d now st1)"
  "bumps (\<lambda>st. let st1 = take_result ob st in if rs_healthy st1 then recover st1
                else (cool_down d now st1)\<lparr>rs_fastStreak := 0\<rparr>)"
  by (simp_all add: bumps_def Let_def take_result_def cool_down_def recover_def)

lemma observeInitial_observes: "epoch_room (length obs) p \<Longrightarrow> observes p (observeInitial obs p)"
proof (induction obs p rule: observeInitial.induct)
  case (2 ob now rest p)
  from observe_one [OF 2(2) [simplified] bumps_results(1), of ob] 2(1)
  show ?case unfolding observeInitial.simps by (blast intro: observes_trans)
qed simp

lemma observeReplacement_observes: "epoch_room (length obs) p \<Longrightarrow> observes p (observeReplacement obs p)"
proof (induction obs p rule: observeReplacement.induct)
  case (2 ob now rest p)
  from observe_one [OF 2(2) [simplified] bumps_results(2), of ob] 2(1)
  show ?case unfolding observeReplacement.simps by (blast intro: observes_trans)
qed simp

lemma observeProbe_observes:
  "epoch_room (length obs) p \<Longrightarrow> observes p (snd (observeProbe now obs healthy p))"
proof (induction now obs healthy p rule: observeProbe.induct)
  case (2 now ob rest healthy p)
  note one = observe_one [OF 2(3) [simplified] bumps_results(3) [of ob "cf_Cooldown (rp_config p)" now], of ob]
  show ?case
  proof (cases "fresh p ob")
    case True
    with one 2(2) show ?thesis by (auto intro: observes_trans)
  next
    case False
    with one 2(1) show ?thesis by simp
  qed
qed simp

subsection \<open>Methods\<close>

text \<open>Every method moves the pool on and keeps it well formed.\<close>

definition advances :: "routePool \<Rightarrow> routePool \<Rightarrow> bool" where
  "advances p p' \<longleftrightarrow> pool_le p p' \<and> (pool_wf p \<longrightarrow> pool_wf p')"

lemma advances_refl [simp]: "advances p p"
  by (simp add: advances_def)

lemma advances_trans: "advances p q \<Longrightarrow> advances q r \<Longrightarrow> advances p r"
  by (auto simp: advances_def intro: pool_le_trans)

lemma observes_advances: "observes p p' \<Longrightarrow> advances p p'"
  by (auto simp: advances_def observes_def intro: pool_wf_frame)

lemma setActive_advances:
  "-1 \<le> i \<Longrightarrow> i < int (length (rp_routes p)) \<Longrightarrow> rp_initialized p \<Longrightarrow> advances p (setActiveLocked i p)"
  by (simp add: advances_def setActive_wf)

lemma reset_advances: "advances p (resetFastStreaksLocked p)"
  by (simp add: advances_def reset_wf)

lemma switch_advances:
  "-1 \<le> i \<Longrightarrow> i < int (length (rp_routes p)) \<Longrightarrow> rp_initialized p \<Longrightarrow>
   advances p (resetFastStreaksLocked (setActiveLocked i p))"
  by (rule advances_trans [OF setActive_advances reset_advances])

lemma update_advances:
  "in_range p i \<Longrightarrow> route_le (route_at p i) (f (route_at p i)) \<Longrightarrow> advances p (update_route i f p)"
  using pool_le_update [of p i f] by (auto simp: advances_def intro: pool_wf_frame)

lemma fastestHealthy_range:
  "-1 \<le> fastestHealthyLocked p now excluded" "fastestHealthyLocked p now excluded < int (length (rp_routes p))"
  by (simp_all add: fastestHealthyLocked_def fastest_range)

lemma wf_active_range: "pool_wf p \<Longrightarrow> in_range p (rp_active p) \<Longrightarrow> rp_initialized p"
  by (auto simp: pool_wf_def in_range_def)

lemma initialize_commit_advances:
  assumes "epoch_room (length obs) p"
  shows "advances p (snd (initialize_commit cancelled now obs p))"
proof -
  let ?p1 = "(observeInitial obs p)\<lparr>rp_initialized := True, rp_lastProbe := now\<rparr>"
  have "advances p (observeInitial obs p)" using assms by (simp add: observeInitial_observes observes_advances)
  moreover have "advances (observeInitial obs p) ?p1"
    by (auto simp: advances_def pool_le_def pool_wf_def list.rel_refl)
  ultimately have "advances p ?p1" by (rule advances_trans)
  moreover have "advances ?p1 (setActiveLocked (fastestHealthyLocked ?p1 now (-1)) ?p1)"
    by (rule setActive_advances) (use fastestHealthy_range [of ?p1 now "-1"] in simp_all)
  ultimately show ?thesis
    by (auto simp: initialize_commit_def Let_def intro: advances_trans)
qed

lemma probeReplacement_commit_advances:
  assumes "epoch_room (length obs) p" "rp_initialized p"
  shows "advances p (snd (probeReplacement_commit cancelled now later excluded gen obs p))"
proof -
  let ?p1 = "observeReplacement obs p"
  have obs: "observes p ?p1" using assms(1) by (rule observeReplacement_observes)
  then have "advances p ?p1" "rp_initialized ?p1" using assms(2) by (auto simp: observes_advances observes_def)
  moreover have "advances ?p1 (setActiveLocked (fastestHealthyLocked ?p1 now excluded) ?p1)"
    using calculation(2) by (intro setActive_advances fastestHealthy_range)
  ultimately show ?thesis
    by (auto simp: probeReplacement_commit_def Let_def intro: advances_trans)
qed

lemma reconcile_advances:
  assumes "pool_wf p"
  shows "advances p (snd (reconcileActiveHealthLocked now p))"
proof (cases "in_range p (rp_active p)")
  case True
  with wf_active_range [OF assms] fastestHealthy_range [of p now "rp_active p"] show ?thesis
    by (auto simp: reconcileActiveHealthLocked_def Let_def intro!: switch_advances)
qed (simp add: reconcileActiveHealthLocked_def)

lemma chooseFaster_advances:
  assumes "rp_initialized p"
  shows "advances p (snd (chooseFaster now healthy p))"
proof -
  let ?best = "fastest p (muchFaster now healthy p)"
  let ?p1 = "p\<lparr>rp_routes := map (\<lambda>i. if int i \<noteq> ?best then (rp_routes p ! i)\<lparr>rs_fastStreak := 0\<rparr>
                                    else rp_routes p ! i) [0..<length (rp_routes p)]\<rparr>"
  let ?p2 = "update_route ?best (\<lambda>st. st\<lparr>rs_fastStreak := i64 (rs_fastStreak st + 1)\<rparr>) ?p1"
  have "pool_le p ?p1" by (auto simp: pool_le_def route_le_def list_all2_conv_all_nth)
  then have 1: "advances p ?p1" by (auto simp: advances_def intro: pool_wf_frame)
  have 2: "advances ?p1 ?p2" if "0 \<le> ?best"
    by (rule update_advances) (use that fastest_range [of p "muchFaster now healthy p"] in \<open>auto simp: in_range_def route_le_def\<close>)
  have 3: "advances ?p2 (resetFastStreaksLocked (setActiveLocked ?best ?p2))"
    by (rule switch_advances) (use fastest_range [of p "muchFaster now healthy p"] assms in auto)
  show ?thesis
    using 1 advances_trans [OF 1 2] advances_trans [OF advances_trans [OF 1 2] 3]
    by (auto simp: chooseFaster_def Let_def)
qed

lemma probe_commit_advances:
  assumes "epoch_room (length obs) p" "rp_initialized p" "pool_wf p"
  shows "advances p (snd (probe_commit cancelled now active gen obs p))"
proof -
  obtain healthy p1 where obs: "observeProbe now obs {} p = (healthy, p1)" by fastforce
  then have "observes p p1" using observeProbe_observes [OF assms(1), of now "{}"] by simp
  then have p1: "advances p p1" "rp_initialized p1" "pool_wf p1"
    using assms by (auto simp: observes_advances observes_def intro: observes_wf [unfolded observes_def])
  have "advances p1 (snd (probe_commit False now active gen obs p))"
    using p1 reconcile_advances [OF p1(3), of now] chooseFaster_advances [OF p1(2), of now healthy]
      fastestHealthy_range [of p1 now] reset_advances [of p1]
    by (auto simp: probe_commit_def obs Let_def intro!: setActive_advances switch_advances)
  with p1(1) show ?thesis
    by (cases cancelled) (auto simp: probe_commit_def intro: advances_trans)
qed

lemma probe_begin_advances: "advances p (snd (probe_begin now p))"
  by (auto simp: probe_begin_def Let_def advances_def pool_le_def pool_wf_def list.rel_refl)

lemma reportSnapshotSuccess_advances: "advances p (snd (reportSnapshotSuccess sn p))"
  by (auto simp: reportSnapshotSuccess_def route_le_def intro!: update_advances)

lemma indexOf_range:
  assumes "0 \<le> indexOfLocked p r"
  shows "in_range p (indexOfLocked p r) \<and> rs_candidate (route_at p (indexOfLocked p r)) = r"
proof (cases "find (\<lambda>index. rs_candidate (route_at p index) = r) (indices p)")
  case None
  with assms show ?thesis by (simp add: indexOfLocked_def)
next
  case (Some i)
  then have "i \<in> set (indices p) \<and> rs_candidate (route_at p i) = r"
    by (auto simp: find_Some_iff)
  with Some show ?thesis by (auto simp: indexOfLocked_def indices_def in_range_def)
qed

lemma fail_route_advances:
  assumes "epoch_room 1 p" "in_range p i"
  shows "advances p (update_route i (fail_route d now) p)"
  using assms(2) unat_epoch_Suc [of 0 p i] assms
  by (intro update_advances) (auto simp: route_le_def fail_route_def)

lemma reportSnapshotFailure_advances:
  assumes "epoch_room 1 p"
  shows "advances p (snd (reportSnapshotFailure cancelled now later sn p))"
proof (cases "0 \<le> indexOfLocked p (sn_Candidate sn)")
  case True
  let ?i = "indexOfLocked p (sn_Candidate sn)"
  let ?p1 = "update_route ?i (fail_route (cf_Cooldown (rp_config p)) now) p"
  have 1: "advances p ?p1" using assms indexOf_range [OF True] by (intro fail_route_advances) auto
  have 2: "advances ?p1 (resetFastStreaksLocked (setActiveLocked (fastestHealthyLocked ?p1 now ?i) ?p1))"
    "advances ?p1 (resetFastStreaksLocked (setActiveLocked (-1) ?p1))" if "rp_initialized p"
    using that fastestHealthy_range [of ?p1 now ?i] by (auto intro!: switch_advances)
  show ?thesis
    using True 1 advances_trans [OF 1 2(1)] advances_trans [OF 1 2(2)]
    by (auto simp: reportSnapshotFailure_def Let_def)
qed (auto simp: reportSnapshotFailure_def Let_def)

section \<open>Operations in flight\<close>

datatype op_kind = Initializing | AwaitReplacement gint u64 | Replacing gint u64 | Probing Time gint u64

record probing =
  pg_kind :: op_kind
  pg_jobs :: "gint list list"
  pg_sampled :: "(gint \<times> u64) list list"
  pg_obs :: "routeProbeObservation list"

record route_system =
  sy_pool :: routePool
  sy_ops :: "nat \<rightharpoonup> probing"

definition started :: "op_kind \<Rightarrow> gint list list \<Rightarrow> probing" where
  "started kind jobs = \<lparr>pg_kind = kind, pg_jobs = jobs, pg_sampled = [], pg_obs = []\<rparr>"

fun holds_opMu :: "op_kind \<Rightarrow> bool" where
  "holds_opMu Initializing = True"
| "holds_opMu (Probing _ _ _) = True"
| "holds_opMu _ = False"

definition quiet :: "route_system \<Rightarrow> bool" where
  "quiet s \<longleftrightarrow> (\<forall>c op. sy_ops s c = Some op \<longrightarrow> \<not> holds_opMu (pg_kind op))"

fun finish :: "bool \<Rightarrow> Time \<Rightarrow> Time \<Rightarrow> Time list \<Rightarrow> probing \<Rightarrow> routePool \<Rightarrow> routePool" where
  "finish cancelled now later ts op p =
     (case pg_kind op of
        Initializing \<Rightarrow> snd (initialize_commit cancelled now (zip (pg_obs op) ts) p)
      | AwaitReplacement i g \<Rightarrow> p
      | Replacing i g \<Rightarrow> snd (probeReplacement_commit cancelled now later i g (zip (pg_obs op) ts) p)
      | Probing t a g \<Rightarrow> snd (probe_commit cancelled t a g (pg_obs op) p))"

definition finished :: "probing \<Rightarrow> bool" where
  "finished op \<longleftrightarrow> pg_jobs op = [] \<and> pg_sampled op = []"

inductive route_step :: "route_system \<Rightarrow> route_system \<Rightarrow> bool" where
  init_begin: "quiet s \<Longrightarrow> sy_ops s c = None \<Longrightarrow> initialize_begin False (sy_pool s) = Inr is \<Longrightarrow>
    route_step s (s\<lparr>sy_ops := (sy_ops s)(c \<mapsto> started Initializing (probeJobs (sy_pool s) is))\<rparr>)"
| probe_returns: "quiet s \<Longrightarrow> probe_begin now (sy_pool s) = (ProbeReturned r, p) \<Longrightarrow>
    route_step s (s\<lparr>sy_pool := p\<rparr>)"
| probe_begins: "quiet s \<Longrightarrow> sy_ops s c = None \<Longrightarrow> probe_begin now (sy_pool s) = (ProbeRoutes is a g, p) \<Longrightarrow>
    route_step s (s\<lparr>sy_pool := p, sy_ops := (sy_ops s)(c \<mapsto> started (Probing now a g) (probeJobs p is))\<rparr>)"
| success: "route_step s (s\<lparr>sy_pool := snd (reportSnapshotSuccess sn (sy_pool s))\<rparr>)"
| failure: "epoch_room 1 (sy_pool s) \<Longrightarrow> sy_ops s c = None \<Longrightarrow>
    reportSnapshotFailure cancelled now later sn (sy_pool s) = (nxt, p) \<Longrightarrow>
    route_step s (s\<lparr>sy_pool := p, sy_ops := (case nxt of
       Replace i g \<Rightarrow> (sy_ops s)(c \<mapsto> started (AwaitReplacement i g) []) | _ \<Rightarrow> sy_ops s)\<rparr>)"
| replacement: "sy_ops s c = Some op \<Longrightarrow> pg_kind op = AwaitReplacement i g \<Longrightarrow>
    is = probeReplacement_begin now i (sy_pool s) \<Longrightarrow>
    route_step s (s\<lparr>sy_ops := (if is = [] then (sy_ops s)(c := None)
       else (sy_ops s)(c \<mapsto> started (Replacing i g) (probeJobs (sy_pool s) is)))\<rparr>)"
| sample: "sy_ops s c = Some op \<Longrightarrow> pg_jobs op = job # jobs \<Longrightarrow>
    int (length (pg_sampled op)) < cf_MaxConcurrent (rp_config (sy_pool s)) \<Longrightarrow>
    route_step s (s\<lparr>sy_ops := (sy_ops s)(c \<mapsto>
       op\<lparr>pg_jobs := jobs, pg_sampled := pg_sampled op @ [sampleEpochs (sy_pool s) job]\<rparr>)\<rparr>)"
| observe: "sy_ops s c = Some op \<Longrightarrow> pg_sampled op = before @ epochs # after \<Longrightarrow>
    route_step s (s\<lparr>sy_ops := (sy_ops s)(c \<mapsto>
       op\<lparr>pg_sampled := before @ after, pg_obs := pg_obs op @ observations elapsed result epochs\<rparr>)\<rparr>)"
| commit: "sy_ops s c = Some op \<Longrightarrow> cancelled \<or> finished op \<Longrightarrow> length ts = length (pg_obs op) \<Longrightarrow>
    epoch_room (length (pg_obs op)) (sy_pool s) \<Longrightarrow>
    route_step s (s\<lparr>sy_pool := finish cancelled now later ts op (sy_pool s), sy_ops := (sy_ops s)(c := None)\<rparr>)"

section \<open>Invariant\<close>

definition op_samples :: "probing \<Rightarrow> (gint \<times> u64) set" where
  "op_samples op = set (concat (pg_sampled op)) \<union> (\<lambda>ob. (ob_index ob, ob_epoch ob)) ` set (pg_obs op)"

definition samples :: "route_system \<Rightarrow> (gint \<times> u64) set" where
  "samples s = (\<Union>op \<in> ran (sy_ops s). op_samples op)"

definition sampled_before :: "routePool \<Rightarrow> (gint \<times> u64) \<Rightarrow> bool" where
  "sampled_before p = (\<lambda>(i, e). in_range p i \<and> unat e \<le> unat (rs_epoch (route_at p i)))"

definition op_wf :: "routePool \<Rightarrow> probing \<Rightarrow> bool" where
  "op_wf p op \<longleftrightarrow> (\<forall>x \<in> op_samples op. sampled_before p x) \<and> (pg_kind op \<noteq> Initializing \<longrightarrow> rp_initialized p)"

definition sys_wf :: "route_system \<Rightarrow> bool" where
  "sys_wf s \<longleftrightarrow> pool_wf (sy_pool s) \<and> (\<forall>c op. sy_ops s c = Some op \<longrightarrow> op_wf (sy_pool s) op)"

definition sys_le :: "route_system \<Rightarrow> route_system \<Rightarrow> bool" where
  "sys_le s t \<longleftrightarrow> pool_le (sy_pool s) (sy_pool t)"

lemma sampled_before_mono: "sampled_before p x \<Longrightarrow> pool_le p p' \<Longrightarrow> sampled_before p' x"
  using pool_le_in_range [of p p'] pool_le_route [of p p']
  by (cases x) (fastforce simp: sampled_before_def route_le_def)

lemma op_wf_mono: "op_wf p op \<Longrightarrow> pool_le p p' \<Longrightarrow> op_wf p' op"
  unfolding op_wf_def using sampled_before_mono [of p _ p'] by (auto simp: pool_le_def)

lemma started_wf: "op_wf p (started k jobs) \<longleftrightarrow> (k \<noteq> Initializing \<longrightarrow> rp_initialized p)"
  by (simp add: op_wf_def op_samples_def started_def)

lemma sampleEpochs_before: "x \<in> set (sampleEpochs p job) \<Longrightarrow> sampled_before p x"
  by (auto simp: sampleEpochs_def sampled_before_def split: list.splits if_splits)

lemma observations_samples:
  "(\<lambda>ob. (ob_index ob, ob_epoch ob)) ` set (observations elapsed result epochs) = set epochs"
  by (force simp: observations_def Let_def)

lemma finish_advances:
  assumes "op_wf p op" "pool_wf p" "epoch_room (length (pg_obs op)) p" "length ts = length (pg_obs op)"
  shows "advances p (finish cancelled now later ts op p)"
proof (cases "pg_kind op")
  case Initializing
  then show ?thesis using assms by (simp add: initialize_commit_advances)
next
  case (Replacing i g)
  then show ?thesis using assms by (simp add: probeReplacement_commit_advances op_wf_def)
next
  case (Probing t a g)
  then show ?thesis using assms by (simp add: probe_commit_advances op_wf_def)
qed simp

lemma reportSnapshotFailure_replace:
  "reportSnapshotFailure cancelled now later sn p = (Replace i g, p') \<Longrightarrow> rp_initialized p'"
  by (auto simp: reportSnapshotFailure_def Let_def resetFastStreaksLocked_def split: if_splits)

lemma probe_begin_routes: "probe_begin now p = (ProbeRoutes is a g, p') \<Longrightarrow> rp_initialized p'"
  by (auto simp: probe_begin_def Let_def split: if_splits)

lemma sys_wf_pool:
  assumes "sys_wf s" "advances (sy_pool s) p"
  shows "sys_wf (s\<lparr>sy_pool := p\<rparr>)"
  using assms op_wf_mono [of "sy_pool s" _ p] by (auto simp: sys_wf_def advances_def)

lemma sys_wf_op: "sys_wf s \<Longrightarrow> op_wf (sy_pool s) op \<Longrightarrow> sys_wf (s\<lparr>sy_ops := (sy_ops s)(c \<mapsto> op)\<rparr>)"
  by (simp add: sys_wf_def)

lemma sys_wf_drop: "sys_wf s \<Longrightarrow> sys_wf (s\<lparr>sy_ops := (sy_ops s)(c := None)\<rparr>)"
  by (simp add: sys_wf_def)

lemma route_step_advances: "route_step s t \<Longrightarrow> sys_wf s \<Longrightarrow> advances (sy_pool s) (sy_pool t)"
proof (induction rule: route_step.induct)
  case (probe_returns s now r p)
  then show ?case using probe_begin_advances [of "sy_pool s" now] by simp
next
  case (probe_begins s c now "is" a g p)
  then show ?case using probe_begin_advances [of "sy_pool s" now] by simp
next
  case (failure s c cancelled now later sn nxt p)
  then show ?case using reportSnapshotFailure_advances [of "sy_pool s" cancelled now later sn] by simp
next
  case (commit s c op cancelled ts now later)
  then show ?case by (simp add: finish_advances sys_wf_def del: finish.simps)
qed (simp_all add: reportSnapshotSuccess_advances)

lemma op_wf_subset:
  "op_wf p op \<Longrightarrow> pg_kind op' = pg_kind op \<Longrightarrow>
   (\<And>x. x \<in> op_samples op' \<Longrightarrow> x \<in> op_samples op \<or> sampled_before p x) \<Longrightarrow> op_wf p op'"
  by (auto simp: op_wf_def)

lemma sample_samples:
  "op_samples (op\<lparr>pg_jobs := jobs, pg_sampled := pg_sampled op @ [epochs]\<rparr>) = op_samples op \<union> set epochs"
  by (auto simp: op_samples_def)

lemma observe_samples:
  assumes "pg_sampled op = before @ epochs # after"
  shows "op_samples (op\<lparr>pg_sampled := before @ after, pg_obs := pg_obs op @ observations elapsed result epochs\<rparr>)
    = op_samples op"
proof -
  have "op_samples (op\<lparr>pg_sampled := before @ after, pg_obs := pg_obs op @ observations elapsed result epochs\<rparr>)
      = set (concat before) \<union> set (concat after)
        \<union> ((\<lambda>ob. (ob_index ob, ob_epoch ob)) ` set (pg_obs op) \<union> set epochs)"
    by (simp add: op_samples_def image_Un observations_samples del: set_concat)
  also have "\<dots> = op_samples op" using assms by (auto simp: op_samples_def simp del: set_concat)
  finally show ?thesis .
qed

lemma route_step_wf:
  assumes "route_step s t" "sys_wf s"
  shows "sys_wf t"
proof -
  have pool: "sys_wf (s\<lparr>sy_pool := sy_pool t\<rparr>)"
    by (rule sys_wf_pool [OF assms(2) route_step_advances [OF assms]])
  from assms(1) show ?thesis
  proof cases
    case (failure c cancelled now later sn nxt p)
    with pool show ?thesis
      by (auto simp: sys_wf_def started_wf dest: reportSnapshotFailure_replace split: failure_next.splits)
  next
    case (probe_begins c now "is" a g p)
    with pool show ?thesis by (auto simp: sys_wf_def started_wf dest: probe_begin_routes)
  next
    case (replacement c op i g "is" now)
    then have "rp_initialized (sy_pool s)" using assms(2) by (auto simp: sys_wf_def op_wf_def)
    with replacement pool show ?thesis by (auto simp: sys_wf_def started_wf)
  next
    case (sample c op job jobs)
    then have "op_wf (sy_pool s) op" using assms(2) by (auto simp: sys_wf_def)
    then have "op_wf (sy_pool s) (op\<lparr>pg_jobs := jobs, pg_sampled := pg_sampled op @ [sampleEpochs (sy_pool s) job]\<rparr>)"
      by (rule op_wf_subset) (use sampleEpochs_before in \<open>auto simp: sample_samples\<close>)
    with sample(1) assms(2) show ?thesis by (simp add: sys_wf_op)
  next
    case (observe c op before epochs "after" elapsed result)
    then have "op_wf (sy_pool s) op" using assms(2) by (auto simp: sys_wf_def)
    then have "op_wf (sy_pool s)
        (op\<lparr>pg_sampled := before @ after, pg_obs := pg_obs op @ observations elapsed result epochs\<rparr>)"
      by (rule op_wf_subset) (simp_all add: observe_samples [OF observe(3)])
    with observe(1) assms(2) show ?thesis by (simp add: sys_wf_op)
  next
    case (commit c op cancelled ts now later)
    then show ?thesis using sys_wf_drop [OF pool, of c] by (simp del: finish.simps)
  qed (use pool in \<open>auto simp: sys_wf_def started_wf\<close>)
qed

section \<open>Runs\<close>

definition initial_routes :: "unicode \<Rightarrow> url_parser \<Rightarrow> route_system \<Rightarrow> bool" where
  "initial_routes U parse s \<longleftrightarrow>
     (\<exists>candidates config. s = \<lparr>sy_pool = newRoutePool U parse candidates config, sy_ops = Map.empty\<rparr>)"

lemma keepRoutes_distinct:
  "distinct (map rs_candidate routes) \<Longrightarrow> distinct (map rs_candidate (keepRoutes U parse routes candidates))"
proof (induction U parse routes candidates rule: keepRoutes.induct)
  case (2 U parse routes c cs)
  have new: "route_key c' \<notin> (\<lambda>r. route_key (rs_candidate r)) ` set routes \<Longrightarrow> c' \<notin> rs_candidate ` set routes" for c'
    by auto
  from 2 show ?case by (auto simp: Let_def new_routeState_def new)
qed simp

lemma newRoutePool_wf: "pool_wf (newRoutePool U parse candidates config)"
  by (simp add: pool_wf_def newRoutePool_def keepRoutes_distinct)

interpretation routes: monotone_system "initial_routes U parse" route_step sys_wf sys_le for U parse
  by unfold_locales
    (auto simp: initial_routes_def sys_le_def sys_wf_def newRoutePool_wf advances_def
      intro: pool_le_trans dest: route_step_advances route_step_wf)

end
