(* ===== verification/Route_Properties.thy ===== *)
theory Route_Properties
  imports Route_System
begin

text \<open>
  What the route pool promises: the selection is the stable minimum by latency; a host that kept a
  snapshot of its route either still uses the active route or is told so and can no longer disturb the
  pool; a probe that started before a failure report cannot undo it; a failover never returns the
  failed route; and the pool built from a session has all its routes, at most sixteen, each once.
\<close>

section \<open>Selection\<close>

lemma sort_key_hd_minimal:
  fixes xs :: "int list"
  assumes "sorted xs" "j \<in> set xs" "h = hd (sort_key f xs)"
  shows "f h < f j \<or> (f h = f j \<and> h \<le> j)"
proof -
  obtain hs where hs: "sort_key f xs = h # hs"
    using assms(2,3) by (cases "sort_key f xs") (auto simp flip: set_sort [of f xs])
  have "sorted (map f (h # hs))" using sorted_sort_key [of f xs] by (simp add: hs)
  then have le: "f h \<le> f j" using assms(2) hs set_sort [of f xs] by auto
  have "filter (\<lambda>y. f y = f h) xs = h # filter (\<lambda>y. f y = f h) hs"
    using sort_key_stable [of f "f h" xs] by (simp add: hs)
  moreover have "sorted (filter (\<lambda>y. f y = f h) xs)" using assms(1) by (rule sorted_wrt_filter)
  moreover have "f j = f h \<Longrightarrow> j \<in> set (filter (\<lambda>y. f y = f h) xs)" using assms(2) by simp
  ultimately have "f j = f h \<Longrightarrow> h \<le> j" by auto
  with le show ?thesis by fastforce
qed

text \<open>
  The loop that selects a route returns the first one after a stable sort by latency of the
  routes that are healthy, out of their cooldown and not excluded, and -1 when there is none.
\<close>

theorem fastest_exact:
  "fastestHealthyLocked p now excluded =
     (case sort_key (\<lambda>i. rs_latency (route_at p i))
             (filter (\<lambda>i. i \<noteq> excluded \<and> rs_healthy (route_at p i) \<and> routeEligibleLocked p i now) (indices p)) of
        [] \<Rightarrow> -1
      | i # _ \<Rightarrow> i)"
proof -
  define keep where "keep = (\<lambda>i. i \<noteq> excluded \<and> rs_healthy (route_at p i) \<and> routeEligibleLocked p i now)"
  let ?f = "\<lambda>i. rs_latency (route_at p i)" and ?xs = "filter keep (indices p)"
  have "sorted (indices p)" by (auto simp: indices_def sorted_wrt_map intro: sorted_wrt_mono_rel [OF _ sorted_upt])
  then have sorted: "sorted ?xs" by (rule sorted_wrt_filter)
  have mem: "j \<in> set ?xs \<longleftrightarrow> in_range p j \<and> keep j" for j
    by (auto simp: indices_def in_range_def) (metis atLeastLessThan_iff imageI int_nat_eq nat_less_iff zero_le)
  show ?thesis
    unfolding fastestHealthyLocked_def keep_def [symmetric]
  proof (cases rule: fastest_cases [of p keep])
    case none
    then have "?xs = []" using mem by (metis last_in_set)
    then show "fastest p keep = (case sort_key ?f ?xs of [] \<Rightarrow> -1 | i # _ \<Rightarrow> i)" using none by simp
  next
    case some
    then have "fastest p keep \<in> set ?xs" using mem by blast
    then obtain h hs where hs: "sort_key ?f ?xs = h # hs" by (metis empty_iff list.exhaust list.set(1) set_sort)
    then have "h \<in> set ?xs" by (metis list.set_intros(1) set_sort)
    then have "better p (fastest p keep) h" using some mem by blast
    moreover have "better p h (fastest p keep)"
      using sort_key_hd_minimal [OF sorted \<open>fastest p keep \<in> set ?xs\<close>, of h ?f] hs by (simp add: better_def)
    ultimately have "fastest p keep = h" by (auto simp: better_def)
    then show "fastest p keep = (case sort_key ?f ?xs of [] \<Rightarrow> -1 | i # _ \<Rightarrow> i)" by (simp add: hs)
  qed
qed

section \<open>Snapshots\<close>

lemma currentSnapshot_active:
  assumes "currentSnapshot now p = Some sn"
  shows "in_range p (rp_active p) \<and> sn_Candidate sn = rs_candidate (route_at p (rp_active p))
    \<and> sn_Generation sn = rp_generation p \<and> sn_changed sn = rp_changed p
    \<and> rs_healthy (route_at p (rp_active p))"
  using assms by (auto simp: currentSnapshot_def currentLocked_def split: if_splits)

lemma generations_differ:
  assumes "pool_wf p" "pool_wf q" "rp_changed p < rp_changed q" "rp_changed q < 2 ^ 64"
  shows "rp_generation p \<noteq> rp_generation q"
proof -
  have "unat (rp_generation p) = rp_changed p" "unat (rp_generation q) = rp_changed q"
    using assms by (auto simp: pool_wf_def unat_of_nat)
  then show ?thesis using assms(3) by auto
qed

text \<open>
  A host takes a snapshot of its route and reports on it later, while other goroutines switch
  routes. If no switch has happened the snapshot still names the active route; otherwise its channel is
  closed and a report on it changes nothing in the pool (short of 2 to the 64 switches).
\<close>

theorem stale_snapshot_ignored:
  assumes "initial_routes U parse s0" "route_step\<^sup>*\<^sup>* s0 s" "currentSnapshot now (sy_pool s) = Some sn"
    "route_step\<^sup>*\<^sup>* s t" "rp_changed (sy_pool t) < 2 ^ 64"
  shows "(if sn_changed sn = rp_changed (sy_pool t)
          then rs_candidate (route_at (sy_pool t) (rp_active (sy_pool t))) = sn_Candidate sn
            \<and> sn_Generation sn = rp_generation (sy_pool t)
          else reportSnapshotSuccess sn (sy_pool t) = (False, sy_pool t)
            \<and> snd (reportSnapshotFailure cancelled now' later sn (sy_pool t)) = sy_pool t)"
proof -
  let ?p = "sy_pool s" and ?q = "sy_pool t"
  have wf: "sys_wf s" "sys_wf t" by (rule routes.reachable_inv [OF assms(1)], use assms in auto)+
  have le: "pool_le ?p ?q" using routes.run_le [OF assms(4) wf(1)] by (simp add: sys_le_def)
  have pools: "pool_wf ?p" "pool_wf ?q" using wf by (auto simp: sys_wf_def)
  note sn = currentSnapshot_active [OF assms(3)]
  show ?thesis
  proof (cases "sn_changed sn = rp_changed ?q")
    case True
    then have "rp_changed ?q = rp_changed ?p" "rp_active ?q = rp_active ?p" using le sn by (auto simp: pool_le_def)
    moreover from this have "rp_generation ?q = rp_generation ?p" using pools by (auto simp: pool_wf_def)
    ultimately show ?thesis using True sn pool_le_route [OF le, of "rp_active ?p"] by (auto simp: route_le_def)
  next
    case False
    then have "rp_changed ?p < rp_changed ?q" using le sn by (auto simp: pool_le_def)
    then have gen: "sn_Generation sn \<noteq> rp_generation ?q" using generations_differ [OF pools _ assms(5)] sn by simp
    have "rp_active ?p \<noteq> -1" using sn by (auto simp: in_range_def)
    then have "unat (rp_generation ?p) \<noteq> 0"
      using pools \<open>rp_changed ?p < rp_changed ?q\<close> assms(5) by (auto simp: pool_wf_def unat_of_nat)
    then have "sn_Generation sn \<noteq> 0" using sn by auto
    then show ?thesis using False gen by (auto simp: reportSnapshotSuccess_def reportSnapshotFailure_def Let_def)
  qed
qed

section \<open>Failures\<close>

text \<open>A report that is not stale: it names no generation, or the active route at the present one.\<close>

definition report_counts :: "routeSnapshot \<Rightarrow> routePool \<Rightarrow> bool" where
  "report_counts sn p \<longleftrightarrow>
     0 \<le> indexOfLocked p (sn_Candidate sn)
     \<and> (sn_Generation sn = 0 \<or> sn_Generation sn = rp_generation p \<and> rp_active p = indexOfLocked p (sn_Candidate sn))"

lemma route_at_switch [simp]:
  "route_at (setActiveLocked k p) i = route_at p i"
  "in_range p i \<Longrightarrow> route_at (resetFastStreaksLocked p) i = (route_at p i)\<lparr>rs_fastStreak := 0\<rparr>"
  "in_range (setActiveLocked k p) i = in_range p i"
  "in_range (resetFastStreaksLocked p) i = in_range p i"
  "rp_initialized (resetFastStreaksLocked p) = rp_initialized p"
  by (auto simp: route_at_def resetFastStreaksLocked_def in_range_def)

lemma counted_failure:
  assumes "report_counts sn p"
  shows "rs_epoch (route_at (snd (reportSnapshotFailure False now later sn p)) (indexOfLocked p (sn_Candidate sn)))
    = rs_epoch (route_at p (indexOfLocked p (sn_Candidate sn))) + 1"
proof -
  have "in_range p (indexOfLocked p (sn_Candidate sn))" using assms indexOf_range by (simp add: report_counts_def)
  then show ?thesis
    using assms by (auto simp: report_counts_def reportSnapshotFailure_def Let_def route_at_update fail_route_def)
qed

text \<open>An observation that sampled an epoch which its route has left behind; it stays one.\<close>

definition outdated :: "routePool \<Rightarrow> routeProbeObservation \<Rightarrow> bool" where
  "outdated p ob \<longleftrightarrow> in_range p (ob_index ob) \<and> unat (ob_epoch ob) < unat (rs_epoch (route_at p (ob_index ob)))"

lemma outdated_not_fresh: "outdated p ob \<Longrightarrow> \<not> fresh p ob"
  by (auto simp: outdated_def fresh_def)

lemma outdated_le: "outdated p ob \<Longrightarrow> pool_le p q \<Longrightarrow> outdated q ob"
  using pool_le_route [of p q "ob_index ob"] by (auto simp: outdated_def route_le_def pool_le_in_range)

lemma observeInitial_append: "observeInitial (xs @ ys) p = observeInitial ys (observeInitial xs p)"
  by (induction xs p rule: observeInitial.induct) simp_all

lemma observeReplacement_append: "observeReplacement (xs @ ys) p = observeReplacement ys (observeReplacement xs p)"
  by (induction xs p rule: observeReplacement.induct) simp_all

lemma observeProbe_append:
  "observeProbe now (us @ vs) healthy p =
     observeProbe now vs (fst (observeProbe now us healthy p)) (snd (observeProbe now us healthy p))"
  by (induction now us healthy p rule: observeProbe.induct) simp_all

lemmas observe_append = observeInitial_append observeReplacement_append observeProbe_append

lemma outdated_dropped:
  assumes "outdated p ob"
  shows "epoch_room (length xs) p \<Longrightarrow> observeInitial (xs @ (ob, now) # ys) p = observeInitial (xs @ ys) p"
    and "epoch_room (length xs) p \<Longrightarrow> observeReplacement (xs @ (ob, now) # ys) p = observeReplacement (xs @ ys) p"
    and "epoch_room (length us) p \<Longrightarrow> observeProbe now (us @ ob # vs) healthy p = observeProbe now (us @ vs) healthy p"
proof -
  have old: "\<not> fresh q ob" if "observes p q" for q
    using outdated_not_fresh [OF outdated_le [OF assms]] that by (simp add: observes_def)
  show "observeInitial (xs @ (ob, now) # ys) p = observeInitial (xs @ ys) p" if "epoch_room (length xs) p"
    using old [OF observeInitial_observes [OF that]] by (simp add: observe_append)
  show "observeReplacement (xs @ (ob, now) # ys) p = observeReplacement (xs @ ys) p" if "epoch_room (length xs) p"
    using old [OF observeReplacement_observes [OF that]] by (simp add: observe_append)
  show "observeProbe now (us @ ob # vs) healthy p = observeProbe now (us @ vs) healthy p" if "epoch_room (length us) p"
    using old [OF observeProbe_observes [OF that]] by (simp add: observe_append)
qed

text \<open>
  C19. A failure that counts is not undone by probes that were in flight when it was reported. Take any
  observation of the failed route whose epoch one of those probes had sampled by then: in every later
  state of the pool the three commits (of initialize, probe and probeReplacement) do with a batch that
  contains it exactly what they do with the batch without it, so it neither revives the route nor
  changes the selection (short of 2 to the 64 epochs of a route).
\<close>

theorem late_probe_ignored:
  assumes "initial_routes U parse s0" "route_step\<^sup>*\<^sup>* s0 s" "epoch_room 1 (sy_pool s)"
    "report_counts sn (sy_pool s)" "ob_index ob = indexOfLocked (sy_pool s) (sn_Candidate sn)"
    "(ob_index ob, ob_epoch ob) \<in> samples s"
    "route_step s t0" "sy_pool t0 = snd (reportSnapshotFailure False now later sn (sy_pool s))"
    "route_step\<^sup>*\<^sup>* t0 t" "epoch_room (length us) (sy_pool t)" "epoch_room (length xs) (sy_pool t)"
  shows "probe_commit cancelled now1 active generation (us @ ob # vs) (sy_pool t)
        = probe_commit cancelled now1 active generation (us @ vs) (sy_pool t)
    \<and> initialize_commit cancelled now1 (xs @ (ob, now2) # ys) (sy_pool t)
        = initialize_commit cancelled now1 (xs @ ys) (sy_pool t)
    \<and> probeReplacement_commit cancelled now1 later1 excluded generation (xs @ (ob, now2) # ys) (sy_pool t)
        = probeReplacement_commit cancelled now1 later1 excluded generation (xs @ ys) (sy_pool t)"
proof -
  let ?p = "sy_pool s" and ?i = "ob_index ob"
  have wf: "sys_wf s" by (rule routes.reachable_inv [OF assms(1,2)])
  then have "sampled_before ?p (?i, ob_epoch ob)"
    using assms(6) by (auto simp: sys_wf_def op_wf_def samples_def ran_def)
  then have i: "in_range ?p ?i" and e: "unat (ob_epoch ob) \<le> unat (rs_epoch (route_at ?p ?i))"
    by (auto simp: sampled_before_def)
  have "rs_epoch (route_at (sy_pool t0) ?i) = rs_epoch (route_at ?p ?i) + 1"
    using counted_failure [OF assms(4), of now later] assms(5,8) by simp
  moreover have "pool_le ?p (sy_pool t0)" using route_step_advances [OF assms(7) wf] by (simp add: advances_def)
  ultimately have "outdated (sy_pool t0) ob"
    using e i assms(3) unat_epoch_Suc [of 0 ?p ?i] by (simp add: outdated_def pool_le_in_range)
  moreover have "pool_le (sy_pool t0) (sy_pool t)"
    using routes.run_le [OF assms(9) route_step_wf [OF assms(7) wf]] by (simp add: sys_le_def)
  ultimately have "outdated (sy_pool t) ob" by (rule outdated_le)
  from outdated_dropped [OF this] assms(10,11) show ?thesis
    by (simp add: probe_commit_def initialize_commit_def probeReplacement_commit_def)
qed

lemma eligible_switch [simp]:
  "routeEligibleLocked (setActiveLocked k p) i now = routeEligibleLocked p i now"
  "routeEligibleLocked (resetFastStreaksLocked p) i now = routeEligibleLocked p i now"
  by (auto simp: routeEligibleLocked_def)

lemma candidates_distinct:
  "pool_wf p \<Longrightarrow> in_range p i \<Longrightarrow> in_range p j \<Longrightarrow> rs_candidate (route_at p i) = rs_candidate (route_at p j) \<Longrightarrow> i = j"
  by (auto simp: pool_wf_def in_range_def route_at_def distinct_conv_nth) (metis eq_nat_nat_iff nat_less_iff)

lemma indexOf_route:
  assumes "pool_wf p" "in_range p i"
  shows "indexOfLocked p (rs_candidate (route_at p i)) = i"
proof -
  have mem: "i \<in> set (indices p)"
    using assms(2) by (force simp: indices_def in_range_def image_iff intro: bexI [of _ "nat i"])
  show ?thesis
  proof (cases "find (\<lambda>j. rs_candidate (route_at p j) = rs_candidate (route_at p i)) (indices p)")
    case None
    with mem show ?thesis by (auto simp: find_None_iff)
  next
    case (Some j)
    then have "j \<in> set (indices p)" by (auto simp: find_Some_iff)
    then have "0 \<le> indexOfLocked p (rs_candidate (route_at p i))"
      using Some by (auto simp: indexOfLocked_def indices_def)
    then show ?thesis using indexOf_range candidates_distinct [OF assms(1) _ assms(2)] by blast
  qed
qed

text \<open>
  When the active route is reported as failed, the pool switches at once to another route that is
  healthy and out of its cooldown, and returns it as the current one; or there is no such route, no
  route is active any more, and a search for a replacement begins.
\<close>

theorem failover_avoids_failed:
  assumes "initial_routes U parse s0" "route_step\<^sup>*\<^sup>* s0 s" "p = sy_pool s" "epoch_room 1 p"
    "currentSnapshot t p = Some sn" "reportSnapshotFailure False now later sn p = (r, p')"
  shows "case r of
      Returned (Some c) \<Rightarrow> c \<noteq> sn_Candidate sn \<and> currentLocked now p' = Some c
    | Replace i g \<Rightarrow> rp_active p' = -1 \<and> i = rp_active p \<and> g = rp_generation p'
        \<and> (\<nexists>j. in_range p j \<and> j \<noteq> i \<and> rs_healthy (route_at p j) \<and> routeEligibleLocked p j now)
    | _ \<Rightarrow> False"
proof -
  let ?i = "rp_active p"
  let ?p1 = "update_route ?i (fail_route (cf_Cooldown (rp_config p)) now) p"
  let ?sel = "fastestHealthyLocked ?p1 now ?i"
  have wf: "pool_wf p" using routes.reachable_inv [OF assms(1,2)] assms(3) by (simp add: sys_wf_def)
  note sn = currentSnapshot_active [OF assms(5)]
  have i: "in_range p ?i" "rp_initialized p" using sn wf wf_active_range by auto
  then have index: "indexOfLocked p (sn_Candidate sn) = ?i" using indexOf_route [OF wf] sn by simp
  have r: "(r, p') = (if 0 \<le> ?sel
      then (Returned (Some (rs_candidate (route_at (resetFastStreaksLocked (setActiveLocked ?sel ?p1)) ?sel))),
            resetFastStreaksLocked (setActiveLocked ?sel ?p1))
      else (Replace ?i (rp_generation (resetFastStreaksLocked (setActiveLocked (-1) ?p1))),
            resetFastStreaksLocked (setActiveLocked (-1) ?p1)))"
    using assms(6) index sn i by (auto simp: reportSnapshotFailure_def Let_def in_range_def)
  have others: "route_at ?p1 j = route_at p j" if "in_range p j" "j \<noteq> ?i" for j
    using that i by (simp add: route_at_update)
  show ?thesis
  proof (cases rule: fastest_cases [of ?p1 "\<lambda>index. index \<noteq> ?i \<and> rs_healthy (route_at ?p1 index) \<and> routeEligibleLocked ?p1 index now"])
    case none
    then have "?sel = -1" by (simp add: fastestHealthyLocked_def)
    moreover have "\<nexists>j. in_range p j \<and> j \<noteq> ?i \<and> rs_healthy (route_at p j) \<and> routeEligibleLocked p j now"
    proof (rule notI, elim exE conjE)
      fix j assume "in_range p j" "j \<noteq> ?i" "rs_healthy (route_at p j)" "routeEligibleLocked p j now"
      then show False using none(2) [of j] others [of j] by (simp add: routeEligibleLocked_def)
    qed
    ultimately show ?thesis using r by simp
  next
    case some
    then have sel: "in_range p ?sel" "?sel \<noteq> ?i" "rs_healthy (route_at ?p1 ?sel)" "routeEligibleLocked ?p1 ?sel now"
      by (simp_all add: fastestHealthyLocked_def)
    then have "rs_candidate (route_at p ?sel) \<noteq> sn_Candidate sn"
      using candidates_distinct [OF wf sel(1) i(1)] sn by auto
    moreover have "0 \<le> ?sel" using sel(1) by (simp add: in_range_def)
    ultimately show ?thesis using r sel i(2) others [OF sel(1,2)] by (auto simp: currentLocked_def)
  qed
qed

section \<open>A new pool\<close>

definition kept_route :: "url_parser \<Rightarrow> routeCandidate \<Rightarrow> bool" where
  "kept_route parse c \<longleftrightarrow> safeRouteURL parse (rc_URL c) \<and> rc_Transport c \<in> {''long-poll'', ''poll''}"

lemma keepRoutes_bounded:
  "length routes \<le> 16 \<Longrightarrow> length (keepRoutes U parse routes cs) \<le> 16"
  by (induction U parse routes cs rule: keepRoutes.induct) (auto simp: Let_def maxGatewayRoutes_def)

lemma keepRoutes_kept:
  "list_all (\<lambda>r. kept_route parse (rs_candidate r)) routes \<Longrightarrow>
   list_all (\<lambda>r. kept_route parse (rs_candidate r)) (keepRoutes U parse routes cs)"
proof (induction U parse routes cs rule: keepRoutes.induct)
  case (2 U parse routes c cs)
  have "kept_route parse (normalizeCandidate U c)"
    if "safeRouteURL parse (rc_URL (normalizeCandidate U c))" "rc_Transport (normalizeCandidate U c) \<noteq> []"
    using that by (auto simp: kept_route_def normalizeCandidate_def normalizeRouteTransport_def Let_def split: if_splits)
  with 2 show ?case by (auto simp: Let_def new_routeState_def)
qed simp

text \<open>
  A new pool has at most sixteen routes, all different, each with a safe URL and one of the two
  transports; between one and eight probes run at a time, and the timeout and the cooldown are
  positive, whatever the configuration says.
\<close>

theorem pool_bounded:
  "let p = newRoutePool U parse candidates config in
     length (rp_routes p) \<le> 16 \<and> distinct (map rs_candidate (rp_routes p))
     \<and> list_all (\<lambda>r. safeRouteURL parse (rc_URL (rs_candidate r))
                     \<and> rc_Transport (rs_candidate r) \<in> {''long-poll'', ''poll''}) (rp_routes p)
     \<and> 1 \<le> cf_MaxConcurrent (rp_config p) \<and> cf_MaxConcurrent (rp_config p) \<le> 8
     \<and> 0 < cf_ProbeTimeout (rp_config p) \<and> 0 < cf_Cooldown (rp_config p) \<and> 0 \<le> cf_ReprobeInterval (rp_config p)"
  using keepRoutes_bounded [of "[]" U parse candidates] keepRoutes_distinct [of "[]" U parse candidates]
    keepRoutes_kept [of parse "[]" U candidates]
  by (simp add: newRoutePool_def kept_route_def normalizeConfig_def maxRouteProbeWorkers_def second_ns_def Let_def)

section \<open>Switching to a faster route\<close>

text \<open>
  A probe leaves a healthy active route only for a route that answered this probe, is healthy and
  out of its cooldown, took at most four fifths of the active route's time, and had already been the
  fastest such route in the probe before.
\<close>

theorem switch_needs_two_wins:
  assumes "chooseFaster now healthy p = (True, p')" "- (2 ^ 63) \<le> rs_fastStreak (route_at p (rp_active p'))"
    "rs_fastStreak (route_at p (rp_active p')) < 2 ^ 63 - 1"
  shows "rp_active p' \<in> healthy \<and> rs_healthy (route_at p (rp_active p')) \<and> routeEligibleLocked p (rp_active p') now
    \<and> 0 < rs_latency (route_at p (rp_active p'))
    \<and> rs_latency (route_at p (rp_active p'))
       \<le> rs_latency (route_at p (rp_active p)) - go_div (rs_latency (route_at p (rp_active p))) 5
    \<and> 1 \<le> rs_fastStreak (route_at p (rp_active p'))"
proof -
  let ?best = "fastest p (muchFaster now healthy p)"
  have best: "0 \<le> ?best" "rp_active p' = ?best"
    using assms(1) by (auto simp: chooseFaster_def Let_def split: if_splits)
  then have range: "in_range p ?best" and much: "muchFaster now healthy p ?best"
    by (cases rule: fastest_cases [of p "muchFaster now healthy p"]; simp)+
  have "2 \<le> i64 (rs_fastStreak (route_at p ?best) + 1)"
    using assms(1) best(1) range
    by (auto simp: chooseFaster_def Let_def update_route_def route_at_def in_range_def split: if_splits)
  then have "1 \<le> rs_fastStreak (route_at p ?best)" using assms(2,3) best(2) by (simp add: i64_id)
  then show ?thesis using much best(2) by (simp add: muchFaster_def Let_def)
qed

section \<open>The routes of a session\<close>

lemma nul_split:
  "x \<notin> set a \<Longrightarrow> x \<notin> set b \<Longrightarrow> a @ [x] @ s = b @ [x] @ t \<Longrightarrow> a = b \<and> s = t"
  by (induction a arbitrary: b) (auto simp: Cons_eq_append_conv append_eq_Cons_conv)

lemma safe_no_nul: "safeRouteURL parse u \<Longrightarrow> CHR 0x00 \<notin> set u"
  by (auto simp: safeRouteURL_def list_ex_iff split: if_splits)

lemma route_key_inj:
  "kept_route parse a \<Longrightarrow> kept_route parse b \<Longrightarrow> route_key a = route_key b \<Longrightarrow> a = (b :: routeCandidate)"
  using nul_split [of "CHR 0x00" "rc_URL a" "rc_URL b" "rc_Transport a" "rc_Transport b"] safe_no_nul
  by (auto simp: kept_route_def route_key_def)

lemma keepRoutes_all:
  assumes "list_all (\<lambda>c. kept_route parse c \<and> normalizeCandidate U c = c) (map rs_candidate routes @ cs)"
    "distinct (map rs_candidate routes @ cs)" "length routes + length cs \<le> 16"
  shows "map rs_candidate (keepRoutes U parse routes cs) = map rs_candidate routes @ cs"
  using assms
proof (induction U parse routes cs rule: keepRoutes.induct)
  case (2 U parse routes c cs)
  have c: "kept_route parse c" "normalizeCandidate U c = c" using 2 by auto
  have "route_key c \<noteq> route_key (rs_candidate r)" if "r \<in> set routes" for r
  proof
    assume "route_key c = route_key (rs_candidate r)"
    then have "c = rs_candidate r" using route_key_inj [OF c(1)] 2(4) that by (auto simp: list_all_iff)
    then show False using 2(5) that by auto
  qed
  then have "map rs_candidate (keepRoutes U parse routes (c # cs))
      = map rs_candidate (keepRoutes U parse (routes @ [new_routeState c]) cs)"
    using c 2(6) by (auto simp: Let_def maxGatewayRoutes_def kept_route_def)
  also have "\<dots> = map rs_candidate (routes @ [new_routeState c]) @ cs"
    by (rule 2(3)) (use 2(4-6) c \<open>\<And>r. r \<in> set routes \<Longrightarrow> _\<close> in
      \<open>auto simp: maxGatewayRoutes_def kept_route_def new_routeState_def Let_def\<close>)
  finally show ?case by (simp add: new_routeState_def)
qed simp

text \<open>A text that trimming leaves alone, once it has been trimmed of blanks and then of slashes.\<close>

definition stays_trimmed :: "string \<Rightarrow> bool" where
  "stays_trimmed u \<longleftrightarrow> TrimSpace (TrimRightSlash (TrimSpace u)) = TrimRightSlash (TrimSpace u)"

lemma TrimRightSlash_idem [simp]: "TrimRightSlash (TrimRightSlash s) = TrimRightSlash s"
  by (simp add: TrimRightSlash_def dropWhile_idem)

definition good_urls :: "url_parser \<Rightarrow> string list \<Rightarrow> bool" where
  "good_urls parse urls \<longleftrightarrow>
     distinct urls \<and> list_all (\<lambda>u. safeRouteURL parse u \<and> TrimRightSlash (TrimSpace u) = u) urls"

lemma addURL_good: "good_urls parse urls \<Longrightarrow> stays_trimmed u \<Longrightarrow> good_urls parse (addURL parse urls u)"
  by (auto simp: good_urls_def addURL_def Let_def stays_trimmed_def)

lemma addURL_length: "length (addURL parse urls u) \<le> Suc (length urls)"
  by (simp add: addURL_def Let_def)

lemma addURLs_good:
  "good_urls parse urls \<Longrightarrow> list_all (\<lambda>c. stays_trimmed (gc_URL c)) cs \<Longrightarrow> length urls \<le> n \<Longrightarrow>
   good_urls parse (addURLs parse n urls cs) \<and> length (addURLs parse n urls cs) \<le> n"
proof (induction parse n urls cs rule: addURLs.induct)
  case (2 parse n urls c cs)
  then show ?case
    using addURL_good [of parse urls "gc_URL c"] addURL_length [of parse urls "gc_URL c"] by auto
qed simp

lemma session_transports:
  "sessionTransports U transport = Some ts \<Longrightarrow>
   distinct ts \<and> set ts \<subseteq> {''long-poll'', ''poll''} \<and> (length ts = 1 \<or> length ts = 2)"
  by (auto simp: sessionTransports_def Let_def split: if_splits)

lemma normal_transport: "t \<in> {''long-poll'', ''poll''} \<Longrightarrow> normalizeRouteTransport U t = t"
proof -
  have "ToLower U ''long-poll'' = ''long-poll''" "ToLower U ''poll'' = ''poll''"
    by (simp_all add: ToLower_def is_ascii_def ToLower_ascii_def)
  moreover have "TrimSpace ''long-poll'' = ''long-poll''" "TrimSpace ''poll'' = ''poll''"
    by (simp_all add: TrimSpace_graphic graphic_def)
  ultimately show "t \<in> {''long-poll'', ''poll''} \<Longrightarrow> normalizeRouteTransport U t = t"
    by (auto simp: normalizeRouteTransport_def)
qed

definition pairs :: "string list \<Rightarrow> string list \<Rightarrow> routeCandidate list" where
  "pairs ts urls = concat (map (\<lambda>u. map (\<lambda>t. \<lparr>rc_URL = u, rc_Transport = t\<rparr>) ts) urls)"

lemma pairs_simps: "pairs ts [] = []" "pairs ts (u # urls) = map (\<lambda>t. \<lparr>rc_URL = u, rc_Transport = t\<rparr>) ts @ pairs ts urls"
  by (simp_all add: pairs_def)

lemma pairs_length: "length (pairs ts urls) = length urls * length ts"
  by (induction urls) (simp_all add: pairs_simps)

lemma pairs_distinct: "distinct ts \<Longrightarrow> distinct urls \<Longrightarrow> distinct (pairs ts urls)"
proof (induction urls)
  case (Cons u urls)
  have "set (pairs ts urls) \<subseteq> {c. rc_URL c \<in> set urls}" by (auto simp: pairs_def)
  with Cons show ?case by (auto simp: pairs_simps distinct_map inj_on_def)
qed (simp add: pairs_simps)

lemma pairs_kept:
  assumes "good_urls parse urls" "set ts \<subseteq> {''long-poll'', ''poll''}"
  shows "list_all (\<lambda>c. kept_route parse c \<and> normalizeCandidate U c = c) (pairs ts urls)"
proof -
  have "kept_route parse c \<and> normalizeCandidate U c = c" if c: "c \<in> set (pairs ts urls)" for c
  proof -
    obtain u t where ut: "c = \<lparr>rc_URL = u, rc_Transport = t\<rparr>" "u \<in> set urls" "t \<in> set ts"
      using c by (auto simp: pairs_def)
    moreover have "safeRouteURL parse u" "TrimRightSlash (TrimSpace u) = u"
      using assms(1) ut(2) by (auto simp: good_urls_def list_all_iff)
    moreover have "t \<in> {''long-poll'', ''poll''}" using assms(2) ut(3) by blast
    ultimately show ?thesis using normal_transport [of t U] by (simp add: kept_route_def normalizeCandidate_def)
  qed
  then show ?thesis by (simp add: list_all_iff)
qed

text \<open>
  The pool built from a session's gateways has exactly the routes the session offers, in the same
  order: none is lost to the bound of sixteen, to the check of its URL or as a duplicate, provided that
  trimming a URL of blanks and then of slashes leaves no blank at its end.
\<close>

theorem session_routes_pooled:
  assumes "stays_trimmed current" "list_all (\<lambda>c. stays_trimmed (gc_URL c)) candidates"
  shows "map rs_candidate (rp_routes (newRoutePool U parse
           (routeCandidatesFromSession U parse current candidates transport) config))
    = routeCandidatesFromSession U parse current candidates transport"
proof (cases "sessionTransports U transport")
  case None
  then show ?thesis by (simp add: routeCandidatesFromSession_def newRoutePool_def)
next
  case (Some ts)
  let ?n = "16 div length ts"
  define urls where "urls = addURLs parse ?n (addURL parse [] current) candidates"
  note ts = session_transports [OF Some]
  have "good_urls parse (addURL parse [] current)" using assms(1) by (intro addURL_good) (auto simp: good_urls_def)
  moreover have "length (addURL parse [] current) \<le> ?n" using addURL_length [of parse "[]" current] ts by auto
  ultimately have urls: "good_urls parse urls" "length urls \<le> ?n"
    using assms(2) by (simp_all add: urls_def addURLs_good)
  then have len: "length (pairs ts urls) \<le> 16" using ts by (auto simp: pairs_length)
  then have routes: "routeCandidatesFromSession U parse current candidates transport = pairs ts urls"
    using Some by (simp add: routeCandidatesFromSession_def Let_def urls_def pairs_def maxGatewayRoutes_def)
  show ?thesis
    unfolding routes newRoutePool_def
    using keepRoutes_all [of parse U "[]" "pairs ts urls"] pairs_kept [OF urls(1), of ts U] len ts urls(1) pairs_distinct
    by (simp add: good_urls_def)
qed

end
