(* ===== verification/Route_Scenario.thy ===== *)
theory Route_Scenario
  imports Route_Properties
begin

text \<open>
  A concrete run of the route pool: a pool with two transports of one gateway is initialized by one
  shared probe, probed again, and its active route fails while that second probe is in flight.
\<close>

definition demo_url :: string where "demo_url = ''https://gw''"

definition demo_parse :: url_parser where
  "demo_parse u = (if u = demo_url
     then Some \<lparr>pu_Scheme = ''https'', pu_Opaque = [], pu_Hostname = ''gw'', pu_Port = [], pu_User = False,
                pu_Path = [], pu_RawQuery = [], pu_ForceQuery = False, pu_Fragment = []\<rparr>
     else None)"

definition demo_unicode :: unicode where
  "demo_unicode = \<lparr>uc_ToLower = (\<lambda>s. s), uc_EqualFold = (=)\<rparr>"

definition demo_config :: routePoolConfig where
  "demo_config = \<lparr>cf_MaxConcurrent = 4, cf_ProbeTimeout = 2, cf_Cooldown = 10, cf_ReprobeInterval = 0,
     cf_ShareGatewayHealth = True, cf_Probe = True\<rparr>"

definition long_route :: routeCandidate where
  "long_route = \<lparr>rc_URL = demo_url, rc_Transport = ''long-poll''\<rparr>"

definition poll_route :: routeCandidate where
  "poll_route = \<lparr>rc_URL = demo_url, rc_Transport = ''poll''\<rparr>"

definition demo_pool :: routePool where
  "demo_pool = \<lparr>rp_routes = [new_routeState long_route, new_routeState poll_route], rp_active = -1,
     rp_initialized = False, rp_generation = 0, rp_lastProbe = 0, rp_changed = 0, rp_config = demo_config\<rparr>"

lemma demo_url_trimmed: "TrimSpace demo_url = demo_url" "TrimRightSlash demo_url = demo_url"
  by (simp_all add: demo_url_def TrimSpace_graphic graphic_def TrimRightSlash_def)

lemma demo_url_safe: "safeRouteURL demo_parse demo_url"
  by (simp add: safeRouteURL_def demo_parse_def) (simp add: demo_url_def TrimRightSlash_def)

lemma demo_routes_kept:
  "list_all (\<lambda>c. kept_route demo_parse c \<and> normalizeCandidate demo_unicode c = c) [long_route, poll_route]"
  using normal_transport [of "''long-poll''" demo_unicode] normal_transport [of "''poll''" demo_unicode]
  by (simp add: kept_route_def normalizeCandidate_def long_route_def poll_route_def demo_url_safe demo_url_trimmed)

lemma demo_pool_new: "newRoutePool demo_unicode demo_parse [long_route, poll_route] demo_config = demo_pool"
proof -
  have keys: "route_key poll_route \<noteq> route_key long_route"
    by (simp add: route_key_def long_route_def poll_route_def)
  have "normalizeConfig demo_config = demo_config"
    by (simp add: normalizeConfig_def demo_config_def maxRouteProbeWorkers_def Let_def)
  then show ?thesis
    using demo_routes_kept keys
    by (auto simp: newRoutePool_def demo_pool_def Let_def kept_route_def maxGatewayRoutes_def new_routeState_def)
qed

definition demo_start :: route_system where
  "demo_start = \<lparr>sy_pool = demo_pool, sy_ops = Map.empty\<rparr>"

lemma demo_initial: "initial_routes demo_unicode demo_parse demo_start"
  unfolding initial_routes_def demo_start_def using demo_pool_new by metis

definition good_result :: routeProbeResult where
  "good_result = \<lparr>pr_Healthy = True, pr_Latency = 5, pr_Err = None\<rparr>"

definition up :: "routeCandidate \<Rightarrow> routeState" where
  "up c = \<lparr>rs_candidate = c, rs_healthy = True, rs_latency = 5, rs_failures = 0, rs_cooldownUntil = 0,
     rs_fastStreak = 0, rs_epoch = 1\<rparr>"

definition ready_pool :: routePool where
  "ready_pool = \<lparr>rp_routes = [up long_route, up poll_route], rp_active = 0, rp_initialized = True,
     rp_generation = 1, rp_lastProbe = 7, rp_changed = 1, rp_config = demo_config\<rparr>"

definition ready :: route_system where
  "ready = \<lparr>sy_pool = ready_pool, sy_ops = Map.empty\<rparr>"

lemmas demo_simps = demo_start_def demo_pool_def demo_config_def new_routeState_def long_route_def poll_route_def
  ready_def ready_pool_def up_def good_result_def

lemma demo_jobs: "probeJobs demo_pool [0, 1] = [[0, 1]]" "probeJobs ready_pool [0, 1] = [[0, 1]]"
  by (simp_all add: probeJobs_def demo_simps in_range_def route_at_def)

lemma ready_reached: "route_step\<^sup>*\<^sup>* demo_start ready"
proof -
  define s1 where "s1 = demo_start\<lparr>sy_ops := [0 \<mapsto> started Initializing [[0, 1]]]\<rparr>"
  define op2 where "op2 = (started Initializing [])\<lparr>pg_sampled := [[(0, 0), (1, 0)]]\<rparr>"
  define s2 where "s2 = demo_start\<lparr>sy_ops := [0 \<mapsto> op2]\<rparr>"
  define op3 where "op3 = (started Initializing [])\<lparr>pg_obs := observations 0 good_result [(0, 0), (1, 0)]\<rparr>"
  define s3 where "s3 = demo_start\<lparr>sy_ops := [0 \<mapsto> op3]\<rparr>"
  have "route_step demo_start (demo_start\<lparr>sy_ops := (sy_ops demo_start)(0 \<mapsto> started Initializing (probeJobs (sy_pool demo_start) [0, 1]))\<rparr>)"
    by (rule route_step.init_begin)
       (simp_all add: quiet_def demo_start_def initialize_begin_def indices_def demo_pool_def)
  then have 1: "route_step demo_start s1" by (simp add: s1_def demo_start_def demo_jobs)
  have "sampleEpochs demo_pool [0, 1] = [(0, 0), (1, 0)]"
    by (simp add: sampleEpochs_def demo_simps in_range_def route_at_def)
  then have 2: "route_step s1 s2"
    using route_step.sample [of s1 0 "started Initializing [[0, 1]]" "[0, 1]" "[]"]
    by (simp add: s1_def s2_def op2_def started_def demo_start_def demo_pool_def demo_config_def)
  have 3: "route_step s2 s3"
    using route_step.observe [of s2 0 op2 "[]" "[(0, 0), (1, 0)]" "[]" 0 good_result]
    by (simp add: s2_def s3_def op2_def op3_def started_def)
  have "finish False 7 7 [7, 7] op3 demo_pool = ready_pool"
    by (simp add: op3_def started_def initialize_commit_def observations_def demo_simps Let_def fresh_def probed_def
        in_range_def route_at_def update_route_def take_result_def fastestHealthyLocked_def fastest_def indices_def
        routeEligibleLocked_def IsZero_def faster_def setActiveLocked_def upt_rec)
  moreover have "length (pg_obs op3) = 2" "finished op3"
    by (simp_all add: op3_def started_def observations_def Let_def finished_def)
  moreover have "epoch_room 2 demo_pool" by (simp add: epoch_room_def demo_pool_def new_routeState_def)
  ultimately have 4: "route_step s3 ready"
    using route_step.commit [of s3 0 op3 False "[7, 7]" 7 7] by (simp add: s3_def demo_start_def ready_def del: finish.simps)
  show ?thesis using 1 2 3 4 by (meson rtranclp.rtrancl_refl rtranclp.rtrancl_into_rtrancl)
qed

definition busy_pool :: routePool where
  "busy_pool = ready_pool\<lparr>rp_lastProbe := 8\<rparr>"

definition busy :: route_system where
  "busy = \<lparr>sy_pool = busy_pool,
     sy_ops = [0 \<mapsto> (started (Probing 8 0 1) [])\<lparr>pg_sampled := [[(0, 1), (1, 1)]]\<rparr>]\<rparr>"

lemma busy_reached: "route_step\<^sup>*\<^sup>* demo_start busy"
proof -
  define s1 where "s1 = \<lparr>sy_pool = busy_pool, sy_ops = [0 \<mapsto> started (Probing 8 0 1) [[0, 1]]]\<rparr>"
  have "probe_begin 8 ready_pool = (ProbeRoutes [0, 1] 0 1, busy_pool)"
    by (simp add: probe_begin_def busy_pool_def demo_simps eligibleIndicesLocked_def indices_def routeEligibleLocked_def
        in_range_def route_at_def IsZero_def upt_rec Let_def)
  moreover have "probeJobs busy_pool [0, 1] = [[0, 1]]"
    by (simp add: probeJobs_def busy_pool_def demo_simps in_range_def route_at_def)
  ultimately have 1: "route_step ready s1"
    using route_step.probe_begins [of ready 0 8 "[0, 1]" 0 1 busy_pool] by (simp add: quiet_def ready_def s1_def)
  have "sampleEpochs busy_pool [0, 1] = [(0, 1), (1, 1)]" "cf_MaxConcurrent (rp_config busy_pool) = 4"
    by (simp_all add: sampleEpochs_def busy_pool_def demo_simps in_range_def route_at_def)
  then have 2: "route_step s1 busy"
    using route_step.sample [of s1 0 "started (Probing 8 0 1) [[0, 1]]" "[0, 1]" "[]"]
    by (simp add: s1_def busy_def started_def)
  show ?thesis using ready_reached 1 2 by (meson rtranclp.rtrancl_into_rtrancl)
qed

definition held_snapshot :: routeSnapshot where
  "held_snapshot = \<lparr>sn_Candidate = long_route, sn_Generation = 1, sn_changed = 1\<rparr>"

definition down :: routeState where
  "down = \<lparr>rs_candidate = long_route, rs_healthy = False, rs_latency = 5, rs_failures = 1, rs_cooldownUntil = 19,
     rs_fastStreak = 0, rs_epoch = 2\<rparr>"

definition moved_pool :: routePool where
  "moved_pool = busy_pool\<lparr>rp_routes := [down, up poll_route], rp_active := 1, rp_generation := 2, rp_changed := 2\<rparr>"

lemma index_long: "indexOfLocked busy_pool long_route = 0"
  by (simp add: indexOfLocked_def indices_def busy_pool_def ready_pool_def up_def route_at_def upt_rec)

lemma demo_current: "currentSnapshot 9 busy_pool = Some held_snapshot"
  by (simp add: currentSnapshot_def currentLocked_def held_snapshot_def busy_pool_def demo_simps in_range_def route_at_def
      routeEligibleLocked_def IsZero_def)

lemma demo_failure: "reportSnapshotFailure False 9 9 held_snapshot busy_pool = (Returned (Some poll_route), moved_pool)"
  by (simp add: reportSnapshotFailure_def held_snapshot_def index_long Let_def)
     (simp add: moved_pool_def down_def busy_pool_def ready_pool_def demo_config_def up_def update_route_def fail_route_def route_at_def
      fastestHealthyLocked_def fastest_def indices_def upt_rec routeEligibleLocked_def in_range_def IsZero_def faster_def
      setActiveLocked_def resetFastStreaksLocked_def i64_def)

definition moved :: route_system where
  "moved = busy\<lparr>sy_pool := moved_pool\<rparr>"

lemma busy_room: "epoch_room 1 busy_pool"
  by (simp add: epoch_room_def busy_pool_def ready_pool_def up_def)

lemma moved_step: "route_step busy moved"
  using route_step.failure [of busy 1 False 9 9 held_snapshot] demo_failure busy_room
  by (simp add: busy_def moved_def)

text \<open>The properties of the pool at this run.\<close>

theorem stale_snapshot_ignored_witness:
  "sn_changed held_snapshot \<noteq> rp_changed moved_pool
   \<and> reportSnapshotSuccess held_snapshot moved_pool = (False, moved_pool)"
proof -
  have "sn_changed held_snapshot \<noteq> rp_changed moved_pool" by (simp add: held_snapshot_def moved_pool_def)
  moreover have "rp_changed moved_pool < 2 ^ 64" by (simp add: moved_pool_def)
  ultimately show ?thesis
    using stale_snapshot_ignored [OF demo_initial busy_reached, of 9 held_snapshot moved] demo_current moved_step
    by (simp add: busy_def moved_def r_into_rtranclp)
qed

theorem late_probe_ignored_witness:
  "probe_commit False 9 1 2 [\<lparr>ob_index = 0, ob_epoch = 1, ob_result = good_result\<rparr>] moved_pool
     = probe_commit False 9 1 2 [] moved_pool
   \<and> \<not> rs_healthy (route_at moved_pool 0) \<and> pr_Healthy good_result"
proof -
  have "report_counts held_snapshot busy_pool"
    by (simp add: report_counts_def held_snapshot_def index_long) (simp add: busy_pool_def ready_pool_def)
  moreover have "(0, 1) \<in> samples busy" by (simp add: samples_def busy_def op_samples_def)
  moreover have "epoch_room 0 moved_pool" by (simp add: epoch_room_def moved_pool_def down_def up_def)
  ultimately have "probe_commit False 9 1 2 ([] @ \<lparr>ob_index = 0, ob_epoch = 1, ob_result = good_result\<rparr> # []) moved_pool
     = probe_commit False 9 1 2 ([] @ []) moved_pool"
    using late_probe_ignored [OF demo_initial busy_reached, of held_snapshot
        "\<lparr>ob_index = 0, ob_epoch = 1, ob_result = good_result\<rparr>" moved 9 9 moved "[]" "[]" False 9 1 2 "[]"]
      moved_step busy_room index_long demo_failure
    by (simp add: busy_def moved_def held_snapshot_def)
  then show ?thesis by (simp add: moved_pool_def down_def good_result_def route_at_def)
qed

theorem failover_avoids_failed_witness:
  "poll_route \<noteq> long_route \<and> currentLocked 9 moved_pool = Some poll_route"
  using failover_avoids_failed [OF demo_initial busy_reached refl, of 9 held_snapshot 9 9] busy_room demo_current demo_failure
  by (simp add: busy_def held_snapshot_def)

definition racing_pool :: routePool where
  "racing_pool = ready_pool\<lparr>rp_routes := [up long_route, (up poll_route)\<lparr>rs_latency := 3, rs_fastStreak := 1\<rparr>]\<rparr>"

theorem switch_needs_two_wins_witness:
  "rp_active (snd (chooseFaster 9 {0, 1} racing_pool)) = 1 \<and> rs_latency (route_at racing_pool 1) \<le> 5 - go_div 5 5"
proof -
  let ?p = "snd (chooseFaster 9 {0, 1} racing_pool)"
  have run: "chooseFaster 9 {0, 1} racing_pool = (True, ?p)" "rp_active ?p = 1"
    by (simp_all add: chooseFaster_def racing_pool_def ready_pool_def up_def fastest_def indices_def upt_rec muchFaster_def
        routeEligibleLocked_def in_range_def route_at_def IsZero_def faster_def Let_def go_div_def update_route_def i64_def
        resetFastStreaksLocked_def)
  then show ?thesis
    using switch_needs_two_wins [OF run(1)]
    by (simp add: racing_pool_def ready_pool_def up_def route_at_def)
qed

theorem session_routes_pooled_witness:
  "map rs_candidate (rp_routes (newRoutePool demo_unicode demo_parse
     (routeCandidatesFromSession demo_unicode demo_parse demo_url [] ''auto'') demo_config)) = [long_route, poll_route]"
proof -
  have "TrimSpace ''auto'' = ''auto''" by (simp add: TrimSpace_graphic graphic_def)
  then have "routeCandidatesFromSession demo_unicode demo_parse demo_url [] ''auto'' = [long_route, poll_route]"
    by (simp add: routeCandidatesFromSession_def sessionTransports_def ToLower_def is_ascii_def ToLower_ascii_def
        addURL_def demo_url_trimmed demo_url_safe maxGatewayRoutes_def long_route_def poll_route_def Let_def)
  then show ?thesis
    using session_routes_pooled [of demo_url "[]" demo_unicode demo_parse "''auto''" demo_config]
    by (simp add: stays_trimmed_def demo_url_trimmed)
qed

end
