(* ===== verification/Workspace_Path.thy ===== *)
theory Workspace_Path
  imports Go_Path
begin

text \<open>
  Where a task may write (internal/workspace: write_scope.go, write_path.go and CanonicalDir of lock.go).
  The file system is a map from the names of a rooted path to a node; lstat and EvalSymlinks are
  computed from it, following links as the kernel does. What filepath.WalkDir lists below a path, the
  home directory and the working directory belong to the host.
\<close>

section \<open>The file system\<close>

datatype node = NDir | NFile | NLink string

type_synonym file_system = "string list \<rightharpoonup> node"

datatype 'a os_result = OsOk 'a | NotExist | OsError

definition is_dir :: "file_system \<Rightarrow> string list \<Rightarrow> bool" where
  "is_dir fs d \<longleftrightarrow> d = [] \<or> fs d = Some NDir"

text \<open>
  Following a path element by element from a directory: a link is replaced by its target, at most
  \<open>n\<close> times; a file may only come last.
\<close>

function follow :: "file_system \<Rightarrow> nat \<Rightarrow> string list \<Rightarrow> string list \<Rightarrow> string list os_result" where
  "follow fs n cur [] = OsOk cur"
| "follow fs n cur (e # es) =
     (if e = [] \<or> e = ''.'' then follow fs n cur es
      else if e = ''..'' then follow fs n (butlast cur) es
      else
        (case fs (cur @ [e]) of
           None \<Rightarrow> NotExist
         | Some NDir \<Rightarrow> follow fs n (cur @ [e]) es
         | Some NFile \<Rightarrow> if es = [] then OsOk (cur @ [e]) else OsError
         | Some (NLink target) \<Rightarrow>
             (case n of
                0 \<Rightarrow> OsError
              | Suc m \<Rightarrow> follow fs m (if filepath_IsAbs target then [] else cur) (splitOn CHR ''/'' target @ es))))"
  by pat_completeness auto
termination
  by (relation "measures [\<lambda>(fs, n, cur, es). n, \<lambda>(fs, n, cur, es). length es]") auto

text \<open>The kernel follows at most 40 links, filepath.EvalSymlinks at most 255.\<close>

definition kernel_links :: nat where "kernel_links = 40"

definition eval_links :: nat where "eval_links = 255"

definition lstat :: "file_system \<Rightarrow> string \<Rightarrow> node os_result" where
  "lstat fs path =
     (let es = path_elems path in
      if es = [] then OsOk NDir
      else
        (case follow fs kernel_links [] (butlast es) of
           OsOk d \<Rightarrow> if \<not> is_dir fs d then OsError
                      else (case fs (d @ [last es]) of None \<Rightarrow> NotExist | Some node \<Rightarrow> OsOk node)
         | NotExist \<Rightarrow> NotExist
         | OsError \<Rightarrow> OsError))"

definition EvalSymlinks :: "file_system \<Rightarrow> string \<Rightarrow> string option" where
  "EvalSymlinks fs path =
     (case follow fs eval_links [] (path_elems path) of OsOk d \<Rightarrow> Some (abs_path d) | _ \<Rightarrow> None)"

record host_files =
  hf_nodes :: file_system
  hf_walk :: "string \<Rightarrow> string list option"
  hf_home :: "string option"
  hf_cwd :: "string option"

type_synonym 'a ws_result = "string + 'a"

section \<open>Canonical directories\<close>

definition expandUserHome :: "host_files \<Rightarrow> string \<Rightarrow> string ws_result" where
  "expandUserHome H path0 =
     (let path = TrimSpace path0 in
      if path \<noteq> ''~'' \<and> \<not> prefix ''~/'' path \<and> \<not> prefix (CHR ''~'' # [CHR 0x5C]) path then Inr path
      else
        (case hf_home H of
           None \<Rightarrow> Inl ''resolve user home''
         | Some home \<Rightarrow>
             if TrimSpace home = [] then Inl ''resolve user home''
             else if path = ''~'' then Inr home
             else Inr (filepath_Join [home, drop 2 path])))"

definition filepath_Abs :: "host_files \<Rightarrow> string \<Rightarrow> string option" where
  "filepath_Abs H path =
     (if filepath_IsAbs path then Some (filepath_Clean path)
      else (case hf_cwd H of None \<Rightarrow> None | Some cwd \<Rightarrow> Some (filepath_Join [cwd, path])))"

definition CanonicalDir :: "host_files \<Rightarrow> string \<Rightarrow> string ws_result" where
  "CanonicalDir H path0 =
     (if TrimSpace path0 = [] then Inl ''path is required''
      else
        (case expandUserHome H path0 of
           Inl e \<Rightarrow> Inl e
         | Inr path \<Rightarrow>
             (case filepath_Abs H path of
                None \<Rightarrow> Inl ''getwd''
              | Some absolute \<Rightarrow>
                  (case EvalSymlinks (hf_nodes H) absolute of
                     None \<Rightarrow> Inl ''resolve path''
                   | Some canonical \<Rightarrow>
                       if \<not> is_dir (hf_nodes H) (path_elems canonical) then Inl ''path must be a directory''
                       else Inr (filepath_Clean canonical)))))"

section \<open>Write scopes\<close>

definition writeScopePathWithin :: "string \<Rightarrow> string \<Rightarrow> bool" where
  "writeScopePathWithin root path =
     (case filepath_Rel (filepath_Clean root) (filepath_Clean path) of
        None \<Rightarrow> False
      | Some relative \<Rightarrow> relative = ''.'' \<or> (relative \<noteq> ''..'' \<and> \<not> prefix ''../'' relative))"

definition fields :: "string \<Rightarrow> string list" where
  "fields relative = filter (\<lambda>e. e \<noteq> []) (splitOn CHR ''/'' (replaceChar (CHR 0x5C) CHR ''/'' relative))"

fun walkScope :: "file_system \<Rightarrow> string \<Rightarrow> string \<Rightarrow> string list \<Rightarrow> string ws_result" where
  "walkScope fs root current [] = Inr current"
| "walkScope fs root current (part # parts) =
     (let nxt = filepath_Join [current, part] in
      case lstat fs nxt of
        NotExist \<Rightarrow> Inr (filepath_Join (current # part # parts))
      | OsError \<Rightarrow> Inl ''resolve write scope''
      | OsOk (NLink target) \<Rightarrow>
          (case EvalSymlinks fs nxt of
             None \<Rightarrow> Inl ''resolve write scope symlink''
           | Some resolved0 \<Rightarrow>
               (let resolved = filepath_Clean resolved0 in
                if \<not> writeScopePathWithin root resolved then Inl ''write scope escapes workspace root''
                else walkScope fs root resolved parts))
      | OsOk _ \<Rightarrow> walkScope fs root nxt parts)"

definition resolveWriteScope :: "file_system \<Rightarrow> string \<Rightarrow> string \<Rightarrow> string ws_result" where
  "resolveWriteScope fs root scope =
     (let candidate = filepath_Clean (if \<not> filepath_IsAbs scope then filepath_Join [root, scope] else scope) in
      if \<not> writeScopePathWithin root candidate then Inl ''write scope escapes workspace root''
      else
        (case filepath_Rel root candidate of
           None \<Rightarrow> Inl ''resolve write scope''
         | Some relative \<Rightarrow>
             if relative = ''.'' then Inr root else walkScope fs root root (fields relative)))"

definition maxWriteScopeEntries :: nat where "maxWriteScopeEntries = 50000"

fun checkLinks :: "file_system \<Rightarrow> string \<Rightarrow> nat \<Rightarrow> string list \<Rightarrow> unit ws_result" where
  "checkLinks fs root entries [] = Inr ()"
| "checkLinks fs root entries (path # paths) =
     (if Suc entries > maxWriteScopeEntries then Inl ''write scope exceeds entries; cannot validate symlink boundary''
      else
        (case lstat fs path of
           OsOk (NLink target) \<Rightarrow>
             (case EvalSymlinks fs path of
                None \<Rightarrow> Inl ''resolve write scope symlink''
              | Some resolved \<Rightarrow>
                  if writeScopePathWithin root (filepath_Clean resolved) then checkLinks fs root (Suc entries) paths
                  else Inl ''write scope contains symlink that escapes workspace root'')
         | _ \<Rightarrow> checkLinks fs root (Suc entries) paths))"

definition validateWriteScopeSymlinks :: "host_files \<Rightarrow> string \<Rightarrow> string \<Rightarrow> unit ws_result" where
  "validateWriteScopeSymlinks H root scopePath =
     (case lstat (hf_nodes H) scopePath of
        NotExist \<Rightarrow> Inr ()
      | OsError \<Rightarrow> Inl ''inspect write scope''
      | OsOk _ \<Rightarrow>
          (case hf_walk H scopePath of
             None \<Rightarrow> Inl ''walk write scope''
           | Some paths \<Rightarrow> checkLinks (hf_nodes H) root 0 paths))"

fun checkScopes :: "host_files \<Rightarrow> string \<Rightarrow> string list \<Rightarrow> unit ws_result" where
  "checkScopes H root [] = Inr ()"
| "checkScopes H root (scope0 # scopes) =
     (let scope = TrimSpace scope0 in
      if scope = [] then checkScopes H root scopes
      else
        (case resolveWriteScope (hf_nodes H) root scope of
           Inl e \<Rightarrow> Inl e
         | Inr resolved \<Rightarrow>
             if \<not> writeScopePathWithin root resolved then Inl ''write scope escapes workspace root''
             else
               (case validateWriteScopeSymlinks H root resolved of
                  Inl e \<Rightarrow> Inl e
                | Inr _ \<Rightarrow> checkScopes H root scopes)))"

definition ValidateWriteScopes :: "host_files \<Rightarrow> string \<Rightarrow> string list \<Rightarrow> unit ws_result" where
  "ValidateWriteScopes H root scopes =
     (case CanonicalDir H root of Inl e \<Rightarrow> Inl e | Inr canonicalRoot \<Rightarrow> checkScopes H canonicalRoot scopes)"

definition ResolveWriteScope :: "host_files \<Rightarrow> string \<Rightarrow> string \<Rightarrow> string ws_result" where
  "ResolveWriteScope H root scope =
     (case CanonicalDir H root of
        Inl e \<Rightarrow> Inl e
      | Inr canonicalRoot \<Rightarrow> resolveWriteScope (hf_nodes H) canonicalRoot (TrimSpace scope))"

section \<open>Write targets\<close>

definition outside_shape :: "string \<Rightarrow> bool" where
  "outside_shape clean \<longleftrightarrow>
     clean = ''.'' \<or> clean = ''..'' \<or> prefix ''../'' clean \<or> (length clean \<ge> 2 \<and> clean ! 1 = CHR '':'')"

definition resolveTarget :: "file_system \<Rightarrow> string \<Rightarrow> string \<Rightarrow> string ws_result" where
  "resolveTarget fs canonicalRoot clean =
     (let lexicalTarget = filepath_Join [canonicalRoot, clean] in
      if \<not> writeScopePathWithin canonicalRoot lexicalTarget then Inl ''write target escapes workspace root''
      else
        (case resolveWriteScope fs canonicalRoot (filepath_Dir clean) of
           Inl e \<Rightarrow> Inl e
         | Inr parentCanonical \<Rightarrow>
             if \<not> writeScopePathWithin canonicalRoot parentCanonical then Inl ''write target parent escapes workspace root''
             else
               (case (case lstat fs lexicalTarget of
                        OsOk (NLink target) \<Rightarrow>
                          (case EvalSymlinks fs lexicalTarget of
                             None \<Rightarrow> Inl ''write target symlink must resolve inside workspace''
                           | Some t \<Rightarrow> Inr t)
                      | OsOk _ \<Rightarrow> Inr (filepath_Join [parentCanonical, filepath_Base clean])
                      | NotExist \<Rightarrow> Inr (filepath_Join [parentCanonical, filepath_Base clean])
                      | OsError \<Rightarrow> Inl ''inspect write target'') of
                  Inl e \<Rightarrow> Inl e
                | Inr targetCanonical \<Rightarrow>
                    if \<not> writeScopePathWithin canonicalRoot targetCanonical then Inl ''write target escapes workspace root''
                    else Inr targetCanonical)))"

definition ResolveWorkspaceWritePath :: "host_files \<Rightarrow> string \<Rightarrow> string \<Rightarrow> string ws_result" where
  "ResolveWorkspaceWritePath H root raw0 =
     (case CanonicalDir H root of
        Inl e \<Rightarrow> Inl e
      | Inr canonicalRoot \<Rightarrow>
          (let raw = TrimSpace raw0 in
           if raw = [] \<or> filepath_IsAbs raw then Inl ''write target must be workspace-relative''
           else
             (let clean = filepath_Clean raw in
              if outside_shape clean then Inl ''write target escapes workspace root''
              else resolveTarget (hf_nodes H) canonicalRoot clean)))"

fun firstScope :: "host_files \<Rightarrow> string \<Rightarrow> string \<Rightarrow> string list \<Rightarrow> string ws_result" where
  "firstScope H root target [] = Inl ''write target is outside declared write_scope''"
| "firstScope H root target (scope # scopes) =
     (if TrimSpace scope = [] then firstScope H root target scopes
      else
        (case ResolveWriteScope H root scope of
           Inl e \<Rightarrow> Inl e
         | Inr scopePath \<Rightarrow>
             if writeScopePathWithin scopePath target then Inr target else firstScope H root target scopes))"

definition ResolveScopedWorkspaceWritePath :: "host_files \<Rightarrow> string \<Rightarrow> string \<Rightarrow> string list \<Rightarrow> string ws_result" where
  "ResolveScopedWorkspaceWritePath H root raw scopes =
     (if scopes = [] then Inl ''write_scope is required''
      else
        (case ValidateWriteScopes H root scopes of
           Inl e \<Rightarrow> Inl e
         | Inr _ \<Rightarrow>
             (case ResolveWorkspaceWritePath H root raw of
                Inl e \<Rightarrow> Inl e
              | Inr target \<Rightarrow> firstScope H root target scopes)))"

end
