(* ===== verification/Workspace_Follow.thy ===== *)
theory Workspace_Follow
  imports Workspace_Path
begin

text \<open>
  Following paths in a file system: more links allowed never change a result that was not refused,
  following two paths one after the other is following their concatenation, and what a path leads to
  is a path without links, which leads to itself.
\<close>

definition fs_wf :: "file_system \<Rightarrow> bool" where
  "fs_wf fs \<longleftrightarrow> fs [] = None \<and> (\<forall>p e. fs (p @ [e]) \<noteq> None \<longrightarrow> is_dir fs p \<and> name_ok e)"

definition real_path :: "file_system \<Rightarrow> string list \<Rightarrow> bool" where
  "real_path fs p \<longleftrightarrow> is_dir fs p \<or> fs p = Some NFile"

definition no_links :: "file_system \<Rightarrow> string list \<Rightarrow> bool" where
  "no_links fs p \<longleftrightarrow> (\<forall>q target. prefix q p \<longrightarrow> q \<noteq> [] \<longrightarrow> fs q \<noteq> Some (NLink target))"

lemma dir_snoc: "fs_wf fs \<Longrightarrow> is_dir fs (p @ [e]) \<Longrightarrow> is_dir fs p \<and> name_ok e"
  by (auto simp: fs_wf_def is_dir_def)

lemma dir_butlast: "fs_wf fs \<Longrightarrow> is_dir fs p \<Longrightarrow> is_dir fs (butlast p)"
  by (cases p rule: rev_cases) (auto dest: dir_snoc)

lemma dir_names: "fs_wf fs \<Longrightarrow> is_dir fs p \<Longrightarrow> e \<in> set p \<Longrightarrow> name_ok e"
  by (induction p rule: rev_induct) (auto dest: dir_snoc)

lemma dir_prefix: "fs_wf fs \<Longrightarrow> is_dir fs p \<Longrightarrow> prefix q p \<Longrightarrow> is_dir fs q"
  by (induction p rule: rev_induct) (auto dest: dir_snoc simp: prefix_snoc)

lemma real_names:
  assumes "fs_wf fs" "real_path fs p" "e \<in> set p"
  shows "name_ok e"
proof (cases p rule: rev_cases)
  case (snoc q f)
  then have "is_dir fs q" "name_ok f" using assms by (auto simp: real_path_def fs_wf_def is_dir_def)
  then show ?thesis using assms(1,3) snoc dir_names [of fs q] by auto
qed (use assms in simp)

lemma dir_no_link: "is_dir fs p \<Longrightarrow> p \<noteq> [] \<Longrightarrow> fs p \<noteq> Some (NLink target)"
  by (auto simp: is_dir_def)

lemma real_no_links:
  assumes "fs_wf fs" "real_path fs p"
  shows "no_links fs p"
proof (cases p rule: rev_cases)
  case (snoc q f)
  then have "is_dir fs q" using assms by (auto simp: real_path_def fs_wf_def is_dir_def)
  then have "is_dir fs r" if "prefix r q" for r using dir_prefix [OF assms(1) _ that] by blast
  then have "fs r \<noteq> Some (NLink target)" if "prefix r q" "r \<noteq> []" for r target using that dir_no_link by blast
  then show ?thesis using assms(2) snoc by (auto simp: no_links_def prefix_snoc real_path_def is_dir_def)
qed (simp add: no_links_def)

text \<open>Below a path that does not exist there is nothing.\<close>

lemma missing_below: "fs_wf fs \<Longrightarrow> fs p = None \<Longrightarrow> p \<noteq> [] \<Longrightarrow> fs (p @ q) = None"
proof (induction q rule: rev_induct)
  case (snoc e q)
  show ?case
  proof (rule ccontr)
    assume "fs (p @ q @ [e]) \<noteq> None"
    then have "is_dir fs (p @ q)" using snoc.prems(1) by (auto simp: fs_wf_def simp flip: append_assoc)
    then show False using snoc by (simp add: is_dir_def)
  qed
qed simp

lemma missing_no_links:
  assumes "fs_wf fs" "is_dir fs c" "fs (c @ [m]) = None"
  shows "no_links fs (c @ m # ms)"
proof -
  have "fs q \<noteq> Some (NLink target)" if below: "prefix q (c @ m # ms)" and "q \<noteq> []" for q target
  proof (cases "prefix q c")
    case True
    then have "is_dir fs q" by (rule dir_prefix [OF assms(1,2)])
    then show ?thesis using that(2) by (auto simp: is_dir_def)
  next
    case False
    then obtain r where "q = (c @ [m]) @ r" using below False by (auto simp: prefix_append prefix_Cons)
    then show ?thesis using missing_below [OF assms(1,3), of r] by simp
  qed
  then show ?thesis by (auto simp: no_links_def)
qed

section \<open>Following\<close>

lemma follow_real: "fs_wf fs \<Longrightarrow> is_dir fs cur \<Longrightarrow> follow fs n cur es = OsOk r \<Longrightarrow> real_path fs r"
proof (induction fs n cur es rule: follow.induct)
  case (1 fs n cur)
  then show ?case by (simp add: real_path_def)
next
  case (2 fs n cur e es)
  consider (dot) "e = [] \<or> e = ''.''" | (up) "\<not> (e = [] \<or> e = ''.'')" "e = ''..''"
    | (name) "\<not> (e = [] \<or> e = ''.'')" "e \<noteq> ''..''" by blast
  then show ?case
  proof cases
    case dot
    then show ?thesis using 2(1) 2(5-7) by simp
  next
    case up
    then show ?thesis using 2(2) 2(5-7) dir_butlast [OF 2(5,6)] by simp
  next
    case name
    with 2(7) obtain node where node: "fs (cur @ [e]) = Some node" by (cases "fs (cur @ [e])") simp_all
    show ?thesis
    proof (cases node)
      case NDir
      then show ?thesis using 2(3) [OF name node NDir 2(5)] 2(7) name node by (simp add: is_dir_def)
    next
      case NFile
      then show ?thesis using 2(7) name node by (simp add: real_path_def split: if_splits)
    next
      case (NLink target)
      then obtain m where n: "n = Suc m" using 2(7) name node by (cases n) simp_all
      have "is_dir fs (if filepath_IsAbs target then [] else cur)" using 2(6) by (simp add: is_dir_def)
      then show ?thesis using 2(4) [OF name node NLink n 2(5)] 2(7) name node NLink n by simp
    qed
  qed
qed

lemma follow_more: "follow fs n cur es \<noteq> OsError \<Longrightarrow> n \<le> m \<Longrightarrow> follow fs m cur es = follow fs n cur es"
proof (induction fs n cur es arbitrary: m rule: follow.induct)
  case (2 fs n cur e es)
  consider (dot) "e = [] \<or> e = ''.''" | (up) "\<not> (e = [] \<or> e = ''.'')" "e = ''..''"
    | (name) "\<not> (e = [] \<or> e = ''.'')" "e \<noteq> ''..''" by blast
  then show ?case
  proof cases
    case dot
    then show ?thesis using 2(1) [OF dot _ 2(6)] 2(5) by simp
  next
    case up
    then show ?thesis using 2(2) [OF up _ 2(6)] 2(5) by simp
  next
    case name
    show ?thesis
    proof (cases "fs (cur @ [e])")
      case (Some node)
      show ?thesis
      proof (cases node)
        case NDir
        then show ?thesis using 2(3) [OF name Some NDir _ 2(6)] 2(5) name Some by simp
      next
        case (NLink target)
        then obtain k where n: "n = Suc k" using 2(5) name Some by (cases n) simp_all
        then obtain l where m: "m = Suc l" "k \<le> l" using 2(6) by (cases m) simp_all
        then show ?thesis using 2(4) [OF name Some NLink n _ m(2)] 2(5) name Some NLink n by simp
      qed (use name Some in simp)
    qed (use name in simp)
  qed
qed simp

lemma follow_agree:
  "follow fs n cur es \<noteq> OsError \<Longrightarrow> follow fs m cur es \<noteq> OsError \<Longrightarrow> follow fs n cur es = follow fs m cur es"
  by (metis follow_more nle_le)

definition splits_at :: "file_system \<Rightarrow> nat \<Rightarrow> string list \<Rightarrow> string list \<Rightarrow> string list \<Rightarrow> bool" where
  "splits_at fs n cur as bs \<longleftrightarrow>
     (follow fs n cur as = NotExist \<and> follow fs n cur (as @ bs) = NotExist)
     \<or> (\<exists>d k. k \<le> n \<and> follow fs n cur as = OsOk d \<and> follow fs k d bs = follow fs n cur (as @ bs))"

lemma splits_at_cong:
  "follow fs n cur as = follow fs m cur' as' \<Longrightarrow> follow fs n cur (as @ bs) = follow fs m cur' (as' @ bs) \<Longrightarrow> m \<le> n \<Longrightarrow>
   splits_at fs m cur' as' bs \<Longrightarrow> splits_at fs n cur as bs"
  by (auto simp: splits_at_def intro: order_trans)

lemma follow_append: "follow fs n cur (as @ bs) \<noteq> OsError \<Longrightarrow> splits_at fs n cur as bs"
proof (induction fs n cur as arbitrary: bs rule: follow.induct)
  case (1 fs n cur)
  then show ?case by (auto simp: splits_at_def)
next
  case (2 fs n cur e es)
  consider (dot) "e = [] \<or> e = ''.''" | (up) "e = ''..''"
    | (name) "\<not> (e = [] \<or> e = ''.'')" "e \<noteq> ''..''" by blast
  then show ?case
  proof cases
    case dot
    show ?thesis by (rule splits_at_cong [OF _ _ order_refl 2(1) [OF dot]]) (use dot 2(5) in auto)
  next
    case up
    show ?thesis by (rule splits_at_cong [OF _ _ order_refl 2(2)]) (use up 2(5) in auto)
  next
    case name
    show ?thesis
    proof (cases "fs (cur @ [e])")
      case None
      then show ?thesis using name by (simp add: splits_at_def)
    next
      case (Some node)
      show ?thesis
      proof (cases node)
        case NDir
        show ?thesis by (rule splits_at_cong [OF _ _ order_refl 2(3)]) (use name Some NDir 2(5) in auto)
      next
        case NFile
        then show ?thesis using name Some 2(5) by (auto simp: splits_at_def split: if_splits)
      next
        case (NLink target)
        then obtain m where n: "n = Suc m" using name Some 2(5) by (cases n) auto
        show ?thesis by (rule splits_at_cong [OF _ _ _ 2(4) [OF name Some NLink n]]) (use name Some NLink n 2(5) in auto)
      qed
    qed
  qed
qed

lemma follow_step_dir: "is_dir fs (cur @ [e]) \<Longrightarrow> name_ok e \<Longrightarrow> follow fs n cur (e # es) = follow fs n (cur @ [e]) es"
  by (simp add: is_dir_def name_ok_def)

text \<open>A directory without links leads to itself, whatever follows.\<close>

lemma follow_dir: "fs_wf fs \<Longrightarrow> is_dir fs (cur @ p) \<Longrightarrow> follow fs n cur (p @ es) = follow fs n (cur @ p) es"
proof (induction p arbitrary: cur)
  case (Cons e p)
  have "is_dir fs (cur @ [e])" by (rule dir_prefix [OF Cons.prems]) (simp add: prefix_def)
  moreover have "name_ok e" using dir_names [OF Cons.prems, of e] by simp
  ultimately have "follow fs n cur (e # p @ es) = follow fs n (cur @ [e]) (p @ es)" by (rule follow_step_dir)
  then show ?case using Cons by simp
qed simp

end
