(* ===== verification/Workspace_Properties.thy ===== *)
theory Workspace_Properties
  imports Workspace_Follow
begin

text \<open>
  What the write path checks give: containment is the prefix order on names, and a target without
  backslashes that is accepted lies inside the workspace and has no link on the way, so a write to it
  stays inside. With a backslash the check can be passed by a target that leads out through a link.
\<close>

section \<open>Containment\<close>

lemma rel_elems_abs: "\<forall>e \<in> set es. name_ok e \<Longrightarrow> rel_elems (abs_path es) = es"
  by (simp add: rel_elems_def abs_path_def [of es, symmetric]) (simp add: abs_path_def)

lemma Rel_abs:
  assumes "\<forall>e \<in> set bs. name_ok e" "\<forall>e \<in> set ts. name_ok e" "bs \<noteq> ts"
  shows "filepath_Rel (abs_path bs) (abs_path ts) =
    (let (up, down) = strip_common bs ts in Some (joinWith CHR ''/'' (replicate (length up) ''..'' @ down)))"
proof -
  obtain up down where strip: "strip_common bs ts = (up, down)" by fastforce
  have "set up \<subseteq> set bs" using strip_common_spec [OF strip] by auto
  then have "name_ok (hd up)" if "up \<noteq> []" using that assms(1) hd_in_set by blast
  then have "\<not> (up \<noteq> [] \<and> hd up = ''..'')" by (auto simp: name_ok_def)
  then show ?thesis using assms strip by (simp add: filepath_Rel_def rel_elems_abs abs_path_inj)
qed

lemma within_prefix:
  assumes "\<forall>e \<in> set bs. name_ok e" "\<forall>e \<in> set ts. name_ok e"
  shows "writeScopePathWithin (abs_path bs) (abs_path ts) \<longleftrightarrow> prefix bs ts"
proof (cases "bs = ts")
  case True
  then show ?thesis using assms by (simp add: writeScopePathWithin_def filepath_Rel_def)
next
  case False
  obtain up down where strip: "strip_common bs ts = (up, down)" by fastforce
  note spec = strip_common_spec [OF strip]
  let ?rel = "joinWith CHR ''/'' (replicate (length up) ''..'' @ down)"
  have within: "writeScopePathWithin (abs_path bs) (abs_path ts) \<longleftrightarrow> ?rel = ''.'' \<or> (?rel \<noteq> ''..'' \<and> \<not> prefix ''../'' ?rel)"
    using assms Rel_abs [OF assms False] strip by (simp add: writeScopePathWithin_def)
  show ?thesis
  proof (cases up)
    case Nil
    then obtain d ds where down: "down = d # ds" "name_ok d" using spec False assms(2) by (cases down) auto
    have "prefix bs ts" using spec Nil by (auto simp: prefix_def)
    moreover have "?rel \<noteq> ''..''" "\<not> prefix ''../'' ?rel"
      using down Nil by (cases ds; auto simp: name_ok_def prefix_def append_eq_Cons_conv Cons_eq_append_conv)+
    ultimately show ?thesis using within by simp
  next
    case (Cons u us)
    have "\<not> prefix bs ts" using spec Cons by (auto simp: prefix_def)
    moreover have "?rel = ''..'' \<or> prefix ''../'' ?rel"
      using Cons by (cases "replicate (length us) ''..'' @ down") auto
    moreover have "?rel \<noteq> ''.''" using Cons by (cases "replicate (length us) ''..'' @ down") auto
    ultimately show ?thesis using within by blast
  qed
qed

text \<open>
  The containment check of the write scopes, which goes through filepath.Rel, holds exactly when the
  names of the cleaned root are an initial part of the names of the cleaned path.
\<close>

theorem within_exact:
  assumes "filepath_IsAbs root" "filepath_IsAbs path"
  shows "writeScopePathWithin root path \<longleftrightarrow> prefix (path_elems (filepath_Clean root)) (path_elems (filepath_Clean path))"
proof -
  obtain bs ts where "filepath_Clean root = abs_path bs" "\<forall>e \<in> set bs. name_ok e"
    "filepath_Clean path = abs_path ts" "\<forall>e \<in> set ts. name_ok e"
    using assms Clean_rooted_names by metis
  moreover from this have "writeScopePathWithin root path = writeScopePathWithin (abs_path bs) (abs_path ts)"
    by (simp add: writeScopePathWithin_def)
  ultimately show ?thesis by (simp add: within_prefix)
qed

theorem within_exact_witness:
  "writeScopePathWithin ''/w'' ''/w/../w/a'' \<longleftrightarrow> prefix [''w''] [''w'', ''a'']"
  using within_exact [of "''/w''" "''/w/../w/a''"]
  by (simp add: filepath_IsAbs_def path_elems_def filepath_Clean_def)

section \<open>Walking a scope\<close>

lemma lstat_below:
  assumes "fs_wf fs" "is_dir fs cur" "name_ok e"
  shows "lstat fs (abs_path (cur @ [e])) = (case fs (cur @ [e]) of None \<Rightarrow> NotExist | Some node \<Rightarrow> OsOk node)"
proof -
  have "\<forall>x \<in> set (cur @ [e]). name_ok x" using assms dir_names by auto
  then have "path_elems (abs_path (cur @ [e])) = cur @ [e]" by (rule path_elems_abs)
  moreover have "follow fs kernel_links [] cur = OsOk cur" using follow_dir [OF assms(1), of "[]" cur _ "[]"] assms(2) by simp
  ultimately show ?thesis using assms(2) by (simp add: lstat_def)
qed

lemma lstat_file:
  assumes "fs_wf fs" "fs cur = Some NFile" "name_ok e"
  shows "lstat fs (abs_path (cur @ [e])) = OsError"
proof -
  obtain p f where cur: "cur = p @ [f]" using assms(1,2) by (cases cur rule: rev_cases) (auto simp: fs_wf_def)
  then have p: "is_dir fs p" "name_ok f" using assms(1,2) by (auto simp: fs_wf_def)
  then have "\<forall>x \<in> set (cur @ [e]). name_ok x" using assms cur dir_names by auto
  then have "path_elems (abs_path (cur @ [e])) = cur @ [e]" by (rule path_elems_abs)
  moreover have "follow fs kernel_links [] cur = OsOk cur"
    using follow_dir [OF assms(1), of "[]" p _ "[f]"] p assms(2) cur by (simp add: name_ok_def)
  ultimately show ?thesis using assms(2) cur by (simp add: lstat_def is_dir_def Let_def butlast_append)
qed

lemma Join_names:
  assumes "\<forall>e \<in> set cur. name_ok e" "\<forall>e \<in> set ps. name_ok e" "ps \<noteq> []"
  shows "filepath_Join (abs_path cur # ps) = abs_path (cur @ ps)"
proof -
  have ps: "filter (\<lambda>e. e \<noteq> []) ps = ps" using assms(2) by (auto simp: name_ok_def filter_id_conv)
  have join: "joinWith CHR ''/'' ps \<noteq> []" using assms(2,3) joinWith_nonempty [of ps] by (auto simp: name_ok_def)
  have "filepath_Join (abs_path cur # ps) = filepath_Join [abs_path cur, joinWith CHR ''/'' ps]"
    using ps join assms(3) by (cases ps) (auto simp: filepath_Join_def abs_path_def)
  also have "\<dots> = abs_path (cleanElements True (rev cur) ps)"
    using Join_rooted [OF assms(1) join] names_split [OF assms(2,3)] by simp
  finally show ?thesis by (simp add: cleanElements_names [OF assms(2)])
qed

text \<open>
  The outcome of a walk: a real path, the one the kernel reaches if it reaches any, or a path whose
  first missing name hangs below a directory.
\<close>

definition scope_outcome :: "file_system \<Rightarrow> string list \<Rightarrow> string list \<Rightarrow> string list \<Rightarrow> bool" where
  "scope_outcome fs cur parts es \<longleftrightarrow>
     (real_path fs es \<and> (\<forall>n. follow fs n cur parts = OsError \<or> follow fs n cur parts = OsOk es))
     \<or> (\<exists>c m ms. es = c @ m # ms \<and> is_dir fs c \<and> fs (c @ [m]) = None)"

lemma link_outcome:
  assumes link: "fs (cur @ [part]) = Some (NLink target)" and part: "name_ok part"
    and reach: "follow fs k cur [part] = OsOk r" and rest: "scope_outcome fs r parts es"
  shows "scope_outcome fs cur (part # parts) es"
proof -
  have "follow fs n cur (part # parts) = OsError \<or> follow fs n cur (part # parts) = OsOk es"
    if out: "\<forall>n. follow fs n r parts = OsError \<or> follow fs n r parts = OsOk es" for n
  proof (rule disjCI)
    assume not: "follow fs n cur (part # parts) \<noteq> OsOk es"
    show "follow fs n cur (part # parts) = OsError"
    proof (rule ccontr)
      assume ok: "follow fs n cur (part # parts) \<noteq> OsError"
      then have "splits_at fs n cur [part] parts" using follow_append [of fs n cur "[part]" parts] by simp
      moreover have "follow fs n cur [part] = OsOk r" if "follow fs n cur [part] \<noteq> OsError"
        using follow_agree [OF that, of k] reach by simp
      ultimately obtain j where "follow fs j r parts = follow fs n cur (part # parts)"
        by (auto simp: splits_at_def)
      then show False using out [rule_format, of j] ok not by auto
    qed
  qed
  then show ?thesis using rest unfolding scope_outcome_def by blast
qed

lemma step_outcome:
  assumes "\<And>n. follow fs n cur (part # parts) = OsError \<or> follow fs n cur (part # parts) = follow fs n cur' parts"
    "scope_outcome fs cur' parts es"
  shows "scope_outcome fs cur (part # parts) es"
  using assms unfolding scope_outcome_def by metis

lemma walkScope_outcome:
  assumes "fs_wf fs"
  shows "real_path fs cur \<Longrightarrow> \<forall>e \<in> set parts. name_ok e \<Longrightarrow> walkScope fs root (abs_path cur) parts = Inr p \<Longrightarrow>
    \<exists>es. p = abs_path es \<and> (\<forall>e \<in> set es. name_ok e) \<and> scope_outcome fs cur parts es"
proof (induction parts arbitrary: cur)
  case Nil
  then show ?case using real_names [OF assms] by (intro exI [of _ cur]) (auto simp: scope_outcome_def)
next
  case (Cons part parts)
  have names: "\<forall>e \<in> set cur. name_ok e" using real_names [OF assms Cons.prems(1)] by blast
  have part: "name_ok part" using Cons.prems(2) by simp
  have nxt: "filepath_Join [abs_path cur, part] = abs_path (cur @ [part])" by (rule Join_name [OF names part])
  have dir: "is_dir fs cur"
    using Cons.prems(1,3) lstat_file [OF assms _ part, of cur] by (auto simp: real_path_def nxt Let_def)
  note stat = lstat_below [OF assms dir part]
  show ?case
  proof (cases "fs (cur @ [part])")
    case None
    then have "p = abs_path (cur @ part # parts)"
      using Cons.prems(3) stat nxt Join_names [OF names Cons.prems(2)] by (simp add: Let_def)
    moreover have "scope_outcome fs cur (part # parts) (cur @ part # parts)"
      using dir None by (auto simp: scope_outcome_def)
    moreover have "\<forall>e \<in> set (cur @ part # parts). name_ok e" using names Cons.prems(2) by auto
    ultimately show ?thesis by blast
  next
    case (Some node)
    show ?thesis
    proof (cases node)
      case (NLink target)
      then obtain r where r: "follow fs eval_links [] (cur @ [part]) = OsOk r" "walkScope fs root (filepath_Clean (abs_path r)) parts = Inr p"
        using Cons.prems(3) stat nxt Some names part
        by (auto simp: Let_def EvalSymlinks_def split: option.splits os_result.splits if_splits)
      have step: "follow fs eval_links cur [part] = OsOk r" using follow_dir [OF assms, of "[]" cur _ "[part]"] dir r(1) by simp
      then have real: "real_path fs r" by (rule follow_real [OF assms dir])
      then have "walkScope fs root (abs_path r) parts = Inr p" using r(2) real_names [OF assms] by simp
      from Cons.IH [OF real _ this] Cons.prems(2) show ?thesis
        using link_outcome [OF Some [unfolded NLink] part step] by auto
    next
      case NDir
      then have w: "walkScope fs root (abs_path (cur @ [part])) parts = Inr p" using Cons.prems(3) stat nxt Some by (simp add: Let_def)
      have "follow fs n cur (part # parts) = OsError \<or> follow fs n cur (part # parts) = follow fs n (cur @ [part]) parts" for n
        using Some NDir part by (simp add: name_ok_def)
      note step_outcome [OF this]
      moreover have "real_path fs (cur @ [part])" using Some NDir by (simp add: real_path_def is_dir_def)
      ultimately show ?thesis using Cons.IH [OF _ _ w] Cons.prems(2) by (metis list.set_intros(2))
    next
      case NFile
      then have w: "walkScope fs root (abs_path (cur @ [part])) parts = Inr p" using Cons.prems(3) stat nxt Some by (simp add: Let_def)
      have "follow fs n cur (part # parts) = OsError \<or> follow fs n cur (part # parts) = follow fs n (cur @ [part]) parts" for n
        using Some NFile part by (simp add: name_ok_def)
      note step_outcome [OF this]
      moreover have "real_path fs (cur @ [part])" using Some NFile by (simp add: real_path_def)
      ultimately show ?thesis using Cons.IH [OF _ _ w] Cons.prems(2) by (metis list.set_intros(2))
    qed
  qed
qed

end
