(* ===== verification/Workspace_Target.thy ===== *)
theory Workspace_Target
  imports Workspace_Properties
begin

text \<open>
  Write targets: a target without backslashes that ResolveWorkspaceWritePath accepts lies inside the
  workspace and has no link on the way, so the write stays inside. With a backslash, which the scope walk
  takes for a separator also on Unix, a target can be accepted that leads out through a link.
\<close>

lemma TrimSpace_subset: "set (TrimSpace s) \<subseteq> set s"
proof -
  have "set (TrimLeftSpace s) \<subseteq> set s" unfolding TrimLeftSpace_def by (rule set_mono_suffix [OF strip_left_suffix])
  moreover have "set (TrimSpace s) \<subseteq> set (TrimLeftSpace s)" unfolding TrimSpace_def
    by (rule set_mono_prefix [OF TrimRightSpace_prefix])
  ultimately show ?thesis by blast
qed

lemma CanonicalDir_spec:
  assumes "fs_wf (hf_nodes H)" "CanonicalDir H root = Inr c"
  shows "\<exists>r. c = abs_path r \<and> is_dir (hf_nodes H) r"
proof -
  obtain absolute d where d: "follow (hf_nodes H) eval_links [] (path_elems absolute) = OsOk d"
    "is_dir (hf_nodes H) (path_elems (abs_path d))" "c = filepath_Clean (abs_path d)"
    using assms(2) by (auto simp: CanonicalDir_def EvalSymlinks_def split: if_splits sum.splits option.splits os_result.splits)
  have "is_dir (hf_nodes H) []" by (simp add: is_dir_def)
  then have "real_path (hf_nodes H) d" by (rule follow_real [OF assms(1) _ d(1)])
  then have "\<forall>e \<in> set d. name_ok e" using real_names [OF assms(1)] by blast
  then show ?thesis using d by auto
qed

lemma EvalSymlinks_no_links:
  assumes "fs_wf fs" "EvalSymlinks fs p = Some t"
  shows "\<exists>es. t = abs_path es \<and> (\<forall>e \<in> set es. name_ok e) \<and> no_links fs es"
proof -
  obtain d where d: "follow fs eval_links [] (path_elems p) = OsOk d" "t = abs_path d"
    using assms(2) by (auto simp: EvalSymlinks_def split: os_result.splits)
  have "is_dir fs []" by (simp add: is_dir_def)
  then have "real_path fs d" by (rule follow_real [OF assms(1) _ d(1)])
  then show ?thesis using d(2) real_names [OF assms(1)] real_no_links [OF assms(1)] by blast
qed

lemma Join_joined:
  assumes "\<forall>e \<in> set r. name_ok e" "\<forall>e \<in> set es. name_ok e" "es \<noteq> []"
  shows "filepath_Join [abs_path r, joinWith CHR ''/'' es] = abs_path (r @ es)"
proof -
  have "joinWith CHR ''/'' es \<noteq> []" using assms(2,3) joinWith_nonempty [of es] by (auto simp: name_ok_def)
  then show ?thesis using assms by (simp add: Join_rooted names_split cleanElements_names)
qed

lemma strip_common_below: "strip_common r (r @ ds) = ([], ds)"
  by (induction r) (cases ds; auto)+

lemma Rel_below:
  assumes "\<forall>e \<in> set r. name_ok e" "\<forall>e \<in> set ds. name_ok e" "ds \<noteq> []"
  shows "filepath_Rel (abs_path r) (abs_path (r @ ds)) = Some (joinWith CHR ''/'' ds)"
  using assms by (subst Rel_abs) (auto simp: strip_common_below)

lemma joined_dot: "\<forall>e \<in> set ds. name_ok e \<Longrightarrow> ds \<noteq> [] \<Longrightarrow> joinWith CHR ''/'' ds \<noteq> ''.''"
proof
  assume names: "\<forall>e \<in> set ds. name_ok e" and "ds \<noteq> []" "joinWith CHR ''/'' ds = ''.''"
  then have "ds = [''.'']" using names_split [of ds] by (simp add: splitOn_absent)
  then show False using names by (simp add: name_ok_def)
qed

lemma fields_names:
  assumes "\<forall>e \<in> set ds. name_ok e \<and> CHR 0x5C \<notin> set e" "ds \<noteq> []"
  shows "fields (joinWith CHR ''/'' ds) = ds"
proof -
  have "set (joinWith CHR ''/'' es) \<subseteq> insert CHR ''/'' (\<Union> (set ` set es))" for es
    by (induction "CHR ''/''" es rule: joinWith.induct) auto
  then have "CHR 0x5C \<notin> set (joinWith CHR ''/'' ds)" using assms(1) by fastforce
  moreover have "filter (\<lambda>e. e \<noteq> []) ds = ds" using assms(1) by (auto simp: name_ok_def filter_id_conv)
  ultimately show ?thesis using assms by (simp add: fields_def replaceChar_absent names_split)
qed

lemma resolveWriteScope_outcome:
  assumes "fs_wf fs" "is_dir fs r" "\<forall>e \<in> set ds. name_ok e \<and> CHR 0x5C \<notin> set e"
    "resolveWriteScope fs (abs_path r) (if ds = [] then ''.'' else joinWith CHR ''/'' ds) = Inr p"
  shows "\<exists>es. p = abs_path es \<and> (\<forall>e \<in> set es. name_ok e) \<and> scope_outcome fs r ds es"
proof -
  have r: "\<forall>e \<in> set r. name_ok e" using dir_names [OF assms(1,2)] by blast
  have real: "real_path fs r" using assms(2) by (simp add: real_path_def)
  show ?thesis
  proof (cases "ds = []")
    case True
    have "filepath_Join [abs_path r, ''.''] = abs_path r"
      using Join_rooted [OF r, of "''.''"] by (simp add: splitOn_absent)
    moreover have "\<not> filepath_IsAbs ''.''" by (simp add: filepath_IsAbs_def)
    moreover have "filepath_Rel (abs_path r) (abs_path r) = Some ''.''" using r by (simp add: filepath_Rel_def)
    ultimately have "p = abs_path r"
      using assms(4) True r by (simp add: resolveWriteScope_def Let_def split: if_splits)
    then show ?thesis using True r real by (auto simp: scope_outcome_def)
  next
    case False
    have ds: "\<forall>e \<in> set ds. name_ok e" using assms(3) by blast
    have join: "filepath_Join [abs_path r, joinWith CHR ''/'' ds] = abs_path (r @ ds)" by (rule Join_joined [OF r ds False])
    have "hd (joinWith CHR ''/'' ds) \<noteq> CHR ''/''"
      using ds False by (cases ds; cases "tl ds"; cases "hd ds") (auto simp: name_ok_def)
    moreover have "joinWith CHR ''/'' ds \<noteq> []" using ds False joinWith_nonempty [of ds] by (auto simp: name_ok_def)
    ultimately have rel: "\<not> filepath_IsAbs (joinWith CHR ''/'' ds)"
      by (cases "joinWith CHR ''/'' ds") (auto simp: filepath_IsAbs_def)
    have "\<forall>e \<in> set (r @ ds). name_ok e" using r ds by auto
    then have "walkScope fs (abs_path r) (abs_path r) ds = Inr p"
      using assms(4) False join rel Rel_below [OF r ds False] joined_dot [OF ds False] fields_names [OF assms(3) False]
      by (simp add: resolveWriteScope_def Let_def split: if_splits)
    then show ?thesis using walkScope_outcome [OF assms(1) real ds] by blast
  qed
qed

text \<open>What the last name leads to, given where the walk to its directory ended.\<close>

lemma lstat_target:
  assumes "fs_wf fs" "is_dir fs r" "\<forall>e \<in> set (ds @ [b]). name_ok e"
  shows "lstat fs (abs_path (r @ ds @ [b])) =
    (case follow fs kernel_links r ds of
       OsOk d \<Rightarrow> if \<not> is_dir fs d then OsError else (case fs (d @ [b]) of None \<Rightarrow> NotExist | Some node \<Rightarrow> OsOk node)
     | NotExist \<Rightarrow> NotExist | OsError \<Rightarrow> OsError)"
proof -
  have "\<forall>e \<in> set (r @ ds @ [b]). name_ok e" using assms(3) dir_names [OF assms(1,2)] by auto
  then have "path_elems (abs_path (r @ ds @ [b])) = r @ ds @ [b]" by (rule path_elems_abs)
  moreover have "follow fs kernel_links [] (r @ ds) = follow fs kernel_links r ds"
    using follow_dir [OF assms(1), of "[]" r] assms(2) by simp
  moreover have "butlast (r @ ds @ [b]) = r @ ds" "last (r @ ds @ [b]) = b" by (simp_all add: butlast_append)
  ultimately show ?thesis by (auto simp: lstat_def Let_def split: os_result.splits)
qed

lemma outcome_target:
  assumes "fs_wf fs" "is_dir fs r" "\<forall>e \<in> set (ds @ [b]). name_ok e" "scope_outcome fs r ds es"
    "lstat fs (abs_path (r @ ds @ [b])) \<noteq> OsError" "\<And>target. lstat fs (abs_path (r @ ds @ [b])) \<noteq> OsOk (NLink target)"
  shows "no_links fs (es @ [b])"
proof -
  note stat = lstat_target [OF assms(1-3)]
  from assms(4) consider (real) "real_path fs es" "\<forall>n. follow fs n r ds = OsError \<or> follow fs n r ds = OsOk es"
    | (missing) c m ms where "es = c @ m # ms" "is_dir fs c" "fs (c @ [m]) = None"
    unfolding scope_outcome_def by blast
  then show ?thesis
  proof cases
    case real
    have "follow fs kernel_links r ds \<noteq> OsError" using stat assms(5) by auto
    then have "follow fs kernel_links r ds = OsOk es" using real(2) by metis
    then have dir: "is_dir fs es" and node: "fs (es @ [b]) \<noteq> Some (NLink target)" for target
      using stat assms(5,6) by (auto split: if_splits option.splits)
    show ?thesis
    proof (cases "fs (es @ [b])")
      case None
      then show ?thesis using missing_no_links [OF assms(1) dir, of b "[]"] by simp
    next
      case (Some k)
      then have "real_path fs (es @ [b])" using node by (cases k) (auto simp: real_path_def is_dir_def)
      then show ?thesis by (rule real_no_links [OF assms(1)])
    qed
  next
    case missing
    then show ?thesis using missing_no_links [OF assms(1) missing(2,3), of "ms @ [b]"] by simp
  qed
qed

lemma write_target_inside:
  assumes "fs_wf (hf_nodes H)" "CHR 0x5C \<notin> set raw0" "ResolveWorkspaceWritePath H root raw0 = Inr t"
  shows "\<exists>r es. CanonicalDir H root = Inr (abs_path r) \<and> t = abs_path es \<and> (\<forall>e \<in> set es. name_ok e)
    \<and> prefix r es \<and> no_links (hf_nodes H) es"
proof -
  let ?fs = "hf_nodes H" and ?raw = "TrimSpace raw0"
  obtain c where c: "CanonicalDir H root = Inr c" using assms(3) by (auto simp: ResolveWorkspaceWritePath_def split: sum.splits)
  then obtain r where r: "c = abs_path r" "is_dir ?fs r" using CanonicalDir_spec [OF assms(1)] by blast
  have rn: "\<forall>e \<in> set r. name_ok e" using dir_names [OF assms(1) r(2)] by blast
  have shape: "?raw \<noteq> []" "\<not> filepath_IsAbs ?raw" "\<not> outside_shape (filepath_Clean ?raw)"
    and target: "resolveTarget ?fs (abs_path r) (filepath_Clean ?raw) = Inr t"
    using assms(3) c r(1) by (auto simp: ResolveWorkspaceWritePath_def Let_def split: if_splits)
  obtain fs where fs: "filepath_Clean ?raw = joinWith CHR ''/'' fs" "fs \<noteq> []" "\<forall>e \<in> set fs. name_ok e"
    "\<Union> (set ` set fs) \<subseteq> set ?raw"
    using Clean_relative [OF shape(1,2)] shape(3) unfolding outside_shape_def by blast
  obtain ds b where fs_split: "fs = ds @ [b]" using fs(2) by (cases fs rule: rev_cases) auto
  have "set ?raw \<subseteq> set raw0" by (rule TrimSpace_subset)
  then have ds: "\<forall>e \<in> set ds. name_ok e \<and> CHR 0x5C \<notin> set e" and b: "name_ok b"
    using fs(3,4) fs_split assms(2) by auto
  have lexical: "filepath_Join [abs_path r, filepath_Clean ?raw] = abs_path (r @ ds @ [b])"
    using Join_joined [OF rn fs(3,2)] fs(1) fs_split by simp
  have dir: "filepath_Dir (filepath_Clean ?raw) = (if ds = [] then ''.'' else joinWith CHR ''/'' ds)"
    and base: "filepath_Base (filepath_Clean ?raw) = b"
    using Dir_names [OF _ b, of ds] Base_names [OF _ b, of ds] ds fs(1) fs_split by auto
  obtain p where p: "resolveWriteScope ?fs (abs_path r) (if ds = [] then ''.'' else joinWith CHR ''/'' ds) = Inr p"
    using target dir by (auto simp: resolveTarget_def Let_def split: if_splits sum.splits)
  then obtain ps where ps: "p = abs_path ps" "\<forall>e \<in> set ps. name_ok e" "scope_outcome ?fs r ds ps"
    using resolveWriteScope_outcome [OF assms(1) r(2) ds] by blast
  have join: "filepath_Join [p, b] = abs_path (ps @ [b])" using Join_name [OF ps(2) b] ps(1) by simp
  have names: "\<forall>e \<in> set (ds @ [b]). name_ok e" using ds b by auto
  have "\<exists>es. t = abs_path es \<and> (\<forall>e \<in> set es. name_ok e) \<and> no_links ?fs es"
  proof (cases "\<exists>l. lstat ?fs (abs_path (r @ ds @ [b])) = OsOk (NLink l)")
    case True
    then have "EvalSymlinks ?fs (abs_path (r @ ds @ [b])) = Some t"
      using target p dir base lexical by (auto simp: resolveTarget_def Let_def split: if_splits option.splits)
    then show ?thesis by (rule EvalSymlinks_no_links [OF assms(1)])
  next
    case False
    have "t = abs_path (ps @ [b]) \<and> lstat ?fs (abs_path (r @ ds @ [b])) \<noteq> OsError"
      using target p dir base lexical join False
      by (auto simp: resolveTarget_def Let_def split: if_splits os_result.splits node.splits)
    moreover from this have "no_links ?fs (ps @ [b])" using outcome_target [OF assms(1) r(2) names ps(3)] False by blast
    moreover have "\<forall>e \<in> set (ps @ [b]). name_ok e" using ps(2) b by auto
    ultimately show ?thesis by blast
  qed
  moreover have "writeScopePathWithin (abs_path r) t"
    using target by (auto simp: resolveTarget_def Let_def split: if_splits sum.splits)
  ultimately show ?thesis using within_prefix [OF rn] c r(1) by metis
qed

text \<open>
  C20. A write target without backslashes that is accepted is a path inside the canonical workspace on which
  no prefix is a symbolic link: writing to it does not leave the workspace.
\<close>

theorem write_target_stays_inside:
  assumes "fs_wf (hf_nodes H)" "CHR 0x5C \<notin> set raw" "ResolveWorkspaceWritePath H root raw = Inr t"
  shows "\<exists>r es. CanonicalDir H root = Inr (abs_path r) \<and> t = abs_path es \<and> prefix r es \<and> no_links (hf_nodes H) es"
  using write_target_inside [OF assms] by blast

text \<open>A workspace with a link inside it to another of its directories, and one that leaves it.\<close>

definition sample_nodes :: file_system where
  "sample_nodes = [[''w''] \<mapsto> NDir, [''w'', ''a''] \<mapsto> NDir, [''w'', ''b''] \<mapsto> NLink ''a'', [''w'', ''link''] \<mapsto> NLink ''/etc'',
     [''etc''] \<mapsto> NDir]"

definition sample_host :: host_files where
  "sample_host = \<lparr>hf_nodes = sample_nodes, hf_walk = \<lambda>p. Some [p], hf_home = None, hf_cwd = None\<rparr>"

lemma sample_wf: "fs_wf sample_nodes"
  by (auto simp: fs_wf_def sample_nodes_def is_dir_def name_ok_def split: if_splits)

lemmas path_evaluate = filepath_IsAbs_def filepath_Clean_def filepath_Join_def filepath_Rel_def filepath_Dir_def filepath_Base_def
  rel_elems_def path_elems_def abs_path_def TrimRightSlash_def fields_def replaceChar_def

lemma sample_root: "CanonicalDir sample_host ''/w'' = Inr ''/w''"
proof -
  have "TrimSpace ''/w'' = ''/w''" by (rule TrimSpace_graphic) (simp_all add: graphic_def)
  then show ?thesis
    by (simp add: CanonicalDir_def expandUserHome_def filepath_Abs_def EvalSymlinks_def is_dir_def
        sample_host_def sample_nodes_def path_evaluate)
qed

lemma sample_target: "ResolveWorkspaceWritePath sample_host ''/w'' ''b/new'' = Inr ''/w/a/new''"
proof -
  have trim: "TrimSpace ''b/new'' = ''b/new''" by (rule TrimSpace_graphic) (simp_all add: graphic_def)
  have "resolveWriteScope sample_nodes ''/w'' ''b'' = Inr ''/w/a''"
    by (simp add: resolveWriteScope_def lstat_def EvalSymlinks_def eval_links_def writeScopePathWithin_def is_dir_def sample_nodes_def path_evaluate)
  moreover have "lstat sample_nodes ''/w/b/new'' = NotExist"
    by (simp add: lstat_def kernel_links_def is_dir_def sample_nodes_def path_evaluate)
  ultimately have "resolveTarget sample_nodes ''/w'' ''b/new'' = Inr ''/w/a/new''"
    by (simp add: resolveTarget_def writeScopePathWithin_def path_evaluate)
  then show ?thesis using sample_root trim
    by (simp add: ResolveWorkspaceWritePath_def outside_shape_def sample_host_def path_evaluate)
qed

theorem write_target_stays_inside_witness:
  "\<exists>r es. CanonicalDir sample_host ''/w'' = Inr (abs_path r) \<and> ''/w/a/new'' = abs_path es \<and> prefix r es \<and> no_links sample_nodes es"
  using write_target_stays_inside [OF _ _ sample_target] sample_wf by (simp add: sample_host_def)

definition backslash_target :: string where
  "backslash_target = ''m'' @ [CHR 0x5C] @ ''..'' @ [CHR 0x5C] @ ''link/x''"

text \<open>
  C21. A target with backslashes can lead out of the workspace. The target m, backslash, dot-dot, backslash,
  link/x, where link leaves the workspace, is accepted on Unix: Clean sees one long name, but the walk splits
  it at the backslashes, stops at the missing m, and the final join takes the dot-dot as a step up, so the
  path that is returned goes through the link, which was never looked at.
\<close>

theorem backslash_target_escapes:
  "ResolveWorkspaceWritePath sample_host ''/w'' backslash_target = Inr ''/w/link/x''
   \<and> follow sample_nodes kernel_links [] [''w'', ''link''] = OsOk [''etc'']"
proof -
  have trim: "TrimSpace backslash_target = backslash_target" 
    by (rule TrimSpace_graphic) (simp_all add: backslash_target_def graphic_def)
  have dir: "filepath_Dir backslash_target = ''m'' @ [CHR 0x5C] @ ''..'' @ [CHR 0x5C] @ ''link''"
    by (simp add: backslash_target_def path_evaluate)
  have "resolveWriteScope sample_nodes ''/w'' (filepath_Dir backslash_target) = Inr ''/w/link''" unfolding dir
    by (simp add: resolveWriteScope_def lstat_def writeScopePathWithin_def is_dir_def sample_nodes_def path_evaluate)
  moreover have "lstat sample_nodes (''/w/'' @ backslash_target) = NotExist"
    by (simp add: lstat_def is_dir_def sample_nodes_def path_evaluate backslash_target_def)
  ultimately have "resolveTarget sample_nodes ''/w'' backslash_target = Inr ''/w/link/x''"
    by (simp add: resolveTarget_def writeScopePathWithin_def path_evaluate backslash_target_def)
  then have "ResolveWorkspaceWritePath sample_host ''/w'' backslash_target = Inr ''/w/link/x''"
    using sample_root trim
    by (simp add: ResolveWorkspaceWritePath_def outside_shape_def sample_host_def path_evaluate backslash_target_def)
  moreover have "follow sample_nodes kernel_links [] [''w'', ''link''] = OsOk [''etc'']"
    by (simp add: kernel_links_def sample_nodes_def filepath_IsAbs_def)
  ultimately show ?thesis by blast
qed

end
