(* ===== verification/Workspace_Lock.thy ===== *)
theory Workspace_Lock
  imports Workspace_Path Encodings
begin

text \<open>
  The lock of a repository (internal/workspace/lock.go). A lock is a file whose name is derived from the
  canonical root; a lock file is its inode and what reading it yields. Acquire, Release and Status are
  sequences of file operations, so each is a program counter with one step per operation, and the whole
  call is the steps run one after the other. What the operating system answers to an operation beyond the
  content of the files, and SHA-256 and the time format, are parameters.
\<close>

section \<open>Data\<close>

definition LockSchemaVersion :: string where
  "LockSchemaVersion = ''rdev.workspace-lock.v1''"

definition DefaultLockTTL :: Duration where
  "DefaultLockTTL = 2 * 3600 * second_ns"

record Lock =
  lk_SchemaVersion :: string
  lk_LockID :: string
  lk_HostID :: string
  lk_TaskID :: string
  lk_RepoRoot :: string
  lk_WorktreePath :: string
  lk_BaseRef :: string
  lk_Branch :: string
  lk_OwnerAdapter :: string
  lk_CreatedAt :: Time
  lk_ExpiresAt :: Time

record LockOptions =
  lo_StoreDir :: string
  lo_RepoRoot :: string
  lo_HostID :: string
  lo_TaskID :: string
  lo_WorktreePath :: string
  lo_BaseRef :: string
  lo_Branch :: string
  lo_OwnerAdapter :: string
  lo_TTL :: Duration

record LockStatus =
  lst_StorePath :: string
  lst_Exists :: bool
  lst_Expired :: bool
  lst_Lock :: "Lock option"

datatype lock_error =
    LockTaskRequired | LockHostRequired | LockPath string | LockIO | LockNotExist
  | LockDecode | LockSchema string | ErrLocked | ErrOwnerMismatch

text \<open>A lock file that was created and not yet written holds no JSON value.\<close>

datatype lock_content = Unwritten | LockGarbled | LockContent Lock

type_synonym lock_files = "string \<rightharpoonup> nat \<times> lock_content"

record lock_host =
  lh_files :: host_files
  lh_sha256 :: "string \<Rightarrow> string"
  lh_RFC3339Nano :: "Time \<Rightarrow> string"
  lh_MkdirAll :: "string \<Rightarrow> bool"

text \<open>Which file operations of a call the operating system refuses; the first three by attempt.\<close>

record lock_faults =
  open_fails :: "nat \<Rightarrow> bool"
  read_fails :: "nat \<Rightarrow> bool"
  remove_fails :: "nat \<Rightarrow> bool"
  write_fails :: bool
  close_fails :: bool
  chmod_fails :: bool

definition no_faults :: lock_faults where
  "no_faults = \<lparr>open_fails = (\<lambda>_. False), read_fails = (\<lambda>_. False), remove_fails = (\<lambda>_. False),
     write_fails = False, close_fails = False, chmod_fails = False\<rparr>"

section \<open>Paths and identifiers\<close>

fun firstNonEmpty :: "string list \<Rightarrow> string" where
  "firstNonEmpty [] = []"
| "firstNonEmpty (value # values) = (if TrimSpace value \<noteq> [] then value else firstNonEmpty values)"

definition cleanOptionalPath :: "string \<Rightarrow> string" where
  "cleanOptionalPath path = (if TrimSpace path = [] then [] else filepath_Clean path)"

definition newLockID :: "lock_host \<Rightarrow> string \<Rightarrow> string \<Rightarrow> Time \<Rightarrow> string" where
  "newLockID L repoRoot taskID now =
     ''wlk_'' @ hex_EncodeToString (take 8 (lh_sha256 L (repoRoot @ [CHR 0x00] @ taskID @ [CHR 0x00] @ lh_RFC3339Nano L now)))"

definition lockPath :: "lock_host \<Rightarrow> string \<Rightarrow> string \<Rightarrow> string" where
  "lockPath L storeDir repoRoot =
     filepath_Join [storeDir, hex_EncodeToString (lh_sha256 L repoRoot) @ ''.json'']"

definition DefaultStoreDir :: "lock_host \<Rightarrow> string \<Rightarrow> lock_error + string" where
  "DefaultStoreDir L repoRoot =
     (case CanonicalDir (lh_files L) repoRoot of
        Inl e \<Rightarrow> Inl (LockPath e)
      | Inr root \<Rightarrow> Inr (filepath_Join [root, ''.rdev'', ''workspace-locks'']))"

definition readLock :: "bool \<Rightarrow> string \<Rightarrow> lock_files \<Rightarrow> lock_error + Lock" where
  "readLock refused path fs =
     (case fs path of
        None \<Rightarrow> Inl LockNotExist
      | Some (i, c) \<Rightarrow>
          if refused then Inl LockIO
          else
            (case c of
               Unwritten \<Rightarrow> Inl LockDecode
             | LockGarbled \<Rightarrow> Inl LockDecode
             | LockContent lock \<Rightarrow>
                 if lk_SchemaVersion lock \<noteq> LockSchemaVersion then Inl (LockSchema (lk_SchemaVersion lock)) else Inr lock))"

section \<open>Acquire\<close>

definition newLock :: "lock_host \<Rightarrow> LockOptions \<Rightarrow> string \<Rightarrow> Time \<Rightarrow> Lock" where
  "newLock L opts root now =
     (let ttl = (if lo_TTL opts \<le> 0 then DefaultLockTTL else lo_TTL opts) in
      \<lparr>lk_SchemaVersion = LockSchemaVersion, lk_LockID = newLockID L root (lo_TaskID opts) now,
       lk_HostID = lo_HostID opts, lk_TaskID = lo_TaskID opts, lk_RepoRoot = root,
       lk_WorktreePath = cleanOptionalPath (lo_WorktreePath opts), lk_BaseRef = TrimSpace (lo_BaseRef opts),
       lk_Branch = TrimSpace (lo_Branch opts), lk_OwnerAdapter = TrimSpace (lo_OwnerAdapter opts),
       lk_CreatedAt = now, lk_ExpiresAt = now + ttl\<rparr>)"

definition prepareLock :: "lock_host \<Rightarrow> string \<Rightarrow> LockOptions \<Rightarrow> Time \<Rightarrow> lock_error + (string \<times> Lock)" where
  "prepareLock L dir opts now =
     (if TrimSpace (lo_TaskID opts) = [] then Inl LockTaskRequired
      else if TrimSpace (lo_HostID opts) = [] then Inl LockHostRequired
      else
        (case CanonicalDir (lh_files L) (lo_RepoRoot opts) of
           Inl e \<Rightarrow> Inl (LockPath e)
         | Inr root \<Rightarrow>
             (let given = firstNonEmpty [lo_StoreDir opts, dir] in
              case (if given = [] then DefaultStoreDir L root else Inr given) of
                Inl e \<Rightarrow> Inl e
              | Inr storeDir \<Rightarrow>
                  if \<not> lh_MkdirAll L storeDir then Inl LockIO
                  else Inr (lockPath L storeDir root, newLock L opts root now))))"

datatype acquire_pc =
    AOpen nat | AWrite nat | AClose | AChmod | ADiscard | ARead nat | ARemove nat | AStop "lock_error option"

text \<open>A write reaches the path only while the path still names the file that was opened.\<close>

definition write_open :: "nat \<Rightarrow> string \<Rightarrow> lock_content \<Rightarrow> lock_files \<Rightarrow> lock_files" where
  "write_open i path c fs = (case fs path of Some (j, _) \<Rightarrow> if i = j then fs(path \<mapsto> (i, c)) else fs | None \<Rightarrow> fs)"

definition acquire_step ::
    "lock_faults \<Rightarrow> nat \<Rightarrow> string \<Rightarrow> Lock \<Rightarrow> Time \<Rightarrow> acquire_pc \<times> lock_files \<Rightarrow> acquire_pc \<times> lock_files" where
  "acquire_step F ino path lock now = (\<lambda>(pc, fs).
     case pc of
       AOpen attempt \<Rightarrow>
         if 2 \<le> attempt then (AStop (Some ErrLocked), fs)
         else if open_fails F attempt then (AStop (Some LockIO), fs)
         else if fs path = None then (AWrite ino, fs(path \<mapsto> (ino, Unwritten)))
         else (ARead attempt, fs)
     | AWrite i \<Rightarrow>
         if write_fails F then (ADiscard, write_open i path LockGarbled fs) else (AClose, write_open i path (LockContent lock) fs)
     | AClose \<Rightarrow> if close_fails F then (ADiscard, fs) else (AChmod, fs)
     | AChmod \<Rightarrow> (AStop (if chmod_fails F then Some LockIO else None), fs)
     | ADiscard \<Rightarrow> (AStop (Some LockIO), fs(path := None))
     | ARead attempt \<Rightarrow>
         (case readLock (read_fails F attempt) path fs of
            Inl e \<Rightarrow> (AStop (Some e), fs)
          | Inr existing \<Rightarrow>
              if now < lk_ExpiresAt existing then (AStop (Some ErrLocked), fs) else (ARemove attempt, fs))
     | ARemove attempt \<Rightarrow>
         if remove_fails F attempt \<and> fs path \<noteq> None then (AStop (Some LockIO), fs)
         else (AOpen (Suc attempt), fs(path := None))
     | AStop r \<Rightarrow> (AStop r, fs))"

text \<open>Undisturbed, a call ends after at most ten steps: two failed attempts and a third look at the counter.\<close>

definition acquire_fuel :: nat where "acquire_fuel = 10"

definition Acquire ::
    "lock_host \<Rightarrow> lock_faults \<Rightarrow> nat \<Rightarrow> string \<Rightarrow> LockOptions \<Rightarrow> Time \<Rightarrow> lock_files \<Rightarrow> (lock_error + Lock) \<times> lock_files" where
  "Acquire L F ino dir opts now fs =
     (case prepareLock L dir opts now of
        Inl e \<Rightarrow> (Inl e, fs)
      | Inr (path, lock) \<Rightarrow>
          (case (acquire_step F ino path lock now ^^ acquire_fuel) (AOpen 0, fs) of
             (AStop None, fs') \<Rightarrow> (Inr lock, fs')
           | (AStop (Some e), fs') \<Rightarrow> (Inl e, fs')
           | (_, fs') \<Rightarrow> (Inl ErrLocked, fs')))"

section \<open>Status and release\<close>

definition storePath :: "lock_host \<Rightarrow> string \<Rightarrow> string \<Rightarrow> lock_error + string" where
  "storePath L dir repoRoot =
     (case CanonicalDir (lh_files L) repoRoot of
        Inl e \<Rightarrow> Inl (LockPath e)
      | Inr root \<Rightarrow>
          (case (if dir = [] then DefaultStoreDir L root else Inr dir) of
             Inl e \<Rightarrow> Inl e
           | Inr storeDir \<Rightarrow> Inr (lockPath L storeDir root)))"

definition Lock_Status :: "lock_host \<Rightarrow> lock_faults \<Rightarrow> string \<Rightarrow> string \<Rightarrow> Time \<Rightarrow> lock_files \<Rightarrow> lock_error + LockStatus" where
  "Lock_Status L F dir repoRoot now fs =
     (case storePath L dir repoRoot of
        Inl e \<Rightarrow> Inl e
      | Inr path \<Rightarrow>
          (case readLock (read_fails F 0) path fs of
             Inl LockNotExist \<Rightarrow> Inr \<lparr>lst_StorePath = path, lst_Exists = False, lst_Expired = False, lst_Lock = None\<rparr>
           | Inl e \<Rightarrow> Inl e
           | Inr lock \<Rightarrow>
               Inr \<lparr>lst_StorePath = path, lst_Exists = True, lst_Expired = \<not> now < lk_ExpiresAt lock, lst_Lock = Some lock\<rparr>))"

datatype release_pc = RRead | RRemove Lock | RStop "lock_error + (Lock option)"

definition release_step ::
    "lock_faults \<Rightarrow> string \<Rightarrow> string \<Rightarrow> bool \<Rightarrow> release_pc \<times> lock_files \<Rightarrow> release_pc \<times> lock_files" where
  "release_step F path taskID force = (\<lambda>(pc, fs).
     case pc of
       RRead \<Rightarrow>
         (case readLock (read_fails F 0) path fs of
            Inl LockNotExist \<Rightarrow> (RStop (Inr None), fs)
          | Inl e \<Rightarrow> (RStop (Inl e), fs)
          | Inr lock \<Rightarrow>
              if \<not> force \<and> TrimSpace taskID \<noteq> [] \<and> lk_TaskID lock \<noteq> taskID then (RStop (Inl ErrOwnerMismatch), fs)
              else if \<not> force \<and> TrimSpace taskID = [] then (RStop (Inl ErrOwnerMismatch), fs)
              else (RRemove lock, fs))
     | RRemove lock \<Rightarrow>
         if remove_fails F 0 then (RStop (Inl LockIO), fs)
         else if fs path = None then (RStop (Inl LockNotExist), fs)
         else (RStop (Inr (Some lock)), fs(path := None))
     | RStop r \<Rightarrow> (RStop r, fs))"

definition Release ::
    "lock_host \<Rightarrow> lock_faults \<Rightarrow> string \<Rightarrow> string \<Rightarrow> string \<Rightarrow> bool \<Rightarrow> lock_files \<Rightarrow> (lock_error + Lock option) \<times> lock_files" where
  "Release L F dir repoRoot taskID force fs =
     (case storePath L dir repoRoot of
        Inl e \<Rightarrow> (Inl e, fs)
      | Inr path \<Rightarrow>
          (case (release_step F path taskID force ^^ 2) (RRead, fs) of
             (RStop r, fs') \<Rightarrow> (r, fs')
           | (_, fs') \<Rightarrow> (Inl LockIO, fs')))"

end
