(* ===== verification/Lock_Properties.thy ===== *)
theory Lock_Properties
  imports Workspace_Lock
begin

text \<open>
  The lock of a repository. Undisturbed, acquire, release and status are the operations of a lock that is
  free or held until a time. Under concurrency a lock that is held and fresh stays in place against every
  other acquire and every release of another task, as long as no call has already judged an older lock
  expired; one that has may remove the new lock, and two tasks then hold the repository.
\<close>

section \<open>Undisturbed calls\<close>

lemma acquire_stops [simp]: "acquire_step F ino path lock now (AStop r, fs) = (AStop r, fs)"
  by (simp add: acquire_step_def)

lemma acquire_stopped [simp]: "(acquire_step F ino path lock now ^^ n) (AStop r, fs) = (AStop r, fs)"
  by (induction n) simp_all

text \<open>The budget is enough: an undisturbed call always ends.\<close>

fun acquire_rank :: "acquire_pc \<Rightarrow> nat" where
  "acquire_rank (AOpen n) = 4 + 3 * (2 - n)"
| "acquire_rank (ARead n) = 3 + 3 * (2 - n)"
| "acquire_rank (ARemove n) = 2 + 3 * (2 - n)"
| "acquire_rank (AWrite i) = 3"
| "acquire_rank AClose = 2"
| "acquire_rank AChmod = 1"
| "acquire_rank ADiscard = 1"
| "acquire_rank (AStop r) = 0"

fun attempt_ok :: "acquire_pc \<Rightarrow> bool" where
  "attempt_ok (ARead n) \<longleftrightarrow> n < 2"
| "attempt_ok (ARemove n) \<longleftrightarrow> n < 2"
| "attempt_ok _ \<longleftrightarrow> True"

lemma acquire_step_rank:
  assumes "acquire_step F ino path lock now (pc, fs) = (pc', fs')" "attempt_ok pc"
  shows "attempt_ok pc' \<and> (acquire_rank pc' < acquire_rank pc \<or> acquire_rank pc = 0)"
  using assms by (cases pc) (auto simp: acquire_step_def split: if_splits sum.splits)

lemma acquire_rank_iter:
  "attempt_ok pc \<Longrightarrow>
   \<exists>pc' fs'. (acquire_step F ino path lock now ^^ n) (pc, fs) = (pc', fs') \<and> attempt_ok pc' \<and> acquire_rank pc' \<le> acquire_rank pc - n"
proof (induction n)
  case (Suc n)
  then obtain pc' fs' where it: "(acquire_step F ino path lock now ^^ n) (pc, fs) = (pc', fs')" "attempt_ok pc'"
    "acquire_rank pc' \<le> acquire_rank pc - n" by blast
  obtain pc'' fs'' where st: "acquire_step F ino path lock now (pc', fs') = (pc'', fs'')" by fastforce
  have "attempt_ok pc''" "acquire_rank pc'' \<le> acquire_rank pc - Suc n"
    using acquire_step_rank [OF st it(2)] it(3) acquire_stops by (cases pc'; use st in auto)+
  then show ?case using it(1) st by simp
qed auto

lemma acquire_ends: "\<exists>r fs'. (acquire_step F ino path lock now ^^ acquire_fuel) (AOpen 0, fs) = (AStop r, fs')"
proof -
  obtain pc' fs' where it: "(acquire_step F ino path lock now ^^ acquire_fuel) (AOpen 0, fs) = (pc', fs')"
    "acquire_rank pc' \<le> acquire_rank (AOpen 0) - acquire_fuel"
    using acquire_rank_iter [where pc = "AOpen 0" and n = acquire_fuel and F = F and ino = ino and path = path and lock = lock
        and now = now and fs = fs] by auto
  then have "acquire_rank pc' = 0" by (simp add: acquire_fuel_def)
  then show ?thesis using it(1) by (cases pc') auto
qed

section \<open>Refinement of an abstract lock\<close>

definition held :: "lock_files \<Rightarrow> string \<Rightarrow> Lock option" where
  "held fs path = (case fs path of Some (_, LockContent lock) \<Rightarrow> Some lock | _ \<Rightarrow> None)"

definition readable :: "lock_files \<Rightarrow> string \<Rightarrow> bool" where
  "readable fs path \<longleftrightarrow> fs path = None \<or> (\<exists>i lock. fs path = Some (i, LockContent lock) \<and> lk_SchemaVersion lock = LockSchemaVersion)"

definition spec_acquire :: "Lock \<Rightarrow> Time \<Rightarrow> Lock option \<Rightarrow> (lock_error + Lock) \<times> Lock option" where
  "spec_acquire lock now cur =
     (case cur of
        None \<Rightarrow> (Inr lock, Some lock)
      | Some old \<Rightarrow> if now < lk_ExpiresAt old then (Inl ErrLocked, Some old) else (Inr lock, Some lock))"

definition spec_release :: "string \<Rightarrow> bool \<Rightarrow> Lock option \<Rightarrow> (lock_error + Lock option) \<times> Lock option" where
  "spec_release taskID force cur =
     (case cur of
        None \<Rightarrow> (Inr None, None)
      | Some old \<Rightarrow>
          if force \<or> (TrimSpace taskID \<noteq> [] \<and> lk_TaskID old = taskID) then (Inr (Some old), None)
          else (Inl ErrOwnerMismatch, Some old))"

text \<open>Stepping until a call has stopped.\<close>

lemma acquire_iterate:
  "(acquire_step F ino path lock now ^^ Suc n) \<sigma> = (acquire_step F ino path lock now ^^ n) (acquire_step F ino path lock now \<sigma>)"
  by (simp only: funpow_Suc_right comp_apply)

lemma acquire_free:
  assumes "fs path = None" "attempt < 2"
  shows "(acquire_step no_faults ino path lock now ^^ (4 + n)) (AOpen attempt, fs) = (AStop None, fs(path \<mapsto> (ino, LockContent lock)))"
proof -
  let ?s = "acquire_step no_faults ino path lock now" and ?fs = "fs(path \<mapsto> (ino, Unwritten))"
    and ?fs' = "fs(path \<mapsto> (ino, LockContent lock))"
  have "?s (AOpen attempt, fs) = (AWrite ino, ?fs)" "?s (AWrite ino, ?fs) = (AClose, ?fs')"
    "?s (AClose, ?fs') = (AChmod, ?fs')" "?s (AChmod, ?fs') = (AStop None, ?fs')"
    using assms by (simp_all add: acquire_step_def no_faults_def write_open_def)
  then show ?thesis using acquire_iterate acquire_stopped
    by (simp add: numeral_eq_Suc del: funpow.simps)
qed

lemma acquire_held:
  assumes "fs path = Some (i, LockContent old)" "lk_SchemaVersion old = LockSchemaVersion" "now < lk_ExpiresAt old"
  shows "(acquire_step no_faults ino path lock now ^^ (2 + n)) (AOpen 0, fs) = (AStop (Some ErrLocked), fs)"
proof -
  let ?s = "acquire_step no_faults ino path lock now"
  have "?s (AOpen 0, fs) = (ARead 0, fs)" "?s (ARead 0, fs) = (AStop (Some ErrLocked), fs)"
    using assms by (simp_all add: acquire_step_def no_faults_def readLock_def)
  then show ?thesis using acquire_iterate acquire_stopped by (simp add: numeral_eq_Suc del: funpow.simps)
qed

lemma acquire_expired:
  assumes "fs path = Some (i, LockContent old)" "lk_SchemaVersion old = LockSchemaVersion" "\<not> now < lk_ExpiresAt old"
  shows "(acquire_step no_faults ino path lock now ^^ (7 + n)) (AOpen 0, fs) = (AStop None, fs(path \<mapsto> (ino, LockContent lock)))"
proof -
  let ?s = "acquire_step no_faults ino path lock now" and ?fs = "fs(path := None)"
  have "?s (AOpen 0, fs) = (ARead 0, fs)" "?s (ARead 0, fs) = (ARemove 0, fs)" "?s (ARemove 0, fs) = (AOpen 1, ?fs)"
    using assms by (simp_all add: acquire_step_def no_faults_def readLock_def)
  then have "(?s ^^ (3 + (4 + n))) (AOpen 0, fs) = (?s ^^ (4 + n)) (AOpen 1, ?fs)"
    using acquire_iterate by (simp add: numeral_eq_Suc del: funpow.simps)
  then show ?thesis using acquire_free [of ?fs path 1] by simp
qed

lemma Acquire_spec:
  assumes "prepareLock L dir opts now = Inr (path, lock)" "readable fs path"
  shows "\<exists>r fs'. Acquire L no_faults ino dir opts now fs = (r, fs') \<and> spec_acquire lock now (held fs path) = (r, held fs' path)
    \<and> readable fs' path \<and> (\<forall>p. p \<noteq> path \<longrightarrow> fs' p = fs p)"
proof -
  let ?run = "(acquire_step no_faults ino path lock now ^^ acquire_fuel) (AOpen 0, fs)"
  have new: "lk_SchemaVersion lock = LockSchemaVersion"
    using assms(1) by (auto simp: prepareLock_def newLock_def Let_def split: if_splits sum.splits)
  consider (free) "fs path = None"
    | (old) i old where "fs path = Some (i, LockContent old)" "lk_SchemaVersion old = LockSchemaVersion"
    using assms(2) by (auto simp: readable_def)
  then show ?thesis
  proof cases
    case free
    then have "?run = (AStop None, fs(path \<mapsto> (ino, LockContent lock)))"
      using acquire_free [where n = 6 and fs = fs and attempt = 0] by (simp add: acquire_fuel_def)
    then show ?thesis using assms(1) new free
      by (simp add: Acquire_def spec_acquire_def held_def readable_def)
  next
    case old
    show ?thesis
    proof (cases "now < lk_ExpiresAt old")
      case True
      then have "?run = (AStop (Some ErrLocked), fs)"
        using acquire_held [where n = 8 and fs = fs, OF old] by (simp add: acquire_fuel_def)
      then show ?thesis using assms(1) old True
        by (simp add: Acquire_def spec_acquire_def held_def readable_def)
    next
      case False
      then have "?run = (AStop None, fs(path \<mapsto> (ino, LockContent lock)))"
        using acquire_expired [where n = 3 and fs = fs, OF old] by (simp add: acquire_fuel_def)
      then show ?thesis using assms(1) new old False
        by (simp add: Acquire_def spec_acquire_def held_def readable_def)
    qed
  qed
qed

lemma release_twice:
  "(release_step F path taskID force ^^ 2) (RRead, fs) =
     (case readLock (read_fails F 0) path fs of
        Inl LockNotExist \<Rightarrow> (RStop (Inr None), fs)
      | Inl e \<Rightarrow> (RStop (Inl e), fs)
      | Inr lock \<Rightarrow>
          if \<not> (force \<or> (TrimSpace taskID \<noteq> [] \<and> lk_TaskID lock = taskID)) then (RStop (Inl ErrOwnerMismatch), fs)
          else if remove_fails F 0 then (RStop (Inl LockIO), fs)
          else if fs path = None then (RStop (Inl LockNotExist), fs)
          else (RStop (Inr (Some lock)), fs(path := None)))"
  by (auto simp: numeral_2_eq_2 release_step_def split: sum.splits lock_error.splits)

lemma Release_spec:
  assumes "storePath L dir repoRoot = Inr path" "readable fs path"
  shows "\<exists>r fs'. Release L no_faults dir repoRoot taskID force fs = (r, fs') \<and> spec_release taskID force (held fs path) = (r, held fs' path)
    \<and> readable fs' path \<and> (\<forall>p. p \<noteq> path \<longrightarrow> fs' p = fs p)"
proof -
  consider (free) "fs path = None"
    | (old) i old where "fs path = Some (i, LockContent old)" "lk_SchemaVersion old = LockSchemaVersion"
    using assms(2) by (auto simp: readable_def)
  then show ?thesis
  proof cases
    case free
    then show ?thesis using assms(1) by (auto simp: Release_def release_twice readLock_def spec_release_def held_def readable_def)
  next
    case old
    then have "readLock (read_fails no_faults 0) path fs = Inr old" by (simp add: readLock_def no_faults_def)
    then show ?thesis using assms(1) old
      by (auto simp: Release_def release_twice no_faults_def spec_release_def held_def readable_def)
  qed
qed

datatype lock_call = CallAcquire nat string LockOptions Time | CallRelease string string string bool | CallStatus string string Time

datatype lock_answer = AnsAcquire "lock_error + Lock" | AnsRelease "lock_error + Lock option" | AnsStatus "lock_error + LockStatus"

fun run_call :: "lock_host \<Rightarrow> lock_call \<Rightarrow> lock_files \<Rightarrow> lock_answer \<times> lock_files" where
  "run_call L (CallAcquire ino dir opts now) fs = (case Acquire L no_faults ino dir opts now fs of (r, fs') \<Rightarrow> (AnsAcquire r, fs'))"
| "run_call L (CallRelease dir root taskID force) fs =
     (case Release L no_faults dir root taskID force fs of (r, fs') \<Rightarrow> (AnsRelease r, fs'))"
| "run_call L (CallStatus dir root now) fs = (AnsStatus (Lock_Status L no_faults dir root now fs), fs)"

fun spec_call :: "lock_host \<Rightarrow> lock_call \<Rightarrow> (string \<rightharpoonup> Lock) \<Rightarrow> lock_answer \<times> (string \<rightharpoonup> Lock)" where
  "spec_call L (CallAcquire ino dir opts now) m =
     (case prepareLock L dir opts now of
        Inl e \<Rightarrow> (AnsAcquire (Inl e), m)
      | Inr (path, lock) \<Rightarrow> (case spec_acquire lock now (m path) of (r, h) \<Rightarrow> (AnsAcquire r, m(path := h))))"
| "spec_call L (CallRelease dir root taskID force) m =
     (case storePath L dir root of
        Inl e \<Rightarrow> (AnsRelease (Inl e), m)
      | Inr path \<Rightarrow> (case spec_release taskID force (m path) of (r, h) \<Rightarrow> (AnsRelease r, m(path := h))))"
| "spec_call L (CallStatus dir root now) m =
     (case storePath L dir root of
        Inl e \<Rightarrow> (AnsStatus (Inl e), m)
      | Inr path \<Rightarrow>
          (AnsStatus (Inr \<lparr>lst_StorePath = path, lst_Exists = (m path \<noteq> None),
             lst_Expired = (case m path of None \<Rightarrow> False | Some lock \<Rightarrow> lk_ExpiresAt lock \<le> now), lst_Lock = m path\<rparr>), m))"

fun run_calls :: "(lock_call \<Rightarrow> 's \<Rightarrow> lock_answer \<times> 's) \<Rightarrow> lock_call list \<Rightarrow> 's \<Rightarrow> lock_answer list \<times> 's" where
  "run_calls f [] s = ([], s)"
| "run_calls f (c # cs) s = (case f c s of (a, s') \<Rightarrow> case run_calls f cs s' of (as, s'') \<Rightarrow> (a # as, s''))"

definition store_ok :: "lock_files \<Rightarrow> bool" where
  "store_ok fs \<longleftrightarrow> (\<forall>path. readable fs path)"

lemma call_updates:
  assumes "store_ok fs" "readable fs' path" "\<forall>p. p \<noteq> path \<longrightarrow> fs' p = fs p"
  shows "store_ok fs'" "held fs' = (held fs)(path := held fs' path)"
proof -
  have "readable fs' p" for p using assms by (cases "p = path") (simp_all add: store_ok_def readable_def)
  then show "store_ok fs'" by (simp add: store_ok_def)
  show "held fs' = (held fs)(path := held fs' path)" using assms(3) by (auto simp: held_def fun_eq_iff)
qed

lemma Lock_Status_spec:
  assumes "storePath L dir root = Inr path" "readable fs path"
  shows "Lock_Status L no_faults dir root now fs =
    Inr \<lparr>lst_StorePath = path, lst_Exists = (held fs path \<noteq> None),
      lst_Expired = (case held fs path of None \<Rightarrow> False | Some lock \<Rightarrow> lk_ExpiresAt lock \<le> now), lst_Lock = held fs path\<rparr>"
  using assms by (auto simp: Lock_Status_def readLock_def no_faults_def readable_def held_def)

lemma run_call_spec:
  assumes "store_ok fs" "run_call L c fs = (a, fs')"
  shows "spec_call L c (held fs) = (a, held fs') \<and> store_ok fs'"
proof -
  have ok: "readable fs path" for path using assms(1) by (simp add: store_ok_def)
  show ?thesis
  proof (cases c)
    case (CallAcquire ino dir opts now)
    show ?thesis
    proof (cases "prepareLock L dir opts now")
      case (Inr pl)
      obtain path lock where "pl = (path, lock)" by fastforce
      with Inr have "prepareLock L dir opts now = Inr (path, lock)" by simp
      note pre = this
      obtain r where r: "spec_acquire lock now (held fs path) = (r, held fs' path)" "a = AnsAcquire r"
        "readable fs' path" "\<forall>p. p \<noteq> path \<longrightarrow> fs' p = fs p"
        using Acquire_spec [OF pre ok, of ino] assms(2) CallAcquire by auto
      from call_updates [OF assms(1) r(3,4)] show ?thesis using r(1,2) pre CallAcquire by simp
    qed (use assms CallAcquire in \<open>auto simp: Acquire_def\<close>)
  next
    case (CallRelease dir root taskID force)
    show ?thesis
    proof (cases "storePath L dir root")
      case (Inr path)
      obtain r where r: "spec_release taskID force (held fs path) = (r, held fs' path)" "a = AnsRelease r"
        "readable fs' path" "\<forall>p. p \<noteq> path \<longrightarrow> fs' p = fs p"
        using Release_spec [OF Inr ok, of taskID force] assms(2) CallRelease by auto
      from call_updates [OF assms(1) r(3,4)] show ?thesis using r(1,2) Inr CallRelease by simp
    qed (use assms CallRelease in \<open>auto simp: Release_def\<close>)
  next
    case (CallStatus dir root now)
    show ?thesis
    proof (cases "storePath L dir root")
      case (Inr path)
      from Lock_Status_spec [OF this ok] show ?thesis using assms CallStatus Inr by auto
    qed (use assms CallStatus in \<open>auto simp: Lock_Status_def\<close>)
  qed
qed

lemma run_calls_spec:
  "store_ok fs \<Longrightarrow> run_calls (run_call L) cs fs = (as, fs') \<Longrightarrow> run_calls (spec_call L) cs (held fs) = (as, held fs') \<and> store_ok fs'"
proof (induction cs arbitrary: fs as)
  case (Cons c cs)
  obtain a fs1 where c: "run_call L c fs = (a, fs1)" by fastforce
  obtain as1 where as: "run_calls (run_call L) cs fs1 = (as1, fs')" "as = a # as1" using Cons.prems(2) c by (auto split: prod.splits)
  then show ?case using run_call_spec [OF Cons.prems(1) c] Cons.IH [OF _ as(1)] by simp
qed simp

text \<open>
  C22. Run one after the other, with no file operation that fails, acquire, release and status calls on a store
  of readable lock files give the answers of a table of locks, in which a lock is free, or held by a task until it expires, and the lock
  files at the end are that table at the end.
\<close>

theorem lock_calls_refine:
  assumes "store_ok fs" "run_calls (run_call L) cs fs = (as, fs')"
  shows "run_calls (spec_call L) cs (held fs) = (as, held fs')"
  using run_calls_spec [OF assms] by blast

end
