(* ===== verification/Lock_System.thy ===== *)
theory Lock_System
  imports Lock_Properties Workspace_Target
begin

text \<open>
  The lock under concurrency: any number of acquire and release calls, each a program counter, take their
  file operations in any order. A call is started with what prepareLock or storePath computed for it.
\<close>

datatype lock_proc =
    Acquiring lock_faults string Lock Time acquire_pc
  | Releasing lock_faults string string bool release_pc

record lock_system =
  ls_files :: lock_files
  ls_inode :: nat
  ls_procs :: "nat \<rightharpoonup> lock_proc"

text \<open>\<open>calls\<close> says which calls may be made.\<close>

inductive lock_step :: "(lock_proc \<Rightarrow> bool) \<Rightarrow> lock_system \<Rightarrow> lock_system \<Rightarrow> bool"
  for calls :: "lock_proc \<Rightarrow> bool" where
  start_acquire:
    "ls_procs \<sigma> pid = None \<Longrightarrow> calls (Acquiring F path lock now (AOpen 0)) \<Longrightarrow>
     lock_step calls \<sigma> (\<sigma>\<lparr>ls_procs := (ls_procs \<sigma>)(pid \<mapsto> Acquiring F path lock now (AOpen 0))\<rparr>)"
| start_release:
    "ls_procs \<sigma> pid = None \<Longrightarrow> calls (Releasing F path taskID force RRead) \<Longrightarrow>
     lock_step calls \<sigma> (\<sigma>\<lparr>ls_procs := (ls_procs \<sigma>)(pid \<mapsto> Releasing F path taskID force RRead)\<rparr>)"
| acquire:
    "ls_procs \<sigma> pid = Some (Acquiring F path lock now pc) \<Longrightarrow>
     acquire_step F (ls_inode \<sigma>) path lock now (pc, ls_files \<sigma>) = (pc', fs') \<Longrightarrow>
     lock_step calls \<sigma> \<lparr>ls_files = fs', ls_inode = Suc (ls_inode \<sigma>),
       ls_procs = (ls_procs \<sigma>)(pid \<mapsto> Acquiring F path lock now pc')\<rparr>"
| release:
    "ls_procs \<sigma> pid = Some (Releasing F path taskID force pc) \<Longrightarrow>
     release_step F path taskID force (pc, ls_files \<sigma>) = (pc', fs') \<Longrightarrow>
     lock_step calls \<sigma> (\<sigma>\<lparr>ls_files := fs', ls_procs := (ls_procs \<sigma>)(pid \<mapsto> Releasing F path taskID force pc')\<rparr>)"

section \<open>A lock that is held\<close>

text \<open>
  The calls that respect a lock: an acquire made before it expires, a release for another task. A call has
  decided nothing against the lock while it is about to open, to read, or has stopped.
\<close>

fun honours :: "string \<Rightarrow> Lock \<Rightarrow> lock_proc \<Rightarrow> bool" where
  "honours path lock (Acquiring F path' new now pc) \<longleftrightarrow> path' \<noteq> path \<or> now < lk_ExpiresAt lock"
| "honours path lock (Releasing F path' taskID force pc) \<longleftrightarrow> path' \<noteq> path \<or> (\<not> force \<and> taskID \<noteq> lk_TaskID lock)"

fun undecided :: "string \<Rightarrow> lock_proc \<Rightarrow> bool" where
  "undecided path (Acquiring F path' new now pc) \<longleftrightarrow>
     path' \<noteq> path \<or> (case pc of AOpen n \<Rightarrow> True | ARead n \<Rightarrow> True | AStop r \<Rightarrow> True | _ \<Rightarrow> False)"
| "undecided path (Releasing F path' taskID force pc) \<longleftrightarrow> path' \<noteq> path \<or> (case pc of RRemove l \<Rightarrow> False | _ \<Rightarrow> True)"

fun won :: "string \<Rightarrow> lock_proc \<Rightarrow> bool" where
  "won path (Acquiring F path' new now pc) \<longleftrightarrow> path' = path \<and> pc = AStop None"
| "won path (Releasing F path' taskID force pc) \<longleftrightarrow> False"

definition lock_kept :: "string \<Rightarrow> nat \<Rightarrow> Lock \<Rightarrow> nat set \<Rightarrow> lock_system \<Rightarrow> bool" where
  "lock_kept path i lock winners \<sigma> \<longleftrightarrow>
     ls_files \<sigma> path = Some (i, LockContent lock) \<and> lk_SchemaVersion lock = LockSchemaVersion
     \<and> (\<forall>pid p. ls_procs \<sigma> pid = Some p \<longrightarrow> honours path lock p \<and> undecided path p \<and> (won path p \<longrightarrow> pid \<in> winners))"

lemma lock_kept_update:
  assumes "lock_kept path i lock winners \<sigma>" "ls_files \<tau> path = ls_files \<sigma> path" "ls_procs \<tau> = (ls_procs \<sigma>)(pid \<mapsto> p)"
    "honours path lock p \<and> undecided path p \<and> (won path p \<longrightarrow> pid \<in> winners)"
  shows "lock_kept path i lock winners \<tau>"
proof -
  have "honours path lock q \<and> undecided path q \<and> (won path q \<longrightarrow> pid' \<in> winners)" if "ls_procs \<tau> pid' = Some q" for pid' q
  proof (cases "pid' = pid")
    case True
    then show ?thesis using that assms(3,4) by simp
  next
    case False
    then show ?thesis using that assms(1,3) unfolding lock_kept_def by (metis fun_upd_other)
  qed
  then show ?thesis using assms(1,2) unfolding lock_kept_def by auto
qed

lemma acquire_other: "path' \<noteq> path \<Longrightarrow> acquire_step F ino path' lock now (pc, fs) = (pc', fs') \<Longrightarrow> fs' path = fs path"
  by (cases pc) (auto simp: acquire_step_def write_open_def split: if_splits sum.splits option.splits)

lemma release_other: "path' \<noteq> path \<Longrightarrow> release_step F path' taskID force (pc, fs) = (pc', fs') \<Longrightarrow> fs' path = fs path"
  by (cases pc) (auto simp: release_step_def split: if_splits sum.splits lock_error.splits)

lemma acquire_honours:
  assumes "fs path = Some (i, LockContent lock)" "lk_SchemaVersion lock = LockSchemaVersion" "now < lk_ExpiresAt lock"
    "undecided path (Acquiring F path new now pc)" "acquire_step F ino path new now (pc, fs) = (pc', fs')"
  shows "fs' path = fs path \<and> undecided path (Acquiring F path new now pc') \<and> (pc' = AStop None \<longrightarrow> pc = AStop None)"
  using assms by (cases pc) (auto simp: acquire_step_def readLock_def split: if_splits sum.splits)

lemma release_honours:
  assumes "fs path = Some (i, LockContent lock)" "lk_SchemaVersion lock = LockSchemaVersion" "\<not> force" "taskID \<noteq> lk_TaskID lock"
    "undecided path (Releasing F path taskID force pc)" "release_step F path taskID force (pc, fs) = (pc', fs')"
  shows "fs' path = fs path \<and> undecided path (Releasing F path taskID force pc')"
  using assms by (cases pc) (auto simp: release_step_def readLock_def split: if_splits)

lemma lock_kept_step:
  assumes "lock_step (honours path lock) \<sigma> \<tau>" "lock_kept path i lock winners \<sigma>"
  shows "lock_kept path i lock winners \<tau>"
  using assms(1)
proof cases
  case (start_acquire pid F path' new now)
  then show ?thesis by (intro lock_kept_update [OF assms(2), of _ pid "Acquiring F path' new now (AOpen 0)"]) simp_all
next
  case (start_release pid F path' taskID force)
  then show ?thesis by (intro lock_kept_update [OF assms(2), of _ pid "Releasing F path' taskID force RRead"]) simp_all
next
  case (acquire pid F path' new now pc pc' fs')
  have entry: "ls_files \<sigma> path = Some (i, LockContent lock)" "lk_SchemaVersion lock = LockSchemaVersion"
    and me: "honours path lock (Acquiring F path' new now pc)" "undecided path (Acquiring F path' new now pc)"
      "won path (Acquiring F path' new now pc) \<longrightarrow> pid \<in> winners"
    using assms(2) acquire(2) unfolding lock_kept_def by blast+
  have "fs' path = ls_files \<sigma> path \<and> undecided path (Acquiring F path' new now pc')
      \<and> (won path (Acquiring F path' new now pc') \<longrightarrow> pid \<in> winners)"
  proof (cases "path' = path")
    case True
    then have now: "now < lk_ExpiresAt lock" using me(1) by simp
    from acquire_honours [of "ls_files \<sigma>" path, OF entry this] have "fs' path = ls_files \<sigma> path"
      "undecided path (Acquiring F path' new now pc')" "pc' = AStop None \<longrightarrow> pc = AStop None"
      using acquire(3) me(2) True by blast+
    then show ?thesis using me(3) True by simp
  next
    case False
    then show ?thesis using acquire_other [OF False acquire(3)] by simp
  qed
  then show ?thesis using acquire(1) me(1)
    by (intro lock_kept_update [OF assms(2), of _ pid "Acquiring F path' new now pc'"]) simp_all
next
  case (release pid F path' taskID force pc pc' fs')
  have entry: "ls_files \<sigma> path = Some (i, LockContent lock)" "lk_SchemaVersion lock = LockSchemaVersion"
    and me: "honours path lock (Releasing F path' taskID force pc)" "undecided path (Releasing F path' taskID force pc)"
    using assms(2) release(2) unfolding lock_kept_def by blast+
  have "fs' path = ls_files \<sigma> path \<and> undecided path (Releasing F path' taskID force pc')"
  proof (cases "path' = path")
    case True
    then have "\<not> force" "taskID \<noteq> lk_TaskID lock" using me(1) by simp_all
    from release_honours [of "ls_files \<sigma>" path, OF entry this] show ?thesis using release(3) me(2) True by blast
  next
    case False
    then show ?thesis using release_other [OF False release(3)] by simp
  qed
  then show ?thesis using release(1) me(1)
    by (intro lock_kept_update [OF assms(2), of _ pid "Releasing F path' taskID force pc'"]) simp_all
qed

interpretation lock: inductive_invariant "lock_kept path i lock winners" "lock_step (honours path lock)" "lock_kept path i lock winners"
  for path i lock winners
  by unfold_locales (auto intro: lock_kept_step)

text \<open>
  C23. A lock that is held stays in its file, and no acquire but those that had already won wins the
  repository, along every interleaving of acquires made before the lock expires and releases for other
  tasks, provided no call was about to remove or rewrite the file when the run began.
\<close>

theorem held_lock_excludes:
  assumes "(lock_step (honours path lock))\<^sup>*\<^sup>* \<sigma> \<tau>"
    and "ls_files \<sigma> path = Some (i, LockContent lock)" "lk_SchemaVersion lock = LockSchemaVersion"
    and "\<And>pid p. ls_procs \<sigma> pid = Some p \<Longrightarrow> honours path lock p \<and> undecided path p"
  shows "ls_files \<tau> path = Some (i, LockContent lock)
    \<and> (\<forall>pid p. ls_procs \<tau> pid = Some p \<longrightarrow> won path p \<longrightarrow> (\<exists>q. ls_procs \<sigma> pid = Some q \<and> won path q))"
proof -
  let ?winners = "{pid. \<exists>q. ls_procs \<sigma> pid = Some q \<and> won path q}"
  have "lock_kept path i lock ?winners \<sigma>" using assms(2-4) by (auto simp: lock_kept_def)
  from lock.reachable_inv [OF this assms(1)] show ?thesis by (auto simp: lock_kept_def)
qed

section \<open>Concrete runs\<close>

definition sample_lock :: "string \<Rightarrow> Time \<Rightarrow> Time \<Rightarrow> Lock" where
  "sample_lock task from until =
     \<lparr>lk_SchemaVersion = LockSchemaVersion, lk_LockID = ''wlk_'' @ task, lk_HostID = ''h'', lk_TaskID = task, lk_RepoRoot = ''/w'',
      lk_WorktreePath = [], lk_BaseRef = [], lk_Branch = [], lk_OwnerAdapter = [], lk_CreatedAt = from, lk_ExpiresAt = until\<rparr>"

abbreviation acquirer :: "string \<Rightarrow> acquire_pc \<Rightarrow> lock_proc" where
  "acquirer task pc \<equiv> Acquiring no_faults ''k'' (sample_lock task 20 30) 20 pc"

text \<open>The holder is fresh until 30, and a second task tries to acquire at 20.\<close>

definition held_system :: lock_system where
  "held_system = \<lparr>ls_files = [''k'' \<mapsto> (0, LockContent (sample_lock ''t0'' 10 30))], ls_inode = 1,
     ls_procs = [0 \<mapsto> acquirer ''t1'' (AOpen 0)]\<rparr>"

lemma held_system_step:
  "lock_step (honours ''k'' (sample_lock ''t0'' 10 30)) held_system
     \<lparr>ls_files = ls_files held_system, ls_inode = 2, ls_procs = [0 \<mapsto> acquirer ''t1'' (ARead 0)]\<rparr>"
  using lock_step.acquire [of held_system 0 no_faults "''k''" "sample_lock ''t1'' 20 30" 20 "AOpen 0" "ARead 0" "ls_files held_system"]
  by (simp add: held_system_def acquire_step_def no_faults_def numeral_2_eq_2)

lemmas held_system_run = r_into_rtranclp [of "lock_step (honours ''k'' (sample_lock ''t0'' 10 30))", OF held_system_step]

theorem held_lock_excludes_witness:
  "ls_files \<lparr>ls_files = ls_files held_system, ls_inode = 2, ls_procs = [0 \<mapsto> acquirer ''t1'' (ARead 0)]\<rparr> ''k''
     = Some (0, LockContent (sample_lock ''t0'' 10 30))"
  using held_lock_excludes [OF held_system_run, of 0]
  by (simp add: held_system_def sample_lock_def split: if_splits)

text \<open>The same file, expired since 15, and two tasks that both acquire at 20.\<close>

definition race_system :: "nat \<Rightarrow> lock_files \<Rightarrow> acquire_pc \<Rightarrow> acquire_pc \<Rightarrow> lock_system" where
  "race_system n fs pc1 pc2 = \<lparr>ls_files = fs, ls_inode = n, ls_procs = [1 \<mapsto> acquirer ''t1'' pc1, 2 \<mapsto> acquirer ''t2'' pc2]\<rparr>"

lemma race_first:
  "acquire_step no_faults n ''k'' (sample_lock ''t1'' 20 30) 20 (pc, fs) = (pc', fs') \<Longrightarrow> m = Suc n \<Longrightarrow>
   lock_step calls (race_system n fs pc pc2) (race_system m fs' pc' pc2)"
  using lock_step.acquire [of "race_system n fs pc pc2" 1 no_faults "''k''" "sample_lock ''t1'' 20 30" 20 pc pc' fs' calls]
  by (simp add: race_system_def fun_upd_twist)

lemma race_second:
  "acquire_step no_faults n ''k'' (sample_lock ''t2'' 20 30) 20 (pc, fs) = (pc', fs') \<Longrightarrow> m = Suc n \<Longrightarrow>
   lock_step calls (race_system n fs pc1 pc) (race_system m fs' pc1 pc')"
  using lock_step.acquire [of "race_system n fs pc1 pc" 2 no_faults "''k''" "sample_lock ''t2'' 20 30" 20 pc pc' fs' calls]
  by (simp add: race_system_def)

abbreviation one_file :: "nat \<Rightarrow> lock_content \<Rightarrow> lock_files" where
  "one_file i c \<equiv> [''k'' \<mapsto> (i, c)]"

lemmas race_defs = acquire_step_def readLock_def no_faults_def sample_lock_def write_open_def

text \<open>Both tasks read the old lock and decide to remove it; the first does, and wins.\<close>

definition old_lock :: lock_files where "old_lock = one_file 0 (LockContent (sample_lock ''t0'' 0 15))"

definition new_lock :: "nat \<Rightarrow> string \<Rightarrow> lock_files" where "new_lock i task = one_file i (LockContent (sample_lock task 20 30))"

lemma race_begins: "(lock_step calls)\<^sup>*\<^sup>* (race_system 1 old_lock (AOpen 0) (AOpen 0)) (race_system 5 old_lock (ARemove 0) (ARemove 0))"
proof -
  let ?r = "\<lambda>n. race_system n old_lock"
  have "(lock_step calls)\<^sup>*\<^sup>* (?r 1 (AOpen 0) (AOpen 0)) (?r 1 (AOpen 0) (AOpen 0))" by simp
  also have "lock_step calls (?r 1 (AOpen 0) (AOpen 0)) (?r 2 (ARead 0) (AOpen 0))"
    by (rule race_first) (simp_all add: old_lock_def race_defs)
  also have "lock_step calls (?r 2 (ARead 0) (AOpen 0)) (?r 3 (ARead 0) (ARead 0))"
    by (rule race_second) (simp_all add: old_lock_def race_defs)
  also have "lock_step calls (?r 3 (ARead 0) (ARead 0)) (?r 4 (ARemove 0) (ARead 0))"
    by (rule race_first) (simp_all add: old_lock_def race_defs)
  also have "lock_step calls (?r 4 (ARemove 0) (ARead 0)) (?r 5 (ARemove 0) (ARemove 0))"
    by (rule race_second) (simp_all add: old_lock_def race_defs)
  finally show ?thesis .
qed

lemma race_first_wins:
  "(lock_step calls)\<^sup>*\<^sup>* (race_system 5 old_lock (ARemove 0) pc2) (race_system 10 (new_lock 6 ''t1'') (AStop None) pc2)"
proof -
  have "(lock_step calls)\<^sup>*\<^sup>* (race_system 5 old_lock (ARemove 0) pc2) (race_system 5 old_lock (ARemove 0) pc2)" by simp
  also have "lock_step calls (race_system 5 old_lock (ARemove 0) pc2) (race_system 6 Map.empty (AOpen 1) pc2)"
    by (rule race_first) (simp_all add: old_lock_def race_defs)
  also have "lock_step calls (race_system 6 Map.empty (AOpen 1) pc2) (race_system 7 (one_file 6 Unwritten) (AWrite 6) pc2)"
    by (rule race_first) (simp_all add: race_defs)
  also have "lock_step calls (race_system 7 (one_file 6 Unwritten) (AWrite 6) pc2) (race_system 8 (new_lock 6 ''t1'') AClose pc2)"
    by (rule race_first) (simp_all add: new_lock_def race_defs)
  also have "lock_step calls (race_system 8 (new_lock 6 ''t1'') AClose pc2) (race_system 9 (new_lock 6 ''t1'') AChmod pc2)"
    by (rule race_first) (simp_all add: race_defs)
  also have "lock_step calls (race_system 9 (new_lock 6 ''t1'') AChmod pc2) (race_system 10 (new_lock 6 ''t1'') (AStop None) pc2)"
    by (rule race_first) (simp_all add: race_defs)
  finally show ?thesis .
qed

text \<open>The second goes on with its decision: it removes the first's lock.\<close>

lemma race_second_wins:
  "(lock_step calls)\<^sup>*\<^sup>* (race_system 10 (new_lock 6 ''t1'') pc1 (ARemove 0)) (race_system 15 (new_lock 11 ''t2'') pc1 (AStop None))"
proof -
  have "(lock_step calls)\<^sup>*\<^sup>* (race_system 10 (new_lock 6 ''t1'') pc1 (ARemove 0)) (race_system 10 (new_lock 6 ''t1'') pc1 (ARemove 0))" by simp
  also have "lock_step calls (race_system 10 (new_lock 6 ''t1'') pc1 (ARemove 0)) (race_system 11 Map.empty pc1 (AOpen 1))"
    by (rule race_second) (simp_all add: new_lock_def race_defs)
  also have "lock_step calls (race_system 11 Map.empty pc1 (AOpen 1)) (race_system 12 (one_file 11 Unwritten) pc1 (AWrite 11))"
    by (rule race_second) (simp_all add: race_defs)
  also have "lock_step calls (race_system 12 (one_file 11 Unwritten) pc1 (AWrite 11)) (race_system 13 (new_lock 11 ''t2'') pc1 AClose)"
    by (rule race_second) (simp_all add: new_lock_def race_defs)
  also have "lock_step calls (race_system 13 (new_lock 11 ''t2'') pc1 AClose) (race_system 14 (new_lock 11 ''t2'') pc1 AChmod)"
    by (rule race_second) (simp_all add: race_defs)
  also have "lock_step calls (race_system 14 (new_lock 11 ''t2'') pc1 AChmod) (race_system 15 (new_lock 11 ''t2'') pc1 (AStop None))"
    by (rule race_second) (simp_all add: race_defs)
  finally show ?thesis .
qed

text \<open>
  C24. Two tasks that find the same expired lock can both win: both read it, the first removes it and
  acquires the repository, and the second then removes the first's fresh lock and acquires it too.
\<close>

theorem expired_lock_race:
  "(lock_step calls)\<^sup>*\<^sup>* (race_system 1 old_lock (AOpen 0) (AOpen 0)) (race_system 10 (new_lock 6 ''t1'') (AStop None) (ARemove 0))
   \<and> (lock_step calls)\<^sup>*\<^sup>* (race_system 10 (new_lock 6 ''t1'') (AStop None) (ARemove 0))
      (race_system 15 (new_lock 11 ''t2'') (AStop None) (AStop None))"
  using rtranclp_trans [OF race_begins race_first_wins] race_second_wins by blast

text \<open>Two tasks that acquire one after the other within two hours: the first wins, the second is told the repository is locked.\<close>

definition sample_lock_host :: lock_host where
  "sample_lock_host = \<lparr>lh_files = sample_host, lh_sha256 = (\<lambda>s. s), lh_RFC3339Nano = dec_int, lh_MkdirAll = (\<lambda>_. True)\<rparr>"

definition sample_options :: "string \<Rightarrow> LockOptions" where
  "sample_options task = \<lparr>lo_StoreDir = ''/locks'', lo_RepoRoot = ''/w'', lo_HostID = ''h'', lo_TaskID = task, lo_WorktreePath = [],
     lo_BaseRef = [], lo_Branch = [], lo_OwnerAdapter = [], lo_TTL = 0\<rparr>"

definition sample_calls :: "lock_call list" where
  "sample_calls = [CallAcquire 0 [] (sample_options ''t1'') 0, CallAcquire 1 [] (sample_options ''t2'') 1]"

lemma sample_prepare:
  assumes "task = ''t1'' \<or> task = ''t2''"
  shows "prepareLock sample_lock_host [] (sample_options task) now
    = Inr (lockPath sample_lock_host ''/locks'' ''/w'', newLock sample_lock_host (sample_options task) ''/w'' now)"
proof -
  have "TrimSpace task = task" by (rule TrimSpace_graphic) (use assms in \<open>auto simp: graphic_def\<close>)
  moreover have "TrimSpace ''h'' = ''h''" "TrimSpace ''/locks'' = ''/locks''" by (rule TrimSpace_graphic; simp add: graphic_def)+
  ultimately show ?thesis using assms sample_root by (auto simp: prepareLock_def sample_options_def sample_lock_host_def Let_def)
qed

lemma sample_spec:
  "fst (run_calls (spec_call sample_lock_host) sample_calls Map.empty)
     = [AnsAcquire (Inr (newLock sample_lock_host (sample_options ''t1'') ''/w'' 0)), AnsAcquire (Inl ErrLocked)]"
proof -
  have "1 < lk_ExpiresAt (newLock sample_lock_host (sample_options ''t1'') ''/w'' 0)"
    by (simp add: newLock_def sample_options_def DefaultLockTTL_def second_ns_def)
  then show ?thesis by (simp add: sample_calls_def sample_prepare spec_acquire_def)
qed

theorem lock_calls_refine_witness:
  "fst (run_calls (run_call sample_lock_host) sample_calls Map.empty)
     = [AnsAcquire (Inr (newLock sample_lock_host (sample_options ''t1'') ''/w'' 0)), AnsAcquire (Inl ErrLocked)]"
proof -
  have empty: "store_ok Map.empty" "held Map.empty = Map.empty" by (auto simp: store_ok_def readable_def held_def)
  show ?thesis
    using lock_calls_refine [OF empty(1) prod.collapse [symmetric], of sample_lock_host sample_calls] sample_spec empty(2) by simp
qed

end
