(* ===== verification/Operator_Auth.thy ===== *)
theory Operator_Auth
  imports Trust Go_Path "HOL-Library.List_Lexorder" "HOL-Library.Char_ord"
begin

text \<open>
  Operator authentication (internal/operatorauth/auth.go): principals with roles and hashed tokens, and the
  authorizer that answers bearer headers from its principals and then from its hosted sources. SHA-256 and
  the Unicode tables are parameters, and so is each hosted source, through the interface it implements.
\<close>

section \<open>Principals and roles\<close>

definition OperatorAuthSchemaVersion :: string where
  "OperatorAuthSchemaVersion = ''rdev.operator-auth.v1''"

definition RoleAdmin :: string where "RoleAdmin = ''admin''"
definition RoleOperator :: string where "RoleOperator = ''operator''"
definition RoleIssuer :: string where "RoleIssuer = ''issuer''"
definition RoleAuditor :: string where "RoleAuditor = ''auditor''"

lemmas role_names = RoleAdmin_def RoleOperator_def RoleIssuer_def RoleAuditor_def

record Principal =
  pr_ID :: string
  pr_Roles :: "string list"
  pr_TokenHash :: string

record AuthFile =
  af_SchemaVersion :: string
  af_HashAlg :: string
  af_Principals :: "Principal list"
  af_CreatedAt :: string

datatype auth_error = AuthText string | AuthDuplicate string | AuthIO | AuthDecode | AuthRand

text \<open>The roles kept so far are both the slice and the set \<open>seen\<close>; a role is kept at its first occurrence.\<close>

fun keepRoles :: "unicode \<Rightarrow> string list \<Rightarrow> string list \<Rightarrow> string list" where
  "keepRoles U kept [] = kept"
| "keepRoles U kept (role0 # roles) =
     (let role = TrimSpace (ToLower U role0) in
      if role = [] \<or> role \<in> set kept then keepRoles U kept roles
      else if role \<in> {RoleAdmin, RoleOperator, RoleIssuer, RoleAuditor} then keepRoles U (kept @ [role]) roles
      else keepRoles U kept roles)"

definition normalizeRoles :: "unicode \<Rightarrow> string list \<Rightarrow> string list" where
  "normalizeRoles U roles = sort (keepRoles U [] roles)"

definition principalHasRole :: "Principal \<Rightarrow> string list \<Rightarrow> bool" where
  "principalHasRole prin allowedRoles =
     (if allowedRoles = [] then True
      else if RoleAdmin \<in> set (pr_Roles prin) then True
      else list_ex (\<lambda>role. role \<in> set (pr_Roles prin)) allowedRoles)"

definition hex_char :: "char \<Rightarrow> bool" where
  "hex_char c \<longleftrightarrow> c \<in> set ''0123456789abcdefABCDEF''"

text \<open>hex.DecodeString fails on an odd number of digits or on another character.\<close>

definition validateHash :: "string \<Rightarrow> auth_error option" where
  "validateHash value =
     (if \<not> prefix ''sha256:'' value then Some (AuthText ''token_hash must use sha256:<hex>'')
      else
        (let hexPart = drop 7 value in
         if length hexPart \<noteq> 64 then Some (AuthText ''token_hash must contain a 32-byte SHA-256 digest'')
         else if \<not> list_all hex_char hexPart then Some (AuthText ''token_hash has invalid hex'')
         else None))"

definition HashToken :: "crypto \<Rightarrow> string \<Rightarrow> string" where
  "HashToken C token = ''sha256:'' @ hex_EncodeToString (sha256_Sum256 C token)"

section \<open>Construction\<close>

fun normalizePrincipals :: "unicode \<Rightarrow> Principal list \<Rightarrow> Principal list \<Rightarrow> auth_error + Principal list" where
  "normalizePrincipals U kept [] = Inr kept"
| "normalizePrincipals U kept (principal0 # principals) =
     (let prin = principal0\<lparr>pr_ID := TrimSpace (pr_ID principal0), pr_TokenHash := TrimSpace (pr_TokenHash principal0),
            pr_Roles := normalizeRoles U (pr_Roles principal0)\<rparr> in
      if pr_ID prin = [] then Inl (AuthText ''operator principal id is required'')
      else if pr_ID prin \<in> pr_ID ` set kept then Inl (AuthDuplicate (pr_ID prin))
      else if pr_Roles prin = [] then Inl (AuthText ''operator principal requires at least one role'')
      else if pr_TokenHash prin = [] then Inl (AuthText ''operator principal requires token_hash'')
      else
        (case validateHash (pr_TokenHash prin) of
           Some e \<Rightarrow> Inl e
         | None \<Rightarrow> normalizePrincipals U (kept @ [prin]) principals))"

definition NewPrincipals :: "unicode \<Rightarrow> Principal list \<Rightarrow> auth_error + Principal list" where
  "NewPrincipals U principals =
     (if principals = [] then Inl (AuthText ''operator auth requires at least one principal'')
      else normalizePrincipals U [] principals)"

text \<open>A hosted source answers whether it is enabled and, at a time, whether a header has one of the roles.\<close>

record 's Authorizer =
  az_principals :: "Principal list"
  az_hosted :: "'s list"

definition NewAuthorizer :: "unicode \<Rightarrow> Principal list \<Rightarrow> auth_error + 's Authorizer" where
  "NewAuthorizer U principals =
     (case NewPrincipals U principals of
        Inl e \<Rightarrow> Inl e
      | Inr normalized \<Rightarrow> Inr \<lparr>az_principals = normalized, az_hosted = []\<rparr>)"

text \<open>A nil source is None.\<close>

definition NewCombinedSources ::
    "unicode \<Rightarrow> ('s \<Rightarrow> bool) \<Rightarrow> Principal list \<Rightarrow> 's option list \<Rightarrow> auth_error + 's Authorizer" where
  "NewCombinedSources U enabled principals hosted =
     (if principals = [] \<and> hosted = [] then Inl (AuthText ''operator auth requires at least one principal or hosted issuer'')
      else
        (case (if principals \<noteq> [] then NewAuthorizer U principals else Inr \<lparr>az_principals = [], az_hosted = []\<rparr>) of
           Inl e \<Rightarrow> Inl e
         | Inr auth0 \<Rightarrow>
             (let auth = auth0\<lparr>az_hosted := az_hosted auth0 @ filter enabled (List.map_filter (\<lambda>s. s) hosted)\<rparr> in
              if az_principals auth = [] \<and> az_hosted auth = []
              then Inl (AuthText ''operator auth requires at least one enabled auth source'') else Inr auth)))"

text \<open>Reading the file and decoding its JSON yield \<open>content\<close>.\<close>

definition Load :: "unicode \<Rightarrow> (auth_error + AuthFile) \<Rightarrow> auth_error + ('s Authorizer \<times> AuthFile)" where
  "Load U content =
     (case content of
        Inl e \<Rightarrow> Inl e
      | Inr file' \<Rightarrow>
          if af_SchemaVersion file' \<noteq> OperatorAuthSchemaVersion then Inl (AuthText ''unsupported operator auth schema'')
          else if af_HashAlg file' \<noteq> ''sha256'' then Inl (AuthText ''unsupported operator auth hash algorithm'')
          else (case NewAuthorizer U (af_Principals file') of Inl e \<Rightarrow> Inl e | Inr auth \<Rightarrow> Inr (auth, file')))"

section \<open>Bearer headers\<close>

text \<open>The token of a header, as each source reads it: None when the header is not a bearer header or is empty.\<close>

definition bearer_token :: "string \<Rightarrow> string option" where
  "bearer_token header =
     (if \<not> prefix ''Bearer '' header then None
      else (let token = TrimSpace (drop 7 header) in if token = [] then None else Some token))"

definition Authorizer_Enabled :: "'s Authorizer option \<Rightarrow> bool" where
  "Authorizer_Enabled a = (case a of None \<Rightarrow> False | Some auth \<Rightarrow> az_principals auth \<noteq> [] \<or> az_hosted auth \<noteq> [])"

definition Authorizer_AuthorizeBearer ::
    "crypto \<Rightarrow> ('s \<Rightarrow> string \<Rightarrow> string list \<Rightarrow> bool) \<Rightarrow> 's Authorizer option \<Rightarrow> string \<Rightarrow> string list \<Rightarrow> bool" where
  "Authorizer_AuthorizeBearer C hostedAuthorize a header allowedRoles =
     (if \<not> Authorizer_Enabled a then True
      else
        (case a of
           None \<Rightarrow> True
         | Some auth \<Rightarrow>
             (case bearer_token header of
                None \<Rightarrow> False
              | Some token \<Rightarrow>
                  (let hash = HashToken C token in
                   case find (\<lambda>prin. pr_TokenHash prin = hash) (az_principals auth) of
                     Some prin \<Rightarrow> principalHasRole prin allowedRoles
                   | None \<Rightarrow> list_ex (\<lambda>source. hostedAuthorize source header allowedRoles) (az_hosted auth)))))"

section \<open>Initial operators\<close>

definition GenerateToken :: "(nat \<Rightarrow> u8) option \<Rightarrow> string option" where
  "GenerateToken r = map_option (\<lambda>raw. ''rdev_'' @ base64url_encode (map (\<lambda>i. char_of (unat (raw i))) [0..<32])) r"

definition default_specs :: "(string \<times> string list) list" where
  "default_specs = [(''admin'', [RoleAdmin]), (''operator'', [RoleOperator]), (''issuer'', [RoleIssuer]), (''auditor'', [RoleAuditor])]"

fun initPrincipals ::
    "crypto \<Rightarrow> ((nat \<Rightarrow> u8) option) list \<Rightarrow> (string \<times> string list) list \<Rightarrow> auth_error + (Principal list \<times> (string \<times> string) list)" where
  "initPrincipals C draws [] = Inr ([], [])"
| "initPrincipals C [] (spec # specs) = Inl AuthRand"
| "initPrincipals C (draw # draws) ((name, roles) # specs) =
     (case GenerateToken draw of
        None \<Rightarrow> Inl AuthRand
      | Some token \<Rightarrow>
          (case initPrincipals C draws specs of
             Inl e \<Rightarrow> Inl e
           | Inr (principals, tokens) \<Rightarrow>
               Inr (\<lparr>pr_ID = name, pr_Roles = roles, pr_TokenHash = HashToken C token\<rparr> # principals, (name, token) # tokens)))"

text \<open>\<open>createdAt\<close> is the time in RFC 3339; the second component is the map of tokens by principal.\<close>

definition InitDefault :: "crypto \<Rightarrow> ((nat \<Rightarrow> u8) option) list \<Rightarrow> string \<Rightarrow> auth_error + (AuthFile \<times> (string \<times> string) list)" where
  "InitDefault C draws createdAt =
     (case initPrincipals C draws default_specs of
        Inl e \<Rightarrow> Inl e
      | Inr (principals, tokens) \<Rightarrow>
          Inr (\<lparr>af_SchemaVersion = OperatorAuthSchemaVersion, af_HashAlg = ''sha256'', af_Principals = principals, af_CreatedAt = createdAt\<rparr>,
               tokens))"

end
