(* ===== verification/Operator_Sources.thy ===== *)
theory Operator_Sources
  imports Operator_Auth
begin

text \<open>
  The hosted sources of operator authentication (internal/operatorauth/hosted.go, oidc_jwks.go, saml.go):
  JWTs signed with Ed25519 or RSA keys, and SAML responses. JSON, RSA, URL parsing, the HTTP response that
  carries the keys, PEM and X.509, and the SAML library are parameters. Of a decoded JSON object a source
  reads strings, numbers and lists, so an object is a map to dynamic values.
\<close>

section \<open>Claims\<close>

type_synonym claims = "string \<rightharpoonup> goval"

record jwt_codec =
  jc_Header :: "string \<Rightarrow> (string \<times> string) option"
  jc_Object :: "string \<Rightarrow> claims option"
  jc_Marshal :: "claims \<Rightarrow> string option"

definition string_claim :: "goval option \<Rightarrow> string" where
  "string_claim v = (case v of Some (GString s) \<Rightarrow> s | _ \<Rightarrow> [])"

definition int64Claim :: "goval option \<Rightarrow> int" where
  "int64Claim v = (case v of Some (GFloat64 w) \<Rightarrow> int_of_float64 w | Some (GInt64 n) \<Rightarrow> n | _ \<Rightarrow> 0)"

fun word_of :: "string \<Rightarrow> string \<times> string" where
  "word_of [] = ([], [])"
| "word_of (c # s) =
     (if list_ex (\<lambda>w. prefix w (c # s)) white_space then ([], c # s)
      else (case word_of s of (w, rest) \<Rightarrow> (c # w, rest)))"

lemma word_of_length: "length (fst (word_of s)) + length (snd (word_of s)) = length s"
  by (induction s) (auto split: prod.splits)

lemma strip_left_length: "length (strip_left ws s) \<le> length s"
  using strip_left_suffix [of ws s] by (rule suffix_length_le)

text \<open>strings.Fields: the maximal words between white space.\<close>

function string_fields :: "string \<Rightarrow> string list" where
  "string_fields s =
     (let t = TrimLeftSpace s in
      if fst (word_of t) = [] then [] else fst (word_of t) # string_fields (snd (word_of t)))"
  by pat_completeness auto
termination
proof (relation "measure length", goal_cases)
  case (2 s t)
  have "length (TrimLeftSpace s) \<le> length s" unfolding TrimLeftSpace_def by (rule strip_left_length)
  moreover have "length (fst (word_of t)) > 0" using 2 by simp
  moreover have "length t = length (TrimLeftSpace s)" using 2(1) by simp
  ultimately have "length (snd (word_of t)) < length s" using word_of_length [of t] by linarith
  then show ?case by simp
qed simp

declare string_fields.simps [simp del]

fun role_texts :: "goval list \<Rightarrow> string list option" where
  "role_texts [] = Some []"
| "role_texts (GString s # vs) = map_option ((#) s) (role_texts vs)"
| "role_texts (_ # vs) = None"

definition rolesClaimValues :: "goval option \<Rightarrow> string list option" where
  "rolesClaimValues v =
     (case v of Some (GList vs) \<Rightarrow> role_texts vs | Some (GString s) \<Rightarrow> Some (string_fields s) | _ \<Rightarrow> None)"

text \<open>A time of the Unix epoch: the zero time is 62135596800 seconds before it.\<close>

definition Unix :: "Time \<Rightarrow> int" where
  "Unix t = t div second_ns - 62135596800"

section \<open>Hosted issuer\<close>

definition HostedSchemaVersion :: string where
  "HostedSchemaVersion = ''rdev.hosted-operator-auth.v1''"

record HostedAuthKey =
  hk_KeyID :: string
  hk_PublicKey :: string

record HostedFile =
  hf_SchemaVersion :: string
  hf_Issuer :: string
  hf_Audience :: string
  hf_RolesClaim :: string
  hf_Keys :: "HostedAuthKey list"

record HostedIssuer =
  hi_issuer :: string
  hi_audience :: string
  hi_rolesClaim :: string
  hi_keys :: "(string \<times> string) list"

record HostedClaims =
  hc_Issuer :: string
  hc_Subject :: string
  hc_Audience :: string
  hc_ExpiresAt :: int
  hc_NotBefore :: int
  hc_IssuedAt :: int
  hc_Roles :: "string list"

definition decodePublicKey :: "string \<Rightarrow> auth_error + string" where
  "decodePublicKey value =
     (case base64url_decode (TrimSpace value) of
        None \<Rightarrow> Inl AuthDecode
      | Some raw \<Rightarrow> if length raw \<noteq> PublicKeySize then Inl (AuthText ''public key must be 32 bytes'') else Inr raw)"

definition EncodePublicKey :: "string \<Rightarrow> string" where
  "EncodePublicKey publicKey = base64url_encode publicKey"

fun hostedKeys :: "(string \<times> string) list \<Rightarrow> HostedAuthKey list \<Rightarrow> auth_error + (string \<times> string) list" where
  "hostedKeys kept [] = Inr kept"
| "hostedKeys kept (key # keys) =
     (let kid = TrimSpace (hk_KeyID key) in
      if kid = [] then Inl (AuthText ''hosted operator auth key_id is required'')
      else if map_of kept kid \<noteq> None then Inl (AuthDuplicate kid)
      else
        (case decodePublicKey (hk_PublicKey key) of
           Inl e \<Rightarrow> Inl e
         | Inr publicKey \<Rightarrow> hostedKeys (kept @ [(kid, publicKey)]) keys))"

definition NewHostedIssuer :: "HostedFile \<Rightarrow> auth_error + HostedIssuer" where
  "NewHostedIssuer file' =
     (let issuer = TrimSpace (hf_Issuer file'); audience = TrimSpace (hf_Audience file');
          rolesClaim0 = TrimSpace (hf_RolesClaim file');
          rolesClaim = (if rolesClaim0 = [] then ''roles'' else rolesClaim0) in
      if hf_SchemaVersion file' \<noteq> HostedSchemaVersion then Inl (AuthText ''unsupported hosted operator auth schema'')
      else if issuer = [] then Inl (AuthText ''hosted operator auth issuer is required'')
      else if audience = [] then Inl (AuthText ''hosted operator auth audience is required'')
      else if hf_Keys file' = [] then Inl (AuthText ''hosted operator auth requires at least one public key'')
      else
        (case hostedKeys [] (hf_Keys file') of
           Inl e \<Rightarrow> Inl e
         | Inr keys \<Rightarrow> Inr \<lparr>hi_issuer = issuer, hi_audience = audience, hi_rolesClaim = rolesClaim, hi_keys = keys\<rparr>))"

definition HostedIssuer_Enabled :: "HostedIssuer \<Rightarrow> bool" where
  "HostedIssuer_Enabled h \<longleftrightarrow> hi_keys h \<noteq> []"

definition decodeHostedClaims :: "unicode \<Rightarrow> jwt_codec \<Rightarrow> string \<Rightarrow> string \<Rightarrow> auth_error + HostedClaims" where
  "decodeHostedClaims U K payload rolesClaim =
     (case jc_Object K payload of
        None \<Rightarrow> Inl AuthDecode
      | Some raw \<Rightarrow>
          (case rolesClaimValues (raw rolesClaim) of
             None \<Rightarrow> Inl (AuthText ''roles claim'')
           | Some roles \<Rightarrow>
               Inr \<lparr>hc_Issuer = string_claim (raw ''iss''), hc_Subject = string_claim (raw ''sub''),
                    hc_Audience = string_claim (raw ''aud''), hc_ExpiresAt = int64Claim (raw ''exp''),
                    hc_NotBefore = int64Claim (raw ''nbf''), hc_IssuedAt = int64Claim (raw ''iat''),
                    hc_Roles = normalizeRoles U roles\<rparr>))"

definition checkHostedClaims :: "HostedIssuer \<Rightarrow> int \<Rightarrow> HostedClaims \<Rightarrow> auth_error option" where
  "checkHostedClaims h now c =
     (if hc_Issuer c \<noteq> hi_issuer h then Some (AuthText ''hosted operator token issuer mismatch'')
      else if hc_Audience c \<noteq> hi_audience h then Some (AuthText ''hosted operator token audience mismatch'')
      else if hc_Subject c = [] then Some (AuthText ''hosted operator token subject is required'')
      else if hc_ExpiresAt c \<le> now then Some (AuthText ''hosted operator token expired'')
      else if hc_NotBefore c \<noteq> 0 \<and> hc_NotBefore c > now then Some (AuthText ''hosted operator token is not valid yet'')
      else if hc_Roles c = [] then Some (AuthText ''hosted operator token has no roles'')
      else None)"

definition verifyToken :: "crypto \<Rightarrow> unicode \<Rightarrow> jwt_codec \<Rightarrow> HostedIssuer \<Rightarrow> Time \<Rightarrow> string \<Rightarrow> auth_error + HostedClaims" where
  "verifyToken C U K h now token =
     (case splitOn CHR ''.'' token of
        [part0, part1, part2] \<Rightarrow>
          (case base64url_decode part0 of
             None \<Rightarrow> Inl AuthDecode
           | Some headerBytes \<Rightarrow>
               (case jc_Header K headerBytes of
                  None \<Rightarrow> Inl AuthDecode
                | Some (alg, kid) \<Rightarrow>
                    if alg \<noteq> ''EdDSA'' then Inl (AuthText ''unsupported hosted operator token alg'')
                    else
                      (case map_of (hi_keys h) kid of
                         None \<Rightarrow> Inl (AuthText ''unknown hosted operator token key'')
                       | Some publicKey \<Rightarrow>
                           (case base64url_decode part2 of
                              None \<Rightarrow> Inl AuthDecode
                            | Some signature \<Rightarrow>
                                if \<not> ed25519_Verify C publicKey (part0 @ ''.'' @ part1) signature
                                then Inl (AuthText ''hosted operator token signature verification failed'')
                                else
                                  (case base64url_decode part1 of
                                     None \<Rightarrow> Inl AuthDecode
                                   | Some payloadBytes \<Rightarrow>
                                       (case decodeHostedClaims U K payloadBytes (hi_rolesClaim h) of
                                          Inl e \<Rightarrow> Inl e
                                        | Inr c \<Rightarrow>
                                            (case checkHostedClaims h (Unix now) c of Some e \<Rightarrow> Inl e | None \<Rightarrow> Inr c)))))))
      | _ \<Rightarrow> Inl (AuthText ''hosted operator token must be a compact JWT''))"

text \<open>The shape that the three sources share: off, they let everyone pass; on, they verify the bearer token.\<close>

definition authorize_with ::
    "bool \<Rightarrow> (string \<Rightarrow> (string \<times> string list) option) \<Rightarrow> string \<Rightarrow> string list \<Rightarrow> bool" where
  "authorize_with enabled verify header allowedRoles =
     (if \<not> enabled then True
      else
        (case bearer_token header of
           None \<Rightarrow> False
         | Some token \<Rightarrow>
             (case verify token of
                None \<Rightarrow> False
              | Some (subject, roles) \<Rightarrow>
                  principalHasRole \<lparr>pr_ID = subject, pr_Roles = roles, pr_TokenHash = []\<rparr> allowedRoles)))"

definition hosted_identity :: "crypto \<Rightarrow> unicode \<Rightarrow> jwt_codec \<Rightarrow> HostedIssuer \<Rightarrow> Time \<Rightarrow> string \<Rightarrow> (string \<times> string list) option" where
  "hosted_identity C U K h now token =
     (case verifyToken C U K h now token of Inl _ \<Rightarrow> None | Inr c \<Rightarrow> Some (hc_Subject c, hc_Roles c))"

definition HostedIssuer_AuthorizeBearer ::
    "crypto \<Rightarrow> unicode \<Rightarrow> jwt_codec \<Rightarrow> HostedIssuer \<Rightarrow> Time \<Rightarrow> string \<Rightarrow> string list \<Rightarrow> bool" where
  "HostedIssuer_AuthorizeBearer C U K h now = authorize_with (HostedIssuer_Enabled h) (hosted_identity C U K h now)"

text \<open>The payload of a token: the optional times are left out when they are zero.\<close>

definition hosted_payload :: "HostedClaims \<Rightarrow> string \<Rightarrow> claims" where
  "hosted_payload c rolesClaim =
     (let base = [''iss'' \<mapsto> GString (hc_Issuer c), ''sub'' \<mapsto> GString (hc_Subject c), ''aud'' \<mapsto> GString (hc_Audience c),
            ''exp'' \<mapsto> GInt64 (hc_ExpiresAt c)];
          withNbf = (if hc_NotBefore c \<noteq> 0 then base(''nbf'' \<mapsto> GInt64 (hc_NotBefore c)) else base);
          withIat = (if hc_IssuedAt c \<noteq> 0 then withNbf(''iat'' \<mapsto> GInt64 (hc_IssuedAt c)) else withNbf)
      in withIat(rolesClaim \<mapsto> GList (map GString (hc_Roles c))))"

definition jwt_header :: "string \<Rightarrow> string \<Rightarrow> claims" where
  "jwt_header alg keyID = [''alg'' \<mapsto> GString alg, ''kid'' \<mapsto> GString keyID, ''typ'' \<mapsto> GString ''JWT'']"

definition SignHostedToken ::
    "crypto \<Rightarrow> jwt_codec \<Rightarrow> string \<Rightarrow> string \<Rightarrow> HostedClaims \<Rightarrow> string \<Rightarrow> auth_error + string" where
  "SignHostedToken C K keyID privateKey c rolesClaim0 =
     (if keyID = [] then Inl (AuthText ''key id is required'')
      else if length privateKey \<noteq> PrivateKeySize then Inl (AuthText ''invalid private key'')
      else
        (let rolesClaim = (if rolesClaim0 = [] then ''roles'' else rolesClaim0) in
         case jc_Marshal K (jwt_header ''EdDSA'' keyID) of
           None \<Rightarrow> Inl AuthDecode
         | Some headerJSON \<Rightarrow>
             (case jc_Marshal K (hosted_payload c rolesClaim) of
                None \<Rightarrow> Inl AuthDecode
              | Some payloadJSON \<Rightarrow>
                  (let signingInput = base64url_encode headerJSON @ ''.'' @ base64url_encode payloadJSON
                   in Inr (signingInput @ ''.'' @ base64url_encode (ed25519_Sign C privateKey signingInput))))))"

section \<open>OIDC keys\<close>

definition OIDCJWKSSchemaVersion :: string where
  "OIDCJWKSSchemaVersion = ''rdev.oidc-jwks-operator-auth.v1''"

record OIDCJWKSFile =
  of_SchemaVersion :: string
  of_Issuer :: string
  of_Audience :: string
  of_JWKSURL :: string
  of_RolesClaim :: string
  of_ClockSkewSeconds :: int

type_synonym rsa_key = "nat \<times> int"

record OIDCJWKSVerifier =
  ov_issuer :: string
  ov_audience :: string
  ov_jwksURL :: string
  ov_rolesClaim :: string
  ov_clockSkew :: Duration
  ov_keys :: "(string \<times> rsa_key) list"

record OIDCClaims =
  oc_Issuer :: string
  oc_Subject :: string
  oc_Audiences :: "string list"
  oc_ExpiresAt :: int
  oc_NotBefore :: int
  oc_IssuedAt :: int
  oc_Roles :: "string list"

record jwkKey =
  jk_Kty :: string
  jk_Kid :: string
  jk_Use :: string
  jk_Alg :: string
  jk_N :: string
  jk_E :: string

text \<open>What net/url makes of the address of the keys.\<close>

record jwks_url =
  ju_Scheme :: string
  ju_User :: bool
  ju_RawQuery :: string
  ju_Fragment :: string
  ju_Host :: string
  ju_Hostname :: string

text \<open>The reply: its status and its body, None when reading it fails.\<close>

datatype jwks_response = FetchFailed | FetchReply int "string option"

definition validateOIDCJWKSURL :: "unicode \<Rightarrow> (string \<Rightarrow> jwks_url option) \<Rightarrow> string \<Rightarrow> auth_error option" where
  "validateOIDCJWKSURL U parse rawURL =
     (case parse rawURL of
        None \<Rightarrow> Some (AuthText ''parse OIDC JWKS URL'')
      | Some parsed \<Rightarrow>
          if ju_Scheme parsed \<noteq> ''https'' \<and> ju_Scheme parsed \<noteq> ''http'' then Some (AuthText ''OIDC JWKS URL must use https:// or localhost http://'')
          else if ju_User parsed \<or> ju_RawQuery parsed \<noteq> [] \<or> ju_Fragment parsed \<noteq> []
          then Some (AuthText ''OIDC JWKS URL must not contain credentials, query parameters, or fragments'')
          else
            (let host = ToLower U (ju_Hostname parsed) in
             if ju_Scheme parsed = ''http'' \<and> host \<noteq> ''localhost'' \<and> host \<noteq> ''127.0.0.1'' \<and> host \<noteq> ''::1''
             then Some (AuthText ''OIDC JWKS URL may use http:// only for localhost test endpoints'')
             else if TrimSpace (ju_Host parsed) = [] then Some (AuthText ''OIDC JWKS URL missing host'')
             else None))"

definition big_endian :: "string \<Rightarrow> nat" where
  "big_endian bytes = foldl (\<lambda>n c. 256 * n + of_char c) 0 bytes"

definition rsaPublicKeyFromJWK :: "jwkKey \<Rightarrow> auth_error + rsa_key" where
  "rsaPublicKeyFromJWK key =
     (if TrimSpace (jk_Kid key) = [] then Inl (AuthText ''OIDC JWKS key id is required'')
      else if jk_Kty key \<noteq> ''RSA'' then Inl (AuthText ''unsupported OIDC JWKS key type'')
      else if jk_Use key \<noteq> [] \<and> jk_Use key \<noteq> ''sig'' then Inl (AuthText ''unsupported OIDC JWKS key use'')
      else if jk_Alg key \<noteq> [] \<and> jk_Alg key \<noteq> ''RS256'' then Inl (AuthText ''unsupported OIDC JWKS key alg'')
      else
        (case base64url_decode (jk_N key) of
           None \<Rightarrow> Inl AuthDecode
         | Some nBytes \<Rightarrow>
             (case base64url_decode (jk_E key) of
                None \<Rightarrow> Inl AuthDecode
              | Some eBytes \<Rightarrow>
                  (let n = big_endian nBytes; e = big_endian eBytes in
                   if n = 0 \<or> 2 ^ 63 \<le> e \<or> e < 3 then Inl (AuthText ''invalid OIDC JWKS RSA key'') else Inr (n, int e)))))"

text \<open>A key that is not usable is skipped; a usable one is filed under the identifier as it stands in the set.\<close>

fun jwksKeys :: "(string \<times> rsa_key) list \<Rightarrow> jwkKey list \<Rightarrow> auth_error + (string \<times> rsa_key) list" where
  "jwksKeys kept [] = Inr kept"
| "jwksKeys kept (key # keys) =
     (case rsaPublicKeyFromJWK key of
        Inl _ \<Rightarrow> jwksKeys kept keys
      | Inr publicKey \<Rightarrow>
          if map_of kept (jk_Kid key) \<noteq> None then Inl (AuthDuplicate (jk_Kid key))
          else jwksKeys (kept @ [(jk_Kid key, publicKey)]) keys)"

definition fetchOIDCJWKS :: "(string \<Rightarrow> jwkKey list option) \<Rightarrow> jwks_response \<Rightarrow> auth_error + (string \<times> rsa_key) list" where
  "fetchOIDCJWKS decode response =
     (case response of
        FetchFailed \<Rightarrow> Inl AuthIO
      | FetchReply status body \<Rightarrow>
          if status < 200 \<or> 299 < status then Inl AuthIO
          else
            (case body of
               None \<Rightarrow> Inl AuthIO
             | Some text \<Rightarrow>
                 (case decode (take (2 ^ 20) text) of None \<Rightarrow> Inl AuthDecode | Some keys \<Rightarrow> jwksKeys [] keys)))"

definition NewOIDCJWKSVerifier ::
    "unicode \<Rightarrow> (string \<Rightarrow> jwks_url option) \<Rightarrow> (string \<Rightarrow> jwkKey list option) \<Rightarrow> (string \<Rightarrow> jwks_response) \<Rightarrow> OIDCJWKSFile
     \<Rightarrow> auth_error + OIDCJWKSVerifier" where
  "NewOIDCJWKSVerifier U parse decode get file' =
     (let issuer = TrimSpace (of_Issuer file'); audience = TrimSpace (of_Audience file'); url = TrimSpace (of_JWKSURL file');
          rolesClaim0 = TrimSpace (of_RolesClaim file');
          rolesClaim = (if rolesClaim0 = [] then ''roles'' else rolesClaim0) in
      if of_SchemaVersion file' \<noteq> OIDCJWKSSchemaVersion then Inl (AuthText ''unsupported OIDC JWKS auth schema'')
      else if issuer = [] then Inl (AuthText ''OIDC JWKS issuer is required'')
      else if audience = [] then Inl (AuthText ''OIDC JWKS audience is required'')
      else
        (case validateOIDCJWKSURL U parse url of
           Some e \<Rightarrow> Inl e
         | None \<Rightarrow>
             (case fetchOIDCJWKS decode (get url) of
                Inl e \<Rightarrow> Inl e
              | Inr keys \<Rightarrow>
                  if keys = [] then Inl (AuthText ''OIDC JWKS contains no supported RS256 keys'')
                  else
                    (let skew = i64 (of_ClockSkewSeconds file' * second_ns) in
                     if skew < 0 then Inl (AuthText ''OIDC JWKS clock_skew_seconds must be non-negative'')
                     else Inr \<lparr>ov_issuer = issuer, ov_audience = audience, ov_jwksURL = url, ov_rolesClaim = rolesClaim,
                                ov_clockSkew = skew, ov_keys = keys\<rparr>))))"

definition oidcAudiences :: "goval option \<Rightarrow> string list" where
  "oidcAudiences v =
     (case v of
        Some (GString s) \<Rightarrow> [s]
      | Some (GList vs) \<Rightarrow> List.map_filter (\<lambda>g. case g of GString s \<Rightarrow> Some s | _ \<Rightarrow> None) vs
      | _ \<Rightarrow> [])"

definition audienceMatches :: "string list \<Rightarrow> string \<Rightarrow> bool" where
  "audienceMatches audiences expected = list_ex (\<lambda>audience. audience = expected) audiences"

definition decodeOIDCClaims :: "unicode \<Rightarrow> jwt_codec \<Rightarrow> string \<Rightarrow> string \<Rightarrow> auth_error + OIDCClaims" where
  "decodeOIDCClaims U K payload rolesClaim =
     (case jc_Object K payload of
        None \<Rightarrow> Inl AuthDecode
      | Some raw \<Rightarrow>
          (case rolesClaimValues (raw rolesClaim) of
             None \<Rightarrow> Inl (AuthText ''roles claim'')
           | Some roles \<Rightarrow>
               Inr \<lparr>oc_Issuer = string_claim (raw ''iss''), oc_Subject = string_claim (raw ''sub''),
                    oc_Audiences = oidcAudiences (raw ''aud''), oc_ExpiresAt = int64Claim (raw ''exp''),
                    oc_NotBefore = int64Claim (raw ''nbf''), oc_IssuedAt = int64Claim (raw ''iat''),
                    oc_Roles = normalizeRoles U roles\<rparr>))"

definition OIDCJWKSVerifier_Enabled :: "OIDCJWKSVerifier \<Rightarrow> bool" where
  "OIDCJWKSVerifier_Enabled v \<longleftrightarrow> ov_keys v \<noteq> []"

definition checkOIDCClaims :: "OIDCJWKSVerifier \<Rightarrow> int \<Rightarrow> OIDCClaims \<Rightarrow> auth_error option" where
  "checkOIDCClaims v now c =
     (let skewSeconds = go_div (ov_clockSkew v) second_ns in
      if oc_Issuer c \<noteq> ov_issuer v then Some (AuthText ''OIDC token issuer mismatch'')
      else if \<not> audienceMatches (oc_Audiences c) (ov_audience v) then Some (AuthText ''OIDC token audience mismatch'')
      else if TrimSpace (oc_Subject c) = [] then Some (AuthText ''OIDC token subject is required'')
      else if oc_ExpiresAt c \<le> i64 (now - skewSeconds) then Some (AuthText ''OIDC token expired'')
      else if oc_NotBefore c \<noteq> 0 \<and> oc_NotBefore c > i64 (now + skewSeconds) then Some (AuthText ''OIDC token is not valid yet'')
      else if oc_Roles c = [] then Some (AuthText ''OIDC token has no roles'')
      else None)"

definition VerifyToken ::
    "crypto \<Rightarrow> (rsa_key \<Rightarrow> string \<Rightarrow> string \<Rightarrow> bool) \<Rightarrow> unicode \<Rightarrow> jwt_codec \<Rightarrow> OIDCJWKSVerifier \<Rightarrow> Time \<Rightarrow> string
     \<Rightarrow> auth_error + OIDCClaims" where
  "VerifyToken C rsaVerify U K v now token =
     (case splitOn CHR ''.'' token of
        [part0, part1, part2] \<Rightarrow>
          (case base64url_decode part0 of
             None \<Rightarrow> Inl AuthDecode
           | Some headerBytes \<Rightarrow>
               (case jc_Header K headerBytes of
                  None \<Rightarrow> Inl AuthDecode
                | Some (alg, kid) \<Rightarrow>
                    if alg \<noteq> ''RS256'' then Inl (AuthText ''unsupported OIDC token alg'')
                    else
                      (case map_of (ov_keys v) kid of
                         None \<Rightarrow> Inl (AuthText ''unknown OIDC token key'')
                       | Some publicKey \<Rightarrow>
                           (case base64url_decode part2 of
                              None \<Rightarrow> Inl AuthDecode
                            | Some signature \<Rightarrow>
                                if \<not> rsaVerify publicKey (sha256_Sum256 C (part0 @ ''.'' @ part1)) signature
                                then Inl (AuthText ''OIDC token signature verification failed'')
                                else
                                  (case base64url_decode part1 of
                                     None \<Rightarrow> Inl AuthDecode
                                   | Some payloadBytes \<Rightarrow>
                                       (case decodeOIDCClaims U K payloadBytes (ov_rolesClaim v) of
                                          Inl e \<Rightarrow> Inl e
                                        | Inr c \<Rightarrow>
                                            (case checkOIDCClaims v (Unix now) c of Some e \<Rightarrow> Inl e | None \<Rightarrow> Inr c)))))))
      | _ \<Rightarrow> Inl (AuthText ''OIDC token must be a compact JWT''))"

definition oidc_identity ::
    "crypto \<Rightarrow> (rsa_key \<Rightarrow> string \<Rightarrow> string \<Rightarrow> bool) \<Rightarrow> unicode \<Rightarrow> jwt_codec \<Rightarrow> OIDCJWKSVerifier \<Rightarrow> Time \<Rightarrow> string
     \<Rightarrow> (string \<times> string list) option" where
  "oidc_identity C rsaVerify U K v now token =
     (case VerifyToken C rsaVerify U K v now token of Inl _ \<Rightarrow> None | Inr c \<Rightarrow> Some (oc_Subject c, oc_Roles c))"

definition OIDCJWKSVerifier_AuthorizeBearer ::
    "crypto \<Rightarrow> (rsa_key \<Rightarrow> string \<Rightarrow> string \<Rightarrow> bool) \<Rightarrow> unicode \<Rightarrow> jwt_codec \<Rightarrow> OIDCJWKSVerifier \<Rightarrow> Time \<Rightarrow> string \<Rightarrow> string list
     \<Rightarrow> bool" where
  "OIDCJWKSVerifier_AuthorizeBearer C rsaVerify U K v now =
     authorize_with (OIDCJWKSVerifier_Enabled v) (oidc_identity C rsaVerify U K v now)"

definition oidc_payload :: "OIDCClaims \<Rightarrow> string \<Rightarrow> claims" where
  "oidc_payload c rolesClaim =
     (let aud = (case oc_Audiences c of [audience] \<Rightarrow> GString audience | audiences \<Rightarrow> GList (map GString audiences));
          base = [''iss'' \<mapsto> GString (oc_Issuer c), ''sub'' \<mapsto> GString (oc_Subject c), ''aud'' \<mapsto> aud,
            ''exp'' \<mapsto> GInt64 (oc_ExpiresAt c)];
          withNbf = (if oc_NotBefore c \<noteq> 0 then base(''nbf'' \<mapsto> GInt64 (oc_NotBefore c)) else base);
          withIat = (if oc_IssuedAt c \<noteq> 0 then withNbf(''iat'' \<mapsto> GInt64 (oc_IssuedAt c)) else withNbf)
      in withIat(rolesClaim \<mapsto> GList (map GString (oc_Roles c))))"

definition SignOIDCJWKSToken ::
    "crypto \<Rightarrow> ('k \<Rightarrow> string \<Rightarrow> string option) \<Rightarrow> jwt_codec \<Rightarrow> string \<Rightarrow> 'k option \<Rightarrow> OIDCClaims \<Rightarrow> string \<Rightarrow> auth_error + string" where
  "SignOIDCJWKSToken C rsaSign K keyID privateKey c rolesClaim0 =
     (if keyID = [] then Inl (AuthText ''key id is required'')
      else
        (case privateKey of
           None \<Rightarrow> Inl (AuthText ''private key is required'')
         | Some key \<Rightarrow>
             (let rolesClaim = (if rolesClaim0 = [] then ''roles'' else rolesClaim0) in
              case jc_Marshal K (jwt_header ''RS256'' keyID) of
                None \<Rightarrow> Inl AuthDecode
              | Some headerJSON \<Rightarrow>
                  (case jc_Marshal K (oidc_payload c rolesClaim) of
                     None \<Rightarrow> Inl AuthDecode
                   | Some payloadJSON \<Rightarrow>
                       (let signingInput = base64url_encode headerJSON @ ''.'' @ base64url_encode payloadJSON in
                        case rsaSign key (sha256_Sum256 C signingInput) of
                          None \<Rightarrow> Inl AuthRand
                        | Some signature \<Rightarrow> Inr (signingInput @ ''.'' @ base64url_encode signature))))))"

section \<open>SAML\<close>

definition SAMLSchemaVersion :: string where
  "SAMLSchemaVersion = ''rdev.saml-operator-auth.v1''"

record SAMLFile =
  sf_SchemaVersion :: string
  sf_IDPIssuer :: string
  sf_Audience :: string
  sf_AssertionConsumerURL :: string
  sf_RoleAttribute :: string
  sf_SubjectAttribute :: string
  sf_CertificatePEM :: string
  sf_CertificateFile :: string

record 'cert SAMLVerifier =
  sv_idpIssuer :: string
  sv_audience :: string
  sv_assertionConsumerURL :: string
  sv_roleAttribute :: string
  sv_subjectAttribute :: string
  sv_certificates :: "'cert list"

record SAMLClaims =
  sc_Issuer :: string
  sc_Subject :: string
  sc_Audience :: string
  sc_AssertionConsumerURL :: string
  sc_Roles :: "string list"
  sc_ResponseSignatureValidated :: bool

text \<open>What the SAML library reports of a response it accepts, and its warnings.\<close>

record saml_info =
  si_NameID :: string
  si_Values :: "string \<Rightarrow> string list"
  si_InvalidTime :: bool
  si_NotInAudience :: bool
  si_ProxyRestriction :: bool
  si_OneTimeUse :: bool
  si_ResponseSignatureValidated :: bool

text \<open>
  \<open>pem_Decode\<close> gives the next block, its type and content, and the rest. The rest is shorter than the input,
  so as many rounds as there are bytes are enough.
\<close>

fun pemCertificates ::
    "(string \<Rightarrow> (string \<times> string \<times> string) option) \<Rightarrow> (string \<Rightarrow> 'cert option) \<Rightarrow> nat \<Rightarrow> 'cert list \<Rightarrow> string \<Rightarrow> auth_error + 'cert list" where
  "pemCertificates pemDecode parse 0 certs rest = (if TrimSpace rest \<noteq> [] then Inl (AuthText ''SAML certificate PEM contains trailing non-PEM data'') else Inr certs)"
| "pemCertificates pemDecode parse (Suc n) certs rest =
     (case pemDecode rest of
        None \<Rightarrow> if TrimSpace rest \<noteq> [] then Inl (AuthText ''SAML certificate PEM contains trailing non-PEM data'') else Inr certs
      | Some (blockType, bytes, remaining) \<Rightarrow>
          if blockType \<noteq> ''CERTIFICATE'' then Inl (AuthText ''SAML certificate material must contain certificates only'')
          else
            (case parse bytes of
               None \<Rightarrow> Inl AuthDecode
             | Some cert \<Rightarrow> pemCertificates pemDecode parse n (certs @ [cert]) remaining))"

definition samlCertificates ::
    "(string \<Rightarrow> (string \<times> string \<times> string) option) \<Rightarrow> (string \<Rightarrow> 'cert option) \<Rightarrow> (string \<Rightarrow> string option) \<Rightarrow> SAMLFile
     \<Rightarrow> auth_error + 'cert list" where
  "samlCertificates pemDecode parse readFile file' =
     (let pem = sf_CertificatePEM file';
          blocks0 = (if TrimSpace pem \<noteq> [] then (if last pem \<noteq> CHR 0x0A then pem @ [CHR 0x0A] else pem) else []) in
      case (if sf_CertificateFile file' \<noteq> []
            then (case readFile (sf_CertificateFile file') of None \<Rightarrow> None | Some content \<Rightarrow> Some (blocks0 @ content))
            else Some blocks0) of
        None \<Rightarrow> Inl AuthIO
      | Some blocks \<Rightarrow>
          if blocks = [] then Inl (AuthText ''SAML certificate_pem or certificate_file is required'')
          else pemCertificates pemDecode parse (length blocks) [] blocks)"

definition NewSAMLVerifier ::
    "(string \<Rightarrow> (string \<times> string \<times> string) option) \<Rightarrow> (string \<Rightarrow> 'cert option) \<Rightarrow> (string \<Rightarrow> string option) \<Rightarrow> SAMLFile
     \<Rightarrow> auth_error + 'cert SAMLVerifier" where
  "NewSAMLVerifier pemDecode parse readFile file0 =
     (let file' = file0\<lparr>sf_IDPIssuer := TrimSpace (sf_IDPIssuer file0), sf_Audience := TrimSpace (sf_Audience file0),
            sf_AssertionConsumerURL := TrimSpace (sf_AssertionConsumerURL file0), sf_RoleAttribute := TrimSpace (sf_RoleAttribute file0),
            sf_SubjectAttribute := TrimSpace (sf_SubjectAttribute file0), sf_CertificateFile := TrimSpace (sf_CertificateFile file0)\<rparr> in
      if sf_SchemaVersion file' \<noteq> SAMLSchemaVersion then Inl (AuthText ''unsupported SAML operator auth schema'')
      else if sf_IDPIssuer file' = [] then Inl (AuthText ''SAML idp_issuer is required'')
      else if sf_Audience file' = [] then Inl (AuthText ''SAML audience is required'')
      else if sf_AssertionConsumerURL file' = [] then Inl (AuthText ''SAML assertion_consumer_url is required'')
      else if sf_RoleAttribute file' = [] then Inl (AuthText ''SAML role_attribute is required'')
      else
        (case samlCertificates pemDecode parse readFile file' of
           Inl e \<Rightarrow> Inl e
         | Inr certs \<Rightarrow>
             if certs = [] then Inl (AuthText ''SAML operator auth requires at least one IdP certificate'')
             else Inr \<lparr>sv_idpIssuer = sf_IDPIssuer file', sv_audience = sf_Audience file',
                        sv_assertionConsumerURL = sf_AssertionConsumerURL file', sv_roleAttribute = sf_RoleAttribute file',
                        sv_subjectAttribute = sf_SubjectAttribute file', sv_certificates = certs\<rparr>))"

text \<open>
  base64.StdEncoding: line breaks are skipped, the digits are padded with equal signs to a multiple of four,
  and only the last group has padding.
\<close>

definition base64std_alphabet :: string where
  "base64std_alphabet = ''ABCDEFGHIJKLMNOPQRSTUVWXYZabcdefghijklmnopqrstuvwxyz0123456789+/''"

definition base64std_decode :: "string \<Rightarrow> string option" where
  "base64std_decode t =
     (let given = filter (\<lambda>c. c \<noteq> CHR 0x0A \<and> c \<noteq> CHR 0x0D) t;
          body = rev (dropWhile (\<lambda>c. c = CHR ''='') (rev given));
          digits = map (\<lambda>c. first_index ((=) c) base64std_alphabet) body
      in if length given mod 4 \<noteq> 0 \<or> length given - length body > 2 \<or> None \<in> set digits then None
         else Some (bits_chars (concat (map (digit_bits \<circ> the) digits))))"

definition weak_markers :: "string list" where
  "weak_markers = [''http://www.w3.org/2000/09/xmldsig#rsa-sha1'', ''http://www.w3.org/2000/09/xmldsig#dsa-sha1'',
     ''http://www.w3.org/2001/04/xmldsig-more#ecdsa-sha1'', ''http://www.w3.org/2000/09/xmldsig#sha1'']"

definition rejectWeakSAMLAlgorithms :: "unicode \<Rightarrow> string \<Rightarrow> auth_error option" where
  "rejectWeakSAMLAlgorithms U encodedResponse =
     (case base64std_decode encodedResponse of
        None \<Rightarrow> Some AuthDecode
      | Some raw \<Rightarrow>
          if list_ex (\<lambda>marker. sublist marker (ToLower U raw)) weak_markers
          then Some (AuthText ''SAML response uses unsupported SHA-1 XML signature algorithm'') else None)"

fun splitWhere :: "(char \<Rightarrow> bool) \<Rightarrow> string \<Rightarrow> string list" where
  "splitWhere sep [] = [[]]"
| "splitWhere sep (c # s) =
     (if sep c then [] # splitWhere sep s
      else case splitWhere sep s of [] \<Rightarrow> [[c]] | w # ws \<Rightarrow> (c # w) # ws)"

definition splitRoleValues :: "string list \<Rightarrow> string list" where
  "splitRoleValues values =
     concat (map (\<lambda>value.
       filter (\<lambda>trimmed. trimmed \<noteq> [])
         (map TrimSpace
           (filter (\<lambda>part. part \<noteq> [])
             (splitWhere (\<lambda>r. r \<in> {CHR '','', CHR '';'', CHR 0x0A, CHR 0x0D, CHR 0x09, CHR '' ''}) value)))) values)"

definition SAMLVerifier_Enabled :: "'cert SAMLVerifier \<Rightarrow> bool" where
  "SAMLVerifier_Enabled v \<longleftrightarrow> sv_certificates v \<noteq> []"

text \<open>\<open>retrieve\<close> is RetrieveAssertionInfo of the SAML library, with the certificates and addresses of the verifier, at a time.\<close>

definition VerifyResponse ::
    "unicode \<Rightarrow> ('cert SAMLVerifier \<Rightarrow> Time \<Rightarrow> string \<Rightarrow> saml_info option) \<Rightarrow> 'cert SAMLVerifier \<Rightarrow> Time \<Rightarrow> string \<Rightarrow> auth_error + SAMLClaims" where
  "VerifyResponse U retrieve v now response0 =
     (if \<not> SAMLVerifier_Enabled v then Inl (AuthText ''SAML verifier is disabled'')
      else
        (let encodedResponse = TrimSpace response0 in
         if encodedResponse = [] then Inl (AuthText ''SAML response is required'')
         else
           (case rejectWeakSAMLAlgorithms U encodedResponse of
              Some e \<Rightarrow> Inl e
            | None \<Rightarrow>
                (case retrieve v now encodedResponse of
                   None \<Rightarrow> Inl (AuthText ''SAML response'')
                 | Some info \<Rightarrow>
                     if si_InvalidTime info then Inl (AuthText ''SAML assertion time conditions are invalid'')
                     else if si_NotInAudience info then Inl (AuthText ''SAML assertion audience mismatch'')
                     else if si_ProxyRestriction info \<or> si_OneTimeUse info
                     then Inl (AuthText ''SAML assertion contains unsupported proxy or one-time-use restrictions'')
                     else
                       (let roles = normalizeRoles U (splitRoleValues (si_Values info (sv_roleAttribute v)));
                            subject = (if sv_subjectAttribute v \<noteq> []
                              then TrimSpace (case si_Values info (sv_subjectAttribute v) of [] \<Rightarrow> [] | x # xs \<Rightarrow> x)
                              else TrimSpace (si_NameID info)) in
                        if roles = [] then Inl (AuthText ''SAML assertion has no roles in attribute'')
                        else if subject = [] then Inl (AuthText ''SAML subject is required'')
                        else Inr \<lparr>sc_Issuer = sv_idpIssuer v, sc_Subject = subject, sc_Audience = sv_audience v,
                                   sc_AssertionConsumerURL = sv_assertionConsumerURL v, sc_Roles = roles,
                                   sc_ResponseSignatureValidated = si_ResponseSignatureValidated info\<rparr>)))))"

definition saml_identity ::
    "unicode \<Rightarrow> ('cert SAMLVerifier \<Rightarrow> Time \<Rightarrow> string \<Rightarrow> saml_info option) \<Rightarrow> 'cert SAMLVerifier \<Rightarrow> Time \<Rightarrow> string
     \<Rightarrow> (string \<times> string list) option" where
  "saml_identity U retrieve v now response =
     (case VerifyResponse U retrieve v now response of Inl _ \<Rightarrow> None | Inr c \<Rightarrow> Some (sc_Subject c, sc_Roles c))"

definition SAMLVerifier_AuthorizeBearer ::
    "unicode \<Rightarrow> ('cert SAMLVerifier \<Rightarrow> Time \<Rightarrow> string \<Rightarrow> saml_info option) \<Rightarrow> 'cert SAMLVerifier \<Rightarrow> Time \<Rightarrow> string \<Rightarrow> string list \<Rightarrow> bool" where
  "SAMLVerifier_AuthorizeBearer U retrieve v now = authorize_with (SAMLVerifier_Enabled v) (saml_identity U retrieve v now)"

end
