(* ===== verification/Operator_Properties.thy ===== *)
theory Operator_Properties
  imports Operator_Sources Trust_Properties
begin

text \<open>
  Who is let in. A source of operator identities either is off, and then refuses nobody, or it identifies
  the bearer of a token by a subject and by roles, and lets the bearer in by these roles. The three hosted
  sources keep this contract, so the authorizer that combines them with the principals of a file lets in
  exactly the bearers of a token that one of them identifies with a sufficient role.
\<close>

section \<open>Roles\<close>

definition operator_roles :: "string set" where
  "operator_roles = {RoleAdmin, RoleOperator, RoleIssuer, RoleAuditor}"

definition role_text :: "unicode \<Rightarrow> string \<Rightarrow> string" where
  "role_text U role = TrimSpace (ToLower U role)"

lemma keepRoles_step:
  "keepRoles U kept (role # roles) =
     keepRoles U (if role_text U role \<in> operator_roles - set kept then kept @ [role_text U role] else kept) roles"
proof -
  have "[] \<notin> operator_roles" by (simp add: operator_roles_def role_names)
  then show ?thesis unfolding role_text_def by (auto simp: Let_def operator_roles_def)
qed

lemma keepRoles_spec:
  "set (keepRoles U kept roles) = set kept \<union> (role_text U ` set roles \<inter> operator_roles)
   \<and> (distinct kept \<longrightarrow> distinct (keepRoles U kept roles))"
proof (induction roles arbitrary: kept)
  case (Cons role roles)
  let ?kept = "if role_text U role \<in> operator_roles - set kept then kept @ [role_text U role] else kept"
  have "keepRoles U kept (role # roles) = keepRoles U ?kept roles" by (rule keepRoles_step)
  moreover have "set ?kept = set kept \<union> ({role_text U role} \<inter> operator_roles)" by auto
  moreover have "distinct kept \<Longrightarrow> distinct ?kept" by auto
  ultimately show ?case using Cons.IH [of ?kept] by (simp only: list.set image_insert) blast
qed simp

lemma normalizeRoles_spec:
  "set (normalizeRoles U roles) = role_text U ` set roles \<inter> operator_roles"
  "distinct (normalizeRoles U roles)" "sorted (normalizeRoles U roles)"
  using keepRoles_spec [of U "[]" roles] by (simp_all add: normalizeRoles_def)

definition sufficient :: "string list \<Rightarrow> string list \<Rightarrow> bool" where
  "sufficient roles allowed \<longleftrightarrow> allowed = [] \<or> RoleAdmin \<in> set roles \<or> set roles \<inter> set allowed \<noteq> {}"

lemma sufficient_mono: "sufficient roles allowed \<Longrightarrow> allowed \<noteq> [] \<Longrightarrow> set allowed \<subseteq> set allowed' \<Longrightarrow> sufficient roles allowed'"
  unfolding sufficient_def by blast

lemma principalHasRole_iff: "principalHasRole p allowed \<longleftrightarrow> sufficient (pr_Roles p) allowed"
  by (auto simp: principalHasRole_def sufficient_def list_ex_iff)

section \<open>Sources\<close>

locale identity_source =
  fixes enabled :: "'s \<Rightarrow> bool"
    and identify :: "'s \<Rightarrow> Time \<Rightarrow> string \<Rightarrow> (string \<times> string list) option"
    and authorize :: "'s \<Rightarrow> Time \<Rightarrow> string \<Rightarrow> string list \<Rightarrow> bool"
  assumes authorize_eq: "authorize s now header allowed = authorize_with (enabled s) (identify s now) header allowed"
    and identified: "identify s now token = Some (subject, roles) \<Longrightarrow> subject \<noteq> [] \<and> roles \<noteq> [] \<and> set roles \<subseteq> operator_roles"
begin

lemma off_lets_in: "\<not> enabled s \<Longrightarrow> authorize s now header allowed"
  by (simp add: authorize_eq authorize_with_def)

lemma authorize_iff:
  "enabled s \<Longrightarrow> authorize s now header allowed \<longleftrightarrow>
     (\<exists>token subject roles. bearer_token header = Some token \<and> identify s now token = Some (subject, roles) \<and> sufficient roles allowed)"
  by (auto simp: authorize_eq authorize_with_def principalHasRole_iff split: option.splits)

lemma authorize_mono:
  "authorize s now header allowed \<Longrightarrow> allowed \<noteq> [] \<Longrightarrow> set allowed \<subseteq> set allowed' \<Longrightarrow> authorize s now header allowed'"
  using sufficient_mono authorize_iff off_lets_in by (cases "enabled s") metis+

end

lemma checkHostedClaims_None:
  "checkHostedClaims h now c = None \<longleftrightarrow>
     hc_Issuer c = hi_issuer h \<and> hc_Audience c = hi_audience h \<and> hc_Subject c \<noteq> [] \<and> now < hc_ExpiresAt c
     \<and> hc_NotBefore c \<le> (if hc_NotBefore c = 0 then 0 else now) \<and> hc_Roles c \<noteq> []"
  by (auto simp: checkHostedClaims_def)

lemma checkOIDCClaims_roles: "checkOIDCClaims v now c = None \<Longrightarrow> oc_Subject c \<noteq> [] \<and> oc_Roles c \<noteq> []"
  by (auto simp: checkOIDCClaims_def Let_def split: if_splits)

lemma verifyToken_Inr:
  assumes "verifyToken C U K h now token = Inr c"
  obtains part0 part1 part2 header kid publicKey signature payload where
    "splitOn CHR ''.'' token = [part0, part1, part2]" "base64url_decode part0 = Some header" "jc_Header K header = Some (''EdDSA'', kid)"
    "map_of (hi_keys h) kid = Some publicKey" "base64url_decode part2 = Some signature"
    "ed25519_Verify C publicKey (part0 @ ''.'' @ part1) signature" "base64url_decode part1 = Some payload"
    "decodeHostedClaims U K payload (hi_rolesClaim h) = Inr c" "checkHostedClaims h (Unix now) c = None"
  using assms by (auto simp: verifyToken_def split: list.splits option.splits sum.splits if_splits prod.splits)

lemma VerifyToken_Inr:
  assumes "VerifyToken C rsaVerify U K v now token = Inr c"
  shows "\<exists>payload. decodeOIDCClaims U K payload (ov_rolesClaim v) = Inr c \<and> checkOIDCClaims v (Unix now) c = None"
  using assms by (auto simp: VerifyToken_def split: list.splits option.splits sum.splits if_splits prod.splits)

interpretation hosted: identity_source HostedIssuer_Enabled "hosted_identity C U K" "HostedIssuer_AuthorizeBearer C U K" for C U K
proof
  fix s now header allowed
  show "HostedIssuer_AuthorizeBearer C U K s now header allowed = authorize_with (HostedIssuer_Enabled s) (hosted_identity C U K s now) header allowed"
    by (simp add: HostedIssuer_AuthorizeBearer_def)
next
  fix s now token subject roles
  assume "hosted_identity C U K s now token = Some (subject, roles)"
  then obtain c where c: "verifyToken C U K s now token = Inr c" "subject = hc_Subject c" "roles = hc_Roles c"
    by (auto simp: hosted_identity_def split: sum.splits)
  from c(1) obtain payload where "decodeHostedClaims U K payload (hi_rolesClaim s) = Inr c" "checkHostedClaims s (Unix now) c = None"
    by (rule verifyToken_Inr)
  moreover from this have "set (hc_Roles c) \<subseteq> operator_roles"
    by (auto simp: decodeHostedClaims_def normalizeRoles_spec split: option.splits)
  ultimately show "subject \<noteq> [] \<and> roles \<noteq> [] \<and> set roles \<subseteq> operator_roles" using c by (simp add: checkHostedClaims_None)
qed

interpretation oidc: identity_source OIDCJWKSVerifier_Enabled "oidc_identity C rsaVerify U K" "OIDCJWKSVerifier_AuthorizeBearer C rsaVerify U K"
  for C rsaVerify U K
proof
  fix s now header allowed
  show "OIDCJWKSVerifier_AuthorizeBearer C rsaVerify U K s now header allowed
      = authorize_with (OIDCJWKSVerifier_Enabled s) (oidc_identity C rsaVerify U K s now) header allowed"
    by (simp add: OIDCJWKSVerifier_AuthorizeBearer_def)
next
  fix s now token subject roles
  assume "oidc_identity C rsaVerify U K s now token = Some (subject, roles)"
  then obtain c where c: "VerifyToken C rsaVerify U K s now token = Inr c" "subject = oc_Subject c" "roles = oc_Roles c"
    by (auto simp: oidc_identity_def split: sum.splits)
  from VerifyToken_Inr [OF c(1)] obtain payload where "decodeOIDCClaims U K payload (ov_rolesClaim s) = Inr c"
    "checkOIDCClaims s (Unix now) c = None" by blast
  moreover from this have "set (oc_Roles c) \<subseteq> operator_roles"
    by (auto simp: decodeOIDCClaims_def normalizeRoles_spec split: option.splits)
  ultimately show "subject \<noteq> [] \<and> roles \<noteq> [] \<and> set roles \<subseteq> operator_roles" using c(2,3) checkOIDCClaims_roles [of s "Unix now" c] by simp
qed

interpretation saml: identity_source SAMLVerifier_Enabled "saml_identity U retrieve" "SAMLVerifier_AuthorizeBearer U retrieve" for U retrieve
proof
  fix s now header allowed
  show "SAMLVerifier_AuthorizeBearer U retrieve s now header allowed
      = authorize_with (SAMLVerifier_Enabled s) (saml_identity U retrieve s now) header allowed"
    by (simp add: SAMLVerifier_AuthorizeBearer_def)
next
  fix s now token subject roles
  assume "saml_identity U retrieve s now token = Some (subject, roles)"
  then show "subject \<noteq> [] \<and> roles \<noteq> [] \<and> set roles \<subseteq> operator_roles"
    by (auto simp: saml_identity_def VerifyResponse_def Let_def normalizeRoles_spec
        split: sum.splits if_splits option.splits)
qed

section \<open>The combined authorizer\<close>

text \<open>The sources a gateway can be configured with, and the parameters they read.\<close>

datatype 'cert auth_source = HostedSource HostedIssuer | OIDCSource OIDCJWKSVerifier | SAMLSource "'cert SAMLVerifier"

record 'cert auth_env =
  ae_crypto :: crypto
  ae_unicode :: unicode
  ae_codec :: jwt_codec
  ae_rsa :: "rsa_key \<Rightarrow> string \<Rightarrow> string \<Rightarrow> bool"
  ae_retrieve :: "'cert SAMLVerifier \<Rightarrow> Time \<Rightarrow> string \<Rightarrow> saml_info option"

fun source_enabled :: "'cert auth_source \<Rightarrow> bool" where
  "source_enabled (HostedSource h) = HostedIssuer_Enabled h"
| "source_enabled (OIDCSource v) = OIDCJWKSVerifier_Enabled v"
| "source_enabled (SAMLSource v) = SAMLVerifier_Enabled v"

fun source_identity :: "'cert auth_env \<Rightarrow> 'cert auth_source \<Rightarrow> Time \<Rightarrow> string \<Rightarrow> (string \<times> string list) option" where
  "source_identity A (HostedSource h) now = hosted_identity (ae_crypto A) (ae_unicode A) (ae_codec A) h now"
| "source_identity A (OIDCSource v) now = oidc_identity (ae_crypto A) (ae_rsa A) (ae_unicode A) (ae_codec A) v now"
| "source_identity A (SAMLSource v) now = saml_identity (ae_unicode A) (ae_retrieve A) v now"

fun source_authorize :: "'cert auth_env \<Rightarrow> 'cert auth_source \<Rightarrow> Time \<Rightarrow> string \<Rightarrow> string list \<Rightarrow> bool" where
  "source_authorize A (HostedSource h) now = HostedIssuer_AuthorizeBearer (ae_crypto A) (ae_unicode A) (ae_codec A) h now"
| "source_authorize A (OIDCSource v) now = OIDCJWKSVerifier_AuthorizeBearer (ae_crypto A) (ae_rsa A) (ae_unicode A) (ae_codec A) v now"
| "source_authorize A (SAMLSource v) now = SAMLVerifier_AuthorizeBearer (ae_unicode A) (ae_retrieve A) v now"

interpretation source: identity_source source_enabled "source_identity A" "source_authorize A" for A
proof
  fix s :: "'a auth_source" and now header allowed
  show "source_authorize A s now header allowed = authorize_with (source_enabled s) (source_identity A s now) header allowed"
    by (cases s) (simp_all add: hosted.authorize_eq oidc.authorize_eq saml.authorize_eq)
next
  fix s :: "'a auth_source" and now token subject roles
  assume "source_identity A s now token = Some (subject, roles)"
  then show "subject \<noteq> [] \<and> roles \<noteq> [] \<and> set roles \<subseteq> operator_roles"
    by (cases s) (simp_all add: hosted.identified oidc.identified saml.identified [of "ae_unicode A" "ae_retrieve A"])
qed

definition principal_ok :: "Principal \<Rightarrow> bool" where
  "principal_ok p \<longleftrightarrow> pr_ID p \<noteq> [] \<and> pr_Roles p \<noteq> [] \<and> set (pr_Roles p) \<subseteq> operator_roles \<and> validateHash (pr_TokenHash p) = None"

lemma normalizePrincipals_ok:
  "normalizePrincipals U kept ps = Inr out \<Longrightarrow> \<forall>p \<in> set kept. principal_ok p \<Longrightarrow> distinct (map pr_ID kept) \<Longrightarrow>
   (\<forall>p \<in> set out. principal_ok p) \<and> distinct (map pr_ID out) \<and> length out = length kept + length ps"
proof (induction U kept ps rule: normalizePrincipals.induct)
  case (2 U kept p ps)
  let ?p = "p\<lparr>pr_ID := TrimSpace (pr_ID p), pr_TokenHash := TrimSpace (pr_TokenHash p), pr_Roles := normalizeRoles U (pr_Roles p)\<rparr>"
  have ok: "pr_ID ?p \<noteq> []" "pr_ID ?p \<notin> pr_ID ` set kept" "pr_Roles ?p \<noteq> []" "pr_TokenHash ?p \<noteq> []" "validateHash (pr_TokenHash ?p) = None"
    and rest: "normalizePrincipals U (kept @ [?p]) ps = Inr out"
    using 2(2) by (auto simp: Let_def split: if_splits option.splits)
  have "principal_ok ?p" using ok normalizeRoles_spec(1) [of U "pr_Roles p"] by (simp add: principal_ok_def)
  then have "\<forall>q \<in> set (kept @ [?p]). principal_ok q" "distinct (map pr_ID (kept @ [?p]))" using 2(3,4) ok(2) by auto
  from 2(1) [OF refl ok(1) ok(2) ok(3) ok(4) ok(5) rest this] show ?case by simp
qed simp

lemma NewCombinedSources_ok:
  assumes "NewCombinedSources U enabled ps hosted = Inr auth"
  shows "(\<forall>p \<in> set (az_principals auth). principal_ok p) \<and> distinct (map pr_ID (az_principals auth))"
    and "\<forall>s \<in> set (az_hosted auth). enabled s" and "Authorizer_Enabled (Some auth)"
  using assms normalizePrincipals_ok [of U "[]" ps "az_principals auth"]
  by (auto simp: NewCombinedSources_def NewAuthorizer_def NewPrincipals_def Authorizer_Enabled_def Let_def split: if_splits sum.splits)

text \<open>Whom an authorizer takes the bearer of a token for: the first principal with its hash, or else the word of a source.\<close>

definition identity_of :: "'cert auth_env \<Rightarrow> 'cert auth_source Authorizer \<Rightarrow> Time \<Rightarrow> string \<Rightarrow> string \<Rightarrow> string list \<Rightarrow> bool" where
  "identity_of A auth now token subject roles \<longleftrightarrow>
     (case find (\<lambda>p. pr_TokenHash p = HashToken (ae_crypto A) token) (az_principals auth) of
        Some p \<Rightarrow> subject = pr_ID p \<and> roles = pr_Roles p
      | None \<Rightarrow> \<exists>s \<in> set (az_hosted auth). source_identity A s now token = Some (subject, roles))"

text \<open>
  C25. An authorizer built from principals and hosted sources lets a request in exactly when its header bears
  a token that identifies someone, by the token's hash or by the word of an enabled source, whose roles are
  among the four known ones and include administrator or a role that the request allows.
\<close>

theorem access_exact:
  assumes "NewCombinedSources (ae_unicode A) source_enabled principals hosted = Inr auth"
  shows "Authorizer_AuthorizeBearer (ae_crypto A) (\<lambda>s. source_authorize A s now) (Some auth) header allowed \<longleftrightarrow>
    (\<exists>token subject roles. bearer_token header = Some token \<and> identity_of A auth now token subject roles
       \<and> subject \<noteq> [] \<and> set roles \<subseteq> operator_roles \<and> sufficient roles allowed)"
proof (cases "bearer_token header")
  case None
  then show ?thesis using NewCombinedSources_ok(3) [OF assms] by (simp add: Authorizer_AuthorizeBearer_def)
next
  case (Some token)
  note on = NewCombinedSources_ok(3) [OF assms]
  show ?thesis
  proof (cases "find (\<lambda>p. pr_TokenHash p = HashToken (ae_crypto A) token) (az_principals auth)")
    case found: (Some p)
    then have "p \<in> set (az_principals auth)" by (auto simp: find_Some_iff)
    then have "principal_ok p" using NewCombinedSources_ok(1) [OF assms] by blast
    then show ?thesis using Some found on
      by (auto simp: Authorizer_AuthorizeBearer_def identity_of_def principalHasRole_iff principal_ok_def Let_def)
  next
    case None
    have grant: "source_authorize A s now header allowed \<longleftrightarrow>
        (\<exists>subject roles. source_identity A s now token = Some (subject, roles) \<and> sufficient roles allowed)"
      if "s \<in> set (az_hosted auth)" for s
      using source.authorize_iff [of s A now header allowed] NewCombinedSources_ok(2) [OF assms] that Some by auto
    have "Authorizer_AuthorizeBearer (ae_crypto A) (\<lambda>s. source_authorize A s now) (Some auth) header allowed \<longleftrightarrow>
        (\<exists>s \<in> set (az_hosted auth). source_authorize A s now header allowed)"
      using Some None on by (simp add: Authorizer_AuthorizeBearer_def Let_def list_ex_iff)
    then show ?thesis using grant source.identified Some None unfolding identity_of_def by simp blast
  qed
qed

end
