(* ===== verification/Operator_Tokens.thy ===== *)
theory Operator_Tokens
  imports Operator_Properties
begin

text \<open>
  Tokens that are issued are accepted: the tokens of the initial operators by the authorizer built from their
  file, each for its role, and a signed hosted token by an issuer that has the public key, while it is valid.
\<close>

section \<open>Hosted tokens\<close>

definition same_claim :: "goval option \<Rightarrow> goval option \<Rightarrow> bool" where
  "same_claim v v' \<longleftrightarrow> string_claim v = string_claim v' \<and> int64Claim v = int64Claim v' \<and> rolesClaimValues v = rolesClaimValues v'"

text \<open>
  What encoding/json documents for the values of a token: an object decodes to its members, a string to a
  string, a list of strings to their list and an integer to a float, which is exact below 2 to the 53.
\<close>

definition codec_keeps :: "jwt_codec \<Rightarrow> claims \<Rightarrow> bool" where
  "codec_keeps K m \<longleftrightarrow> (\<forall>s. jc_Marshal K m = Some s \<longrightarrow> (\<exists>m'. jc_Object K s = Some m' \<and> (\<forall>k. same_claim (m k) (m' k))))"

definition codec_headers :: "jwt_codec \<Rightarrow> bool" where
  "codec_headers K \<longleftrightarrow> (\<forall>alg kid s. jc_Marshal K (jwt_header alg kid) = Some s \<longrightarrow> jc_Header K s = Some (alg, kid))"

definition claim_names :: "string set" where
  "claim_names = {''iss'', ''sub'', ''aud'', ''exp'', ''nbf'', ''iat''}"

lemma base64url_chars: "set (base64url_encode s) \<subseteq> set base64url_alphabet"
proof -
  have "base64url_alphabet ! bits_val g \<in> set base64url_alphabet" if "g \<in> set (sextets bs)" for g bs
  proof (rule nth_mem)
    show "bits_val g < length base64url_alphabet" using sextets_lengths [OF that] bits_val_less [of g] by simp
  qed
  then show ?thesis by (auto simp: base64url_encode_def)
qed

lemma base64url_no_dot: "CHR ''.'' \<notin> set (base64url_encode s)"
proof -
  have "CHR ''.'' \<notin> set base64url_alphabet" by (simp add: base64url_alphabet_def)
  then show ?thesis using base64url_chars by blast
qed

lemma compact_parts:
  "splitOn CHR ''.'' (base64url_encode a @ ''.'' @ base64url_encode b @ ''.'' @ base64url_encode c)
     = [base64url_encode a, base64url_encode b, base64url_encode c]"
  using splitOn_slash [of "CHR ''.''" "base64url_encode a"] splitOn_slash [of "CHR ''.''" "base64url_encode b"]
    splitOn_absent [OF base64url_no_dot] by simp

lemma role_texts_strings: "role_texts (map GString rs) = Some rs"
  by (induction rs) simp_all

lemma hosted_payload_claims:
  assumes "rc \<notin> claim_names"
  shows "string_claim (hosted_payload c rc ''iss'') = hc_Issuer c" "string_claim (hosted_payload c rc ''sub'') = hc_Subject c"
    "string_claim (hosted_payload c rc ''aud'') = hc_Audience c" "int64Claim (hosted_payload c rc ''exp'') = hc_ExpiresAt c"
    "int64Claim (hosted_payload c rc ''nbf'') = hc_NotBefore c" "int64Claim (hosted_payload c rc ''iat'') = hc_IssuedAt c"
    "rolesClaimValues (hosted_payload c rc rc) = Some (hc_Roles c)"
  using assms by (auto simp: hosted_payload_def claim_names_def string_claim_def int64Claim_def rolesClaimValues_def role_texts_strings Let_def)

lemma decode_hosted_payload:
  assumes "rc \<notin> claim_names" "codec_keeps K (hosted_payload c rc)" "jc_Marshal K (hosted_payload c rc) = Some s"
  shows "decodeHostedClaims U K s rc = Inr (c\<lparr>hc_Roles := normalizeRoles U (hc_Roles c)\<rparr>)"
proof -
  obtain m' where m': "jc_Object K s = Some m'" and same: "same_claim (hosted_payload c rc k) (m' k)" for k
    using assms(2,3) unfolding codec_keeps_def by blast
  have eq: "string_claim (m' k) = string_claim (hosted_payload c rc k)" "int64Claim (m' k) = int64Claim (hosted_payload c rc k)"
    "rolesClaimValues (m' k) = rolesClaimValues (hosted_payload c rc k)" for k
    using same [of k] by (simp_all add: same_claim_def)
  show ?thesis by (simp add: decodeHostedClaims_def m' eq hosted_payload_claims [OF assms(1)])
qed

text \<open>
  A token that was signed with the private key of one of an issuer's keys verifies, with the claims
  it was signed for and their roles normalized, as long as it names the issuer, the audience and a subject,
  has a known role and is in its time of validity.
\<close>

theorem hosted_token_roundtrip:
  assumes "signatures_check C" "codec_headers K" "codec_keeps K (hosted_payload c (hi_rolesClaim h))"
    and "hi_rolesClaim h \<noteq> []" "hi_rolesClaim h \<notin> claim_names"
    and "map_of (hi_keys h) keyID = Some (ed25519_Public C privateKey)"
    and "SignHostedToken C K keyID privateKey c (hi_rolesClaim h) = Inr token"
    and "checkHostedClaims h (Unix now) (c\<lparr>hc_Roles := normalizeRoles U (hc_Roles c)\<rparr>) = None"
  shows "verifyToken C U K h now token = Inr (c\<lparr>hc_Roles := normalizeRoles U (hc_Roles c)\<rparr>)"
proof -
  obtain hd pl where hd: "jc_Marshal K (jwt_header ''EdDSA'' keyID) = Some hd" and pl: "jc_Marshal K (hosted_payload c (hi_rolesClaim h)) = Some pl"
    and len: "length privateKey = PrivateKeySize"
    and token: "token = base64url_encode hd @ ''.'' @ base64url_encode pl @ ''.''
      @ base64url_encode (ed25519_Sign C privateKey (base64url_encode hd @ ''.'' @ base64url_encode pl))"
    using assms(4,7) by (auto simp: SignHostedToken_def Let_def split: if_splits option.splits)
  have "jc_Header K hd = Some (''EdDSA'', keyID)" using assms(2) hd unfolding codec_headers_def by blast
  moreover have "ed25519_Verify C (ed25519_Public C privateKey) m (ed25519_Sign C privateKey m)" for m
    using assms(1) len by (simp add: signatures_check_def)
  moreover note decode_hosted_payload [OF assms(5,3) pl, of U]
  ultimately show ?thesis using assms(6,8)
    by (simp add: verifyToken_def token compact_parts [simplified] base64url_roundtrip)
qed

section \<open>Initial operators\<close>

lemma hex_chars: "\<forall>c \<in> set (hex_EncodeToString s). hex_char c \<and> graphic c"
proof -
  have "hex_char (hex_digit n) \<and> graphic (hex_digit n)" if "n < 16" for n
  proof -
    have "hex_digit n \<in> set ''0123456789abcdef''" unfolding hex_digit_def using that by (intro nth_mem) simp
    then show ?thesis by (auto simp: hex_char_def graphic_def)
  qed
  moreover have "(of_char c :: nat) div 16 < 16" "(of_char c :: nat) mod 16 < 16" for c by (simp_all add: of_char_div_16)
  ultimately show ?thesis by (auto simp: hex_EncodeToString_def)
qed

lemma hex_length: "length (hex_EncodeToString s) = 2 * length s"
  by (induction s) (simp_all add: hex_EncodeToString_def)

text \<open>What crypto/sha256 documents: a digest has 32 bytes.\<close>

definition digests_sized :: "crypto \<Rightarrow> bool" where
  "digests_sized C \<longleftrightarrow> (\<forall>m. length (sha256_Sum256 C m) = 32)"

lemma HashToken_ok:
  assumes "digests_sized C"
  shows "validateHash (HashToken C t) = None" "TrimSpace (HashToken C t) = HashToken C t" "HashToken C t \<noteq> []"
proof -
  let ?h = "hex_EncodeToString (sha256_Sum256 C t)"
  have len: "length ?h = 64" using assms by (simp add: hex_length digests_sized_def)
  then have "?h \<noteq> []" by auto
  then have "graphic (last ?h)" using hex_chars last_in_set by blast
  then show "TrimSpace (HashToken C t) = HashToken C t" using \<open>?h \<noteq> []\<close>
    by (intro TrimSpace_graphic) (simp_all add: HashToken_def graphic_def)
  show "validateHash (HashToken C t) = None" using len hex_chars
    by (auto simp: validateHash_def HashToken_def list_all_iff)
qed (simp add: HashToken_def)

lemma HashToken_inj: "HashToken C t = HashToken C t' \<longleftrightarrow> sha256_Sum256 C t = sha256_Sum256 C t'"
  using hex_inj by (auto simp: HashToken_def)

lemma GenerateToken_graphic:
  assumes "GenerateToken r = Some t"
  shows "t \<noteq> []" "TrimSpace t = t"
proof -
  obtain raw :: "nat \<Rightarrow> u8" where raw: "t = ''rdev_'' @ base64url_encode (map (\<lambda>i. char_of (unat (raw i))) [0..<32])"
    using assms unfolding GenerateToken_def map_option_eq_Some by blast
  let ?b = "base64url_encode (map (\<lambda>i. char_of (unat (raw i))) [0..<32])"
  have "?b \<noteq> []" using base64url_encode_empty [of "map (\<lambda>i. char_of (unat (raw i))) [0..<32]"] by simp
  moreover have "\<forall>c \<in> set base64url_alphabet. graphic c" by (simp add: base64url_alphabet_def graphic_def)
  ultimately have "graphic (last ?b)" using base64url_chars last_in_set by blast
  then show "TrimSpace t = t" using \<open>?b \<noteq> []\<close> by (intro TrimSpace_graphic) (simp_all add: raw graphic_def)
  show "t \<noteq> []" by (simp add: raw)
qed

text \<open>A principal that is written as New would write it.\<close>

definition principal_normal :: "unicode \<Rightarrow> Principal \<Rightarrow> bool" where
  "principal_normal U p \<longleftrightarrow> pr_ID p \<noteq> [] \<and> TrimSpace (pr_ID p) = pr_ID p \<and> TrimSpace (pr_TokenHash p) = pr_TokenHash p
     \<and> pr_TokenHash p \<noteq> [] \<and> validateHash (pr_TokenHash p) = None \<and> normalizeRoles U (pr_Roles p) = pr_Roles p \<and> pr_Roles p \<noteq> []"

lemma normalizePrincipals_normal:
  "\<forall>p \<in> set ps. principal_normal U p \<Longrightarrow> distinct (map pr_ID (kept @ ps)) \<Longrightarrow> normalizePrincipals U kept ps = Inr (kept @ ps)"
proof (induction ps arbitrary: kept)
  case (Cons p ps)
  have "principal_normal U p" using Cons.prems(1) by simp
  then have "p\<lparr>pr_ID := TrimSpace (pr_ID p), pr_TokenHash := TrimSpace (pr_TokenHash p), pr_Roles := normalizeRoles U (pr_Roles p)\<rparr> = p"
    by (simp add: principal_normal_def)
  then have "normalizePrincipals U kept (p # ps) = normalizePrincipals U (kept @ [p]) ps"
    using Cons.prems \<open>principal_normal U p\<close> by (auto simp: Let_def principal_normal_def)
  then show ?case using Cons.IH [of "kept @ [p]"] Cons.prems by simp
qed simp

lemma normalizeRoles_one: "role \<in> operator_roles \<Longrightarrow> normalizeRoles U [role] = [role]"
proof -
  assume "role \<in> operator_roles"
  then have "ToLower U role = role" "TrimSpace role = role"
    by (auto simp: operator_roles_def role_names ToLower_def is_ascii_def ToLower_ascii_def graphic_def intro!: TrimSpace_graphic)
  then have "role_text U role = role" by (simp add: role_text_def)
  then show ?thesis using keepRoles_step [of U "[]" role "[]"] \<open>role \<in> operator_roles\<close> by (simp add: normalizeRoles_def)
qed

lemma initPrincipals_spec:
  "initPrincipals C draws specs = Inr (ps, tokens) \<Longrightarrow>
   length tokens = length specs \<and> map fst tokens = map fst specs \<and> (\<forall>t \<in> set tokens. snd t \<noteq> [] \<and> TrimSpace (snd t) = snd t)
   \<and> ps = map2 (\<lambda>(name, roles) (_, token). \<lparr>pr_ID = name, pr_Roles = roles, pr_TokenHash = HashToken C token\<rparr>) specs tokens"
proof (induction C draws specs arbitrary: ps tokens rule: initPrincipals.induct)
  case (3 C draw draws name roles specs)
  obtain token where token: "GenerateToken draw = Some token" using 3(2) by (auto split: option.splits)
  obtain qs us where rest: "initPrincipals C draws specs = Inr (qs, us)"
    and out: "ps = \<lparr>pr_ID = name, pr_Roles = roles, pr_TokenHash = HashToken C token\<rparr> # qs" "tokens = (name, token) # us"
    using 3(2) token by (auto split: sum.splits)
  from 3(1) [OF token rest] show ?case using out GenerateToken_graphic [OF token] by simp
qed simp_all

lemma bearer_token_graphic: "t \<noteq> [] \<Longrightarrow> TrimSpace t = t \<Longrightarrow> bearer_token (''Bearer '' @ t) = Some t"
  by (simp add: bearer_token_def)

text \<open>
  The file that InitDefault writes loads, and each of its four tokens is then let in exactly for the
  requests that allow its role, the administrator's for all, given digests of 32 bytes and tokens whose
  digests differ.
\<close>

theorem initial_operators_admitted:
  assumes "digests_sized C" "InitDefault C draws createdAt = Inr (file', tokens)" "distinct (map (sha256_Sum256 C \<circ> snd) tokens)"
  shows "\<exists>auth. Load U (Inr file') = Inr (auth, file')
    \<and> (\<forall>(role, token) \<in> set tokens. \<forall>allowed.
         Authorizer_AuthorizeBearer C hostedAuthorize (Some auth) (''Bearer '' @ token) allowed \<longleftrightarrow> sufficient [role] allowed)"
proof -
  obtain ps where init: "initPrincipals C draws default_specs = Inr (ps, tokens)"
    and file': "file' = \<lparr>af_SchemaVersion = OperatorAuthSchemaVersion, af_HashAlg = ''sha256'', af_Principals = ps, af_CreatedAt = createdAt\<rparr>"
    using assms(2) by (auto simp: InitDefault_def split: sum.splits)
  note spec = initPrincipals_spec [OF init]
  from spec obtain t1 t2 t3 t4 where tokens: "tokens = [(RoleAdmin, t1), (RoleOperator, t2), (RoleIssuer, t3), (RoleAuditor, t4)]"
    by (auto simp: default_specs_def role_names numeral_eq_Suc length_Suc_conv)
  let ?p = "\<lambda>role t. \<lparr>pr_ID = role, pr_Roles = [role], pr_TokenHash = HashToken C t\<rparr>"
  have ps: "ps = [?p RoleAdmin t1, ?p RoleOperator t2, ?p RoleIssuer t3, ?p RoleAuditor t4]"
    using spec by (simp add: default_specs_def tokens role_names)
  have "TrimSpace role = role" "role \<noteq> []" if "role \<in> operator_roles" for role
    using that by (auto simp: operator_roles_def role_names graphic_def intro!: TrimSpace_graphic)
  then have "principal_normal U (?p role t)" if "role \<in> operator_roles" for role t
    using that HashToken_ok [OF assms(1)] by (simp add: principal_normal_def normalizeRoles_one)
  then have "\<forall>p \<in> set ps. principal_normal U p" by (simp add: ps operator_roles_def)
  moreover have "distinct (map pr_ID ([] @ ps))" by (simp add: ps role_names)
  ultimately have "normalizePrincipals U [] ps = Inr ps" using normalizePrincipals_normal [of ps U "[]"] by simp
  then have load: "Load U (Inr file') = Inr (\<lparr>az_principals = ps, az_hosted = []\<rparr>, file')"
    by (simp add: Load_def NewAuthorizer_def NewPrincipals_def file' ps)
  have hashes: "distinct (map (HashToken C) [t1, t2, t3, t4])" using assms(3) by (simp add: tokens HashToken_inj)
  have bearer: "bearer_token (''Bearer '' @ t) = Some t" if "t \<in> {t1, t2, t3, t4}" for t
    using that spec by (auto simp: tokens bearer_token_graphic simp del: append_Cons)
  have "Authorizer_AuthorizeBearer C hostedAuthorize (Some \<lparr>az_principals = ps, az_hosted = []\<rparr>) (''Bearer '' @ t) allowed
      \<longleftrightarrow> sufficient [role] allowed" if "(role, t) \<in> set tokens" for role t allowed
    using that hashes bearer [of t]
    by (auto simp: tokens ps Authorizer_AuthorizeBearer_def Authorizer_Enabled_def principalHasRole_iff Let_def simp del: append_Cons)
  then show ?thesis using load by blast
qed

section \<open>Concrete instances\<close>

text \<open>A digest of 32 bytes, and four draws that differ.\<close>

definition sized_crypto :: crypto where
  "sized_crypto = demo_crypto\<lparr>sha256_Sum256 := (\<lambda>m. take 32 ((case base64url_decode (drop 5 m) of None \<Rightarrow> [] | Some r \<Rightarrow> r) @ replicate 32 (CHR 0x00)))\<rparr>"

definition plain_unicode :: unicode where
  "plain_unicode = \<lparr>uc_ToLower = (\<lambda>s. s), uc_EqualFold = (=)\<rparr>"

definition demo_draw :: "u8 \<Rightarrow> (nat \<Rightarrow> u8) option" where
  "demo_draw n = Some (\<lambda>_. n)"

definition demo_token :: "u8 \<Rightarrow> string" where
  "demo_token n = ''rdev_'' @ base64url_encode (replicate 32 (char_of (unat n)))"

lemma demo_draw_token: "GenerateToken (demo_draw n) = Some (demo_token n)"
  by (simp add: GenerateToken_def demo_draw_def demo_token_def map_replicate_const)

lemma sized_crypto_token: "sha256_Sum256 sized_crypto (demo_token n) = replicate 32 (char_of (unat n))"
  by (simp add: sized_crypto_def demo_token_def base64url_roundtrip)

lemma demo_InitDefault:
  "\<exists>f. InitDefault sized_crypto [demo_draw 1, demo_draw 2, demo_draw 3, demo_draw 4] ''now''
     = Inr (f, [(''admin'', demo_token 1), (''operator'', demo_token 2), (''issuer'', demo_token 3), (''auditor'', demo_token 4)])"
  by (simp add: InitDefault_def default_specs_def demo_draw_token)

theorem initial_operators_admitted_witness:
  "\<exists>f auth. InitDefault sized_crypto [demo_draw 1, demo_draw 2, demo_draw 3, demo_draw 4] ''now''
      = Inr (f, [(''admin'', demo_token 1), (''operator'', demo_token 2), (''issuer'', demo_token 3), (''auditor'', demo_token 4)])
    \<and> Load plain_unicode (Inr f) = Inr (auth, f)
    \<and> Authorizer_AuthorizeBearer sized_crypto (\<lambda>(s::unit) h r. False) (Some auth) (''Bearer '' @ demo_token 1) [''operator'']
    \<and> Authorizer_AuthorizeBearer sized_crypto (\<lambda>(s::unit) h r. False) (Some auth) (''Bearer '' @ demo_token 2) [''operator'']
    \<and> \<not> Authorizer_AuthorizeBearer sized_crypto (\<lambda>(s::unit) h r. False) (Some auth) (''Bearer '' @ demo_token 4) [''operator'']"
proof -
  obtain f where f: "InitDefault sized_crypto [demo_draw 1, demo_draw 2, demo_draw 3, demo_draw 4] ''now''
      = Inr (f, [(''admin'', demo_token 1), (''operator'', demo_token 2), (''issuer'', demo_token 3), (''auditor'', demo_token 4)])"
    using demo_InitDefault by blast
  have sized: "digests_sized sized_crypto" by (auto simp: digests_sized_def sized_crypto_def min_def)
  have "distinct (map (sha256_Sum256 sized_crypto \<circ> snd)
      [(''admin'', demo_token 1), (''operator'', demo_token 2), (''issuer'', demo_token 3), (''auditor'', demo_token 4)])"
    by (simp add: sized_crypto_token)
  from initial_operators_admitted [OF sized f this, of plain_unicode "\<lambda>(s::unit) h r. False"] show ?thesis
    using f by (auto simp: sufficient_def role_names simp del: append_Cons)
qed

definition demo_issuer :: HostedIssuer where
  "demo_issuer = \<lparr>hi_issuer = ''idp'', hi_audience = ''rdev'', hi_rolesClaim = ''roles'', hi_keys = [(''k'', ed25519_Public demo_crypto demo_private)]\<rparr>"

definition demo_claims :: HostedClaims where
  "demo_claims = \<lparr>hc_Issuer = ''idp'', hc_Subject = ''alice'', hc_Audience = ''rdev'', hc_ExpiresAt = 20, hc_NotBefore = 0, hc_IssuedAt = 0,
     hc_Roles = [''operator'']\<rparr>"

text \<open>A codec that writes the two texts of a header after the length of the first, in unary, and knows one payload.\<close>

definition demo_codec :: jwt_codec where
  "demo_codec = \<lparr>jc_Header = (\<lambda>s. let n = length (takeWhile (\<lambda>c. c = CHR ''1'') s); r = drop (Suc n) s in Some (take n r, drop n r)),
     jc_Object = (\<lambda>s. Some (hosted_payload demo_claims ''roles'')),
     jc_Marshal = (\<lambda>m. case (m ''alg'', m ''kid'') of
        (Some (GString alg), Some (GString kid)) \<Rightarrow> Some (replicate (length alg) (CHR ''1'') @ CHR ''0'' # alg @ kid)
      | _ \<Rightarrow> Some ''p'')\<rparr>"

definition demo_now :: Time where
  "demo_now = (62135596800 + 10) * 1000000000"

lemma demo_codec_headers: "codec_headers demo_codec"
  by (simp add: codec_headers_def demo_codec_def jwt_header_def takeWhile_append Let_def)

lemma demo_codec_keeps: "codec_keeps demo_codec (hosted_payload demo_claims (hi_rolesClaim demo_issuer))"
  by (simp add: codec_keeps_def demo_codec_def demo_issuer_def same_claim_def hosted_payload_def demo_claims_def)

lemma demo_roles: "normalizeRoles plain_unicode [''operator''] = [''operator'']"
  using normalizeRoles_one [of RoleOperator plain_unicode] by (simp add: operator_roles_def RoleOperator_def)

theorem hosted_token_roundtrip_witness:
  "\<exists>token. SignHostedToken demo_crypto demo_codec ''k'' demo_private demo_claims ''roles'' = Inr token
    \<and> verifyToken demo_crypto plain_unicode demo_codec demo_issuer demo_now token = Inr demo_claims"
proof -
  obtain token where token: "SignHostedToken demo_crypto demo_codec ''k'' demo_private demo_claims (hi_rolesClaim demo_issuer) = Inr token"
    by (simp add: SignHostedToken_def demo_codec_def jwt_header_def hosted_payload_def demo_issuer_def demo_claims_def)
  have same: "demo_claims\<lparr>hc_Roles := normalizeRoles plain_unicode (hc_Roles demo_claims)\<rparr> = demo_claims"
    using demo_roles by (simp add: demo_claims_def)
  have "verifyToken demo_crypto plain_unicode demo_codec demo_issuer demo_now token
      = Inr (demo_claims\<lparr>hc_Roles := normalizeRoles plain_unicode (hc_Roles demo_claims)\<rparr>)"
  proof (rule hosted_token_roundtrip [OF demo_crypto_checks demo_codec_headers demo_codec_keeps _ _ _ token])
    show "checkHostedClaims demo_issuer (Unix demo_now) (demo_claims\<lparr>hc_Roles := normalizeRoles plain_unicode (hc_Roles demo_claims)\<rparr>) = None"
      unfolding same by (simp add: checkHostedClaims_def demo_issuer_def demo_claims_def Unix_def demo_now_def second_ns_def)
  qed (simp_all add: demo_issuer_def claim_names_def)
  then show ?thesis using token same by (auto simp: demo_issuer_def)
qed

text \<open>An authorizer with that issuer only refuses a request without a bearer header.\<close>

definition demo_auth_env :: "unit auth_env" where
  "demo_auth_env = \<lparr>ae_crypto = demo_crypto, ae_unicode = plain_unicode, ae_codec = demo_codec, ae_rsa = (\<lambda>_ _ _. False), ae_retrieve = (\<lambda>_ _ _. None)\<rparr>"

theorem access_exact_witness:
  "\<exists>auth. NewCombinedSources plain_unicode source_enabled [] [Some (HostedSource demo_issuer)] = Inr auth
    \<and> \<not> Authorizer_AuthorizeBearer demo_crypto (\<lambda>s. source_authorize demo_auth_env s demo_now) (Some auth) ''Basic x'' [RoleOperator]"
proof -
  let ?auth = "\<lparr>az_principals = [], az_hosted = [HostedSource demo_issuer]\<rparr>"
  have new: "NewCombinedSources (ae_unicode demo_auth_env) source_enabled [] [Some (HostedSource demo_issuer)] = Inr ?auth"
    by (simp add: NewCombinedSources_def List.map_filter_def HostedIssuer_Enabled_def demo_issuer_def)
  have "bearer_token ''Basic x'' = None" by (simp add: bearer_token_def)
  then show ?thesis using access_exact [OF new, of demo_now "''Basic x''" "[RoleOperator]"] new by (auto simp: demo_auth_env_def)
qed

end
