(* ===== verification/Engineering_Task.thy ===== *)
theory Engineering_Task
  imports Go_Path "HOL-Library.Monad_Syntax"
begin

text \<open>
  The engineering task contract (internal/contracts/engineering_task.go): the typed task inside a session
  task, its normalization and validation, what an adapter demands of it, and the payload and limits a host
  receives. Encoding a dynamic value as JSON and decoding it strictly into the struct are a parameter; for
  the fields of a struct under their declared names, \<open>struct_task\<close> is what that decoding does.
\<close>

section \<open>Data\<close>

definition EngineeringTaskSchemaVersion :: string where
  "EngineeringTaskSchemaVersion = ''rdev.engineering-task.v1''"

definition maxEngineeringTaskDurationSeconds :: gint where "maxEngineeringTaskDurationSeconds = 24 * 60 * 60"
definition maxEngineeringTaskOutputBytes :: gint where "maxEngineeringTaskOutputBytes = 16 * 1024 * 1024"
definition maxEngineeringTaskAttempts :: gint where "maxEngineeringTaskAttempts = 10"

record EngineeringWorkspace =
  ew_Root :: string
  ew_Handle :: string
  ew_BaseSHA :: string
  ew_Branch :: string
  ew_Isolation :: string
  ew_DirtyPolicy :: string
  ew_Cleanup :: string
  ew_ReadScope :: "string list"
  ew_WriteScope :: "string list"

record EngineeringVerification =
  evf_Commands :: "string list list"
  evf_AllowCommands :: "string list"

record EngineeringTaskLimits =
  el_MaxDurationSeconds :: gint
  el_MaxOutputBytes :: gint
  el_MaxAttempts :: gint

record EngineeringTask =
  et_SchemaVersion :: string
  et_Goal :: string
  et_Workspace :: EngineeringWorkspace
  et_Plan :: "string list"
  et_Acceptance :: "string list"
  et_Verification :: EngineeringVerification
  et_Limits :: EngineeringTaskLimits
  et_NetworkPolicy :: string
  et_RequiredCapabilities :: "string list"
  et_InterruptsRequired :: "string list"
  et_IdempotencyKey :: string

section \<open>Normalization\<close>

definition normalizeStrings :: "string list \<Rightarrow> string list" where
  "normalizeStrings values = filter (\<lambda>v. v \<noteq> []) (map TrimSpace values)"

definition normalizeWorkspace :: "EngineeringWorkspace \<Rightarrow> EngineeringWorkspace" where
  "normalizeWorkspace w =
     \<lparr>ew_Root = TrimSpace (ew_Root w), ew_Handle = TrimSpace (ew_Handle w), ew_BaseSHA = TrimSpace (ew_BaseSHA w),
      ew_Branch = TrimSpace (ew_Branch w), ew_Isolation = TrimSpace (ew_Isolation w), ew_DirtyPolicy = TrimSpace (ew_DirtyPolicy w),
      ew_Cleanup = (let cleanup = TrimSpace (ew_Cleanup w) in if cleanup = [] then ''preserve'' else cleanup),
      ew_ReadScope = normalizeStrings (ew_ReadScope w), ew_WriteScope = normalizeStrings (ew_WriteScope w)\<rparr>"

definition normalizeTask :: "EngineeringTask \<Rightarrow> EngineeringTask" where
  "normalizeTask t =
     \<lparr>et_SchemaVersion = TrimSpace (et_SchemaVersion t), et_Goal = TrimSpace (et_Goal t), et_Workspace = normalizeWorkspace (et_Workspace t),
      et_Plan = normalizeStrings (et_Plan t), et_Acceptance = normalizeStrings (et_Acceptance t),
      et_Verification = \<lparr>evf_Commands = map normalizeStrings (evf_Commands (et_Verification t)),
        evf_AllowCommands = normalizeStrings (evf_AllowCommands (et_Verification t))\<rparr>,
      et_Limits = et_Limits t, et_NetworkPolicy = TrimSpace (et_NetworkPolicy t),
      et_RequiredCapabilities = normalizeStrings (et_RequiredCapabilities t),
      et_InterruptsRequired = normalizeStrings (et_InterruptsRequired t), et_IdempotencyKey = TrimSpace (et_IdempotencyKey t)\<rparr>"

section \<open>Validation\<close>

type_synonym contract_result = "string option"

fun uniqueFrom :: "string set \<Rightarrow> string list \<Rightarrow> bool \<times> bool" where
  "uniqueFrom seen [] = (True, True)"
| "uniqueFrom seen (value # values) =
     (if value = [] then (False, True) else if value \<in> seen then (True, False) else uniqueFrom (insert value seen) values)"

definition validateUniqueStrings :: "string \<Rightarrow> string list \<Rightarrow> bool \<Rightarrow> contract_result" where
  "validateUniqueStrings name values required =
     (if required \<and> values = [] then Some (name @ '' is required'')
      else
        (case uniqueFrom {} values of
           (False, _) \<Rightarrow> Some (name @ '' contains an empty value'')
         | (True, False) \<Rightarrow> Some (name @ '' contains duplicate value'')
         | (True, True) \<Rightarrow> None))"

definition goesUp :: "string \<Rightarrow> bool" where
  "goesUp path \<longleftrightarrow> path = ''..'' \<or> prefix ''../'' path"

definition scopeEscapes :: "string \<Rightarrow> string \<Rightarrow> bool" where
  "scopeEscapes root value =
     (if filepath_IsAbs value then (case filepath_Rel root value of None \<Rightarrow> True | Some rel \<Rightarrow> goesUp rel)
      else goesUp (filepath_Clean value))"

definition validateScopes :: "string \<Rightarrow> string \<Rightarrow> string list \<Rightarrow> bool \<Rightarrow> contract_result" where
  "validateScopes name root values required =
     (if required \<and> values = [] then Some (name @ '' is required'')
      else
        (case validateUniqueStrings name values False of
           Some e \<Rightarrow> Some e
         | None \<Rightarrow> if list_ex (scopeEscapes root) values then Some (name @ '' path escapes workspace.root'') else None))"

definition hexDigit :: "char \<Rightarrow> bool" where
  "hexDigit c \<longleftrightarrow> c \<in> set ''0123456789abcdefABCDEF''"

definition engineeringBaseSHA :: "string \<Rightarrow> bool" where
  "engineeringBaseSHA s \<longleftrightarrow> 7 \<le> length s \<and> length s \<le> 64 \<and> list_all hexDigit s"

definition validateWorkspace :: "EngineeringWorkspace \<Rightarrow> contract_result" where
  "validateWorkspace w =
     (if ew_Root w = [] then Some ''workspace.root is required for host-local execution''
      else if ew_BaseSHA w \<noteq> [] \<and> \<not> engineeringBaseSHA (ew_BaseSHA w)
      then Some ''workspace.base_sha must be a 7-64 character hexadecimal Git SHA''
      else if ew_Isolation w = ''git-worktree'' \<and> ew_BaseSHA w = [] then Some ''workspace.base_sha is required for git-worktree isolation''
      else if ew_Isolation w \<notin> {''git-worktree'', ''workspace-lock''} then Some ''workspace.isolation''
      else if ew_DirtyPolicy w \<notin> {''preserve'', ''require-clean''} then Some ''workspace.dirty_policy''
      else if ew_Cleanup w \<notin> {''preserve'', ''remove'', ''rollback''} then Some ''workspace.cleanup''
      else
        (case validateScopes ''workspace.read_scope'' (ew_Root w) (ew_ReadScope w) True of
           Some e \<Rightarrow> Some e
         | None \<Rightarrow> validateScopes ''workspace.write_scope'' (ew_Root w) (ew_WriteScope w) False))"

definition validateLimits :: "EngineeringTaskLimits \<Rightarrow> contract_result" where
  "validateLimits l =
     (if el_MaxDurationSeconds l \<le> 0 \<or> el_MaxDurationSeconds l > maxEngineeringTaskDurationSeconds then Some ''limits.max_duration_seconds''
      else if el_MaxOutputBytes l \<le> 0 \<or> el_MaxOutputBytes l > maxEngineeringTaskOutputBytes then Some ''limits.max_output_bytes''
      else if el_MaxAttempts l \<le> 0 \<or> el_MaxAttempts l > maxEngineeringTaskAttempts then Some ''limits.max_attempts''
      else None)"

definition Validate :: "EngineeringTask \<Rightarrow> contract_result" where
  "Validate t =
     (if et_SchemaVersion t \<noteq> EngineeringTaskSchemaVersion then Some ''schema_version''
      else if et_Goal t = [] then Some ''goal is required''
      else
        (case validateWorkspace (et_Workspace t) of
           Some e \<Rightarrow> Some e
         | None \<Rightarrow>
             if et_Plan t = [] then Some ''plan is required''
             else if et_Acceptance t = [] then Some ''acceptance is required''
             else if evf_Commands (et_Verification t) = [] then Some ''verification.commands is required''
             else if list_ex (\<lambda>command. command = [] \<or> hd command = []) (evf_Commands (et_Verification t)) then Some ''verification command is required''
             else
               (case validateLimits (et_Limits t) of
                  Some e \<Rightarrow> Some e
                | None \<Rightarrow>
                    if et_NetworkPolicy t \<notin> {''default-deny'', ''deny'', ''allow''} then Some ''network_policy''
                    else
                      (case validateUniqueStrings ''required_capabilities'' (et_RequiredCapabilities t) True of
                         Some e \<Rightarrow> Some e
                       | None \<Rightarrow>
                           (case validateUniqueStrings ''interrupts_required'' (et_InterruptsRequired t) False of
                              Some e \<Rightarrow> Some e
                            | None \<Rightarrow>
                                if et_IdempotencyKey t = [] then Some ''idempotency_key is required''
                                else if length (et_IdempotencyKey t) > 256 then Some ''idempotency_key exceeds 256 characters''
                                else None)))))"

section \<open>Adapters\<close>

record AdapterTaskProfile =
  ap_Adapter :: string
  ap_SchemaVersion :: string
  ap_RequiredCapabilities :: "string list"
  ap_WorkspaceRootRequired :: bool

text \<open>The profiles, without the example payloads that document them.\<close>

definition AdapterTaskProfiles :: "AdapterTaskProfile list" where
  "AdapterTaskProfiles =
     [\<lparr>ap_Adapter = ''shell'', ap_SchemaVersion = ''rdev.shell-result.v1'', ap_RequiredCapabilities = [''shell.user''], ap_WorkspaceRootRequired = True\<rparr>,
      \<lparr>ap_Adapter = ''powershell'', ap_SchemaVersion = ''rdev.powershell-result.v1'', ap_RequiredCapabilities = [''powershell.user''], ap_WorkspaceRootRequired = True\<rparr>,
      \<lparr>ap_Adapter = ''codex'', ap_SchemaVersion = ''rdev.codex-result.v1'', ap_RequiredCapabilities = [''codex.run'', ''git.diff''], ap_WorkspaceRootRequired = True\<rparr>,
      \<lparr>ap_Adapter = ''claude-code'', ap_SchemaVersion = ''rdev.claude-code-result.v1'', ap_RequiredCapabilities = [''claude-code.run'', ''git.diff''], ap_WorkspaceRootRequired = True\<rparr>,
      \<lparr>ap_Adapter = ''acpx'', ap_SchemaVersion = ''rdev.acpx-result.v1'', ap_RequiredCapabilities = [''acpx.run'', ''git.diff''], ap_WorkspaceRootRequired = True\<rparr>,
      \<lparr>ap_Adapter = ''file'', ap_SchemaVersion = ''rdev.file-result.v1'', ap_RequiredCapabilities = [''file.transfer.read''], ap_WorkspaceRootRequired = True\<rparr>,
      \<lparr>ap_Adapter = ''desktop'', ap_SchemaVersion = ''rdev.desktop-result.v1'', ap_RequiredCapabilities = [''window.inspect''], ap_WorkspaceRootRequired = True\<rparr>,
      \<lparr>ap_Adapter = ''host-update'', ap_SchemaVersion = ''rdev.host-update-result.v1'', ap_RequiredCapabilities = [''host.update''], ap_WorkspaceRootRequired = False\<rparr>]"

definition adapterTaskProfile :: "string \<Rightarrow> AdapterTaskProfile option" where
  "adapterTaskProfile adapter = find (\<lambda>profile. ap_Adapter profile = adapter) AdapterTaskProfiles"

definition ValidateForAdapter :: "string \<Rightarrow> EngineeringTask \<Rightarrow> contract_result" where
  "ValidateForAdapter adapter t =
     (case Validate t of
        Some e \<Rightarrow> Some e
      | None \<Rightarrow>
          (case adapterTaskProfile adapter of
             None \<Rightarrow> Some ''adapter is not supported''
           | Some profile \<Rightarrow>
               if \<not> list_all (\<lambda>capability. capability \<in> set (et_RequiredCapabilities t)) (ap_RequiredCapabilities profile)
               then Some ''adapter requires capability''
               else if adapter \<in> {''shell'', ''powershell'', ''codex'', ''claude-code'', ''acpx''} \<and> ew_WriteScope (et_Workspace t) = []
               then Some ''workspace.write_scope is required''
               else None))"

section \<open>Decoding and the host's view\<close>

text \<open>\<open>strict\<close> encodes a dynamic value and decodes it into the struct, refusing unknown fields and trailing values.\<close>

definition DecodeEngineeringTask :: "(goval \<Rightarrow> EngineeringTask option) \<Rightarrow> goval \<Rightarrow> string + EngineeringTask" where
  "DecodeEngineeringTask strict raw =
     (case raw of
        GNil \<Rightarrow> Inl ''engineering_task is required''
      | _ \<Rightarrow>
          (case strict raw of
             None \<Rightarrow> Inl ''decode engineering_task''
           | Some decoded \<Rightarrow>
               (let task = normalizeTask decoded in case Validate task of Some e \<Rightarrow> Inl e | None \<Rightarrow> Inr task)))"

abbreviation texts :: "string list \<Rightarrow> goval" where
  "texts values \<equiv> GList (map GString values)"

text \<open>A struct as a dynamic value: its encoded fields, empty optional ones left out.\<close>

definition optional :: "string \<Rightarrow> bool \<Rightarrow> goval \<Rightarrow> (string \<times> goval) list" where
  "optional name absent v = (if absent then [] else [(name, v)])"

definition workspace_value :: "EngineeringWorkspace \<Rightarrow> goval" where
  "workspace_value w = GStruct
     ([(''root'', GString (ew_Root w))] @ optional ''handle'' (ew_Handle w = []) (GString (ew_Handle w))
      @ optional ''base_sha'' (ew_BaseSHA w = []) (GString (ew_BaseSHA w)) @ optional ''branch'' (ew_Branch w = []) (GString (ew_Branch w))
      @ [(''isolation'', GString (ew_Isolation w)), (''dirty_policy'', GString (ew_DirtyPolicy w))]
      @ optional ''cleanup'' (ew_Cleanup w = []) (GString (ew_Cleanup w))
      @ [(''read_scope'', texts (ew_ReadScope w)), (''write_scope'', texts (ew_WriteScope w))])"

definition task_value :: "EngineeringTask \<Rightarrow> goval" where
  "task_value t = GStruct
     ([(''schema_version'', GString (et_SchemaVersion t)), (''goal'', GString (et_Goal t)), (''workspace'', workspace_value (et_Workspace t)),
       (''plan'', texts (et_Plan t)), (''acceptance'', texts (et_Acceptance t)),
       (''verification'', GStruct [(''commands'', GList (map texts (evf_Commands (et_Verification t)))),
          (''allow_commands'', texts (evf_AllowCommands (et_Verification t)))]),
       (''limits'', GStruct [(''max_duration_seconds'', GInt (el_MaxDurationSeconds (et_Limits t))),
          (''max_output_bytes'', GInt (el_MaxOutputBytes (et_Limits t))), (''max_attempts'', GInt (el_MaxAttempts (et_Limits t)))]),
       (''network_policy'', GString (et_NetworkPolicy t)), (''required_capabilities'', texts (et_RequiredCapabilities t))]
      @ optional ''interrupts_required'' (et_InterruptsRequired t = []) (texts (et_InterruptsRequired t))
      @ [(''idempotency_key'', GString (et_IdempotencyKey t))])"

text \<open>
  Decoding such fields into the struct again, as encoding/json does with unknown fields disallowed: a
  missing field or null leaves the zero value, and a value of another type or a name that is no field
  is an error.
\<close>

fun decode_text :: "goval option \<Rightarrow> string option" where
  "decode_text None = Some []"
| "decode_text (Some GNil) = Some []"
| "decode_text (Some (GString s)) = Some s"
| "decode_text _ = None"

fun decode_list :: "(goval option \<Rightarrow> 'a option) \<Rightarrow> goval option \<Rightarrow> 'a list option" where
  "decode_list f None = Some []"
| "decode_list f (Some GNil) = Some []"
| "decode_list f (Some (GList vs)) = those (map (\<lambda>v. f (Some v)) vs)"
| "decode_list f _ = None"

fun decode_int :: "goval option \<Rightarrow> gint option" where
  "decode_int None = Some 0"
| "decode_int (Some GNil) = Some 0"
| "decode_int (Some (GInt n)) = Some n"
| "decode_int _ = None"

definition known_fields :: "string list \<Rightarrow> (string \<times> goval) list \<Rightarrow> bool" where
  "known_fields names fs \<longleftrightarrow> distinct (map fst fs) \<and> list_all (\<lambda>f. fst f \<in> set names) fs"

fun decode_struct :: "((string \<times> goval) list \<Rightarrow> 'a option) \<Rightarrow> goval option \<Rightarrow> 'a option" where
  "decode_struct f None = f []"
| "decode_struct f (Some GNil) = f []"
| "decode_struct f (Some (GStruct fs)) = f fs"
| "decode_struct f _ = None"

definition struct_workspace :: "(string \<times> goval) list \<Rightarrow> EngineeringWorkspace option" where
  "struct_workspace fs =
     (if \<not> known_fields [''root'', ''handle'', ''base_sha'', ''branch'', ''isolation'', ''dirty_policy'', ''cleanup'', ''read_scope'', ''write_scope''] fs
      then None
      else do {
        root \<leftarrow> decode_text (map_of fs ''root''); handle \<leftarrow> decode_text (map_of fs ''handle'');
        base \<leftarrow> decode_text (map_of fs ''base_sha''); branch \<leftarrow> decode_text (map_of fs ''branch'');
        isolation \<leftarrow> decode_text (map_of fs ''isolation''); dirty \<leftarrow> decode_text (map_of fs ''dirty_policy'');
        cleanup \<leftarrow> decode_text (map_of fs ''cleanup'');
        reads \<leftarrow> decode_list decode_text (map_of fs ''read_scope''); writes \<leftarrow> decode_list decode_text (map_of fs ''write_scope'');
        Some \<lparr>ew_Root = root, ew_Handle = handle, ew_BaseSHA = base, ew_Branch = branch, ew_Isolation = isolation,
              ew_DirtyPolicy = dirty, ew_Cleanup = cleanup, ew_ReadScope = reads, ew_WriteScope = writes\<rparr>})"

definition struct_verification :: "(string \<times> goval) list \<Rightarrow> EngineeringVerification option" where
  "struct_verification fs =
     (if \<not> known_fields [''commands'', ''allow_commands''] fs then None
      else do {
        commands \<leftarrow> decode_list (decode_list decode_text) (map_of fs ''commands'');
        allow \<leftarrow> decode_list decode_text (map_of fs ''allow_commands'');
        Some \<lparr>evf_Commands = commands, evf_AllowCommands = allow\<rparr>})"

definition struct_limits :: "(string \<times> goval) list \<Rightarrow> EngineeringTaskLimits option" where
  "struct_limits fs =
     (if \<not> known_fields [''max_duration_seconds'', ''max_output_bytes'', ''max_attempts''] fs then None
      else do {
        duration \<leftarrow> decode_int (map_of fs ''max_duration_seconds''); output \<leftarrow> decode_int (map_of fs ''max_output_bytes'');
        attempts \<leftarrow> decode_int (map_of fs ''max_attempts'');
        Some \<lparr>el_MaxDurationSeconds = duration, el_MaxOutputBytes = output, el_MaxAttempts = attempts\<rparr>})"

definition struct_task :: "(string \<times> goval) list \<Rightarrow> EngineeringTask option" where
  "struct_task fs =
     (if \<not> known_fields [''schema_version'', ''goal'', ''workspace'', ''plan'', ''acceptance'', ''verification'', ''limits'',
           ''network_policy'', ''required_capabilities'', ''interrupts_required'', ''idempotency_key''] fs then None
      else do {
        schema \<leftarrow> decode_text (map_of fs ''schema_version''); goal \<leftarrow> decode_text (map_of fs ''goal'');
        workspace \<leftarrow> decode_struct struct_workspace (map_of fs ''workspace'');
        plan \<leftarrow> decode_list decode_text (map_of fs ''plan''); acceptance \<leftarrow> decode_list decode_text (map_of fs ''acceptance'');
        verification \<leftarrow> decode_struct struct_verification (map_of fs ''verification'');
        limits \<leftarrow> decode_struct struct_limits (map_of fs ''limits'');
        network \<leftarrow> decode_text (map_of fs ''network_policy'');
        required \<leftarrow> decode_list decode_text (map_of fs ''required_capabilities'');
        interrupts \<leftarrow> decode_list decode_text (map_of fs ''interrupts_required'');
        key \<leftarrow> decode_text (map_of fs ''idempotency_key'');
        Some \<lparr>et_SchemaVersion = schema, et_Goal = goal, et_Workspace = workspace, et_Plan = plan, et_Acceptance = acceptance,
              et_Verification = verification, et_Limits = limits, et_NetworkPolicy = network, et_RequiredCapabilities = required,
              et_InterruptsRequired = interrupts, et_IdempotencyKey = key\<rparr>})"

definition text_value :: "goval option \<Rightarrow> string" where
  "text_value v = (case v of Some (GString s) \<Rightarrow> s | _ \<Rightarrow> [])"

definition TaskPayload :: "EngineeringTask \<Rightarrow> (string \<rightharpoonup> goval) \<Rightarrow> string \<rightharpoonup> goval" where
  "TaskPayload t extra =
     (let w = et_Workspace t;
          out = extra
            (''engineering_task'' \<mapsto> task_value t, ''workspace_root'' \<mapsto> GString (ew_Root w), ''base_sha'' \<mapsto> GString (ew_BaseSHA w),
             ''branch'' \<mapsto> GString (ew_Branch w), ''isolation'' \<mapsto> GString (ew_Isolation w), ''dirty_policy'' \<mapsto> GString (ew_DirtyPolicy w),
             ''worktree_cleanup'' \<mapsto> GString (ew_Cleanup w), ''read_scope'' \<mapsto> texts (ew_ReadScope w),
             ''write_scope'' \<mapsto> texts (ew_WriteScope w), ''verification_commands'' \<mapsto> GList (map texts (evf_Commands (et_Verification t))),
             ''allow_verification_commands'' \<mapsto> texts (evf_AllowCommands (et_Verification t)),
             ''max_attempts'' \<mapsto> GInt (el_MaxAttempts (et_Limits t)), ''interrupts_required'' \<mapsto> texts (et_InterruptsRequired t))
      in if TrimSpace (text_value (out ''prompt'')) = [] then out(''prompt'' \<mapsto> GString (et_Goal t)) else out)"

definition TaskLimits :: "EngineeringTask \<Rightarrow> string \<rightharpoonup> goval" where
  "TaskLimits t =
     [''max_duration_seconds'' \<mapsto> GInt (el_MaxDurationSeconds (et_Limits t)), ''max_output_bytes'' \<mapsto> GInt (el_MaxOutputBytes (et_Limits t)),
      ''max_attempts'' \<mapsto> GInt (el_MaxAttempts (et_Limits t)), ''network'' \<mapsto> GString (et_NetworkPolicy t)]"

end
