(* ===== verification/Host_Task.thy ===== *)
theory Host_Task
  imports Engineering_Task Policy Session_Types
begin

text \<open>
  A task on the host (internal/hostrunner/runner.go and the part of internal/hostcmd/hostcmd.go that makes a
  task specification of what the gateway sent): the specification, its normalisation against the engineering
  contract, the envelope with its defaults, the capability each adapter needs, and the denials.
\<close>

section \<open>Specification and envelope\<close>

record TaskWorkspace =
  tw_Root :: string
  tw_WriteScope :: "string list"
  tw_Branch :: string
  tw_BaseSHA :: string
  tw_Isolation :: string
  tw_DirtyPolicy :: string

record RunLimits =
  rl_MaxDurationSeconds :: gint
  rl_MaxOutputBytes :: gint
  rl_Network :: string

record SessionTaskSpec =
  sts_TaskID :: string
  sts_AttemptID :: string
  sts_EndpointID :: string
  sts_IdentityFingerprint :: string
  sts_Adapter :: string
  sts_Intent :: string
  sts_Workspace :: TaskWorkspace
  sts_Capabilities :: "string list"
  sts_Limits :: RunLimits
  sts_Payload :: payload
  sts_SessionID :: string
  sts_LeaseSecret :: string
  sts_GatewayURL :: string

record taskEnvelope =
  env_SchemaVersion :: string
  env_TaskID :: string
  env_AttemptID :: string
  env_EndpointID :: string
  env_EndpointIdentity :: string
  env_Adapter :: string
  env_Intent :: string
  env_Workspace :: TaskWorkspace
  env_Capabilities :: "string list"
  env_Limits :: RunLimits
  env_Payload :: payload
  env_InterruptsRequired :: "string list"
  env_SessionID :: string
  env_LeaseSecret :: string
  env_GatewayURL :: string

section \<open>Values of a payload\<close>

fun string_item :: "goval \<Rightarrow> string option" where
  "string_item (GString t) = Some t"
| "string_item _ = None"

definition stringValueFromAny :: "goval option \<Rightarrow> string" where
  "stringValueFromAny v = (case v of Some (GString t) \<Rightarrow> TrimSpace t | _ \<Rightarrow> [])"

definition stringSliceFromAny :: "goval option \<Rightarrow> string list" where
  "stringSliceFromAny v = (case v of Some (GList items) \<Rightarrow> List.map_filter string_item items | _ \<Rightarrow> [])"

definition intValueFromAny :: "goval option \<Rightarrow> gint" where
  "intValueFromAny v =
     (case v of
        Some (GInt n) \<Rightarrow> n
      | Some (GInt64 n) \<Rightarrow> n
      | Some (GFloat64 w) \<Rightarrow> int_of_float64 w
      | _ \<Rightarrow> 0)"

fun firstPresent :: "goval option list \<Rightarrow> goval option" where
  "firstPresent [] = None"
| "firstPresent (v # vs) = (if v = None \<or> v = Some GNil then firstPresent vs else v)"

definition hostStringValue :: "payload \<Rightarrow> string \<Rightarrow> string \<Rightarrow> string" where
  "hostStringValue values key fallback =
     (case payload_get values key of
        Some (GString text) \<Rightarrow> if TrimSpace text \<noteq> [] then text else fallback
      | _ \<Rightarrow> fallback)"

text \<open>None is a nil slice. A slice of texts keeps its empty ones, a decoded list drops them.\<close>

definition hostStringSliceValue :: "payload \<Rightarrow> string \<Rightarrow> string list option" where
  "hostStringSliceValue values key =
     (case payload_get values key of
        Some (GList items) \<Rightarrow> Some (List.map_filter nonempty_string items)
      | _ \<Rightarrow> None)"

definition slice :: "string list option \<Rightarrow> string list" where
  "slice xs = (case xs of None \<Rightarrow> [] | Some ys \<Rightarrow> ys)"

fun firstNonEmptyString :: "string list \<Rightarrow> string" where
  "firstNonEmptyString [] = []"
| "firstNonEmptyString (value # values) = (if TrimSpace value \<noteq> [] then value else firstNonEmptyString values)"

section \<open>From the task to its envelope\<close>

definition sessionTaskSpec :: "Task \<Rightarrow> string \<Rightarrow> string \<Rightarrow> string \<Rightarrow> string \<Rightarrow> string \<Rightarrow> SessionTaskSpec" where
  "sessionTaskSpec task endpointID identityFingerprint sessionID leaseSecret gatewayURL =
     (let payload = tk_Payload task; get = payload_get payload; limit = payload_get (tk_Limits task) in
      \<lparr>sts_TaskID = tk_ID task, sts_AttemptID = tk_AttemptID task, sts_EndpointID = endpointID,
       sts_IdentityFingerprint = identityFingerprint, sts_Adapter = tk_Adapter task, sts_Intent = tk_Intent task,
       sts_Workspace =
         \<lparr>tw_Root = stringValueFromAny (get ''workspace_root''), tw_WriteScope = stringSliceFromAny (get ''write_scope''),
          tw_Branch = stringValueFromAny (get ''branch''), tw_BaseSHA = stringValueFromAny (get ''base_sha''),
          tw_Isolation = stringValueFromAny (get ''isolation''), tw_DirtyPolicy = stringValueFromAny (get ''dirty_policy'')\<rparr>,
       sts_Capabilities = tk_Capabilities task,
       sts_Limits =
         \<lparr>rl_MaxDurationSeconds = intValueFromAny (firstPresent [get ''max_duration_seconds'', limit ''max_duration_seconds'']),
          rl_MaxOutputBytes = intValueFromAny (firstPresent [get ''max_output_bytes'', limit ''max_output_bytes'']),
          rl_Network = stringValueFromAny (firstPresent [get ''network'', limit ''network''])\<rparr>,
       sts_Payload = payload, sts_SessionID = sessionID, sts_LeaseSecret = leaseSecret, sts_GatewayURL = gatewayURL\<rparr>)"

text \<open>A field of the specification may be left blank, but must not contradict the contract.\<close>

definition contradicts :: "string \<Rightarrow> string \<Rightarrow> bool" where
  "contradicts given wanted \<longleftrightarrow> TrimSpace given \<noteq> [] \<and> TrimSpace given \<noteq> wanted"

definition sameStringSet :: "string list \<Rightarrow> string list \<Rightarrow> bool" where
  "sameStringSet left right \<longleftrightarrow>
     length left = length right \<and> [] \<notin> set left \<and> distinct left \<and> list_all (\<lambda>value. value \<in> set left) right"

definition spec_conflict :: "SessionTaskSpec \<Rightarrow> EngineeringTask \<Rightarrow> string option" where
  "spec_conflict spec engineering =
     (let w = sts_Workspace spec; ew = et_Workspace engineering; l = sts_Limits spec; el = et_Limits engineering in
      if contradicts (sts_Intent spec) (et_Goal engineering) then Some ''intent must match engineering_task.goal when engineering_task is present''
      else if contradicts (tw_Root w) (ew_Root ew) then Some ''workspace.root must match engineering_task.workspace.root''
      else if contradicts (tw_Branch w) (ew_Branch ew) then Some ''workspace.branch must match engineering_task.workspace.branch''
      else if contradicts (tw_BaseSHA w) (ew_BaseSHA ew) then Some ''workspace.base_sha must match engineering_task.workspace.base_sha''
      else if contradicts (tw_Isolation w) (ew_Isolation ew) then Some ''workspace.isolation must match engineering_task.workspace.isolation''
      else if contradicts (tw_DirtyPolicy w) (ew_DirtyPolicy ew) then Some ''workspace.dirty_policy must match engineering_task.workspace.dirty_policy''
      else if tw_WriteScope w \<noteq> [] \<and> \<not> sameStringSet (tw_WriteScope w) (ew_WriteScope ew)
      then Some ''workspace.write_scope must match engineering_task.workspace.write_scope''
      else if sts_Capabilities spec \<noteq> [] \<and> \<not> sameStringSet (sts_Capabilities spec) (et_RequiredCapabilities engineering)
      then Some ''capabilities must exactly match engineering_task.required_capabilities''
      else if rl_MaxDurationSeconds l \<noteq> 0 \<and> rl_MaxDurationSeconds l \<noteq> el_MaxDurationSeconds el
      then Some ''limits.max_duration_seconds must match engineering_task.limits.max_duration_seconds''
      else if rl_MaxOutputBytes l \<noteq> 0 \<and> rl_MaxOutputBytes l \<noteq> el_MaxOutputBytes el
      then Some ''limits.max_output_bytes must match engineering_task.limits.max_output_bytes''
      else if contradicts (rl_Network l) (et_NetworkPolicy engineering) then Some ''limits.network must match engineering_task.network_policy''
      else None)"

definition apply_contract :: "EngineeringTask \<Rightarrow> SessionTaskSpec \<Rightarrow> SessionTaskSpec" where
  "apply_contract engineering spec =
     (let ew = et_Workspace engineering in
      spec\<lparr>sts_Intent := et_Goal engineering,
        sts_Workspace := \<lparr>tw_Root = ew_Root ew, tw_WriteScope = ew_WriteScope ew, tw_Branch = ew_Branch ew, tw_BaseSHA = ew_BaseSHA ew,
          tw_Isolation = ew_Isolation ew, tw_DirtyPolicy = ew_DirtyPolicy ew\<rparr>,
        sts_Capabilities := et_RequiredCapabilities engineering,
        sts_Limits := \<lparr>rl_MaxDurationSeconds = el_MaxDurationSeconds (et_Limits engineering),
          rl_MaxOutputBytes = el_MaxOutputBytes (et_Limits engineering), rl_Network = et_NetworkPolicy engineering\<rparr>,
        sts_Payload := Some (TaskPayload engineering (case sts_Payload spec of None \<Rightarrow> Map.empty | Some m \<Rightarrow> m))\<rparr>)"

definition normalizeEngineeringSessionTaskSpec ::
    "(goval \<Rightarrow> EngineeringTask option) \<Rightarrow> SessionTaskSpec \<Rightarrow> string + SessionTaskSpec" where
  "normalizeEngineeringSessionTaskSpec strict spec =
     (case payload_get (sts_Payload spec) ''engineering_task'' of
        None \<Rightarrow> Inr spec
      | Some GNil \<Rightarrow> Inr spec
      | Some raw \<Rightarrow>
          (case DecodeEngineeringTask strict raw of
             Inl e \<Rightarrow> Inl e
           | Inr engineering \<Rightarrow>
               (case ValidateForAdapter (sts_Adapter spec) engineering of
                  Some e \<Rightarrow> Inl e
                | None \<Rightarrow> (case spec_conflict spec engineering of Some e \<Rightarrow> Inl e | None \<Rightarrow> Inr (apply_contract engineering spec)))))"

definition sessionTaskEnvelope :: "SessionTaskSpec \<Rightarrow> taskEnvelope" where
  "sessionTaskEnvelope spec =
     (let l = sts_Limits spec;
          limits = \<lparr>rl_MaxDurationSeconds = (if rl_MaxDurationSeconds l = 0 then DefaultTaskTTLSeconds else rl_MaxDurationSeconds l),
            rl_MaxOutputBytes = (if rl_MaxOutputBytes l = 0 then DefaultTaskMaxOutputBytes else rl_MaxOutputBytes l),
            rl_Network = (if TrimSpace (rl_Network l) = [] then ''default-deny'' else rl_Network l)\<rparr>
      in \<lparr>env_SchemaVersion = ''rdev.session-task.v1'', env_TaskID = sts_TaskID spec,
          env_AttemptID = firstNonEmptyString [sts_AttemptID spec, ''attempt:'' @ sts_TaskID spec],
          env_EndpointID = sts_EndpointID spec, env_EndpointIdentity = sts_IdentityFingerprint spec, env_Adapter = sts_Adapter spec,
          env_Intent = sts_Intent spec, env_Workspace = sts_Workspace spec, env_Capabilities = sts_Capabilities spec,
          env_Limits = limits, env_Payload = sts_Payload spec,
          env_InterruptsRequired = slice (hostStringSliceValue (sts_Payload spec) ''interrupts_required''),
          env_SessionID = sts_SessionID spec, env_LeaseSecret = sts_LeaseSecret spec, env_GatewayURL = sts_GatewayURL spec\<rparr>)"

section \<open>Capabilities\<close>

definition supportedAdapter :: "string \<Rightarrow> bool" where
  "supportedAdapter adapter \<longleftrightarrow>
     adapter \<in> {''shell'', ''powershell'', ''codex'', ''claude-code'', ''acpx'', ''toolchain'', ''file'', ''desktop'', ''host-update''}"

definition adapterRequiresWorkspace :: "string \<Rightarrow> bool" where
  "adapterRequiresWorkspace adapter \<longleftrightarrow> adapter \<noteq> ''host-update''"

definition hasCapability :: "string list \<Rightarrow> string \<Rightarrow> bool" where
  "hasCapability values want = list_ex (\<lambda>value. value = want) values"

text \<open>The first of the capabilities that is missing, empty when none is.\<close>

fun missing_of :: "string list \<Rightarrow> string list \<Rightarrow> string" where
  "missing_of values [] = []"
| "missing_of values (want # wants) = (if \<not> hasCapability values want then want else missing_of values wants)"

definition normalizeAdapterAction :: "unicode \<Rightarrow> string \<Rightarrow> string" where
  "normalizeAdapterAction U action =
     replaceChar CHR ''-'' CHR ''.'' (replaceChar CHR ''_'' CHR ''.'' (ToLower U (TrimSpace action)))"

definition missingFileCapability :: "unicode \<Rightarrow> taskEnvelope \<Rightarrow> string" where
  "missingFileCapability U envelope =
     (let action = normalizeAdapterAction U (hostStringValue (env_Payload envelope) ''action'' []); caps = env_Capabilities envelope in
      if action = ''describe'' then missing_of caps [''file.transfer.read'', ''git.diff'']
      else if action \<in> {''list'', ''read'', ''download'', ''search'', ''read.slice'', ''symbols'', ''diagnostics''}
      then missing_of caps [''file.transfer.read'']
      else if action \<in> {''write'', ''upload'', ''delete''} then missing_of caps [''file.transfer.write'', ''fs.write.scoped'']
      else ''file.transfer.read'')"

definition desktop_capability :: "string \<Rightarrow> string option" where
  "desktop_capability action =
     (if action \<in> {''windows'', ''window.list'', ''window.inspect''} then Some ''window.inspect''
      else if action \<in> {''screenshot'', ''screen.screenshot''} then Some ''screen.screenshot''
      else if action \<in> {''record'', ''screen.record''} then Some ''screen.record''
      else if action \<in> {''focus'', ''window.focus''} then Some ''window.focus''
      else if action \<in> {''move'', ''window.move''} then Some ''window.move''
      else if action \<in> {''keyboard'', ''input.keyboard''} then Some ''input.keyboard''
      else if action \<in> {''mouse'', ''input.mouse''} then Some ''input.mouse''
      else if action \<in> {''launch'', ''app.launch''} then Some ''app.launch''
      else if action \<in> {''close'', ''app.close''} then Some ''app.close''
      else if action \<in> {''url'', ''open.url'', ''url.open''} then Some ''url.open''
      else if action = ''clipboard.read'' then Some ''clipboard.read''
      else if action = ''clipboard.write'' then Some ''clipboard.write''
      else if action = ''unattended.access'' then Some ''unattended.access''
      else None)"

definition missingDesktopCapability :: "unicode \<Rightarrow> taskEnvelope \<Rightarrow> string" where
  "missingDesktopCapability U envelope =
     (case desktop_capability (normalizeAdapterAction U (hostStringValue (env_Payload envelope) ''action'' [])) of
        Some want \<Rightarrow> missing_of (env_Capabilities envelope) [want]
      | None \<Rightarrow> ''window.inspect'')"

definition missingAdapterCapability :: "unicode \<Rightarrow> taskEnvelope \<Rightarrow> string" where
  "missingAdapterCapability U envelope =
     (let adapter = env_Adapter envelope; caps = env_Capabilities envelope in
      if adapter = ''shell'' then missing_of caps [''shell.user'']
      else if adapter = ''powershell'' then missing_of caps [''powershell.user'']
      else if adapter = ''codex'' then missing_of caps [''codex.run'', ''git.diff'']
      else if adapter = ''claude-code'' then missing_of caps [''claude-code.run'', ''git.diff'']
      else if adapter = ''acpx'' then missing_of caps [''acpx.run'', ''git.diff'']
      else if adapter = ''toolchain'' then missing_of caps [''package.install.requiresAuthorization'']
      else if adapter = ''file'' then missingFileCapability U envelope
      else if adapter = ''host-update'' then missing_of caps [''host.update'']
      else if adapter = ''desktop'' then missingDesktopCapability U envelope
      else [])"

section \<open>Denials\<close>

record denialSpec =
  dn_Code :: string
  dn_Summary :: string
  dn_Detail :: string
  dn_Hint :: string
  dn_Adapter :: string
  dn_Capability :: string
  dn_Retryable :: bool

record taskRef =
  tf_TaskID :: string
  tf_EndpointID :: string
  tf_Adapter :: string

record DenialExplanation =
  dx_SchemaVersion :: string
  dx_Code :: string
  dx_Summary :: string
  dx_Detail :: string
  dx_Hint :: string
  dx_TaskID :: string
  dx_EndpointID :: string
  dx_Adapter :: string
  dx_Capability :: string
  dx_Retryable :: bool

definition DenialSchemaVersion :: string where
  "DenialSchemaVersion = ''rdev.host-denial.v1''"

text \<open>What is said of a denial; a detail that is missing is the text of the cause.\<close>

definition explain :: "taskRef \<Rightarrow> denialSpec \<Rightarrow> string \<Rightarrow> DenialExplanation" where
  "explain task spec cause =
     \<lparr>dx_SchemaVersion = DenialSchemaVersion, dx_Code = dn_Code spec, dx_Summary = dn_Summary spec,
      dx_Detail = (if dn_Detail spec = [] then cause else dn_Detail spec), dx_Hint = dn_Hint spec, dx_TaskID = tf_TaskID task,
      dx_EndpointID = tf_EndpointID task, dx_Adapter = firstNonEmptyString [dn_Adapter spec, tf_Adapter task],
      dx_Capability = dn_Capability spec, dx_Retryable = dn_Retryable spec\<rparr>"

text \<open>The denial of an error of an adapter is read off the text of the error, which is its detail.\<close>

definition denial :: "string \<Rightarrow> string \<Rightarrow> string \<Rightarrow> string \<Rightarrow> string \<Rightarrow> denialSpec" where
  "denial code summary detail hint adapter =
     \<lparr>dn_Code = code, dn_Summary = summary, dn_Detail = detail, dn_Hint = hint, dn_Adapter = adapter, dn_Capability = [], dn_Retryable = True\<rparr>"

definition agentDenial :: "string \<Rightarrow> string \<Rightarrow> unicode \<Rightarrow> string \<Rightarrow> denialSpec option" where
  "agentDenial adapter name U failure =
     (let text = ToLower U failure; says = (\<lambda>w. sublist w text) in
      if says ''not allowlisted'' then Some (denial ''command_not_allowlisted'' (name @ '' verification command is not allowlisted.'') failure [] adapter)
      else if says ''escapes workspace root''
      then Some (denial ''workspace_escape'' ''Requested write scope escapes the workspace root.'' failure [] adapter)
      else if says ''prompt is required'' then Some (denial ''adapter_payload_invalid'' (name @ '' prompt is required.'') failure [] adapter)
      else if says ''path is required'' \<or> says ''resolve path'' \<or> says ''stat path'' \<or> says ''path must be a directory''
      then Some (denial ''workspace_invalid'' ''Workspace root is invalid.'' failure [] adapter)
      else None)"

definition codexDenial :: "unicode \<Rightarrow> string \<Rightarrow> denialSpec option" where
  "codexDenial = agentDenial ''codex'' ''Codex''"

definition claudeCodeDenial :: "unicode \<Rightarrow> string \<Rightarrow> denialSpec option" where
  "claudeCodeDenial = agentDenial ''claude-code'' ''Claude Code''"

definition acpxDenial :: "unicode \<Rightarrow> string \<Rightarrow> denialSpec option" where
  "acpxDenial = agentDenial ''acpx'' ''acpx''"

definition windows_example :: string where
  "windows_example = ''(e.g. C:'' @ [CHR 0x5C] @ ''Users'' @ [CHR 0x5C] @ ''Public on Windows).''"

definition shellDenial :: "unicode \<Rightarrow> string \<Rightarrow> denialSpec option" where
  "shellDenial U failure =
     (let text = ToLower U failure; says = (\<lambda>w. sublist w text) in
      if says ''not allowlisted''
      then Some (denial ''command_not_allowlisted'' ''Shell command is not allowlisted.'' failure
        ''Add the executable name (e.g. sh, cmd, powershell.exe, pwsh) to payload.allow_commands.'' ''shell'')
      else if says ''escapes workspace root''
      then Some (denial ''workspace_escape'' ''Requested write scope escapes the workspace root.'' failure
        ''Keep payload.write_scope inside workspace_root.'' ''shell'')
      else if says ''workspace root is required''
      then Some (denial ''workspace_required'' ''Workspace root is required for shell execution.'' failure
        ''Add an absolute workspace_root to the task payload.'' ''shell'')
      else if says ''workspace root must''
      then Some (denial ''workspace_invalid'' ''Workspace root is invalid.'' failure
        (''workspace_root must be an absolute path '' @ windows_example) ''shell'')
      else None)"

definition powershellDenial :: "unicode \<Rightarrow> string \<Rightarrow> denialSpec option" where
  "powershellDenial U failure =
     (let text = ToLower U failure; says = (\<lambda>w. sublist w text) in
      if says ''not allowlisted''
      then Some (denial ''command_not_allowlisted'' ''PowerShell executable is not allowlisted.'' failure
        (''Add the PowerShell executable name (powershell.exe or pwsh) to payload.allow_commands; ''
         @ ''on Windows also set payload.powershell_command to the bare executable name.'') ''powershell'')
      else if says ''escapes workspace root''
      then Some (denial ''workspace_escape'' ''Requested write scope escapes the workspace root.'' failure
        ''Keep payload.write_scope inside workspace_root.'' ''powershell'')
      else if says ''workspace root is required''
      then Some (denial ''workspace_required'' ''Workspace root is required for PowerShell execution.'' failure
        ''Add an absolute workspace_root to the task payload.'' ''powershell'')
      else if says ''workspace root must''
      then Some (denial ''workspace_invalid'' ''Workspace root is invalid.'' failure
        (''workspace_root must be an absolute path '' @ windows_example) ''powershell'')
      else if says ''powershell command is required'' \<or> says ''powershell executable is required''
      then Some (denial ''adapter_payload_invalid'' ''PowerShell command payload is invalid.'' failure [] ''powershell'')
      else None)"

definition adapterDenial :: "unicode \<Rightarrow> string \<Rightarrow> string \<Rightarrow> denialSpec option" where
  "adapterDenial U adapter failure =
     (if adapter = ''acpx'' then acpxDenial U failure
      else if adapter = ''claude-code'' then claudeCodeDenial U failure
      else if adapter = ''codex'' then codexDenial U failure
      else if adapter = ''powershell'' then powershellDenial U failure
      else shellDenial U failure)"

end
