(* ===== verification/Engineering_Progress.thy ===== *)
theory Engineering_Progress
  imports Host_Task Workspace_Path Trust Store_Ops
begin

text \<open>
  Progress and checkpoints of an engineering task on the host (internal/hostrunner/engineering_progress.go):
  what is emitted at each phase, the local checkpoint store, and how a task is resumed from a checkpoint. The
  store is a map from paths to contents; a content either decodes to a checkpoint or does not. What happens
  outside during one emission, the clock, the faults of the file system and whether the report was
  delivered, is an argument.
\<close>

section \<open>Data\<close>

definition EngineeringProgressSchemaVersion :: string where
  "EngineeringProgressSchemaVersion = ''rdev.engineering-progress.v1''"

definition EngineeringCheckpointSchemaVersion :: string where
  "EngineeringCheckpointSchemaVersion = ''rdev.engineering-checkpoint.v1''"

definition EngineeringPhaseInspect :: string where "EngineeringPhaseInspect = ''inspect''"
definition EngineeringPhasePlan :: string where "EngineeringPhasePlan = ''plan''"
definition EngineeringPhaseEdit :: string where "EngineeringPhaseEdit = ''edit''"
definition EngineeringPhaseVerify :: string where "EngineeringPhaseVerify = ''verify''"
definition EngineeringPhaseDiagnose :: string where "EngineeringPhaseDiagnose = ''diagnose''"
definition EngineeringPhaseRepair :: string where "EngineeringPhaseRepair = ''repair''"
definition EngineeringPhaseFinalize :: string where "EngineeringPhaseFinalize = ''finalize''"

lemmas phase_defs = EngineeringPhaseInspect_def EngineeringPhasePlan_def EngineeringPhaseEdit_def EngineeringPhaseVerify_def
  EngineeringPhaseDiagnose_def EngineeringPhaseRepair_def EngineeringPhaseFinalize_def

definition EngineeringFailureCodeTest :: string where "EngineeringFailureCodeTest = ''code_test_failure''"
definition EngineeringFailureEnvironmentTool :: string where "EngineeringFailureEnvironmentTool = ''environment_tool_failure''"
definition EngineeringFailurePolicyDenial :: string where "EngineeringFailurePolicyDenial = ''policy_denial''"
definition EngineeringFailureTimeout :: string where "EngineeringFailureTimeout = ''timeout''"
definition EngineeringFailureCancellation :: string where "EngineeringFailureCancellation = ''cancellation''"
definition EngineeringFailureTransportReconnect :: string where
  "EngineeringFailureTransportReconnect = ''transport_reconnect_failure''"

record EngineeringArtifactReference =
  ar_Kind :: string
  ar_SHA256 :: string

record EngineeringProgress =
  pg_SchemaVersion :: string
  pg_TaskID :: string
  pg_AttemptID :: string
  pg_Phase :: string
  pg_Attempt :: gint
  pg_Summary :: string
  pg_ArtifactRefs :: "EngineeringArtifactReference list"
  pg_CheckpointID :: string
  pg_Recoverable :: bool
  pg_FailureClass :: string

record EngineeringCheckpoint =
  ck_SchemaVersion :: string
  ck_ID :: string
  ck_TaskID :: string
  ck_AttemptID :: string
  ck_TaskIdentitySHA256 :: string
  ck_Phase :: string
  ck_Attempt :: gint
  ck_ArtifactRefs :: "EngineeringArtifactReference list"
  ck_WorkspaceRoot :: string
  ck_Isolation :: string
  ck_Branch :: string
  ck_BaseSHA :: string
  ck_Recoverable :: bool
  ck_FailureClass :: string
  ck_CreatedAt :: Time

datatype checkpoint_content = HoldsCheckpoint EngineeringCheckpoint | NoCheckpoint

type_synonym checkpoint_files = "string \<rightharpoonup> checkpoint_content"

record engineeringResumeState =
  er_Checkpoint :: EngineeringCheckpoint
  er_SourceTaskID :: string
  er_StartAttempt :: gint

record Options =
  op_IdentityFingerprint :: string
  op_ToolchainRoot :: string
  op_WorkspaceLockStore :: string
  op_WorkspaceLockTTL :: Duration
  op_CaptureRuntimeFixture :: bool
  op_EngineeringCheckpointStore :: string
  op_HasReporter :: bool
  op_ResumeCheckpointID :: string
  op_ResumeSourceTaskID :: string
  op_engineeringResume :: "engineeringResumeState option"

text \<open>The directories of the host: the working directory (in its files), the user's cache and the temporary directory.\<close>

record runner_host =
  rh_files :: host_files
  rh_cacheDir :: "string option"
  rh_tempDir :: string

section \<open>Names and references\<close>

definition validateEngineeringCheckpointLocator :: "string \<Rightarrow> string \<Rightarrow> string option" where
  "validateEngineeringCheckpointLocator taskID checkpointID =
     (if TrimSpace taskID = [] then Some ''engineering checkpoint task id is required''
      else if checkpointID = [] \<or> length checkpointID > 128 then Some ''engineering checkpoint id is invalid''
      else if list_all (\<lambda>c. c \<in> set (''abcdefghijklmnopqrstuvwxyz'' @ ''ABCDEFGHIJKLMNOPQRSTUVWXYZ'' @ ''0123456789_-'')) checkpointID then None
      else Some ''engineering checkpoint id is invalid'')"

definition engineeringEnvelopeAttemptID :: "taskEnvelope \<Rightarrow> string" where
  "engineeringEnvelopeAttemptID envelope =
     (if TrimSpace (env_AttemptID envelope) \<noteq> [] then env_AttemptID envelope else ''attempt:'' @ env_TaskID envelope)"

abbreviation nul :: string where "nul \<equiv> [CHR 0x00]"

definition engineeringTaskIdentitySHA256 :: "crypto \<Rightarrow> EngineeringTask \<Rightarrow> string" where
  "engineeringTaskIdentitySHA256 C task =
     sha256_text C (et_SchemaVersion task @ nul @ et_IdempotencyKey task @ nul @ ew_Root (et_Workspace task) @ nul @ ew_BaseSHA (et_Workspace task))"

definition checkpoint_text :: "EngineeringProgress \<Rightarrow> string" where
  "checkpoint_text progress =
     concat (map (\<lambda>value. value @ nul)
       ([pg_TaskID progress, pg_AttemptID progress, pg_Phase progress, dec_int (pg_Attempt progress), pg_Summary progress,
         bool_str (pg_Recoverable progress), pg_FailureClass progress]
        @ concat (map (\<lambda>ref. [ar_Kind ref, ar_SHA256 ref]) (pg_ArtifactRefs progress))))"

definition engineeringCheckpointID :: "crypto \<Rightarrow> EngineeringProgress \<Rightarrow> string" where
  "engineeringCheckpointID C progress =
     ''ecp_'' @ hex_EncodeToString (take 12 (sha256_Sum256 C (checkpoint_text progress)))"

fun boundedRefs :: "string set \<Rightarrow> nat \<Rightarrow> EngineeringArtifactReference list \<Rightarrow> EngineeringArtifactReference list" where
  "boundedRefs seen room [] = []"
| "boundedRefs seen room (ref0 # refs) =
     (let ref = \<lparr>ar_Kind = TrimSpace (ar_Kind ref0), ar_SHA256 = TrimSpace (ar_SHA256 ref0)\<rparr>;
          key = ar_Kind ref @ nul @ ar_SHA256 ref
      in if ar_Kind ref = [] \<or> ar_SHA256 ref = [] then boundedRefs seen room refs
         else if key \<in> seen then boundedRefs seen room refs
         else if room \<le> 1 then [ref]
         else ref # boundedRefs (insert key seen) (room - 1) refs)"

definition boundedEngineeringArtifactRefs :: "EngineeringArtifactReference list \<Rightarrow> EngineeringArtifactReference list" where
  "boundedEngineeringArtifactRefs refs = boundedRefs {} 8 refs"

definition engineeringArtifactRef :: "crypto \<Rightarrow> string \<Rightarrow> string \<Rightarrow> EngineeringArtifactReference list" where
  "engineeringArtifactRef C kind value0 =
     (let value = TrimSpace value0 in
      if value = [] then []
      else [\<lparr>ar_Kind = kind, ar_SHA256 = (if prefix ''sha256:'' value then value else sha256_text C value)\<rparr>])"

section \<open>The checkpoint store\<close>

definition checkpointPath :: "crypto \<Rightarrow> string \<Rightarrow> string \<Rightarrow> string \<Rightarrow> string" where
  "checkpointPath C dir taskID checkpointID =
     filepath_Join [dir, hex_EncodeToString (sha256_Sum256 C taskID), checkpointID @ ''.json'']"

text \<open>The fault of the file system that strikes a save, if any.\<close>

datatype save_fault = SaveFine | FailMkdir | FailRead | FailWrite | FailChmod

definition checkpoint_Save :: "crypto \<Rightarrow> string \<Rightarrow> save_fault \<Rightarrow> EngineeringCheckpoint \<Rightarrow> checkpoint_files \<Rightarrow> string option \<times> checkpoint_files" where
  "checkpoint_Save C dir fault checkpoint files =
     (case validateEngineeringCheckpointLocator (ck_TaskID checkpoint) (ck_ID checkpoint) of
        Some e \<Rightarrow> (Some e, files)
      | None \<Rightarrow>
          (let path = checkpointPath C dir (ck_TaskID checkpoint) (ck_ID checkpoint) in
           if fault = FailMkdir then (Some ''mkdir'', files)
           else if fault = FailRead then (Some ''read'', files)
           else
             (case files path of
                Some (HoldsCheckpoint decoded) \<Rightarrow>
                  if ck_ID decoded = ck_ID checkpoint \<and> ck_TaskID decoded = ck_TaskID checkpoint then (None, files)
                  else (Some ''engineering checkpoint id conflicts with existing checkpoint'', files)
              | Some NoCheckpoint \<Rightarrow> (Some ''engineering checkpoint id conflicts with existing checkpoint'', files)
              | None \<Rightarrow>
                  if fault = FailWrite then (Some ''write'', files)
                  else (if fault = FailChmod then Some ''chmod'' else None, files(path \<mapsto> HoldsCheckpoint checkpoint)))))"

definition checkpoint_Load :: "crypto \<Rightarrow> string \<Rightarrow> string \<Rightarrow> string \<Rightarrow> checkpoint_files \<Rightarrow> string + EngineeringCheckpoint" where
  "checkpoint_Load C dir taskID checkpointID files =
     (case validateEngineeringCheckpointLocator taskID checkpointID of
        Some e \<Rightarrow> Inl e
      | None \<Rightarrow>
          (case files (checkpointPath C dir taskID checkpointID) of
             None \<Rightarrow> Inl ''read engineering checkpoint''
           | Some NoCheckpoint \<Rightarrow> Inl ''decode engineering checkpoint''
           | Some (HoldsCheckpoint checkpoint) \<Rightarrow>
               if ck_SchemaVersion checkpoint \<noteq> EngineeringCheckpointSchemaVersion \<or> ck_ID checkpoint \<noteq> checkpointID \<or> ck_TaskID checkpoint \<noteq> taskID
               then Inl ''engineering checkpoint identity does not match request''
               else Inr checkpoint))"

definition engineeringCheckpointStoreDir :: "runner_host \<Rightarrow> Options \<Rightarrow> string option" where
  "engineeringCheckpointStoreDir H opts =
     (let configured = TrimSpace (op_EngineeringCheckpointStore opts); lockStore = TrimSpace (op_WorkspaceLockStore opts) in
      if configured \<noteq> [] then filepath_Abs (rh_files H) configured
      else if lockStore \<noteq> [] then Some (filepath_Join [filepath_Dir lockStore, ''engineering-checkpoints''])
      else
        (case rh_cacheDir H of
           Some cacheDir \<Rightarrow>
             if TrimSpace cacheDir \<noteq> [] then Some (filepath_Join [cacheDir, ''rdev'', ''engineering-checkpoints''])
             else Some (filepath_Join [rh_tempDir H, ''rdev'', ''engineering-checkpoints''])
         | None \<Rightarrow> Some (filepath_Join [rh_tempDir H, ''rdev'', ''engineering-checkpoints''])))"

section \<open>Emitting progress\<close>

record emission =
  emi_Now :: Time
  emi_Fault :: save_fault
  emi_Delivered :: bool

record engineeringProgressEmitter =
  em_envelope :: taskEnvelope
  em_task :: EngineeringTask
  em_dir :: string
  em_reporter :: bool
  em_progress :: "EngineeringProgress list"
  em_deliveryFailures :: nat
  em_files :: checkpoint_files

definition newEngineeringProgressEmitter ::
    "runner_host \<Rightarrow> taskEnvelope \<Rightarrow> EngineeringTask \<Rightarrow> Options \<Rightarrow> checkpoint_files \<Rightarrow> engineeringProgressEmitter option" where
  "newEngineeringProgressEmitter H envelope task opts files =
     (case engineeringCheckpointStoreDir H opts of
        None \<Rightarrow> None
      | Some storeDir \<Rightarrow>
          Some \<lparr>em_envelope = envelope, em_task = task, em_dir = storeDir, em_reporter = op_HasReporter opts, em_progress = [],
            em_deliveryFailures = 0, em_files = files\<rparr>)"

definition progress_of ::
    "crypto \<Rightarrow> string \<Rightarrow> gint \<Rightarrow> string \<Rightarrow> EngineeringArtifactReference list \<Rightarrow> bool \<Rightarrow> string \<Rightarrow> taskEnvelope \<Rightarrow> EngineeringProgress" where
  "progress_of C phase attempt summary refs recoverable failureClass envelope =
     (let progress = \<lparr>pg_SchemaVersion = EngineeringProgressSchemaVersion, pg_TaskID = env_TaskID envelope,
            pg_AttemptID = engineeringEnvelopeAttemptID envelope, pg_Phase = phase, pg_Attempt = attempt, pg_Summary = summary,
            pg_ArtifactRefs = boundedEngineeringArtifactRefs refs, pg_CheckpointID = [], pg_Recoverable = recoverable,
            pg_FailureClass = failureClass\<rparr>
      in progress\<lparr>pg_CheckpointID := engineeringCheckpointID C progress\<rparr>)"

definition checkpoint_of :: "crypto \<Rightarrow> Time \<Rightarrow> EngineeringTask \<Rightarrow> taskEnvelope \<Rightarrow> EngineeringProgress \<Rightarrow> EngineeringCheckpoint" where
  "checkpoint_of C now task envelope progress =
     \<lparr>ck_SchemaVersion = EngineeringCheckpointSchemaVersion, ck_ID = pg_CheckpointID progress, ck_TaskID = pg_TaskID progress,
      ck_AttemptID = pg_AttemptID progress, ck_TaskIdentitySHA256 = engineeringTaskIdentitySHA256 C task, ck_Phase = pg_Phase progress,
      ck_Attempt = pg_Attempt progress, ck_ArtifactRefs = pg_ArtifactRefs progress, ck_WorkspaceRoot = tw_Root (env_Workspace envelope),
      ck_Isolation = tw_Isolation (env_Workspace envelope), ck_Branch = tw_Branch (env_Workspace envelope),
      ck_BaseSHA = tw_BaseSHA (env_Workspace envelope), ck_Recoverable = pg_Recoverable progress, ck_FailureClass = pg_FailureClass progress,
      ck_CreatedAt = now\<rparr>"

definition emit ::
    "crypto \<Rightarrow> emission \<Rightarrow> string \<Rightarrow> gint \<Rightarrow> string \<Rightarrow> EngineeringArtifactReference list \<Rightarrow> bool \<Rightarrow> string
     \<Rightarrow> engineeringProgressEmitter \<Rightarrow> (string + EngineeringProgress) \<times> engineeringProgressEmitter" where
  "emit C X phase attempt summary refs recoverable failureClass e =
     (let progress = progress_of C phase attempt summary refs recoverable failureClass (em_envelope e);
          checkpoint = checkpoint_of C (emi_Now X) (em_task e) (em_envelope e) progress in
      case checkpoint_Save C (em_dir e) (emi_Fault X) checkpoint (em_files e) of
        (Some failure, files) \<Rightarrow> (Inl (''save engineering checkpoint: '' @ failure), e\<lparr>em_files := files\<rparr>)
      | (None, files) \<Rightarrow>
          (Inr progress,
           e\<lparr>em_files := files,
             em_deliveryFailures := (if em_reporter e \<and> \<not> emi_Delivered X then Suc (em_deliveryFailures e) else em_deliveryFailures e),
             em_progress := em_progress e @ [progress]\<rparr>))"

section \<open>Resuming\<close>

definition engineeringResumeStartAttempt :: "EngineeringCheckpoint \<Rightarrow> string + gint" where
  "engineeringResumeStartAttempt checkpoint =
     (let phase = ck_Phase checkpoint in
      if phase = EngineeringPhaseInspect \<or> phase = EngineeringPhasePlan then Inr 1
      else if phase = EngineeringPhaseRepair then
        (if ck_Attempt checkpoint < 1 then Inl ''engineering resume checkpoint has an invalid repair attempt'' else Inr (ck_Attempt checkpoint))
      else if phase = EngineeringPhaseEdit \<or> phase = EngineeringPhaseVerify \<or> phase = EngineeringPhaseDiagnose then
        (if ck_Attempt checkpoint < 1 then Inl ''engineering resume checkpoint has an invalid attempt'' else Inr (i64 (ck_Attempt checkpoint + 1)))
      else Inl ''engineering resume checkpoint phase is not resumable'')"

definition isEngineeringRepairAdapter :: "string \<Rightarrow> bool" where
  "isEngineeringRepairAdapter adapter \<longleftrightarrow> adapter \<in> {''codex'', ''claude-code'', ''acpx''}"

text \<open>
  The task in the payload of an envelope. A payload holds it as the struct, which is returned as it is, or as
  decoded JSON, which is decoded and validated.
\<close>

definition engineeringTaskFromEnvelope :: "(goval \<Rightarrow> EngineeringTask option) \<Rightarrow> taskEnvelope \<Rightarrow> EngineeringTask option" where
  "engineeringTaskFromEnvelope strict envelope =
     (case payload_get (env_Payload envelope) ''engineering_task'' of
        None \<Rightarrow> None
      | Some GNil \<Rightarrow> None
      | Some raw \<Rightarrow>
          (case (case raw of GStruct fs \<Rightarrow> struct_task fs | _ \<Rightarrow> None) of
             Some task \<Rightarrow> Some task
           | None \<Rightarrow> (case DecodeEngineeringTask strict raw of Inl _ \<Rightarrow> None | Inr decoded \<Rightarrow> Some decoded)))"

definition prepareEngineeringResume ::
    "crypto \<Rightarrow> (goval \<Rightarrow> EngineeringTask option) \<Rightarrow> runner_host \<Rightarrow> taskEnvelope \<Rightarrow> Options \<Rightarrow> checkpoint_files \<Rightarrow> string + Options" where
  "prepareEngineeringResume C strict H envelope opts files =
     (let checkpointID = firstNonEmptyString [op_ResumeCheckpointID opts, hostStringValue (env_Payload envelope) ''engineering_resume_checkpoint_id'' []] in
      if checkpointID = [] then Inr opts
      else
        (case engineeringTaskFromEnvelope strict envelope of
           None \<Rightarrow> Inl ''engineering resume requires a typed coding task''
         | Some task \<Rightarrow>
             if \<not> isEngineeringRepairAdapter (env_Adapter envelope) then Inl ''engineering resume requires a typed coding task''
             else
               (let sourceTaskID = firstNonEmptyString [op_ResumeSourceTaskID opts,
                      hostStringValue (env_Payload envelope) ''engineering_resume_task_id'' [], env_TaskID envelope] in
                case engineeringCheckpointStoreDir H opts of
                  None \<Rightarrow> Inl ''engineering resume checkpoint store is unavailable''
                | Some storeDir \<Rightarrow>
                    (case checkpoint_Load C storeDir sourceTaskID checkpointID files of
                       Inl _ \<Rightarrow> Inl ''engineering resume checkpoint could not be loaded''
                     | Inr checkpoint \<Rightarrow>
                         (let baseSHA = TrimSpace (ew_BaseSHA (et_Workspace task)); branch = TrimSpace (ew_Branch (et_Workspace task)) in
                          if \<not> ck_Recoverable checkpoint \<or> ck_TaskIdentitySHA256 checkpoint \<noteq> engineeringTaskIdentitySHA256 C task
                          then Inl ''engineering resume checkpoint is not authorized for this task''
                          else if baseSHA \<noteq> [] \<and> ck_BaseSHA checkpoint \<noteq> [] \<and> ck_BaseSHA checkpoint \<noteq> baseSHA
                          then Inl ''engineering resume checkpoint does not match the task base SHA''
                          else if branch \<noteq> [] \<and> ck_Branch checkpoint \<noteq> [] \<and> ck_Branch checkpoint \<noteq> branch
                          then Inl ''engineering resume checkpoint does not match the task branch''
                          else
                            (case engineeringResumeStartAttempt checkpoint of
                               Inl e \<Rightarrow> Inl e
                             | Inr startAttempt \<Rightarrow>
                                 Inr (opts\<lparr>op_engineeringResume :=
                                   Some \<lparr>er_Checkpoint = checkpoint, er_SourceTaskID = sourceTaskID, er_StartAttempt = startAttempt\<rparr>\<rparr>)))))))"

end
