(* ===== verification/Git_Worktree.thy ===== *)
theory Git_Worktree
  imports Workspace_Lock
begin

text \<open>
  Task worktrees (internal/workspace/worktree.go and worktree_finalize.go): making or taking up again a linked
  git worktree under the repository lock, and recording its final state, cleaning it up and releasing the
  lock. The machine is a value of any type; the git program, the file system, the directories that can be
  made and the Unicode tables are functions of it.
\<close>

section \<open>The machine\<close>

text \<open>What a walk through a directory reports, in the order of the walk: an entry, or that a directory cannot be read.\<close>

record file_info =
  fi_Mode :: string
  fi_Size :: gint
  fi_ModTime :: Time

datatype walk_entry = WalkEntry string bool "file_info option" | WalkFailed

record 'w machine =
  mc_git :: "string list \<Rightarrow> 'w \<Rightarrow> (string \<times> string \<times> gint) \<times> 'w"
  mc_host :: "'w \<Rightarrow> lock_host"
  mc_faults :: "'w \<Rightarrow> lock_faults"
  mc_inode :: "'w \<Rightarrow> nat"
  mc_MkdirAll :: "string \<Rightarrow> 'w \<Rightarrow> bool \<times> 'w"
  mc_WalkDir :: "string \<Rightarrow> 'w \<Rightarrow> walk_entry list"
  mc_IsLetterOrDigit :: "string \<Rightarrow> bool"

record 'w host_state =
  hs_world :: 'w
  hs_locks :: lock_files

datatype worktree_error = WorktreeText string | WorktreeLock lock_error

section \<open>Data\<close>

record GitWorktreeOptions =
  go_StoreDir :: string
  go_RepoRoot :: string
  go_HostID :: string
  go_TaskID :: string
  go_OwnerAdapter :: string
  go_BaseRef :: string
  go_Branch :: string
  go_DirtyPolicy :: string
  go_WorktreeRoot :: string
  go_WorktreePath :: string
  go_TTL :: Duration

record CommandEvidence =
  ce_Argv :: "string list"
  ce_Dir :: string
  ce_Stdout :: string
  ce_Stderr :: string
  ce_ExitCode :: gint

record GitWorktreeResult =
  gr_SchemaVersion :: string
  gr_RepoRoot :: string
  gr_GitTopLevel :: string
  gr_WorktreePath :: string
  gr_Branch :: string
  gr_BaseRef :: string
  gr_BaseSHA :: string
  gr_Lock :: Lock
  gr_Commands :: "CommandEvidence list"

record GitWorktreeResumeOptions =
  rs_StoreDir :: string
  rs_RepoRoot :: string
  rs_WorktreeRoot :: string
  rs_HostID :: string
  rs_TaskID :: string
  rs_OwnerAdapter :: string
  rs_BaseSHA :: string
  rs_Branch :: string
  rs_TTL :: Duration

record GitChangedFile =
  cf_Status :: string
  cf_Path :: string
  cf_OriginalPath :: string

record GitWorktreeLockRelease =
  lr_Attempted :: bool
  lr_Released :: bool
  lr_Error :: "lock_error option"

record GitWorktreeEvidence =
  gv_SchemaVersion :: string
  gv_RepoRoot :: string
  gv_GitTopLevel :: string
  gv_WorktreePath :: string
  gv_Branch :: string
  gv_BaseRef :: string
  gv_BaseSHA :: string
  gv_FinalSHA :: string
  gv_Dirty :: bool
  gv_ChangedFiles :: "GitChangedFile list"
  gv_ChangesTruncated :: bool
  gv_DiffStatSHA256 :: string
  gv_DiffSHA256 :: string
  gv_LockAcquire :: Lock
  gv_LockRelease :: GitWorktreeLockRelease
  gv_Cleanup :: string
  gv_CleanupSucceeded :: bool
  gv_Commands :: "CommandEvidence list"

definition GitWorktreePlanSchemaVersion :: string where
  "GitWorktreePlanSchemaVersion = ''rdev.git-worktree-plan.v1''"

definition GitWorktreeEvidenceSchemaVersion :: string where
  "GitWorktreeEvidenceSchemaVersion = ''rdev.git-worktree-evidence.v1''"

definition GitWorktreeDirtyPolicyPreserve :: string where "GitWorktreeDirtyPolicyPreserve = ''preserve''"
definition GitWorktreeDirtyPolicyRequireClean :: string where "GitWorktreeDirtyPolicyRequireClean = ''require-clean''"
definition GitWorktreeCleanupPreserve :: string where "GitWorktreeCleanupPreserve = ''preserve''"
definition GitWorktreeCleanupRemove :: string where "GitWorktreeCleanupRemove = ''remove''"
definition GitWorktreeCleanupRollback :: string where "GitWorktreeCleanupRollback = ''rollback''"

lemmas worktree_policies = GitWorktreeDirtyPolicyPreserve_def GitWorktreeDirtyPolicyRequireClean_def GitWorktreeCleanupPreserve_def
  GitWorktreeCleanupRemove_def GitWorktreeCleanupRollback_def

section \<open>Running git\<close>

text \<open>A command fails exactly when its exit code is not zero; a program that does not start, or is killed, has the code -1.\<close>

definition runGit :: "'w machine \<Rightarrow> string \<Rightarrow> string list \<Rightarrow> 'w host_state \<Rightarrow> CommandEvidence \<times> 'w host_state" where
  "runGit M dir args s =
     (let argv = [''git'', ''-C'', dir] @ args in
      case mc_git M argv (hs_world s) of
        ((stdout, stderr, exitCode), w) \<Rightarrow>
          (\<lparr>ce_Argv = argv, ce_Dir = dir, ce_Stdout = stdout, ce_Stderr = stderr, ce_ExitCode = exitCode\<rparr>, s\<lparr>hs_world := w\<rparr>))"

definition git_failed :: "CommandEvidence \<Rightarrow> bool" where
  "git_failed evidence \<longleftrightarrow> ce_ExitCode evidence \<noteq> 0"

definition gitError :: "string \<Rightarrow> CommandEvidence \<Rightarrow> worktree_error" where
  "gitError context evidence = WorktreeText (context @ '': git command failed: '' @ TrimSpace (ce_Stderr evidence))"

abbreviation machine_files :: "'w machine \<Rightarrow> 'w host_state \<Rightarrow> host_files" where
  "machine_files M s \<equiv> lh_files (mc_host M (hs_world s))"

definition lock_Acquire :: "'w machine \<Rightarrow> string \<Rightarrow> LockOptions \<Rightarrow> Time \<Rightarrow> 'w host_state \<Rightarrow> (lock_error + Lock) \<times> 'w host_state" where
  "lock_Acquire M dir opts now s =
     (case Acquire (mc_host M (hs_world s)) (mc_faults M (hs_world s)) (mc_inode M (hs_world s)) dir opts now (hs_locks s) of
        (r, locks) \<Rightarrow> (r, s\<lparr>hs_locks := locks\<rparr>))"

definition lock_Release :: "'w machine \<Rightarrow> string \<Rightarrow> string \<Rightarrow> string \<Rightarrow> bool \<Rightarrow> 'w host_state \<Rightarrow> (lock_error + Lock option) \<times> 'w host_state" where
  "lock_Release M dir repoRoot taskID force s =
     (case Release (mc_host M (hs_world s)) (mc_faults M (hs_world s)) dir repoRoot taskID force (hs_locks s) of
        (r, locks) \<Rightarrow> (r, s\<lparr>hs_locks := locks\<rparr>))"

section \<open>Names and policies\<close>

text \<open>
  The code points of a text as their UTF-8 encodings; a byte that starts none stands alone. Whether the code
  point of a longer encoding is a letter or digit is asked of the Unicode tables.
\<close>

definition utf8_length :: "char \<Rightarrow> nat" where
  "utf8_length c =
     (let n = of_char c :: nat in if n < 0xC2 then 1 else if n < 0xE0 then 2 else if n < 0xF0 then 3 else if n < 0xF5 then 4 else 1)"

definition continuation :: "char \<Rightarrow> bool" where
  "continuation c \<longleftrightarrow> (let n = of_char c :: nat in 0x80 \<le> n \<and> n < 0xC0)"

definition second_byte :: "char \<Rightarrow> char \<Rightarrow> bool" where
  "second_byte c d \<longleftrightarrow>
     (let n = of_char c :: nat; m = of_char d :: nat in
      if n = 0xE0 then 0xA0 \<le> m else if n = 0xED then m < 0xA0 else if n = 0xF0 then 0x90 \<le> m else if n = 0xF4 then m < 0x90 else True)"

function runes :: "string \<Rightarrow> string list" where
  "runes [] = []"
| "runes (c # cs) =
     (let more = take (utf8_length c - 1) cs in
      if more \<noteq> [] \<and> length more = utf8_length c - 1 \<and> list_all continuation more \<and> second_byte c (hd more)
      then (c # more) # runes (drop (length more) cs) else [c] # runes cs)"
  by pat_completeness auto
termination by (relation "measure length") (auto simp: Let_def)

definition ascii_word :: "char \<Rightarrow> bool" where
  "ascii_word c \<longleftrightarrow> c \<in> set (''abcdefghijklmnopqrstuvwxyz'' @ ''ABCDEFGHIJKLMNOPQRSTUVWXYZ'' @ ''0123456789'')"

definition safe_rune :: "'w machine \<Rightarrow> string \<Rightarrow> string" where
  "safe_rune M r =
     (if (case r of [c] \<Rightarrow> ascii_word c \<or> c = CHR ''-'' \<or> c = CHR ''_'' | _ \<Rightarrow> mc_IsLetterOrDigit M r) then r else ''_'')"

definition trim_marks :: "string \<Rightarrow> string" where
  "trim_marks s =
     (let mark = (\<lambda>c. c \<in> set ''.-_'') in rev (dropWhile mark (rev (dropWhile mark s))))"

definition safeGitName :: "'w machine \<Rightarrow> string \<Rightarrow> string" where
  "safeGitName M value0 =
     (let value = TrimSpace value0 in
      if value = [] then ''task''
      else
        (let cleaned = trim_marks (concat (map (safe_rune M) (runes value))) in
         if cleaned = [] then ''task'' else cleaned))"

definition normalizeGitWorktreeDirtyPolicy :: "string \<Rightarrow> worktree_error + string" where
  "normalizeGitWorktreeDirtyPolicy value =
     (if TrimSpace value = [] then Inr GitWorktreeDirtyPolicyPreserve
      else if value \<in> {GitWorktreeDirtyPolicyPreserve, GitWorktreeDirtyPolicyRequireClean} then Inr value
      else Inl (WorktreeText ''unsupported git worktree dirty policy''))"

definition normalizeGitWorktreeCleanup :: "string \<Rightarrow> worktree_error + string" where
  "normalizeGitWorktreeCleanup value =
     (if TrimSpace value = [] then Inr GitWorktreeCleanupPreserve
      else if value \<in> {GitWorktreeCleanupPreserve, GitWorktreeCleanupRemove, GitWorktreeCleanupRollback} then Inr value
      else Inl (WorktreeText ''unsupported git worktree cleanup policy''))"

definition IsGitRepository :: "'w machine \<Rightarrow> string \<Rightarrow> 'w host_state \<Rightarrow> (worktree_error + bool) \<times> 'w host_state" where
  "IsGitRepository M root s =
     (case CanonicalDir (machine_files M s) root of
        Inl e \<Rightarrow> (Inl (WorktreeText e), s)
      | Inr canonicalRoot \<Rightarrow>
          (case runGit M canonicalRoot [''rev-parse'', ''--is-inside-work-tree''] s of
             (evidence, s1) \<Rightarrow>
               if git_failed evidence then
                 (if ce_ExitCode evidence = 128 then (Inr False, s1) else (Inl (gitError ''git repository check'' evidence), s1))
               else (Inr (TrimSpace (ce_Stdout evidence) = ''true''), s1)))"

section \<open>Preparing a worktree\<close>

text \<open>The zero value of a lock, which a result holds until the lock is acquired.\<close>

definition zero_lock :: Lock where
  "zero_lock = \<lparr>lk_SchemaVersion = [], lk_LockID = [], lk_HostID = [], lk_TaskID = [], lk_RepoRoot = [], lk_WorktreePath = [], lk_BaseRef = [],
     lk_Branch = [], lk_OwnerAdapter = [], lk_CreatedAt = 0, lk_ExpiresAt = 0\<rparr>"

text \<open>What a failed call had gathered so far is used by no caller and left out.\<close>

definition worktree_path :: "'w machine \<Rightarrow> GitWorktreeOptions \<Rightarrow> string \<Rightarrow> string" where
  "worktree_path M opts topLevel =
     (let path0 =
        (if TrimSpace (go_WorktreePath opts) = [] then
           (let root0 = (if TrimSpace (go_WorktreeRoot opts) = [] then filepath_Join [topLevel, ''.rdev'', ''worktrees''] else go_WorktreeRoot opts);
                root = (if \<not> filepath_IsAbs root0 then filepath_Join [topLevel, root0] else root0)
            in filepath_Join [root, ''task_'' @ safeGitName M (go_TaskID opts)])
         else go_WorktreePath opts)
      in filepath_Clean (if \<not> filepath_IsAbs path0 then filepath_Join [topLevel, path0] else path0))"

definition lock_store :: "string \<Rightarrow> string \<Rightarrow> string" where
  "lock_store storeDir topLevel =
     (if TrimSpace storeDir = [] then filepath_Join [topLevel, ''.rdev'', ''workspace-locks''] else storeDir)"

definition discover_top :: "'w machine \<Rightarrow> string \<Rightarrow> 'w host_state \<Rightarrow> (worktree_error + string \<times> CommandEvidence) \<times> 'w host_state" where
  "discover_top M repoRoot s =
     (case runGit M repoRoot [''rev-parse'', ''--show-toplevel''] s of
        (evidence, s1) \<Rightarrow>
          if git_failed evidence then (Inl (gitError ''discover git top-level'' evidence), s1)
          else
            (let top = TrimSpace (ce_Stdout evidence) in
             if top = [] then (Inl (WorktreeText ''git top-level is empty''), s1)
             else
               (case CanonicalDir (machine_files M s1) top of
                  Inl e \<Rightarrow> (Inl (WorktreeText e), s1)
                | Inr topLevel \<Rightarrow> (Inr (topLevel, evidence), s1))))"

definition require_clean :: "'w machine \<Rightarrow> string \<Rightarrow> string \<Rightarrow> 'w host_state \<Rightarrow> (worktree_error + CommandEvidence list) \<times> 'w host_state" where
  "require_clean M dirtyPolicy topLevel s =
     (if dirtyPolicy = GitWorktreeDirtyPolicyRequireClean then
        (case runGit M topLevel [''status'', ''--porcelain=v1'', ''--untracked-files=normal''] s of
           (evidence, s1) \<Rightarrow>
             if git_failed evidence then (Inl (gitError ''inspect original workspace status'' evidence), s1)
             else if TrimSpace (ce_Stdout evidence) \<noteq> []
             then (Inl (WorktreeText ''original workspace is dirty and dirty_policy requires a clean repository''), s1)
             else (Inr [evidence], s1))
      else (Inr [], s))"

definition resolve_commit :: "'w machine \<Rightarrow> string \<Rightarrow> string \<Rightarrow> string \<Rightarrow> 'w host_state \<Rightarrow> (worktree_error + string \<times> CommandEvidence) \<times> 'w host_state" where
  "resolve_commit M context topLevel ref s =
     (case runGit M topLevel [''rev-parse'', ''--verify'', ref @ ''^{commit}''] s of
        (evidence, s1) \<Rightarrow>
          if git_failed evidence then (Inl (gitError context evidence), s1)
          else (Inr (TrimSpace (ce_Stdout evidence), evidence), s1))"

text \<open>The worktree is added while the lock of the repository is held; when that fails the lock is given back.\<close>

definition add_worktree :: "'w machine \<Rightarrow> GitWorktreeOptions \<Rightarrow> Time \<Rightarrow> GitWorktreeResult \<Rightarrow> 'w host_state \<Rightarrow> (worktree_error + GitWorktreeResult) \<times> 'w host_state" where
  "add_worktree M opts now result0 s =
     (let topLevel = gr_GitTopLevel result0; storeDir = lock_store (go_StoreDir opts) topLevel in
      case lock_Acquire M storeDir
          \<lparr>lo_StoreDir = [], lo_RepoRoot = topLevel, lo_HostID = go_HostID opts, lo_TaskID = go_TaskID opts, lo_WorktreePath = gr_WorktreePath result0,
           lo_BaseRef = gr_BaseSHA result0, lo_Branch = gr_Branch result0, lo_OwnerAdapter = go_OwnerAdapter opts, lo_TTL = go_TTL opts\<rparr> now s of
        (Inl e, s1) \<Rightarrow> (Inl (WorktreeLock e), s1)
      | (Inr lock, s1) \<Rightarrow>
          (case mc_MkdirAll M (filepath_Dir (gr_WorktreePath result0)) (hs_world s1) of
             (False, w) \<Rightarrow> (Inl (WorktreeText ''mkdir''), snd (lock_Release M storeDir topLevel (go_TaskID opts) False (s1\<lparr>hs_world := w\<rparr>)))
           | (True, w) \<Rightarrow>
               (case runGit M topLevel [''worktree'', ''add'', ''-b'', gr_Branch result0, gr_WorktreePath result0, gr_BaseSHA result0] (s1\<lparr>hs_world := w\<rparr>) of
                  (evidence, s2) \<Rightarrow>
                    if git_failed evidence
                    then (Inl (gitError ''create git worktree'' evidence), snd (lock_Release M storeDir topLevel (go_TaskID opts) False s2))
                    else (Inr (result0\<lparr>gr_Lock := lock, gr_Commands := gr_Commands result0 @ [evidence]\<rparr>), s2))))"

definition PrepareGitWorktree :: "'w machine \<Rightarrow> GitWorktreeOptions \<Rightarrow> Time \<Rightarrow> 'w host_state \<Rightarrow> (worktree_error + GitWorktreeResult) \<times> 'w host_state" where
  "PrepareGitWorktree M opts now s =
     (if TrimSpace (go_TaskID opts) = [] then (Inl (WorktreeText ''task id is required''), s)
      else if TrimSpace (go_HostID opts) = [] then (Inl (WorktreeText ''host id is required''), s)
      else
        (case CanonicalDir (machine_files M s) (go_RepoRoot opts) of
           Inl e \<Rightarrow> (Inl (WorktreeText e), s)
         | Inr repoRoot \<Rightarrow>
             (let baseRef = (if TrimSpace (go_BaseRef opts) = [] then ''HEAD'' else TrimSpace (go_BaseRef opts));
                  branch = (if TrimSpace (go_Branch opts) = [] then ''rdev/task_'' @ safeGitName M (go_TaskID opts) else TrimSpace (go_Branch opts)) in
              case normalizeGitWorktreeDirtyPolicy (go_DirtyPolicy opts) of
                Inl e \<Rightarrow> (Inl e, s)
              | Inr dirtyPolicy \<Rightarrow>
                  (case discover_top M repoRoot s of
                     (Inl e, s1) \<Rightarrow> (Inl e, s1)
                   | (Inr (topLevel, ev1), s1) \<Rightarrow>
                       (case require_clean M dirtyPolicy topLevel s1 of
                          (Inl e, s2) \<Rightarrow> (Inl e, s2)
                        | (Inr evs, s2) \<Rightarrow>
                            (case resolve_commit M ''resolve git base ref'' topLevel baseRef s2 of
                               (Inl e, s3) \<Rightarrow> (Inl e, s3)
                             | (Inr (baseSHA, ev2), s3) \<Rightarrow>
                                 if baseSHA = [] then (Inl (WorktreeText ''resolved git base SHA is empty''), s3)
                                 else
                                   add_worktree M opts now
                                     \<lparr>gr_SchemaVersion = GitWorktreePlanSchemaVersion, gr_RepoRoot = repoRoot, gr_GitTopLevel = topLevel,
                                      gr_WorktreePath = worktree_path M opts topLevel, gr_Branch = branch, gr_BaseRef = baseRef, gr_BaseSHA = baseSHA,
                                      gr_Lock = zero_lock, gr_Commands = ev1 # evs @ [ev2]\<rparr> s3))))))"

section \<open>Taking a worktree up again\<close>

definition listed_line :: "string \<Rightarrow> string \<Rightarrow> bool" where
  "listed_line target line \<longleftrightarrow> prefix ''worktree '' line \<and> filepath_Clean (TrimSpace (drop 9 line)) = target"

definition gitWorktreeListed :: "string \<Rightarrow> string \<Rightarrow> bool" where
  "gitWorktreeListed raw target = list_ex (listed_line (filepath_Clean target)) (splitOn (CHR 0x0A) raw)"

definition resume_lock :: "'w machine \<Rightarrow> GitWorktreeResumeOptions \<Rightarrow> Time \<Rightarrow> GitWorktreeResult \<Rightarrow> 'w host_state \<Rightarrow> (worktree_error + GitWorktreeResult) \<times> 'w host_state" where
  "resume_lock M opts now result0 s =
     (let topLevel = gr_GitTopLevel result0 in
      case lock_Acquire M (lock_store (rs_StoreDir opts) topLevel)
          \<lparr>lo_StoreDir = [], lo_RepoRoot = topLevel, lo_HostID = rs_HostID opts, lo_TaskID = rs_TaskID opts, lo_WorktreePath = gr_WorktreePath result0,
           lo_BaseRef = gr_BaseSHA result0, lo_Branch = gr_Branch result0, lo_OwnerAdapter = rs_OwnerAdapter opts, lo_TTL = rs_TTL opts\<rparr> now s of
        (Inl e, s1) \<Rightarrow> (Inl (WorktreeLock e), s1)
      | (Inr lock, s1) \<Rightarrow> (Inr (result0\<lparr>gr_Lock := lock\<rparr>), s1))"

definition resume_inside :: "'w machine \<Rightarrow> GitWorktreeResumeOptions \<Rightarrow> Time \<Rightarrow> GitWorktreeResult \<Rightarrow> 'w host_state \<Rightarrow> (worktree_error + GitWorktreeResult) \<times> 'w host_state" where
  "resume_inside M opts now result0 s =
     (case runGit M (gr_GitTopLevel result0) [''worktree'', ''list'', ''--porcelain''] s of
        (listed, s1) \<Rightarrow>
          if git_failed listed then (Inl (gitError ''inspect registered git worktrees'' listed), s1)
          else if \<not> gitWorktreeListed (ce_Stdout listed) (gr_WorktreePath result0)
          then (Inl (WorktreeText ''checkpoint worktree is not registered under the source repository''), s1)
          else
            (case runGit M (gr_WorktreePath result0) [''branch'', ''--show-current''] s1 of
               (branchEvidence, s2) \<Rightarrow>
                 if git_failed branchEvidence then (Inl (gitError ''inspect checkpoint worktree branch'' branchEvidence), s2)
                 else
                   (let branch = TrimSpace (ce_Stdout branchEvidence); expected = TrimSpace (rs_Branch opts); baseRef = TrimSpace (rs_BaseSHA opts) in
                    if expected \<noteq> [] \<and> branch \<noteq> expected then (Inl (WorktreeText ''checkpoint worktree branch does not match expected branch''), s2)
                    else if baseRef = [] then (Inl (WorktreeText ''checkpoint base SHA is required''), s2)
                    else
                      (case resolve_commit M ''resolve checkpoint base SHA'' (gr_GitTopLevel result0) baseRef s2 of
                         (Inl e, s3) \<Rightarrow> (Inl e, s3)
                       | (Inr (baseSHA, baseEvidence), s3) \<Rightarrow>
                           resume_lock M opts now
                             (result0\<lparr>gr_Branch := branch, gr_BaseSHA := baseSHA, gr_BaseRef := baseSHA,
                               gr_Commands := gr_Commands result0 @ [listed, branchEvidence, baseEvidence]\<rparr>) s3))))"

definition ResumeGitWorktree :: "'w machine \<Rightarrow> GitWorktreeResumeOptions \<Rightarrow> Time \<Rightarrow> 'w host_state \<Rightarrow> (worktree_error + GitWorktreeResult) \<times> 'w host_state" where
  "ResumeGitWorktree M opts now s =
     (if TrimSpace (rs_TaskID opts) = [] then (Inl (WorktreeText ''task id is required''), s)
      else if TrimSpace (rs_HostID opts) = [] then (Inl (WorktreeText ''host id is required''), s)
      else if TrimSpace (rs_WorktreeRoot opts) = [] then (Inl (WorktreeText ''checkpoint worktree root is required''), s)
      else
        (case CanonicalDir (machine_files M s) (rs_RepoRoot opts) of
           Inl e \<Rightarrow> (Inl (WorktreeText e), s)
         | Inr repoRoot \<Rightarrow>
             (case runGit M repoRoot [''rev-parse'', ''--show-toplevel''] s of
                (ev1, s1) \<Rightarrow>
                  if git_failed ev1 then (Inl (gitError ''discover git top-level'' ev1), s1)
                  else
                    (case CanonicalDir (machine_files M s1) (TrimSpace (ce_Stdout ev1)) of
                       Inl e \<Rightarrow> (Inl (WorktreeText e), s1)
                     | Inr topLevel \<Rightarrow>
                         (case CanonicalDir (machine_files M s1) (rs_WorktreeRoot opts) of
                            Inl e \<Rightarrow> (Inl (WorktreeText (''resolve checkpoint worktree: '' @ e)), s1)
                          | Inr worktreeRoot \<Rightarrow>
                              (case runGit M worktreeRoot [''rev-parse'', ''--show-toplevel''] s1 of
                                 (ev2, s2) \<Rightarrow>
                                   if git_failed ev2 then (Inl (gitError ''inspect checkpoint worktree'' ev2), s2)
                                   else
                                     (case CanonicalDir (machine_files M s2) (TrimSpace (ce_Stdout ev2)) of
                                        Inl e \<Rightarrow> (Inl (WorktreeText e), s2)
                                      | Inr worktreeTopLevel \<Rightarrow>
                                          resume_inside M opts now
                                            \<lparr>gr_SchemaVersion = GitWorktreePlanSchemaVersion, gr_RepoRoot = repoRoot, gr_GitTopLevel = topLevel,
                                             gr_WorktreePath = worktreeTopLevel, gr_Branch = [], gr_BaseRef = [], gr_BaseSHA = [],
                                             gr_Lock = zero_lock, gr_Commands = [ev1, ev2]\<rparr> s2)))))))"

section \<open>The final state\<close>

definition boundedCommandEvidence :: "CommandEvidence \<Rightarrow> CommandEvidence" where
  "boundedCommandEvidence command = command\<lparr>ce_Stdout := [], ce_Stderr := []\<rparr>"

definition hashGitOutput :: "'w machine \<Rightarrow> 'w host_state \<Rightarrow> string \<Rightarrow> string" where
  "hashGitOutput M s value = ''sha256:'' @ hex_EncodeToString (lh_sha256 (mc_host M (hs_world s)) value)"

definition isGitRenameOrCopyStatus :: "string \<Rightarrow> bool" where
  "isGitRenameOrCopyStatus status \<longleftrightarrow>
     length status = 2 \<and> (status ! 0 = CHR ''R'' \<or> status ! 0 = CHR ''C'' \<or> status ! 1 = CHR ''R'' \<or> status ! 1 = CHR ''C'')"

text \<open>The entries of a status in the -z format, with room for so many files.\<close>

fun statusEntries :: "nat \<Rightarrow> string list \<Rightarrow> GitChangedFile list \<times> bool" where
  "statusEntries room [] = ([], False)"
| "statusEntries room (entry # entries) =
     (if entry = [] then statusEntries room entries
      else if room = 0 then ([], True)
      else if length entry < 4 then statusEntries room entries
      else
        (let status = take 2 entry; changed = \<lparr>cf_Status = status, cf_Path = drop 3 entry, cf_OriginalPath = []\<rparr> in
         if isGitRenameOrCopyStatus status then
           (case entries of
              [] \<Rightarrow> ([changed], True)
            | original # rest \<Rightarrow>
                if original = [] then ([changed], True)
                else (case statusEntries (room - 1) rest of (files, truncated) \<Rightarrow> (changed\<lparr>cf_OriginalPath := original\<rparr> # files, truncated)))
         else (case statusEntries (room - 1) entries of (files, truncated) \<Rightarrow> (changed # files, truncated))))"

definition maxChangedFiles :: nat where "maxChangedFiles = 200"

definition parseGitStatusChanges :: "string \<Rightarrow> GitChangedFile list \<times> bool" where
  "parseGitStatusChanges raw = statusEntries maxChangedFiles (splitOn (CHR 0x00) raw)"

definition note_command :: "CommandEvidence \<Rightarrow> GitWorktreeEvidence \<Rightarrow> GitWorktreeEvidence" where
  "note_command command evidence = evidence\<lparr>gv_Commands := gv_Commands evidence @ [boundedCommandEvidence command]\<rparr>"

definition inspectGitWorktree ::
    "'w machine \<Rightarrow> GitWorktreeEvidence \<Rightarrow> 'w host_state \<Rightarrow> (worktree_error option \<times> GitWorktreeEvidence) \<times> 'w host_state" where
  "inspectGitWorktree M evidence s =
     (let dir = gv_WorktreePath evidence in
      case runGit M dir [''rev-parse'', ''HEAD''] s of
        (head, s1) \<Rightarrow>
          (let e1 = note_command head evidence in
           if git_failed head then ((Some (gitError ''read worktree HEAD'' head), e1), s1)
           else
             (case runGit M dir [''status'', ''--porcelain=v1'', ''-z'', ''--untracked-files=normal''] s1 of
                (status, s2) \<Rightarrow>
                  (let e2 = note_command status (e1\<lparr>gv_FinalSHA := TrimSpace (ce_Stdout head)\<rparr>) in
                   if git_failed status then ((Some (gitError ''inspect worktree changes'' status), e2), s2)
                   else
                     (case parseGitStatusChanges (ce_Stdout status) of
                        (files, truncated) \<Rightarrow>
                          (let e3 = e2\<lparr>gv_ChangedFiles := files, gv_ChangesTruncated := truncated, gv_Dirty := (files \<noteq> [])\<rparr> in
                           case runGit M dir [''diff'', ''--stat'', ''HEAD''] s2 of
                             (diffStat, s3) \<Rightarrow>
                               (let e4 = note_command diffStat e3 in
                                if git_failed diffStat then ((Some (gitError ''calculate worktree diff stat'' diffStat), e4), s3)
                                else
                                  (case runGit M dir [''diff'', ''--binary'', ''HEAD''] s3 of
                                     (diff, s4) \<Rightarrow>
                                       (let e5 = note_command diff (e4\<lparr>gv_DiffStatSHA256 := hashGitOutput M s3 (ce_Stdout diffStat)\<rparr>) in
                                        if git_failed diff then ((Some (gitError ''calculate worktree diff'' diff), e5), s4)
                                        else ((None, e5\<lparr>gv_DiffSHA256 := hashGitOutput M s4 (ce_Stdout diff)\<rparr>), s4))))))))))"

definition removeGitWorktree ::
    "'w machine \<Rightarrow> GitWorktreeEvidence \<Rightarrow> 'w host_state \<Rightarrow> (worktree_error option \<times> GitWorktreeEvidence) \<times> 'w host_state" where
  "removeGitWorktree M evidence s =
     (case runGit M (gv_GitTopLevel evidence) [''worktree'', ''remove'', ''--force'', gv_WorktreePath evidence] s of
        (remove, s1) \<Rightarrow>
          (let e1 = note_command remove evidence in
           if git_failed remove then ((Some (gitError ''remove worktree'' remove), e1), s1)
           else
             (case runGit M (gv_GitTopLevel evidence) [''worktree'', ''prune''] s1 of
                (prune, s2) \<Rightarrow>
                  (let e2 = note_command prune e1 in
                   if git_failed prune then ((Some (gitError ''prune worktrees'' prune), e2), s2)
                   else ((None, e2\<lparr>gv_CleanupSucceeded := True\<rparr>), s2)))))"

definition cleanupGitWorktree ::
    "'w machine \<Rightarrow> GitWorktreeEvidence \<Rightarrow> 'w host_state \<Rightarrow> (worktree_error option \<times> GitWorktreeEvidence) \<times> 'w host_state" where
  "cleanupGitWorktree M evidence s =
     (if gv_Cleanup evidence = GitWorktreeCleanupPreserve then ((None, evidence\<lparr>gv_CleanupSucceeded := True\<rparr>), s)
      else if gv_Cleanup evidence = GitWorktreeCleanupRollback then
        (case runGit M (gv_WorktreePath evidence) [''reset'', ''--hard'', gv_BaseSHA evidence] s of
           (reset, s1) \<Rightarrow>
             (let e1 = note_command reset evidence in
              if git_failed reset then ((Some (gitError ''rollback worktree'' reset), e1), s1) else removeGitWorktree M e1 s1))
      else if gv_Cleanup evidence = GitWorktreeCleanupRemove then removeGitWorktree M evidence s
      else ((Some (WorktreeText ''unsupported git worktree cleanup policy''), evidence), s))"

record GitWorktreeFinalizeOptions =
  fo_StoreDir :: string
  fo_TaskID :: string
  fo_Worktree :: GitWorktreeResult
  fo_Cleanup :: string

definition no_release :: GitWorktreeLockRelease where
  "no_release = \<lparr>lr_Attempted = False, lr_Released = False, lr_Error = None\<rparr>"

definition zero_evidence :: GitWorktreeEvidence where
  "zero_evidence = \<lparr>gv_SchemaVersion = [], gv_RepoRoot = [], gv_GitTopLevel = [], gv_WorktreePath = [], gv_Branch = [], gv_BaseRef = [], gv_BaseSHA = [],
     gv_FinalSHA = [], gv_Dirty = False, gv_ChangedFiles = [], gv_ChangesTruncated = False, gv_DiffStatSHA256 = [], gv_DiffSHA256 = [],
     gv_LockAcquire = zero_lock, gv_LockRelease = no_release, gv_Cleanup = [], gv_CleanupSucceeded = False, gv_Commands = []\<rparr>"

definition evidence_of :: "GitWorktreeResult \<Rightarrow> string \<Rightarrow> GitWorktreeEvidence" where
  "evidence_of worktree cleanup =
     zero_evidence\<lparr>gv_SchemaVersion := GitWorktreeEvidenceSchemaVersion, gv_RepoRoot := gr_RepoRoot worktree, gv_GitTopLevel := gr_GitTopLevel worktree,
       gv_WorktreePath := gr_WorktreePath worktree, gv_Branch := gr_Branch worktree, gv_BaseRef := gr_BaseRef worktree,
       gv_BaseSHA := firstNonEmpty [gr_BaseSHA worktree, gr_BaseRef worktree], gv_LockAcquire := gr_Lock worktree, gv_Cleanup := cleanup\<rparr>"

text \<open>Releasing the lock is what FinalizeGitWorktree defers.\<close>

definition release_worktree ::
    "'w machine \<Rightarrow> GitWorktreeFinalizeOptions \<Rightarrow> worktree_error option \<times> GitWorktreeEvidence \<Rightarrow> 'w host_state
     \<Rightarrow> (worktree_error option \<times> GitWorktreeEvidence) \<times> 'w host_state" where
  "release_worktree M opts = (\<lambda>(failure, evidence) s.
     case lock_Release M (fo_StoreDir opts) (gr_GitTopLevel (fo_Worktree opts)) (fo_TaskID opts) False s of
       (Inl e, s1) \<Rightarrow>
         ((if failure = None then Some (WorktreeLock e) else failure,
           evidence\<lparr>gv_LockRelease := \<lparr>lr_Attempted = True, lr_Released = False, lr_Error = Some e\<rparr>\<rparr>), s1)
     | (Inr released, s1) \<Rightarrow>
         ((failure, evidence\<lparr>gv_LockRelease := \<lparr>lr_Attempted = True, lr_Released = (released \<noteq> None), lr_Error = None\<rparr>\<rparr>), s1))"

definition FinalizeGitWorktree ::
    "'w machine \<Rightarrow> GitWorktreeFinalizeOptions \<Rightarrow> 'w host_state \<Rightarrow> (worktree_error option \<times> GitWorktreeEvidence) \<times> 'w host_state" where
  "FinalizeGitWorktree M opts s =
     (let worktree = fo_Worktree opts in
      if TrimSpace (fo_TaskID opts) = [] then ((Some (WorktreeText ''task id is required''), zero_evidence), s)
      else if TrimSpace (gr_GitTopLevel worktree) = [] \<or> TrimSpace (gr_WorktreePath worktree) = []
      then ((Some (WorktreeText ''git worktree result is required''), zero_evidence), s)
      else
        (case normalizeGitWorktreeCleanup (fo_Cleanup opts) of
           Inl e \<Rightarrow> ((Some e, zero_evidence), s)
         | Inr cleanup \<Rightarrow>
             (case inspectGitWorktree M (evidence_of worktree cleanup) s of
                ((Some e, evidence), s1) \<Rightarrow> release_worktree M opts (Some e, evidence) s1
              | ((None, evidence), s1) \<Rightarrow>
                  (case cleanupGitWorktree M evidence s1 of (outcome, s2) \<Rightarrow> release_worktree M opts outcome s2))))"

end
