(* ===== verification/Workspace_Snapshot.thy ===== *)
theory Workspace_Snapshot
  imports Git_Worktree "HOL-Library.List_Lexorder" "HOL-Library.Char_ord"
begin

text \<open>
  Snapshots of a workspace that is no git repository (internal/workspace/snapshot.go): the metadata of its
  files before and after a task, and the files that changed between the two. The walk through a directory
  is what the machine reports of it.
\<close>

section \<open>Data\<close>

definition WorkspaceScopeSnapshotSchemaVersion :: string where
  "WorkspaceScopeSnapshotSchemaVersion = ''rdev.workspace-scope-snapshot.v1''"

definition WorkspaceScopeEvidenceSchemaVersion :: string where
  "WorkspaceScopeEvidenceSchemaVersion = ''rdev.workspace-scope-evidence.v1''"

definition maxWorkspaceSnapshotFiles :: nat where "maxWorkspaceSnapshotFiles = 20000"

definition maxChangedWorkspaceFiles :: nat where "maxChangedWorkspaceFiles = 200"

text \<open>The entries of a snapshot, a map with the order in which they were met; no entries are the nil map of a zero value.\<close>

record WorkspaceScopeSnapshot =
  wss_SchemaVersion :: string
  wss_Root :: string
  wss_Scopes :: "string list"
  wss_FileCount :: nat
  wss_Truncated :: bool
  wss_TreeSHA256 :: string
  wss_entries :: "(string \<times> string) list option"

record WorkspaceScopeEvidence =
  wse_SchemaVersion :: string
  wse_Before :: WorkspaceScopeSnapshot
  wse_After :: WorkspaceScopeSnapshot
  wse_Changed :: bool
  wse_ChangedFiles :: "string list"
  wse_ChangesTruncated :: bool
  wse_DeclaredWriteScope :: "string list"

section \<open>Comparing\<close>

definition entry_of :: "(string \<times> string) list \<Rightarrow> string \<Rightarrow> string" where
  "entry_of entries path = (case map_of entries path of None \<Rightarrow> [] | Some r \<Rightarrow> r)"

definition changed_paths :: "(string \<times> string) list \<Rightarrow> (string \<times> string) list \<Rightarrow> string list" where
  "changed_paths before after =
     sort (filter (\<lambda>path. entry_of before path \<noteq> entry_of after path) (remdups (map fst before @ map fst after)))"

definition changedWorkspaceSnapshotFiles :: "(string \<times> string) list option \<Rightarrow> (string \<times> string) list option \<Rightarrow> string list \<times> bool" where
  "changedWorkspaceSnapshotFiles before after =
     (case (before, after) of
        (Some b, Some a) \<Rightarrow>
          (let paths = changed_paths b a in
           if length paths \<le> maxChangedWorkspaceFiles then (paths, False) else (take maxChangedWorkspaceFiles paths, True))
      | _ \<Rightarrow> ([], False))"

definition CompareWorkspaceScope :: "WorkspaceScopeSnapshot \<Rightarrow> WorkspaceScopeSnapshot \<Rightarrow> WorkspaceScopeEvidence" where
  "CompareWorkspaceScope before after =
     (case changedWorkspaceSnapshotFiles (wss_entries before) (wss_entries after) of
        (changedFiles, truncated) \<Rightarrow>
          \<lparr>wse_SchemaVersion = WorkspaceScopeEvidenceSchemaVersion, wse_Before = before, wse_After = after,
           wse_Changed = (wss_TreeSHA256 before \<noteq> wss_TreeSHA256 after \<or> wss_FileCount before \<noteq> wss_FileCount after \<or> wss_Truncated before \<noteq> wss_Truncated after),
           wse_ChangedFiles = changedFiles, wse_ChangesTruncated = truncated, wse_DeclaredWriteScope = []\<rparr>)"

section \<open>Taking a snapshot\<close>

definition escapes_root :: "string \<Rightarrow> bool" where
  "escapes_root relative \<longleftrightarrow> relative = ''..'' \<or> prefix ''../'' relative"

definition resolve_snapshot_scope :: "host_files \<Rightarrow> string \<Rightarrow> string \<Rightarrow> string + (string \<times> string)" where
  "resolve_snapshot_scope H root scope =
     (let candidate = filepath_Clean (if \<not> filepath_IsAbs scope then filepath_Join [root, scope] else scope) in
      case filepath_Rel root candidate of
        None \<Rightarrow> Inl ''workspace snapshot scope escapes workspace root''
      | Some relative \<Rightarrow>
          if escapes_root relative then Inl ''workspace snapshot scope escapes workspace root''
          else
            (case EvalSymlinks (hf_nodes H) candidate of
               None \<Rightarrow> Inl ''resolve workspace snapshot scope''
             | Some canonical0 \<Rightarrow>
                 (let canonical = filepath_Clean canonical0 in
                  case filepath_Rel root canonical of
                    None \<Rightarrow> Inl ''workspace snapshot scope resolves outside workspace root''
                  | Some relativeCanonical \<Rightarrow>
                      if escapes_root relativeCanonical then Inl ''workspace snapshot scope resolves outside workspace root''
                      else
                        (case lstat (hf_nodes H) canonical of
                           OsOk _ \<Rightarrow> Inr (canonical, relativeCanonical)
                         | _ \<Rightarrow> Inl ''lstat''))))"

fun snapshot_scopes :: "host_files \<Rightarrow> string \<Rightarrow> (string \<times> string) list \<Rightarrow> string list \<Rightarrow> string + (string \<times> string) list" where
  "snapshot_scopes H root found [] = Inr found"
| "snapshot_scopes H root found (scope0 # scopes) =
     (let scope = TrimSpace scope0 in
      if scope = [] then snapshot_scopes H root found scopes
      else
        (case resolve_snapshot_scope H root scope of
           Inl e \<Rightarrow> Inl e
         | Inr (canonical, relative) \<Rightarrow>
             if canonical \<in> fst ` set found then snapshot_scopes H root found scopes
             else snapshot_scopes H root (found @ [(canonical, relative)]) scopes))"

definition resolveWorkspaceSnapshotScopes :: "host_files \<Rightarrow> string \<Rightarrow> string list \<Rightarrow> string + (string list \<times> string list)" where
  "resolveWorkspaceSnapshotScopes H root scopes0 =
     (let scopes = (if scopes0 = [] then [''.''] else scopes0) in
      case snapshot_scopes H root [] scopes of
        Inl e \<Rightarrow> Inl e
      | Inr found \<Rightarrow>
          if found = [] then Inl ''workspace snapshot requires at least one non-empty scope''
          else Inr (map fst found, sort (map snd found)))"

definition snapshot_record :: "string \<Rightarrow> file_info \<Rightarrow> string" where
  "snapshot_record relative info =
     relative @ [CHR 0x00] @ fi_Mode info @ [CHR 0x00] @ dec_int (fi_Size info) @ [CHR 0x00] @ dec_int (fi_ModTime info)"

text \<open>Skipping a directory leaves out everything below it.\<close>

definition below :: "string \<Rightarrow> walk_entry \<Rightarrow> bool" where
  "below dir entry = (case entry of WalkEntry path _ _ \<Rightarrow> prefix (dir @ ''/'') path | WalkFailed \<Rightarrow> False)"

text \<open>One walk: the entries it adds, and whether it stopped because there are too many.\<close>

function snapshot_walk :: "string \<Rightarrow> (string \<times> string) list \<Rightarrow> walk_entry list \<Rightarrow> string + ((string \<times> string) list \<times> bool)" where
  "snapshot_walk root entries [] = Inr (entries, False)"
| "snapshot_walk root entries (WalkFailed # rest) = Inl ''walk''"
| "snapshot_walk root entries (WalkEntry path isDir info # rest) =
     (case filepath_Rel root path of
        None \<Rightarrow> Inl ''rel''
      | Some relative \<Rightarrow>
          if relative = ''.git'' \<and> isDir then snapshot_walk root entries (filter (\<lambda>e. \<not> below path e) rest)
          else if isDir then snapshot_walk root entries rest
          else if length entries \<ge> maxWorkspaceSnapshotFiles then Inr (entries, True)
          else if relative \<in> fst ` set entries then snapshot_walk root entries rest
          else
            (case info of
               None \<Rightarrow> Inl ''info''
             | Some i \<Rightarrow> snapshot_walk root (entries @ [(relative, snapshot_record relative i)]) rest))"
  by pat_completeness auto
termination by (relation "measure (\<lambda>(root, entries, es). length es)") (auto simp: less_Suc_eq_le length_filter_le)

fun snapshot_walks :: "'w machine \<Rightarrow> 'w \<Rightarrow> string \<Rightarrow> (string \<times> string) list \<Rightarrow> string list \<Rightarrow> string + ((string \<times> string) list \<times> bool)" where
  "snapshot_walks M w root entries [] = Inr (entries, False)"
| "snapshot_walks M w root entries (scope # scopes) =
     (case snapshot_walk root entries (mc_WalkDir M scope w) of
        Inl e \<Rightarrow> Inl e
      | Inr (entries', truncated) \<Rightarrow> if truncated then Inr (entries', True) else snapshot_walks M w root entries' scopes)"

definition SnapshotWorkspaceScope :: "'w machine \<Rightarrow> 'w host_state \<Rightarrow> string \<Rightarrow> string list \<Rightarrow> string + WorkspaceScopeSnapshot" where
  "SnapshotWorkspaceScope M s root scopes =
     (case CanonicalDir (machine_files M s) root of
        Inl e \<Rightarrow> Inl e
      | Inr canonicalRoot \<Rightarrow>
          (case resolveWorkspaceSnapshotScopes (machine_files M s) canonicalRoot scopes of
             Inl e \<Rightarrow> Inl e
           | Inr (resolved, normalized) \<Rightarrow>
               (case snapshot_walks M (hs_world s) canonicalRoot [] resolved of
                  Inl e \<Rightarrow> Inl e
                | Inr (entries, truncated) \<Rightarrow>
                    Inr \<lparr>wss_SchemaVersion = WorkspaceScopeSnapshotSchemaVersion, wss_Root = canonicalRoot, wss_Scopes = normalized,
                      wss_FileCount = length entries, wss_Truncated = truncated,
                      wss_TreeSHA256 = ''sha256:'' @ hex_EncodeToString (lh_sha256 (mc_host M (hs_world s)) (concat (map (\<lambda>r. r @ [CHR 0x0A]) (sort (map snd entries))))),
                      wss_entries = Some entries\<rparr>)))"

end
