(* ===== verification/Task_Isolation.thy ===== *)
theory Task_Isolation
  imports Engineering_Progress Workspace_Snapshot
begin

text \<open>
  Where a task runs (internal/hostrunner/isolation.go): in a linked worktree of its repository, or in the
  workspace itself under its lock; how the paths of the envelope are carried over into the worktree, and
  whether what the task changed lies inside its declared write scope.
\<close>

section \<open>The choice of isolation\<close>

definition wantsGitWorktree :: "taskEnvelope \<Rightarrow> string + bool" where
  "wantsGitWorktree envelope =
     (let declared = TrimSpace (tw_Isolation (env_Workspace envelope));
          isolation = (if declared = [] then TrimSpace (hostStringValue (env_Payload envelope) ''isolation'' []) else declared) in
      if isolation = [] then Inr (env_Adapter envelope \<in> {''codex'', ''claude-code'', ''acpx''})
      else if isolation = ''workspace-lock'' then Inr False
      else if isolation = ''git-worktree'' then Inr True
      else Inl ''unsupported workspace isolation'')"

definition taskWorktreePaths :: "runner_host \<Rightarrow> Options \<Rightarrow> string \<times> string" where
  "taskWorktreePaths H opts =
     (if TrimSpace (op_WorkspaceLockStore opts) \<noteq> []
      then (op_WorkspaceLockStore opts, filepath_Join [filepath_Dir (op_WorkspaceLockStore opts), ''worktrees''])
      else
        (let base =
           (case rh_cacheDir H of
              Some cacheDir \<Rightarrow> if TrimSpace cacheDir \<noteq> [] then filepath_Join [cacheDir, ''rdev''] else filepath_Join [rh_tempDir H, ''rdev'']
            | None \<Rightarrow> filepath_Join [rh_tempDir H, ''rdev''])
         in (filepath_Join [base, ''workspace-locks''], filepath_Join [base, ''worktrees''])))"

section \<open>Carrying paths over\<close>

definition remapWorkspacePath :: "string \<Rightarrow> string \<Rightarrow> string \<Rightarrow> string" where
  "remapWorkspacePath value oldRoot newRoot =
     (if \<not> filepath_IsAbs value then value
      else
        (case filepath_Rel oldRoot value of
           None \<Rightarrow> value
         | Some relative \<Rightarrow> if escapes_root relative then value else filepath_Join [newRoot, relative]))"

definition remapWorkspacePaths :: "string list \<Rightarrow> string \<Rightarrow> string \<Rightarrow> string list" where
  "remapWorkspacePaths values oldRoot newRoot = map (\<lambda>value. remapWorkspacePath value oldRoot newRoot) values"

text \<open>A matrix of texts, read from a payload by encoding it and decoding it again: a null is the empty row or the empty text.\<close>

fun matrix_cell :: "goval \<Rightarrow> string option" where
  "matrix_cell (GString t) = Some t"
| "matrix_cell GNil = Some []"
| "matrix_cell _ = None"

fun matrix_row :: "goval \<Rightarrow> string list option" where
  "matrix_row (GList cells) = those (map matrix_cell cells)"
| "matrix_row GNil = Some []"
| "matrix_row _ = None"

definition commandMatrixValue :: "goval option \<Rightarrow> string list list option" where
  "commandMatrixValue value = (case value of Some (GList rows) \<Rightarrow> those (map matrix_row rows) | _ \<Rightarrow> None)"

definition remap_slice :: "string \<Rightarrow> string \<Rightarrow> string \<Rightarrow> (string \<rightharpoonup> goval) \<Rightarrow> (string \<rightharpoonup> goval)" where
  "remap_slice key oldRoot newRoot payload =
     (case hostStringSliceValue (Some payload) key of
        None \<Rightarrow> payload
      | Some values \<Rightarrow> payload(key \<mapsto> texts (remapWorkspacePaths values oldRoot newRoot)))"

definition remap_payload :: "string \<Rightarrow> string \<Rightarrow> GitWorktreeResult \<Rightarrow> (string \<rightharpoonup> goval) \<Rightarrow> (string \<rightharpoonup> goval)" where
  "remap_payload oldRoot newRoot prepared payload0 =
     (let p1 = payload0(''workspace_root'' \<mapsto> GString newRoot, ''branch'' \<mapsto> GString (gr_Branch prepared),
            ''base_sha'' \<mapsto> GString (gr_BaseSHA prepared), ''isolation'' \<mapsto> GString ''git-worktree'');
          p2 = remap_slice ''write_scope'' oldRoot newRoot (remap_slice ''read_scope'' oldRoot newRoot p1);
          path = hostStringValue (Some p2) ''path'' [];
          p3 = (if path \<noteq> [] then p2(''path'' \<mapsto> GString (remapWorkspacePath path oldRoot newRoot)) else p2);
          p4 = remap_slice ''argv'' oldRoot newRoot p3
      in case commandMatrixValue (p4 ''verification_commands'') of
           None \<Rightarrow> p4
         | Some commands \<Rightarrow>
             p4(''verification_commands'' \<mapsto> GList (map (\<lambda>command. texts (remapWorkspacePaths command oldRoot newRoot)) commands)))"

text \<open>
  The payload of a task that gets here is a map: the root of its workspace is read from it, and a task without
  a root is refused before.
\<close>

definition remapEnvelopeForWorktree :: "taskEnvelope \<Rightarrow> string \<Rightarrow> string \<Rightarrow> GitWorktreeResult \<Rightarrow> taskEnvelope" where
  "remapEnvelopeForWorktree envelope oldRoot newRoot prepared =
     envelope\<lparr>env_Workspace := (env_Workspace envelope)\<lparr>tw_Root := newRoot, tw_Branch := gr_Branch prepared, tw_BaseSHA := gr_BaseSHA prepared,
         tw_Isolation := ''git-worktree'', tw_WriteScope := remapWorkspacePaths (tw_WriteScope (env_Workspace envelope)) oldRoot newRoot\<rparr>,
       env_Payload := map_option (remap_payload oldRoot newRoot prepared) (env_Payload envelope)\<rparr>"

section \<open>The worktree of a task\<close>

record gitWorktreeLease =
  gl_prepared :: GitWorktreeResult
  gl_storeDir :: string
  gl_taskID :: string

definition stat_dir :: "file_system \<Rightarrow> string \<Rightarrow> bool" where
  "stat_dir fs path = (case follow fs kernel_links [] (path_elems path) of OsOk d \<Rightarrow> is_dir fs d | _ \<Rightarrow> False)"

definition prepare_or_resume ::
    "'w machine \<Rightarrow> runner_host \<Rightarrow> taskEnvelope \<Rightarrow> Options \<Rightarrow> Time \<Rightarrow> 'w host_state \<Rightarrow> (worktree_error + GitWorktreeResult) \<times> 'w host_state" where
  "prepare_or_resume M H envelope opts now s =
     (let (storeDir, worktreeRoot) = taskWorktreePaths H opts;
          hostID = firstNonEmptyString [env_EndpointID envelope, env_EndpointIdentity envelope, ''local-host''] in
      case op_engineeringResume opts of
        Some resume \<Rightarrow>
          (let checkpoint = er_Checkpoint resume in
           if ck_Isolation checkpoint \<noteq> ''git-worktree'' \<or> TrimSpace (ck_WorkspaceRoot checkpoint) = []
           then (Inl (WorktreeText ''engineering resume checkpoint does not reference a Git worktree''), s)
           else
             ResumeGitWorktree M
               \<lparr>rs_StoreDir = storeDir, rs_RepoRoot = tw_Root (env_Workspace envelope), rs_WorktreeRoot = ck_WorkspaceRoot checkpoint,
                rs_HostID = hostID, rs_TaskID = env_TaskID envelope, rs_OwnerAdapter = env_Adapter envelope, rs_BaseSHA = ck_BaseSHA checkpoint,
                rs_Branch = ck_Branch checkpoint, rs_TTL = op_WorkspaceLockTTL opts\<rparr> now s)
      | None \<Rightarrow>
          PrepareGitWorktree M
            \<lparr>go_StoreDir = storeDir, go_RepoRoot = tw_Root (env_Workspace envelope), go_HostID = hostID, go_TaskID = env_TaskID envelope,
             go_OwnerAdapter = env_Adapter envelope,
             go_BaseRef = firstNonEmptyString [tw_BaseSHA (env_Workspace envelope), hostStringValue (env_Payload envelope) ''base_sha'' [], ''HEAD''],
             go_Branch = tw_Branch (env_Workspace envelope),
             go_DirtyPolicy = firstNonEmptyString [tw_DirtyPolicy (env_Workspace envelope), hostStringValue (env_Payload envelope) ''dirty_policy'' [],
               GitWorktreeDirtyPolicyPreserve],
             go_WorktreeRoot = worktreeRoot, go_WorktreePath = [], go_TTL = op_WorkspaceLockTTL opts\<rparr> now s)"

text \<open>The directory of the worktree that stands for the root of the workspace.\<close>

definition isolated_root :: "host_files \<Rightarrow> string \<Rightarrow> GitWorktreeResult \<Rightarrow> worktree_error + (string \<times> string)" where
  "isolated_root files root prepared =
     (case CanonicalDir files root of
        Inl e \<Rightarrow> Inl (WorktreeText e)
      | Inr originalRoot \<Rightarrow>
          (case filepath_Rel (gr_GitTopLevel prepared) originalRoot of
             None \<Rightarrow> Inl (WorktreeText ''workspace root is outside Git top-level'')
           | Some relativeRoot \<Rightarrow>
               if escapes_root relativeRoot then Inl (WorktreeText ''workspace root is outside Git top-level'')
               else
                 (let isolatedRoot = (if relativeRoot \<noteq> ''.'' then filepath_Join [gr_WorktreePath prepared, relativeRoot] else gr_WorktreePath prepared) in
                  if \<not> stat_dir (hf_nodes files) isolatedRoot then Inl (WorktreeText ''isolated workspace root is unavailable'')
                  else Inr (originalRoot, isolatedRoot))))"

definition prepareGitWorktreeLease ::
    "'w machine \<Rightarrow> runner_host \<Rightarrow> taskEnvelope \<Rightarrow> Options \<Rightarrow> Time \<Rightarrow> 'w host_state
     \<Rightarrow> (worktree_error + (gitWorktreeLease \<times> taskEnvelope) option) \<times> 'w host_state" where
  "prepareGitWorktreeLease M H envelope opts now s =
     (case wantsGitWorktree envelope of
        Inl e \<Rightarrow> (Inl (WorktreeText e), s)
      | Inr False \<Rightarrow> (Inr None, s)
      | Inr True \<Rightarrow>
          (case IsGitRepository M (tw_Root (env_Workspace envelope)) s of
             (Inl e, s1) \<Rightarrow> (Inl e, s1)
           | (Inr False, s1) \<Rightarrow> (Inr None, s1)
           | (Inr True, s1) \<Rightarrow>
               (case prepare_or_resume M H envelope opts now s1 of
                  (Inl e, s2) \<Rightarrow> (Inl e, s2)
                | (Inr prepared, s2) \<Rightarrow>
                    (let storeDir = fst (taskWorktreePaths H opts) in
                     case isolated_root (machine_files M s2) (tw_Root (env_Workspace envelope)) prepared of
                       Inl e \<Rightarrow>
                         (Inl e, snd (FinalizeGitWorktree M
                            \<lparr>fo_StoreDir = storeDir, fo_TaskID = env_TaskID envelope, fo_Worktree = prepared,
                             fo_Cleanup = (if op_engineeringResume opts \<noteq> None then GitWorktreeCleanupPreserve else GitWorktreeCleanupRollback)\<rparr> s2))
                     | Inr (originalRoot, isolatedRoot) \<Rightarrow>
                         (Inr (Some (\<lparr>gl_prepared = prepared, gl_storeDir = storeDir, gl_taskID = env_TaskID envelope\<rparr>,
                            remapEnvelopeForWorktree envelope originalRoot isolatedRoot prepared)), s2)))))"

definition finalize_worktree ::
    "'w machine \<Rightarrow> gitWorktreeLease \<Rightarrow> payload \<Rightarrow> 'w host_state \<Rightarrow> (worktree_error option \<times> GitWorktreeEvidence) \<times> 'w host_state" where
  "finalize_worktree M lease payload s =
     FinalizeGitWorktree M
       \<lparr>fo_StoreDir = gl_storeDir lease, fo_TaskID = gl_taskID lease, fo_Worktree = gl_prepared lease,
        fo_Cleanup = hostStringValue payload ''worktree_cleanup'' []\<rparr> s"

section \<open>A workspace that is no repository\<close>

record workspaceScopeLease =
  sl_before :: WorkspaceScopeSnapshot
  sl_declaredWriteScope :: "string list"

definition prepareWorkspaceScopeLease :: "'w machine \<Rightarrow> taskEnvelope \<Rightarrow> 'w host_state \<Rightarrow> string + workspaceScopeLease" where
  "prepareWorkspaceScopeLease M envelope s =
     (let declared = tw_WriteScope (env_Workspace envelope);
          scope = (if declared = [] then slice (hostStringSliceValue (env_Payload envelope) ''write_scope'') else declared) in
      case SnapshotWorkspaceScope M s (tw_Root (env_Workspace envelope)) [''.''] of
        Inl e \<Rightarrow> Inl e
      | Inr before \<Rightarrow> Inr \<lparr>sl_before = before, sl_declaredWriteScope = scope\<rparr>)"

definition finalize_scope :: "'w machine \<Rightarrow> workspaceScopeLease \<Rightarrow> 'w host_state \<Rightarrow> string + WorkspaceScopeEvidence" where
  "finalize_scope M lease s =
     (case SnapshotWorkspaceScope M s (wss_Root (sl_before lease)) [''.''] of
        Inl e \<Rightarrow> Inl e
      | Inr after \<Rightarrow> Inr ((CompareWorkspaceScope (sl_before lease) after)\<lparr>wse_DeclaredWriteScope := sl_declaredWriteScope lease\<rparr>))"

section \<open>The write scope\<close>

definition worktreePathWithinAnyScope :: "string \<Rightarrow> string \<Rightarrow> string list \<Rightarrow> bool" where
  "worktreePathWithinAnyScope path taskWorkspaceRoot scopes =
     list_ex (\<lambda>scope0.
       let scope = TrimSpace scope0 in
       scope \<noteq> []
       \<and> (case filepath_Rel (filepath_Clean (if \<not> filepath_IsAbs scope then filepath_Join [taskWorkspaceRoot, scope] else scope)) (filepath_Clean path) of
            None \<Rightarrow> False | Some relative \<Rightarrow> \<not> escapes_root relative)) scopes"

definition isGitRenameStatus :: "string \<Rightarrow> bool" where
  "isGitRenameStatus status \<longleftrightarrow> length status = 2 \<and> (status ! 0 = CHR ''R'' \<or> status ! 1 = CHR ''R'')"

text \<open>The paths of a changed file, and whether a path is the source of a rename.\<close>

definition gitChangedPaths :: "GitChangedFile \<Rightarrow> (string \<times> bool) list" where
  "gitChangedPaths changed =
     (cf_Path changed, False)
     # (if cf_OriginalPath changed \<noteq> [] \<and> isGitRenameStatus (cf_Status changed) then [(cf_OriginalPath changed, True)] else [])"

definition scopedEvidencePath :: "string \<Rightarrow> string \<Rightarrow> string option" where
  "scopedEvidencePath root raw =
     (if raw = [] then None
      else if filepath_IsAbs raw then None
      else
        (let relative = filepath_Clean raw in
         if relative = ''.'' \<or> escapes_root relative then None
         else
           (let path = filepath_Join [root, relative] in
            case filepath_Rel (filepath_Clean root) (filepath_Clean path) of
              None \<Rightarrow> None
            | Some resolved \<Rightarrow> if escapes_root resolved then None else Some path)))"

definition path_in_scope :: "string \<Rightarrow> string \<Rightarrow> string list \<Rightarrow> string \<Rightarrow> bool" where
  "path_in_scope root taskWorkspaceRoot writeScope raw =
     (case scopedEvidencePath root raw of None \<Rightarrow> False | Some path \<Rightarrow> worktreePathWithinAnyScope path taskWorkspaceRoot writeScope)"

fun join_list :: "string list \<Rightarrow> string" where
  "join_list [] = []"
| "join_list [x] = x"
| "join_list (x # xs) = x @ '', '' @ join_list xs"

text \<open>At most ten violations are named.\<close>

definition validateWorktreeWriteScope :: "GitWorktreeEvidence \<Rightarrow> string \<Rightarrow> string list \<Rightarrow> string option" where
  "validateWorktreeWriteScope evidence taskWorkspaceRoot writeScope =
     (if writeScope = [] then None
      else if gv_ChangesTruncated evidence then Some ''worktree changed-file evidence is truncated; cannot validate declared write scope''
      else
        (let paths = concat (map gitChangedPaths (gv_ChangedFiles evidence));
             bad = take 10 (filter (\<lambda>(value, original). \<not> path_in_scope (gv_WorktreePath evidence) taskWorkspaceRoot writeScope value) paths) in
         if bad = [] then None
         else Some (''worktree changes escape declared write scope: ''
           @ join_list (map (\<lambda>(value, original). if original then value @ '' (rename source)'' else value) bad))))"

definition validateWorkspaceScopeWriteScope :: "host_files \<Rightarrow> WorkspaceScopeEvidence \<Rightarrow> string \<Rightarrow> string list \<Rightarrow> string option" where
  "validateWorkspaceScopeWriteScope files evidence taskWorkspaceRoot writeScope =
     (if writeScope = [] then None
      else
        (case ValidateWriteScopes files taskWorkspaceRoot writeScope of
           Inl e \<Rightarrow> Some (''validate final non-Git write scope: '' @ e)
         | Inr _ \<Rightarrow>
             if wse_ChangesTruncated evidence \<or> wss_Truncated (wse_Before evidence) \<or> wss_Truncated (wse_After evidence)
             then Some ''non-Git workspace change evidence is truncated; cannot validate declared write scope''
             else
               (let bad = take 10 (filter (\<lambda>changed. \<not> path_in_scope taskWorkspaceRoot taskWorkspaceRoot writeScope changed) (wse_ChangedFiles evidence)) in
                if bad = [] then None else Some (''non-Git workspace changes escape declared write scope: '' @ join_list bad))))"

definition validateLiveWriteScope :: "host_files \<Rightarrow> string \<Rightarrow> string list \<Rightarrow> string option" where
  "validateLiveWriteScope files root writeScope =
     (if writeScope = [] then None else (case ValidateWriteScopes files root writeScope of Inl e \<Rightarrow> Some e | Inr _ \<Rightarrow> None))"

end
