(* ===== verification/Engineering_Loop.thy ===== *)
theory Engineering_Loop
  imports Task_Isolation
begin

text \<open>
  The bounded execution loop of an engineering task on the host (internal/hostrunner/engineering_loop.go):
  inspect, plan, then edit, verify, diagnose and repair until a verification passes, a failure must not be
  repeated, or the attempts are used up. The adapter, the inspection, the deadline and what happens outside
  during an emission are arguments; the codec of the artifact is one too.
\<close>

section \<open>Evidence\<close>

definition EngineeringExecutionSchemaVersion :: string where
  "EngineeringExecutionSchemaVersion = ''rdev.engineering-execution.v1''"

record engineeringInspectionEvidence =
  in_Status :: string
  in_ArtifactSHA256 :: string
  in_WorkspaceFingerprint :: string
  in_HeadSHA :: string
  in_BaseSHA :: string
  in_Dirty :: bool
  in_Languages :: "string list"
  in_BuildSystems :: "string list"

record engineeringCommandEvidence =
  ec_ExitCode :: gint
  ec_Canceled :: bool
  ec_TimedOut :: bool
  ec_OutputTruncated :: bool
  ec_TestFailures :: gint
  ec_TestIncomplete :: bool

record engineeringAttemptDiagnosis =
  dg_Class :: string
  dg_Summary :: string

record engineeringAttemptEvidence =
  ea_Attempt :: gint
  ea_Status :: string
  ea_ArtifactSHA256 :: string
  ea_ResultSchema :: string
  ea_Coding :: "engineeringCommandEvidence option"
  ea_Verification :: "engineeringCommandEvidence list"
  ea_Diagnosis :: engineeringAttemptDiagnosis

record engineeringExecutionEvidence =
  ee_SchemaVersion :: string
  ee_Workflow :: "string list"
  ee_Inspection :: engineeringInspectionEvidence
  ee_PlanSHA256 :: string
  ee_AcceptanceSHA256 :: string
  ee_MaxAttempts :: gint
  ee_AutoRepairAllowed :: bool
  ee_Resumed :: bool
  ee_ResumedFromCheckpoint :: string
  ee_Progress :: "EngineeringProgress list"
  ee_ProgressDeliveryFailures :: nat
  ee_ProgressDeliveryFailureClass :: string
  ee_Attempts :: "engineeringAttemptEvidence list"
  ee_Completed :: bool
  ee_StoppedReason :: string

datatype exec_error = CtxCanceled | CtxDeadline | ExecText string

text \<open>What an artifact, an object of JSON, holds under a key.\<close>

datatype artifact_field =
    ArtifactValue goval
  | ArtifactExecution engineeringExecutionEvidence
  | ArtifactIsolation GitWorktreeEvidence
  | ArtifactScope WorkspaceScopeEvidence
  | ArtifactDenial DenialExplanation

text \<open>Decoding an artifact into an object, and encoding an object and a denial.\<close>

record artifact_codec =
  ac_Decode :: "string \<Rightarrow> (string \<rightharpoonup> goval) option"
  ac_Encode :: "(string \<rightharpoonup> artifact_field) \<Rightarrow> string option"
  ac_Denial :: "DenialExplanation \<Rightarrow> string"

section \<open>What an attempt did\<close>

definition engineeringCodingCommandKey :: "string \<Rightarrow> string" where
  "engineeringCodingCommandKey adapter =
     (if adapter = ''claude-code'' then ''claude_code_command'' else if adapter = ''acpx'' then ''acpx_command'' else ''codex_command'')"

definition engineeringInt :: "goval option \<Rightarrow> gint option" where
  "engineeringInt v =
     (case v of Some (GInt n) \<Rightarrow> Some n | Some (GInt64 n) \<Rightarrow> Some n | Some (GFloat64 w) \<Rightarrow> Some (int_of_float64 w) | _ \<Rightarrow> None)"

definition engineeringBool :: "goval option \<Rightarrow> bool" where
  "engineeringBool v = (case v of Some (GBool b) \<Rightarrow> b | _ \<Rightarrow> False)"

definition engineeringCommandFromArtifact :: "goval option \<Rightarrow> engineeringCommandEvidence option" where
  "engineeringCommandFromArtifact v =
     (case v of
        Some (GMap command) \<Rightarrow>
          (case engineeringInt (command ''exit_code'') of
             None \<Rightarrow> None
           | Some exitCode \<Rightarrow>
               Some \<lparr>ec_ExitCode = exitCode, ec_Canceled = engineeringBool (command ''canceled''), ec_TimedOut = engineeringBool (command ''timed_out''),
                 ec_OutputTruncated = engineeringBool (command ''output_truncated''),
                 ec_TestFailures =
                   (case command ''test_report'' of
                      Some (GMap report) \<Rightarrow> (case engineeringInt (report ''failed'') of Some failed \<Rightarrow> failed | None \<Rightarrow> 0)
                    | _ \<Rightarrow> 0),
                 ec_TestIncomplete = (case command ''test_report'' of Some (GMap report) \<Rightarrow> engineeringBool (report ''incomplete'') | _ \<Rightarrow> False)\<rparr>)
      | _ \<Rightarrow> None)"

definition engineeringAttemptCanceled :: "engineeringAttemptEvidence \<Rightarrow> bool" where
  "engineeringAttemptCanceled evidence \<longleftrightarrow>
     (case ea_Coding evidence of Some c \<Rightarrow> ec_Canceled c | None \<Rightarrow> False) \<or> list_ex ec_Canceled (ea_Verification evidence)"

definition engineeringAttemptTimedOut :: "engineeringAttemptEvidence \<Rightarrow> bool" where
  "engineeringAttemptTimedOut evidence \<longleftrightarrow>
     (case ea_Coding evidence of Some c \<Rightarrow> ec_TimedOut c | None \<Rightarrow> False) \<or> list_ex ec_TimedOut (ea_Verification evidence)"

text \<open>The first verification command that failed decides: a negative exit code is a refusal by policy.\<close>

definition engineeringVerificationFailure :: "engineeringCommandEvidence list \<Rightarrow> bool \<times> bool" where
  "engineeringVerificationFailure commands =
     (case find (\<lambda>command. ec_ExitCode command \<noteq> 0) commands of
        None \<Rightarrow> (False, False)
      | Some command \<Rightarrow> (True, ec_ExitCode command < 0))"

definition diagnosis :: "string \<Rightarrow> string \<Rightarrow> engineeringAttemptDiagnosis" where
  "diagnosis class summary = \<lparr>dg_Class = class, dg_Summary = summary\<rparr>"

definition diagnosed :: "string \<Rightarrow> string \<Rightarrow> engineeringAttemptEvidence \<Rightarrow> engineeringAttemptEvidence" where
  "diagnosed status summary evidence = evidence\<lparr>ea_Status := status, ea_Diagnosis := diagnosis status summary\<rparr>"

definition attempt_record :: "crypto \<Rightarrow> artifact_codec \<Rightarrow> gint \<Rightarrow> string \<Rightarrow> string \<Rightarrow> engineeringAttemptEvidence" where
  "attempt_record C K attempt adapter content =
     (let artifact = (case ac_Decode K content of None \<Rightarrow> Map.empty | Some m \<Rightarrow> m) in
      \<lparr>ea_Attempt = attempt, ea_Status = ''failed'', ea_ArtifactSHA256 = (if TrimSpace content \<noteq> [] then sha256_text C content else []),
       ea_ResultSchema = (case artifact ''schema_version'' of Some (GString s) \<Rightarrow> s | _ \<Rightarrow> []),
       ea_Coding = engineeringCommandFromArtifact (artifact (engineeringCodingCommandKey adapter)),
       ea_Verification =
         (case artifact ''verification_results'' of
            Some (GList values) \<Rightarrow> List.map_filter (\<lambda>value. engineeringCommandFromArtifact (Some value)) values
          | _ \<Rightarrow> []),
       ea_Diagnosis = diagnosis ''adapter_failed''
         ''The coding adapter did not complete successfully; inspect the worktree and declared verification results before retrying.''\<rparr>)"

definition summarizeEngineeringAttempt ::
    "crypto \<Rightarrow> artifact_codec \<Rightarrow> gint \<Rightarrow> string \<Rightarrow> string \<Rightarrow> exec_error option \<Rightarrow> engineeringAttemptEvidence" where
  "summarizeEngineeringAttempt C K attempt adapter content executionErr =
     (let evidence = attempt_record C K attempt adapter content in
      if executionErr = None
      then diagnosed ''verified'' ''The coding adapter and every declared verification command completed successfully.'' evidence
      else if engineeringAttemptCanceled evidence
      then diagnosed ''canceled'' ''The task was canceled; no automatic repair attempt is permitted.'' evidence
      else if engineeringAttemptTimedOut evidence
      then diagnosed ''timed_out'' ''The task exceeded its bounded execution time; no automatic repair attempt is permitted.'' evidence
      else
        (case engineeringVerificationFailure (ea_Verification evidence) of
           (True, True) \<Rightarrow>
             diagnosed ''policy_failed'' ''A declared verification command was rejected by host policy; no automatic repair attempt is permitted.'' evidence
         | (True, False) \<Rightarrow>
             diagnosed ''verification_failed'' ''Declared verification failed. Inspect the failing command and repair the worktree without widening the task scope.'' evidence
         | (False, _) \<Rightarrow>
             (case ea_Coding evidence of
                None \<Rightarrow> evidence
              | Some coding \<Rightarrow>
                  if ec_ExitCode coding = 0 then evidence
                  else if ec_ExitCode coding < 0
                  then diagnosed ''infrastructure_failed'' ''The coding adapter could not be started or produced no executable result; no automatic repair attempt is permitted.'' evidence
                  else diagnosed ''adapter_failed'' ''The coding adapter exited unsuccessfully. Inspect the current worktree and repair only if the declared task still applies.'' evidence)))"

definition retryableEngineeringAttempt :: "engineeringAttemptEvidence \<Rightarrow> bool" where
  "retryableEngineeringAttempt evidence \<longleftrightarrow> ea_Status evidence = ''verification_failed'' \<or> ea_Status evidence = ''adapter_failed''"

definition engineeringAttemptArtifactRefs :: "crypto \<Rightarrow> engineeringAttemptEvidence \<Rightarrow> EngineeringArtifactReference list" where
  "engineeringAttemptArtifactRefs C evidence = engineeringArtifactRef C ''adapter_result'' (ea_ArtifactSHA256 evidence)"

definition engineeringFailureClassFromAttempt :: "engineeringAttemptEvidence \<Rightarrow> string" where
  "engineeringFailureClassFromAttempt evidence =
     (let status = ea_Status evidence in
      if status = ''verified'' then []
      else if status = ''verification_failed'' then EngineeringFailureCodeTest
      else if status = ''policy_failed'' then EngineeringFailurePolicyDenial
      else if status = ''timed_out'' then EngineeringFailureTimeout
      else if status = ''canceled'' then EngineeringFailureCancellation
      else EngineeringFailureEnvironmentTool)"

definition engineeringFailureClassForExecution :: "engineeringExecutionEvidence \<Rightarrow> exec_error option \<Rightarrow> string" where
  "engineeringFailureClassForExecution evidence executionErr =
     (case executionErr of
        None \<Rightarrow> []
      | Some failure \<Rightarrow>
          if ee_Attempts evidence \<noteq> [] then engineeringFailureClassFromAttempt (last (ee_Attempts evidence))
          else if failure = CtxCanceled then EngineeringFailureCancellation
          else if failure = CtxDeadline then EngineeringFailureTimeout
          else EngineeringFailureEnvironmentTool)"

definition engineeringResumeDiagnosis :: "EngineeringCheckpoint \<Rightarrow> engineeringAttemptDiagnosis" where
  "engineeringResumeDiagnosis checkpoint =
     (let class = ck_FailureClass checkpoint in
      if class = EngineeringFailureCodeTest
      then diagnosis ''verification_failed'' ''Resume checkpoint recorded a declared verification failure. Inspect the preserved worktree and repair only within the declared scope.''
      else if class = EngineeringFailureEnvironmentTool
      then diagnosis ''infrastructure_failed'' ''Resume checkpoint recorded an environment or tool failure. Reinspect the preserved worktree and task runtime before editing.''
      else if class = EngineeringFailureTimeout
      then diagnosis ''timed_out'' ''Resume checkpoint recorded a bounded timeout. Review the preserved worktree and use the remaining task budget carefully.''
      else if class = EngineeringFailureTransportReconnect
      then diagnosis ''transport_reconnect_failure'' ''Resume checkpoint was preserved across a transport interruption. Reinspect the existing worktree before continuing.''
      else diagnosis ''resume'' ''Resume checkpoint is active. Review the preserved worktree before continuing the bounded task.'')"

definition engineeringStopReasonForAttempt :: "engineeringAttemptEvidence \<Rightarrow> string" where
  "engineeringStopReasonForAttempt evidence =
     (let status = ea_Status evidence in
      if status = ''verified'' then ''verification_passed''
      else if status \<in> {''canceled'', ''timed_out'', ''policy_failed'', ''infrastructure_failed''} then status
      else ''non_retryable_failure'')"

definition engineeringStopReason :: "exec_error option \<Rightarrow> string" where
  "engineeringStopReason failure =
     (case failure of
        None \<Rightarrow> ''verification_passed''
      | Some CtxCanceled \<Rightarrow> ''canceled''
      | Some CtxDeadline \<Rightarrow> ''timed_out''
      | Some _ \<Rightarrow> ''non_retryable_failure'')"

section \<open>What an attempt is given\<close>

definition engineeringAttemptLimits :: "RunLimits \<Rightarrow> gint \<Rightarrow> RunLimits" where
  "engineeringAttemptLimits limits maxAttempts =
     (if maxAttempts \<le> 1 then limits
      else
        \<lparr>rl_MaxDurationSeconds =
           (if rl_MaxDurationSeconds limits > 0 then max 1 (rl_MaxDurationSeconds limits div maxAttempts) else rl_MaxDurationSeconds limits),
         rl_MaxOutputBytes =
           (if rl_MaxOutputBytes limits > 0 then max 1 (rl_MaxOutputBytes limits div maxAttempts) else rl_MaxOutputBytes limits),
         rl_Network = rl_Network limits\<rparr>)"

abbreviation newline :: string where "newline \<equiv> [CHR 0x0A]"

definition engineeringStringsSHA256 :: "crypto \<Rightarrow> string list \<Rightarrow> string" where
  "engineeringStringsSHA256 C values =
     sha256_text C (concat (map (\<lambda>value. dec_int (int (length value)) @ '':'' @ value @ newline) values))"

definition engineeringAttemptPrompt :: "EngineeringTask \<Rightarrow> taskEnvelope \<Rightarrow> gint \<Rightarrow> engineeringAttemptDiagnosis \<Rightarrow> string" where
  "engineeringAttemptPrompt task envelope attempt previous =
     ''You are executing a bounded engineering task inside the declared workspace. ''
     @ ''First inspect the relevant project context, then follow the approved plan, edit only within the declared write scope, and run the declared verification commands. ''
     @ ''Do not perform network, credential, push, merge, deploy, publish, service, or other external-consequence actions unless the signed task separately authorizes them.''
     @ newline @ newline @ ''Goal:'' @ newline @ et_Goal task
     @ newline @ newline @ ''Approved plan:'' @ newline @ concat (map (\<lambda>step. ''- '' @ step @ newline) (et_Plan task))
     @ newline @ ''Acceptance criteria:'' @ newline @ concat (map (\<lambda>criterion. ''- '' @ criterion @ newline) (et_Acceptance task))
     @ (let additional = TrimSpace (hostStringValue (env_Payload envelope) ''prompt'' []) in
        if additional \<noteq> [] \<and> additional \<noteq> et_Goal task
        then newline @ ''Additional signed task instructions:'' @ newline @ additional @ newline else [])
     @ (if attempt > 1
        then newline @ ''This is repair attempt '' @ dec_int attempt @ '' of '' @ dec_int (el_MaxAttempts (et_Limits task))
          @ ''. Review the existing worktree changes before editing again.'' @ newline
          @ ''Previous structured diagnosis: '' @ dg_Summary previous @ newline
        else [])"

definition attempt_envelope :: "EngineeringTask \<Rightarrow> taskEnvelope \<Rightarrow> gint \<Rightarrow> gint \<Rightarrow> engineeringAttemptDiagnosis \<Rightarrow> taskEnvelope" where
  "attempt_envelope task envelope maxAttempts attempt previous =
     envelope\<lparr>env_Payload := map_option (\<lambda>m. m(''prompt'' \<mapsto> GString (engineeringAttemptPrompt task envelope attempt previous))) (env_Payload envelope),
       env_Limits := engineeringAttemptLimits (env_Limits envelope) maxAttempts\<rparr>"

text \<open>What the inspection of the workspace gives: the artifact, the fingerprint, and the description if there is one.\<close>

record inspection =
  ip_Content :: string
  ip_Fingerprint :: string
  ip_Description :: "(string \<times> string \<times> bool \<times> string list \<times> string list) option"

definition inspectEngineeringWorkspace :: "crypto \<Rightarrow> inspection option \<Rightarrow> engineeringInspectionEvidence" where
  "inspectEngineeringWorkspace C result' =
     (let blank = \<lparr>in_Status = ''unavailable'', in_ArtifactSHA256 = [], in_WorkspaceFingerprint = [], in_HeadSHA = [], in_BaseSHA = [],
            in_Dirty = False, in_Languages = [], in_BuildSystems = []\<rparr>
      in case result' of
           None \<Rightarrow> blank
         | Some artifact \<Rightarrow>
             (let evidence = blank\<lparr>in_Status := ''completed'', in_ArtifactSHA256 := sha256_text C (ip_Content artifact),
                    in_WorkspaceFingerprint := ip_Fingerprint artifact\<rparr>
              in case ip_Description artifact of
                   None \<Rightarrow> evidence
                 | Some (headSHA, baseSHA, dirty, languages, buildSystems) \<Rightarrow>
                     evidence\<lparr>in_HeadSHA := headSHA, in_BaseSHA := baseSHA, in_Dirty := dirty, in_Languages := languages, in_BuildSystems := buildSystems\<rparr>))"

definition attachEngineeringExecutionEvidence :: "artifact_codec \<Rightarrow> string \<Rightarrow> engineeringExecutionEvidence \<Rightarrow> string" where
  "attachEngineeringExecutionEvidence K content evidence =
     (let artifact =
        (case (if TrimSpace content \<noteq> [] then ac_Decode K content else None) of
           Some m \<Rightarrow> (map_option ArtifactValue \<circ> m)(''engineering_execution'' \<mapsto> ArtifactExecution evidence)
         | None \<Rightarrow> [''schema_version'' \<mapsto> ArtifactValue (GString ''rdev.engineering-execution-result.v1''),
                    ''engineering_execution'' \<mapsto> ArtifactExecution evidence])
      in case ac_Encode K artifact of None \<Rightarrow> content | Some encoded \<Rightarrow> encoded)"

section \<open>The loop\<close>

text \<open>
  The surroundings of one execution: the n-th emission, the error of the loop's context when an attempt
  starts, what the adapter makes of an attempt, and the inspection.
\<close>

record loop_world =
  lw_Emit :: "nat \<Rightarrow> emission"
  lw_Context :: "gint \<Rightarrow> gint \<Rightarrow> exec_error option"
  lw_Execute :: "gint \<Rightarrow> taskEnvelope \<Rightarrow> string \<times> exec_error option"
  lw_Inspect :: "inspection option"

record loop_state =
  lp_evidence :: engineeringExecutionEvidence
  lp_emitter :: engineeringProgressEmitter
  lp_final :: string
  lp_err :: "exec_error option"
  lp_previous :: engineeringAttemptDiagnosis

definition note_progress :: "loop_state \<Rightarrow> loop_state" where
  "note_progress st =
     (let e = lp_emitter st in
      st\<lparr>lp_evidence := (lp_evidence st)\<lparr>ee_Progress := em_progress e, ee_ProgressDeliveryFailures := em_deliveryFailures e,
         ee_ProgressDeliveryFailureClass :=
           (if em_deliveryFailures e > 0 then EngineeringFailureTransportReconnect else ee_ProgressDeliveryFailureClass (lp_evidence st))\<rparr>\<rparr>)"

text \<open>A failed emission stops the loop.\<close>

definition loop_emit ::
    "crypto \<Rightarrow> loop_world \<Rightarrow> string \<Rightarrow> gint \<Rightarrow> string \<Rightarrow> EngineeringArtifactReference list \<Rightarrow> bool \<Rightarrow> string
     \<Rightarrow> loop_state \<Rightarrow> (string \<times> loop_state) + loop_state" where
  "loop_emit C W phase attempt summary refs recoverable failureClass st =
     (case emit C (lw_Emit W (length (em_progress (lp_emitter st)))) phase attempt summary refs recoverable failureClass (lp_emitter st) of
        (Inl e, emitter) \<Rightarrow> Inl (e, st\<lparr>lp_emitter := emitter\<rparr>)
      | (Inr _, emitter) \<Rightarrow> Inr (note_progress (st\<lparr>lp_emitter := emitter\<rparr>)))"

definition and_then :: "'e + 'a \<Rightarrow> ('a \<Rightarrow> 'e + 'b) \<Rightarrow> 'e + 'b" where
  "and_then x f = (case x of Inl e \<Rightarrow> Inl e | Inr a \<Rightarrow> f a)"

definition stopped :: "string \<Rightarrow> loop_state \<Rightarrow> loop_state" where
  "stopped reason' st = st\<lparr>lp_evidence := (lp_evidence st)\<lparr>ee_StoppedReason := reason'\<rparr>\<rparr>"

text \<open>What an execution ends with: the adapter's last content, the evidence to attach to it, and the error.\<close>

definition stopForCheckpointError :: "string \<Rightarrow> loop_state \<Rightarrow> (string \<times> engineeringExecutionEvidence) \<times> exec_error option" where
  "stopForCheckpointError e st = ((lp_final st, lp_evidence (note_progress (stopped ''checkpoint_unavailable'' st))), Some (ExecText e))"

definition run_adapter :: "crypto \<Rightarrow> artifact_codec \<Rightarrow> loop_world \<Rightarrow> EngineeringTask \<Rightarrow> taskEnvelope \<Rightarrow> gint \<Rightarrow> gint \<Rightarrow> loop_state \<Rightarrow> loop_state \<times> engineeringAttemptEvidence" where
  "run_adapter C K W task envelope maxAttempts attempt st =
     (let (content, executionErr) = lw_Execute W attempt (attempt_envelope task envelope maxAttempts attempt (lp_previous st));
          ev = summarizeEngineeringAttempt C K attempt (env_Adapter envelope) content executionErr
      in (st\<lparr>lp_final := content, lp_err := executionErr,
            lp_evidence := (lp_evidence st)\<lparr>ee_Attempts := ee_Attempts (lp_evidence st) @ [ev]\<rparr>\<rparr>, ev))"

text \<open>
  One attempt, up to where the loop breaks (False) or goes on (True). The error of the adapter becomes the
  error of the execution, which a passed verification clears by being none.
\<close>

definition after_run ::
    "crypto \<Rightarrow> loop_world \<Rightarrow> gint \<Rightarrow> gint \<Rightarrow> engineeringAttemptEvidence \<Rightarrow> loop_state \<Rightarrow> (string \<times> loop_state) + (bool \<times> loop_state)" where
  "after_run C W maxAttempts attempt ev st =
     (let auto' = ee_AutoRepairAllowed (lp_evidence st);
          failureClass = engineeringFailureClassFromAttempt ev;
          recoverable = (retryableEngineeringAttempt ev \<and> auto' \<and> attempt < maxAttempts);
          refs = engineeringAttemptArtifactRefs C ev;
          summary = dg_Summary (ea_Diagnosis ev) in
      and_then (loop_emit C W EngineeringPhaseVerify attempt summary refs recoverable failureClass st) (\<lambda>st1.
        if lp_err st1 = None
        then Inr (False, (stopped ''verification_passed'' st1)\<lparr>lp_evidence := (lp_evidence (stopped ''verification_passed'' st1))\<lparr>ee_Completed := True\<rparr>\<rparr>)
        else
          and_then (loop_emit C W EngineeringPhaseDiagnose attempt summary refs recoverable failureClass (st1\<lparr>lp_previous := ea_Diagnosis ev\<rparr>)) (\<lambda>st2.
            if \<not> retryableEngineeringAttempt ev then Inr (False, stopped (engineeringStopReasonForAttempt ev) st2)
            else if \<not> auto' then Inr (False, stopped ''interrupt_required'' st2)
            else if attempt = maxAttempts then Inr (False, stopped ''attempt_limit_reached'' st2)
            else
              and_then (loop_emit C W EngineeringPhaseRepair (attempt + 1)
                ''A bounded repair attempt will review the existing isolated worktree and rerun only declared verification.'' refs True failureClass st2)
                (\<lambda>st3. Inr (True, st3)))))"

fun attempts ::
    "crypto \<Rightarrow> artifact_codec \<Rightarrow> loop_world \<Rightarrow> EngineeringTask \<Rightarrow> taskEnvelope \<Rightarrow> gint \<Rightarrow> gint \<Rightarrow> nat \<Rightarrow> gint \<Rightarrow> loop_state
     \<Rightarrow> (string \<times> loop_state) + loop_state" where
  "attempts C K W task envelope duration maxAttempts 0 attempt st = Inr st"
| "attempts C K W task envelope duration maxAttempts (Suc n) attempt st =
     (case lw_Context W duration attempt of
        Some failure \<Rightarrow> Inr (stopped (engineeringStopReason (Some failure)) (st\<lparr>lp_err := Some failure\<rparr>))
      | None \<Rightarrow>
          and_then (loop_emit C W EngineeringPhaseEdit attempt ''Coding adapter execution started inside the declared task workspace.'' []
              (attempt < maxAttempts \<and> ee_AutoRepairAllowed (lp_evidence st)) [] st) (\<lambda>st1.
            let (st2, ev) = run_adapter C K W task envelope maxAttempts attempt st1 in
            and_then (after_run C W maxAttempts attempt ev st2) (\<lambda>(again, st3).
              if again then attempts C K W task envelope duration maxAttempts n (attempt + 1) st3 else Inr st3)))"

definition initial_evidence :: "crypto \<Rightarrow> EngineeringTask \<Rightarrow> taskEnvelope \<Rightarrow> gint \<Rightarrow> string \<Rightarrow> engineeringExecutionEvidence" where
  "initial_evidence C task envelope maxAttempts resumedFrom =
     \<lparr>ee_SchemaVersion = EngineeringExecutionSchemaVersion,
      ee_Workflow = [EngineeringPhaseInspect, EngineeringPhasePlan, EngineeringPhaseEdit, EngineeringPhaseVerify, EngineeringPhaseDiagnose,
        EngineeringPhaseRepair, EngineeringPhaseFinalize],
      ee_Inspection = \<lparr>in_Status = [], in_ArtifactSHA256 = [], in_WorkspaceFingerprint = [], in_HeadSHA = [], in_BaseSHA = [],
        in_Dirty = False, in_Languages = [], in_BuildSystems = []\<rparr>,
      ee_PlanSHA256 = engineeringStringsSHA256 C (et_Plan task), ee_AcceptanceSHA256 = engineeringStringsSHA256 C (et_Acceptance task),
      ee_MaxAttempts = maxAttempts, ee_AutoRepairAllowed = (env_InterruptsRequired envelope = []), ee_Resumed = (resumedFrom \<noteq> []),
      ee_ResumedFromCheckpoint = resumedFrom, ee_Progress = [], ee_ProgressDeliveryFailures = 0, ee_ProgressDeliveryFailureClass = [],
      ee_Attempts = [], ee_Completed = False, ee_StoppedReason = []\<rparr>"

definition finish_execution :: "crypto \<Rightarrow> loop_world \<Rightarrow> loop_state \<Rightarrow> (string \<times> loop_state) + loop_state" where
  "finish_execution C W st0 =
     (let st = (if ee_StoppedReason (lp_evidence st0) = [] then stopped ''attempt_limit_reached'' st0 else st0) in
      loop_emit C W EngineeringPhaseFinalize (int (length (ee_Attempts (lp_evidence st))))
        ''Engineering execution reached a bounded terminal result; workspace evidence and task result will be finalized next.''
        (engineeringArtifactRef C ''adapter_result'' (lp_final st)) False (engineeringFailureClassForExecution (lp_evidence st) (lp_err st)) st)"

definition begin_execution :: "crypto \<Rightarrow> loop_world \<Rightarrow> loop_state \<Rightarrow> (string \<times> loop_state) + loop_state" where
  "begin_execution C W st0 =
     (let inspection = inspectEngineeringWorkspace C (lw_Inspect W);
          st = st0\<lparr>lp_evidence := (lp_evidence st0)\<lparr>ee_Inspection := inspection\<rparr>\<rparr>;
          auto' = ee_AutoRepairAllowed (lp_evidence st) in
      and_then (loop_emit C W EngineeringPhaseInspect 0
          (if in_Status inspection \<noteq> ''completed''
           then ''Host project context inspection is unavailable; the coding adapter must inspect the declared workspace directly.''
           else ''Host project context inspection completed.'')
          (engineeringArtifactRef C ''project_context'' (in_ArtifactSHA256 inspection)) auto' [] st) (\<lambda>st1.
        loop_emit C W EngineeringPhasePlan 0 ''The signed engineering plan and acceptance criteria were prepared for bounded execution.''
          (engineeringArtifactRef C ''engineering_plan'' (ee_PlanSHA256 (lp_evidence st1))
           @ engineeringArtifactRef C ''engineering_acceptance'' (ee_AcceptanceSHA256 (lp_evidence st1))) auto' [] st1))"

text \<open>The execution of a typed task by a coding adapter, up to attaching the evidence, which every return does.\<close>

definition engineering_outcome ::
    "crypto \<Rightarrow> artifact_codec \<Rightarrow> runner_host \<Rightarrow> loop_world \<Rightarrow> EngineeringTask \<Rightarrow> taskEnvelope \<Rightarrow> Options \<Rightarrow> checkpoint_files
     \<Rightarrow> ((string \<times> engineeringExecutionEvidence) \<times> exec_error option) \<times> checkpoint_files" where
  "engineering_outcome C K H W task envelope opts files =
     (let maxAttempts = (if el_MaxAttempts (et_Limits task) < 1 then 1 else el_MaxAttempts (et_Limits task));
          duration = (if rl_MaxDurationSeconds (env_Limits envelope) < 1 then DefaultTaskTTLSeconds else rl_MaxDurationSeconds (env_Limits envelope));
          start = (case op_engineeringResume opts of None \<Rightarrow> 1 | Some resume \<Rightarrow> er_StartAttempt resume);
          resumedFrom = (case op_engineeringResume opts of None \<Rightarrow> [] | Some resume \<Rightarrow> ck_ID (er_Checkpoint resume));
          evidence = initial_evidence C task envelope maxAttempts resumedFrom in
      case newEngineeringProgressEmitter H envelope task opts files of
        None \<Rightarrow> ((([], evidence\<lparr>ee_StoppedReason := ''checkpoint_unavailable''\<rparr>), Some (ExecText ''checkpoint store'')), files)
      | Some emitter \<Rightarrow>
          if start < 1 \<or> start > maxAttempts then
            ((([], evidence\<lparr>ee_StoppedReason := ''resume_attempt_exhausted''\<rparr>),
              Some (ExecText ''engineering resume checkpoint has no remaining attempt budget'')), files)
          else
            (let st = \<lparr>lp_evidence = evidence, lp_emitter = emitter, lp_final = [], lp_err = None,
                   lp_previous = (case op_engineeringResume opts of None \<Rightarrow> diagnosis [] []
                                  | Some resume \<Rightarrow> engineeringResumeDiagnosis (er_Checkpoint resume))\<rparr> in
             case and_then (begin_execution C W st) (\<lambda>st1.
                    and_then (attempts C K W task envelope duration maxAttempts (nat (maxAttempts - start + 1)) start st1)
                      (finish_execution C W)) of
               Inl (e, st') \<Rightarrow> (stopForCheckpointError e st', em_files (lp_emitter st'))
             | Inr st' \<Rightarrow> (((lp_final st', lp_evidence st'), lp_err st'), em_files (lp_emitter st'))))"

definition executeEngineeringTask ::
    "crypto \<Rightarrow> artifact_codec \<Rightarrow> (goval \<Rightarrow> EngineeringTask option) \<Rightarrow> runner_host \<Rightarrow> loop_world \<Rightarrow> taskEnvelope \<Rightarrow> Options \<Rightarrow> checkpoint_files
     \<Rightarrow> (string \<times> exec_error option) \<times> checkpoint_files" where
  "executeEngineeringTask C K strict H W envelope opts files =
     (case engineeringTaskFromEnvelope strict envelope of
        None \<Rightarrow> (lw_Execute W 0 envelope, files)
      | Some task \<Rightarrow>
          if \<not> isEngineeringRepairAdapter (env_Adapter envelope) then (lw_Execute W 0 envelope, files)
          else
            (case engineering_outcome C K H W task envelope opts files of
               (((final, evidence), failure), files') \<Rightarrow> ((attachEngineeringExecutionEvidence K final evidence, failure), files')))"

end
