(* ===== verification/Engineering_Properties.thy ===== *)
theory Engineering_Properties
  imports Engineering_Task Workspace_Properties
begin

text \<open>
  What a decoded engineering task is: its fields are in the types the contract names, decoding what it
  encodes to gives it back, and every scope it declares lies inside its workspace.
\<close>

section \<open>Normal forms\<close>

lemma normalizeStrings_idem [simp]: "normalizeStrings (normalizeStrings xs) = normalizeStrings xs"
proof -
  have "map TrimSpace (filter (\<lambda>v. v \<noteq> []) (map TrimSpace xs)) = filter (\<lambda>v. v \<noteq> []) (map TrimSpace xs)"
    by (intro map_idI) auto
  then show ?thesis unfolding normalizeStrings_def by simp
qed

lemma normalizeStrings_nonempty: "x \<in> set (normalizeStrings xs) \<Longrightarrow> x \<noteq> [] \<and> TrimSpace x = x"
  by (auto simp: normalizeStrings_def)

lemma normalizeWorkspace_idem [simp]: "normalizeWorkspace (normalizeWorkspace w) = normalizeWorkspace w"
proof -
  have "TrimSpace ''preserve'' = ''preserve''" by (rule TrimSpace_graphic) (simp_all add: graphic_def)
  then show ?thesis by (auto simp: normalizeWorkspace_def Let_def)
qed

lemma normalizeTask_idem [simp]: "normalizeTask (normalizeTask t) = normalizeTask t"
  by (simp add: normalizeTask_def)

lemma uniqueFrom_spec: "uniqueFrom seen xs = (True, True) \<longleftrightarrow> [] \<notin> set xs \<and> distinct xs \<and> set xs \<inter> seen = {}"
  by (induction seen xs rule: uniqueFrom.induct) auto

lemma validateUniqueStrings_None:
  "validateUniqueStrings name xs required = None \<longleftrightarrow> (required \<longrightarrow> xs \<noteq> []) \<and> [] \<notin> set xs \<and> distinct xs"
  using uniqueFrom_spec [of "{}" xs] by (auto simp: validateUniqueStrings_def split: prod.splits bool.splits)

lemma validateScopes_None:
  "validateScopes name root xs required = None \<longleftrightarrow>
     (required \<longrightarrow> xs \<noteq> []) \<and> [] \<notin> set xs \<and> distinct xs \<and> (\<forall>x \<in> set xs. \<not> scopeEscapes root x)"
  using validateUniqueStrings_None [of name xs False] by (auto simp: validateScopes_def list_ex_iff split: option.splits)

definition workspace_typed :: "EngineeringWorkspace \<Rightarrow> bool" where
  "workspace_typed w \<longleftrightarrow>
     ew_Root w \<noteq> [] \<and> (ew_BaseSHA w = [] \<or> engineeringBaseSHA (ew_BaseSHA w))
     \<and> (ew_Isolation w = ''git-worktree'' \<and> ew_BaseSHA w \<noteq> [] \<or> ew_Isolation w = ''workspace-lock'')
     \<and> ew_DirtyPolicy w \<in> {''preserve'', ''require-clean''} \<and> ew_Cleanup w \<in> {''preserve'', ''remove'', ''rollback''}
     \<and> ew_ReadScope w \<noteq> [] \<and> distinct (ew_ReadScope w) \<and> distinct (ew_WriteScope w)
     \<and> (\<forall>x \<in> set (ew_ReadScope w) \<union> set (ew_WriteScope w). x \<noteq> [] \<and> \<not> scopeEscapes (ew_Root w) x)"

lemma validateWorkspace_None: "validateWorkspace w = None \<longleftrightarrow> workspace_typed w"
proof -
  have a: "validateWorkspace w = None \<longleftrightarrow>
      ew_Root w \<noteq> [] \<and> (ew_BaseSHA w = [] \<or> engineeringBaseSHA (ew_BaseSHA w))
      \<and> (ew_Isolation w = ''git-worktree'' \<and> ew_BaseSHA w \<noteq> [] \<or> ew_Isolation w = ''workspace-lock'')
      \<and> ew_DirtyPolicy w \<in> {''preserve'', ''require-clean''} \<and> ew_Cleanup w \<in> {''preserve'', ''remove'', ''rollback''}
      \<and> validateScopes ''workspace.read_scope'' (ew_Root w) (ew_ReadScope w) True = None
      \<and> validateScopes ''workspace.write_scope'' (ew_Root w) (ew_WriteScope w) False = None"
    unfolding validateWorkspace_def by (cases "validateScopes ''workspace.read_scope'' (ew_Root w) (ew_ReadScope w) True") auto
  show ?thesis unfolding a workspace_typed_def validateScopes_None by blast
qed

definition limits_typed :: "EngineeringTaskLimits \<Rightarrow> bool" where
  "limits_typed l \<longleftrightarrow> el_MaxDurationSeconds l \<in> {1..86400} \<and> el_MaxOutputBytes l \<in> {1..16777216} \<and> el_MaxAttempts l \<in> {1..10}"

lemma validateLimits_None: "validateLimits l = None \<longleftrightarrow> limits_typed l"
  by (auto simp: validateLimits_def limits_typed_def maxEngineeringTaskDurationSeconds_def maxEngineeringTaskOutputBytes_def
      maxEngineeringTaskAttempts_def)

definition task_typed :: "EngineeringTask \<Rightarrow> bool" where
  "task_typed t \<longleftrightarrow>
     et_SchemaVersion t = EngineeringTaskSchemaVersion \<and> et_Goal t \<noteq> [] \<and> workspace_typed (et_Workspace t)
     \<and> et_Plan t \<noteq> [] \<and> et_Acceptance t \<noteq> []
     \<and> evf_Commands (et_Verification t) \<noteq> [] \<and> (\<forall>c \<in> set (evf_Commands (et_Verification t)). c \<noteq> [] \<and> hd c \<noteq> [])
     \<and> limits_typed (et_Limits t) \<and> et_NetworkPolicy t \<in> {''default-deny'', ''deny'', ''allow''}
     \<and> et_RequiredCapabilities t \<noteq> [] \<and> [] \<notin> set (et_RequiredCapabilities t) \<and> distinct (et_RequiredCapabilities t)
     \<and> [] \<notin> set (et_InterruptsRequired t) \<and> distinct (et_InterruptsRequired t)
     \<and> et_IdempotencyKey t \<noteq> [] \<and> length (et_IdempotencyKey t) \<le> 256"

lemma Validate_None: "Validate t = None \<longleftrightarrow> task_typed t"
proof -
  have "Validate t = None \<longleftrightarrow>
      et_SchemaVersion t = EngineeringTaskSchemaVersion \<and> et_Goal t \<noteq> [] \<and> validateWorkspace (et_Workspace t) = None
      \<and> et_Plan t \<noteq> [] \<and> et_Acceptance t \<noteq> []
      \<and> evf_Commands (et_Verification t) \<noteq> [] \<and> \<not> list_ex (\<lambda>command. command = [] \<or> hd command = []) (evf_Commands (et_Verification t))
      \<and> validateLimits (et_Limits t) = None \<and> et_NetworkPolicy t \<in> {''default-deny'', ''deny'', ''allow''}
      \<and> validateUniqueStrings ''required_capabilities'' (et_RequiredCapabilities t) True = None
      \<and> validateUniqueStrings ''interrupts_required'' (et_InterruptsRequired t) False = None
      \<and> et_IdempotencyKey t \<noteq> [] \<and> \<not> 256 < length (et_IdempotencyKey t)"
    unfolding Validate_def by (simp split: option.split)
  then show ?thesis
    unfolding task_typed_def validateWorkspace_None validateLimits_None validateUniqueStrings_None list_ex_iff by auto
qed

section \<open>Scopes\<close>

text \<open>Cleaning a path that does not go up, below a directory.\<close>

lemma cleanElements_below:
  "''..'' \<notin> set kept \<Longrightarrow> \<not> starts_up (cleanElements False kept es) \<Longrightarrow>
   cleanElements True (kept @ base) es = rev base @ cleanElements False kept es"
proof (induction es arbitrary: kept)
  case (Cons e es)
  consider (skip) "e = [] \<or> e = ''.''" | (top) "e = ''..''" "kept = []" | (up) "e = ''..''" "kept \<noteq> []" | (name) "\<not> (e = [] \<or> e = ''.'')" "e \<noteq> ''..''"
    by blast
  then show ?case
  proof cases
    case skip
    then show ?thesis using Cons by simp
  next
    case top
    have "starts_up (cleanElements False [''..''] es)" using cleanElements_stays_up [of "[''..'']" es] by simp
    then show ?thesis using Cons.prems(2) top by simp
  next
    case up
    then obtain k ks where kept: "kept = k # ks" by (cases kept) auto
    then show ?thesis using up Cons.IH [of ks] Cons.prems by auto
  next
    case name
    then show ?thesis using Cons.IH [of "e # kept"] Cons.prems by simp
  qed
qed simp

lemma relative_scope:
  assumes "filepath_IsAbs root" "\<not> filepath_IsAbs value" "value \<noteq> []" "\<not> goesUp (filepath_Clean value)"
  shows "prefix (path_elems (filepath_Clean root)) (path_elems (filepath_Clean (filepath_Join [root, value])))"
proof -
  let ?vs = "splitOn CHR ''/'' value" and ?rs = "cleanElements True [] (splitOn CHR ''/'' root)"
  have slash: "\<forall>e \<in> set ?vs. CHR ''/'' \<notin> set e" using splitOn_elements by blast
  then have noslash: "\<forall>e \<in> set (cleanElements False [] ?vs). CHR ''/'' \<notin> set e" using cleanElements_subset [of False "[]" ?vs] by auto
  have "\<not> starts_up (cleanElements False [] ?vs)"
    using joinWith_starts_up [OF noslash] assms(2-4) by (auto simp: filepath_Clean_def goesUp_def Let_def split: if_splits)
  then have below: "cleanElements True (rev ?rs) ?vs = ?rs @ cleanElements False [] ?vs"
    using cleanElements_below [of "[]" ?vs "rev ?rs"] by simp
  have root: "root \<noteq> []" using assms(1) by (auto simp: filepath_IsAbs_def)
  have "filepath_IsAbs (root @ CHR ''/'' # value)" using assms(1) by (simp add: filepath_IsAbs_def prefix_def) auto
  then have "filepath_Join [root, value] = abs_path (?rs @ cleanElements False [] ?vs)"
    using root assms(3) below by (simp add: filepath_Join_def Clean_rooted splitOn_slash cleanElements_append)
  moreover have "\<forall>e \<in> set (?rs @ cleanElements False [] ?vs). name_ok e"
  proof -
    have "\<forall>e \<in> set (splitOn CHR ''/'' root). CHR ''/'' \<notin> set e" using splitOn_elements by blast
    then have "\<forall>e \<in> set ?rs. name_ok e" using cleanElements_ok [of "[]"] by simp
    then show ?thesis using cleanElements_ok [of "rev ?rs" ?vs] slash below by auto
  qed
  moreover have "filepath_Clean root = abs_path ?rs" by (rule Clean_rooted [OF assms(1)])
  ultimately show ?thesis by auto
qed

lemma absolute_scope:
  assumes "filepath_IsAbs root" "filepath_IsAbs value" "\<not> scopeEscapes root value"
  shows "prefix (path_elems (filepath_Clean root)) (path_elems (filepath_Clean value))"
proof -
  obtain rs vs where names: "\<forall>e \<in> set rs. name_ok e" "\<forall>e \<in> set vs. name_ok e"
    and eq: "filepath_Clean root = abs_path rs" "filepath_Clean value = abs_path vs"
    using Clean_rooted_names assms(1,2) by metis
  have "filepath_Rel (filepath_Clean root) (filepath_Clean value) = filepath_Rel root value"
    using names by (simp add: filepath_Rel_def eq)
  then have "writeScopePathWithin (abs_path rs) (abs_path vs)"
    using assms(2,3) names eq by (auto simp: scopeEscapes_def goesUp_def writeScopePathWithin_def split: option.splits)
  then show ?thesis using within_prefix [OF names] names eq by simp
qed

section \<open>Decoded tasks\<close>

lemma DecodeEngineeringTask_Inr:
  assumes "DecodeEngineeringTask strict raw = Inr t"
  shows "task_typed t" "normalizeTask t = t"
proof -
  obtain decoded where "t = normalizeTask decoded" "Validate t = None"
    using assms by (auto simp: DecodeEngineeringTask_def Let_def split: goval.splits option.splits)
  then show "task_typed t" "normalizeTask t = t" by (simp_all add: Validate_None)
qed

text \<open>
  C26. A task that is decoded has the type of the contract: trimmed texts, the enumerated isolation, dirty,
  cleanup and network policies, a base commit where a worktree needs one, limits in their ranges, commands
  that name a program, and lists of distinct non-empty texts.
\<close>

theorem decoded_task_typed:
  assumes "DecodeEngineeringTask strict raw = Inr t"
  shows "task_typed t \<and> normalizeTask t = t"
  using DecodeEngineeringTask_Inr [OF assms] by blast

text \<open>
  What is relied on of encoding/json: the fields of a struct under their declared names, each with a value of
  its type, decode to that struct.
\<close>

definition decodes_structs :: "(goval \<Rightarrow> EngineeringTask option) \<Rightarrow> bool" where
  "decodes_structs strict \<longleftrightarrow> (\<forall>fs t. struct_task fs = Some t \<longrightarrow> strict (GStruct fs) = Some t)"

lemma decode_texts [simp]: "those (map (\<lambda>v. decode_text (Some v)) (map GString xs)) = Some xs"
  by (induction xs) simp_all

lemma decode_text_lists [simp]: "those (map (\<lambda>v. decode_list decode_text (Some v)) (map (\<lambda>xs. texts xs) xss)) = Some xss"
proof (induction xss)
  case (Cons xs xss)
  have "decode_list decode_text (Some (texts xs)) = Some xs" by (simp only: decode_list.simps decode_texts)
  then show ?case using Cons by simp
qed simp

lemma struct_workspace_value: "\<exists>fs. workspace_value w = GStruct fs \<and> struct_workspace fs = Some w"
  by (cases "ew_Handle w = []"; cases "ew_BaseSHA w = []"; cases "ew_Branch w = []"; cases "ew_Cleanup w = []")
    (simp_all add: workspace_value_def optional_def struct_workspace_def known_fields_def flip: map_map)

lemma struct_task_value: "\<exists>fs. task_value t = GStruct fs \<and> struct_task fs = Some t"
proof -
  obtain ws where ws: "workspace_value (et_Workspace t) = GStruct ws" "struct_workspace ws = Some (et_Workspace t)"
    using struct_workspace_value by blast
  show ?thesis
    by (cases "et_InterruptsRequired t = []")
      (simp_all add: task_value_def optional_def struct_task_def struct_verification_def struct_limits_def known_fields_def ws
        flip: map_map)
qed

text \<open>
  C27. The payload made for a host carries the task: what it holds as engineering_task decodes, normalizes and
  validates to the very task, for every task that was accepted and every decoder that takes the declared
  fields of a struct to the struct. No field is lost, and the optional fields that are left out when they
  are empty come back empty.
\<close>

theorem task_payload_roundtrip:
  assumes "DecodeEngineeringTask strict raw = Inr t" "decodes_structs strict"
  shows "\<exists>v. TaskPayload t extra ''engineering_task'' = Some v \<and> DecodeEngineeringTask strict v = Inr t"
proof (intro exI [of _ "task_value t"] conjI)
  show "TaskPayload t extra ''engineering_task'' = Some (task_value t)" by (simp add: TaskPayload_def Let_def)
  obtain fs where fs: "task_value t = GStruct fs" "struct_task fs = Some t" using struct_task_value by blast
  then have "strict (task_value t) = Some t" using assms(2) by (simp add: decodes_structs_def)
  then have "DecodeEngineeringTask strict (task_value t) = (case Validate (normalizeTask t) of Some e \<Rightarrow> Inl e | None \<Rightarrow> Inr (normalizeTask t))"
    by (simp add: DecodeEngineeringTask_def fs(1) Let_def)
  moreover have "Validate t = None" using DecodeEngineeringTask_Inr(1) [OF assms(1)] by (simp add: Validate_None)
  ultimately show "DecodeEngineeringTask strict (task_value t) = Inr t" using DecodeEngineeringTask_Inr(2) [OF assms(1)] by simp
qed

text \<open>
  Every read and write scope of a decoded task with a rooted workspace, taken as it stands when it is
  rooted and joined to the workspace otherwise, is at or below the workspace.
\<close>

theorem scopes_inside_workspace:
  assumes "DecodeEngineeringTask strict raw = Inr t" "filepath_IsAbs (ew_Root (et_Workspace t))"
    and "scope \<in> set (ew_ReadScope (et_Workspace t)) \<union> set (ew_WriteScope (et_Workspace t))"
  shows "prefix (path_elems (filepath_Clean (ew_Root (et_Workspace t))))
    (path_elems (filepath_Clean (if filepath_IsAbs scope then scope else filepath_Join [ew_Root (et_Workspace t), scope])))"
proof -
  have ok: "scope \<noteq> []" "\<not> scopeEscapes (ew_Root (et_Workspace t)) scope"
    using DecodeEngineeringTask_Inr(1) [OF assms(1)] assms(3) unfolding task_typed_def workspace_typed_def by blast+
  show ?thesis
  proof (cases "filepath_IsAbs scope")
    case True
    then show ?thesis using absolute_scope [OF assms(2) True ok(2)] by simp
  next
    case False
    then have "\<not> goesUp (filepath_Clean scope)" using ok(2) by (simp add: scopeEscapes_def)
    then show ?thesis using relative_scope [OF assms(2) False ok(1)] False by simp
  qed
qed

section \<open>A task\<close>

definition sample_task :: EngineeringTask where
  "sample_task = \<lparr>et_SchemaVersion = EngineeringTaskSchemaVersion, et_Goal = ''fix'',
     et_Workspace = \<lparr>ew_Root = ''/w'', ew_Handle = [], ew_BaseSHA = ''0123abc'', ew_Branch = [], ew_Isolation = ''git-worktree'',
       ew_DirtyPolicy = ''preserve'', ew_Cleanup = ''remove'', ew_ReadScope = [''.''], ew_WriteScope = [''a/b'']\<rparr>,
     et_Plan = [''p''], et_Acceptance = [''a''], et_Verification = \<lparr>evf_Commands = [[''go'', ''test'']], evf_AllowCommands = [''go'']\<rparr>,
     et_Limits = \<lparr>el_MaxDurationSeconds = 60, el_MaxOutputBytes = 1024, el_MaxAttempts = 1\<rparr>, et_NetworkPolicy = ''deny'',
     et_RequiredCapabilities = [''shell.user''], et_InterruptsRequired = [], et_IdempotencyKey = ''k''\<rparr>"

lemma sample_task_normal: "normalizeTask sample_task = sample_task"
proof -
  have trim: "TrimSpace s = s" if "s \<noteq> []" "graphic (hd s)" "graphic (last s)" for s using that by (rule TrimSpace_graphic)
  show ?thesis
    by (simp add: normalizeTask_def normalizeWorkspace_def normalizeStrings_def sample_task_def EngineeringTaskSchemaVersion_def trim graphic_def)
qed

lemma sample_task_typed: "task_typed sample_task"
  by (simp add: task_typed_def workspace_typed_def limits_typed_def sample_task_def engineeringBaseSHA_def hexDigit_def scopeEscapes_def
      goesUp_def filepath_IsAbs_def filepath_Clean_def)

lemma sample_task_decodes: "DecodeEngineeringTask (\<lambda>_. Some sample_task) (GBool True) = Inr sample_task"
proof -
  have "Validate sample_task = None" using sample_task_typed by (simp add: Validate_None)
  then show ?thesis by (simp add: DecodeEngineeringTask_def sample_task_normal)
qed

theorem decoded_task_typed_witness: "task_typed sample_task \<and> normalizeTask sample_task = sample_task"
  by (rule decoded_task_typed [OF sample_task_decodes])

text \<open>A decoder of structs, and the payload of the task under it.\<close>

definition struct_decoder :: "goval \<Rightarrow> EngineeringTask option" where
  "struct_decoder v = (case v of GStruct fs \<Rightarrow> struct_task fs | _ \<Rightarrow> None)"

lemma struct_decoder_decodes: "decodes_structs struct_decoder"
  by (simp add: decodes_structs_def struct_decoder_def)

theorem task_payload_roundtrip_witness:
  "\<exists>v. TaskPayload sample_task Map.empty ''engineering_task'' = Some v \<and> DecodeEngineeringTask struct_decoder v = Inr sample_task"
proof -
  obtain fs where fs: "struct_task fs = Some sample_task" using struct_task_value by blast
  have "Validate sample_task = None" using sample_task_typed by (simp add: Validate_None)
  then have "DecodeEngineeringTask struct_decoder (GStruct fs) = Inr sample_task"
    by (simp add: DecodeEngineeringTask_def struct_decoder_def fs sample_task_normal)
  from task_payload_roundtrip [OF this struct_decoder_decodes] show ?thesis .
qed

theorem scopes_inside_workspace_witness:
  "prefix (path_elems (filepath_Clean ''/w'')) (path_elems (filepath_Clean (filepath_Join [''/w'', ''a/b''])))"
  using scopes_inside_workspace [OF sample_task_decodes, of "''a/b''"] by (simp add: sample_task_def filepath_IsAbs_def)

end
