(* ===== verification/Loop_Properties.thy ===== *)
theory Loop_Properties
  imports Engineering_Loop Engineering_Properties
begin

text \<open>
  What the bounded loop promises: an adapter runs at most as often as the task allows and only after
  failures that may be repeated, and a task that stops can be resumed from each of its recoverable
  checkpoints with attempts to spare.
\<close>

section \<open>Invariants of the loop\<close>

text \<open>A property of the state a part of the loop leaves, whether it goes on or stops for a checkpoint error.\<close>

definition leaves :: "(loop_state \<Rightarrow> bool) \<Rightarrow> ('a \<Rightarrow> loop_state) \<Rightarrow> (string \<times> loop_state) + 'a \<Rightarrow> bool" where
  "leaves I g r = (case r of Inl (e, st) \<Rightarrow> I st | Inr a \<Rightarrow> I (g a))"

lemma leaves_simps [simp]: "leaves I g (Inl (e, st)) = I st" "leaves I g (Inr a) = I (g a)"
  by (simp_all add: leaves_def)

lemma leaves_and_then:
  assumes "leaves I g x" "\<And>a. x = Inr a \<Longrightarrow> I (g a) \<Longrightarrow> leaves I h (f a)"
  shows "leaves I h (and_then x f)"
  using assms by (cases x) (auto simp: and_then_def leaves_def)

section \<open>Checkpoints\<close>

text \<open>Where a checkpoint of a phase and attempt leads.\<close>

definition resumable :: "gint \<Rightarrow> string \<Rightarrow> gint \<Rightarrow> bool" where
  "resumable maxAttempts phase attempt \<longleftrightarrow>
     phase \<in> {EngineeringPhaseInspect, EngineeringPhasePlan}
     \<or> phase = EngineeringPhaseRepair \<and> 1 \<le> attempt \<and> attempt \<le> maxAttempts
     \<or> phase \<in> {EngineeringPhaseEdit, EngineeringPhaseVerify, EngineeringPhaseDiagnose} \<and> 1 \<le> attempt \<and> attempt < maxAttempts"

lemma resumable_start:
  assumes "resumable maxAttempts (ck_Phase ck) (ck_Attempt ck)" "1 \<le> maxAttempts" "maxAttempts < 2 ^ 63"
  shows "\<exists>a. engineeringResumeStartAttempt ck = Inr a \<and> 1 \<le> a \<and> a \<le> maxAttempts"
proof -
  have next_attempt: "i64 (ck_Attempt ck + 1) = ck_Attempt ck + 1" if "1 \<le> ck_Attempt ck" "ck_Attempt ck < maxAttempts"
    using that assms(3) by (intro i64_id) auto
  show ?thesis
    using assms(1,2) next_attempt by (auto simp: resumable_def engineeringResumeStartAttempt_def Let_def phase_defs)
qed

definition checkpoint_good :: "crypto \<Rightarrow> engineeringProgressEmitter \<Rightarrow> gint \<Rightarrow> string \<Rightarrow> EngineeringCheckpoint \<Rightarrow> bool" where
  "checkpoint_good C e maxAttempts p ck \<longleftrightarrow>
     p = checkpointPath C (em_dir e) (ck_TaskID ck) (ck_ID ck) \<and> ck_SchemaVersion ck = EngineeringCheckpointSchemaVersion
     \<and> validateEngineeringCheckpointLocator (ck_TaskID ck) (ck_ID ck) = None
     \<and> ck_TaskID ck = env_TaskID (em_envelope e) \<and> ck_TaskIdentitySHA256 ck = engineeringTaskIdentitySHA256 C (em_task e)
     \<and> ck_BaseSHA ck = tw_BaseSHA (env_Workspace (em_envelope e)) \<and> ck_Branch ck = tw_Branch (env_Workspace (em_envelope e))
     \<and> (ck_Recoverable ck \<longrightarrow> resumable maxAttempts (ck_Phase ck) (ck_Attempt ck))"

text \<open>The store only grows, and by good checkpoints of the task that runs.\<close>

definition files_extend :: "crypto \<Rightarrow> gint \<Rightarrow> checkpoint_files \<Rightarrow> engineeringProgressEmitter \<Rightarrow> bool" where
  "files_extend C maxAttempts files0 e \<longleftrightarrow>
     (\<forall>p. files0 p \<noteq> None \<longrightarrow> em_files e p = files0 p)
     \<and> (\<forall>p. files0 p = None \<longrightarrow> em_files e p = None \<or> (\<exists>ck. em_files e p = Some (HoldsCheckpoint ck) \<and> checkpoint_good C e maxAttempts p ck))"

lemma checkpoint_good_cong:
  "em_dir e' = em_dir e \<Longrightarrow> em_envelope e' = em_envelope e \<Longrightarrow> em_task e' = em_task e \<Longrightarrow>
   checkpoint_good C e' maxAttempts p ck = checkpoint_good C e maxAttempts p ck"
  by (simp add: checkpoint_good_def)

lemma Save_files:
  assumes "checkpoint_Save C dir fault ck files = (r, files')"
  shows "files' = files \<or> (validateEngineeringCheckpointLocator (ck_TaskID ck) (ck_ID ck) = None
     \<and> files (checkpointPath C dir (ck_TaskID ck) (ck_ID ck)) = None
     \<and> files' = files(checkpointPath C dir (ck_TaskID ck) (ck_ID ck) \<mapsto> HoldsCheckpoint ck))"
  using assms by (auto simp: checkpoint_Save_def Let_def split: option.splits if_splits checkpoint_content.splits)

text \<open>What an emission keeps of the emitter.\<close>

lemma emit_keeps:
  assumes "emit C X phase attempt summary refs recoverable failureClass e = (r, e')"
  shows "em_dir e' = em_dir e" "em_envelope e' = em_envelope e" "em_task e' = em_task e"
  using assms by (auto simp: emit_def Let_def split: prod.splits option.splits)

lemma emit_files:
  assumes "emit C X phase attempt summary refs recoverable failureClass e = (r, e')" "files_extend C maxAttempts files0 e"
    and "recoverable \<Longrightarrow> resumable maxAttempts phase attempt"
  shows "files_extend C maxAttempts files0 e'"
proof -
  let ?pg = "progress_of C phase attempt summary refs recoverable failureClass (em_envelope e)"
  let ?ck = "checkpoint_of C (emi_Now X) (em_task e) (em_envelope e) ?pg"
  let ?p = "checkpointPath C (em_dir e) (ck_TaskID ?ck) (ck_ID ?ck)"
  obtain s files' where save: "checkpoint_Save C (em_dir e) (emi_Fault X) ?ck (em_files e) = (s, files')" by fastforce
  have files': "em_files e' = files'"
    using assms(1) save by (auto simp: emit_def Let_def split: option.splits)
  have good: "checkpoint_good C e' maxAttempts ?p ?ck" if "validateEngineeringCheckpointLocator (ck_TaskID ?ck) (ck_ID ?ck) = None"
    using that assms(3) emit_keeps [OF assms(1)]
    by (simp add: checkpoint_good_def checkpoint_of_def progress_of_def Let_def)
  have same: "checkpoint_good C e' maxAttempts p ck = checkpoint_good C e maxAttempts p ck" for p ck
    using emit_keeps [OF assms(1)] by (intro checkpoint_good_cong)
  show ?thesis
    using Save_files [OF save]
  proof (elim disjE conjE)
    assume "files' = em_files e"
    then show ?thesis using assms(2) by (simp add: files_extend_def files' same)
  next
    assume valid: "validateEngineeringCheckpointLocator (ck_TaskID ?ck) (ck_ID ?ck) = None" and fresh: "em_files e ?p = None"
      and written: "files' = (em_files e)(?p \<mapsto> HoldsCheckpoint ?ck)"
    have "files0 ?p = None" using assms(2) fresh by (auto simp: files_extend_def)
    with assms(2) good [OF valid] show ?thesis
      unfolding files_extend_def files' written same by (simp del: not_None_eq)
  qed
qed

definition loop_ok :: "crypto \<Rightarrow> gint \<Rightarrow> checkpoint_files \<Rightarrow> engineeringProgressEmitter \<Rightarrow> loop_state \<Rightarrow> bool" where
  "loop_ok C maxAttempts files0 e0 st \<longleftrightarrow>
     files_extend C maxAttempts files0 (lp_emitter st) \<and> em_dir (lp_emitter st) = em_dir e0
     \<and> em_envelope (lp_emitter st) = em_envelope e0 \<and> em_task (lp_emitter st) = em_task e0"

lemma note_progress_emitter [simp]: "lp_emitter (note_progress st) = lp_emitter st" "lp_final (note_progress st) = lp_final st"
  "lp_err (note_progress st) = lp_err st" "lp_previous (note_progress st) = lp_previous st"
  by (simp_all add: note_progress_def Let_def)

lemma note_progress_evidence [simp]:
  "ee_AutoRepairAllowed (lp_evidence (note_progress st)) = ee_AutoRepairAllowed (lp_evidence st)"
  "ee_Attempts (lp_evidence (note_progress st)) = ee_Attempts (lp_evidence st)"
  "ee_Completed (lp_evidence (note_progress st)) = ee_Completed (lp_evidence st)"
  "ee_StoppedReason (lp_evidence (note_progress st)) = ee_StoppedReason (lp_evidence st)"
  by (simp_all add: note_progress_def Let_def)

lemma stopped_simps [simp]:
  "lp_emitter (stopped w st) = lp_emitter st" "lp_final (stopped w st) = lp_final st" "lp_err (stopped w st) = lp_err st"
  "ee_AutoRepairAllowed (lp_evidence (stopped w st)) = ee_AutoRepairAllowed (lp_evidence st)"
  "ee_Attempts (lp_evidence (stopped w st)) = ee_Attempts (lp_evidence st)"
  "ee_Completed (lp_evidence (stopped w st)) = ee_Completed (lp_evidence st)"
  "ee_StoppedReason (lp_evidence (stopped w st)) = w"
  by (simp_all add: stopped_def)

text \<open>An emission of the loop keeps everything but the emitter and the progress.\<close>

lemma loop_emit_keeps:
  assumes "loop_emit C W phase attempt summary refs recoverable failureClass st = Inr st'"
  shows "ee_AutoRepairAllowed (lp_evidence st') = ee_AutoRepairAllowed (lp_evidence st) \<and> ee_Attempts (lp_evidence st') = ee_Attempts (lp_evidence st)
    \<and> ee_Completed (lp_evidence st') = ee_Completed (lp_evidence st) \<and> ee_StoppedReason (lp_evidence st') = ee_StoppedReason (lp_evidence st)
    \<and> lp_err st' = lp_err st \<and> lp_final st' = lp_final st \<and> lp_previous st' = lp_previous st"
  using assms by (auto simp: loop_emit_def split: prod.splits sum.splits)

lemma loop_emit_stops:
  assumes "loop_emit C W phase attempt summary refs recoverable failureClass st = Inl (x, st')"
  shows "lp_evidence st' = lp_evidence st"
  using assms by (auto simp: loop_emit_def split: prod.splits sum.splits)

lemma loop_emit_ok:
  assumes "loop_ok C maxAttempts files0 e0 st" "recoverable \<Longrightarrow> resumable maxAttempts phase attempt"
  shows "leaves (loop_ok C maxAttempts files0 e0) (\<lambda>st. st) (loop_emit C W phase attempt summary refs recoverable failureClass st)"
proof -
  let ?X = "lw_Emit W (length (em_progress (lp_emitter st)))"
  obtain r e' where em: "emit C ?X phase attempt summary refs recoverable failureClass (lp_emitter st) = (r, e')" by fastforce
  have "files_extend C maxAttempts files0 e'" using emit_files [OF em] assms by (simp add: loop_ok_def)
  with emit_keeps [OF em] assms(1) show ?thesis
    by (cases r) (simp_all add: loop_emit_def em loop_ok_def)
qed

section \<open>One attempt\<close>

lemma after_run_goes_on:
  assumes "after_run C W maxAttempts attempt ev st = Inr (again, st')"
  shows "ee_Attempts (lp_evidence st') = ee_Attempts (lp_evidence st)" "ee_AutoRepairAllowed (lp_evidence st') = ee_AutoRepairAllowed (lp_evidence st)"
    "lp_err st' = lp_err st" "again \<Longrightarrow> retryableEngineeringAttempt ev \<and> ee_AutoRepairAllowed (lp_evidence st) \<and> attempt \<noteq> maxAttempts"
    "ee_Completed (lp_evidence st') \<longleftrightarrow> ee_Completed (lp_evidence st) \<or> lp_err st = None" "again \<Longrightarrow> lp_err st \<noteq> None"
  using assms by (auto simp: after_run_def Let_def and_then_def split: sum.splits if_splits dest!: loop_emit_keeps)

lemma after_run_stops:
  assumes "after_run C W maxAttempts attempt ev st = Inl (x, st')"
  shows "ee_Attempts (lp_evidence st') = ee_Attempts (lp_evidence st)" "ee_AutoRepairAllowed (lp_evidence st') = ee_AutoRepairAllowed (lp_evidence st)"
    "ee_Completed (lp_evidence st') = ee_Completed (lp_evidence st)"
  using assms by (auto simp: after_run_def Let_def and_then_def split: sum.splits if_splits dest!: loop_emit_keeps loop_emit_stops)

lemma after_run_ok:
  assumes "loop_ok C maxAttempts files0 e0 st" "1 \<le> attempt" "attempt \<le> maxAttempts"
  shows "leaves (loop_ok C maxAttempts files0 e0) snd (after_run C W maxAttempts attempt ev st)"
proof -
  have ok [simp]: "loop_ok C maxAttempts files0 e0 (stopped w s) = loop_ok C maxAttempts files0 e0 s"
    "loop_ok C maxAttempts files0 e0 (s\<lparr>lp_previous := d\<rparr>) = loop_ok C maxAttempts files0 e0 s"
    "loop_ok C maxAttempts files0 e0 (s\<lparr>lp_evidence := x\<rparr>) = loop_ok C maxAttempts files0 e0 s" for s w d x
    by (simp_all add: loop_ok_def)
  show ?thesis
    unfolding after_run_def Let_def
    using assms
    by (intro leaves_and_then [where g = "\<lambda>s. s"]) (auto simp: resumable_def intro!: loop_emit_ok leaves_and_then [where g = "\<lambda>s. s"])
qed

section \<open>The attempts\<close>

text \<open>
  The attempts so far, for a loop that started with attempt start: numbered in order, each summarising a
  run of the adapter on the envelope of that attempt.
\<close>

definition trail :: "crypto \<Rightarrow> artifact_codec \<Rightarrow> loop_world \<Rightarrow> EngineeringTask \<Rightarrow> taskEnvelope \<Rightarrow> gint \<Rightarrow> gint \<Rightarrow> engineeringAttemptEvidence list \<Rightarrow> bool" where
  "trail C K W task envelope maxAttempts start evs \<longleftrightarrow>
     map ea_Attempt evs = map (\<lambda>i. start + int i) [0..<length evs]
     \<and> (\<forall>ev \<in> set evs. \<exists>previous content failure.
          lw_Execute W (ea_Attempt ev) (attempt_envelope task envelope maxAttempts (ea_Attempt ev) previous) = (content, failure)
          \<and> ev = summarizeEngineeringAttempt C K (ea_Attempt ev) (env_Adapter envelope) content failure)"

definition begun :: "crypto \<Rightarrow> artifact_codec \<Rightarrow> loop_world \<Rightarrow> EngineeringTask \<Rightarrow> taskEnvelope \<Rightarrow> gint \<Rightarrow> gint \<Rightarrow> engineeringExecutionEvidence \<Rightarrow> bool" where
  "begun C K W task envelope maxAttempts start x \<longleftrightarrow>
     trail C K W task envelope maxAttempts start (ee_Attempts x) \<and> (\<forall>ev \<in> set (ee_Attempts x). retryableEngineeringAttempt ev)
     \<and> (ee_Attempts x \<noteq> [] \<longrightarrow> ee_AutoRepairAllowed x) \<and> \<not> ee_Completed x
     \<and> (ee_AutoRepairAllowed x \<longleftrightarrow> env_InterruptsRequired envelope = [])"

definition bounded_attempts ::
    "crypto \<Rightarrow> artifact_codec \<Rightarrow> loop_world \<Rightarrow> EngineeringTask \<Rightarrow> taskEnvelope \<Rightarrow> gint \<Rightarrow> gint \<Rightarrow> engineeringExecutionEvidence \<Rightarrow> bool" where
  "bounded_attempts C K W task envelope maxAttempts start x \<longleftrightarrow>
     trail C K W task envelope maxAttempts start (ee_Attempts x) \<and> (\<forall>ev \<in> set (butlast (ee_Attempts x)). retryableEngineeringAttempt ev)
     \<and> (ee_AutoRepairAllowed x \<longleftrightarrow> env_InterruptsRequired envelope = [])
     \<and> (length (ee_Attempts x) > 1 \<longrightarrow> ee_AutoRepairAllowed x) \<and> start + int (length (ee_Attempts x)) \<le> maxAttempts + 1
     \<and> (ee_Completed x \<longrightarrow> ee_Attempts x \<noteq> [] \<and> ea_Status (last (ee_Attempts x)) = ''verified'')"

lemma begun_bounded:
  "begun C K W task envelope maxAttempts start x \<Longrightarrow> start + int (length (ee_Attempts x)) \<le> maxAttempts + 1 \<Longrightarrow>
   bounded_attempts C K W task envelope maxAttempts start x"
  by (auto simp: begun_def bounded_attempts_def dest: in_set_butlastD)

lemma attempt_of_record [simp]: "ea_Attempt (attempt_record C K attempt adapter content) = attempt"
  by (simp add: attempt_record_def Let_def)

lemma attempt_diagnosed [simp]: "ea_Attempt (diagnosed status summary ev) = ea_Attempt ev"
  by (simp add: diagnosed_def)

lemma summarize_Attempt [simp]: "ea_Attempt (summarizeEngineeringAttempt C K attempt adapter content failure) = attempt"
  by (auto simp: summarizeEngineeringAttempt_def Let_def split: prod.split option.split bool.split)

lemma summarize_verified: "ea_Status (summarizeEngineeringAttempt C K attempt adapter content None) = ''verified''"
  by (simp add: summarizeEngineeringAttempt_def diagnosed_def Let_def)

text \<open>An attempt that ran extends the trail.\<close>

lemma run_adapter_extends:
  assumes "run_adapter C K W task envelope maxAttempts attempt st = (st', ev)" "trail C K W task envelope maxAttempts start (ee_Attempts (lp_evidence st))"
    and "attempt = start + int (length (ee_Attempts (lp_evidence st)))"
  shows "ee_Attempts (lp_evidence st') = ee_Attempts (lp_evidence st) @ [ev]" "trail C K W task envelope maxAttempts start (ee_Attempts (lp_evidence st'))"
    "ee_AutoRepairAllowed (lp_evidence st') = ee_AutoRepairAllowed (lp_evidence st)" "ee_Completed (lp_evidence st') = ee_Completed (lp_evidence st)"
    "lp_err st' = None \<Longrightarrow> ea_Status ev = ''verified''" "lp_emitter st' = lp_emitter st"
proof -
  obtain content failure where run: "lw_Execute W attempt (attempt_envelope task envelope maxAttempts attempt (lp_previous st)) = (content, failure)"
    by fastforce
  have ev: "ev = summarizeEngineeringAttempt C K attempt (env_Adapter envelope) content failure" and st': "lp_err st' = failure"
    and evs: "ee_Attempts (lp_evidence st') = ee_Attempts (lp_evidence st) @ [ev]"
    using assms(1) by (auto simp: run_adapter_def run Let_def)
  show "ee_Attempts (lp_evidence st') = ee_Attempts (lp_evidence st) @ [ev]" by (rule evs)
  have "\<exists>previous content failure. lw_Execute W (ea_Attempt ev) (attempt_envelope task envelope maxAttempts (ea_Attempt ev) previous) = (content, failure)
      \<and> ev = summarizeEngineeringAttempt C K (ea_Attempt ev) (env_Adapter envelope) content failure"
    using run by (auto simp: ev)
  moreover have "ea_Attempt ev = start + int (length (ee_Attempts (lp_evidence st)))" by (simp add: ev assms(3))
  ultimately show "trail C K W task envelope maxAttempts start (ee_Attempts (lp_evidence st'))"
    using assms(2) by (auto simp: trail_def evs)
  show "ea_Status ev = ''verified''" if "lp_err st' = None" using that summarize_verified by (simp add: st' ev)
qed (use assms(1) in \<open>auto simp: run_adapter_def Let_def split: prod.splits\<close>)

definition attempts_done ::
    "crypto \<Rightarrow> artifact_codec \<Rightarrow> loop_world \<Rightarrow> EngineeringTask \<Rightarrow> taskEnvelope \<Rightarrow> gint \<Rightarrow> gint \<Rightarrow> (string \<times> loop_state) + loop_state \<Rightarrow> bool" where
  "attempts_done C K W task envelope maxAttempts start r \<longleftrightarrow>
     leaves (\<lambda>st. bounded_attempts C K W task envelope maxAttempts start (lp_evidence st)) (\<lambda>st. st) r
     \<and> (case r of Inl _ \<Rightarrow> True | Inr st \<Rightarrow> ee_Completed (lp_evidence st) \<longleftrightarrow> lp_err st = None)"

lemma last_attempt:
  assumes "begun C K W task envelope maxAttempts start x" "ee_Attempts y = ee_Attempts x @ [ev]"
    and "trail C K W task envelope maxAttempts start (ee_Attempts y)" "ee_AutoRepairAllowed y = ee_AutoRepairAllowed x"
    and "start + int (length (ee_Attempts x)) \<le> maxAttempts" "ee_Completed y \<Longrightarrow> ea_Status ev = ''verified''"
  shows "bounded_attempts C K W task envelope maxAttempts start y"
  using assms by (auto simp: begun_def bounded_attempts_def)

lemma attempts_bounded:
  assumes "begun C K W task envelope maxAttempts start (lp_evidence st)" "attempt = start + int (length (ee_Attempts (lp_evidence st)))"
    and "attempt + int n = maxAttempts + 1" "n \<noteq> 0"
  shows "attempts_done C K W task envelope maxAttempts start (attempts C K W task envelope duration maxAttempts n attempt st)"
  using assms
proof (induction n arbitrary: attempt st)
  case (Suc n)
  let ?done = "attempts_done C K W task envelope maxAttempts start"
  have room: "start + int (length (ee_Attempts (lp_evidence st))) \<le> maxAttempts" using Suc.prems by simp
  have now: "bounded_attempts C K W task envelope maxAttempts start y"
    if "ee_Attempts y = ee_Attempts (lp_evidence st)" "ee_AutoRepairAllowed y = ee_AutoRepairAllowed (lp_evidence st)" "\<not> ee_Completed y" for y
    using begun_bounded [of C K W task envelope maxAttempts start y] Suc.prems(1) that room by (auto simp: begun_def)
  have fresh: "\<not> ee_Completed (lp_evidence st)" using Suc.prems(1) by (simp add: begun_def)
  show ?case
  proof (cases "lw_Context W duration attempt")
    case (Some failure)
    with now [of "lp_evidence (stopped (engineeringStopReason (Some failure)) st)"] fresh show ?thesis
      by (simp add: attempts_done_def stopped_def)
  next
    case None
    let ?emit = "loop_emit C W EngineeringPhaseEdit attempt ''Coding adapter execution started inside the declared task workspace.'' []
              (attempt < maxAttempts \<and> ee_AutoRepairAllowed (lp_evidence st)) [] st"
    show ?thesis
    proof (cases ?emit)
      case (Inl q)
      then obtain x s1 where "?emit = Inl (x, s1)" by (cases q) auto
      with loop_emit_stops [OF this] now [of "lp_evidence s1"] fresh None show ?thesis by (simp add: attempts_done_def and_then_def)
    next
      case (Inr s1)
      note s1 = loop_emit_keeps [OF Inr]
      obtain s2 ev where run: "run_adapter C K W task envelope maxAttempts attempt s1 = (s2, ev)" by fastforce
      have "trail C K W task envelope maxAttempts start (ee_Attempts (lp_evidence s1))" "attempt = start + int (length (ee_Attempts (lp_evidence s1)))"
        using Suc.prems(1,2) s1 by (simp_all add: begun_def)
      note s2 = run_adapter_extends [OF run this]
      have rest: "attempts C K W task envelope duration maxAttempts (Suc n) attempt st =
          and_then (after_run C W maxAttempts attempt ev s2) (\<lambda>(again, s3).
            if again then attempts C K W task envelope duration maxAttempts n (attempt + 1) s3 else Inr s3)"
        using None Inr run by (simp add: and_then_def)
      have ended: "bounded_attempts C K W task envelope maxAttempts start y"
        if "ee_Attempts y = ee_Attempts (lp_evidence s2)" "ee_AutoRepairAllowed y = ee_AutoRepairAllowed (lp_evidence s2)"
          "ee_Completed y \<Longrightarrow> lp_err s2 = None" for y
        using Suc.prems(1) that s1 s2 room by (intro last_attempt [where x = "lp_evidence st" and ev = ev]) auto
      show ?thesis
      proof (cases "after_run C W maxAttempts attempt ev s2")
        case (Inl q)
        then obtain x s3 where stop: "after_run C W maxAttempts attempt ev s2 = Inl (x, s3)" by (cases q) auto
        with after_run_stops [OF stop] ended [of "lp_evidence s3"] s1 s2 fresh show ?thesis
          unfolding rest by (simp add: attempts_done_def and_then_def)
      next
        case (Inr q)
        then obtain again s3 where goes: "after_run C W maxAttempts attempt ev s2 = Inr (again, s3)" by (cases q) auto
        note s3 = after_run_goes_on [OF goes]
        show ?thesis
        proof (cases again)
          case True
          have "begun C K W task envelope maxAttempts start (lp_evidence s3)"
            using Suc.prems(1) s1 s2 s3(1,2,5) s3(4,6) [OF True] by (auto simp: begun_def)
          moreover have "attempt + 1 = start + int (length (ee_Attempts (lp_evidence s3)))" using Suc.prems(2) s1 s2 s3(1) by simp
          moreover have "attempt + 1 + int n = maxAttempts + 1" "n \<noteq> 0" using Suc.prems(3) s3(4) [OF True] by auto
          ultimately have "?done (attempts C K W task envelope duration maxAttempts n (attempt + 1) s3)" by (rule Suc.IH)
          then show ?thesis unfolding rest by (simp add: goes and_then_def True)
        next
          case False
          then show ?thesis
            unfolding rest using s1 s2 s3 fresh ended [of "lp_evidence s3"] by (simp add: attempts_done_def goes and_then_def)
        qed
      qed
    qed
  qed
qed simp

lemma attempts_ok:
  assumes "loop_ok C maxAttempts files0 e0 st" "1 \<le> attempt" "attempt + int n \<le> maxAttempts + 1"
  shows "leaves (loop_ok C maxAttempts files0 e0) (\<lambda>st. st) (attempts C K W task envelope duration maxAttempts n attempt st)"
  using assms
proof (induction n arbitrary: attempt st)
  case (Suc n)
  show ?case
  proof (cases "lw_Context W duration attempt")
    case (Some failure)
    then show ?thesis using Suc.prems(1) by (simp add: loop_ok_def)
  next
    case None
    have run: "loop_ok C maxAttempts files0 e0 s2" if "run_adapter C K W task envelope maxAttempts attempt s1 = (s2, ev)" "loop_ok C maxAttempts files0 e0 s1" for s1 s2 ev
      using that by (auto simp: run_adapter_def loop_ok_def Let_def split: prod.splits)
    have more: "leaves (loop_ok C maxAttempts files0 e0) (\<lambda>st. st)
        (and_then (after_run C W maxAttempts attempt ev s2) (\<lambda>(again, s3).
           if again then attempts C K W task envelope duration maxAttempts n (attempt + 1) s3 else Inr s3))"
      if "loop_ok C maxAttempts files0 e0 s2" for ev s2
      using that Suc.prems by (intro leaves_and_then [where g = snd] after_run_ok) (auto intro!: Suc.IH split: prod.split)
    show ?thesis
      using None Suc.prems run more
      by (auto intro!: leaves_and_then [where g = "\<lambda>s. s"] loop_emit_ok simp: resumable_def split: prod.split)
  qed
qed simp

section \<open>The execution\<close>

definition task_attempts :: "EngineeringTask \<Rightarrow> gint" where
  "task_attempts task = (if el_MaxAttempts (et_Limits task) < 1 then 1 else el_MaxAttempts (et_Limits task))"

definition start_attempt :: "Options \<Rightarrow> gint" where
  "start_attempt opts = (case op_engineeringResume opts of None \<Rightarrow> 1 | Some resume \<Rightarrow> er_StartAttempt resume)"

lemma begin_execution_keeps:
  "begin_execution C W st = Inr st' \<Longrightarrow> ee_AutoRepairAllowed (lp_evidence st') = ee_AutoRepairAllowed (lp_evidence st)
     \<and> ee_Attempts (lp_evidence st') = ee_Attempts (lp_evidence st) \<and> ee_Completed (lp_evidence st') = ee_Completed (lp_evidence st)"
  "begin_execution C W st = Inl (x, st') \<Longrightarrow> ee_AutoRepairAllowed (lp_evidence st') = ee_AutoRepairAllowed (lp_evidence st)
     \<and> ee_Attempts (lp_evidence st') = ee_Attempts (lp_evidence st) \<and> ee_Completed (lp_evidence st') = ee_Completed (lp_evidence st)"
  by (auto simp: begin_execution_def Let_def and_then_def split: sum.splits dest!: loop_emit_keeps loop_emit_stops)

lemma begin_execution_ok:
  assumes "loop_ok C maxAttempts files0 e0 st"
  shows "leaves (loop_ok C maxAttempts files0 e0) (\<lambda>st. st) (begin_execution C W st)"
  using assms unfolding begin_execution_def Let_def
  by (intro leaves_and_then [where g = "\<lambda>s. s"] loop_emit_ok) (auto simp: resumable_def loop_ok_def)

lemma finish_execution_ok:
  assumes "loop_ok C maxAttempts files0 e0 st"
  shows "leaves (loop_ok C maxAttempts files0 e0) (\<lambda>st. st) (finish_execution C W st)"
  using assms unfolding finish_execution_def Let_def by (intro loop_emit_ok) (auto simp: loop_ok_def)

lemma finish_execution_done:
  assumes "attempts_done C K W task envelope maxAttempts start (Inr st)"
  shows "attempts_done C K W task envelope maxAttempts start (finish_execution C W st)"
proof -
  have same: "bounded_attempts C K W task envelope maxAttempts start y = bounded_attempts C K W task envelope maxAttempts start x"
    if "ee_Attempts y = ee_Attempts x" "ee_AutoRepairAllowed y = ee_AutoRepairAllowed x" "ee_Completed y = ee_Completed x" for x y
    using that by (simp add: bounded_attempts_def)
  show ?thesis
    using assms unfolding finish_execution_def Let_def attempts_done_def
    by (auto split: sum.split simp: leaves_def dest!: loop_emit_keeps loop_emit_stops intro: same [THEN iffD2])
qed

definition loop_start :: "crypto \<Rightarrow> EngineeringTask \<Rightarrow> taskEnvelope \<Rightarrow> Options \<Rightarrow> engineeringProgressEmitter \<Rightarrow> loop_state" where
  "loop_start C task envelope opts emitter =
     \<lparr>lp_evidence = initial_evidence C task envelope (task_attempts task)
        (case op_engineeringResume opts of None \<Rightarrow> [] | Some resume \<Rightarrow> ck_ID (er_Checkpoint resume)),
      lp_emitter = emitter, lp_final = [], lp_err = None,
      lp_previous = (case op_engineeringResume opts of None \<Rightarrow> diagnosis [] [] | Some resume \<Rightarrow> engineeringResumeDiagnosis (er_Checkpoint resume))\<rparr>"

definition loop_result :: "crypto \<Rightarrow> artifact_codec \<Rightarrow> loop_world \<Rightarrow> EngineeringTask \<Rightarrow> taskEnvelope \<Rightarrow> Options \<Rightarrow> engineeringProgressEmitter \<Rightarrow> (string \<times> loop_state) + loop_state" where
  "loop_result C K W task envelope opts emitter =
     and_then (begin_execution C W (loop_start C task envelope opts emitter)) (\<lambda>st1.
       and_then (attempts C K W task envelope
           (if rl_MaxDurationSeconds (env_Limits envelope) < 1 then DefaultTaskTTLSeconds else rl_MaxDurationSeconds (env_Limits envelope))
           (task_attempts task) (nat (task_attempts task - start_attempt opts + 1)) (start_attempt opts) st1)
         (finish_execution C W))"

lemma outcomeLoop:
  assumes "newEngineeringProgressEmitter H envelope task opts files = Some emitter" "1 \<le> start_attempt opts" "start_attempt opts \<le> task_attempts task"
  shows "engineering_outcome C K H W task envelope opts files =
        (case loop_result C K W task envelope opts emitter of
           Inl (e, st') \<Rightarrow> (stopForCheckpointError e st', em_files (lp_emitter st'))
         | Inr st' \<Rightarrow> (((lp_final st', lp_evidence st'), lp_err st'), em_files (lp_emitter st')))"
  using assms unfolding engineering_outcome_def loop_result_def loop_start_def start_attempt_def task_attempts_def Let_def by simp

text \<open>What the execution ends with is what the loop left; without a loop it ran nothing and wrote nothing.\<close>

lemma execution_cases:
  assumes "engineering_outcome C K H W task envelope opts files = (((content, evidence), failure), files')"
  obtains (refused) "failure \<noteq> None" "files' = files" "ee_Attempts evidence = []" "\<not> ee_Completed evidence"
  | (stop) x st emitter where "newEngineeringProgressEmitter H envelope task opts files = Some emitter" "1 \<le> start_attempt opts"
      "start_attempt opts \<le> task_attempts task" "loop_result C K W task envelope opts emitter = Inl (x, st)"
      "evidence = lp_evidence (note_progress (stopped ''checkpoint_unavailable'' st))"
      "failure \<noteq> None" "files' = em_files (lp_emitter st)"
  | (final) st emitter where "newEngineeringProgressEmitter H envelope task opts files = Some emitter" "1 \<le> start_attempt opts"
      "start_attempt opts \<le> task_attempts task" "loop_result C K W task envelope opts emitter = Inr st"
      "evidence = lp_evidence st" "failure = lp_err st" "files' = em_files (lp_emitter st)"
proof (cases "newEngineeringProgressEmitter H envelope task opts files")
  case None
  then show thesis
    using assms by (intro refused) (auto simp: engineering_outcome_def Let_def initial_evidence_def)
next
  case (Some emitter)
  show thesis
  proof (cases "start_attempt opts < 1 \<or> start_attempt opts > task_attempts task")
    case True
    then show thesis
      using assms Some unfolding start_attempt_def task_attempts_def
      by (intro refused) (auto simp: engineering_outcome_def Let_def initial_evidence_def)
  next
    case False
    note run = outcomeLoop [OF Some, of C K W] assms
    show thesis
    proof (cases "loop_result C K W task envelope opts emitter")
      case (Inl q)
      then show thesis using run Some False by (cases q) (auto simp: stopForCheckpointError_def intro: stop)
    next
      case (Inr st)
      then show thesis using run Some False by (auto intro: final)
    qed
  qed
qed

lemma executes_outcome:
  assumes "engineeringTaskFromEnvelope strict envelope = Some task" "isEngineeringRepairAdapter (env_Adapter envelope)"
    and "engineering_outcome C K H W task envelope opts files = (((content, evidence), failure), files')"
  shows "executeEngineeringTask C K strict H W envelope opts files = ((attachEngineeringExecutionEvidence K content evidence, failure), files')"
  using assms by (simp add: executeEngineeringTask_def)

lemma loop_result_done:
  assumes "1 \<le> start_attempt opts" "start_attempt opts \<le> task_attempts task"
  shows "attempts_done C K W task envelope (task_attempts task) (start_attempt opts) (loop_result C K W task envelope opts emitter)"
proof -
  let ?done = "attempts_done C K W task envelope (task_attempts task) (start_attempt opts)"
  let ?st = "loop_start C task envelope opts emitter"
  have begun: "begun C K W task envelope (task_attempts task) (start_attempt opts) y"
    if "ee_AutoRepairAllowed y = ee_AutoRepairAllowed (lp_evidence ?st) \<and> ee_Attempts y = ee_Attempts (lp_evidence ?st)
        \<and> ee_Completed y = ee_Completed (lp_evidence ?st)" for y
    using that by (simp add: begun_def trail_def loop_start_def initial_evidence_def)
  show ?thesis
  proof (cases "begin_execution C W ?st")
    case (Inl q)
    then obtain x st where "begin_execution C W ?st = Inl (x, st)" by (cases q) auto
    with begun [OF begin_execution_keeps(2) [OF this]] begun_bounded assms begin_execution_keeps(2) [OF this] show ?thesis
      by (simp add: loop_result_def and_then_def attempts_done_def loop_start_def initial_evidence_def)
  next
    case (Inr st)
    note keeps = begin_execution_keeps(1) [OF Inr]
    have "?done (attempts C K W task envelope duration (task_attempts task) (nat (task_attempts task - start_attempt opts + 1)) (start_attempt opts) st)" for duration
      using begun [OF keeps] keeps assms by (intro attempts_bounded) (auto simp: loop_start_def initial_evidence_def)
    then show ?thesis
      unfolding loop_result_def Inr by (auto simp: and_then_def split: sum.split dest: finish_execution_done) (metis finish_execution_done)+
  qed
qed

lemma newEmitter_fields:
  assumes "newEngineeringProgressEmitter H envelope task opts files = Some emitter"
  shows "em_files emitter = files" "em_task emitter = task" "em_envelope emitter = envelope" "engineeringCheckpointStoreDir H opts = Some (em_dir emitter)"
  using assms by (auto simp: newEngineeringProgressEmitter_def split: option.splits)

lemma loop_result_ok:
  assumes "newEngineeringProgressEmitter H envelope task opts files = Some emitter" "1 \<le> start_attempt opts" "start_attempt opts \<le> task_attempts task"
  shows "leaves (loop_ok C (task_attempts task) files emitter) (\<lambda>st. st) (loop_result C K W task envelope opts emitter)"
proof -
  have "loop_ok C (task_attempts task) files emitter (loop_start C task envelope opts emitter)"
    using newEmitter_fields [OF assms(1)] by (auto simp: loop_ok_def loop_start_def files_extend_def)
  then show ?thesis
    unfolding loop_result_def using assms(2,3)
    by (auto intro!: leaves_and_then [where g = "\<lambda>s. s"] begin_execution_ok attempts_ok finish_execution_ok)
qed

lemma execution_files:
  assumes "engineeringTaskFromEnvelope strict envelope = Some task" "isEngineeringRepairAdapter (env_Adapter envelope)"
    and "executeEngineeringTask C K strict H W envelope opts files = (r, files')" "files p = None" "files' p = Some x"
  shows "\<exists>e ck. x = HoldsCheckpoint ck \<and> checkpoint_good C e (task_attempts task) p ck \<and> em_envelope e = envelope \<and> em_task e = task
    \<and> engineeringCheckpointStoreDir H opts = Some (em_dir e)"
proof -
  have new: ?thesis if "newEngineeringProgressEmitter H envelope task opts files = Some emitter"
      "loop_ok C (task_attempts task) files emitter st" "files' = em_files (lp_emitter st)" for emitter st
  proof -
    note e = newEmitter_fields [OF that(1)]
    have "\<exists>ck. x = HoldsCheckpoint ck \<and> checkpoint_good C (lp_emitter st) (task_attempts task) p ck"
      using that(2) assms(4,5) unfolding that(3) loop_ok_def files_extend_def by (metis option.distinct(1) option.inject)
    with e that(2) show ?thesis by (intro exI [of _ "lp_emitter st"]) (simp add: loop_ok_def)
  qed
  obtain content evidence failure where outcome: "engineering_outcome C K H W task envelope opts files = (((content, evidence), failure), files')"
  proof -
    obtain content evidence failure files1 where o: "engineering_outcome C K H W task envelope opts files = (((content, evidence), failure), files1)"
      by (metis surj_pair)
    then show thesis using that executes_outcome [OF assms(1,2) o] assms(3) by simp
  qed
  then show ?thesis
  proof (cases rule: execution_cases)
    case refused
    then show ?thesis using assms(4,5) by simp
  next
    case (stop y st emitter)
    with loop_result_ok [OF stop(1-3), of C K W] show ?thesis by (intro new [OF stop(1)]) auto
  next
    case (final st emitter)
    with loop_result_ok [OF final(1-3), of C K W] show ?thesis by (intro new [OF final(1)]) auto
  qed
qed

lemma locator_valid:
  assumes "validateEngineeringCheckpointLocator taskID checkpointID = None"
  shows "TrimSpace taskID \<noteq> []" "checkpointID \<noteq> []" "TrimSpace checkpointID = checkpointID"
proof -
  let ?chars = "''abcdefghijklmnopqrstuvwxyz'' @ ''ABCDEFGHIJKLMNOPQRSTUVWXYZ'' @ ''0123456789_-''"
  have ok: "TrimSpace taskID \<noteq> []" "checkpointID \<noteq> []" "set checkpointID \<subseteq> set ?chars"
    using assms by (auto simp only: validateEngineeringCheckpointLocator_def list_all_iff option.distinct split: if_splits)
  then show "TrimSpace taskID \<noteq> []" "checkpointID \<noteq> []" by blast+
  have "list_all graphic ?chars" by (simp add: graphic_def)
  then have "\<forall>c \<in> set checkpointID. graphic c" using ok(3) by (auto simp only: list_all_iff)
  then show "TrimSpace checkpointID = checkpointID" using ok(2) by (intro TrimSpace_graphic) auto
qed

section \<open>Properties\<close>

text \<open>
  C32. The repair loop of an engineering task is bounded. Whatever the adapter does, an execution returns the
  last content of the adapter with the evidence of the loop attached, and that evidence lists one attempt
  after another from the start attempt on, each of them a run of the adapter on the envelope of that attempt,
  and no more than the task's attempts allow; every attempt but the last failed in a way that may be repeated,
  and a second attempt happens only when the task names no interrupt that requires a person. The execution
  succeeds only when the evidence says completed, and then its last attempt was verified.
\<close>

theorem engineering_attempts_bounded:
  assumes "engineeringTaskFromEnvelope strict envelope = Some task" "isEngineeringRepairAdapter (env_Adapter envelope)"
    and "engineering_outcome C K H W task envelope opts files = (((content, evidence), failure), files')"
  shows "executeEngineeringTask C K strict H W envelope opts files = ((attachEngineeringExecutionEvidence K content evidence, failure), files')
     \<and> trail C K W task envelope (task_attempts task) (start_attempt opts) (ee_Attempts evidence)
     \<and> length (ee_Attempts evidence) \<le> nat (task_attempts task - start_attempt opts + 1)
     \<and> (\<forall>ev \<in> set (butlast (ee_Attempts evidence)). retryableEngineeringAttempt ev)
     \<and> (length (ee_Attempts evidence) > 1 \<longrightarrow> env_InterruptsRequired envelope = [])
     \<and> (failure = None \<longrightarrow> ee_Completed evidence)
     \<and> (ee_Completed evidence \<longrightarrow> ee_Attempts evidence \<noteq> [] \<and> ea_Status (last (ee_Attempts evidence)) = ''verified'')"
  using assms(3)
proof (cases rule: execution_cases)
  case refused
  then show ?thesis by (simp add: executes_outcome [OF assms] trail_def)
next
  case (stop x st emitter)
  have "bounded_attempts C K W task envelope (task_attempts task) (start_attempt opts) (lp_evidence st)"
    using loop_result_done [OF stop(2,3), of C K W envelope emitter] by (simp add: attempts_done_def stop(4))
  with stop show ?thesis by (auto simp: executes_outcome [OF assms] bounded_attempts_def)
next
  case (final st emitter)
  have "bounded_attempts C K W task envelope (task_attempts task) (start_attempt opts) (lp_evidence st)" "ee_Completed (lp_evidence st) \<longleftrightarrow> lp_err st = None"
    using loop_result_done [OF final(2,3), of C K W envelope emitter] by (simp_all add: attempts_done_def final(4))
  with final show ?thesis by (auto simp: executes_outcome [OF assms] bounded_attempts_def)
qed

text \<open>
  C33. A task that stops can go on from each of its recoverable checkpoints. A recoverable checkpoint that an
  execution wrote is accepted when the same engineering task is run again on the same store, with a start
  attempt within the budget of the task, exactly when the base commit and the branch of the envelope that
  executed agree with the texts the task declares; otherwise it is refused.
\<close>

theorem recoverable_checkpoint_resumes:
  assumes "engineeringTaskFromEnvelope strict envelope = Some task" "isEngineeringRepairAdapter (env_Adapter envelope)"
    and "executeEngineeringTask C K strict H W envelope opts files = (r, files')" "files p = None" "files' p = Some (HoldsCheckpoint ck)"
    and "ck_Recoverable ck" "el_MaxAttempts (et_Limits task) < 2 ^ 63"
    and "engineeringTaskFromEnvelope strict again = Some task" "isEngineeringRepairAdapter (env_Adapter again)"
    and "engineeringCheckpointStoreDir H' opts' = engineeringCheckpointStoreDir H opts"
    and "op_ResumeCheckpointID opts' = ck_ID ck" "op_ResumeSourceTaskID opts' = env_TaskID envelope"
  shows "if (TrimSpace (ew_BaseSHA (et_Workspace task)) = [] \<or> tw_BaseSHA (env_Workspace envelope) \<in> {[], TrimSpace (ew_BaseSHA (et_Workspace task))})
            \<and> (TrimSpace (ew_Branch (et_Workspace task)) = [] \<or> tw_Branch (env_Workspace envelope) \<in> {[], TrimSpace (ew_Branch (et_Workspace task))})
     then \<exists>start. prepareEngineeringResume C strict H' again opts' files' =
            Inr (opts'\<lparr>op_engineeringResume := Some \<lparr>er_Checkpoint = ck, er_SourceTaskID = env_TaskID envelope, er_StartAttempt = start\<rparr>\<rparr>)
          \<and> 1 \<le> start \<and> start \<le> task_attempts task
     else \<exists>e. prepareEngineeringResume C strict H' again opts' files' = Inl e"
proof -
  obtain e where good: "checkpoint_good C e (task_attempts task) p ck" and e: "em_envelope e = envelope" "em_task e = task"
      "engineeringCheckpointStoreDir H opts = Some (em_dir e)"
    using execution_files [OF assms(1-5)] by blast
  note ck = good [unfolded checkpoint_good_def e]
  have locator: "TrimSpace (env_TaskID envelope) \<noteq> []" "ck_ID ck \<noteq> []" "TrimSpace (ck_ID ck) = ck_ID ck"
    using locator_valid [of "env_TaskID envelope" "ck_ID ck"] ck by metis+
  have load: "checkpoint_Load C (em_dir e) (env_TaskID envelope) (ck_ID ck) files' = Inr ck"
    using ck assms(5) by (auto simp: checkpoint_Load_def)
  have budget: "1 \<le> task_attempts task" "task_attempts task < 2 ^ 63" using assms(7) by (auto simp: task_attempts_def)
  obtain start where start: "engineeringResumeStartAttempt ck = Inr start" "1 \<le> start" "start \<le> task_attempts task"
    using resumable_start [of "task_attempts task" ck] ck assms(6) budget by auto
  have "prepareEngineeringResume C strict H' again opts' files' =
      (if TrimSpace (ew_BaseSHA (et_Workspace task)) \<noteq> [] \<and> ck_BaseSHA ck \<noteq> [] \<and> ck_BaseSHA ck \<noteq> TrimSpace (ew_BaseSHA (et_Workspace task))
       then Inl ''engineering resume checkpoint does not match the task base SHA''
       else if TrimSpace (ew_Branch (et_Workspace task)) \<noteq> [] \<and> ck_Branch ck \<noteq> [] \<and> ck_Branch ck \<noteq> TrimSpace (ew_Branch (et_Workspace task))
       then Inl ''engineering resume checkpoint does not match the task branch''
       else Inr (opts'\<lparr>op_engineeringResume := Some \<lparr>er_Checkpoint = ck, er_SourceTaskID = env_TaskID envelope, er_StartAttempt = start\<rparr>\<rparr>))"
    using assms(6,8-12) e(3) locator load ck start(1) by (simp add: prepareEngineeringResume_def Let_def)
  with ck start(2,3) show ?thesis by auto
qed

section \<open>An execution\<close>

definition flat_crypto :: crypto where
  "flat_crypto = \<lparr>sha256_Sum256 = (\<lambda>_. ''aaaaaaaaaaaaaaaa''), ed25519_Sign = (\<lambda>_ _. []), ed25519_Verify = (\<lambda>_ _ _. False),
     ed25519_Public = (\<lambda>_. []), json_SignedTrustBundle = (\<lambda>_. None)\<rparr>"

definition no_codec :: artifact_codec where
  "no_codec = \<lparr>ac_Decode = (\<lambda>_. None), ac_Encode = (\<lambda>_. None), ac_Denial = (\<lambda>_. [])\<rparr>"

definition sample_envelope :: taskEnvelope where
  "sample_envelope = \<lparr>env_SchemaVersion = ''rdev.session-task.v1'', env_TaskID = ''t1'', env_AttemptID = ''a1'', env_EndpointID = ''e1'',
     env_EndpointIdentity = [], env_Adapter = ''codex'', env_Intent = ''fix'',
     env_Workspace = \<lparr>tw_Root = ''/w'', tw_WriteScope = [''a/b''], tw_Branch = [], tw_BaseSHA = ''0123abc'', tw_Isolation = ''git-worktree'', tw_DirtyPolicy = ''preserve''\<rparr>,
     env_Capabilities = [''codex.run''], env_Limits = \<lparr>rl_MaxDurationSeconds = 60, rl_MaxOutputBytes = 1024, rl_Network = ''deny''\<rparr>,
     env_Payload = Some [''engineering_task'' \<mapsto> GBool True], env_InterruptsRequired = [], env_SessionID = [], env_LeaseSecret = [], env_GatewayURL = []\<rparr>"

text \<open>The store of this host becomes unavailable after the first checkpoint.\<close>

definition sample_world :: "Time \<Rightarrow> loop_world" where
  "sample_world now = \<lparr>lw_Emit = (\<lambda>n. \<lparr>emi_Now = now, emi_Fault = (if n = 0 then SaveFine else FailMkdir), emi_Delivered = True\<rparr>),
     lw_Context = (\<lambda>_ _. None), lw_Execute = (\<lambda>_ _. ([], None)), lw_Inspect = None\<rparr>"

definition sample_runner :: runner_host where
  "sample_runner = \<lparr>rh_files = \<lparr>hf_nodes = Map.empty, hf_walk = (\<lambda>_. None), hf_home = None, hf_cwd = None\<rparr>, rh_cacheDir = None, rh_tempDir = ''/tmp''\<rparr>"

definition sample_options :: Options where
  "sample_options = \<lparr>op_IdentityFingerprint = [], op_ToolchainRoot = [], op_WorkspaceLockStore = [], op_WorkspaceLockTTL = 0, op_CaptureRuntimeFixture = False,
     op_EngineeringCheckpointStore = [], op_HasReporter = False, op_ResumeCheckpointID = [], op_ResumeSourceTaskID = [], op_engineeringResume = None\<rparr>"

lemma sample_envelope_task: "engineeringTaskFromEnvelope (\<lambda>_. Some sample_task) sample_envelope = Some sample_task"
  by (simp add: engineeringTaskFromEnvelope_def sample_envelope_def payload_get_def sample_task_decodes)

lemma sample_envelope_adapter: "isEngineeringRepairAdapter (env_Adapter sample_envelope)"
  by (simp add: isEngineeringRepairAdapter_def sample_envelope_def)

lemma sample_budget: "task_attempts sample_task = 1" "start_attempt sample_options = 1"
  by (simp_all add: task_attempts_def start_attempt_def sample_options_def sample_task_def)

definition sample_dir :: string where
  "sample_dir = the (engineeringCheckpointStoreDir sample_runner sample_options)"

definition sample_checkpoint :: "Time \<Rightarrow> EngineeringCheckpoint" where
  "sample_checkpoint now = checkpoint_of flat_crypto now sample_task sample_envelope
     (progress_of flat_crypto EngineeringPhaseInspect 0
       ''Host project context inspection is unavailable; the coding adapter must inspect the declared workspace directly.'' [] True [] sample_envelope)"

lemma sample_store: "engineeringCheckpointStoreDir sample_runner sample_options = Some sample_dir"
  by (simp add: sample_dir_def engineeringCheckpointStoreDir_def sample_runner_def sample_options_def Let_def)

lemma sample_checkpoint_ID: "ck_ID (sample_checkpoint now) = ''ecp_'' @ hex_EncodeToString ''aaaaaaaaaaaa''"
  by (simp add: sample_checkpoint_def checkpoint_of_def progress_of_def engineeringCheckpointID_def flat_crypto_def Let_def)

lemma sample_locator: "validateEngineeringCheckpointLocator ''t1'' (''ecp_'' @ hex_EncodeToString ''aaaaaaaaaaaa'') = None"
proof -
  have "TrimSpace ''t1'' = ''t1''" by (rule TrimSpace_graphic) (simp_all add: graphic_def)
  then show ?thesis
    by (simp add: validateEngineeringCheckpointLocator_def hex_EncodeToString_def hex_digit_def) 
qed

lemma flat_checkpoint_ID: "engineeringCheckpointID flat_crypto pg = ''ecp_'' @ hex_EncodeToString ''aaaaaaaaaaaa''"
  by (simp add: engineeringCheckpointID_def flat_crypto_def)

lemma sample_save:
  "checkpoint_Save flat_crypto dir SaveFine (sample_checkpoint now) Map.empty =
     (None, [checkpointPath flat_crypto dir ''t1'' (ck_ID (sample_checkpoint now)) \<mapsto> HoldsCheckpoint (sample_checkpoint now)])"
proof -
  have ids: "ck_TaskID (sample_checkpoint now) = ''t1''" by (simp add: sample_checkpoint_def checkpoint_of_def progress_of_def sample_envelope_def Let_def)
  show ?thesis using sample_locator unfolding checkpoint_Save_def ids sample_checkpoint_ID by (simp add: Let_def)
qed

lemma emit_unavailable:
  "emi_Fault X = FailMkdir \<Longrightarrow> \<exists>msg. emit C X phase attempt summary refs recoverable failureClass e = (Inl msg, e)"
  by (auto simp: emit_def checkpoint_Save_def Let_def split: option.splits)

lemma loop_emit_unavailable:
  "emi_Fault (lw_Emit W (length (em_progress (lp_emitter st)))) = FailMkdir \<Longrightarrow>
   \<exists>msg. loop_emit C W phase attempt summary refs recoverable failureClass st = Inl (msg, st)"
  using emit_unavailable [of "lw_Emit W (length (em_progress (lp_emitter st)))" C phase attempt summary refs recoverable failureClass "lp_emitter st"]
  by (auto simp: loop_emit_def)

lemma sample_run:
  "\<exists>r. executeEngineeringTask flat_crypto no_codec (\<lambda>_. Some sample_task) sample_runner (sample_world now) sample_envelope sample_options Map.empty =
     (r, [checkpointPath flat_crypto sample_dir ''t1'' (ck_ID (sample_checkpoint now)) \<mapsto> HoldsCheckpoint (sample_checkpoint now)])"
proof -
  let ?files = "[checkpointPath flat_crypto sample_dir ''t1'' (ck_ID (sample_checkpoint now)) \<mapsto> HoldsCheckpoint (sample_checkpoint now)]"
  let ?e = "\<lparr>em_envelope = sample_envelope, em_task = sample_task, em_dir = sample_dir, em_reporter = False, em_progress = [],
            em_deliveryFailures = 0, em_files = Map.empty\<rparr>"
  have emitter: "newEngineeringProgressEmitter sample_runner sample_envelope sample_task sample_options Map.empty = Some ?e"
    by (simp add: newEngineeringProgressEmitter_def sample_store) (simp add: sample_options_def)
  let ?st = "loop_start flat_crypto sample_task sample_envelope sample_options ?e"
  have auto': "ee_AutoRepairAllowed (lp_evidence ?st)" by (simp add: loop_start_def initial_evidence_def sample_envelope_def)
  have world: "emi_Now (lw_Emit (sample_world now) 0) = now" "emi_Fault (lw_Emit (sample_world now) 0) = SaveFine"
    "emi_Fault (lw_Emit (sample_world now) 1) = FailMkdir" "lw_Inspect (sample_world now) = None" by (simp_all add: sample_world_def)
  have "\<exists>x e'. emit flat_crypto (lw_Emit (sample_world now) 0) EngineeringPhaseInspect 0
      ''Host project context inspection is unavailable; the coding adapter must inspect the declared workspace directly.'' [] True [] ?e = (Inr x, e')
      \<and> em_files e' = ?files \<and> length (em_progress e') = 1"
    by (simp add: emit_def Let_def world sample_save flip: sample_checkpoint_def)
  then obtain x e' where first: "emit flat_crypto (lw_Emit (sample_world now) 0) EngineeringPhaseInspect 0
      ''Host project context inspection is unavailable; the coding adapter must inspect the declared workspace directly.'' [] True [] ?e = (Inr x, e')"
      "em_files e' = ?files" "length (em_progress e') = 1" by blast
  have none: "engineeringArtifactRef flat_crypto k [] = []" for k by (simp add: engineeringArtifactRef_def Let_def)
  let ?began = "?st\<lparr>lp_evidence := (lp_evidence ?st)\<lparr>ee_Inspection := inspectEngineeringWorkspace flat_crypto None\<rparr>\<rparr>"
  let ?noted = "note_progress (?began\<lparr>lp_emitter := e'\<rparr>)"
  have inspected: "in_Status (inspectEngineeringWorkspace flat_crypto None) = ''unavailable''" "in_ArtifactSHA256 (inspectEngineeringWorkspace flat_crypto None) = []"
    by (simp_all add: inspectEngineeringWorkspace_def Let_def)
  have e: "lp_emitter ?began = ?e" by (simp add: loop_start_def)
  have one: "loop_emit flat_crypto (sample_world now) EngineeringPhaseInspect 0
      ''Host project context inspection is unavailable; the coding adapter must inspect the declared workspace directly.'' [] True [] ?began = Inr ?noted"
    unfolding loop_emit_def e using first(1) by simp
  have "emi_Fault (lw_Emit (sample_world now) (length (em_progress (lp_emitter ?noted)))) = FailMkdir" using first(3) world(3) by simp
  then have two: "\<exists>msg. loop_emit flat_crypto (sample_world now) phase attempt summary refs recoverable failureClass ?noted = Inl (msg, ?noted)"
    for phase attempt summary refs recoverable failureClass by (rule loop_emit_unavailable)
  have stop: "\<exists>msg. begin_execution flat_crypto (sample_world now) ?st = Inl (msg, ?noted)"
    using one two auto' by (simp add: begin_execution_def world inspected none and_then_def Let_def)
  have "\<exists>msg. loop_result flat_crypto no_codec (sample_world now) sample_task sample_envelope sample_options ?e = Inl (msg, ?noted)"
    using stop by (auto simp: loop_result_def and_then_def)
  then obtain msg where result': "loop_result flat_crypto no_codec (sample_world now) sample_task sample_envelope sample_options ?e = Inl (msg, ?noted)" ..
  obtain content evidence failure where "engineering_outcome flat_crypto no_codec sample_runner (sample_world now) sample_task sample_envelope
      sample_options Map.empty = (((content, evidence), failure), ?files)"
    using outcomeLoop [OF emitter, of flat_crypto no_codec "sample_world now"] first(2)
    by (simp add: result' sample_budget stopForCheckpointError_def)
  from executes_outcome [OF sample_envelope_task sample_envelope_adapter this] show ?thesis by blast
qed

text \<open>
  An execution with two attempts: the adapter exits with 1 at first, and the repair attempt is verified.
\<close>

definition two_attempts :: EngineeringTask where
  "two_attempts = sample_task\<lparr>et_Limits := (et_Limits sample_task)\<lparr>el_MaxAttempts := 2\<rparr>\<rparr>"

definition repair_envelope :: taskEnvelope where
  "repair_envelope = sample_envelope\<lparr>env_Payload := Some [''engineering_task'' \<mapsto> task_value two_attempts]\<rparr>"

definition repair_codec :: artifact_codec where
  "repair_codec = \<lparr>ac_Decode = (\<lambda>s. if s = ''exit 1'' then Some [''codex_command'' \<mapsto> GMap [''exit_code'' \<mapsto> GInt 1]] else None),
     ac_Encode = (\<lambda>_. Some ''{}''), ac_Denial = (\<lambda>_. [])\<rparr>"

definition repair_world :: loop_world where
  "repair_world = \<lparr>lw_Emit = (\<lambda>_. \<lparr>emi_Now = 5, emi_Fault = SaveFine, emi_Delivered = True\<rparr>), lw_Context = (\<lambda>_ _. None),
     lw_Execute = (\<lambda>n _. if n = 1 then (''exit 1'', Some (ExecText ''exit status 1'')) else (''ok'', None)), lw_Inspect = None\<rparr>"

lemma repair_task: "engineeringTaskFromEnvelope struct_decoder repair_envelope = Some two_attempts"
proof -
  obtain fs where "task_value two_attempts = GStruct fs" "struct_task fs = Some two_attempts" using struct_task_value by blast
  then show ?thesis by (simp add: engineeringTaskFromEnvelope_def repair_envelope_def payload_get_def)
qed

lemma repair_adapter: "isEngineeringRepairAdapter (env_Adapter repair_envelope)"
  using sample_envelope_adapter by (simp add: repair_envelope_def)

lemma repair_budget: "task_attempts two_attempts = 2" "start_attempt sample_options = 1"
  by (simp_all add: task_attempts_def two_attempts_def sample_budget)

text \<open>Every checkpoint of this run has the same identifier, so only the first one is written.\<close>

definition saving :: "loop_state \<Rightarrow> bool" where
  "saving st \<longleftrightarrow> env_TaskID (em_envelope (lp_emitter st)) = ''t1''
     \<and> (let i = ''ecp_'' @ hex_EncodeToString ''aaaaaaaaaaaa'' in
        case em_files (lp_emitter st) (checkpointPath flat_crypto (em_dir (lp_emitter st)) ''t1'' i) of
          None \<Rightarrow> True
        | Some (HoldsCheckpoint ck) \<Rightarrow> ck_ID ck = i \<and> ck_TaskID ck = ''t1''
        | Some NoCheckpoint \<Rightarrow> False)"

lemma saving_emit:
  assumes "saving st"
  shows "\<exists>st'. loop_emit flat_crypto repair_world phase attempt summary refs recoverable failureClass st = Inr st' \<and> saving st'"
proof -
  let ?e = "lp_emitter st" and ?i = "''ecp_'' @ hex_EncodeToString ''aaaaaaaaaaaa''"
  let ?ck = "checkpoint_of flat_crypto 5 (em_task ?e) (em_envelope ?e)
    (progress_of flat_crypto phase attempt summary refs recoverable failureClass (em_envelope ?e))"
  let ?path = "checkpointPath flat_crypto (em_dir ?e) ''t1'' ?i"
  have ids: "ck_ID ?ck = ?i" "ck_TaskID ?ck = ''t1''"
    using assms by (simp_all add: checkpoint_of_def progress_of_def flat_checkpoint_ID Let_def saving_def)
  have "\<exists>files. checkpoint_Save flat_crypto (em_dir ?e) SaveFine ?ck (em_files ?e) = (None, files)
      \<and> (\<exists>ck. files ?path = Some (HoldsCheckpoint ck) \<and> ck_ID ck = ?i \<and> ck_TaskID ck = ''t1'')"
    using assms sample_locator unfolding checkpoint_Save_def ids
    by (auto simp: Let_def ids saving_def split: option.split checkpoint_content.split)
  then obtain files ck where save: "checkpoint_Save flat_crypto (em_dir ?e) SaveFine ?ck (em_files ?e) = (None, files)"
      "files ?path = Some (HoldsCheckpoint ck)" "ck_ID ck = ?i" "ck_TaskID ck = ''t1''" by blast
  have world: "emi_Now (lw_Emit repair_world n) = 5" "emi_Fault (lw_Emit repair_world n) = SaveFine" for n by (simp_all add: repair_world_def)
  show ?thesis
    using assms save by (simp add: loop_emit_def emit_def Let_def world saving_def note_progress_def)
qed

lemma saving_frame [simp]:
  "saving (st\<lparr>lp_previous := d\<rparr>) = saving st" "saving (st\<lparr>lp_evidence := x\<rparr>) = saving st"
  "saving (st\<lparr>lp_final := content\<rparr>) = saving st" "saving (st\<lparr>lp_err := failure\<rparr>) = saving st"
  "saving (stopped reason' st) = saving st"
  by (simp_all add: saving_def stopped_def)

lemma saving_emits:
  assumes "saving st"
  shows "\<exists>st'. and_then (loop_emit flat_crypto repair_world phase attempt summary refs recoverable failureClass st)
      (\<lambda>st1. loop_emit flat_crypto repair_world phase' attempt' summary' (refs' st1) recoverable' failureClass' st1) = Inr st' \<and> saving st'"
proof -
  obtain st1 where "loop_emit flat_crypto repair_world phase attempt summary refs recoverable failureClass st = Inr st1" "saving st1"
    using saving_emit [OF assms] by blast
  with saving_emit [OF this(2)] show ?thesis by (simp add: and_then_def)
qed

lemma repair_statuses:
  "ea_Status (summarizeEngineeringAttempt flat_crypto repair_codec 1 ''codex'' ''exit 1'' (Some (ExecText ''exit status 1''))) = ''adapter_failed''"
  "ea_Status (summarizeEngineeringAttempt flat_crypto repair_codec 2 ''codex'' ''ok'' None) = ''verified''"
  by (simp_all add: summarizeEngineeringAttempt_def attempt_record_def repair_codec_def engineeringCommandFromArtifact_def engineeringInt_def
      engineeringBool_def engineeringCodingCommandKey_def engineeringAttemptCanceled_def engineeringAttemptTimedOut_def
      engineeringVerificationFailure_def diagnosed_def Let_def)

lemma repair_codex: "env_Adapter repair_envelope = ''codex''"
  by (simp add: repair_envelope_def sample_envelope_def)

lemma first_attempt:
  assumes "saving st" "ee_AutoRepairAllowed (lp_evidence st)" "ee_Attempts (lp_evidence st) = []"
  shows "\<exists>st'. attempts flat_crypto repair_codec repair_world two_attempts repair_envelope duration 2 (Suc n) 1 st
      = attempts flat_crypto repair_codec repair_world two_attempts repair_envelope duration 2 n 2 st'
    \<and> saving st' \<and> map ea_Status (ee_Attempts (lp_evidence st')) = [''adapter_failed'']"
proof -
  let ?emit = "loop_emit flat_crypto repair_world"
  let ?ev = "summarizeEngineeringAttempt flat_crypto repair_codec 1 ''codex'' ''exit 1'' (Some (ExecText ''exit status 1''))"
  obtain st1 where st1: "?emit EngineeringPhaseEdit 1 ''Coding adapter execution started inside the declared task workspace.'' [] True [] st = Inr st1" "saving st1"
    using saving_emit [OF assms(1)] by blast
  let ?st2 = "st1\<lparr>lp_final := ''exit 1'', lp_err := Some (ExecText ''exit status 1''),
     lp_evidence := (lp_evidence st1)\<lparr>ee_Attempts := [?ev]\<rparr>\<rparr>"
  note k1 = loop_emit_keeps [OF st1(1)]
  have run: "run_adapter flat_crypto repair_codec repair_world two_attempts repair_envelope 2 1 st1 = (?st2, ?ev)"
    using k1 assms(3) by (simp add: run_adapter_def repair_world_def repair_codex Let_def)
  have retry: "retryableEngineeringAttempt ?ev" by (simp add: retryableEngineeringAttempt_def repair_statuses)
  have s2: "saving ?st2" using st1(2) by simp
  obtain st3 where st3: "?emit EngineeringPhaseVerify 1 (dg_Summary (ea_Diagnosis ?ev)) (engineeringAttemptArtifactRefs flat_crypto ?ev) True
      (engineeringFailureClassFromAttempt ?ev) ?st2 = Inr st3" "saving st3" using saving_emit [OF s2] by blast
  note k3 = loop_emit_keeps [OF st3(1)]
  have s3: "saving (st3\<lparr>lp_previous := ea_Diagnosis ?ev\<rparr>)" using st3(2) by simp
  obtain st4 where st4: "?emit EngineeringPhaseDiagnose 1 (dg_Summary (ea_Diagnosis ?ev)) (engineeringAttemptArtifactRefs flat_crypto ?ev) True
      (engineeringFailureClassFromAttempt ?ev) (st3\<lparr>lp_previous := ea_Diagnosis ?ev\<rparr>) = Inr st4" "saving st4"
    using saving_emit [OF s3] by blast
  note k4 = loop_emit_keeps [OF st4(1)]
  obtain st5 where st5: "?emit EngineeringPhaseRepair 2
      ''A bounded repair attempt will review the existing isolated worktree and rerun only declared verification.''
      (engineeringAttemptArtifactRefs flat_crypto ?ev) True (engineeringFailureClassFromAttempt ?ev) st4 = Inr st5" "saving st5"
    using saving_emit [OF st4(2)] by blast
  have "after_run flat_crypto repair_world 2 1 ?ev ?st2 = Inr (True, st5)"
    using k1 k3 k4 assms(2) retry st3(1) st4(1) st5(1) by (simp add: after_run_def and_then_def Let_def)
  moreover have "lw_Context repair_world duration 1 = None" by (simp add: repair_world_def)
  ultimately have "attempts flat_crypto repair_codec repair_world two_attempts repair_envelope duration 2 (Suc n) 1 st
      = attempts flat_crypto repair_codec repair_world two_attempts repair_envelope duration 2 n 2 st5"
    unfolding attempts.simps by (simp only: option.case and_then_def) (simp add: st1(1) assms(2) run)
  moreover have "map ea_Status (ee_Attempts (lp_evidence st5)) = [''adapter_failed'']"
    using loop_emit_keeps [OF st5(1)] k4 k3 by (simp add: repair_statuses)
  ultimately show ?thesis using st5(2) by (intro exI [of _ st5] conjI)
qed

lemma second_attempt:
  assumes "saving st" "map ea_Status (ee_Attempts (lp_evidence st)) = [''adapter_failed'']"
  shows "\<exists>st'. attempts flat_crypto repair_codec repair_world two_attempts repair_envelope duration 2 (Suc n) 2 st = Inr st'
    \<and> saving st' \<and> map ea_Status (ee_Attempts (lp_evidence st')) = [''adapter_failed'', ''verified'']"
proof -
  let ?emit = "loop_emit flat_crypto repair_world"
  let ?ev = "summarizeEngineeringAttempt flat_crypto repair_codec 2 ''codex'' ''ok'' None"
  obtain st1 where st1: "?emit EngineeringPhaseEdit 2 ''Coding adapter execution started inside the declared task workspace.'' [] False [] st = Inr st1" "saving st1"
    using saving_emit [OF assms(1)] by blast
  note k1 = loop_emit_keeps [OF st1(1)]
  let ?st2 = "st1\<lparr>lp_final := ''ok'', lp_err := None, lp_evidence := (lp_evidence st1)\<lparr>ee_Attempts := ee_Attempts (lp_evidence st1) @ [?ev]\<rparr>\<rparr>"
  have run: "run_adapter flat_crypto repair_codec repair_world two_attempts repair_envelope 2 2 st1 = (?st2, ?ev)"
    by (simp add: run_adapter_def repair_world_def repair_codex Let_def)
  have s2: "saving ?st2" using st1(2) by simp
  obtain st3 where st3: "?emit EngineeringPhaseVerify 2 (dg_Summary (ea_Diagnosis ?ev)) (engineeringAttemptArtifactRefs flat_crypto ?ev) False
      (engineeringFailureClassFromAttempt ?ev) ?st2 = Inr st3" "saving st3" using saving_emit [OF s2] by blast
  note k3 = loop_emit_keeps [OF st3(1)]
  let ?st4 = "(stopped ''verification_passed'' st3)\<lparr>lp_evidence := (lp_evidence (stopped ''verification_passed'' st3))\<lparr>ee_Completed := True\<rparr>\<rparr>"
  have "after_run flat_crypto repair_world 2 2 ?ev ?st2 = Inr (False, ?st4)"
    using k3 st3(1) by (simp add: after_run_def and_then_def Let_def retryableEngineeringAttempt_def repair_statuses)
  moreover have "lw_Context repair_world duration 2 = None" by (simp add: repair_world_def)
  ultimately have "attempts flat_crypto repair_codec repair_world two_attempts repair_envelope duration 2 (Suc n) 2 st = Inr ?st4"
    unfolding attempts.simps by (simp only: option.case and_then_def) (simp add: st1(1) run)
  moreover have "map ea_Status (ee_Attempts (lp_evidence ?st4)) = [''adapter_failed'', ''verified'']"
    using k3 k1 assms(2) by (simp add: stopped_def repair_statuses)
  moreover have "saving ?st4" using st3(2) by simp
  ultimately show ?thesis by (intro exI [of _ ?st4] conjI)
qed

lemma repair_run:
  "\<exists>content evidence failure files'. engineering_outcome flat_crypto repair_codec sample_runner repair_world two_attempts repair_envelope sample_options Map.empty
     = (((content, evidence), failure), files') \<and> map ea_Status (ee_Attempts evidence) = [''adapter_failed'', ''verified'']"
proof -
  let ?e = "\<lparr>em_envelope = repair_envelope, em_task = two_attempts, em_dir = sample_dir, em_reporter = False, em_progress = [],
            em_deliveryFailures = 0, em_files = Map.empty\<rparr>"
  have emitter: "newEngineeringProgressEmitter sample_runner repair_envelope two_attempts sample_options Map.empty = Some ?e"
    by (simp add: newEngineeringProgressEmitter_def sample_store) (simp add: sample_options_def)
  let ?st = "loop_start flat_crypto two_attempts repair_envelope sample_options ?e"
  let ?began = "?st\<lparr>lp_evidence := (lp_evidence ?st)\<lparr>ee_Inspection := inspectEngineeringWorkspace flat_crypto (lw_Inspect repair_world)\<rparr>\<rparr>"
  have "saving ?began" by (simp add: saving_def loop_start_def repair_envelope_def sample_envelope_def)
  then have "\<exists>st1. begin_execution flat_crypto repair_world ?st = Inr st1 \<and> saving st1"
    unfolding begin_execution_def Let_def by (rule saving_emits)
  then obtain st1 where st1: "begin_execution flat_crypto repair_world ?st = Inr st1" "saving st1" by blast
  have "ee_AutoRepairAllowed (lp_evidence st1)" "ee_Attempts (lp_evidence st1) = []"
    using begin_execution_keeps(1) [OF st1(1)]
    by (simp_all add: loop_start_def initial_evidence_def repair_envelope_def sample_envelope_def)
  note auto' = this
  obtain st2 where st2: "attempts flat_crypto repair_codec repair_world two_attempts repair_envelope 60 2 (Suc (Suc 0)) 1 st1
        = attempts flat_crypto repair_codec repair_world two_attempts repair_envelope 60 2 (Suc 0) 2 st2"
      "saving st2" "map ea_Status (ee_Attempts (lp_evidence st2)) = [''adapter_failed'']"
    using first_attempt [OF st1(2) auto', of 60 "Suc 0"] by (elim exE conjE) (rule that)
  obtain st3 where st3: "attempts flat_crypto repair_codec repair_world two_attempts repair_envelope 60 2 (Suc 0) 2 st2 = Inr st3"
      "saving st3" "map ea_Status (ee_Attempts (lp_evidence st3)) = [''adapter_failed'', ''verified'']"
    using second_attempt [OF st2(2,3), of 60 0] by (elim exE conjE) (rule that)
  have "saving (if ee_StoppedReason (lp_evidence st3) = [] then stopped ''attempt_limit_reached'' st3 else st3)" using st3(2) by simp
  from saving_emit [OF this] obtain st4 where st4: "finish_execution flat_crypto repair_world st3 = Inr st4"
    unfolding finish_execution_def Let_def by blast
  have "ee_Attempts (lp_evidence st4) = ee_Attempts (lp_evidence st3)"
    using st4 unfolding finish_execution_def Let_def by (auto dest!: loop_emit_keeps simp: stopped_def)
  moreover have "loop_result flat_crypto repair_codec repair_world two_attempts repair_envelope sample_options ?e = Inr st4"
    using st1(1) st2(1) st3(1) st4
    by (simp add: loop_result_def and_then_def repair_budget numeral_2_eq_2 del: attempts.simps)
      (simp add: repair_envelope_def sample_envelope_def)
  ultimately show ?thesis
    using outcomeLoop [OF emitter, of flat_crypto repair_codec repair_world] st3(3) by (simp add: repair_budget)
qed

theorem engineering_attempts_bounded_witness:
  "\<exists>content evidence failure files'.
     executeEngineeringTask flat_crypto repair_codec struct_decoder sample_runner repair_world repair_envelope sample_options Map.empty
       = ((attachEngineeringExecutionEvidence repair_codec content evidence, failure), files')
     \<and> map ea_Status (ee_Attempts evidence) = [''adapter_failed'', ''verified''] \<and> map ea_Attempt (ee_Attempts evidence) = [1, 2]
     \<and> retryableEngineeringAttempt (hd (ee_Attempts evidence))"
proof -
  obtain content evidence failure files' where run: "engineering_outcome flat_crypto repair_codec sample_runner repair_world two_attempts repair_envelope
      sample_options Map.empty = (((content, evidence), failure), files')"
    and two: "map ea_Status (ee_Attempts evidence) = [''adapter_failed'', ''verified'']"
    using repair_run by (elim exE conjE) (rule that)
  note bounded = engineering_attempts_bounded [OF repair_task repair_adapter run]
  obtain a b where ab: "ee_Attempts evidence = [a, b]" using two by (auto simp: map_eq_Cons_conv)
  then have "map ea_Attempt (ee_Attempts evidence) = [1, 2]" "retryableEngineeringAttempt (hd (ee_Attempts evidence))"
    using bounded by (simp_all add: trail_def repair_budget upt_rec)
  with bounded two show ?thesis by (intro exI conjI) (assumption | rule conjunct1)+
qed

theorem recoverable_checkpoint_resumes_witness:
  "\<exists>files' start. prepareEngineeringResume flat_crypto (\<lambda>_. Some sample_task) sample_runner sample_envelope
       (sample_options\<lparr>op_ResumeCheckpointID := ck_ID (sample_checkpoint 5), op_ResumeSourceTaskID := ''t1''\<rparr>) files' =
     Inr (sample_options\<lparr>op_ResumeCheckpointID := ck_ID (sample_checkpoint 5), op_ResumeSourceTaskID := ''t1'',
       op_engineeringResume := Some \<lparr>er_Checkpoint = sample_checkpoint 5, er_SourceTaskID = ''t1'', er_StartAttempt = start\<rparr>\<rparr>)
     \<and> 1 \<le> start \<and> start \<le> task_attempts sample_task"
proof -
  let ?opts = "sample_options\<lparr>op_ResumeCheckpointID := ck_ID (sample_checkpoint 5), op_ResumeSourceTaskID := ''t1''\<rparr>"
  obtain r files' where run: "executeEngineeringTask flat_crypto no_codec (\<lambda>_. Some sample_task) sample_runner (sample_world 5) sample_envelope sample_options Map.empty = (r, files')"
    and files': "files' (checkpointPath flat_crypto sample_dir ''t1'' (ck_ID (sample_checkpoint 5))) = Some (HoldsCheckpoint (sample_checkpoint 5))"
    using sample_run [of 5] by auto
  have ck: "ck_Recoverable (sample_checkpoint 5)" by (simp add: sample_checkpoint_def checkpoint_of_def progress_of_def Let_def)
  have small: "el_MaxAttempts (et_Limits sample_task) < 2 ^ 63" by (simp add: sample_task_def)
  have dir: "engineeringCheckpointStoreDir sample_runner ?opts = engineeringCheckpointStoreDir sample_runner sample_options"
    by (simp add: engineeringCheckpointStoreDir_def)
  have ids: "op_ResumeCheckpointID ?opts = ck_ID (sample_checkpoint 5)" "op_ResumeSourceTaskID ?opts = env_TaskID sample_envelope"
    by (simp_all add: sample_envelope_def)
  have trim: "TrimSpace ''0123abc'' = ''0123abc''" by (rule TrimSpace_graphic) (simp_all add: graphic_def)
  have base: "tw_BaseSHA (env_Workspace sample_envelope) = TrimSpace (ew_BaseSHA (et_Workspace sample_task))" "tw_Branch (env_Workspace sample_envelope) = []"
    by (simp_all add: sample_envelope_def sample_task_def trim)
  have "env_TaskID sample_envelope = ''t1''" by (simp add: sample_envelope_def)
  then show ?thesis
    using recoverable_checkpoint_resumes [OF sample_envelope_task sample_envelope_adapter run _ files' ck small sample_envelope_task sample_envelope_adapter dir ids]
    by (auto simp: base)
qed

end
