(* ===== verification/Host_Runner.thy ===== *)
theory Host_Runner
  imports Engineering_Loop
begin

text \<open>
  Running a task on the host (RunSessionTaskWithOptionsContext of internal/hostrunner/runner.go): the checks
  before anything runs, the worktree or the lock, the execution, and what is made of its changes and its
  failure. The adapter processes and what they do to the machine are arguments. The lock of a workspace is
  given back at the end of the call; the lifecycle of a captured run may do so earlier, and the second
  release then does nothing.
\<close>

section \<open>The runner\<close>

record 'w runner =
  rn_machine :: "'w machine"
  rn_host :: runner_host
  rn_codec :: artifact_codec
  rn_crypto :: crypto
  rn_unicode :: unicode
  rn_strict :: "goval \<Rightarrow> EngineeringTask option"
  rn_Adapter :: "taskEnvelope \<Rightarrow> 'w \<Rightarrow> (string \<times> exec_error option) \<times> 'w"
  rn_Loop :: "taskEnvelope \<Rightarrow> 'w \<Rightarrow> loop_world \<times> 'w"

datatype run_error =
    DenialError DenialExplanation
  | ExecutionError exec_error
  | FinalizeError "exec_error option" worktree_error
  | SnapshotError "exec_error option" string

type_synonym 'w run_state = "'w host_state \<times> checkpoint_files"
type_synonym run_result = "string \<times> run_error option"

section \<open>Texts\<close>

definition exec_text :: "exec_error \<Rightarrow> string" where
  "exec_text failure = (case failure of CtxCanceled \<Rightarrow> ''context canceled'' | CtxDeadline \<Rightarrow> ''context deadline exceeded'' | ExecText t \<Rightarrow> t)"

definition lock_text :: "lock_error \<Rightarrow> string" where
  "lock_text e =
     (case e of
        LockTaskRequired \<Rightarrow> ''task id is required''
      | LockHostRequired \<Rightarrow> ''host id is required''
      | LockPath t \<Rightarrow> t
      | LockIO \<Rightarrow> ''workspace lock file''
      | LockNotExist \<Rightarrow> ''workspace lock file''
      | LockDecode \<Rightarrow> ''decode workspace lock''
      | LockSchema v \<Rightarrow> ''unsupported workspace lock schema''
      | ErrLocked \<Rightarrow> ''workspace locked''
      | ErrOwnerMismatch \<Rightarrow> ''workspace lock owner mismatch'')"

definition worktree_text :: "worktree_error \<Rightarrow> string" where
  "worktree_text e = (case e of WorktreeText t \<Rightarrow> t | WorktreeLock l \<Rightarrow> lock_text l)"

section \<open>Denials\<close>

definition denyTask :: "artifact_codec \<Rightarrow> taskRef \<Rightarrow> denialSpec \<Rightarrow> string \<Rightarrow> run_result" where
  "denyTask K task spec cause = (let explanation = explain task spec cause in (ac_Denial K explanation, Some (DenialError explanation)))"

definition preserveExecutionDenial :: "artifact_codec \<Rightarrow> string \<Rightarrow> taskRef \<Rightarrow> denialSpec \<Rightarrow> string \<Rightarrow> run_result" where
  "preserveExecutionDenial K content task spec cause =
     (let explanation = explain task spec cause in
      (case (if TrimSpace content \<noteq> [] then ac_Decode K content else None) of
         None \<Rightarrow> content
       | Some m \<Rightarrow>
           (case ac_Encode K ((map_option ArtifactValue \<circ> m)(''task_denial'' \<mapsto> ArtifactDenial explanation)) of
              None \<Rightarrow> content
            | Some encoded \<Rightarrow> encoded),
       Some (DenialError explanation)))"

definition workspaceLockDenial :: "worktree_error \<Rightarrow> denialSpec" where
  "workspaceLockDenial e =
     (if e = WorktreeLock ErrLocked
      then denial ''workspace_locked'' ''Workspace is already locked by another task.'' (worktree_text e) [] []
      else denial ''workspace_invalid'' ''Workspace lock could not be acquired.'' (worktree_text e) [] [])"

definition final_denial :: "string \<Rightarrow> string \<Rightarrow> string \<Rightarrow> string \<Rightarrow> denialSpec" where
  "final_denial code summary detail adapter = (denial code summary detail [] adapter)\<lparr>dn_Retryable := False\<rparr>"

definition scope_violation :: "string \<Rightarrow> string \<Rightarrow> denialSpec" where
  "scope_violation adapter detail = final_denial ''write_scope_violation'' ''Task changed files outside its declared write scope.'' detail adapter"

definition missing_capability :: "string \<Rightarrow> string \<Rightarrow> string \<Rightarrow> string \<Rightarrow> denialSpec" where
  "missing_capability missing detail hint adapter =
     (denial ''missing_capability'' (''Task is missing the '' @ missing @ '' capability.'') detail hint adapter)\<lparr>dn_Capability := missing\<rparr>"

section \<open>Before anything runs\<close>

text \<open>The checks of an envelope: the denial and its cause, or the options to run with and whether a worktree is wanted.\<close>

definition check_envelope :: "'w runner \<Rightarrow> taskEnvelope \<Rightarrow> Options \<Rightarrow> checkpoint_files \<Rightarrow> (denialSpec \<times> string) + (Options \<times> bool)" where
  "check_envelope R envelope opts files =
     (let adapter = env_Adapter envelope; missing = missingAdapterCapability (rn_unicode R) envelope;
          resumed = (if engineeringTaskFromEnvelope (rn_strict R) envelope = None then Inr opts
                     else prepareEngineeringResume (rn_crypto R) (rn_strict R) (rn_host R) envelope opts files) in
      if \<not> supportedAdapter adapter
      then Inl (denial ''unsupported_adapter'' ''Requested adapter is not supported by this host runner.''
             (''Adapter '' @ quoted adapter @ '' is not available in the current host runner.'') [] adapter, ''unsupported dev adapter '' @ quoted adapter)
      else if tw_Root (env_Workspace envelope) = [] \<and> adapterRequiresWorkspace adapter
      then Inl (denial ''workspace_required'' ''Workspace root is required for adapter execution.''
             ''Host adapters only run inside an explicit workspace root.''
             (''Add an absolute workspace_root to the task payload (required for every adapter, '' @ tl windows_example) adapter, ''workspace root is required'')
      else if missing \<noteq> []
      then Inl (missing_capability missing (''The host requires '' @ missing @ '' before running the '' @ adapter @ '' adapter.'')
             (''Add '' @ quoted missing @ '' to the task-level capabilities list (the session already authorizes it).'') adapter,
             ''missing '' @ missing @ '' capability'')
      else
        (case resumed of
           Inl e \<Rightarrow>
             Inl (final_denial ''resume_checkpoint_invalid'' ''Engineering task resume checkpoint is unavailable or does not match this task.''
               ''Request a fresh task or a checkpoint produced by the same bounded engineering task.'' adapter, e)
         | Inr opts' \<Rightarrow>
             (case wantsGitWorktree envelope of
                Inl e \<Rightarrow> Inl (final_denial ''workspace_invalid'' ''Task requested an unsupported workspace isolation policy.'' e adapter, e)
              | Inr wants \<Rightarrow>
                  if wants \<and> \<not> hasCapability (env_Capabilities envelope) ''git.diff''
                  then Inl (missing_capability ''git.diff'' ''Git worktree isolation requires git.diff before host-local Git commands may run.''
                         (''Add '' @ quoted ''git.diff'' @ '' to the task-level capabilities list.'') adapter, ''missing git.diff capability'')
                  else Inr (opts', wants))))"

definition preflight :: "'w runner \<Rightarrow> SessionTaskSpec \<Rightarrow> Options \<Rightarrow> checkpoint_files \<Rightarrow> (denialSpec \<times> string) + (taskEnvelope \<times> Options \<times> bool)" where
  "preflight R spec opts files =
     (case normalizeEngineeringSessionTaskSpec (rn_strict R) spec of
        Inl e \<Rightarrow> Inl (final_denial ''invalid_engineering_task'' ''Engineering task preflight failed on the host.'' e (sts_Adapter spec), e)
      | Inr normalized \<Rightarrow>
          (let envelope = sessionTaskEnvelope normalized in
           case check_envelope R envelope opts files of Inl d \<Rightarrow> Inl d | Inr (opts', wants) \<Rightarrow> Inr (envelope, opts', wants)))"

text \<open>The lock of the workspace, when there is a store and a root; what is to be released.\<close>

definition acquireWorkspaceLock ::
    "'w machine \<Rightarrow> string \<Rightarrow> taskEnvelope \<Rightarrow> Options \<Rightarrow> Time \<Rightarrow> 'w host_state \<Rightarrow> (lock_error + (string \<times> string) option) \<times> 'w host_state" where
  "acquireWorkspaceLock M hostID envelope opts now s =
     (let root = tw_Root (env_Workspace envelope) in
      if TrimSpace (op_WorkspaceLockStore opts) = [] \<or> TrimSpace root = [] then (Inr None, s)
      else
        (case lock_Acquire M (op_WorkspaceLockStore opts)
            \<lparr>lo_StoreDir = [], lo_RepoRoot = root, lo_HostID = hostID, lo_TaskID = env_TaskID envelope, lo_WorktreePath = root, lo_BaseRef = [],
             lo_Branch = tw_Branch (env_Workspace envelope), lo_OwnerAdapter = env_Adapter envelope,
             lo_TTL = (if op_WorkspaceLockTTL opts \<le> 0 then DefaultLockTTL else op_WorkspaceLockTTL opts)\<rparr> now s of
           (Inl e, s1) \<Rightarrow> (Inl e, s1)
         | (Inr lock, s1) \<Rightarrow> (Inr (Some (lk_RepoRoot lock, env_TaskID envelope)), s1)))"

definition releaseWorkspaceLock :: "'w machine \<Rightarrow> Options \<Rightarrow> (string \<times> string) option \<Rightarrow> 'w host_state \<Rightarrow> 'w host_state" where
  "releaseWorkspaceLock M opts held s =
     (case held of None \<Rightarrow> s | Some (repoRoot, taskID) \<Rightarrow> snd (lock_Release M (op_WorkspaceLockStore opts) repoRoot taskID False s))"

section \<open>The execution and after\<close>

definition execute_task ::
    "'w runner \<Rightarrow> taskEnvelope \<Rightarrow> Options \<Rightarrow> 'w run_state \<Rightarrow> (string \<times> exec_error option) \<times> 'w run_state" where
  "execute_task R envelope opts = (\<lambda>(s, files).
     if engineeringTaskFromEnvelope (rn_strict R) envelope \<noteq> None \<and> isEngineeringRepairAdapter (env_Adapter envelope) then
       (case rn_Loop R envelope (hs_world s) of
          (W, w) \<Rightarrow>
            (case executeEngineeringTask (rn_crypto R) (rn_codec R) (rn_strict R) (rn_host R) W envelope opts files of
               (r, files') \<Rightarrow> (r, (s\<lparr>hs_world := w\<rparr>, files'))))
     else (case rn_Adapter R envelope (hs_world s) of (r, w) \<Rightarrow> (r, (s\<lparr>hs_world := w\<rparr>, files))))"

definition attach_evidence :: "artifact_codec \<Rightarrow> string \<Rightarrow> string \<Rightarrow> artifact_field \<Rightarrow> string \<Rightarrow> string" where
  "attach_evidence K key schema evidence content =
     (let artifact =
        (case (if TrimSpace content \<noteq> [] then ac_Decode K content else None) of
           Some m \<Rightarrow> (map_option ArtifactValue \<circ> m)(key \<mapsto> evidence)
         | None \<Rightarrow> [''schema_version'' \<mapsto> ArtifactValue (GString schema), key \<mapsto> evidence])
      in case ac_Encode K artifact of None \<Rightarrow> content | Some encoded \<Rightarrow> encoded)"

definition attachGitWorktreeEvidence :: "artifact_codec \<Rightarrow> string \<Rightarrow> GitWorktreeEvidence \<Rightarrow> string" where
  "attachGitWorktreeEvidence K content evidence =
     attach_evidence K ''workspace_isolation'' ''rdev.workspace-isolation-result.v1'' (ArtifactIsolation evidence) content"

definition attachWorkspaceScopeEvidence :: "artifact_codec \<Rightarrow> string \<Rightarrow> WorkspaceScopeEvidence \<Rightarrow> string" where
  "attachWorkspaceScopeEvidence K content evidence =
     attach_evidence K ''workspace_scope'' ''rdev.workspace-scope-result.v1'' (ArtifactScope evidence) content"

definition finish_run :: "'w runner \<Rightarrow> taskRef \<Rightarrow> taskEnvelope \<Rightarrow> string \<Rightarrow> exec_error option \<Rightarrow> run_result" where
  "finish_run R ref envelope content failure =
     (case failure of
        None \<Rightarrow> (content, None)
      | Some e \<Rightarrow>
          (case adapterDenial (rn_unicode R) (env_Adapter envelope) (exec_text e) of
             Some d \<Rightarrow> preserveExecutionDenial (rn_codec R) content ref d (exec_text e)
           | None \<Rightarrow> (content, Some (ExecutionError e))))"

definition after_worktree ::
    "'w runner \<Rightarrow> taskRef \<Rightarrow> taskEnvelope \<Rightarrow> gitWorktreeLease \<Rightarrow> string \<times> exec_error option \<Rightarrow> 'w run_state \<Rightarrow> run_result \<times> 'w run_state" where
  "after_worktree R ref envelope lease = (\<lambda>(content, failure) (s, files).
     let M = rn_machine R; root = tw_Root (env_Workspace envelope); scope = tw_WriteScope (env_Workspace envelope);
         live = validateLiveWriteScope (machine_files M s) root scope in
     case finalize_worktree M lease (env_Payload envelope) s of
       ((finalizeErr, evidence), s1) \<Rightarrow>
         (let content1 = attachGitWorktreeEvidence (rn_codec R) content evidence;
              refuse = (\<lambda>t. preserveExecutionDenial (rn_codec R) content1 ref (scope_violation (env_Adapter envelope) t) t) in
          (case finalizeErr of
             Some e \<Rightarrow> (content1, Some (FinalizeError failure e))
           | None \<Rightarrow>
               (case live of
                  Some t \<Rightarrow> refuse t
                | None \<Rightarrow>
                    (case validateWorktreeWriteScope evidence root scope of
                       Some t \<Rightarrow> refuse t
                     | None \<Rightarrow> finish_run R ref envelope content1 failure)),
           (s1, files))))"

definition after_scope ::
    "'w runner \<Rightarrow> taskRef \<Rightarrow> taskEnvelope \<Rightarrow> workspaceScopeLease \<Rightarrow> string \<times> exec_error option \<Rightarrow> 'w run_state \<Rightarrow> run_result" where
  "after_scope R ref envelope lease = (\<lambda>(content, failure) (s, files).
     let M = rn_machine R; root = tw_Root (env_Workspace envelope); scope = tw_WriteScope (env_Workspace envelope) in
     case finalize_scope M lease s of
       Inl e \<Rightarrow>
         (let zero = \<lparr>wss_SchemaVersion = [], wss_Root = [], wss_Scopes = [], wss_FileCount = 0, wss_Truncated = False, wss_TreeSHA256 = [], wss_entries = None\<rparr> in
          (attachWorkspaceScopeEvidence (rn_codec R) content
             \<lparr>wse_SchemaVersion = [], wse_Before = zero, wse_After = zero, wse_Changed = False, wse_ChangedFiles = [], wse_ChangesTruncated = False, wse_DeclaredWriteScope = []\<rparr>,
           Some (SnapshotError failure e)))
     | Inr evidence \<Rightarrow>
         (let content1 = attachWorkspaceScopeEvidence (rn_codec R) content evidence in
          case validateWorkspaceScopeWriteScope (machine_files M s) evidence root scope of
            Some t \<Rightarrow> preserveExecutionDenial (rn_codec R) content1 ref (scope_violation (env_Adapter envelope) t) t
          | None \<Rightarrow> finish_run R ref envelope content1 failure))"

section \<open>The run\<close>

definition run_in_worktree ::
    "'w runner \<Rightarrow> taskRef \<Rightarrow> taskEnvelope \<Rightarrow> Options \<Rightarrow> gitWorktreeLease \<Rightarrow> 'w run_state \<Rightarrow> run_result \<times> 'w run_state" where
  "run_in_worktree R ref envelope opts lease st =
     (case execute_task R envelope opts st of (executed, st') \<Rightarrow> after_worktree R ref envelope lease executed st')"

definition run_in_place ::
    "'w runner \<Rightarrow> taskRef \<Rightarrow> taskEnvelope \<Rightarrow> Options \<Rightarrow> bool \<Rightarrow> 'w run_state \<Rightarrow> run_result \<times> 'w run_state" where
  "run_in_place R ref envelope opts wants = (\<lambda>(s, files).
     if wants then
       (case prepareWorkspaceScopeLease (rn_machine R) envelope s of
          Inl e \<Rightarrow> (denyTask (rn_codec R) ref (workspaceLockDenial (WorktreeText e)) e, (s, files))
        | Inr lease \<Rightarrow>
            if wss_Truncated (sl_before lease) \<and> sl_declaredWriteScope lease \<noteq> [] then
              (let t = ''non-Git workspace snapshot is truncated; cannot verify declared write scope'' in
               (denyTask (rn_codec R) ref (final_denial ''write_scope_unverifiable'' ''Task write scope cannot be verified for this workspace.'' t (env_Adapter envelope)) t,
                (s, files)))
            else
              (case execute_task R envelope opts (s, files) of
                 (executed, st) \<Rightarrow> (after_scope R ref envelope lease executed st, st)))
     else
       (case execute_task R envelope opts (s, files) of
          ((content, failure), st) \<Rightarrow> (finish_run R ref envelope content failure, st)))"

definition RunSessionTaskWithOptionsContext ::
    "'w runner \<Rightarrow> SessionTaskSpec \<Rightarrow> Time \<Rightarrow> Options \<Rightarrow> 'w run_state \<Rightarrow> run_result \<times> 'w run_state" where
  "RunSessionTaskWithOptionsContext R spec now opts0 = (\<lambda>(s, files).
     let M = rn_machine R; ref = \<lparr>tf_TaskID = sts_TaskID spec, tf_EndpointID = sts_EndpointID spec, tf_Adapter = sts_Adapter spec\<rparr> in
     case preflight R spec opts0 files of
       Inl (d, cause) \<Rightarrow> (denyTask (rn_codec R) ref d cause, (s, files))
     | Inr (envelope, opts, wants) \<Rightarrow>
         (case prepareGitWorktreeLease M (rn_host R) envelope opts now s of
            (Inl e, s1) \<Rightarrow> (denyTask (rn_codec R) ref (workspaceLockDenial e) (worktree_text e), (s1, files))
          | (Inr (Some (lease, isolated)), s1) \<Rightarrow> run_in_worktree R ref isolated opts lease (s1, files)
          | (Inr None, s1) \<Rightarrow>
              (case acquireWorkspaceLock M (sts_EndpointID spec) envelope opts now s1 of
                 (Inl e, s2) \<Rightarrow> (denyTask (rn_codec R) ref (workspaceLockDenial (WorktreeLock e)) (lock_text e), (s2, files))
               | (Inr held, s2) \<Rightarrow>
                   (case run_in_place R ref envelope opts wants (s2, files) of
                      (r, (s3, files')) \<Rightarrow> (r, (releaseWorkspaceLock M opts held s3, files'))))))"

end
