(* ===== verification/Host_Loop.thy ===== *)
theory Host_Loop
  imports Host_Runner Route_Pool
begin

text \<open>
  The loop of a host that has joined a session (internal/hostcmd/hostcmd.go): polling the events of the
  session, renewing the lease, fetching offered tasks, running them and reporting their results. What the pool
  of routes, the network, the clock and the random source answer are functions of the machine, so the loop is
  followed under every behaviour of them. A request is the values it is built from, and a reply is its status
  and its body; the JSON decoders are arguments. The retries of the transport below a request belong to the
  network.
\<close>

section \<open>Options and requests\<close>

record serveOptions =
  so_GatewayURL :: string
  so_Transport :: string
  so_PollInterval :: Duration
  so_LongPollTimeout :: Duration
  so_MaxTasks :: gint
  so_WorkspaceLockStore :: string
  so_CaptureRuntimeFixture :: bool
  so_CapabilityCeiling :: "string list"
  so_CapabilityCeilingSet :: bool

datatype gateway_request =
    GetEvents string string string string u64 gint Duration
  | GetTask string string string string string
  | PostResult string string string string string string payload
  | PostEvent string string string Event

text \<open>No request could be made, no answer came, or an answer with its status and, unless reading it failed, its body.\<close>

datatype gateway_answer = RequestInvalid string | NoResponse | Response gint "string option"

datatype fetch_error = TransientError | FetchError string

record gateway_codec =
  gc_Events :: "string \<Rightarrow> (Event list \<times> Lease \<times> EventReplayState) option"
  gc_Task :: "string \<Rightarrow> Task option"
  gc_Result :: "string \<Rightarrow> (Task \<times> Event) option"
  gc_Event :: "string \<Rightarrow> Event option"
  gc_Encodes :: "payload \<Rightarrow> bool"

record 'w host_net =
  hn_Do :: "gateway_request \<Rightarrow> 'w \<Rightarrow> gateway_answer \<times> 'w"
  hn_Snapshot :: "'w \<Rightarrow> routeSnapshot option \<times> 'w"
  hn_Success :: "routeSnapshot \<Rightarrow> 'w \<Rightarrow> bool \<times> 'w"
  hn_Failure :: "routeSnapshot \<Rightarrow> 'w \<Rightarrow> bool \<times> 'w"
  hn_Probe :: "'w \<Rightarrow> string option \<times> 'w"
  hn_Initialize :: "'w \<Rightarrow> (string + routeCandidate) \<times> 'w"
  hn_Trust :: "string \<Rightarrow> 'w \<Rightarrow> bool \<times> 'w"
  hn_MonitorError :: "'w \<Rightarrow> string option \<times> 'w"
  hn_Sleep :: "Duration \<Rightarrow> 'w \<Rightarrow> string option \<times> 'w"
  hn_Key :: "string \<Rightarrow> 'w \<Rightarrow> string \<times> 'w"
  hn_Now :: "'w \<Rightarrow> Time"

definition on_world :: "('w \<Rightarrow> 'a \<times> 'w) \<Rightarrow> 'w run_state \<Rightarrow> 'a \<times> 'w run_state" where
  "on_world f = (\<lambda>(s, files). case f (hs_world s) of (r, w) \<Rightarrow> (r, (s\<lparr>hs_world := w\<rparr>, files)))"

record 'w host_process =
  hp_net :: "'w host_net"
  hp_codec :: gateway_codec
  hp_runner :: "'w runner"
  hp_session :: string
  hp_endpoint :: string
  hp_fingerprint :: string

section \<open>Replies\<close>

definition maxGatewayBody :: nat where "maxGatewayBody = 256 * 1024"

definition readBoundedGatewayBody :: "string option \<Rightarrow> nat \<Rightarrow> string option" where
  "readBoundedGatewayBody body maxBytes =
     (if maxBytes = 0 then None
      else case body of None \<Rightarrow> None | Some content \<Rightarrow> if length content > maxBytes then None else Some content)"

definition gatewayRouteFailure :: "unicode \<Rightarrow> gint \<Rightarrow> string \<Rightarrow> bool" where
  "gatewayRouteFailure U statusCode body \<longleftrightarrow>
     statusCode \<in> {408, 425, 429, 410} \<or> (500 \<le> statusCode \<and> statusCode \<le> 599)
     \<or> (statusCode = 404 \<and> (let message = ToLower U body in sublist ''tunnel'' message \<or> sublist ''gateway'' message))"

definition gatewayResponseError :: "unicode \<Rightarrow> string \<Rightarrow> gint \<Rightarrow> string \<Rightarrow> fetch_error" where
  "gatewayResponseError U operation statusCode body =
     (if gatewayRouteFailure U statusCode body then TransientError else FetchError (operation @ '': gateway response rejected''))"

definition ok_status :: "gint \<Rightarrow> bool" where
  "ok_status statusCode \<longleftrightarrow> 200 \<le> statusCode \<and> statusCode < 300"

text \<open>What the four calls share: a request that fails or a body that cannot be read is taken for a failure of the route.\<close>

definition read_answer :: "gateway_answer \<Rightarrow> fetch_error + gint \<times> string" where
  "read_answer answer =
     (case answer of
        RequestInvalid e \<Rightarrow> Inl (FetchError e)
      | NoResponse \<Rightarrow> Inl TransientError
      | Response statusCode body \<Rightarrow>
          (case readBoundedGatewayBody body maxGatewayBody of None \<Rightarrow> Inl TransientError | Some content \<Rightarrow> Inr (statusCode, content)))"

definition events_reply :: "unicode \<Rightarrow> gateway_codec \<Rightarrow> gateway_answer \<Rightarrow> fetch_error + Event list \<times> Lease \<times> EventReplayState" where
  "events_reply U C answer =
     (case read_answer answer of
        Inl e \<Rightarrow> Inl e
      | Inr (statusCode, body) \<Rightarrow>
          (case gc_Events C body of
             None \<Rightarrow> Inl (if ok_status statusCode then TransientError else gatewayResponseError U ''fetch session events failed'' statusCode body)
           | Some reply \<Rightarrow>
               if \<not> ok_status statusCode then Inl (gatewayResponseError U ''fetch session events failed'' statusCode body) else Inr reply))"

definition plain_reply :: "unicode \<Rightarrow> string \<Rightarrow> (string \<Rightarrow> 'a option) \<Rightarrow> gateway_answer \<Rightarrow> fetch_error + 'a" where
  "plain_reply U operation decode answer =
     (case read_answer answer of
        Inl e \<Rightarrow> Inl e
      | Inr (statusCode, body) \<Rightarrow>
          if \<not> ok_status statusCode then Inl (gatewayResponseError U operation statusCode body)
          else (case decode body of None \<Rightarrow> Inl (gatewayResponseError U operation statusCode body) | Some v \<Rightarrow> Inr v))"

definition task_reply :: "unicode \<Rightarrow> gateway_codec \<Rightarrow> string \<Rightarrow> string \<Rightarrow> gateway_answer \<Rightarrow> fetch_error + Task" where
  "task_reply U C endpointID taskID answer =
     (case plain_reply U ''fetch session task failed'' (gc_Task C) answer of
        Inl e \<Rightarrow> Inl e
      | Inr task \<Rightarrow>
          if tk_ID task \<noteq> taskID \<or> tk_TargetEndpointID task \<noteq> endpointID
          then Inl (FetchError (''fetch session task failed: task '' @ taskID @ '' not found'')) else Inr task)"

section \<open>Calls\<close>

definition sessionEventLimit :: "string \<Rightarrow> gint" where
  "sessionEventLimit transport = (if transport = ''long-poll'' then 16 else 64)"

definition sessionLongPollWait :: "serveOptions \<Rightarrow> Duration" where
  "sessionLongPollWait opts =
     (if so_Transport opts \<noteq> ''long-poll'' then 0
      else (let wait = (if so_LongPollTimeout opts \<le> 0 then 25 * second_ns else so_LongPollTimeout opts) in min wait (60 * second_ns)))"

definition fetchSessionEvents ::
    "'w host_process \<Rightarrow> serveOptions \<Rightarrow> string \<Rightarrow> u64 \<Rightarrow> gint \<Rightarrow> 'w run_state
     \<Rightarrow> (fetch_error + Event list \<times> Lease \<times> EventReplayState) \<times> 'w run_state" where
  "fetchSessionEvents P opts secret afterSeq limit st =
     (case on_world (hn_Do (hp_net P) (GetEvents (so_GatewayURL opts) (hp_session P) (hp_endpoint P) secret afterSeq limit (sessionLongPollWait opts))) st of
        (answer, st1) \<Rightarrow> (events_reply (rn_unicode (hp_runner P)) (hp_codec P) answer, st1))"

definition fetchSessionTask ::
    "'w host_process \<Rightarrow> serveOptions \<Rightarrow> string \<Rightarrow> string \<Rightarrow> 'w run_state \<Rightarrow> (fetch_error + Task) \<times> 'w run_state" where
  "fetchSessionTask P opts secret taskID st =
     (case on_world (hn_Do (hp_net P) (GetTask (so_GatewayURL opts) (hp_session P) (hp_endpoint P) secret taskID)) st of
        (answer, st1) \<Rightarrow> (task_reply (rn_unicode (hp_runner P)) (hp_codec P) (hp_endpoint P) taskID answer, st1))"

text \<open>The idempotency key of a result is in its payload, so no other is drawn.\<close>

definition completeSessionTask ::
    "'w host_process \<Rightarrow> serveOptions \<Rightarrow> string \<Rightarrow> string \<Rightarrow> string \<Rightarrow> payload \<Rightarrow> 'w run_state \<Rightarrow> (fetch_error + Task \<times> Event) \<times> 'w run_state" where
  "completeSessionTask P opts secret taskID key result st =
     (if \<not> gc_Encodes (hp_codec P) result then (Inl (FetchError ''json: unsupported value''), st)
      else
        (case on_world (hn_Do (hp_net P) (PostResult (so_GatewayURL opts) (hp_session P) (hp_endpoint P) secret taskID key result)) st of
           (answer, st1) \<Rightarrow> (plain_reply (rn_unicode (hp_runner P)) ''complete session task failed'' (gc_Result (hp_codec P)) answer, st1)))"

definition validateLeaseBinding :: "Lease \<Rightarrow> Lease \<Rightarrow> string \<Rightarrow> string \<Rightarrow> string option" where
  "validateLeaseBinding current renewed sessionID endpointID =
     (if ls_Secret renewed = [] then None
      else if ls_SessionID renewed \<noteq> sessionID \<or> ls_EndpointID renewed \<noteq> endpointID
      then Some ''gateway lease binding does not match the registered session''
      else if ls_Generation renewed \<le> 0 \<or> (ls_Generation current > 0 \<and> ls_Generation renewed \<le> ls_Generation current)
      then Some ''gateway lease generation did not advance''
      else None)"

definition capabilitySet :: "string list \<Rightarrow> string set" where
  "capabilitySet values = {v \<in> TrimSpace ` set values. v \<noteq> []}"

definition CapabilitiesAllowed :: "string list \<Rightarrow> string list \<Rightarrow> bool \<Rightarrow> bool" where
  "CapabilitiesAllowed requested ceiling enforceCeiling \<longleftrightarrow>
     \<not> enforceCeiling \<or> list_all (\<lambda>c. TrimSpace c \<noteq> [] \<and> TrimSpace c \<in> capabilitySet ceiling) requested"

section \<open>One task\<close>

definition run_text :: "run_error \<Rightarrow> string" where
  "run_text failure =
     (case failure of
        DenialError e \<Rightarrow> if dx_Summary e \<noteq> [] then dx_Summary e else dx_Code e
      | ExecutionError e \<Rightarrow> exec_text e
      | FinalizeError (Some x) e \<Rightarrow> exec_text x @ ''; additionally failed to finalize task worktree: '' @ worktree_text e
      | FinalizeError None e \<Rightarrow> worktree_text e
      | SnapshotError (Some x) e \<Rightarrow> exec_text x @ ''; additionally failed to snapshot non-Git workspace scope: '' @ e
      | SnapshotError None e \<Rightarrow> e)"

definition fetch_text :: "fetch_error \<Rightarrow> string" where
  "fetch_text e = (case e of TransientError \<Rightarrow> ''transient gateway response'' | FetchError t \<Rightarrow> t)"

definition errNoHealthyRoutes :: string where "errNoHealthyRoutes = ''cannot reach the gateway; check the gateway URL and your network connection''"

definition opaqueGatewayRouteError :: "string \<Rightarrow> string" where
  "opaqueGatewayRouteError operation = ''gateway route '' @ operation"

text \<open>A call is repeated on the route that is current as long as routes fail and there is another one.\<close>

partial_function (option) route_retry ::
    "'w host_net \<Rightarrow> (routeCandidate \<Rightarrow> 'w run_state \<Rightarrow> (fetch_error + 'a) \<times> 'w run_state) \<Rightarrow> 'w run_state
     \<Rightarrow> ((fetch_error + 'a) \<times> 'w run_state) option" where
  "route_retry N call st =
     (case on_world (hn_Snapshot N) st of
        (None, st1) \<Rightarrow> Some (Inl (FetchError errNoHealthyRoutes), st1)
      | (Some snapshot, st1) \<Rightarrow>
          (case call (sn_Candidate snapshot) st1 of
             (Inr v, st2) \<Rightarrow> Some (Inr v, snd (on_world (hn_Success N snapshot) st2))
           | (Inl e, st2) \<Rightarrow>
               if e \<noteq> TransientError then Some (Inl e, st2)
               else
                 (case on_world (hn_Failure N snapshot) st2 of
                    (another, st3) \<Rightarrow> if \<not> another then Some (Inl e, st3) else route_retry N call st3)))"

definition use_route :: "routeCandidate \<Rightarrow> serveOptions \<Rightarrow> serveOptions" where
  "use_route r opts = opts\<lparr>so_GatewayURL := rc_URL r, so_Transport := rc_Transport r\<rparr>"

definition runner_options :: "'w host_process \<Rightarrow> serveOptions \<Rightarrow> Task \<Rightarrow> Options" where
  "runner_options P opts task =
     \<lparr>op_IdentityFingerprint = hp_fingerprint P, op_ToolchainRoot = [], op_WorkspaceLockStore = so_WorkspaceLockStore opts, op_WorkspaceLockTTL = 0,
      op_CaptureRuntimeFixture = so_CaptureRuntimeFixture opts, op_EngineeringCheckpointStore = [], op_HasReporter = True,
      op_ResumeCheckpointID = stringValueFromAny (payload_get (tk_Payload task) ''engineering_resume_checkpoint_id''),
      op_ResumeSourceTaskID = stringValueFromAny (payload_get (tk_Payload task) ''engineering_resume_task_id''), op_engineeringResume = None\<rparr>"

definition run_assigned ::
    "'w host_process \<Rightarrow> serveOptions \<Rightarrow> string \<Rightarrow> Task \<Rightarrow> 'w run_state \<Rightarrow> (string \<times> string option) \<times> 'w run_state" where
  "run_assigned P opts secret task st =
     (if \<not> CapabilitiesAllowed (tk_Capabilities task) (so_CapabilityCeiling opts) (so_CapabilityCeilingSet opts)
      then (([], Some ''task capabilities exceed the joined session ceiling''), st)
      else
        (case RunSessionTaskWithOptionsContext (hp_runner P)
            (sessionTaskSpec task (hp_endpoint P) (hp_fingerprint P) (hp_session P) secret (so_GatewayURL opts))
            (hn_Now (hp_net P) (hs_world (fst st))) (runner_options P opts task) st of
           ((content, failure), st1) \<Rightarrow> ((content, map_option run_text failure), st1)))"

definition result_payload :: "Task \<Rightarrow> string \<Rightarrow> string \<Rightarrow> string option \<Rightarrow> payload" where
  "result_payload task key content failure =
     (let base = [''status'' \<mapsto> GString (if failure = None then ''succeeded'' else ''failed''), ''attempt_id'' \<mapsto> GString (tk_AttemptID task),
            ''idempotency_key'' \<mapsto> GString key, ''artifact_content'' \<mapsto> GString content]
      in Some (case failure of None \<Rightarrow> base | Some text \<Rightarrow> if text = [] then base else base(''reason'' \<mapsto> GString text)))"

text \<open>What a runtime fixture holds is not modelled, so it is not reported either.\<close>

definition runSessionTaskWithRoutes ::
    "'w host_process \<Rightarrow> serveOptions \<Rightarrow> string \<Rightarrow> Task \<Rightarrow> 'w run_state \<Rightarrow> (string option \<times> 'w run_state) option" where
  "runSessionTaskWithRoutes P opts secret task st =
     (case run_assigned P opts secret task st of
        ((content, failure), st1) \<Rightarrow>
          (case on_world (hn_Key (hp_net P) ''task-result'') st1 of
             (key, st2) \<Rightarrow>
               (case route_retry (hp_net P)
                   (\<lambda>r. completeSessionTask P (use_route r opts) secret (tk_ID task) key (result_payload task key content failure)) st2 of
                  None \<Rightarrow> None
                | Some (Inr _, st3) \<Rightarrow> Some (None, st3)
                | Some (Inl e, st3) \<Rightarrow>
                    Some (Some (case failure of
                        Some text \<Rightarrow>
                          if e = FetchError errNoHealthyRoutes then errNoHealthyRoutes
                          else text @ ''; additionally failed to report session task failure: '' @ fetch_text e
                      | None \<Rightarrow> fetch_text e), st3))))"

section \<open>Progress\<close>

definition progress_event :: "'w host_process \<Rightarrow> (EngineeringArtifactReference list \<Rightarrow> goval) \<Rightarrow> Task \<Rightarrow> EngineeringProgress \<Rightarrow> Event option" where
  "progress_event P refs task progress =
     (if pg_TaskID progress \<noteq> tk_ID task then None
      else
        Some (zero_Event\<lparr>ev_Type := EventTypeTaskProgress, ev_FromEndpointID := hp_endpoint P, ev_TaskID := tk_ID task,
          ev_IdempotencyKey := ''engineering-progress:'' @ tk_AttemptID task @ '':'' @ pg_CheckpointID progress,
          ev_Payload := Some [''schema_version'' \<mapsto> GString (pg_SchemaVersion progress), ''phase'' \<mapsto> GString (pg_Phase progress),
            ''attempt'' \<mapsto> GInt (pg_Attempt progress), ''summary'' \<mapsto> GString (pg_Summary progress),
            ''artifact_refs'' \<mapsto> refs (pg_ArtifactRefs progress), ''checkpoint_id'' \<mapsto> GString (pg_CheckpointID progress),
            ''recoverable'' \<mapsto> GBool (pg_Recoverable progress), ''failure_class'' \<mapsto> GString (pg_FailureClass progress),
            ''attempt_id'' \<mapsto> GString (pg_AttemptID progress)]\<rparr>))"

definition appendSessionEvent ::
    "'w host_process \<Rightarrow> serveOptions \<Rightarrow> string \<Rightarrow> Event \<Rightarrow> 'w run_state \<Rightarrow> (fetch_error + Event) \<times> 'w run_state" where
  "appendSessionEvent P opts secret event st =
     (if \<not> gc_Encodes (hp_codec P) (ev_Payload event) then (Inl (FetchError ''json: unsupported value''), st)
      else
        (case on_world (hn_Do (hp_net P) (PostEvent (so_GatewayURL opts) (hp_session P) secret event)) st of
           (answer, st1) \<Rightarrow> (plain_reply (rn_unicode (hp_runner P)) ''append session event failed'' (gc_Event (hp_codec P)) answer, st1)))"

definition reportEngineeringProgress ::
    "'w host_process \<Rightarrow> serveOptions \<Rightarrow> string \<Rightarrow> Event \<Rightarrow> 'w run_state \<Rightarrow> (string option \<times> 'w run_state) option" where
  "reportEngineeringProgress P opts secret event st =
     (case route_retry (hp_net P) (\<lambda>r. appendSessionEvent P (use_route r opts) secret event) st of
        None \<Rightarrow> None
      | Some (Inr _, st1) \<Rightarrow> Some (None, st1)
      | Some (Inl e, st1) \<Rightarrow> Some (Some (fetch_text e), st1))"

section \<open>The loop\<close>

record host_loop =
  hl_processed :: gint
  hl_afterSeq :: u64
  hl_lease :: Lease
  hl_secret :: string
  hl_interval :: Duration
  hl_pending :: "Event list"
  hl_opts :: serveOptions

definition on_route :: "routeSnapshot \<Rightarrow> host_loop \<Rightarrow> host_loop" where
  "on_route snapshot l = l\<lparr>hl_opts := use_route (sn_Candidate snapshot) (hl_opts l)\<rparr>"

definition sleepOrDone :: "'w host_net \<Rightarrow> Duration \<Rightarrow> 'w \<Rightarrow> string option \<times> 'w" where
  "sleepOrDone N interval = hn_Sleep N (if interval \<le> 0 then second_ns else interval)"

definition is_offer :: "Event \<Rightarrow> bool" where
  "is_offer event \<longleftrightarrow>
     ev_Type event = EventTypeTask \<and> ev_TaskID event \<noteq> [] \<and> payload_get (ev_Payload event) ''action'' = Some (GString ''offer'')"

text \<open>What became of an offer: its task was run, or was found to be settled. The list of these is what the loop did, beside the state.\<close>

datatype offer_act = OfferRun Task | OfferSettled Task

type_synonym offer_log = "(Event \<times> offer_act) list"

datatype page_end = PageDone bool | PageAgain | PageStop "string option"

datatype loop_end = LoopAgain | LoopStop "string option"

datatype offer_end = OfferAgain | OfferStop string | OfferTaken

definition take_offer ::
    "'w host_process \<Rightarrow> Event \<Rightarrow> host_loop \<Rightarrow> 'w run_state \<Rightarrow> (offer_end \<times> host_loop \<times> 'w run_state \<times> offer_act option) option" where
  "take_offer P event l st =
     (case on_world (hn_Snapshot (hp_net P)) st of
        (None, st1) \<Rightarrow> Some (OfferAgain, l, st1, None)
      | (Some snapshot, st1) \<Rightarrow>
          (let l1 = on_route snapshot l in
           case fetchSessionTask P (hl_opts l1) (hl_secret l1) (ev_TaskID event) st1 of
             (Inl e, st2) \<Rightarrow>
               (if e \<noteq> TransientError then Some (OfferStop (fetch_text e), l1, st2, None)
                else
                  (case on_world (hn_Failure (hp_net P) snapshot) st2 of
                     (another, st3) \<Rightarrow> Some (if another then OfferAgain else OfferStop (fetch_text e), l1, st3, None)))
           | (Inr task, st2) \<Rightarrow>
               (case on_world (hn_Success (hp_net P) snapshot) st2 of
                  (current, st3) \<Rightarrow>
                    if \<not> current then Some (OfferAgain, l1, st3, None)
                    else if tk_TargetEndpointID task \<noteq> hp_endpoint P \<or> Task_Terminal task
                    then Some (OfferTaken, l1\<lparr>hl_afterSeq := ev_Seq event\<rparr>, st3, Some (OfferSettled task))
                    else
                      (case runSessionTaskWithRoutes P (hl_opts l1) (hl_secret l1) task st3 of
                         None \<Rightarrow> None
                       | Some (Some e, st4) \<Rightarrow> Some (OfferStop e, l1, st4, Some (OfferRun task))
                       | Some (None, st4) \<Rightarrow>
                           Some (OfferTaken, l1\<lparr>hl_afterSeq := ev_Seq event, hl_processed := hl_processed l1 + 1\<rparr>, st4, Some (OfferRun task))))))"

definition log_of :: "Event \<Rightarrow> offer_act option \<Rightarrow> offer_log" where
  "log_of event act = (case act of None \<Rightarrow> [] | Some a \<Rightarrow> [(event, a)])"

definition was_run :: "offer_act option \<Rightarrow> bool" where
  "was_run act = (case act of Some (OfferRun _) \<Rightarrow> True | _ \<Rightarrow> False)"

fun event_loop ::
    "'w host_process \<Rightarrow> gint \<Rightarrow> Event list \<Rightarrow> bool \<Rightarrow> host_loop \<Rightarrow> 'w run_state \<Rightarrow> (page_end \<times> host_loop \<times> 'w run_state \<times> offer_log) option" where
  "event_loop P maxTasks [] found l st = Some (PageDone found, l, st, [])"
| "event_loop P maxTasks (event # rest) found l st =
     (if ev_Seq event \<le> hl_afterSeq l then event_loop P maxTasks rest found l st
      else if \<not> is_offer event then event_loop P maxTasks rest found (l\<lparr>hl_afterSeq := ev_Seq event\<rparr>) st
      else
        (case take_offer P event l st of
           None \<Rightarrow> None
         | Some (OfferAgain, l1, st1, act) \<Rightarrow> Some (PageAgain, l1\<lparr>hl_pending := event # rest\<rparr>, st1, log_of event act)
         | Some (OfferStop e, l1, st1, act) \<Rightarrow> Some (PageStop (Some e), l1, st1, log_of event act)
         | Some (OfferTaken, l1, st1, act) \<Rightarrow>
             if was_run act \<and> hl_processed l1 \<ge> maxTasks then Some (PageStop None, l1, st1, log_of event act)
             else
               (case event_loop P maxTasks rest (found \<or> was_run act) l1 st1 of
                  None \<Rightarrow> None
                | Some (r, l', st', t) \<Rightarrow> Some (r, l', st', log_of event act @ t))))"

definition nap :: "'w host_net \<Rightarrow> host_loop \<Rightarrow> 'w run_state \<Rightarrow> offer_log \<Rightarrow> (loop_end \<times> host_loop \<times> 'w run_state \<times> offer_log) option" where
  "nap N l st t = (case on_world (sleepOrDone N (hl_interval l)) st of (e, st1) \<Rightarrow> Some (if e = None then LoopAgain else LoopStop e, l, st1, t))"

definition renew_lease :: "Lease \<Rightarrow> host_loop \<Rightarrow> host_loop" where
  "renew_lease lease l =
     (if ls_Secret lease = [] then l
      else l\<lparr>hl_secret := ls_Secret lease, hl_lease := lease,
        hl_interval := (if ls_RetryAfterMS lease > 0 then millis (ls_RetryAfterMS lease) else hl_interval l)\<rparr>)"

text \<open>A page shorter than what was asked for is taken for the last one, and the cursor moves to the end of the log.\<close>

definition end_of_page :: "gint \<Rightarrow> Event list \<Rightarrow> EventReplayState \<Rightarrow> host_loop \<Rightarrow> host_loop" where
  "end_of_page limit events replay l =
     (if int (length events) < limit \<and> er_LastSeq replay > hl_afterSeq l then l\<lparr>hl_afterSeq := er_LastSeq replay\<rparr> else l)"

definition accept_page ::
    "'w host_process \<Rightarrow> gint \<Rightarrow> routeSnapshot \<Rightarrow> gint \<Rightarrow> bool \<Rightarrow> Event list \<Rightarrow> Lease \<Rightarrow> EventReplayState \<Rightarrow> host_loop \<Rightarrow> 'w run_state
     \<Rightarrow> (loop_end \<times> host_loop \<times> 'w run_state \<times> offer_log) option" where
  "accept_page P maxTasks snapshot limit fromPending events lease replay l st =
     (case on_world (hn_Success (hp_net P) snapshot) st of
        (current, st1) \<Rightarrow>
          if \<not> current then Some (LoopAgain, if fromPending then l\<lparr>hl_pending := events\<rparr> else l, st1, [])
          else if er_SnapshotRequired replay
          then Some (LoopStop (Some ''session event cursor is stale; restart host session to refresh snapshot''), renew_lease lease l, st1, [])
          else
            (case event_loop P maxTasks events False (renew_lease lease l) st1 of
               None \<Rightarrow> None
             | Some (PageStop e, l2, st2, t) \<Rightarrow> Some (LoopStop e, l2, st2, t)
             | Some (PageAgain, l2, st2, t) \<Rightarrow> Some (LoopAgain, l2, st2, t)
             | Some (PageDone found, l2, st2, t) \<Rightarrow>
                 (let l3 = end_of_page limit events replay l2 in if found then Some (LoopAgain, l3, st2, t) else nap (hp_net P) l3 st2 t)))"

definition route_failed :: "'w host_net \<Rightarrow> routeSnapshot \<Rightarrow> string \<Rightarrow> host_loop \<Rightarrow> 'w run_state \<Rightarrow> (loop_end \<times> host_loop \<times> 'w run_state \<times> offer_log) option" where
  "route_failed N snapshot e l st =
     (case on_world (hn_Failure N snapshot) st of (another, st1) \<Rightarrow> Some (if another then LoopAgain else LoopStop (Some e), l, st1, []))"

definition poll_route ::
    "'w host_process \<Rightarrow> gint \<Rightarrow> routeSnapshot \<Rightarrow> host_loop \<Rightarrow> 'w run_state \<Rightarrow> (loop_end \<times> host_loop \<times> 'w run_state \<times> offer_log) option" where
  "poll_route P maxTasks snapshot l0 st =
     (let l = on_route snapshot l0; limit = sessionEventLimit (so_Transport (hl_opts l)) in
      if hl_pending l \<noteq> []
      then accept_page P maxTasks snapshot limit True (hl_pending l) zero_Lease zero_replay (l\<lparr>hl_pending := []\<rparr>) st
      else
        (case fetchSessionEvents P (hl_opts l) (hl_secret l) (hl_afterSeq l) limit st of
           (Inl e, st1) \<Rightarrow>
             (if e \<noteq> TransientError then Some (LoopStop (Some (fetch_text e)), l, st1, [])
              else
                (case on_world (hn_Failure (hp_net P) snapshot) st1 of
                   (another, st2) \<Rightarrow> if another then Some (LoopAgain, l, st2, []) else nap (hp_net P) l st2 []))
         | (Inr (events, lease, replay), st1) \<Rightarrow>
             if ls_Secret lease = [] then route_failed (hp_net P) snapshot (opaqueGatewayRouteError ''returned an incomplete lease'') l st1
             else
               (case validateLeaseBinding (hl_lease l) lease (hp_session P) (hp_endpoint P) of
                  Some e \<Rightarrow> route_failed (hp_net P) snapshot e l st1
                | None \<Rightarrow> accept_page P maxTasks snapshot limit False events lease replay l st1)))"

definition poll_step ::
    "'w host_process \<Rightarrow> gint \<Rightarrow> host_loop \<Rightarrow> 'w run_state \<Rightarrow> (loop_end \<times> host_loop \<times> 'w run_state \<times> offer_log) option" where
  "poll_step P maxTasks l st =
     (let N = hp_net P in
      case on_world (hn_MonitorError N) st of
        (Some e, st0) \<Rightarrow> Some (LoopStop (Some e), l, st0, [])
      | (None, st0) \<Rightarrow>
          (case on_world (hn_Snapshot N) st0 of
             (Some snapshot, st1) \<Rightarrow> poll_route P maxTasks snapshot l st1
           | (None, st1) \<Rightarrow>
               (case on_world (hn_Probe N) st1 of
                  (Some e, st2) \<Rightarrow> Some (LoopStop (Some e), l, st2, [])
                | (None, st2) \<Rightarrow>
                    (case on_world (hn_Snapshot N) st2 of
                       (Some snapshot, st3) \<Rightarrow> poll_route P maxTasks snapshot l st3
                     | (None, st3) \<Rightarrow> nap N l st3 []))))"

text \<open>Before the first poll the current route has to show the trust bundle of the gateway.\<close>

partial_function (option) verify_trust :: "'w host_net \<Rightarrow> 'w run_state \<Rightarrow> ((string + routeCandidate) \<times> 'w run_state) option" where
  "verify_trust N st =
     (case on_world (hn_Snapshot N) st of
        (None, st1) \<Rightarrow> Some (Inl errNoHealthyRoutes, st1)
      | (Some snapshot, st1) \<Rightarrow>
          (case on_world (hn_Trust N (rc_URL (sn_Candidate snapshot))) st1 of
             (trusted, st2) \<Rightarrow>
               if trusted then
                 (case on_world (hn_Success N snapshot) st2 of
                    (current, st3) \<Rightarrow> if current then Some (Inr (sn_Candidate snapshot), st3) else verify_trust N st3)
               else
                 (case on_world (hn_Failure N snapshot) st2 of
                    (another, st3) \<Rightarrow> if another then verify_trust N st3 else Some (Inl (opaqueGatewayRouteError ''trust verification failed''), st3))))"

partial_function (option) poll_loop ::
    "'w host_process \<Rightarrow> gint \<Rightarrow> host_loop \<Rightarrow> 'w run_state \<Rightarrow> (gint \<times> string option \<times> 'w run_state \<times> offer_log) option" where
  "poll_loop P maxTasks l st =
     (if \<not> hl_processed l < maxTasks then Some (hl_processed l, None, st, [])
      else
        (case poll_step P maxTasks l st of
           None \<Rightarrow> None
         | Some (LoopStop e, l', st', t) \<Rightarrow> Some (hl_processed l', e, st', t)
         | Some (LoopAgain, l', st', t) \<Rightarrow>
             Option.bind (poll_loop P maxTasks l' st') (\<lambda>(n, e, st'', t'). Some (n, e, st'', t @ t'))))"

definition max_tasks :: "gint \<Rightarrow> gint" where
  "max_tasks n = (if n = 0 then 2 ^ 63 - 1 else if n < 0 then 1 else n)"

definition loop_begin :: "serveOptions \<Rightarrow> routeCandidate \<Rightarrow> Lease \<Rightarrow> Event list \<Rightarrow> host_loop" where
  "loop_begin opts route lease initialEvents =
     \<lparr>hl_processed = 0, hl_afterSeq = 0, hl_lease = lease, hl_secret = ls_Secret lease,
      hl_interval = (if ls_RetryAfterMS lease > 0 then millis (ls_RetryAfterMS lease)
                     else if so_PollInterval opts \<le> 0 then second_ns else so_PollInterval opts),
      hl_pending = initialEvents, hl_opts = use_route route opts\<rparr>"

definition runSessionTasksWithEvents ::
    "'w host_process \<Rightarrow> serveOptions \<Rightarrow> Lease \<Rightarrow> Event list \<Rightarrow> 'w run_state \<Rightarrow> (gint \<times> string option \<times> 'w run_state \<times> offer_log) option" where
  "runSessionTasksWithEvents P opts lease initialEvents st =
     (case on_world (hn_Initialize (hp_net P)) st of
        (Inl e, st1) \<Rightarrow> Some (0, Some e, st1, [])
      | (Inr selected, st1) \<Rightarrow>
          (case verify_trust (hp_net P) st1 of
             None \<Rightarrow> None
           | Some (Inl e, st2) \<Rightarrow> Some (0, Some e, st2, [])
           | Some (Inr route, st2) \<Rightarrow> poll_loop P (max_tasks (so_MaxTasks opts)) (loop_begin opts route lease initialEvents) st2))"

text \<open>The states the loop goes through, also when it never ends, and what it did on the way.\<close>

inductive polls :: "'w host_process \<Rightarrow> gint \<Rightarrow> host_loop \<Rightarrow> 'w run_state \<Rightarrow> offer_log \<Rightarrow> loop_end \<Rightarrow> host_loop \<Rightarrow> 'w run_state \<Rightarrow> bool"
  for P maxTasks l0 st0 where
  polls_begin: "polls P maxTasks l0 st0 [] LoopAgain l0 st0"
| polls_step: "polls P maxTasks l0 st0 t LoopAgain l st \<Longrightarrow> hl_processed l < maxTasks \<Longrightarrow> poll_step P maxTasks l st = Some (r, l', st', t')
    \<Longrightarrow> polls P maxTasks l0 st0 (t @ t') r l' st'"

section \<open>Joining\<close>

definition joined_reply :: "(string \<Rightarrow> (Session \<times> Endpoint \<times> Lease \<times> Event list) option) \<Rightarrow> (gint \<Rightarrow> string \<Rightarrow> string) \<Rightarrow> gateway_answer
    \<Rightarrow> string + Session \<times> Endpoint \<times> Lease \<times> Event list" where
  "joined_reply decode refusal answer =
     (case answer of
        RequestInvalid e \<Rightarrow> Inl (opaqueGatewayRouteError ''registration request is invalid'')
      | NoResponse \<Rightarrow> Inl (opaqueGatewayRouteError ''registration failed'')
      | Response statusCode raw \<Rightarrow>
          (case readBoundedGatewayBody raw maxGatewayBody of
             None \<Rightarrow> Inl (opaqueGatewayRouteError ''registration response failed'')
           | Some body \<Rightarrow>
               (case decode body of
                  None \<Rightarrow> Inl (refusal statusCode body)
                | Some (session, endpoint, lease, events) \<Rightarrow>
                    if \<not> ok_status statusCode then Inl (refusal statusCode body)
                    else if ses_ID session = [] \<or> ep_ID endpoint = [] \<or> ls_Secret lease = []
                    then Inl ''join session failed: incomplete session join response''
                    else
                      (case validateLeaseBinding zero_Lease lease (ses_ID session) (ep_ID endpoint) of
                         Some e \<Rightarrow> Inl e
                       | None \<Rightarrow> Inr (session, endpoint, lease, events)))))"

text \<open>An empty ceiling of the session means that the operator did not limit it.\<close>

definition with_ceiling :: "Session \<Rightarrow> serveOptions \<Rightarrow> serveOptions" where
  "with_ceiling session opts = opts\<lparr>so_CapabilityCeiling := ses_Capabilities session, so_CapabilityCeilingSet := (ses_Capabilities session \<noteq> [])\<rparr>"

end
