(* ===== verification/Host_Loop_Properties.thy ===== *)
theory Host_Loop_Properties
  imports Host_Loop Event_Properties
begin

text \<open>
  What the loop of a host guarantees for the tasks it is offered: each offer is taken up at most once and in
  order, and none is passed over, as long as the gateway hands out pages of the size the host asks for; and
  where it does not, what is lost.
\<close>

section \<open>The order of the offers\<close>

definition act_ok :: "'w host_process \<Rightarrow> Event \<times> offer_act \<Rightarrow> bool" where
  "act_ok P = (\<lambda>(e, act). is_offer e \<and>
     (case act of
        OfferRun task \<Rightarrow> tk_ID task = ev_TaskID e \<and> tk_TargetEndpointID task = hp_endpoint P \<and> \<not> Task_Terminal task
      | OfferSettled task \<Rightarrow> tk_ID task = ev_TaskID e \<and> Task_Terminal task))"

definition offers_between :: "'w host_process \<Rightarrow> u64 \<Rightarrow> offer_log \<Rightarrow> bool" where
  "offers_between P a t \<longleftrightarrow> sorted_wrt (<) (map (ev_Seq \<circ> fst) t) \<and> (\<forall>x \<in> set t. a < ev_Seq (fst x) \<and> act_ok P x)"

lemma offers_between_Nil [simp]: "offers_between P a []"
  by (simp add: offers_between_def)

lemma offers_between_Cons:
  "offers_between P a (x # t) \<longleftrightarrow> a < ev_Seq (fst x) \<and> act_ok P x \<and> offers_between P (ev_Seq (fst x)) t"
  by (auto simp: offers_between_def)

lemma offers_between_mono: "offers_between P b t \<Longrightarrow> a \<le> b \<Longrightarrow> offers_between P a t"
  by (auto simp: offers_between_def)

lemma offers_between_append:
  assumes "offers_between P a t" "\<forall>x \<in> set t. ev_Seq (fst x) \<le> b" "offers_between P b t'" "a \<le> b"
  shows "offers_between P a (t @ t')"
  using assms by (fastforce simp: offers_between_def sorted_wrt_append)

lemma fetched_task:
  assumes "fetchSessionTask P opts secret taskID st = (Inr task, st')"
  shows "tk_ID task = taskID \<and> tk_TargetEndpointID task = hp_endpoint P"
  using assms by (auto simp: fetchSessionTask_def task_reply_def split: prod.splits sum.splits if_splits)

lemma on_route_simps [simp]:
  "hl_afterSeq (on_route snapshot l) = hl_afterSeq l" "hl_pending (on_route snapshot l) = hl_pending l"
  "hl_processed (on_route snapshot l) = hl_processed l" "hl_lease (on_route snapshot l) = hl_lease l" "hl_secret (on_route snapshot l) = hl_secret l"
  by (simp_all add: on_route_def)

lemma take_offer_result:
  assumes "take_offer P event l st = Some (r, l', st', act)" "is_offer event"
  shows "hl_afterSeq l' = (if r = OfferTaken then ev_Seq event else hl_afterSeq l) \<and> hl_pending l' = hl_pending l
    \<and> (\<forall>a. act = Some a \<longrightarrow> act_ok P (event, a)) \<and> (r = OfferTaken \<longrightarrow> act \<noteq> None) \<and> (r = OfferAgain \<longrightarrow> act = None)"
  using assms
  by (auto simp: take_offer_def act_ok_def Let_def split: prod.splits option.splits sum.splits if_splits dest!: fetched_task)

lemma event_loop_offer:
  assumes "\<not> ev_Seq event \<le> hl_afterSeq l" "is_offer event" "take_offer P event l st = Some (x, l1, st1, act)"
  shows "event_loop P m (event # rest) found l st =
    (case x of
       OfferAgain \<Rightarrow> Some (PageAgain, l1\<lparr>hl_pending := event # rest\<rparr>, st1, log_of event act)
     | OfferStop e \<Rightarrow> Some (PageStop (Some e), l1, st1, log_of event act)
     | OfferTaken \<Rightarrow>
         if was_run act \<and> hl_processed l1 \<ge> m then Some (PageStop None, l1, st1, log_of event act)
         else map_option (\<lambda>(r, l', st', t). (r, l', st', log_of event act @ t)) (event_loop P m rest (found \<or> was_run act) l1 st1))"
  using assms by (cases x) (auto split: option.split)

text \<open>The cases of an event of a page.\<close>

lemma event_loop_cases:
  assumes "event_loop P m (event # rest) found l st = Some (r, l', st', t)"
  obtains (old) "ev_Seq event \<le> hl_afterSeq l" "event_loop P m rest found l st = Some (r, l', st', t)"
  | (other) "hl_afterSeq l < ev_Seq event" "\<not> is_offer event" "event_loop P m rest found (l\<lparr>hl_afterSeq := ev_Seq event\<rparr>) st = Some (r, l', st', t)"
  | (again) "hl_afterSeq l < ev_Seq event" "r = PageAgain" "hl_afterSeq l' = hl_afterSeq l" "hl_pending l' = event # rest" "t = []"
  | (failed) e act where "hl_afterSeq l < ev_Seq event" "r = PageStop (Some e)" "hl_afterSeq l' = hl_afterSeq l" "t = log_of event act"
      "\<And>a. act = Some a \<Longrightarrow> act_ok P (event, a)"
  | (last) a where "hl_afterSeq l < ev_Seq event" "r = PageStop None" "hl_afterSeq l' = ev_Seq event" "t = [(event, a)]" "act_ok P (event, a)"
  | (taken) a found' l1 st1 t1 where "hl_afterSeq l < ev_Seq event" "event_loop P m rest found' l1 st1 = Some (r, l', st', t1)" "hl_afterSeq l1 = ev_Seq event"
      "hl_pending l1 = hl_pending l" "t = (event, a) # t1" "act_ok P (event, a)"
proof -
  consider "ev_Seq event \<le> hl_afterSeq l" | "\<not> ev_Seq event \<le> hl_afterSeq l" "\<not> is_offer event"
    | "\<not> ev_Seq event \<le> hl_afterSeq l" "is_offer event" by blast
  then show thesis
  proof cases
    case 1
    then show thesis using assms by (intro old) simp_all
  next
    case 2
    then have "event_loop P m rest found (l\<lparr>hl_afterSeq := ev_Seq event\<rparr>) st = Some (r, l', st', t)" using assms by simp
    then show thesis using 2 by (intro other) (auto simp only: not_le)
  next
    case 3
    obtain x l1 st1 act where o: "take_offer P event l st = Some (x, l1, st1, act)" using assms 3 by (auto split: option.splits)
    note res = take_offer_result [OF o 3(2)] and eq = event_loop_offer [OF 3 o, of m rest found]
    have less: "hl_afterSeq l < ev_Seq event" using 3(1) by (simp add: not_le)
    show thesis
    proof (cases x)
      case OfferAgain
      then show thesis using assms res less unfolding eq by (intro again) (auto simp: log_of_def)
    next
      case (OfferStop e)
      then show thesis using assms res less unfolding eq by (intro failed [of e act]) auto
    next
      case OfferTaken
      obtain a where a: "act = Some a" "act_ok P (event, a)" "hl_afterSeq l1 = ev_Seq event" "hl_pending l1 = hl_pending l" using res OfferTaken by auto
      show thesis
      proof (cases "was_run act \<and> hl_processed l1 \<ge> m")
        case True
        then show thesis using assms OfferTaken a less unfolding eq by (intro last [of a]) (auto simp: log_of_def)
      next
        case False
        then obtain t1 where "event_loop P m rest (found \<or> was_run act) l1 st1 = Some (r, l', st', t1)" "t = (event, a) # t1"
          using assms OfferTaken a(1) unfolding eq by (auto simp: log_of_def)
        from taken [OF less this(1) a(3,4) this(2) a(2)] show thesis .
      qed
    qed
  qed
qed

text \<open>A page goes on from the cursor, and unless it stops with an error the cursor has passed what was taken up.\<close>

lemma event_loop_order:
  assumes "event_loop P m evs found l st = Some (r, l', st', t)"
  shows "hl_afterSeq l \<le> hl_afterSeq l' \<and> offers_between P (hl_afterSeq l) t
    \<and> ((\<forall>e. r \<noteq> PageStop (Some e)) \<longrightarrow> (\<forall>x \<in> set t. ev_Seq (fst x) \<le> hl_afterSeq l'))"
  using assms
proof (induction evs arbitrary: found l st t)
  case Nil
  then show ?case by simp
next
  case (Cons event rest)
  from Cons.prems show ?case
  proof (cases rule: event_loop_cases)
    case old
    then show ?thesis using Cons.IH by simp
  next
    case other
    from Cons.IH [OF other(3)] other(1) show ?thesis by (auto intro: offers_between_mono)
  next
    case (taken a found' l1 st1 t1)
    from Cons.IH [OF taken(2)] show ?thesis unfolding taken(5) using taken by (auto simp: offers_between_Cons)
  qed (auto simp: offers_between_Cons log_of_def split: option.splits)
qed

section \<open>Polls\<close>

lemma renew_lease_simps [simp]:
  "hl_afterSeq (renew_lease lease l) = hl_afterSeq l" "hl_pending (renew_lease lease l) = hl_pending l" "hl_processed (renew_lease lease l) = hl_processed l"
  by (simp_all add: renew_lease_def)

lemma end_of_page_pending [simp]: "hl_pending (end_of_page limit evs replay l) = hl_pending l"
  by (simp add: end_of_page_def)

lemma accept_page_cases:
  assumes "accept_page P m snapshot limit fromPending evs lease replay l st = Some (r, l', st', t)"
  obtains (kept) "t = []" "hl_afterSeq l' = hl_afterSeq l" "r = LoopAgain \<longrightarrow> hl_pending l' = (if fromPending then evs else hl_pending l)"
  | (page) l1 st1 x l2 st2 where "event_loop P m evs False l1 st1 = Some (x, l2, st2, t)" "hl_afterSeq l1 = hl_afterSeq l" "hl_pending l1 = hl_pending l"
      "case x of PageStop e \<Rightarrow> r = LoopStop e \<and> l' = l2 | PageAgain \<Rightarrow> r = LoopAgain \<and> l' = l2 | PageDone found \<Rightarrow> l' = end_of_page limit evs replay l2"
proof -
  obtain current st1 where u: "on_world (hn_Success (hp_net P) snapshot) st = (current, st1)" by (metis surj_pair)
  show thesis
  proof (cases "current \<and> \<not> er_SnapshotRequired replay")
    case False
    then show thesis using assms u by (intro kept) (auto simp: accept_page_def split: if_splits)
  next
    case True
    then obtain x l2 st2 t2 where x: "event_loop P m evs False (renew_lease lease l) st1 = Some (x, l2, st2, t2)"
      using assms u unfolding accept_page_def by (auto split: option.splits)
    have "t2 = t \<and> (case x of PageStop e \<Rightarrow> r = LoopStop e \<and> l' = l2 | PageAgain \<Rightarrow> r = LoopAgain \<and> l' = l2 | PageDone found \<Rightarrow> l' = end_of_page limit evs replay l2)"
      using assms u True x unfolding accept_page_def
      by (cases x) (auto simp: Let_def nap_def split: prod.splits if_splits)
    with x show thesis by (intro page [of "renew_lease lease l" st1 x l2 st2]) auto
  qed
qed

lemma poll_route_cases:
  assumes "poll_route P m snapshot l st = Some (r, l', st', t)"
  obtains (idle) "t = []" "hl_afterSeq l' = hl_afterSeq l" "hl_pending l' = hl_pending l"
  | (pending) limit l1 where "hl_pending l \<noteq> []" "accept_page P m snapshot limit True (hl_pending l) zero_Lease zero_replay l1 st = Some (r, l', st', t)"
      "hl_afterSeq l1 = hl_afterSeq l" "hl_pending l1 = []"
  | (fetched) limit opts secret evs lease replay l1 st1 where "hl_pending l = []"
      "fetchSessionEvents P opts secret (hl_afterSeq l) limit st = (Inr (evs, lease, replay), st1)" "limit = sessionEventLimit (so_Transport opts)"
      "accept_page P m snapshot limit False evs lease replay l1 st1 = Some (r, l', st', t)" "hl_afterSeq l1 = hl_afterSeq l" "hl_pending l1 = []"
proof (cases "hl_pending l = []")
  case False
  then show thesis
    using assms by (intro pending [of "sessionEventLimit (so_Transport (hl_opts (on_route snapshot l)))" "(on_route snapshot l)\<lparr>hl_pending := []\<rparr>"])
      (auto simp: poll_route_def Let_def)
next
  case True
  let ?l = "on_route snapshot l"
  let ?limit = "sessionEventLimit (so_Transport (hl_opts ?l))"
  obtain x st1 where f: "fetchSessionEvents P (hl_opts ?l) (hl_secret ?l) (hl_afterSeq l) ?limit st = (x, st1)" by (metis surj_pair)
  show thesis
  proof (cases x)
    case (Inl e)
    then show thesis using assms f True
      by (intro idle) (auto simp: poll_route_def nap_def Let_def split: if_splits prod.splits)
  next
    case (Inr y)
    obtain evs lease replay where y: "y = (evs, lease, replay)" by (metis surj_pair)
    show thesis
    proof (cases "ls_Secret lease = [] \<or> validateLeaseBinding (hl_lease ?l) lease (hp_session P) (hp_endpoint P) \<noteq> None")
      case bad: True
      then show thesis using assms f True Inr y
        by (intro idle) (auto simp: poll_route_def route_failed_def Let_def split: if_splits prod.splits option.splits)
    next
      case False
      then have "accept_page P m snapshot ?limit False evs lease replay ?l st1 = Some (r, l', st', t)"
        using assms f True Inr y by (auto simp: poll_route_def Let_def)
      from fetched [OF True f [unfolded Inr y] refl this] show thesis using True by simp
    qed
  qed
qed

lemma poll_step_cases:
  assumes "poll_step P m l st = Some (r, l', st', t)"
  obtains (idle) "t = []" "hl_afterSeq l' = hl_afterSeq l" "hl_pending l' = hl_pending l"
  | (route) snapshot st1 where "poll_route P m snapshot l st1 = Some (r, l', st', t)"
proof -
  have "(\<exists>snapshot st1. poll_route P m snapshot l st1 = Some (r, l', st', t)) \<or> (t = [] \<and> l' = l)"
    using assms by (auto simp: poll_step_def nap_def Let_def split: prod.splits option.splits)
  then show thesis using idle route by blast
qed

text \<open>Every step goes on from the cursor.\<close>

lemma accept_page_order:
  assumes "accept_page P m snapshot limit fromPending evs lease replay l st = Some (r, l', st', t)"
  shows "hl_afterSeq l \<le> hl_afterSeq l' \<and> offers_between P (hl_afterSeq l) t \<and> (r = LoopAgain \<longrightarrow> (\<forall>x \<in> set t. ev_Seq (fst x) \<le> hl_afterSeq l'))"
  using assms
proof (cases rule: accept_page_cases)
  case (page l1 st1 x l2 st2)
  note order = event_loop_order [OF page(1)]
  show ?thesis
  proof (cases x)
    case (PageDone found)
    have "hl_afterSeq l2 \<le> hl_afterSeq l'" using page(4) PageDone by (auto simp: end_of_page_def)
    then show ?thesis using order page(2) PageDone by force
  qed (use order page in auto)
qed simp

lemma poll_step_order:
  assumes "poll_step P m l st = Some (r, l', st', t)"
  shows "hl_afterSeq l \<le> hl_afterSeq l' \<and> offers_between P (hl_afterSeq l) t \<and> (r = LoopAgain \<longrightarrow> (\<forall>x \<in> set t. ev_Seq (fst x) \<le> hl_afterSeq l'))"
  using assms
proof (cases rule: poll_step_cases)
  case (route snapshot st1)
  then show ?thesis
  proof (cases rule: poll_route_cases)
    case (pending limit l1)
    then show ?thesis using accept_page_order [OF pending(2)] by simp
  next
    case (fetched limit opts secret evs lease replay l1 st2)
    then show ?thesis using accept_page_order [OF fetched(4)] by simp
  qed simp
qed simp

lemma polls_order:
  assumes "polls P m l0 st0 t r l st"
  shows "hl_afterSeq l0 \<le> hl_afterSeq l \<and> offers_between P (hl_afterSeq l0) t \<and> (r = LoopAgain \<longrightarrow> (\<forall>x \<in> set t. ev_Seq (fst x) \<le> hl_afterSeq l))"
  using assms
proof (induction rule: polls.induct)
  case (polls_step t l st r l' st' t')
  then show ?case
    using poll_step_order [OF polls_step(3)] offers_between_append [of P "hl_afterSeq l0" t "hl_afterSeq l" t']
    by (force dest: order_trans)
qed simp

section \<open>No offer is passed over\<close>

lemma event_loop_complete:
  assumes "event_loop P m evs found l st = Some (r, l', st', t)" "\<forall>e. r \<noteq> PageStop e" "sorted_wrt (<) (hl_afterSeq l # map ev_Seq evs)"
  shows "fst ` set t = {e \<in> set evs. is_offer e \<and> ev_Seq e \<le> hl_afterSeq l'} \<and> hl_afterSeq l' \<in> insert (hl_afterSeq l) (ev_Seq ` set evs)
    \<and> (case r of PageAgain \<Rightarrow> hl_pending l' = filter (\<lambda>e. hl_afterSeq l' < ev_Seq e) evs
       | _ \<Rightarrow> hl_pending l' = hl_pending l \<and> (\<forall>e \<in> set evs. ev_Seq e \<le> hl_afterSeq l'))"
  using assms
proof (induction evs arbitrary: found l st t)
  case Nil
  then show ?case by auto
next
  case (Cons event rest)
  have less: "hl_afterSeq l < ev_Seq event" and tail: "\<forall>e \<in> set rest. ev_Seq event < ev_Seq e" "sorted_wrt (<) (ev_Seq event # map ev_Seq rest)"
    using Cons.prems(3) by auto
  from Cons.prems(1) show ?case
  proof (cases rule: event_loop_cases)
    case other
    note IH = Cons.IH [OF other(3) Cons.prems(2)]
    have "ev_Seq event \<le> hl_afterSeq l'" using event_loop_order [OF other(3)] by simp
    then show ?thesis using IH tail other(2) by (auto split: page_end.splits)
  next
    case again
    have "filter (\<lambda>e. hl_afterSeq l' < ev_Seq e) (event # rest) = event # rest" using again(3) less tail(1) by (auto simp: filter_id_conv)
    then show ?thesis using again less tail(1) by (auto dest: order_trans)
  next
    case (taken a found' l1 st1 t1)
    note IH = Cons.IH [OF taken(2) Cons.prems(2)]
    have "ev_Seq event \<le> hl_afterSeq l'" using event_loop_order [OF taken(2)] taken(3) by simp
    moreover have "is_offer event" using taken(6) by (simp add: act_ok_def)
    ultimately show ?thesis using IH tail taken(3,4,5) by (auto split: page_end.splits)
  qed (use less Cons.prems(2) in auto)
qed

text \<open>What an endpoint is to see of a log between two cursors.\<close>

definition page_upto :: "string \<Rightarrow> Event list \<Rightarrow> u64 \<Rightarrow> u64 \<Rightarrow> Event list" where
  "page_upto endpointID L a b = filter (\<lambda>e. a < ev_Seq e \<and> ev_Seq e \<le> b \<and> (ev_ToEndpointID e = [] \<or> ev_ToEndpointID e = endpointID)) L"

definition offers_upto :: "string \<Rightarrow> Event list \<Rightarrow> u64 \<Rightarrow> u64 \<Rightarrow> Event set" where
  "offers_upto endpointID L a b = {e \<in> set (page_upto endpointID L a b). is_offer e}"

lemma page_upto_sorted: "sorted_wrt (<) (map ev_Seq L) \<Longrightarrow> sorted_wrt (<) (a # map ev_Seq (page_upto endpointID L a b))"
  by (auto simp: page_upto_def sorted_wrt_map intro: sorted_wrt_filter)

lemma page_upto_rest: "a \<le> c \<Longrightarrow> filter (\<lambda>e. c < ev_Seq e) (page_upto endpointID L a b) = page_upto endpointID L c b"
  by (auto simp: page_upto_def intro!: filter_cong)

lemma page_upto_nothing [simp]: "page_upto endpointID L a a = []"
  by (auto simp: page_upto_def filter_empty_conv)

lemma page_upto_take:
  assumes "sorted_wrt (<) (map ev_Seq L)"
  obtains c where "take n (page_upto endpointID L a b) = page_upto endpointID L a c" "c \<le> b \<or> c = a" "length (page_upto endpointID L a b) < n \<Longrightarrow> c = b"
proof -
  let ?p = "page_upto endpointID L a b"
  consider "length ?p < n" | "n = 0" | "0 < n" "n \<le> length ?p" by linarith
  then show thesis
  proof cases
    case 1
    then show thesis by (intro that [of b]) auto
  next
    case 2
    then show thesis by (intro that [of a]) simp_all
  next
    case 3
    then obtain k where k: "n = Suc k" "k < length ?p" by (cases n) auto
    let ?c = "ev_Seq (?p ! k)"
    have c: "?c \<le> b" "a < ?c" using nth_mem [OF k(2)] by (auto simp: page_upto_def)
    have "sorted_wrt (\<lambda>u v. ev_Seq u < ev_Seq v) (take k ?p @ ?p ! k # drop n ?p)"
      using page_upto_sorted [OF assms, of a endpointID b] k by (simp add: sorted_wrt_map id_take_nth_drop [symmetric])
    then have up: "\<forall>e \<in> set (take n ?p). ev_Seq e \<le> ?c" and down: "\<forall>e \<in> set (drop n ?p). ?c < ev_Seq e"
      using k by (auto simp: sorted_wrt_append take_Suc_conv_app_nth intro: less_imp_le)
    have "filter (\<lambda>e. ev_Seq e \<le> ?c) (take n ?p @ drop n ?p) = take n ?p"
      unfolding filter_append using up down by (simp add: filter_id_conv filter_empty_conv not_le)
    moreover have "filter (\<lambda>e. ev_Seq e \<le> ?c) ?p = page_upto endpointID L a ?c"
      using c(1) by (auto simp: page_upto_def intro!: filter_cong)
    ultimately show thesis using 3 c by (intro that [of ?c]) auto
  qed
qed

text \<open>
  A reply of the store of the control plane to a poll of a target, when the log of the store is a stretch of L:
  what is missing before it was compacted, and what is missing after it was not written yet.
\<close>

definition log_stretch :: "Event list \<Rightarrow> Event list \<Rightarrow> Session \<Rightarrow> bool" where
  "log_stretch L evs x \<longleftrightarrow>
     (\<exists>older newer. L = older @ evs @ newer \<and> (\<forall>e \<in> set older. ev_Seq e \<le> ses_SnapshotSeq x) \<and> (\<forall>e \<in> set newer. ses_LastSeq x < ev_Seq e))"

definition store_reply :: "string \<Rightarrow> string \<Rightarrow> gint \<Rightarrow> Event list \<Rightarrow> u64 \<Rightarrow> gint \<Rightarrow> Event list \<times> Lease \<times> EventReplayState \<Rightarrow> bool" where
  "store_reply sid endpointID batch L a limit reply \<longleftrightarrow>
     (\<exists>E cursor s s' x. reachable s \<and> EventsAfter E sid cursor limit s = (Inr reply, s') \<and> cu_AfterSeq cursor = a \<and> cu_EndpointID cursor = endpointID
        \<and> m_sessions s sid = Some x \<and> batch \<le> lim_EventBatch (ses_Limits x)
        \<and> (\<forall>e \<in> set (ses_Endpoints x). ep_ID e = endpointID \<longrightarrow> ep_Role e = EndpointRoleTarget) \<and> log_stretch L (events_of s sid) x)"

definition served :: "'w host_process \<Rightarrow> gint \<Rightarrow> Event list \<Rightarrow> bool" where
  "served P batch L \<longleftrightarrow>
     (\<forall>url secret a limit wait w answer w' reply.
        hn_Do (hp_net P) (GetEvents url (hp_session P) (hp_endpoint P) secret a limit wait) w = (answer, w')
        \<longrightarrow> events_reply (rn_unicode (hp_runner P)) (hp_codec P) answer = Inr reply
        \<longrightarrow> store_reply (hp_session P) (hp_endpoint P) batch L a limit reply)"

lemma EventsAfter_last:
  assumes "EventsAfter E sid cursor limit s = (Inr (evs, lease, replay), s')" "m_sessions s sid = Some x"
  shows "er_LastSeq replay = ses_LastSeq x \<and> \<not> er_SnapshotRequired replay"
  using assms(1)
proof (cases rule: EventsAfter_cases)
  case (polled x' i reconnecting replay')
  have x: "x' = x" using polled(1) assms(2) by simp
  note guards = assms(2) polled(2-6) [unfolded x]
  show ?thesis
    using assms(1) [unfolded EventsAfter_def, simplified guards option.simps sum.simps Let_def case_prod_beta if_False]
    by (cases reconnecting) (auto simp: map_get_def replay_of_def zero_replay_def)
qed simp

lemma store_reply_page:
  assumes "store_reply sid endpointID batch L a limit (evs, lease, replay)" "0 < limit" "limit \<le> batch"
  shows "evs = take (nat limit) (page_upto endpointID L a (er_LastSeq replay))"
proof -
  obtain E cursor s s' x where s: "reachable s" "EventsAfter E sid cursor limit s = (Inr (evs, lease, replay), s')" "cu_AfterSeq cursor = a"
      "cu_EndpointID cursor = endpointID" "m_sessions s sid = Some x" "batch \<le> lim_EventBatch (ses_Limits x)"
      "\<forall>e \<in> set (ses_Endpoints x). ep_ID e = endpointID \<longrightarrow> ep_Role e = EndpointRoleTarget" "log_stretch L (events_of s sid) x"
    using assms(1) unfolding store_reply_def by blast
  from s(2) show ?thesis
  proof (cases rule: EventsAfter_cases)
    case (polled x' i reconnecting replay')
    let ?e = "ses_Endpoints x ! i"
    have x: "x' = x" using polled(1) s(5) by simp
    have e: "?e \<in> set (ses_Endpoints x)" "ep_ID ?e = endpointID"
      using polled(5) s(4) x by (auto simp: endpointIndexLocked_def dest: first_index_Some)
    have vis: "eventVisibleToEndpoint ev (polled_endpoint cursor reconnecting (clock_at E 2) ?e) \<longleftrightarrow> ev_ToEndpointID ev = [] \<or> ev_ToEndpointID ev = endpointID" for ev
      using s(7) e by (simp add: eventVisibleToEndpoint_def)
    have clamp: "clampLimit x limit = limit" using assms(2,3) s(6) by (simp add: clampLimit_def)
    have wf: "\<forall>ev \<in> set (events_of s sid). ev_Seq ev \<le> ses_LastSeq x"
      using reachable_session_wf [OF s(1,5)] by (simp add: session_wf_def log_wf_def)
    have last: "er_LastSeq replay = ses_LastSeq x" using EventsAfter_last [OF s(2,5)] by simp
    obtain older newer where L: "L = older @ events_of s sid @ newer" "\<forall>ev \<in> set older. ev_Seq ev \<le> ses_SnapshotSeq x" "\<forall>ev \<in> set newer. ses_LastSeq x < ev_Seq ev"
      using s(8) by (auto simp: log_stretch_def)
    have a: "\<not> a < ses_SnapshotSeq x" using polled(4) s(3) x by simp
    have none: "page_upto endpointID older a (ses_LastSeq x) = []" "page_upto endpointID newer a (ses_LastSeq x) = []"
      using L(2,3) a by (force simp: page_upto_def filter_empty_conv)+
    have "page_upto endpointID L a (ses_LastSeq x) = page_upto endpointID (events_of s sid) a (ses_LastSeq x)"
      using none unfolding L(1) by (simp add: page_upto_def)
    also have "\<dots> = visible_after (polled_endpoint cursor reconnecting (clock_at E 2) ?e) a (events_of s sid)"
      using wf by (auto simp: page_upto_def visible_after_def vis intro!: filter_cong)
    finally show ?thesis using polled(8) assms(2) clamp x s(3) last by (simp add: visible_eq)
  qed simp
qed

lemma event_limit_range: "0 < sessionEventLimit tr" "sessionEventLimit tr \<le> 64"
  by (simp_all add: sessionEventLimit_def)

text \<open>One page: what was taken up of it are the offers up to the new cursor, and what is left of it is kept.\<close>

definition upto_page :: "string \<Rightarrow> Event list \<Rightarrow> host_loop \<Rightarrow> bool" where
  "upto_page endpointID L l \<longleftrightarrow> (\<exists>b. hl_pending l = page_upto endpointID L (hl_afterSeq l) b)"

lemma upto_page_Nil: "hl_pending l = [] \<Longrightarrow> upto_page endpointID L l"
  unfolding upto_page_def by (metis page_upto_nothing)

lemma event_loop_page:
  assumes "event_loop P m evs found l st = Some (r, l', st', t)" "\<forall>e. r \<noteq> PageStop e" "evs = page_upto endpointID L (hl_afterSeq l) b"
    and sorted: "sorted_wrt (<) (map ev_Seq L)" and "hl_pending l = []"
  shows "fst ` set t = offers_upto endpointID L (hl_afterSeq l) (hl_afterSeq l') \<and> upto_page endpointID L l'
    \<and> (r \<noteq> PageAgain \<longrightarrow> hl_pending l' = [] \<and> fst ` set t = offers_upto endpointID L (hl_afterSeq l) b)"
proof -
  note comp = event_loop_complete [OF assms(1,2) page_upto_sorted [OF sorted, of "hl_afterSeq l" endpointID b, folded assms(3)]]
  have le: "hl_afterSeq l \<le> hl_afterSeq l'" using event_loop_order [OF assms(1)] by blast
  have upto: "e \<in> set (page_upto endpointID L (hl_afterSeq l) (hl_afterSeq l')) \<longleftrightarrow> e \<in> set evs \<and> ev_Seq e \<le> hl_afterSeq l'" for e
  proof -
    have "hl_afterSeq l' = hl_afterSeq l \<or> hl_afterSeq l' \<le> b" using comp assms(3) by (auto simp: page_upto_def)
    then show ?thesis using assms(3) by (auto simp: page_upto_def)
  qed
  have "fst ` set t = offers_upto endpointID L (hl_afterSeq l) (hl_afterSeq l')"
    using comp upto unfolding offers_upto_def by blast
  moreover have "upto_page endpointID L l'"
  proof (cases "r = PageAgain")
    case True
    then have "hl_pending l' = page_upto endpointID L (hl_afterSeq l') b"
      using comp page_upto_rest [OF le, of endpointID L b] assms(3) by simp
    then show ?thesis unfolding upto_page_def by blast
  qed (use comp assms(5) in \<open>auto intro!: upto_page_Nil split: page_end.splits\<close>)
  moreover have "hl_pending l' = [] \<and> fst ` set t = offers_upto endpointID L (hl_afterSeq l) b" if "r \<noteq> PageAgain"
    using that comp assms(2,3,5) by (auto simp: offers_upto_def split: page_end.splits)
  ultimately show ?thesis by blast
qed

lemma event_loop_sub:
  "event_loop P m evs found l st = Some (r, l', st', t) \<Longrightarrow> fst ` set t \<subseteq> set evs"
proof (induction evs arbitrary: found l st t)
  case (Cons event rest)
  from Cons.prems show ?case
    by (cases rule: event_loop_cases) (use Cons.IH in \<open>fastforce simp: log_of_def split: option.splits\<close>)+
qed simp

lemma offers_upto_append: "a \<le> c \<Longrightarrow> c \<le> b \<Longrightarrow> offers_upto endpointID L a c \<union> offers_upto endpointID L c b = offers_upto endpointID L a b"
  by (auto simp: offers_upto_def page_upto_def)

lemma page_subset: "set (page_upto endpointID L a b) \<subseteq> {e \<in> set L. ev_ToEndpointID e = [] \<or> ev_ToEndpointID e = endpointID}"
  by (auto simp: page_upto_def)

lemma accept_page_exact:
  assumes "accept_page P m snapshot limit fromPending evs lease replay l st = Some (r, l', st', t)" "hl_pending l = []"
    and evs: "evs = page_upto endpointID L (hl_afterSeq l) b" and sorted: "sorted_wrt (<) (map ev_Seq L)"
    and short: "int (length evs) < limit \<Longrightarrow> er_LastSeq replay \<in> {0, b}"
  shows "fst ` set t \<subseteq> set evs
    \<and> (r = LoopAgain \<longrightarrow> fst ` set t = offers_upto endpointID L (hl_afterSeq l) (hl_afterSeq l') \<and> upto_page endpointID L l')"
  using assms(1)
proof (cases rule: accept_page_cases)
  case kept
  then have "upto_page endpointID L l'" if "r = LoopAgain"
    using that evs assms(2) by (cases fromPending) (auto simp: upto_page_def, metis page_upto_nothing)
  then show ?thesis using kept by (simp add: offers_upto_def)
next
  case (page l1 st1 x l2 st2)
  note sub = event_loop_sub [OF page(1)]
  show ?thesis
  proof (cases x)
    case (PageStop e)
    then show ?thesis using sub page(4) by simp
  next
    case PageAgain
    then show ?thesis using sub page event_loop_page [OF page(1) _ _ sorted, of endpointID b] evs assms(2) by simp
  next
    case (PageDone found)
    have fin: "fst ` set t = offers_upto endpointID L (hl_afterSeq l) (hl_afterSeq l2)" "hl_pending l2 = []"
        "fst ` set t = offers_upto endpointID L (hl_afterSeq l) b"
      using event_loop_page [OF page(1) _ _ sorted, of endpointID b] PageDone page(2,3) evs assms(2) by auto
    have "hl_afterSeq l' \<in> {hl_afterSeq l2, b}" "hl_pending l' = []"
      using page(4) PageDone short fin(2) by (auto simp: end_of_page_def)
    then show ?thesis using sub fin by (auto intro: upto_page_Nil)
  qed
qed

lemma poll_step_exact:
  assumes "poll_step P m l st = Some (r, l', st', t)" and served: "served P 64 L" and sorted: "sorted_wrt (<) (map ev_Seq L)"
    and pending: "upto_page (hp_endpoint P) L l"
  shows "fst ` set t \<subseteq> {e \<in> set L. ev_ToEndpointID e = [] \<or> ev_ToEndpointID e = hp_endpoint P}
    \<and> (r = LoopAgain \<longrightarrow> fst ` set t = offers_upto (hp_endpoint P) L (hl_afterSeq l) (hl_afterSeq l') \<and> upto_page (hp_endpoint P) L l')"
  using assms(1)
proof (cases rule: poll_step_cases)
  case idle
  then show ?thesis using pending by (simp add: offers_upto_def upto_page_def)
next
  case (route snapshot st1)
  then show ?thesis
  proof (cases rule: poll_route_cases)
    case idle
    then show ?thesis using pending by (simp add: offers_upto_def upto_page_def)
  next
    case (pending limit l1)
    obtain b where "hl_pending l = page_upto (hp_endpoint P) L (hl_afterSeq l1) b"
      using \<open>upto_page (hp_endpoint P) L l\<close> pending(3) by (auto simp: upto_page_def)
    from accept_page_exact [OF pending(2,4) this sorted] show ?thesis
      using \<open>hl_pending l = page_upto _ _ _ _\<close> page_subset [of "hp_endpoint P" L "hl_afterSeq l1" b] pending(3) by (auto simp: zero_replay_def)
  next
    case (fetched limit opts secret evs lease replay l1 st2)
    have "store_reply (hp_session P) (hp_endpoint P) 64 L (hl_afterSeq l) limit (evs, lease, replay)"
      using fetched(2) served unfolding served_def fetchSessionEvents_def on_world_def
      by (auto split: prod.splits) blast
    from store_reply_page [OF this] have evs: "evs = take (nat limit) (page_upto (hp_endpoint P) L (hl_afterSeq l) (er_LastSeq replay))"
      using fetched(3) event_limit_range [of "so_Transport opts"] by simp
    obtain c where c: "take (nat limit) (page_upto (hp_endpoint P) L (hl_afterSeq l) (er_LastSeq replay)) = page_upto (hp_endpoint P) L (hl_afterSeq l) c"
        "length (page_upto (hp_endpoint P) L (hl_afterSeq l) (er_LastSeq replay)) < nat limit \<Longrightarrow> c = er_LastSeq replay"
      by (rule page_upto_take [OF sorted, of "nat limit" "hp_endpoint P" "hl_afterSeq l" "er_LastSeq replay"]) blast
    have "er_LastSeq replay \<in> {0, c}" if "int (length evs) < limit"
      using that c(2) evs by (cases "length (page_upto (hp_endpoint P) L (hl_afterSeq l) (er_LastSeq replay)) < nat limit") (auto split: if_splits)
    from accept_page_exact [OF fetched(4,6) _ sorted this] show ?thesis
      using evs c(1) fetched(5) page_subset [of "hp_endpoint P" L "hl_afterSeq l" c] by auto
  qed
qed

text \<open>
  C38. The host takes up every offer once and in order. Take any gateway whose replies to polls come from the control
  plane store (with event pages of at least 64), a log L those replies are stretches of, and any behaviour of
  routes, clock and tasks: along the loop the offers taken up have increasing sequence numbers, each was run or
  found settled with the task the offer names, and they are offers of L addressed to the host. As long as the loop
  goes on they are all of them up to the cursor: none is passed over.
\<close>

theorem offers_exactly_once:
  assumes "polls P m l0 st0 t r l st" "served P 64 L" "sorted_wrt (<) (map ev_Seq L)" "upto_page (hp_endpoint P) L l0"
  shows "sorted_wrt (<) (map (ev_Seq \<circ> fst) t) \<and> (\<forall>x \<in> set t. act_ok P x)
    \<and> fst ` set t \<subseteq> {e \<in> set L. ev_ToEndpointID e = [] \<or> ev_ToEndpointID e = hp_endpoint P}
    \<and> (r = LoopAgain \<longrightarrow> fst ` set t = offers_upto (hp_endpoint P) L (hl_afterSeq l0) (hl_afterSeq l))"
proof -
  have "fst ` set t \<subseteq> {e \<in> set L. ev_ToEndpointID e = [] \<or> ev_ToEndpointID e = hp_endpoint P}
    \<and> (r = LoopAgain \<longrightarrow> fst ` set t = offers_upto (hp_endpoint P) L (hl_afterSeq l0) (hl_afterSeq l) \<and> upto_page (hp_endpoint P) L l)"
    using assms(1)
  proof (induction rule: polls.induct)
    case polls_begin
    show ?case using assms(4) by (simp add: offers_upto_def)
  next
    case (polls_step t l st r l' st' t')
    from poll_step_exact [OF polls_step(3) assms(2,3)] polls_step.IH
      offers_upto_append [of "hl_afterSeq l0" "hl_afterSeq l" "hl_afterSeq l'" "hp_endpoint P" L]
      polls_order [OF polls_step(1)] poll_step_order [OF polls_step(3)]
    show ?case unfolding set_append image_Un by blast
  qed
  then show ?thesis using polls_order [OF assms(1)] by (simp add: offers_between_def)
qed

lemma event_loop_no_offers:
  "event_loop P m evs found l st = Some (r, l', st', t) \<Longrightarrow> \<forall>e \<in> set evs. \<not> is_offer e \<Longrightarrow> \<exists>found'. r = PageDone found'"
proof (induction evs arbitrary: l)
  case (Cons event rest)
  then show ?case by (cases "ev_Seq event \<le> hl_afterSeq l") simp_all
qed auto

lemma on_world_answer: obtains st' where "on_world f st = (fst (f (hs_world (fst st))), st')"
  by (cases st) (auto simp: on_world_def case_prod_beta)

lemma accept_page_current:
  assumes "on_world (hn_Success (hp_net P) snapshot) st = (True, st1)" "\<not> er_SnapshotRequired replay"
  shows "accept_page P m snapshot limit False evs lease replay l st = Some (r, l', st', t)
    \<Longrightarrow> \<exists>x l2 st2. event_loop P m evs False (renew_lease lease l) st1 = Some (x, l2, st2, t) \<and> (\<forall>found. x = PageDone found \<longrightarrow> l' = end_of_page limit evs replay l2)"
  using assms by (cases "event_loop P m evs False (renew_lease lease l) st1")
    (auto simp: accept_page_def nap_def Let_def split: page_end.splits if_splits prod.splits)

section \<open>What is lost\<close>

text \<open>
  C39. A host loses offers in a session whose event batch is smaller than the page it asks for (16 events on a long poll,
  64 otherwise). A reply is then always shorter than the page, which the host takes for the end of the log: it moves
  its cursor to the last event of the session, and no event that the reply left out is ever taken up, whatever the
  gateway answers later. Here the reply holds no offer itself.
\<close>

theorem small_batch_skips_offers:
  assumes "EventsAfter E sid cursor limit s = (Inr (evs, lease, replay), s')" "m_sessions s sid = Some x" "session_wf sid x (events_of s sid)"
    and batch: "0 < lim_EventBatch (ses_Limits x)" "lim_EventBatch (ses_Limits x) < limit" "limit = sessionEventLimit transport"
    and evs: "\<forall>e \<in> set evs. \<not> is_offer e" and current: "fst (hn_Success (hp_net P) snapshot (hs_world (fst st)))"
    and accept: "accept_page P m snapshot limit False evs lease replay l st = Some (r, l1, st1, t)"
    and later: "polls P m l1 st1 t' r' l2 st2"
  shows "ses_LastSeq x \<le> hl_afterSeq l1 \<and> (\<forall>e \<in> set (events_of s sid). e \<notin> fst ` set (t @ t'))"
proof -
  have last: "er_LastSeq replay = ses_LastSeq x" "\<not> er_SnapshotRequired replay" using EventsAfter_last [OF assms(1,2)] by simp_all
  have short: "int (length evs) < limit"
    using assms(1)
  proof (cases rule: EventsAfter_cases)
    case (polled x' i reconnecting replay')
    then have "evs = visibleEventsLocked sid (polled_endpoint cursor reconnecting (clock_at E 2) (ses_Endpoints x ! i)) (cu_AfterSeq cursor) (lim_EventBatch (ses_Limits x)) s"
      using assms(2) batch by (simp add: clampLimit_def)
    then have "length evs \<le> nat (lim_EventBatch (ses_Limits x))" using batch(1) by (simp add: visible_eq)
    then show ?thesis using batch by linarith
  qed simp
  obtain st' where u: "on_world (hn_Success (hp_net P) snapshot) st = (True, st')"
    using current by (cases rule: on_world_answer [of "hn_Success (hp_net P) snapshot" st]) simp
  obtain y l' st'' where loop: "event_loop P m evs False (renew_lease lease l) st' = Some (y, l', st'', t)"
      and l1: "\<forall>found. y = PageDone found \<longrightarrow> l1 = end_of_page limit evs replay l'"
    using accept_page_current [OF u last(2) accept] by blast
  note order = event_loop_order [OF loop] and sub = event_loop_sub [OF loop]
  have t: "t = []"
  proof (rule ccontr)
    assume "t \<noteq> []"
    then obtain z where z: "z \<in> set t" by (cases t) auto
    then have "act_ok P z" using order by (simp add: offers_between_def)
    then have "is_offer (fst z)" by (simp add: act_ok_def case_prod_beta)
    then show False using sub z evs by blast
  qed
  have up: "ses_LastSeq x \<le> hl_afterSeq l1"
    using event_loop_no_offers [OF loop evs] l1 short last(1) by (auto simp: end_of_page_def)
  have "ses_LastSeq x < ev_Seq (fst z)" if "z \<in> set t'" for z
    using polls_order [OF later] that up by (auto simp: offers_between_def intro: le_less_trans)
  moreover have "ev_Seq e \<le> ses_LastSeq x" if "e \<in> set (events_of s sid)" for e
    using assms(3) that by (simp add: session_wf_def log_wf_def)
  ultimately have "e \<notin> fst ` set t'" if "e \<in> set (events_of s sid)" for e using that by (metis imageE leD)
  then show ?thesis using t up by simp
qed

section \<open>Pages that cannot be read\<close>

text \<open>In the worlds of an invariant an operation of the machine gives an answer of a kind and stays among them.\<close>

definition answers :: "('w \<Rightarrow> bool) \<Rightarrow> ('a \<Rightarrow> bool) \<Rightarrow> ('w \<Rightarrow> 'a \<times> 'w) \<Rightarrow> bool" where
  "answers I A f \<longleftrightarrow> (\<forall>w. I w \<longrightarrow> A (fst (f w)) \<and> I (snd (f w)))"

definition oversized :: "gateway_answer \<Rightarrow> bool" where
  "oversized answer \<longleftrightarrow> (case answer of Response _ (Some body) \<Rightarrow> maxGatewayBody < length body | _ \<Rightarrow> False)"

abbreviation in_world :: "('w \<Rightarrow> bool) \<Rightarrow> 'w run_state \<Rightarrow> bool" where
  "in_world I st \<equiv> I (hs_world (fst st))"

lemma on_world_answers:
  assumes "answers I A f" "in_world I st"
  obtains r st' where "on_world f st = (r, st')" "A r" "in_world I st'"
  using assms by (cases st) (auto simp: answers_def on_world_def case_prod_beta)

lemma oversized_fetch:
  assumes "answers I oversized (hn_Do (hp_net P) (GetEvents (so_GatewayURL opts) (hp_session P) (hp_endpoint P) secret a limit (sessionLongPollWait opts)))" "in_world I st"
  obtains st' where "fetchSessionEvents P opts secret a limit st = (Inl TransientError, st')" "in_world I st'"
proof -
  obtain r st' where "on_world (hn_Do (hp_net P) (GetEvents (so_GatewayURL opts) (hp_session P) (hp_endpoint P) secret a limit (sessionLongPollWait opts))) st = (r, st')"
      "oversized r" "in_world I st'" using assms by (rule on_world_answers)
  then show thesis
    by (intro that [of st'])
      (auto simp: fetchSessionEvents_def events_reply_def read_answer_def readBoundedGatewayBody_def oversized_def split: gateway_answer.splits option.splits)
qed

lemma oversized_polls:
  assumes large: "\<And>url secret limit wait. answers I oversized (hn_Do (hp_net P) (GetEvents url (hp_session P) (hp_endpoint P) secret (hl_afterSeq l0) limit wait))"
    and routes: "answers I (\<lambda>_. True) (hn_Snapshot (hp_net P))" "\<And>snapshot. answers I (\<lambda>_. True) (hn_Failure (hp_net P) snapshot)"
    and quiet: "answers I (\<lambda>r. r = None) (hn_Probe (hp_net P))" "answers I (\<lambda>r. r = None) (hn_MonitorError (hp_net P))"
      "\<And>d. answers I (\<lambda>r. r = None) (hn_Sleep (hp_net P) d)"
    and "in_world I st0" "hl_pending l0 = []" "polls P m l0 st0 t r l st"
  shows "t = [] \<and> r = LoopAgain \<and> hl_afterSeq l = hl_afterSeq l0 \<and> (\<exists>l' st'. poll_step P m l st = Some (LoopAgain, l', st', []))"
proof -
  have nap: "\<exists>st'. nap (hp_net P) l st [] = Some (LoopAgain, l, st', []) \<and> in_world I st'" if "in_world I st" for l st
    by (rule on_world_answers [OF quiet(3) that, of "if hl_interval l \<le> 0 then second_ns else hl_interval l"]) (simp add: nap_def sleepOrDone_def)
  have route: "\<exists>l' st'. poll_route P m snapshot l st = Some (LoopAgain, l', st', []) \<and> hl_afterSeq l' = hl_afterSeq l0 \<and> hl_pending l' = [] \<and> in_world I st'"
    if l: "hl_afterSeq l = hl_afterSeq l0" "hl_pending l = []" and st: "in_world I st" for snapshot l st
  proof -
    let ?l = "on_route snapshot l"
    obtain st1 where f: "fetchSessionEvents P (hl_opts ?l) (hl_secret l) (hl_afterSeq l0) (sessionEventLimit (so_Transport (hl_opts ?l))) st = (Inl TransientError, st1)" "in_world I st1"
      using large st by (rule oversized_fetch)
    obtain another st2 where failed: "on_world (hn_Failure (hp_net P) snapshot) st1 = (another, st2)" "in_world I st2"
      using routes(2) f(2) by (rule on_world_answers)
    show ?thesis using nap [OF failed(2), of ?l] failed(2) by (cases another) (auto simp: poll_route_def Let_def l f(1) failed(1))
  qed
  have step: "\<exists>l' st'. poll_step P m l st = Some (LoopAgain, l', st', []) \<and> hl_afterSeq l' = hl_afterSeq l0 \<and> hl_pending l' = [] \<and> in_world I st'"
    if l: "hl_afterSeq l = hl_afterSeq l0" "hl_pending l = []" and st: "in_world I st" for l st
  proof -
    obtain st1 where mon: "on_world (hn_MonitorError (hp_net P)) st = (None, st1)" "in_world I st1"
      using quiet(2) st by (rule on_world_answers) simp
    obtain r1 st2 where snap: "on_world (hn_Snapshot (hp_net P)) st1 = (r1, st2)" "in_world I st2" using routes(1) mon(2) by (rule on_world_answers)
    obtain st3 where probe: "on_world (hn_Probe (hp_net P)) st2 = (None, st3)" "in_world I st3" using quiet(1) snap(2) by (rule on_world_answers) simp
    obtain r2 st4 where again: "on_world (hn_Snapshot (hp_net P)) st3 = (r2, st4)" "in_world I st4" using routes(1) probe(2) by (rule on_world_answers)
    show ?thesis
      using route [OF l snap(2)] route [OF l again(2)] nap [OF again(2), of l] l
      by (cases r1; cases r2) (auto simp: poll_step_def Let_def mon(1) snap(1) probe(1) again(1))
  qed
  have "t = [] \<and> r = LoopAgain \<and> hl_afterSeq l = hl_afterSeq l0 \<and> hl_pending l = [] \<and> in_world I st"
    using assms(9)
  proof (induction rule: polls.induct)
    case (polls_step t l st r l' st' t')
    then show ?case using step [of l st] by auto
  qed (simp add: assms(7,8))
  then show ?thesis using step [of l st] by auto
qed

end
