(* ===== verification/Host_Pool.thy ===== *)
theory Host_Pool
  imports Host_Loop_Properties
begin

text \<open>
  The host loop on the route pool of the repository (the methods of gatewayCandidateSet in
  internal/hostcmd/hostcmd.go, which call those of route_pool.go): the calls of the loop that concern routes
  are the critical sections of the pool in the order of the code, with the clock, the probes and the monitor
  that runs beside the loop as arguments. A page of events that is too large is followed through it.
\<close>

section \<open>A pool and its surroundings\<close>

record 'e pool_world =
  pw_pool :: routePool
  pw_env :: 'e

text \<open>What the monitor may have done to the pool whenever the loop takes the mutex: any critical sections of its probes.\<close>

datatype monitor_section = MonitorBegin Time | MonitorCommit Time gint u64 "routeProbeObservation list"

fun monitor_run :: "monitor_section \<Rightarrow> routePool \<Rightarrow> routePool" where
  "monitor_run (MonitorBegin now) p = snd (probe_begin now p)"
| "monitor_run (MonitorCommit now active activeGeneration obs) p = snd (probe_commit False now active activeGeneration obs p)"

record 'e pool_env =
  pe_Now :: "'e \<Rightarrow> Time \<times> 'e"
  pe_Probe :: "routePool \<Rightarrow> gint list \<Rightarrow> 'e \<Rightarrow> routeProbeObservation list \<times> 'e"
  pe_Monitor :: "'e \<Rightarrow> monitor_section list \<times> 'e"
  pe_Cancelled :: "'e \<Rightarrow> bool"

definition outside :: "('e \<Rightarrow> 'a \<times> 'e) \<Rightarrow> 'e pool_world \<Rightarrow> 'a \<times> 'e pool_world" where
  "outside f w = (case f (pw_env w) of (r, e) \<Rightarrow> (r, w\<lparr>pw_env := e\<rparr>))"

definition inside :: "'e pool_env \<Rightarrow> (routePool \<Rightarrow> 'a \<times> routePool) \<Rightarrow> 'e pool_world \<Rightarrow> 'a \<times> 'e pool_world" where
  "inside E f w =
     (case outside (pe_Monitor E) w of
        (sections, w1) \<Rightarrow> (case f (fold monitor_run sections (pw_pool w1)) of (r, p) \<Rightarrow> (r, w1\<lparr>pw_pool := p\<rparr>)))"

definition probe_all :: "'e pool_env \<Rightarrow> gint list \<Rightarrow> 'e pool_world \<Rightarrow> routeProbeObservation list \<times> 'e pool_world" where
  "probe_all E is w = outside (pe_Probe E (pw_pool w) is) w"

text \<open>An observation with the reading of the clock at which it is taken over.\<close>

fun stamped :: "'e pool_env \<Rightarrow> routeProbeObservation list \<Rightarrow> 'e pool_world \<Rightarrow> (routeProbeObservation \<times> Time) list \<times> 'e pool_world" where
  "stamped E [] w = ([], w)"
| "stamped E (ob # rest) w =
     (case outside (pe_Now E) w of (now, w1) \<Rightarrow> (case stamped E rest w1 of (obs, w2) \<Rightarrow> ((ob, now) # obs, w2)))"

section \<open>The calls of the loop\<close>

definition set_currentSnapshot :: "'e pool_env \<Rightarrow> 'e pool_world \<Rightarrow> routeSnapshot option \<times> 'e pool_world" where
  "set_currentSnapshot E w = (case outside (pe_Now E) w of (now, w1) \<Rightarrow> inside E (\<lambda>p. (currentSnapshot now p, p)) w1)"

definition set_reportSuccess :: "'e pool_env \<Rightarrow> routeSnapshot \<Rightarrow> 'e pool_world \<Rightarrow> bool \<times> 'e pool_world" where
  "set_reportSuccess E snapshot = inside E (reportSnapshotSuccess snapshot)"

definition set_probeReplacement :: "'e pool_env \<Rightarrow> gint \<Rightarrow> u64 \<Rightarrow> 'e pool_world \<Rightarrow> routeCandidate option \<times> 'e pool_world" where
  "set_probeReplacement E excluded expectedGeneration w =
     (case outside (pe_Now E) w of
        (now, w1) \<Rightarrow>
          (case inside E (\<lambda>p. (probeReplacement_begin now excluded p, p)) w1 of
             (is, w2) \<Rightarrow>
               if is = [] then (None, w2)
               else
                 (case probe_all E is w2 of
                    (found, w3) \<Rightarrow>
                      (case stamped E found w3 of
                         (obs, w4) \<Rightarrow>
                           (case outside (pe_Now E) w4 of
                              (now1, w5) \<Rightarrow>
                                (case outside (pe_Now E) w5 of
                                   (later, w6) \<Rightarrow>
                                     inside E (probeReplacement_commit (pe_Cancelled E (pw_env w3)) now1 later excluded expectedGeneration obs) w6))))))"

definition set_reportFailure :: "'e pool_env \<Rightarrow> routeSnapshot \<Rightarrow> 'e pool_world \<Rightarrow> bool \<times> 'e pool_world" where
  "set_reportFailure E snapshot w =
     (case outside (pe_Now E) w of
        (now, w1) \<Rightarrow>
          (case outside (pe_Now E) w1 of
             (later, w2) \<Rightarrow>
               (case inside E (reportSnapshotFailure (pe_Cancelled E (pw_env w)) now later snapshot) w2 of
                  (Returned r, w3) \<Rightarrow> (r \<noteq> None, w3)
                | (AskCurrent, w3) \<Rightarrow> (case set_currentSnapshot E w3 of (r, w4) \<Rightarrow> (r \<noteq> None, w4))
                | (Replace index generation, w3) \<Rightarrow> (case set_probeReplacement E index generation w3 of (r, w4) \<Rightarrow> (r \<noteq> None, w4)))))"

definition set_initialize :: "'e pool_env \<Rightarrow> 'e pool_world \<Rightarrow> (route_error + routeCandidate) \<times> 'e pool_world" where
  "set_initialize E w =
     (case inside E (\<lambda>p. (initialize_begin (pe_Cancelled E (pw_env w)) p, p)) w of
        (Inl r, w1) \<Rightarrow> (r, w1)
      | (Inr is, w1) \<Rightarrow>
          (case probe_all E is w1 of
             (found, w2) \<Rightarrow>
               (case stamped E found w2 of
                  (obs, w3) \<Rightarrow> (case outside (pe_Now E) w3 of (now, w4) \<Rightarrow> inside E (initialize_commit (pe_Cancelled E (pw_env w2)) now obs) w4))))"

definition set_probe :: "'e pool_env \<Rightarrow> 'e pool_world \<Rightarrow> (route_error + bool) \<times> 'e pool_world" where
  "set_probe E w =
     (case inside E (\<lambda>p. (probe_first (pe_Cancelled E (pw_env w)) p, p)) w of
        (Inl r, w1) \<Rightarrow> (r, w1)
      | (Inr False, w1) \<Rightarrow> (case set_initialize E w1 of (r, w2) \<Rightarrow> (map_sum (\<lambda>e. e) (\<lambda>_. True) r, w2))
      | (Inr True, w1) \<Rightarrow>
          (case outside (pe_Now E) w1 of
             (now, w2) \<Rightarrow>
               (case inside E (probe_begin now) w2 of
                  (ProbeReturned r, w3) \<Rightarrow> (r, w3)
                | (ProbeRoutes is active generation, w3) \<Rightarrow>
                    (case probe_all E is w3 of
                       (obs, w4) \<Rightarrow> inside E (probe_commit (pe_Cancelled E (pw_env w4)) now active generation obs) w4))))"

definition route_error_text :: "route_error \<Rightarrow> string" where
  "route_error_text e = (case e of ErrNoHealthyRoutes \<Rightarrow> errNoHealthyRoutes | ErrContext \<Rightarrow> ''context canceled'')"

text \<open>The net of a host whose routes are a pool; requests, trust, the monitor's report, sleep and keys stay arguments.\<close>

definition pool_net :: "'e pool_env \<Rightarrow> 'e host_net \<Rightarrow> 'e pool_world host_net" where
  "pool_net E N =
     \<lparr>hn_Do = (\<lambda>request. outside (hn_Do N request)), hn_Snapshot = set_currentSnapshot E, hn_Success = set_reportSuccess E,
      hn_Failure = set_reportFailure E,
      hn_Probe = (\<lambda>w. case set_probe E w of (r, w1) \<Rightarrow> (case r of Inl e \<Rightarrow> Some (route_error_text e) | Inr _ \<Rightarrow> None, w1)),
      hn_Initialize = (\<lambda>w. case set_initialize E w of (r, w1) \<Rightarrow> (map_sum route_error_text (\<lambda>c. c) r, w1)),
      hn_Trust = (\<lambda>url. outside (hn_Trust N url)), hn_MonitorError = outside (hn_MonitorError N), hn_Sleep = (\<lambda>d. outside (hn_Sleep N d)),
      hn_Key = (\<lambda>prefix. outside (hn_Key N prefix)), hn_Now = (\<lambda>w. hn_Now N (pw_env w))\<rparr>"

section \<open>An initialized pool stays so\<close>

abbreviation ready :: "'e pool_world \<Rightarrow> bool" where
  "ready w \<equiv> rp_initialized (pw_pool w)"

lemma updates_initialized [simp]:
  "rp_initialized (update_route i f p) = rp_initialized p" "rp_initialized (setActiveLocked i p) = rp_initialized p"
  "rp_initialized (resetFastStreaksLocked p) = rp_initialized p"
  by (simp_all add: update_route_def setActiveLocked_def resetFastStreaksLocked_def)

lemma observe_initialized [simp]:
  "rp_initialized (observeReplacement obs1 p) = rp_initialized p" "rp_initialized (snd (observeProbe now obs healthy p)) = rp_initialized p"
  subgoal by (induction obs1 p rule: observeReplacement.induct) simp_all
  subgoal by (induction now obs healthy p rule: observeProbe.induct) simp_all
  done

lemma sections_initialized [simp]:
  "rp_initialized (snd (probe_begin now p)) = rp_initialized p"
  "rp_initialized (snd (probe_commit cancelled now active generation obs p)) = rp_initialized p"
  "rp_initialized (snd (reportSnapshotSuccess snapshot p)) = rp_initialized p"
  "rp_initialized (snd (reportSnapshotFailure cancelled now later snapshot p)) = rp_initialized p"
  "rp_initialized (snd (probeReplacement_commit cancelled now later excluded generation stamps p)) = rp_initialized p"
  "rp_initialized p \<Longrightarrow> rp_initialized (snd (initialize_commit cancelled now stamps p))"
  by (simp_all add: probe_begin_def probe_commit_def reportSnapshotSuccess_def reportSnapshotFailure_def probeReplacement_commit_def
      initialize_commit_def reconcileActiveHealthLocked_def chooseFaster_def Let_def case_prod_beta)

lemma monitor_initialized [simp]: "rp_initialized (fold monitor_run sections p) = rp_initialized p"
proof (induction sections arbitrary: p)
  case (Cons x sections)
  then show ?case by (cases x) simp_all
qed simp

lemma outside_pool [simp]: "pw_pool (snd (outside f w)) = pw_pool w" "pw_pool (snd (probe_all E is w)) = pw_pool w"
  by (simp_all add: outside_def probe_all_def case_prod_beta)

lemma stamped_pool [simp]: "pw_pool (snd (stamped E obs w)) = pw_pool w"
  by (induction obs arbitrary: w) (simp_all add: case_prod_beta)

lemma inside_ready [simp]: "(\<And>p. rp_initialized p \<Longrightarrow> rp_initialized (snd (f p))) \<Longrightarrow> ready w \<Longrightarrow> ready (snd (inside E f w))"
  by (simp add: inside_def case_prod_beta)

lemma inside_answer: "fst (inside E f w) = fst (f (fold monitor_run (fst (outside (pe_Monitor E) w)) (pw_pool w)))"
  by (simp add: inside_def case_prod_beta)

lemma set_calls_ready:
  assumes "ready w"
  shows "ready (snd (set_currentSnapshot E w))" "ready (snd (set_reportSuccess E snapshot w))" "ready (snd (set_probeReplacement E index generation w))"
    "ready (snd (set_initialize E w))"
  using assms
  by (simp_all add: set_currentSnapshot_def set_reportSuccess_def set_probeReplacement_def set_initialize_def case_prod_beta Let_def split: sum.split)

lemma set_reportFailure_ready: "ready w \<Longrightarrow> ready (snd (set_reportFailure E snapshot w))"
  by (simp add: set_reportFailure_def case_prod_beta set_calls_ready split: failure_next.split)

text \<open>Unless its context is done, a probe of an initialized pool reports no error.\<close>

lemma set_probe_ready:
  assumes "ready w" "\<And>e. \<not> pe_Cancelled E e"
  shows "ready (snd (set_probe E w))" "\<not> isl (fst (set_probe E w))"
proof -
  have commit: "\<not> isl (fst (probe_commit False now active generation obs p))" for now active generation obs p
    by (simp add: probe_commit_def Let_def case_prod_beta)
  have begun: "\<not> isl r" if "fst (probe_begin now p) = ProbeReturned r" "rp_initialized p" for r now p
    using that by (auto simp: probe_begin_def Let_def split: if_splits)
  show "ready (snd (set_probe E w))"
    using assms by (simp add: set_probe_def case_prod_beta set_calls_ready split: sum.split bool.split probe_next.split)
  show "\<not> isl (fst (set_probe E w))"
    using assms begun commit
    by (auto simp: set_probe_def case_prod_beta inside_answer probe_first_def split: sum.split bool.split probe_next.split)
qed

section \<open>What stalls\<close>

text \<open>
  C40. A page of events that is larger than 256 KiB stops a host for good, on the route pool of the repository. Take
  a host that has joined, so that its pool is initialized and its joining events are taken up. If every reply to a
  poll after its cursor is larger than that, its context is never done and neither the monitor nor a sleep reports an
  error, then whatever the clock, the probes and the monitor do to the routes, at every point of the loop nothing
  has been taken up, the cursor has not moved, and the next round goes on: the loop neither ends nor reports an
  error, although every failed poll takes the route away and the pool selects another or probes for one.
\<close>

theorem oversized_page_stalls:
  assumes net: "hp_net P = pool_net E N"
    and large: "\<And>url secret limit wait e. oversized (fst (hn_Do N (GetEvents url (hp_session P) (hp_endpoint P) secret (hl_afterSeq l0) limit wait) e))"
    and quiet: "\<And>e. \<not> pe_Cancelled E e" "\<And>e. fst (hn_MonitorError N e) = None" "\<And>d e. fst (hn_Sleep N d e) = None"
    and joined: "rp_initialized (pw_pool (hs_world (fst st0)))" "hl_pending l0 = []"
    and loop: "polls P m l0 st0 t r l st"
  shows "t = [] \<and> r = LoopAgain \<and> hl_afterSeq l = hl_afterSeq l0 \<and> (\<exists>l' st'. poll_step P m l st = Some (LoopAgain, l', st', []))"
proof -
  have outside: "answers ready A (outside f)" if "\<And>e. A (fst (f e))" for A and f :: "'a \<Rightarrow> 'b \<times> 'a"
    using that by (simp add: answers_def outside_def case_prod_beta)
  have "answers ready (\<lambda>r. r = None) (hn_Probe (pool_net E N))"
    using set_probe_ready [of _ E] quiet(1) by (auto simp: answers_def pool_net_def case_prod_beta isl_def split: sum.split)
  moreover have "answers ready (\<lambda>_. True) (hn_Snapshot (pool_net E N))" "answers ready (\<lambda>_. True) (hn_Failure (pool_net E N) snapshot)" for snapshot
    by (simp_all add: answers_def pool_net_def set_calls_ready set_reportFailure_ready)
  moreover have "answers ready (\<lambda>r. r = None) (hn_MonitorError (pool_net E N))" "answers ready (\<lambda>r. r = None) (hn_Sleep (pool_net E N) d)" for d
    using quiet(2,3) by (simp_all add: pool_net_def outside)
  moreover have "answers ready oversized (hn_Do (pool_net E N) (GetEvents url (hp_session P) (hp_endpoint P) secret (hl_afterSeq l0) limit wait))" for url secret limit wait
    using large by (simp add: pool_net_def outside)
  ultimately show ?thesis using oversized_polls [of ready P l0, unfolded net, OF _ _ _ _ _ _ joined loop] by blast
qed

end
