(* ===== verification/Isolation_Properties.thy ===== *)
theory Isolation_Properties
  imports Task_Isolation Workspace_Target
begin

text \<open>
  What the evidence of a task says: the status of a worktree is read as git writes it, the comparison of two
  snapshots finds every file that differs, and a path that passes the scope checks lies below a declared scope.
\<close>

section \<open>The status of a worktree\<close>

text \<open>A changed file as git prints it with -z: status, blank, path, and after a renamed or copied file its source.\<close>

definition status_line :: "GitChangedFile \<Rightarrow> string" where
  "status_line f =
     cf_Status f @ '' '' @ cf_Path f @ [CHR 0x00] @ (if isGitRenameOrCopyStatus (cf_Status f) then cf_OriginalPath f @ [CHR 0x00] else [])"

definition plain_file :: "GitChangedFile \<Rightarrow> bool" where
  "plain_file f \<longleftrightarrow>
     length (cf_Status f) = 2 \<and> CHR 0x00 \<notin> set (cf_Status f) \<and> cf_Path f \<noteq> [] \<and> CHR 0x00 \<notin> set (cf_Path f)
     \<and> (if isGitRenameOrCopyStatus (cf_Status f) then cf_OriginalPath f \<noteq> [] \<and> CHR 0x00 \<notin> set (cf_OriginalPath f) else cf_OriginalPath f = [])"

definition status_fields :: "GitChangedFile \<Rightarrow> string list" where
  "status_fields f = (cf_Status f @ '' '' @ cf_Path f) # (if isGitRenameOrCopyStatus (cf_Status f) then [cf_OriginalPath f] else [])"

lemma split_line:
  assumes "plain_file f"
  shows "splitOn (CHR 0x00) (status_line f @ rest) = status_fields f @ splitOn (CHR 0x00) rest"
proof -
  have head: "splitOn (CHR 0x00) (cf_Status f @ '' '' @ cf_Path f) = [cf_Status f @ '' '' @ cf_Path f]"
    using assms by (intro splitOn_absent) (simp add: plain_file_def)
  have split: "splitOn (CHR 0x00) (a @ [CHR 0x00] @ b) = splitOn (CHR 0x00) a @ splitOn (CHR 0x00) b" for a b
    using splitOn_slash [of "CHR 0x00" a b] by simp
  show ?thesis
  proof (cases "isGitRenameOrCopyStatus (cf_Status f)")
    case True
    have line: "status_line f @ rest = (cf_Status f @ '' '' @ cf_Path f) @ [CHR 0x00] @ (cf_OriginalPath f @ [CHR 0x00] @ rest)"
      using True by (simp add: status_line_def)
    have "splitOn (CHR 0x00) (cf_OriginalPath f) = [cf_OriginalPath f]" using assms True by (intro splitOn_absent) (simp add: plain_file_def)
    then show ?thesis unfolding line split head status_fields_def using True by simp
  next
    case False
    have line: "status_line f @ rest = (cf_Status f @ '' '' @ cf_Path f) @ [CHR 0x00] @ rest"
      using False by (simp add: status_line_def)
    show ?thesis unfolding line split head status_fields_def using False by simp
  qed
qed

lemma split_lines:
  "\<forall>f \<in> set files. plain_file f \<Longrightarrow> splitOn (CHR 0x00) (concat (map status_line files)) = concat (map status_fields files) @ [[]]"
  by (induction files) (simp_all add: split_line)

lemma entry_of_file:
  assumes "plain_file f" "room \<noteq> 0"
  shows "statusEntries room (status_fields f @ entries) =
    (case statusEntries (room - 1) entries of (files, truncated) \<Rightarrow> (f # files, truncated))"
proof -
  obtain a b where s: "cf_Status f = [a, b]" using assms(1) by (auto simp: plain_file_def length_Suc_conv numeral_2_eq_2)
  show ?thesis
  proof (cases "isGitRenameOrCopyStatus (cf_Status f)")
    case True
    moreover have "f = \<lparr>cf_Status = [a, b], cf_Path = cf_Path f, cf_OriginalPath = cf_OriginalPath f\<rparr>" using s by simp
    ultimately show ?thesis
      using assms by (cases "cf_Path f") (simp_all add: status_fields_def s plain_file_def Let_def split: prod.split)
  next
    case False
    moreover have "f = \<lparr>cf_Status = [a, b], cf_Path = cf_Path f, cf_OriginalPath = []\<rparr>" using s False assms(1) by (simp add: plain_file_def)
    ultimately show ?thesis
      using assms by (cases "cf_Path f") (simp_all add: status_fields_def s plain_file_def Let_def split: prod.split)
  qed
qed

lemma entries_of_files:
  assumes "\<forall>f \<in> set files. plain_file f"
  shows "statusEntries room (concat (map status_fields files) @ [[]]) = (take room files, room < length files)"
  using assms
proof (induction files arbitrary: room)
  case (Cons f files)
  show ?case
  proof (cases room)
    case 0
    then show ?thesis by (simp add: status_fields_def)
  next
    case (Suc n)
    then show ?thesis using Cons entry_of_file [of f room "concat (map status_fields files) @ [[]]"] by simp
  qed
qed simp

text \<open>
  The status of a worktree is read back as git wrote it: of the changed files that git lists in its
  -z format, the reader returns the first two hundred unchanged and in order, and reports that it cut the
  list exactly when there are more.
\<close>

theorem status_roundtrip:
  assumes "\<forall>f \<in> set files. plain_file f"
  shows "parseGitStatusChanges (concat (map status_line files)) = (take maxChangedFiles files, maxChangedFiles < length files)"
  by (simp add: parseGitStatusChanges_def split_lines [OF assms] entries_of_files [OF assms])

theorem status_roundtrip_witness:
  "parseGitStatusChanges (status_line \<lparr>cf_Status = ''R '', cf_Path = ''new'', cf_OriginalPath = ''old''\<rparr>
     @ status_line \<lparr>cf_Status = ''??'', cf_Path = ''a b'', cf_OriginalPath = []\<rparr>)
   = ([\<lparr>cf_Status = ''R '', cf_Path = ''new'', cf_OriginalPath = ''old''\<rparr>, \<lparr>cf_Status = ''??'', cf_Path = ''a b'', cf_OriginalPath = []\<rparr>], False)"
  using status_roundtrip [of "[\<lparr>cf_Status = ''R '', cf_Path = ''new'', cf_OriginalPath = ''old''\<rparr>, \<lparr>cf_Status = ''??'', cf_Path = ''a b'', cf_OriginalPath = []\<rparr>]"]
  by (simp add: plain_file_def isGitRenameOrCopyStatus_def maxChangedFiles_def)

section \<open>Comparing snapshots\<close>

lemma changed_paths_set: "set (changed_paths before after) = {path. entry_of before path \<noteq> entry_of after path}"
proof -
  have "path \<in> set (map fst before @ map fst after)" if "entry_of before path \<noteq> entry_of after path" for path
  proof (rule ccontr)
    assume "path \<notin> set (map fst before @ map fst after)"
    then have "map_of before path = None" "map_of after path = None" by (simp_all add: map_of_eq_None_iff)
    with that show False by (simp add: entry_of_def)
  qed
  then show ?thesis by (auto simp: changed_paths_def simp del: map_append set_append)
qed

lemma changed_files_complete:
  assumes "changedWorkspaceSnapshotFiles (Some b) (Some a) = (files, False)" "entry_of b path \<noteq> entry_of a path"
  shows "path \<in> set files"
  using assms changed_paths_set [of b a] by (auto simp: changedWorkspaceSnapshotFiles_def Let_def split: if_splits)

section \<open>Scopes\<close>

definition scope_path :: "string \<Rightarrow> string \<Rightarrow> string" where
  "scope_path root scope = (if \<not> filepath_IsAbs (TrimSpace scope) then filepath_Join [root, TrimSpace scope] else TrimSpace scope)"

text \<open>A path lies within the declared scopes when the names of one of them are an initial part of its own.\<close>

definition lies_within :: "string \<Rightarrow> string list \<Rightarrow> string \<Rightarrow> bool" where
  "lies_within root scopes path \<longleftrightarrow>
     (\<exists>scope \<in> set scopes. TrimSpace scope \<noteq> [] \<and> prefix (path_elems (filepath_Clean (scope_path root scope))) (path_elems (filepath_Clean path)))"

lemma within_not_escapes:
  "writeScopePathWithin root path \<longleftrightarrow>
     (case filepath_Rel (filepath_Clean root) (filepath_Clean path) of None \<Rightarrow> False | Some relative \<Rightarrow> \<not> escapes_root relative)"
  by (auto simp: writeScopePathWithin_def escapes_root_def split: option.splits)

lemma Join_IsAbs: "filepath_IsAbs root \<Longrightarrow> filepath_IsAbs (filepath_Join [root, x])"
  by (cases x) (auto simp: filepath_Join_def filepath_IsAbs_def filepath_Clean_def Let_def)

lemma scope_path_IsAbs: "filepath_IsAbs root \<Longrightarrow> filepath_IsAbs (scope_path root scope)"
  by (simp add: scope_path_def Join_IsAbs)

lemma any_scope_lies_within:
  assumes "filepath_IsAbs root" "filepath_IsAbs path"
  shows "worktreePathWithinAnyScope path root scopes \<longleftrightarrow> lies_within root scopes path"
proof -
  have "(case filepath_Rel (filepath_Clean (scope_path root scope)) (filepath_Clean path) of None \<Rightarrow> False | Some relative \<Rightarrow> \<not> escapes_root relative)
      \<longleftrightarrow> prefix (path_elems (filepath_Clean (scope_path root scope))) (path_elems (filepath_Clean path))" for scope
    using within_exact [OF scope_path_IsAbs [OF assms(1)] assms(2), of scope] by (simp add: within_not_escapes)
  then show ?thesis
    by (simp add: worktreePathWithinAnyScope_def lies_within_def list_ex_iff Let_def scope_path_def)
qed

lemma path_in_scope_lies_within:
  assumes "filepath_IsAbs root" "filepath_IsAbs task" "path_in_scope root task scopes raw"
  shows "lies_within task scopes (filepath_Join [root, filepath_Clean raw]) \<and> \<not> filepath_IsAbs raw \<and> \<not> escapes_root (filepath_Clean raw)"
proof -
  obtain path where path: "scopedEvidencePath root raw = Some path" "worktreePathWithinAnyScope path task scopes"
    using assms(3) by (auto simp: path_in_scope_def split: option.splits)
  then have "path = filepath_Join [root, filepath_Clean raw]" "\<not> filepath_IsAbs raw" "\<not> escapes_root (filepath_Clean raw)"
    by (auto simp: scopedEvidencePath_def Let_def split: if_splits option.splits)
  with path(2) any_scope_lies_within [OF assms(2) Join_IsAbs [OF assms(1)]] show ?thesis by simp
qed

end
