(* ===== verification/Runner_Properties.thy ===== *)
theory Runner_Properties
  imports Host_Runner Isolation_Properties Lock_Properties
begin

text \<open>
  What a run of a task guarantees: nothing runs before the checks are passed, a task that ends well changed
  nothing outside its declared write scope as far as git or the snapshots tell, and the lock of the
  repository is given back.
\<close>

section \<open>Absolute paths\<close>

lemma Clean_IsAbs [simp]: "filepath_IsAbs p \<Longrightarrow> filepath_IsAbs (filepath_Clean p)"
  using Clean_rooted_names [of p] by auto

lemma CanonicalDir_IsAbs: "CanonicalDir H p = Inr c \<Longrightarrow> filepath_IsAbs c"
  by (auto simp: CanonicalDir_def EvalSymlinks_def split: if_splits sum.splits option.splits os_result.splits)

lemma worktree_path_IsAbs: "filepath_IsAbs topLevel \<Longrightarrow> filepath_IsAbs (worktree_path M opts topLevel)"
  by (simp add: worktree_path_def Let_def Join_IsAbs)

lemma add_worktree_keeps:
  "add_worktree M opts now r s = (Inr r', s') \<Longrightarrow> gr_GitTopLevel r' = gr_GitTopLevel r \<and> gr_WorktreePath r' = gr_WorktreePath r"
  by (auto simp: add_worktree_def Let_def split: prod.splits sum.splits bool.splits if_splits)

lemma discover_top_IsAbs: "discover_top M repoRoot s = (Inr (topLevel, ev), s') \<Longrightarrow> filepath_IsAbs topLevel"
  by (auto simp: discover_top_def Let_def split: prod.splits sum.splits if_splits dest: CanonicalDir_IsAbs)

lemma PrepareGitWorktree_IsAbs:
  assumes "PrepareGitWorktree M opts now s = (Inr r, s')"
  shows "filepath_IsAbs (gr_GitTopLevel r) \<and> filepath_IsAbs (gr_WorktreePath r)"
  using assms
  by (auto simp: PrepareGitWorktree_def Let_def split: prod.splits sum.splits if_splits
      dest!: add_worktree_keeps discover_top_IsAbs intro: worktree_path_IsAbs)

lemma resume_keeps:
  "resume_inside M opts now r s = (Inr r', s') \<Longrightarrow> gr_GitTopLevel r' = gr_GitTopLevel r \<and> gr_WorktreePath r' = gr_WorktreePath r"
  by (auto simp: resume_inside_def resume_lock_def Let_def split: prod.splits sum.splits if_splits)

lemma ResumeGitWorktree_IsAbs:
  assumes "ResumeGitWorktree M opts now s = (Inr r, s')"
  shows "filepath_IsAbs (gr_GitTopLevel r) \<and> filepath_IsAbs (gr_WorktreePath r)"
  using assms
  by (auto simp: ResumeGitWorktree_def Let_def split: prod.splits sum.splits if_splits dest!: resume_keeps dest: CanonicalDir_IsAbs)

lemma prepared_IsAbs:
  assumes "prepare_or_resume M H envelope opts now s = (Inr r, s')"
  shows "filepath_IsAbs (gr_GitTopLevel r) \<and> filepath_IsAbs (gr_WorktreePath r)"
  using assms
  by (auto simp: prepare_or_resume_def Let_def split: prod.splits option.splits if_splits dest: PrepareGitWorktree_IsAbs ResumeGitWorktree_IsAbs)

lemma isolated_root_IsAbs:
  assumes "isolated_root files root prepared = Inr (o', i)" "filepath_IsAbs (gr_WorktreePath prepared)"
  shows "filepath_IsAbs i"
  using assms by (auto simp: isolated_root_def Let_def Join_IsAbs split: sum.splits option.splits if_splits)

text \<open>What a lease for a worktree is.\<close>

lemma lease_cases:
  assumes "prepareGitWorktreeLease M H envelope opts now s = (Inr (Some (lease, isolated)), s')"
  obtains prepared s1 originalRoot isolatedRoot where
    "prepare_or_resume M H envelope opts now s1 = (Inr prepared, s')" "gl_prepared lease = prepared"
    "gl_storeDir lease = fst (taskWorktreePaths H opts)" "gl_taskID lease = env_TaskID envelope"
    "isolated = remapEnvelopeForWorktree envelope originalRoot isolatedRoot prepared" "filepath_IsAbs isolatedRoot"
    "filepath_IsAbs (gr_WorktreePath prepared)" "filepath_IsAbs (gr_GitTopLevel prepared)"
proof -
  obtain s1 prepared originalRoot isolatedRoot where p: "prepare_or_resume M H envelope opts now s1 = (Inr prepared, s')"
      "isolated_root (machine_files M s') (tw_Root (env_Workspace envelope)) prepared = Inr (originalRoot, isolatedRoot)"
      "lease = \<lparr>gl_prepared = prepared, gl_storeDir = fst (taskWorktreePaths H opts), gl_taskID = env_TaskID envelope\<rparr>"
      "isolated = remapEnvelopeForWorktree envelope originalRoot isolatedRoot prepared"
    using assms by (auto simp: prepareGitWorktreeLease_def Let_def split: sum.splits bool.splits prod.splits)
  with prepared_IsAbs [OF p(1)] isolated_root_IsAbs [OF p(2)] show thesis by (intro that) auto
qed

section \<open>The evidence of a worktree\<close>

lemma note_command_simps [simp]:
  "gv_WorktreePath (note_command c e) = gv_WorktreePath e" "gv_ChangedFiles (note_command c e) = gv_ChangedFiles e"
  "gv_ChangesTruncated (note_command c e) = gv_ChangesTruncated e" "gv_GitTopLevel (note_command c e) = gv_GitTopLevel e"
  "gv_Cleanup (note_command c e) = gv_Cleanup e" "gv_FinalSHA (note_command c e) = gv_FinalSHA e" "gv_BaseSHA (note_command c e) = gv_BaseSHA e"
  by (simp_all add: note_command_def)

text \<open>
  What git reports of a worktree in a given world: the output of the status command, which is asked for right
  after the commit that is checked out. No report is given when one of the two commands fails.
\<close>

definition git_status :: "'w machine \<Rightarrow> string \<Rightarrow> 'w \<Rightarrow> string option" where
  "git_status M dir w =
     (case mc_git M [''git'', ''-C'', dir, ''rev-parse'', ''HEAD''] w of
        ((_, _, code), w1) \<Rightarrow>
          (case mc_git M [''git'', ''-C'', dir, ''status'', ''--porcelain=v1'', ''-z'', ''--untracked-files=normal''] w1 of
             ((out, _, code'), _) \<Rightarrow> if code = 0 \<and> code' = 0 then Some out else None))"

lemma inspect_status:
  assumes "inspectGitWorktree M e s = ((None, e'), s')"
  shows "\<exists>out. git_status M (gv_WorktreePath e) (hs_world s) = Some out \<and> parseGitStatusChanges out = (gv_ChangedFiles e', gv_ChangesTruncated e')"
    and "gv_WorktreePath e' = gv_WorktreePath e"
  using assms
  by (auto simp: inspectGitWorktree_def runGit_def git_failed_def git_status_def Let_def split: prod.splits if_splits)

lemma remove_keeps:
  assumes "removeGitWorktree M e s = ((r, e'), s')"
  shows "gv_WorktreePath e' = gv_WorktreePath e \<and> gv_ChangedFiles e' = gv_ChangedFiles e \<and> gv_ChangesTruncated e' = gv_ChangesTruncated e
    \<and> gv_FinalSHA e' = gv_FinalSHA e \<and> gv_BaseSHA e' = gv_BaseSHA e"
  using assms by (auto simp: removeGitWorktree_def Let_def split: prod.splits if_splits)

lemma cleanup_keeps:
  assumes "cleanupGitWorktree M e s = ((r, e'), s')"
  shows "gv_WorktreePath e' = gv_WorktreePath e \<and> gv_ChangedFiles e' = gv_ChangedFiles e \<and> gv_ChangesTruncated e' = gv_ChangesTruncated e
    \<and> gv_FinalSHA e' = gv_FinalSHA e \<and> gv_BaseSHA e' = gv_BaseSHA e"
  using assms by (auto simp: cleanupGitWorktree_def Let_def split: prod.splits if_splits dest!: remove_keeps)

lemma release_keeps:
  assumes "release_worktree M opts (r, e) s = ((r', e'), s')"
  shows "gv_WorktreePath e' = gv_WorktreePath e \<and> gv_ChangedFiles e' = gv_ChangedFiles e \<and> gv_ChangesTruncated e' = gv_ChangesTruncated e
    \<and> gv_FinalSHA e' = gv_FinalSHA e \<and> gv_BaseSHA e' = gv_BaseSHA e \<and> (r' = None \<longrightarrow> r = None)"
  using assms by (auto simp: release_worktree_def split: prod.splits sum.splits if_splits)

lemma finalize_status:
  assumes "FinalizeGitWorktree M opts s = ((None, e), s')"
  shows "\<exists>out. git_status M (gv_WorktreePath e) (hs_world s) = Some out \<and> parseGitStatusChanges out = (gv_ChangedFiles e, gv_ChangesTruncated e)"
    and "gv_WorktreePath e = gr_WorktreePath (fo_Worktree opts)"
proof -
  obtain cleanup e1 s1 r2 e2 s2 where i: "inspectGitWorktree M (evidence_of (fo_Worktree opts) cleanup) s = ((None, e1), s1)"
      and c: "cleanupGitWorktree M e1 s1 = ((r2, e2), s2)" and r: "release_worktree M opts (r2, e2) s2 = ((None, e), s')"
    using assms by (auto simp: FinalizeGitWorktree_def Let_def split: if_splits sum.splits prod.splits option.splits dest: release_keeps)
  show "\<exists>out. git_status M (gv_WorktreePath e) (hs_world s) = Some out \<and> parseGitStatusChanges out = (gv_ChangedFiles e, gv_ChangesTruncated e)"
    using inspect_status [OF i] cleanup_keeps [OF c] release_keeps [OF r] by simp
  show "gv_WorktreePath e = gr_WorktreePath (fo_Worktree opts)"
    using inspect_status(2) [OF i] cleanup_keeps [OF c] release_keeps [OF r] by (simp add: evidence_of_def)
qed

lemma scope_check_exact:
  assumes "validateWorktreeWriteScope e root scope = None" "scope \<noteq> []"
  shows "\<not> gv_ChangesTruncated e" "\<And>f p b. f \<in> set (gv_ChangedFiles e) \<Longrightarrow> (p, b) \<in> set (gitChangedPaths f) \<Longrightarrow> path_in_scope (gv_WorktreePath e) root scope p"
  using assms by (auto simp: validateWorktreeWriteScope_def Let_def filter_empty_conv split: if_splits)

lemma finish_None: "finish_run R ref envelope content failure = (c, None) \<Longrightarrow> failure = None \<and> c = content"
  by (auto simp: finish_run_def preserveExecutionDenial_def Let_def split: option.splits)

lemma after_worktree_None:
  assumes "after_worktree R ref envelope lease executed (s, files) = ((content, None), st')"
  shows "\<exists>e s1 before. finalize_worktree (rn_machine R) lease (env_Payload envelope) s = ((None, e), s1)
    \<and> content = attachGitWorktreeEvidence (rn_codec R) before e
    \<and> validateWorktreeWriteScope e (tw_Root (env_Workspace envelope)) (tw_WriteScope (env_Workspace envelope)) = None"
proof -
  obtain c failure where x: "executed = (c, failure)" by fastforce
  obtain fe e s1 where f: "finalize_worktree (rn_machine R) lease (env_Payload envelope) s = ((fe, e), s1)" by (metis surj_pair)
  show ?thesis
    using assms f
    by (auto simp: x after_worktree_def Let_def preserveExecutionDenial_def split: option.splits dest!: finish_None)
qed

section \<open>The write scope\<close>

text \<open>
  C35. A task that runs in a worktree, has declared a write scope and ends without an error left, as far as git
  reports, no change outside that scope: the status git gives of the worktree in the world the execution of the
  task has left is read to its end, and every file it lists as changed, and the source of every renamed one,
  lies below a declared scope.
\<close>

theorem worktree_changes_in_scope:
  assumes "preflight R spec opts0 files = Inr (envelope, opts, wants)"
    and "prepareGitWorktreeLease (rn_machine R) (rn_host R) envelope opts now s = (Inr (Some (lease, isolated)), s1)"
    and "execute_task R isolated opts (s1, files) = (executed, (s2, files2))"
    and "RunSessionTaskWithOptionsContext R spec now opts0 (s, files) = ((content, None), st')"
    and "tw_WriteScope (env_Workspace isolated) \<noteq> []"
  shows "\<exists>out changed. git_status (rn_machine R) (gr_WorktreePath (gl_prepared lease)) (hs_world s2) = Some out
      \<and> parseGitStatusChanges out = (changed, False)
      \<and> (\<forall>f \<in> set changed. \<forall>(p, source) \<in> set (gitChangedPaths f).
           lies_within (tw_Root (env_Workspace isolated)) (tw_WriteScope (env_Workspace isolated)) (filepath_Join [gr_WorktreePath (gl_prepared lease), filepath_Clean p]))"
proof -
  obtain prepared s0 originalRoot isolatedRoot where lease: "gl_prepared lease = prepared" "filepath_IsAbs isolatedRoot"
      "isolated = remapEnvelopeForWorktree envelope originalRoot isolatedRoot prepared" "filepath_IsAbs (gr_WorktreePath prepared)"
    by (rule lease_cases [OF assms(2)])
  have root: "tw_Root (env_Workspace isolated) = isolatedRoot" by (simp add: lease remapEnvelopeForWorktree_def)
  from assms(1-4) have "\<exists>ref. after_worktree R ref isolated lease executed (s2, files2) = ((content, None), st')"
    by (auto simp: RunSessionTaskWithOptionsContext_def run_in_worktree_def Let_def)
  then obtain e s4 where fin: "finalize_worktree (rn_machine R) lease (env_Payload isolated) s2 = ((None, e), s4)"
      and check: "validateWorktreeWriteScope e isolatedRoot (tw_WriteScope (env_Workspace isolated)) = None"
    using after_worktree_None root by metis
  have path: "gv_WorktreePath e = gr_WorktreePath prepared"
    using finalize_status(2) [OF fin [unfolded finalize_worktree_def]] by (simp add: lease)
  obtain out where git: "git_status (rn_machine R) (gr_WorktreePath prepared) (hs_world s2) = Some out"
      "parseGitStatusChanges out = (gv_ChangedFiles e, gv_ChangesTruncated e)"
    using finalize_status(1) [OF fin [unfolded finalize_worktree_def]] unfolding path by blast
  note ok = scope_check_exact [OF check assms(5)]
  have "lies_within isolatedRoot (tw_WriteScope (env_Workspace isolated)) (filepath_Join [gr_WorktreePath prepared, filepath_Clean p])"
    if "f \<in> set (gv_ChangedFiles e)" "(p, b) \<in> set (gitChangedPaths f)" for f p b
    using path_in_scope_lies_within [OF _ _ ok(2) [OF that]] lease(2,4) by (simp add: path)
  with git ok(1) show ?thesis unfolding root lease(1) by (intro exI conjI) auto
qed

lemma snapshot_entries:
  assumes "SnapshotWorkspaceScope M s root scopes = Inr snap"
  shows "\<exists>entries. wss_entries snap = Some entries"
  using assms by (auto simp: SnapshotWorkspaceScope_def split: sum.splits prod.splits)

lemma snapshot_world:
  assumes "hs_world s = hs_world s'"
  shows "SnapshotWorkspaceScope M s root scopes = SnapshotWorkspaceScope M s' root scopes"
  unfolding SnapshotWorkspaceScope_def assms by (rule refl)

lemma lock_calls_world [simp]:
  "lock_Acquire M dir opts now s = (r, s') \<Longrightarrow> hs_world s' = hs_world s" "hs_world (snd (lock_Release M dir repoRoot taskID force s)) = hs_world s"
  by (auto simp: lock_Acquire_def lock_Release_def split: prod.splits)

lemma acquire_world: "acquireWorkspaceLock M hostID envelope opts now s = (r, s') \<Longrightarrow> hs_world s' = hs_world s"
  by (auto simp: acquireWorkspaceLock_def Let_def split: if_splits prod.splits sum.splits dest: lock_calls_world(1))

lemma release_world [simp]: "hs_world (releaseWorkspaceLock M opts kept_lock s) = hs_world s"
  by (simp add: releaseWorkspaceLock_def split: option.split prod.split)

lemma after_scope_None:
  assumes "after_scope R ref envelope lease executed (s, files) = (content, None)"
  shows "\<exists>after. SnapshotWorkspaceScope (rn_machine R) s (wss_Root (sl_before lease)) [''.''] = Inr after
    \<and> validateWorkspaceScopeWriteScope (machine_files (rn_machine R) s)
        ((CompareWorkspaceScope (sl_before lease) after)\<lparr>wse_DeclaredWriteScope := sl_declaredWriteScope lease\<rparr>)
        (tw_Root (env_Workspace envelope)) (tw_WriteScope (env_Workspace envelope)) = None"
  using assms
  by (cases executed) (auto simp: after_scope_def finalize_scope_def Let_def preserveExecutionDenial_def split: sum.splits option.splits)

lemma place_check_exact:
  assumes "validateWorkspaceScopeWriteScope H ((CompareWorkspaceScope before after)\<lparr>wse_DeclaredWriteScope := d\<rparr>) root scope = None"
    and "scope \<noteq> []" "wss_entries before = Some b" "wss_entries after = Some a"
  shows "\<not> wss_Truncated before" "\<not> wss_Truncated after" "entry_of b p \<noteq> entry_of a p \<Longrightarrow> path_in_scope root root scope p"
proof -
  obtain files t where c: "changedWorkspaceSnapshotFiles (Some b) (Some a) = (files, t)" by fastforce
  have "\<not> t \<and> \<not> wss_Truncated before \<and> \<not> wss_Truncated after \<and> (\<forall>x \<in> set files. path_in_scope root root scope x)"
    using assms c by (auto simp: validateWorkspaceScopeWriteScope_def CompareWorkspaceScope_def Let_def filter_empty_conv split: sum.splits if_splits)
  with changed_files_complete [of b a files p] c
  show "\<not> wss_Truncated before" "\<not> wss_Truncated after" "entry_of b p \<noteq> entry_of a p \<Longrightarrow> path_in_scope root root scope p" by auto
qed

text \<open>
  C36. A task that is to be isolated (it asks for a git worktree, or it is for a coding agent and asks for nothing
  else), that declared a write scope and whose workspace root is absolute and no git repository, changed no file
  outside that scope if it ends without an error: every path at which the metadata of the two snapshots of the
  workspace, taken before and after the execution, differ lies below a declared scope, and both snapshots are
  complete. The snapshots leave out what is below a .git directory, and a task that is not to be isolated is not
  compared at all.
\<close>

theorem place_changes_in_scope:
  assumes "preflight R spec opts0 files = Inr (envelope, opts, True)"
    and "prepareGitWorktreeLease (rn_machine R) (rn_host R) envelope opts now s = (Inr None, s1)"
    and "RunSessionTaskWithOptionsContext R spec now opts0 (s, files) = ((content, None), (s', files'))"
    and "tw_WriteScope (env_Workspace envelope) \<noteq> []" "filepath_IsAbs (tw_Root (env_Workspace envelope))"
  shows "\<exists>before after b a. SnapshotWorkspaceScope (rn_machine R) s1 (tw_Root (env_Workspace envelope)) [''.''] = Inr before
      \<and> SnapshotWorkspaceScope (rn_machine R) s' (wss_Root before) [''.''] = Inr after
      \<and> wss_entries before = Some b \<and> wss_entries after = Some a \<and> \<not> wss_Truncated before \<and> \<not> wss_Truncated after
      \<and> (\<forall>p. entry_of b p \<noteq> entry_of a p \<longrightarrow>
           lies_within (tw_Root (env_Workspace envelope)) (tw_WriteScope (env_Workspace envelope)) (filepath_Join [tw_Root (env_Workspace envelope), filepath_Clean p]))"
proof -
  let ?M = "rn_machine R" and ?root = "tw_Root (env_Workspace envelope)" and ?scope = "tw_WriteScope (env_Workspace envelope)"
  obtain kept_lock s2 ref s3 where lock: "acquireWorkspaceLock ?M (sts_EndpointID spec) envelope opts now s1 = (Inr kept_lock, s2)"
      and run: "run_in_place R ref envelope opts True (s2, files) = ((content, None), (s3, files'))" and s': "s' = releaseWorkspaceLock ?M opts kept_lock s3"
    using assms(1-3)
    by (auto simp: RunSessionTaskWithOptionsContext_def denyTask_def Let_def split: prod.splits sum.splits)
  obtain lease executed where lease: "prepareWorkspaceScopeLease ?M envelope s2 = Inr lease"
      and ends: "after_scope R ref envelope lease executed (s3, files') = (content, None)"
    using run by (auto simp: run_in_place_def denyTask_def Let_def split: sum.splits if_splits prod.splits)
  have before: "SnapshotWorkspaceScope ?M s1 ?root [''.''] = Inr (sl_before lease)"
    using lease snapshot_world [OF acquire_world [OF lock]]
    by (auto simp: prepareWorkspaceScopeLease_def Let_def split: sum.splits)
  obtain after where after: "SnapshotWorkspaceScope ?M s3 (wss_Root (sl_before lease)) [''.''] = Inr after"
      and check: "validateWorkspaceScopeWriteScope (machine_files ?M s3)
        ((CompareWorkspaceScope (sl_before lease) after)\<lparr>wse_DeclaredWriteScope := sl_declaredWriteScope lease\<rparr>) ?root ?scope = None"
    using after_scope_None [OF ends] by blast
  obtain b a where entries: "wss_entries (sl_before lease) = Some b" "wss_entries after = Some a"
    using snapshot_entries [OF before] snapshot_entries [OF after] by blast
  note ok = place_check_exact [OF check assms(4) entries]
  have "SnapshotWorkspaceScope ?M s' (wss_Root (sl_before lease)) [''.''] = Inr after"
    using after snapshot_world [of s' s3] by (simp add: s')
  moreover have "lies_within ?root ?scope (filepath_Join [?root, filepath_Clean p])" if "entry_of b p \<noteq> entry_of a p" for p
    using path_in_scope_lies_within [OF assms(5,5) ok(3) [OF that]] by simp
  ultimately show ?thesis using before entries ok(1,2) by blast
qed

section \<open>Clearance\<close>

text \<open>Which capability the adapter of a task needs before it may run.\<close>

definition file_action_capabilities :: "(string \<times> string list) list" where
  "file_action_capabilities =
     (''describe'', [''file.transfer.read'', ''git.diff''])
     # map (\<lambda>action. (action, [''file.transfer.read''])) [''list'', ''read'', ''download'', ''search'', ''read.slice'', ''symbols'', ''diagnostics'']
     @ map (\<lambda>action. (action, [''file.transfer.write'', ''fs.write.scoped''])) [''write'', ''upload'', ''delete'']"

definition desktop_action_capabilities :: "(string \<times> string list) list" where
  "desktop_action_capabilities = concat (map (\<lambda>(capability, actions). map (\<lambda>action. (action, [capability])) (capability # actions))
     [(''window.inspect'', [''windows'', ''window.list'']), (''screen.screenshot'', [''screenshot'']), (''screen.record'', [''record'']),
      (''window.focus'', [''focus'']), (''window.move'', [''move'']), (''input.keyboard'', [''keyboard'']), (''input.mouse'', [''mouse'']),
      (''app.launch'', [''launch'']), (''app.close'', [''close'']), (''url.open'', [''url'', ''open.url'']),
      (''clipboard.read'', []), (''clipboard.write'', []), (''unattended.access'', [])])"

text \<open>The capabilities for an adapter and the action of its payload; none suffices for an action that is not listed.\<close>

definition adapter_capabilities :: "string \<Rightarrow> string \<Rightarrow> string list option" where
  "adapter_capabilities adapter action =
     (if adapter = ''file'' then map_of file_action_capabilities action
      else if adapter = ''desktop'' then map_of desktop_action_capabilities action
      else map_of ([(''shell'', [''shell.user'']), (''powershell'', [''powershell.user'']), (''toolchain'', [''package.install.requiresAuthorization'']),
          (''host-update'', [''host.update''])] @ map (\<lambda>agent. (agent, [agent @ ''.run'', ''git.diff''])) [''codex'', ''claude-code'', ''acpx'']) adapter)"

definition task_action :: "unicode \<Rightarrow> taskEnvelope \<Rightarrow> string" where
  "task_action U envelope = normalizeAdapterAction U (hostStringValue (env_Payload envelope) ''action'' [])"

lemma missing_of_Nil: "[] \<notin> set wants \<Longrightarrow> missing_of values wants = [] \<longleftrightarrow> set wants \<subseteq> set values"
  by (induction wants) (auto simp: hasCapability_def list_ex_iff)

lemma file_capabilities_complete:
  assumes "missingFileCapability U envelope = []"
  shows "\<exists>capabilities. map_of file_action_capabilities (task_action U envelope) = Some capabilities \<and> set capabilities \<subseteq> set (env_Capabilities envelope)"
proof -
  obtain a where a: "task_action U envelope = a" by simp
  consider "a = ''describe''" | "a \<in> {''list'', ''read'', ''download'', ''search'', ''read.slice'', ''symbols'', ''diagnostics''}" | "a \<in> {''write'', ''upload'', ''delete''}"
    using assms a unfolding missingFileCapability_def Let_def task_action_def by (metis list.distinct(1))
  then show ?thesis
    using assms a unfolding missingFileCapability_def Let_def a [unfolded task_action_def]
    by cases (elim insertE emptyE | simp add: file_action_capabilities_def missing_of_Nil del: missing_of.simps)+
qed

lemma desktop_table: "desktop_capability a = Some want \<Longrightarrow> want \<noteq> [] \<and> map_of desktop_action_capabilities a = Some [want]"
  unfolding desktop_capability_def
  by (simp split: if_splits; (elim disjE)?; simp add: desktop_action_capabilities_def; hypsubst; simp)

lemma desktop_capabilities_complete:
  assumes "missingDesktopCapability U envelope = []"
  shows "\<exists>capabilities. map_of desktop_action_capabilities (task_action U envelope) = Some capabilities \<and> set capabilities \<subseteq> set (env_Capabilities envelope)"
proof -
  obtain want where want: "desktop_capability (task_action U envelope) = Some want" "missing_of (env_Capabilities envelope) [want] = []"
    using assms by (auto simp: missingDesktopCapability_def task_action_def split: option.splits)
  with desktop_table [OF want(1)] show ?thesis by (auto simp: hasCapability_def list_ex_iff split: if_splits)
qed

lemma capabilities_complete:
  assumes "missingAdapterCapability U envelope = []" "supportedAdapter (env_Adapter envelope)"
  shows "\<exists>capabilities. adapter_capabilities (env_Adapter envelope) (task_action U envelope) = Some capabilities \<and> set capabilities \<subseteq> set (env_Capabilities envelope)"
proof -
  consider "env_Adapter envelope = ''file''" | "env_Adapter envelope = ''desktop''"
    | "env_Adapter envelope \<in> {''shell'', ''powershell'', ''codex'', ''claude-code'', ''acpx'', ''toolchain'', ''host-update''}"
    using assms(2) unfolding supportedAdapter_def by blast
  then show ?thesis
  proof cases
    case 1
    then show ?thesis using assms file_capabilities_complete by (simp add: missingAdapterCapability_def adapter_capabilities_def)
  next
    case 2
    then show ?thesis using assms desktop_capabilities_complete by (simp add: missingAdapterCapability_def adapter_capabilities_def)
  next
    case 3
    then show ?thesis
      using assms(1) by (elim insertE emptyE; simp add: missingAdapterCapability_def adapter_capabilities_def missing_of_Nil del: missing_of.simps)
  qed
qed

lemma preflight_cleared:
  assumes "preflight R spec opts files = Inr (envelope, opts', wants)"
  shows "\<exists>normalized. normalizeEngineeringSessionTaskSpec (rn_strict R) spec = Inr normalized \<and> envelope = sessionTaskEnvelope normalized"
    and "supportedAdapter (env_Adapter envelope)" "tw_Root (env_Workspace envelope) \<noteq> [] \<or> env_Adapter envelope = ''host-update''"
    and "missingAdapterCapability (rn_unicode R) envelope = []" "wantsGitWorktree envelope = Inr wants"
    and "wants \<Longrightarrow> ''git.diff'' \<in> set (env_Capabilities envelope)"
  using assms
  by (auto simp: preflight_def check_envelope_def Let_def adapterRequiresWorkspace_def hasCapability_def list_ex_iff split: sum.splits if_splits)

text \<open>
  C34. No part of a task is executed before it is cleared: if the outcome of a run, or the state it leaves,
  depends at all on what the adapter or the repair loop does, then the task's contract was accepted, its
  adapter is one of the supported ones and has a workspace root (an update of the host needs none), every
  capability that adapter needs, for the file and the desktop adapter those of the action in the payload, is
  granted, and git.diff is granted when the task asks for a worktree.
\<close>

theorem runs_only_when_cleared:
  assumes "RunSessionTaskWithOptionsContext R spec now opts st \<noteq> RunSessionTaskWithOptionsContext (R\<lparr>rn_Adapter := adapter', rn_Loop := loop'\<rparr>) spec now opts st"
  shows "\<exists>normalized envelope. normalizeEngineeringSessionTaskSpec (rn_strict R) spec = Inr normalized \<and> envelope = sessionTaskEnvelope normalized
      \<and> supportedAdapter (env_Adapter envelope) \<and> (tw_Root (env_Workspace envelope) \<noteq> [] \<or> env_Adapter envelope = ''host-update'')
      \<and> (\<exists>capabilities. adapter_capabilities (env_Adapter envelope) (task_action (rn_unicode R) envelope) = Some capabilities
           \<and> set capabilities \<subseteq> set (env_Capabilities envelope))
      \<and> (wantsGitWorktree envelope = Inr True \<longrightarrow> ''git.diff'' \<in> set (env_Capabilities envelope))"
proof -
  obtain s files where st: "st = (s, files)" by fastforce
  let ?R' = "R\<lparr>rn_Adapter := adapter', rn_Loop := loop'\<rparr>"
  have parts: "rn_strict ?R' = rn_strict R" "rn_crypto ?R' = rn_crypto R" "rn_host ?R' = rn_host R" "rn_unicode ?R' = rn_unicode R" by simp_all
  have "check_envelope ?R' = check_envelope R" unfolding check_envelope_def [abs_def] parts by (rule refl)
  then have same: "preflight ?R' spec opts files = preflight R spec opts files" unfolding preflight_def parts by presburger
  show ?thesis
  proof (cases "preflight R spec opts files")
    case (Inl d)
    then show ?thesis using assms same by (simp add: st RunSessionTaskWithOptionsContext_def Let_def split: prod.splits)
  next
    case (Inr cleared)
    then obtain envelope opts' wants where "preflight R spec opts files = Inr (envelope, opts', wants)" by (cases cleared) auto
    note ok = preflight_cleared [OF this]
    from ok(1) obtain normalized where n: "normalizeEngineeringSessionTaskSpec (rn_strict R) spec = Inr normalized" "envelope = sessionTaskEnvelope normalized" by blast
    show ?thesis using n ok(2,3,5,6) capabilities_complete [OF ok(4,2)] by auto
  qed
qed

section \<open>Blank texts\<close>

lemma TrimSpace_IsAbs: "filepath_IsAbs p \<Longrightarrow> TrimSpace p \<noteq> []"
  by (rule TrimSpace_nonempty [of "CHR ''/''"]) (auto simp: filepath_IsAbs_def graphic_def prefix_def)

section \<open>The lock\<close>

text \<open>A machine whose disk does not fail, and on which a directory keeps its canonical name.\<close>

definition steady :: "'w machine \<Rightarrow> (string \<Rightarrow> string) \<Rightarrow> string \<Rightarrow> bool" where
  "steady M sha root \<longleftrightarrow>
     (\<forall>w. mc_faults M w = no_faults \<and> lh_sha256 (mc_host M w) = sha \<and> CanonicalDir (lh_files (mc_host M w)) root = Inr root)"

definition lock_file :: "(string \<Rightarrow> string) \<Rightarrow> string \<Rightarrow> string \<Rightarrow> string" where
  "lock_file sha storeDir root = filepath_Join [storeDir, hex_EncodeToString (sha root) @ ''.json'']"

lemma steady_faults: "steady M sha root \<Longrightarrow> mc_faults M w = no_faults"
  by (simp add: steady_def)

lemma runGit_locks [simp]: "runGit M dir args s = (e, s') \<Longrightarrow> hs_locks s' = hs_locks s"
  by (auto simp: runGit_def Let_def split: prod.splits)

lemma prepared_lock:
  assumes "prepareLock (mc_host M w) dir opts now = Inr (path, new)" "steady M sha (lo_RepoRoot opts)" "lo_StoreDir opts = []" "TrimSpace dir \<noteq> []"
  shows "path = lock_file sha dir (lo_RepoRoot opts)" "lk_TaskID new = lo_TaskID opts"
proof -
  have canonical: "CanonicalDir (lh_files (mc_host M w)) (lo_RepoRoot opts) = Inr (lo_RepoRoot opts)" and sha: "lh_sha256 (mc_host M w) = sha"
    using assms(2) by (simp_all add: steady_def)
  have given: "firstNonEmpty [lo_StoreDir opts, dir] = dir" "dir \<noteq> []" using assms(3,4) by auto
  show "path = lock_file sha dir (lo_RepoRoot opts)" "lk_TaskID new = lo_TaskID opts"
    using assms(1) unfolding prepareLock_def canonical given(1)
    by (auto simp add: given(2) lockPath_def lock_file_def newLock_def Let_def sha split: if_splits)
qed

lemma acquired_lock:
  assumes "lock_Acquire M dir opts now s = (Inr lock, s')" "steady M sha (lo_RepoRoot opts)" "store_ok (hs_locks s)"
    and "lo_StoreDir opts = []" "TrimSpace dir \<noteq> []"
  shows "held (hs_locks s') (lock_file sha dir (lo_RepoRoot opts)) = Some lock" "lk_TaskID lock = lo_TaskID opts"
    "readable (hs_locks s') (lock_file sha dir (lo_RepoRoot opts))"
proof -
  let ?L = "mc_host M (hs_world s)"
  have acq: "Acquire ?L no_faults (mc_inode M (hs_world s)) dir opts now (hs_locks s) = (Inr lock, hs_locks s')"
    using assms(1) unfolding lock_Acquire_def steady_faults [OF assms(2)] by (auto split: prod.splits)
  obtain path new where prep: "prepareLock ?L dir opts now = Inr (path, new)"
    using acq unfolding Acquire_def by (cases "prepareLock ?L dir opts now") auto
  note path = prepared_lock [OF prep assms(2,4,5)]
  have "readable (hs_locks s) path" using assms(3) by (simp add: store_ok_def)
  from Acquire_spec [OF prep this, of "mc_inode M (hs_world s)"] acq
  have spec: "spec_acquire new now (held (hs_locks s) path) = (Inr lock, held (hs_locks s') path)" "readable (hs_locks s') path" by auto
  then have "held (hs_locks s') path = Some lock \<and> lock = new"
    by (auto simp: spec_acquire_def split: option.splits if_splits)
  with path spec(2) show "held (hs_locks s') (lock_file sha dir (lo_RepoRoot opts)) = Some lock" "lk_TaskID lock = lo_TaskID opts"
    "readable (hs_locks s') (lock_file sha dir (lo_RepoRoot opts))" by auto
qed

lemma released_lock:
  assumes "lock_Release M dir root taskID False s = (r, s')" "steady M sha root" "readable (hs_locks s) (lock_file sha dir root)"
    and "held (hs_locks s) (lock_file sha dir root) = Some lock" "lk_TaskID lock = taskID" "TrimSpace taskID \<noteq> []" "dir \<noteq> []"
  shows "held (hs_locks s') (lock_file sha dir root) = None" "r = Inr (Some lock)"
proof -
  let ?L = "mc_host M (hs_world s)"
  have path: "storePath ?L dir root = Inr (lock_file sha dir root)"
    using assms(2,7) by (simp add: storePath_def steady_def lockPath_def lock_file_def)
  have "Release ?L no_faults dir root taskID False (hs_locks s) = (r, hs_locks s')"
    using assms(1) unfolding lock_Release_def steady_faults [OF assms(2)] by (auto split: prod.splits)
  with Release_spec [OF path assms(3), of taskID False]
  have "spec_release taskID False (Some lock) = (r, held (hs_locks s') (lock_file sha dir root))" using assms(4) by auto
  with assms(5,6) show "held (hs_locks s') (lock_file sha dir root) = None" "r = Inr (Some lock)" by (simp_all add: spec_release_def)
qed

text \<open>Git commands leave the lock files alone, and a prepared worktree took the lock of its repository.\<close>

lemma git_calls_locks:
  "discover_top M repoRoot s = (r1, s1) \<Longrightarrow> hs_locks s1 = hs_locks s"
  "require_clean M policy topLevel s = (r2, s1) \<Longrightarrow> hs_locks s1 = hs_locks s"
  "resolve_commit M what topLevel ref s = (r3, s1) \<Longrightarrow> hs_locks s1 = hs_locks s"
  "inspectGitWorktree M e s = (r4, s1) \<Longrightarrow> hs_locks s1 = hs_locks s"
  "removeGitWorktree M e s = (r4, s1) \<Longrightarrow> hs_locks s1 = hs_locks s"
  by (auto simp: discover_top_def require_clean_def resolve_commit_def inspectGitWorktree_def removeGitWorktree_def Let_def
      split: prod.splits sum.splits if_splits dest!: runGit_locks)

lemma cleanup_locks: "cleanupGitWorktree M e s = (r, s1) \<Longrightarrow> hs_locks s1 = hs_locks s"
  by (auto simp: cleanupGitWorktree_def Let_def split: prod.splits if_splits option.splits dest!: runGit_locks git_calls_locks(5))

definition takes_lock :: "'w machine \<Rightarrow> string \<Rightarrow> string \<Rightarrow> Time \<Rightarrow> lock_files \<Rightarrow> GitWorktreeResult \<Rightarrow> lock_files \<Rightarrow> bool" where
  "takes_lock M storeDir taskID now locks r locks' \<longleftrightarrow>
     (\<exists>opts s s'. lock_Acquire M (lock_store storeDir (gr_GitTopLevel r)) opts now s = (Inr (gr_Lock r), s') \<and> hs_locks s = locks \<and> hs_locks s' = locks'
       \<and> lo_StoreDir opts = [] \<and> lo_RepoRoot opts = gr_GitTopLevel r \<and> lo_TaskID opts = taskID \<and> TrimSpace taskID \<noteq> [])"

lemma add_worktree_takes:
  assumes "add_worktree M opts now r s = (Inr r', s')" "TrimSpace (go_TaskID opts) \<noteq> []"
  shows "takes_lock M (go_StoreDir opts) (go_TaskID opts) now (hs_locks s) r' (hs_locks s')"
  using assms
  by (fastforce simp: add_worktree_def takes_lock_def Let_def split: prod.splits sum.splits bool.splits if_splits dest!: runGit_locks)

lemma PrepareGitWorktree_takes:
  assumes "PrepareGitWorktree M opts now s = (Inr r, s')"
  shows "takes_lock M (go_StoreDir opts) (go_TaskID opts) now (hs_locks s) r (hs_locks s')"
  using assms
  by (auto simp: PrepareGitWorktree_def Let_def split: prod.splits sum.splits if_splits dest!: git_calls_locks(1-3) add_worktree_takes)

lemma resume_inside_takes:
  assumes "resume_inside M opts now r s = (Inr r', s')" "TrimSpace (rs_TaskID opts) \<noteq> []"
  shows "takes_lock M (rs_StoreDir opts) (rs_TaskID opts) now (hs_locks s) r' (hs_locks s')"
  using assms
  by (fastforce simp: resume_inside_def resume_lock_def takes_lock_def Let_def split: prod.splits sum.splits if_splits
      dest!: runGit_locks git_calls_locks(3))

lemma ResumeGitWorktree_takes:
  assumes "ResumeGitWorktree M opts now s = (Inr r, s')"
  shows "takes_lock M (rs_StoreDir opts) (rs_TaskID opts) now (hs_locks s) r (hs_locks s')"
  using assms
  by (auto simp: ResumeGitWorktree_def Let_def split: prod.splits sum.splits if_splits dest!: resume_inside_takes runGit_locks)

lemma prepare_takes:
  assumes "prepare_or_resume M H envelope opts now s = (Inr r, s')"
  shows "takes_lock M (fst (taskWorktreePaths H opts)) (env_TaskID envelope) now (hs_locks s) r (hs_locks s')"
  using assms
  by (auto simp: prepare_or_resume_def Let_def split: prod.splits option.splits if_splits dest: PrepareGitWorktree_takes ResumeGitWorktree_takes)

lemma IsGitRepository_locks: "IsGitRepository M root s = (r, s') \<Longrightarrow> hs_locks s' = hs_locks s"
  by (auto simp: IsGitRepository_def split: sum.splits prod.splits if_splits dest!: runGit_locks)

lemma lease_takes:
  assumes "prepareGitWorktreeLease M H envelope opts now s = (Inr (Some (lease, isolated)), s')"
  shows "takes_lock M (gl_storeDir lease) (gl_taskID lease) now (hs_locks s) (gl_prepared lease) (hs_locks s')"
  using assms
  by (auto simp: prepareGitWorktreeLease_def Let_def split: sum.splits bool.splits prod.splits dest!: prepare_takes IsGitRepository_locks)

lemma takes_held:
  assumes "takes_lock M storeDir taskID now locks r locks'" "steady M sha (gr_GitTopLevel r)" "store_ok locks" "TrimSpace storeDir \<noteq> []"
  shows "held locks' (lock_file sha storeDir (gr_GitTopLevel r)) = Some (gr_Lock r) \<and> lk_TaskID (gr_Lock r) = taskID
    \<and> readable locks' (lock_file sha storeDir (gr_GitTopLevel r)) \<and> TrimSpace taskID \<noteq> []"
proof -
  obtain opts s s' where a: "lock_Acquire M storeDir opts now s = (Inr (gr_Lock r), s')" "hs_locks s = locks" "hs_locks s' = locks'"
      "lo_StoreDir opts = []" "lo_RepoRoot opts = gr_GitTopLevel r" "lo_TaskID opts = taskID" "TrimSpace taskID \<noteq> []"
    using assms(1,4) by (auto simp: takes_lock_def lock_store_def)
  with acquired_lock [OF a(1) _ _ a(4) assms(4), of sha] assms(2,3) show ?thesis by simp
qed

lemma cleanup_known:
  "(\<exists>c. normalizeGitWorktreeCleanup cleanup = Inr c) \<longleftrightarrow> TrimSpace cleanup = [] \<or> cleanup \<in> {''preserve'', ''remove'', ''rollback''}"
  by (simp add: normalizeGitWorktreeCleanup_def GitWorktreeCleanupPreserve_def GitWorktreeCleanupRemove_def GitWorktreeCleanupRollback_def)

lemma finalize_release:
  assumes "FinalizeGitWorktree M opts s = (r, s')" "TrimSpace (fo_TaskID opts) \<noteq> []"
    and "TrimSpace (gr_GitTopLevel (fo_Worktree opts)) \<noteq> []" "TrimSpace (gr_WorktreePath (fo_Worktree opts)) \<noteq> []"
  shows "case normalizeGitWorktreeCleanup (fo_Cleanup opts) of Inl e \<Rightarrow> s' = s
    | Inr _ \<Rightarrow> \<exists>s1 r1. lock_Release M (fo_StoreDir opts) (gr_GitTopLevel (fo_Worktree opts)) (fo_TaskID opts) False s1 = (r1, s') \<and> hs_locks s1 = hs_locks s"
proof (cases "normalizeGitWorktreeCleanup (fo_Cleanup opts)")
  case (Inl e)
  then show ?thesis using assms by (simp add: FinalizeGitWorktree_def Let_def)
next
  case (Inr cleanup)
  then obtain outcome s1 where "release_worktree M opts outcome s1 = (r, s')" "hs_locks s1 = hs_locks s"
    using assms by (auto simp: FinalizeGitWorktree_def Let_def split: prod.splits option.splits dest!: git_calls_locks(4) cleanup_locks)
  moreover obtain r1 s2 where "lock_Release M (fo_StoreDir opts) (gr_GitTopLevel (fo_Worktree opts)) (fo_TaskID opts) False s1 = (r1, s2)"
    by fastforce
  ultimately show ?thesis using Inr by (auto simp: release_worktree_def split: prod.splits sum.splits)
qed

lemma execute_locks: "execute_task R envelope opts (s, files) = (r, (s', files')) \<Longrightarrow> hs_locks s' = hs_locks s"
  by (auto simp: execute_task_def split: if_splits prod.splits)

text \<open>
  C37. With a configured lock store whose lock files can all be read, on a disk that does not fail and with a
  repository that keeps its canonical name, a task in a worktree holds the lock of its repository when it starts
  and has given it back at the end, also when the task fails, unless its payload asks for a cleanup the host does
  not know: then the run ends with the lock still held, and the repository stays locked until the lock
  expires. No other process touches the store meanwhile.
\<close>

theorem worktree_lock_released:
  assumes "preflight R spec opts0 files = Inr (envelope, opts, wants)"
    and "prepareGitWorktreeLease (rn_machine R) (rn_host R) envelope opts now s = (Inr (Some (lease, isolated)), s1)"
    and "RunSessionTaskWithOptionsContext R spec now opts0 (s, files) = (outcome, (s', files'))"
    and "store_ok (hs_locks s)" "steady (rn_machine R) sha (gr_GitTopLevel (gl_prepared lease))" "TrimSpace (op_WorkspaceLockStore opts) \<noteq> []"
  shows "\<exists>lock. held (hs_locks s1) (lock_file sha (op_WorkspaceLockStore opts) (gr_GitTopLevel (gl_prepared lease))) = Some lock
      \<and> lk_TaskID lock = env_TaskID envelope
      \<and> held (hs_locks s') (lock_file sha (op_WorkspaceLockStore opts) (gr_GitTopLevel (gl_prepared lease))) =
          (if TrimSpace (hostStringValue (env_Payload isolated) ''worktree_cleanup'' []) = []
              \<or> hostStringValue (env_Payload isolated) ''worktree_cleanup'' [] \<in> {''preserve'', ''remove'', ''rollback''}
           then None else Some lock)"
proof -
  let ?M = "rn_machine R" and ?dir = "op_WorkspaceLockStore opts" and ?top = "gr_GitTopLevel (gl_prepared lease)"
  let ?cleanup = "hostStringValue (env_Payload isolated) ''worktree_cleanup'' []" and ?lock = "gr_Lock (gl_prepared lease)"
  have stored: "?dir \<noteq> []" using assms(6) by auto
  have lease: "gl_storeDir lease = ?dir" "gl_taskID lease = env_TaskID envelope" "filepath_IsAbs ?top" "filepath_IsAbs (gr_WorktreePath (gl_prepared lease))"
    by (rule lease_cases [OF assms(2)]; simp add: taskWorktreePaths_def assms(6))+
  have got: "held (hs_locks s1) (lock_file sha ?dir ?top) = Some ?lock" "lk_TaskID ?lock = env_TaskID envelope"
      "readable (hs_locks s1) (lock_file sha ?dir ?top)" "TrimSpace (env_TaskID envelope) \<noteq> []"
    using takes_held [OF lease_takes [OF assms(2)] assms(5,4)] assms(6) lease by auto
  obtain executed s2 files2 where x: "execute_task R isolated opts (s1, files) = (executed, (s2, files2))" by (metis surj_pair)
  obtain failure e s3 where f: "finalize_worktree ?M lease (env_Payload isolated) s2 = ((failure, e), s3)" by (metis surj_pair)
  have s3: "s' = s3"
    using assms(1-3) x f by (auto simp: RunSessionTaskWithOptionsContext_def run_in_worktree_def after_worktree_def Let_def split: prod.splits)
  note rel = finalize_release [OF f [unfolded finalize_worktree_def]]
  have end_locks: "held (hs_locks s') (lock_file sha ?dir ?top) = (if TrimSpace ?cleanup = [] \<or> ?cleanup \<in> {''preserve'', ''remove'', ''rollback''} then None else Some ?lock)"
  proof (cases "normalizeGitWorktreeCleanup ?cleanup")
    case (Inl e)
    with rel lease got(4) have "s' = s2" by (simp add: s3 TrimSpace_IsAbs)
    with Inl got(1) execute_locks [OF x] show ?thesis using cleanup_known [of ?cleanup] by auto
  next
    case (Inr c)
    with rel lease got(4) obtain s4 r4 where l: "lock_Release ?M ?dir ?top (env_TaskID envelope) False s4 = (r4, s')" "hs_locks s4 = hs_locks s2"
      by (auto simp: s3 TrimSpace_IsAbs)
    have "held (hs_locks s') (lock_file sha ?dir ?top) = None"
      using released_lock(1) [OF l(1) assms(5)] got stored l(2) execute_locks [OF x] by auto
    with Inr show ?thesis using cleanup_known [of ?cleanup] by auto
  qed
  show ?thesis using got(1,2) end_locks by blast
qed

section \<open>Two sample runs\<close>

text \<open>
  A task in a repository at /r which changes a/f in its worktree, and one in a directory that is no repository
  and in which the task makes a/f. The world tells whether the task has run.
\<close>

lemma TrimSpace_code [code]:
  "TrimSpace s = (if s = [] then [] else if graphic (hd s) \<and> graphic (last s) then s else TrimRightSpace (TrimLeftSpace s))"
proof (cases "s = []")
  case False
  then show ?thesis using TrimSpace_graphic [of s] by (simp add: TrimSpace_def)
qed simp

definition task_nodes :: file_system where
  "task_nodes = (\<lambda>d. if d \<in> {[], [''r''], [''s''], [''s'', ''worktrees''], [''s'', ''worktrees'', ''task_t1'']} then Some NDir else None)"

definition task_host :: "lock_host" where
  "task_host = \<lparr>lh_files = \<lparr>hf_nodes = task_nodes, hf_walk = (\<lambda>_. None), hf_home = None, hf_cwd = None\<rparr>, lh_sha256 = (\<lambda>_. ''a''),
       lh_RFC3339Nano = (\<lambda>_. []), lh_MkdirAll = (\<lambda>_. True)\<rparr>"

definition task_runner :: "'w machine \<Rightarrow> ('w \<Rightarrow> 'w) \<Rightarrow> 'w runner" where
  "task_runner M act = \<lparr>rn_machine = M, rn_host = \<lparr>rh_files = lh_files task_host, rh_cacheDir = None, rh_tempDir = ''/tmp''\<rparr>,
     rn_codec = \<lparr>ac_Decode = (\<lambda>_. None), ac_Encode = (\<lambda>_. None), ac_Denial = (\<lambda>_. [])\<rparr>,
     rn_crypto = \<lparr>sha256_Sum256 = (\<lambda>_. []), ed25519_Sign = (\<lambda>_ _. []), ed25519_Verify = (\<lambda>_ _ _. False),
       ed25519_Public = (\<lambda>_. []), json_SignedTrustBundle = (\<lambda>_. None)\<rparr>,
     rn_unicode = \<lparr>uc_ToLower = (\<lambda>s. s), uc_EqualFold = (=)\<rparr>, rn_strict = (\<lambda>_. None), rn_Adapter = (\<lambda>_ w. (([], None), act w)),
     rn_Loop = (\<lambda>_ w. (\<lparr>lw_Emit = (\<lambda>_. \<lparr>emi_Now = 0, emi_Fault = SaveFine, emi_Delivered = True\<rparr>), lw_Context = (\<lambda>_ _. None),
       lw_Execute = (\<lambda>_ _. ([], None)), lw_Inspect = None\<rparr>, w))\<rparr>"
definition task_spec :: "string \<Rightarrow> SessionTaskSpec" where
  "task_spec cleanup = \<lparr>sts_TaskID = ''t1'', sts_AttemptID = ''a1'', sts_EndpointID = ''e1'', sts_IdentityFingerprint = [], sts_Adapter = ''shell'', sts_Intent = ''build'',
     sts_Workspace = \<lparr>tw_Root = ''/r'', tw_WriteScope = [''a''], tw_Branch = [], tw_BaseSHA = [], tw_Isolation = ''git-worktree'', tw_DirtyPolicy = ''preserve''\<rparr>,
     sts_Capabilities = [''shell.user'', ''git.diff''], sts_Limits = \<lparr>rl_MaxDurationSeconds = 60, rl_MaxOutputBytes = 1024, rl_Network = ''deny''\<rparr>,
     sts_Payload = Some [''worktree_cleanup'' \<mapsto> GString cleanup], sts_SessionID = [], sts_LeaseSecret = [], sts_GatewayURL = []\<rparr>"

definition task_options :: Options where
  "task_options = \<lparr>op_IdentityFingerprint = [], op_ToolchainRoot = [], op_WorkspaceLockStore = ''/s/locks'', op_WorkspaceLockTTL = 0, op_CaptureRuntimeFixture = False,
     op_EngineeringCheckpointStore = [], op_HasReporter = False, op_ResumeCheckpointID = [], op_ResumeSourceTaskID = [], op_engineeringResume = None\<rparr>"

definition task_git :: "string list \<Rightarrow> bool \<Rightarrow> (string \<times> string \<times> gint) \<times> bool" where
  "task_git args w =
     (let command = drop 3 args in
      (if command = [''rev-parse'', ''--is-inside-work-tree''] then ''true''
       else if command = [''rev-parse'', ''--show-toplevel''] then ''/r''
       else if hd command = ''rev-parse'' then ''0123abc''
       else if hd command = ''status'' \<and> w then ''M  a/f'' @ [CHR 0x00] else [], [], 0), w)"

definition changing_machine :: "bool machine" where
  "changing_machine = \<lparr>mc_git = task_git, mc_host = (\<lambda>_. task_host), mc_faults = (\<lambda>_. no_faults), mc_inode = (\<lambda>_. 0),
     mc_MkdirAll = (\<lambda>_ w. (True, w)), mc_WalkDir = (\<lambda>_ _. []), mc_IsLetterOrDigit = (\<lambda>_. False)\<rparr>"

definition changing_runner :: "bool runner" where
  "changing_runner = task_runner changing_machine (\<lambda>_. True)"

definition task_state :: "bool host_state" where
  "task_state = \<lparr>hs_world = False, hs_locks = Map.empty\<rparr>"

definition task_envelope :: "string \<Rightarrow> taskEnvelope" where
  "task_envelope cleanup = sessionTaskEnvelope (task_spec cleanup)"

lemma task_preflight: "preflight changing_runner (task_spec cleanup) task_options Map.empty = Inr (task_envelope cleanup, task_options, True)"
proof -
  have "normalizeEngineeringSessionTaskSpec (rn_strict changing_runner) (task_spec cleanup) = Inr (task_spec cleanup)"
    by (simp add: normalizeEngineeringSessionTaskSpec_def task_spec_def payload_get_def)
  moreover have "check_envelope changing_runner (task_envelope cleanup) task_options Map.empty = Inr (task_options, True)" by code_simp
  ultimately show ?thesis by (simp add: preflight_def task_envelope_def Let_def)
qed

definition task_worktree_options :: GitWorktreeOptions where
  "task_worktree_options = \<lparr>go_StoreDir = ''/s/locks'', go_RepoRoot = ''/r'', go_HostID = ''e1'', go_TaskID = ''t1'', go_OwnerAdapter = ''shell'',
     go_BaseRef = ''HEAD'', go_Branch = [], go_DirtyPolicy = ''preserve'', go_WorktreeRoot = ''/s/worktrees'', go_WorktreePath = [], go_TTL = 0\<rparr>"

lemma task_paths: "taskWorktreePaths (rn_host changing_runner) task_options = (''/s/locks'', ''/s/worktrees'')"
  by code_simp

lemma task_prepare_call:
  "prepare_or_resume changing_machine (rn_host changing_runner) (task_envelope cleanup) task_options 0 s = PrepareGitWorktree changing_machine task_worktree_options 0 s"
proof -
  have e: "env_EndpointID (task_envelope cleanup) = ''e1''" "env_TaskID (task_envelope cleanup) = ''t1''" "env_Adapter (task_envelope cleanup) = ''shell''"
      "env_Workspace (task_envelope cleanup) = \<lparr>tw_Root = ''/r'', tw_WriteScope = [''a''], tw_Branch = [], tw_BaseSHA = [], tw_Isolation = ''git-worktree'', tw_DirtyPolicy = ''preserve''\<rparr>"
    by (simp_all add: task_envelope_def sessionTaskEnvelope_def task_spec_def Let_def)
  have t: "TrimSpace ''e1'' \<noteq> []" "TrimSpace ''preserve'' \<noteq> []" "TrimSpace ''HEAD'' \<noteq> []" "hostStringValue (env_Payload (task_envelope cleanup)) ''base_sha'' [] = []"
    by code_simp+
  show ?thesis
    unfolding prepare_or_resume_def task_paths by (simp add: e t task_options_def task_worktree_options_def Let_def)
qed

lemma task_prepare:
  "case PrepareGitWorktree changing_machine task_worktree_options 0 task_state of
     (Inr prepared, s1) \<Rightarrow> gr_GitTopLevel prepared = ''/r'' \<and> gr_WorktreePath prepared = ''/s/worktrees/task_t1'' | _ \<Rightarrow> False" by code_simp

lemma task_root:
  assumes "gr_GitTopLevel prepared = ''/r''" "gr_WorktreePath prepared = ''/s/worktrees/task_t1''"
  shows "isolated_root (machine_files changing_machine s) ''/r'' prepared = Inr (''/r'', ''/s/worktrees/task_t1'')"
proof -
  have "CanonicalDir (machine_files changing_machine s) ''/r'' = Inr ''/r''" by code_simp
  moreover have "filepath_Rel ''/r'' ''/r'' = Some ''.''" "\<not> escapes_root ''.''" "stat_dir (hf_nodes (machine_files changing_machine s)) ''/s/worktrees/task_t1''" by code_simp+
  ultimately show ?thesis by (simp add: isolated_root_def assms)
qed

lemma task_state_unique: "hs_locks s = Map.empty \<Longrightarrow> \<not> hs_world s \<Longrightarrow> s = task_state"
  by (cases s) (simp add: task_state_def)

lemma task_prepared:
  obtains prepared s1 where "PrepareGitWorktree changing_machine task_worktree_options 0 task_state = (Inr prepared, s1)"
    "gr_GitTopLevel prepared = ''/r''" "gr_WorktreePath prepared = ''/s/worktrees/task_t1''"
proof -
  obtain r s1 where r: "PrepareGitWorktree changing_machine task_worktree_options 0 task_state = (r, s1)" by (metis surj_pair)
  with task_prepare that show thesis unfolding r by (cases r) auto
qed

lemma task_repository: "IsGitRepository changing_machine ''/r'' task_state = (Inr True, task_state)"
proof -
  obtain r s0 where g: "IsGitRepository changing_machine ''/r'' task_state = (r, s0)" by (metis surj_pair)
  have "fst (IsGitRepository changing_machine ''/r'' task_state) = Inr True" "\<not> hs_world (snd (IsGitRepository changing_machine ''/r'' task_state))" by code_simp+
  moreover from this have "s0 = task_state" using IsGitRepository_locks [OF g] unfolding g by (intro task_state_unique) (simp_all add: task_state_def)
  ultimately show ?thesis unfolding g by simp
qed

lemma task_lease:
  obtains lease isolated s1 where
    "prepareGitWorktreeLease changing_machine (rn_host changing_runner) (task_envelope cleanup) task_options 0 task_state = (Inr (Some (lease, isolated)), s1)"
    "gr_GitTopLevel (gl_prepared lease) = ''/r''" "gr_WorktreePath (gl_prepared lease) = ''/s/worktrees/task_t1''"
    "gl_storeDir lease = ''/s/locks''" "gl_taskID lease = ''t1''"
    "isolated = remapEnvelopeForWorktree (task_envelope cleanup) ''/r'' ''/s/worktrees/task_t1'' (gl_prepared lease)"
proof -
  obtain prepared s1 where p: "PrepareGitWorktree changing_machine task_worktree_options 0 task_state = (Inr prepared, s1)"
    "gr_GitTopLevel prepared = ''/r''" "gr_WorktreePath prepared = ''/s/worktrees/task_t1''" by (rule task_prepared)
  let ?lease = "\<lparr>gl_prepared = prepared, gl_storeDir = ''/s/locks'', gl_taskID = ''t1''\<rparr>"
  have wants: "wantsGitWorktree (task_envelope cleanup) = Inr True" by code_simp
  have env: "tw_Root (env_Workspace (task_envelope cleanup)) = ''/r''" "env_TaskID (task_envelope cleanup) = ''t1''"
    by (simp_all add: task_envelope_def sessionTaskEnvelope_def task_spec_def Let_def)
  have "prepareGitWorktreeLease changing_machine (rn_host changing_runner) (task_envelope cleanup) task_options 0 task_state =
      (Inr (Some (?lease, remapEnvelopeForWorktree (task_envelope cleanup) ''/r'' ''/s/worktrees/task_t1'' prepared)), s1)"
    using task_root [OF p(2,3), of s1] unfolding prepareGitWorktreeLease_def wants env task_paths
    by (simp add: task_repository task_prepare_call p(1) Let_def)
  then show thesis by (rule that) (simp_all add: p)
qed

lemma task_scope: "tw_Root (env_Workspace (remapEnvelopeForWorktree (task_envelope cleanup) ''/r'' ''/s/worktrees/task_t1'' prepared)) = ''/s/worktrees/task_t1''"
   "tw_WriteScope (env_Workspace (remapEnvelopeForWorktree (task_envelope cleanup) ''/r'' ''/s/worktrees/task_t1'' prepared)) = [''a'']"
proof -
  have "remapWorkspacePaths [''a''] ''/r'' ''/s/worktrees/task_t1'' = [''a'']" by code_simp
  then show "tw_Root (env_Workspace (remapEnvelopeForWorktree (task_envelope cleanup) ''/r'' ''/s/worktrees/task_t1'' prepared)) = ''/s/worktrees/task_t1''"
   "tw_WriteScope (env_Workspace (remapEnvelopeForWorktree (task_envelope cleanup) ''/r'' ''/s/worktrees/task_t1'' prepared)) = [''a'']" 
   by (simp_all add: remapEnvelopeForWorktree_def task_envelope_def sessionTaskEnvelope_def task_spec_def Let_def)
qed
lemma task_cleanup: 
 "hostStringValue (env_Payload (remapEnvelopeForWorktree (task_envelope ''delete'') ''/r'' ''/s/worktrees/task_t1'' prepared)) ''worktree_cleanup'' [] = ''delete''" 
 "hostStringValue (env_Payload (remapEnvelopeForWorktree (task_envelope ''preserve'') ''/r'' ''/s/worktrees/task_t1'' prepared)) ''worktree_cleanup'' [] = ''preserve''" 
 by code_simp+
lemma task_live: "validateLiveWriteScope (machine_files changing_machine s) ''/s/worktrees/task_t1'' [''a''] = None" by code_simp
lemma task_steady: "steady changing_machine (\<lambda>_. ''a'') ''/r''"
proof -
  have "CanonicalDir (lh_files task_host) ''/r'' = Inr ''/r''" by code_simp
  moreover have "lh_sha256 task_host = (\<lambda>_. ''a'')" by (simp add: task_host_def)
  ultimately show ?thesis by (simp add: steady_def changing_machine_def)
qed

lemma task_runGit: "runGit changing_machine dir args s =
    (\<lparr>ce_Argv = [''git'', ''-C'', dir] @ args, ce_Dir = dir, ce_Stdout = fst (fst (task_git ([''git'', ''-C'', dir] @ args) (hs_world s))), ce_Stderr = [], ce_ExitCode = 0\<rparr>, s)"
  by (cases s) (simp add: runGit_def changing_machine_def task_git_def Let_def)

lemma task_inspect:
  assumes "hs_world s"
  shows "\<exists>e'. inspectGitWorktree changing_machine e s = ((None, e'), s) \<and> parseGitStatusChanges (''M  a/f'' @ [CHR 0x00]) = (gv_ChangedFiles e', gv_ChangesTruncated e')
     \<and> gv_WorktreePath e' = gv_WorktreePath e \<and> gv_Cleanup e' = gv_Cleanup e"
proof -
  obtain files truncated where p: "parseGitStatusChanges (''M  a/f'' @ [CHR 0x00]) = (files, truncated)" by fastforce
  have "fst (fst (task_git ([''git'', ''-C'', dir] @ [''status'', ''--porcelain=v1'', ''-z'', ''--untracked-files=normal'']) (hs_world s))) = ''M  a/f'' @ [CHR 0x00]" for dir
    by (simp add: task_git_def Let_def assms)
  then show ?thesis unfolding inspectGitWorktree_def task_runGit git_failed_def p by (simp add: p Let_def del: append.simps)
qed

lemma task_finalize:
  assumes "gr_GitTopLevel prepared = ''/r''" "gr_WorktreePath prepared = ''/s/worktrees/task_t1''"
    and "held (hs_locks s) (lock_file (\<lambda>_. ''a'') ''/s/locks'' ''/r'') = Some lock" "lk_TaskID lock = ''t1''"
    and "readable (hs_locks s) (lock_file (\<lambda>_. ''a'') ''/s/locks'' ''/r'')" "hs_world s"
  shows "\<exists>e s'. FinalizeGitWorktree changing_machine \<lparr>fo_StoreDir = ''/s/locks'', fo_TaskID = ''t1'', fo_Worktree = prepared, fo_Cleanup = ''preserve''\<rparr> s = ((None, e), s')
    \<and> parseGitStatusChanges (''M  a/f'' @ [CHR 0x00]) = (gv_ChangedFiles e, gv_ChangesTruncated e) \<and> gv_WorktreePath e = ''/s/worktrees/task_t1''"
proof -
  have trim: "TrimSpace ''t1'' \<noteq> []" "TrimSpace ''/r'' \<noteq> []" "TrimSpace ''/s/worktrees/task_t1'' \<noteq> []" "TrimSpace ''preserve'' \<noteq> []" by code_simp+
  obtain r s1 where rel: "lock_Release changing_machine ''/s/locks'' ''/r'' ''t1'' False s = (r, s1)" by fastforce
  then have "r = Inr (Some lock)" using released_lock(2) [OF rel task_steady assms(5,3,4) trim(1)] by simp
  moreover obtain e where "inspectGitWorktree changing_machine (evidence_of prepared ''preserve'') s = ((None, e), s)"
      "parseGitStatusChanges (''M  a/f'' @ [CHR 0x00]) = (gv_ChangedFiles e, gv_ChangesTruncated e)"
      "gv_WorktreePath e = ''/s/worktrees/task_t1''" "gv_Cleanup e = ''preserve''"
    using task_inspect [OF assms(6), of "evidence_of prepared ''preserve''"] assms(2) by (auto simp: evidence_of_def)
  ultimately show ?thesis
    using rel trim assms(1,2)
    by (simp add: FinalizeGitWorktree_def normalizeGitWorktreeCleanup_def GitWorktreeCleanupPreserve_def cleanupGitWorktree_def release_worktree_def Let_def)
qed

lemma task_check:
  assumes "parseGitStatusChanges (''M  a/f'' @ [CHR 0x00]) = (gv_ChangedFiles e, gv_ChangesTruncated e)" "gv_WorktreePath e = ''/s/worktrees/task_t1''"
  shows "validateWorktreeWriteScope e ''/s/worktrees/task_t1'' [''a''] = None"
proof -
  have "parseGitStatusChanges (''M  a/f'' @ [CHR 0x00]) = ([\<lparr>cf_Status = ''M '', cf_Path = ''a/f'', cf_OriginalPath = []\<rparr>], False)"
    "path_in_scope ''/s/worktrees/task_t1'' ''/s/worktrees/task_t1'' [''a''] ''a/f''" by code_simp+
  moreover have "gitChangedPaths \<lparr>cf_Status = ''M '', cf_Path = ''a/f'', cf_OriginalPath = []\<rparr> = [(''a/f'', False)]" by code_simp
  ultimately show ?thesis using assms unfolding validateWorktreeWriteScope_def by (simp add: Let_def flip: append.simps)
qed

lemma task_runs:
  "execute_task changing_runner (remapEnvelopeForWorktree (task_envelope cleanup) ''/r'' ''/s/worktrees/task_t1'' prepared) opts (s, files) = (([], None), (s\<lparr>hs_world := True\<rparr>, files))"
proof -
  have "env_Adapter (remapEnvelopeForWorktree (task_envelope cleanup) ''/r'' ''/s/worktrees/task_t1'' prepared) = ''shell''"
    by (simp add: remapEnvelopeForWorktree_def task_envelope_def sessionTaskEnvelope_def task_spec_def Let_def)
  then have "\<not> isEngineeringRepairAdapter (env_Adapter (remapEnvelopeForWorktree (task_envelope cleanup) ''/r'' ''/s/worktrees/task_t1'' prepared))"
    by (simp add: isEngineeringRepairAdapter_def)
  then show ?thesis by (cases s) (simp add: execute_task_def changing_runner_def task_runner_def)
qed

lemma changing_parts: "rn_machine changing_runner = changing_machine" "TrimSpace (op_WorkspaceLockStore task_options) \<noteq> []" "op_WorkspaceLockStore task_options = ''/s/locks''"
  subgoal by (simp add: changing_runner_def task_runner_def)
  subgoal by code_simp
  subgoal by (simp add: task_options_def)
  done

theorem worktree_lock_released_witness:
  "\<exists>lock outcome s' files'. RunSessionTaskWithOptionsContext changing_runner (task_spec ''delete'') 0 task_options (task_state, Map.empty) = (outcome, (s', files'))
     \<and> held (hs_locks s') (lock_file (\<lambda>_. ''a'') ''/s/locks'' ''/r'') = Some lock \<and> lk_TaskID lock = ''t1''"
proof -
  obtain lease isolated s1 where l: "prepareGitWorktreeLease changing_machine (rn_host changing_runner) (task_envelope ''delete'') task_options 0 task_state = (Inr (Some (lease, isolated)), s1)"
    "gr_GitTopLevel (gl_prepared lease) = ''/r''" "isolated = remapEnvelopeForWorktree (task_envelope ''delete'') ''/r'' ''/s/worktrees/task_t1'' (gl_prepared lease)"
    by (rule task_lease)
  obtain outcome s' files' where run: "RunSessionTaskWithOptionsContext changing_runner (task_spec ''delete'') 0 task_options (task_state, Map.empty) = (outcome, (s', files'))"
    by (metis surj_pair)
  have ok: "store_ok (hs_locks task_state)" by (simp add: store_ok_def readable_def task_state_def)
  have "TrimSpace ''delete'' \<noteq> []" "env_TaskID (task_envelope ''delete'') = ''t1''" by code_simp+
  with worktree_lock_released [OF task_preflight _ run ok, unfolded changing_parts, OF l(1) _ changing_parts(2) [unfolded changing_parts(3)], of "\<lambda>_. ''a''"] task_steady task_cleanup(1) run
  show ?thesis unfolding l(2,3) by auto
qed

theorem worktree_changes_in_scope_witness:
  "\<exists>out changed. git_status changing_machine ''/s/worktrees/task_t1'' True = Some out \<and> parseGitStatusChanges out = (changed, False) \<and> changed \<noteq> []
     \<and> (\<forall>f \<in> set changed. \<forall>(p, source) \<in> set (gitChangedPaths f).
           lies_within ''/s/worktrees/task_t1'' [''a''] (filepath_Join [''/s/worktrees/task_t1'', filepath_Clean p]))"
proof -
  obtain lease isolated s1 where l: "prepareGitWorktreeLease changing_machine (rn_host changing_runner) (task_envelope ''preserve'') task_options 0 task_state = (Inr (Some (lease, isolated)), s1)"
    "gr_GitTopLevel (gl_prepared lease) = ''/r''" "gr_WorktreePath (gl_prepared lease) = ''/s/worktrees/task_t1''" "gl_storeDir lease = ''/s/locks''" "gl_taskID lease = ''t1''"
    "isolated = remapEnvelopeForWorktree (task_envelope ''preserve'') ''/r'' ''/s/worktrees/task_t1'' (gl_prepared lease)"
    by (rule task_lease)
  have "store_ok (hs_locks task_state)" "TrimSpace ''/s/locks'' \<noteq> []" by (simp_all add: store_ok_def readable_def task_state_def changing_parts(2) [unfolded changing_parts(3)])
  with takes_held [OF lease_takes [OF l(1)], of "\<lambda>_. ''a''"] task_steady
  have h: "held (hs_locks s1) (lock_file (\<lambda>_. ''a'') ''/s/locks'' ''/r'') = Some (gr_Lock (gl_prepared lease))" "lk_TaskID (gr_Lock (gl_prepared lease)) = ''t1''"
      "readable (hs_locks s1) (lock_file (\<lambda>_. ''a'') ''/s/locks'' ''/r'')" by (simp_all add: l(2,4,5))
  let ?s2 = "s1\<lparr>hs_world := True\<rparr>"
  obtain e s' where f: "FinalizeGitWorktree changing_machine \<lparr>fo_StoreDir = ''/s/locks'', fo_TaskID = ''t1'', fo_Worktree = gl_prepared lease, fo_Cleanup = ''preserve''\<rparr> ?s2 = ((None, e), s')"
    "parseGitStatusChanges (''M  a/f'' @ [CHR 0x00]) = (gv_ChangedFiles e, gv_ChangesTruncated e)" "gv_WorktreePath e = ''/s/worktrees/task_t1''"
    using task_finalize [OF l(2,3), of ?s2] h by auto
  have fin: "finalize_worktree changing_machine lease (env_Payload isolated) ?s2 = ((None, e), s')"
    using f(1) unfolding finalize_worktree_def l(4,5,6) task_cleanup .
  have "\<exists>content. after_worktree changing_runner ref isolated lease ([], None) (?s2, Map.empty) = ((content, None), (s', Map.empty))" for ref
    unfolding after_worktree_def changing_parts l(6) task_scope prod.case Let_def fin [unfolded l(6)] task_check [OF f(2,3)] task_live
    by (simp add: finish_run_def)
  then obtain content where run: "RunSessionTaskWithOptionsContext changing_runner (task_spec ''preserve'') 0 task_options (task_state, Map.empty) = ((content, None), (s', Map.empty))"
    unfolding RunSessionTaskWithOptionsContext_def prod.case Let_def task_preflight changing_parts sum.case l(1) run_in_worktree_def
    by (simp add: l(1,6) run_in_worktree_def task_runs) blast
  have "tw_WriteScope (env_Workspace isolated) \<noteq> []" by (simp add: l(6) task_scope)
  moreover have "execute_task changing_runner isolated task_options (s1, Map.empty) = (([], None), (?s2, Map.empty))" by (simp add: l(6) task_runs)
  ultimately obtain out changed where c: "git_status changing_machine ''/s/worktrees/task_t1'' True = Some out" "parseGitStatusChanges out = (changed, False)"
      "\<forall>f \<in> set changed. \<forall>(p, source) \<in> set (gitChangedPaths f). lies_within ''/s/worktrees/task_t1'' [''a''] (filepath_Join [''/s/worktrees/task_t1'', filepath_Clean p])"
    using worktree_changes_in_scope [OF task_preflight _ _ run, unfolded changing_parts, OF l(1)] unfolding l(3,6) task_scope by auto
  have "map_option (\<lambda>out. fst (parseGitStatusChanges out) \<noteq> []) (git_status changing_machine ''/s/worktrees/task_t1'' True) = Some True" by code_simp
  with c(1,2) have "changed \<noteq> []" by simp
  with c show ?thesis by (intro exI conjI)
qed

definition plain_machine :: "bool machine" where
  "plain_machine = \<lparr>mc_git = (\<lambda>_ w. (([], [], 128), w)), mc_host = (\<lambda>_. task_host), mc_faults = (\<lambda>_. no_faults), mc_inode = (\<lambda>_. 0), mc_MkdirAll = (\<lambda>_ w. (True, w)),
     mc_WalkDir = (\<lambda>_ w. if w then [WalkEntry ''/r/a/f'' False (Some \<lparr>fi_Mode = [], fi_Size = 1, fi_ModTime = 0\<rparr>)] else []), mc_IsLetterOrDigit = (\<lambda>_. False)\<rparr>"

definition plain_runner :: "bool runner" where
  "plain_runner = task_runner plain_machine (\<lambda>_. True)"

definition plain_state :: "bool host_state" where
  "plain_state = \<lparr>hs_world = False, hs_locks = Map.empty\<rparr>"

definition plain_envelope :: taskEnvelope where
  "plain_envelope = sessionTaskEnvelope (task_spec [])"

lemma plain_preflight: "preflight plain_runner (task_spec []) task_options Map.empty = Inr (plain_envelope, task_options, True)"
proof -
  have "normalizeEngineeringSessionTaskSpec (rn_strict plain_runner) (task_spec []) = Inr (task_spec [])"
    by (simp add: normalizeEngineeringSessionTaskSpec_def task_spec_def payload_get_def)
  moreover have "check_envelope plain_runner plain_envelope task_options Map.empty = Inr (task_options, True)" by code_simp
  ultimately show ?thesis by (simp add: preflight_def plain_envelope_def Let_def)
qed

lemma plain_unisolated:
  obtains s1 where "prepareGitWorktreeLease plain_machine (rn_host plain_runner) plain_envelope task_options 0 plain_state = (Inr None, s1)"
proof -
  obtain r s1 where r: "prepareGitWorktreeLease plain_machine (rn_host plain_runner) plain_envelope task_options 0 plain_state = (r, s1)" by (metis surj_pair)
  have "case prepareGitWorktreeLease plain_machine (rn_host plain_runner) plain_envelope task_options 0 plain_state of (Inr None, s1) \<Rightarrow> True | _ \<Rightarrow> False"
    by code_simp
  with that show thesis unfolding r by (auto split: sum.splits option.splits)
qed

lemma plain_run:
  obtains content s' files' where "RunSessionTaskWithOptionsContext plain_runner (task_spec []) 0 task_options (plain_state, Map.empty) = ((content, None), (s', files'))"
proof -
  obtain content e s' files' where r: "RunSessionTaskWithOptionsContext plain_runner (task_spec []) 0 task_options (plain_state, Map.empty) = ((content, e), (s', files'))"
    by (metis surj_pair)
  have "case RunSessionTaskWithOptionsContext plain_runner (task_spec []) 0 task_options (plain_state, Map.empty) of ((content, None), st) \<Rightarrow> True | _ \<Rightarrow> False"
    by code_simp
  with that show thesis unfolding r by (cases e) auto
qed

theorem place_changes_in_scope_witness:
  "\<exists>s1 s' before after b a. SnapshotWorkspaceScope plain_machine s1 ''/r'' [''.''] = Inr before \<and> SnapshotWorkspaceScope plain_machine s' (wss_Root before) [''.''] = Inr after
     \<and> wss_entries before = Some b \<and> wss_entries after = Some a
     \<and> (\<forall>p. entry_of b p \<noteq> entry_of a p \<longrightarrow> lies_within ''/r'' [''a''] (filepath_Join [''/r'', filepath_Clean p]))"
proof -
  obtain s1 where s1: "prepareGitWorktreeLease plain_machine (rn_host plain_runner) plain_envelope task_options 0 plain_state = (Inr None, s1)" by (rule plain_unisolated)
  obtain content s' files' where run: "RunSessionTaskWithOptionsContext plain_runner (task_spec []) 0 task_options (plain_state, Map.empty) = ((content, None), (s', files'))"
    by (rule plain_run)
  have parts: "rn_machine plain_runner = plain_machine" "tw_Root (env_Workspace plain_envelope) = ''/r''" "tw_WriteScope (env_Workspace plain_envelope) = [''a'']"
    by (simp_all add: plain_runner_def task_runner_def plain_envelope_def sessionTaskEnvelope_def task_spec_def Let_def)
  have "filepath_IsAbs ''/r''" by code_simp
  with place_changes_in_scope [OF plain_preflight _ run, unfolded parts, OF s1] show ?thesis by blast
qed

definition writing_spec :: SessionTaskSpec where
  "writing_spec = (task_spec [])\<lparr>sts_Adapter := ''file'', sts_Payload := Some [''action'' \<mapsto> GString ''write''],
     sts_Capabilities := [''file.transfer.write'', ''fs.write.scoped'', ''git.diff'']\<rparr>"

theorem runs_only_when_cleared_witness:
  "\<exists>capabilities. adapter_capabilities ''file'' ''write'' = Some capabilities \<and> capabilities \<noteq> [] \<and> set capabilities \<subseteq> set (sts_Capabilities writing_spec)"
proof -
  let ?failing = "plain_runner\<lparr>rn_Adapter := (\<lambda>_ w. (([], Some (ExecText ''exit status 1'')), w)), rn_Loop := rn_Loop plain_runner\<rparr>"
  have "case RunSessionTaskWithOptionsContext plain_runner writing_spec 0 task_options (plain_state, Map.empty) of ((content, failure), st) \<Rightarrow> failure = None"
    "case RunSessionTaskWithOptionsContext ?failing writing_spec 0 task_options (plain_state, Map.empty) of ((content, failure), st) \<Rightarrow> failure \<noteq> None"
    by code_simp+
  then have "RunSessionTaskWithOptionsContext plain_runner writing_spec 0 task_options (plain_state, Map.empty) \<noteq>
      RunSessionTaskWithOptionsContext ?failing writing_spec 0 task_options (plain_state, Map.empty)" by (auto split: prod.splits)
  from runs_only_when_cleared [OF this] obtain normalized envelope capabilities where
      n: "normalizeEngineeringSessionTaskSpec (rn_strict plain_runner) writing_spec = Inr normalized" "envelope = sessionTaskEnvelope normalized"
      "adapter_capabilities (env_Adapter envelope) (task_action (rn_unicode plain_runner) envelope) = Some capabilities" "set capabilities \<subseteq> set (env_Capabilities envelope)"
    by blast
  have "normalizeEngineeringSessionTaskSpec (rn_strict plain_runner) writing_spec = Inr writing_spec"
    by (simp add: normalizeEngineeringSessionTaskSpec_def writing_spec_def task_spec_def payload_get_def)
  with n(1,2) have e: "envelope = sessionTaskEnvelope writing_spec" by simp
  have parts: "env_Adapter envelope = ''file''" "env_Capabilities envelope = sts_Capabilities writing_spec"
    by (simp_all add: e sessionTaskEnvelope_def writing_spec_def Let_def)
  have "task_action (rn_unicode plain_runner) (sessionTaskEnvelope writing_spec) = ''write''" by code_simp
  then have "adapter_capabilities ''file'' ''write'' = Some capabilities" using n(3) unfolding parts(1) by (simp add: e)
  moreover have "adapter_capabilities ''file'' ''write'' \<noteq> Some []" by code_simp
  ultimately show ?thesis using n(4) unfolding parts(2) by (intro exI [of _ capabilities] conjI) auto
qed

end
