(* ===== verification/Host_Loop_Scenario.thy ===== *)
theory Host_Loop_Scenario
  imports Host_Pool Runner_Properties
begin

text \<open>
  Concrete runs of the host loop: a host polls the store of the demonstration session, whose log holds its own greeting
  and the offer of one task, and takes the offer up; the same poll in a session with an event batch of one; and a
  host with a pool of one route whose gateway answers with pages that are too large.
\<close>

section \<open>A host and its gateway\<close>

definition loop_route :: routeSnapshot where
  "loop_route = \<lparr>sn_Candidate = \<lparr>rc_URL = ''http://127.0.0.1'', rc_Transport = ''poll''\<rparr>, sn_Generation = 0, sn_changed = 0\<rparr>"

definition loop_reply :: "Event list \<times> Lease \<times> EventReplayState" where
  "loop_reply = (case fst (EventsAfter (demo_env 2) demo_sid demo_cursor 64 submitted_store) of Inr reply \<Rightarrow> reply | Inl _ \<Rightarrow> ([], zero_Lease, zero_replay))"

text \<open>The gateway answers the first poll, hands out the task and accepts its result.\<close>

definition loop_answer :: "gateway_request \<Rightarrow> gateway_answer" where
  "loop_answer request =
     (case request of
        GetEvents _ _ _ _ a limit _ \<Rightarrow> if a = 0 \<and> limit = 64 then Response 200 (Some ''events'') else NoResponse
      | GetTask _ _ _ _ _ \<Rightarrow> Response 200 (Some ''task'')
      | PostResult _ _ _ _ _ _ _ \<Rightarrow> Response 200 (Some ''result'')
      | PostEvent _ _ _ _ \<Rightarrow> NoResponse)"

definition loop_codec :: gateway_codec where
  "loop_codec = \<lparr>gc_Events = (\<lambda>body. if body = ''events'' then Some loop_reply else None), gc_Task = (\<lambda>body. if body = ''task'' then Some offered_task else None),
     gc_Result = (\<lambda>body. if body = ''result'' then Some (offered_task, demo_offer) else None), gc_Event = (\<lambda>_. None), gc_Encodes = (\<lambda>_. True)\<rparr>"

definition loop_net :: "(gateway_request \<Rightarrow> gateway_answer) \<Rightarrow> bool host_net" where
  "loop_net answer = \<lparr>hn_Do = (\<lambda>request w. (answer request, w)), hn_Snapshot = Pair (Some loop_route), hn_Success = (\<lambda>_. Pair True), hn_Failure = (\<lambda>_. Pair False),
     hn_Probe = Pair None, hn_Initialize = Pair (Inr (sn_Candidate loop_route)), hn_Trust = (\<lambda>_. Pair True), hn_MonitorError = Pair None, hn_Sleep = (\<lambda>_. Pair None),
     hn_Key = (\<lambda>_. Pair ''key''), hn_Now = (\<lambda>_. 0)\<rparr>"

definition loop_host :: "(gateway_request \<Rightarrow> gateway_answer) \<Rightarrow> bool host_process" where
  "loop_host answer = \<lparr>hp_net = loop_net answer, hp_codec = loop_codec, hp_runner = plain_runner, hp_session = demo_sid, hp_endpoint = ''host-1'', hp_fingerprint = ''fp-1''\<rparr>"

text \<open>The session limits the host to no capability, so the task is refused and its failure reported.\<close>

definition loop_options :: serveOptions where
  "loop_options = \<lparr>so_GatewayURL = [], so_Transport = ''poll'', so_PollInterval = 0, so_LongPollTimeout = 0, so_MaxTasks = 5, so_WorkspaceLockStore = [],
     so_CaptureRuntimeFixture = False, so_CapabilityCeiling = [], so_CapabilityCeilingSet = True\<rparr>"

definition loop_start :: host_loop where
  "loop_start = loop_begin loop_options (sn_Candidate loop_route) zero_Lease []"

abbreviation loop_state :: "bool run_state" where
  "loop_state \<equiv> (plain_state, Map.empty)"

lemmas loop_defs = loop_host_def loop_net_def loop_codec_def loop_answer_def loop_route_def

lemma on_world_Pair [simp]: "on_world (Pair x) st = (x, st)"
  by (cases st) (simp add: on_world_def)

lemma loop_parts [simp]:
  "hp_net (loop_host f) = loop_net f" "hp_codec (loop_host f) = loop_codec" "hp_session (loop_host f) = demo_sid" "hp_endpoint (loop_host f) = ''host-1''"
  "hn_Snapshot (loop_net f) = Pair (Some loop_route)" "hn_Success (loop_net f) x = Pair True" "hn_MonitorError (loop_net f) = Pair None"
  "hn_Key (loop_net f) k = Pair ''key''" "hn_Failure (loop_net f) x = Pair False" "hn_Sleep (loop_net f) d = Pair None"
  "hn_Do (loop_net f) request = Pair (f request)"
  by (simp_all add: loop_host_def loop_net_def fun_eq_iff)

lemma loop_events:
  "ev_Seq demo_hello = 1" "ev_Seq demo_offer = 2" "ev_ToEndpointID demo_hello = ''host-1''" "ev_ToEndpointID demo_offer = ''host-1''"
  "\<not> is_offer demo_hello" "is_offer demo_offer" "ev_TaskID demo_offer = tk_ID offered_task"
  by (simp_all add: demo_hello_def demo_offer_def hello_event_def task_offer_event_def is_offer_def payload_get_def offered_task_def)

section \<open>The offer is taken up\<close>

lemma submitted_leases: "m_leases submitted_store = m_leases joined_store"
  unfolding submitted_store_def
  by (auto simp: SubmitTask_def sessionTerminal_def Let_def dest: appendEventLocked_hook_and_tables split: sum.splits option.splits prod.splits)

lemma submitted_authorized:
  "authorizeLeaseLocked (env_from 1 (demo_env 2)) x ''host-1'' (demo_id ''lease_secret'' 11) submitted_store = Inr False"
  using demo_authorized [of x] by (simp add: authorizeLeaseLocked_def submitted_leases)

text \<open>A session of the store with a given event batch.\<close>

definition batch_session :: "gint \<Rightarrow> Session" where
  "batch_session batch = submitted_session\<lparr>ses_Limits := (ses_Limits submitted_session)\<lparr>lim_EventBatch := batch\<rparr>\<rparr>"

definition batch_store :: "gint \<Rightarrow> MemoryStore" where
  "batch_store batch = submitted_store\<lparr>m_sessions := [demo_sid \<mapsto> batch_session batch]\<rparr>"

lemma batch_session_simps [simp]:
  "ses_ID (batch_session n) = demo_sid" "ses_Endpoints (batch_session n) = [demo_endpoint]" "ses_Status (batch_session n) = SessionStatusOnline"
  "ses_LastSeq (batch_session n) = 2" "ses_ExpiresAt (batch_session n) = 0" "lim_EventBatch (ses_Limits (batch_session n)) = n" "ses_SnapshotSeq (batch_session n) = 0"
  by (simp_all add: batch_session_def) (simp add: submitted_session_def joined_session_def entered_session_def demo_session_def)

lemma batch_store_simps [simp]:
  "m_sessions (batch_store n) = [demo_sid \<mapsto> batch_session n]" "m_events (batch_store n) = [demo_sid \<mapsto> [demo_hello, demo_offer]]"
  "m_leases (batch_store n) = m_leases joined_store" "events_of (batch_store n) demo_sid = [demo_hello, demo_offer]"
  by (simp_all add: batch_store_def submitted_leases)

lemma batch_authorized:
  "authorizeLeaseLocked (env_from 1 (demo_env 2)) x ''host-1'' (demo_id ''lease_secret'' 11) (batch_store n) = Inr False"
  using demo_authorized [of x] by (simp add: authorizeLeaseLocked_def)

lemma demo_lease_generation: "ls_Generation demo_lease = 1"
  by (simp add: demo_lease_def issueLeaseLocked_def NewLease_def Let_def i64_def map_get_def zero_leaseRecord_def zero_Lease_def pruneExpiredLeaseSecrets_def entered_store_def)

lemma batch_poll:
  assumes "n \<in> {1, 100}"
  obtains lease replay s' where "EventsAfter (demo_env 2) demo_sid demo_cursor 64 (batch_store n) = (Inr (if n = 1 then [demo_hello] else [demo_hello, demo_offer], lease, replay), s')"
    "ls_Secret lease \<noteq> []" "ls_SessionID lease = demo_sid" "ls_EndpointID lease = ''host-1''" "ls_Generation lease > 0"
proof -
  have "\<exists>l r t. EventsAfter (demo_env 2) demo_sid demo_cursor 64 (batch_store n) = (Inr (if n = 1 then [demo_hello] else [demo_hello, demo_offer], l, r), t)"
    using assms batch_authorized [of "batch_session n" n]
    by (auto simp: EventsAfter_def Let_def sessionTerminal_def demo_cursor_def endpointIndexLocked_def loop_events
        case_prod_beta clampLimit_def visibleEventsLocked_def eventVisibleToEndpoint_def)
  then obtain lease replay t where poll: "EventsAfter (demo_env 2) demo_sid demo_cursor 64 (batch_store n) =
      (Inr (if n = 1 then [demo_hello] else [demo_hello, demo_offer], lease, replay), t)" by blast
  then have "ls_Secret lease \<noteq> [] \<and> ls_SessionID lease = demo_sid \<and> ls_EndpointID lease = ''host-1'' \<and> ls_Generation lease > 0"
  proof (cases rule: EventsAfter_cases)
    case (polled x i reconnecting replay')
    then show ?thesis using joined_store_lease demo_lease_generation
      by (auto simp: endpointIndexLocked_def demo_cursor_def polled_session_def issueLeaseLocked_def NewLease_def Let_def i64_def map_get_def pruneExpiredLeaseSecrets_def env_from_def)
  qed simp
  with poll that show thesis by blast
qed

lemma batch_store_default: "batch_store 100 = submitted_store"
proof -
  have "(ses_Limits submitted_session)\<lparr>lim_EventBatch := 100\<rparr> = ses_Limits submitted_session" by (rule Limits.equality) simp_all
  then have "batch_session 100 = submitted_session" unfolding batch_session_def by simp
  then show ?thesis unfolding batch_store_def by (intro MemoryStore.equality) simp_all
qed

lemma loop_poll:
  obtains lease replay s' where "EventsAfter (demo_env 2) demo_sid demo_cursor 64 submitted_store = (Inr ([demo_hello, demo_offer], lease, replay), s')"
    "loop_reply = ([demo_hello, demo_offer], lease, replay)" "ls_Secret lease \<noteq> []" "ls_SessionID lease = demo_sid" "ls_EndpointID lease = ''host-1''"
    "ls_Generation lease > 0" "er_LastSeq replay = 2" "\<not> er_SnapshotRequired replay"
proof -
  obtain lease replay s' where poll: "EventsAfter (demo_env 2) demo_sid demo_cursor 64 submitted_store = (Inr ([demo_hello, demo_offer], lease, replay), s')"
    "ls_Secret lease \<noteq> []" "ls_SessionID lease = demo_sid" "ls_EndpointID lease = ''host-1''" "ls_Generation lease > 0"
    by (rule batch_poll [of 100]) (simp_all add: batch_store_default)
  moreover have "er_LastSeq replay = 2" "\<not> er_SnapshotRequired replay" using EventsAfter_last [OF poll(1), of submitted_session] by simp_all
  ultimately show thesis by (intro that) (simp_all add: loop_reply_def)
qed

lemma loop_served: "served (loop_host loop_answer) 64 [demo_hello, demo_offer]"
proof -
  obtain lease replay s' where poll: "EventsAfter (demo_env 2) demo_sid demo_cursor 64 submitted_store = (Inr loop_reply, s')"
    by (rule loop_poll) simp
  have "log_stretch [demo_hello, demo_offer] (events_of submitted_store demo_sid) submitted_session"
    unfolding log_stretch_def by (rule exI [of _ "[]"], rule exI [of _ "[]"]) simp
  then have "store_reply demo_sid ''host-1'' 64 [demo_hello, demo_offer] 0 64 loop_reply"
    unfolding store_reply_def using submitted_reachable poll
    by (intro exI [of _ "demo_env 2"] exI [of _ demo_cursor] exI [of _ submitted_store] exI [of _ s'] exI [of _ submitted_session]) (simp add: demo_cursor_def)
  then show ?thesis unfolding served_def
    by (auto simp: loop_answer_def loop_codec_def events_reply_def read_answer_def readBoundedGatewayBody_def maxGatewayBody_def ok_status_def split: if_splits)
qed

lemma loop_task: "take_offer (loop_host loop_answer) demo_offer l loop_state = Some (OfferTaken, (on_route loop_route l)\<lparr>hl_afterSeq := 2, hl_processed := hl_processed l + 1\<rparr>, loop_state, Some (OfferRun offered_task))"
  if "so_CapabilityCeilingSet (hl_opts l)" "so_CapabilityCeiling (hl_opts l) = []"
proof -
  have task: "fetchSessionTask (loop_host loop_answer) opts secret (tk_ID offered_task) st = (Inr offered_task, st)" for opts secret st
    by (simp add: fetchSessionTask_def loop_answer_def loop_codec_def task_reply_def plain_reply_def read_answer_def readBoundedGatewayBody_def maxGatewayBody_def ok_status_def)
      (simp add: offered_task_def)
  have ceiling: "\<not> CapabilitiesAllowed (tk_Capabilities offered_task) [] True"
    by (simp add: CapabilitiesAllowed_def capabilitySet_def offered_task_def)
  have complete: "completeSessionTask (loop_host loop_answer) opts secret taskID key result st = (Inr (offered_task, demo_offer), st)" for opts secret taskID key result st
    by (simp add: completeSessionTask_def loop_answer_def loop_codec_def plain_reply_def read_answer_def readBoundedGatewayBody_def maxGatewayBody_def ok_status_def)
  have run: "runSessionTaskWithRoutes (loop_host loop_answer) (hl_opts (on_route loop_route l)) secret offered_task st = Some (None, st)" for secret st
    using that ceiling
    by (simp add: runSessionTaskWithRoutes_def run_assigned_def on_route_def use_route_def route_retry.simps complete)
  have "\<not> Task_Terminal offered_task" "tk_TargetEndpointID offered_task = ''host-1''" by (simp_all add: offered_task_def Task_Terminal_def)
  then show ?thesis by (simp add: take_offer_def loop_events task run Let_def)
qed

lemma loop_step:
  obtains l where "poll_step (loop_host loop_answer) 5 loop_start loop_state = Some (LoopAgain, l, loop_state, [(demo_offer, OfferRun offered_task)])" "hl_afterSeq l = 2"
proof -
  obtain lease replay s' where reply: "loop_reply = ([demo_hello, demo_offer], lease, replay)" "ls_Secret lease \<noteq> []" "ls_SessionID lease = demo_sid"
    "ls_EndpointID lease = ''host-1''" "ls_Generation lease > 0" "er_LastSeq replay = 2" "\<not> er_SnapshotRequired replay" by (rule loop_poll)
  have start: "hl_pending loop_start = []" "hl_afterSeq loop_start = 0" "hl_lease loop_start = zero_Lease" "hl_processed loop_start = 0"
    by (simp_all add: loop_start_def loop_begin_def)
  have opts: "so_Transport (hl_opts (on_route loop_route l)) = ''poll''" for l by (simp add: on_route_def use_route_def loop_route_def)
  have fetch: "fetchSessionEvents (loop_host loop_answer) opts secret 0 64 st = (Inr loop_reply, st)" for opts secret st
    by (simp add: fetchSessionEvents_def loop_answer_def loop_codec_def events_reply_def read_answer_def readBoundedGatewayBody_def maxGatewayBody_def ok_status_def)
  let ?l = "renew_lease lease (on_route loop_route loop_start)"
  have ceiling: "so_CapabilityCeilingSet (hl_opts ?l)" "so_CapabilityCeiling (hl_opts ?l) = []"
    by (simp_all add: renew_lease_def on_route_def use_route_def loop_start_def loop_begin_def loop_options_def)
  let ?l1 = "?l\<lparr>hl_afterSeq := 1\<rparr>"
  have "take_offer (loop_host loop_answer) demo_offer ?l1 loop_state =
      Some (OfferTaken, (on_route loop_route ?l1)\<lparr>hl_afterSeq := 2, hl_processed := 1\<rparr>, loop_state, Some (OfferRun offered_task))"
    using loop_task [of ?l1] ceiling start(4) by simp
  moreover have two: "\<not> (2::u64) \<le> 1" by (simp add: word_le_nat_alt)
  ultimately have loop: "event_loop (loop_host loop_answer) 5 [demo_hello, demo_offer] False ?l loop_state =
      Some (PageDone True, (on_route loop_route ?l1)\<lparr>hl_afterSeq := 2, hl_processed := 1\<rparr>, loop_state, [(demo_offer, OfferRun offered_task)])"
    using two by (simp add: loop_events start was_run_def log_of_def)
  have valid: "validateLeaseBinding zero_Lease lease demo_sid ''host-1'' = None" using reply by (simp add: validateLeaseBinding_def zero_Lease_def)
  show thesis
    by (rule that [of "(on_route loop_route ?l1)\<lparr>hl_afterSeq := 2, hl_processed := 1\<rparr>"])
      (simp_all add: poll_step_def poll_route_def Let_def start opts sessionEventLimit_def fetch reply valid accept_page_def loop end_of_page_def del: event_loop.simps)
qed

theorem offers_exactly_once_witness:
  "\<exists>t l. polls (loop_host loop_answer) 5 loop_start loop_state t LoopAgain l loop_state \<and> hl_afterSeq l = 2 \<and> fst ` set t = {demo_offer}"
proof -
  obtain l where step: "poll_step (loop_host loop_answer) 5 loop_start loop_state = Some (LoopAgain, l, loop_state, [(demo_offer, OfferRun offered_task)])" "hl_afterSeq l = 2"
    by (rule loop_step)
  have start: "hl_pending loop_start = []" "hl_afterSeq loop_start = 0" "hl_processed loop_start = 0" by (simp_all add: loop_start_def loop_begin_def)
  obtain t where p: "polls (loop_host loop_answer) 5 loop_start loop_state t LoopAgain l loop_state"
    using polls.polls_step [OF polls.polls_begin _ step(1)] start by auto
  from offers_exactly_once [OF p loop_served _ upto_page_Nil [OF start(1)]]
  have "fst ` set t = offers_upto ''host-1'' [demo_hello, demo_offer] 0 2" using step(2) start by (simp add: loop_events)
  also have "\<dots> = {demo_offer}" by (auto simp: offers_upto_def page_upto_def loop_events)
  finally show ?thesis using p step(2) by blast
qed

section \<open>What is lost\<close>

theorem small_batch_skips_offers_witness:
  "\<exists>evs lease replay s' r l1 st1 t. EventsAfter (demo_env 2) demo_sid demo_cursor 64 (batch_store 1) = (Inr (evs, lease, replay), s')
     \<and> accept_page (loop_host loop_answer) 5 loop_route 64 False evs lease replay loop_start loop_state = Some (r, l1, st1, t)
     \<and> 2 \<le> hl_afterSeq l1 \<and> demo_offer \<notin> fst ` set t"
proof -
  obtain lease replay s' where poll: "EventsAfter (demo_env 2) demo_sid demo_cursor 64 (batch_store 1) = (Inr ([demo_hello], lease, replay), s')"
    by (rule batch_poll [of 1]) simp_all
  have evs: "\<forall>e \<in> set [demo_hello]. \<not> is_offer e" by (simp add: loop_events)
  have wf: "session_wf demo_sid (batch_session 1) (events_of (batch_store 1) demo_sid)"
    using reachable_session_wf [OF submitted_reachable, of demo_sid submitted_session]
    by (simp add: session_wf_def log_wf_def batch_session_def ended_wf_def endpoint_wf_def constrainedEndpointCapabilities_def)
  have "\<not> er_SnapshotRequired replay" using EventsAfter_last [OF poll, of "batch_session 1"] by simp
  then obtain r l1 st1 t where page: "accept_page (loop_host loop_answer) 5 loop_route 64 False [demo_hello] lease replay loop_start loop_state = Some (r, l1, st1, t)"
    by (auto simp: accept_page_def nap_def Let_def sleepOrDone_def loop_events loop_start_def loop_begin_def)
  have "ses_LastSeq (batch_session 1) \<le> hl_afterSeq l1 \<and> (\<forall>e \<in> set (events_of (batch_store 1) demo_sid). e \<notin> fst ` set (t @ []))"
    by (rule small_batch_skips_offers [OF poll _ wf _ _ _ evs _ page polls.polls_begin, of "''poll''"]) (simp_all add: sessionEventLimit_def)
  with poll page show ?thesis by auto
qed

section \<open>What stalls\<close>

definition pool_surroundings :: "bool pool_env" where
  "pool_surroundings = \<lparr>pe_Now = Pair 1,
     pe_Probe = (\<lambda>p is. Pair (map (\<lambda>i. \<lparr>ob_index = i, ob_epoch = rs_epoch (route_at p i), ob_result = \<lparr>pr_Healthy = True, pr_Latency = 5, pr_Err = None\<rparr>\<rparr>) is)),
     pe_Monitor = Pair [MonitorBegin 1], pe_Cancelled = (\<lambda>_. False)\<rparr>"

definition new_pool :: routePool where
  "new_pool = \<lparr>rp_routes = [new_routeState (sn_Candidate loop_route)], rp_active = -1, rp_initialized = False, rp_generation = 0, rp_lastProbe = 0, rp_changed = 0,
     rp_config = normalizeConfig \<lparr>cf_MaxConcurrent = 0, cf_ProbeTimeout = 0, cf_Cooldown = 0, cf_ReprobeInterval = 5 * second_ns, cf_ShareGatewayHealth = True, cf_Probe = True\<rparr>\<rparr>"

text \<open>The world after the pool has found its route healthy.\<close>

definition joined_world :: "bool pool_world" where
  "joined_world = snd (set_initialize pool_surroundings \<lparr>pw_pool = new_pool, pw_env = False\<rparr>)"

lemma joined_ready: "rp_initialized (pw_pool joined_world)" "map_option sn_Candidate (fst (set_currentSnapshot pool_surroundings joined_world)) = Some (sn_Candidate loop_route)"
  by code_simp+

definition idle_machine :: "'w machine" where
  "idle_machine = \<lparr>mc_git = (\<lambda>_ w. (([], [], 128), w)), mc_host = (\<lambda>_. task_host), mc_faults = (\<lambda>_. no_faults), mc_inode = (\<lambda>_. 0), mc_MkdirAll = (\<lambda>_ w. (True, w)),
     mc_WalkDir = (\<lambda>_ _. []), mc_IsLetterOrDigit = (\<lambda>_. False)\<rparr>"

definition large_reply :: "gateway_request \<Rightarrow> gateway_answer" where
  "large_reply request = Response 200 (Some (replicate 262145 CHR ''x''))"

definition pool_host :: "bool pool_world host_process" where
  "pool_host = \<lparr>hp_net = pool_net pool_surroundings (loop_net large_reply), hp_codec = loop_codec, hp_runner = task_runner idle_machine (\<lambda>w. w),
     hp_session = demo_sid, hp_endpoint = ''host-1'', hp_fingerprint = ''fp-1''\<rparr>"

abbreviation pool_state :: "bool pool_world run_state" where
  "pool_state \<equiv> (\<lparr>hs_world = joined_world, hs_locks = Map.empty\<rparr>, Map.empty)"

theorem oversized_page_stalls_witness:
  "\<exists>l1 st1 l2 st2. poll_step pool_host 5 loop_start pool_state = Some (LoopAgain, l1, st1, []) \<and> poll_step pool_host 5 l1 st1 = Some (LoopAgain, l2, st2, []) \<and> hl_afterSeq l1 = 0"
proof -
  have start: "hl_pending loop_start = []" "hl_afterSeq loop_start = 0" "hl_processed loop_start = 0" by (simp_all add: loop_start_def loop_begin_def)
  have net: "hp_net pool_host = pool_net pool_surroundings (loop_net large_reply)" by (simp add: pool_host_def)
  have large: "oversized (fst (hn_Do (loop_net large_reply) request e))" for request e
    by (simp add: oversized_def large_reply_def maxGatewayBody_def)
  have ready: "rp_initialized (pw_pool (hs_world (fst pool_state)))" using joined_ready(1) by simp
  note stalls = oversized_page_stalls [OF net large _ _ _ ready start(1)]
  have quiet: "\<not> pe_Cancelled pool_surroundings e" "fst (hn_MonitorError (loop_net large_reply) e) = None" "fst (hn_Sleep (loop_net large_reply) d e) = None" for d e
    by (simp_all add: pool_surroundings_def)
  obtain l1 st1 where one: "poll_step pool_host 5 loop_start pool_state = Some (LoopAgain, l1, st1, [])"
    using stalls [OF quiet polls.polls_begin] by blast
  then have "polls pool_host 5 loop_start pool_state ([] @ []) LoopAgain l1 st1"
    using start(3) by (intro polls.polls_step [OF polls.polls_begin]) simp_all
  from stalls [OF quiet this] one show ?thesis using start(2) by auto
qed

end
