(* ===== verification/Http_Api.thy ===== *)
theory Http_Api
  imports Gateway_Snapshot Web_Handoff Operator_Auth Engineering_Task
begin

text \<open>
  The HTTP interface of the gateway (internal/httpapi/server.go): routing, authorization of operators and
  endpoints, the handlers over the gateway's methods, the saving of the state after each change, and the
  status of errors. A request is its method, path, query, headers and body; the JSON decoders of the bodies
  are parameters, a reply is its status and what is encoded in it. A handler runs as one step; a long poll
  that waits reads, at each of its ticks, the server that the other requests have left.
\<close>

section \<open>Requests, replies, the server\<close>

record http_request =
  rq_Method :: string
  rq_Path :: string
  rq_Query :: "string \<Rightarrow> string"
  rq_Authorization :: string
  rq_Header :: "string \<Rightarrow> string"
  rq_Body :: string

datatype http_body =
    BodyError ProtocolError
  | BodyReplayError ProtocolError EventReplayState
  | BodyText string
  | BodyHealth string
  | BodyCreated Session StatusSummary
  | BodyJoined "Session option" Endpoint Lease "Event list"
  | BodyEvents "Event list" "Lease option" EventReplayState "StatusSummary option"
  | BodySnapshot SessionSnapshot
  | BodyTask Task "Event option"
  | BodyEvent Event
  | BodyArtifact ArtifactRef Event
  | BodyArtifacts "ArtifactRef list" StatusSummary
  | BodyEnded Session Event
  | BodyTrust SignedTrustBundle
  | BodyAudit "AuditEvent list"
  | BodyHosts "Host list"
  | BodyHost Host
  | BodyHandoff WebHandoff string
  | BodyBootstrap string string string Time
  | BodyPage string string string
  | BodyBinary string string

type_synonym answer = "int \<times> http_body"

record http_decoders =
  bd_SessionSpec :: "string \<Rightarrow> SessionSpec option"
  bd_JoinByCode :: "string \<Rightarrow> (string \<times> EndpointSpec) option"
  bd_EndpointSpec :: "string \<Rightarrow> EndpointSpec option"
  bd_Event :: "string \<Rightarrow> Event option"
  bd_TaskRequest :: "string \<Rightarrow> (TaskSpec \<times> goval) option"
  bd_Result :: "string \<Rightarrow> payload option"
  bd_Resume :: "string \<Rightarrow> (string \<times> string) option"
  bd_Artifact :: "string \<Rightarrow> ArtifactRef option"
  bd_NotifyURL :: "string \<Rightarrow> string option"
  bd_TrustBundle :: "string \<Rightarrow> SignedTrustBundle option"
  bd_Rename :: "string \<Rightarrow> (string \<times> string) option"
  bd_Handoff :: "string \<Rightarrow> (string \<times> gint) option"
  bd_Claim :: "string \<Rightarrow> bool"

record WebHandoffAsset =
  wa_Filename :: string
  wa_Content :: string
  wa_SHA256 :: string

record base_url =
  bu_Scheme :: string
  bu_Host :: string
  bu_User :: bool
  bu_RawQuery :: string
  bu_Fragment :: string
  bu_Path :: string
  bu_WithoutPath :: string

record 's http_config =
  cf_OperatorAuth :: "'s Authorizer option"
  cf_Hosted :: "'s \<Rightarrow> Time \<Rightarrow> string \<Rightarrow> string list \<Rightarrow> bool"
  cf_Crypto :: crypto
  cf_Unicode :: unicode
  cf_NotifyParse :: "string \<Rightarrow> url_parts option"
  cf_Decode :: http_decoders
  cf_Strict :: "goval \<Rightarrow> EngineeringTask option"
  cf_StateCodec :: state_codec
  cf_StateStore :: "string option"
  cf_StatePath :: string
  cf_Instance :: string
  cf_PublicBaseURL :: string
  cf_Asset :: WebHandoffAsset
  cf_BaseParse :: "string \<Rightarrow> base_url option"
  cf_PathEscape :: "string \<Rightarrow> string"

record http_server =
  hs_Gateway :: MemoryGateway
  hs_File :: "state_file option"

text \<open>
  What one call gets from its surroundings: the environment, the order of map iterations, whether the state
  file can be written, and, for a poll that waits, its ticks (with the server that the other requests have
  left at each) and whether its client has gone before the end of the wait.
\<close>

record http_call =
  ca_Env :: env
  ca_Iteration :: iteration
  ca_Hosts :: "string list"
  ca_Written :: bool
  ca_Ticks :: "(env \<times> http_server) list"
  ca_Gone :: bool

definition on_gateway :: "(MemoryGateway \<Rightarrow> 'a \<times> MemoryGateway) \<Rightarrow> http_server \<Rightarrow> 'a \<times> http_server" where
  "on_gateway f srv = (let (x, g) = f (hs_Gateway srv) in (x, srv\<lparr>hs_Gateway := g\<rparr>))"

section \<open>Errors\<close>

definition protocolAgentNextAction :: "ErrorCode \<Rightarrow> string" where
  "protocolAgentNextAction code =
     (case code of
        ErrSnapshotRequired \<Rightarrow> ''fetch the session snapshot and resume from snapshot_seq''
      | ErrUnauthorizedEndpoint \<Rightarrow> ''join, resume, or renew the endpoint lease''
      | ErrLeaseExpired \<Rightarrow> ''join, resume, or renew the endpoint lease''
      | ErrIdempotencyConflict \<Rightarrow> ''reuse the original idempotent payload or choose a new idempotency key''
      | ErrTerminalSession \<Rightarrow> ''do not send new work to this session''
      | ErrSessionClosed \<Rightarrow> ''do not send new work to this session''
      | _ \<Rightarrow> ''inspect the structured error and retry only if recoverable'')"

definition protocolHTTPError :: "ErrorCode \<Rightarrow> string \<Rightarrow> bool \<Rightarrow> ProtocolError" where
  "protocolHTTPError code message recoverable =
     \<lparr>pe_SchemaVersion = ErrorSchemaVersion, pe_Code = code, pe_Message = message, pe_Recoverable = recoverable,
      pe_RetryAfterMS = 500, pe_UserSummary = message, pe_AgentNextAction = protocolAgentNextAction code, pe_Details = None\<rparr>"

definition protocolHTTPStatus :: "ErrorCode \<Rightarrow> int" where
  "protocolHTTPStatus code =
     (if code \<in> {ErrUnauthorizedEndpoint, ErrLeaseExpired} then 401
      else if code \<in> {ErrInvalidJoinCode, ErrEndpointNotFound, ErrTaskNotFound} then 404
      else if code \<in> {ErrIdempotencyConflict, ErrTerminalSession, ErrSessionClosed, ErrTaskAlreadyTerminal, ErrJoinPolicyRejected} then 409
      else if code = ErrPayloadTooLarge then 413
      else 400)"

definition protocolError :: "int \<Rightarrow> ErrorCode \<Rightarrow> string \<Rightarrow> bool \<Rightarrow> answer" where
  "protocolError status code message recoverable = (status, BodyError (protocolHTTPError code message recoverable))"

definition controlPlaneError :: "error \<Rightarrow> answer" where
  "controlPlaneError e =
     (case e of
        ProtoErr pe \<Rightarrow> (protocolHTTPStatus (pe_Code pe), BodyError pe)
      | _ \<Rightarrow> protocolError 500 ErrSessionClosed ''internal control plane error'' True)"

definition controlPlaneErrorWithReplay :: "error \<times> EventReplayState \<Rightarrow> answer" where
  "controlPlaneErrorWithReplay er =
     (case er of
        (ProtoErr pe, replay) \<Rightarrow> (protocolHTTPStatus (pe_Code pe), BodyReplayError pe replay)
      | (e, replay) \<Rightarrow> controlPlaneError e)"

abbreviation invalid_body :: answer where
  "invalid_body \<equiv> protocolError 400 ErrPayloadTooLarge ''invalid JSON body'' False"

abbreviation operator_required :: answer where
  "operator_required \<equiv> protocolError 403 ErrUnauthorizedEndpoint ''operator role is required'' False"

abbreviation auditor_required :: answer where
  "auditor_required \<equiv> protocolError 403 ErrUnauthorizedEndpoint ''auditor role is required'' False"

abbreviation unknown_session_endpoint :: answer where
  "unknown_session_endpoint \<equiv> protocolError 404 ErrSessionClosed ''unknown session endpoint'' False"

abbreviation task_not_found :: answer where
  "task_not_found \<equiv> protocolError 404 ErrTaskNotFound ''task not found'' False"

section \<open>Authorization and persistence\<close>

definition authorizeOperator :: "'s http_config \<Rightarrow> http_call \<Rightarrow> http_request \<Rightarrow> string list \<Rightarrow> bool" where
  "authorizeOperator cfg call r roles =
     (if \<not> Authorizer_Enabled (cf_OperatorAuth cfg) then True
      else Authorizer_AuthorizeBearer (cf_Crypto cfg) (\<lambda>s. cf_Hosted cfg s (clock_at (ca_Env call) 0))
             (cf_OperatorAuth cfg) (rq_Authorization r) roles)"

definition extractBearerToken :: "http_request \<Rightarrow> string" where
  "extractBearerToken r =
     (if prefix ''Bearer '' (rq_Authorization r) then TrimSpace (drop 7 (rq_Authorization r)) else rq_Query r ''host_secret'')"

definition state_store :: "'s http_config \<Rightarrow> string option gateway_result" where
  "state_store cfg =
     (case cf_StateStore cfg of
        Some path \<Rightarrow> Inr (Some path)
      | None \<Rightarrow>
          if TrimSpace (cf_StatePath cfg) = [] then Inr None
          else (case NewFileStateStore (cf_StatePath cfg) of Inl e \<Rightarrow> Inl e | Inr path \<Rightarrow> Inr (Some path)))"

definition persistStateInternal :: "'s http_config \<Rightarrow> http_call \<Rightarrow> http_server \<Rightarrow> gateway_error option \<times> http_server" where
  "persistStateInternal cfg call srv =
     (case state_store cfg of
        Inl e \<Rightarrow> (Some e, srv)
      | Inr None \<Rightarrow> (None, srv)
      | Inr (Some path) \<Rightarrow>
          (case SaveSnapshot (cf_StateCodec cfg) (env_from 80 (ca_Env call)) (ca_Iteration call) path (ca_Written call) (hs_File srv) (hs_Gateway srv) of
             (Inl e, file', g) \<Rightarrow> (Some e, \<lparr>hs_Gateway = g, hs_File = file'\<rparr>)
           | (Inr _, file', g) \<Rightarrow> (None, \<lparr>hs_Gateway = g, hs_File = file'\<rparr>)))"

definition persisted :: "'s http_config \<Rightarrow> http_call \<Rightarrow> answer \<Rightarrow> http_server \<Rightarrow> answer \<times> http_server" where
  "persisted cfg call reply srv =
     (case persistStateInternal cfg call srv of
        (Some e, srv') \<Rightarrow> ((500, BodyText ''persist gateway state''), srv')
      | (None, srv') \<Rightarrow> (reply, srv'))"

section \<open>Numbers in queries\<close>

definition digits_value :: "string \<Rightarrow> nat option" where
  "digits_value s =
     (if s = [] \<or> \<not> list_all (\<lambda>c. 48 \<le> (of_char c :: nat) \<and> (of_char c :: nat) \<le> 57) s then None
      else Some (foldl (\<lambda>n c. 10 * n + (of_char c - 48)) 0 s))"

text \<open>strconv.Atoi takes a sign, strconv.ParseUint does not; both refuse what does not fit.\<close>

definition strconv_Atoi :: "string \<Rightarrow> int option" where
  "strconv_Atoi s =
     (let signed = (s \<noteq> [] \<and> (hd s = CHR ''-'' \<or> hd s = CHR ''+'')); body = (if signed then tl s else s) in
      case digits_value body of
        None \<Rightarrow> None
      | Some n \<Rightarrow>
          (let v = (if signed \<and> hd s = CHR ''-'' then - int n else int n) in
           if v < - (2 ^ 63) \<or> 2 ^ 63 \<le> v then None else Some v))"

definition strconv_ParseUint :: "string \<Rightarrow> u64 option" where
  "strconv_ParseUint s = (case digits_value s of None \<Rightarrow> None | Some n \<Rightarrow> if 2 ^ 64 \<le> n then None else Some (of_nat n))"

definition parseOptionalInt :: "string \<Rightarrow> gint option" where
  "parseOptionalInt raw =
     (if raw = [] then Some 0
      else (case strconv_Atoi raw of None \<Rightarrow> None | Some value \<Rightarrow> if value < 0 then None else Some value))"

definition parseOptionalUint :: "string \<Rightarrow> u64 option" where
  "parseOptionalUint raw = (if raw = [] then Some 0 else strconv_ParseUint raw)"

definition parseLongPollWait :: "http_request \<Rightarrow> Duration option" where
  "parseLongPollWait r =
     (if rq_Query r ''wait_ms'' \<noteq> [] then
        (case strconv_Atoi (rq_Query r ''wait_ms'') of
           None \<Rightarrow> None
         | Some value \<Rightarrow> if value < 0 \<or> value > 60000 then None else Some (millis value))
      else if rq_Query r ''wait_seconds'' \<noteq> [] then
        (case strconv_Atoi (rq_Query r ''wait_seconds'') of
           None \<Rightarrow> None
         | Some value \<Rightarrow> if value < 0 \<or> value > 60 then None else Some (value * second_ns))
      else Some 0)"

end
