(* ===== verification/Http_Handlers.thy ===== *)
theory Http_Handlers
  imports Http_Api
begin

text \<open>
  The handlers of the gateway's HTTP interface. Each is a function of the configuration, of what the call
  gets from its surroundings, of the request and of the server, in the order of the checks, gateway calls,
  saving and replies of the source.
\<close>

type_synonym 's handler = "'s http_config \<Rightarrow> http_call \<Rightarrow> http_request \<Rightarrow> http_server \<Rightarrow> answer \<times> http_server"

abbreviation first_env :: "http_call \<Rightarrow> env" where "first_env call \<equiv> env_from 1 (ca_Env call)"
abbreviation next_env :: "http_call \<Rightarrow> env" where "next_env call \<equiv> env_from 40 (ca_Env call)"

section \<open>Sessions\<close>

definition health :: "'s handler" where
  "health cfg call r srv = ((200, BodyHealth (cf_Instance cfg)), srv)"

definition createSession :: "'s handler" where
  "createSession cfg call r srv =
     (if \<not> authorizeOperator cfg call r [RoleOperator] then (operator_required, srv)
      else
        (case bd_SessionSpec (cf_Decode cfg) (rq_Body r) of
           None \<Rightarrow> (invalid_body, srv)
         | Some spec \<Rightarrow>
             (case on_gateway (Gateway_CreateSession (first_env call) spec) srv of
                (Inl e, srv1) \<Rightarrow> (controlPlaneError e, srv1)
              | (Inr session, srv1) \<Rightarrow> persisted cfg call (201, BodyCreated session (DeriveStatus (next_env call) session)) srv1)))"

definition joinSessionByCode :: "'s handler" where
  "joinSessionByCode cfg call r srv =
     (case bd_JoinByCode (cf_Decode cfg) (rq_Body r) of
        None \<Rightarrow> (invalid_body, srv)
      | Some (joinCode, spec) \<Rightarrow>
          (case on_gateway (JoinSessionByCode (first_env call) joinCode spec) srv of
             (Inl e, srv1) \<Rightarrow> (controlPlaneError e, srv1)
           | (Inr (session, endpoint, lease, events), srv1) \<Rightarrow> persisted cfg call (200, BodyJoined session endpoint lease events) srv1))"

definition joinSession :: "string \<Rightarrow> 's handler" where
  "joinSession sid cfg call r srv =
     (case bd_EndpointSpec (cf_Decode cfg) (rq_Body r) of
        None \<Rightarrow> (invalid_body, srv)
      | Some spec \<Rightarrow>
          (case on_gateway (Gateway_JoinSession (first_env call) sid spec) srv of
             (Inl e, srv1) \<Rightarrow> (controlPlaneError e, srv1)
           | (Inr (session, endpoint, lease), srv1) \<Rightarrow> persisted cfg call (200, BodyJoined (Some session) endpoint lease []) srv1))"

definition getSessionSnapshot :: "string \<Rightarrow> 's handler" where
  "getSessionSnapshot sid cfg call r srv =
     (if \<not> authorizeOperator cfg call r [RoleAuditor, RoleOperator] then (auditor_required, srv)
      else
        (case on_gateway (Gateway_Session (first_env call) sid) srv of
           (Inl e, srv1) \<Rightarrow> (controlPlaneError e, srv1)
         | (Inr session, srv1) \<Rightarrow> ((200, BodySnapshot (Session_Snapshot (next_env call) session)), srv1)))"

definition closeSession :: "string \<Rightarrow> 's handler" where
  "closeSession sid cfg call r srv =
     (if \<not> authorizeOperator cfg call r [RoleOperator] then (operator_required, srv)
      else
        (case on_gateway (Gateway_CloseSession (first_env call) sid) srv of
           (Inl e, srv1) \<Rightarrow> (controlPlaneError e, srv1)
         | (Inr (session, event), srv1) \<Rightarrow> persisted cfg call (202, BodyEnded session event) srv1))"

definition revokeSession :: "string \<Rightarrow> 's handler" where
  "revokeSession sid cfg call r srv =
     (if \<not> authorizeOperator cfg call r [RoleOperator] then (operator_required, srv)
      else
        (case on_gateway (Gateway_RevokeSession (first_env call) sid) srv of
           (Inl e, srv1) \<Rightarrow> (controlPlaneError e, srv1)
         | (Inr (session, event), srv1) \<Rightarrow> persisted cfg call (202, BodyEnded session event) srv1))"

definition setSessionNotify :: "string \<Rightarrow> 's handler" where
  "setSessionNotify sid cfg call r srv =
     (if \<not> authorizeOperator cfg call r [RoleOperator] then (operator_required, srv)
      else
        (case bd_NotifyURL (cf_Decode cfg) (rq_Body r) of
           None \<Rightarrow> (invalid_body, srv)
         | Some notifyURL \<Rightarrow>
             (case on_gateway (Gateway_SetSessionNotifyURL (cf_Unicode cfg) (cf_NotifyParse cfg) (first_env call) sid notifyURL) srv of
                (Inl (GwStore (ProtoErr pe)), srv1) \<Rightarrow> (controlPlaneError (ProtoErr pe), srv1)
              | (Inl _, srv1) \<Rightarrow> (protocolError 400 ErrPayloadTooLarge ''notify_url'' False, srv1)
              | (Inr _, srv1) \<Rightarrow>
                  (case persistStateInternal cfg call srv1 of
                     (Some e, srv2) \<Rightarrow> ((500, BodyText ''persist gateway state''), srv2)
                   | (None, srv2) \<Rightarrow>
                       (case on_gateway (Gateway_Session (next_env call) sid) srv2 of
                          (Inl e, srv3) \<Rightarrow> (controlPlaneError e, srv3)
                        | (Inr session, srv3) \<Rightarrow> ((200, BodySnapshot (Session_Snapshot (next_env call) session)), srv3))))))"

section \<open>Events\<close>

definition sessionAgentEventsAfter :: "string \<Rightarrow> 's handler" where
  "sessionAgentEventsAfter sid cfg call r srv =
     (if \<not> authorizeOperator cfg call r [RoleAuditor, RoleOperator] then (auditor_required, srv)
      else
        (case parseOptionalUint (rq_Query r ''after_seq'') of
           None \<Rightarrow> (protocolError 400 ErrStaleCursor ''after_seq must be a non-negative integer'' True, srv)
         | Some afterSeq \<Rightarrow>
             (case parseOptionalInt (rq_Query r ''limit'') of
                None \<Rightarrow> (protocolError 400 ErrTooManyEvents ''limit must be a non-negative integer'' True, srv)
              | Some limit \<Rightarrow>
                  (case on_gateway (SessionEventsAfterForAgent (first_env call) sid afterSeq limit) srv of
                     (Inl er, srv1) \<Rightarrow> (controlPlaneErrorWithReplay er, srv1)
                   | (Inr (events, replay), srv1) \<Rightarrow>
                       (case on_gateway (Gateway_Session (next_env call) sid) srv1 of
                          (Inl e, srv2) \<Rightarrow> (controlPlaneError e, srv2)
                        | (Inr session, srv2) \<Rightarrow>
                            ((200, BodyEvents events None replay (Some (DeriveStatus (next_env call) session))), srv2))))))"

definition zero_cursor :: EventCursor where
  "zero_cursor = \<lparr>cu_EndpointID = [], cu_LeaseSecret = [], cu_AfterSeq = 0, cu_ReceivedSeq = 0, cu_ProcessedSeq = 0,
     cu_VisibleRole = EndpointRoleOther [], cu_EndpointState = EndpointStateOther []\<rparr>"

text \<open>The cursor a poll names, and its limit and wait.\<close>

definition parsePoll :: "http_request \<Rightarrow> answer + (Duration \<times> EventCursor \<times> gint)" where
  "parsePoll r =
     (case parseLongPollWait r of
        None \<Rightarrow> Inl (protocolError 400 ErrTooManyEvents ''wait out of range'' True)
      | Some wait \<Rightarrow>
          (case (parseOptionalUint (rq_Query r ''after_seq''), parseOptionalUint (rq_Query r ''received_seq''),
                 parseOptionalUint (rq_Query r ''processed_seq'')) of
             (Some afterSeq, Some receivedSeq, Some processedSeq) \<Rightarrow>
               (case parseOptionalInt (rq_Query r ''limit'') of
                  None \<Rightarrow> Inl (protocolError 400 ErrTooManyEvents ''limit must be a non-negative integer'' True)
                | Some limit \<Rightarrow>
                    Inr (wait, zero_cursor\<lparr>cu_EndpointID := rq_Query r ''endpoint_id'', cu_LeaseSecret := extractBearerToken r,
                           cu_AfterSeq := afterSeq, cu_ReceivedSeq := receivedSeq, cu_ProcessedSeq := processedSeq\<rparr>, limit))
           | _ \<Rightarrow> Inl (protocolError 400 ErrStaleCursor ''sequence must be a non-negative integer'' True)))"

text \<open>The end of a poll, once it no longer waits.\<close>

definition finishPoll :: "string \<Rightarrow> EventCursor \<Rightarrow> gint \<Rightarrow> 's http_config \<Rightarrow> http_call \<Rightarrow> http_server \<Rightarrow> answer \<times> http_server" where
  "finishPoll sid cursor limit cfg call srv =
     (case on_gateway (SessionEventsAfter (first_env call) sid cursor limit) srv of
        (Inl er, srv1) \<Rightarrow> (controlPlaneErrorWithReplay er, srv1)
      | (Inr (events, lease, replay), srv1) \<Rightarrow> persisted cfg call (200, BodyEvents events (Some lease) replay None) srv1)"

text \<open>
  A poll that waits looks at the events without taking them. With none, it waits until its deadline, or a
  second before the lease is to be renewed if that is earlier: the time is returned; None is no wait.
\<close>

definition beginPoll ::
    "string \<Rightarrow> Duration \<Rightarrow> EventCursor \<Rightarrow> gint \<Rightarrow> http_call \<Rightarrow> http_server \<Rightarrow> answer + Time option" where
  "beginPoll sid wait cursor limit call srv =
     (if wait \<le> 0 then Inr None
      else
        (case PeekSessionEventsAfter (first_env call) sid cursor limit (hs_Gateway srv) of
           Inl er \<Rightarrow> Inl (controlPlaneErrorWithReplay er)
         | Inr (preview, currentLease, _) \<Rightarrow>
             (let deadline0 = clock_at (next_env call) 0 + wait;
                  renewal = ls_RenewAfter currentLease - second_ns;
                  deadline = (if \<not> IsZero (ls_RenewAfter currentLease) \<and> renewal < deadline0 then renewal else deadline0)
              in if preview = [] \<and> clock_at (next_env call) 1 < deadline then Inr (Some deadline) else Inr None)))"

text \<open>
  Every tick looks again, at the server as the other requests have left it: an error ends the poll, events end
  the wait. When the ticks are over, the timer has fired or the client has gone; None is a client that has gone.
\<close>

fun waitPoll ::
    "string \<Rightarrow> EventCursor \<Rightarrow> gint \<Rightarrow> bool \<Rightarrow> (env \<times> http_server) list \<Rightarrow> http_server \<Rightarrow> (answer + unit) option \<times> http_server" where
  "waitPoll sid cursor limit gone [] srv = (if gone then None else Some (Inr ()), srv)"
| "waitPoll sid cursor limit gone ((E, seen) # ticks) srv =
     (case PeekSessionEventsAfter E sid cursor limit (hs_Gateway seen) of
        Inl er \<Rightarrow> (Some (Inl (controlPlaneErrorWithReplay er)), seen)
      | Inr (preview, _, _) \<Rightarrow>
          if preview \<noteq> [] then (Some (Inr ()), seen) else waitPoll sid cursor limit gone ticks seen)"

text \<open>A handler that returns without writing anything has replied with an empty body.\<close>

definition sessionEventsAfter :: "string \<Rightarrow> 's handler" where
  "sessionEventsAfter sid cfg call r srv =
     (case parsePoll r of
        Inl reply \<Rightarrow> (reply, srv)
      | Inr (wait, cursor, limit) \<Rightarrow>
          (case beginPoll sid wait cursor limit call srv of
             Inl reply \<Rightarrow> (reply, srv)
           | Inr None \<Rightarrow> finishPoll sid cursor limit cfg call srv
           | Inr (Some deadline) \<Rightarrow>
               (case waitPoll sid cursor limit (ca_Gone call) (ca_Ticks call) srv of
                  (None, srv1) \<Rightarrow> ((200, BodyText []), srv1)
                | (Some (Inl reply), srv1) \<Rightarrow> (reply, srv1)
                | (Some (Inr _), srv1) \<Rightarrow> finishPoll sid cursor limit cfg call srv1)))"

definition reserved_source :: "string \<Rightarrow> bool" where
  "reserved_source from \<longleftrightarrow> from = ''agent'' \<or> from = ''gateway'' \<or> prefix ''gateway.'' from"

definition authorizeSource :: "string \<Rightarrow> string \<Rightarrow> 's http_config \<Rightarrow> http_call \<Rightarrow> http_request \<Rightarrow> http_server \<Rightarrow> answer option \<times> http_server" where
  "authorizeSource sid from cfg call r srv =
     (if reserved_source from then
        (if \<not> authorizeOperator cfg call r [RoleOperator]
         then (Some (protocolError 403 ErrUnauthorizedEndpoint ''operator role is required for reserved event sources'' False), srv)
         else (None, srv))
      else
        (case on_gateway (ValidateSessionLease (first_env call) sid from (extractBearerToken r)) srv of
           (Inl e, srv1) \<Rightarrow> (Some (controlPlaneError e), srv1)
         | (Inr _, srv1) \<Rightarrow> (None, srv1)))"

definition appendSessionEvent :: "string \<Rightarrow> 's handler" where
  "appendSessionEvent sid cfg call r srv =
     (case bd_Event (cf_Decode cfg) (rq_Body r) of
        None \<Rightarrow> (invalid_body, srv)
      | Some event0 \<Rightarrow>
          (let event = event0\<lparr>ev_FromEndpointID := TrimSpace (ev_FromEndpointID event0)\<rparr> in
           if ev_FromEndpointID event = [] then (protocolError 401 ErrUnauthorizedEndpoint ''event source endpoint is required'' False, srv)
           else
             (case authorizeSource sid (ev_FromEndpointID event) cfg call r srv of
                (Some reply, srv1) \<Rightarrow> (reply, srv1)
              | (None, srv1) \<Rightarrow>
                  (case on_gateway (AppendSessionEvent (next_env call) sid event) srv1 of
                     (Inl e, srv2) \<Rightarrow> (controlPlaneError e, srv2)
                   | (Inr appended, srv2) \<Rightarrow> persisted cfg call (202, BodyEvent appended) srv2))))"

section \<open>Tasks\<close>

fun ownedTask :: "string \<Rightarrow> string \<Rightarrow> Task list \<Rightarrow> Task option" where
  "ownedTask taskID endpointID [] = None"
| "ownedTask taskID endpointID (task # tasks) =
     (if tk_ID task \<noteq> taskID then ownedTask taskID endpointID tasks
      else if tk_TargetEndpointID task \<noteq> endpointID then None
      else Some task)"

definition targetSessionTask ::
    "string \<Rightarrow> string \<Rightarrow> http_call \<Rightarrow> http_request \<Rightarrow> http_server \<Rightarrow> (answer + Task) \<times> http_server" where
  "targetSessionTask sid taskID call r srv =
     (let endpointID = TrimSpace (rq_Query r ''endpoint_id'') in
      case on_gateway (ValidateSessionLease (first_env call) sid endpointID (extractBearerToken r)) srv of
        (Inl e, srv1) \<Rightarrow> (Inl (controlPlaneError e), srv1)
      | (Inr _, srv1) \<Rightarrow>
          (case on_gateway (Gateway_Session (env_from 20 (ca_Env call)) sid) srv1 of
             (Inl e, srv2) \<Rightarrow> (Inl (controlPlaneError e), srv2)
           | (Inr session, srv2) \<Rightarrow>
               (case ownedTask taskID endpointID (ses_Tasks session) of
                  None \<Rightarrow> (Inl task_not_found, srv2)
                | Some task \<Rightarrow> (Inr task, srv2))))"

definition getSessionTask :: "string \<Rightarrow> string \<Rightarrow> 's handler" where
  "getSessionTask sid taskID cfg call r srv =
     (case targetSessionTask sid taskID call r srv of
        (Inl reply, srv1) \<Rightarrow> (reply, srv1)
      | (Inr task, srv1) \<Rightarrow> ((200, BodyTask task None), srv1))"

definition sameCapabilitySet :: "string list \<Rightarrow> string list \<Rightarrow> bool" where
  "sameCapabilitySet left right \<longleftrightarrow>
     length left = length right \<and> [] \<notin> set left \<and> distinct left \<and> list_all (\<lambda>value. value \<in> set left) right"

definition normalizeEngineeringTaskSpec ::
    "(goval \<Rightarrow> EngineeringTask option) \<Rightarrow> TaskSpec \<Rightarrow> goval \<Rightarrow> string + TaskSpec" where
  "normalizeEngineeringTaskSpec strict spec0 topLevel =
     (case (case topLevel of
              GNil \<Rightarrow> Inr spec0
            | _ \<Rightarrow>
                (if payload_get (ts_Payload spec0) ''engineering_task'' \<noteq> None
                 then Inl ''engineering_task must be supplied either at the top level or inside payload, not both''
                 else Inr (spec0\<lparr>ts_Payload := Some ((case ts_Payload spec0 of None \<Rightarrow> Map.empty | Some m \<Rightarrow> m)(''engineering_task'' \<mapsto> topLevel))\<rparr>))) of
        Inl e \<Rightarrow> Inl e
      | Inr spec \<Rightarrow>
          (case payload_get (ts_Payload spec) ''engineering_task'' of
             None \<Rightarrow> Inr spec
           | Some GNil \<Rightarrow> Inr spec
           | Some raw \<Rightarrow>
               (case DecodeEngineeringTask strict raw of
                  Inl e \<Rightarrow> Inl e
                | Inr engineering \<Rightarrow>
                    (case ValidateForAdapter (ts_Adapter spec) engineering of
                       Some e \<Rightarrow> Inl e
                     | None \<Rightarrow>
                         if TrimSpace (ts_Intent spec) \<noteq> [] \<and> TrimSpace (ts_Intent spec) \<noteq> et_Goal engineering
                         then Inl ''intent must match engineering_task.goal when engineering_task is present''
                         else if TrimSpace (ts_IdempotencyKey spec) \<noteq> [] \<and> TrimSpace (ts_IdempotencyKey spec) \<noteq> et_IdempotencyKey engineering
                         then Inl ''idempotency_key must match engineering_task.idempotency_key''
                         else if ts_Capabilities spec \<noteq> [] \<and> \<not> sameCapabilitySet (ts_Capabilities spec) (et_RequiredCapabilities engineering)
                         then Inl ''capabilities must exactly match engineering_task.required_capabilities''
                         else if (case ts_Limits spec of None \<Rightarrow> False | Some m \<Rightarrow> m \<noteq> Map.empty)
                         then Inl ''limits must be omitted when engineering_task is present''
                         else Inr (spec\<lparr>ts_Intent := et_Goal engineering, ts_Capabilities := et_RequiredCapabilities engineering,
                                     ts_Payload := Some (TaskPayload engineering (case ts_Payload spec of None \<Rightarrow> Map.empty | Some m \<Rightarrow> m)),
                                     ts_Limits := Some (TaskLimits engineering), ts_IdempotencyKey := et_IdempotencyKey engineering\<rparr>)))))"

definition submitSessionTask :: "string \<Rightarrow> 's handler" where
  "submitSessionTask sid cfg call r srv =
     (if \<not> authorizeOperator cfg call r [RoleOperator] then (operator_required, srv)
      else
        (case bd_TaskRequest (cf_Decode cfg) (rq_Body r) of
           None \<Rightarrow> (invalid_body, srv)
         | Some (spec0, engineering) \<Rightarrow>
             (case normalizeEngineeringTaskSpec (cf_Strict cfg) spec0 engineering of
                Inl message \<Rightarrow> (protocolError 400 ErrInvalidTask message False, srv)
              | Inr spec \<Rightarrow>
                  (case on_gateway (SubmitSessionTask (first_env call) sid spec) srv of
                     (Inl e, srv1) \<Rightarrow> (controlPlaneError e, srv1)
                   | (Inr (task, event), srv1) \<Rightarrow> persisted cfg call (202, BodyTask task (Some event)) srv1))))"

definition completeSessionTask :: "string \<Rightarrow> string \<Rightarrow> 's handler" where
  "completeSessionTask sid taskID cfg call r srv =
     (case targetSessionTask sid taskID call r srv of
        (Inl reply, srv1) \<Rightarrow> (reply, srv1)
      | (Inr _, srv1) \<Rightarrow>
          (case bd_Result (cf_Decode cfg) (rq_Body r) of
             None \<Rightarrow> (invalid_body, srv1)
           | Some result' \<Rightarrow>
               (case on_gateway (CompleteSessionTask (next_env call) sid taskID result') srv1 of
                  (Inl e, srv2) \<Rightarrow> (controlPlaneError e, srv2)
                | (Inr (task, event), srv2) \<Rightarrow> persisted cfg call (200, BodyTask task (Some event)) srv2)))"

definition resumeSessionTask :: "string \<Rightarrow> string \<Rightarrow> 's handler" where
  "resumeSessionTask sid taskID cfg call r srv =
     (if \<not> authorizeOperator cfg call r [RoleOperator] then (operator_required, srv)
      else
        (case bd_Resume (cf_Decode cfg) (rq_Body r) of
           None \<Rightarrow> (invalid_body, srv)
         | Some (checkpointID, key) \<Rightarrow>
             (case on_gateway (ResumeSessionTask (first_env call) sid taskID checkpointID key) srv of
                (Inl e, srv1) \<Rightarrow> (controlPlaneError e, srv1)
              | (Inr (task, event), srv1) \<Rightarrow> persisted cfg call (202, BodyTask task (Some event)) srv1)))"

section \<open>Artifacts\<close>

definition taskOwnedByEndpoint :: "string \<Rightarrow> string \<Rightarrow> string \<Rightarrow> http_call \<Rightarrow> http_server \<Rightarrow> bool \<times> http_server" where
  "taskOwnedByEndpoint sid taskID endpointID call srv =
     (case on_gateway (Gateway_Session (env_from 20 (ca_Env call)) sid) srv of
        (Inl _, srv1) \<Rightarrow> (False, srv1)
      | (Inr session, srv1) \<Rightarrow>
          (case find (\<lambda>task. tk_ID task = taskID) (ses_Tasks session) of
             None \<Rightarrow> (False, srv1)
           | Some task \<Rightarrow> (tk_TargetEndpointID task = endpointID, srv1)))"

definition authorizeArtifact :: "string \<Rightarrow> string \<Rightarrow> 's http_config \<Rightarrow> http_call \<Rightarrow> http_request \<Rightarrow> http_server \<Rightarrow> answer option \<times> http_server" where
  "authorizeArtifact sid endpointID cfg call r srv =
     (if endpointID = [] then
        (if \<not> authorizeOperator cfg call r [RoleOperator] then (Some operator_required, srv) else (None, srv))
      else
        (case on_gateway (ValidateSessionLease (first_env call) sid endpointID (extractBearerToken r)) srv of
           (Inl e, srv1) \<Rightarrow> (Some (controlPlaneError e), srv1)
         | (Inr _, srv1) \<Rightarrow> (None, srv1)))"

definition upsertSessionArtifact :: "string \<Rightarrow> 's handler" where
  "upsertSessionArtifact sid cfg call r srv =
     (let endpointID = TrimSpace (rq_Query r ''endpoint_id'') in
      case authorizeArtifact sid endpointID cfg call r srv of
        (Some reply, srv1) \<Rightarrow> (reply, srv1)
      | (None, srv1) \<Rightarrow>
          (case bd_Artifact (cf_Decode cfg) (rq_Body r) of
             None \<Rightarrow> (invalid_body, srv1)
           | Some ref \<Rightarrow>
               (case (if endpointID \<noteq> [] \<and> art_TaskID ref \<noteq> [] then taskOwnedByEndpoint sid (art_TaskID ref) endpointID call srv1
                      else (True, srv1)) of
                  (False, srv2) \<Rightarrow> (task_not_found, srv2)
                | (True, srv2) \<Rightarrow>
                    (case on_gateway (UpsertSessionArtifact (next_env call) sid ref) srv2 of
                       (Inl e, srv3) \<Rightarrow> (controlPlaneError e, srv3)
                     | (Inr (artifact, event), srv3) \<Rightarrow> persisted cfg call (202, BodyArtifact artifact event) srv3))))"

definition listSessionArtifacts :: "string \<Rightarrow> 's handler" where
  "listSessionArtifacts sid cfg call r srv =
     (if \<not> authorizeOperator cfg call r [RoleAuditor, RoleOperator] then (auditor_required, srv)
      else
        (case on_gateway (Gateway_Session (first_env call) sid) srv of
           (Inl e, srv1) \<Rightarrow> (controlPlaneError e, srv1)
         | (Inr session, srv1) \<Rightarrow> ((200, BodyArtifacts (ses_Artifacts session) (DeriveStatus (next_env call) session)), srv1)))"

section \<open>Trust, audit and hosts\<close>

definition getTrustBundle :: "'s handler" where
  "getTrustBundle cfg call r srv =
     (case on_gateway (RenewSignedTrustBundle (cf_Crypto cfg) (first_env call)) srv of
        (Inl _, srv1) \<Rightarrow> ((500, BodyText ''renew signed trust bundle''), srv1)
      | (Inr (bundle, renewed), srv1) \<Rightarrow>
          if renewed then persisted cfg call (200, BodyTrust bundle) srv1 else ((200, BodyTrust bundle), srv1))"

definition updateTrustBundle :: "'s handler" where
  "updateTrustBundle cfg call r srv =
     (if \<not> authorizeOperator cfg call r [RoleOperator] then ((403, BodyText ''operator role is required''), srv)
      else
        (case bd_TrustBundle (cf_Decode cfg) (rq_Body r) of
           None \<Rightarrow> ((400, BodyText ''invalid JSON body''), srv)
         | Some given \<Rightarrow>
             (case on_gateway (UpdateSignedTrustBundle (cf_Crypto cfg) (first_env call) given) srv of
                (Inl _, srv1) \<Rightarrow> ((400, BodyText ''trust bundle''), srv1)
              | (Inr bundle, srv1) \<Rightarrow> persisted cfg call (200, BodyTrust bundle) srv1)))"

definition listAudit :: "'s handler" where
  "listAudit cfg call r srv =
     (if \<not> authorizeOperator cfg call r [RoleAuditor, RoleOperator] then ((403, BodyText ''auditor role is required''), srv)
      else ((200, BodyAudit (AuditEvents (hs_Gateway srv))), srv))"

definition listHosts :: "'s handler" where
  "listHosts cfg call r srv =
     (if \<not> authorizeOperator cfg call r [RoleAuditor, RoleOperator] then ((403, BodyText ''auditor role is required''), srv)
      else ((200, BodyHosts (Gateway_Hosts (ca_Hosts call) (hs_Gateway srv))), srv))"

definition renameHost :: "'s handler" where
  "renameHost cfg call r srv =
     (if \<not> authorizeOperator cfg call r [RoleOperator] then (operator_required, srv)
      else
        (case bd_Rename (cf_Decode cfg) (rq_Body r) of
           None \<Rightarrow> (invalid_body, srv)
         | Some (hostID, displayName) \<Rightarrow>
             (case on_gateway (Gateway_RenameHost (first_env call) (ca_Hosts call) hostID displayName) srv of
                (Inl _, srv1) \<Rightarrow> ((404, BodyText ''host''), srv1)
              | (Inr host, srv1) \<Rightarrow> persisted cfg call (200, BodyHost host) srv1)))"

section \<open>Web handoff\<close>

definition normalizeWebHandoffBaseURL :: "(string \<Rightarrow> base_url option) \<Rightarrow> string \<Rightarrow> string option" where
  "normalizeWebHandoffBaseURL parse raw =
     (case parse (TrimSpace raw) of
        None \<Rightarrow> None
      | Some parsed \<Rightarrow>
          if bu_Scheme parsed \<noteq> ''https'' \<or> bu_Host parsed = [] \<or> bu_User parsed \<or> bu_RawQuery parsed \<noteq> [] \<or> bu_Fragment parsed \<noteq> [] then None
          else if bu_Path parsed \<noteq> [] \<and> bu_Path parsed \<noteq> ''/'' then None
          else Some (TrimRightSlash (bu_WithoutPath parsed)))"

definition webHandoffTTL :: "gint \<Rightarrow> Duration option" where
  "webHandoffTTL expiresInMS =
     (if expiresInMS = 0 then Some (30 * 60 * second_ns)
      else if expiresInMS < 60000 \<or> expiresInMS > 86400000 then None
      else Some (millis expiresInMS))"

definition webHandoffError :: "gateway_error \<Rightarrow> answer" where
  "webHandoffError e =
     (case e of
        ErrWebHandoffNotFound \<Rightarrow> (404, BodyText ''web handoff not found'')
      | ErrWebHandoffExpired \<Rightarrow> (410, BodyText ''web handoff has expired or was already claimed'')
      | ErrWebHandoffClaimed \<Rightarrow> (410, BodyText ''web handoff has expired or was already claimed'')
      | ErrWebHandoffInvalidTicket \<Rightarrow> (403, BodyText ''web handoff authorization failed'')
      | ErrWebHandoffSessionInvalid \<Rightarrow> (409, BodyText ''session is not eligible for a web handoff'')
      | _ \<Rightarrow> (400, BodyText ''web handoff request failed''))"

text \<open>Creating a handoff draws identifiers until one is free; None is a draw that never ends.\<close>

definition createWebHandoff :: "string \<Rightarrow> 's http_config \<Rightarrow> http_call \<Rightarrow> http_request \<Rightarrow> http_server \<Rightarrow> (answer \<times> http_server) option" where
  "createWebHandoff sid cfg call r srv =
     (if \<not> authorizeOperator cfg call r [RoleOperator] then Some (operator_required, srv)
      else if wa_Content (cf_Asset cfg) = [] then Some ((503, BodyText ''windows-amd64 web handoff asset is not configured''), srv)
      else
        (case bd_Handoff (cf_Decode cfg) (rq_Body r) of
           None \<Rightarrow> Some ((400, BodyText ''invalid web handoff request''), srv)
         | Some (platform0, expiresInMS) \<Rightarrow>
             (let platform = (if TrimSpace platform0 = [] then WebHandoffPlatformWindowsAMD64 else platform0) in
              if platform \<noteq> WebHandoffPlatformWindowsAMD64 then Some ((400, BodyText ''unsupported web handoff platform''), srv)
              else
                (case webHandoffTTL expiresInMS of
                   None \<Rightarrow> Some ((400, BodyText ''expires_in_ms out of range''), srv)
                 | Some ttl \<Rightarrow>
                     (case on_gateway (Gateway_Session (first_env call) sid) srv of
                        (Inl e, srv1) \<Rightarrow> Some (controlPlaneError e, srv1)
                      | (Inr session, srv1) \<Rightarrow>
                          if normalizeWebHandoffBaseURL (cf_BaseParse cfg) (ses_SelectedGatewayURL session) \<noteq> Some (cf_PublicBaseURL cfg)
                          then Some ((400, BodyText ''session selected gateway must match the configured web handoff gateway''), srv1)
                          else
                            (case CreateWebHandoff (cf_Crypto cfg) (next_env call)
                                    \<lparr>whp_SessionID = ses_ID session, whp_Platform = platform,
                                     whp_ExpiresAt = clock_at (env_from 30 (ca_Env call)) 0 + ttl\<rparr> (hs_Gateway srv1) of
                               None \<Rightarrow> None
                             | Some (Inl e, g) \<Rightarrow> Some (webHandoffError e, srv1\<lparr>hs_Gateway := g\<rparr>)
                             | Some (Inr handoff, g) \<Rightarrow>
                                 Some (persisted cfg call
                                   (201, BodyHandoff handoff (cf_PublicBaseURL cfg @ ''/connect/'' @ cf_PathEscape cfg (wh_ID handoff)))
                                   (srv1\<lparr>hs_Gateway := g\<rparr>))))))))"

text \<open>The bootstrap script is determined by the link of the host binary, the join code and the ticket.\<close>

definition claimWebHandoff :: "string \<Rightarrow> 's handler" where
  "claimWebHandoff handoffID cfg call r srv =
     (if \<not> bd_Claim (cf_Decode cfg) (rq_Body r) then ((400, BodyText ''invalid web handoff claim''), srv)
      else
        (case on_gateway (ClaimWebHandoff (cf_Crypto cfg) (first_env call) handoffID (15 * 60 * second_ns)) srv of
           (Inl e, srv1) \<Rightarrow> (webHandoffError e, srv1)
         | (Inr (handoff, ticket), srv1) \<Rightarrow>
             (case on_gateway (Gateway_Session (next_env call) (wh_SessionID handoff)) srv1 of
                (Inl e, srv2) \<Rightarrow> (controlPlaneError e, srv2)
              | (Inr session, srv2) \<Rightarrow>
                  if normalizeWebHandoffBaseURL (cf_BaseParse cfg) (ses_SelectedGatewayURL session) \<noteq> Some (cf_PublicBaseURL cfg)
                  then ((400, BodyText ''session selected gateway must match the configured web handoff gateway''), srv2)
                  else persisted cfg call
                    (200, BodyBootstrap (cf_PublicBaseURL cfg @ ''/connect/'' @ cf_PathEscape cfg (wh_ID handoff) @ ''/rdev-host.exe'')
                       (ses_JoinCode session) ticket (wh_ArtifactTicketExpiresAt handoff)) srv2)))"

definition serveWebHandoffWindowsHost :: "string \<Rightarrow> 's handler" where
  "serveWebHandoffWindowsHost handoffID cfg call r srv =
     (if wa_Content (cf_Asset cfg) = [] then ((503, BodyText ''windows-amd64 web handoff asset is not configured''), srv)
      else
        (case ValidateWebHandoffArtifactTicket (cf_Crypto cfg) (clock_at (first_env call) 0) handoffID
                (rq_Header r ''X-Rdev-Handoff-Ticket'') (hs_Gateway srv) of
           Inl e \<Rightarrow> (webHandoffError e, srv)
         | Inr _ \<Rightarrow> ((200, BodyBinary (wa_Content (cf_Asset cfg)) (wa_SHA256 (cf_Asset cfg))), srv)))"

definition serveSessionHostUpdateArtifact :: "string \<Rightarrow> 's handler" where
  "serveSessionHostUpdateArtifact sid cfg call r srv =
     (let endpointID = rq_Header r ''X-Rdev-Endpoint-Id'' in
      case on_gateway (ValidateSessionLease (first_env call) sid endpointID (extractBearerToken r)) srv of
        (Inl e, srv1) \<Rightarrow> (controlPlaneError e, srv1)
      | (Inr _, srv1) \<Rightarrow>
          if wa_Content (cf_Asset cfg) = [] then ((503, BodyText ''windows-amd64 host artifact is not configured''), srv1)
          else ((200, BodyBinary (wa_Content (cf_Asset cfg)) (wa_SHA256 (cf_Asset cfg))),
                srv1\<lparr>hs_Gateway := AppendAudit (clock_at (next_env call) 0) ''target'' ''session.host-update.fetch'' endpointID
                   ''endpoint fetched host update artifact'' (hs_Gateway srv1)\<rparr>))"

fun webHandoffPageLocale :: "unicode \<Rightarrow> string list \<Rightarrow> string" where
  "webHandoffPageLocale U [] = ''en''"
| "webHandoffPageLocale U (value # values) =
     (let language = ToLower U (TrimSpace (hd (splitOn CHR '';'' value))) in
      if prefix ''zh-hant'' language \<or> prefix ''zh-tw'' language \<or> prefix ''zh-hk'' language \<or> prefix ''zh-mo'' language then ''zh-Hant''
      else if prefix ''zh'' language then ''zh-Hans''
      else webHandoffPageLocale U values)"

definition webHandoffClientPlatform :: "unicode \<Rightarrow> string \<Rightarrow> string" where
  "webHandoffClientPlatform U userAgent0 =
     (let userAgent = ToLower U userAgent0; says = (\<lambda>w. sublist w userAgent) in
      if says ''android'' \<or> says ''iphone'' \<or> says ''ipad'' \<or> says ''ipod'' then ''other''
      else if says ''windows'' then ''windows''
      else if says ''macintosh'' \<or> says ''mac os x'' then ''macos''
      else if says ''linux'' \<or> says ''x11'' then ''linux''
      else ''other'')"

definition renderWebHandoffPage :: "string \<Rightarrow> 's handler" where
  "renderWebHandoffPage handoffID cfg call r srv =
     ((200, BodyPage (webHandoffPageLocale (cf_Unicode cfg) (splitOn CHR '','' (rq_Header r ''Accept-Language'')))
        (webHandoffClientPlatform (cf_Unicode cfg) (rq_Header r ''User-Agent''))
        (''/connect/'' @ cf_PathEscape cfg handoffID @ ''/claim'')), srv)"

section \<open>Routing\<close>

definition trim_slashes :: "string \<Rightarrow> string" where
  "trim_slashes s = TrimRightSlash (dropWhile (\<lambda>c. c = CHR ''/'') s)"

definition splitSessionPath :: "string \<Rightarrow> (string \<times> string \<times> string \<times> string) option" where
  "splitSessionPath path =
     (if \<not> prefix ''/v1/sessions/'' path then None
      else
        (case splitOn CHR ''/'' (trim_slashes (drop 13 path)) of
           [a] \<Rightarrow> if a \<noteq> [] then Some (a, [], [], []) else None
         | [a, b] \<Rightarrow> if a \<noteq> [] \<and> b \<noteq> [] then Some (a, b, [], []) else None
         | [a, b, c] \<Rightarrow> if a \<noteq> [] \<and> b = ''tasks'' \<and> c \<noteq> [] then Some (a, b, c, []) else None
         | [a, b, c, d] \<Rightarrow> if a \<noteq> [] \<and> b = ''tasks'' \<and> c \<noteq> [] \<and> d \<noteq> [] then Some (a, b, c, d) else None
         | _ \<Rightarrow> None))"

definition splitWebHandoffPath :: "string \<Rightarrow> (string \<times> string) option" where
  "splitWebHandoffPath path =
     (if \<not> prefix ''/connect/'' path then None
      else
        (case splitOn CHR ''/'' (trim_slashes (drop 9 path)) of
           [a] \<Rightarrow> if a \<noteq> [] then Some (a, []) else None
         | [a, b] \<Rightarrow> if a \<noteq> [] \<and> b \<noteq> [] then Some (a, b) else None
         | _ \<Rightarrow> None))"

definition sessionRoute :: "'s http_config \<Rightarrow> http_call \<Rightarrow> http_request \<Rightarrow> http_server \<Rightarrow> (answer \<times> http_server) option" where
  "sessionRoute cfg call r srv =
     (case splitSessionPath (rq_Path r) of
        None \<Rightarrow> Some (unknown_session_endpoint, srv)
      | Some (sid, resource, taskID, action) \<Rightarrow>
          (let get = (rq_Method r = ''GET''); post = (rq_Method r = ''POST'') in
           if get \<and> resource = [] then Some (getSessionSnapshot sid cfg call r srv)
           else if post \<and> resource = ''join'' then Some (joinSession sid cfg call r srv)
           else if post \<and> resource = ''host-handoffs'' then createWebHandoff sid cfg call r srv
           else if get \<and> resource = ''events'' then
             Some (if TrimSpace (rq_Query r ''endpoint_id'') \<noteq> [] then sessionEventsAfter sid cfg call r srv
                   else sessionAgentEventsAfter sid cfg call r srv)
           else if post \<and> resource = ''events'' then Some (appendSessionEvent sid cfg call r srv)
           else if get \<and> resource = ''tasks'' \<and> taskID \<noteq> [] \<and> action = [] then Some (getSessionTask sid taskID cfg call r srv)
           else if post \<and> resource = ''tasks'' \<and> taskID = [] \<and> action = [] then Some (submitSessionTask sid cfg call r srv)
           else if post \<and> resource = ''tasks'' \<and> taskID \<noteq> [] \<and> action = ''result'' then Some (completeSessionTask sid taskID cfg call r srv)
           else if post \<and> resource = ''tasks'' \<and> taskID \<noteq> [] \<and> action = ''resume'' then Some (resumeSessionTask sid taskID cfg call r srv)
           else if post \<and> resource = ''artifacts'' then Some (upsertSessionArtifact sid cfg call r srv)
           else if get \<and> resource = ''artifacts'' then Some (listSessionArtifacts sid cfg call r srv)
           else if post \<and> resource = ''notify'' then Some (setSessionNotify sid cfg call r srv)
           else if post \<and> resource = ''close'' then Some (closeSession sid cfg call r srv)
           else if post \<and> resource = ''revoke'' then Some (revokeSession sid cfg call r srv)
           else Some (unknown_session_endpoint, srv)))"

definition webHandoffRoute :: "'s handler" where
  "webHandoffRoute cfg call r srv =
     (case splitWebHandoffPath (rq_Path r) of
        None \<Rightarrow> ((404, BodyText ''unknown web handoff endpoint''), srv)
      | Some (handoffID, action) \<Rightarrow>
          if rq_Method r = ''GET'' \<and> action = [] then renderWebHandoffPage handoffID cfg call r srv
          else if rq_Method r = ''POST'' \<and> action = ''claim'' then claimWebHandoff handoffID cfg call r srv
          else if rq_Method r = ''GET'' \<and> action = ''rdev-host.exe'' then serveWebHandoffWindowsHost handoffID cfg call r srv
          else ((404, BodyText ''unknown web handoff endpoint''), srv))"

text \<open>
  http.ServeMux: a GET pattern also takes HEAD, the more specific pattern wins, another method of a known
  path is refused with 405 and another path with 404. The path is the cleaned one.
\<close>

definition host_update_path :: "string \<Rightarrow> string option" where
  "host_update_path path =
     (case splitOn CHR ''/'' path of
        [e, v, s, sid, a, u] \<Rightarrow>
          if e = [] \<and> v = ''v1'' \<and> s = ''sessions'' \<and> sid \<noteq> [] \<and> a = ''artifacts'' \<and> u = ''host-update'' then Some sid else None
      | _ \<Rightarrow> None)"

definition Handler :: "'s http_config \<Rightarrow> http_call \<Rightarrow> http_request \<Rightarrow> http_server \<Rightarrow> (answer \<times> http_server) option" where
  "Handler cfg call r srv =
     (let path = rq_Path r; get = (rq_Method r = ''GET'' \<or> rq_Method r = ''HEAD''); post = (rq_Method r = ''POST'');
          wrong = Some ((405, BodyText ''Method Not Allowed''), srv) in
      if path = ''/healthz'' then (if get then Some (health cfg call r srv) else wrong)
      else if path = ''/v1/trust-bundle'' then
        (if get then Some (getTrustBundle cfg call r srv) else if post then Some (updateTrustBundle cfg call r srv) else wrong)
      else if path = ''/v1/sessions'' then (if post then Some (createSession cfg call r srv) else wrong)
      else if path = ''/v1/session-joins'' then (if post then Some (joinSessionByCode cfg call r srv) else wrong)
      else if get \<and> host_update_path path \<noteq> None then Some (serveSessionHostUpdateArtifact (the (host_update_path path)) cfg call r srv)
      else if prefix ''/v1/sessions/'' path then (if get \<or> post then sessionRoute cfg call r srv else wrong)
      else if path = ''/v1/audit'' then (if get then Some (listAudit cfg call r srv) else wrong)
      else if path = ''/v1/hosts'' then (if get then Some (listHosts cfg call r srv) else wrong)
      else if path = ''/v1/hosts/rename'' then (if post then Some (renameHost cfg call r srv) else wrong)
      else if prefix ''/connect/'' path then (if get \<or> post then Some (webHandoffRoute cfg call r srv) else wrong)
      else Some ((404, BodyText ''404 page not found''), srv))"

end
