(* ===== verification/Http_Properties.thy ===== *)
theory Http_Properties
  imports Http_Handlers
begin

text \<open>
  What the HTTP interface promises: the routes that need an operator refuse every other caller before they
  touch the gateway, and a change that is acknowledged is in the state file.
\<close>

section \<open>Roles\<close>

text \<open>The access table of the interface: the roles that a route asks of an operator, if any.\<close>

definition session_roles :: "http_request \<Rightarrow> string list option" where
  "session_roles r =
     (case splitSessionPath (rq_Path r) of
        None \<Rightarrow> None
      | Some (sid, resource, taskID, action) \<Rightarrow>
          (if rq_Method r = ''GET'' \<and> (resource = [] \<or> resource = ''artifacts'' \<or>
                resource = ''events'' \<and> TrimSpace (rq_Query r ''endpoint_id'') = [])
           then Some [RoleAuditor, RoleOperator]
           else if rq_Method r = ''POST'' \<and> (resource \<in> {''host-handoffs'', ''notify'', ''close'', ''revoke''} \<or>
                resource = ''tasks'' \<and> taskID = [] \<and> action = [] \<or>
                resource = ''tasks'' \<and> taskID \<noteq> [] \<and> action = ''resume'' \<or>
                resource = ''artifacts'' \<and> TrimSpace (rq_Query r ''endpoint_id'') = [])
           then Some [RoleOperator]
           else None))"

definition required_roles :: "http_request \<Rightarrow> string list option" where
  "required_roles r =
     (if rq_Path r \<in> {''/v1/trust-bundle'', ''/v1/sessions'', ''/v1/hosts/rename''} then
        (if rq_Method r = ''POST'' then Some [RoleOperator] else None)
      else if rq_Path r \<in> {''/v1/audit'', ''/v1/hosts''} then
        (if rq_Method r \<in> {''GET'', ''HEAD''} then Some [RoleAuditor, RoleOperator] else None)
      else if rq_Method r = ''GET'' \<and> host_update_path (rq_Path r) \<noteq> None then None
      else session_roles r)"

lemma session_path_prefix: "splitSessionPath p \<noteq> None \<Longrightarrow> prefix ''/v1/sessions/'' p"
  by (auto simp: splitSessionPath_def split: if_splits)

lemma refusals:
  "\<not> authorizeOperator cfg call r [RoleAuditor, RoleOperator] \<Longrightarrow> getSessionSnapshot sid cfg call r srv = (auditor_required, srv)"
  "\<not> authorizeOperator cfg call r [RoleAuditor, RoleOperator] \<Longrightarrow> listSessionArtifacts sid cfg call r srv = (auditor_required, srv)"
  "\<not> authorizeOperator cfg call r [RoleAuditor, RoleOperator] \<Longrightarrow> sessionAgentEventsAfter sid cfg call r srv = (auditor_required, srv)"
  "\<not> authorizeOperator cfg call r [RoleOperator] \<Longrightarrow> createWebHandoff sid cfg call r srv = Some (operator_required, srv)"
  "\<not> authorizeOperator cfg call r [RoleOperator] \<Longrightarrow> setSessionNotify sid cfg call r srv = (operator_required, srv)"
  "\<not> authorizeOperator cfg call r [RoleOperator] \<Longrightarrow> closeSession sid cfg call r srv = (operator_required, srv)"
  "\<not> authorizeOperator cfg call r [RoleOperator] \<Longrightarrow> revokeSession sid cfg call r srv = (operator_required, srv)"
  "\<not> authorizeOperator cfg call r [RoleOperator] \<Longrightarrow> submitSessionTask sid cfg call r srv = (operator_required, srv)"
  "\<not> authorizeOperator cfg call r [RoleOperator] \<Longrightarrow> resumeSessionTask sid tid cfg call r srv = (operator_required, srv)"
  "\<not> authorizeOperator cfg call r [RoleOperator] \<Longrightarrow> TrimSpace (rq_Query r ''endpoint_id'') = [] \<Longrightarrow>
     upsertSessionArtifact sid cfg call r srv = (operator_required, srv)"
  by (simp_all add: getSessionSnapshot_def listSessionArtifacts_def sessionAgentEventsAfter_def createWebHandoff_def
      setSessionNotify_def closeSession_def revokeSession_def submitSessionTask_def resumeSessionTask_def
      upsertSessionArtifact_def authorizeArtifact_def)

lemma session_roles_refuse:
  assumes roles: "session_roles r = Some roles" and refused: "\<not> authorizeOperator cfg call r roles"
  shows "\<exists>reply. sessionRoute cfg call r srv = Some ((403, reply), srv)"
proof -
  from roles obtain sid resource taskID action where
    split: "splitSessionPath (rq_Path r) = Some (sid, resource, taskID, action)"
    by (auto simp: session_roles_def split: option.splits)
  consider
      "rq_Method r = ''GET''" "resource = [] \<or> resource = ''artifacts'' \<or>
                resource = ''events'' \<and> TrimSpace (rq_Query r ''endpoint_id'') = []" "roles = [RoleAuditor, RoleOperator]"
    | "rq_Method r = ''POST''" "resource \<in> {''host-handoffs'', ''notify'', ''close'', ''revoke''} \<or>
                resource = ''tasks'' \<and> taskID = [] \<and> action = [] \<or>
                resource = ''tasks'' \<and> taskID \<noteq> [] \<and> action = ''resume'' \<or>
                resource = ''artifacts'' \<and> TrimSpace (rq_Query r ''endpoint_id'') = []" "roles = [RoleOperator]"
    using roles unfolding session_roles_def split by (fastforce split: if_split_asm)
  then show ?thesis
  proof cases
    case 1
    from 1(2) show ?thesis
      using refused 1(1,3)
      by (elim disjE conjE) (simp_all add: sessionRoute_def split Let_def refusals protocolError_def)
  next
    case 2
    from 2(2) show ?thesis
      using refused 2(1,3) unfolding insert_iff
      by (elim disjE conjE emptyE) (simp_all add: sessionRoute_def split Let_def refusals protocolError_def)
  qed
qed

text \<open>
  C28. Operator routes are closed to everyone else. For every route of the access table, a request whose
  credentials do not carry one of the roles of the route is answered 403, and neither the gateway nor its
  state file changes, whatever the body of the request and whatever session or task it names.
\<close>

theorem operator_routes_guarded:
  assumes "required_roles r = Some roles" "\<not> authorizeOperator cfg call r roles"
  shows "\<exists>reply. Handler cfg call r srv = Some ((403, reply), srv)"
proof (cases "rq_Path r \<in> {''/v1/trust-bundle'', ''/v1/sessions'', ''/v1/hosts/rename'', ''/v1/audit'', ''/v1/hosts''}")
  case True
  with assms show ?thesis
    by (auto simp: required_roles_def Handler_def Let_def updateTrustBundle_def createSession_def renameHost_def
        listAudit_def listHosts_def protocolError_def host_update_path_def split: if_splits)
next
  case False
  then have roles: "session_roles r = Some roles" and no_update: "\<not> (rq_Method r = ''GET'' \<and> host_update_path (rq_Path r) \<noteq> None)"
    using assms(1) by (auto simp: required_roles_def split: if_splits)
  then have pre: "prefix ''/v1/sessions/'' (rq_Path r)" and verb: "rq_Method r = ''GET'' \<or> rq_Method r = ''POST''"
    using session_path_prefix by (auto simp: session_roles_def split: option.splits if_splits)
  then obtain rest where path: "rq_Path r = ''/v1/sessions/'' @ rest" by (auto simp: prefix_def)
  show ?thesis
    using session_roles_refuse [OF roles assms(2), of srv] no_update verb
    by (auto simp: Handler_def Let_def path)
qed

section \<open>Leases\<close>

text \<open>The routes of endpoints, and the endpoint in whose name such a request comes.\<close>

definition session_claimant :: "'s http_config \<Rightarrow> http_request \<Rightarrow> (string \<times> string) option" where
  "session_claimant cfg r =
     (case splitSessionPath (rq_Path r) of
        None \<Rightarrow> None
      | Some (sid, resource, taskID, action) \<Rightarrow>
          (if rq_Method r = ''GET'' \<and> resource = ''tasks'' \<and> taskID \<noteq> [] \<and> action = [] \<or>
              rq_Method r = ''POST'' \<and> resource = ''tasks'' \<and> taskID \<noteq> [] \<and> action = ''result'' \<or>
              rq_Method r = ''POST'' \<and> resource = ''artifacts'' \<and> TrimSpace (rq_Query r ''endpoint_id'') \<noteq> []
           then Some (sid, TrimSpace (rq_Query r ''endpoint_id''))
           else if rq_Method r = ''POST'' \<and> resource = ''events'' then
             (case bd_Event (cf_Decode cfg) (rq_Body r) of
                None \<Rightarrow> None
              | Some event \<Rightarrow>
                  (let from = TrimSpace (ev_FromEndpointID event) in
                   if from = [] \<or> reserved_source from then None else Some (sid, from)))
           else None))"

lemma claimant_refusals:
  assumes "ValidateSessionLease (first_env call) sid (TrimSpace (rq_Query r ''endpoint_id'')) (extractBearerToken r)
             (hs_Gateway srv) = (Inl e, g)"
  shows "getSessionTask sid tid cfg call r srv = (controlPlaneError e, srv\<lparr>hs_Gateway := g\<rparr>)"
    and "completeSessionTask sid tid cfg call r srv = (controlPlaneError e, srv\<lparr>hs_Gateway := g\<rparr>)"
    and "TrimSpace (rq_Query r ''endpoint_id'') \<noteq> [] \<Longrightarrow>
         upsertSessionArtifact sid cfg call r srv = (controlPlaneError e, srv\<lparr>hs_Gateway := g\<rparr>)"
  using assms
  by (simp_all add: getSessionTask_def completeSessionTask_def targetSessionTask_def upsertSessionArtifact_def
      authorizeArtifact_def on_gateway_def)

lemma source_refused:
  assumes "bd_Event (cf_Decode cfg) (rq_Body r) = Some event" "TrimSpace (ev_FromEndpointID event) = from"
    and "from \<noteq> []" "\<not> reserved_source from"
    and "ValidateSessionLease (first_env call) sid from (extractBearerToken r) (hs_Gateway srv) = (Inl e, g)"
  shows "appendSessionEvent sid cfg call r srv = (controlPlaneError e, srv\<lparr>hs_Gateway := g\<rparr>)"
  using assms by (simp add: appendSessionEvent_def authorizeSource_def on_gateway_def)

text \<open>
  C29. Endpoint routes need the lease. Reading a task, reporting its result, storing an artifact and sending
  an event in the name of an endpoint are refused, with the error of the lease check and before anything
  else is done, unless the bearer token is a lease secret of that endpoint in that session.
\<close>

theorem endpoint_routes_guarded:
  assumes claim: "session_claimant cfg r = Some (sid, eid)"
    and refused: "ValidateSessionLease (first_env call) sid eid (extractBearerToken r) (hs_Gateway srv) = (Inl e, g)"
  shows "sessionRoute cfg call r srv = Some (controlPlaneError e, srv\<lparr>hs_Gateway := g\<rparr>)"
proof -
  obtain sid' resource taskID action where
    split: "splitSessionPath (rq_Path r) = Some (sid', resource, taskID, action)"
    using claim by (cases "splitSessionPath (rq_Path r)") (auto simp: session_claimant_def)
  let ?named = "TrimSpace (rq_Query r ''endpoint_id'')"
  note table = claim [unfolded session_claimant_def split option.case prod.case]
  have same: "sid' = sid"
    using table by (simp add: Let_def split: if_split_asm option.split_asm)
  show ?thesis
  proof (cases "rq_Method r = ''POST'' \<and> resource = ''events''")
    case True
    then have sent: "(case bd_Event (cf_Decode cfg) (rq_Body r) of None \<Rightarrow> None
      | Some event \<Rightarrow> (let from = TrimSpace (ev_FromEndpointID event) in
          if from = [] \<or> reserved_source from then None else Some (sid', from))) = Some (sid, eid)"
      using table by simp
    then obtain event where event: "bd_Event (cf_Decode cfg) (rq_Body r) = Some event"
      by (auto split: option.split_asm)
    have "TrimSpace (ev_FromEndpointID event) = eid" "eid \<noteq> []" "\<not> reserved_source eid"
      using sent [unfolded event option.case Let_def] by (metis option.distinct(1) option.inject prod.inject)+
    note this = event this
    from source_refused [OF this refused] True show ?thesis
      by (simp add: sessionRoute_def split Let_def same)
  next
    case False
    have choice: "P \<and> e = x" if "(if P then Some (s, x) else if Q then t else None) = Some (s', e)" "\<not> Q"
      for P Q s s' x e and t :: "(string \<times> string) option"
      using that by (simp split: if_split_asm)
    note route = choice [OF table False]
    from route [THEN conjunct1] show ?thesis
      using refused unfolding route [THEN conjunct2]
      by (elim disjE conjE) (simp_all add: sessionRoute_def split Let_def same claimant_refusals)
  qed
qed

section \<open>Saving\<close>

definition success :: "answer \<Rightarrow> bool" where
  "success reply \<longleftrightarrow> 200 \<le> fst reply \<and> fst reply < 300"

text \<open>The file holds the snapshot taken of a gateway, and the server runs on with what is left of that gateway.\<close>

definition saved :: "'s http_config \<Rightarrow> http_call \<Rightarrow> MemoryGateway \<Rightarrow> http_server \<Rightarrow> bool" where
  "saved cfg call g srv \<longleftrightarrow>
     (let (snapshot, g') = Gateway_Snapshot (env_from 80 (ca_Env call)) (ca_Iteration call) g in
      \<exists>content. sc_Encode (cf_StateCodec cfg) snapshot = Some content
      \<and> hs_File srv = Some \<lparr>sf_Regular = True, sf_Perm = 384, sf_Readable = True, sf_Content = content\<rparr>
      \<and> hs_Gateway srv = g')"

definition durable :: "'s http_config \<Rightarrow> http_call \<Rightarrow> answer \<times> http_server \<Rightarrow> bool" where
  "durable cfg call x \<longleftrightarrow>
     (success (fst x) \<longrightarrow>
        (\<exists>g srv. saved cfg call g srv \<and>
           (snd x = srv \<or> (\<exists>E sid. snd x = snd (on_gateway (Gateway_Session E sid) srv)))))"

lemma errors_fail [simp]:
  "\<not> success (controlPlaneError e)" "\<not> success (protocolError 400 c m b)" "\<not> success (protocolError 401 c m b)"
  "\<not> success (protocolError 403 c m b)" "\<not> success (protocolError 404 c m b)" "\<not> success (controlPlaneErrorWithReplay er)"
  "\<not> success (webHandoffError ge)" "\<not> success (400, x)" "\<not> success (403, x)" "\<not> success (404, x)" "\<not> success (405, x)"
  "\<not> success (500, x)" "\<not> success (503, x)"
  by (simp_all add: success_def controlPlaneError_def controlPlaneErrorWithReplay_def protocolError_def protocolHTTPStatus_def
      webHandoffError_def split: error.splits gateway_error.splits prod.splits)

lemma failure_durable [simp]: "\<not> success reply \<Longrightarrow> durable cfg call (reply, srv)"
  by (simp add: durable_def)

lemma persist_saves:
  assumes "state_store cfg = Inr (Some path)" "persistStateInternal cfg call srv = (None, srv')"
  shows "saved cfg call (hs_Gateway srv) srv'"
  using assms
  by (auto simp: persistStateInternal_def saved_def SaveSnapshot_def Let_def split: if_splits prod.splits sum.splits option.splits)

lemma persisted_durable:
  assumes "state_store cfg = Inr (Some path)"
  shows "durable cfg call (persisted cfg call reply srv)"
  using persist_saves [OF assms] by (auto simp: persisted_def durable_def split: prod.splits option.splits) blast

text \<open>Every handler of a POST request, and the end of a poll, is durable.\<close>

lemma handlers_durable:
  assumes store: "state_store cfg = Inr (Some path)"
  shows "durable cfg call (createSession cfg call r srv)"
    and "durable cfg call (joinSessionByCode cfg call r srv)"
    and "durable cfg call (joinSession sid cfg call r srv)"
    and "durable cfg call (closeSession sid cfg call r srv)"
    and "durable cfg call (revokeSession sid cfg call r srv)"
    and "durable cfg call (submitSessionTask sid cfg call r srv)"
    and "durable cfg call (resumeSessionTask sid tid cfg call r srv)"
    and "durable cfg call (renameHost cfg call r srv)"
    and "durable cfg call (updateTrustBundle cfg call r srv)"
    and "durable cfg call (finishPoll sid cursor limit cfg call srv)"
    and "durable cfg call (claimWebHandoff hid cfg call r srv)"
  using persisted_durable [OF store]
  by (auto simp: createSession_def joinSessionByCode_def joinSession_def closeSession_def revokeSession_def
      submitSessionTask_def resumeSessionTask_def renameHost_def updateTrustBundle_def finishPoll_def claimWebHandoff_def
      split: prod.split sum.split option.split)

lemma notify_durable:
  assumes store: "state_store cfg = Inr (Some path)"
  shows "durable cfg call (setSessionNotify sid cfg call r srv)"
proof -
  have looked: "durable cfg call (reply, srv3)"
    if "persistStateInternal cfg call srv1 = (None, srv2)" "on_gateway (Gateway_Session E sid) srv2 = (x, srv3)"
    for E srv1 srv2 srv3 x reply
  proof -
    have "srv3 = snd (on_gateway (Gateway_Session E sid) srv2)" using that(2) by simp
    with persist_saves [OF store that(1)] show ?thesis unfolding durable_def snd_conv by blast
  qed
  show ?thesis
    by (auto simp: setSessionNotify_def dest: looked split: prod.split sum.split option.split gateway_error.split error.split)
qed

lemma guarded_durable:
  assumes store: "state_store cfg = Inr (Some path)"
  shows "durable cfg call (appendSessionEvent sid cfg call r srv)"
    and "durable cfg call (completeSessionTask sid tid cfg call r srv)"
    and "durable cfg call (upsertSessionArtifact sid cfg call r srv)"
proof -
  have source: "\<not> success reply" if "authorizeSource sid from' cfg call r srv = (Some reply, srv1)" for from' reply srv1
    using that by (auto simp: authorizeSource_def split: if_splits prod.splits sum.splits)
  have artifact: "\<not> success reply" if "authorizeArtifact sid eid cfg call r srv = (Some reply, srv1)" for eid reply srv1
    using that by (auto simp: authorizeArtifact_def split: if_splits prod.splits sum.splits)
  have task: "\<not> success reply" if "targetSessionTask sid tid call r srv = (Inl reply, srv1)" for reply srv1
    using that by (auto simp: targetSessionTask_def Let_def split: prod.splits sum.splits option.splits)
  show "durable cfg call (appendSessionEvent sid cfg call r srv)"
    using source persisted_durable [OF store]
    by (auto simp: appendSessionEvent_def Let_def split: prod.split sum.split option.split)
  show "durable cfg call (completeSessionTask sid tid cfg call r srv)"
    using task persisted_durable [OF store]
    by (auto simp: completeSessionTask_def split: prod.split sum.split option.split)
  show "durable cfg call (upsertSessionArtifact sid cfg call r srv)"
    using artifact persisted_durable [OF store]
    by (auto simp: upsertSessionArtifact_def Let_def split: prod.split sum.split option.split bool.split)
qed

lemma handoff_durable:
  assumes store: "state_store cfg = Inr (Some path)" and "createWebHandoff sid cfg call r srv = Some x"
  shows "durable cfg call x"
  using assms(2) persisted_durable [OF store]
  by (auto simp: createWebHandoff_def Let_def split: if_splits prod.splits sum.splits option.splits)

lemmas durable_handlers = handlers_durable notify_durable guarded_durable

lemma sessionRoute_durable:
  assumes store: "state_store cfg = Inr (Some path)" and post: "rq_Method r = ''POST''"
    and reply: "sessionRoute cfg call r srv = Some x"
  shows "durable cfg call x"
  using reply handoff_durable [OF store] durable_handlers [OF store]
  by (auto simp: sessionRoute_def post Let_def split: if_split_asm option.split_asm prod.split_asm)

lemma Handler_durable:
  assumes store: "state_store cfg = Inr (Some path)" and post: "rq_Method r = ''POST''"
    and reply: "Handler cfg call r srv = Some x"
  shows "durable cfg call x"
proof -
  have handoff: "durable cfg call (webHandoffRoute cfg call r srv)"
    using handlers_durable(11) [OF store]
    by (auto simp: webHandoffRoute_def post split: option.split)
  show ?thesis
    using reply handoff sessionRoute_durable [OF store post] durable_handlers [OF store]
    by (auto simp: Handler_def post Let_def split: if_split_asm)
qed

text \<open>
  C30. What is acknowledged is saved. On a server with a state file, after every POST request that is answered
  with success the file holds the text of the snapshot taken of the gateway after the request (sessions and
  every other table of the store, audit trail, trust bundle, webhook secrets), and the gateway runs on with
  exactly that state (after a lookup of the session, which may notice its expiry). The browser handoffs are
  not part of a snapshot: their links and claims live in memory only.
\<close>

theorem acknowledged_is_saved:
  assumes store: "state_store cfg = Inr (Some path)" and post: "rq_Method r = ''POST''"
    and reply: "Handler cfg call r srv = Some ((status, body), srv')" and ok: "200 \<le> status" "status < 300"
  shows "\<exists>g srv1. saved cfg call g srv1 \<and> (srv' = srv1 \<or> (\<exists>E sid. srv' = snd (on_gateway (Gateway_Session E sid) srv1)))"
  using Handler_durable [OF store post reply] ok by (simp add: durable_def success_def)

section \<open>Artifacts of other endpoints\<close>

lemma find_upsert_first: "P y \<Longrightarrow> find P (upsert_first P y xs) = Some y"
  by (induction xs) auto

lemma UpsertArtifact_stores:
  assumes "UpsertArtifact E sid ref s = (Inr (a, event), s')"
  shows "art_TaskID a = art_TaskID ref" "art_ID ref \<noteq> [] \<Longrightarrow> art_ID a = art_ID ref"
    and "\<exists>session'. m_sessions s' sid = Some session' \<and> find (\<lambda>x. art_ID x = art_ID a) (ses_Artifacts session') = Some a"
  using assms
  by (auto simp: UpsertArtifact_def UpsertArtifact_commit_def Let_def find_upsert_first
      split: option.splits if_splits sum.splits prod.splits)

text \<open>
  C31. An endpoint can take over an artifact of another endpoint's task. The check that the task of an artifact
  belongs to the endpoint is made on the task that the request names and not on the artifact it replaces: an
  endpoint with a lease that names no task replaces whatever artifact of the session has the identifier it
  gives, and the artifact then belongs to no task.
\<close>

theorem artifact_taken_over:
  assumes eid: "TrimSpace (rq_Query r ''endpoint_id'') = eid" "eid \<noteq> []"
    and lease: "ValidateSessionLease (first_env call) sid eid (extractBearerToken r) (hs_Gateway srv) = (Inr (), hs_Gateway srv)"
    and ref: "bd_Artifact (cf_Decode cfg) (rq_Body r) = Some ref" "art_TaskID ref = []" "art_ID ref = art_ID victim"
    and victim: "m_sessions (g_sessionStore (hs_Gateway srv)) sid = Some session"
      "find (\<lambda>x. art_ID x = art_ID victim) (ses_Artifacts session) = Some victim" "art_TaskID victim \<noteq> []" "art_ID victim \<noteq> []"
    and accepted: "UpsertArtifact (next_env call) sid ref (g_sessionStore (hs_Gateway srv)) = (Inr (a, event), s')"
    and memory: "state_store cfg = Inr None"
  shows "\<exists>session'. upsertSessionArtifact sid cfg call r srv
       = ((202, BodyArtifact a event), srv\<lparr>hs_Gateway := (hs_Gateway srv)\<lparr>g_sessionStore := s'\<rparr>\<rparr>)
     \<and> m_sessions s' sid = Some session' \<and> find (\<lambda>x. art_ID x = art_ID victim) (ses_Artifacts session') = Some a \<and> art_TaskID a = []"
proof -
  note stored = UpsertArtifact_stores [OF accepted]
  have "upsertSessionArtifact sid cfg call r srv
      = ((202, BodyArtifact a event), srv\<lparr>hs_Gateway := (hs_Gateway srv)\<lparr>g_sessionStore := s'\<rparr>\<rparr>)"
    using eid lease ref accepted memory
    by (simp add: upsertSessionArtifact_def Let_def authorizeArtifact_def on_gateway_def UpsertSessionArtifact_def
        with_store_def persisted_def persistStateInternal_def)
  with stored ref victim(4) show ?thesis by auto
qed

end
