(* ===== verification/Http_Scenario.thy ===== *)
theory Http_Scenario
  imports Http_Properties Gateway_Witnesses
begin

text \<open>
  The HTTP interface at concrete servers: the properties of the interface on them, and an endpoint that
  takes over an artifact of another endpoint's task.
\<close>

section \<open>A server with one operator\<close>

definition demo_decoders :: http_decoders where
  "demo_decoders = \<lparr>bd_SessionSpec = (\<lambda>_. Some demo_spec), bd_JoinByCode = (\<lambda>_. None), bd_EndpointSpec = (\<lambda>_. None),
     bd_Event = (\<lambda>_. None), bd_TaskRequest = (\<lambda>_. None), bd_Result = (\<lambda>_. None), bd_Resume = (\<lambda>_. None),
     bd_Artifact = (\<lambda>_. Some demo_artifact), bd_NotifyURL = (\<lambda>_. None), bd_TrustBundle = (\<lambda>_. None),
     bd_Rename = (\<lambda>_. None), bd_Handoff = (\<lambda>_. None), bd_Claim = (\<lambda>_. False)\<rparr>"

definition demo_http :: "unit Authorizer option \<Rightarrow> string option \<Rightarrow> unit http_config" where
  "demo_http auth store = \<lparr>cf_OperatorAuth = auth, cf_Hosted = (\<lambda>_ _ _ _. False), cf_Crypto = demo_crypto,
     cf_Unicode = \<lparr>uc_ToLower = (\<lambda>s. s), uc_EqualFold = (=)\<rparr>, cf_NotifyParse = (\<lambda>_. None), cf_Decode = demo_decoders,
     cf_Strict = (\<lambda>_. None),
     cf_StateCodec = \<lparr>sc_Encode = (\<lambda>_. Some ''{}''), sc_Unmarshal = (\<lambda>_. None)\<rparr>, cf_StateStore = store, cf_StatePath = [], cf_Instance = ''gw-1'', cf_PublicBaseURL = [],
     cf_Asset = \<lparr>wa_Filename = [], wa_Content = [], wa_SHA256 = []\<rparr>, cf_BaseParse = (\<lambda>_. None), cf_PathEscape = (\<lambda>s. s)\<rparr>"

definition one_operator :: "unit Authorizer" where
  "one_operator = \<lparr>az_principals = [\<lparr>pr_ID = ''op'', pr_Roles = [RoleOperator], pr_TokenHash = ''h''\<rparr>], az_hosted = []\<rparr>"

definition http_get :: "string \<Rightarrow> http_request" where
  "http_get path = \<lparr>rq_Method = ''GET'', rq_Path = path, rq_Query = (\<lambda>_. ''host-1''), rq_Authorization = [],
     rq_Header = (\<lambda>_. []), rq_Body = []\<rparr>"

definition http_post :: "string \<Rightarrow> http_request" where
  "http_post path = (http_get path)\<lparr>rq_Method := ''POST''\<rparr>"

definition demo_http_call :: http_call where
  "demo_http_call = \<lparr>ca_Env = demo_env 1, ca_Iteration = demo_order, ca_Hosts = [], ca_Written = True, ca_Ticks = [], ca_Gone = False\<rparr>"

definition empty_server :: http_server where
  "empty_server = \<lparr>hs_Gateway = demo_gateway\<lparr>g_sessionStore := NewMemoryStore\<rparr>, hs_File = None\<rparr>"

theorem operator_routes_guarded_witness:
  "required_roles (http_post ''/v1/sessions'') = Some [RoleOperator]
   \<and> (\<exists>reply. Handler (demo_http (Some one_operator) None) demo_http_call (http_post ''/v1/sessions'') empty_server
        = Some ((403, reply), empty_server))"
proof -
  have roles: "required_roles (http_post ''/v1/sessions'') = Some [RoleOperator]"
    by (simp add: required_roles_def http_post_def http_get_def)
  have "\<not> authorizeOperator (demo_http (Some one_operator) None) demo_http_call (http_post ''/v1/sessions'') [RoleOperator]"
    by (simp add: authorizeOperator_def Authorizer_Enabled_def Authorizer_AuthorizeBearer_def demo_http_def one_operator_def
        http_post_def http_get_def bearer_token_def)
  from operator_routes_guarded [OF roles this] roles show ?thesis by blast
qed

lemma task_path: "splitSessionPath ''/v1/sessions/s/tasks/t'' = Some (''s'', ''tasks'', ''t'', [])"
  by (simp add: splitSessionPath_def trim_slashes_def TrimRightSlash_def splitOn.simps)

theorem endpoint_routes_guarded_witness:
  "session_claimant (demo_http None None) (http_get ''/v1/sessions/s/tasks/t'') = Some (''s'', ''host-1'')
   \<and> (\<exists>e. sessionRoute (demo_http None None) demo_http_call (http_get ''/v1/sessions/s/tasks/t'') empty_server
        = Some (controlPlaneError e, empty_server))"
proof -
  let ?r = "http_get ''/v1/sessions/s/tasks/t''"
  have "TrimSpace ''host-1'' = ''host-1''" by (simp add: TrimSpace_graphic graphic_def)
  then have claim: "session_claimant (demo_http None None) ?r = Some (''s'', ''host-1'')"
    by (simp add: session_claimant_def task_path http_get_def)
  obtain e where "ValidateSessionLease (first_env demo_http_call) ''s'' ''host-1'' (extractBearerToken ?r) (hs_Gateway empty_server)
      = (Inl e, hs_Gateway empty_server)"
    by (simp add: ValidateSessionLease_def with_store_def ValidateLease_def empty_server_def NewMemoryStore_def)
  from endpoint_routes_guarded [OF claim this] claim show ?thesis by auto
qed

section \<open>An acknowledged session\<close>

lemma create_answers:
  "\<exists>body srv'. Handler (demo_http None (Some ''/var/gateway.json'')) demo_http_call (http_post ''/v1/sessions'') empty_server
     = Some ((201, body), srv')"
proof -
  let ?cfg = "demo_http None (Some ''/var/gateway.json'')"
  obtain session s' where created: "CreateSession (env_from 1 (first_env demo_http_call)) demo_spec NewMemoryStore = (Inr session, s')"
    by (simp add: CreateSession_def NewSession_def storeNewSessionLocked_def demo_spec_def NewMemoryStore_def Let_def
        selectedGatewayURL_def demo_http_call_def demo_env_def newID_def newJoinCode_def)
  obtain g where made: "on_gateway (Gateway_CreateSession (first_env demo_http_call) demo_spec) empty_server
      = (Inr session, empty_server\<lparr>hs_Gateway := g\<rparr>)"
    using created by (simp add: on_gateway_def Gateway_CreateSession_def audited_def with_store_def empty_server_def)
  have "\<exists>srv'. persistStateInternal ?cfg demo_http_call srv = (None, srv')" for srv
    using demo_state_path
    by (simp add: persistStateInternal_def state_store_def demo_http_def demo_http_call_def SaveSnapshot_def Let_def split: prod.split)
  then obtain srv' where "persistStateInternal ?cfg demo_http_call (empty_server\<lparr>hs_Gateway := g\<rparr>) = (None, srv')" by blast
  then show ?thesis
    using made
    by (simp add: Handler_def http_post_def http_get_def createSession_def authorizeOperator_def Authorizer_Enabled_def
        demo_http_def demo_decoders_def persisted_def)
qed

theorem acknowledged_is_saved_witness:
  "\<exists>srv' g srv1. (\<exists>body. Handler (demo_http None (Some ''/var/gateway.json'')) demo_http_call (http_post ''/v1/sessions'') empty_server
       = Some ((201, body), srv'))
     \<and> saved (demo_http None (Some ''/var/gateway.json'')) demo_http_call g srv1 \<and> (srv' = srv1 \<or> (\<exists>E sid. srv' = snd (on_gateway (Gateway_Session E sid) srv1)))"
proof -
  obtain body srv' where reply: "Handler (demo_http None (Some ''/var/gateway.json'')) demo_http_call (http_post ''/v1/sessions'')
      empty_server = Some ((201, body), srv')"
    using create_answers by blast
  have store: "state_store (demo_http None (Some ''/var/gateway.json'')) = Inr (Some ''/var/gateway.json'')"
    by (simp add: state_store_def demo_http_def)
  have post: "rq_Method (http_post ''/v1/sessions'') = ''POST''" by (simp add: http_post_def)
  from acknowledged_is_saved [OF store post reply] reply show ?thesis by fastforce
qed

section \<open>Two targets and one artifact\<close>

text \<open>The artifact belongs to a task of another endpoint than the one whose lease is used.\<close>

definition other_task :: Task where
  "other_task = offered_task\<lparr>tk_TargetEndpointID := ''host-2''\<rparr>"

definition other_artifact :: ArtifactRef where
  "other_artifact = demo_artifact\<lparr>art_TaskID := ''task-2''\<rparr>"

definition shared_session :: Session where
  "shared_session = joined_session\<lparr>ses_Tasks := [other_task\<lparr>tk_ID := ''task-2''\<rparr>], ses_Artifacts := [other_artifact]\<rparr>"

definition shared_server :: http_server where
  "shared_server = \<lparr>hs_Gateway = demo_gateway\<lparr>g_sessionStore := joined_store\<lparr>m_sessions := [demo_sid \<mapsto> shared_session]\<rparr>\<rparr>, hs_File = None\<rparr>"

definition takeover_request :: http_request where
  "takeover_request = (http_post [])\<lparr>rq_Query := (\<lambda>k. if k = ''host_secret'' then demo_id ''lease_secret'' 11 else ''host-1'')\<rparr>"

lemma shared_session_simps:
  "ses_Status shared_session = SessionStatusOnline" "ses_ExpiresAt shared_session = 0"
  "ses_Limits shared_session = ses_Limits demo_session" "ses_Endpoints shared_session = [demo_endpoint]"
  "ses_Artifacts shared_session = [other_artifact]"
  by (simp_all add: shared_session_def joined_session_def)

lemma takeover_lease:
  "ValidateSessionLease (first_env demo_http_call) demo_sid ''host-1'' (extractBearerToken takeover_request) (hs_Gateway shared_server)
     = (Inr (), hs_Gateway shared_server)"
proof -
  have secret: "extractBearerToken takeover_request = demo_id ''lease_secret'' 11"
    by (simp add: extractBearerToken_def takeover_request_def http_post_def http_get_def)
  show ?thesis
    using joined_store_lease unfolding secret
    by (auto simp: ValidateSessionLease_def with_store_def ValidateLease_def shared_server_def sessionTerminal_def
        endpointIndexLocked_def shared_session_simps authorizeLeaseLocked_def demo_http_call_def second_ns_def Let_def)
qed

lemma takeover_accepted:
  "\<exists>a event s'. UpsertArtifact (next_env demo_http_call) demo_sid demo_artifact (g_sessionStore (hs_Gateway shared_server))
     = (Inr (a, event), s')"
proof -
  let ?s = "g_sessionStore (hs_Gateway shared_server)"
  have "event_key demo_sid (artifact_event demo_artifact) \<notin> dom (m_idempotency joined_store)"
    unfolding joined_keys by (simp add: artifact_event_def hello_event_def)
  then have "m_idempotency ?s (event_key demo_sid (artifact_event demo_artifact)) = None"
    by (simp add: shared_server_def domIff)
  then obtain event s1 where "appendEventLocked (env_from 41 (demo_env 1)) demo_sid (artifact_event demo_artifact) True ?s = (Inr event, s1)"
    using demo_append [of ?s demo_sid shared_session "artifact_event demo_artifact" 41 1]
    by (simp add: shared_session_simps sessionTerminal_def artifact_event_def shared_server_def)
  moreover have "env_from 1 (next_env demo_http_call) = env_from 41 (demo_env 1)"
    by (simp add: env_from_def demo_http_call_def)
  moreover have "demo_artifact\<lparr>art_ID := art_ID demo_artifact, art_SchemaVersion := ArtifactRefSchemaVersion, art_SessionID := demo_sid\<rparr>
      = demo_artifact" "art_ID demo_artifact = ''art-1''" "\<not> art_Complete demo_artifact"
      "art_ID other_artifact = ''art-1''" "art_UploadOffset other_artifact = art_UploadOffset demo_artifact"
    by (simp_all add: demo_artifact_def other_artifact_def)
  moreover have "m_sessions ?s demo_sid = Some shared_session" by (simp add: shared_server_def)
  ultimately show ?thesis
    by (simp add: UpsertArtifact_def UpsertArtifact_commit_def Let_def shared_session_simps)
qed

theorem artifact_taken_over_witness:
  "\<exists>a event s' session'. upsertSessionArtifact demo_sid (demo_http None None) demo_http_call takeover_request shared_server
       = ((202, BodyArtifact a event), shared_server\<lparr>hs_Gateway := (hs_Gateway shared_server)\<lparr>g_sessionStore := s'\<rparr>\<rparr>)
     \<and> m_sessions s' demo_sid = Some session' \<and> find (\<lambda>x. art_ID x = art_ID other_artifact) (ses_Artifacts session') = Some a
     \<and> art_TaskID a = []"
proof -
  have eid: "TrimSpace (rq_Query takeover_request ''endpoint_id'') = ''host-1''" "''host-1'' \<noteq> []"
    by (simp_all add: takeover_request_def TrimSpace_graphic graphic_def)
  have ref: "bd_Artifact (cf_Decode (demo_http None None)) (rq_Body takeover_request) = Some demo_artifact" "art_TaskID demo_artifact = []"
    "art_ID demo_artifact = art_ID other_artifact"
    by (simp_all add: demo_http_def demo_decoders_def demo_artifact_def other_artifact_def)
  have victim: "m_sessions (g_sessionStore (hs_Gateway shared_server)) demo_sid = Some shared_session"
    "find (\<lambda>x. art_ID x = art_ID other_artifact) (ses_Artifacts shared_session) = Some other_artifact"
    "art_TaskID other_artifact \<noteq> []" "art_ID other_artifact \<noteq> []"
    by (simp_all add: shared_server_def shared_session_simps other_artifact_def demo_artifact_def)
  have memory: "state_store (demo_http None None) = Inr None" by (simp add: state_store_def demo_http_def TrimSpace_graphic)
  obtain a event s' where "UpsertArtifact (next_env demo_http_call) demo_sid demo_artifact (g_sessionStore (hs_Gateway shared_server))
      = (Inr (a, event), s')"
    using takeover_accepted by blast
  from artifact_taken_over [OF eid takeover_lease ref victim this memory] show ?thesis by blast
qed

end
