(* ===== verification/Spec2Isabelle.thy ===== *)
theory Spec2Isabelle
  imports Control_Plane Event_Properties Lease_Properties Task_Properties Host_Directory
    Snapshot_Roundtrip Gateway_Witnesses Audit_Properties Policy_Properties Route_Scenario
    Workspace_Target Lock_System Operator_Tokens Loop_Properties Host_Loop_Scenario Http_Scenario
begin

text \<open>
  A verification development for the remote development skill kit. An agent drives remote hosts through a
  gateway: the gateway keeps sessions, hosts join a session with a code, poll for events, run the tasks
  they are offered and report results. The state of the gateway is one process's memory, saved to a state
  file; hosts pin the gateway's signing key through signed trust bundles; every operator action is audited.

  \<^bold>\<open>How the parts fit together.\<close> The control plane store (internal/controlplane) holds sessions,
  endpoints, leases, tasks, artifacts and one event log per session. The gateway (internal/gateway) wraps
  every store method with an audit record and adds trust bundles, webhooks, one-time web handoff links and
  the state file. The HTTP interface (internal/httpapi) lets operators in by their role
  (internal/operatorauth) and endpoints by their lease, checks engineering tasks against their contract
  (internal/contracts), calls the gateway and saves its state before it answers. Hosts keep the newest
  trust bundle (internal/hosttrust), decide with the policy layer (internal/policy) what a task may do,
  resolve the paths a task may write and lock the repository it works in (internal/workspace), and choose
  their gateway with a route pool (internal/hostcmd/route_pool.go). The loop of a host
  (internal/hostcmd/hostcmd.go) polls the events of its session, fetches the tasks it is offered, has them run
  by the host runner (internal/hostrunner) in a git worktree or under a lock, and reports the results. The
  audit log can be exported as a hash chain (internal/audit).

  \<^bold>\<open>Conventions.\<close> Structs are records whose fields carry a short prefix, enums are datatypes
  with a constructor for the strings the source does not name, Go maps are partial maps, slices are lists,
  an error is the left value of a sum. A method takes the state and returns its result with the new state;
  on an error path the state is the one the source leaves. Mutexes make a method atomic, so a method is
  one function; where a method gives up its mutex in the middle (the route pool) it is one function per
  critical section. uint64 is a 64 bit word; int is an integer wrapped by \<open>i64\<close> where the source
  computes with it. What a method reads from outside, the clock, crypto/rand, encoding/json, fmt, net/url,
  Ed25519, SHA-256, the Unicode tables, git, the network and the file system, is an argument of its definition; theorems hold
  for all of them, or name what they need of them as a hypothesis that a witness shows to be satisfiable.
  Maps whose iteration order Go leaves open are met in an arbitrary order, which also covers the freedom
  of sort.Slice on equal keys.

  \<^bold>\<open>Foundations.\<close>
  \<^item> Prelude: integers, time, strings.TrimSpace and friends, search loops; the locales
    \<open>inductive_invariant\<close> and \<open>monotone_system\<close>, the interface between a step relation and its
    properties, interpreted for the store, the gateway, the route pool and the lock files.
  \<^item> Go_Runtime: dynamic values of payloads, the environment of a call, base32 and random identifiers.
  \<^item> Encodings: hex, base64url with its round trip, lower-casing. Go_Path: splitting, filepath.Clean,
    Join, Dir, Base and Rel, and what they do to absolute and relative paths.

  \<^bold>\<open>Control plane\<close> (internal/controlplane: session.go, store.go, host.go, snapshot.go).
  \<^item> Session_Types, Session_Ops: the data of the protocol, construction of sessions and leases, the
    task state machine, the derived status.
  \<^item> Store_Core, Store_Ops: the store record, its helpers and every public method with all branches.
  \<^item> Store_Contract, Event_Log, Capabilities, Store_Evolution, Store_Methods: the well-formedness of
    a session and the relation \<open>evolves\<close> between a session before and after a call; the locale
    \<open>session_operation\<close> states what a method owes and is interpreted for each of them.
  \<^item> Store_System: calls as data, the step relation and reachable stores. A step assumes that random
    identifiers are well formed, that a role contains no separator character (a join with such a role does
    lift the ceiling of a target, which Control_Plane shows), that a session has not used all of its 64 bit
    sequence numbers and that clients do not use the reserved lifecycle keys.
  \<^item> Control_Plane, Event_Properties, Lease_Properties, Task_Properties, Host_Directory: ended sessions
    stay ended, tasks follow their state machine, capability ceilings, single targets, ordered logs,
    isolation of sessions, idempotent appends and submissions, exact paging, compaction, the rotation and
    withdrawal of leases, routing, results and the host directory. Scenario is a concrete run for the witnesses.
  \<^item> Snapshot_Store, Snapshot_Properties, Snapshot_Roundtrip: taking and restoring snapshots, what a
    restore validates, and that a snapshot restores what was taken.

  \<^bold>\<open>Trust\<close> (internal/model, internal/hosttrust). Trust, Trust_Properties: signed trust bundles,
  the exact meaning of their verification, and that what is signed verifies. Host_Trust: the trust stores of
  a host behind the locale \<open>trust_store\<close>, and that updates never go back.

  \<^bold>\<open>Audit\<close> (internal/audit). Audit_Chain, Audit_Properties: appending and decoding the log, the
  exported chain, its exact verification, and that the root hash commits to the whole log when the hash
  has no collision on the texts involved.

  \<^bold>\<open>Gateway\<close> (internal/gateway). Gateway, Web_Handoff, Gateway_Snapshot: every method; the
  state file holds a text, and what encoding/json writes and reads is an argument. Snapshot_Fields: snapshots
  up to the dynamic values of payloads, which JSON does not give back as they were (an int64 becomes a
  float64). Gateway_System: the critical sections of the gateway as a step relation. Gateway_Calls: every
  method as a call executed by its own definition, that such an execution is a sequence of those sections, and
  the relation \<open>gateway_move\<close> in which calls run whole or interleaved. Gateway_Properties, Gateway_Witnesses:
  the audit log is append-only, a handoff link is claimed once, tickets are exact in time, creating a link
  returns although its loop may draw any number of identifiers, a renewed bundle is accepted by a host of the
  previous one whose clock is inside the new window, and the state file restores the gateway when its text
  decodes to the declared fields and its tables pass the checks, except for the handoffs, which are not saved,
  and the webhooks, which stay silent after a restore.

  \<^bold>\<open>Policy\<close> (internal/policy). Policy, Policy_Properties: capabilities, host modes and the
  explanation of task policies, with exact characterizations of the write scope check, of the command
  allowlist and of the verdict on shell and file tasks.

  \<^bold>\<open>Routes\<close> (internal/hostcmd/route_pool.go). Route_Pool: the pool, one definition per critical
  section. Route_System: the interleaving of operations and probes, and the invariant. Route_Properties:
  selection, stale snapshots, late probes, failover, bounds. Route_Scenario: a run for the witnesses. A
  step assumes that no route has used all of its 64 bit epochs.

  \<^bold>\<open>Workspaces\<close> (internal/workspace). Workspace_Path: a file system with symbolic links,
  EvalSymlinks and Lstat on it, the write scopes and the resolution of write targets. Workspace_Follow,
  Workspace_Properties, Workspace_Target: following links ends because a path is followed through at most
  255 links (40 in the kernel), and an accepted target lies inside the workspace when its links are
  followed, unless it is written with backslashes. Workspace_Lock: the lock file of a repository; acquiring
  is a program of file operations, whose ten steps are shown to be enough to end.
  Lock_Properties: calls run one after the other on a disk that does not fail refine an abstract table of
  locks (the faults of single file operations are in Workspace_Lock). The content of a lock file is the lock it
  encodes or something that does not decode. Lock_System: any number of acquirers
  interleaved operation by operation; a held lock excludes the others, an expired one can be won twice.
  Git_Worktree (worktree.go, worktree_finalize.go): making, taking up again, inspecting, cleaning up and
  releasing the worktree of a task; git and the directories it makes are functions of a machine.
  Workspace_Snapshot (snapshot.go): metadata snapshots of a workspace that is no repository.

  \<^bold>\<open>Host runner\<close> (internal/hostrunner). Host_Task: the specification of a task and its
  envelope. Engineering_Progress, Engineering_Loop: the bounded repair loop of an engineering task with its
  evidence, progress and checkpoints; Loop_Properties: the attempts stay within the budget, and exactly which
  checkpoints a later run takes up. Task_Isolation, Isolation_Properties: the lease of a worktree or a
  snapshot, the paths carried over into the worktree, the check of what was changed against the write scope,
  and that what git status prints parses back. Host_Runner: the run of a task from its specification to its
  outcome. Runner_Properties: a task runs only when contract, adapter, workspace and the capabilities of
  its adapter and action are cleared, what git reports as changed in the world a successful task leaves lies in
  its scope, as do the changes between the two snapshots of an isolated task outside a repository, and its lock
  is given back when the disk works. An engineering checkpoint file is the checkpoint it encodes.

  \<^bold>\<open>Host loop\<close> (internal/hostcmd/hostcmd.go). Host_Loop: the replies of the gateway and how they are
  classified, one task with the report of its result, the events of a page, a poll, and the loop, which may
  run for ever and is a partial function beside the inductive predicate \<open>polls\<close> of the states it goes through.
  Host_Loop_Properties: against the store of the control plane every offer is taken up once and in order,
  whatever the routes do, and how a small event batch loses offers. Host_Pool: the loop on the route pool of the
  repository, with the critical sections of the monitor in between, and how a page that is too large stalls it.
  Host_Loop_Scenario: runs for the witnesses.

  \<^bold>\<open>Operators\<close> (internal/operatorauth). Operator_Auth: local principals and the combined
  authorizer. Operator_Sources: hosted EdDSA tokens, OIDC tokens with keys from a JWKS, SAML responses.
  Operator_Properties: the locale \<open>identity_source\<close>, interpreted for the three sources, and exactly who
  is let in. Operator_Tokens: tokens that are signed verify, and the tokens of a new installation work.

  \<^bold>\<open>Contract\<close> (internal/contracts/engineering_task.go). Engineering_Task, Engineering_Properties:
  what a decoded task satisfies, the round trip from the gateway to the host for every decoder that reads the
  declared fields of the struct, and that scopes stay inside the workspace.

  \<^bold>\<open>HTTP interface\<close> (internal/httpapi). Http_Api, Http_Handlers: requests, replies, routing, and
  every handler. Http_Properties, Http_Scenario: operator routes and endpoint routes are guarded, what is
  acknowledged is saved, and an artifact that another endpoint can take over.

  \<^bold>\<open>Loops and bounds.\<close> Loops over data are structural or end by a measure. A loop that may not end is a partial function
  (drawing identifiers, retrying on another route, verifying trust, polling), so not returning is the value
  None. Fuel is used where the source has a bound of its own: 255 links of a path and the steps of acquiring
  a lock.

  \<^bold>\<open>Not modelled.\<close> Transports and processes: the MCP server, the service managers of the host
  command, its TLS settings and the retries below a request, the adapters that run processes and desktop tools.
  Plans of git commands for the command line (internal/gitworkflow) and the connection plan of
  internal/connectionhealth, which no other package uses. Platform code: protected stores, key files,
  installation, packaging, self-update and acceptance scripts. The command line. Of the HTTP interface: the texts
  of the landing page and of the bootstrap script, and what net/http does below a handler.
\<close>

end
